(* ===== verification/Prelude.thy ===== *)
theory Prelude
  imports Main "HOL-Library.Word"
begin

text \<open>
  The shared base of the development: the machine-integer types of the C++ source, the
  little-endian memory image of an integer, the collections of rewrite rules the
  components extend, and the generic facts on words, masks and lists that their proofs use.
\<close>

unbundle bit_operations_syntax

section \<open>Machine integers\<close>

type_synonym u8 = "8 word"
type_synonym u16 = "16 word"
type_synonym u32 = "32 word"
type_synonym u64 = "64 word"
type_synonym u128 = "128 word"

named_theorems width_simps \<open>evaluation of width-indexed masks\<close>
named_theorems mem_simps \<open>rewrite rules of the memory component\<close>
named_theorems wf_intros \<open>preservation of the register-file invariant\<close>

section \<open>Little-endian images\<close>

text \<open>
  \<^verbatim>\<open>std::memcpy\<close> of the first \<open>n\<close> bytes of a \<^verbatim>\<open>std::uint64_t\<close> on a little-endian host, and
  the value that results when \<open>n\<close> bytes are copied over a zero-initialised one.
\<close>

definition le_bytes :: "nat \<Rightarrow> 'a::len word \<Rightarrow> u8 list" where
  "le_bytes n v = map (\<lambda>i. ucast (drop_bit (8 * i) v)) [0..<n]"

fun of_le_bytes :: "u8 list \<Rightarrow> 'a::len word" where
  "of_le_bytes [] = 0"
| "of_le_bytes (b # bs) = ucast b OR push_bit 8 (of_le_bytes bs)"

lemma length_le_bytes [simp]: "length (le_bytes n v) = n"
  by (simp add: le_bytes_def)

lemma nth_le_bytes [simp]: "i < n \<Longrightarrow> le_bytes n v ! i = ucast (drop_bit (8 * i) v)"
  by (simp add: le_bytes_def)

lemma bit_of_le_bytes:
  "bit (of_le_bytes bs :: 'a::len word) k \<longleftrightarrow>
     k < LENGTH('a) \<and> k div 8 < length bs \<and> bit (bs ! (k div 8)) (k mod 8)"
proof (induction bs arbitrary: k)
  case Nil
  then show ?case by simp
next
  case (Cons b bs)
  show ?case
  proof (cases "k < 8")
    case True
    then show ?thesis by (auto simp: bit_or_iff bit_push_bit_iff bit_ucast_iff bit_imp_le_length)
  next
    case False
    then have k: "k div 8 = Suc ((k - 8) div 8)" "k mod 8 = (k - 8) mod 8"
      by (simp_all add: le_div_geq le_mod_geq)
    have "\<not> bit b k" using False bit_imp_le_length [of b k] by auto
    then show ?thesis
      using False k by (auto simp: bit_or_iff bit_push_bit_iff bit_ucast_iff Cons.IH)
  qed
qed

lemma bit_le_bytes_nth:
  "i < n \<Longrightarrow> bit (le_bytes n v ! i) j \<longleftrightarrow> j < 8 \<and> bit v (8 * i + j)"
  for v :: "'a::len word"
  by (auto simp: bit_ucast_iff bit_drop_bit_eq add.commute)

lemma of_le_bytes_le_bytes:
  "(of_le_bytes (le_bytes n v) :: 'b::len word) = ucast (take_bit (8 * n) v)"
  for v :: "'a::len word"
proof (rule bit_word_eqI)
  fix k assume "k < LENGTH('b)"
  have kd: "8 * (k div 8) + k mod 8 = k" by simp
  have lt: "k div 8 < n \<longleftrightarrow> k < 8 * n" by (simp add: div_less_iff_less_mult mult.commute)
  show "bit (of_le_bytes (le_bytes n v) :: 'b word) k = bit (ucast (take_bit (8 * n) v) :: 'b word) k"
  proof (cases "k div 8 < n")
    case True
    then have "bit (le_bytes n v ! (k div 8)) (k mod 8) = bit v k"
      using bit_le_bytes_nth [of "k div 8" n v "k mod 8"] kd by simp
    then show ?thesis
      using True lt by (auto simp: bit_of_le_bytes bit_ucast_iff bit_take_bit_iff simp del: nth_le_bytes)
  next
    case False
    then show ?thesis
      using lt by (auto simp: bit_of_le_bytes bit_ucast_iff bit_take_bit_iff)
  qed
qed

lemma le_bytes_of_le_bytes:
  assumes "8 * length bs \<le> LENGTH('a)"
  shows "le_bytes (length bs) (of_le_bytes bs :: 'a::len word) = bs"
proof (rule nth_equalityI)
  show "length (le_bytes (length bs) (of_le_bytes bs :: 'a word)) = length bs" by simp
  fix i assume "i < length (le_bytes (length bs) (of_le_bytes bs :: 'a word))"
  then have i: "i < length bs" by simp
  show "le_bytes (length bs) (of_le_bytes bs :: 'a word) ! i = bs ! i"
  proof (rule bit_word_eqI)
    fix j assume "j < LENGTH(8)"
    then have j: "j < 8" by simp
    then have "8 * i + j < LENGTH('a)" using i assms by linarith
    with i j show "bit (le_bytes (length bs) (of_le_bytes bs :: 'a word) ! i) j = bit (bs ! i) j"
      by (simp add: bit_le_bytes_nth bit_of_le_bytes del: nth_le_bytes)
  qed
qed

section \<open>Single bits and masks\<close>

text \<open>The simplifier writes the constant \<^term>\<open>push_bit k 1\<close> as a power of two.\<close>

declare and_exp_eq_0_iff_not_bit [simp]

lemma uint_take_bit_top:
  fixes x :: "'a::len word"
  assumes "0 < n" "n \<le> LENGTH('a)"
  shows "bit x (n - 1) \<longleftrightarrow> 2 ^ (n - 1) \<le> take_bit n (uint x)"
proof -
  have "take_bit n (uint x) = take_bit (n - 1) (uint x) + (if bit (uint x) (n - 1) then 2 ^ (n - 1) else 0)"
    using assms take_bit_Suc_from_most [of "n - 1" "uint x"] by (simp add: of_bool_def)
  moreover have "take_bit (n - 1) (uint x) < 2 ^ (n - 1)" by simp
  moreover have "0 \<le> take_bit (n - 1) (uint x)" by simp
  moreover have "bit (uint x) (n - 1) = bit x (n - 1)"
    using assms by (auto simp: bit_uint_iff)
  ultimately show ?thesis by (cases "bit x (n - 1)") (simp_all add: not_le del: One_nat_def)
qed

section \<open>Arithmetic on words\<close>

lemma unat_inc:
  fixes x y :: "'a::len word"
  assumes "x < y"
  shows "unat (x + 1) = Suc (unat x)"
proof -
  have "Suc (unat x) \<le> unat y" using assms by (simp add: word_less_nat_alt)
  also have "unat y < 2 ^ LENGTH('a)" by (rule unsigned_less)
  finally show ?thesis
    by (metis Suc_eq_plus1 unat_1 unat_add_lem)
qed

lemma unat_imm8 [simp]: "unat (ucast v :: u64) = unat v" for v :: u8
proof -
  have "unat v < 2 ^ 64" using unsigned_less [of v, where 'a = nat] by simp
  then show ?thesis by (simp only: unsigned_ucast_eq) (simp add: take_bit_nat_eq_self)
qed

section \<open>Registries that change only between dispatches\<close>

text \<open>
  The memory and the executor let callbacks register and remove callbacks while a list of them is being run. Both
  defer: while the registry is busy, no operation changes what is registered. The consequence for sequences of
  operations is proved here once and used by both components.
\<close>

locale deferred_registry =
  fixes busy :: "'s \<Rightarrow> bool" and registered :: "'s \<Rightarrow> 'v" and perform :: "'o \<Rightarrow> 's \<Rightarrow> 's"
  assumes perform_busy: "busy s \<Longrightarrow> busy (perform op s)"
    and perform_registered: "busy s \<Longrightarrow> registered (perform op s) = registered s"
begin

lemma perform_all: "busy s \<Longrightarrow> busy (fold perform ops s) \<and> registered (fold perform ops s) = registered s"
  by (induction ops arbitrary: s) (simp_all add: perform_busy perform_registered)

end

end
