(* ===== verification/Cpu_Types.thy ===== *)
theory Cpu_Types
  imports Prelude
begin

text \<open>
  The architectural state and the width arithmetic of \<^verbatim>\<open>seven_core/include/seven/types.hpp\<close>
  and \<^verbatim>\<open>system_state.hpp\<close>: execution modes, stop reasons, \<^verbatim>\<open>CpuState\<close> with its register files,
  x87 and MMX accessors, the flag constants, and the masks, sign extension and parity that
  every instruction handler uses. Fixed-size arrays (\<^verbatim>\<open>std::array\<close>) are lists whose length is
  the invariant \<open>wf_cpu\<close>; widths are byte counts, as in the source.
\<close>

section \<open>Modes, stop reasons, results\<close>

datatype execution_mode = real16 | compat32 | long64

fun decoder_bitness :: "execution_mode \<Rightarrow> nat" where
  "decoder_bitness real16 = 16"
| "decoder_bitness compat32 = 32"
| "decoder_bitness long64 = 64"

fun instruction_pointer_width :: "execution_mode \<Rightarrow> nat" where
  "instruction_pointer_width real16 = 2"
| "instruction_pointer_width compat32 = 4"
| "instruction_pointer_width long64 = 8"

definition stack_pointer_width :: "execution_mode \<Rightarrow> nat" where
  "stack_pointer_width m = instruction_pointer_width m"

datatype stop_reason = SR_none | SR_halted | SR_invalid_opcode | SR_unsupported_instruction
  | SR_floating_point_exception | SR_page_fault | SR_divide_error | SR_general_protection
  | SR_decode_error | SR_execution_limit | SR_stop_requested

record exception_info =
  ei_reason :: stop_reason
  ei_address :: u64
  ei_error_code :: u32

text \<open>An \<^verbatim>\<open>iced_x86::Code\<close> enumerator is represented by its name.\<close>

type_synonym icode = string

record execution_result =
  reason :: stop_reason
  retired :: u64
  exception_of :: "exception_info option"
  result_code :: "icode option"

definition no_stop :: execution_result where
  "no_stop = \<lparr>reason = SR_none, retired = 0, exception_of = None, result_code = None\<rparr>"

definition result_ok :: "execution_result \<Rightarrow> bool" where
  "result_ok r \<longleftrightarrow> reason r = SR_none \<or> reason r = SR_halted"

section \<open>The CPU state\<close>

record descriptor_table_register =
  dt_base :: u64
  dt_limit :: u16

text \<open>SoftFloat's \<^verbatim>\<open>extFloat80_t\<close>, wrapped by \<^verbatim>\<open>Float80\<close>.\<close>

record float80 =
  f80_signif :: u64
  f80_signExp :: u16

definition f80_zero :: float80 where
  "f80_zero = \<lparr>f80_signif = 0, f80_signExp = 0\<rparr>"

record cpu_state =
  gpr :: "u64 list"
  mmx :: "u64 list"
  sreg :: "u16 list"
  cr :: "u64 list"
  dr :: "u64 list"
  tr :: "u64 list"
  rip :: u64
  mode :: execution_mode
  rflags :: u64
  fs_base :: u64
  gs_base :: u64
  gdtr :: descriptor_table_register
  idtr :: descriptor_table_register
  msr :: "u32 \<rightharpoonup> u64"
  xcr :: "u64 list"
  mxcsr :: u32
  x87_control_word :: u16
  x87_status_word :: u16
  x87_top :: u8
  x87_stack :: "float80 list"
  x87_tags :: "u8 list"
  opmask :: "u64 list"
  vectors :: "512 word list"
  debug_suppression :: u8
  pending_single_step :: bool
  pending_debug_hit_bits :: u64

text \<open>The state a default-constructed \<^verbatim>\<open>CpuState\<close> holds.\<close>

definition initial_cpu_state :: cpu_state where
  "initial_cpu_state =
     \<lparr>gpr = replicate 16 0, mmx = replicate 8 0, sreg = replicate 6 0,
      cr = [0x80050033, 0, 0, 0, 0x370678] @ replicate 11 0, dr = replicate 16 0, tr = replicate 8 0,
      rip = 0, mode = long64, rflags = 0x202, fs_base = 0, gs_base = 0,
      gdtr = \<lparr>dt_base = 0, dt_limit = 0\<rparr>, idtr = \<lparr>dt_base = 0, dt_limit = 0\<rparr>,
      msr = [0xC0000080 \<mapsto> 0xD01, 0xC0000081 \<mapsto> 0x0023001000000000],
      xcr = [3, 0], mxcsr = 0x1F80, x87_control_word = 0x037F, x87_status_word = 0, x87_top = 0,
      x87_stack = replicate 8 f80_zero, x87_tags = replicate 8 3, opmask = replicate 8 0,
      vectors = replicate 32 0, debug_suppression = 0, pending_single_step = False,
      pending_debug_hit_bits = 0\<rparr>"

text \<open>The array bounds of the C++ declaration.\<close>

definition wf_cpu :: "cpu_state \<Rightarrow> bool" where
  "wf_cpu s \<longleftrightarrow> length (gpr s) = 16 \<and> length (mmx s) = 8 \<and> length (sreg s) = 6 \<and>
     length (cr s) = 16 \<and> length (dr s) = 16 \<and> length (tr s) = 8 \<and> length (xcr s) = 2 \<and>
     length (x87_stack s) = 8 \<and> length (x87_tags s) = 8 \<and> length (opmask s) = 8 \<and>
     length (vectors s) = 32 \<and> x87_top s < 8"

section \<open>Masks\<close>

definition mode_address_mask :: "execution_mode \<Rightarrow> u64" where
  "mode_address_mask m =
     (let width = instruction_pointer_width m
      in if width \<ge> 8 then NOT 0 else push_bit (width * 8) 1 - 1)"

definition mask_instruction_pointer :: "cpu_state \<Rightarrow> u64 \<Rightarrow> u64" where
  "mask_instruction_pointer s v = v AND mode_address_mask (mode s)"

definition mask_stack_pointer :: "cpu_state \<Rightarrow> u64 \<Rightarrow> u64" where
  "mask_stack_pointer s v =
     (let width = stack_pointer_width (mode s);
          mask = (if width \<ge> 8 then NOT 0 else push_bit (width * 8) 1 - 1)
      in v AND mask)"

definition mask_linear_address :: "cpu_state \<Rightarrow> u64 \<Rightarrow> u64" where
  "mask_linear_address s v = v AND mode_address_mask (mode s)"

definition kFlagCF :: u64 where "kFlagCF = push_bit 0 1"
definition kFlagPF :: u64 where "kFlagPF = push_bit 2 1"
definition kFlagAF :: u64 where "kFlagAF = push_bit 4 1"
definition kFlagZF :: u64 where "kFlagZF = push_bit 6 1"
definition kFlagSF :: u64 where "kFlagSF = push_bit 7 1"
definition kFlagTF :: u64 where "kFlagTF = push_bit 8 1"
definition kFlagIF :: u64 where "kFlagIF = push_bit 9 1"
definition kFlagDF :: u64 where "kFlagDF = push_bit 10 1"
definition kFlagOF :: u64 where "kFlagOF = push_bit 11 1"
definition kFlagRF :: u64 where "kFlagRF = push_bit 16 1"

definition mask_for_width :: "nat \<Rightarrow> u64" where
  "mask_for_width width = (if width \<ge> 8 then NOT 0 else push_bit (width * 8) 1 - 1)"

definition even_parity :: "u8 \<Rightarrow> bool" where
  "even_parity value =
     (let v1 = value XOR drop_bit 4 value;
          v2 = v1 AND 0x0F
      in (drop_bit (unat v2) (0x6996 :: u32) AND 1) = 0)"

definition sign_bit_for_width :: "nat \<Rightarrow> u64" where
  "sign_bit_for_width width = push_bit (width * 8 - 1) 1"

definition sign_extend :: "u64 \<Rightarrow> nat \<Rightarrow> u64" where
  "sign_extend value width =
     (let mask = mask_for_width width;
          v = value AND mask;
          sign = sign_bit_for_width width
      in if v AND sign = 0 then v else v OR NOT mask)"

section \<open>x87 and MMX register accessors\<close>

text \<open>
  The zero test \<^verbatim>\<open>value == 0\<close> is SoftFloat's \<^verbatim>\<open>extF80_eq\<close>; it is the parameter \<open>is_zero\<close>
  of the accessors that tag a register. Indices are \<^verbatim>\<open>std::size_t\<close>.
\<close>

definition x87_phys_index :: "cpu_state \<Rightarrow> u64 \<Rightarrow> nat" where
  "x87_phys_index s st_index = unat ((ucast (x87_top s) + ucast (ucast st_index :: u8)) AND 7 :: u32)"

definition mmx_phys_index :: "u64 \<Rightarrow> nat" where
  "mmx_phys_index mm_index = unat (mm_index AND 7)"

definition x87_is_empty :: "cpu_state \<Rightarrow> u64 \<Rightarrow> bool" where
  "x87_is_empty s st_index \<longleftrightarrow> x87_tags s ! x87_phys_index s st_index = 3"

definition x87_get :: "cpu_state \<Rightarrow> u64 \<Rightarrow> float80" where
  "x87_get s st_index = x87_stack s ! x87_phys_index s st_index"

definition x87_set :: "(float80 \<Rightarrow> bool) \<Rightarrow> cpu_state \<Rightarrow> u64 \<Rightarrow> float80 \<Rightarrow> cpu_state" where
  "x87_set is_zero s st_index value =
     (let idx = x87_phys_index s st_index
      in s\<lparr>x87_stack := (x87_stack s)[idx := value],
           x87_tags := (x87_tags s)[idx := (if is_zero value then 1 else 0)]\<rparr>)"

definition x87_mark_empty :: "cpu_state \<Rightarrow> u64 \<Rightarrow> cpu_state" where
  "x87_mark_empty s st_index = s\<lparr>x87_tags := (x87_tags s)[x87_phys_index s st_index := 3]\<rparr>"

definition x87_reset :: "cpu_state \<Rightarrow> cpu_state" where
  "x87_reset s = s\<lparr>x87_stack := map (\<lambda>_. f80_zero) (x87_stack s), x87_tags := map (\<lambda>_. 3) (x87_tags s),
     x87_top := 0, x87_status_word := 0, x87_control_word := 0x037F\<rparr>"

definition set_x87_control_word :: "cpu_state \<Rightarrow> u16 \<Rightarrow> cpu_state" where
  "set_x87_control_word s value = s\<lparr>x87_control_word := value\<rparr>"

definition set_x87_status_word :: "cpu_state \<Rightarrow> u16 \<Rightarrow> cpu_state" where
  "set_x87_status_word s value =
     s\<lparr>x87_status_word := value, x87_top := ucast (drop_bit 11 value AND 7)\<rparr>"

definition set_x87_top :: "cpu_state \<Rightarrow> u8 \<Rightarrow> cpu_state" where
  "set_x87_top s tp =
     (let t = tp AND 7
      in s\<lparr>x87_top := t,
           x87_status_word := (x87_status_word s AND NOT 0x3800) OR push_bit 11 (ucast t)\<rparr>)"

definition x87_push :: "(float80 \<Rightarrow> bool) \<Rightarrow> cpu_state \<Rightarrow> float80 \<Rightarrow> bool \<times> cpu_state" where
  "x87_push is_zero s value =
     (let new_top = (x87_top s + 7) AND 7
      in if x87_tags s ! unat new_top \<noteq> 3 then (False, s)
         else (True, set_x87_top
           (s\<lparr>x87_top := new_top, x87_stack := (x87_stack s)[unat new_top := value],
              x87_tags := (x87_tags s)[unat new_top := (if is_zero value then 1 else 0)]\<rparr>) new_top))"

definition x87_pop :: "cpu_state \<Rightarrow> bool \<times> cpu_state" where
  "x87_pop s =
     (if x87_tags s ! unat (x87_top s) = 3 then (False, s)
      else let s1 = s\<lparr>x87_tags := (x87_tags s)[unat (x87_top s) := 3]\<rparr>;
               t = (x87_top s1 + 1) AND 7
           in (True, set_x87_top (s1\<lparr>x87_top := t\<rparr>) t))"

definition x87_swap :: "cpu_state \<Rightarrow> u64 \<Rightarrow> cpu_state" where
  "x87_swap s st_index =
     (let i0 = x87_phys_index s 0; iN = x87_phys_index s st_index;
          st = x87_stack s; tg = x87_tags s
      in s\<lparr>x87_stack := st[i0 := st ! iN, iN := st ! i0],
           x87_tags := tg[i0 := tg ! iN, iN := tg ! i0]\<rparr>)"

definition mmx_get :: "cpu_state \<Rightarrow> u64 \<Rightarrow> u64" where
  "mmx_get s mm_index = mmx s ! mmx_phys_index mm_index"

definition mmx_set :: "cpu_state \<Rightarrow> u64 \<Rightarrow> u64 \<Rightarrow> cpu_state" where
  "mmx_set s mm_index value =
     (let idx = mmx_phys_index mm_index
      in s\<lparr>mmx := (mmx s)[idx := value], x87_tags := (x87_tags s)[idx := 0]\<rparr>)"

section \<open>Facts on masks, sign extension and parity\<close>

lemma push_bit_minus_1_eq_mask: "(push_bit n 1 - 1 :: 'a::len word) = mask n"
  by (simp add: mask_eq_exp_minus_1)

lemma mask_for_width_eq: "mask_for_width w = mask (8 * w)"
  by (auto simp: mask_for_width_def mask_eq_exp_minus_1 mult.commute exp_eq_zero_iff
      intro!: bit_word_eqI simp: bit_not_iff bit_minus_1_iff)

lemma bit_mask_for_width: "bit (mask_for_width w) k \<longleftrightarrow> k < 64 \<and> k < 8 * w"
  by (auto simp: mask_for_width_eq bit_mask_iff)

lemma and_mask_for_width: "v AND mask_for_width w = take_bit (8 * w) v"
  by (simp add: mask_for_width_eq take_bit_eq_mask)

lemma mode_address_mask_eq: "mode_address_mask m = mask_for_width (instruction_pointer_width m)"
  by (simp add: mode_address_mask_def mask_for_width_def)

lemma mask_instruction_pointer_idem [simp]:
  "mask_instruction_pointer s (mask_instruction_pointer s v) = mask_instruction_pointer s v"
  by (simp add: mask_instruction_pointer_def and.assoc)

lemma mask_stack_pointer_eq:
  "mask_stack_pointer s v = take_bit (8 * stack_pointer_width (mode s)) v"
  by (simp only: mask_stack_pointer_def Let_def mask_for_width_def [symmetric] and_mask_for_width)

lemma mask_instruction_pointer_eq:
  "mask_instruction_pointer s v = take_bit (8 * instruction_pointer_width (mode s)) v"
  by (simp add: mask_instruction_pointer_def mode_address_mask_eq and_mask_for_width)

lemma mask_linear_address_eq:
  "mask_linear_address s v = take_bit (8 * instruction_pointer_width (mode s)) v"
  by (simp add: mask_linear_address_def mode_address_mask_eq and_mask_for_width)

lemma instruction_pointer_width_cases: "instruction_pointer_width m \<in> {2, 4, 8}"
  by (cases m) auto

lemma sign_extend_eq:
  assumes "0 < w" "w \<le> 8"
  shows "sign_extend v w = signed_take_bit (8 * w - 1) v"
proof (rule bit_word_eqI)
  fix k assume k: "k < LENGTH(64)"
  have top: "8 * w - 1 < 8 * w" "8 * w - 1 < 64" using assms by auto
  have sgn: "(v AND mask_for_width w) AND sign_bit_for_width w = 0 \<longleftrightarrow> \<not> bit v (8 * w - 1)"
    using top by (simp add: sign_bit_for_width_def mult.commute bit_and_iff bit_mask_for_width)
  have top_k: "8 * w - 1 \<le> k \<Longrightarrow> k < 8 * w \<Longrightarrow> k = 8 * w - 1" by linarith
  show "bit (sign_extend v w) k = bit (signed_take_bit (8 * w - 1) v) k"
    using k assms sgn top_k
    by (auto simp: sign_extend_def Let_def bit_signed_take_bit_iff min_def bit_or_iff bit_and_iff
        bit_not_iff bit_mask_for_width)
qed

lemma even_length_filter_Cons:
  "even (length (filter P (x # xs))) \<longleftrightarrow> (P x \<longleftrightarrow> odd (length (filter P xs)))"
  by auto

lemma parity_table:
  assumes "n < 16"
  shows "(drop_bit n (0x6996 :: u32) AND 1 = 0) = even (length (filter (bit n) [0..<4]))"
proof -
  have "\<forall>n \<in> set [0..<16].
      (drop_bit n (0x6996 :: u32) AND 1 = 0) = even (length (filter (bit n) [0..<4]))"
    by code_simp
  then show ?thesis using assms by simp
qed

text \<open>The table lookup computes the parity of the number of set bits.\<close>

lemma even_parity_popcount:
  "even_parity v \<longleftrightarrow> even (length (filter (bit v) [0..<8]))"
proof -
  define x where "x = (v XOR drop_bit 4 v) AND 0x0F"
  have x: "x = take_bit 4 (v XOR drop_bit 4 v)"
    by (simp add: x_def take_bit_eq_mask mask_eq_exp_minus_1)
  have "unat x < 2 ^ 4" unfolding x unsigned_take_bit_eq by (rule take_bit_nat_less_exp)
  then have tab: "even_parity v = even (length (filter (bit (unat x)) [0..<4]))"
    by (simp add: even_parity_def Let_def parity_table flip: x_def)
  have "bit (unat x) i = (bit v i \<noteq> bit v (4 + i))" if "i < 4" for i
    using that by (auto simp: x bit_unsigned_iff bit_take_bit_iff bit_xor_iff bit_drop_bit_eq)
  then have "filter (bit (unat x)) [0..<4] = filter (\<lambda>i. bit v i \<noteq> bit v (4 + i)) [0..<4]"
    by (intro filter_cong) auto
  moreover have "[0..<4] = [0, 1, 2, 3]" "[0..<8] = [0, 1, 2, 3, 4, 5, 6, 7::nat]"
    by (simp_all add: upt_rec)
  ultimately show ?thesis
    unfolding tab by (simp only: even_length_filter_Cons) auto
qed

end
