(* ===== verification/Memory_Model.thy ===== *)
theory Memory_Model
  imports Cpu_Types
begin

text \<open>
  The paged memory of \<^verbatim>\<open>seven_core/src/memory.cpp\<close>: the page table with its direct-mapped
  lookup cache, permissions, access hooks with deferred registration, MMIO regions, the
  passthrough callbacks, and snapshots. A pointer to a \<^verbatim>\<open>PageEntry\<close> (what a cache slot holds)
  is the key of the page table element it points to. A page's bytes and the cache's slots
  are functions of the index. Callbacks are functions over a state \<open>'w\<close> of the embedding
  program, which the memory record carries; an access hook also returns the registrations it
  performs while it is dispatched. Callbacks that call back into \<^verbatim>\<open>read\<close> or \<^verbatim>\<open>write\<close> are not
  covered. A failed read yields no bytes (the source leaves the buffer unspecified and every
  caller discards it).
\<close>

section \<open>Data\<close>

datatype access_kind = instruction_fetch | data_read | data_write

definition perm_read :: u8 where "perm_read = push_bit 0 1"
definition perm_write :: u8 where "perm_write = push_bit 1 1"
definition perm_execute :: u8 where "perm_execute = push_bit 2 1"

definition kMemoryPermissionAll :: u8 where
  "kMemoryPermissionAll = (perm_read OR perm_write) OR perm_execute"

record access_event =
  ev_kind :: access_kind
  ev_address :: u64
  ev_size :: u64
  ev_data :: "u8 list option"

fun kind_bit :: "access_kind \<Rightarrow> u8" where
  "kind_bit instruction_fetch = push_bit 0 1"
| "kind_bit data_read = push_bit 1 1"
| "kind_bit data_write = push_bit 2 1"

definition kAllMemoryAccessKinds :: u8 where
  "kAllMemoryAccessKinds = kind_bit instruction_fetch OR kind_bit data_read OR kind_bit data_write"

record hook_range =
  hr_base :: u64
  hr_size :: u64

datatype (dead 'w) access_hook =
    Access_Hook (run_access_hook: "access_event \<Rightarrow> 'w \<Rightarrow> bool \<times> 'w access_hook_op list \<times> 'w")
and (dead 'w) access_hook_op =
    Add_Access_Hook "'w access_hook" "hook_range option" u8
  | Remove_Access_Hook u64

record 'w access_hook_entry =
  he_id :: u64
  he_callback :: "'w access_hook"
  he_range :: "hook_range option"
  he_kinds :: u8

type_synonym 'w read_callback = "u64 \<Rightarrow> u64 \<Rightarrow> 'w \<Rightarrow> u8 list option \<times> 'w"
type_synonym 'w write_callback = "u64 \<Rightarrow> u8 list \<Rightarrow> 'w \<Rightarrow> bool \<times> 'w"

record 'w mmio_region =
  mr_id :: u64
  mr_base :: u64
  mr_size :: u64
  mr_on_read :: "'w read_callback option"
  mr_on_write :: "'w write_callback option"

record page_entry =
  page_data :: "nat \<Rightarrow> u8"
  permissions :: u8

record tlb_slot =
  slot_page_index :: u64
  slot_epoch :: u64
  slot_entry :: "u64 option"

definition kPageSize :: u64 where "kPageSize = 0x1000"
definition kTlbSize :: u64 where "kTlbSize = 128"

record 'w memory =
  pages :: "u64 \<rightharpoonup> page_entry"
  tlb :: "nat \<Rightarrow> tlb_slot"
  tlb_epoch :: u64
  access_hooks :: "'w access_hook_entry list"
  pending_removed_access_hooks :: "u64 list"
  pending_added_access_hooks :: "'w access_hook_entry list"
  dispatching_access_hooks :: bool
  has_any_access_hooks :: bool
  active_access_hook_kinds :: u8
  mmio_regions :: "'w mmio_region list"
  passthrough_read :: "'w read_callback option"
  passthrough_write :: "'w write_callback option"
  next_hook_id :: u64
  page_epoch :: u64
  code_epoch :: u64
  mmio_min_base :: u64
  mmio_max_end :: u64
  world :: 'w

definition empty_memory :: "'w \<Rightarrow> 'w memory" where
  "empty_memory w =
     \<lparr>pages = Map.empty,
      tlb = (\<lambda>_. \<lparr>slot_page_index = NOT 0, slot_epoch = 0, slot_entry = None\<rparr>), tlb_epoch = 1,
      access_hooks = [], pending_removed_access_hooks = [], pending_added_access_hooks = [],
      dispatching_access_hooks = False, has_any_access_hooks = False, active_access_hook_kinds = 0,
      mmio_regions = [], passthrough_read = None, passthrough_write = None,
      next_hook_id = 1, page_epoch = 1, code_epoch = 1, mmio_min_base = NOT 0, mmio_max_end = 0,
      world = w\<rparr>"

definition zero_page :: page_entry where
  "zero_page = \<lparr>page_data = (\<lambda>_. 0), permissions = kMemoryPermissionAll\<rparr>"

section \<open>Page lookup\<close>

definition tlb_index :: "u64 \<Rightarrow> nat" where
  "tlb_index page_index = unat (page_index AND (kTlbSize - 1))"

definition lookup_page :: "'w memory \<Rightarrow> u64 \<Rightarrow> u64 option \<times> 'w memory" where
  "lookup_page m page_index =
     (let i = tlb_index page_index; slot = tlb m i
      in if slot_entry slot \<noteq> None \<and> slot_page_index slot = page_index \<and> slot_epoch slot = tlb_epoch m
         then (slot_entry slot, m)
         else let found = (if pages m page_index = None then None else Some page_index)
              in (found, m\<lparr>tlb := (tlb m)(i := \<lparr>slot_page_index = page_index,
                     slot_epoch = tlb_epoch m, slot_entry = found\<rparr>)\<rparr>))"

text \<open>Dereferencing the pointer a lookup returned.\<close>

definition page_at :: "'w memory \<Rightarrow> u64 \<Rightarrow> page_entry" where
  "page_at m key = the (pages m key)"

definition set_passthrough ::
  "'w read_callback option \<Rightarrow> 'w write_callback option \<Rightarrow> 'w memory \<Rightarrow> 'w memory" where
  "set_passthrough read_fn write_fn m = m\<lparr>passthrough_read := read_fn, passthrough_write := write_fn\<rparr>"

definition clear_passthrough :: "'w memory \<Rightarrow> 'w memory" where
  "clear_passthrough m = m\<lparr>passthrough_read := None, passthrough_write := None\<rparr>"

definition invalidate_tlb :: "'w memory \<Rightarrow> 'w memory" where
  "invalidate_tlb m = m\<lparr>tlb_epoch := tlb_epoch m + 1\<rparr>"

definition bump_page_code_epoch :: "'w memory \<Rightarrow> 'w memory" where
  "bump_page_code_epoch m = m\<lparr>page_epoch := page_epoch m + 1, code_epoch := code_epoch m + 1\<rparr>"

definition first_page_of :: "u64 \<Rightarrow> u64" where
  "first_page_of base = base div kPageSize"

definition last_page_of :: "u64 \<Rightarrow> u64 \<Rightarrow> u64" where
  "last_page_of base sz = (base + sz + kPageSize - 1) div kPageSize"

text \<open>The \<^verbatim>\<open>for (page = first_page; page < last_page; ++page)\<close> loops.\<close>

function for_pages :: "(u64 \<Rightarrow> 'm \<Rightarrow> 'm) \<Rightarrow> u64 \<Rightarrow> u64 \<Rightarrow> 'm \<Rightarrow> 'm" where
  "for_pages body page last_page m =
     (if page < last_page then for_pages body (page + 1) last_page (body page m) else m)"
  by pat_completeness auto
termination
proof (relation "measure (\<lambda>(body, page, last_page, m). unat last_page - unat page)")
  show "wf (measure (\<lambda>(body, page, last_page, m). unat last_page - unat page))" by simp
next
  fix body :: "u64 \<Rightarrow> 'm \<Rightarrow> 'm" and page last_page :: u64 and m :: 'm
  assume less: "page < last_page"
  then have "unat page < unat last_page" by (simp add: word_less_nat_alt)
  moreover have "unat (page + 1) = unat page + 1"
    using unat_inc [OF less] by simp
  ultimately show "((body, page + 1, last_page, body page m), body, page, last_page, m)
      \<in> measure (\<lambda>(body, page, last_page, m). unat last_page - unat page)" by simp
qed

declare for_pages.simps [simp del]

definition map_page :: "u8 \<Rightarrow> u64 \<Rightarrow> 'w memory \<Rightarrow> 'w memory" where
  "map_page perms page m =
     (let entry = (case pages m page of None \<Rightarrow> zero_page | Some e \<Rightarrow> e)
      in m\<lparr>pages := (pages m)(page \<mapsto> entry\<lparr>permissions := perms\<rparr>)\<rparr>)"

definition mem_map :: "u64 \<Rightarrow> u64 \<Rightarrow> u8 \<Rightarrow> 'w memory \<Rightarrow> 'w memory" where
  "mem_map base sz perms m =
     for_pages (map_page perms) (first_page_of base) (last_page_of base sz)
       (invalidate_tlb (bump_page_code_epoch m))"

definition mem_unmap :: "u64 \<Rightarrow> u64 \<Rightarrow> 'w memory \<Rightarrow> 'w memory" where
  "mem_unmap base sz m =
     for_pages (\<lambda>page m. m\<lparr>pages := (pages m)(page := None)\<rparr>)
       (first_page_of base) (last_page_of base sz)
       (invalidate_tlb (bump_page_code_epoch m))"

definition reprotect_page :: "u8 \<Rightarrow> u64 \<Rightarrow> 'w memory \<Rightarrow> 'w memory" where
  "reprotect_page perms page m =
     (case pages m page of None \<Rightarrow> m
      | Some e \<Rightarrow> m\<lparr>pages := (pages m)(page \<mapsto> e\<lparr>permissions := perms\<rparr>)\<rparr>)"

definition mem_reprotect :: "u64 \<Rightarrow> u64 \<Rightarrow> u8 \<Rightarrow> 'w memory \<Rightarrow> 'w memory" where
  "mem_reprotect base sz perms m =
     for_pages (reprotect_page perms) (first_page_of base) (last_page_of base sz)
       (bump_page_code_epoch m)"

section \<open>Permissions and page walks\<close>

fun has_permission :: "u8 \<Rightarrow> access_kind \<Rightarrow> bool" where
  "has_permission perms instruction_fetch \<longleftrightarrow> perms AND perm_execute \<noteq> 0"
| "has_permission perms data_read \<longleftrightarrow>
     perms AND perm_read \<noteq> 0 \<or> perms AND perm_write \<noteq> 0 \<or> perms AND perm_execute \<noteq> 0"
| "has_permission perms data_write \<longleftrightarrow> perms AND perm_write \<noteq> 0"

definition chunk_size :: "u64 \<Rightarrow> u64 \<Rightarrow> u64" where
  "chunk_size remaining current = min remaining (kPageSize - current mod kPageSize)"

lemma unat_page_rest: "unat (kPageSize - current mod kPageSize) = 4096 - unat current mod 4096"
proof -
  have "current mod kPageSize < kPageSize" by (simp add: kPageSize_def word_mod_less_divisor)
  then have "unat (kPageSize - current mod kPageSize) = unat kPageSize - unat (current mod kPageSize)"
    by (simp add: unat_sub)
  then show ?thesis by (simp add: kPageSize_def unat_mod)
qed

lemma unat_chunk_size:
  "unat (chunk_size remaining current) = min (unat remaining) (4096 - unat current mod 4096)"
  using unat_page_rest [of current]
  by (auto simp: chunk_size_def min_def word_le_nat_alt)

lemma chunk_size_decreases:
  assumes "remaining \<noteq> 0"
  shows "unat (remaining - chunk_size remaining current) < unat remaining"
proof -
  have "unat remaining \<noteq> 0" using assms by (simp add: unat_eq_zero)
  moreover have "unat (chunk_size remaining current) \<le> unat remaining" by (simp add: unat_chunk_size)
  moreover have "0 < unat (chunk_size remaining current)"
    using calculation by (simp add: unat_chunk_size)
  ultimately show ?thesis by (simp add: unat_sub word_le_nat_alt)
qed

text \<open>The loop of \<^verbatim>\<open>is_mapped\<close> and \<^verbatim>\<open>has_permissions\<close>, with the per-page test as a parameter.\<close>

function pages_satisfy :: "(page_entry \<Rightarrow> bool) \<Rightarrow> 'w memory \<Rightarrow> u64 \<Rightarrow> u64 \<Rightarrow> bool \<times> 'w memory" where
  "pages_satisfy test m current remaining =
     (if remaining = 0 then (True, m)
      else case lookup_page m (current div kPageSize) of
             (None, m1) \<Rightarrow> (False, m1)
           | (Some key, m1) \<Rightarrow>
               if \<not> test (page_at m1 key) then (False, m1)
               else pages_satisfy test m1 (current + chunk_size remaining current)
                      (remaining - chunk_size remaining current))"
  by pat_completeness auto
termination
  by (relation "measure (\<lambda>(test, m, current, remaining). unat remaining)")
    (simp_all add: chunk_size_decreases)

declare pages_satisfy.simps [simp del]

definition is_mapped :: "'w memory \<Rightarrow> u64 \<Rightarrow> u64 \<Rightarrow> bool \<times> 'w memory" where
  "is_mapped m address sz = pages_satisfy (\<lambda>_. True) m address sz"

definition effective_permissions :: "u8 \<Rightarrow> u8" where
  "effective_permissions p = (if p AND perm_execute \<noteq> 0 then p OR perm_read else p)"

definition has_permissions :: "'w memory \<Rightarrow> u64 \<Rightarrow> u64 \<Rightarrow> u8 \<Rightarrow> bool \<times> 'w memory" where
  "has_permissions m address sz required =
     pages_satisfy (\<lambda>e. effective_permissions (permissions e) AND required = required) m address sz"

section \<open>Access hooks\<close>

definition refresh_access_hook_state :: "'w memory \<Rightarrow> 'w memory" where
  "refresh_access_hook_state m =
     (let mask1 = fold (\<lambda>entry mask. mask OR he_kinds entry) (access_hooks m) 0;
          mask2 = fold (\<lambda>entry mask. mask OR he_kinds entry) (pending_added_access_hooks m) mask1
      in m\<lparr>active_access_hook_kinds := mask2,
           has_any_access_hooks :=
             dispatching_access_hooks m \<or> access_hooks m \<noteq> [] \<or>
             pending_added_access_hooks m \<noteq> [] \<or> pending_removed_access_hooks m \<noteq> []\<rparr>)"

definition add_access_hook ::
  "'w access_hook \<Rightarrow> hook_range option \<Rightarrow> u8 \<Rightarrow> 'w memory \<Rightarrow> u64 \<times> 'w memory" where
  "add_access_hook hook rng kinds m =
     (let hid = next_hook_id m;
          m1 = m\<lparr>next_hook_id := hid + 1\<rparr>;
          entry = \<lparr>he_id = hid, he_callback = hook, he_range = rng, he_kinds = kinds\<rparr>;
          m2 = (if dispatching_access_hooks m1
                then m1\<lparr>pending_added_access_hooks := pending_added_access_hooks m1 @ [entry]\<rparr>
                else m1\<lparr>access_hooks := access_hooks m1 @ [entry]\<rparr>)
      in (hid, refresh_access_hook_state m2))"

fun erase_first :: "('a \<Rightarrow> bool) \<Rightarrow> 'a list \<Rightarrow> 'a list" where
  "erase_first P [] = []"
| "erase_first P (x # xs) = (if P x then xs else x # erase_first P xs)"

definition remove_access_hook :: "u64 \<Rightarrow> 'w memory \<Rightarrow> bool \<times> 'w memory" where
  "remove_access_hook hid m =
     (let exists_in = (\<lambda>hooks. list_ex (\<lambda>e. he_id e = hid) hooks)
      in if dispatching_access_hooks m
         then if exists_in (access_hooks m) \<or> exists_in (pending_added_access_hooks m)
              then (True, refresh_access_hook_state
                     (m\<lparr>pending_removed_access_hooks := pending_removed_access_hooks m @ [hid]\<rparr>))
              else (False, m)
         else if exists_in (access_hooks m)
              then (True, refresh_access_hook_state
                     (m\<lparr>access_hooks := erase_first (\<lambda>e. he_id e = hid) (access_hooks m)\<rparr>))
              else (False, m))"

definition apply_pending_access_hook_ops :: "'w memory \<Rightarrow> 'w memory" where
  "apply_pending_access_hook_ops m =
     (let m1 = (if pending_removed_access_hooks m \<noteq> []
                then (fold (\<lambda>hid m. m\<lparr>access_hooks := filter (\<lambda>e. he_id e \<noteq> hid) (access_hooks m),
                         pending_added_access_hooks :=
                           filter (\<lambda>e. he_id e \<noteq> hid) (pending_added_access_hooks m)\<rparr>)
                       (pending_removed_access_hooks m) m)\<lparr>pending_removed_access_hooks := []\<rparr>
                else m);
          m2 = (if pending_added_access_hooks m1 \<noteq> []
                then m1\<lparr>access_hooks := access_hooks m1 @ pending_added_access_hooks m1,
                        pending_added_access_hooks := []\<rparr>
                else m1)
      in refresh_access_hook_state m2)"

fun exec_access_hook_op :: "'w access_hook_op \<Rightarrow> 'w memory \<Rightarrow> 'w memory" where
  "exec_access_hook_op (Add_Access_Hook hook rng kinds) m = snd (add_access_hook hook rng kinds m)"
| "exec_access_hook_op (Remove_Access_Hook hid) m = snd (remove_access_hook hid m)"

definition hook_matches :: "'w access_hook_entry \<Rightarrow> access_event \<Rightarrow> bool" where
  "hook_matches hook event \<longleftrightarrow>
     he_kinds hook AND kind_bit (ev_kind event) \<noteq> 0 \<and>
     (case he_range hook of None \<Rightarrow> True
      | Some r \<Rightarrow>
          let range_end = hr_base r + hr_size r; access_end = ev_address event + ev_size event
          in \<not> (ev_address event \<ge> range_end \<or> access_end \<le> hr_base r))"

fun dispatch_access_hooks ::
  "'w access_hook_entry list \<Rightarrow> access_event \<Rightarrow> 'w memory \<Rightarrow> bool \<times> 'w memory" where
  "dispatch_access_hooks [] event m = (True, m)"
| "dispatch_access_hooks (hook # hooks) event m =
     (if \<not> hook_matches hook event then dispatch_access_hooks hooks event m
      else case run_access_hook (he_callback hook) event (world m) of
             (ok, ops, w) \<Rightarrow>
               let m1 = fold exec_access_hook_op ops (m\<lparr>world := w\<rparr>)
               in if \<not> ok then (False, m1) else dispatch_access_hooks hooks event m1)"

definition access_allowed :: "'w memory \<Rightarrow> access_event \<Rightarrow> bool \<times> 'w memory" where
  "access_allowed m event =
     (if \<not> has_any_access_hooks m then (True, m)
      else case dispatch_access_hooks (access_hooks m) event (m\<lparr>dispatching_access_hooks := True\<rparr>) of
             (ok, m1) \<Rightarrow> (ok, apply_pending_access_hook_ops (m1\<lparr>dispatching_access_hooks := False\<rparr>)))"

definition has_data_access_hooks :: "'w memory \<Rightarrow> bool" where
  "has_data_access_hooks m \<longleftrightarrow>
     active_access_hook_kinds m AND (kind_bit data_read OR kind_bit data_write) \<noteq> 0"

definition has_fetch_access_hooks :: "'w memory \<Rightarrow> bool" where
  "has_fetch_access_hooks m \<longleftrightarrow> active_access_hook_kinds m AND kind_bit instruction_fetch \<noteq> 0"

section \<open>MMIO regions\<close>

definition find_mmio_region :: "'w memory \<Rightarrow> u64 \<Rightarrow> u64 \<Rightarrow> 'w mmio_region option" where
  "find_mmio_region m address sz =
     (if mmio_regions m = [] then None
      else let end_address = address + sz
           in if address < mmio_min_base m \<or> end_address > mmio_max_end m then None
              else List.find (\<lambda>r. address \<ge> mr_base r \<and> end_address \<le> mr_base r + mr_size r)
                     (mmio_regions m))"

definition push_mmio_region :: "'w mmio_region \<Rightarrow> 'w memory \<Rightarrow> 'w memory" where
  "push_mmio_region r m =
     (let m1 = m\<lparr>mmio_regions := mmio_regions m @ [r]\<rparr>
      in if length (mmio_regions m1) = 1
         then m1\<lparr>mmio_min_base := mr_base r, mmio_max_end := mr_base r + mr_size r\<rparr>
         else m1\<lparr>mmio_min_base := min (mmio_min_base m1) (mr_base r),
                 mmio_max_end := max (mmio_max_end m1) (mr_base r + mr_size r)\<rparr>)"

definition map_mmio ::
  "u64 \<Rightarrow> u64 \<Rightarrow> 'w read_callback option \<Rightarrow> 'w write_callback option \<Rightarrow> 'w memory \<Rightarrow> u64 \<times> 'w memory" where
  "map_mmio base sz on_read on_write m =
     (let hid = next_hook_id m
      in (hid, push_mmio_region \<lparr>mr_id = hid, mr_base = base, mr_size = sz, mr_on_read = on_read,
                mr_on_write = on_write\<rparr> (m\<lparr>next_hook_id := hid + 1\<rparr>)))"

definition unmap_mmio :: "u64 \<Rightarrow> 'w memory \<Rightarrow> bool \<times> 'w memory" where
  "unmap_mmio hid m =
     (if \<not> list_ex (\<lambda>r. mr_id r = hid) (mmio_regions m) then (False, m)
      else let m1 = m\<lparr>mmio_regions := erase_first (\<lambda>r. mr_id r = hid) (mmio_regions m)\<rparr>
           in (True, case mmio_regions m1 of
                [] \<Rightarrow> m1\<lparr>mmio_min_base := NOT 0, mmio_max_end := 0\<rparr>
              | front # _ \<Rightarrow>
                  m1\<lparr>mmio_min_base := fold (\<lambda>r a. min a (mr_base r)) (mmio_regions m1) (mr_base front),
                     mmio_max_end := fold (\<lambda>r a. max a (mr_base r + mr_size r)) (mmio_regions m1)
                       (mr_base front + mr_size front)\<rparr>))"

definition clear_mmio_regions :: "'w memory \<Rightarrow> 'w memory" where
  "clear_mmio_regions m = m\<lparr>mmio_regions := [], mmio_min_base := NOT 0, mmio_max_end := 0\<rparr>"

section \<open>Reads\<close>

definition page_slice :: "page_entry \<Rightarrow> nat \<Rightarrow> nat \<Rightarrow> u8 list" where
  "page_slice e offset n = map (\<lambda>i. page_data e (offset + i)) [0..<n]"

function copy_from_pages ::
  "(page_entry \<Rightarrow> bool) \<Rightarrow> 'w memory \<Rightarrow> u64 \<Rightarrow> u64 \<Rightarrow> u8 list option \<times> 'w memory" where
  "copy_from_pages test m current remaining =
     (if remaining = 0 then (Some [], m)
      else case lookup_page m (current div kPageSize) of
             (None, m1) \<Rightarrow> (None, m1)
           | (Some key, m1) \<Rightarrow>
               if \<not> test (page_at m1 key) then (None, m1)
               else let chunk = chunk_size remaining current;
                        part = page_slice (page_at m1 key) (unat (current mod kPageSize)) (unat chunk)
                    in case copy_from_pages test m1 (current + chunk) (remaining - chunk) of
                         (rest, m2) \<Rightarrow> (map_option (\<lambda>bs. part @ bs) rest, m2))"
  by pat_completeness auto
termination
  by (relation "measure (\<lambda>(test, m, current, remaining). unat remaining)")
    (simp_all add: chunk_size_decreases)

declare copy_from_pages.simps [simp del]

definition mmio_read :: "'w mmio_region \<Rightarrow> 'w memory \<Rightarrow> u64 \<Rightarrow> u64 \<Rightarrow> u8 list option \<times> 'w memory" where
  "mmio_read region m address sz =
     (case mr_on_read region of None \<Rightarrow> (None, m)
      | Some f \<Rightarrow> (case f (address - mr_base region) sz (world m) of (r, w) \<Rightarrow> (r, m\<lparr>world := w\<rparr>)))"

definition mem_read :: "'w memory \<Rightarrow> u64 \<Rightarrow> u64 \<Rightarrow> access_kind \<Rightarrow> u8 list option \<times> 'w memory" where
  "mem_read m address sz kind =
     (case passthrough_read m of
        Some f \<Rightarrow> (case f address sz (world m) of (r, w) \<Rightarrow> (r, m\<lparr>world := w\<rparr>))
      | None \<Rightarrow>
          if \<not> has_any_access_hooks m \<and> mmio_regions m = [] \<and>
             address mod kPageSize + sz \<le> kPageSize
          then (case lookup_page m (address div kPageSize) of
                  (None, m1) \<Rightarrow> (None, m1)
                | (Some key, m1) \<Rightarrow>
                    if \<not> has_permission (permissions (page_at m1 key)) kind then (None, m1)
                    else (Some (page_slice (page_at m1 key) (unat (address mod kPageSize)) (unat sz)), m1))
          else case find_mmio_region m address sz of
                 Some region \<Rightarrow>
                   (case access_allowed m \<lparr>ev_kind = kind, ev_address = address, ev_size = sz,
                            ev_data = None\<rparr> of
                      (False, m1) \<Rightarrow> (None, m1)
                    | (True, m1) \<Rightarrow> mmio_read region m1 address sz)
               | None \<Rightarrow>
                   if \<not> has_any_access_hooks m
                   then copy_from_pages (\<lambda>e. has_permission (permissions e) kind) m address sz
                   else case copy_from_pages (\<lambda>e. has_permission (permissions e) kind) m address sz of
                          (None, m1) \<Rightarrow> (None, m1)
                        | (Some temp, m1) \<Rightarrow>
                            (case access_allowed m1 \<lparr>ev_kind = kind, ev_address = address,
                                     ev_size = sz, ev_data = Some temp\<rparr> of
                               (False, m2) \<Rightarrow> (None, m2)
                             | (True, m2) \<Rightarrow> (Some temp, m2)))"

definition read_unchecked :: "'w memory \<Rightarrow> u64 \<Rightarrow> u64 \<Rightarrow> u8 list option \<times> 'w memory" where
  "read_unchecked m address sz =
     (case find_mmio_region m address sz of
        Some region \<Rightarrow> mmio_read region m address sz
      | None \<Rightarrow> copy_from_pages (\<lambda>_. True) m address sz)"

definition read_code_page :: "'w memory \<Rightarrow> u64 \<Rightarrow> u8 list option \<times> 'w memory" where
  "read_code_page m page_base =
     (case passthrough_read m of
        Some f \<Rightarrow> (case f page_base kPageSize (world m) of (r, w) \<Rightarrow> (r, m\<lparr>world := w\<rparr>))
      | None \<Rightarrow>
          if page_base mod kPageSize \<noteq> 0 then (None, m)
          else case lookup_page m (page_base div kPageSize) of
                 (None, m1) \<Rightarrow> (None, m1)
               | (Some key, m1) \<Rightarrow>
                   if \<not> has_permission (permissions (page_at m1 key)) instruction_fetch then (None, m1)
                   else (Some (page_slice (page_at m1 key) 0 4096), m1))"

section \<open>Writes\<close>

text \<open>\<^verbatim>\<open>memcpy\<close> into a page.\<close>

definition blit :: "(nat \<Rightarrow> u8) \<Rightarrow> nat \<Rightarrow> u8 list \<Rightarrow> nat \<Rightarrow> u8" where
  "blit data offset bs i = (if offset \<le> i \<and> i < offset + length bs then bs ! (i - offset) else data i)"

definition store_page :: "u64 \<Rightarrow> nat \<Rightarrow> u8 list \<Rightarrow> 'w memory \<Rightarrow> 'w memory" where
  "store_page key offset bs m =
     (let e = page_at m key
      in m\<lparr>pages := (pages m)(key \<mapsto> e\<lparr>page_data := blit (page_data e) offset bs\<rparr>)\<rparr>)"

definition chunk_len :: "nat \<Rightarrow> u64 \<Rightarrow> nat" where
  "chunk_len remaining current = min remaining (unat (kPageSize - current mod kPageSize))"

lemma chunk_len_pos: "0 < n \<Longrightarrow> 0 < chunk_len n current"
  by (simp add: chunk_len_def unat_page_rest)

text \<open>The result carries whether the loop completed and whether it touched an executable page.\<close>

function copy_to_pages ::
  "(page_entry \<Rightarrow> bool) \<Rightarrow> 'w memory \<Rightarrow> u64 \<Rightarrow> u8 list \<Rightarrow> bool \<Rightarrow> bool \<times> bool \<times> 'w memory" where
  "copy_to_pages test m current src code_changed =
     (if src = [] then (True, code_changed, m)
      else case lookup_page m (current div kPageSize) of
             (None, m1) \<Rightarrow> (False, code_changed, m1)
           | (Some key, m1) \<Rightarrow>
               if \<not> test (page_at m1 key) then (False, code_changed, m1)
               else let changed = code_changed \<or> permissions (page_at m1 key) AND perm_execute \<noteq> 0;
                        chunk = chunk_len (length src) current;
                        m2 = store_page key (unat (current mod kPageSize)) (take chunk src) m1
                    in copy_to_pages test m2 (current + word_of_nat chunk) (drop chunk src) changed)"
  by pat_completeness auto
termination
  by (relation "measure (\<lambda>(test, m, current, src, changed). length src)")
    (auto simp: chunk_len_pos)

declare copy_to_pages.simps [simp del]

definition mmio_write :: "'w mmio_region \<Rightarrow> 'w memory \<Rightarrow> u64 \<Rightarrow> u8 list \<Rightarrow> bool \<times> 'w memory" where
  "mmio_write region m address src =
     (case mr_on_write region of None \<Rightarrow> (False, m)
      | Some f \<Rightarrow> (case f (address - mr_base region) src (world m) of (r, w) \<Rightarrow> (r, m\<lparr>world := w\<rparr>)))"

definition finish_write :: "bool \<times> bool \<times> 'w memory \<Rightarrow> bool \<times> 'w memory" where
  "finish_write r =
     (case r of (ok, code_changed, m) \<Rightarrow>
        if \<not> ok then (False, m)
        else (True, if code_changed then m\<lparr>code_epoch := code_epoch m + 1\<rparr> else m))"

definition mem_write :: "'w memory \<Rightarrow> u64 \<Rightarrow> u8 list \<Rightarrow> access_kind \<Rightarrow> bool \<times> 'w memory" where
  "mem_write m address src kind =
     (let sz = word_of_nat (length src)
      in case passthrough_write m of
        Some f \<Rightarrow> (case f address src (world m) of (r, w) \<Rightarrow> (r, m\<lparr>world := w\<rparr>))
      | None \<Rightarrow>
          if \<not> has_any_access_hooks m \<and> mmio_regions m = [] \<and>
             address mod kPageSize + sz \<le> kPageSize
          then (case lookup_page m (address div kPageSize) of
                  (None, m1) \<Rightarrow> (False, m1)
                | (Some key, m1) \<Rightarrow>
                    if \<not> has_permission (permissions (page_at m1 key)) kind then (False, m1)
                    else let m2 = store_page key (unat (address mod kPageSize)) src m1
                         in (True, if permissions (page_at m1 key) AND perm_execute \<noteq> 0
                                   then m2\<lparr>code_epoch := code_epoch m2 + 1\<rparr> else m2))
          else case access_allowed m \<lparr>ev_kind = kind, ev_address = address, ev_size = sz,
                      ev_data = Some src\<rparr> of
                 (False, m1) \<Rightarrow> (False, m1)
               | (True, m1) \<Rightarrow>
                   (case find_mmio_region m1 address sz of
                      Some region \<Rightarrow> mmio_write region m1 address src
                    | None \<Rightarrow> finish_write
                        (copy_to_pages (\<lambda>e. has_permission (permissions e) kind) m1 address src False)))"

definition write_unchecked :: "'w memory \<Rightarrow> u64 \<Rightarrow> u8 list \<Rightarrow> bool \<times> 'w memory" where
  "write_unchecked m address src =
     (case find_mmio_region m address (word_of_nat (length src)) of
        Some region \<Rightarrow> mmio_write region m address src
      | None \<Rightarrow> finish_write (copy_to_pages (\<lambda>_. True) m address src False))"

section \<open>Snapshots\<close>

record page_snapshot =
  ps_page_index :: u64
  ps_data :: "nat \<Rightarrow> u8"
  ps_permissions :: u8

definition snapshot_pages :: "'w memory \<Rightarrow> page_snapshot list" where
  "snapshot_pages m =
     map (\<lambda>k. \<lparr>ps_page_index = k, ps_data = page_data (page_at m k), ps_permissions = permissions (page_at m k)\<rparr>)
       (sorted_list_of_set (dom (pages m)))"

text \<open>\<^verbatim>\<open>unordered_map::emplace\<close> keeps an element that is already there.\<close>

definition emplace_page :: "page_snapshot \<Rightarrow> 'w memory \<Rightarrow> 'w memory" where
  "emplace_page ps m =
     (case pages m (ps_page_index ps) of
        None \<Rightarrow> m\<lparr>pages := (pages m)(ps_page_index ps \<mapsto>
                   \<lparr>page_data = ps_data ps, permissions = ps_permissions ps\<rparr>)\<rparr>
      | Some _ \<Rightarrow> m)"

definition restore_pages :: "page_snapshot list \<Rightarrow> 'w memory \<Rightarrow> 'w memory" where
  "restore_pages snapshot m =
     fold emplace_page snapshot ((invalidate_tlb (bump_page_code_epoch m))\<lparr>pages := Map.empty\<rparr>)"

record mmio_region_snapshot =
  ms_id :: u64
  ms_base :: u64
  ms_size :: u64

definition snapshot_mmio_regions :: "'w memory \<Rightarrow> mmio_region_snapshot list" where
  "snapshot_mmio_regions m =
     sort_key (\<lambda>s. (unat (ms_base s) * 2 ^ 64 + unat (ms_id s)))
       (map (\<lambda>r. \<lparr>ms_id = mr_id r, ms_base = mr_base r, ms_size = mr_size r\<rparr>) (mmio_regions m))"

type_synonym 'w mmio_resolver =
  "mmio_region_snapshot \<Rightarrow> ('w read_callback option \<times> 'w write_callback option) option"

definition restore_mmio_region ::
  "'w mmio_resolver option \<Rightarrow> mmio_region_snapshot \<Rightarrow> 'w memory \<Rightarrow> 'w memory" where
  "restore_mmio_region resolver s m =
     (case resolver of None \<Rightarrow> m
      | Some f \<Rightarrow>
          (case f s of None \<Rightarrow> m
           | Some (on_read, on_write) \<Rightarrow>
               push_mmio_region \<lparr>mr_id = ms_id s, mr_base = ms_base s, mr_size = ms_size s,
                   mr_on_read = on_read, mr_on_write = on_write\<rparr>
                 (m\<lparr>next_hook_id := max (next_hook_id m) (ms_id s + 1)\<rparr>)))"

definition restore_mmio_regions ::
  "mmio_region_snapshot list \<Rightarrow> 'w mmio_resolver option \<Rightarrow> 'w memory \<Rightarrow> 'w memory" where
  "restore_mmio_regions regions resolver m =
     fold (restore_mmio_region resolver) regions (clear_mmio_regions m)"

end
