(* ===== verification/Memory_Facts.thy ===== *)
theory Memory_Facts
  imports Memory_Model
begin

text \<open>
  What the memory component promises: the lookup cache never returns a page the table does not
  hold, the chunked page walks are byte-by-byte accesses, and writes are seen by reads.
\<close>

section \<open>Generic facts\<close>

lemma those_append:
  "those (xs @ ys) = (case those xs of None \<Rightarrow> None | Some a \<Rightarrow> map_option (\<lambda>b. a @ b) (those ys))"
  by (cases "those ys"; induction xs) (auto split: option.splits)

lemma those_map_Some [simp]: "those (map (\<lambda>i. Some (f i)) xs) = Some (map f xs)"
  by (induction xs) auto

lemma those_None: "None \<in> set xs \<Longrightarrow> those xs = None"
  by (induction xs) (auto split: option.splits)

lemma those_SomeD: "those xs = Some ys \<Longrightarrow> xs = map Some ys"
  by (induction xs arbitrary: ys) (auto split: option.splits)

lemma those_length: "those xs = Some ys \<Longrightarrow> length ys = length xs"
  by (drule those_SomeD) simp

section \<open>The lookup cache\<close>

text \<open>
  Slots of the current epoch that hold a pointer point to a live element of the page table under
  the key the slot is labelled with; no slot is from a later epoch.
\<close>

definition tlb_coherent :: "'w memory \<Rightarrow> bool" where
  "tlb_coherent m \<longleftrightarrow>
     (\<forall>i. slot_epoch (tlb m i) \<le> tlb_epoch m \<and>
       (\<forall>k. slot_entry (tlb m i) = Some k \<longrightarrow> slot_epoch (tlb m i) = tlb_epoch m \<longrightarrow>
            k = slot_page_index (tlb m i) \<and> pages m k \<noteq> None))"

text \<open>Two memories that differ in the contents of the cache only.\<close>

definition tlb_variant :: "'w memory \<Rightarrow> 'w memory \<Rightarrow> bool" where
  "tlb_variant m m' \<longleftrightarrow> (\<exists>t. m' = m\<lparr>tlb := t\<rparr>)"

lemma tlb_variant_refl [simp]: "tlb_variant m m"
  by (simp add: tlb_variant_def exI [of _ "tlb m"])

lemma tlb_variant_trans: "tlb_variant m m1 \<Longrightarrow> tlb_variant m1 m2 \<Longrightarrow> tlb_variant m m2"
  by (auto simp: tlb_variant_def)

lemma tlb_variant_fields:
  assumes "tlb_variant m m'"
  shows "pages m' = pages m" "tlb_epoch m' = tlb_epoch m" "code_epoch m' = code_epoch m"
    "access_hooks m' = access_hooks m" "mmio_regions m' = mmio_regions m" "world m' = world m"
    "has_any_access_hooks m' = has_any_access_hooks m" "passthrough_read m' = passthrough_read m"
    "passthrough_write m' = passthrough_write m" "page_at m' = page_at m"
    "pending_removed_access_hooks m' = pending_removed_access_hooks m"
    "pending_added_access_hooks m' = pending_added_access_hooks m"
    "dispatching_access_hooks m' = dispatching_access_hooks m"
    "active_access_hook_kinds m' = active_access_hook_kinds m"
    "next_hook_id m' = next_hook_id m" "page_epoch m' = page_epoch m"
    "mmio_min_base m' = mmio_min_base m" "mmio_max_end m' = mmio_max_end m"
proof -
  obtain t where m': "m' = m\<lparr>tlb := t\<rparr>" using assms by (auto simp: tlb_variant_def)
  show "pages m' = pages m" "tlb_epoch m' = tlb_epoch m" "code_epoch m' = code_epoch m"
    "access_hooks m' = access_hooks m" "mmio_regions m' = mmio_regions m" "world m' = world m"
    "has_any_access_hooks m' = has_any_access_hooks m" "passthrough_read m' = passthrough_read m"
    "passthrough_write m' = passthrough_write m" "page_at m' = page_at m"
    "pending_removed_access_hooks m' = pending_removed_access_hooks m"
    "pending_added_access_hooks m' = pending_added_access_hooks m"
    "dispatching_access_hooks m' = dispatching_access_hooks m"
    "active_access_hook_kinds m' = active_access_hook_kinds m"
    "next_hook_id m' = next_hook_id m" "page_epoch m' = page_epoch m"
    "mmio_min_base m' = mmio_min_base m" "mmio_max_end m' = mmio_max_end m"
    by (simp_all add: m' page_at_def fun_eq_iff)
qed

lemma lookup_page_variant: "tlb_variant m (snd (lookup_page m p))"
  by (auto simp: lookup_page_def tlb_variant_def Let_def intro: exI [of _ "tlb m"])

lemma lookup_page_result:
  assumes "tlb_coherent m"
  shows "fst (lookup_page m p) = (if pages m p = None then None else Some p)"
  using assms [unfolded tlb_coherent_def, rule_format, of "tlb_index p"]
  by (auto simp: lookup_page_def Let_def)

lemma lookup_page_coherent:
  assumes "tlb_coherent m"
  shows "tlb_coherent (snd (lookup_page m p))"
  using assms by (auto simp: lookup_page_def tlb_coherent_def Let_def)

lemma lookup_pageE:
  assumes "lookup_page m p = (r, m1)" "tlb_coherent m"
  obtains "r = (if pages m p = None then None else Some p)" "tlb_variant m m1" "tlb_coherent m1"
  using assms lookup_page_result [of m p] lookup_page_coherent [of m p] lookup_page_variant [of m p]
  by simp

section \<open>Arithmetic of the page walk\<close>

lemma page_step:
  assumes "i < 4096 - unat current mod 4096"
  shows "unat (current + word_of_nat i) = unat current + i"
    and "(current + word_of_nat i) div kPageSize = current div kPageSize"
    and "unat ((current + word_of_nat i) mod kPageSize) = unat (current mod kPageSize) + i"
proof -
  define q where "q = unat current div 4096"
  have split: "unat current = 4096 * q + unat current mod 4096" by (simp add: q_def)
  have "unat current < 2 ^ 64" using unsigned_less [of current, where 'a = nat] by simp
  then have "q < 2 ^ 52" by (simp add: q_def div_less_iff_less_mult)
  then have "4096 * q + 4096 \<le> 2 ^ 64" by simp
  then have "unat current + i < 2 ^ 64" using split assms by linarith
  moreover have "unat (word_of_nat i :: u64) = i" using assms by (simp add: unat_of_nat)
  ultimately show sum: "unat (current + word_of_nat i) = unat current + i"
    by (simp add: unat_word_ariths)
  have lt: "unat current mod 4096 + i < 4096" using assms by linarith
  have "unat current + i = (unat current mod 4096 + i) + 4096 * q" using split by linarith
  then have "(unat current + i) div 4096 = q" using lt by simp
  then show "(current + word_of_nat i) div kPageSize = current div kPageSize"
    by (simp add: word_unat_eq_iff unat_div sum kPageSize_def q_def)
  have "(unat current + i) mod 4096 = unat current mod 4096 + i"
    using lt by (metis mod_add_left_eq mod_less)
  then show "unat ((current + word_of_nat i) mod kPageSize) = unat (current mod kPageSize) + i"
    by (simp add: unat_mod sum kPageSize_def)
qed

text \<open>The byte an access of the given class sees at an address of a page table.\<close>

definition byte_at :: "(u8 \<Rightarrow> bool) \<Rightarrow> (u64 \<rightharpoonup> page_entry) \<Rightarrow> u64 \<Rightarrow> u8 option" where
  "byte_at f P a =
     (case P (a div kPageSize) of
        None \<Rightarrow> None
      | Some e \<Rightarrow> if f (permissions e) then Some (page_data e (unat (a mod kPageSize))) else None)"

definition read_bytes :: "(u8 \<Rightarrow> bool) \<Rightarrow> (u64 \<rightharpoonup> page_entry) \<Rightarrow> u64 \<Rightarrow> nat \<Rightarrow> u8 list option" where
  "read_bytes f P a n = those (map (\<lambda>i. byte_at f P (a + word_of_nat i)) [0..<n])"

lemma read_bytes_0 [simp]: "read_bytes f P a 0 = Some []"
  by (simp add: read_bytes_def)

lemma read_bytes_split:
  assumes "c \<le> n"
  shows "read_bytes f P a n =
    (case read_bytes f P a c of None \<Rightarrow> None
     | Some b1 \<Rightarrow> map_option (\<lambda>b2. b1 @ b2) (read_bytes f P (a + word_of_nat c) (n - c)))"
proof -
  have "[0..<n] = [0..<c] @ map (\<lambda>i. c + i) [0..<n - c]"
    using assms upt_add_eq_append [of 0 c "n - c"] map_add_upt [of c "n - c"] by (simp add: add.commute)
  then show ?thesis
    unfolding read_bytes_def by (auto simp: those_append add.assoc comp_def split: option.split)
qed

lemma read_bytes_page:
  assumes "n \<le> 4096 - unat a mod 4096" "P (a div kPageSize) = Some e" "f (permissions e)"
  shows "read_bytes f P a n = Some (page_slice e (unat (a mod kPageSize)) n)"
proof -
  have "map (\<lambda>i. byte_at f P (a + word_of_nat i)) [0..<n] =
        map (\<lambda>i. Some (page_data e (unat (a mod kPageSize) + i))) [0..<n]"
    using assms by (intro map_cong) (auto simp: byte_at_def page_step)
  then show ?thesis by (simp only: read_bytes_def page_slice_def those_map_Some)
qed

lemma read_bytes_fail:
  assumes "0 < n" "byte_at f P a = None"
  shows "read_bytes f P a n = None"
  unfolding read_bytes_def
proof (rule those_None)
  have "0 \<in> set [0..<n]" using assms by simp
  moreover have "byte_at f P (a + word_of_nat 0) = None" using assms by simp
  ultimately show "None \<in> set (map (\<lambda>i. byte_at f P (a + word_of_nat i)) [0..<n])"
    by (metis (no_types, lifting) image_eqI image_set)
qed

lemma copy_from_pages_correct:
  assumes "tlb_coherent m"
  shows "fst (copy_from_pages (\<lambda>e. f (permissions e)) m a n) = read_bytes f (pages m) a (unat n) \<and>
         tlb_variant m (snd (copy_from_pages (\<lambda>e. f (permissions e)) m a n)) \<and>
         tlb_coherent (snd (copy_from_pages (\<lambda>e. f (permissions e)) m a n))"
  using assms
proof (induction "\<lambda>e :: page_entry. f (permissions e)" m a n rule: copy_from_pages.induct)
  case (1 m a n)
  obtain r m1 where l: "lookup_page m (a div kPageSize) = (r, m1)" by fastforce
  then have r: "r = (if pages m (a div kPageSize) = None then None else Some (a div kPageSize))"
    and v: "tlb_variant m m1" and c: "tlb_coherent m1"
    using "1.prems" by (blast elim: lookup_pageE)+
  show ?case
  proof (cases "n = 0")
    case True
    then show ?thesis using "1.prems" by (subst (1 2 3) copy_from_pages.simps) simp
  next
    case n0: False
    then have pos: "0 < unat n" by (simp add: unat_gt_0)
    define k where "k = chunk_size n a"
    have kw: "word_of_nat (unat k) = k" by simp
    have ck: "unat k = min (unat n) (4096 - unat a mod 4096)" by (simp add: k_def unat_chunk_size)
    show ?thesis
    proof (cases "pages m (a div kPageSize)")
      case None
      then have "byte_at f (pages m) a = None" by (simp add: byte_at_def)
      then show ?thesis
        using n0 None l r v c pos
        by (subst (1 2 3) copy_from_pages.simps) (simp add: read_bytes_fail)
    next
      case (Some e)
      have e: "page_at m1 (a div kPageSize) = e" using Some v by (simp add: tlb_variant_fields page_at_def)
      show ?thesis
      proof (cases "f (permissions e)")
        case False
        then have "byte_at f (pages m) a = None" using Some by (simp add: byte_at_def)
        then show ?thesis
          using n0 Some l r v c e False pos
          by (subst (1 2 3) copy_from_pages.simps) (simp add: read_bytes_fail)
      next
        case True
        obtain rs m2 where rec: "copy_from_pages (\<lambda>e. f (permissions e)) m1 (a + k) (n - k) = (rs, m2)" by fastforce
        have "unat (n - k) = unat n - unat k" using ck by (simp add: unat_sub word_le_nat_alt)
        then have IH: "rs = read_bytes f (pages m) (a + k) (unat n - unat k)" "tlb_variant m1 m2" "tlb_coherent m2"
          using "1.hyps" [OF n0 l [symmetric], of "a div kPageSize"] r Some e True c rec v
          by (auto simp: k_def tlb_variant_fields)
        have "read_bytes f (pages m) a (unat k) = Some (page_slice e (unat (a mod kPageSize)) (unat k))"
          using ck Some True by (intro read_bytes_page) auto
        moreover have "unat k \<le> unat n" using ck by simp
        ultimately have "read_bytes f (pages m) a (unat n) =
            map_option (\<lambda>bs. page_slice e (unat (a mod kPageSize)) (unat k) @ bs) rs"
          using IH(1) read_bytes_split [of "unat k" "unat n" f "pages m" a] by simp
        then show ?thesis
          using n0 l r Some e True rec IH tlb_variant_trans [OF v]
          by (subst (1 2 3) copy_from_pages.simps) (simp add: k_def [symmetric])
      qed
    qed
  qed
qed

section \<open>The write loop\<close>

text \<open>
  The reference semantics of a store: one byte at a time, each into the page that holds its
  address.
\<close>

definition poke :: "u64 \<Rightarrow> u8 \<Rightarrow> (u64 \<rightharpoonup> page_entry) \<Rightarrow> (u64 \<rightharpoonup> page_entry)" where
  "poke a b P = P(a div kPageSize :=
     map_option (\<lambda>e. e\<lparr>page_data := (page_data e)(unat (a mod kPageSize) := b)\<rparr>) (P (a div kPageSize)))"

fun pokes :: "u64 \<Rightarrow> u8 list \<Rightarrow> (u64 \<rightharpoonup> page_entry) \<Rightarrow> (u64 \<rightharpoonup> page_entry)" where
  "pokes a [] P = P"
| "pokes a (b # bs) P = pokes (a + 1) bs (poke a b P)"

definition allowed_at :: "(u8 \<Rightarrow> bool) \<Rightarrow> (u64 \<rightharpoonup> page_entry) \<Rightarrow> u64 \<Rightarrow> bool" where
  "allowed_at f P a = (case P (a div kPageSize) of None \<Rightarrow> False | Some e \<Rightarrow> f (permissions e))"

text \<open>The number of bytes before the first one that may not be accessed.\<close>

fun allowed_prefix :: "(u8 \<Rightarrow> bool) \<Rightarrow> (u64 \<rightharpoonup> page_entry) \<Rightarrow> u64 \<Rightarrow> nat \<Rightarrow> nat" where
  "allowed_prefix f P a 0 = 0"
| "allowed_prefix f P a (Suc n) = (if allowed_at f P a then Suc (allowed_prefix f P (a + 1) n) else 0)"

abbreviation executable_perm :: "u8 \<Rightarrow> bool" where
  "executable_perm p \<equiv> p AND perm_execute \<noteq> 0"

definition touches_code :: "(u64 \<rightharpoonup> page_entry) \<Rightarrow> u64 \<Rightarrow> nat \<Rightarrow> bool" where
  "touches_code P a n \<longleftrightarrow> (\<exists>i<n. allowed_at executable_perm P (a + word_of_nat i))"

lemma pokes_append: "pokes a (xs @ ys) P = pokes (a + word_of_nat (length xs)) ys (pokes a xs P)"
  by (induction xs arbitrary: a P) (simp_all add: add.assoc)

lemma allowed_at_poke [simp]: "allowed_at f (poke a b P) x = allowed_at f P x"
  by (auto simp: allowed_at_def poke_def split: option.splits)

lemma allowed_at_pokes [simp]: "allowed_at f (pokes a bs P) x = allowed_at f P x"
  by (induction bs arbitrary: a P) simp_all

lemma allowed_prefix_pokes [simp]: "allowed_prefix f (pokes a bs P) x n = allowed_prefix f P x n"
  by (induction n arbitrary: x) simp_all

lemma touches_code_pokes [simp]: "touches_code (pokes a bs P) x n = touches_code P x n"
  by (simp add: touches_code_def)

lemma allowed_prefix_le: "allowed_prefix f P a n \<le> n"
  by (induction n arbitrary: a) simp_all

lemma allowed_prefix_add:
  "allowed_prefix f P a (c + n) =
     (if allowed_prefix f P a c = c then c + allowed_prefix f P (a + word_of_nat c) n
      else allowed_prefix f P a c)"
  by (induction c arbitrary: a) (simp_all add: add.assoc)

lemma allowed_prefix_full:
  "allowed_prefix f P a n = n \<longleftrightarrow> (\<forall>i<n. allowed_at f P (a + word_of_nat i))"
proof (induction n)
  case 0
  then show ?case by simp
next
  case (Suc n)
  have "allowed_prefix f P a (Suc n) = Suc n \<longleftrightarrow>
      allowed_prefix f P a n = n \<and> allowed_at f P (a + word_of_nat n)"
    using allowed_prefix_add [of f P a n 1] allowed_prefix_le [of f P a n] by auto
  then show ?case using Suc.IH by (auto simp: less_Suc_eq)
qed

lemma ex_less_add: "(\<exists>i<c + n. Q i) \<longleftrightarrow> (\<exists>i<c. Q i) \<or> (\<exists>i<n. Q (c + i))" for c n :: nat
  by (metis add_less_cancel_left le_add_diff_inverse not_le trans_less_add1)

lemma touches_code_add:
  "touches_code P a (c + n) \<longleftrightarrow> touches_code P a c \<or> touches_code P (a + word_of_nat c) n"
  unfolding touches_code_def ex_less_add by (simp add: add.assoc)

lemma allowed_at_same_page:
  assumes "i < 4096 - unat a mod 4096"
  shows "allowed_at f P (a + word_of_nat i) = allowed_at f P a"
  using assms by (simp add: allowed_at_def page_step)

lemma pokes_page:
  assumes "length bs \<le> 4096 - unat a mod 4096" "P (a div kPageSize) = Some e"
  shows "pokes a bs P =
    P(a div kPageSize \<mapsto> e\<lparr>page_data := blit (page_data e) (unat (a mod kPageSize)) bs\<rparr>)"
  using assms
proof (induction bs rule: rev_induct)
  case Nil
  have "blit (page_data e) j [] = page_data e" for j by (rule ext) (auto simp: blit_def)
  then show ?case using Nil by (auto simp: fun_upd_idem_iff)
next
  case (snoc b bs)
  let ?o = "unat (a mod kPageSize)"
  have i: "length bs < 4096 - unat a mod 4096" using snoc.prems by simp
  have "blit (page_data e) ?o (bs @ [b]) = (blit (page_data e) ?o bs)(?o + length bs := b)"
    by (auto simp: blit_def nth_append fun_eq_iff)
  then show ?case
    using snoc i by (simp add: pokes_append poke_def page_step [OF i] fun_upd_def fun_eq_iff)
qed

text \<open>What a run of the write loop leaves behind, on success and on failure.\<close>

definition write_outcome ::
  "(u8 \<Rightarrow> bool) \<Rightarrow> 'w memory \<Rightarrow> u64 \<Rightarrow> u8 list \<Rightarrow> bool \<Rightarrow> bool \<times> bool \<times> 'w memory \<Rightarrow> bool" where
  "write_outcome f m a src cc r =
     (let k = allowed_prefix f (pages m) a (length src)
      in fst r = (k = length src) \<and>
         fst (snd r) = (cc \<or> touches_code (pages m) a k) \<and>
         (\<exists>t. snd (snd r) = m\<lparr>pages := pokes a (take k src) (pages m), tlb := t\<rparr>) \<and>
         tlb_coherent (snd (snd r)))"

lemma tlb_coherent_pokes:
  assumes "tlb_coherent m"
  shows "tlb_coherent (m\<lparr>pages := pokes a bs (pages m)\<rparr>)"
proof -
  have "poke a b P x = None \<longleftrightarrow> P x = None" for a b and P :: "u64 \<rightharpoonup> page_entry" and x
    by (simp add: poke_def)
  then have "pokes a bs P x = None \<longleftrightarrow> P x = None" for P x
    by (induction bs arbitrary: a P) simp_all
  then show ?thesis using assms by (simp add: tlb_coherent_def)
qed

lemma copy_to_pages_correct:
  assumes "tlb_coherent m"
  shows "write_outcome f m a src cc (copy_to_pages (\<lambda>e. f (permissions e)) m a src cc)"
  using assms
proof (induction "\<lambda>e :: page_entry. f (permissions e)" m a src cc rule: copy_to_pages.induct)
  case (1 m a src cc)
  obtain r m1 where l: "lookup_page m (a div kPageSize) = (r, m1)" by fastforce
  then have r: "r = (if pages m (a div kPageSize) = None then None else Some (a div kPageSize))"
    and v: "tlb_variant m m1" and c: "tlb_coherent m1"
    using "1.prems" by (blast elim: lookup_pageE)+
  obtain t where t: "m1 = m\<lparr>tlb := t\<rparr>" using v by (auto simp: tlb_variant_def)
  show ?case
  proof (cases "src = []")
    case True
    then show ?thesis using "1.prems"
      by (subst copy_to_pages.simps) (auto simp: write_outcome_def touches_code_def intro: exI [of _ "tlb m"])
  next
    case ne: False
    then obtain n where n: "length src = Suc n" by (cases src) auto
    show ?thesis
    proof (cases "allowed_at f (pages m) a")
      case False
      then have "copy_to_pages (\<lambda>e. f (permissions e)) m a src cc = (False, cc, m1)"
        using ne l r t by (subst copy_to_pages.simps) (auto simp: allowed_at_def page_at_def split: option.splits)
      then show ?thesis
        using False n c t by (auto simp: write_outcome_def touches_code_def)
    next
      case True
      then obtain e where e: "pages m (a div kPageSize) = Some e" "f (permissions e)"
        by (auto simp: allowed_at_def split: option.splits)
      define k where "k = chunk_len (length src) a"
      have k: "k \<le> length src" "k \<le> 4096 - unat a mod 4096" "0 < k"
        using n by (auto simp: k_def chunk_len_def unat_page_rest)
      define m2 where "m2 = store_page (a div kPageSize) (unat (a mod kPageSize)) (take k src) m1"
      have m2: "m2 = m\<lparr>pages := pokes a (take k src) (pages m), tlb := t\<rparr>"
        using k e pokes_page [of "take k src" a "pages m" e]
        by (simp add: m2_def store_page_def t page_at_def Let_def)
      have "tlb_coherent m2"
        using tlb_coherent_pokes [OF c, of a "take k src"] by (simp add: m2 t tlb_coherent_def)
      define ch where "ch = (cc \<or> permissions e AND perm_execute \<noteq> 0)"
      have step: "copy_to_pages (\<lambda>e. f (permissions e)) m a src cc =
          copy_to_pages (\<lambda>e. f (permissions e)) m2 (a + word_of_nat k) (drop k src) ch"
        using ne l r e t
        by (subst copy_to_pages.simps) (simp add: page_at_def ch_def k_def m2_def Let_def)
      have IH: "write_outcome f m2 (a + word_of_nat k) (drop k src) ch
          (copy_to_pages (\<lambda>e. f (permissions e)) m2 (a + word_of_nat k) (drop k src) ch)"
        using "1.hyps" [OF ne l [symmetric], of "a div kPageSize"] \<open>tlb_coherent m2\<close> r e t
        by (simp add: page_at_def ch_def k_def m2_def Let_def)
      have pre: "allowed_prefix f (pages m) a k = k"
        unfolding allowed_prefix_full using k True by (auto simp: allowed_at_same_page)
      define j where "j = allowed_prefix f (pages m) (a + word_of_nat k) (length src - k)"
      have "allowed_prefix f (pages m) a (length src) = k + j"
        using allowed_prefix_add [of f "pages m" a k "length src - k"] pre k by (simp add: j_def)
      moreover have "touches_code (pages m) a k \<longleftrightarrow> permissions e AND perm_execute \<noteq> 0"
      proof -
        have "touches_code (pages m) a k \<longleftrightarrow> allowed_at executable_perm (pages m) a"
          using k by (auto simp: touches_code_def allowed_at_same_page)
        then show ?thesis using e by (simp add: allowed_at_def)
      qed
      moreover have "take (k + j) src = take k src @ take j (drop k src)"
        by (simp add: take_add)
      moreover have "k + j = length src \<longleftrightarrow> j = length src - k" using k by auto
      moreover have "length (take k src) = k" using k by simp
      ultimately show ?thesis
        using IH unfolding step write_outcome_def Let_def m2
        by (auto simp: touches_code_add pokes_append ch_def simp flip: j_def)
    qed
  qed
qed

section \<open>Reads after writes\<close>

lemma same_address:
  fixes x a :: u64
  assumes "x div kPageSize = a div kPageSize" "unat (x mod kPageSize) = unat (a mod kPageSize)"
  shows "x = a"
  using assms word_mod_div_equality [of x kPageSize] word_mod_div_equality [of a kPageSize]
  by (metis word_unat_eq_iff)

lemma byte_at_poke:
  "byte_at f (poke a b P) x = (if x = a then map_option (\<lambda>_. b) (byte_at f P x) else byte_at f P x)"
  using same_address [of x a] by (auto simp: byte_at_def poke_def split: option.splits)

lemma byte_at_pokes:
  assumes "length bs \<le> 2 ^ 64"
  shows "byte_at f (pokes a bs P) x =
    (if unat (x - a) < length bs then map_option (\<lambda>_. bs ! unat (x - a)) (byte_at f P x) else byte_at f P x)"
  using assms
proof (induction bs rule: rev_induct)
  case (snoc b bs)
  then have l: "length bs < 2 ^ 64" by simp
  have "x = a + word_of_nat (length bs) \<longleftrightarrow> unat (x - a) = length bs"
  proof -
    have "x = a + word_of_nat (length bs) \<longleftrightarrow> x - a = word_of_nat (length bs)"
      by (auto simp: algebra_simps)
    then show ?thesis using l by (simp add: word_unat_eq_iff [of "x - a"] unat_of_nat)
  qed
  then show ?case
    using snoc l by (auto simp: pokes_append byte_at_poke nth_append option.map_comp comp_def)
qed simp

lemma byte_at_allowed: "(\<exists>b. byte_at f P a = Some b) \<longleftrightarrow> allowed_at f P a"
  by (auto simp: byte_at_def allowed_at_def split: option.splits)

lemma read_bytes_allowed: "read_bytes f P a n \<noteq> None \<longleftrightarrow> allowed_prefix f P a n = n"
proof -
  have "those xs \<noteq> None \<longleftrightarrow> (\<forall>x \<in> set xs. x \<noteq> None)" for xs :: "u8 option list"
    by (induction xs) (auto split: option.splits)
  then show ?thesis
    by (auto simp: read_bytes_def allowed_prefix_full byte_at_allowed)
qed

lemma read_bytes_pokes_same:
  assumes "length bs \<le> 2 ^ 64" "allowed_prefix g P a (length bs) = length bs"
  shows "read_bytes g (pokes a bs P) a (length bs) = Some bs"
proof -
  have "byte_at g (pokes a bs P) (a + word_of_nat i) = Some (bs ! i)" if "i < length bs" for i
  proof -
    have u: "unat (word_of_nat i :: u64) = i" using that assms(1) by (simp add: unat_of_nat)
    have "byte_at g P (a + word_of_nat i) \<noteq> None"
      using that assms(2) by (simp add: byte_at_allowed allowed_prefix_full)
    then show ?thesis using that u by (auto simp: byte_at_pokes [OF assms(1)])
  qed
  then have "map (\<lambda>i. byte_at g (pokes a bs P) (a + word_of_nat i)) [0..<length bs] =
      map (\<lambda>i. Some (bs ! i)) [0..<length bs]" by (intro map_cong) auto
  then show ?thesis by (simp only: read_bytes_def those_map_Some map_nth)
qed

lemma read_bytes_pokes_disjoint:
  assumes "length bs \<le> 2 ^ 64" "\<forall>i<n. length bs \<le> unat (x + word_of_nat i - a)"
  shows "read_bytes g (pokes a bs P) x n = read_bytes g P x n"
  unfolding read_bytes_def
  by (intro arg_cong [where f = those] map_cong)
    (use assms(2) in \<open>auto simp: byte_at_pokes [OF assms(1)] dest: leD\<close>)

end
