(* ===== verification/Memory_Access.thy ===== *)
theory Memory_Access
  imports Memory_Facts
begin

text \<open>
  Functional behaviour of the public accessors of \<^verbatim>\<open>Memory\<close>: with neither hooks, MMIO nor
  passthrough callbacks in place, reads and writes are the byte-wise ones, whichever of
  the single-page fast path and the page walk is taken; and the range queries, mapping and
  snapshot operations do what their names say.
\<close>

section \<open>Plain memories\<close>

definition plain :: "'w memory \<Rightarrow> bool" where
  "plain m \<longleftrightarrow> passthrough_read m = None \<and> passthrough_write m = None \<and>
     \<not> has_any_access_hooks m \<and> mmio_regions m = [] \<and> tlb_coherent m"

abbreviation can :: "access_kind \<Rightarrow> u8 \<Rightarrow> bool" where
  "can kind \<equiv> \<lambda>p. has_permission p kind"

lemma plain_tlb: "plain m \<Longrightarrow> tlb_coherent m" by (simp add: plain_def)

lemma plain_no_mmio [simp]: "plain m \<Longrightarrow> find_mmio_region m a n = None"
  by (simp add: plain_def find_mmio_region_def)

lemma plain_access_allowed [simp]: "plain m \<Longrightarrow> access_allowed m ev = (True, m)"
  by (simp add: plain_def access_allowed_def)

lemma plain_variant: "plain m \<Longrightarrow> tlb_variant m m' \<Longrightarrow> tlb_coherent m' \<Longrightarrow> plain m'"
  by (simp add: plain_def tlb_variant_fields)

lemma fits_page:
  fixes a n :: u64
  assumes "unat n + 4096 \<le> 2 ^ 64"
  shows "a mod kPageSize + n \<le> kPageSize \<longleftrightarrow> unat n \<le> 4096 - unat a mod 4096"
proof -
  have o: "unat (a mod kPageSize) = unat a mod 4096" by (simp add: unat_mod kPageSize_def)
  have lt: "unat a mod 4096 < 4096" by simp
  then have "unat (a mod kPageSize + n) = unat a mod 4096 + unat n"
    using assms o by (simp add: unat_word_ariths)
  then have "a mod kPageSize + n \<le> kPageSize \<longleftrightarrow> unat a mod 4096 + unat n \<le> 4096"
    by (simp add: word_le_nat_alt kPageSize_def)
  then show ?thesis using lt by linarith
qed

lemma mem_read_plain:
  assumes "plain m" "n \<noteq> 0" "unat n + 4096 \<le> 2 ^ 64"
  shows "fst (mem_read m a n kind) = read_bytes (can kind) (pages m) a (unat n) \<and>
         tlb_variant m (snd (mem_read m a n kind)) \<and> plain (snd (mem_read m a n kind))"
proof (cases "unat n \<le> 4096 - unat a mod 4096")
  case True
  obtain r m1 where l: "lookup_page m (a div kPageSize) = (r, m1)" by fastforce
  then have r: "r = (if pages m (a div kPageSize) = None then None else Some (a div kPageSize))"
    and v: "tlb_variant m m1" and c: "tlb_coherent m1"
    using plain_tlb [OF assms(1)] by (blast elim: lookup_pageE)+
  have pos: "0 < unat n" using assms(2) by (simp add: unat_gt_0)
  have fast: "fst (mem_read m a n kind) = read_bytes (can kind) (pages m) a (unat n) \<and>
      snd (mem_read m a n kind) = m1"
  proof (cases "allowed_at (can kind) (pages m) a")
    case False
    then have "read_bytes (can kind) (pages m) a (unat n) = None"
      using byte_at_allowed [of "can kind" "pages m" a] pos
      by (auto intro!: read_bytes_fail simp flip: not_Some_eq)
    then show ?thesis
      using assms True False l r v fits_page [OF assms(3), of a]
      by (auto simp: mem_read_def plain_def allowed_at_def page_at_def tlb_variant_fields split: option.splits)
  next
    case ok: True
    then obtain e where e: "pages m (a div kPageSize) = Some e" "has_permission (permissions e) kind"
      by (auto simp: allowed_at_def split: option.splits)
    then show ?thesis
      using assms l r v fits_page [OF assms(3), of a] True
        read_bytes_page [where n = "unat n" and a = a and P = "pages m" and e = e and f = "can kind"]
      by (simp add: mem_read_def plain_def page_at_def tlb_variant_fields)
  qed
  then show ?thesis using v c assms(1) by (simp add: plain_variant)
next
  case False
  have "mem_read m a n kind = copy_from_pages (\<lambda>e. has_permission (permissions e) kind) m a n"
    using assms False fits_page [OF assms(3), of a] by (simp add: mem_read_def plain_def find_mmio_region_def)
  then show ?thesis
    using copy_from_pages_correct [where f = "can kind", OF plain_tlb [OF assms(1)], of a n] assms(1)
    by (simp add: plain_variant)
qed

text \<open>The state after a write of \<open>bs\<close>: the permitted prefix is stored, and a completed write
  that touched an executable page advances the code epoch.\<close>

definition after_write :: "(u8 \<Rightarrow> bool) \<Rightarrow> 'w memory \<Rightarrow> u64 \<Rightarrow> u8 list \<Rightarrow> bool \<times> 'w memory \<Rightarrow> bool" where
  "after_write f m a bs r =
     (let k = allowed_prefix f (pages m) a (length bs)
      in fst r = (k = length bs) \<and>
         (\<exists>t. snd r = m\<lparr>pages := pokes a (take k bs) (pages m), tlb := t,
                code_epoch := code_epoch m +
                  (if k = length bs \<and> touches_code (pages m) a k then 1 else 0)\<rparr>) \<and>
         tlb_coherent (snd r))"

lemma tlb_coherent_code_epoch [simp]: "tlb_coherent (m\<lparr>code_epoch := c\<rparr>) = tlb_coherent m"
  by (simp add: tlb_coherent_def)

lemma finish_write_correct:
  assumes "tlb_coherent m"
  shows "after_write f m a bs (finish_write (copy_to_pages (\<lambda>e. f (permissions e)) m a bs False))"
proof -
  obtain ok ch m' where r: "copy_to_pages (\<lambda>e. f (permissions e)) m a bs False = (ok, ch, m')"
    using prod_cases3 by blast
  show ?thesis
    using copy_to_pages_correct [OF assms, of f a bs False] unfolding r
    by (auto simp: write_outcome_def after_write_def finish_write_def Let_def)
qed

lemma mem_write_plain:
  assumes "plain m" "bs \<noteq> []" "length bs + 4096 \<le> 2 ^ 64"
  shows "after_write (can kind) m a bs (mem_write m a bs kind)"
proof -
  let ?n = "word_of_nat (length bs) :: u64"
  have n: "unat ?n = length bs" using assms(3) by (simp add: unat_of_nat)
  have fits: "a mod kPageSize + ?n \<le> kPageSize \<longleftrightarrow> length bs \<le> 4096 - unat a mod 4096"
    using fits_page [of ?n a] n assms(3) by simp
  show ?thesis
  proof (cases "length bs \<le> 4096 - unat a mod 4096")
    case False
    then have "mem_write m a bs kind =
        finish_write (copy_to_pages (\<lambda>e. has_permission (permissions e) kind) m a bs False)"
      using assms fits plain_access_allowed [OF assms(1)] plain_no_mmio [OF assms(1)]
      by (simp add: mem_write_def plain_def Let_def)
    then show ?thesis
      using finish_write_correct [where f = "can kind", OF plain_tlb [OF assms(1)], of a bs] by simp
  next
    case True
    obtain r m1 where l: "lookup_page m (a div kPageSize) = (r, m1)" by fastforce
    then have r: "r = (if pages m (a div kPageSize) = None then None else Some (a div kPageSize))"
      and v: "tlb_variant m m1" and c: "tlb_coherent m1"
      using plain_tlb [OF assms(1)] by (blast elim: lookup_pageE)+
    obtain t where t: "m1 = m\<lparr>tlb := t\<rparr>" using v by (auto simp: tlb_variant_def)
    show ?thesis
    proof (cases "allowed_at (can kind) (pages m) a")
      case False
      then have "mem_write m a bs kind = (False, m1)"
        using assms True l r t fits
        by (auto simp: mem_write_def plain_def Let_def allowed_at_def page_at_def split: option.splits)
      moreover have "allowed_prefix (can kind) (pages m) a (length bs) = 0"
        using False assms(2) by (cases bs) auto
      ultimately show ?thesis using assms(2) c t by (auto simp: after_write_def touches_code_def)
    next
      case ok: True
      then obtain e where e: "pages m (a div kPageSize) = Some e" "has_permission (permissions e) kind"
        by (auto simp: allowed_at_def split: option.splits)
      have full: "allowed_prefix (can kind) (pages m) a (length bs) = length bs"
        unfolding allowed_prefix_full using ok True by (auto simp: allowed_at_same_page)
      have code: "touches_code (pages m) a (length bs) \<longleftrightarrow> permissions e AND perm_execute \<noteq> 0"
      proof -
        have "touches_code (pages m) a (length bs) \<longleftrightarrow> allowed_at executable_perm (pages m) a"
          using True assms(2) by (auto simp: touches_code_def allowed_at_same_page)
        then show ?thesis using e by (simp add: allowed_at_def)
      qed
      have st: "store_page (a div kPageSize) (unat (a mod kPageSize)) bs m1 =
          m\<lparr>pages := pokes a bs (pages m), tlb := t\<rparr>"
        using pokes_page [where P = "pages m", OF True e(1)] e by (simp add: store_page_def t page_at_def Let_def)
      have co: "tlb_coherent (m\<lparr>pages := pokes a bs (pages m), tlb := t\<rparr>)"
        using tlb_coherent_pokes [OF c, of a bs] t by (simp add: tlb_coherent_def)
      have "mem_write m a bs kind =
          (True, if permissions e AND perm_execute \<noteq> 0
                 then m\<lparr>pages := pokes a bs (pages m), tlb := t, code_epoch := code_epoch m + 1\<rparr>
                 else m\<lparr>pages := pokes a bs (pages m), tlb := t\<rparr>)"
        using assms True l r e fits st by (simp add: mem_write_def plain_def Let_def page_at_def t)
      then show ?thesis
        using full code co by (auto simp: after_write_def Let_def tlb_coherent_def)
    qed
  qed
qed

section \<open>The store law\<close>

lemma write_implies_read: "has_permission p data_write \<Longrightarrow> has_permission p data_read"
  by simp

lemma allowed_at_mono: "allowed_at f P a \<Longrightarrow> (\<And>p. f p \<Longrightarrow> g p) \<Longrightarrow> allowed_at g P a"
  by (auto simp: allowed_at_def split: option.splits)

lemma plain_after_write: "plain m \<Longrightarrow> after_write f m a bs r \<Longrightarrow> plain (snd r)"
  by (auto simp: plain_def after_write_def Let_def)

lemma after_write_ok:
  assumes "after_write f m a bs (True, m')"
  shows "allowed_prefix f (pages m) a (length bs) = length bs"
    and "pages m' = pokes a bs (pages m)"
  using assms by (auto simp: after_write_def Let_def)

text \<open>In a plain memory, a successful write is what a later read of the same range returns, across any
  number of pages and whatever the cache holds.\<close>

theorem write_read_roundtrip:
  assumes "plain m" "bs \<noteq> []" "length bs + 4096 \<le> 2 ^ 64"
    and "mem_write m a bs data_write = (True, m')"
  shows "fst (mem_read m' a (word_of_nat (length bs)) data_read) = Some bs"
proof -
  note w = mem_write_plain [OF assms(1-3), of data_write a, unfolded assms(4)]
  have p: "plain m'" using plain_after_write [OF assms(1) w] by simp
  have u: "unat (word_of_nat (length bs) :: u64) = length bs" using assms(3) by (simp add: unat_of_nat)
  then have nz: "(word_of_nat (length bs) :: u64) \<noteq> 0"
    using assms(2) by (metis length_0_conv unat_0)
  have "allowed_prefix (can data_read) (pages m) a (length bs) = length bs"
    using after_write_ok(1) [OF w] unfolding allowed_prefix_full
    by (meson allowed_at_mono write_implies_read)
  then show ?thesis
    using mem_read_plain [OF p nz, of a data_read] u assms(3)
      read_bytes_pokes_same [of bs "can data_read" "pages m" a] after_write_ok(2) [OF w]
    by simp
qed

definition ranges_disjoint :: "u64 \<Rightarrow> nat \<Rightarrow> u64 \<Rightarrow> nat \<Rightarrow> bool" where
  "ranges_disjoint a n x k \<longleftrightarrow> (\<forall>i<k. n \<le> unat (x + word_of_nat i - a))"

text \<open>A write, failed ones included, changes no byte outside the written range.\<close>

theorem write_read_frame:
  assumes "plain m" "bs \<noteq> []" "length bs + 4096 \<le> 2 ^ 64" "n \<noteq> 0" "unat n + 4096 \<le> 2 ^ 64"
    and "ranges_disjoint a (length bs) x (unat n)"
  shows "fst (mem_read (snd (mem_write m a bs kind)) x n kind2) = fst (mem_read m x n kind2)"
proof -
  note w = mem_write_plain [OF assms(1-3), of kind a]
  define k where "k = allowed_prefix (can kind) (pages m) a (length bs)"
  have p: "plain (snd (mem_write m a bs kind))" using plain_after_write [OF assms(1) w] .
  have pg: "pages (snd (mem_write m a bs kind)) = pokes a (take k bs) (pages m)"
    using w by (auto simp: after_write_def Let_def k_def)
  have "\<forall>i<unat n. length (take k bs) \<le> unat (x + word_of_nat i - a)"
    using assms(6) by (auto simp: ranges_disjoint_def)
  then show ?thesis
    using mem_read_plain [OF p assms(4,5), of x kind2] mem_read_plain [OF assms(1,4,5), of x kind2]
      read_bytes_pokes_disjoint [of "take k bs" "unat n" x a] assms(3) pg
    by simp
qed

text \<open>C7: without hooks, MMIO and passthrough, \<^verbatim>\<open>Memory::read\<close> returns the bytes of the page
  table one address after the other and fails when one of them is not accessible; both of its paths
  agree, and only the lookup cache changes.\<close>

theorem read_correct:
  assumes "plain m" "n \<noteq> 0" "unat n + 4096 \<le> 2 ^ 64"
  shows "fst (mem_read m a n kind) = read_bytes (can kind) (pages m) a (unat n) \<and>
         tlb_variant m (snd (mem_read m a n kind)) \<and> plain (snd (mem_read m a n kind))"
  using mem_read_plain [OF assms] .

text \<open>C8: without hooks, MMIO and passthrough, \<^verbatim>\<open>Memory::write\<close> stores exactly the bytes before
  the first inaccessible one, succeeds when there is no such byte, and advances the code epoch
  when a completed write touched an executable page.\<close>

theorem write_correct:
  assumes "plain m" "bs \<noteq> []" "length bs + 4096 \<le> 2 ^ 64"
  shows "after_write (can kind) m a bs (mem_write m a bs kind)"
  using mem_write_plain [OF assms] .

section \<open>Range queries\<close>

lemma pages_satisfy_correct:
  assumes "tlb_coherent m"
  shows "fst (pages_satisfy (\<lambda>e. f (permissions e)) m a n) \<longleftrightarrow>
           allowed_prefix f (pages m) a (unat n) = unat n"
    and "tlb_variant m (snd (pages_satisfy (\<lambda>e. f (permissions e)) m a n))"
    and "tlb_coherent (snd (pages_satisfy (\<lambda>e. f (permissions e)) m a n))"
proof -
  have "(fst (pages_satisfy (\<lambda>e. f (permissions e)) m a n) \<longleftrightarrow>
           allowed_prefix f (pages m) a (unat n) = unat n) \<and>
        tlb_variant m (snd (pages_satisfy (\<lambda>e. f (permissions e)) m a n)) \<and>
        tlb_coherent (snd (pages_satisfy (\<lambda>e. f (permissions e)) m a n))"
    using assms
  proof (induction "\<lambda>e :: page_entry. f (permissions e)" m a n rule: pages_satisfy.induct)
    case (1 m a n)
    obtain r m1 where l: "lookup_page m (a div kPageSize) = (r, m1)" by fastforce
    then have r: "r = (if pages m (a div kPageSize) = None then None else Some (a div kPageSize))"
      and v: "tlb_variant m m1" and c: "tlb_coherent m1"
      using "1.prems" by (blast elim: lookup_pageE)+
    show ?case
    proof (cases "n = 0")
      case True
      then show ?thesis using "1.prems" by (subst (1 2 3) pages_satisfy.simps) simp
    next
      case n0: False
      then obtain n' where n': "unat n = Suc n'" by (metis not0_implies_Suc unat_eq_zero)
      show ?thesis
      proof (cases "allowed_at f (pages m) a")
        case False
        then have "pages_satisfy (\<lambda>e. f (permissions e)) m a n = (False, m1)"
          using n0 l r v by (subst pages_satisfy.simps)
            (auto simp: allowed_at_def page_at_def tlb_variant_fields split: option.splits)
        then show ?thesis using False v c n' by simp
      next
        case True
        define k where "k = chunk_size n a"
        have ck: "unat k = min (unat n) (4096 - unat a mod 4096)" by (simp add: k_def unat_chunk_size)
        have sub: "unat (n - k) = unat n - unat k" using ck by (simp add: unat_sub word_le_nat_alt)
        have kle: "unat k \<le> unat n" using ck by simp
        have pre: "allowed_prefix f (pages m) a (unat k) = unat k"
          unfolding allowed_prefix_full using ck True by (auto simp: allowed_at_same_page)
        have add: "allowed_prefix f (pages m) a (unat n) =
            unat k + allowed_prefix f (pages m) (a + k) (unat n - unat k)"
          using allowed_prefix_add [of f "pages m" a "unat k" "unat n - unat k"] pre kle by simp
        obtain e where e: "pages m (a div kPageSize) = Some e" "f (permissions e)"
          using True by (auto simp: allowed_at_def split: option.splits)
        then have e1: "page_at m1 (a div kPageSize) = e" using v by (simp add: page_at_def tlb_variant_fields)
        have r1: "r = Some (a div kPageSize)" using r e by simp
        have step: "pages_satisfy (\<lambda>e. f (permissions e)) m a n =
            pages_satisfy (\<lambda>e. f (permissions e)) m1 (a + k) (n - k)"
          using n0 l r1 e e1 by (subst pages_satisfy.simps) (simp add: k_def)
        have IH: "(fst (pages_satisfy (\<lambda>e. f (permissions e)) m1 (a + k) (n - k)) \<longleftrightarrow>
             allowed_prefix f (pages m1) (a + k) (unat (n - k)) = unat (n - k)) \<and>
            tlb_variant m1 (snd (pages_satisfy (\<lambda>e. f (permissions e)) m1 (a + k) (n - k))) \<and>
            tlb_coherent (snd (pages_satisfy (\<lambda>e. f (permissions e)) m1 (a + k) (n - k)))"
          using "1.hyps" [OF n0 l [symmetric] r1] e e1 c by (simp add: k_def)
        have "pages m1 = pages m" using v by (simp add: tlb_variant_fields)
        then show ?thesis
          unfolding step using IH tlb_variant_trans [OF v] add sub kle by auto
      qed
    qed
  qed
  then show "fst (pages_satisfy (\<lambda>e. f (permissions e)) m a n) \<longleftrightarrow>
           allowed_prefix f (pages m) a (unat n) = unat n"
    and "tlb_variant m (snd (pages_satisfy (\<lambda>e. f (permissions e)) m a n))"
    and "tlb_coherent (snd (pages_satisfy (\<lambda>e. f (permissions e)) m a n))" by blast+
qed

text \<open>\<^verbatim>\<open>has_permissions\<close> holds exactly when every byte of the range lies in a mapped page
  whose permissions, read implied by execute, contain the required ones.\<close>

theorem has_permissions_iff:
  assumes "tlb_coherent m"
  shows "fst (has_permissions m a n required) \<longleftrightarrow>
    (\<forall>i<unat n. allowed_at (\<lambda>p. effective_permissions p AND required = required) (pages m)
                  (a + word_of_nat i))"
  using pages_satisfy_correct(1) [OF assms, of "\<lambda>p. effective_permissions p AND required = required" a n]
  by (simp add: has_permissions_def allowed_prefix_full)

section \<open>Mapping\<close>

lemma for_pages_invariant:
  assumes "\<And>p m. I m \<Longrightarrow> I (body p m)" "I m"
  shows "I (for_pages body p q m)"
  using assms
  by (induction body p q m rule: for_pages.induct) (subst for_pages.simps, auto)

lemma for_pages_pages:
  assumes "\<And>k m. pages (body k m) = (pages m)(k := upd (pages m k))"
  shows "pages (for_pages body p q m) k = (if p \<le> k \<and> k < q then upd (pages m k) else pages m k)"
  using assms
proof (induction body p q m rule: for_pages.induct)
  case (1 body p q m)
  show ?case
  proof (cases "p < q")
    case True
    have le: "p + 1 \<le> k \<longleftrightarrow> p \<le> k \<and> k \<noteq> p" if "k < q" for k
    proof -
      have "unat (p + 1) = Suc (unat p)" using unat_inc [OF True] .
      then show ?thesis by (auto simp: word_le_nat_alt word_unat_eq_iff)
    qed
    have "pages (for_pages body (p + 1) q (body p m)) k =
        (if p + 1 \<le> k \<and> k < q then upd (pages (body p m) k) else pages (body p m) k)"
      using "1.IH" [OF True "1.prems"] .
    then show ?thesis
      using True le [of k] "1.prems" [of p m] by (subst for_pages.simps) auto
  qed (subst for_pages.simps, auto)
qed

lemma mem_map_pages:
  "pages (mem_map base sz perms m) k =
     (if first_page_of base \<le> k \<and> k < last_page_of base sz
      then Some ((case pages m k of None \<Rightarrow> zero_page | Some e \<Rightarrow> e)\<lparr>permissions := perms\<rparr>)
      else pages m k)"
  unfolding mem_map_def
  by (subst for_pages_pages [where upd = "\<lambda>x. Some ((case x of None \<Rightarrow> zero_page | Some e \<Rightarrow> e)\<lparr>permissions := perms\<rparr>)"])
    (auto simp: map_page_def invalidate_tlb_def bump_page_code_epoch_def Let_def)

lemma mem_unmap_pages:
  "pages (mem_unmap base sz m) k =
     (if first_page_of base \<le> k \<and> k < last_page_of base sz then None else pages m k)"
  unfolding mem_unmap_def
  by (subst for_pages_pages [where upd = "\<lambda>_. None"])
    (auto simp: invalidate_tlb_def bump_page_code_epoch_def)

lemma mem_reprotect_pages:
  "pages (mem_reprotect base sz perms m) k =
     (if first_page_of base \<le> k \<and> k < last_page_of base sz
      then map_option (\<lambda>e. e\<lparr>permissions := perms\<rparr>) (pages m k) else pages m k)"
  unfolding mem_reprotect_def
  by (subst for_pages_pages [where upd = "map_option (\<lambda>e. e\<lparr>permissions := perms\<rparr>)"])
    (auto simp: reprotect_page_def bump_page_code_epoch_def split: option.splits)

lemma in_page_range:
  assumes "unat base + unat sz + 4096 \<le> 2 ^ 64" "unat base \<le> unat x" "unat x < unat base + unat sz"
  shows "first_page_of base \<le> x div kPageSize \<and> x div kPageSize < last_page_of base sz"
proof -
  have "unat (base + sz + kPageSize - 1) = unat base + unat sz + 4095"
  proof -
    have e: "base + sz + kPageSize - 1 = base + (sz + 4095)" by (simp add: kPageSize_def)
    have "unat (sz + 4095) = unat sz + 4095" using assms(1) by (simp add: unat_word_ariths)
    then show ?thesis unfolding e using assms(1) by (simp add: unat_word_ariths)
  qed
  then have l: "unat (last_page_of base sz) = (unat base + unat sz + 4095) div 4096"
    by (simp add: last_page_of_def unat_div kPageSize_def)
  have "unat x div 4096 < (unat base + unat sz + 4095) div 4096"
    using assms(3) by linarith
  moreover have "unat base div 4096 \<le> unat x div 4096" using assms(2) by (rule div_le_mono)
  ultimately show ?thesis
    using l by (simp add: first_page_of_def word_le_nat_alt word_less_nat_alt unat_div kPageSize_def)
qed

text \<open>After \<^verbatim>\<open>map\<close> of a range that stays below the last page of the address space, every byte of the
  range has the requested permissions; contents of pages that were mapped before are kept and new
  pages read as zero.\<close>

theorem map_makes_accessible:
  assumes "unat base + unat sz + 4096 \<le> 2 ^ 64" "unat base \<le> unat x" "unat x < unat base + unat sz"
    and "f perms"
  shows "byte_at f (pages (mem_map base sz perms m)) x =
    Some (case byte_at (\<lambda>_. True) (pages m) x of None \<Rightarrow> 0 | Some b \<Rightarrow> b)"
  using in_page_range [OF assms(1-3)] assms(4)
  by (auto simp: byte_at_def mem_map_pages zero_page_def split: option.splits)

text \<open>After \<^verbatim>\<open>unmap\<close> of such a range no byte of it is accessible, under any permission test.\<close>

theorem unmap_removes_access:
  assumes "unat base + unat sz + 4096 \<le> 2 ^ 64" "unat base \<le> unat x" "unat x < unat base + unat sz"
  shows "byte_at f (pages (mem_unmap base sz m)) x = None"
  using in_page_range [OF assms] by (simp add: byte_at_def mem_unmap_pages)

text \<open>The rounding of the range end wraps: mapping the last page of the address space maps
  nothing.\<close>

theorem map_top_page_maps_nothing:
  "pages (mem_map 0xFFFFFFFFFFFFF000 0x1000 perms m) = pages m"
  by (rule ext) (simp add: mem_map_pages first_page_of_def last_page_of_def kPageSize_def)

section \<open>Snapshots\<close>

lemma epoch_advances: "x \<noteq> NOT 0 \<Longrightarrow> x < x + 1" for x :: u64
  using unat_inc [of x "- 1"] word_order.not_eq_extremum [of x]
  by (simp add: word_less_nat_alt)

lemma emplace_page_pages:
  "emplace_page p m = m\<lparr>pages := pages (emplace_page p m)\<rparr>"
  by (simp add: emplace_page_def split: option.splits)

lemma fold_emplace_pages:
  "\<exists>P. fold emplace_page ps m = m\<lparr>pages := P\<rparr>"
proof (induction ps arbitrary: m)
  case Nil
  show ?case by (auto intro: exI [of _ "pages m"])
next
  case (Cons p ps)
  obtain P where "fold emplace_page ps (emplace_page p m) = (emplace_page p m)\<lparr>pages := P\<rparr>"
    using Cons.IH by blast
  then show ?case by (subst (asm) (2) emplace_page_pages) auto
qed

lemma fold_emplace_lookup:
  assumes "distinct ks"
  shows "pages (fold emplace_page
      (map (\<lambda>k. \<lparr>ps_page_index = k, ps_data = d k, ps_permissions = g k\<rparr>) ks) m) k =
    (case pages m k of Some e \<Rightarrow> Some e
     | None \<Rightarrow> if k \<in> set ks then Some \<lparr>page_data = d k, permissions = g k\<rparr> else None)"
  using assms
  by (induction ks arbitrary: m) (auto simp: emplace_page_def split: option.splits)

text \<open>Restoring a snapshot reproduces the page table it was taken from, contents and permissions, in whatever
  memory it is restored to, and stale cache entries of that memory are never used.\<close>

theorem snapshot_restore_pages:
  assumes "tlb_coherent m0" "tlb_epoch m0 \<noteq> NOT 0"
  shows "pages (restore_pages (snapshot_pages m) m0) = pages m \<and>
         tlb_coherent (restore_pages (snapshot_pages m) m0)"
proof
  let ?m1 = "(invalidate_tlb (bump_page_code_epoch m0))\<lparr>pages := Map.empty\<rparr>"
  show p: "pages (restore_pages (snapshot_pages m) m0) = pages m"
  proof (rule ext)
    fix k
    have "finite (dom (pages m))" by simp
    then show "pages (restore_pages (snapshot_pages m) m0) k = pages m k"
      by (cases "pages m k")
        (auto simp: restore_pages_def snapshot_pages_def fold_emplace_lookup page_at_def domIff)
  qed
  obtain P where P: "restore_pages (snapshot_pages m) m0 = ?m1\<lparr>pages := P\<rparr>"
    using fold_emplace_pages unfolding restore_pages_def by blast
  have "slot_epoch (tlb m0 i) < tlb_epoch m0 + 1" for i
  proof -
    have "tlb_epoch m0 < tlb_epoch m0 + 1" using assms(2) by (rule epoch_advances)
    then show ?thesis using assms(1) by (auto simp: tlb_coherent_def intro: le_less_trans)
  qed
  then show "tlb_coherent (restore_pages (snapshot_pages m) m0)"
    unfolding P tlb_coherent_def
    by (auto simp: invalidate_tlb_def bump_page_code_epoch_def less_imp_le dest: less_imp_neq)
qed

end
