(* ===== verification/Memory_Invariant.thy ===== *)
theory Memory_Invariant
  imports Memory_Access
begin

text \<open>
  The invariant of the memory component and its preservation by every public operation: the lookup
  cache is coherent, the bounding box covers the MMIO regions, and the hook registry is settled
  between accesses. A step relation over the operations gives it for every memory the program can
  build.
\<close>

section \<open>The hook registry\<close>

definition kinds_of :: "'w access_hook_entry list \<Rightarrow> u8" where
  "kinds_of hs = fold (\<lambda>e k. k OR he_kinds e) hs 0"

definition hooks_settled :: "'w memory \<Rightarrow> bool" where
  "hooks_settled m \<longleftrightarrow> \<not> dispatching_access_hooks m \<and> pending_removed_access_hooks m = [] \<and>
     pending_added_access_hooks m = [] \<and> has_any_access_hooks m = (access_hooks m \<noteq> []) \<and>
     active_access_hook_kinds m = kinds_of (access_hooks m)"

text \<open>Two memories that differ in the hook registry and the embedder's state only.\<close>

definition registry_variant :: "'w memory \<Rightarrow> 'w memory \<Rightarrow> bool" where
  "registry_variant m m' \<longleftrightarrow> pages m' = pages m \<and> tlb m' = tlb m \<and> tlb_epoch m' = tlb_epoch m \<and>
     mmio_regions m' = mmio_regions m \<and> mmio_min_base m' = mmio_min_base m \<and>
     mmio_max_end m' = mmio_max_end m \<and> passthrough_read m' = passthrough_read m \<and>
     passthrough_write m' = passthrough_write m \<and> code_epoch m' = code_epoch m \<and>
     page_epoch m' = page_epoch m"

lemma registry_variant_refl [simp]: "registry_variant m m"
  by (simp add: registry_variant_def)

lemma registry_variant_trans:
  "registry_variant m1 m2 \<Longrightarrow> registry_variant m2 m3 \<Longrightarrow> registry_variant m1 m3"
  by (simp add: registry_variant_def)

lemma refresh_fields [simp]:
  "access_hooks (refresh_access_hook_state m) = access_hooks m"
  "pending_removed_access_hooks (refresh_access_hook_state m) = pending_removed_access_hooks m"
  "pending_added_access_hooks (refresh_access_hook_state m) = pending_added_access_hooks m"
  "dispatching_access_hooks (refresh_access_hook_state m) = dispatching_access_hooks m"
  by (simp_all add: refresh_access_hook_state_def Let_def)

lemma refresh_variant: "registry_variant m m1 \<Longrightarrow> registry_variant m (refresh_access_hook_state m1)"
  by (simp add: registry_variant_def refresh_access_hook_state_def Let_def)

lemma refresh_settles:
  assumes "\<not> dispatching_access_hooks m" "pending_removed_access_hooks m = []" "pending_added_access_hooks m = []"
  shows "hooks_settled (refresh_access_hook_state m)"
  using assms by (simp add: hooks_settled_def kinds_of_def refresh_access_hook_state_def Let_def)

lemma hook_op_variant: "registry_variant m (exec_access_hook_op op m)"
  by (cases op)
    (auto simp: add_access_hook_def remove_access_hook_def Let_def intro!: refresh_variant,
     auto simp: registry_variant_def)

lemma hook_ops_variant: "registry_variant m (fold exec_access_hook_op ops m)"
  by (induction ops arbitrary: m) (auto intro: registry_variant_trans hook_op_variant)

text \<open>While hooks run, registrations go to the pending lists.\<close>

interpretation mr: deferred_registry dispatching_access_hooks access_hooks exec_access_hook_op
proof
  fix m :: "'w memory" and op
  assume "dispatching_access_hooks m"
  then show "dispatching_access_hooks (exec_access_hook_op op m)" "access_hooks (exec_access_hook_op op m) = access_hooks m"
    by (cases op; simp add: add_access_hook_def remove_access_hook_def Let_def)+
qed

lemma dispatch_deferred:
  assumes "dispatching_access_hooks m"
  shows "dispatching_access_hooks (snd (dispatch_access_hooks hs ev m)) \<and>
         access_hooks (snd (dispatch_access_hooks hs ev m)) = access_hooks m"
  using assms
  by (induction hs ev m rule: dispatch_access_hooks.induct)
    (auto simp: mr.perform_all Let_def split: prod.splits)

lemma dispatch_variant: "registry_variant m (snd (dispatch_access_hooks hs ev m))"
proof (induction hs ev m rule: dispatch_access_hooks.induct)
  case (2 hook hooks event m)
  have w: "registry_variant m (fold exec_access_hook_op ops (m\<lparr>world := w\<rparr>))" for ops w
    using hook_ops_variant [of "m\<lparr>world := w\<rparr>" ops] by (simp add: registry_variant_def)
  obtain ok ops w' where r: "run_access_hook (he_callback hook) event (world m) = (ok, ops, w')"
    using prod_cases3 by blast
  let ?m1 = "fold exec_access_hook_op ops (m\<lparr>world := w'\<rparr>)"
  show ?case
  proof (cases "hook_matches hook event \<and> ok")
    case True
    then have "registry_variant ?m1 (snd (dispatch_access_hooks hooks event ?m1))"
      using "2.IH"(2) [OF _ r [symmetric] refl refl] by simp
    then have "registry_variant m (snd (dispatch_access_hooks hooks event ?m1))"
      by (rule registry_variant_trans [OF w])
    then show ?thesis using True r by (simp add: Let_def)
  next
    case False
    then show ?thesis using "2.IH"(1) w r by (auto simp: Let_def)
  qed
qed simp

lemma fold_remove_hooks:
  "fold (\<lambda>hid m. m\<lparr>access_hooks := filter (\<lambda>e. he_id e \<noteq> hid) (access_hooks m),
        pending_added_access_hooks := filter (\<lambda>e. he_id e \<noteq> hid) (pending_added_access_hooks m)\<rparr>) ids m =
   m\<lparr>access_hooks := filter (\<lambda>e. he_id e \<notin> set ids) (access_hooks m),
     pending_added_access_hooks := filter (\<lambda>e. he_id e \<notin> set ids) (pending_added_access_hooks m)\<rparr>"
  by (induction ids arbitrary: m) (simp_all add: conj_commute)

lemma apply_pending_hooks:
  "access_hooks (apply_pending_access_hook_ops m) =
     filter (\<lambda>e. he_id e \<notin> set (pending_removed_access_hooks m))
       (access_hooks m @ pending_added_access_hooks m)"
  by (simp add: apply_pending_access_hook_ops_def fold_remove_hooks Let_def)

lemma apply_pending_settles:
  "\<not> dispatching_access_hooks m \<Longrightarrow> hooks_settled (apply_pending_access_hook_ops m)"
  unfolding apply_pending_access_hook_ops_def Let_def
  by (rule refresh_settles) (simp_all add: fold_remove_hooks)

lemma apply_pending_variant:
  "registry_variant m m1 \<Longrightarrow> registry_variant m (apply_pending_access_hook_ops m1)"
  unfolding apply_pending_access_hook_ops_def Let_def
  by (rule refresh_variant) (simp add: fold_remove_hooks registry_variant_def)

lemma access_allowed_variant: "registry_variant m (snd (access_allowed m ev))"
proof (cases "has_any_access_hooks m")
  case True
  obtain ok m1 where d: "dispatch_access_hooks (access_hooks m) ev (m\<lparr>dispatching_access_hooks := True\<rparr>) = (ok, m1)"
    by fastforce
  then have "registry_variant m (m1\<lparr>dispatching_access_hooks := False\<rparr>)"
    using dispatch_variant [of "m\<lparr>dispatching_access_hooks := True\<rparr>" "access_hooks m" ev]
    by (simp add: registry_variant_def)
  then show ?thesis using True d by (simp add: access_allowed_def apply_pending_variant)
qed (simp add: access_allowed_def)

lemma access_allowed_settled:
  assumes "hooks_settled m"
  shows "hooks_settled (snd (access_allowed m ev))"
  using assms by (auto simp: access_allowed_def split: prod.splits intro: apply_pending_settles)

text \<open>A hook that registers or removes hooks while an access is dispatched affects later accesses only: the
  registry after the access is the old one followed by the hooks added meanwhile, without the removed ones,
  nothing stays pending, and page table, cache and regions are untouched.\<close>

theorem access_dispatch_deferred:
  assumes "hooks_settled m" "access_hooks m \<noteq> []"
    and "dispatch_access_hooks (access_hooks m) ev (m\<lparr>dispatching_access_hooks := True\<rparr>) = (ok, m1)"
  shows "access_hooks m1 = access_hooks m \<and>
    fst (access_allowed m ev) = ok \<and> hooks_settled (snd (access_allowed m ev)) \<and>
    access_hooks (snd (access_allowed m ev)) =
      filter (\<lambda>e. he_id e \<notin> set (pending_removed_access_hooks m1))
        (access_hooks m @ pending_added_access_hooks m1) \<and>
    registry_variant m (snd (access_allowed m ev))"
proof -
  have a: "access_hooks m1 = access_hooks m"
    using dispatch_deferred [of "m\<lparr>dispatching_access_hooks := True\<rparr>" "access_hooks m" ev] assms(3) by simp
  have "has_any_access_hooks m" using assms(1,2) by (simp add: hooks_settled_def)
  then have "access_allowed m ev = (ok, apply_pending_access_hook_ops (m1\<lparr>dispatching_access_hooks := False\<rparr>))"
    using assms(3) by (simp add: access_allowed_def)
  then show ?thesis
    using a access_allowed_settled [OF assms(1), of ev] access_allowed_variant [of m ev]
    by (simp add: apply_pending_hooks)
qed

section \<open>The bounding box of the MMIO regions\<close>

definition mmio_boxed :: "'w memory \<Rightarrow> bool" where
  "mmio_boxed m \<longleftrightarrow> (\<forall>r \<in> set (mmio_regions m).
     mmio_min_base m \<le> mr_base r \<and> mr_base r + mr_size r \<le> mmio_max_end m)"

lemma find_mmio_exact:
  assumes "mmio_boxed m"
  shows "find_mmio_region m a n =
    List.find (\<lambda>r. a \<ge> mr_base r \<and> a + n \<le> mr_base r + mr_size r) (mmio_regions m)"
proof -
  let ?P = "\<lambda>r. a \<ge> mr_base r \<and> a + n \<le> mr_base r + mr_size r"
  have "List.find ?P (mmio_regions m) = None" if "a < mmio_min_base m \<or> mmio_max_end m < a + n"
    using that assms unfolding find_None_iff mmio_boxed_def
    by (meson leD order.trans)
  then show ?thesis by (auto simp: find_mmio_region_def Let_def)
qed

lemma push_mmio_boxed: "mmio_boxed m \<Longrightarrow> mmio_boxed (push_mmio_region r m)"
  by (auto simp: mmio_boxed_def push_mmio_region_def Let_def min_le_iff_disj le_max_iff_disj)

lemma fold_min_le:
  "fold (\<lambda>r b. min b (f r)) rs a \<le> (a :: u64) \<and> (\<forall>r \<in> set rs. fold (\<lambda>r b. min b (f r)) rs a \<le> f r)"
proof (induction rs arbitrary: a)
  case (Cons r rs)
  show ?case using Cons.IH [of "min a (f r)"] by (simp add: min.bounded_iff)
qed simp

lemma fold_max_ge:
  "(a :: u64) \<le> fold (\<lambda>r b. max b (f r)) rs a \<and> (\<forall>r \<in> set rs. f r \<le> fold (\<lambda>r b. max b (f r)) rs a)"
proof (induction rs arbitrary: a)
  case (Cons r rs)
  show ?case using Cons.IH [of "max a (f r)"] by (simp add: max.bounded_iff)
qed simp

lemma unmap_mmio_boxed:
  assumes "mmio_boxed m"
  shows "mmio_boxed (snd (unmap_mmio hid m))"
proof (cases "list_ex (\<lambda>r. mr_id r = hid) (mmio_regions m)")
  case True
  show ?thesis
  proof (cases "erase_first (\<lambda>r. mr_id r = hid) (mmio_regions m)")
    case Nil
    then show ?thesis using True by (simp add: unmap_mmio_def mmio_boxed_def Let_def)
  next
    case (Cons r rs)
    then show ?thesis
      using True fold_min_le [of mr_base "r # rs" "mr_base r"]
        fold_max_ge [of "mr_base r + mr_size r" "\<lambda>r. mr_base r + mr_size r" "r # rs"]
      by (simp add: unmap_mmio_def mmio_boxed_def Let_def)
  qed
qed (use assms in \<open>simp add: unmap_mmio_def\<close>)

lemma restore_mmio_boxed: "mmio_boxed (restore_mmio_regions rs resolver (m :: 'w memory))"
proof -
  have "mmio_boxed m \<Longrightarrow> mmio_boxed (restore_mmio_region resolver s m)" for s and m :: "'w memory"
    by (auto simp: restore_mmio_region_def mmio_boxed_def push_mmio_region_def Let_def
        min_le_iff_disj le_max_iff_disj split: option.splits)
  then have "mmio_boxed m \<Longrightarrow> mmio_boxed (fold (restore_mmio_region resolver) rs m)" for m :: "'w memory"
    by (induction rs arbitrary: m) auto
  then show ?thesis by (simp add: restore_mmio_regions_def clear_mmio_regions_def mmio_boxed_def)
qed

section \<open>The invariant and the operations\<close>

definition mem_inv :: "'w memory \<Rightarrow> bool" where
  "mem_inv m \<longleftrightarrow> tlb_coherent m \<and> mmio_boxed m \<and> hooks_settled m"

lemma mem_invI [wf_intros]: "tlb_coherent m \<Longrightarrow> mmio_boxed m \<Longrightarrow> hooks_settled m \<Longrightarrow> mem_inv m"
  by (simp add: mem_inv_def)

lemma mem_invD: "mem_inv m \<Longrightarrow> tlb_coherent m" "mem_inv m \<Longrightarrow> mmio_boxed m" "mem_inv m \<Longrightarrow> hooks_settled m"
  by (simp_all add: mem_inv_def)

text \<open>The three parts read disjoint groups of fields.\<close>

lemma inv_field_updates [simp]:
  "mmio_boxed (m\<lparr>tlb := t\<rparr>) = mmio_boxed m" "hooks_settled (m\<lparr>tlb := t\<rparr>) = hooks_settled m"
  "mmio_boxed (m\<lparr>pages := P\<rparr>) = mmio_boxed m" "hooks_settled (m\<lparr>pages := P\<rparr>) = hooks_settled m"
  "mmio_boxed (m\<lparr>code_epoch := c\<rparr>) = mmio_boxed m" "hooks_settled (m\<lparr>code_epoch := c\<rparr>) = hooks_settled m"
  "mmio_boxed (m\<lparr>page_epoch := c\<rparr>) = mmio_boxed m" "hooks_settled (m\<lparr>page_epoch := c\<rparr>) = hooks_settled m"
  "mmio_boxed (m\<lparr>tlb_epoch := c\<rparr>) = mmio_boxed m" "hooks_settled (m\<lparr>tlb_epoch := c\<rparr>) = hooks_settled m"
  "mem_inv (m\<lparr>world := w\<rparr>) = mem_inv m"
  by (simp_all add: mmio_boxed_def hooks_settled_def mem_inv_def tlb_coherent_def)

lemma registry_variant_inv:
  "registry_variant m m' \<Longrightarrow> hooks_settled m' \<Longrightarrow> mem_inv m \<Longrightarrow> mem_inv m'"
  by (auto simp: mem_inv_def registry_variant_def tlb_coherent_def mmio_boxed_def)

lemma tlb_variant_inv: "tlb_variant m m' \<Longrightarrow> tlb_coherent m' \<Longrightarrow> mem_inv m \<Longrightarrow> mem_inv m'"
  by (auto simp: mem_inv_def tlb_variant_def)

lemma access_allowed_inv: "mem_inv m \<Longrightarrow> mem_inv (snd (access_allowed m ev))"
  by (rule registry_variant_inv [OF access_allowed_variant])
    (simp_all add: access_allowed_settled mem_invD)

lemma lookup_page_inv: "mem_inv m \<Longrightarrow> mem_inv (snd (lookup_page m p))"
  by (rule tlb_variant_inv [OF lookup_page_variant]) (simp_all add: lookup_page_coherent mem_invD)

lemma copy_from_pages_inv:
  "mem_inv m \<Longrightarrow> mem_inv (snd (copy_from_pages (\<lambda>e. f (permissions e)) m a n))"
  using copy_from_pages_correct [of m f a n] by (blast intro: tlb_variant_inv mem_invD)

lemma after_write_inv: "after_write f m a bs r \<Longrightarrow> mem_inv m \<Longrightarrow> mem_inv (snd r)"
  by (auto simp: after_write_def mem_inv_def Let_def)

lemma mmio_read_inv: "mem_inv m \<Longrightarrow> mem_inv (snd (mmio_read r m a n))"
  by (auto simp: mmio_read_def split: option.splits prod.splits)

lemma mmio_write_inv: "mem_inv m \<Longrightarrow> mem_inv (snd (mmio_write r m a bs))"
  by (auto simp: mmio_write_def split: option.splits prod.splits)

lemma store_page_inv:
  assumes "mem_inv m" "pages m key \<noteq> None"
  shows "mem_inv (store_page key off bs m)"
  using assms by (auto simp: mem_inv_def store_page_def Let_def tlb_coherent_def)

lemma access_then_inv:
  assumes "mem_inv m" "\<And>m1. mem_inv m1 \<Longrightarrow> mem_inv (snd (k m1))"
  shows "mem_inv (snd (case access_allowed m ev of (False, m1) \<Rightarrow> (d, m1) | (True, m1) \<Rightarrow> k m1))"
  using assms access_allowed_inv [OF assms(1), of ev]
  by (cases "access_allowed m ev") (auto split: bool.splits)

lemma lookup_then_inv:
  assumes "mem_inv m"
    and "\<And>key m1. mem_inv m1 \<Longrightarrow> pages m1 key \<noteq> None \<Longrightarrow> mem_inv (snd (k key m1))"
  shows "mem_inv (snd (case lookup_page m p of (None, m1) \<Rightarrow> (d, m1) | (Some key, m1) \<Rightarrow> k key m1))"
proof -
  obtain r m1 where l: "lookup_page m p = (r, m1)" by fastforce
  then have "r = (if pages m p = None then None else Some p)" "tlb_variant m m1"
    using mem_invD(1) [OF assms(1)] by (blast elim: lookup_pageE)+
  moreover have "mem_inv m1" using lookup_page_inv [OF assms(1), of p] l by simp
  ultimately show ?thesis using l assms(2) [of m1 p] by (auto simp: tlb_variant_fields)
qed

lemma copy_then_inv:
  assumes "mem_inv m" "\<And>bs m1. mem_inv m1 \<Longrightarrow> mem_inv (snd (k bs m1))"
  shows "mem_inv (snd (case copy_from_pages (\<lambda>e. f (permissions e)) m a n of
     (None, m1) \<Rightarrow> (d, m1) | (Some bs, m1) \<Rightarrow> k bs m1))"
  using assms copy_from_pages_inv [OF assms(1), of f a n]
  by (cases "copy_from_pages (\<lambda>e. f (permissions e)) m a n") (auto split: option.splits)

lemma read_inv [wf_intros]:
  assumes "mem_inv m"
  shows "mem_inv (snd (mem_read m a n kind))"
proof (cases "passthrough_read m")
  case (Some g)
  then show ?thesis using assms by (simp add: mem_read_def split: prod.splits)
next
  case None
  then show ?thesis
    unfolding mem_read_def option.case
    using assms copy_from_pages_inv [where f = "can kind", OF assms, of a n]
    by (auto intro!: lookup_then_inv access_then_inv copy_then_inv [where f = "can kind"] mmio_read_inv
        split: option.split)
qed

lemma read_unchecked_inv [wf_intros]: "mem_inv m \<Longrightarrow> mem_inv (snd (read_unchecked m a n))"
  using copy_from_pages_inv [of m "\<lambda>_. True" a n]
  by (auto simp: read_unchecked_def mmio_read_inv split: option.split)

lemma read_code_page_inv [wf_intros]:
  assumes "mem_inv m"
  shows "mem_inv (snd (read_code_page m a))"
proof (cases "passthrough_read m")
  case (Some g)
  then show ?thesis using assms by (simp add: read_code_page_def split: prod.splits)
next
  case None
  then show ?thesis
    using assms unfolding read_code_page_def option.case by (auto intro!: lookup_then_inv)
qed

lemma code_epoch_inv [simp]: "mem_inv (m\<lparr>code_epoch := c\<rparr>) = mem_inv m"
  by (simp add: mem_inv_def)

lemma finish_write_inv:
  "mem_inv m \<Longrightarrow> mem_inv (snd (finish_write (copy_to_pages (\<lambda>e. f (permissions e)) m a bs False)))"
  using finish_write_correct [of m f a bs] after_write_inv mem_invD(1) by blast

lemma write_inv [wf_intros]:
  assumes "mem_inv m"
  shows "mem_inv (snd (mem_write m a bs kind))"
proof (cases "passthrough_write m")
  case (Some g)
  then show ?thesis using assms by (simp add: mem_write_def Let_def split: prod.splits)
next
  case None
  then show ?thesis
    unfolding mem_write_def option.case Let_def
    using assms
    by (auto intro!: lookup_then_inv access_then_inv mmio_write_inv store_page_inv
        finish_write_inv [where f = "can kind"] split: option.split)
qed

lemma write_unchecked_inv [wf_intros]: "mem_inv m \<Longrightarrow> mem_inv (snd (write_unchecked m a bs))"
  using finish_write_inv [of m "\<lambda>_. True" a bs]
  by (auto simp: write_unchecked_def mmio_write_inv split: option.split)

text \<open>Operations that drop pages advance the cache epoch first; the hypothesis excludes its wrap.\<close>

lemma advance_epoch_inv:
  assumes "mem_inv m" "tlb_epoch m \<noteq> NOT 0"
  shows "mem_inv ((invalidate_tlb (bump_page_code_epoch m))\<lparr>pages := P\<rparr>)"
proof -
  have "slot_epoch (tlb m i) < tlb_epoch m + 1" for i
    using epoch_advances [OF assms(2)] mem_invD(1) [OF assms(1)]
    by (auto simp: tlb_coherent_def intro: le_less_trans)
  then have "tlb_coherent ((invalidate_tlb (bump_page_code_epoch m))\<lparr>pages := P\<rparr>)"
    unfolding tlb_coherent_def
    by (auto simp: invalidate_tlb_def bump_page_code_epoch_def less_imp_le dest: less_imp_neq)
  then show ?thesis
    using assms(1) by (simp add: mem_inv_def invalidate_tlb_def bump_page_code_epoch_def)
qed

lemma for_pages_only_pages:
  assumes "\<And>k m. \<exists>P. body k m = m\<lparr>pages := P\<rparr>"
  shows "\<exists>P. for_pages body p q m = m\<lparr>pages := P\<rparr>"
proof (rule for_pages_invariant [where I = "\<lambda>m'. \<exists>P. m' = m\<lparr>pages := P\<rparr>"])
  fix k m' assume "\<exists>P. m' = m\<lparr>pages := P\<rparr>"
  moreover obtain P' where "body k m' = m'\<lparr>pages := P'\<rparr>" using assms by blast
  ultimately show "\<exists>P. body k m' = m\<lparr>pages := P\<rparr>" by auto
next
  have "m = m\<lparr>pages := pages m\<rparr>" by simp
  then show "\<exists>P. m = m\<lparr>pages := P\<rparr>" by blast
qed

lemma map_inv [wf_intros]:
  assumes "mem_inv m" "tlb_epoch m \<noteq> NOT 0"
  shows "mem_inv (mem_map base sz perms m)" "mem_inv (mem_unmap base sz m)"
    "mem_inv (restore_pages ps m)"
proof -
  obtain P where "mem_map base sz perms m = (invalidate_tlb (bump_page_code_epoch m))\<lparr>pages := P\<rparr>"
    using for_pages_only_pages [of "map_page perms" "first_page_of base" "last_page_of base sz"
        "invalidate_tlb (bump_page_code_epoch m)"] by (auto simp: mem_map_def map_page_def Let_def)
  then show "mem_inv (mem_map base sz perms m)" using advance_epoch_inv [OF assms] by simp
  obtain P where "mem_unmap base sz m = (invalidate_tlb (bump_page_code_epoch m))\<lparr>pages := P\<rparr>"
    using for_pages_only_pages [of "\<lambda>page m. m\<lparr>pages := (pages m)(page := None)\<rparr>" "first_page_of base"
        "last_page_of base sz" "invalidate_tlb (bump_page_code_epoch m)"] by (auto simp: mem_unmap_def)
  then show "mem_inv (mem_unmap base sz m)" using advance_epoch_inv [OF assms] by simp
  obtain P where "restore_pages ps m =
      (invalidate_tlb (bump_page_code_epoch m))\<lparr>pages := Map.empty, pages := P\<rparr>"
    using fold_emplace_pages [of ps] unfolding restore_pages_def by blast
  then show "mem_inv (restore_pages ps m)" using advance_epoch_inv [OF assms] by simp
qed

lemma tlb_coherent_same_dom:
  "tlb_coherent m \<Longrightarrow> (\<And>k. P k = None \<longleftrightarrow> pages m k = None) \<Longrightarrow> tlb_coherent (m\<lparr>pages := P\<rparr>)"
  by (simp add: tlb_coherent_def)

lemma bump_inv: "mem_inv (bump_page_code_epoch m) = mem_inv m"
  by (simp add: mem_inv_def bump_page_code_epoch_def tlb_coherent_def)

lemma reprotect_page_inv: "mem_inv m \<Longrightarrow> mem_inv (reprotect_page perms p m)"
  by (cases "pages m p")
    (simp_all add: reprotect_page_def mem_inv_def tlb_coherent_same_dom)

lemma reprotect_inv [wf_intros]:
  "mem_inv m \<Longrightarrow> mem_inv (mem_reprotect base sz perms m)"
  unfolding mem_reprotect_def by (rule for_pages_invariant) (simp_all add: bump_inv reprotect_page_inv)

text \<open>Fields that matter for the cache and the registry only.\<close>

definition core_inv :: "'w memory \<Rightarrow> bool" where
  "core_inv m \<longleftrightarrow> tlb_coherent m \<and> hooks_settled m"

lemma core_inv_updates [simp]:
  "core_inv (m\<lparr>mmio_regions := rs\<rparr>) = core_inv m" "core_inv (m\<lparr>mmio_min_base := a\<rparr>) = core_inv m"
  "core_inv (m\<lparr>mmio_max_end := a\<rparr>) = core_inv m" "core_inv (m\<lparr>next_hook_id := a\<rparr>) = core_inv m"
  "core_inv (m\<lparr>passthrough_read := f\<rparr>) = core_inv m" "core_inv (m\<lparr>passthrough_write := g\<rparr>) = core_inv m"
  by (simp_all add: core_inv_def tlb_coherent_def hooks_settled_def)

lemma mem_inv_core: "mem_inv m \<longleftrightarrow> core_inv m \<and> mmio_boxed m"
  by (auto simp: mem_inv_def core_inv_def)

lemma mmio_boxed_updates [simp]:
  "mmio_boxed (m\<lparr>next_hook_id := a\<rparr>) = mmio_boxed m"
  "mmio_boxed (m\<lparr>passthrough_read := f\<rparr>) = mmio_boxed m"
  "mmio_boxed (m\<lparr>passthrough_write := g\<rparr>) = mmio_boxed m"
  by (simp_all add: mmio_boxed_def)

lemma push_mmio_core [simp]: "core_inv (push_mmio_region r m) = core_inv m"
  by (simp add: push_mmio_region_def Let_def)

lemma passthrough_inv [wf_intros]:
  "mem_inv m \<Longrightarrow> mem_inv (set_passthrough f g m)" "mem_inv m \<Longrightarrow> mem_inv (clear_passthrough m)"
  by (simp_all add: mem_inv_core set_passthrough_def clear_passthrough_def)

lemma registry_inv [wf_intros]:
  assumes "mem_inv m"
  shows "mem_inv (snd (add_access_hook h rng kinds m))" "mem_inv (snd (remove_access_hook hid m))"
proof -
  have ops: "registry_variant m (snd (add_access_hook h rng kinds m))"
    "registry_variant m (snd (remove_access_hook hid m))"
    using hook_op_variant [of m "Add_Access_Hook h rng kinds"] hook_op_variant [of m "Remove_Access_Hook hid"]
    by simp_all
  have s: "hooks_settled m" using assms by (simp add: mem_inv_def)
  then have "hooks_settled (snd (add_access_hook h rng kinds m))"
    by (simp add: add_access_hook_def Let_def refresh_settles hooks_settled_def [of m])
  moreover have "hooks_settled (snd (remove_access_hook hid m))"
    using s by (simp add: remove_access_hook_def Let_def refresh_settles hooks_settled_def [of m])
  ultimately show "mem_inv (snd (add_access_hook h rng kinds m))" "mem_inv (snd (remove_access_hook hid m))"
    using registry_variant_inv assms ops by blast+
qed

lemma unmap_mmio_core: "core_inv m \<Longrightarrow> core_inv (snd (unmap_mmio hid m))"
  by (simp add: unmap_mmio_def Let_def split: list.split)

lemma restore_mmio_core: "core_inv m \<Longrightarrow> core_inv (restore_mmio_regions rs resolver m)"
proof -
  have "core_inv m \<Longrightarrow> core_inv (restore_mmio_region resolver s m)" for s and m :: "'a memory"
    by (simp add: restore_mmio_region_def split: option.split prod.split)
  then have "core_inv m \<Longrightarrow> core_inv (fold (restore_mmio_region resolver) rs m)" for m :: "'a memory"
    by (induction rs arbitrary: m) simp_all
  then show "core_inv m \<Longrightarrow> core_inv (restore_mmio_regions rs resolver m)"
    by (simp add: restore_mmio_regions_def clear_mmio_regions_def)
qed

lemma mmio_inv [wf_intros]:
  assumes "mem_inv m"
  shows "mem_inv (snd (map_mmio base sz on_read on_write m))" "mem_inv (snd (unmap_mmio hid m))"
    "mem_inv (clear_mmio_regions m)" "mem_inv (restore_mmio_regions rs resolver m)"
  using assms
  by (simp_all add: mem_inv_core map_mmio_def Let_def push_mmio_boxed unmap_mmio_core unmap_mmio_boxed
      restore_mmio_core restore_mmio_boxed)
    (simp add: clear_mmio_regions_def mmio_boxed_def)

lemma query_inv [wf_intros]:
  assumes "mem_inv m"
  shows "mem_inv (snd (is_mapped m a n))" "mem_inv (snd (has_permissions m a n required))"
  using pages_satisfy_correct [OF mem_invD(1) [OF assms], of "\<lambda>_. True" a n]
    pages_satisfy_correct [OF mem_invD(1) [OF assms], of "\<lambda>p. effective_permissions p AND required = required" a n]
    tlb_variant_inv [OF _ _ assms]
  unfolding is_mapped_def has_permissions_def by blast+

section \<open>Reachable memories\<close>

text \<open>One call of a public operation. The guard on the operations that advance the 64-bit cache
  epoch says that it does not wrap.\<close>

inductive mem_step :: "'w memory \<Rightarrow> 'w memory \<Rightarrow> bool" where
  do_map: "tlb_epoch m \<noteq> NOT 0 \<Longrightarrow> mem_step m (mem_map base sz perms m)"
| do_unmap: "tlb_epoch m \<noteq> NOT 0 \<Longrightarrow> mem_step m (mem_unmap base sz m)"
| do_reprotect: "mem_step m (mem_reprotect base sz perms m)"
| do_is_mapped: "mem_step m (snd (is_mapped m a n))"
| do_has_permissions: "mem_step m (snd (has_permissions m a n required))"
| do_read: "mem_step m (snd (mem_read m a n kind))"
| do_read_unchecked: "mem_step m (snd (read_unchecked m a n))"
| do_read_code_page: "mem_step m (snd (read_code_page m a))"
| do_write: "mem_step m (snd (mem_write m a bs kind))"
| do_write_unchecked: "mem_step m (snd (write_unchecked m a bs))"
| do_set_passthrough: "mem_step m (set_passthrough f g m)"
| do_clear_passthrough: "mem_step m (clear_passthrough m)"
| do_add_hook: "mem_step m (snd (add_access_hook h rng kinds m))"
| do_remove_hook: "mem_step m (snd (remove_access_hook hid m))"
| do_map_mmio: "mem_step m (snd (map_mmio base sz on_read on_write m))"
| do_unmap_mmio: "mem_step m (snd (unmap_mmio hid m))"
| do_clear_mmio: "mem_step m (clear_mmio_regions m)"
| do_restore_pages: "tlb_epoch m \<noteq> NOT 0 \<Longrightarrow> mem_step m (restore_pages ps m)"
| do_restore_mmio: "mem_step m (restore_mmio_regions rs resolver m)"

inductive mem_reachable :: "'w memory \<Rightarrow> bool" where
  init: "mem_reachable (empty_memory w)"
| step: "mem_reachable m \<Longrightarrow> mem_step m m' \<Longrightarrow> mem_reachable m'"

lemma mem_step_inv: "mem_step m m' \<Longrightarrow> mem_inv m \<Longrightarrow> mem_inv m'"
  by (induction rule: mem_step.induct) (auto intro: wf_intros)

lemma empty_memory_inv: "mem_inv (empty_memory w)"
  by (simp add: mem_inv_def tlb_coherent_def mmio_boxed_def hooks_settled_def kinds_of_def empty_memory_def)

lemma mem_reachable_inv: "mem_reachable m \<Longrightarrow> mem_inv m"
  by (induction rule: mem_reachable.induct) (auto intro: empty_memory_inv mem_step_inv)

text \<open>C9: in every memory that calls of the public operations build from an empty one, a page lookup, cached or
  not, returns the entry of the page table, the MMIO filter is exact, and no hook operation is
  pending.\<close>

theorem reachable_memory_sound:
  assumes "mem_reachable m"
  shows "fst (lookup_page m p) = (if pages m p = None then None else Some p) \<and>
    find_mmio_region m a n =
      List.find (\<lambda>r. a \<ge> mr_base r \<and> a + n \<le> mr_base r + mr_size r) (mmio_regions m) \<and>
    hooks_settled m"
  using mem_reachable_inv [OF assms] find_mmio_exact [of m a n] lookup_page_result [of m p]
  by (simp add: mem_inv_def)

text \<open>A memory with two mapped pages at \<^term>\<open>0x1000 :: u64\<close>, used in the witnesses.\<close>

definition demo_memory :: "unit memory" where
  "demo_memory = mem_map 0x1000 0x2000 kMemoryPermissionAll (empty_memory ())"

theorem reachable_memory_sound_witness:
  "mem_reachable demo_memory \<and>
   fst (lookup_page demo_memory 1) = (if pages demo_memory 1 = None then None else Some 1) \<and>
   find_mmio_region demo_memory 0x1000 8 =
      List.find (\<lambda>r. 0x1000 \<ge> mr_base r \<and> 0x1000 + 8 \<le> mr_base r + mr_size r) (mmio_regions demo_memory) \<and>
   hooks_settled demo_memory"
proof -
  have "tlb_epoch (empty_memory ()) \<noteq> NOT 0" by (simp add: empty_memory_def)
  then have "mem_reachable demo_memory"
    unfolding demo_memory_def by (blast intro: mem_reachable.intros mem_step.intros)
  then show ?thesis using reachable_memory_sound [of demo_memory 1 "0x1000" 8] by blast
qed

end
