(* ===== verification/Memory_Witness.thy ===== *)
theory Memory_Witness
  imports Memory_Invariant
begin

text \<open>
  The properties of the memory component at concrete memories: two mapped pages at
  \<^term>\<open>0x1000 :: u64\<close>, accessed across their boundary.
\<close>

lemma demo_plain: "plain demo_memory"
proof -
  obtain P where P: "demo_memory = (invalidate_tlb (bump_page_code_epoch (empty_memory ())))\<lparr>pages := P\<rparr>"
    using for_pages_only_pages [of "map_page kMemoryPermissionAll"]
    unfolding demo_memory_def mem_map_def by (force simp: map_page_def Let_def)
  have "tlb_epoch (empty_memory ()) \<noteq> NOT 0" by (simp add: empty_memory_def)
  then have "mem_inv demo_memory"
    unfolding demo_memory_def by (intro map_inv empty_memory_inv)
  then show ?thesis
    by (simp add: plain_def mem_inv_def) (simp add: P invalidate_tlb_def bump_page_code_epoch_def empty_memory_def)
qed

lemma demo_pages:
  "pages demo_memory k = (if k = 1 \<or> k = 2 then Some zero_page else None)"
proof -
  have "(1 \<le> k \<and> k < 3) = (k = 1 \<or> k = 2)" for k :: u64
    by (auto simp: word_le_nat_alt word_less_nat_alt word_unat_eq_iff)
  moreover have "zero_page\<lparr>permissions := kMemoryPermissionAll\<rparr> = zero_page" by (simp add: zero_page_def)
  ultimately show ?thesis
    by (simp add: demo_memory_def mem_map_pages first_page_of_def last_page_of_def kPageSize_def empty_memory_def)
qed

lemma demo_write: "fst (mem_write demo_memory 0x1FFE [1, 2, 3, 4] data_write)"
  using mem_write_plain [OF demo_plain, of "[1, 2, 3, 4]" data_write "0x1FFE"]
  by (simp add: after_write_def Let_def allowed_at_def demo_pages kPageSize_def zero_page_def
      kMemoryPermissionAll_def perm_read_def perm_write_def perm_execute_def)

theorem write_read_roundtrip_witness:
  "\<exists>m'. mem_write demo_memory 0x1FFE [1, 2, 3, 4] data_write = (True, m') \<and>
     fst (mem_read m' 0x1FFE 4 data_read) = Some [1, 2, 3, 4]"
proof -
  obtain m' where m': "mem_write demo_memory 0x1FFE [1, 2, 3, 4] data_write = (True, m')"
    using demo_write by (metis prod.collapse)
  then show ?thesis using write_read_roundtrip [OF demo_plain _ _ m'] by simp
qed

theorem write_read_frame_witness:
  "fst (mem_read (snd (mem_write demo_memory 0x1FFE [1, 2, 3, 4] data_write)) 0x2002 8 data_read) =
   fst (mem_read demo_memory 0x2002 8 data_read)"
proof -
  have "ranges_disjoint 0x1FFE (length [1, 2, 3, 4 :: u8]) 0x2002 (unat (8 :: u64))"
    by (simp add: ranges_disjoint_def unat_word_ariths unat_of_nat)
  then show ?thesis using write_read_frame [OF demo_plain, of "[1, 2, 3, 4]" 8 "0x1FFE" "0x2002"] by simp
qed

theorem read_correct_witness:
  "fst (mem_read demo_memory 0x1FFE 4 data_read) =
     read_bytes (can data_read) (pages demo_memory) 0x1FFE (unat (4 :: u64)) \<and>
   tlb_variant demo_memory (snd (mem_read demo_memory 0x1FFE 4 data_read)) \<and>
   plain (snd (mem_read demo_memory 0x1FFE 4 data_read))"
  using read_correct [OF demo_plain, of 4 "0x1FFE" data_read] by simp

theorem write_correct_witness:
  "after_write (can data_write) demo_memory 0x2FFE [1, 2, 3, 4] (mem_write demo_memory 0x2FFE [1, 2, 3, 4] data_write)"
  using write_correct [OF demo_plain, of "[1, 2, 3, 4]" data_write "0x2FFE"] by simp

theorem has_permissions_iff_witness:
  "tlb_coherent demo_memory \<and>
   (fst (has_permissions demo_memory 0x1FFE 4 perm_write) \<longleftrightarrow>
    (\<forall>i<unat (4 :: u64). allowed_at (\<lambda>p. effective_permissions p AND perm_write = perm_write) (pages demo_memory)
       (0x1FFE + word_of_nat i)))"
  using has_permissions_iff [OF plain_tlb [OF demo_plain], of "0x1FFE" 4 perm_write] plain_tlb [OF demo_plain] by blast

theorem map_makes_accessible_witness:
  "byte_at (can data_write) (pages (mem_map 0x1000 0x2000 perm_write (empty_memory ()))) 0x1234 =
     Some (case byte_at (\<lambda>_. True) (pages (empty_memory ())) 0x1234 of None \<Rightarrow> 0 | Some b \<Rightarrow> b)"
  using map_makes_accessible [of "0x1000" "0x2000" "0x1234" "can data_write" perm_write "empty_memory ()"]
  by (simp add: perm_write_def)

theorem unmap_removes_access_witness:
  "byte_at (can data_read) (pages (mem_unmap 0x1000 0x2000 demo_memory)) 0x1234 = None"
  using unmap_removes_access [of "0x1000" "0x2000" "0x1234" "can data_read" demo_memory] by simp

theorem snapshot_restore_pages_witness:
  "pages (restore_pages (snapshot_pages demo_memory) (empty_memory ())) = pages demo_memory \<and>
   tlb_coherent (restore_pages (snapshot_pages demo_memory) (empty_memory ()))"
proof -
  have "tlb_coherent (empty_memory ())" using empty_memory_inv [of "()"] by (simp add: mem_inv_def)
  moreover have "tlb_epoch (empty_memory ()) \<noteq> NOT 0" by (simp add: empty_memory_def)
  ultimately show ?thesis by (rule snapshot_restore_pages)
qed

text \<open>A registry whose only hook replaces itself while it runs.\<close>

definition hooked_memory :: "unit memory" where
  "hooked_memory = snd (add_access_hook
     (Access_Hook (\<lambda>ev w. (True,
        [Add_Access_Hook (Access_Hook (\<lambda>ev w. (False, [], w))) None kAllMemoryAccessKinds, Remove_Access_Hook 1], w)))
     None kAllMemoryAccessKinds (empty_memory ()))"

definition read_event :: access_event where
  "read_event = \<lparr>ev_kind = data_read, ev_address = 0, ev_size = 1, ev_data = None\<rparr>"

theorem access_dispatch_deferred_witness:
  "\<exists>ok m1. dispatch_access_hooks (access_hooks hooked_memory) read_event
        (hooked_memory\<lparr>dispatching_access_hooks := True\<rparr>) = (ok, m1) \<and>
    access_hooks m1 = access_hooks hooked_memory \<and>
    fst (access_allowed hooked_memory read_event) = ok \<and>
    hooks_settled (snd (access_allowed hooked_memory read_event)) \<and>
    access_hooks (snd (access_allowed hooked_memory read_event)) =
      filter (\<lambda>e. he_id e \<notin> set (pending_removed_access_hooks m1))
        (access_hooks hooked_memory @ pending_added_access_hooks m1) \<and>
    registry_variant hooked_memory (snd (access_allowed hooked_memory read_event))"
proof -
  have "mem_inv hooked_memory" unfolding hooked_memory_def by (intro registry_inv empty_memory_inv)
  then have s: "hooks_settled hooked_memory" by (simp add: mem_inv_def)
  have n: "access_hooks hooked_memory \<noteq> []"
    by (simp add: hooked_memory_def add_access_hook_def empty_memory_def Let_def)
  obtain ok m1 where d: "dispatch_access_hooks (access_hooks hooked_memory) read_event
        (hooked_memory\<lparr>dispatching_access_hooks := True\<rparr>) = (ok, m1)" by fastforce
  then show ?thesis using access_dispatch_deferred [OF s n d] by blast
qed

end
