(* ===== verification/Operands.thy ===== *)
theory Operands
  imports Memory_Invariant
begin

text \<open>
  Decoded instructions, the execution context, and the helpers every instruction handler is built
  from (\<^verbatim>\<open>seven_core/src/handler_helpers.cpp\<close> and \<^verbatim>\<open>handler_helpers.hpp\<close>): model-specific registers, operand
  access with register aliasing and effective addresses, fault results, status flags, and interrupt
  delivery.

  The decoder is the external library iced-x86. An \<open>instruction\<close> is the record of the values its
  accessors return; nothing is assumed about how they relate to the encoding.
\<close>

section \<open>Decoded instructions\<close>

datatype gpr_family = G_AX | G_CX | G_DX | G_BX | G_SP | G_BP | G_SI | G_DI
  | G_R8 | G_R9 | G_R10 | G_R11 | G_R12 | G_R13 | G_R14 | G_R15

text \<open>
  \<^verbatim>\<open>iced_x86::Register\<close>. The general registers are grouped by the register they are part of:
  \<^verbatim>\<open>AL\<close> is \<open>L8 G_AX\<close>, \<^verbatim>\<open>AX\<close> \<open>W16 G_AX\<close>, \<^verbatim>\<open>EAX\<close> \<open>D32 G_AX\<close>, \<^verbatim>\<open>RAX\<close> \<open>Q64 G_AX\<close>. \<open>Other_Reg\<close>
  stands for the registers no modelled code names.
\<close>

datatype register = NONE
  | AH | CH | DH | BH
  | L8 gpr_family | W16 gpr_family | D32 gpr_family | Q64 gpr_family
  | ES | CS | SS | DS | FS | GS
  | CR "4 word" | DR "4 word" | TR "3 word" | MM "3 word"
  | XMM "5 word" | YMM "5 word" | ZMM "5 word" | K "3 word" | ST "3 word"
  | Other_Reg nat

abbreviation AL :: register where "AL \<equiv> L8 G_AX"
abbreviation CL :: register where "CL \<equiv> L8 G_CX"
abbreviation AX :: register where "AX \<equiv> W16 G_AX"
abbreviation CX :: register where "CX \<equiv> W16 G_CX"
abbreviation DX :: register where "DX \<equiv> W16 G_DX"
abbreviation EAX :: register where "EAX \<equiv> D32 G_AX"
abbreviation ECX :: register where "ECX \<equiv> D32 G_CX"
abbreviation EDX :: register where "EDX \<equiv> D32 G_DX"
abbreviation RAX :: register where "RAX \<equiv> Q64 G_AX"
abbreviation RCX :: register where "RCX \<equiv> Q64 G_CX"
abbreviation RDX :: register where "RDX \<equiv> Q64 G_DX"

datatype op_kind_enum = REGISTER | MEMORY
  | IMMEDIATE8 | IMMEDIATE8_2ND | IMMEDIATE16 | IMMEDIATE32 | IMMEDIATE64
  | IMMEDIATE8TO16 | IMMEDIATE8TO32 | IMMEDIATE8TO64 | IMMEDIATE32TO64
  | NEAR_BRANCH16 | NEAR_BRANCH32 | NEAR_BRANCH64 | Other_Kind

record instruction =
  code :: icode
  op_kind :: "nat \<Rightarrow> op_kind_enum"
  op_register :: "nat \<Rightarrow> register"
  memory_base :: register
  memory_index :: register
  memory_index_scale :: u32
  memory_displacement64 :: u64
  segment_prefix :: register
  is_ip_rel_memory_operand :: bool
  ip_rel_memory_address :: u64
  memory_size_bytes :: nat
  immediate8 :: u8
  immediate8_2nd :: u8
  immediate16 :: u16
  immediate32 :: u32
  immediate64 :: u64
  immediate8to16 :: u16
  immediate8to32 :: u32
  immediate8to64 :: u64
  immediate32to64 :: u64
  near_branch16 :: u16
  near_branch32 :: u32
  near_branch64 :: u64
  far_branch16 :: u16
  far_branch32 :: u32
  far_branch_selector :: u16
  has_rep_prefix :: bool
  has_repne_prefix :: bool
  is_broadcast :: bool
  op_mask :: register
  zeroing_masking :: bool
  instr_length :: u32

record 'w ctx =
  state :: cpu_state
  mem :: "'w memory"
  instr :: instruction
  next_rip :: u64
  control_flow_taken :: bool
  debug_hit_bits :: u64
  push_rf_for_debug :: bool

type_synonym 'w handler = "'w ctx \<Rightarrow> execution_result \<times> 'w ctx"

abbreviation upd_state :: "(cpu_state \<Rightarrow> cpu_state) \<Rightarrow> 'w ctx \<Rightarrow> 'w ctx" where
  "upd_state f c \<equiv> c\<lparr>state := f (state c)\<rparr>"

section \<open>Model-specific and extended control registers\<close>

definition read_msr :: "cpu_state \<Rightarrow> u32 \<Rightarrow> u64" where
  "read_msr s index = (case msr s index of Some v \<Rightarrow> v | None \<Rightarrow> 0)"

definition write_msr :: "cpu_state \<Rightarrow> u32 \<Rightarrow> u64 \<Rightarrow> cpu_state" where
  "write_msr s index value = s\<lparr>msr := (msr s)(index \<mapsto> value)\<rparr>"

definition read_xcr :: "cpu_state \<Rightarrow> u32 \<Rightarrow> u64" where
  "read_xcr s index = (if unat index < length (xcr s) then xcr s ! unat index else 0)"

definition write_xcr :: "cpu_state \<Rightarrow> u32 \<Rightarrow> u64 \<Rightarrow> cpu_state" where
  "write_xcr s index value =
     (if unat index < length (xcr s) then s\<lparr>xcr := (xcr s)[unat index := value]\<rparr> else s)"

section \<open>Flags\<close>

definition set_flag :: "u64 \<Rightarrow> u64 \<Rightarrow> bool \<Rightarrow> u64" where
  "set_flag flags b value = (if value then flags OR b else flags AND NOT b)"

definition truncate_to :: "u64 \<Rightarrow> nat \<Rightarrow> u64" where
  "truncate_to value width = value AND mask_for_width width"

text \<open>\<^verbatim>\<open>set_flag(state.rflags, bit, value)\<close>, and a sequence of such statements.\<close>

definition put_flag :: "u64 \<Rightarrow> bool \<Rightarrow> cpu_state \<Rightarrow> cpu_state" where
  "put_flag b value s = s\<lparr>rflags := set_flag (rflags s) b value\<rparr>"

definition put_flags :: "(u64 \<times> bool) list \<Rightarrow> cpu_state \<Rightarrow> cpu_state" where
  "put_flags fs s = fold (\<lambda>(b, value) s. put_flag b value s) fs s"

definition low_byte :: "u64 \<Rightarrow> u8" where
  "low_byte v = ucast (v AND 0xFF)"

definition set_logic_flags :: "cpu_state \<Rightarrow> u64 \<Rightarrow> nat \<Rightarrow> cpu_state" where
  "set_logic_flags s value0 width =
     (let value = truncate_to value0 width
      in put_flags
          [(kFlagCF, False), (kFlagOF, False), (kFlagAF, False), (kFlagZF, value = 0),
           (kFlagSF, value AND sign_bit_for_width width \<noteq> 0),
           (kFlagPF, even_parity (low_byte value))] s)"

definition set_multiply_flags :: "cpu_state \<Rightarrow> u64 \<Rightarrow> nat \<Rightarrow> bool \<Rightarrow> cpu_state" where
  "set_multiply_flags s value0 width overflow =
     (let value = truncate_to value0 width
      in put_flags
          [(kFlagCF, overflow), (kFlagOF, overflow), (kFlagAF, False), (kFlagZF, False),
           (kFlagSF, value AND sign_bit_for_width width \<noteq> 0),
           (kFlagPF, even_parity (low_byte value))] s)"

definition set_add_flags :: "cpu_state \<Rightarrow> u64 \<Rightarrow> u64 \<Rightarrow> u64 \<Rightarrow> nat \<Rightarrow> bool \<Rightarrow> cpu_state" where
  "set_add_flags s lhs0 rhs0 result0 width carry_in =
     (let m = mask_for_width width;
          lhs = lhs0 AND m; rhs = rhs0 AND m; result = result0 AND m;
          partial = lhs + rhs;
          final_result = partial + (if carry_in then 1 else 0);
          carry1 = (partial < lhs);
          carry2 = (if carry_in then carry1 \<or> final_result = 0 else carry1);
          carry = (if width < 8 then carry2 \<or> final_result AND NOT m \<noteq> 0 else carry2);
          sign = sign_bit_for_width width
      in put_flags
          [(kFlagCF, carry), (kFlagAF, (lhs XOR rhs XOR result) AND 0x10 \<noteq> 0), (kFlagZF, result = 0),
           (kFlagSF, result AND sign_bit_for_width width \<noteq> 0),
           (kFlagPF, even_parity (low_byte result)),
           (kFlagOF, (NOT (lhs XOR rhs) AND (lhs XOR result)) AND sign \<noteq> 0)] s)"

definition set_sub_flags :: "cpu_state \<Rightarrow> u64 \<Rightarrow> u64 \<Rightarrow> u64 \<Rightarrow> nat \<Rightarrow> bool \<Rightarrow> cpu_state" where
  "set_sub_flags s lhs0 rhs0 result0 width borrow_in =
     (let m = mask_for_width width;
          lhs = lhs0 AND m; rhs = rhs0 AND m; result = result0 AND m;
          borrow = (if borrow_in then 1 else 0);
          subtrahend_overflowed = (width = 8 \<and> borrow_in \<and> rhs = m);
          sign = sign_bit_for_width width
      in put_flags
          [(kFlagCF, subtrahend_overflowed \<or> lhs < rhs + borrow),
           (kFlagAF, (lhs XOR rhs XOR result) AND 0x10 \<noteq> 0), (kFlagZF, result = 0),
           (kFlagSF, result AND sign_bit_for_width width \<noteq> 0),
           (kFlagPF, even_parity (low_byte result)),
           (kFlagOF, ((lhs XOR rhs) AND (lhs XOR result)) AND sign \<noteq> 0)] s)"

section \<open>Registers\<close>

fun register_width :: "register \<Rightarrow> nat" where
  "register_width (L8 _) = 1"
| "register_width AH = 1" | "register_width CH = 1" | "register_width DH = 1" | "register_width BH = 1"
| "register_width (W16 _) = 2"
| "register_width (D32 _) = 4"
| "register_width ES = 2" | "register_width CS = 2" | "register_width SS = 2"
| "register_width DS = 2" | "register_width FS = 2" | "register_width GS = 2"
| "register_width (MM _) = 8"
| "register_width _ = 8"

fun family_index :: "gpr_family \<Rightarrow> nat" where
  "family_index G_AX = 0" | "family_index G_CX = 1" | "family_index G_DX = 2" | "family_index G_BX = 3"
| "family_index G_SP = 4" | "family_index G_BP = 5" | "family_index G_SI = 6" | "family_index G_DI = 7"
| "family_index G_R8 = 8" | "family_index G_R9 = 9" | "family_index G_R10 = 10" | "family_index G_R11 = 11"
| "family_index G_R12 = 12" | "family_index G_R13 = 13" | "family_index G_R14 = 14" | "family_index G_R15 = 15"

fun reg_index :: "register \<Rightarrow> nat" where
  "reg_index (L8 g) = family_index g"
| "reg_index (W16 g) = family_index g"
| "reg_index (D32 g) = family_index g"
| "reg_index (Q64 g) = family_index g"
| "reg_index AH = 0" | "reg_index CH = 1" | "reg_index DH = 2" | "reg_index BH = 3"
| "reg_index _ = 0"

fun high_byte_register :: "register \<Rightarrow> bool" where
  "high_byte_register AH = True" | "high_byte_register BH = True"
| "high_byte_register CH = True" | "high_byte_register DH = True"
| "high_byte_register _ = False"

fun seg_index :: "register \<Rightarrow> nat option" where
  "seg_index ES = Some 0" | "seg_index CS = Some 1" | "seg_index SS = Some 2"
| "seg_index DS = Some 3" | "seg_index FS = Some 4" | "seg_index GS = Some 5"
| "seg_index _ = None"

definition read_gpr :: "cpu_state \<Rightarrow> register \<Rightarrow> u64" where
  "read_gpr s reg =
     (let raw = gpr s ! reg_index reg
      in if register_width reg = 1
         then if high_byte_register reg then drop_bit 8 raw AND 0xFF else raw AND 0xFF
         else if register_width reg = 2 then raw AND 0xFFFF
         else if register_width reg = 4 then raw AND 0xFFFFFFFF
         else raw)"

definition read_register :: "cpu_state \<Rightarrow> register \<Rightarrow> u64" where
  "read_register s reg =
     (case seg_index reg of
        Some i \<Rightarrow> ucast (sreg s ! i)
      | None \<Rightarrow>
         (case reg of
            CR n \<Rightarrow> cr s ! unat n
          | DR n \<Rightarrow> dr s ! unat n
          | TR n \<Rightarrow> tr s ! unat n
          | MM n \<Rightarrow> mmx_get s (ucast n)
          | _ \<Rightarrow> read_gpr s reg))"

definition write_gpr :: "cpu_state \<Rightarrow> register \<Rightarrow> u64 \<Rightarrow> nat \<Rightarrow> cpu_state" where
  "write_gpr s reg value width_override =
     (let raw = gpr s ! reg_index reg;
          reg_width = (if width_override \<noteq> 0 then width_override else register_width reg);
          new = (if reg_width = 1
                 then if high_byte_register reg
                      then (raw AND NOT 0xFF00) OR push_bit 8 (value AND 0xFF)
                      else (raw AND NOT 0xFF) OR (value AND 0xFF)
                 else if reg_width = 2 then (raw AND NOT 0xFFFF) OR (value AND 0xFFFF)
                 else if reg_width = 4 then value AND 0xFFFFFFFF
                 else value)
      in s\<lparr>gpr := (gpr s)[reg_index reg := new]\<rparr>)"

definition write_register :: "cpu_state \<Rightarrow> register \<Rightarrow> u64 \<Rightarrow> nat \<Rightarrow> cpu_state" where
  "write_register s reg value width_override =
     (case seg_index reg of
        Some i \<Rightarrow> s\<lparr>sreg := (sreg s)[i := ucast (value AND 0xFFFF)]\<rparr>
      | None \<Rightarrow>
         (case reg of
            CR n \<Rightarrow> s\<lparr>cr := (cr s)[unat n := value]\<rparr>
          | DR n \<Rightarrow> s\<lparr>dr := (dr s)[unat n := value]\<rparr>
          | TR n \<Rightarrow> s\<lparr>tr := (tr s)[unat n := value]\<rparr>
          | MM n \<Rightarrow> mmx_set s (ucast n) value
          | _ \<Rightarrow> write_gpr s reg value width_override))"

section \<open>Fault results and checked memory access\<close>

definition memory_fault :: "'w ctx \<Rightarrow> u64 \<Rightarrow> execution_result" where
  "memory_fault c address =
     \<lparr>reason = SR_page_fault, retired = 0,
      exception_of = Some \<lparr>ei_reason = SR_page_fault, ei_address = address, ei_error_code = 0\<rparr>,
      result_code = Some (code (instr c))\<rparr>"

definition divide_fault :: "'w ctx \<Rightarrow> execution_result" where
  "divide_fault c =
     \<lparr>reason = SR_divide_error, retired = 0,
      exception_of = Some \<lparr>ei_reason = SR_divide_error, ei_address = rip (state c), ei_error_code = 0\<rparr>,
      result_code = Some (code (instr c))\<rparr>"

text \<open>\<^verbatim>\<open>ctx.memory.read(address, &value, width)\<close> into a zero-initialised integer and
  \<^verbatim>\<open>ctx.memory.write(address, &value, width)\<close>.\<close>

definition ctx_read :: "'w ctx \<Rightarrow> u64 \<Rightarrow> nat \<Rightarrow> u64 option \<times> 'w ctx" where
  "ctx_read c address width =
     (case mem_read (mem c) address (word_of_nat width) data_read of
        (r, m) \<Rightarrow> (map_option of_le_bytes r, c\<lparr>mem := m\<rparr>))"

definition ctx_write :: "'w ctx \<Rightarrow> u64 \<Rightarrow> u64 \<Rightarrow> nat \<Rightarrow> bool \<times> 'w ctx" where
  "ctx_write c address value width =
     (case mem_write (mem c) address (le_bytes width value) data_write of
        (r, m) \<Rightarrow> (r, c\<lparr>mem := m\<rparr>))"

definition read_memory_checked :: "'w ctx \<Rightarrow> u64 \<Rightarrow> nat \<Rightarrow> (execution_result + u64) \<times> 'w ctx" where
  "read_memory_checked c address width =
     (case ctx_read c address width of
        (None, c1) \<Rightarrow> (Inl (memory_fault c1 address), c1)
      | (Some v, c1) \<Rightarrow> (Inr v, c1))"

definition write_memory_checked :: "'w ctx \<Rightarrow> u64 \<Rightarrow> u64 \<Rightarrow> nat \<Rightarrow> execution_result \<times> 'w ctx" where
  "write_memory_checked c address value width =
     (case ctx_write c address value width of
        (False, c1) \<Rightarrow> (memory_fault c1 address, c1)
      | (True, c1) \<Rightarrow> (no_stop, c1))"

section \<open>Operands\<close>

definition memory_address :: "'w ctx \<Rightarrow> u64" where
  "memory_address c =
     (let s = state c; i = instr c
      in if is_ip_rel_memory_operand i then mask_linear_address s (ip_rel_memory_address i)
         else let a0 = 0;
                  a1 = (if memory_base i \<noteq> NONE then a0 + read_register s (memory_base i) else a0);
                  a2 = (if memory_index i \<noteq> NONE
                        then a1 + read_register s (memory_index i) * ucast (memory_index_scale i) else a1);
                  a3 = a2 + memory_displacement64 i;
                  a4 = (if segment_prefix i = FS then a3 + fs_base s
                        else if segment_prefix i = GS then a3 + gs_base s else a3)
              in mask_linear_address s a4)"

definition operand_width :: "instruction \<Rightarrow> nat \<Rightarrow> nat" where
  "operand_width i k =
     (case op_kind i k of
        REGISTER \<Rightarrow> register_width (op_register i k)
      | MEMORY \<Rightarrow> memory_size_bytes i
      | IMMEDIATE8 \<Rightarrow> 1 | IMMEDIATE8_2ND \<Rightarrow> 1 | IMMEDIATE8TO16 \<Rightarrow> 1 | IMMEDIATE8TO32 \<Rightarrow> 1
      | IMMEDIATE8TO64 \<Rightarrow> 1 | IMMEDIATE16 \<Rightarrow> 2 | IMMEDIATE32 \<Rightarrow> 4 | IMMEDIATE32TO64 \<Rightarrow> 4
      | IMMEDIATE64 \<Rightarrow> 8 | _ \<Rightarrow> 8)"

definition immediate_value :: "instruction \<Rightarrow> nat \<Rightarrow> u64" where
  "immediate_value i k =
     (case op_kind i k of
        IMMEDIATE8 \<Rightarrow> ucast (immediate8 i)
      | IMMEDIATE8_2ND \<Rightarrow> ucast (immediate8_2nd i)
      | IMMEDIATE16 \<Rightarrow> ucast (immediate16 i)
      | IMMEDIATE32 \<Rightarrow> ucast (immediate32 i)
      | IMMEDIATE64 \<Rightarrow> immediate64 i
      | IMMEDIATE8TO16 \<Rightarrow> scast (immediate8to16 i)
      | IMMEDIATE8TO32 \<Rightarrow> scast (immediate8to32 i)
      | IMMEDIATE8TO64 \<Rightarrow> immediate8to64 i
      | IMMEDIATE32TO64 \<Rightarrow> immediate32to64 i
      | NEAR_BRANCH16 \<Rightarrow> ucast (near_branch16 i)
      | NEAR_BRANCH32 \<Rightarrow> ucast (near_branch32 i)
      | NEAR_BRANCH64 \<Rightarrow> near_branch64 i
      | _ \<Rightarrow> 0)"

text \<open>\<open>None\<close> is the source's \<^verbatim>\<open>*ok = false\<close>.\<close>

definition read_operand :: "'w ctx \<Rightarrow> nat \<Rightarrow> nat \<Rightarrow> u64 option \<times> 'w ctx" where
  "read_operand c k width =
     (let kind = op_kind (instr c) k
      in if kind = REGISTER then (Some (read_register (state c) (op_register (instr c) k)), c)
         else if kind = MEMORY
         then (case ctx_read c (memory_address c) width of
                 (r, c1) \<Rightarrow> (map_option (\<lambda>v. truncate_to v width) r, c1))
         else (Some (truncate_to (immediate_value (instr c) k) width), c))"

definition write_operand :: "'w ctx \<Rightarrow> nat \<Rightarrow> u64 \<Rightarrow> nat \<Rightarrow> bool \<times> 'w ctx" where
  "write_operand c k value0 width =
     (let value = truncate_to value0 width; kind = op_kind (instr c) k
      in if kind = REGISTER
         then (True, upd_state (\<lambda>s. write_register s (op_register (instr c) k) value 0) c)
         else if kind = MEMORY then ctx_write c (memory_address c) value width
         else (False, c))"

definition read_operand_checked :: "'w ctx \<Rightarrow> nat \<Rightarrow> nat \<Rightarrow> (execution_result + u64) \<times> 'w ctx" where
  "read_operand_checked c k width =
     (case read_operand c k width of
        (None, c1) \<Rightarrow> (Inl (memory_fault c1 (memory_address c1)), c1)
      | (Some v, c1) \<Rightarrow> (Inr v, c1))"

definition write_operand_checked :: "'w ctx \<Rightarrow> nat \<Rightarrow> u64 \<Rightarrow> nat \<Rightarrow> execution_result \<times> 'w ctx" where
  "write_operand_checked c k value width =
     (case write_operand c k value width of
        (False, c1) \<Rightarrow> (memory_fault c1 (memory_address c1), c1)
      | (True, c1) \<Rightarrow> (no_stop, c1))"

definition read_divisor_checked :: "'w ctx \<Rightarrow> nat \<Rightarrow> (execution_result + u64) \<times> 'w ctx" where
  "read_divisor_checked c width =
     (case read_operand c 0 width of
        (None, c1) \<Rightarrow> (Inl (memory_fault c1 (memory_address c1)), c1)
      | (Some d, c1) \<Rightarrow> if d = 0 then (Inl (divide_fault c1), c1) else (Inr d, c1))"

section \<open>Debug registers\<close>

definition note_debug_break :: "'w ctx \<Rightarrow> u64 \<Rightarrow> bool \<Rightarrow> bool \<times> 'w ctx" where
  "note_debug_break c hit_bits will_continue =
     (if hit_bits = 0 then (False, c)
      else (True, c\<lparr>debug_hit_bits := debug_hit_bits c OR hit_bits,
                   push_rf_for_debug := push_rf_for_debug c \<or> will_continue,
                   control_flow_taken := control_flow_taken c \<or> will_continue\<rparr>))"

definition dr_len_from_encoding :: "u64 \<Rightarrow> u64" where
  "dr_len_from_encoding len =
     (let l = len AND 3 in if l = 0 then 1 else if l = 1 then 2 else if l = 2 then 8 else 4)"

definition watch_overlap :: "u64 \<Rightarrow> u64 \<Rightarrow> u64 \<Rightarrow> u64 \<Rightarrow> bool" where
  "watch_overlap a_base a_size b_base b_size \<longleftrightarrow>
     \<not> (a_size = 0 \<or> b_size = 0) \<and> a_base < b_base + b_size \<and> b_base < a_base + a_size"

definition debug_data_breakpoint_hits :: "cpu_state \<Rightarrow> u64 \<Rightarrow> u64 \<Rightarrow> bool \<Rightarrow> bool \<Rightarrow> u64" where
  "debug_data_breakpoint_hits s address sz is_read is_write =
     (let dr7 = dr s ! 7
      in fold (\<lambda>i hit_bits.
           let enabled = (drop_bit (i * 2) dr7 AND 3 \<noteq> 0);
               rw = drop_bit (16 + i * 4) dr7 AND 3;
               access_matches = (rw = 1 \<and> is_write \<or> rw = 3 \<and> (is_read \<or> is_write));
               watch_base = mask_linear_address s (dr s ! i);
               watch_size = dr_len_from_encoding (drop_bit (18 + i * 4) dr7 AND 3)
           in if \<not> enabled \<or> rw = 0 \<or> rw = 2 \<or> \<not> access_matches then hit_bits
              else if watch_overlap watch_base watch_size address sz then hit_bits OR push_bit i 1
              else hit_bits) [0..<4] 0)"

section \<open>Interrupt delivery\<close>

definition gp_fault :: "'w ctx \<Rightarrow> u8 \<Rightarrow> execution_result" where
  "gp_fault c vector =
     \<lparr>reason = SR_general_protection, retired = 0,
      exception_of = Some \<lparr>ei_reason = SR_general_protection, ei_address = rip (state c),
                           ei_error_code = ucast vector\<rparr>,
      result_code = Some (code (instr c))\<rparr>"

definition idt_has_entry :: "'w ctx \<Rightarrow> u8 \<Rightarrow> u64 \<Rightarrow> bool" where
  "idt_has_entry c vector entry_size \<longleftrightarrow>
     (ucast vector + 1) * entry_size - 1 \<le> ucast (dt_limit (idtr (state c)))"

definition set_sp :: "u64 \<Rightarrow> 'w ctx \<Rightarrow> 'w ctx" where
  "set_sp sp = upd_state (\<lambda>s. s\<lparr>gpr := (gpr s)[4 := mask_stack_pointer s sp]\<rparr>)"

definition sp_of :: "'w ctx \<Rightarrow> u64" where
  "sp_of c = gpr (state c) ! 4"

text \<open>The local \<^verbatim>\<open>push_width\<close> of \<^verbatim>\<open>dispatch_interrupt\<close>.\<close>

definition frame_push :: "u8 \<Rightarrow> u64 \<Rightarrow> nat \<Rightarrow> 'w ctx \<Rightarrow> execution_result \<times> 'w ctx" where
  "frame_push vector value width c =
     (let c1 = set_sp (sp_of c - word_of_nat width) c
      in if width = 2 \<or> width = 4 \<or> width = 8 then write_memory_checked c1 (sp_of c1) value width
         else (gp_fault c1 vector, c1))"

text \<open>The gate the mode's descriptor format yields: target, selector and type.\<close>

definition gate_of_descriptor :: "u64 \<Rightarrow> u64 \<Rightarrow> (u64 \<times> u16 \<times> u8) option" where
  "gate_of_descriptor desc target =
     (let type_attr = ucast (drop_bit 40 desc AND 0xFF) :: u8;
          gate_type = type_attr AND 0x0F
      in if type_attr AND 0x80 = 0 \<or> gate_type \<noteq> 0x0E \<and> gate_type \<noteq> 0x0F then None
         else Some (target, ucast (drop_bit 16 desc AND 0xFFFF), gate_type))"

definition read_gate ::
  "'w ctx \<Rightarrow> u8 \<Rightarrow> (execution_result + u64 \<times> u16 \<times> u8) \<times> 'w ctx" where
  "read_gate c vector =
     (let base = dt_base (idtr (state c)) in
      case mode (state c) of
        real16 \<Rightarrow>
          if \<not> idt_has_entry c vector 4 then (Inl (gp_fault c vector), c)
          else let entry_base = base + ucast vector * 4 in
            (case read_memory_checked c entry_base 2 of
               (Inl r, c1) \<Rightarrow> (Inl r, c1)
             | (Inr ip, c1) \<Rightarrow>
                 (case read_memory_checked c1 (entry_base + 2) 2 of
                    (Inl r, c2) \<Rightarrow> (Inl r, c2)
                  | (Inr cs, c2) \<Rightarrow> (Inr (ip, ucast cs, 0x0E), c2)))
      | compat32 \<Rightarrow>
          if \<not> idt_has_entry c vector 8 then (Inl (gp_fault c vector), c)
          else let entry_base = base + ucast vector * 8 in
            (case read_memory_checked c entry_base 8 of
               (Inl r, c1) \<Rightarrow> (Inl r, c1)
             | (Inr desc, c1) \<Rightarrow>
                 (case gate_of_descriptor desc
                         ((desc AND 0xFFFF OR push_bit 16 (drop_bit 48 desc AND 0xFFFF)) AND 0xFFFFFFFF) of
                    None \<Rightarrow> (Inl (gp_fault c1 vector), c1)
                  | Some g \<Rightarrow> (Inr g, c1)))
      | long64 \<Rightarrow>
          if \<not> idt_has_entry c vector 16 then (Inl (gp_fault c vector), c)
          else let entry_base = base + ucast vector * 16 in
            (case read_memory_checked c entry_base 8 of
               (Inl r, c1) \<Rightarrow> (Inl r, c1)
             | (Inr lo, c1) \<Rightarrow>
                 (case read_memory_checked c1 (entry_base + 8) 8 of
                    (Inl r, c2) \<Rightarrow> (Inl r, c2)
                  | (Inr hi, c2) \<Rightarrow>
                      (case gate_of_descriptor lo
                              (lo AND 0xFFFF OR push_bit 16 (drop_bit 48 lo AND 0xFFFF)
                                 OR push_bit 32 (hi AND 0xFFFFFFFF)) of
                         None \<Rightarrow> (Inl (gp_fault c2 vector), c2)
                       | Some g \<Rightarrow> (Inr g, c2)))))"

text \<open>Sequencing of statements of the form \<^verbatim>\<open>if (auto result = f(ctx); !result.ok()) return result;\<close>.\<close>

definition and_then :: "execution_result \<times> 'w ctx \<Rightarrow> 'w handler \<Rightarrow> execution_result \<times> 'w ctx" where
  "and_then r k = (case r of (res, c) \<Rightarrow> if result_ok res then k c else (res, c))"

definition enter_gate :: "u64 \<times> u16 \<times> u8 \<Rightarrow> 'w handler" where
  "enter_gate g c =
     (case g of (target_rip, target_cs, gate_type) \<Rightarrow>
        (no_stop, (upd_state (\<lambda>s0.
           let s1 = (if gate_type = 0x0E then put_flag kFlagIF False s0 else s0);
               s2 = s1\<lparr>rflags := rflags s1 AND NOT kFlagTF\<rparr>;
               s3 = s2\<lparr>sreg := (sreg s2)[1 := target_cs]\<rparr>
           in s3\<lparr>rip := mask_instruction_pointer s3 target_rip\<rparr>) c)\<lparr>control_flow_taken := True\<rparr>))"

definition dispatch_interrupt :: "u8 \<Rightarrow> u64 \<Rightarrow> u32 option \<Rightarrow> bool \<Rightarrow> 'w handler" where
  "dispatch_interrupt vector return_rip error_code push_rf_in_frame c =
     (case read_gate c vector of
        (Inl r, c1) \<Rightarrow> (r, c1)
      | (Inr g, c1) \<Rightarrow>
          let width = instruction_pointer_width (mode (state c1));
              pushed_rflags = (if push_rf_in_frame then rflags (state c1) OR kFlagRF else rflags (state c1))
          in and_then (frame_push vector pushed_rflags width c1) (\<lambda>c2.
             and_then (frame_push vector (ucast (sreg (state c2) ! 1)) 2 c2) (\<lambda>c3.
             and_then (frame_push vector return_rip width c3) (\<lambda>c4.
             and_then (case error_code of None \<Rightarrow> (no_stop, c4)
                       | Some e \<Rightarrow> frame_push vector (ucast e) width c4) (enter_gate g)))))"

end
