(* ===== verification/Flag_Facts.thy ===== *)
theory Flag_Facts
  imports Operands
begin

text \<open>
  The status flags against arithmetic: what \<^verbatim>\<open>set_add_flags\<close>, \<^verbatim>\<open>set_sub_flags\<close>, \<^verbatim>\<open>set_logic_flags\<close>
  and \<^verbatim>\<open>set_multiply_flags\<close> leave in \<^verbatim>\<open>rflags\<close>, at the operand widths of 1, 2, 4 and 8 bytes, as statements on
  the unsigned and signed values of the operands.
\<close>

section \<open>Reading single flags\<close>

abbreviation flag_CF :: "cpu_state \<Rightarrow> bool" where "flag_CF s \<equiv> bit (rflags s) 0"
abbreviation flag_PF :: "cpu_state \<Rightarrow> bool" where "flag_PF s \<equiv> bit (rflags s) 2"
abbreviation flag_AF :: "cpu_state \<Rightarrow> bool" where "flag_AF s \<equiv> bit (rflags s) 4"
abbreviation flag_ZF :: "cpu_state \<Rightarrow> bool" where "flag_ZF s \<equiv> bit (rflags s) 6"
abbreviation flag_SF :: "cpu_state \<Rightarrow> bool" where "flag_SF s \<equiv> bit (rflags s) 7"
abbreviation flag_OF :: "cpu_state \<Rightarrow> bool" where "flag_OF s \<equiv> bit (rflags s) 11"

lemmas flag_consts = kFlagCF_def kFlagPF_def kFlagAF_def kFlagZF_def kFlagSF_def kFlagTF_def
  kFlagIF_def kFlagDF_def kFlagOF_def kFlagRF_def

lemma bit_set_flag:
  "bit (set_flag f (push_bit k 1) v) j \<longleftrightarrow> (if j = k then v \<and> k < 64 else bit f j)"
  by (auto simp: set_flag_def bit_or_iff bit_and_iff bit_not_iff bit_exp_iff
      dest: bit_imp_le_length)

lemma bit_set_flag_consts [simp]:
  "bit (set_flag f kFlagCF v) j \<longleftrightarrow> (if j = 0 then v else bit f j)"
  "bit (set_flag f kFlagPF v) j \<longleftrightarrow> (if j = 2 then v else bit f j)"
  "bit (set_flag f kFlagAF v) j \<longleftrightarrow> (if j = 4 then v else bit f j)"
  "bit (set_flag f kFlagZF v) j \<longleftrightarrow> (if j = 6 then v else bit f j)"
  "bit (set_flag f kFlagSF v) j \<longleftrightarrow> (if j = 7 then v else bit f j)"
  "bit (set_flag f kFlagIF v) j \<longleftrightarrow> (if j = 9 then v else bit f j)"
  "bit (set_flag f kFlagDF v) j \<longleftrightarrow> (if j = 10 then v else bit f j)"
  "bit (set_flag f kFlagOF v) j \<longleftrightarrow> (if j = 11 then v else bit f j)"
  unfolding flag_consts bit_set_flag by simp_all

lemma put_flags_state: "put_flags fs s = s\<lparr>rflags := fold (\<lambda>(b, v) f. set_flag f b v) fs (rflags s)\<rparr>"
proof (induction fs arbitrary: s)
  case Nil
  then show ?case by (simp add: put_flags_def)
next
  case (Cons p fs)
  obtain b v where p: "p = (b, v)" by fastforce
  have "put_flags (p # fs) s = put_flags fs (put_flag b v s)" by (simp add: put_flags_def p)
  then show ?case using Cons.IH [of "put_flag b v s"] by (simp add: p put_flag_def)
qed

lemma put_flags_rflags [simp]:
  "rflags (put_flags [] s) = rflags s"
  "rflags (put_flags ((b, v) # fs) s) = rflags (put_flags fs (s\<lparr>rflags := set_flag (rflags s) b v\<rparr>))"
  by (simp_all add: put_flags_state)

text \<open>Nothing but \<^verbatim>\<open>rflags\<close> changes.\<close>

definition only_rflags :: "cpu_state \<Rightarrow> cpu_state \<Rightarrow> bool" where
  "only_rflags s s' \<longleftrightarrow> (\<exists>f. s' = s\<lparr>rflags := f\<rparr>)"

lemma put_flags_only [simp]: "only_rflags s (put_flags fs s)"
  by (auto simp: only_rflags_def put_flags_state)

lemma flag_setters_only [simp]:
  "only_rflags s (set_add_flags s a b r w c)" "only_rflags s (set_sub_flags s a b r w c)"
  "only_rflags s (set_logic_flags s r w)" "only_rflags s (set_multiply_flags s r w ov)"
  by (simp_all add: set_add_flags_def set_sub_flags_def set_logic_flags_def set_multiply_flags_def Let_def)

lemma only_rflags_wf: "only_rflags s s' \<Longrightarrow> wf_cpu s \<Longrightarrow> wf_cpu s'"
  by (auto simp: only_rflags_def wf_cpu_def)

section \<open>Operands as integers\<close>

text \<open>The unsigned and the signed value of the low \<open>w\<close> bytes.\<close>

definition uval :: "nat \<Rightarrow> u64 \<Rightarrow> int" where
  "uval w v = take_bit (8 * w) (uint v)"

definition sval :: "nat \<Rightarrow> u64 \<Rightarrow> int" where
  "sval w v = signed_take_bit (8 * w - 1) (uint v)"

definition valid_width :: "nat \<Rightarrow> bool" where
  "valid_width w \<longleftrightarrow> w = 1 \<or> w = 2 \<or> w = 4 \<or> w = 8"

lemma valid_widthE:
  assumes "valid_width w"
  obtains "w = 1" | "w = 2" | "w = 4" | "w = 8"
  using assms by (auto simp: valid_width_def)

lemma valid_width_bounds: "valid_width w \<Longrightarrow> 0 < w \<and> w \<le> 8"
  by (auto simp: valid_width_def)

lemma uval_bounds: "0 \<le> uval w v" "uval w v < 2 ^ (8 * w)"
  by (simp_all add: uval_def)

lemma uint_masked: "w \<le> 8 \<Longrightarrow> uint (v AND mask_for_width w) = uval w v"
  by (simp add: and_mask_for_width uval_def unsigned_take_bit_eq)

lemma uval_top: "0 < w \<Longrightarrow> w \<le> 8 \<Longrightarrow> bit v (8 * w - 1) \<longleftrightarrow> 2 ^ (8 * w - 1) \<le> uval w v"
  using uint_take_bit_top [of "8 * w" v] by (simp add: uval_def)

lemma two_power_width: "0 < w \<Longrightarrow> (2 :: int) ^ (8 * w) = 2 * 2 ^ (8 * w - 1)"
  by (simp add: power_Suc [symmetric] del: power_Suc)

lemma sval_uval:
  assumes "0 < w" "w \<le> 8"
  shows "sval w v = (if bit v (8 * w - 1) then uval w v - 2 ^ (8 * w) else uval w v)"
proof -
  have s: "sval w v = signed_take_bit (8 * w - 1) (uval w v)"
    using assms unfolding sval_def uval_def by (subst signed_take_bit_take_bit) auto
  have b: "bit (uval w v) (8 * w - 1) = bit v (8 * w - 1)"
    using assms by (auto simp: uval_def bit_take_bit_iff bit_uint_iff)
  show ?thesis
    using assms uval_bounds [of w v] two_power_width [of w] uval_top [of w v]
    unfolding s using b by (simp add: signed_take_bit_eq_take_bit_minus take_bit_int_eq_self)
qed

lemma uval_of_int: "w \<le> 8 \<Longrightarrow> uval w (word_of_int k) = k mod 2 ^ (8 * w)"
  by (simp add: uval_def unsigned_of_int take_bit_take_bit min_def take_bit_eq_mod [symmetric])

lemma uval_add:
  assumes "w \<le> 8"
  shows "uval w (a + b + (if c then 1 else 0)) = (uval w a + uval w b + of_bool c) mod 2 ^ (8 * w)"
proof -
  have "uval w (x + y) = (uval w x + uval w y) mod 2 ^ (8 * w)" for x y :: u64
    using uval_of_int [OF assms, of "uint x + uint y"] by (simp add: uval_def take_bit_eq_mod mod_add_eq)
  moreover have "uval w (if c then 1 else 0) = (of_bool c) mod 2 ^ (8 * w)"
    by (simp add: uval_def take_bit_eq_mod)
  ultimately show ?thesis by (simp add: mod_add_left_eq mod_add_right_eq)
qed

lemma uval_sub:
  assumes "w \<le> 8"
  shows "uval w (a - b - (if c then 1 else 0)) = (uval w a - uval w b - of_bool c) mod 2 ^ (8 * w)"
proof -
  have "uval w (x - y) = (uval w x - uval w y) mod 2 ^ (8 * w)" for x y :: u64
    using uval_of_int [OF assms, of "uint x - uint y"] by (simp add: uval_def take_bit_eq_mod mod_diff_eq)
  moreover have "uval w (if c then 1 else 0) = (of_bool c) mod 2 ^ (8 * w)"
    by (simp add: uval_def take_bit_eq_mod)
  ultimately show ?thesis by (simp add: mod_diff_left_eq mod_diff_right_eq)
qed

section \<open>Carries\<close>

lemma bit_4_iff: "bit (k :: int) 4 \<longleftrightarrow> odd (k div 16)"
  by (simp add: bit_iff_odd)

lemma bit_uval: "k < 8 * w \<Longrightarrow> w \<le> 8 \<Longrightarrow> bit (uval w v) k = bit v k"
  by (auto simp: uval_def bit_take_bit_iff bit_uint_iff)

lemma mod_width_div_16:
  assumes "0 < w"
  shows "odd ((x mod 2 ^ (8 * w)) div 16) = odd ((x :: int) div 16)"
proof -
  have "bit (x mod 2 ^ (8 * w)) 4 = bit x 4"
    using assms by (simp add: take_bit_eq_mod [symmetric] bit_take_bit_iff)
  then show ?thesis by (simp add: bit_4_iff)
qed

lemma nibble_add:
  fixes A B C :: int
  assumes "0 \<le> C" "C \<le> 1"
  shows "(A + B + C) div 16 = A div 16 + B div 16 + of_bool (16 \<le> A mod 16 + B mod 16 + C)"
proof (rule int_div_pos_eq)
  let ?L = "A mod 16 + B mod 16 + C"
  show "A + B + C = 16 * (A div 16 + B div 16 + of_bool (16 \<le> ?L)) + (?L - 16 * of_bool (16 \<le> ?L))"
  proof -
    have "A + B + C = 16 * (qa + qb + k) + (ra + rb + C - 16 * k)"
      if "A = 16 * qa + ra" "B = 16 * qb + rb" for qa ra qb rb k
      unfolding that by simp
    then show ?thesis by simp
  qed
  show "0 \<le> ?L - 16 * of_bool (16 \<le> ?L)" "?L - 16 * of_bool (16 \<le> ?L) < 16"
    using assms pos_mod_bound [of 16 A] pos_mod_bound [of 16 B] by (auto simp: of_bool_def)
qed

lemma nibble_sub:
  fixes A B C :: int
  assumes "0 \<le> C" "C \<le> 1"
  shows "(A - B - C) div 16 = A div 16 - B div 16 - of_bool (A mod 16 < B mod 16 + C)"
proof (rule int_div_pos_eq)
  let ?P = "A mod 16 < B mod 16 + C"
  have gen: "A - B - C = 16 * (qa - qb - k) + (ra - rb - C + 16 * k)"
    if "A = 16 * qa + ra" "B = 16 * qb + rb" for qa ra qb rb k
    unfolding that by simp
  show "A - B - C = 16 * (A div 16 - B div 16 - of_bool ?P) + (A mod 16 - B mod 16 - C + 16 * of_bool ?P)"
    by (rule gen) simp_all
  show "0 \<le> A mod 16 - B mod 16 - C + 16 * of_bool ?P" "A mod 16 - B mod 16 - C + 16 * of_bool ?P < 16"
    using assms pos_mod_bound [of 16 A] pos_mod_bound [of 16 B] pos_mod_sign [of 16 A] pos_mod_sign [of 16 B]
    by (auto simp: of_bool_def)
qed

lemma carry_out_of_nibble:
  assumes "0 < w" "w \<le> 8"
  shows "bit (a XOR b XOR (a + b + (if c then 1 else 0))) 4 \<longleftrightarrow>
    16 \<le> uval w a mod 16 + uval w b mod 16 + of_bool c"
proof -
  let ?r = "a + b + (if c then 1 else 0)"
  have "bit ?r 4 = odd ((uval w a + uval w b + of_bool c) div 16)"
    using assms bit_uval [of 4 w ?r] by (simp add: uval_add bit_4_iff mod_width_div_16 del: bit_uval)
  moreover have "bit a 4 = odd (uval w a div 16)" "bit b 4 = odd (uval w b div 16)"
    using assms bit_uval [of 4 w a] bit_uval [of 4 w b] by (simp_all add: bit_4_iff)
  ultimately show ?thesis
    by (simp add: bit_xor_iff nibble_add) blast
qed

lemma borrow_into_nibble:
  assumes "0 < w" "w \<le> 8"
  shows "bit (a XOR b XOR (a - b - (if c then 1 else 0))) 4 \<longleftrightarrow>
    uval w a mod 16 < uval w b mod 16 + of_bool c"
proof -
  let ?r = "a - b - (if c then 1 else 0)"
  have "bit ?r 4 = odd ((uval w a - uval w b - of_bool c) div 16)"
    using assms bit_uval [of 4 w ?r] by (simp add: uval_sub bit_4_iff mod_width_div_16)
  moreover have "bit a 4 = odd (uval w a div 16)" "bit b 4 = odd (uval w b div 16)"
    using assms bit_uval [of 4 w a] bit_uval [of 4 w b] by (simp_all add: bit_4_iff)
  ultimately show ?thesis
    by (simp add: bit_xor_iff nibble_sub) blast
qed

section \<open>Overflow\<close>

lemma signed_range_add:
  fixes A B R H :: int
  assumes "0 \<le> A" "A < 2 * H" "0 \<le> B" "B < 2 * H" "0 \<le> C" "C \<le> 1" "R = (A + B + C) mod (2 * H)"
  shows "((H \<le> A) = (H \<le> B) \<and> (H \<le> A) \<noteq> (H \<le> R)) \<longleftrightarrow>
    (let S = (if H \<le> A then A - 2 * H else A) + (if H \<le> B then B - 2 * H else B) + C
     in S < - H \<or> H \<le> S)"
proof -
  have "R = A + B + C \<and> A + B + C < 2 * H \<or> R = A + B + C - 2 * H \<and> 2 * H \<le> A + B + C"
  proof (cases "A + B + C < 2 * H")
    case False
    then have "(A + B + C) mod (2 * H) = A + B + C - 2 * H"
      using assms by (intro int_mod_pos_eq [where q = 1]) auto
    then show ?thesis using False assms by simp
  qed (use assms in simp)
  then show ?thesis using assms by (auto simp: Let_def)
qed

lemma signed_range_sub:
  fixes A B R H :: int
  assumes "0 \<le> A" "A < 2 * H" "0 \<le> B" "B < 2 * H" "0 \<le> C" "C \<le> 1" "R = (A - B - C) mod (2 * H)"
  shows "((H \<le> A) \<noteq> (H \<le> B) \<and> (H \<le> A) \<noteq> (H \<le> R)) \<longleftrightarrow>
    (let S = (if H \<le> A then A - 2 * H else A) - (if H \<le> B then B - 2 * H else B) - C
     in S < - H \<or> H \<le> S)"
proof -
  have "R = A - B - C \<and> 0 \<le> A - B - C \<or> R = A - B - C + 2 * H \<and> A - B - C < 0"
  proof (cases "0 \<le> A - B - C")
    case False
    then have "(A - B - C) mod (2 * H) = A - B - C + 2 * H"
      using assms by (intro int_mod_pos_eq [where q = "- 1"]) auto
    then show ?thesis using False assms by simp
  qed (use assms in simp)
  then show ?thesis using assms by (auto simp: Let_def)
qed

section \<open>The setters\<close>

lemma and_sign_bit: "0 < w \<Longrightarrow> v AND sign_bit_for_width w \<noteq> 0 \<longleftrightarrow> bit v (8 * w - 1)"
  by (simp add: sign_bit_for_width_def mult.commute)

lemma bit_masked: "bit (v AND mask_for_width w) k \<longleftrightarrow> bit v k \<and> k < 8 * w"
  by (auto simp: bit_and_iff bit_mask_for_width dest: bit_imp_le_length)

lemma masked_eq_0: "w \<le> 8 \<Longrightarrow> v AND mask_for_width w = 0 \<longleftrightarrow> uval w v = 0"
  by (metis uint_masked unsigned_eq_0_iff)

lemma low_byte_masked: "0 < w \<Longrightarrow> low_byte (v AND mask_for_width w) = ucast v"
  by (rule bit_word_eqI) (auto simp: low_byte_def bit_ucast_iff bit_and_iff bit_mask_for_width
      bit_numeral_rec numeral_eq_Suc less_Suc_eq)

lemma and_0x10_iff: "v AND 0x10 \<noteq> 0 \<longleftrightarrow> bit v 4" for v :: u64
  using and_exp_eq_0_iff_not_bit [of v 4] by simp

text \<open>The carry out of an addition at the given width.\<close>

lemma add_carry:
  fixes a b :: u64 and c :: bool
  assumes "valid_width w"
  defines "m \<equiv> mask_for_width w"
  defines "p \<equiv> (a AND m) + (b AND m)"
  defines "f \<equiv> p + (if c then 1 else 0)"
  shows "(if w < 8 then (if c then p < a AND m \<or> f = 0 else p < a AND m) \<or> f AND NOT m \<noteq> 0
          else (if c then p < a AND m \<or> f = 0 else p < a AND m)) \<longleftrightarrow>
    2 ^ (8 * w) \<le> uval w a + uval w b + of_bool c"
proof -
  have u: "uint (a AND m) = uval w a" "uint (b AND m) = uval w b"
    using assms(1) by (simp_all add: m_def uint_masked valid_width_bounds)
  note bnd = uval_bounds [of w a] uval_bounds [of w b]
  show ?thesis
  proof (cases "w = 8")
    case True
    have p: "uint p = (uval w a + uval w b) mod 2 ^ 64" by (simp add: p_def uint_word_ariths u)
    have f: "uint f = (uval w a + uval w b + of_bool c) mod 2 ^ 64"
      by (simp add: f_def uint_word_ariths p mod_add_left_eq)
    have lt: "p < a AND m \<longleftrightarrow> 2 ^ 64 \<le> uval w a + uval w b"
    proof (cases "uval w a + uval w b < 2 ^ 64")
      case False
      then have "(uval w a + uval w b) mod 2 ^ 64 = uval w a + uval w b - 2 ^ 64"
        using bnd True by (intro int_mod_pos_eq [where q = 1]) auto
      then show ?thesis using False bnd True by (simp add: word_less_def p u)
    qed (use bnd in \<open>simp add: word_less_def p u\<close>)
    have "f = 0 \<longleftrightarrow> (uval w a + uval w b + of_bool c) mod 2 ^ 64 = 0"
      unfolding f [symmetric] by (simp add: word_eq_iff_unsigned [where ?'a = int])
    moreover have "(uval w a + uval w b + 1) mod 2 ^ 64 = 0 \<longleftrightarrow> uval w a + uval w b + 1 = 2 ^ 64"
    proof (cases "uval w a + uval w b + 1 < 2 ^ 64")
      case False
      then have "(uval w a + uval w b + 1) mod 2 ^ 64 = uval w a + uval w b + 1 - 2 ^ 64"
        using bnd True by (intro int_mod_pos_eq [where q = 1]) auto
      then show ?thesis by simp
    qed (use bnd in auto)
    ultimately show ?thesis using True lt by auto
  next
    case False
    then have w: "w < 8" "8 * w \<le> 32" using assms(1) by (auto elim: valid_widthE)
    have small: "(2 :: int) ^ (8 * w) \<le> 2 ^ 32" using w(2) by (intro power_increasing) auto
    have p: "uint p = uval w a + uval w b"
      unfolding p_def using bnd small by (subst uint_plus_simple) (auto simp: no_olen_add u)
    have f: "uint f = uval w a + uval w b + of_bool c"
      unfolding f_def using bnd small p
      by (cases c) (auto simp: uint_word_ariths)
    have "f AND NOT m \<noteq> 0 \<longleftrightarrow> 2 ^ (8 * w) \<le> uint f"
    proof -
      have "f AND NOT m = 0 \<longleftrightarrow> f = f AND m"
        by (metis (no_types, lifting) and.comm_neutral and_eq_not_not_or bit.conj_cancel_left bit.conj_disj_distrib
            bit.disj_cancel_right bit.disj_zero_right)
      also have "\<dots> \<longleftrightarrow> uint f = take_bit (8 * w) (uint f)"
        by (simp add: m_def and_mask_for_width word_eq_iff_unsigned [where ?'a = int] unsigned_take_bit_eq)
      also have "\<dots> \<longleftrightarrow> uint f < 2 ^ (8 * w)"
        by (metis take_bit_int_eq_self take_bit_int_less_exp unsigned_greater_eq)
      finally show ?thesis by auto
    qed
    moreover have "\<not> p < a AND m" using bnd by (simp add: word_less_def p u)
    moreover have "f = 0 \<longrightarrow> \<not> c" using f bnd by auto
    ultimately show ?thesis using w f by auto
  qed
qed

text \<open>The borrow out of a subtraction at the given width.\<close>

lemma sub_borrow:
  fixes a b :: u64 and c :: bool
  assumes "valid_width w"
  defines "m \<equiv> mask_for_width w"
  shows "(w = 8 \<and> c \<and> b AND m = m) \<or> a AND m < (b AND m) + (if c then 1 else 0) \<longleftrightarrow>
    uval w a < uval w b + of_bool c"
proof -
  have u: "uint (a AND m) = uval w a" "uint (b AND m) = uval w b"
    using assms(1) by (simp_all add: m_def uint_masked valid_width_bounds)
  note bnd = uval_bounds [of w a] uval_bounds [of w b]
  have m8: "b AND m = m \<longleftrightarrow> uval w b = 2 ^ 64 - 1" if "w = 8"
    using that u(2) by (simp add: m_def mask_for_width_def word_eq_iff_unsigned [where ?'a = int] unsigned_minus_1_eq_mask mask_eq_exp_minus_1)
  show ?thesis
  proof (cases "w = 8 \<and> c \<and> uval w b = 2 ^ 64 - 1")
    case True
    then show ?thesis using m8 bnd by auto
  next
    case False
    have le: "(2 :: int) ^ (8 * w) \<le> 2 ^ 64" using assms(1) by (intro power_increasing) (auto elim: valid_widthE)
    have "uint ((b AND m) + (if c then 1 else 0)) = uval w b + of_bool c"
    proof -
      have "uval w b + of_bool c < 2 ^ 64"
        using False bnd le assms(1) by (cases c; cases "w = 8") (auto elim!: valid_widthE)
      then show ?thesis using bnd by (cases c) (simp_all add: uint_word_ariths u)
    qed
    then have "a AND m < (b AND m) + (if c then 1 else 0) \<longleftrightarrow> uval w a < uval w b + of_bool c"
      by (simp add: word_less_def u)
    then show ?thesis using False m8 by auto
  qed
qed

section \<open>Specification of the flags\<close>

text \<open>ZF, SF and PF as a function of a result.\<close>

definition result_flags :: "nat \<Rightarrow> u64 \<Rightarrow> cpu_state \<Rightarrow> bool" where
  "result_flags w r s' \<longleftrightarrow> (flag_ZF s' \<longleftrightarrow> uval w r = 0) \<and> (flag_SF s' \<longleftrightarrow> sval w r < 0) \<and>
     (flag_PF s' \<longleftrightarrow> even (length (filter (bit r) [0..<8])))"

definition add_flags_spec :: "nat \<Rightarrow> u64 \<Rightarrow> u64 \<Rightarrow> bool \<Rightarrow> cpu_state \<Rightarrow> bool" where
  "add_flags_spec w a b c s' \<longleftrightarrow>
     (flag_CF s' \<longleftrightarrow> 2 ^ (8 * w) \<le> uval w a + uval w b + of_bool c) \<and>
     (flag_OF s' \<longleftrightarrow> (let t = sval w a + sval w b + of_bool c in t < - (2 ^ (8 * w - 1)) \<or> 2 ^ (8 * w - 1) \<le> t)) \<and>
     (flag_AF s' \<longleftrightarrow> 16 \<le> uval w a mod 16 + uval w b mod 16 + of_bool c)"

definition sub_flags_spec :: "nat \<Rightarrow> u64 \<Rightarrow> u64 \<Rightarrow> bool \<Rightarrow> cpu_state \<Rightarrow> bool" where
  "sub_flags_spec w a b c s' \<longleftrightarrow>
     (flag_CF s' \<longleftrightarrow> uval w a < uval w b + of_bool c) \<and>
     (flag_OF s' \<longleftrightarrow> (let t = sval w a - sval w b - of_bool c in t < - (2 ^ (8 * w - 1)) \<or> 2 ^ (8 * w - 1) \<le> t)) \<and>
     (flag_AF s' \<longleftrightarrow> uval w a mod 16 < uval w b mod 16 + of_bool c)"

text \<open>Only the six status flags change.\<close>

definition only_status_flags :: "cpu_state \<Rightarrow> cpu_state \<Rightarrow> bool" where
  "only_status_flags s s' \<longleftrightarrow> only_rflags s s' \<and>
     (\<forall>k. k \<notin> {0, 2, 4, 6, 7, 11} \<longrightarrow> bit (rflags s') k = bit (rflags s) k)"

lemma parity_of_result:
  "0 < w \<Longrightarrow> even_parity (low_byte (v AND mask_for_width w)) \<longleftrightarrow> even (length (filter (bit v) [0..<8]))"
proof -
  assume "0 < w"
  moreover have "filter (bit (ucast v :: u8)) [0..<8] = filter (bit v) [0..<8]"
    by (intro filter_cong) (auto simp: bit_ucast_iff)
  ultimately show ?thesis by (simp add: low_byte_masked even_parity_popcount)
qed

lemma sval_neg: "0 < w \<Longrightarrow> w \<le> 8 \<Longrightarrow> sval w v < 0 \<longleftrightarrow> bit v (8 * w - 1)"
  using uval_bounds [of w v] by (simp add: sval_uval)

lemma sign_of_masked: "0 < w \<Longrightarrow> (v AND mask_for_width w) AND sign_bit_for_width w \<noteq> 0 \<longleftrightarrow> bit v (8 * w - 1)"
  by (simp add: and_sign_bit bit_masked)

lemma set_add_flags_status: "only_status_flags s (set_add_flags s a b r w c)"
  unfolding only_status_flags_def by (simp add: set_add_flags_def Let_def)

lemma set_sub_flags_status: "only_status_flags s (set_sub_flags s a b r w c)"
  unfolding only_status_flags_def by (simp add: set_sub_flags_def Let_def)

lemma set_add_flags_result: "valid_width w \<Longrightarrow> result_flags w r (set_add_flags s a b r w c)"
  using valid_width_bounds [of w]
  by (simp add: result_flags_def set_add_flags_def Let_def masked_eq_0 sign_of_masked sval_neg parity_of_result)

lemma set_sub_flags_result: "valid_width w \<Longrightarrow> result_flags w r (set_sub_flags s a b r w c)"
  using valid_width_bounds [of w]
  by (simp add: result_flags_def set_sub_flags_def Let_def masked_eq_0 sign_of_masked sval_neg parity_of_result)

lemma set_add_flags_spec:
  assumes "valid_width w"
  shows "add_flags_spec w a b c (set_add_flags s a b (a + b + (if c then 1 else 0)) w c)"
proof -
  let ?r = "a + b + (if c then 1 else 0)" and ?s = "set_add_flags s a b (a + b + (if c then 1 else 0)) w c"
  have w: "0 < w" "w \<le> 8" using valid_width_bounds [OF assms] by auto
  then have w64: "8 * w - Suc 0 < 64" by auto
  have cf: "flag_CF ?s \<longleftrightarrow> 2 ^ (8 * w) \<le> uval w a + uval w b + of_bool c"
    using add_carry [OF assms, where a = a and b = b and c = c] by (simp add: set_add_flags_def Let_def)
  have "flag_AF ?s \<longleftrightarrow> bit (a XOR b XOR ?r) 4"
    using w by (simp add: set_add_flags_def Let_def and_0x10_iff bit_xor_iff bit_masked)
  then have af: "flag_AF ?s \<longleftrightarrow> 16 \<le> uval w a mod 16 + uval w b mod 16 + of_bool c"
    using carry_out_of_nibble [OF w] by simp
  let ?H = "2 ^ (8 * w - 1) :: int"
  have "flag_OF ?s \<longleftrightarrow> bit a (8 * w - 1) = bit b (8 * w - 1) \<and> bit a (8 * w - 1) \<noteq> bit ?r (8 * w - 1)"
    using w w64 by (simp add: set_add_flags_def Let_def and_sign_bit bit_xor_iff bit_and_iff bit_not_iff bit_mask_for_width)
  also have "\<dots> \<longleftrightarrow> (?H \<le> uval w a) = (?H \<le> uval w b) \<and> (?H \<le> uval w a) \<noteq> (?H \<le> uval w ?r)"
    using w by (simp add: uval_top del: One_nat_def)
  also have "\<dots> \<longleftrightarrow> (let t = sval w a + sval w b + of_bool c in t < - ?H \<or> ?H \<le> t)"
    using signed_range_add [of "uval w a" ?H "uval w b" "of_bool c" "uval w ?r"]
      uval_bounds [of w a] uval_bounds [of w b] w
    by (simp add: two_power_width sval_uval uval_top uval_add del: One_nat_def)
  finally show ?thesis using cf af by (simp add: add_flags_spec_def)
qed

lemma set_sub_flags_spec:
  assumes "valid_width w"
  shows "sub_flags_spec w a b c (set_sub_flags s a b (a - b - (if c then 1 else 0)) w c)"
proof -
  let ?r = "a - b - (if c then 1 else 0)" and ?s = "set_sub_flags s a b (a - b - (if c then 1 else 0)) w c"
  have w: "0 < w" "w \<le> 8" using valid_width_bounds [OF assms] by auto
  then have w64: "8 * w - Suc 0 < 64" by auto
  have cf: "flag_CF ?s \<longleftrightarrow> uval w a < uval w b + of_bool c"
    using sub_borrow [OF assms, where a = a and b = b and c = c] by (simp add: set_sub_flags_def Let_def)
  have "flag_AF ?s \<longleftrightarrow> bit (a XOR b XOR ?r) 4"
    using w by (simp add: set_sub_flags_def Let_def and_0x10_iff bit_xor_iff bit_masked)
  then have af: "flag_AF ?s \<longleftrightarrow> uval w a mod 16 < uval w b mod 16 + of_bool c"
    using borrow_into_nibble [OF w] by simp
  let ?H = "2 ^ (8 * w - 1) :: int"
  have "flag_OF ?s \<longleftrightarrow> bit a (8 * w - 1) \<noteq> bit b (8 * w - 1) \<and> bit a (8 * w - 1) \<noteq> bit ?r (8 * w - 1)"
    using w w64 by (simp add: set_sub_flags_def Let_def and_sign_bit bit_xor_iff bit_and_iff bit_not_iff bit_mask_for_width)
  also have "\<dots> \<longleftrightarrow> (?H \<le> uval w a) \<noteq> (?H \<le> uval w b) \<and> (?H \<le> uval w a) \<noteq> (?H \<le> uval w ?r)"
    using w by (simp add: uval_top del: One_nat_def)
  also have "\<dots> \<longleftrightarrow> (let t = sval w a - sval w b - of_bool c in t < - ?H \<or> ?H \<le> t)"
    using signed_range_sub [of "uval w a" ?H "uval w b" "of_bool c" "uval w ?r"]
      uval_bounds [of w a] uval_bounds [of w b] w
    by (simp add: two_power_width sval_uval uval_top uval_sub del: One_nat_def)
  finally show ?thesis using cf af by (simp add: sub_flags_spec_def)
qed

text \<open>C3: after \<^verbatim>\<open>set_add_flags\<close> for \<^verbatim>\<open>lhs + rhs + carry\<close>, at every operand width: CF is the carry out of the
  unsigned sum, OF says that the signed sum does not fit, ZF and SF describe the truncated result, AF is the carry out of
  the low nibble, PF the parity of the low byte; nothing else of the state changes.\<close>

theorem add_flags_correct:
  assumes "valid_width w"
  shows "let r = a + b + (if c then 1 else 0); s' = set_add_flags s a b r w c
    in add_flags_spec w a b c s' \<and> result_flags w r s' \<and> only_status_flags s s'"
  using set_add_flags_spec [OF assms] set_add_flags_result [OF assms] set_add_flags_status
  unfolding Let_def by blast

theorem add_flags_correct_witness:
  "valid_width 1 \<and> (let r = 0x7F + 1 + (if False then 1 else 0); s' = set_add_flags initial_cpu_state 0x7F 1 r 1 False
    in add_flags_spec 1 0x7F 1 False s' \<and> result_flags 1 r s' \<and> only_status_flags initial_cpu_state s')"
  using add_flags_correct [of 1 "0x7F" 1 False initial_cpu_state] by (simp add: valid_width_def)

text \<open>C4: after \<^verbatim>\<open>set_sub_flags\<close> for \<^verbatim>\<open>lhs - rhs - borrow\<close>, at every operand width: CF is the unsigned borrow (the 64-bit
  subtrahend that wraps included), OF the signed overflow, AF the borrow into the low nibble, and ZF, SF, PF describe the result.\<close>

theorem sub_flags_correct:
  assumes "valid_width w"
  shows "let r = a - b - (if c then 1 else 0); s' = set_sub_flags s a b r w c
    in sub_flags_spec w a b c s' \<and> result_flags w r s' \<and> only_status_flags s s'"
  using set_sub_flags_spec [OF assms] set_sub_flags_result [OF assms] set_sub_flags_status
  unfolding Let_def by blast

theorem sub_flags_correct_witness:
  "valid_width 8 \<and> (let r = 0 - (- 1) - (if True then 1 else 0); s' = set_sub_flags initial_cpu_state 0 (- 1) r 8 True
    in sub_flags_spec 8 0 (- 1) True s' \<and> result_flags 8 r s' \<and> only_status_flags initial_cpu_state s')"
  using sub_flags_correct [of 8 0 "- 1" True initial_cpu_state] by (simp add: valid_width_def)

section \<open>Logic and multiply flags\<close>

lemma set_logic_flags_result: "valid_width w \<Longrightarrow> result_flags w r (set_logic_flags s r w)"
  using valid_width_bounds [of w]
  by (simp add: result_flags_def set_logic_flags_def truncate_to_def Let_def masked_eq_0 sign_of_masked
      sval_neg parity_of_result)

lemma set_logic_flags_cleared:
  "\<not> flag_CF (set_logic_flags s r w)" "\<not> flag_OF (set_logic_flags s r w)" "\<not> flag_AF (set_logic_flags s r w)"
  by (simp_all add: set_logic_flags_def Let_def)

lemma set_logic_flags_status: "only_status_flags s (set_logic_flags s r w)"
  unfolding only_status_flags_def by (simp add: set_logic_flags_def Let_def)

lemma set_multiply_flags_status: "only_status_flags s (set_multiply_flags s r w ov)"
  unfolding only_status_flags_def by (simp add: set_multiply_flags_def Let_def)

lemma set_multiply_flags_bits:
  assumes "valid_width w"
  shows "flag_CF (set_multiply_flags s r w ov) = ov" "flag_OF (set_multiply_flags s r w ov) = ov"
    "\<not> flag_ZF (set_multiply_flags s r w ov)" "\<not> flag_AF (set_multiply_flags s r w ov)"
    "flag_SF (set_multiply_flags s r w ov) \<longleftrightarrow> sval w r < 0"
    "flag_PF (set_multiply_flags s r w ov) \<longleftrightarrow> even (length (filter (bit r) [0..<8]))"
  using valid_width_bounds [OF assms]
  by (simp_all add: set_multiply_flags_def truncate_to_def Let_def sign_of_masked sval_neg parity_of_result)

end
