(* ===== verification/Register_Facts.thy ===== *)
theory Register_Facts
  imports Flag_Facts
begin

text \<open>
  The register file: \<^verbatim>\<open>write_register\<close> bit by bit (which part of the 64-bit register an
  8-, 16-, 32- or 64-bit name covers and what happens to the rest), reads after writes, and the invariant that the arrays
  keep their sizes.
\<close>

section \<open>The invariant\<close>

lemma family_index_less: "family_index g < 16"
  by (cases g) simp_all

lemma reg_index_less: "reg_index r < 16"
  by (cases r) (simp_all add: family_index_less)

lemma seg_index_less: "seg_index r = Some i \<Longrightarrow> i < 6"
  by (cases r) auto

lemma write_register_wf [wf_intros]: "wf_cpu s \<Longrightarrow> wf_cpu (write_register s r v w)"
  by (auto simp: write_register_def write_gpr_def mmx_set_def wf_cpu_def Let_def
      split: option.split register.split)

section \<open>Parts of a register\<close>

text \<open>The bits a general register name covers.\<close>

fun reg_part :: "register \<Rightarrow> (nat \<times> nat) option" where
  "reg_part AH = Some (8, 8)" | "reg_part CH = Some (8, 8)"
| "reg_part DH = Some (8, 8)" | "reg_part BH = Some (8, 8)"
| "reg_part (L8 _) = Some (0, 8)"
| "reg_part (W16 _) = Some (0, 16)"
| "reg_part (D32 _) = Some (0, 32)"
| "reg_part (Q64 _) = Some (0, 64)"
| "reg_part _ = None"

text \<open>The architectural effect of a write to a part: 32-bit writes clear the upper half, the
  narrower ones keep the other bits.\<close>

definition merge_bit :: "nat \<Rightarrow> nat \<Rightarrow> u64 \<Rightarrow> u64 \<Rightarrow> nat \<Rightarrow> bool" where
  "merge_bit lo len old v i =
     (if lo \<le> i \<and> i < lo + len then bit v (i - lo) else if len = 32 then False else bit old i)"

lemma mask_consts:
  "(0xFF :: u64) = mask 8" "(0xFFFF :: u64) = mask 16" "(0xFFFFFFFF :: u64) = mask 32"
  "(0xFF00 :: u64) = push_bit 8 (mask 8)"
  by (simp_all add: mask_eq_exp_minus_1 push_bit_eq_mult)

lemma write_gpr_bits:
  assumes "reg_part r = Some (lo, len)" "reg_index r < length (gpr s)"
  shows "bit (gpr (write_gpr s r v 0) ! k) i =
    (if k = reg_index r then i < 64 \<and> merge_bit lo len (gpr s ! k) v i else bit (gpr s ! k) i)"
proof (cases "k = reg_index r")
  case False
  then show ?thesis by (simp add: write_gpr_def Let_def)
next
  case True
  then show ?thesis
    using assms
    by (cases r)
      (auto simp: write_gpr_def Let_def merge_bit_def mask_consts bit_or_iff bit_and_iff bit_not_iff
        bit_mask_iff bit_push_bit_iff dest: bit_imp_le_length)
qed

lemma read_gpr_bits:
  assumes "reg_part r = Some (lo, len)"
  shows "bit (read_gpr s r) i \<longleftrightarrow> i < len \<and> bit (gpr s ! reg_index r) (lo + i)"
  using assms
  by (cases r)
    (auto simp: read_gpr_def Let_def mask_consts bit_and_iff bit_mask_iff bit_drop_bit_eq
      dest: bit_imp_le_length)

lemma reg_part_gpr:
  assumes "reg_part r = Some p"
  shows "read_register s r = read_gpr s r" "write_register s r v w = write_gpr s r v w"
  using assms by (cases r; simp add: read_register_def write_register_def)+

text \<open>C6: the bits of every general register after a write through any of its names: the named part takes the value, a 32-bit
  write clears the upper half, everything else and every other register is kept.\<close>

theorem write_register_aliasing:
  assumes "wf_cpu s" "reg_part r = Some (lo, len)"
  shows "\<forall>k i. bit (gpr (write_register s r v 0) ! k) i =
    (if k = reg_index r then i < 64 \<and> merge_bit lo len (gpr s ! k) v i else bit (gpr s ! k) i)"
  using write_gpr_bits [OF assms(2)] assms reg_index_less [of r]
  by (simp add: reg_part_gpr wf_cpu_def)

lemma reg_part_width: "reg_part r = Some (lo, len) \<Longrightarrow> len = 8 * register_width r \<and> lo + len \<le> 64"
  by (cases r) auto

lemma read_write_register:
  assumes "wf_cpu s" "reg_part r = Some (lo, len)"
  shows "read_register (write_register s r v 0) r = take_bit len v"
proof (rule bit_word_eqI)
  fix i
  have p: "reg_index r < length (gpr s)" using assms(1) reg_index_less [of r] by (simp add: wf_cpu_def)
  show "bit (read_register (write_register s r v 0) r) i = bit (take_bit len v) i"
    using reg_part_width [OF assms(2)]
    by (auto simp: reg_part_gpr [OF assms(2)] read_gpr_bits [OF assms(2)] write_gpr_bits [OF assms(2) p]
        merge_bit_def bit_take_bit_iff)
qed

lemma read_write_register_other:
  assumes "reg_part r = Some p" "reg_part q = Some p'" "reg_index q \<noteq> reg_index r"
  shows "read_register (write_register s r v w) q = read_register s q"
  using assms by (simp add: reg_part_gpr read_gpr_def write_gpr_def Let_def)

lemma write_register_override:
  assumes "reg_part r = Some p" "w = register_width r"
  shows "write_register s r v w = write_register s r v 0"
  using assms by (cases r) (simp_all add: reg_part_gpr write_gpr_def Let_def)

lemma initial_wf: "wf_cpu initial_cpu_state"
  by (simp add: wf_cpu_def initial_cpu_state_def)

theorem write_register_aliasing_witness:
  "wf_cpu initial_cpu_state \<and> reg_part AH = Some (8, 8) \<and>
   (\<forall>k i. bit (gpr (write_register initial_cpu_state AH 0x12 0) ! k) i =
    (if k = reg_index AH then i < 64 \<and> merge_bit 8 8 (gpr initial_cpu_state ! k) 0x12 i
     else bit (gpr initial_cpu_state ! k) i))"
  using write_register_aliasing [OF initial_wf, of AH 8 8 "0x12"] initial_wf by simp

end
