(* ===== verification/Context_Memory.thy ===== *)
theory Context_Memory
  imports Register_Facts
begin

text \<open>
  Integers in memory. The interface \<open>value_store\<close> states what instruction handlers rely on when
  they load and store integers of 1, 2, 4 or 8 bytes (stack frames of several values build on it), and the interpretation shows that the accessors of the
  execution context provide it on a plain memory.
\<close>

section \<open>The interface\<close>

text \<open>Two ranges of at most eight bytes that share no address, modulo the size of the address space.\<close>

definition apart :: "u64 \<Rightarrow> nat \<Rightarrow> u64 \<Rightarrow> nat \<Rightarrow> bool" where
  "apart a n b k \<longleftrightarrow> n \<le> unat (b - a) \<and> k \<le> unat (a - b)"

locale value_store =
  fixes good :: "'m \<Rightarrow> bool"
    and load :: "'m \<Rightarrow> u64 \<Rightarrow> nat \<Rightarrow> u64 option \<times> 'm"
    and store :: "'m \<Rightarrow> u64 \<Rightarrow> u64 \<Rightarrow> nat \<Rightarrow> bool \<times> 'm"
  assumes load_good: "good m \<Longrightarrow> valid_width w \<Longrightarrow> good (snd (load m a w))"
    and load_stable: "good m \<Longrightarrow> valid_width w \<Longrightarrow> valid_width v \<Longrightarrow>
      fst (load (snd (load m a w)) b v) = fst (load m b v)"
    and load_range: "good m \<Longrightarrow> valid_width w \<Longrightarrow> fst (load m a w) = Some x \<Longrightarrow> take_bit (8 * w) x = x"
    and store_good: "good m \<Longrightarrow> valid_width w \<Longrightarrow> good (snd (store m a x w))"
    and store_same: "good m \<Longrightarrow> valid_width w \<Longrightarrow> fst (store m a x w) \<Longrightarrow>
      fst (load (snd (store m a x w)) a w) = Some (take_bit (8 * w) x)"
    and store_other: "good m \<Longrightarrow> valid_width w \<Longrightarrow> valid_width v \<Longrightarrow> apart a w b v \<Longrightarrow>
      fst (load (snd (store m a x w)) b v) = fst (load m b v)"
begin

text \<open>What a successful store leaves is readable, whatever is loaded in between.\<close>

lemma load_after_store:
  assumes "good m" "valid_width w" "store m a x w = (True, m1)" "valid_width v"
  shows "fst (load (snd (load m1 b v)) a w) = Some (take_bit (8 * w) x)"
proof -
  have g: "good m1" using store_good [OF assms(1,2), of a x] assms(3) by simp
  show ?thesis
    using load_stable [OF g assms(4,2), of b a] store_same [OF assms(1,2), of a x] assms(3) by simp
qed

end

section \<open>The context accessors provide it\<close>

lemma valid_width_word:
  assumes "valid_width w"
  shows "(word_of_nat w :: u64) \<noteq> 0" "unat (word_of_nat w :: u64) = w" "w + 4096 \<le> 2 ^ 64"
  using assms by (auto elim!: valid_widthE)

lemma ctx_read_plain:
  assumes "plain (mem c)" "valid_width w"
  shows "\<exists>m. ctx_read c a w =
      (map_option of_le_bytes (read_bytes (can data_read) (pages (mem c)) a w), c\<lparr>mem := m\<rparr>) \<and>
    plain m \<and> tlb_variant (mem c) m"
  using mem_read_plain [OF assms(1) valid_width_word(1) [OF assms(2)], of a data_read]
    valid_width_word [OF assms(2)]
  by (cases "mem_read (mem c) a (word_of_nat w) data_read") (auto simp: ctx_read_def)

lemma ctx_write_plain:
  assumes "plain (mem c)" "valid_width w"
  shows "\<exists>ok m. ctx_write c a x w = (ok, c\<lparr>mem := m\<rparr>) \<and>
    after_write (can data_write) (mem c) a (le_bytes w x) (ok, m) \<and> plain m"
proof -
  have ne: "le_bytes w x \<noteq> []" using assms(2) by (auto simp: valid_width_def le_bytes_def)
  have len: "length (le_bytes w x) + 4096 \<le> 2 ^ 64" using valid_width_word(3) [OF assms(2)] by simp
  show ?thesis
    using mem_write_plain [OF assms(1) ne len, of data_write a] plain_after_write [OF assms(1)]
    by (cases "mem_write (mem c) a (le_bytes w x) data_write") (auto simp: ctx_write_def)
qed

lemma after_write_pages:
  "after_write f m a bs r \<Longrightarrow>
     pages (snd r) = pokes a (take (allowed_prefix f (pages m) a (length bs)) bs) (pages m)"
  by (auto simp: after_write_def Let_def)

lemma apart_disjoint:
  assumes "apart a n b k" "k \<le> 8"
  shows "\<forall>i<k. n \<le> unat (b + word_of_nat i - a)"
proof (intro allI impI)
  fix i assume i: "i < k"
  have u: "unat (word_of_nat i :: u64) = i" using i assms(2) by (simp add: unat_of_nat)
  have "unat (b - a) + i < 2 ^ 64"
  proof (rule ccontr)
    assume big: "\<not> unat (b - a) + i < 2 ^ 64"
    have "b - a \<noteq> 0" using assms(1) i by (auto simp: apart_def)
    then have pos: "0 < unat (b - a)" by (simp add: unat_gt_0)
    have "unat ((a - b) + (b - a)) = 0" by simp
    then have "(unat (a - b) + unat (b - a)) mod 2 ^ 64 = 0" by (simp only: unat_word_ariths) simp
    moreover have "unat (a - b) < 2 ^ 64" "unat (b - a) < 2 ^ 64"
      using unsigned_less [of "a - b", where 'a = nat] unsigned_less [of "b - a", where 'a = nat] by simp_all
    ultimately have "unat (a - b) + unat (b - a) = 2 ^ 64" using pos by (auto simp: mod_eq_0_iff_dvd elim!: dvdE)
    then show False using assms(1) i big by (simp add: apart_def)
  qed
  moreover have "b + word_of_nat i - a = (b - a) + word_of_nat i" by simp
  ultimately have "unat (b + word_of_nat i - a) = unat (b - a) + i"
    using u by (simp only: unat_word_ariths) simp
  then show "n \<le> unat (b + word_of_nat i - a)" using assms(1) by (simp add: apart_def)
qed

lemma take_bit_of_le_bytes: "take_bit (8 * length bs) (of_le_bytes bs :: u64) = of_le_bytes bs"
  by (rule bit_word_eqI)
    (auto simp: bit_take_bit_iff bit_of_le_bytes div_less_iff_less_mult mult.commute)

interpretation cm: value_store "\<lambda>c. plain (mem c)" ctx_read ctx_write
proof
  fix c :: "'w ctx" and a b x y :: u64 and w v :: nat
  assume g: "plain (mem c)" and w: "valid_width w"
  note r = ctx_read_plain [OF g w, of a]
  show "plain (mem (snd (ctx_read c a w)))" using r by auto
  show "take_bit (8 * w) y = y" if "fst (ctx_read c a w) = Some y"
    using r that take_bit_of_le_bytes
    by (fastforce simp: read_bytes_def dest: those_length)
  note wr = ctx_write_plain [OF g w, of a x]
  show "plain (mem (snd (ctx_write c a x w)))" using wr by auto
  have le8: "length (le_bytes w x) \<le> 2 ^ 64" using valid_width_word(3) [OF w] by simp
  show "fst (ctx_read (snd (ctx_write c a x w)) a w) = Some (take_bit (8 * w) x)"
    if ok: "fst (ctx_write c a x w)"
  proof -
    obtain m where m: "ctx_write c a x w = (True, c\<lparr>mem := m\<rparr>)"
      "after_write (can data_write) (mem c) a (le_bytes w x) (True, m)" "plain m"
      using wr ok by auto
    have "allowed_prefix (can data_read) (pages (mem c)) a w = w"
      using after_write_ok(1) [OF m(2)] unfolding length_le_bytes allowed_prefix_full
      by (meson allowed_at_mono write_implies_read)
    then have "read_bytes (can data_read) (pages m) a w = Some (le_bytes w x)"
      using read_bytes_pokes_same [OF le8, of "can data_read" "pages (mem c)" a] after_write_ok(2) [OF m(2)]
      by simp
    then show ?thesis
      using ctx_read_plain [of "c\<lparr>mem := m\<rparr>" w a] m w by (auto simp: of_le_bytes_le_bytes)
  qed
  assume v: "valid_width v"
  show "fst (ctx_read (snd (ctx_read c a w)) b v) = fst (ctx_read c b v)"
  proof -
    obtain m where m: "snd (ctx_read c a w) = c\<lparr>mem := m\<rparr>" "plain m" "tlb_variant (mem c) m"
      using r by auto
    show ?thesis
      using ctx_read_plain [of "c\<lparr>mem := m\<rparr>" v b] ctx_read_plain [OF g v, of b] m v
      by (auto simp: tlb_variant_fields)
  qed
  show "fst (ctx_read (snd (ctx_write c a x w)) b v) = fst (ctx_read c b v)" if ap: "apart a w b v"
  proof -
    obtain ok m where m: "ctx_write c a x w = (ok, c\<lparr>mem := m\<rparr>)"
      "after_write (can data_write) (mem c) a (le_bytes w x) (ok, m)" "plain m"
      using wr by auto
    obtain k where k: "pages m = pokes a (take k (le_bytes w x)) (pages (mem c))"
      using after_write_pages [OF m(2)] by auto
    have "\<forall>i<v. w \<le> unat (b + word_of_nat i - a)"
      using apart_disjoint [OF ap] valid_width_bounds [OF v] by simp
    then have "read_bytes (can data_read) (pages m) b v = read_bytes (can data_read) (pages (mem c)) b v"
      unfolding k using le8 by (intro read_bytes_pokes_disjoint) auto
    then show ?thesis
      using ctx_read_plain [of "c\<lparr>mem := m\<rparr>" v b] ctx_read_plain [OF g v, of b] m v by auto
  qed
qed

end
