(* ===== verification/Alu.thy ===== *)
theory Alu
  imports Context_Memory
begin

text \<open>
  The two-operand integer instructions (\<^verbatim>\<open>seven_core/src/handlers/data/\<close>: \<^verbatim>\<open>add.cpp\<close>, \<^verbatim>\<open>sub.cpp\<close>, \<^verbatim>\<open>adc.cpp\<close>,
  \<^verbatim>\<open>sbb.cpp\<close>, \<^verbatim>\<open>and.cpp\<close>, \<^verbatim>\<open>or.cpp\<close>, \<^verbatim>\<open>xor.cpp\<close>, \<^verbatim>\<open>cmp.cpp\<close>, \<^verbatim>\<open>test.cpp\<close>). The source writes each handler out; they are
  instances of four statement sequences, which differ in where the operands come from, with one of
  seven operations. The sequences are the functions \<open>alu_rm_r\<close>, \<open>alu_r_rm\<close>, \<open>alu_rm_imm\<close>, \<open>alu_acc_imm\<close> (and
  \<open>cmp_*\<close> for the two that discard the result); every handler is a definition of its own.
\<close>

section \<open>Operations\<close>

text \<open>An operation computes the result and sets the flags, from the state, the operands and the width.\<close>

type_synonym alu_op = "cpu_state \<Rightarrow> u64 \<Rightarrow> u64 \<Rightarrow> nat \<Rightarrow> u64 \<times> cpu_state"

definition carry_flag :: "cpu_state \<Rightarrow> bool" where
  "carry_flag s \<longleftrightarrow> rflags s AND kFlagCF \<noteq> 0"

definition alu_add :: alu_op where
  "alu_add s lhs rhs w = (let result = lhs + rhs in (result, set_add_flags s lhs rhs result w False))"

definition alu_sub :: alu_op where
  "alu_sub s lhs rhs w = (let result = lhs - rhs in (result, set_sub_flags s lhs rhs result w False))"

definition alu_adc :: alu_op where
  "alu_adc s lhs rhs w =
     (let carry_in = carry_flag s; result = lhs + rhs + of_bool carry_in
      in (result, set_add_flags s lhs rhs result w carry_in))"

definition alu_sbb :: alu_op where
  "alu_sbb s lhs rhs w =
     (let borrow_in = carry_flag s; result = lhs - rhs - of_bool borrow_in
      in (result, set_sub_flags s lhs rhs result w borrow_in))"

definition alu_and :: alu_op where
  "alu_and s lhs rhs w = (let result = lhs AND rhs in (result, set_logic_flags s result w))"

definition alu_or :: alu_op where
  "alu_or s lhs rhs w = (let result = lhs OR rhs in (result, set_logic_flags s result w))"

definition alu_xor :: alu_op where
  "alu_xor s lhs rhs w = (let result = lhs XOR rhs in (result, set_logic_flags s result w))"

section \<open>Statement sequences\<close>

text \<open>Immediates as the handlers read them.\<close>

definition imm8 :: "instruction \<Rightarrow> u64" where "imm8 i = ucast (immediate8 i)"
definition imm16 :: "instruction \<Rightarrow> u64" where "imm16 i = ucast (immediate16 i)"
definition imm32 :: "instruction \<Rightarrow> u64" where "imm32 i = ucast (immediate32 i)"
definition imm8_sext :: "instruction \<Rightarrow> u64" where "imm8_sext i = sign_extend (imm8 i) 1"
definition imm32_sext :: "instruction \<Rightarrow> u64" where "imm32_sext i = sign_extend (imm32 i) 4"

text \<open>\<^verbatim>\<open>read_operand\<close> with the page fault return that follows it.\<close>

definition with_operand :: "nat \<Rightarrow> nat \<Rightarrow> (u64 \<Rightarrow> 'w handler) \<Rightarrow> 'w handler" where
  "with_operand k w f c =
     (case read_operand c k w of
        (None, c1) \<Rightarrow> (memory_fault c1 (memory_address c1), c1)
      | (Some v, c1) \<Rightarrow> f v c1)"

definition alu_store :: "alu_op \<Rightarrow> nat \<Rightarrow> u64 \<Rightarrow> u64 \<Rightarrow> 'w handler" where
  "alu_store op w lhs rhs c =
     (case op (state c) lhs rhs w of (result, s) \<Rightarrow>
        (case write_operand (c\<lparr>state := s\<rparr>) 0 result w of
           (False, c1) \<Rightarrow> (memory_fault c1 (memory_address c1), c1)
         | (True, c1) \<Rightarrow> (no_stop, c1)))"

definition alu_store_reg :: "alu_op \<Rightarrow> nat \<Rightarrow> u64 \<Rightarrow> u64 \<Rightarrow> 'w handler" where
  "alu_store_reg op w lhs rhs c =
     (case op (state c) lhs rhs w of (result, s) \<Rightarrow>
        (no_stop, c\<lparr>state := write_register s (op_register (instr c) 0) result w\<rparr>))"

definition alu_discard :: "alu_op \<Rightarrow> nat \<Rightarrow> u64 \<Rightarrow> u64 \<Rightarrow> 'w handler" where
  "alu_discard op w lhs rhs c =
     (case op (state c) lhs rhs w of (result, s) \<Rightarrow> (no_stop, c\<lparr>state := s\<rparr>))"

definition register_0 :: "'w ctx \<Rightarrow> u64" where
  "register_0 c = read_register (state c) (op_register (instr c) 0)"

definition alu_rm_r :: "alu_op \<Rightarrow> nat \<Rightarrow> 'w handler" where
  "alu_rm_r op w = with_operand 0 w (\<lambda>lhs. with_operand 1 w (alu_store op w lhs))"

definition alu_r_rm :: "alu_op \<Rightarrow> nat \<Rightarrow> 'w handler" where
  "alu_r_rm op w c = with_operand 1 w (alu_store_reg op w (register_0 c)) c"

definition alu_rm_imm :: "alu_op \<Rightarrow> (instruction \<Rightarrow> u64) \<Rightarrow> nat \<Rightarrow> 'w handler" where
  "alu_rm_imm op imm w = with_operand 0 w (\<lambda>lhs c. alu_store op w lhs (imm (instr c)) c)"

definition alu_acc_imm :: "alu_op \<Rightarrow> (instruction \<Rightarrow> u64) \<Rightarrow> nat \<Rightarrow> 'w handler" where
  "alu_acc_imm op imm w c = alu_store_reg op w (register_0 c) (imm (instr c)) c"

definition cmp_rm_r :: "alu_op \<Rightarrow> nat \<Rightarrow> 'w handler" where
  "cmp_rm_r op w = with_operand 0 w (\<lambda>lhs. with_operand 1 w (alu_discard op w lhs))"

definition cmp_r_rm :: "alu_op \<Rightarrow> nat \<Rightarrow> 'w handler" where
  "cmp_r_rm op w c = with_operand 1 w (alu_discard op w (register_0 c)) c"

definition cmp_rm_imm :: "alu_op \<Rightarrow> (instruction \<Rightarrow> u64) \<Rightarrow> nat \<Rightarrow> 'w handler" where
  "cmp_rm_imm op imm w = with_operand 0 w (\<lambda>lhs c. alu_discard op w lhs (imm (instr c)) c)"

definition cmp_acc_imm :: "alu_op \<Rightarrow> (instruction \<Rightarrow> u64) \<Rightarrow> nat \<Rightarrow> 'w handler" where
  "cmp_acc_imm op imm w c = alu_discard op w (register_0 c) (imm (instr c)) c"

section \<open>\<^verbatim>\<open>add.cpp\<close>\<close>

definition handle_code_ADD_RM8_R8 :: "'w handler" where
  "handle_code_ADD_RM8_R8 = alu_rm_r alu_add 1"

definition handle_code_ADD_R8_RM8 :: "'w handler" where
  "handle_code_ADD_R8_RM8 = alu_r_rm alu_add 1"

definition handle_code_ADD_RM8_IMM8 :: "'w handler" where
  "handle_code_ADD_RM8_IMM8 = alu_rm_imm alu_add imm8 1"

definition handle_code_ADD_RM8_IMM8_82 :: "'w handler" where
  "handle_code_ADD_RM8_IMM8_82 = alu_rm_imm alu_add imm8_sext 1"

definition handle_code_ADD_AL_IMM8 :: "'w handler" where
  "handle_code_ADD_AL_IMM8 = alu_acc_imm alu_add imm8 1"

definition handle_code_ADD_AX_IMM16 :: "'w handler" where
  "handle_code_ADD_AX_IMM16 = alu_acc_imm alu_add imm16 2"

definition handle_code_ADD_EAX_IMM32 :: "'w handler" where
  "handle_code_ADD_EAX_IMM32 = alu_acc_imm alu_add imm32 4"

definition handle_code_ADD_RAX_IMM32 :: "'w handler" where
  "handle_code_ADD_RAX_IMM32 = alu_acc_imm alu_add imm32_sext 8"

definition handle_code_ADD_RM16_R16 :: "'w handler" where
  "handle_code_ADD_RM16_R16 = alu_rm_r alu_add 2"

definition handle_code_ADD_R16_RM16 :: "'w handler" where
  "handle_code_ADD_R16_RM16 = alu_r_rm alu_add 2"

definition handle_code_ADD_RM16_IMM16 :: "'w handler" where
  "handle_code_ADD_RM16_IMM16 = alu_rm_imm alu_add imm16 2"

definition handle_code_ADD_RM16_IMM8 :: "'w handler" where
  "handle_code_ADD_RM16_IMM8 = alu_rm_imm alu_add imm8_sext 2"

definition handle_code_ADD_RM32_R32 :: "'w handler" where
  "handle_code_ADD_RM32_R32 = alu_rm_r alu_add 4"

definition handle_code_ADD_R32_RM32 :: "'w handler" where
  "handle_code_ADD_R32_RM32 = alu_r_rm alu_add 4"

definition handle_code_ADD_RM32_IMM32 :: "'w handler" where
  "handle_code_ADD_RM32_IMM32 = alu_rm_imm alu_add imm32 4"

definition handle_code_ADD_RM32_IMM8 :: "'w handler" where
  "handle_code_ADD_RM32_IMM8 = alu_rm_imm alu_add imm8_sext 4"

definition handle_code_ADD_RM64_R64 :: "'w handler" where
  "handle_code_ADD_RM64_R64 = alu_rm_r alu_add 8"

definition handle_code_ADD_R64_RM64 :: "'w handler" where
  "handle_code_ADD_R64_RM64 = alu_r_rm alu_add 8"

definition handle_code_ADD_RM64_IMM32 :: "'w handler" where
  "handle_code_ADD_RM64_IMM32 = alu_rm_imm alu_add imm32_sext 8"

definition handle_code_ADD_RM64_IMM8 :: "'w handler" where
  "handle_code_ADD_RM64_IMM8 = alu_rm_imm alu_add imm8_sext 8"

section \<open>\<^verbatim>\<open>sub.cpp\<close>\<close>

definition handle_code_SUB_RM8_R8 :: "'w handler" where
  "handle_code_SUB_RM8_R8 = alu_rm_r alu_sub 1"

definition handle_code_SUB_R8_RM8 :: "'w handler" where
  "handle_code_SUB_R8_RM8 = alu_r_rm alu_sub 1"

definition handle_code_SUB_RM8_IMM8 :: "'w handler" where
  "handle_code_SUB_RM8_IMM8 = alu_rm_imm alu_sub imm8 1"

definition handle_code_SUB_RM8_IMM8_82 :: "'w handler" where
  "handle_code_SUB_RM8_IMM8_82 = alu_rm_imm alu_sub imm8_sext 1"

definition handle_code_SUB_AL_IMM8 :: "'w handler" where
  "handle_code_SUB_AL_IMM8 = alu_acc_imm alu_sub imm8 1"

definition handle_code_SUB_AX_IMM16 :: "'w handler" where
  "handle_code_SUB_AX_IMM16 = alu_acc_imm alu_sub imm16 2"

definition handle_code_SUB_EAX_IMM32 :: "'w handler" where
  "handle_code_SUB_EAX_IMM32 = alu_acc_imm alu_sub imm32 4"

definition handle_code_SUB_RAX_IMM32 :: "'w handler" where
  "handle_code_SUB_RAX_IMM32 = alu_acc_imm alu_sub imm32_sext 8"

definition handle_code_SUB_RM16_R16 :: "'w handler" where
  "handle_code_SUB_RM16_R16 = alu_rm_r alu_sub 2"

definition handle_code_SUB_R16_RM16 :: "'w handler" where
  "handle_code_SUB_R16_RM16 = alu_r_rm alu_sub 2"

definition handle_code_SUB_RM16_IMM16 :: "'w handler" where
  "handle_code_SUB_RM16_IMM16 = alu_rm_imm alu_sub imm16 2"

definition handle_code_SUB_RM16_IMM8 :: "'w handler" where
  "handle_code_SUB_RM16_IMM8 = alu_rm_imm alu_sub imm8_sext 2"

definition handle_code_SUB_RM32_R32 :: "'w handler" where
  "handle_code_SUB_RM32_R32 = alu_rm_r alu_sub 4"

definition handle_code_SUB_R32_RM32 :: "'w handler" where
  "handle_code_SUB_R32_RM32 = alu_r_rm alu_sub 4"

definition handle_code_SUB_RM32_IMM32 :: "'w handler" where
  "handle_code_SUB_RM32_IMM32 = alu_rm_imm alu_sub imm32 4"

definition handle_code_SUB_RM32_IMM8 :: "'w handler" where
  "handle_code_SUB_RM32_IMM8 = alu_rm_imm alu_sub imm8_sext 4"

definition handle_code_SUB_RM64_R64 :: "'w handler" where
  "handle_code_SUB_RM64_R64 = alu_rm_r alu_sub 8"

definition handle_code_SUB_R64_RM64 :: "'w handler" where
  "handle_code_SUB_R64_RM64 = alu_r_rm alu_sub 8"

definition handle_code_SUB_RM64_IMM32 :: "'w handler" where
  "handle_code_SUB_RM64_IMM32 = alu_rm_imm alu_sub imm32_sext 8"

definition handle_code_SUB_RM64_IMM8 :: "'w handler" where
  "handle_code_SUB_RM64_IMM8 = alu_rm_imm alu_sub imm8_sext 8"

section \<open>\<^verbatim>\<open>adc.cpp\<close>\<close>

definition handle_code_ADC_RM8_R8 :: "'w handler" where
  "handle_code_ADC_RM8_R8 = alu_rm_r alu_adc 1"

definition handle_code_ADC_R8_RM8 :: "'w handler" where
  "handle_code_ADC_R8_RM8 = alu_r_rm alu_adc 1"

definition handle_code_ADC_RM8_IMM8 :: "'w handler" where
  "handle_code_ADC_RM8_IMM8 = alu_rm_imm alu_adc imm8 1"

definition handle_code_ADC_RM8_IMM8_82 :: "'w handler" where
  "handle_code_ADC_RM8_IMM8_82 = alu_rm_imm alu_adc imm8_sext 1"

definition handle_code_ADC_AL_IMM8 :: "'w handler" where
  "handle_code_ADC_AL_IMM8 = alu_acc_imm alu_adc imm8 1"

definition handle_code_ADC_AX_IMM16 :: "'w handler" where
  "handle_code_ADC_AX_IMM16 = alu_acc_imm alu_adc imm16 2"

definition handle_code_ADC_EAX_IMM32 :: "'w handler" where
  "handle_code_ADC_EAX_IMM32 = alu_acc_imm alu_adc imm32 4"

definition handle_code_ADC_RAX_IMM32 :: "'w handler" where
  "handle_code_ADC_RAX_IMM32 = alu_acc_imm alu_adc imm32_sext 8"

definition handle_code_ADC_RM16_R16 :: "'w handler" where
  "handle_code_ADC_RM16_R16 = alu_rm_r alu_adc 2"

definition handle_code_ADC_R16_RM16 :: "'w handler" where
  "handle_code_ADC_R16_RM16 = alu_r_rm alu_adc 2"

definition handle_code_ADC_RM16_IMM16 :: "'w handler" where
  "handle_code_ADC_RM16_IMM16 = alu_rm_imm alu_adc imm16 2"

definition handle_code_ADC_RM16_IMM8 :: "'w handler" where
  "handle_code_ADC_RM16_IMM8 = alu_rm_imm alu_adc imm8_sext 2"

definition handle_code_ADC_RM32_R32 :: "'w handler" where
  "handle_code_ADC_RM32_R32 = alu_rm_r alu_adc 4"

definition handle_code_ADC_R32_RM32 :: "'w handler" where
  "handle_code_ADC_R32_RM32 = alu_r_rm alu_adc 4"

definition handle_code_ADC_RM32_IMM32 :: "'w handler" where
  "handle_code_ADC_RM32_IMM32 = alu_rm_imm alu_adc imm32 4"

definition handle_code_ADC_RM32_IMM8 :: "'w handler" where
  "handle_code_ADC_RM32_IMM8 = alu_rm_imm alu_adc imm8_sext 4"

definition handle_code_ADC_RM64_R64 :: "'w handler" where
  "handle_code_ADC_RM64_R64 = alu_rm_r alu_adc 8"

definition handle_code_ADC_R64_RM64 :: "'w handler" where
  "handle_code_ADC_R64_RM64 = alu_r_rm alu_adc 8"

definition handle_code_ADC_RM64_IMM32 :: "'w handler" where
  "handle_code_ADC_RM64_IMM32 = alu_rm_imm alu_adc imm32_sext 8"

definition handle_code_ADC_RM64_IMM8 :: "'w handler" where
  "handle_code_ADC_RM64_IMM8 = alu_rm_imm alu_adc imm8_sext 8"

section \<open>\<^verbatim>\<open>sbb.cpp\<close>\<close>

definition handle_code_SBB_RM8_R8 :: "'w handler" where
  "handle_code_SBB_RM8_R8 = alu_rm_r alu_sbb 1"

definition handle_code_SBB_R8_RM8 :: "'w handler" where
  "handle_code_SBB_R8_RM8 = alu_r_rm alu_sbb 1"

definition handle_code_SBB_RM8_IMM8 :: "'w handler" where
  "handle_code_SBB_RM8_IMM8 = alu_rm_imm alu_sbb imm8 1"

definition handle_code_SBB_RM8_IMM8_82 :: "'w handler" where
  "handle_code_SBB_RM8_IMM8_82 = alu_rm_imm alu_sbb imm8_sext 1"

definition handle_code_SBB_AL_IMM8 :: "'w handler" where
  "handle_code_SBB_AL_IMM8 = alu_acc_imm alu_sbb imm8 1"

definition handle_code_SBB_AX_IMM16 :: "'w handler" where
  "handle_code_SBB_AX_IMM16 = alu_acc_imm alu_sbb imm16 2"

definition handle_code_SBB_EAX_IMM32 :: "'w handler" where
  "handle_code_SBB_EAX_IMM32 = alu_acc_imm alu_sbb imm32 4"

definition handle_code_SBB_RAX_IMM32 :: "'w handler" where
  "handle_code_SBB_RAX_IMM32 = alu_acc_imm alu_sbb imm32_sext 8"

definition handle_code_SBB_RM16_R16 :: "'w handler" where
  "handle_code_SBB_RM16_R16 = alu_rm_r alu_sbb 2"

definition handle_code_SBB_R16_RM16 :: "'w handler" where
  "handle_code_SBB_R16_RM16 = alu_r_rm alu_sbb 2"

definition handle_code_SBB_RM16_IMM16 :: "'w handler" where
  "handle_code_SBB_RM16_IMM16 = alu_rm_imm alu_sbb imm16 2"

definition handle_code_SBB_RM16_IMM8 :: "'w handler" where
  "handle_code_SBB_RM16_IMM8 = alu_rm_imm alu_sbb imm8_sext 2"

definition handle_code_SBB_RM32_R32 :: "'w handler" where
  "handle_code_SBB_RM32_R32 = alu_rm_r alu_sbb 4"

definition handle_code_SBB_R32_RM32 :: "'w handler" where
  "handle_code_SBB_R32_RM32 = alu_r_rm alu_sbb 4"

definition handle_code_SBB_RM32_IMM32 :: "'w handler" where
  "handle_code_SBB_RM32_IMM32 = alu_rm_imm alu_sbb imm32 4"

definition handle_code_SBB_RM32_IMM8 :: "'w handler" where
  "handle_code_SBB_RM32_IMM8 = alu_rm_imm alu_sbb imm8_sext 4"

definition handle_code_SBB_RM64_R64 :: "'w handler" where
  "handle_code_SBB_RM64_R64 = alu_rm_r alu_sbb 8"

definition handle_code_SBB_R64_RM64 :: "'w handler" where
  "handle_code_SBB_R64_RM64 = alu_r_rm alu_sbb 8"

definition handle_code_SBB_RM64_IMM32 :: "'w handler" where
  "handle_code_SBB_RM64_IMM32 = alu_rm_imm alu_sbb imm32_sext 8"

definition handle_code_SBB_RM64_IMM8 :: "'w handler" where
  "handle_code_SBB_RM64_IMM8 = alu_rm_imm alu_sbb imm8_sext 8"

section \<open>\<^verbatim>\<open>and.cpp\<close>\<close>

definition handle_code_AND_RM8_R8 :: "'w handler" where
  "handle_code_AND_RM8_R8 = alu_rm_r alu_and 1"

definition handle_code_AND_R8_RM8 :: "'w handler" where
  "handle_code_AND_R8_RM8 = alu_r_rm alu_and 1"

definition handle_code_AND_RM8_IMM8 :: "'w handler" where
  "handle_code_AND_RM8_IMM8 = alu_rm_imm alu_and imm8 1"

definition handle_code_AND_RM8_IMM8_82 :: "'w handler" where
  "handle_code_AND_RM8_IMM8_82 = alu_rm_imm alu_and imm8_sext 1"

definition handle_code_AND_AL_IMM8 :: "'w handler" where
  "handle_code_AND_AL_IMM8 = alu_acc_imm alu_and imm8 1"

definition handle_code_AND_AX_IMM16 :: "'w handler" where
  "handle_code_AND_AX_IMM16 = alu_acc_imm alu_and imm16 2"

definition handle_code_AND_EAX_IMM32 :: "'w handler" where
  "handle_code_AND_EAX_IMM32 = alu_acc_imm alu_and imm32 4"

definition handle_code_AND_RAX_IMM32 :: "'w handler" where
  "handle_code_AND_RAX_IMM32 = alu_acc_imm alu_and imm32_sext 8"

definition handle_code_AND_RM16_R16 :: "'w handler" where
  "handle_code_AND_RM16_R16 = alu_rm_r alu_and 2"

definition handle_code_AND_R16_RM16 :: "'w handler" where
  "handle_code_AND_R16_RM16 = alu_r_rm alu_and 2"

definition handle_code_AND_RM16_IMM16 :: "'w handler" where
  "handle_code_AND_RM16_IMM16 = alu_rm_imm alu_and imm16 2"

definition handle_code_AND_RM16_IMM8 :: "'w handler" where
  "handle_code_AND_RM16_IMM8 = alu_rm_imm alu_and imm8_sext 2"

definition handle_code_AND_RM32_R32 :: "'w handler" where
  "handle_code_AND_RM32_R32 = alu_rm_r alu_and 4"

definition handle_code_AND_R32_RM32 :: "'w handler" where
  "handle_code_AND_R32_RM32 = alu_r_rm alu_and 4"

definition handle_code_AND_RM32_IMM32 :: "'w handler" where
  "handle_code_AND_RM32_IMM32 = alu_rm_imm alu_and imm32 4"

definition handle_code_AND_RM32_IMM8 :: "'w handler" where
  "handle_code_AND_RM32_IMM8 = alu_rm_imm alu_and imm8_sext 4"

definition handle_code_AND_RM64_R64 :: "'w handler" where
  "handle_code_AND_RM64_R64 = alu_rm_r alu_and 8"

definition handle_code_AND_R64_RM64 :: "'w handler" where
  "handle_code_AND_R64_RM64 = alu_r_rm alu_and 8"

definition handle_code_AND_RM64_IMM32 :: "'w handler" where
  "handle_code_AND_RM64_IMM32 = alu_rm_imm alu_and imm32_sext 8"

definition handle_code_AND_RM64_IMM8 :: "'w handler" where
  "handle_code_AND_RM64_IMM8 = alu_rm_imm alu_and imm8_sext 8"

section \<open>\<^verbatim>\<open>or.cpp\<close>\<close>

definition handle_code_OR_RM8_R8 :: "'w handler" where
  "handle_code_OR_RM8_R8 = alu_rm_r alu_or 1"

definition handle_code_OR_R8_RM8 :: "'w handler" where
  "handle_code_OR_R8_RM8 = alu_r_rm alu_or 1"

definition handle_code_OR_RM8_IMM8 :: "'w handler" where
  "handle_code_OR_RM8_IMM8 = alu_rm_imm alu_or imm8 1"

definition handle_code_OR_RM8_IMM8_82 :: "'w handler" where
  "handle_code_OR_RM8_IMM8_82 = alu_rm_imm alu_or imm8_sext 1"

definition handle_code_OR_AL_IMM8 :: "'w handler" where
  "handle_code_OR_AL_IMM8 = alu_acc_imm alu_or imm8 1"

definition handle_code_OR_AX_IMM16 :: "'w handler" where
  "handle_code_OR_AX_IMM16 = alu_acc_imm alu_or imm16 2"

definition handle_code_OR_EAX_IMM32 :: "'w handler" where
  "handle_code_OR_EAX_IMM32 = alu_acc_imm alu_or imm32 4"

definition handle_code_OR_RAX_IMM32 :: "'w handler" where
  "handle_code_OR_RAX_IMM32 = alu_acc_imm alu_or imm32_sext 8"

definition handle_code_OR_RM16_R16 :: "'w handler" where
  "handle_code_OR_RM16_R16 = alu_rm_r alu_or 2"

definition handle_code_OR_R16_RM16 :: "'w handler" where
  "handle_code_OR_R16_RM16 = alu_r_rm alu_or 2"

definition handle_code_OR_RM16_IMM16 :: "'w handler" where
  "handle_code_OR_RM16_IMM16 = alu_rm_imm alu_or imm16 2"

definition handle_code_OR_RM16_IMM8 :: "'w handler" where
  "handle_code_OR_RM16_IMM8 = alu_rm_imm alu_or imm8_sext 2"

definition handle_code_OR_RM32_R32 :: "'w handler" where
  "handle_code_OR_RM32_R32 = alu_rm_r alu_or 4"

definition handle_code_OR_R32_RM32 :: "'w handler" where
  "handle_code_OR_R32_RM32 = alu_r_rm alu_or 4"

definition handle_code_OR_RM32_IMM32 :: "'w handler" where
  "handle_code_OR_RM32_IMM32 = alu_rm_imm alu_or imm32 4"

definition handle_code_OR_RM32_IMM8 :: "'w handler" where
  "handle_code_OR_RM32_IMM8 = alu_rm_imm alu_or imm8_sext 4"

definition handle_code_OR_RM64_R64 :: "'w handler" where
  "handle_code_OR_RM64_R64 = alu_rm_r alu_or 8"

definition handle_code_OR_R64_RM64 :: "'w handler" where
  "handle_code_OR_R64_RM64 = alu_r_rm alu_or 8"

definition handle_code_OR_RM64_IMM32 :: "'w handler" where
  "handle_code_OR_RM64_IMM32 = alu_rm_imm alu_or imm32_sext 8"

definition handle_code_OR_RM64_IMM8 :: "'w handler" where
  "handle_code_OR_RM64_IMM8 = alu_rm_imm alu_or imm8_sext 8"

section \<open>\<^verbatim>\<open>xor.cpp\<close>\<close>

definition handle_code_XOR_RM8_R8 :: "'w handler" where
  "handle_code_XOR_RM8_R8 = alu_rm_r alu_xor 1"

definition handle_code_XOR_R8_RM8 :: "'w handler" where
  "handle_code_XOR_R8_RM8 = alu_r_rm alu_xor 1"

definition handle_code_XOR_RM8_IMM8 :: "'w handler" where
  "handle_code_XOR_RM8_IMM8 = alu_rm_imm alu_xor imm8 1"

definition handle_code_XOR_RM8_IMM8_82 :: "'w handler" where
  "handle_code_XOR_RM8_IMM8_82 = alu_rm_imm alu_xor imm8_sext 1"

definition handle_code_XOR_AL_IMM8 :: "'w handler" where
  "handle_code_XOR_AL_IMM8 = alu_acc_imm alu_xor imm8 1"

definition handle_code_XOR_AX_IMM16 :: "'w handler" where
  "handle_code_XOR_AX_IMM16 = alu_acc_imm alu_xor imm16 2"

definition handle_code_XOR_EAX_IMM32 :: "'w handler" where
  "handle_code_XOR_EAX_IMM32 = alu_acc_imm alu_xor imm32 4"

definition handle_code_XOR_RAX_IMM32 :: "'w handler" where
  "handle_code_XOR_RAX_IMM32 = alu_acc_imm alu_xor imm32_sext 8"

definition handle_code_XOR_RM16_R16 :: "'w handler" where
  "handle_code_XOR_RM16_R16 = alu_rm_r alu_xor 2"

definition handle_code_XOR_R16_RM16 :: "'w handler" where
  "handle_code_XOR_R16_RM16 = alu_r_rm alu_xor 2"

definition handle_code_XOR_RM16_IMM16 :: "'w handler" where
  "handle_code_XOR_RM16_IMM16 = alu_rm_imm alu_xor imm16 2"

definition handle_code_XOR_RM16_IMM8 :: "'w handler" where
  "handle_code_XOR_RM16_IMM8 = alu_rm_imm alu_xor imm8_sext 2"

definition handle_code_XOR_RM32_R32 :: "'w handler" where
  "handle_code_XOR_RM32_R32 = alu_rm_r alu_xor 4"

definition handle_code_XOR_R32_RM32 :: "'w handler" where
  "handle_code_XOR_R32_RM32 = alu_r_rm alu_xor 4"

definition handle_code_XOR_RM32_IMM32 :: "'w handler" where
  "handle_code_XOR_RM32_IMM32 = alu_rm_imm alu_xor imm32 4"

definition handle_code_XOR_RM32_IMM8 :: "'w handler" where
  "handle_code_XOR_RM32_IMM8 = alu_rm_imm alu_xor imm8_sext 4"

definition handle_code_XOR_RM64_R64 :: "'w handler" where
  "handle_code_XOR_RM64_R64 = alu_rm_r alu_xor 8"

definition handle_code_XOR_R64_RM64 :: "'w handler" where
  "handle_code_XOR_R64_RM64 = alu_r_rm alu_xor 8"

definition handle_code_XOR_RM64_IMM32 :: "'w handler" where
  "handle_code_XOR_RM64_IMM32 = alu_rm_imm alu_xor imm32_sext 8"

definition handle_code_XOR_RM64_IMM8 :: "'w handler" where
  "handle_code_XOR_RM64_IMM8 = alu_rm_imm alu_xor imm8_sext 8"

section \<open>\<^verbatim>\<open>cmp.cpp\<close>\<close>

definition handle_code_CMP_RM8_R8 :: "'w handler" where
  "handle_code_CMP_RM8_R8 = cmp_rm_r alu_sub 1"

definition handle_code_CMP_R8_RM8 :: "'w handler" where
  "handle_code_CMP_R8_RM8 = cmp_r_rm alu_sub 1"

definition handle_code_CMP_RM8_IMM8 :: "'w handler" where
  "handle_code_CMP_RM8_IMM8 = cmp_rm_imm alu_sub imm8 1"

definition handle_code_CMP_RM8_IMM8_82 :: "'w handler" where
  "handle_code_CMP_RM8_IMM8_82 = cmp_rm_imm alu_sub imm8_sext 1"

definition handle_code_CMP_AL_IMM8 :: "'w handler" where
  "handle_code_CMP_AL_IMM8 = cmp_acc_imm alu_sub imm8 1"

definition handle_code_CMP_AX_IMM16 :: "'w handler" where
  "handle_code_CMP_AX_IMM16 = cmp_acc_imm alu_sub imm16 2"

definition handle_code_CMP_EAX_IMM32 :: "'w handler" where
  "handle_code_CMP_EAX_IMM32 = cmp_acc_imm alu_sub imm32 4"

definition handle_code_CMP_RAX_IMM32 :: "'w handler" where
  "handle_code_CMP_RAX_IMM32 = cmp_acc_imm alu_sub imm32_sext 8"

definition handle_code_CMP_RM16_R16 :: "'w handler" where
  "handle_code_CMP_RM16_R16 = cmp_rm_r alu_sub 2"

definition handle_code_CMP_R16_RM16 :: "'w handler" where
  "handle_code_CMP_R16_RM16 = cmp_r_rm alu_sub 2"

definition handle_code_CMP_RM16_IMM16 :: "'w handler" where
  "handle_code_CMP_RM16_IMM16 = cmp_rm_imm alu_sub imm16 2"

definition handle_code_CMP_RM16_IMM8 :: "'w handler" where
  "handle_code_CMP_RM16_IMM8 = cmp_rm_imm alu_sub imm8_sext 2"

definition handle_code_CMP_RM32_R32 :: "'w handler" where
  "handle_code_CMP_RM32_R32 = cmp_rm_r alu_sub 4"

definition handle_code_CMP_R32_RM32 :: "'w handler" where
  "handle_code_CMP_R32_RM32 = cmp_r_rm alu_sub 4"

definition handle_code_CMP_RM32_IMM32 :: "'w handler" where
  "handle_code_CMP_RM32_IMM32 = cmp_rm_imm alu_sub imm32 4"

definition handle_code_CMP_RM32_IMM8 :: "'w handler" where
  "handle_code_CMP_RM32_IMM8 = cmp_rm_imm alu_sub imm8_sext 4"

definition handle_code_CMP_RM64_R64 :: "'w handler" where
  "handle_code_CMP_RM64_R64 = cmp_rm_r alu_sub 8"

definition handle_code_CMP_R64_RM64 :: "'w handler" where
  "handle_code_CMP_R64_RM64 = cmp_r_rm alu_sub 8"

definition handle_code_CMP_RM64_IMM32 :: "'w handler" where
  "handle_code_CMP_RM64_IMM32 = cmp_rm_imm alu_sub imm32_sext 8"

definition handle_code_CMP_RM64_IMM8 :: "'w handler" where
  "handle_code_CMP_RM64_IMM8 = cmp_rm_imm alu_sub imm8_sext 8"

section \<open>\<^verbatim>\<open>test.cpp\<close>\<close>

definition handle_code_TEST_RM8_R8 :: "'w handler" where
  "handle_code_TEST_RM8_R8 = cmp_rm_r alu_and 1"

definition handle_code_TEST_RM16_R16 :: "'w handler" where
  "handle_code_TEST_RM16_R16 = cmp_rm_r alu_and 2"

definition handle_code_TEST_RM32_R32 :: "'w handler" where
  "handle_code_TEST_RM32_R32 = cmp_rm_r alu_and 4"

definition handle_code_TEST_RM64_R64 :: "'w handler" where
  "handle_code_TEST_RM64_R64 = cmp_rm_r alu_and 8"

definition handle_code_TEST_RM8_IMM8 :: "'w handler" where
  "handle_code_TEST_RM8_IMM8 = cmp_rm_imm alu_and imm8 1"

definition handle_code_TEST_RM16_IMM16 :: "'w handler" where
  "handle_code_TEST_RM16_IMM16 = cmp_rm_imm alu_and imm16 2"

definition handle_code_TEST_RM32_IMM32 :: "'w handler" where
  "handle_code_TEST_RM32_IMM32 = cmp_rm_imm alu_and imm32 4"

definition handle_code_TEST_RM64_IMM32 :: "'w handler" where
  "handle_code_TEST_RM64_IMM32 = cmp_rm_imm alu_and imm32_sext 8"

definition handle_code_TEST_AL_IMM8 :: "'w handler" where
  "handle_code_TEST_AL_IMM8 = cmp_acc_imm alu_and imm8 1"

definition handle_code_TEST_AX_IMM16 :: "'w handler" where
  "handle_code_TEST_AX_IMM16 = cmp_acc_imm alu_and imm16 2"

definition handle_code_TEST_EAX_IMM32 :: "'w handler" where
  "handle_code_TEST_EAX_IMM32 = cmp_acc_imm alu_and imm32 4"

definition handle_code_TEST_RAX_IMM32 :: "'w handler" where
  "handle_code_TEST_RAX_IMM32 = cmp_acc_imm alu_and imm32_sext 8"

definition handle_code_TEST_RM8_IMM8_F6R1 :: "'w handler" where
  "handle_code_TEST_RM8_IMM8_F6R1 = cmp_rm_imm alu_and imm8 1"

definition handle_code_TEST_RM16_IMM16_F7R1 :: "'w handler" where
  "handle_code_TEST_RM16_IMM16_F7R1 = cmp_rm_imm alu_and imm16 2"

definition handle_code_TEST_RM32_IMM32_F7R1 :: "'w handler" where
  "handle_code_TEST_RM32_IMM32_F7R1 = cmp_rm_imm alu_and imm32 4"

definition handle_code_TEST_RM64_IMM32_F7R1 :: "'w handler" where
  "handle_code_TEST_RM64_IMM32_F7R1 = cmp_rm_imm alu_and imm32_sext 8"

end
