(* ===== verification/Alu_Facts.thy ===== *)
theory Alu_Facts
  imports Alu
begin

text \<open>
  Correctness of the two-operand integer instructions. The interface \<open>binary_operation\<close> says what a
  handler needs from the operation it applies; the effect of every statement sequence is proved from it once, and it is
  interpreted on the nine operations. A catalogue lists every handler with the operation, width and
  source operand its mnemonic promises; the properties hold for each entry.
\<close>

section \<open>Reference semantics\<close>

datatype binop = B_ADD | B_SUB | B_ADC | B_SBB | B_AND | B_OR | B_XOR | B_CMP | B_TEST

fun ref_result :: "binop \<Rightarrow> bool \<Rightarrow> u64 \<Rightarrow> u64 \<Rightarrow> u64" where
  "ref_result B_ADD cf x y = x + y"
| "ref_result B_SUB cf x y = x - y"
| "ref_result B_ADC cf x y = x + y + of_bool cf"
| "ref_result B_SBB cf x y = x - y - of_bool cf"
| "ref_result B_AND cf x y = x AND y"
| "ref_result B_OR cf x y = x OR y"
| "ref_result B_XOR cf x y = x XOR y"
| "ref_result B_CMP cf x y = x - y"
| "ref_result B_TEST cf x y = x AND y"

text \<open>CF, OF and AF.\<close>

definition logic_flags_spec :: "cpu_state \<Rightarrow> bool" where
  "logic_flags_spec s' \<longleftrightarrow> \<not> flag_CF s' \<and> \<not> flag_OF s' \<and> \<not> flag_AF s'"

fun ref_flags :: "binop \<Rightarrow> nat \<Rightarrow> u64 \<Rightarrow> u64 \<Rightarrow> bool \<Rightarrow> cpu_state \<Rightarrow> bool" where
  "ref_flags B_ADD w x y cf s' = add_flags_spec w x y False s'"
| "ref_flags B_ADC w x y cf s' = add_flags_spec w x y cf s'"
| "ref_flags B_SUB w x y cf s' = sub_flags_spec w x y False s'"
| "ref_flags B_CMP w x y cf s' = sub_flags_spec w x y False s'"
| "ref_flags B_SBB w x y cf s' = sub_flags_spec w x y cf s'"
| "ref_flags b w x y cf s' = logic_flags_spec s'"

fun keeps_result :: "binop \<Rightarrow> bool" where
  "keeps_result B_CMP = False" | "keeps_result B_TEST = False" | "keeps_result _ = True"

text \<open>All flags of an instruction that computes \<open>b\<close> on \<open>x\<close> and \<open>y\<close>.\<close>

definition flags_effect :: "binop \<Rightarrow> nat \<Rightarrow> u64 \<Rightarrow> u64 \<Rightarrow> cpu_state \<Rightarrow> cpu_state \<Rightarrow> bool" where
  "flags_effect b w x y s s' \<longleftrightarrow> ref_flags b w x y (flag_CF s) s' \<and>
     result_flags w (ref_result b (flag_CF s) x y) s' \<and>
     (\<forall>k. k \<notin> {0, 2, 4, 6, 7, 11} \<longrightarrow> bit (rflags s') k = bit (rflags s) k)"

lemma flags_effect_rflags:
  "rflags s1 = rflags s2 \<Longrightarrow> flags_effect b w x y s s1 = flags_effect b w x y s s2"
  by (cases b) (simp_all add: flags_effect_def result_flags_def add_flags_spec_def sub_flags_spec_def
      logic_flags_spec_def)

text \<open>The effect with a register destination \<open>r\<close>.\<close>

definition register_effect ::
  "binop \<Rightarrow> nat \<Rightarrow> register \<Rightarrow> u64 \<Rightarrow> u64 \<Rightarrow> cpu_state \<Rightarrow> cpu_state \<Rightarrow> bool" where
  "register_effect b w r x y s s' \<longleftrightarrow> wf_cpu s' \<and> flags_effect b w x y s s' \<and>
     (if keeps_result b
      then read_register s' r = take_bit (8 * w) (ref_result b (flag_CF s) x y) \<and>
           (\<forall>k. k \<noteq> reg_index r \<longrightarrow> gpr s' ! k = gpr s ! k)
      else gpr s' = gpr s) \<and>
     s' = s\<lparr>gpr := gpr s', rflags := rflags s'\<rparr>"

text \<open>Second operands, as the mnemonics name them: a register, or an immediate that is zero- or
  sign-extended to 64 bits.\<close>

definition src_reg :: "'w ctx \<Rightarrow> u64" where "src_reg c = read_register (state c) (op_register (instr c) 1)"
definition src_imm8 :: "'w ctx \<Rightarrow> u64" where "src_imm8 c = ucast (immediate8 (instr c))"
definition src_imm16 :: "'w ctx \<Rightarrow> u64" where "src_imm16 c = ucast (immediate16 (instr c))"
definition src_imm32 :: "'w ctx \<Rightarrow> u64" where "src_imm32 c = ucast (immediate32 (instr c))"
definition src_imm8s :: "'w ctx \<Rightarrow> u64" where "src_imm8s c = scast (immediate8 (instr c))"
definition src_imm32s :: "'w ctx \<Rightarrow> u64" where "src_imm32s c = scast (immediate32 (instr c))"

text \<open>The instruction's first operand is the general register \<open>r\<close> of \<open>w\<close> bytes, and the second one a register when
  it is read from one.\<close>

definition register_form :: "nat \<Rightarrow> bool \<Rightarrow> register \<Rightarrow> 'w ctx \<Rightarrow> bool" where
  "register_form w from_reg r c \<longleftrightarrow> wf_cpu (state c) \<and> op_kind (instr c) 0 = REGISTER \<and>
     op_register (instr c) 0 = r \<and> reg_part r \<noteq> None \<and> register_width r = w \<and>
     (from_reg \<longrightarrow> op_kind (instr c) 1 = REGISTER)"

definition register_promise :: "'w handler \<times> binop \<times> nat \<times> bool \<times> ('w ctx \<Rightarrow> u64) \<Rightarrow> bool" where
  "register_promise e = (case e of (h, b, w, from_reg, src) \<Rightarrow>
     \<forall>c r. register_form w from_reg r c \<longrightarrow>
       (\<exists>s'. h c = (no_stop, c\<lparr>state := s'\<rparr>) \<and>
         register_effect b w r (read_register (state c) r) (src c) (state c) s'))"

section \<open>The interface of an operation\<close>

locale binary_operation =
  fixes op :: alu_op and b :: binop
  assumes op_result: "fst (op s x y w) = ref_result b (flag_CF s) x y"
    and op_flags: "valid_width w \<Longrightarrow> flags_effect b w x y s (snd (op s x y w))"
    and op_only: "only_rflags s (snd (op s x y w))"
begin

lemma op_cases:
  assumes "valid_width w"
  obtains f where "op s x y w = (ref_result b (flag_CF s) x y, s\<lparr>rflags := f\<rparr>)"
    "flags_effect b w x y s (s\<lparr>rflags := f\<rparr>)"
  using op_result [of s x y w] op_flags [OF assms, of x y s] op_only [of s x y w]
  by (cases "op s x y w") (auto simp: only_rflags_def)

lemma store_register:
  assumes "valid_width w" "wf_cpu (state c)" "op_kind (instr c) 0 = REGISTER"
    "op_register (instr c) 0 = r" "reg_part r = Some p" "register_width r = w" "keeps_result b"
  shows "\<exists>s'. alu_store op w x y c = (no_stop, c\<lparr>state := s'\<rparr>) \<and> register_effect b w r x y (state c) s'"
proof -
  obtain f where f: "op (state c) x y w = (ref_result b (flag_CF (state c)) x y, (state c)\<lparr>rflags := f\<rparr>)"
    "flags_effect b w x y (state c) ((state c)\<lparr>rflags := f\<rparr>)" using op_cases [OF assms(1)] by blast
  let ?R = "ref_result b (flag_CF (state c)) x y"
  have T: "truncate_to ?R w = take_bit (8 * w) ?R" by (simp add: truncate_to_def and_mask_for_width)
  define s' where "s' = write_register ((state c)\<lparr>rflags := f\<rparr>) r (take_bit (8 * w) ?R) 0"
  have s': "s' = (state c)\<lparr>gpr := gpr s', rflags := f\<rparr>" "rflags s' = f"
    by (simp_all add: s'_def reg_part_gpr [OF assms(5)] write_gpr_def Let_def)
  obtain lo len where p: "p = (lo, len)" by fastforce
  have wf: "wf_cpu ((state c)\<lparr>rflags := f\<rparr>)" using assms(2) by (simp add: wf_cpu_def)
  have "read_register s' r = take_bit (8 * w) ?R"
    using read_write_register [OF wf assms(5) [unfolded p]] reg_part_width [OF assms(5) [unfolded p]] assms(6)
    by (simp add: s'_def)
  moreover have "\<forall>k. k \<noteq> reg_index r \<longrightarrow> gpr s' ! k = gpr (state c) ! k"
    by (simp add: s'_def reg_part_gpr [OF assms(5)] write_gpr_def Let_def)
  moreover have "wf_cpu s'" unfolding s'_def by (rule write_register_wf [OF wf])
  ultimately have "register_effect b w r x y (state c) s'"
    using f(2) assms(7) s' flags_effect_rflags [of s' "(state c)\<lparr>rflags := f\<rparr>"]
    by (simp add: register_effect_def)
  moreover have "alu_store op w x y c = (no_stop, c\<lparr>state := s'\<rparr>)"
    using assms(3,4) by (simp add: alu_store_def f(1) write_operand_def T s'_def)
  ultimately show ?thesis by blast
qed

text \<open>With the result written by \<^verbatim>\<open>write_register\<close> instead.\<close>

lemma store_reg_as_store:
  assumes "valid_width w" "op_kind (instr c) 0 = REGISTER"
    "reg_part (op_register (instr c) 0) = Some p" "register_width (op_register (instr c) 0) = w"
  shows "alu_store_reg op w x y c = alu_store op w x y c"
proof -
  obtain s R where op: "op (state c) x y w = (R, s)" by fastforce
  have "write_register s (op_register (instr c) 0) R w =
      write_register s (op_register (instr c) 0) (truncate_to R w) 0"
    using assms by (cases "op_register (instr c) 0")
      (auto simp: write_register_def write_gpr_def Let_def truncate_to_def and.assoc mask_for_width_def)
  then show ?thesis using assms(2) by (simp add: alu_store_reg_def alu_store_def op write_operand_def)
qed

lemma discard_register:
  assumes "valid_width w" "wf_cpu (state c)" "\<not> keeps_result b"
  shows "\<exists>s'. alu_discard op w x y c = (no_stop, c\<lparr>state := s'\<rparr>) \<and> register_effect b w r x y (state c) s'"
proof -
  obtain f where f: "op (state c) x y w = (ref_result b (flag_CF (state c)) x y, (state c)\<lparr>rflags := f\<rparr>)"
    "flags_effect b w x y (state c) ((state c)\<lparr>rflags := f\<rparr>)" using op_cases [OF assms(1)] by blast
  then show ?thesis
    using assms(2,3) by (auto simp: alu_discard_def register_effect_def wf_cpu_def)
qed

lemma promise_store:
  assumes "\<And>c r. register_form w fr r c \<Longrightarrow> h c = alu_store op w (read_register (state c) r) (src c) c"
    "valid_width w" "keeps_result b"
  shows "register_promise (h, b, w, fr, src)"
  unfolding register_promise_def prod.case
proof (intro allI impI)
  fix c :: "'a ctx" and r assume f: "register_form w fr r c"
  then obtain p where "reg_part r = Some p" by (auto simp: register_form_def)
  with f show "\<exists>s'. h c = (no_stop, c\<lparr>state := s'\<rparr>) \<and>
      register_effect b w r (read_register (state c) r) (src c) (state c) s'"
    using assms(1) [OF f] store_register [OF assms(2), of c r p] assms(3) by (simp add: register_form_def)
qed

lemma promise_store_reg:
  assumes "\<And>c r. register_form w fr r c \<Longrightarrow> h c = alu_store_reg op w (read_register (state c) r) (src c) c"
    "valid_width w" "keeps_result b"
  shows "register_promise (h, b, w, fr, src)"
proof (rule promise_store [OF _ assms(2,3)])
  fix c :: "'a ctx" and r assume f: "register_form w fr r c"
  then obtain p where "reg_part r = Some p" by (auto simp: register_form_def)
  with f show "h c = alu_store op w (read_register (state c) r) (src c) c"
    using assms(1) [OF f] store_reg_as_store [OF assms(2), of c p] by (simp add: register_form_def)
qed

lemma promise_discard:
  assumes "\<And>c r. register_form w fr r c \<Longrightarrow> h c = alu_discard op w (read_register (state c) r) (src c) c"
    "valid_width w" "\<not> keeps_result b"
  shows "register_promise (h, b, w, fr, src)"
  unfolding register_promise_def prod.case
proof (intro allI impI)
  fix c :: "'a ctx" and r assume f: "register_form w fr r c"
  then show "\<exists>s'. h c = (no_stop, c\<lparr>state := s'\<rparr>) \<and>
      register_effect b w r (read_register (state c) r) (src c) (state c) s'"
    using assms(1) [OF f] discard_register [OF assms(2) _ assms(3), of c _ _ r] by (simp add: register_form_def)
qed

lemmas form_defs = register_form_def alu_rm_r_def alu_r_rm_def alu_rm_imm_def alu_acc_imm_def
  cmp_rm_r_def cmp_r_rm_def cmp_rm_imm_def cmp_acc_imm_def with_operand_def read_operand_def src_reg_def
  register_0_def

lemma store_promises:
  assumes "valid_width w" "keeps_result b"
  shows "register_promise (alu_rm_r op w, b, w, True, src_reg)"
    and "register_promise (alu_r_rm op w, b, w, True, src_reg)"
  by (rule promise_store [OF _ assms], simp add: form_defs)
    (rule promise_store_reg [OF _ assms], simp add: form_defs)

lemma store_imm_promises:
  assumes "valid_width w" "keeps_result b" "\<And>c. src c = imm (instr c)"
  shows "register_promise (alu_rm_imm op imm w, b, w, False, src)"
    and "register_promise (alu_acc_imm op imm w, b, w, False, src)"
  by (rule promise_store [OF _ assms(1,2)], simp add: form_defs assms(3))
    (rule promise_store_reg [OF _ assms(1,2)], simp add: form_defs assms(3))

lemma cmp_promises:
  assumes "valid_width w" "\<not> keeps_result b"
  shows "register_promise (cmp_rm_r op w, b, w, True, src_reg)"
    and "register_promise (cmp_r_rm op w, b, w, True, src_reg)"
  by (rule promise_discard [OF _ assms], simp add: form_defs)+

lemma cmp_imm_promises:
  assumes "valid_width w" "\<not> keeps_result b" "\<And>c. src c = imm (instr c)"
  shows "register_promise (cmp_rm_imm op imm w, b, w, False, src)"
    and "register_promise (cmp_acc_imm op imm w, b, w, False, src)"
  by (rule promise_discard [OF _ assms(1,2)], simp add: form_defs assms(3))+

lemmas promises = store_promises store_imm_promises cmp_promises cmp_imm_promises

end

section \<open>The operations\<close>

lemma carry_flag_iff: "carry_flag s = flag_CF s"
  using and_exp_eq_0_iff_not_bit [of "rflags s" 0] by (simp add: carry_flag_def kFlagCF_def)

lemma of_bool_if: "(of_bool p :: u64) = (if p then 1 else 0)"
  by (rule of_bool_def)

lemma status_effect:
  assumes "ref_flags b w x y (flag_CF s) s'" "result_flags w (ref_result b (flag_CF s) x y) s'"
    "only_status_flags s s'"
  shows "flags_effect b w x y s s'"
  using assms by (simp add: flags_effect_def only_status_flags_def)

lemma add_status:
  "valid_width w \<Longrightarrow> flags_effect B_ADD w x y s (set_add_flags s x y (x + y) w False)"
  "valid_width w \<Longrightarrow> flags_effect B_ADC w x y s (set_add_flags s x y (x + y + of_bool (flag_CF s)) w (flag_CF s))"
  using set_add_flags_spec [of w x y False s] set_add_flags_spec [of w x y "flag_CF s" s]
  by (auto intro!: status_effect set_add_flags_status set_add_flags_result simp: of_bool_if)

lemma sub_status:
  "valid_width w \<Longrightarrow> flags_effect B_SUB w x y s (set_sub_flags s x y (x - y) w False)"
  "valid_width w \<Longrightarrow> flags_effect B_CMP w x y s (set_sub_flags s x y (x - y) w False)"
  "valid_width w \<Longrightarrow> flags_effect B_SBB w x y s (set_sub_flags s x y (x - y - of_bool (flag_CF s)) w (flag_CF s))"
  using set_sub_flags_spec [of w x y False s] set_sub_flags_spec [of w x y "flag_CF s" s]
  by (auto intro!: status_effect set_sub_flags_status set_sub_flags_result simp: of_bool_if)

lemma logic_status:
  "valid_width w \<Longrightarrow> flags_effect B_AND w x y s (set_logic_flags s (x AND y) w)"
  "valid_width w \<Longrightarrow> flags_effect B_TEST w x y s (set_logic_flags s (x AND y) w)"
  "valid_width w \<Longrightarrow> flags_effect B_OR w x y s (set_logic_flags s (x OR y) w)"
  "valid_width w \<Longrightarrow> flags_effect B_XOR w x y s (set_logic_flags s (x XOR y) w)"
  by (auto intro!: status_effect set_logic_flags_status set_logic_flags_result
      simp: logic_flags_spec_def set_logic_flags_cleared)

lemmas operation_facts = add_status sub_status logic_status carry_flag_iff

interpretation op_add: binary_operation alu_add B_ADD
  by unfold_locales (simp_all add: alu_add_def Let_def operation_facts)

interpretation op_sub: binary_operation alu_sub B_SUB
  by unfold_locales (simp_all add: alu_sub_def Let_def operation_facts)

interpretation op_adc: binary_operation alu_adc B_ADC
  by unfold_locales (simp_all add: alu_adc_def Let_def operation_facts)

interpretation op_sbb: binary_operation alu_sbb B_SBB
  by unfold_locales (simp_all add: alu_sbb_def Let_def operation_facts)

interpretation op_and: binary_operation alu_and B_AND
  by unfold_locales (simp_all add: alu_and_def Let_def operation_facts)

interpretation op_or: binary_operation alu_or B_OR
  by unfold_locales (simp_all add: alu_or_def Let_def operation_facts)

interpretation op_xor: binary_operation alu_xor B_XOR
  by unfold_locales (simp_all add: alu_xor_def Let_def operation_facts)

interpretation op_cmp: binary_operation alu_sub B_CMP
  by unfold_locales (simp_all add: alu_sub_def Let_def operation_facts)

interpretation op_test: binary_operation alu_and B_TEST
  by unfold_locales (simp_all add: alu_and_def Let_def operation_facts)

section \<open>The catalogue\<close>

definition alu_catalog :: "('w handler \<times> binop \<times> nat \<times> bool \<times> ('w ctx \<Rightarrow> u64)) list" where
  "alu_catalog =
    [(handle_code_ADD_RM8_R8, B_ADD, 1, True, src_reg),
     (handle_code_ADD_R8_RM8, B_ADD, 1, True, src_reg),
     (handle_code_ADD_RM8_IMM8, B_ADD, 1, False, src_imm8),
     (handle_code_ADD_RM8_IMM8_82, B_ADD, 1, False, src_imm8s),
     (handle_code_ADD_AL_IMM8, B_ADD, 1, False, src_imm8),
     (handle_code_ADD_AX_IMM16, B_ADD, 2, False, src_imm16),
     (handle_code_ADD_EAX_IMM32, B_ADD, 4, False, src_imm32),
     (handle_code_ADD_RAX_IMM32, B_ADD, 8, False, src_imm32s),
     (handle_code_ADD_RM16_R16, B_ADD, 2, True, src_reg),
     (handle_code_ADD_R16_RM16, B_ADD, 2, True, src_reg),
     (handle_code_ADD_RM16_IMM16, B_ADD, 2, False, src_imm16),
     (handle_code_ADD_RM16_IMM8, B_ADD, 2, False, src_imm8s),
     (handle_code_ADD_RM32_R32, B_ADD, 4, True, src_reg),
     (handle_code_ADD_R32_RM32, B_ADD, 4, True, src_reg),
     (handle_code_ADD_RM32_IMM32, B_ADD, 4, False, src_imm32),
     (handle_code_ADD_RM32_IMM8, B_ADD, 4, False, src_imm8s),
     (handle_code_ADD_RM64_R64, B_ADD, 8, True, src_reg),
     (handle_code_ADD_R64_RM64, B_ADD, 8, True, src_reg),
     (handle_code_ADD_RM64_IMM32, B_ADD, 8, False, src_imm32s),
     (handle_code_ADD_RM64_IMM8, B_ADD, 8, False, src_imm8s),
     (handle_code_SUB_RM8_R8, B_SUB, 1, True, src_reg),
     (handle_code_SUB_R8_RM8, B_SUB, 1, True, src_reg),
     (handle_code_SUB_RM8_IMM8, B_SUB, 1, False, src_imm8),
     (handle_code_SUB_RM8_IMM8_82, B_SUB, 1, False, src_imm8s),
     (handle_code_SUB_AL_IMM8, B_SUB, 1, False, src_imm8),
     (handle_code_SUB_AX_IMM16, B_SUB, 2, False, src_imm16),
     (handle_code_SUB_EAX_IMM32, B_SUB, 4, False, src_imm32),
     (handle_code_SUB_RAX_IMM32, B_SUB, 8, False, src_imm32s),
     (handle_code_SUB_RM16_R16, B_SUB, 2, True, src_reg),
     (handle_code_SUB_R16_RM16, B_SUB, 2, True, src_reg),
     (handle_code_SUB_RM16_IMM16, B_SUB, 2, False, src_imm16),
     (handle_code_SUB_RM16_IMM8, B_SUB, 2, False, src_imm8s),
     (handle_code_SUB_RM32_R32, B_SUB, 4, True, src_reg),
     (handle_code_SUB_R32_RM32, B_SUB, 4, True, src_reg),
     (handle_code_SUB_RM32_IMM32, B_SUB, 4, False, src_imm32),
     (handle_code_SUB_RM32_IMM8, B_SUB, 4, False, src_imm8s),
     (handle_code_SUB_RM64_R64, B_SUB, 8, True, src_reg),
     (handle_code_SUB_R64_RM64, B_SUB, 8, True, src_reg),
     (handle_code_SUB_RM64_IMM32, B_SUB, 8, False, src_imm32s),
     (handle_code_SUB_RM64_IMM8, B_SUB, 8, False, src_imm8s),
     (handle_code_ADC_RM8_R8, B_ADC, 1, True, src_reg),
     (handle_code_ADC_R8_RM8, B_ADC, 1, True, src_reg),
     (handle_code_ADC_RM8_IMM8, B_ADC, 1, False, src_imm8),
     (handle_code_ADC_RM8_IMM8_82, B_ADC, 1, False, src_imm8s),
     (handle_code_ADC_AL_IMM8, B_ADC, 1, False, src_imm8),
     (handle_code_ADC_AX_IMM16, B_ADC, 2, False, src_imm16),
     (handle_code_ADC_EAX_IMM32, B_ADC, 4, False, src_imm32),
     (handle_code_ADC_RAX_IMM32, B_ADC, 8, False, src_imm32s),
     (handle_code_ADC_RM16_R16, B_ADC, 2, True, src_reg),
     (handle_code_ADC_R16_RM16, B_ADC, 2, True, src_reg),
     (handle_code_ADC_RM16_IMM16, B_ADC, 2, False, src_imm16),
     (handle_code_ADC_RM16_IMM8, B_ADC, 2, False, src_imm8s),
     (handle_code_ADC_RM32_R32, B_ADC, 4, True, src_reg),
     (handle_code_ADC_R32_RM32, B_ADC, 4, True, src_reg),
     (handle_code_ADC_RM32_IMM32, B_ADC, 4, False, src_imm32),
     (handle_code_ADC_RM32_IMM8, B_ADC, 4, False, src_imm8s),
     (handle_code_ADC_RM64_R64, B_ADC, 8, True, src_reg),
     (handle_code_ADC_R64_RM64, B_ADC, 8, True, src_reg),
     (handle_code_ADC_RM64_IMM32, B_ADC, 8, False, src_imm32s),
     (handle_code_ADC_RM64_IMM8, B_ADC, 8, False, src_imm8s),
     (handle_code_SBB_RM8_R8, B_SBB, 1, True, src_reg),
     (handle_code_SBB_R8_RM8, B_SBB, 1, True, src_reg),
     (handle_code_SBB_RM8_IMM8, B_SBB, 1, False, src_imm8),
     (handle_code_SBB_RM8_IMM8_82, B_SBB, 1, False, src_imm8s),
     (handle_code_SBB_AL_IMM8, B_SBB, 1, False, src_imm8),
     (handle_code_SBB_AX_IMM16, B_SBB, 2, False, src_imm16),
     (handle_code_SBB_EAX_IMM32, B_SBB, 4, False, src_imm32),
     (handle_code_SBB_RAX_IMM32, B_SBB, 8, False, src_imm32s),
     (handle_code_SBB_RM16_R16, B_SBB, 2, True, src_reg),
     (handle_code_SBB_R16_RM16, B_SBB, 2, True, src_reg),
     (handle_code_SBB_RM16_IMM16, B_SBB, 2, False, src_imm16),
     (handle_code_SBB_RM16_IMM8, B_SBB, 2, False, src_imm8s),
     (handle_code_SBB_RM32_R32, B_SBB, 4, True, src_reg),
     (handle_code_SBB_R32_RM32, B_SBB, 4, True, src_reg),
     (handle_code_SBB_RM32_IMM32, B_SBB, 4, False, src_imm32),
     (handle_code_SBB_RM32_IMM8, B_SBB, 4, False, src_imm8s),
     (handle_code_SBB_RM64_R64, B_SBB, 8, True, src_reg),
     (handle_code_SBB_R64_RM64, B_SBB, 8, True, src_reg),
     (handle_code_SBB_RM64_IMM32, B_SBB, 8, False, src_imm32s),
     (handle_code_SBB_RM64_IMM8, B_SBB, 8, False, src_imm8s),
     (handle_code_AND_RM8_R8, B_AND, 1, True, src_reg),
     (handle_code_AND_R8_RM8, B_AND, 1, True, src_reg),
     (handle_code_AND_RM8_IMM8, B_AND, 1, False, src_imm8),
     (handle_code_AND_RM8_IMM8_82, B_AND, 1, False, src_imm8s),
     (handle_code_AND_AL_IMM8, B_AND, 1, False, src_imm8),
     (handle_code_AND_AX_IMM16, B_AND, 2, False, src_imm16),
     (handle_code_AND_EAX_IMM32, B_AND, 4, False, src_imm32),
     (handle_code_AND_RAX_IMM32, B_AND, 8, False, src_imm32s),
     (handle_code_AND_RM16_R16, B_AND, 2, True, src_reg),
     (handle_code_AND_R16_RM16, B_AND, 2, True, src_reg),
     (handle_code_AND_RM16_IMM16, B_AND, 2, False, src_imm16),
     (handle_code_AND_RM16_IMM8, B_AND, 2, False, src_imm8s),
     (handle_code_AND_RM32_R32, B_AND, 4, True, src_reg),
     (handle_code_AND_R32_RM32, B_AND, 4, True, src_reg),
     (handle_code_AND_RM32_IMM32, B_AND, 4, False, src_imm32),
     (handle_code_AND_RM32_IMM8, B_AND, 4, False, src_imm8s),
     (handle_code_AND_RM64_R64, B_AND, 8, True, src_reg),
     (handle_code_AND_R64_RM64, B_AND, 8, True, src_reg),
     (handle_code_AND_RM64_IMM32, B_AND, 8, False, src_imm32s),
     (handle_code_AND_RM64_IMM8, B_AND, 8, False, src_imm8s),
     (handle_code_OR_RM8_R8, B_OR, 1, True, src_reg),
     (handle_code_OR_R8_RM8, B_OR, 1, True, src_reg),
     (handle_code_OR_RM8_IMM8, B_OR, 1, False, src_imm8),
     (handle_code_OR_RM8_IMM8_82, B_OR, 1, False, src_imm8s),
     (handle_code_OR_AL_IMM8, B_OR, 1, False, src_imm8),
     (handle_code_OR_AX_IMM16, B_OR, 2, False, src_imm16),
     (handle_code_OR_EAX_IMM32, B_OR, 4, False, src_imm32),
     (handle_code_OR_RAX_IMM32, B_OR, 8, False, src_imm32s),
     (handle_code_OR_RM16_R16, B_OR, 2, True, src_reg),
     (handle_code_OR_R16_RM16, B_OR, 2, True, src_reg),
     (handle_code_OR_RM16_IMM16, B_OR, 2, False, src_imm16),
     (handle_code_OR_RM16_IMM8, B_OR, 2, False, src_imm8s),
     (handle_code_OR_RM32_R32, B_OR, 4, True, src_reg),
     (handle_code_OR_R32_RM32, B_OR, 4, True, src_reg),
     (handle_code_OR_RM32_IMM32, B_OR, 4, False, src_imm32),
     (handle_code_OR_RM32_IMM8, B_OR, 4, False, src_imm8s),
     (handle_code_OR_RM64_R64, B_OR, 8, True, src_reg),
     (handle_code_OR_R64_RM64, B_OR, 8, True, src_reg),
     (handle_code_OR_RM64_IMM32, B_OR, 8, False, src_imm32s),
     (handle_code_OR_RM64_IMM8, B_OR, 8, False, src_imm8s),
     (handle_code_XOR_RM8_R8, B_XOR, 1, True, src_reg),
     (handle_code_XOR_R8_RM8, B_XOR, 1, True, src_reg),
     (handle_code_XOR_RM8_IMM8, B_XOR, 1, False, src_imm8),
     (handle_code_XOR_RM8_IMM8_82, B_XOR, 1, False, src_imm8s),
     (handle_code_XOR_AL_IMM8, B_XOR, 1, False, src_imm8),
     (handle_code_XOR_AX_IMM16, B_XOR, 2, False, src_imm16),
     (handle_code_XOR_EAX_IMM32, B_XOR, 4, False, src_imm32),
     (handle_code_XOR_RAX_IMM32, B_XOR, 8, False, src_imm32s),
     (handle_code_XOR_RM16_R16, B_XOR, 2, True, src_reg),
     (handle_code_XOR_R16_RM16, B_XOR, 2, True, src_reg),
     (handle_code_XOR_RM16_IMM16, B_XOR, 2, False, src_imm16),
     (handle_code_XOR_RM16_IMM8, B_XOR, 2, False, src_imm8s),
     (handle_code_XOR_RM32_R32, B_XOR, 4, True, src_reg),
     (handle_code_XOR_R32_RM32, B_XOR, 4, True, src_reg),
     (handle_code_XOR_RM32_IMM32, B_XOR, 4, False, src_imm32),
     (handle_code_XOR_RM32_IMM8, B_XOR, 4, False, src_imm8s),
     (handle_code_XOR_RM64_R64, B_XOR, 8, True, src_reg),
     (handle_code_XOR_R64_RM64, B_XOR, 8, True, src_reg),
     (handle_code_XOR_RM64_IMM32, B_XOR, 8, False, src_imm32s),
     (handle_code_XOR_RM64_IMM8, B_XOR, 8, False, src_imm8s),
     (handle_code_CMP_RM8_R8, B_CMP, 1, True, src_reg),
     (handle_code_CMP_R8_RM8, B_CMP, 1, True, src_reg),
     (handle_code_CMP_RM8_IMM8, B_CMP, 1, False, src_imm8),
     (handle_code_CMP_RM8_IMM8_82, B_CMP, 1, False, src_imm8s),
     (handle_code_CMP_AL_IMM8, B_CMP, 1, False, src_imm8),
     (handle_code_CMP_AX_IMM16, B_CMP, 2, False, src_imm16),
     (handle_code_CMP_EAX_IMM32, B_CMP, 4, False, src_imm32),
     (handle_code_CMP_RAX_IMM32, B_CMP, 8, False, src_imm32s),
     (handle_code_CMP_RM16_R16, B_CMP, 2, True, src_reg),
     (handle_code_CMP_R16_RM16, B_CMP, 2, True, src_reg),
     (handle_code_CMP_RM16_IMM16, B_CMP, 2, False, src_imm16),
     (handle_code_CMP_RM16_IMM8, B_CMP, 2, False, src_imm8s),
     (handle_code_CMP_RM32_R32, B_CMP, 4, True, src_reg),
     (handle_code_CMP_R32_RM32, B_CMP, 4, True, src_reg),
     (handle_code_CMP_RM32_IMM32, B_CMP, 4, False, src_imm32),
     (handle_code_CMP_RM32_IMM8, B_CMP, 4, False, src_imm8s),
     (handle_code_CMP_RM64_R64, B_CMP, 8, True, src_reg),
     (handle_code_CMP_R64_RM64, B_CMP, 8, True, src_reg),
     (handle_code_CMP_RM64_IMM32, B_CMP, 8, False, src_imm32s),
     (handle_code_CMP_RM64_IMM8, B_CMP, 8, False, src_imm8s),
     (handle_code_TEST_RM8_R8, B_TEST, 1, True, src_reg),
     (handle_code_TEST_RM16_R16, B_TEST, 2, True, src_reg),
     (handle_code_TEST_RM32_R32, B_TEST, 4, True, src_reg),
     (handle_code_TEST_RM64_R64, B_TEST, 8, True, src_reg),
     (handle_code_TEST_RM8_IMM8, B_TEST, 1, False, src_imm8),
     (handle_code_TEST_RM16_IMM16, B_TEST, 2, False, src_imm16),
     (handle_code_TEST_RM32_IMM32, B_TEST, 4, False, src_imm32),
     (handle_code_TEST_RM64_IMM32, B_TEST, 8, False, src_imm32s),
     (handle_code_TEST_AL_IMM8, B_TEST, 1, False, src_imm8),
     (handle_code_TEST_AX_IMM16, B_TEST, 2, False, src_imm16),
     (handle_code_TEST_EAX_IMM32, B_TEST, 4, False, src_imm32),
     (handle_code_TEST_RAX_IMM32, B_TEST, 8, False, src_imm32s),
     (handle_code_TEST_RM8_IMM8_F6R1, B_TEST, 1, False, src_imm8),
     (handle_code_TEST_RM16_IMM16_F7R1, B_TEST, 2, False, src_imm16),
     (handle_code_TEST_RM32_IMM32_F7R1, B_TEST, 4, False, src_imm32),
     (handle_code_TEST_RM64_IMM32_F7R1, B_TEST, 8, False, src_imm32s)]"

lemmas alu_handler_defs =
  handle_code_ADD_RM8_R8_def handle_code_ADD_R8_RM8_def handle_code_ADD_RM8_IMM8_def
  handle_code_ADD_RM8_IMM8_82_def handle_code_ADD_AL_IMM8_def handle_code_ADD_AX_IMM16_def
  handle_code_ADD_EAX_IMM32_def handle_code_ADD_RAX_IMM32_def handle_code_ADD_RM16_R16_def
  handle_code_ADD_R16_RM16_def handle_code_ADD_RM16_IMM16_def handle_code_ADD_RM16_IMM8_def
  handle_code_ADD_RM32_R32_def handle_code_ADD_R32_RM32_def handle_code_ADD_RM32_IMM32_def
  handle_code_ADD_RM32_IMM8_def handle_code_ADD_RM64_R64_def handle_code_ADD_R64_RM64_def
  handle_code_ADD_RM64_IMM32_def handle_code_ADD_RM64_IMM8_def handle_code_SUB_RM8_R8_def
  handle_code_SUB_R8_RM8_def handle_code_SUB_RM8_IMM8_def handle_code_SUB_RM8_IMM8_82_def
  handle_code_SUB_AL_IMM8_def handle_code_SUB_AX_IMM16_def handle_code_SUB_EAX_IMM32_def
  handle_code_SUB_RAX_IMM32_def handle_code_SUB_RM16_R16_def handle_code_SUB_R16_RM16_def
  handle_code_SUB_RM16_IMM16_def handle_code_SUB_RM16_IMM8_def handle_code_SUB_RM32_R32_def
  handle_code_SUB_R32_RM32_def handle_code_SUB_RM32_IMM32_def handle_code_SUB_RM32_IMM8_def
  handle_code_SUB_RM64_R64_def handle_code_SUB_R64_RM64_def handle_code_SUB_RM64_IMM32_def
  handle_code_SUB_RM64_IMM8_def handle_code_ADC_RM8_R8_def handle_code_ADC_R8_RM8_def
  handle_code_ADC_RM8_IMM8_def handle_code_ADC_RM8_IMM8_82_def handle_code_ADC_AL_IMM8_def
  handle_code_ADC_AX_IMM16_def handle_code_ADC_EAX_IMM32_def handle_code_ADC_RAX_IMM32_def
  handle_code_ADC_RM16_R16_def handle_code_ADC_R16_RM16_def handle_code_ADC_RM16_IMM16_def
  handle_code_ADC_RM16_IMM8_def handle_code_ADC_RM32_R32_def handle_code_ADC_R32_RM32_def
  handle_code_ADC_RM32_IMM32_def handle_code_ADC_RM32_IMM8_def handle_code_ADC_RM64_R64_def
  handle_code_ADC_R64_RM64_def handle_code_ADC_RM64_IMM32_def handle_code_ADC_RM64_IMM8_def
  handle_code_SBB_RM8_R8_def handle_code_SBB_R8_RM8_def handle_code_SBB_RM8_IMM8_def
  handle_code_SBB_RM8_IMM8_82_def handle_code_SBB_AL_IMM8_def handle_code_SBB_AX_IMM16_def
  handle_code_SBB_EAX_IMM32_def handle_code_SBB_RAX_IMM32_def handle_code_SBB_RM16_R16_def
  handle_code_SBB_R16_RM16_def handle_code_SBB_RM16_IMM16_def handle_code_SBB_RM16_IMM8_def
  handle_code_SBB_RM32_R32_def handle_code_SBB_R32_RM32_def handle_code_SBB_RM32_IMM32_def
  handle_code_SBB_RM32_IMM8_def handle_code_SBB_RM64_R64_def handle_code_SBB_R64_RM64_def
  handle_code_SBB_RM64_IMM32_def handle_code_SBB_RM64_IMM8_def handle_code_AND_RM8_R8_def
  handle_code_AND_R8_RM8_def handle_code_AND_RM8_IMM8_def handle_code_AND_RM8_IMM8_82_def
  handle_code_AND_AL_IMM8_def handle_code_AND_AX_IMM16_def handle_code_AND_EAX_IMM32_def
  handle_code_AND_RAX_IMM32_def handle_code_AND_RM16_R16_def handle_code_AND_R16_RM16_def
  handle_code_AND_RM16_IMM16_def handle_code_AND_RM16_IMM8_def handle_code_AND_RM32_R32_def
  handle_code_AND_R32_RM32_def handle_code_AND_RM32_IMM32_def handle_code_AND_RM32_IMM8_def
  handle_code_AND_RM64_R64_def handle_code_AND_R64_RM64_def handle_code_AND_RM64_IMM32_def
  handle_code_AND_RM64_IMM8_def handle_code_OR_RM8_R8_def handle_code_OR_R8_RM8_def
  handle_code_OR_RM8_IMM8_def handle_code_OR_RM8_IMM8_82_def handle_code_OR_AL_IMM8_def
  handle_code_OR_AX_IMM16_def handle_code_OR_EAX_IMM32_def handle_code_OR_RAX_IMM32_def
  handle_code_OR_RM16_R16_def handle_code_OR_R16_RM16_def handle_code_OR_RM16_IMM16_def
  handle_code_OR_RM16_IMM8_def handle_code_OR_RM32_R32_def handle_code_OR_R32_RM32_def
  handle_code_OR_RM32_IMM32_def handle_code_OR_RM32_IMM8_def handle_code_OR_RM64_R64_def
  handle_code_OR_R64_RM64_def handle_code_OR_RM64_IMM32_def handle_code_OR_RM64_IMM8_def
  handle_code_XOR_RM8_R8_def handle_code_XOR_R8_RM8_def handle_code_XOR_RM8_IMM8_def
  handle_code_XOR_RM8_IMM8_82_def handle_code_XOR_AL_IMM8_def handle_code_XOR_AX_IMM16_def
  handle_code_XOR_EAX_IMM32_def handle_code_XOR_RAX_IMM32_def handle_code_XOR_RM16_R16_def
  handle_code_XOR_R16_RM16_def handle_code_XOR_RM16_IMM16_def handle_code_XOR_RM16_IMM8_def
  handle_code_XOR_RM32_R32_def handle_code_XOR_R32_RM32_def handle_code_XOR_RM32_IMM32_def
  handle_code_XOR_RM32_IMM8_def handle_code_XOR_RM64_R64_def handle_code_XOR_R64_RM64_def
  handle_code_XOR_RM64_IMM32_def handle_code_XOR_RM64_IMM8_def handle_code_CMP_RM8_R8_def
  handle_code_CMP_R8_RM8_def handle_code_CMP_RM8_IMM8_def handle_code_CMP_RM8_IMM8_82_def
  handle_code_CMP_AL_IMM8_def handle_code_CMP_AX_IMM16_def handle_code_CMP_EAX_IMM32_def
  handle_code_CMP_RAX_IMM32_def handle_code_CMP_RM16_R16_def handle_code_CMP_R16_RM16_def
  handle_code_CMP_RM16_IMM16_def handle_code_CMP_RM16_IMM8_def handle_code_CMP_RM32_R32_def
  handle_code_CMP_R32_RM32_def handle_code_CMP_RM32_IMM32_def handle_code_CMP_RM32_IMM8_def
  handle_code_CMP_RM64_R64_def handle_code_CMP_R64_RM64_def handle_code_CMP_RM64_IMM32_def
  handle_code_CMP_RM64_IMM8_def handle_code_TEST_RM8_R8_def handle_code_TEST_RM16_R16_def
  handle_code_TEST_RM32_R32_def handle_code_TEST_RM64_R64_def handle_code_TEST_RM8_IMM8_def
  handle_code_TEST_RM16_IMM16_def handle_code_TEST_RM32_IMM32_def handle_code_TEST_RM64_IMM32_def
  handle_code_TEST_AL_IMM8_def handle_code_TEST_AX_IMM16_def handle_code_TEST_EAX_IMM32_def
  handle_code_TEST_RAX_IMM32_def handle_code_TEST_RM8_IMM8_F6R1_def handle_code_TEST_RM16_IMM16_F7R1_def
  handle_code_TEST_RM32_IMM32_F7R1_def handle_code_TEST_RM64_IMM32_F7R1_def

lemma imm_sources:
  "src_imm8 c = imm8 (instr c)" "src_imm16 c = imm16 (instr c)" "src_imm32 c = imm32 (instr c)"
  "src_imm8s c = imm8_sext (instr c)" "src_imm32s c = imm32_sext (instr c)"
proof -
  have "sign_extend (ucast v) 1 = scast v" for v :: u8
    by (rule bit_word_eqI)
      (auto simp: sign_extend_eq bit_signed_take_bit_iff bit_ucast_iff bit_signed_iff min_def dest: bit_imp_le_length)
  moreover have "sign_extend (ucast v) 4 = scast v" for v :: u32
    by (rule bit_word_eqI)
      (auto simp: sign_extend_eq bit_signed_take_bit_iff bit_ucast_iff bit_signed_iff min_def dest: bit_imp_le_length)
  ultimately show "src_imm8 c = imm8 (instr c)" "src_imm16 c = imm16 (instr c)" "src_imm32 c = imm32 (instr c)"
    "src_imm8s c = imm8_sext (instr c)" "src_imm32s c = imm32_sext (instr c)"
    by (simp_all add: src_imm8_def src_imm16_def src_imm32_def src_imm8s_def src_imm32s_def imm8_def imm16_def
        imm32_def imm8_sext_def imm32_sext_def)
qed

lemma valid_widths [simp]: "valid_width 1" "valid_width (Suc 0)" "valid_width 2" "valid_width 4" "valid_width 8"
  by (simp_all add: valid_width_def)

lemmas catalog_promises = op_add.promises op_sub.promises op_adc.promises op_sbb.promises op_and.promises
  op_or.promises op_xor.promises op_cmp.promises op_test.promises

lemma alu_catalog_promises: "list_all register_promise alu_catalog"
  unfolding alu_catalog_def alu_handler_defs
  by (simp add: catalog_promises imm_sources)

end
