(* ===== verification/Alu_Memory.thy ===== *)
theory Alu_Memory
  imports Alu_Facts Memory_Witness
begin

text \<open>
  The two-operand integer instructions with a memory operand: the value is read, combined and written back at the effective
  address, or the instruction stops with a page fault there; and the properties of every handler of the catalogue.
\<close>

section \<open>Addresses do not depend on flags or memory\<close>

lemma read_register_rflags [simp]: "read_register (s\<lparr>rflags := f\<rparr>) r = read_register s r"
  by (cases r) (simp_all add: read_register_def read_gpr_def mmx_get_def Let_def)

lemma memory_address_frame [simp]:
  "memory_address (c\<lparr>mem := m\<rparr>) = memory_address c"
  "memory_address (c\<lparr>state := (state c)\<lparr>rflags := f\<rparr>\<rparr>) = memory_address c"
  "memory_address (c\<lparr>state := (state c)\<lparr>rflags := f\<rparr>, mem := m\<rparr>) = memory_address c"
  by (simp_all add: memory_address_def Let_def mask_linear_address_def)

lemma memory_fault_frame [simp]:
  "memory_fault (c\<lparr>mem := m\<rparr>) a = memory_fault c a" "memory_fault (c\<lparr>state := s\<rparr>) a = memory_fault c a"
  by (simp_all add: memory_fault_def)

lemma memory_fault_not_none [simp]: "memory_fault c a \<noteq> no_stop" "no_stop \<noteq> memory_fault c a"
  by (simp_all add: memory_fault_def no_stop_def)

lemma no_stop_ok [simp]: "result_ok no_stop" "\<not> result_ok (memory_fault c a)"
  by (simp_all add: result_ok_def no_stop_def memory_fault_def)

lemma state_update_inj [simp]: "c\<lparr>state := s\<rparr> = c\<lparr>state := s'\<rparr> \<longleftrightarrow> s = s'" for c :: "'w ctx"
  by (cases c) auto

definition may_write :: "'w ctx \<Rightarrow> u64 \<Rightarrow> nat \<Rightarrow> bool" where
  "may_write c a w \<longleftrightarrow> (\<forall>i<w. allowed_at (can data_write) (pages (mem c)) (a + word_of_nat i))"

lemma ctx_write_ok:
  assumes "plain (mem c)" "valid_width w"
  shows "fst (ctx_write c a x w) \<longleftrightarrow> may_write c a w"
  using ctx_write_plain [OF assms, of a x]
  by (auto simp: after_write_def Let_def may_write_def allowed_prefix_full)

section \<open>Integers in memory, with faults\<close>

lemma ctx_value_state [simp]:
  "fst (ctx_read (c\<lparr>state := s\<rparr>) a w) = fst (ctx_read c a w)"
  "fst (ctx_read (c\<lparr>state := s, mem := m\<rparr>) a w) = fst (ctx_read (c\<lparr>mem := m\<rparr>) a w)"
  by (simp_all add: ctx_read_def split: prod.split)

lemma read_memory_checked_plain:
  assumes "plain (mem c)" "valid_width w"
  shows "\<exists>m. read_memory_checked c a w =
      (case fst (ctx_read c a w) of None \<Rightarrow> Inl (memory_fault c a) | Some v \<Rightarrow> Inr v, c\<lparr>mem := m\<rparr>) \<and>
    plain m \<and> tlb_variant (mem c) m"
  using ctx_read_plain [OF assms, of a]
  by (auto simp: read_memory_checked_def split: option.split)

lemma write_memory_checked_plain:
  assumes "plain (mem c)" "valid_width w"
  shows "\<exists>m. write_memory_checked c a x w =
      (if may_write c a w then no_stop else memory_fault c a, c\<lparr>mem := m\<rparr>) \<and> plain m \<and>
    (may_write c a w \<longrightarrow> (\<forall>s. fst (ctx_read (c\<lparr>state := s, mem := m\<rparr>) a w) = Some (take_bit (8 * w) x)))"
proof -
  obtain ok m where m: "ctx_write c a x w = (ok, c\<lparr>mem := m\<rparr>)" "plain m"
    using ctx_write_plain [OF assms, of a x] by auto
  have "ok \<longleftrightarrow> may_write c a w" using ctx_write_ok [OF assms, of a x] m by simp
  moreover have "ok \<Longrightarrow> fst (ctx_read (c\<lparr>mem := m\<rparr>) a w) = Some (take_bit (8 * w) x)"
    using cm.store_same [OF assms, of a x] m by simp
  ultimately show ?thesis using m by (auto simp: write_memory_checked_def)
qed

lemma those_not_None: "None \<notin> set xs \<Longrightarrow> those xs \<noteq> None"
proof (induction xs)
  case (Cons a xs)
  then show ?case by (cases a) auto
qed simp

lemma may_write_read:
  assumes "plain (mem c)" "valid_width w" "may_write c a w"
  shows "\<exists>x. fst (ctx_read c a w) = Some x"
proof -
  have "byte_at (can data_read) (pages (mem c)) (a + word_of_nat i) \<noteq> None" if "i \<in> set [0..<w]" for i
  proof -
    have "allowed_at (can data_write) (pages (mem c)) (a + word_of_nat i)" using assms(3) that by (simp add: may_write_def)
    then have "allowed_at (can data_read) (pages (mem c)) (a + word_of_nat i)"
      by (rule allowed_at_mono) (rule write_implies_read)
    then show ?thesis unfolding byte_at_allowed [symmetric] by (metis option.distinct(1))
  qed
  then have "None \<notin> set (map (\<lambda>i. byte_at (can data_read) (pages (mem c)) (a + word_of_nat i)) [0..<w])"
    unfolding set_map image_iff by metis
  then have "read_bytes (can data_read) (pages (mem c)) a w \<noteq> None"
    unfolding read_bytes_def by (rule those_not_None)
  then show ?thesis using ctx_read_plain [OF assms(1,2), of a] by (auto simp del: has_permission.simps)
qed

section \<open>Memory forms\<close>

definition memory_form :: "bool \<Rightarrow> 'w ctx \<Rightarrow> bool" where
  "memory_form from_reg c \<longleftrightarrow> plain (mem c) \<and> op_kind (instr c) 0 = MEMORY \<and>
     (from_reg \<longrightarrow> op_kind (instr c) 1 = REGISTER)"

text \<open>The effect on a destination at address \<open>a\<close> that holds \<open>x\<close>: the flags are set, the instruction
  stops with a page fault exactly when the result is to be stored and the destination is not writable, and
  otherwise the destination holds the result.\<close>

definition memory_effect ::
  "binop \<Rightarrow> nat \<Rightarrow> u64 \<Rightarrow> u64 \<Rightarrow> u64 \<Rightarrow> 'w ctx \<Rightarrow> execution_result \<times> 'w ctx \<Rightarrow> bool" where
  "memory_effect b w a x y c r \<longleftrightarrow>
     fst r = (if keeps_result b \<and> \<not> may_write c a w then memory_fault c a else no_stop) \<and>
     only_rflags (state c) (state (snd r)) \<and> flags_effect b w x y (state c) (state (snd r)) \<and>
     plain (mem (snd r)) \<and>
     (fst r = no_stop \<longrightarrow> fst (ctx_read (snd r) a w) =
        Some (if keeps_result b then take_bit (8 * w) (ref_result b (flag_CF (state c)) x y) else x))"

definition memory_promise :: "'w handler \<times> binop \<times> nat \<times> bool \<times> ('w ctx \<Rightarrow> u64) \<Rightarrow> bool" where
  "memory_promise e = (case e of (h, b, w, from_reg, src) \<Rightarrow>
     \<forall>c. memory_form from_reg c \<longrightarrow>
       (case fst (ctx_read c (memory_address c) w) of
          None \<Rightarrow> fst (h c) = memory_fault c (memory_address c) \<and> state (snd (h c)) = state c
        | Some x \<Rightarrow> memory_effect b w (memory_address c) x (src c) c (h c)))"

lemma ctx_read_frame:
  assumes "plain (mem c)" "valid_width w" "pages (mem c') = pages (mem c)" "plain (mem c')"
  shows "fst (ctx_read c' a w) = fst (ctx_read c a w)"
  using ctx_read_plain [OF assms(1,2), of a] ctx_read_plain [OF assms(4,2), of a] assms(3) by auto

lemma read_memory_operand:
  assumes "plain (mem c)" "valid_width w" "op_kind (instr c) k = MEMORY"
  shows "\<exists>m. read_operand c k w = (fst (ctx_read c (memory_address c) w), c\<lparr>mem := m\<rparr>) \<and>
    plain m \<and> tlb_variant (mem c) m"
proof -
  obtain m where m: "snd (ctx_read c (memory_address c) w) = c\<lparr>mem := m\<rparr>" "plain m" "tlb_variant (mem c) m"
    using ctx_read_plain [OF assms(1,2), of "memory_address c"] by auto
  have "map_option (\<lambda>v. truncate_to v w) (fst (ctx_read c (memory_address c) w)) = fst (ctx_read c (memory_address c) w)"
    using cm.load_range [OF assms(1,2), of "memory_address c"]
    by (cases "fst (ctx_read c (memory_address c) w)") (auto simp: truncate_to_def and_mask_for_width)
  then show ?thesis
    using m assms(3) by (cases "ctx_read c (memory_address c) w") (auto simp: read_operand_def)
qed

lemma read_operand_mem: "\<exists>m. snd (read_operand c k w) = c\<lparr>mem := m\<rparr>"
proof -
  have "c = c\<lparr>mem := mem c\<rparr>" by simp
  then show ?thesis
    by (auto simp: read_operand_def ctx_read_def Let_def split: prod.split intro: exI [of _ "mem c"])
qed

lemma with_operand_cong:
  assumes "\<And>v m. f v (c\<lparr>mem := m\<rparr>) = g v (c\<lparr>mem := m\<rparr>)"
  shows "with_operand k w f c = with_operand k w g c"
proof -
  obtain r m where "read_operand c k w = (r, c\<lparr>mem := m\<rparr>)"
    using read_operand_mem [of c k w] by (metis prod.collapse)
  then show ?thesis using assms by (auto simp: with_operand_def split: option.split)
qed

lemma with_register_operand:
  "op_kind (instr c) k = REGISTER \<Longrightarrow>
     with_operand k w f c = f (read_register (state c) (op_register (instr c) k)) c"
  by (simp add: with_operand_def read_operand_def)

context binary_operation
begin

lemma store_memory:
  assumes "valid_width w" "plain (mem c)" "op_kind (instr c) 0 = MEMORY" "keeps_result b"
  shows "memory_effect b w (memory_address c) x y c (alu_store op w x y c)"
proof -
  let ?a = "memory_address c"
  obtain f where f: "op (state c) x y w = (ref_result b (flag_CF (state c)) x y, (state c)\<lparr>rflags := f\<rparr>)"
    "flags_effect b w x y (state c) ((state c)\<lparr>rflags := f\<rparr>)" using op_cases [OF assms(1)] by blast
  let ?R = "ref_result b (flag_CF (state c)) x y" and ?c = "c\<lparr>state := (state c)\<lparr>rflags := f\<rparr>\<rparr>"
  have p: "plain (mem ?c)" using assms(2) by simp
  obtain ok m where m: "ctx_write ?c ?a (truncate_to ?R w) w = (ok, ?c\<lparr>mem := m\<rparr>)" "plain m"
    using ctx_write_plain [OF p assms(1), of ?a "truncate_to ?R w"] by auto
  have ok: "ok \<longleftrightarrow> may_write c ?a w"
    using ctx_write_ok [OF p assms(1), of ?a "truncate_to ?R w"] m by (simp add: may_write_def)
  have st: "alu_store op w x y c = (if ok then no_stop else memory_fault c ?a, ?c\<lparr>mem := m\<rparr>)"
    using assms(3) m by (simp add: alu_store_def f(1) write_operand_def)
  have "fst (ctx_read (?c\<lparr>mem := m\<rparr>) ?a w) = Some (take_bit (8 * w) ?R)" if ok
    using cm.store_same [OF p assms(1), of ?a "truncate_to ?R w"] m that
    by (simp add: truncate_to_def and_mask_for_width)
  then show ?thesis
    using assms(4) f(2) m(2) ok by (auto simp: memory_effect_def st only_rflags_def)
qed

lemma discard_memory:
  assumes "valid_width w" "plain (mem c)" "\<not> keeps_result b" "fst (ctx_read c a w) = Some x"
  shows "memory_effect b w a x y c (alu_discard op w x y c)"
proof -
  obtain f where f: "op (state c) x y w = (ref_result b (flag_CF (state c)) x y, (state c)\<lparr>rflags := f\<rparr>)"
    "flags_effect b w x y (state c) ((state c)\<lparr>rflags := f\<rparr>)" using op_cases [OF assms(1)] by blast
  then show ?thesis
    using assms ctx_read_frame [OF assms(2,1), of "c\<lparr>state := (state c)\<lparr>rflags := f\<rparr>\<rparr>" a]
    by (auto simp: memory_effect_def alu_discard_def only_rflags_def)
qed

text \<open>Reading the operand first touches the lookup cache only.\<close>

lemma memory_effect_read:
  assumes "tlb_variant (mem c) m" "memory_effect b w a x y (c\<lparr>mem := m\<rparr>) r"
  shows "memory_effect b w a x y c r"
  using assms by (simp add: memory_effect_def may_write_def tlb_variant_fields)

lemma promise_memory:
  assumes w: "valid_width w"
    and h: "\<And>c. memory_form fr c \<Longrightarrow> h c = with_operand 0 w (\<lambda>x c. k x (src c) c) c"
    and src: "\<And>c m. src (c\<lparr>mem := m\<rparr>) = src c"
    and k: "\<And>c x y. plain (mem c) \<Longrightarrow> op_kind (instr c) 0 = MEMORY \<Longrightarrow>
      fst (ctx_read c (memory_address c) w) = Some x \<Longrightarrow> memory_effect b w (memory_address c) x y c (k x y c)"
  shows "memory_promise (h, b, w, fr, src)"
  unfolding memory_promise_def prod.case
proof (intro allI impI)
  fix c :: "'a ctx" assume fm: "memory_form fr c"
  then have p: "plain (mem c)" "op_kind (instr c) 0 = MEMORY" by (auto simp: memory_form_def)
  let ?a = "memory_address c"
  obtain m where m: "read_operand c 0 w = (fst (ctx_read c ?a w), c\<lparr>mem := m\<rparr>)" "plain m" "tlb_variant (mem c) m"
    using read_memory_operand [OF p(1) w p(2)] by blast
  show "case fst (ctx_read c ?a w) of
      None \<Rightarrow> fst (h c) = memory_fault c ?a \<and> state (snd (h c)) = state c
    | Some x \<Rightarrow> memory_effect b w ?a x (src c) c (h c)"
  proof (cases "fst (ctx_read c ?a w)")
    case None
    then show ?thesis using m h [OF fm] by (simp add: with_operand_def)
  next
    case (Some x)
    have "fst (ctx_read (c\<lparr>mem := m\<rparr>) ?a w) = Some x"
      using ctx_read_frame [OF p(1) w, of "c\<lparr>mem := m\<rparr>" ?a] m Some by (simp add: tlb_variant_fields)
    then have "memory_effect b w ?a x (src c) (c\<lparr>mem := m\<rparr>) (k x (src c) (c\<lparr>mem := m\<rparr>))"
      using k [of "c\<lparr>mem := m\<rparr>" x "src c"] m p by simp
    then show ?thesis
      using m Some h [OF fm] src memory_effect_read [OF m(3)] by (simp add: with_operand_def)
  qed
qed

lemma memory_promises:
  assumes w: "valid_width w" and b: "keeps_result b"
  shows "memory_promise (alu_rm_r op w, b, w, True, src_reg)"
    and "(\<And>c. src c = imm (instr c)) \<Longrightarrow> memory_promise (alu_rm_imm op imm w, b, w, False, src)"
proof -
  show "memory_promise (alu_rm_r op w, b, w, True, src_reg)"
    by (rule promise_memory [OF w, where k = "alu_store op w"])
      (auto simp: alu_rm_r_def memory_form_def src_reg_def with_register_operand store_memory w b
        intro!: with_operand_cong)
  show "memory_promise (alu_rm_imm op imm w, b, w, False, src)" if "\<And>c. src c = imm (instr c)"
    using that by (intro promise_memory [OF w, where k = "alu_store op w"])
      (auto simp: alu_rm_imm_def store_memory w b)
qed

lemma cmp_memory_promises:
  assumes w: "valid_width w" and b: "\<not> keeps_result b"
  shows "memory_promise (cmp_rm_r op w, b, w, True, src_reg)"
    and "(\<And>c. src c = imm (instr c)) \<Longrightarrow> memory_promise (cmp_rm_imm op imm w, b, w, False, src)"
proof -
  show "memory_promise (cmp_rm_r op w, b, w, True, src_reg)"
    by (rule promise_memory [OF w, where k = "alu_discard op w"])
      (auto simp: cmp_rm_r_def memory_form_def src_reg_def with_register_operand discard_memory w b
        intro!: with_operand_cong)
  show "memory_promise (cmp_rm_imm op imm w, b, w, False, src)" if "\<And>c. src c = imm (instr c)"
    using that by (intro promise_memory [OF w, where k = "alu_discard op w"])
      (auto simp: cmp_rm_imm_def discard_memory w b)
qed

end

section \<open>The catalogue\<close>

text \<open>The handlers whose first operand may be in memory.\<close>

definition alu_memory_catalog :: "('w handler \<times> binop \<times> nat \<times> bool \<times> ('w ctx \<Rightarrow> u64)) list" where
  "alu_memory_catalog =
    [(handle_code_ADD_RM8_R8, B_ADD, 1, True, src_reg),
     (handle_code_ADD_RM8_IMM8, B_ADD, 1, False, src_imm8),
     (handle_code_ADD_RM8_IMM8_82, B_ADD, 1, False, src_imm8s),
     (handle_code_ADD_RM16_R16, B_ADD, 2, True, src_reg),
     (handle_code_ADD_RM16_IMM16, B_ADD, 2, False, src_imm16),
     (handle_code_ADD_RM16_IMM8, B_ADD, 2, False, src_imm8s),
     (handle_code_ADD_RM32_R32, B_ADD, 4, True, src_reg),
     (handle_code_ADD_RM32_IMM32, B_ADD, 4, False, src_imm32),
     (handle_code_ADD_RM32_IMM8, B_ADD, 4, False, src_imm8s),
     (handle_code_ADD_RM64_R64, B_ADD, 8, True, src_reg),
     (handle_code_ADD_RM64_IMM32, B_ADD, 8, False, src_imm32s),
     (handle_code_ADD_RM64_IMM8, B_ADD, 8, False, src_imm8s),
     (handle_code_SUB_RM8_R8, B_SUB, 1, True, src_reg),
     (handle_code_SUB_RM8_IMM8, B_SUB, 1, False, src_imm8),
     (handle_code_SUB_RM8_IMM8_82, B_SUB, 1, False, src_imm8s),
     (handle_code_SUB_RM16_R16, B_SUB, 2, True, src_reg),
     (handle_code_SUB_RM16_IMM16, B_SUB, 2, False, src_imm16),
     (handle_code_SUB_RM16_IMM8, B_SUB, 2, False, src_imm8s),
     (handle_code_SUB_RM32_R32, B_SUB, 4, True, src_reg),
     (handle_code_SUB_RM32_IMM32, B_SUB, 4, False, src_imm32),
     (handle_code_SUB_RM32_IMM8, B_SUB, 4, False, src_imm8s),
     (handle_code_SUB_RM64_R64, B_SUB, 8, True, src_reg),
     (handle_code_SUB_RM64_IMM32, B_SUB, 8, False, src_imm32s),
     (handle_code_SUB_RM64_IMM8, B_SUB, 8, False, src_imm8s),
     (handle_code_ADC_RM8_R8, B_ADC, 1, True, src_reg),
     (handle_code_ADC_RM8_IMM8, B_ADC, 1, False, src_imm8),
     (handle_code_ADC_RM8_IMM8_82, B_ADC, 1, False, src_imm8s),
     (handle_code_ADC_RM16_R16, B_ADC, 2, True, src_reg),
     (handle_code_ADC_RM16_IMM16, B_ADC, 2, False, src_imm16),
     (handle_code_ADC_RM16_IMM8, B_ADC, 2, False, src_imm8s),
     (handle_code_ADC_RM32_R32, B_ADC, 4, True, src_reg),
     (handle_code_ADC_RM32_IMM32, B_ADC, 4, False, src_imm32),
     (handle_code_ADC_RM32_IMM8, B_ADC, 4, False, src_imm8s),
     (handle_code_ADC_RM64_R64, B_ADC, 8, True, src_reg),
     (handle_code_ADC_RM64_IMM32, B_ADC, 8, False, src_imm32s),
     (handle_code_ADC_RM64_IMM8, B_ADC, 8, False, src_imm8s),
     (handle_code_SBB_RM8_R8, B_SBB, 1, True, src_reg),
     (handle_code_SBB_RM8_IMM8, B_SBB, 1, False, src_imm8),
     (handle_code_SBB_RM8_IMM8_82, B_SBB, 1, False, src_imm8s),
     (handle_code_SBB_RM16_R16, B_SBB, 2, True, src_reg),
     (handle_code_SBB_RM16_IMM16, B_SBB, 2, False, src_imm16),
     (handle_code_SBB_RM16_IMM8, B_SBB, 2, False, src_imm8s),
     (handle_code_SBB_RM32_R32, B_SBB, 4, True, src_reg),
     (handle_code_SBB_RM32_IMM32, B_SBB, 4, False, src_imm32),
     (handle_code_SBB_RM32_IMM8, B_SBB, 4, False, src_imm8s),
     (handle_code_SBB_RM64_R64, B_SBB, 8, True, src_reg),
     (handle_code_SBB_RM64_IMM32, B_SBB, 8, False, src_imm32s),
     (handle_code_SBB_RM64_IMM8, B_SBB, 8, False, src_imm8s),
     (handle_code_AND_RM8_R8, B_AND, 1, True, src_reg),
     (handle_code_AND_RM8_IMM8, B_AND, 1, False, src_imm8),
     (handle_code_AND_RM8_IMM8_82, B_AND, 1, False, src_imm8s),
     (handle_code_AND_RM16_R16, B_AND, 2, True, src_reg),
     (handle_code_AND_RM16_IMM16, B_AND, 2, False, src_imm16),
     (handle_code_AND_RM16_IMM8, B_AND, 2, False, src_imm8s),
     (handle_code_AND_RM32_R32, B_AND, 4, True, src_reg),
     (handle_code_AND_RM32_IMM32, B_AND, 4, False, src_imm32),
     (handle_code_AND_RM32_IMM8, B_AND, 4, False, src_imm8s),
     (handle_code_AND_RM64_R64, B_AND, 8, True, src_reg),
     (handle_code_AND_RM64_IMM32, B_AND, 8, False, src_imm32s),
     (handle_code_AND_RM64_IMM8, B_AND, 8, False, src_imm8s),
     (handle_code_OR_RM8_R8, B_OR, 1, True, src_reg),
     (handle_code_OR_RM8_IMM8, B_OR, 1, False, src_imm8),
     (handle_code_OR_RM8_IMM8_82, B_OR, 1, False, src_imm8s),
     (handle_code_OR_RM16_R16, B_OR, 2, True, src_reg),
     (handle_code_OR_RM16_IMM16, B_OR, 2, False, src_imm16),
     (handle_code_OR_RM16_IMM8, B_OR, 2, False, src_imm8s),
     (handle_code_OR_RM32_R32, B_OR, 4, True, src_reg),
     (handle_code_OR_RM32_IMM32, B_OR, 4, False, src_imm32),
     (handle_code_OR_RM32_IMM8, B_OR, 4, False, src_imm8s),
     (handle_code_OR_RM64_R64, B_OR, 8, True, src_reg),
     (handle_code_OR_RM64_IMM32, B_OR, 8, False, src_imm32s),
     (handle_code_OR_RM64_IMM8, B_OR, 8, False, src_imm8s),
     (handle_code_XOR_RM8_R8, B_XOR, 1, True, src_reg),
     (handle_code_XOR_RM8_IMM8, B_XOR, 1, False, src_imm8),
     (handle_code_XOR_RM8_IMM8_82, B_XOR, 1, False, src_imm8s),
     (handle_code_XOR_RM16_R16, B_XOR, 2, True, src_reg),
     (handle_code_XOR_RM16_IMM16, B_XOR, 2, False, src_imm16),
     (handle_code_XOR_RM16_IMM8, B_XOR, 2, False, src_imm8s),
     (handle_code_XOR_RM32_R32, B_XOR, 4, True, src_reg),
     (handle_code_XOR_RM32_IMM32, B_XOR, 4, False, src_imm32),
     (handle_code_XOR_RM32_IMM8, B_XOR, 4, False, src_imm8s),
     (handle_code_XOR_RM64_R64, B_XOR, 8, True, src_reg),
     (handle_code_XOR_RM64_IMM32, B_XOR, 8, False, src_imm32s),
     (handle_code_XOR_RM64_IMM8, B_XOR, 8, False, src_imm8s),
     (handle_code_CMP_RM8_R8, B_CMP, 1, True, src_reg),
     (handle_code_CMP_RM8_IMM8, B_CMP, 1, False, src_imm8),
     (handle_code_CMP_RM8_IMM8_82, B_CMP, 1, False, src_imm8s),
     (handle_code_CMP_RM16_R16, B_CMP, 2, True, src_reg),
     (handle_code_CMP_RM16_IMM16, B_CMP, 2, False, src_imm16),
     (handle_code_CMP_RM16_IMM8, B_CMP, 2, False, src_imm8s),
     (handle_code_CMP_RM32_R32, B_CMP, 4, True, src_reg),
     (handle_code_CMP_RM32_IMM32, B_CMP, 4, False, src_imm32),
     (handle_code_CMP_RM32_IMM8, B_CMP, 4, False, src_imm8s),
     (handle_code_CMP_RM64_R64, B_CMP, 8, True, src_reg),
     (handle_code_CMP_RM64_IMM32, B_CMP, 8, False, src_imm32s),
     (handle_code_CMP_RM64_IMM8, B_CMP, 8, False, src_imm8s),
     (handle_code_TEST_RM8_R8, B_TEST, 1, True, src_reg),
     (handle_code_TEST_RM16_R16, B_TEST, 2, True, src_reg),
     (handle_code_TEST_RM32_R32, B_TEST, 4, True, src_reg),
     (handle_code_TEST_RM64_R64, B_TEST, 8, True, src_reg),
     (handle_code_TEST_RM8_IMM8, B_TEST, 1, False, src_imm8),
     (handle_code_TEST_RM16_IMM16, B_TEST, 2, False, src_imm16),
     (handle_code_TEST_RM32_IMM32, B_TEST, 4, False, src_imm32),
     (handle_code_TEST_RM64_IMM32, B_TEST, 8, False, src_imm32s),
     (handle_code_TEST_RM8_IMM8_F6R1, B_TEST, 1, False, src_imm8),
     (handle_code_TEST_RM16_IMM16_F7R1, B_TEST, 2, False, src_imm16),
     (handle_code_TEST_RM32_IMM32_F7R1, B_TEST, 4, False, src_imm32),
     (handle_code_TEST_RM64_IMM32_F7R1, B_TEST, 8, False, src_imm32s)]"

lemmas catalog_memory_promises =
  op_add.memory_promises op_sub.memory_promises op_adc.memory_promises op_sbb.memory_promises
  op_and.memory_promises op_or.memory_promises op_xor.memory_promises
  op_cmp.cmp_memory_promises op_test.cmp_memory_promises

lemma alu_memory_catalog_promises: "list_all memory_promise alu_memory_catalog"
  unfolding alu_memory_catalog_def alu_handler_defs
  by (simp add: catalog_memory_promises imm_sources)

text \<open>C1: every register form of ADD, SUB, ADC, SBB, AND, OR, XOR, CMP and TEST computes, at the width its mnemonic
  names, the operation on the destination and the (zero- or sign-extended) source, writes it to the destination register only, and
  sets the six status flags to their arithmetic meaning; CMP and TEST leave the registers alone.\<close>

theorem alu_register_semantics:
  assumes "(h, b, w, from_reg, src) \<in> set alu_catalog" "register_form w from_reg r c"
  shows "\<exists>s'. h c = (no_stop, c\<lparr>state := s'\<rparr>) \<and>
    register_effect b w r (read_register (state c) r) (src c) (state c) s'"
  using alu_catalog_promises assms by (fastforce simp: list_all_iff register_promise_def)

text \<open>C2: every form with a memory destination stops with a page fault at the effective address, registers and flags
  untouched, when the operand cannot be read; otherwise it stores the result, or faults at that address when the
  destination is not writable.\<close>

theorem alu_memory_semantics:
  assumes "(h, b, w, from_reg, src) \<in> set alu_memory_catalog" "memory_form from_reg c"
  shows "case fst (ctx_read c (memory_address c) w) of
      None \<Rightarrow> fst (h c) = memory_fault c (memory_address c) \<and> state (snd (h c)) = state c
    | Some x \<Rightarrow> memory_effect b w (memory_address c) x (src c) c (h c)"
  using alu_memory_catalog_promises assms by (fastforce simp: list_all_iff memory_promise_def)

section \<open>Concrete instructions\<close>

definition null_instruction :: instruction where
  "null_instruction =
     \<lparr>code = ''INVALID'', op_kind = (\<lambda>_. REGISTER), op_register = (\<lambda>_. NONE), memory_base = NONE,
      memory_index = NONE, memory_index_scale = 1, memory_displacement64 = 0, segment_prefix = NONE,
      is_ip_rel_memory_operand = False, ip_rel_memory_address = 0, memory_size_bytes = 0,
      immediate8 = 0, immediate8_2nd = 0, immediate16 = 0, immediate32 = 0, immediate64 = 0, immediate8to16 = 0,
      immediate8to32 = 0, immediate8to64 = 0, immediate32to64 = 0, near_branch16 = 0, near_branch32 = 0,
      near_branch64 = 0, far_branch16 = 0, far_branch32 = 0, far_branch_selector = 0,
      has_rep_prefix = False, has_repne_prefix = False, is_broadcast = False, op_mask = NONE, zeroing_masking = False,
      instr_length = 1\<rparr>"

definition demo_ctx :: "instruction \<Rightarrow> unit ctx" where
  "demo_ctx i = \<lparr>state = initial_cpu_state, mem = demo_memory, instr = i, next_rip = 1,
     control_flow_taken = False, debug_hit_bits = 0, push_rf_for_debug = False\<rparr>"

text \<open>\<^verbatim>\<open>add rax, rcx\<close> and \<^verbatim>\<open>adc [0x1ffe], ecx\<close>.\<close>

definition add_rax_rcx :: instruction where
  "add_rax_rcx = null_instruction\<lparr>code := ''ADD_RM64_R64'', op_register := (\<lambda>k. if k = 0 then RAX else RCX)\<rparr>"

definition adc_mem_ecx :: instruction where
  "adc_mem_ecx = null_instruction\<lparr>code := ''ADC_RM32_R32'', op_kind := (\<lambda>k. if k = 0 then MEMORY else REGISTER),
     op_register := (\<lambda>_. ECX), memory_displacement64 := 0x1FFE\<rparr>"

theorem alu_register_semantics_witness:
  "\<exists>s'. handle_code_ADD_RM64_R64 (demo_ctx add_rax_rcx) = (no_stop, (demo_ctx add_rax_rcx)\<lparr>state := s'\<rparr>) \<and>
     register_effect B_ADD 8 RAX (read_register (state (demo_ctx add_rax_rcx)) RAX) (src_reg (demo_ctx add_rax_rcx))
       (state (demo_ctx add_rax_rcx)) s'"
proof (rule alu_register_semantics [where from_reg = True])
  show "(handle_code_ADD_RM64_R64, B_ADD, 8, True, src_reg) \<in> set alu_catalog" by (simp add: alu_catalog_def)
  show "register_form 8 True RAX (demo_ctx add_rax_rcx)"
    using initial_wf by (simp add: register_form_def demo_ctx_def add_rax_rcx_def null_instruction_def)
qed

theorem alu_memory_semantics_witness:
  "case fst (ctx_read (demo_ctx adc_mem_ecx) (memory_address (demo_ctx adc_mem_ecx)) 4) of
      None \<Rightarrow> fst (handle_code_ADC_RM32_R32 (demo_ctx adc_mem_ecx)) =
                memory_fault (demo_ctx adc_mem_ecx) (memory_address (demo_ctx adc_mem_ecx)) \<and>
              state (snd (handle_code_ADC_RM32_R32 (demo_ctx adc_mem_ecx))) = state (demo_ctx adc_mem_ecx)
    | Some x \<Rightarrow> memory_effect B_ADC 4 (memory_address (demo_ctx adc_mem_ecx)) x (src_reg (demo_ctx adc_mem_ecx))
                 (demo_ctx adc_mem_ecx) (handle_code_ADC_RM32_R32 (demo_ctx adc_mem_ecx))"
proof (rule alu_memory_semantics [where from_reg = True])
  show "(handle_code_ADC_RM32_R32, B_ADC, 4, True, src_reg) \<in> set alu_memory_catalog" by (simp add: alu_memory_catalog_def)
  show "memory_form True (demo_ctx adc_mem_ecx)"
    using demo_plain by (simp add: memory_form_def demo_ctx_def adc_mem_ecx_def null_instruction_def)
qed

end
