(* ===== verification/Control_Flow.thy ===== *)
theory Control_Flow
  imports Alu_Memory
begin

text \<open>
  Branches, calls, returns and the stack (\<^verbatim>\<open>seven_core/src/handlers/control_flow/\<close>):
  \<^verbatim>\<open>control_flow_internal.hpp\<close>, \<^verbatim>\<open>push.cpp\<close>, \<^verbatim>\<open>pop.cpp\<close>, \<^verbatim>\<open>call.cpp\<close>, \<^verbatim>\<open>ret.cpp\<close>, \<^verbatim>\<open>jmp.cpp\<close>, the sixteen
  \<^verbatim>\<open>j*.cpp\<close> files, \<^verbatim>\<open>loop.cpp\<close> and \<^verbatim>\<open>cmov_setcc.cpp\<close>. The tracing output of \<^verbatim>\<open>call_rm_width\<close> is left out.
  A width the source does not handle is an \<open>unsupported_instruction\<close> result, as there.
\<close>

section \<open>Stack primitives\<close>

fun promote_gpr32_to_64 :: "register \<Rightarrow> register" where
  "promote_gpr32_to_64 (D32 g) = Q64 g"
| "promote_gpr32_to_64 r = r"

text \<open>Sequencing of \<^verbatim>\<open>if (auto result = read(ctx, value); !result.ok()) return result;\<close>.\<close>

definition bind_value ::
  "(execution_result + 'v) \<times> 'w ctx \<Rightarrow> ('v \<Rightarrow> 'w handler) \<Rightarrow> execution_result \<times> 'w ctx" where
  "bind_value r k = (case r of (Inl res, c) \<Rightarrow> (res, c) | (Inr v, c) \<Rightarrow> k v c)"

definition read_near_target_width :: "'w ctx \<Rightarrow> nat \<Rightarrow> (execution_result + u64) \<times> 'w ctx" where
  "read_near_target_width c width =
     (if width = 8 \<and> mode (state c) = long64 \<and> op_kind (instr c) 0 = REGISTER
      then (Inr (read_register (state c) (promote_gpr32_to_64 (op_register (instr c) 0))), c)
      else read_operand_checked c 0 width)"

definition unsupported_instruction :: "'w ctx \<Rightarrow> execution_result" where
  "unsupported_instruction c =
     \<lparr>reason = SR_unsupported_instruction, retired = 0,
      exception_of = Some \<lparr>ei_reason = SR_unsupported_instruction, ei_address = rip (state c), ei_error_code = 0\<rparr>,
      result_code = Some (code (instr c))\<rparr>"

definition push_width :: "u64 \<Rightarrow> nat \<Rightarrow> 'w handler" where
  "push_width value width c =
     (let c1 = set_sp (sp_of c - word_of_nat width) c
      in if width = 1 \<or> width = 2 \<or> width = 4 \<or> width = 8
         then write_memory_checked c1 (sp_of c1) value width
         else (unsupported_instruction c1, c1))"

definition pop_width :: "nat \<Rightarrow> 'w ctx \<Rightarrow> (execution_result + u64) \<times> 'w ctx" where
  "pop_width width c =
     (if width = 1 \<or> width = 2 \<or> width = 4 \<or> width = 8
      then (case read_memory_checked c (sp_of c) width of
              (Inl r, c1) \<Rightarrow> (Inl r, c1)
            | (Inr v, c1) \<Rightarrow> (Inr v, set_sp (sp_of c1 + word_of_nat width) c1))
      else (Inl (unsupported_instruction c), c))"

definition push_operand_width :: "nat \<Rightarrow> 'w handler" where
  "push_operand_width width c =
     bind_value (read_operand_checked c 0 width) (\<lambda>value c1. push_width value width c1)"

definition push_imm_width :: "nat \<Rightarrow> nat \<Rightarrow> bool \<Rightarrow> 'w handler" where
  "push_imm_width imm_width stack_width sign_extend_imm c =
     bind_value (read_operand_checked c 0 imm_width) (\<lambda>value c1.
       push_width (if sign_extend_imm then sign_extend value imm_width else value) stack_width c1)"

definition note_ss_load :: "u64 \<Rightarrow> nat \<Rightarrow> 'w ctx \<Rightarrow> 'w ctx" where
  "note_ss_load old_sp width c =
     (if op_kind (instr c) 0 = REGISTER \<and> op_register (instr c) 0 = SS
      then let s1 = (state c)\<lparr>debug_suppression := 1\<rparr>;
               s2 = (if rflags s1 AND kFlagTF \<noteq> 0 then s1\<lparr>pending_single_step := True\<rparr> else s1)
           in c\<lparr>state := s2,
                debug_hit_bits := debug_hit_bits c OR
                  debug_data_breakpoint_hits s2 old_sp (word_of_nat width) True False\<rparr>
      else c)"

definition pop_operand_width :: "nat \<Rightarrow> 'w handler" where
  "pop_operand_width width c =
     (let old_sp = sp_of c
      in bind_value (pop_width width c) (\<lambda>value c1.
           and_then (write_operand_checked c1 0 value width) (\<lambda>c2. (no_stop, note_ss_load old_sp width c2))))"

definition push_segment :: "nat \<Rightarrow> nat \<Rightarrow> 'w handler" where
  "push_segment index stack_width c =
     (if index \<ge> length (sreg (state c)) then (unsupported_instruction c, c)
      else push_width (ucast (sreg (state c) ! index)) stack_width c)"

definition push_flags_width :: "nat \<Rightarrow> 'w handler" where
  "push_flags_width stack_width c = push_width (rflags (state c)) stack_width c"

fun push_values :: "u64 list \<Rightarrow> nat \<Rightarrow> 'w handler" where
  "push_values [] width c = (no_stop, c)"
| "push_values (v # vs) width c = and_then (push_width v width c) (push_values vs width)"

definition push_all_width :: "nat \<Rightarrow> 'w handler" where
  "push_all_width width c =
     (let original_sp = sp_of c; g = gpr (state c)
      in push_values [g ! 0, g ! 1, g ! 2, g ! 3, original_sp, g ! 5, g ! 6, g ! 7] width c)"

definition jump_to :: "u64 \<Rightarrow> 'w handler" where
  "jump_to target c = (no_stop, c\<lparr>state := (state c)\<lparr>rip := target\<rparr>, control_flow_taken := True\<rparr>)"

definition call_rm_width :: "nat \<Rightarrow> 'w handler" where
  "call_rm_width width c =
     bind_value (read_near_target_width c width) (\<lambda>target c1.
       and_then (push_width (next_rip c1) width c1) (jump_to target))"

definition ret_width :: "nat \<Rightarrow> u16 \<Rightarrow> 'w handler" where
  "ret_width width imm c =
     bind_value (pop_width width c) (\<lambda>target c1.
       let c2 = c1\<lparr>state := (state c1)\<lparr>rip := mask_instruction_pointer (state c1) target\<rparr>\<rparr>;
           c3 = set_sp (sp_of c2 + ucast imm) c2
       in (no_stop, c3\<lparr>control_flow_taken := True\<rparr>))"

section \<open>Far transfers\<close>

definition push_far_return :: "u16 \<Rightarrow> u64 \<Rightarrow> nat \<Rightarrow> 'w handler" where
  "push_far_return selector offset offset_width c =
     and_then (push_width offset offset_width c) (push_width (ucast selector) 2)"

definition read_far_mem :: "nat \<Rightarrow> 'w ctx \<Rightarrow> (execution_result + u64 \<times> u16) \<times> 'w ctx" where
  "read_far_mem offset_width c =
     (case read_operand_checked c 0 offset_width of
        (Inl r, c1) \<Rightarrow> (Inl r, c1)
      | (Inr offset, c1) \<Rightarrow>
          (case read_memory_checked c1 (memory_address c1 + word_of_nat offset_width) 2 of
             (Inl r, c2) \<Rightarrow> (Inl r, c2)
           | (Inr selector, c2) \<Rightarrow> (Inr (offset, ucast selector), c2)))"

definition far_jump :: "execution_mode \<Rightarrow> u16 \<Rightarrow> u64 \<Rightarrow> 'w handler" where
  "far_jump new_mode selector target c =
     (no_stop, c\<lparr>state := (state c)\<lparr>mode := new_mode, sreg := (sreg (state c))[1 := selector], rip := target\<rparr>,
                 control_flow_taken := True\<rparr>)"

text \<open>\<^verbatim>\<open>if (auto result = f(ctx); result.reason != StopReason::none) return result;\<close>\<close>

definition unless_stopped :: "execution_result \<times> 'w ctx \<Rightarrow> 'w handler \<Rightarrow> execution_result \<times> 'w ctx" where
  "unless_stopped r k = (case r of (res, c) \<Rightarrow> if reason res = SR_none then k c else (res, c))"

definition call_far_mem :: "nat \<Rightarrow> execution_mode \<Rightarrow> 'w handler" where
  "call_far_mem width new_mode c =
     bind_value (read_far_mem width c) (\<lambda>(target, selector) c1.
       unless_stopped (push_far_return selector (next_rip c1) width c1) (far_jump new_mode selector target))"

definition jmp_far_mem :: "nat \<Rightarrow> execution_mode \<Rightarrow> 'w handler" where
  "jmp_far_mem width new_mode c =
     bind_value (read_far_mem width c) (\<lambda>(target, selector). far_jump new_mode selector target)"

fun mode_for_far_width :: "nat \<Rightarrow> execution_mode" where
  "mode_for_far_width width = (if width = 2 then real16 else if width = 4 then compat32 else long64)"

definition retf_width :: "nat \<Rightarrow> u16 \<Rightarrow> 'w handler" where
  "retf_width offset_width imm c =
     bind_value (pop_width offset_width c) (\<lambda>target c1.
     bind_value (pop_width 2 c1) (\<lambda>selector c2.
       let s1 = (state c2)\<lparr>mode := mode_for_far_width offset_width, sreg := (sreg (state c2))[1 := ucast selector]\<rparr>;
           s2 = s1\<lparr>rip := mask_instruction_pointer s1 target\<rparr>;
           c3 = c2\<lparr>state := s2\<rparr>;
           c4 = set_sp (sp_of c3 + ucast imm) c3
       in (no_stop, c4\<lparr>control_flow_taken := True\<rparr>)))"

definition iret_width :: "nat \<Rightarrow> nat \<Rightarrow> 'w handler" where
  "iret_width offset_width flags_width c =
     bind_value (pop_width offset_width c) (\<lambda>target c1.
     bind_value (pop_width 2 c1) (\<lambda>selector c2.
     bind_value (pop_width flags_width c2) (\<lambda>flags c3.
       let s1 = (state c3)\<lparr>mode := mode_for_far_width offset_width, sreg := (sreg (state c3))[1 := ucast selector]\<rparr>;
           s2 = s1\<lparr>rip := mask_instruction_pointer s1 target\<rparr>;
           new_flags = (if flags_width = 8 then flags
                        else if flags_width = 4
                        then (rflags s2 AND NOT 0xFFFFFFFF) OR (flags AND 0xFFFFFFFF)
                        else (rflags s2 AND NOT 0xFFFF) OR (flags AND 0xFFFF))
       in (no_stop, c3\<lparr>state := s2\<lparr>rflags := new_flags\<rparr>, control_flow_taken := True\<rparr>))))"

section \<open>Conditions\<close>

datatype cond = Cond_o | Cond_no | Cond_b | Cond_ae | Cond_e | Cond_ne | Cond_be | Cond_a
  | Cond_s | Cond_ns | Cond_p | Cond_np | Cond_l | Cond_ge | Cond_le | Cond_g

definition eval_cond :: "cpu_state \<Rightarrow> cond \<Rightarrow> bool" where
  "eval_cond s c =
     (let cf = (rflags s AND kFlagCF \<noteq> 0); pf = (rflags s AND kFlagPF \<noteq> 0);
          zf = (rflags s AND kFlagZF \<noteq> 0); sf = (rflags s AND kFlagSF \<noteq> 0);
          ovf = (rflags s AND kFlagOF \<noteq> 0)
      in case c of
           Cond_o \<Rightarrow> ovf | Cond_no \<Rightarrow> \<not> ovf | Cond_b \<Rightarrow> cf | Cond_ae \<Rightarrow> \<not> cf | Cond_e \<Rightarrow> zf | Cond_ne \<Rightarrow> \<not> zf
         | Cond_be \<Rightarrow> cf \<or> zf | Cond_a \<Rightarrow> \<not> cf \<and> \<not> zf | Cond_s \<Rightarrow> sf | Cond_ns \<Rightarrow> \<not> sf
         | Cond_p \<Rightarrow> pf | Cond_np \<Rightarrow> \<not> pf | Cond_l \<Rightarrow> sf \<noteq> ovf | Cond_ge \<Rightarrow> sf = ovf
         | Cond_le \<Rightarrow> zf \<or> sf \<noteq> ovf | Cond_g \<Rightarrow> \<not> zf \<and> sf = ovf)"

definition branch_if :: "(cpu_state \<Rightarrow> bool) \<Rightarrow> 'w handler" where
  "branch_if test c = (if test (state c) then jump_to (near_branch64 (instr c)) c else (no_stop, c))"

definition cmov :: "nat \<Rightarrow> cond \<Rightarrow> 'w handler" where
  "cmov width cnd =
     with_operand 1 width (\<lambda>src c.
       let r = op_register (instr c) 0
       in if eval_cond (state c) cnd then (no_stop, upd_state (\<lambda>s. write_register s r src width) c)
          else if width = 4
          then (no_stop, upd_state (\<lambda>s. write_register s r (read_register s r AND 0xFFFFFFFF) 4) c)
          else (no_stop, c))"

definition setcc :: "cond \<Rightarrow> 'w handler" where
  "setcc cnd c =
     (let value = (if eval_cond (state c) cnd then 1 else 0)
      in case write_operand c 0 value 1 of
           (False, c1) \<Rightarrow> (memory_fault c1 (memory_address c1), c1)
         | (True, c1) \<Rightarrow> (no_stop, c1))"

section \<open>Counted loops\<close>

definition decrement_counter :: "register \<Rightarrow> nat \<Rightarrow> 'w ctx \<Rightarrow> bool \<times> 'w ctx" where
  "decrement_counter reg width c =
     (let m = mask_for_width width;
          value = read_register (state c) reg AND m;
          next_value = (value - 1) AND m
      in (next_value \<noteq> 0, upd_state (\<lambda>s. write_register s reg next_value width) c))"

definition loop_common :: "register \<Rightarrow> nat \<Rightarrow> bool \<Rightarrow> bool \<Rightarrow> 'w handler" where
  "loop_common reg width require_zf require_nzf c =
     (case decrement_counter reg width c of (non_zero, c1) \<Rightarrow>
        let zf = (rflags (state c1) AND kFlagZF \<noteq> 0)
        in if \<not> non_zero then (no_stop, c1)
           else if require_zf \<and> \<not> zf then (no_stop, c1)
           else if require_nzf \<and> zf then (no_stop, c1)
           else jump_to (near_branch64 (instr c1)) c1)"

definition jcxz_common :: "register \<Rightarrow> nat \<Rightarrow> 'w handler" where
  "jcxz_common reg width c =
     (if read_register (state c) reg AND mask_for_width width = 0
      then jump_to (near_branch64 (instr c)) c else (no_stop, c))"

section \<open>Handlers\<close>

subsection \<open>\<^verbatim>\<open>push.cpp\<close>\<close>

definition handle_code_PUSH_R64 :: "'w handler" where
  "handle_code_PUSH_R64 = push_operand_width 8"

definition handle_code_PUSH_RM64 :: "'w handler" where
  "handle_code_PUSH_RM64 = push_operand_width 8"

definition handle_code_PUSH_IMM8 :: "'w handler" where
  "handle_code_PUSH_IMM8 = push_imm_width 1 8 True"

definition handle_code_PUSH_IMM32 :: "'w handler" where
  "handle_code_PUSH_IMM32 = push_imm_width 4 8 True"

definition handle_code_PUSHQ_IMM8 :: "'w handler" where
  "handle_code_PUSHQ_IMM8 = push_imm_width 1 8 True"

definition handle_code_PUSHQ_IMM32 :: "'w handler" where
  "handle_code_PUSHQ_IMM32 = push_imm_width 4 8 True"

definition handle_code_PUSH_R16 :: "'w handler" where
  "handle_code_PUSH_R16 = push_operand_width 2"

definition handle_code_PUSH_R32 :: "'w handler" where
  "handle_code_PUSH_R32 = push_operand_width 4"

definition handle_code_PUSH_RM16 :: "'w handler" where
  "handle_code_PUSH_RM16 = push_operand_width 2"

definition handle_code_PUSH_RM32 :: "'w handler" where
  "handle_code_PUSH_RM32 = push_operand_width 4"

definition handle_code_PUSH_IMM16 :: "'w handler" where
  "handle_code_PUSH_IMM16 = push_imm_width 2 2 False"

definition handle_code_PUSHW_IMM8 :: "'w handler" where
  "handle_code_PUSHW_IMM8 = push_imm_width 1 2 True"

definition handle_code_PUSHD_IMM8 :: "'w handler" where
  "handle_code_PUSHD_IMM8 = push_imm_width 1 4 True"

definition handle_code_PUSHD_IMM32 :: "'w handler" where
  "handle_code_PUSHD_IMM32 = push_imm_width 4 4 True"

definition handle_code_PUSHW_ES :: "'w handler" where
  "handle_code_PUSHW_ES = push_segment 0 2"

definition handle_code_PUSHW_CS :: "'w handler" where
  "handle_code_PUSHW_CS = push_segment 1 2"

definition handle_code_PUSHW_SS :: "'w handler" where
  "handle_code_PUSHW_SS = push_segment 2 2"

definition handle_code_PUSHW_DS :: "'w handler" where
  "handle_code_PUSHW_DS = push_segment 3 2"

definition handle_code_PUSHW_FS :: "'w handler" where
  "handle_code_PUSHW_FS = push_segment 4 2"

definition handle_code_PUSHW_GS :: "'w handler" where
  "handle_code_PUSHW_GS = push_segment 5 2"

definition handle_code_PUSHD_ES :: "'w handler" where
  "handle_code_PUSHD_ES = push_segment 0 4"

definition handle_code_PUSHD_CS :: "'w handler" where
  "handle_code_PUSHD_CS = push_segment 1 4"

definition handle_code_PUSHD_SS :: "'w handler" where
  "handle_code_PUSHD_SS = push_segment 2 4"

definition handle_code_PUSHD_DS :: "'w handler" where
  "handle_code_PUSHD_DS = push_segment 3 4"

definition handle_code_PUSHD_FS :: "'w handler" where
  "handle_code_PUSHD_FS = push_segment 4 4"

definition handle_code_PUSHD_GS :: "'w handler" where
  "handle_code_PUSHD_GS = push_segment 5 4"

definition handle_code_PUSHQ_FS :: "'w handler" where
  "handle_code_PUSHQ_FS = push_segment 4 8"

definition handle_code_PUSHQ_GS :: "'w handler" where
  "handle_code_PUSHQ_GS = push_segment 5 8"

definition handle_code_PUSHFW :: "'w handler" where
  "handle_code_PUSHFW = push_flags_width 2"

definition handle_code_PUSHFD :: "'w handler" where
  "handle_code_PUSHFD = push_flags_width 4"

definition handle_code_PUSHAW :: "'w handler" where
  "handle_code_PUSHAW = push_all_width 2"

definition handle_code_PUSHAD :: "'w handler" where
  "handle_code_PUSHAD = push_all_width 4"

subsection \<open>\<^verbatim>\<open>pop.cpp\<close>\<close>

definition handle_code_POP_R16 :: "'w handler" where
  "handle_code_POP_R16 = pop_operand_width 2"

definition handle_code_POP_R32 :: "'w handler" where
  "handle_code_POP_R32 = pop_operand_width 4"

definition handle_code_POP_RM16 :: "'w handler" where
  "handle_code_POP_RM16 = pop_operand_width 2"

definition handle_code_POP_RM32 :: "'w handler" where
  "handle_code_POP_RM32 = pop_operand_width 4"

definition handle_code_POPW_SS :: "'w handler" where
  "handle_code_POPW_SS = pop_operand_width 2"

definition handle_code_POP_R64 :: "'w handler" where
  "handle_code_POP_R64 = pop_operand_width 8"

definition handle_code_POP_RM64 :: "'w handler" where
  "handle_code_POP_RM64 = pop_operand_width 8"

definition handle_code_POPD_SS :: "'w handler" where
  "handle_code_POPD_SS = pop_operand_width 4"

subsection \<open>\<^verbatim>\<open>call.cpp\<close>\<close>

definition handle_code_CALL_RM64 :: "'w handler" where
  "handle_code_CALL_RM64 = call_rm_width 8"

definition handle_code_CALL_REL32_64 :: "'w handler" where
  "handle_code_CALL_REL32_64 c = and_then (push_width (next_rip c) 8 c) (jump_to (near_branch64 (instr c)))"

definition handle_code_CALL_RM16 :: "'w handler" where
  "handle_code_CALL_RM16 = call_rm_width 2"

definition handle_code_CALL_RM32 :: "'w handler" where
  "handle_code_CALL_RM32 c = (if mode (state c) = long64 then call_rm_width 8 c else call_rm_width 4 c)"

definition handle_code_CALL_REL16 :: "'w handler" where
  "handle_code_CALL_REL16 c = and_then (push_width (next_rip c) 2 c) (jump_to (near_branch64 (instr c)))"

definition handle_code_CALL_REL32_32 :: "'w handler" where
  "handle_code_CALL_REL32_32 c = and_then (push_width (next_rip c) 4 c) (jump_to (near_branch64 (instr c)))"

definition handle_code_CALL_M1616 :: "'w handler" where
  "handle_code_CALL_M1616 = call_far_mem 2 real16"

definition handle_code_CALL_M1632 :: "'w handler" where
  "handle_code_CALL_M1632 = call_far_mem 4 compat32"

definition handle_code_CALL_M1664 :: "'w handler" where
  "handle_code_CALL_M1664 = call_far_mem 8 long64"

definition handle_code_CALL_PTR1616 :: "'w handler" where
  "handle_code_CALL_PTR1616 c = unless_stopped (push_far_return (far_branch_selector (instr c)) (next_rip c) 2 c)
       (far_jump real16 (far_branch_selector (instr c)) (ucast (far_branch16 (instr c))))"

definition handle_code_CALL_PTR1632 :: "'w handler" where
  "handle_code_CALL_PTR1632 c = unless_stopped (push_far_return (far_branch_selector (instr c)) (next_rip c) 4 c)
       (far_jump compat32 (far_branch_selector (instr c)) (ucast (far_branch32 (instr c))))"

subsection \<open>\<^verbatim>\<open>ret.cpp\<close>\<close>

definition handle_code_RETNQ :: "'w handler" where
  "handle_code_RETNQ = ret_width 8 0"

definition handle_code_RETNQ_IMM16 :: "'w handler" where
  "handle_code_RETNQ_IMM16 c = ret_width 8 (immediate16 (instr c)) c"

definition handle_code_RETNW :: "'w handler" where
  "handle_code_RETNW = ret_width 2 0"

definition handle_code_RETNW_IMM16 :: "'w handler" where
  "handle_code_RETNW_IMM16 c = ret_width 2 (immediate16 (instr c)) c"

definition handle_code_RETND :: "'w handler" where
  "handle_code_RETND = ret_width 4 0"

definition handle_code_RETND_IMM16 :: "'w handler" where
  "handle_code_RETND_IMM16 c = ret_width 4 (immediate16 (instr c)) c"

definition handle_code_RETFW :: "'w handler" where
  "handle_code_RETFW = retf_width 2 0"

definition handle_code_RETFD :: "'w handler" where
  "handle_code_RETFD = retf_width 4 0"

definition handle_code_RETFQ :: "'w handler" where
  "handle_code_RETFQ = retf_width 8 0"

definition handle_code_RETFW_IMM16 :: "'w handler" where
  "handle_code_RETFW_IMM16 c = retf_width 2 (immediate16 (instr c)) c"

definition handle_code_RETFD_IMM16 :: "'w handler" where
  "handle_code_RETFD_IMM16 c = retf_width 4 (immediate16 (instr c)) c"

definition handle_code_RETFQ_IMM16 :: "'w handler" where
  "handle_code_RETFQ_IMM16 c = retf_width 8 (immediate16 (instr c)) c"

definition handle_code_IRETW :: "'w handler" where
  "handle_code_IRETW = iret_width 2 2"

definition handle_code_IRETD :: "'w handler" where
  "handle_code_IRETD = iret_width 4 4"

definition handle_code_IRETQ :: "'w handler" where
  "handle_code_IRETQ = iret_width 8 8"

subsection \<open>\<^verbatim>\<open>jmp.cpp\<close>\<close>

definition handle_code_JMP_RM64 :: "'w handler" where
  "handle_code_JMP_RM64 c = bind_value (read_near_target_width c 8) jump_to"

definition handle_code_JMP_RM16 :: "'w handler" where
  "handle_code_JMP_RM16 c = bind_value (read_operand_checked c 0 2) jump_to"

definition handle_code_JMP_RM32 :: "'w handler" where
  "handle_code_JMP_RM32 c = bind_value (read_near_target_width c (if mode (state c) = long64 then 8 else 4)) jump_to"

definition handle_code_JMP_REL8_64 :: "'w handler" where
  "handle_code_JMP_REL8_64 c = jump_to (near_branch64 (instr c)) c"

definition handle_code_JMP_REL32_64 :: "'w handler" where
  "handle_code_JMP_REL32_64 c = jump_to (near_branch64 (instr c)) c"

definition handle_code_JMP_REL8_16 :: "'w handler" where
  "handle_code_JMP_REL8_16 c = jump_to (near_branch64 (instr c)) c"

definition handle_code_JMP_REL8_32 :: "'w handler" where
  "handle_code_JMP_REL8_32 c = jump_to (near_branch64 (instr c)) c"

definition handle_code_JMP_REL16 :: "'w handler" where
  "handle_code_JMP_REL16 c = jump_to (near_branch64 (instr c)) c"

definition handle_code_JMP_REL32_32 :: "'w handler" where
  "handle_code_JMP_REL32_32 c = jump_to (near_branch64 (instr c)) c"

definition handle_code_JMP_M1616 :: "'w handler" where
  "handle_code_JMP_M1616 = jmp_far_mem 2 real16"

definition handle_code_JMP_M1632 :: "'w handler" where
  "handle_code_JMP_M1632 = jmp_far_mem 4 compat32"

definition handle_code_JMP_M1664 :: "'w handler" where
  "handle_code_JMP_M1664 = jmp_far_mem 8 long64"

definition handle_code_JMP_PTR1616 :: "'w handler" where
  "handle_code_JMP_PTR1616 c = far_jump real16 (far_branch_selector (instr c)) (ucast (far_branch16 (instr c))) c"

definition handle_code_JMP_PTR1632 :: "'w handler" where
  "handle_code_JMP_PTR1632 c = far_jump compat32 (far_branch_selector (instr c)) (ucast (far_branch32 (instr c))) c"

subsection \<open>\<^verbatim>\<open>ja.cpp\<close>\<close>

definition handle_code_JA_REL8_64 :: "'w handler" where
  "handle_code_JA_REL8_64 = branch_if (\<lambda>s. (rflags s AND kFlagCF = 0) \<and> (rflags s AND kFlagZF = 0))"

definition handle_code_JA_REL32_64 :: "'w handler" where
  "handle_code_JA_REL32_64 = branch_if (\<lambda>s. (rflags s AND kFlagCF = 0) \<and> (rflags s AND kFlagZF = 0))"

definition handle_code_JA_REL8_16 :: "'w handler" where
  "handle_code_JA_REL8_16 = branch_if (\<lambda>s. (rflags s AND kFlagCF = 0) \<and> (rflags s AND kFlagZF = 0))"

definition handle_code_JA_REL8_32 :: "'w handler" where
  "handle_code_JA_REL8_32 = branch_if (\<lambda>s. (rflags s AND kFlagCF = 0) \<and> (rflags s AND kFlagZF = 0))"

definition handle_code_JA_REL16 :: "'w handler" where
  "handle_code_JA_REL16 = branch_if (\<lambda>s. (rflags s AND kFlagCF = 0) \<and> (rflags s AND kFlagZF = 0))"

definition handle_code_JA_REL32_32 :: "'w handler" where
  "handle_code_JA_REL32_32 = branch_if (\<lambda>s. (rflags s AND kFlagCF = 0) \<and> (rflags s AND kFlagZF = 0))"

subsection \<open>\<^verbatim>\<open>jae.cpp\<close>\<close>

definition handle_code_JAE_REL8_64 :: "'w handler" where
  "handle_code_JAE_REL8_64 = branch_if (\<lambda>s. rflags s AND kFlagCF = 0)"

definition handle_code_JAE_REL32_64 :: "'w handler" where
  "handle_code_JAE_REL32_64 = branch_if (\<lambda>s. rflags s AND kFlagCF = 0)"

definition handle_code_JAE_REL8_16 :: "'w handler" where
  "handle_code_JAE_REL8_16 = branch_if (\<lambda>s. rflags s AND kFlagCF = 0)"

definition handle_code_JAE_REL8_32 :: "'w handler" where
  "handle_code_JAE_REL8_32 = branch_if (\<lambda>s. rflags s AND kFlagCF = 0)"

definition handle_code_JAE_REL16 :: "'w handler" where
  "handle_code_JAE_REL16 = branch_if (\<lambda>s. rflags s AND kFlagCF = 0)"

definition handle_code_JAE_REL32_32 :: "'w handler" where
  "handle_code_JAE_REL32_32 = branch_if (\<lambda>s. rflags s AND kFlagCF = 0)"

subsection \<open>\<^verbatim>\<open>jb.cpp\<close>\<close>

definition handle_code_JB_REL8_64 :: "'w handler" where
  "handle_code_JB_REL8_64 = branch_if (\<lambda>s. rflags s AND kFlagCF \<noteq> 0)"

definition handle_code_JB_REL32_64 :: "'w handler" where
  "handle_code_JB_REL32_64 = branch_if (\<lambda>s. rflags s AND kFlagCF \<noteq> 0)"

definition handle_code_JB_REL8_16 :: "'w handler" where
  "handle_code_JB_REL8_16 = branch_if (\<lambda>s. rflags s AND kFlagCF \<noteq> 0)"

definition handle_code_JB_REL8_32 :: "'w handler" where
  "handle_code_JB_REL8_32 = branch_if (\<lambda>s. rflags s AND kFlagCF \<noteq> 0)"

definition handle_code_JB_REL16 :: "'w handler" where
  "handle_code_JB_REL16 = branch_if (\<lambda>s. rflags s AND kFlagCF \<noteq> 0)"

definition handle_code_JB_REL32_32 :: "'w handler" where
  "handle_code_JB_REL32_32 = branch_if (\<lambda>s. rflags s AND kFlagCF \<noteq> 0)"

subsection \<open>\<^verbatim>\<open>jbe.cpp\<close>\<close>

definition handle_code_JBE_REL8_64 :: "'w handler" where
  "handle_code_JBE_REL8_64 = branch_if (\<lambda>s. (rflags s AND kFlagCF \<noteq> 0) \<or> (rflags s AND kFlagZF \<noteq> 0))"

definition handle_code_JBE_REL32_64 :: "'w handler" where
  "handle_code_JBE_REL32_64 = branch_if (\<lambda>s. (rflags s AND kFlagCF \<noteq> 0) \<or> (rflags s AND kFlagZF \<noteq> 0))"

definition handle_code_JBE_REL8_16 :: "'w handler" where
  "handle_code_JBE_REL8_16 = branch_if (\<lambda>s. (rflags s AND kFlagCF \<noteq> 0) \<or> (rflags s AND kFlagZF \<noteq> 0))"

definition handle_code_JBE_REL8_32 :: "'w handler" where
  "handle_code_JBE_REL8_32 = branch_if (\<lambda>s. (rflags s AND kFlagCF \<noteq> 0) \<or> (rflags s AND kFlagZF \<noteq> 0))"

definition handle_code_JBE_REL16 :: "'w handler" where
  "handle_code_JBE_REL16 = branch_if (\<lambda>s. (rflags s AND kFlagCF \<noteq> 0) \<or> (rflags s AND kFlagZF \<noteq> 0))"

definition handle_code_JBE_REL32_32 :: "'w handler" where
  "handle_code_JBE_REL32_32 = branch_if (\<lambda>s. (rflags s AND kFlagCF \<noteq> 0) \<or> (rflags s AND kFlagZF \<noteq> 0))"

subsection \<open>\<^verbatim>\<open>je.cpp\<close>\<close>

definition handle_code_JE_REL8_64 :: "'w handler" where
  "handle_code_JE_REL8_64 = branch_if (\<lambda>s. rflags s AND kFlagZF \<noteq> 0)"

definition handle_code_JE_REL32_64 :: "'w handler" where
  "handle_code_JE_REL32_64 = branch_if (\<lambda>s. rflags s AND kFlagZF \<noteq> 0)"

definition handle_code_JE_REL8_16 :: "'w handler" where
  "handle_code_JE_REL8_16 = branch_if (\<lambda>s. rflags s AND kFlagZF \<noteq> 0)"

definition handle_code_JE_REL8_32 :: "'w handler" where
  "handle_code_JE_REL8_32 = branch_if (\<lambda>s. rflags s AND kFlagZF \<noteq> 0)"

definition handle_code_JE_REL16 :: "'w handler" where
  "handle_code_JE_REL16 = branch_if (\<lambda>s. rflags s AND kFlagZF \<noteq> 0)"

definition handle_code_JE_REL32_32 :: "'w handler" where
  "handle_code_JE_REL32_32 = branch_if (\<lambda>s. rflags s AND kFlagZF \<noteq> 0)"

subsection \<open>\<^verbatim>\<open>jg.cpp\<close>\<close>

definition handle_code_JG_REL8_64 :: "'w handler" where
  "handle_code_JG_REL8_64 = branch_if (\<lambda>s. ((rflags s AND kFlagZF = 0) \<and> ((rflags s AND kFlagSF \<noteq> 0) = (rflags s AND kFlagOF \<noteq> 0))))"

definition handle_code_JG_REL32_64 :: "'w handler" where
  "handle_code_JG_REL32_64 = branch_if (\<lambda>s. ((rflags s AND kFlagZF = 0) \<and> ((rflags s AND kFlagSF \<noteq> 0) = (rflags s AND kFlagOF \<noteq> 0))))"

definition handle_code_JG_REL8_16 :: "'w handler" where
  "handle_code_JG_REL8_16 = branch_if (\<lambda>s. ((rflags s AND kFlagZF = 0) \<and> ((rflags s AND kFlagSF \<noteq> 0) = (rflags s AND kFlagOF \<noteq> 0))))"

definition handle_code_JG_REL8_32 :: "'w handler" where
  "handle_code_JG_REL8_32 = branch_if (\<lambda>s. ((rflags s AND kFlagZF = 0) \<and> ((rflags s AND kFlagSF \<noteq> 0) = (rflags s AND kFlagOF \<noteq> 0))))"

definition handle_code_JG_REL16 :: "'w handler" where
  "handle_code_JG_REL16 = branch_if (\<lambda>s. ((rflags s AND kFlagZF = 0) \<and> ((rflags s AND kFlagSF \<noteq> 0) = (rflags s AND kFlagOF \<noteq> 0))))"

definition handle_code_JG_REL32_32 :: "'w handler" where
  "handle_code_JG_REL32_32 = branch_if (\<lambda>s. ((rflags s AND kFlagZF = 0) \<and> ((rflags s AND kFlagSF \<noteq> 0) = (rflags s AND kFlagOF \<noteq> 0))))"

subsection \<open>\<^verbatim>\<open>jge.cpp\<close>\<close>

definition handle_code_JGE_REL8_64 :: "'w handler" where
  "handle_code_JGE_REL8_64 = branch_if (\<lambda>s. (rflags s AND kFlagSF \<noteq> 0) = (rflags s AND kFlagOF \<noteq> 0))"

definition handle_code_JGE_REL32_64 :: "'w handler" where
  "handle_code_JGE_REL32_64 = branch_if (\<lambda>s. (rflags s AND kFlagSF \<noteq> 0) = (rflags s AND kFlagOF \<noteq> 0))"

definition handle_code_JGE_REL8_16 :: "'w handler" where
  "handle_code_JGE_REL8_16 = branch_if (\<lambda>s. (rflags s AND kFlagSF \<noteq> 0) = (rflags s AND kFlagOF \<noteq> 0))"

definition handle_code_JGE_REL8_32 :: "'w handler" where
  "handle_code_JGE_REL8_32 = branch_if (\<lambda>s. (rflags s AND kFlagSF \<noteq> 0) = (rflags s AND kFlagOF \<noteq> 0))"

definition handle_code_JGE_REL16 :: "'w handler" where
  "handle_code_JGE_REL16 = branch_if (\<lambda>s. (rflags s AND kFlagSF \<noteq> 0) = (rflags s AND kFlagOF \<noteq> 0))"

definition handle_code_JGE_REL32_32 :: "'w handler" where
  "handle_code_JGE_REL32_32 = branch_if (\<lambda>s. (rflags s AND kFlagSF \<noteq> 0) = (rflags s AND kFlagOF \<noteq> 0))"

subsection \<open>\<^verbatim>\<open>jl.cpp\<close>\<close>

definition handle_code_JL_REL8_64 :: "'w handler" where
  "handle_code_JL_REL8_64 = branch_if (\<lambda>s. (rflags s AND kFlagSF \<noteq> 0) \<noteq> (rflags s AND kFlagOF \<noteq> 0))"

definition handle_code_JL_REL32_64 :: "'w handler" where
  "handle_code_JL_REL32_64 = branch_if (\<lambda>s. (rflags s AND kFlagSF \<noteq> 0) \<noteq> (rflags s AND kFlagOF \<noteq> 0))"

definition handle_code_JL_REL8_16 :: "'w handler" where
  "handle_code_JL_REL8_16 = branch_if (\<lambda>s. (rflags s AND kFlagSF \<noteq> 0) \<noteq> (rflags s AND kFlagOF \<noteq> 0))"

definition handle_code_JL_REL8_32 :: "'w handler" where
  "handle_code_JL_REL8_32 = branch_if (\<lambda>s. (rflags s AND kFlagSF \<noteq> 0) \<noteq> (rflags s AND kFlagOF \<noteq> 0))"

definition handle_code_JL_REL16 :: "'w handler" where
  "handle_code_JL_REL16 = branch_if (\<lambda>s. (rflags s AND kFlagSF \<noteq> 0) \<noteq> (rflags s AND kFlagOF \<noteq> 0))"

definition handle_code_JL_REL32_32 :: "'w handler" where
  "handle_code_JL_REL32_32 = branch_if (\<lambda>s. (rflags s AND kFlagSF \<noteq> 0) \<noteq> (rflags s AND kFlagOF \<noteq> 0))"

subsection \<open>\<^verbatim>\<open>jle.cpp\<close>\<close>

definition handle_code_JLE_REL8_64 :: "'w handler" where
  "handle_code_JLE_REL8_64 = branch_if (\<lambda>s. ((rflags s AND kFlagZF \<noteq> 0) \<or> ((rflags s AND kFlagSF \<noteq> 0) \<noteq> (rflags s AND kFlagOF \<noteq> 0))))"

definition handle_code_JLE_REL32_64 :: "'w handler" where
  "handle_code_JLE_REL32_64 = branch_if (\<lambda>s. ((rflags s AND kFlagZF \<noteq> 0) \<or> ((rflags s AND kFlagSF \<noteq> 0) \<noteq> (rflags s AND kFlagOF \<noteq> 0))))"

definition handle_code_JLE_REL8_16 :: "'w handler" where
  "handle_code_JLE_REL8_16 = branch_if (\<lambda>s. ((rflags s AND kFlagZF \<noteq> 0) \<or> ((rflags s AND kFlagSF \<noteq> 0) \<noteq> (rflags s AND kFlagOF \<noteq> 0))))"

definition handle_code_JLE_REL8_32 :: "'w handler" where
  "handle_code_JLE_REL8_32 = branch_if (\<lambda>s. ((rflags s AND kFlagZF \<noteq> 0) \<or> ((rflags s AND kFlagSF \<noteq> 0) \<noteq> (rflags s AND kFlagOF \<noteq> 0))))"

definition handle_code_JLE_REL16 :: "'w handler" where
  "handle_code_JLE_REL16 = branch_if (\<lambda>s. ((rflags s AND kFlagZF \<noteq> 0) \<or> ((rflags s AND kFlagSF \<noteq> 0) \<noteq> (rflags s AND kFlagOF \<noteq> 0))))"

definition handle_code_JLE_REL32_32 :: "'w handler" where
  "handle_code_JLE_REL32_32 = branch_if (\<lambda>s. ((rflags s AND kFlagZF \<noteq> 0) \<or> ((rflags s AND kFlagSF \<noteq> 0) \<noteq> (rflags s AND kFlagOF \<noteq> 0))))"

subsection \<open>\<^verbatim>\<open>jne.cpp\<close>\<close>

definition handle_code_JNE_REL8_64 :: "'w handler" where
  "handle_code_JNE_REL8_64 = branch_if (\<lambda>s. rflags s AND kFlagZF = 0)"

definition handle_code_JNE_REL32_64 :: "'w handler" where
  "handle_code_JNE_REL32_64 = branch_if (\<lambda>s. rflags s AND kFlagZF = 0)"

definition handle_code_JNE_REL8_16 :: "'w handler" where
  "handle_code_JNE_REL8_16 = branch_if (\<lambda>s. rflags s AND kFlagZF = 0)"

definition handle_code_JNE_REL8_32 :: "'w handler" where
  "handle_code_JNE_REL8_32 = branch_if (\<lambda>s. rflags s AND kFlagZF = 0)"

definition handle_code_JNE_REL16 :: "'w handler" where
  "handle_code_JNE_REL16 = branch_if (\<lambda>s. rflags s AND kFlagZF = 0)"

definition handle_code_JNE_REL32_32 :: "'w handler" where
  "handle_code_JNE_REL32_32 = branch_if (\<lambda>s. rflags s AND kFlagZF = 0)"

subsection \<open>\<^verbatim>\<open>jno.cpp\<close>\<close>

definition handle_code_JNO_REL8_64 :: "'w handler" where
  "handle_code_JNO_REL8_64 = branch_if (\<lambda>s. rflags s AND kFlagOF = 0)"

definition handle_code_JNO_REL32_64 :: "'w handler" where
  "handle_code_JNO_REL32_64 = branch_if (\<lambda>s. rflags s AND kFlagOF = 0)"

definition handle_code_JNO_REL8_16 :: "'w handler" where
  "handle_code_JNO_REL8_16 = branch_if (\<lambda>s. rflags s AND kFlagOF = 0)"

definition handle_code_JNO_REL8_32 :: "'w handler" where
  "handle_code_JNO_REL8_32 = branch_if (\<lambda>s. rflags s AND kFlagOF = 0)"

definition handle_code_JNO_REL16 :: "'w handler" where
  "handle_code_JNO_REL16 = branch_if (\<lambda>s. rflags s AND kFlagOF = 0)"

definition handle_code_JNO_REL32_32 :: "'w handler" where
  "handle_code_JNO_REL32_32 = branch_if (\<lambda>s. rflags s AND kFlagOF = 0)"

subsection \<open>\<^verbatim>\<open>jnp.cpp\<close>\<close>

definition handle_code_JNP_REL8_64 :: "'w handler" where
  "handle_code_JNP_REL8_64 = branch_if (\<lambda>s. rflags s AND kFlagPF = 0)"

definition handle_code_JNP_REL32_64 :: "'w handler" where
  "handle_code_JNP_REL32_64 = branch_if (\<lambda>s. rflags s AND kFlagPF = 0)"

definition handle_code_JNP_REL8_16 :: "'w handler" where
  "handle_code_JNP_REL8_16 = branch_if (\<lambda>s. rflags s AND kFlagPF = 0)"

definition handle_code_JNP_REL8_32 :: "'w handler" where
  "handle_code_JNP_REL8_32 = branch_if (\<lambda>s. rflags s AND kFlagPF = 0)"

definition handle_code_JNP_REL16 :: "'w handler" where
  "handle_code_JNP_REL16 = branch_if (\<lambda>s. rflags s AND kFlagPF = 0)"

definition handle_code_JNP_REL32_32 :: "'w handler" where
  "handle_code_JNP_REL32_32 = branch_if (\<lambda>s. rflags s AND kFlagPF = 0)"

subsection \<open>\<^verbatim>\<open>jns.cpp\<close>\<close>

definition handle_code_JNS_REL8_64 :: "'w handler" where
  "handle_code_JNS_REL8_64 = branch_if (\<lambda>s. rflags s AND kFlagSF = 0)"

definition handle_code_JNS_REL32_64 :: "'w handler" where
  "handle_code_JNS_REL32_64 = branch_if (\<lambda>s. rflags s AND kFlagSF = 0)"

definition handle_code_JNS_REL8_16 :: "'w handler" where
  "handle_code_JNS_REL8_16 = branch_if (\<lambda>s. rflags s AND kFlagSF = 0)"

definition handle_code_JNS_REL8_32 :: "'w handler" where
  "handle_code_JNS_REL8_32 = branch_if (\<lambda>s. rflags s AND kFlagSF = 0)"

definition handle_code_JNS_REL16 :: "'w handler" where
  "handle_code_JNS_REL16 = branch_if (\<lambda>s. rflags s AND kFlagSF = 0)"

definition handle_code_JNS_REL32_32 :: "'w handler" where
  "handle_code_JNS_REL32_32 = branch_if (\<lambda>s. rflags s AND kFlagSF = 0)"

subsection \<open>\<^verbatim>\<open>jo.cpp\<close>\<close>

definition handle_code_JO_REL8_64 :: "'w handler" where
  "handle_code_JO_REL8_64 = branch_if (\<lambda>s. rflags s AND kFlagOF \<noteq> 0)"

definition handle_code_JO_REL32_64 :: "'w handler" where
  "handle_code_JO_REL32_64 = branch_if (\<lambda>s. rflags s AND kFlagOF \<noteq> 0)"

definition handle_code_JO_REL8_16 :: "'w handler" where
  "handle_code_JO_REL8_16 = branch_if (\<lambda>s. rflags s AND kFlagOF \<noteq> 0)"

definition handle_code_JO_REL8_32 :: "'w handler" where
  "handle_code_JO_REL8_32 = branch_if (\<lambda>s. rflags s AND kFlagOF \<noteq> 0)"

definition handle_code_JO_REL16 :: "'w handler" where
  "handle_code_JO_REL16 = branch_if (\<lambda>s. rflags s AND kFlagOF \<noteq> 0)"

definition handle_code_JO_REL32_32 :: "'w handler" where
  "handle_code_JO_REL32_32 = branch_if (\<lambda>s. rflags s AND kFlagOF \<noteq> 0)"

subsection \<open>\<^verbatim>\<open>jp.cpp\<close>\<close>

definition handle_code_JP_REL8_64 :: "'w handler" where
  "handle_code_JP_REL8_64 = branch_if (\<lambda>s. rflags s AND kFlagPF \<noteq> 0)"

definition handle_code_JP_REL32_64 :: "'w handler" where
  "handle_code_JP_REL32_64 = branch_if (\<lambda>s. rflags s AND kFlagPF \<noteq> 0)"

definition handle_code_JP_REL8_16 :: "'w handler" where
  "handle_code_JP_REL8_16 = branch_if (\<lambda>s. rflags s AND kFlagPF \<noteq> 0)"

definition handle_code_JP_REL8_32 :: "'w handler" where
  "handle_code_JP_REL8_32 = branch_if (\<lambda>s. rflags s AND kFlagPF \<noteq> 0)"

definition handle_code_JP_REL16 :: "'w handler" where
  "handle_code_JP_REL16 = branch_if (\<lambda>s. rflags s AND kFlagPF \<noteq> 0)"

definition handle_code_JP_REL32_32 :: "'w handler" where
  "handle_code_JP_REL32_32 = branch_if (\<lambda>s. rflags s AND kFlagPF \<noteq> 0)"

subsection \<open>\<^verbatim>\<open>js.cpp\<close>\<close>

definition handle_code_JS_REL8_64 :: "'w handler" where
  "handle_code_JS_REL8_64 = branch_if (\<lambda>s. rflags s AND kFlagSF \<noteq> 0)"

definition handle_code_JS_REL32_64 :: "'w handler" where
  "handle_code_JS_REL32_64 = branch_if (\<lambda>s. rflags s AND kFlagSF \<noteq> 0)"

definition handle_code_JS_REL8_16 :: "'w handler" where
  "handle_code_JS_REL8_16 = branch_if (\<lambda>s. rflags s AND kFlagSF \<noteq> 0)"

definition handle_code_JS_REL8_32 :: "'w handler" where
  "handle_code_JS_REL8_32 = branch_if (\<lambda>s. rflags s AND kFlagSF \<noteq> 0)"

definition handle_code_JS_REL16 :: "'w handler" where
  "handle_code_JS_REL16 = branch_if (\<lambda>s. rflags s AND kFlagSF \<noteq> 0)"

definition handle_code_JS_REL32_32 :: "'w handler" where
  "handle_code_JS_REL32_32 = branch_if (\<lambda>s. rflags s AND kFlagSF \<noteq> 0)"

subsection \<open>\<^verbatim>\<open>loop.cpp\<close>\<close>

definition handle_code_LOOP_REL8_16_CX :: "'w handler" where
  "handle_code_LOOP_REL8_16_CX = loop_common CX 2 False False"

definition handle_code_LOOP_REL8_32_CX :: "'w handler" where
  "handle_code_LOOP_REL8_32_CX = loop_common CX 2 False False"

definition handle_code_LOOP_REL8_16_ECX :: "'w handler" where
  "handle_code_LOOP_REL8_16_ECX = loop_common ECX 4 False False"

definition handle_code_LOOP_REL8_32_ECX :: "'w handler" where
  "handle_code_LOOP_REL8_32_ECX = loop_common ECX 4 False False"

definition handle_code_LOOP_REL8_64_ECX :: "'w handler" where
  "handle_code_LOOP_REL8_64_ECX = loop_common ECX 4 False False"

definition handle_code_LOOP_REL8_16_RCX :: "'w handler" where
  "handle_code_LOOP_REL8_16_RCX = loop_common RCX 8 False False"

definition handle_code_LOOP_REL8_64_RCX :: "'w handler" where
  "handle_code_LOOP_REL8_64_RCX = loop_common RCX 8 False False"

definition handle_code_LOOPE_REL8_16_CX :: "'w handler" where
  "handle_code_LOOPE_REL8_16_CX = loop_common CX 2 True False"

definition handle_code_LOOPE_REL8_32_CX :: "'w handler" where
  "handle_code_LOOPE_REL8_32_CX = loop_common CX 2 True False"

definition handle_code_LOOPE_REL8_16_ECX :: "'w handler" where
  "handle_code_LOOPE_REL8_16_ECX = loop_common ECX 4 True False"

definition handle_code_LOOPE_REL8_32_ECX :: "'w handler" where
  "handle_code_LOOPE_REL8_32_ECX = loop_common ECX 4 True False"

definition handle_code_LOOPE_REL8_64_ECX :: "'w handler" where
  "handle_code_LOOPE_REL8_64_ECX = loop_common ECX 4 True False"

definition handle_code_LOOPE_REL8_16_RCX :: "'w handler" where
  "handle_code_LOOPE_REL8_16_RCX = loop_common RCX 8 True False"

definition handle_code_LOOPE_REL8_64_RCX :: "'w handler" where
  "handle_code_LOOPE_REL8_64_RCX = loop_common RCX 8 True False"

definition handle_code_LOOPNE_REL8_16_CX :: "'w handler" where
  "handle_code_LOOPNE_REL8_16_CX = loop_common CX 2 False True"

definition handle_code_LOOPNE_REL8_32_CX :: "'w handler" where
  "handle_code_LOOPNE_REL8_32_CX = loop_common CX 2 False True"

definition handle_code_LOOPNE_REL8_16_ECX :: "'w handler" where
  "handle_code_LOOPNE_REL8_16_ECX = loop_common ECX 4 False True"

definition handle_code_LOOPNE_REL8_32_ECX :: "'w handler" where
  "handle_code_LOOPNE_REL8_32_ECX = loop_common ECX 4 False True"

definition handle_code_LOOPNE_REL8_64_ECX :: "'w handler" where
  "handle_code_LOOPNE_REL8_64_ECX = loop_common ECX 4 False True"

definition handle_code_LOOPNE_REL8_16_RCX :: "'w handler" where
  "handle_code_LOOPNE_REL8_16_RCX = loop_common RCX 8 False True"

definition handle_code_LOOPNE_REL8_64_RCX :: "'w handler" where
  "handle_code_LOOPNE_REL8_64_RCX = loop_common RCX 8 False True"

definition handle_code_JECXZ_REL8_16 :: "'w handler" where
  "handle_code_JECXZ_REL8_16 = jcxz_common ECX 4"

definition handle_code_JECXZ_REL8_32 :: "'w handler" where
  "handle_code_JECXZ_REL8_32 = jcxz_common ECX 4"

definition handle_code_JECXZ_REL8_64 :: "'w handler" where
  "handle_code_JECXZ_REL8_64 = jcxz_common ECX 4"

definition handle_code_JRCXZ_REL8_16 :: "'w handler" where
  "handle_code_JRCXZ_REL8_16 = jcxz_common RCX 8"

definition handle_code_JRCXZ_REL8_64 :: "'w handler" where
  "handle_code_JRCXZ_REL8_64 = jcxz_common RCX 8"

subsection \<open>\<^verbatim>\<open>cmov_setcc.cpp\<close>\<close>

definition handle_code_CMOVO_R16_RM16 :: "'w handler" where
  "handle_code_CMOVO_R16_RM16 = cmov 2 Cond_o"

definition handle_code_CMOVNO_R16_RM16 :: "'w handler" where
  "handle_code_CMOVNO_R16_RM16 = cmov 2 Cond_no"

definition handle_code_CMOVB_R16_RM16 :: "'w handler" where
  "handle_code_CMOVB_R16_RM16 = cmov 2 Cond_b"

definition handle_code_CMOVAE_R16_RM16 :: "'w handler" where
  "handle_code_CMOVAE_R16_RM16 = cmov 2 Cond_ae"

definition handle_code_CMOVE_R16_RM16 :: "'w handler" where
  "handle_code_CMOVE_R16_RM16 = cmov 2 Cond_e"

definition handle_code_CMOVNE_R16_RM16 :: "'w handler" where
  "handle_code_CMOVNE_R16_RM16 = cmov 2 Cond_ne"

definition handle_code_CMOVBE_R16_RM16 :: "'w handler" where
  "handle_code_CMOVBE_R16_RM16 = cmov 2 Cond_be"

definition handle_code_CMOVA_R16_RM16 :: "'w handler" where
  "handle_code_CMOVA_R16_RM16 = cmov 2 Cond_a"

definition handle_code_CMOVS_R16_RM16 :: "'w handler" where
  "handle_code_CMOVS_R16_RM16 = cmov 2 Cond_s"

definition handle_code_CMOVNS_R16_RM16 :: "'w handler" where
  "handle_code_CMOVNS_R16_RM16 = cmov 2 Cond_ns"

definition handle_code_CMOVP_R16_RM16 :: "'w handler" where
  "handle_code_CMOVP_R16_RM16 = cmov 2 Cond_p"

definition handle_code_CMOVNP_R16_RM16 :: "'w handler" where
  "handle_code_CMOVNP_R16_RM16 = cmov 2 Cond_np"

definition handle_code_CMOVL_R16_RM16 :: "'w handler" where
  "handle_code_CMOVL_R16_RM16 = cmov 2 Cond_l"

definition handle_code_CMOVGE_R16_RM16 :: "'w handler" where
  "handle_code_CMOVGE_R16_RM16 = cmov 2 Cond_ge"

definition handle_code_CMOVLE_R16_RM16 :: "'w handler" where
  "handle_code_CMOVLE_R16_RM16 = cmov 2 Cond_le"

definition handle_code_CMOVG_R16_RM16 :: "'w handler" where
  "handle_code_CMOVG_R16_RM16 = cmov 2 Cond_g"

definition handle_code_CMOVO_R32_RM32 :: "'w handler" where
  "handle_code_CMOVO_R32_RM32 = cmov 4 Cond_o"

definition handle_code_CMOVNO_R32_RM32 :: "'w handler" where
  "handle_code_CMOVNO_R32_RM32 = cmov 4 Cond_no"

definition handle_code_CMOVB_R32_RM32 :: "'w handler" where
  "handle_code_CMOVB_R32_RM32 = cmov 4 Cond_b"

definition handle_code_CMOVAE_R32_RM32 :: "'w handler" where
  "handle_code_CMOVAE_R32_RM32 = cmov 4 Cond_ae"

definition handle_code_CMOVE_R32_RM32 :: "'w handler" where
  "handle_code_CMOVE_R32_RM32 = cmov 4 Cond_e"

definition handle_code_CMOVNE_R32_RM32 :: "'w handler" where
  "handle_code_CMOVNE_R32_RM32 = cmov 4 Cond_ne"

definition handle_code_CMOVBE_R32_RM32 :: "'w handler" where
  "handle_code_CMOVBE_R32_RM32 = cmov 4 Cond_be"

definition handle_code_CMOVA_R32_RM32 :: "'w handler" where
  "handle_code_CMOVA_R32_RM32 = cmov 4 Cond_a"

definition handle_code_CMOVS_R32_RM32 :: "'w handler" where
  "handle_code_CMOVS_R32_RM32 = cmov 4 Cond_s"

definition handle_code_CMOVNS_R32_RM32 :: "'w handler" where
  "handle_code_CMOVNS_R32_RM32 = cmov 4 Cond_ns"

definition handle_code_CMOVP_R32_RM32 :: "'w handler" where
  "handle_code_CMOVP_R32_RM32 = cmov 4 Cond_p"

definition handle_code_CMOVNP_R32_RM32 :: "'w handler" where
  "handle_code_CMOVNP_R32_RM32 = cmov 4 Cond_np"

definition handle_code_CMOVL_R32_RM32 :: "'w handler" where
  "handle_code_CMOVL_R32_RM32 = cmov 4 Cond_l"

definition handle_code_CMOVGE_R32_RM32 :: "'w handler" where
  "handle_code_CMOVGE_R32_RM32 = cmov 4 Cond_ge"

definition handle_code_CMOVLE_R32_RM32 :: "'w handler" where
  "handle_code_CMOVLE_R32_RM32 = cmov 4 Cond_le"

definition handle_code_CMOVG_R32_RM32 :: "'w handler" where
  "handle_code_CMOVG_R32_RM32 = cmov 4 Cond_g"

definition handle_code_CMOVO_R64_RM64 :: "'w handler" where
  "handle_code_CMOVO_R64_RM64 = cmov 8 Cond_o"

definition handle_code_CMOVNO_R64_RM64 :: "'w handler" where
  "handle_code_CMOVNO_R64_RM64 = cmov 8 Cond_no"

definition handle_code_CMOVB_R64_RM64 :: "'w handler" where
  "handle_code_CMOVB_R64_RM64 = cmov 8 Cond_b"

definition handle_code_CMOVAE_R64_RM64 :: "'w handler" where
  "handle_code_CMOVAE_R64_RM64 = cmov 8 Cond_ae"

definition handle_code_CMOVE_R64_RM64 :: "'w handler" where
  "handle_code_CMOVE_R64_RM64 = cmov 8 Cond_e"

definition handle_code_CMOVNE_R64_RM64 :: "'w handler" where
  "handle_code_CMOVNE_R64_RM64 = cmov 8 Cond_ne"

definition handle_code_CMOVBE_R64_RM64 :: "'w handler" where
  "handle_code_CMOVBE_R64_RM64 = cmov 8 Cond_be"

definition handle_code_CMOVA_R64_RM64 :: "'w handler" where
  "handle_code_CMOVA_R64_RM64 = cmov 8 Cond_a"

definition handle_code_CMOVS_R64_RM64 :: "'w handler" where
  "handle_code_CMOVS_R64_RM64 = cmov 8 Cond_s"

definition handle_code_CMOVNS_R64_RM64 :: "'w handler" where
  "handle_code_CMOVNS_R64_RM64 = cmov 8 Cond_ns"

definition handle_code_CMOVP_R64_RM64 :: "'w handler" where
  "handle_code_CMOVP_R64_RM64 = cmov 8 Cond_p"

definition handle_code_CMOVNP_R64_RM64 :: "'w handler" where
  "handle_code_CMOVNP_R64_RM64 = cmov 8 Cond_np"

definition handle_code_CMOVL_R64_RM64 :: "'w handler" where
  "handle_code_CMOVL_R64_RM64 = cmov 8 Cond_l"

definition handle_code_CMOVGE_R64_RM64 :: "'w handler" where
  "handle_code_CMOVGE_R64_RM64 = cmov 8 Cond_ge"

definition handle_code_CMOVLE_R64_RM64 :: "'w handler" where
  "handle_code_CMOVLE_R64_RM64 = cmov 8 Cond_le"

definition handle_code_CMOVG_R64_RM64 :: "'w handler" where
  "handle_code_CMOVG_R64_RM64 = cmov 8 Cond_g"

definition handle_code_SETO_RM8 :: "'w handler" where
  "handle_code_SETO_RM8 = setcc Cond_o"

definition handle_code_SETNO_RM8 :: "'w handler" where
  "handle_code_SETNO_RM8 = setcc Cond_no"

definition handle_code_SETB_RM8 :: "'w handler" where
  "handle_code_SETB_RM8 = setcc Cond_b"

definition handle_code_SETAE_RM8 :: "'w handler" where
  "handle_code_SETAE_RM8 = setcc Cond_ae"

definition handle_code_SETE_RM8 :: "'w handler" where
  "handle_code_SETE_RM8 = setcc Cond_e"

definition handle_code_SETNE_RM8 :: "'w handler" where
  "handle_code_SETNE_RM8 = setcc Cond_ne"

definition handle_code_SETBE_RM8 :: "'w handler" where
  "handle_code_SETBE_RM8 = setcc Cond_be"

definition handle_code_SETA_RM8 :: "'w handler" where
  "handle_code_SETA_RM8 = setcc Cond_a"

definition handle_code_SETS_RM8 :: "'w handler" where
  "handle_code_SETS_RM8 = setcc Cond_s"

definition handle_code_SETNS_RM8 :: "'w handler" where
  "handle_code_SETNS_RM8 = setcc Cond_ns"

definition handle_code_SETP_RM8 :: "'w handler" where
  "handle_code_SETP_RM8 = setcc Cond_p"

definition handle_code_SETNP_RM8 :: "'w handler" where
  "handle_code_SETNP_RM8 = setcc Cond_np"

definition handle_code_SETL_RM8 :: "'w handler" where
  "handle_code_SETL_RM8 = setcc Cond_l"

definition handle_code_SETGE_RM8 :: "'w handler" where
  "handle_code_SETGE_RM8 = setcc Cond_ge"

definition handle_code_SETLE_RM8 :: "'w handler" where
  "handle_code_SETLE_RM8 = setcc Cond_le"

definition handle_code_SETG_RM8 :: "'w handler" where
  "handle_code_SETG_RM8 = setcc Cond_g"

end
