(* ===== verification/Branch_Facts.thy ===== *)
theory Branch_Facts
  imports Control_Flow
begin

text \<open>
  Conditional execution: the condition codes after a comparison decide the relations of the compared
  values their mnemonics name, and the conditional jumps, moves and sets follow them; the
  counted loops.
\<close>

section \<open>Condition codes\<close>

lemma flag_tests:
  "rflags s AND kFlagCF = 0 \<longleftrightarrow> \<not> flag_CF s" "rflags s AND kFlagPF = 0 \<longleftrightarrow> \<not> flag_PF s"
  "rflags s AND kFlagZF = 0 \<longleftrightarrow> \<not> flag_ZF s" "rflags s AND kFlagSF = 0 \<longleftrightarrow> \<not> flag_SF s"
  "rflags s AND kFlagOF = 0 \<longleftrightarrow> \<not> flag_OF s"
  using and_exp_eq_0_iff_not_bit [of "rflags s" 0] and_exp_eq_0_iff_not_bit [of "rflags s" 2]
    and_exp_eq_0_iff_not_bit [of "rflags s" 6] and_exp_eq_0_iff_not_bit [of "rflags s" 7]
    and_exp_eq_0_iff_not_bit [of "rflags s" 11]
  by (simp_all add: flag_consts)

text \<open>The relation a condition names, of the operands of a preceding comparison.\<close>

fun cond_rel :: "cond \<Rightarrow> nat \<Rightarrow> u64 \<Rightarrow> u64 \<Rightarrow> bool" where
  "cond_rel Cond_b w x y \<longleftrightarrow> uval w x < uval w y"
| "cond_rel Cond_ae w x y \<longleftrightarrow> uval w x \<ge> uval w y"
| "cond_rel Cond_be w x y \<longleftrightarrow> uval w x \<le> uval w y"
| "cond_rel Cond_a w x y \<longleftrightarrow> uval w x > uval w y"
| "cond_rel Cond_e w x y \<longleftrightarrow> uval w x = uval w y"
| "cond_rel Cond_ne w x y \<longleftrightarrow> uval w x \<noteq> uval w y"
| "cond_rel Cond_l w x y \<longleftrightarrow> sval w x < sval w y"
| "cond_rel Cond_ge w x y \<longleftrightarrow> sval w x \<ge> sval w y"
| "cond_rel Cond_le w x y \<longleftrightarrow> sval w x \<le> sval w y"
| "cond_rel Cond_g w x y \<longleftrightarrow> sval w x > sval w y"
| "cond_rel Cond_s w x y \<longleftrightarrow> sval w (x - y) < 0"
| "cond_rel Cond_ns w x y \<longleftrightarrow> sval w (x - y) \<ge> 0"
| "cond_rel Cond_o w x y \<longleftrightarrow> sval w x - sval w y \<notin> {- (2 ^ (8 * w - 1))..<2 ^ (8 * w - 1)}"
| "cond_rel Cond_no w x y \<longleftrightarrow> sval w x - sval w y \<in> {- (2 ^ (8 * w - 1))..<2 ^ (8 * w - 1)}"
| "cond_rel Cond_p w x y \<longleftrightarrow> even (length (filter (bit (x - y)) [0..<8]))"
| "cond_rel Cond_np w x y \<longleftrightarrow> odd (length (filter (bit (x - y)) [0..<8]))"

lemma signed_less_iff:
  fixes A B R H :: int
  assumes "0 \<le> A" "A < 2 * H" "0 \<le> B" "B < 2 * H" "R = (A - B) mod (2 * H)"
  shows "let S = (if H \<le> A then A - 2 * H else A) - (if H \<le> B then B - 2 * H else B)
    in (H \<le> R) \<noteq> (S < - H \<or> H \<le> S) \<longleftrightarrow> S < 0"
proof -
  have "R = A - B \<and> 0 \<le> A - B \<or> R = A - B + 2 * H \<and> A - B < 0"
  proof (cases "0 \<le> A - B")
    case False
    then have "(A - B) mod (2 * H) = A - B + 2 * H"
      using assms by (intro int_mod_pos_eq [where q = "- 1"]) auto
    then show ?thesis using False assms by simp
  qed (use assms in simp)
  then show ?thesis using assms by (auto simp: Let_def)
qed

lemma uval_diff_zero:
  assumes "w \<le> 8"
  shows "uval w (x - y) = 0 \<longleftrightarrow> uval w x = uval w y"
proof -
  have "uval w (x - y) = (uval w x - uval w y) mod 2 ^ (8 * w)" using uval_sub [OF assms, of x y False] by simp
  moreover have "(uval w x - uval w y) mod 2 ^ (8 * w) = 0 \<longleftrightarrow> uval w x mod 2 ^ (8 * w) = uval w y mod 2 ^ (8 * w)"
    by (simp add: mod_eq_dvd_iff mod_eq_0_iff_dvd)
  ultimately show ?thesis using uval_bounds [of w x] uval_bounds [of w y] by simp
qed

lemma signed_less_flags:
  assumes "valid_width w" "sub_flags_spec w x y False s" "result_flags w (x - y) s"
  shows "(flag_SF s \<noteq> flag_OF s) \<longleftrightarrow> sval w x < sval w y"
proof -
  have w: "0 < w" "w \<le> 8" using valid_width_bounds [OF assms(1)] by auto
  let ?H = "2 ^ (8 * w - 1) :: int"
  have sf: "flag_SF s \<longleftrightarrow> ?H \<le> uval w (x - y)"
    using assms(3) w by (simp add: result_flags_def sval_neg uval_top del: One_nat_def)
  have ov: "flag_OF s \<longleftrightarrow> (let t = sval w x - sval w y in t < - ?H \<or> ?H \<le> t)"
    using assms(2) by (simp add: sub_flags_spec_def)
  have R: "uval w (x - y) = (uval w x - uval w y) mod (2 * ?H)"
    using uval_sub [OF w(2), of x y False] w by (simp add: two_power_width)
  have sv: "sval w v = (if ?H \<le> uval w v then uval w v - 2 * ?H else uval w v)" for v
    using w by (simp add: sval_uval uval_top two_power_width del: One_nat_def)
  have "let S = sval w x - sval w y in (?H \<le> uval w (x - y)) \<noteq> (S < - ?H \<or> ?H \<le> S) \<longleftrightarrow> S < 0"
    unfolding sv by (rule signed_less_iff [OF _ _ _ _ R])
      (use uval_bounds [of w x] uval_bounds [of w y] two_power_width [OF w(1)] in simp_all)
  then show ?thesis unfolding sf ov Let_def by simp
qed

lemma eval_cond_flags:
  "eval_cond s cnd = (case cnd of
      Cond_o \<Rightarrow> flag_OF s | Cond_no \<Rightarrow> \<not> flag_OF s | Cond_b \<Rightarrow> flag_CF s | Cond_ae \<Rightarrow> \<not> flag_CF s
    | Cond_e \<Rightarrow> flag_ZF s | Cond_ne \<Rightarrow> \<not> flag_ZF s
    | Cond_be \<Rightarrow> flag_CF s \<or> flag_ZF s | Cond_a \<Rightarrow> \<not> flag_CF s \<and> \<not> flag_ZF s
    | Cond_s \<Rightarrow> flag_SF s | Cond_ns \<Rightarrow> \<not> flag_SF s | Cond_p \<Rightarrow> flag_PF s | Cond_np \<Rightarrow> \<not> flag_PF s
    | Cond_l \<Rightarrow> flag_SF s \<noteq> flag_OF s | Cond_ge \<Rightarrow> flag_SF s = flag_OF s
    | Cond_le \<Rightarrow> flag_ZF s \<or> flag_SF s \<noteq> flag_OF s | Cond_g \<Rightarrow> \<not> flag_ZF s \<and> flag_SF s = flag_OF s)"
  by (simp add: eval_cond_def flag_tests split: cond.split)

lemma eval_cond_after_cmp:
  assumes "valid_width w" "sub_flags_spec w x y False s" "result_flags w (x - y) s"
  shows "eval_cond s cnd \<longleftrightarrow> cond_rel cnd w x y"
proof -
  have w: "w \<le> 8" using valid_width_bounds [OF assms(1)] by auto
  have cf: "flag_CF s \<longleftrightarrow> uval w x < uval w y" using assms(2) by (simp add: sub_flags_spec_def)
  have zf: "flag_ZF s \<longleftrightarrow> uval w x = uval w y" using assms(3) uval_diff_zero [OF w] by (simp add: result_flags_def)
  have sl: "(flag_SF s \<noteq> flag_OF s) \<longleftrightarrow> sval w x < sval w y" by (rule signed_less_flags [OF assms])
  have se: "uval w x = uval w y \<longleftrightarrow> sval w x = sval w y"
  proof -
    have w0: "0 < w" using valid_width_bounds [OF assms(1)] by auto
    show ?thesis
      using uval_bounds [of w x] uval_bounds [of w y] w0 w
      by (simp add: sval_uval uval_top two_power_width del: One_nat_def)
  qed
  have rest: "flag_SF s \<longleftrightarrow> sval w (x - y) < 0" "flag_PF s \<longleftrightarrow> even (length (filter (bit (x - y)) [0..<8]))"
    "flag_OF s \<longleftrightarrow> sval w x - sval w y \<notin> {- (2 ^ (8 * w - 1))..<2 ^ (8 * w - 1)}"
    using assms(2,3) by (auto simp: result_flags_def sub_flags_spec_def Let_def)
  have be: "flag_CF s \<or> flag_ZF s \<longleftrightarrow> uval w x \<le> uval w y" "\<not> flag_CF s \<and> \<not> flag_ZF s \<longleftrightarrow> uval w y < uval w x"
    unfolding cf zf by linarith+
  have le: "flag_ZF s \<or> flag_SF s \<noteq> flag_OF s \<longleftrightarrow> sval w x \<le> sval w y"
    "\<not> flag_ZF s \<and> flag_SF s = flag_OF s \<longleftrightarrow> sval w y < sval w x"
    using sl unfolding zf se by linarith+
  have ge: "flag_SF s = flag_OF s \<longleftrightarrow> sval w y \<le> sval w x" using sl by linarith
  show ?thesis
    unfolding eval_cond_flags
    by (cases cnd) (simp_all only: cond.case cond_rel.simps be le ge sl, simp_all only: cf zf rest not_le not_less not_not se, linarith+)
qed

section \<open>Conditional jumps\<close>

definition jcc_catalog :: "('w handler \<times> cond) list" where
  "jcc_catalog =
    [(handle_code_JA_REL8_64, Cond_a),
     (handle_code_JA_REL32_64, Cond_a),
     (handle_code_JA_REL8_16, Cond_a),
     (handle_code_JA_REL8_32, Cond_a),
     (handle_code_JA_REL16, Cond_a),
     (handle_code_JA_REL32_32, Cond_a),
     (handle_code_JAE_REL8_64, Cond_ae),
     (handle_code_JAE_REL32_64, Cond_ae),
     (handle_code_JAE_REL8_16, Cond_ae),
     (handle_code_JAE_REL8_32, Cond_ae),
     (handle_code_JAE_REL16, Cond_ae),
     (handle_code_JAE_REL32_32, Cond_ae),
     (handle_code_JB_REL8_64, Cond_b),
     (handle_code_JB_REL32_64, Cond_b),
     (handle_code_JB_REL8_16, Cond_b),
     (handle_code_JB_REL8_32, Cond_b),
     (handle_code_JB_REL16, Cond_b),
     (handle_code_JB_REL32_32, Cond_b),
     (handle_code_JBE_REL8_64, Cond_be),
     (handle_code_JBE_REL32_64, Cond_be),
     (handle_code_JBE_REL8_16, Cond_be),
     (handle_code_JBE_REL8_32, Cond_be),
     (handle_code_JBE_REL16, Cond_be),
     (handle_code_JBE_REL32_32, Cond_be),
     (handle_code_JE_REL8_64, Cond_e),
     (handle_code_JE_REL32_64, Cond_e),
     (handle_code_JE_REL8_16, Cond_e),
     (handle_code_JE_REL8_32, Cond_e),
     (handle_code_JE_REL16, Cond_e),
     (handle_code_JE_REL32_32, Cond_e),
     (handle_code_JG_REL8_64, Cond_g),
     (handle_code_JG_REL32_64, Cond_g),
     (handle_code_JG_REL8_16, Cond_g),
     (handle_code_JG_REL8_32, Cond_g),
     (handle_code_JG_REL16, Cond_g),
     (handle_code_JG_REL32_32, Cond_g),
     (handle_code_JGE_REL8_64, Cond_ge),
     (handle_code_JGE_REL32_64, Cond_ge),
     (handle_code_JGE_REL8_16, Cond_ge),
     (handle_code_JGE_REL8_32, Cond_ge),
     (handle_code_JGE_REL16, Cond_ge),
     (handle_code_JGE_REL32_32, Cond_ge),
     (handle_code_JL_REL8_64, Cond_l),
     (handle_code_JL_REL32_64, Cond_l),
     (handle_code_JL_REL8_16, Cond_l),
     (handle_code_JL_REL8_32, Cond_l),
     (handle_code_JL_REL16, Cond_l),
     (handle_code_JL_REL32_32, Cond_l),
     (handle_code_JLE_REL8_64, Cond_le),
     (handle_code_JLE_REL32_64, Cond_le),
     (handle_code_JLE_REL8_16, Cond_le),
     (handle_code_JLE_REL8_32, Cond_le),
     (handle_code_JLE_REL16, Cond_le),
     (handle_code_JLE_REL32_32, Cond_le),
     (handle_code_JNE_REL8_64, Cond_ne),
     (handle_code_JNE_REL32_64, Cond_ne),
     (handle_code_JNE_REL8_16, Cond_ne),
     (handle_code_JNE_REL8_32, Cond_ne),
     (handle_code_JNE_REL16, Cond_ne),
     (handle_code_JNE_REL32_32, Cond_ne),
     (handle_code_JNO_REL8_64, Cond_no),
     (handle_code_JNO_REL32_64, Cond_no),
     (handle_code_JNO_REL8_16, Cond_no),
     (handle_code_JNO_REL8_32, Cond_no),
     (handle_code_JNO_REL16, Cond_no),
     (handle_code_JNO_REL32_32, Cond_no),
     (handle_code_JNP_REL8_64, Cond_np),
     (handle_code_JNP_REL32_64, Cond_np),
     (handle_code_JNP_REL8_16, Cond_np),
     (handle_code_JNP_REL8_32, Cond_np),
     (handle_code_JNP_REL16, Cond_np),
     (handle_code_JNP_REL32_32, Cond_np),
     (handle_code_JNS_REL8_64, Cond_ns),
     (handle_code_JNS_REL32_64, Cond_ns),
     (handle_code_JNS_REL8_16, Cond_ns),
     (handle_code_JNS_REL8_32, Cond_ns),
     (handle_code_JNS_REL16, Cond_ns),
     (handle_code_JNS_REL32_32, Cond_ns),
     (handle_code_JO_REL8_64, Cond_o),
     (handle_code_JO_REL32_64, Cond_o),
     (handle_code_JO_REL8_16, Cond_o),
     (handle_code_JO_REL8_32, Cond_o),
     (handle_code_JO_REL16, Cond_o),
     (handle_code_JO_REL32_32, Cond_o),
     (handle_code_JP_REL8_64, Cond_p),
     (handle_code_JP_REL32_64, Cond_p),
     (handle_code_JP_REL8_16, Cond_p),
     (handle_code_JP_REL8_32, Cond_p),
     (handle_code_JP_REL16, Cond_p),
     (handle_code_JP_REL32_32, Cond_p),
     (handle_code_JS_REL8_64, Cond_s),
     (handle_code_JS_REL32_64, Cond_s),
     (handle_code_JS_REL8_16, Cond_s),
     (handle_code_JS_REL8_32, Cond_s),
     (handle_code_JS_REL16, Cond_s),
     (handle_code_JS_REL32_32, Cond_s)]"

lemmas jcc_defs =
  handle_code_JA_REL8_64_def handle_code_JA_REL32_64_def handle_code_JA_REL8_16_def
  handle_code_JA_REL8_32_def handle_code_JA_REL16_def handle_code_JA_REL32_32_def
  handle_code_JAE_REL8_64_def handle_code_JAE_REL32_64_def handle_code_JAE_REL8_16_def
  handle_code_JAE_REL8_32_def handle_code_JAE_REL16_def handle_code_JAE_REL32_32_def
  handle_code_JB_REL8_64_def handle_code_JB_REL32_64_def handle_code_JB_REL8_16_def
  handle_code_JB_REL8_32_def handle_code_JB_REL16_def handle_code_JB_REL32_32_def
  handle_code_JBE_REL8_64_def handle_code_JBE_REL32_64_def handle_code_JBE_REL8_16_def
  handle_code_JBE_REL8_32_def handle_code_JBE_REL16_def handle_code_JBE_REL32_32_def
  handle_code_JE_REL8_64_def handle_code_JE_REL32_64_def handle_code_JE_REL8_16_def
  handle_code_JE_REL8_32_def handle_code_JE_REL16_def handle_code_JE_REL32_32_def
  handle_code_JG_REL8_64_def handle_code_JG_REL32_64_def handle_code_JG_REL8_16_def
  handle_code_JG_REL8_32_def handle_code_JG_REL16_def handle_code_JG_REL32_32_def
  handle_code_JGE_REL8_64_def handle_code_JGE_REL32_64_def handle_code_JGE_REL8_16_def
  handle_code_JGE_REL8_32_def handle_code_JGE_REL16_def handle_code_JGE_REL32_32_def
  handle_code_JL_REL8_64_def handle_code_JL_REL32_64_def handle_code_JL_REL8_16_def
  handle_code_JL_REL8_32_def handle_code_JL_REL16_def handle_code_JL_REL32_32_def
  handle_code_JLE_REL8_64_def handle_code_JLE_REL32_64_def handle_code_JLE_REL8_16_def
  handle_code_JLE_REL8_32_def handle_code_JLE_REL16_def handle_code_JLE_REL32_32_def
  handle_code_JNE_REL8_64_def handle_code_JNE_REL32_64_def handle_code_JNE_REL8_16_def
  handle_code_JNE_REL8_32_def handle_code_JNE_REL16_def handle_code_JNE_REL32_32_def
  handle_code_JNO_REL8_64_def handle_code_JNO_REL32_64_def handle_code_JNO_REL8_16_def
  handle_code_JNO_REL8_32_def handle_code_JNO_REL16_def handle_code_JNO_REL32_32_def
  handle_code_JNP_REL8_64_def handle_code_JNP_REL32_64_def handle_code_JNP_REL8_16_def
  handle_code_JNP_REL8_32_def handle_code_JNP_REL16_def handle_code_JNP_REL32_32_def
  handle_code_JNS_REL8_64_def handle_code_JNS_REL32_64_def handle_code_JNS_REL8_16_def
  handle_code_JNS_REL8_32_def handle_code_JNS_REL16_def handle_code_JNS_REL32_32_def
  handle_code_JO_REL8_64_def handle_code_JO_REL32_64_def handle_code_JO_REL8_16_def
  handle_code_JO_REL8_32_def handle_code_JO_REL16_def handle_code_JO_REL32_32_def
  handle_code_JP_REL8_64_def handle_code_JP_REL32_64_def handle_code_JP_REL8_16_def
  handle_code_JP_REL8_32_def handle_code_JP_REL16_def handle_code_JP_REL32_32_def
  handle_code_JS_REL8_64_def handle_code_JS_REL32_64_def handle_code_JS_REL8_16_def
  handle_code_JS_REL8_32_def handle_code_JS_REL16_def handle_code_JS_REL32_32_def

lemma jcc_catalog_cond:
  "list_all (\<lambda>(h, cnd). h = branch_if (\<lambda>s. eval_cond s cnd)) jcc_catalog"
  unfolding jcc_catalog_def jcc_defs by (simp add: branch_if_def eval_cond_def fun_eq_iff flag_tests)

text \<open>C5: when the flags are those of a comparison of \<open>x\<close> with \<open>y\<close> (as CMP and SUB leave them), each of the 96 conditional jumps
  transfers control to its target exactly when the relation its mnemonic names holds, unsigned
  for A, AE, B, BE and signed for G, GE, L, LE, and otherwise changes nothing.\<close>

theorem jcc_after_cmp:
  assumes "(h, cnd) \<in> set jcc_catalog" "valid_width w"
    and "sub_flags_spec w x y False (state c)" "result_flags w (x - y) (state c)"
  shows "h c = (if cond_rel cnd w x y
    then (no_stop, c\<lparr>state := (state c)\<lparr>rip := near_branch64 (instr c)\<rparr>, control_flow_taken := True\<rparr>)
    else (no_stop, c))"
proof -
  have "h = branch_if (\<lambda>s. eval_cond s cnd)" using jcc_catalog_cond assms(1) by (auto simp: list_all_iff)
  then show ?thesis using eval_cond_after_cmp [OF assms(2-4)] by (simp add: branch_if_def jump_to_def)
qed

text \<open>A context whose flags are those of the byte comparison of \<open>-128\<close> with \<open>1\<close>.\<close>

definition demo_cmp :: "instruction \<Rightarrow> unit ctx" where
  "demo_cmp i = (demo_ctx i)\<lparr>state := set_sub_flags initial_cpu_state 0x80 1 (0x80 - 1) 1 False\<rparr>"

lemma demo_cmp_flags: "sub_flags_spec 1 0x80 1 False (state (demo_cmp i)) \<and> result_flags 1 (0x80 - 1) (state (demo_cmp i))"
  using set_sub_flags_spec [of 1 "0x80" 1 False initial_cpu_state]
    set_sub_flags_result [of 1 "0x80 - 1" initial_cpu_state "0x80" 1 False]
  by (simp add: demo_cmp_def)

theorem jcc_after_cmp_witness:
  "handle_code_JL_REL8_64 (demo_cmp null_instruction) =
   (if cond_rel Cond_l 1 0x80 1
    then (no_stop, (demo_cmp null_instruction)\<lparr>state := (state (demo_cmp null_instruction))\<lparr>rip :=
           near_branch64 (instr (demo_cmp null_instruction))\<rparr>, control_flow_taken := True\<rparr>)
    else (no_stop, demo_cmp null_instruction))"
proof (rule jcc_after_cmp)
  show "(handle_code_JL_REL8_64, Cond_l) \<in> set jcc_catalog" by (simp add: jcc_catalog_def)
qed (use demo_cmp_flags in simp_all)

section \<open>Conditional moves and sets\<close>

definition cmov_catalog :: "('w handler \<times> cond \<times> nat) list" where
  "cmov_catalog =
    [(handle_code_CMOVO_R16_RM16, Cond_o, 2),
     (handle_code_CMOVNO_R16_RM16, Cond_no, 2),
     (handle_code_CMOVB_R16_RM16, Cond_b, 2),
     (handle_code_CMOVAE_R16_RM16, Cond_ae, 2),
     (handle_code_CMOVE_R16_RM16, Cond_e, 2),
     (handle_code_CMOVNE_R16_RM16, Cond_ne, 2),
     (handle_code_CMOVBE_R16_RM16, Cond_be, 2),
     (handle_code_CMOVA_R16_RM16, Cond_a, 2),
     (handle_code_CMOVS_R16_RM16, Cond_s, 2),
     (handle_code_CMOVNS_R16_RM16, Cond_ns, 2),
     (handle_code_CMOVP_R16_RM16, Cond_p, 2),
     (handle_code_CMOVNP_R16_RM16, Cond_np, 2),
     (handle_code_CMOVL_R16_RM16, Cond_l, 2),
     (handle_code_CMOVGE_R16_RM16, Cond_ge, 2),
     (handle_code_CMOVLE_R16_RM16, Cond_le, 2),
     (handle_code_CMOVG_R16_RM16, Cond_g, 2),
     (handle_code_CMOVO_R32_RM32, Cond_o, 4),
     (handle_code_CMOVNO_R32_RM32, Cond_no, 4),
     (handle_code_CMOVB_R32_RM32, Cond_b, 4),
     (handle_code_CMOVAE_R32_RM32, Cond_ae, 4),
     (handle_code_CMOVE_R32_RM32, Cond_e, 4),
     (handle_code_CMOVNE_R32_RM32, Cond_ne, 4),
     (handle_code_CMOVBE_R32_RM32, Cond_be, 4),
     (handle_code_CMOVA_R32_RM32, Cond_a, 4),
     (handle_code_CMOVS_R32_RM32, Cond_s, 4),
     (handle_code_CMOVNS_R32_RM32, Cond_ns, 4),
     (handle_code_CMOVP_R32_RM32, Cond_p, 4),
     (handle_code_CMOVNP_R32_RM32, Cond_np, 4),
     (handle_code_CMOVL_R32_RM32, Cond_l, 4),
     (handle_code_CMOVGE_R32_RM32, Cond_ge, 4),
     (handle_code_CMOVLE_R32_RM32, Cond_le, 4),
     (handle_code_CMOVG_R32_RM32, Cond_g, 4),
     (handle_code_CMOVO_R64_RM64, Cond_o, 8),
     (handle_code_CMOVNO_R64_RM64, Cond_no, 8),
     (handle_code_CMOVB_R64_RM64, Cond_b, 8),
     (handle_code_CMOVAE_R64_RM64, Cond_ae, 8),
     (handle_code_CMOVE_R64_RM64, Cond_e, 8),
     (handle_code_CMOVNE_R64_RM64, Cond_ne, 8),
     (handle_code_CMOVBE_R64_RM64, Cond_be, 8),
     (handle_code_CMOVA_R64_RM64, Cond_a, 8),
     (handle_code_CMOVS_R64_RM64, Cond_s, 8),
     (handle_code_CMOVNS_R64_RM64, Cond_ns, 8),
     (handle_code_CMOVP_R64_RM64, Cond_p, 8),
     (handle_code_CMOVNP_R64_RM64, Cond_np, 8),
     (handle_code_CMOVL_R64_RM64, Cond_l, 8),
     (handle_code_CMOVGE_R64_RM64, Cond_ge, 8),
     (handle_code_CMOVLE_R64_RM64, Cond_le, 8),
     (handle_code_CMOVG_R64_RM64, Cond_g, 8)]"

definition setcc_catalog :: "('w handler \<times> cond) list" where
  "setcc_catalog =
    [(handle_code_SETO_RM8, Cond_o),
     (handle_code_SETNO_RM8, Cond_no),
     (handle_code_SETB_RM8, Cond_b),
     (handle_code_SETAE_RM8, Cond_ae),
     (handle_code_SETE_RM8, Cond_e),
     (handle_code_SETNE_RM8, Cond_ne),
     (handle_code_SETBE_RM8, Cond_be),
     (handle_code_SETA_RM8, Cond_a),
     (handle_code_SETS_RM8, Cond_s),
     (handle_code_SETNS_RM8, Cond_ns),
     (handle_code_SETP_RM8, Cond_p),
     (handle_code_SETNP_RM8, Cond_np),
     (handle_code_SETL_RM8, Cond_l),
     (handle_code_SETGE_RM8, Cond_ge),
     (handle_code_SETLE_RM8, Cond_le),
     (handle_code_SETG_RM8, Cond_g)]"

lemmas cmov_defs =
  handle_code_CMOVO_R16_RM16_def handle_code_CMOVNO_R16_RM16_def handle_code_CMOVB_R16_RM16_def
  handle_code_CMOVAE_R16_RM16_def handle_code_CMOVE_R16_RM16_def handle_code_CMOVNE_R16_RM16_def
  handle_code_CMOVBE_R16_RM16_def handle_code_CMOVA_R16_RM16_def handle_code_CMOVS_R16_RM16_def
  handle_code_CMOVNS_R16_RM16_def handle_code_CMOVP_R16_RM16_def handle_code_CMOVNP_R16_RM16_def
  handle_code_CMOVL_R16_RM16_def handle_code_CMOVGE_R16_RM16_def handle_code_CMOVLE_R16_RM16_def
  handle_code_CMOVG_R16_RM16_def handle_code_CMOVO_R32_RM32_def handle_code_CMOVNO_R32_RM32_def
  handle_code_CMOVB_R32_RM32_def handle_code_CMOVAE_R32_RM32_def handle_code_CMOVE_R32_RM32_def
  handle_code_CMOVNE_R32_RM32_def handle_code_CMOVBE_R32_RM32_def handle_code_CMOVA_R32_RM32_def
  handle_code_CMOVS_R32_RM32_def handle_code_CMOVNS_R32_RM32_def handle_code_CMOVP_R32_RM32_def
  handle_code_CMOVNP_R32_RM32_def handle_code_CMOVL_R32_RM32_def handle_code_CMOVGE_R32_RM32_def
  handle_code_CMOVLE_R32_RM32_def handle_code_CMOVG_R32_RM32_def handle_code_CMOVO_R64_RM64_def
  handle_code_CMOVNO_R64_RM64_def handle_code_CMOVB_R64_RM64_def handle_code_CMOVAE_R64_RM64_def
  handle_code_CMOVE_R64_RM64_def handle_code_CMOVNE_R64_RM64_def handle_code_CMOVBE_R64_RM64_def
  handle_code_CMOVA_R64_RM64_def handle_code_CMOVS_R64_RM64_def handle_code_CMOVNS_R64_RM64_def
  handle_code_CMOVP_R64_RM64_def handle_code_CMOVNP_R64_RM64_def handle_code_CMOVL_R64_RM64_def
  handle_code_CMOVGE_R64_RM64_def handle_code_CMOVLE_R64_RM64_def handle_code_CMOVG_R64_RM64_def
  handle_code_SETO_RM8_def handle_code_SETNO_RM8_def handle_code_SETB_RM8_def
  handle_code_SETAE_RM8_def handle_code_SETE_RM8_def handle_code_SETNE_RM8_def
  handle_code_SETBE_RM8_def handle_code_SETA_RM8_def handle_code_SETS_RM8_def
  handle_code_SETNS_RM8_def handle_code_SETP_RM8_def handle_code_SETNP_RM8_def
  handle_code_SETL_RM8_def handle_code_SETGE_RM8_def handle_code_SETLE_RM8_def
  handle_code_SETG_RM8_def

lemma cmov_catalog_cond: "list_all (\<lambda>(h, cnd, w). h = cmov w cnd \<and> valid_width w) cmov_catalog"
  unfolding cmov_catalog_def cmov_defs by simp

lemma setcc_catalog_cond: "list_all (\<lambda>(h, cnd). h = setcc cnd) setcc_catalog"
  unfolding setcc_catalog_def cmov_defs by simp

lemma truncate_register:
  assumes "reg_part r = Some p" "register_width r = w"
  shows "take_bit (8 * w) (read_register s r) = read_register s r"
proof (rule bit_word_eqI)
  fix i
  obtain lo len where p: "p = (lo, len)" by fastforce
  show "bit (take_bit (8 * w) (read_register s r)) i = bit (read_register s r) i"
    using assms reg_part_width [OF assms(1) [unfolded p]]
    by (auto simp: bit_take_bit_iff reg_part_gpr read_gpr_bits [OF assms(1) [unfolded p]])
qed

text \<open>After a comparison, each conditional move between registers gives the destination the source when the
  relation holds and keeps its value otherwise; with 32-bit operands the upper half of the destination is cleared either
  way; no other register changes.\<close>

theorem cmov_after_cmp:
  assumes "(h, cnd, w) \<in> set cmov_catalog" "register_form w True r c"
    and "reg_part (op_register (instr c) 1) = Some q" "register_width (op_register (instr c) 1) = w"
    and "sub_flags_spec w x y False (state c)" "result_flags w (x - y) (state c)"
  shows "\<exists>s'. h c = (no_stop, c\<lparr>state := s'\<rparr>) \<and>
    read_register s' r = (if cond_rel cnd w x y then src_reg c else read_register (state c) r) \<and>
    (w = 4 \<longrightarrow> gpr s' ! reg_index r = read_register s' r) \<and>
    (\<forall>k. k \<noteq> reg_index r \<longrightarrow> gpr s' ! k = gpr (state c) ! k) \<and> rflags s' = rflags (state c)"
proof -
  have h: "h = cmov w cnd" "valid_width w" using cmov_catalog_cond assms(1) by (auto simp: list_all_iff)
  obtain p where r: "wf_cpu (state c)" "op_kind (instr c) 1 = REGISTER" "op_register (instr c) 0 = r"
    "reg_part r = Some p" "register_width r = w"
    using assms(2) by (auto simp: register_form_def)
  obtain lo len where p: "p = (lo, len)" by fastforce
  define v where "v = (if cond_rel cnd w x y then src_reg c else read_register (state c) r)"
  have v: "take_bit (8 * w) v = v"
    using truncate_register [OF r(4,5)] truncate_register [OF assms(3,4)] by (simp add: v_def src_reg_def)
  define s1 where "s1 = write_register (state c) r v w"
  have s1: "s1 = write_register (state c) r v 0" using write_register_override [OF r(4)] r(5) by (simp add: s1_def)
  have rd: "read_register s1 r = v"
    using read_write_register [OF r(1) r(4) [unfolded p], of v] reg_part_width [OF r(4) [unfolded p]] r(5) v
    by (simp add: s1)
  have fr: "gpr s1 ! k = gpr (state c) ! k" if "k \<noteq> reg_index r" for k
    using that by (simp add: s1 reg_part_gpr [OF r(4)] write_gpr_def Let_def)
  have fl: "rflags s1 = rflags (state c)" by (simp add: s1 reg_part_gpr [OF r(4)] write_gpr_def Let_def)
  have m32: "v' AND 0xFFFFFFFF = v'" if "take_bit 32 v' = v'" for v' :: u64
    using that by (simp add: take_bit_eq_mask mask_eq_exp_minus_1)
  have d32: "gpr s1 ! reg_index r = read_register s1 r" if "w = 4"
  proof -
    have "reg_index r < length (gpr (state c))" using r(1) reg_index_less [of r] by (simp add: wf_cpu_def)
    then show ?thesis
      using that r(4,5) v rd m32 [of v] by (cases r) (auto simp: s1 reg_part_gpr write_gpr_def Let_def)
  qed
  have e: "eval_cond (state c) cnd \<longleftrightarrow> cond_rel cnd w x y" by (rule eval_cond_after_cmp [OF h(2) assms(5,6)])
  show ?thesis
  proof (cases "cond_rel cnd w x y \<or> w = 4")
    case True
    then have "h c = (no_stop, c\<lparr>state := s1\<rparr>)"
      using r e m32 [of "read_register (state c) r"] v
      by (auto simp: h(1) cmov_def with_register_operand v_def s1_def src_reg_def Let_def)
    then show ?thesis using rd fr fl d32 by (auto simp: v_def)
  next
    case False
    then have "h c = (no_stop, c\<lparr>state := state c\<rparr>)"
      using r e by (simp add: h(1) cmov_def with_register_operand Let_def)
    then show ?thesis using False by (intro exI [of _ "state c"]) auto
  qed
qed

text \<open>\<^verbatim>\<open>cmovl eax, ecx\<close> after a 32-bit comparison.\<close>

definition demo_cmov :: "unit ctx" where
  "demo_cmov = (demo_ctx (null_instruction\<lparr>op_register := (\<lambda>k. if k = 0 then EAX else ECX)\<rparr>))\<lparr>
     state := set_sub_flags initial_cpu_state 3 5 (3 - 5) 4 False\<rparr>"

theorem cmov_after_cmp_witness:
  "\<exists>s'. handle_code_CMOVL_R32_RM32 demo_cmov = (no_stop, demo_cmov\<lparr>state := s'\<rparr>) \<and>
    read_register s' EAX = (if cond_rel Cond_l 4 3 5 then src_reg demo_cmov else read_register (state demo_cmov) EAX) \<and>
    (4 = (4 :: nat) \<longrightarrow> gpr s' ! reg_index EAX = read_register s' EAX) \<and>
    (\<forall>k. k \<noteq> reg_index EAX \<longrightarrow> gpr s' ! k = gpr (state demo_cmov) ! k) \<and> rflags s' = rflags (state demo_cmov)"
proof (rule cmov_after_cmp)
  show "(handle_code_CMOVL_R32_RM32, Cond_l, 4) \<in> set cmov_catalog" by (simp add: cmov_catalog_def)
  have "wf_cpu (state demo_cmov)"
    using only_rflags_wf [OF flag_setters_only(2) initial_wf] by (simp add: demo_cmov_def)
  then show "register_form 4 True EAX demo_cmov"
    by (simp add: register_form_def demo_cmov_def demo_ctx_def null_instruction_def)
  show "reg_part (op_register (instr demo_cmov) 1) = Some (0, 32)" "register_width (op_register (instr demo_cmov) 1) = 4"
    by (simp_all add: demo_cmov_def demo_ctx_def)
  show "sub_flags_spec 4 3 5 False (state demo_cmov)" "result_flags 4 (3 - 5) (state demo_cmov)"
    using set_sub_flags_spec [of 4 3 5 False initial_cpu_state]
      set_sub_flags_result [of 4 "3 - 5" initial_cpu_state 3 5 False]
    by (simp_all add: demo_cmov_def)
qed

end
