(* ===== verification/Multiply.thy ===== *)
theory Multiply
  imports Alu_Memory "HOL-Library.Signed_Division"
begin

text \<open>
  One-operand and multiplicative integer instructions: \<^verbatim>\<open>handlers/data/unary.cpp\<close>, \<^verbatim>\<open>handlers/{mul,imul,div,idiv}.cpp\<close>.
  The 128-bit integers of the vendored wide-integer library are \<^typ>\<open>128 word\<close>; a signed product is the
  integer it denotes, which fits the C++ type it is computed in.
\<close>

section \<open>\<^verbatim>\<open>unary.cpp\<close>\<close>

text \<open>The operations of \<^verbatim>\<open>unary.cpp\<close>; the second operand is the constant one and is used by INC and DEC only.\<close>

definition alu_inc :: alu_op where
  "alu_inc s lhs rhs w =
     (let old_cf = carry_flag s; result = lhs + rhs
      in (result, put_flag kFlagCF old_cf (set_add_flags s lhs rhs result w False)))"

definition alu_dec :: alu_op where
  "alu_dec s lhs rhs w =
     (let old_cf = carry_flag s; result = lhs - rhs
      in (result, put_flag kFlagCF old_cf (set_sub_flags s lhs rhs result w False)))"

definition alu_neg :: alu_op where
  "alu_neg s lhs rhs w = (let result = truncate_to (0 - lhs) w in (result, set_sub_flags s 0 lhs result w False))"

definition alu_not :: alu_op where
  "alu_not s lhs rhs w = (NOT lhs, s)"

definition unary_rm :: "alu_op \<Rightarrow> nat \<Rightarrow> 'w handler" where
  "unary_rm op w = with_operand 0 w (\<lambda>lhs. alu_store op w lhs 1)"

definition handle_code_INC_RM8 :: "'w handler" where
  "handle_code_INC_RM8 = unary_rm alu_inc 1"

definition handle_code_INC_RM16 :: "'w handler" where
  "handle_code_INC_RM16 = unary_rm alu_inc 2"

definition handle_code_INC_RM32 :: "'w handler" where
  "handle_code_INC_RM32 = unary_rm alu_inc 4"

definition handle_code_INC_RM64 :: "'w handler" where
  "handle_code_INC_RM64 = unary_rm alu_inc 8"

definition handle_code_DEC_RM8 :: "'w handler" where
  "handle_code_DEC_RM8 = unary_rm alu_dec 1"

definition handle_code_DEC_RM16 :: "'w handler" where
  "handle_code_DEC_RM16 = unary_rm alu_dec 2"

definition handle_code_DEC_RM32 :: "'w handler" where
  "handle_code_DEC_RM32 = unary_rm alu_dec 4"

definition handle_code_DEC_RM64 :: "'w handler" where
  "handle_code_DEC_RM64 = unary_rm alu_dec 8"

definition handle_code_NEG_RM8 :: "'w handler" where
  "handle_code_NEG_RM8 = unary_rm alu_neg 1"

definition handle_code_NEG_RM16 :: "'w handler" where
  "handle_code_NEG_RM16 = unary_rm alu_neg 2"

definition handle_code_NEG_RM32 :: "'w handler" where
  "handle_code_NEG_RM32 = unary_rm alu_neg 4"

definition handle_code_NEG_RM64 :: "'w handler" where
  "handle_code_NEG_RM64 = unary_rm alu_neg 8"

definition handle_code_NOT_RM8 :: "'w handler" where
  "handle_code_NOT_RM8 = unary_rm alu_not 1"

definition handle_code_NOT_RM16 :: "'w handler" where
  "handle_code_NOT_RM16 = unary_rm alu_not 2"

definition handle_code_NOT_RM32 :: "'w handler" where
  "handle_code_NOT_RM32 = unary_rm alu_not 4"

definition handle_code_NOT_RM64 :: "'w handler" where
  "handle_code_NOT_RM64 = unary_rm alu_not 8"

section \<open>\<^verbatim>\<open>mul.cpp\<close>\<close>

definition handle_code_MUL_RM8 :: "'w handler" where
  "handle_code_MUL_RM8 = with_operand 0 1 (\<lambda>rhs c.
     let s = state c; lhs = read_register s AL; product = lhs * rhs; high = drop_bit 8 product AND 0xFF;
         s1 = write_register s AX product 2; overflow = (high \<noteq> 0)
     in (no_stop, c\<lparr>state := set_multiply_flags s1 product 1 overflow\<rparr>))"

text \<open>The 16- and 32-bit forms, whose product fits 64 bits.\<close>

definition mul_pair :: "nat \<Rightarrow> register \<Rightarrow> register \<Rightarrow> 'w handler" where
  "mul_pair w lo hi = with_operand 0 w (\<lambda>rhs c.
     let s = state c; lhs = read_register s lo; product = lhs * rhs;
         s1 = write_register s lo product w;
         s2 = write_register s1 hi (drop_bit (8 * w) product) w;
         overflow = (drop_bit (8 * w) product \<noteq> 0)
     in (no_stop, c\<lparr>state := set_multiply_flags s2 (truncate_to product w) w overflow\<rparr>))"

definition handle_code_MUL_RM16 :: "'w handler" where
  "handle_code_MUL_RM16 = mul_pair 2 AX DX"

definition handle_code_MUL_RM32 :: "'w handler" where
  "handle_code_MUL_RM32 = mul_pair 4 EAX EDX"

definition handle_code_MUL_RM64 :: "'w handler" where
  "handle_code_MUL_RM64 = with_operand 0 8 (\<lambda>rhs c.
     let s = state c; lhs = read_register s RAX;
         product = (ucast lhs * ucast rhs :: u128);
         low = (ucast product :: u64); high = (ucast (drop_bit 64 product) :: u64);
         s1 = write_register s RAX low 8; s2 = write_register s1 RDX high 8; overflow = (high \<noteq> 0)
     in (no_stop, c\<lparr>state := set_multiply_flags s2 low 8 overflow\<rparr>))"

section \<open>\<^verbatim>\<open>imul.cpp\<close>\<close>

text \<open>\<^verbatim>\<open>static_cast<std::int<8w>_t>(v)\<close>, as an integer.\<close>

definition cast_int :: "nat \<Rightarrow> u64 \<Rightarrow> int" where
  "cast_int w v = signed_take_bit (8 * w - 1) (uint v)"

definition imul_overflow :: "nat \<Rightarrow> int \<Rightarrow> bool" where
  "imul_overflow w product \<longleftrightarrow> product \<noteq> signed_take_bit (8 * w - 1) product"

definition imul_reg_rm_imm :: "nat \<Rightarrow> nat \<Rightarrow> 'w handler" where
  "imul_reg_rm_imm w imm_w = with_operand 1 w (\<lambda>v c.
     let src = sign_extend v w; imm = sign_extend (immediate_value (instr c) 2) imm_w;
         product = cast_int w src * cast_int w imm;
         truncated = (word_of_int (signed_take_bit (8 * w - 1) product) :: u64);
         s1 = write_register (state c) (op_register (instr c) 0) truncated w
     in (no_stop, c\<lparr>state := set_multiply_flags s1 truncated w (imul_overflow w product)\<rparr>))"

text \<open>The two-operand form; the left operand is read before the right one.\<close>

definition imul_r_rm :: "nat \<Rightarrow> 'w handler" where
  "imul_r_rm w c =
     (let lhs = sign_extend (read_register (state c) (op_register (instr c) 0)) w
      in with_operand 1 w (\<lambda>v c1.
           let rhs = sign_extend v w; product = cast_int w lhs * cast_int w rhs;
               low = (word_of_int (take_bit (8 * w) product) :: u64);
               s1 = write_register (state c1) (op_register (instr c1) 0) low w
           in (no_stop, c1\<lparr>state := set_multiply_flags s1 low w (imul_overflow w product)\<rparr>)) c)"

definition handle_code_IMUL_RM8 :: "'w handler" where
  "handle_code_IMUL_RM8 = with_operand 0 1 (\<lambda>rhs c.
     let s = state c; lhs = read_register s AL; product = cast_int 1 lhs * cast_int 1 rhs;
         s1 = write_register s AX (word_of_int (take_bit 16 product)) 2
     in (no_stop, c\<lparr>state := set_multiply_flags s1 (word_of_int (take_bit 8 product)) 1 (imul_overflow 1 product)\<rparr>))"

definition imul_pair :: "nat \<Rightarrow> register \<Rightarrow> register \<Rightarrow> 'w handler" where
  "imul_pair w lo hi = with_operand 0 w (\<lambda>rhs c.
     let s = state c; lhs = read_register s lo; product = cast_int w lhs * cast_int w rhs;
         s1 = write_register s lo (word_of_int (take_bit (8 * w) product)) w;
         s2 = write_register s1 hi (word_of_int (take_bit (8 * w) (drop_bit (8 * w) product))) w
     in (no_stop, c\<lparr>state := set_multiply_flags s2 (word_of_int (take_bit (8 * w) product)) w (imul_overflow w product)\<rparr>))"

definition handle_code_IMUL_R16_RM16 :: "'w handler" where
  "handle_code_IMUL_R16_RM16 = imul_r_rm 2"

definition handle_code_IMUL_R16_RM16_IMM16 :: "'w handler" where
  "handle_code_IMUL_R16_RM16_IMM16 = imul_reg_rm_imm 2 2"

definition handle_code_IMUL_R16_RM16_IMM8 :: "'w handler" where
  "handle_code_IMUL_R16_RM16_IMM8 = imul_reg_rm_imm 2 1"

definition handle_code_IMUL_R32_RM32 :: "'w handler" where
  "handle_code_IMUL_R32_RM32 = imul_r_rm 4"

definition handle_code_IMUL_R32_RM32_IMM32 :: "'w handler" where
  "handle_code_IMUL_R32_RM32_IMM32 = imul_reg_rm_imm 4 4"

definition handle_code_IMUL_R32_RM32_IMM8 :: "'w handler" where
  "handle_code_IMUL_R32_RM32_IMM8 = imul_reg_rm_imm 4 1"

definition handle_code_IMUL_R64_RM64 :: "'w handler" where
  "handle_code_IMUL_R64_RM64 = imul_r_rm 8"

definition handle_code_IMUL_R64_RM64_IMM32 :: "'w handler" where
  "handle_code_IMUL_R64_RM64_IMM32 = imul_reg_rm_imm 8 4"

definition handle_code_IMUL_R64_RM64_IMM8 :: "'w handler" where
  "handle_code_IMUL_R64_RM64_IMM8 = imul_reg_rm_imm 8 1"

definition handle_code_IMUL_RM16 :: "'w handler" where
  "handle_code_IMUL_RM16 = imul_pair 2 AX DX"

definition handle_code_IMUL_RM32 :: "'w handler" where
  "handle_code_IMUL_RM32 = imul_pair 4 EAX EDX"

definition handle_code_IMUL_RM64 :: "'w handler" where
  "handle_code_IMUL_RM64 = imul_pair 8 RAX RDX"

section \<open>\<^verbatim>\<open>div.cpp\<close>\<close>

text \<open>\<^verbatim>\<open>read_divisor_checked\<close> with the early return.\<close>

definition with_divisor :: "nat \<Rightarrow> (u64 \<Rightarrow> 'w handler) \<Rightarrow> 'w handler" where
  "with_divisor w f c = (case read_divisor_checked c w of (Inl r, c1) \<Rightarrow> (r, c1) | (Inr d, c1) \<Rightarrow> f d c1)"

definition handle_code_DIV_RM8 :: "'w handler" where
  "handle_code_DIV_RM8 = with_divisor 1 (\<lambda>divisor c.
     let s = state c; dividend = truncate_to (read_register s AX) 2;
         quotient = dividend div divisor; remainder = dividend mod divisor
     in if quotient > 0xFF then (divide_fault c, c)
        else (no_stop, c\<lparr>state := write_register (write_register s AL quotient 1) AH remainder 1\<rparr>))"

definition div_pair :: "nat \<Rightarrow> register \<Rightarrow> register \<Rightarrow> 'w handler" where
  "div_pair w lo hi = with_divisor w (\<lambda>divisor c.
     let s = state c; low = read_register s lo; high = read_register s hi;
         dividend = push_bit (8 * w) high OR low;
         quotient = dividend div divisor; remainder = dividend mod divisor
     in if quotient > mask_for_width w then (divide_fault c, c)
        else (no_stop, c\<lparr>state := write_register (write_register s lo quotient w) hi remainder w\<rparr>))"

definition handle_code_DIV_RM16 :: "'w handler" where
  "handle_code_DIV_RM16 = div_pair 2 AX DX"

definition handle_code_DIV_RM32 :: "'w handler" where
  "handle_code_DIV_RM32 = div_pair 4 EAX EDX"

definition handle_code_DIV_RM64 :: "'w handler" where
  "handle_code_DIV_RM64 = with_divisor 8 (\<lambda>divisor c.
     let s = state c; low = read_register s RAX; high = read_register s RDX;
         dividend = (push_bit 64 (ucast high) OR ucast low :: u128);
         quotient = dividend div ucast divisor; remainder = dividend mod ucast divisor
     in if quotient > ucast (NOT 0 :: u64) then (divide_fault c, c)
        else (no_stop, c\<lparr>state := write_register (write_register s RAX (ucast quotient) 8) RDX (ucast remainder) 8\<rparr>))"

section \<open>\<^verbatim>\<open>idiv.cpp\<close>\<close>

text \<open>The range check and the two register writes the four handlers end with.\<close>

definition idiv_finish :: "nat \<Rightarrow> register \<Rightarrow> register \<Rightarrow> int \<Rightarrow> int \<Rightarrow> 'w handler" where
  "idiv_finish w lo hi q r c =
     (if q < - (2 ^ (8 * w - 1)) \<or> q > 2 ^ (8 * w - 1) - 1 then (divide_fault c, c)
      else (no_stop, c\<lparr>state := write_register (write_register (state c) lo (word_of_int (take_bit (8 * w) q)) w)
              hi (word_of_int (take_bit (8 * w) r)) w\<rparr>))"

definition handle_code_IDIV_RM8 :: "'w handler" where
  "handle_code_IDIV_RM8 = with_divisor 1 (\<lambda>divisor c.
     let dividend = cast_int 2 (read_register (state c) AX); rhs = cast_int 1 divisor
     in idiv_finish 1 AL AH (dividend sdiv rhs) (dividend smod rhs) c)"

definition idiv_pair :: "nat \<Rightarrow> register \<Rightarrow> register \<Rightarrow> 'w handler" where
  "idiv_pair w lo hi = with_divisor w (\<lambda>divisor c.
     let low = read_register (state c) lo; high = read_register (state c) hi;
         dividend = cast_int (2 * w) (push_bit (8 * w) high OR low); rhs = cast_int w divisor
     in if rhs = - 1 \<and> dividend = - (2 ^ (16 * w - 1)) then (divide_fault c, c)
        else idiv_finish w lo hi (dividend sdiv rhs) (dividend smod rhs) c)"

definition handle_code_IDIV_RM16 :: "'w handler" where
  "handle_code_IDIV_RM16 = idiv_pair 2 AX DX"

definition handle_code_IDIV_RM32 :: "'w handler" where
  "handle_code_IDIV_RM32 = idiv_pair 4 EAX EDX"

definition handle_code_IDIV_RM64 :: "'w handler" where
  "handle_code_IDIV_RM64 = with_divisor 8 (\<lambda>divisor c.
     let low = read_register (state c) RAX; high = read_register (state c) RDX;
         dividend = sint (push_bit 64 (scast high) OR ucast low :: u128); rhs = cast_int 8 divisor;
         quotient = sint (word_of_int (dividend sdiv rhs) :: u128);
         remainder = sint (word_of_int (dividend smod rhs) :: u128)
     in idiv_finish 8 RAX RDX quotient remainder c)"

end
