(* ===== verification/Multiply_Facts.thy ===== *)
theory Multiply_Facts
  imports Multiply
begin

text \<open>
  Multiplication and division against integer arithmetic: the double-width product and dividend, the ranges in which the flags are
  set and a divide error is raised.
\<close>

section \<open>Values\<close>

definition val :: "bool \<Rightarrow> nat \<Rightarrow> u64 \<Rightarrow> int" where
  "val sg w v = (if sg then sval w v else uval w v)"

text \<open>The integers a \<open>w\<close>-byte operand can hold.\<close>

definition fits :: "bool \<Rightarrow> nat \<Rightarrow> int \<Rightarrow> bool" where
  "fits sg w k \<longleftrightarrow> (if sg then - (2 ^ (8 * w - 1)) \<le> k \<and> k < 2 ^ (8 * w - 1) else 0 \<le> k \<and> k < 2 ^ (8 * w))"

lemma val_fits: "0 < w \<Longrightarrow> w \<le> 8 \<Longrightarrow> fits sg w (val sg w v)"
  using uval_bounds [of w v] uval_top [of w v] two_power_width [of w] by (auto simp: fits_def val_def sval_uval)

lemma fits_signed_take_bit: "0 < w \<Longrightarrow> fits True w k \<longleftrightarrow> signed_take_bit (8 * w - 1) k = k"
  by (simp add: fits_def signed_take_bit_int_eq_self_iff)

lemma val_of_int:
  assumes "0 < w" "w \<le> 8" "fits sg w k"
  shows "val sg w (word_of_int (take_bit (8 * w) k)) = k"
proof -
  have u: "uval w (word_of_int (take_bit (8 * w) k)) = take_bit (8 * w) k"
    using assms(2) by (simp add: uval_of_int take_bit_eq_mod)
  show ?thesis
  proof (cases sg)
    case True
    have "sval w (word_of_int (take_bit (8 * w) k)) = signed_take_bit (8 * w - 1) k"
    proof -
      have "8 * w - 1 < 8 * w" "min 64 (8 * w) = 8 * w" using assms(1,2) by simp_all
      then show ?thesis by (simp add: sval_def unsigned_of_int take_bit_take_bit signed_take_bit_take_bit del: One_nat_def)
    qed
    then show ?thesis using True assms(1,3) by (simp add: val_def fits_signed_take_bit)
  next
    case False
    then show ?thesis using assms(3) u by (simp add: val_def fits_def take_bit_int_eq_self)
  qed
qed

lemma uint_push_or:
  fixes h l :: "'a::len word"
  assumes "uint l < 2 ^ n" "uint h * 2 ^ n < 2 ^ LENGTH('a)"
  shows "uint (push_bit n h OR l) = uint h * 2 ^ n + uint l"
proof -
  have b: "uint (push_bit n h) = uint h * 2 ^ n"
    using assms(2) by (simp only: unsigned_push_bit_eq) (simp add: push_bit_eq_mult take_bit_int_eq_self)
  have "uint (push_bit n h OR l) = uint (push_bit n h) OR uint l" by (simp add: unsigned_or_eq)
  also have "\<dots> = uint (push_bit n h) + uint l"
  proof (rule disjunctive_add_eq_or [symmetric], rule bit_eqI)
    fix k
    have "\<not> bit (uint l) k" if "n \<le> k"
      using that assms(1) by (metis bit_take_bit_iff not_le take_bit_int_eq_self uint_nonnegative)
    then show "bit (uint (push_bit n h) AND uint l) k = bit 0 k"
      by (auto simp: bit_and_iff bit_uint_iff bit_push_bit_iff)
  qed
  finally show ?thesis using b by simp
qed

text \<open>A pair of registers of \<open>w\<close> bytes in different families.\<close>

definition register_pair :: "nat \<Rightarrow> register \<Rightarrow> register \<Rightarrow> bool" where
  "register_pair w lo hi \<longleftrightarrow> reg_part lo = Some (0, 8 * w) \<and> reg_part hi = Some (0, 8 * w) \<and> reg_index lo \<noteq> reg_index hi \<and>
     register_width lo = w \<and> register_width hi = w"

lemma pair_writes:
  fixes x y :: u64
  assumes "wf_cpu s" "register_pair w lo hi"
  defines "s' \<equiv> write_register (write_register s lo x w) hi y w"
  shows "read_register s' lo = take_bit (8 * w) x" "read_register s' hi = take_bit (8 * w) y" "rflags s' = rflags s"
    "wf_cpu s'" "\<forall>k. k \<noteq> reg_index lo \<longrightarrow> k \<noteq> reg_index hi \<longrightarrow> gpr s' ! k = gpr s ! k"
proof -
  have r: "reg_part lo = Some (0, 8 * w)" "reg_part hi = Some (0, 8 * w)" "reg_index lo \<noteq> reg_index hi"
    "w = register_width lo" "w = register_width hi"
    using assms(2) by (simp_all add: register_pair_def)
  have s': "s' = write_register (write_register s lo x 0) hi y 0"
    unfolding s'_def by (simp add: write_register_override [OF r(1,4)] write_register_override [OF r(2,5)])
  have wf: "wf_cpu (write_register s lo x 0)" by (rule write_register_wf [OF assms(1)])
  show "read_register s' lo = take_bit (8 * w) x"
    unfolding s' using read_write_register [OF assms(1) r(1)] read_write_register_other [OF r(2,1)] r(3) by simp
  show "read_register s' hi = take_bit (8 * w) y" unfolding s' by (rule read_write_register [OF wf r(2)])
  show "wf_cpu s'" unfolding s' by (rule write_register_wf [OF wf])
  show "rflags s' = rflags s" "\<forall>k. k \<noteq> reg_index lo \<longrightarrow> k \<noteq> reg_index hi \<longrightarrow> gpr s' ! k = gpr s ! k"
    by (simp_all add: s' reg_part_gpr [OF r(1)] reg_part_gpr [OF r(2)] write_gpr_def Let_def)
qed

lemma read_register_small: "reg_part r = Some (lo, len) \<Longrightarrow> take_bit len (read_register s r) = read_register s r"
  by (rule bit_word_eqI) (auto simp: bit_take_bit_iff reg_part_gpr read_gpr_bits)

lemma val_take_bit [simp]: "0 < w \<Longrightarrow> val sg w (take_bit (8 * w) v) = val sg w v"
proof -
  assume "0 < w"
  then have "8 * w - 1 < 8 * w" by simp
  then have "sval w (take_bit (8 * w) v) = sval w v"
    by (simp add: sval_def unsigned_take_bit_eq signed_take_bit_take_bit del: One_nat_def)
  moreover have "uval w (take_bit (8 * w) v) = uval w v" by (simp add: uval_def unsigned_take_bit_eq)
  ultimately show ?thesis by (simp add: val_def)
qed

lemma div_bounds:
  fixes p b c :: int
  assumes "0 < c"
  shows "p < b * c \<Longrightarrow> p div c < b" "b * c \<le> p \<Longrightarrow> b \<le> p div c"
proof -
  have e: "p = c * (p div c) + p mod c" "0 \<le> p mod c" "p mod c < c" using assms by simp_all
  show "p div c < b" if "p < b * c"
  proof (rule ccontr)
    assume "\<not> p div c < b"
    then have "c * b \<le> c * (p div c)" using assms by simp
    moreover have "p < c * b" using that by (simp add: mult.commute)
    ultimately show False using e by linarith
  qed
  show "b \<le> p div c" if "b * c \<le> p"
    using zdiv_mono1 [OF that assms] assms by simp
qed

section \<open>Multiplication\<close>

text \<open>The double-width forms: handler, signedness, width and the registers that receive the low and the high half.\<close>

definition mul_catalog :: "('w handler \<times> bool \<times> nat \<times> register \<times> register) list" where
  "mul_catalog = [(handle_code_MUL_RM16, False, 2, AX, DX), (handle_code_MUL_RM32, False, 4, EAX, EDX),
     (handle_code_MUL_RM64, False, 8, RAX, RDX), (handle_code_IMUL_RM16, True, 2, AX, DX),
     (handle_code_IMUL_RM32, True, 4, EAX, EDX), (handle_code_IMUL_RM64, True, 8, RAX, RDX)]"

definition product_effect :: "bool \<Rightarrow> nat \<Rightarrow> register \<Rightarrow> register \<Rightarrow> u64 \<Rightarrow> cpu_state \<Rightarrow> cpu_state \<Rightarrow> bool" where
  "product_effect sg w lo hi v s s' \<longleftrightarrow>
     (let p = val sg w (read_register s lo) * val sg w v
      in val sg w (read_register s' hi) * 2 ^ (8 * w) + uval w (read_register s' lo) = p \<and>
         flag_CF s' = (\<not> fits sg w p) \<and> flag_OF s' = (\<not> fits sg w p))"

text \<open>What a double-width handler writes, as a function of the exact product \<open>p\<close>.\<close>

lemma product_halves:
  assumes "0 < w" "w \<le> 8" "fits sg (2 * w) p"
  shows "val sg w (word_of_int (take_bit (8 * w) (drop_bit (8 * w) p))) * 2 ^ (8 * w) +
    uval w (word_of_int (take_bit (8 * w) p)) = p"
proof -
  have e: "(2 :: int) ^ (8 * (2 * w)) = 2 ^ (8 * w) * 2 ^ (8 * w)" "(2 :: int) ^ (8 * (2 * w) - 1) = 2 ^ (8 * w - 1) * 2 ^ (8 * w)"
    using assms(1) by (simp_all add: power_add [symmetric])
  have "0 \<le> p div 2 ^ (8 * w)" if "0 \<le> p" using that by (simp add: pos_imp_zdiv_nonneg_iff)
  then have "fits sg w (drop_bit (8 * w) p)"
    using assms(3) div_bounds(1) [where c = "2 ^ (8 * w)" and p = p and b = "2 ^ (8 * w)"]
      div_bounds(1) [where c = "2 ^ (8 * w)" and p = p and b = "2 ^ (8 * w - 1)"]
      div_bounds(2) [where c = "2 ^ (8 * w)" and p = p and b = "- (2 ^ (8 * w - 1))"]
    unfolding fits_def e drop_bit_eq_div by (cases sg) simp_all
  then have "val sg w (word_of_int (take_bit (8 * w) (drop_bit (8 * w) p))) = p div 2 ^ (8 * w)"
    using val_of_int [OF assms(1,2)] by (simp add: drop_bit_eq_div)
  moreover have "uval w (word_of_int (take_bit (8 * w) p)) = p mod 2 ^ (8 * w)"
    using assms(2) by (simp add: uval_of_int take_bit_eq_mod)
  ultimately show ?thesis by (simp only: div_mult_mod_eq)
qed

lemma product_fits:
  assumes "0 < w" "w \<le> 8"
  shows "fits sg (2 * w) (val sg w a * val sg w b)"
proof (cases sg)
  case True
  let ?h = "2 ^ (8 * w - 1) :: int"
  have ab: "- ?h \<le> sval w a" "sval w a < ?h" "- ?h \<le> sval w b" "sval w b < ?h"
    using val_fits [OF assms, of True a] val_fits [OF assms, of True b] by (simp_all add: fits_def val_def)
  then have "\<bar>sval w a * sval w b\<bar> \<le> ?h * ?h" unfolding abs_mult by (intro mult_mono) auto
  moreover have "?h * ?h < 2 ^ (8 * (2 * w) - 1)"
    using assms(1) by (simp add: power_add [symmetric] power_strict_increasing)
  ultimately have "- (2 ^ (8 * (2 * w) - 1)) \<le> sval w a * sval w b \<and> sval w a * sval w b < 2 ^ (8 * (2 * w) - 1)"
    by linarith
  then show ?thesis using True by (simp add: fits_def val_def)
next
  case False
  have "uval w a * uval w b < 2 ^ (8 * w) * 2 ^ (8 * w)"
    using uval_bounds [of w a] uval_bounds [of w b] by (intro mult_strict_mono) auto
  then show ?thesis
    using False uval_bounds(1) [of w a] uval_bounds(1) [of w b] by (simp add: fits_def val_def power_add [symmetric])
qed

lemma product_state:
  assumes "wf_cpu s" "register_pair w lo hi" "valid_width w"
    and "p = val sg w (read_register s lo) * val sg w v"
    and "take_bit (8 * w) x = word_of_int (take_bit (8 * w) p)" "take_bit (8 * w) y = word_of_int (take_bit (8 * w) (drop_bit (8 * w) p))"
    and "ov = (\<not> fits sg w p)"
  shows "product_effect sg w lo hi v s (set_multiply_flags (write_register (write_register s lo x w) hi y w) z w ov)"
proof -
  let ?s1 = "write_register (write_register s lo x w) hi y w"
  note w = valid_width_bounds [OF assms(3)]
  obtain f where f: "set_multiply_flags ?s1 z w ov = ?s1\<lparr>rflags := f\<rparr>"
    using flag_setters_only(4) [of ?s1 z w ov] by (auto simp: only_rflags_def)
  have "read_register (?s1\<lparr>rflags := f\<rparr>) q = read_register ?s1 q" for q
    by (simp add: read_register_def read_gpr_def mmx_get_def x87_phys_index_def mmx_phys_index_def split: option.splits register.splits)
  then have r: "read_register (set_multiply_flags ?s1 z w ov) q = read_register ?s1 q" for q by (simp add: f)
  have "val sg w (take_bit (8 * w) y) * 2 ^ (8 * w) + uval w (take_bit (8 * w) x) = p"
    using product_halves [OF _ _ product_fits, of w sg "read_register s lo" v] w unfolding assms(4-6) by simp
  then show ?thesis
    using set_multiply_flags_bits(1,2) [OF assms(3), of ?s1 z ov] pair_writes(1,2) [OF assms(1,2), of x y]
    unfolding product_effect_def Let_def assms(4) [symmetric] r by (simp add: assms(7))
qed

lemma take_bit_of_int: "n \<le> LENGTH('a) \<Longrightarrow> take_bit n (word_of_int k :: 'a::len word) = word_of_int (take_bit n k)"
  by (rule bit_word_eqI) (auto simp: bit_take_bit_iff bit_word_of_int_iff)

lemma drop_bit_of_int:
  "0 \<le> k \<Longrightarrow> k < 2 ^ LENGTH('a) \<Longrightarrow> drop_bit n (word_of_int k :: 'a::len word) = word_of_int (drop_bit n k)"
proof (rule bit_word_eqI)
  fix i assume k: "0 \<le> k" "k < 2 ^ LENGTH('a)" and "i < LENGTH('a)"
  then have "bit k (n + i) \<Longrightarrow> n + i < LENGTH('a)" by (metis bit_take_bit_iff take_bit_int_eq_self)
  then show "bit (drop_bit n (word_of_int k :: 'a word)) i = bit (word_of_int (drop_bit n k) :: 'a word) i"
    using \<open>i < LENGTH('a)\<close> by (auto simp: bit_drop_bit_eq bit_word_of_int_iff)
qed

text \<open>Unsigned products, computed in a word that is wide enough.\<close>

lemma unsigned_product:
  assumes "0 < w" "w \<le> 8" "16 * w \<le> LENGTH('a)" "p = uval w a * uval w b"
  shows "drop_bit (8 * w) (word_of_int p :: 'a::len word) = word_of_int (drop_bit (8 * w) p)"
    "drop_bit (8 * w) (word_of_int p :: 'a word) = 0 \<longleftrightarrow> fits False w p" "0 \<le> p" "drop_bit (8 * w) p < 2 ^ (8 * w)"
proof -
  have "fits False (2 * w) p" unfolding assms(4) using product_fits [OF assms(1,2), of False a b] by (simp add: val_def)
  then have p: "0 \<le> p" "p < 2 ^ (16 * w)" by (simp_all add: fits_def)
  have L: "(2 :: int) ^ (16 * w) \<le> 2 ^ LENGTH('a)" "(2 :: int) ^ (8 * w) \<le> 2 ^ LENGTH('a)"
    by (rule power_increasing; use assms(3) in simp)+
  have lt: "p < 2 ^ LENGTH('a)" using p(2) L(1) by linarith
  show d: "drop_bit (8 * w) (word_of_int p :: 'a word) = word_of_int (drop_bit (8 * w) p)" by (rule drop_bit_of_int [OF p(1) lt])
  have "p < 2 ^ (8 * w) * 2 ^ (8 * w)" using p(2) by (simp add: power_add [symmetric])
  then show q: "drop_bit (8 * w) p < 2 ^ (8 * w)" unfolding drop_bit_eq_div by (intro div_bounds) simp_all
  have q0: "0 \<le> drop_bit (8 * w) p" using p(1) by simp
  have "drop_bit (8 * w) p < 2 ^ LENGTH('a)" using q L(2) by linarith
  then have "uint (word_of_int (drop_bit (8 * w) p) :: 'a word) = drop_bit (8 * w) p"
    using q0 by (simp only: unsigned_of_int take_bit_int_eq_self)
  then have "(word_of_int (drop_bit (8 * w) p) :: 'a word) = 0 \<longleftrightarrow> drop_bit (8 * w) p = 0"
    by (metis uint_0_eq of_int_0)
  also have "\<dots> \<longleftrightarrow> fits False w p" using p(1) by (auto simp: drop_bit_eq_div fits_def zdiv_eq_0_iff)
  finally show "drop_bit (8 * w) (word_of_int p :: 'a word) = 0 \<longleftrightarrow> fits False w p" unfolding d .
  show "0 \<le> p" by (rule p(1))
qed

lemma mul_state:
  assumes "register_pair w lo hi" "w = 2 \<or> w = 4" "wf_cpu s" "uint v < 2 ^ (8 * w)"
  shows "product_effect False w lo hi v s (set_multiply_flags (write_register (write_register s lo (read_register s lo * v) w)
    hi (drop_bit (8 * w) (read_register s lo * v)) w) z w (drop_bit (8 * w) (read_register s lo * v) \<noteq> 0))"
proof -
  define p where "p = uval w (read_register s lo) * uval w v"
  have w: "0 < w" "w \<le> 8" "16 * w \<le> LENGTH(64)" "8 * w \<le> 64" "valid_width w" using assms(2) by (auto simp: valid_width_def)
  have "uval w (read_register s lo) = uint (read_register s lo)"
    using read_register_small [of lo 0 "8 * w" s] assms(1) unfolding register_pair_def uval_def by (metis unsigned_take_bit_eq)
  moreover have "uval w v = uint v" using assms(4) by (simp add: uval_def take_bit_int_eq_self)
  ultimately have e: "read_register s lo * v = word_of_int p" by (simp add: p_def)
  note u = unsigned_product [OF w(1-3) p_def]
  have t: "take_bit (8 * w) (word_of_int k :: u64) = word_of_int (take_bit (8 * w) k)" for k
    by (rule take_bit_of_int) (use w(4) in simp)
  have pv: "p = val False w (read_register s lo) * val False w v" by (simp add: p_def val_def)
  have ov: "((word_of_int (drop_bit (8 * w) p) :: u64) \<noteq> 0) = (\<not> fits False w p)" using u(2) unfolding u(1) by (rule arg_cong)
  show ?thesis unfolding e u(1) by (rule product_state [OF assms(3,1) w(5) pv t t ov])
qed

lemma ucast_of_int: "LENGTH('a) \<le> LENGTH('b) \<Longrightarrow> (ucast (word_of_int k :: 'b::len word) :: 'a::len word) = word_of_int k"
  by (rule bit_word_eqI) (auto simp: bit_ucast_iff bit_word_of_int_iff)

lemma mul64_state:
  fixes v :: u64
  assumes "wf_cpu s" "p = (ucast (read_register s RAX) * ucast v :: u128)"
  shows "product_effect False 8 RAX RDX v s (set_multiply_flags (write_register (write_register s RAX (ucast p) 8)
    RDX (ucast (drop_bit 64 p)) 8) z 8 ((ucast (drop_bit 64 p) :: u64) \<noteq> 0))"
proof -
  define q where "q = uval 8 (read_register s RAX) * uval 8 v"
  have u8: "uval 8 x = uint x" for x :: u64 using unsigned_less [of x, where 'a = int] by (simp add: uval_def take_bit_int_eq_self)
  have p: "p = word_of_int q" by (simp add: assms(2) q_def u8)
  have u: "drop_bit 64 (word_of_int q :: u128) = word_of_int (drop_bit 64 q)" "0 \<le> q" "drop_bit 64 q < 2 ^ 64"
    using unsigned_product(1,3,4) [where w = 8 and ?'a = 128, OF _ _ _ q_def] by simp_all
  have lo: "(ucast p :: u64) = word_of_int q" by (simp add: p ucast_of_int)
  have hi: "(ucast (drop_bit 64 p) :: u64) = word_of_int (drop_bit 64 q)" unfolding p u(1) by (simp add: ucast_of_int)
  have "uint (ucast (drop_bit 64 p) :: u64) = drop_bit 64 q"
    unfolding hi using u(2,3) by (simp only: unsigned_of_int) (simp add: take_bit_int_eq_self)
  moreover have "drop_bit 64 q = 0 \<longleftrightarrow> fits False 8 q" using u(2) by (auto simp: drop_bit_eq_div fits_def zdiv_eq_0_iff)
  ultimately have ov: "(ucast (drop_bit 64 p) :: u64) \<noteq> 0 \<longleftrightarrow> \<not> fits False 8 q" by (metis uint_0_eq unsigned_0 word_eq_iff_unsigned)
  have t: "take_bit (8 * 8) (word_of_int k :: u64) = word_of_int (take_bit (8 * 8) k)" for k
    by (rule take_bit_of_int) simp
  have qv: "q = val False 8 (read_register s RAX) * val False 8 v" by (simp add: q_def val_def)
  have r: "register_pair 8 RAX RDX" "valid_width 8" by (simp_all add: register_pair_def valid_width_def)
  show ?thesis unfolding lo ov unfolding hi by (rule product_state [OF assms(1) r qv t _ refl]) (use t in simp)
qed

text \<open>C20: the double-width multiplications of 16, 32 and 64-bit operands: the register pair holds the exact product of the operands, unsigned or signed,
  and CF and OF say whether it does not fit the low half.\<close>

theorem mul_semantics:
  assumes "(h, sg, w, lo, hi) \<in> set mul_catalog" "wf_cpu (state c)"
    and "read_operand c 0 w = (Some v, c1)" "uint v < 2 ^ (8 * w)"
  shows "\<exists>s'. h c = (no_stop, c1\<lparr>state := s'\<rparr>) \<and> product_effect sg w lo hi v (state c) s'"
proof -
  have st: "state c1 = state c" using read_operand_mem [of c 0 w] assms(3) by auto
  have signed: "\<exists>s'. imul_pair w lo hi c = (no_stop, c1\<lparr>state := s'\<rparr>) \<and> product_effect True w lo hi v (state c) s'"
    if "register_pair w lo hi" "valid_width w"
  proof -
    let ?p = "sval w (read_register (state c) lo) * sval w v"
    have "imul_overflow w ?p = (\<not> fits True w ?p)"
      using valid_width_bounds [OF that(2)] by (auto simp: imul_overflow_def fits_signed_take_bit)
    then show ?thesis
      using assms(3) product_state [OF assms(2) that, where sg = True and p = ?p and v = v] valid_width_bounds [OF that(2)]
      by (auto simp: imul_pair_def with_operand_def st Let_def val_def cast_int_def sval_def take_bit_of_int)
  qed
  show ?thesis
    using assms(1,3,4) signed mul_state [of w lo hi "state c" v] mul64_state [OF assms(2) refl, of v]
    by (auto simp: mul_catalog_def handle_code_MUL_RM16_def handle_code_MUL_RM32_def handle_code_MUL_RM64_def mul_pair_def
        handle_code_IMUL_RM16_def handle_code_IMUL_RM32_def handle_code_IMUL_RM64_def
        with_operand_def st Let_def register_pair_def valid_width_def assms(2))
qed

section \<open>Division\<close>

definition div_catalog :: "('w handler \<times> bool \<times> nat \<times> register \<times> register) list" where
  "div_catalog = [(handle_code_DIV_RM16, False, 2, AX, DX), (handle_code_DIV_RM32, False, 4, EAX, EDX),
     (handle_code_DIV_RM64, False, 8, RAX, RDX), (handle_code_IDIV_RM16, True, 2, AX, DX),
     (handle_code_IDIV_RM32, True, 4, EAX, EDX), (handle_code_IDIV_RM64, True, 8, RAX, RDX)]"

text \<open>The dividend in a register pair.\<close>

definition dividend_of :: "bool \<Rightarrow> nat \<Rightarrow> register \<Rightarrow> register \<Rightarrow> cpu_state \<Rightarrow> int" where
  "dividend_of sg w lo hi s = val sg w (read_register s hi) * 2 ^ (8 * w) + uval w (read_register s lo)"

definition division_outcome :: "bool \<Rightarrow> nat \<Rightarrow> register \<Rightarrow> register \<Rightarrow> u64 \<Rightarrow> 'w ctx \<Rightarrow> execution_result \<times> 'w ctx \<Rightarrow> bool" where
  "division_outcome sg w lo hi v c r \<longleftrightarrow>
     (let D = dividend_of sg w lo hi (state c); d = val sg w v
      in if d = 0 \<or> \<not> fits sg w (D sdiv d) then r = (divide_fault c, c)
         else \<exists>s'. r = (no_stop, c\<lparr>state := s'\<rparr>) \<and> val sg w (read_register s' lo) = D sdiv d \<and>
              val sg w (read_register s' hi) = D smod d \<and> rflags s' = rflags (state c))"

lemma dividend_bounds:
  assumes "0 < w" "w \<le> 8"
  shows "fits sg (2 * w) (dividend_of sg w lo hi s)"
proof -
  let ?h = "val sg w (read_register s hi)" and ?l = "uval w (read_register s lo)" and ?b = "2 ^ (8 * w) :: int"
  have l: "0 \<le> ?l" "?l < ?b" by (rule uval_bounds)+
  have e: "(2 :: int) ^ (8 * (2 * w)) = ?b * ?b" "(2 :: int) ^ (8 * (2 * w) - 1) = 2 ^ (8 * w - 1) * ?b"
    using assms(1) by (simp_all add: power_add [symmetric])
  have up: "?h * ?b + ?l < m * ?b" if "?h < m" for m
  proof -
    have "(?h + 1) * ?b \<le> m * ?b" using that by (intro mult_right_mono) auto
    then show ?thesis using l by (simp add: algebra_simps)
  qed
  have lo: "m * ?b \<le> ?h * ?b + ?l" if "m \<le> ?h" for m
  proof -
    have "m * ?b \<le> ?h * ?b" using that by (intro mult_right_mono) auto
    then show ?thesis using l(1) by linarith
  qed
  show ?thesis
    using val_fits [OF assms, of sg "read_register s hi"] up lo [of 0] lo [of "- (2 ^ (8 * w - 1))"]
    unfolding fits_def dividend_of_def e by (cases sg) simp_all
qed

lemma write_quotient:
  assumes "wf_cpu s" "register_pair w lo hi" "valid_width w" "fits sg w q" "fits sg w r"
    and "take_bit (8 * w) x = word_of_int (take_bit (8 * w) q)" "take_bit (8 * w) y = word_of_int (take_bit (8 * w) r)"
  shows "val sg w (read_register (write_register (write_register s lo x w) hi y w) lo) = q"
    "val sg w (read_register (write_register (write_register s lo x w) hi y w) hi) = r"
    "rflags (write_register (write_register s lo x w) hi y w) = rflags s"
  using pair_writes [OF assms(1,2), of x y] val_of_int [of w sg q] val_of_int [of w sg r] valid_width_bounds [OF assms(3)] assms(4-7)
  by simp_all

lemma smod_bound: "d \<noteq> 0 \<Longrightarrow> \<bar>D smod d\<bar> < \<bar>d\<bar>" for D d :: int
  by (simp add: signed_modulo_int_def abs_mult abs_sgn_eq)

lemma smod_fits: "0 < w \<Longrightarrow> fits True w d \<Longrightarrow> d \<noteq> 0 \<Longrightarrow> fits True w (D smod d)"
  using smod_bound [of d D] unfolding fits_def by auto

lemma unsigned_fits:
  assumes "0 \<le> D" "0 < d" "d < 2 ^ (8 * w)"
  shows "D sdiv d = D div d" "D smod d = D mod d" "fits False w (D mod d)" "fits False w (D div d) \<longleftrightarrow> D div d < 2 ^ (8 * w)"
proof -
  show "D sdiv d = D div d" "D smod d = D mod d"
    using assms(1,2) by (simp_all add: smod_mod_positive signed_divide_int_def sgn_if)
  have "D mod d < d" "0 \<le> D mod d" using assms(2) by simp_all
  then show "fits False w (D mod d)" using assms(3) by (simp add: fits_def)
  show "fits False w (D div d) \<longleftrightarrow> D div d < 2 ^ (8 * w)" using assms(1,2) by (simp add: fits_def pos_imp_zdiv_nonneg_iff)
qed

text \<open>The common part of the unsigned divisions: \<open>q\<close> and \<open>r\<close> are quotient and remainder in a word of any length.\<close>

lemma unsigned_outcome:
  assumes "register_pair w lo hi" "valid_width w" "wf_cpu (state c)" "v \<noteq> 0" "uint v = uval w v"
    and "D = dividend_of False w lo hi (state c)" "big = (2 ^ (8 * w) \<le> D div uint v)"
    and "take_bit (8 * w) x = word_of_int (take_bit (8 * w) (D div uint v))" "take_bit (8 * w) y = word_of_int (take_bit (8 * w) (D mod uint v))"
  shows "division_outcome False w lo hi v c
    (if big then (divide_fault c, c) else (no_stop, c\<lparr>state := write_register (write_register (state c) lo x w) hi y w\<rparr>))"
proof -
  note w = valid_width_bounds [OF assms(2)]
  have "0 \<le> D" using dividend_bounds [of w False lo hi "state c"] w by (simp add: assms(6) fits_def)
  moreover have d: "0 < uint v" "uint v < 2 ^ (8 * w)"
    using assms(4,5) uval_bounds(2) [of w v] by (simp_all add: order_less_le) (metis assms(5) uint_nonnegative unsigned_eq_0_iff)
  ultimately have f: "D sdiv uint v = D div uint v" "D smod uint v = D mod uint v" "fits False w (D mod uint v)"
    "fits False w (D div uint v) \<longleftrightarrow> \<not> big" using unsigned_fits [of D "uint v" w] assms(7) by auto
  have vv: "val False w v = uint v" using assms(5) by (simp add: val_def)
  show ?thesis
  proof (cases big)
    case True
    then show ?thesis using f by (simp add: division_outcome_def Let_def vv assms(6) [symmetric])
  next
    case False
    then have "fits False w (D div uint v)" using f(4) by simp
    from write_quotient [OF assms(3,1,2) this f(3) assms(8,9)] False show ?thesis
      using f d(1) \<open>fits False w (D div uint v)\<close> unfolding division_outcome_def Let_def vv assms(6) [symmetric] by auto
  qed
qed

lemma pair_small:
  assumes "register_pair w lo hi"
  shows "uint (read_register s lo) = uval w (read_register s lo)" "uint (read_register s hi) = uval w (read_register s hi)"
  using read_register_small [of lo 0 "8 * w" s] read_register_small [of hi 0 "8 * w" s] assms
  unfolding register_pair_def uval_def by (metis unsigned_take_bit_eq)+

lemma with_divisor_read:
  assumes "read_operand c 0 w = (Some v, c1)" "state c1 = state c"
  shows "with_divisor w f c = (if v = 0 then (divide_fault c1, c1) else f v c1)"
  using assms by (simp add: with_divisor_def read_divisor_checked_def)

lemma zero_divisor: "val sg w v = 0 \<Longrightarrow> division_outcome sg w lo hi v c (divide_fault c, c)"
  by (simp add: division_outcome_def)

lemma div_pair_outcome:
  assumes "register_pair w lo hi" "w = 2 \<or> w = 4" "wf_cpu (state c)" "read_operand c 0 w = (Some v, c1)" "uint v < 2 ^ (8 * w)"
  shows "division_outcome False w lo hi v c1 (div_pair w lo hi c)"
proof (cases "v = 0")
  case True
  then show ?thesis
    using assms(4) zero_divisor [of False w v] by (simp add: div_pair_def with_divisor_def read_divisor_checked_def val_def uval_def)
next
  case False
  have st: "state c1 = state c" using read_operand_mem [of c 0 w] assms(4) by auto
  have w: "valid_width w" "8 * w \<le> LENGTH(64)" using assms(2) by (auto simp: valid_width_def)
  have v: "uint v = uval w v" using assms(5) by (simp add: uval_def take_bit_int_eq_self)
  let ?x = "push_bit (8 * w) (read_register (state c) hi) OR read_register (state c) lo"
  have "uval w (read_register (state c) hi) * 2 ^ (8 * w) < 2 ^ (8 * w) * 2 ^ (8 * w)"
    using uval_bounds [of w "read_register (state c) hi"] by simp
  also have "\<dots> \<le> 2 ^ LENGTH(64)" using assms(2) by auto
  finally have D: "dividend_of False w lo hi (state c1) = uint ?x"
    using uint_push_or [of "read_register (state c) lo" "8 * w" "read_register (state c) hi"] pair_small [OF assms(1), of "state c"]
      uval_bounds [of w "read_register (state c) lo"] by (simp add: dividend_of_def val_def st)
  have m: "(mask_for_width w < ?x div v) = (2 ^ (8 * w) \<le> uint ?x div uint v)"
    using assms(2) by (auto simp: mask_for_width_def word_less_def uint_div_distrib)
  have t: "take_bit (8 * w) (?x div v) = word_of_int (take_bit (8 * w) (uint ?x div uint v))"
    "take_bit (8 * w) (?x mod v) = word_of_int (take_bit (8 * w) (uint ?x mod uint v))"
    unfolding word_div_def word_mod_def by (rule take_bit_of_int [OF w(2)])+
  show ?thesis
    using unsigned_outcome [OF assms(1) w(1) _ False v refl, of c1, unfolded D, OF _ m t] assms(3) False
    unfolding div_pair_def with_divisor_read [OF assms(4) st] st Let_def by simp
qed

lemma div64_outcome:
  assumes "wf_cpu (state c)" "read_operand c 0 8 = (Some v, c1)"
  shows "division_outcome False 8 RAX RDX v c1 (handle_code_DIV_RM64 c)"
proof (cases "v = 0")
  case True
  then show ?thesis
    using assms(2) zero_divisor [of False 8 v]
    by (simp add: handle_code_DIV_RM64_def with_divisor_def read_divisor_checked_def val_def uval_def)
next
  case False
  have st: "state c1 = state c" using read_operand_mem [of c 0 8] assms(2) by auto
  have p: "register_pair 8 RAX RDX" "valid_width 8" by (simp_all add: register_pair_def valid_width_def)
  have u8: "uint x = uval 8 x" for x :: u64 using unsigned_less [of x, where 'a = int] by (simp add: uval_def take_bit_int_eq_self)
  let ?x = "push_bit 64 (ucast (read_register (state c) RDX)) OR ucast (read_register (state c) RAX) :: u128"
  have "uint (read_register (state c) RDX) * 2 ^ 64 < 2 ^ 64 * 2 ^ 64"
    using unsigned_less [of "read_register (state c) RDX", where 'a = int] by simp
  then have D: "dividend_of False 8 RAX RDX (state c1) = uint ?x"
    using uint_push_or [of "ucast (read_register (state c) RAX) :: u128" 64 "ucast (read_register (state c) RDX)"]
      unsigned_less [of "read_register (state c) RAX", where 'a = int]
    by (simp add: dividend_of_def val_def st u8 [symmetric] unsigned_ucast_eq take_bit_int_eq_self)
  have uv: "uint (ucast v :: u128) = uint v"
    using unsigned_less [of v, where 'a = int] by (simp add: unsigned_ucast_eq take_bit_int_eq_self)
  have "uint (ucast (NOT 0 :: u64) :: u128) = 2 ^ 64 - 1"
    by (simp add: unsigned_ucast_eq unsigned_minus_1_eq_mask mask_eq_exp_minus_1 take_bit_int_eq_self)
  then have m: "(ucast (NOT 0 :: u64) < ?x div ucast v) = (2 ^ (8 * 8) \<le> uint ?x div uint v)"
    unfolding word_less_def uint_div_distrib uv by auto
  have t: "take_bit (8 * 8) (ucast (?x div ucast v) :: u64) = word_of_int (take_bit (8 * 8) (uint ?x div uint v))"
    "take_bit (8 * 8) (ucast (?x mod ucast v) :: u64) = word_of_int (take_bit (8 * 8) (uint ?x mod uint v))"
    unfolding word_div_def word_mod_def uv by (subst ucast_of_int, simp, rule take_bit_of_int, simp)+
  show ?thesis
    using unsigned_outcome [OF p _ False u8 refl, of c1, unfolded D, OF _ m t] assms(1) False
    unfolding handle_code_DIV_RM64_def with_divisor_read [OF assms(2) st] st Let_def by simp
qed

text \<open>The signed divisions: \<open>q\<close> and \<open>r\<close> agree with the exact quotient and remainder wherever the quotient is in range.\<close>

lemma idiv_finish_outcome:
  assumes "register_pair w lo hi" "valid_width w" "wf_cpu (state c)" "sval w v \<noteq> 0"
    and "D = dividend_of True w lo hi (state c)" "fits True w q = fits True w (D sdiv sval w v)"
    and "fits True w q \<Longrightarrow> q = D sdiv sval w v" "r = D smod sval w v"
  shows "division_outcome True w lo hi v c (idiv_finish w lo hi q r c)"
proof -
  note w = valid_width_bounds [OF assms(2)]
  have vv: "val True w v = sval w v" by (simp add: val_def)
  have f: "(q < - (2 ^ (8 * w - 1)) \<or> q > 2 ^ (8 * w - 1) - 1) = (\<not> fits True w q)" by (auto simp: fits_def)
  show ?thesis
  proof (cases "fits True w q")
    case False
    then show ?thesis
      using assms(6) unfolding division_outcome_def Let_def vv assms(5) [symmetric] idiv_finish_def f by simp
  next
    case True
    have t: "take_bit (8 * w) (word_of_int (take_bit (8 * w) k) :: u64) = word_of_int (take_bit (8 * w) k)" for k
      using w by (subst take_bit_of_int) simp_all
    have "fits True w r" unfolding assms(8)
      by (rule smod_fits) (use w val_fits [of w True v] assms(4) in \<open>simp_all add: vv\<close>)
    then show ?thesis
      using write_quotient [OF assms(3,1,2) True _ t t, of r] True assms(4,6-8)
      unfolding division_outcome_def Let_def vv assms(5) [symmetric] idiv_finish_def f by auto
  qed
qed

lemma signed_dividend:
  assumes "register_pair w lo hi" "w = 2 \<or> w = 4"
  shows "cast_int (2 * w) (push_bit (8 * w) (read_register s hi) OR read_register s lo) = dividend_of True w lo hi s"
proof -
  let ?h = "read_register s hi" and ?l = "read_register s lo" and ?D = "dividend_of True w lo hi s"
  have w: "0 < w" "w \<le> 8" using assms(2) by auto
  have "uval w ?h * 2 ^ (8 * w) < 2 ^ (8 * w) * 2 ^ (8 * w)" using uval_bounds [of w ?h] by simp
  also have "\<dots> \<le> 2 ^ LENGTH(64)" using assms(2) by auto
  finally have u: "uint (push_bit (8 * w) ?h OR ?l) = uval w ?h * 2 ^ (8 * w) + uval w ?l"
    using uint_push_or [of ?l "8 * w" ?h] pair_small [OF assms(1), of s] uval_bounds [of w ?l] by simp
  have "?D = uval w ?h * 2 ^ (8 * w) + uval w ?l - of_bool (bit ?h (8 * w - 1)) * 2 ^ (16 * w)"
    using w by (simp add: dividend_of_def val_def sval_uval left_diff_distrib power_add [symmetric])
  then have "take_bit (16 * w) ?D = take_bit (16 * w) (uval w ?h * 2 ^ (8 * w) + uval w ?l)"
    by (simp add: take_bit_eq_mod mod_diff_right_eq [symmetric] flip: mult.commute) 
  moreover have "Suc (16 * w - 1) = 16 * w" using w by simp
  ultimately have "signed_take_bit (16 * w - 1) (uval w ?h * 2 ^ (8 * w) + uval w ?l) = signed_take_bit (16 * w - 1) ?D"
    by (simp add: signed_take_bit_eq_iff_take_bit_eq)
  also have "\<dots> = ?D" using dividend_bounds [OF w, of True lo hi s] fits_signed_take_bit [of "2 * w" ?D] w by simp
  finally show ?thesis by (simp add: cast_int_def u)
qed

lemma sval_0_iff: "0 < w \<Longrightarrow> w \<le> 8 \<Longrightarrow> uint v < 2 ^ (8 * w) \<Longrightarrow> sval w v = 0 \<longleftrightarrow> v = 0"
  using uval_bounds [of w v] by (auto simp: sval_uval uval_def take_bit_int_eq_self unsigned_eq_0_iff split: if_splits)

lemma idiv_pair_outcome:
  assumes "register_pair w lo hi" "w = 2 \<or> w = 4" "wf_cpu (state c)" "read_operand c 0 w = (Some v, c1)" "uint v < 2 ^ (8 * w)"
  shows "division_outcome True w lo hi v c1 (idiv_pair w lo hi c)"
proof -
  have st: "state c1 = state c" using read_operand_mem [of c 0 w] assms(4) by auto
  have w: "valid_width w" "0 < w" "w \<le> 8" using assms(2) by (auto simp: valid_width_def)
  let ?D = "dividend_of True w lo hi (state c1)"
  have e: "idiv_pair w lo hi c = (if v = 0 then (divide_fault c1, c1)
      else if sval w v = - 1 \<and> ?D = - (2 ^ (16 * w - 1)) then (divide_fault c1, c1)
      else idiv_finish w lo hi (?D sdiv sval w v) (?D smod sval w v) c1)"
    unfolding idiv_pair_def with_divisor_read [OF assms(4) st] Let_def signed_dividend [OF assms(1,2)]
    by (simp add: cast_int_def sval_def)
  have "\<not> fits True w (2 ^ (16 * w - 1))"
    using assms(2) by (auto simp: fits_def)
  then have g: "division_outcome True w lo hi v c1 (divide_fault c1, c1)" if "sval w v = - 1" "?D = - (2 ^ (16 * w - 1))"
    using that by (simp add: division_outcome_def Let_def val_def)
  have z: "division_outcome True w lo hi v c1 (divide_fault c1, c1)" if "v = 0"
    using that w by (intro zero_divisor) (simp add: val_def sval_def)
  have "division_outcome True w lo hi v c1 (idiv_finish w lo hi (?D sdiv sval w v) (?D smod sval w v) c1)" if "v \<noteq> 0"
    by (rule idiv_finish_outcome [OF assms(1) w(1)]) (use that assms(3,5) w st in \<open>simp_all add: sval_0_iff\<close>)
  then show ?thesis unfolding e using g z by simp
qed

lemma signed_dividend_128:
  "sint (push_bit 64 (scast (read_register s RDX)) OR ucast (read_register s RAX) :: u128) = dividend_of True 8 RAX RDX s"
proof -
  let ?h = "read_register s RDX" and ?l = "read_register s RAX" and ?D = "dividend_of True 8 RAX RDX s"
  have v: "uval 8 ?l = uint ?l" "sval 8 ?h = sint ?h"
    using unsigned_less [of ?l, where 'a = int] by (simp_all add: uval_def sval_def take_bit_int_eq_self sint_uint)
  have "push_bit 64 (scast ?h :: u128) AND ucast ?l = 0"
    by (rule bit_word_eqI) (auto simp: bit_and_iff bit_push_bit_iff bit_ucast_iff dest: bit_imp_le_length)
  then have "push_bit 64 (scast ?h) OR ucast ?l = (push_bit 64 (scast ?h) + ucast ?l :: u128)"
    by (simp add: disjunctive_add_eq_or)
  also have "\<dots> = word_of_int ?D"
    by (simp add: dividend_of_def val_def v push_bit_eq_mult)
  finally have "sint (push_bit 64 (scast ?h) OR ucast ?l :: u128) = signed_take_bit 127 ?D" by (simp add: signed_of_int)
  also have "\<dots> = ?D" using dividend_bounds [of 8 True RAX RDX s] fits_signed_take_bit [of 16 ?D] by simp
  finally show ?thesis .
qed

lemma idiv64_outcome:
  assumes "wf_cpu (state c)" "read_operand c 0 8 = (Some v, c1)"
  shows "division_outcome True 8 RAX RDX v c1 (handle_code_IDIV_RM64 c)"
proof (cases "v = 0")
  case True
  then show ?thesis
    using assms(2) zero_divisor [of True 8 v]
    by (simp add: handle_code_IDIV_RM64_def with_divisor_def read_divisor_checked_def val_def sval_def)
next
  case False
  have st: "state c1 = state c" using read_operand_mem [of c 0 8] assms(2) by auto
  have p: "register_pair 8 RAX RDX" "valid_width 8" by (simp_all add: register_pair_def valid_width_def)
  let ?D = "dividend_of True 8 RAX RDX (state c1)" and ?d = "sval 8 v"
  let ?q = "sint (word_of_int (?D sdiv ?d) :: u128)" and ?r = "sint (word_of_int (?D smod ?d) :: u128)"
  have d0: "?d \<noteq> 0" using False unsigned_less [of v, where 'a = int] by (simp add: sval_0_iff)
  have fd: "fits True 8 ?d" using val_fits [of 8 True v] by (simp add: val_def)
  have s: "sint (word_of_int k :: u128) = signed_take_bit 127 k" for k by (simp add: signed_of_int)
  have in_range: "sint (word_of_int k :: u128) = k" if "fits True 8 k" for k
    using that unfolding s by (intro signed_take_bit_int_eq_self) (simp_all add: fits_def)
  have "?D sdiv ?d \<in> {- \<bar>?D\<bar>..\<bar>?D\<bar>}" by (rule sdiv_int_range)
  moreover have "\<bar>?D\<bar> \<le> 2 ^ 127" using dividend_bounds [of 8 True RAX RDX "state c1"] by (auto simp: fits_def)
  ultimately have "- (2 ^ 127) \<le> ?D sdiv ?d" "?D sdiv ?d \<le> 2 ^ 127" by auto
  then have "?q = ?D sdiv ?d" if "?D sdiv ?d \<noteq> 2 ^ 127"
    using that unfolding s by (intro signed_take_bit_int_eq_self) auto
  moreover have "signed_take_bit 127 (2 ^ 127 :: int) = - (2 ^ 127)" by (simp add: signed_take_bit_eq_take_bit_minus bit_exp_iff)
  ultimately have "?q = ?D sdiv ?d \<or> ?D sdiv ?d = 2 ^ 127 \<and> ?q = - (2 ^ 127)" unfolding s by metis
  then have q: "fits True 8 ?q = fits True 8 (?D sdiv ?d)" "fits True 8 ?q \<Longrightarrow> ?q = ?D sdiv ?d" by (auto simp: fits_def)
  have r: "?r = ?D smod ?d" by (rule in_range [OF smod_fits [OF _ fd d0]]) simp
  have e: "handle_code_IDIV_RM64 c = idiv_finish 8 RAX RDX ?q ?r c1"
    unfolding handle_code_IDIV_RM64_def with_divisor_read [OF assms(2) st] Let_def signed_dividend_128
    using False by (simp add: cast_int_def sval_def)
  show ?thesis unfolding e
    by (rule idiv_finish_outcome [OF p _ d0 refl q r]) (use assms(1) st in simp)
qed

text \<open>C21: division of a register pair, with 16, 32 and 64-bit operands: a zero divisor or a quotient that does not fit the destination
  raises the divide error and changes nothing; otherwise the quotient, truncated towards zero, and the remainder are written and the flags
  are kept. Unsigned and signed, computed without overflow at these widths (including the most negative dividend over
  minus one).\<close>

theorem div_semantics:
  assumes "(h, sg, w, lo, hi) \<in> set div_catalog" "wf_cpu (state c)"
    and "read_operand c 0 w = (Some v, c1)" "uint v < 2 ^ (8 * w)"
  shows "division_outcome sg w lo hi v c1 (h c)"
  using assms div_pair_outcome [of w lo hi c v c1] idiv_pair_outcome [of w lo hi c v c1]
    div64_outcome [of c v c1] idiv64_outcome [of c v c1]
  by (auto simp: div_catalog_def handle_code_DIV_RM16_def handle_code_DIV_RM32_def handle_code_IDIV_RM16_def
      handle_code_IDIV_RM32_def register_pair_def)

section \<open>Concrete instances\<close>

text \<open>\<^verbatim>\<open>mul rcx\<close> and \<^verbatim>\<open>idiv rcx\<close> with RDX:RAX = 0:5 and RCX = -2.\<close>

definition demo_pair :: "unit ctx" where
  "demo_pair = (demo_ctx (null_instruction\<lparr>op_register := \<lambda>_. RCX\<rparr>))\<lparr>state := initial_cpu_state\<lparr>gpr := (replicate 16 0)[0 := 5, 1 := - 2]\<rparr>\<rparr>"

lemma demo_pair_simps:
  "wf_cpu (state demo_pair)" "read_operand demo_pair 0 8 = (Some (- 2), demo_pair)"
  "read_register (state demo_pair) RAX = 5" "read_register (state demo_pair) RDX = 0"
  using initial_wf
  by (simp_all add: demo_pair_def wf_cpu_def demo_ctx_def read_operand_def null_instruction_def read_register_def read_gpr_def)

theorem mul_semantics_witness:
  "\<exists>s'. handle_code_IMUL_RM64 demo_pair = (no_stop, demo_pair\<lparr>state := s'\<rparr>) \<and> product_effect True 8 RAX RDX (- 2) (state demo_pair) s'"
  using mul_semantics [of handle_code_IMUL_RM64 True 8 RAX RDX demo_pair "- 2" demo_pair] demo_pair_simps
    unsigned_less [of "- 2 :: u64", where 'a = int]
  by (simp add: mul_catalog_def)

theorem div_semantics_witness:
  "\<exists>s'. handle_code_IDIV_RM64 demo_pair = (no_stop, demo_pair\<lparr>state := s'\<rparr>) \<and> sval 8 (read_register s' RAX) = - 2 \<and>
     sval 8 (read_register s' RDX) = 1"
proof -
  have "dividend_of True 8 RAX RDX (state demo_pair) = 5" "val True 8 (- 2) = - 2"
    by (simp_all add: dividend_of_def demo_pair_simps val_def uval_def sval_def)
  then show ?thesis
    using div_semantics [of handle_code_IDIV_RM64 True 8 RAX RDX demo_pair "- 2" demo_pair] demo_pair_simps
      unsigned_less [of "- 2 :: u64", where 'a = int]
    by (simp add: div_catalog_def division_outcome_def Let_def fits_def) (auto simp: val_def)
qed

end
