(* ===== verification/Shift.thy ===== *)
theory Shift
  imports Alu_Memory
begin

text \<open>
  Shifts and rotates (\<^verbatim>\<open>handlers/data/shift.cpp\<close>). Counts are \<^verbatim>\<open>unsigned\<close> values below 64 once masked and are
  natural numbers here; the loops of RCL and RCR are the recursions \<open>rcl_loop\<close> and \<open>rcr_loop\<close> on the number of
  iterations.
\<close>

section \<open>\<^verbatim>\<open>shift_rm\<close>\<close>

datatype shift_kind = SK_left | SK_logical_right | SK_arithmetic_right

datatype shift_count_source = SC_one | SC_cl | SC_imm8

definition shift_count_mask :: "nat \<Rightarrow> u64" where
  "shift_count_mask width = (if width = 8 then 63 else 31)"

fun read_shift_count :: "'w ctx \<Rightarrow> shift_count_source \<Rightarrow> nat \<Rightarrow> u64" where
  "read_shift_count c SC_one width = 1"
| "read_shift_count c SC_cl width = read_register (state c) CL AND shift_count_mask width"
| "read_shift_count c SC_imm8 width = ucast (immediate8 (instr c)) AND shift_count_mask width"

text \<open>The result and the carry for a non-zero count.\<close>

definition shift_result :: "shift_kind \<Rightarrow> nat \<Rightarrow> u64 \<Rightarrow> nat \<Rightarrow> u64 \<times> bool" where
  "shift_result kind width original count =
     (let bits = width * 8; mask = mask_for_width width;
          old_msb = (original AND sign_bit_for_width width \<noteq> 0)
      in case kind of
           SK_left \<Rightarrow>
             if count < bits
             then (push_bit count original AND mask, drop_bit (bits - count) original AND 1 \<noteq> 0)
             else if count = bits then (0, original AND 1 \<noteq> 0)
             else (0, False)
         | SK_logical_right \<Rightarrow>
             if count < bits
             then (drop_bit count original, drop_bit (count - 1) original AND 1 \<noteq> 0)
             else if count = bits then (0, old_msb)
             else (0, False)
         | SK_arithmetic_right \<Rightarrow>
             if count < bits
             then (signed_drop_bit count (sign_extend original width) AND mask,
                   drop_bit (count - 1) original AND 1 \<noteq> 0)
             else (if old_msb then mask else 0, old_msb))"

definition shift_overflow :: "shift_kind \<Rightarrow> nat \<Rightarrow> u64 \<Rightarrow> bool" where
  "shift_overflow kind width original =
     (let sign = sign_bit_for_width width;
          old_msb = (original AND sign \<noteq> 0); old_next_msb = (original AND drop_bit 1 sign \<noteq> 0)
      in case kind of
           SK_left \<Rightarrow> old_msb \<noteq> old_next_msb
         | SK_logical_right \<Rightarrow> old_msb
         | SK_arithmetic_right \<Rightarrow> False)"

definition shift_rm :: "nat \<Rightarrow> shift_kind \<Rightarrow> shift_count_source \<Rightarrow> 'w handler" where
  "shift_rm width kind source c =
     (case read_operand_checked c 0 width of
        (Inl r, c1) \<Rightarrow> (r, c1)
      | (Inr value, c1) \<Rightarrow>
         (let count = read_shift_count c1 source width; mask = mask_for_width width
          in if count = 0 then write_operand_checked c1 0 (value AND mask) width
             else let original = value AND mask;
                      (result_value, cf) = shift_result kind width original (unat count);
                      s = put_flags [(kFlagCF, cf), (kFlagAF, False), (kFlagZF, result_value = 0),
                            (kFlagSF, result_value AND sign_bit_for_width width \<noteq> 0),
                            (kFlagPF, even_parity (low_byte result_value)),
                            (kFlagOF, shift_overflow kind width original)] (state c1)
                  in write_operand_checked (c1\<lparr>state := s\<rparr>) 0 result_value width))"

definition handle_code_SHL_RM8_1 :: "'w handler" where
  "handle_code_SHL_RM8_1 = shift_rm 1 SK_left SC_one"

definition handle_code_SHL_RM8_CL :: "'w handler" where
  "handle_code_SHL_RM8_CL = shift_rm 1 SK_left SC_cl"

definition handle_code_SHL_RM8_IMM8 :: "'w handler" where
  "handle_code_SHL_RM8_IMM8 = shift_rm 1 SK_left SC_imm8"

definition handle_code_SHL_RM16_1 :: "'w handler" where
  "handle_code_SHL_RM16_1 = shift_rm 2 SK_left SC_one"

definition handle_code_SHL_RM16_CL :: "'w handler" where
  "handle_code_SHL_RM16_CL = shift_rm 2 SK_left SC_cl"

definition handle_code_SHL_RM16_IMM8 :: "'w handler" where
  "handle_code_SHL_RM16_IMM8 = shift_rm 2 SK_left SC_imm8"

definition handle_code_SHL_RM32_1 :: "'w handler" where
  "handle_code_SHL_RM32_1 = shift_rm 4 SK_left SC_one"

definition handle_code_SHL_RM32_CL :: "'w handler" where
  "handle_code_SHL_RM32_CL = shift_rm 4 SK_left SC_cl"

definition handle_code_SHL_RM32_IMM8 :: "'w handler" where
  "handle_code_SHL_RM32_IMM8 = shift_rm 4 SK_left SC_imm8"

definition handle_code_SHL_RM64_1 :: "'w handler" where
  "handle_code_SHL_RM64_1 = shift_rm 8 SK_left SC_one"

definition handle_code_SHL_RM64_CL :: "'w handler" where
  "handle_code_SHL_RM64_CL = shift_rm 8 SK_left SC_cl"

definition handle_code_SHL_RM64_IMM8 :: "'w handler" where
  "handle_code_SHL_RM64_IMM8 = shift_rm 8 SK_left SC_imm8"

definition handle_code_SHR_RM8_1 :: "'w handler" where
  "handle_code_SHR_RM8_1 = shift_rm 1 SK_logical_right SC_one"

definition handle_code_SHR_RM8_CL :: "'w handler" where
  "handle_code_SHR_RM8_CL = shift_rm 1 SK_logical_right SC_cl"

definition handle_code_SHR_RM8_IMM8 :: "'w handler" where
  "handle_code_SHR_RM8_IMM8 = shift_rm 1 SK_logical_right SC_imm8"

definition handle_code_SHR_RM16_1 :: "'w handler" where
  "handle_code_SHR_RM16_1 = shift_rm 2 SK_logical_right SC_one"

definition handle_code_SHR_RM16_CL :: "'w handler" where
  "handle_code_SHR_RM16_CL = shift_rm 2 SK_logical_right SC_cl"

definition handle_code_SHR_RM16_IMM8 :: "'w handler" where
  "handle_code_SHR_RM16_IMM8 = shift_rm 2 SK_logical_right SC_imm8"

definition handle_code_SHR_RM32_1 :: "'w handler" where
  "handle_code_SHR_RM32_1 = shift_rm 4 SK_logical_right SC_one"

definition handle_code_SHR_RM32_CL :: "'w handler" where
  "handle_code_SHR_RM32_CL = shift_rm 4 SK_logical_right SC_cl"

definition handle_code_SHR_RM32_IMM8 :: "'w handler" where
  "handle_code_SHR_RM32_IMM8 = shift_rm 4 SK_logical_right SC_imm8"

definition handle_code_SHR_RM64_1 :: "'w handler" where
  "handle_code_SHR_RM64_1 = shift_rm 8 SK_logical_right SC_one"

definition handle_code_SHR_RM64_CL :: "'w handler" where
  "handle_code_SHR_RM64_CL = shift_rm 8 SK_logical_right SC_cl"

definition handle_code_SHR_RM64_IMM8 :: "'w handler" where
  "handle_code_SHR_RM64_IMM8 = shift_rm 8 SK_logical_right SC_imm8"

definition handle_code_SAR_RM8_1 :: "'w handler" where
  "handle_code_SAR_RM8_1 = shift_rm 1 SK_arithmetic_right SC_one"

definition handle_code_SAR_RM8_CL :: "'w handler" where
  "handle_code_SAR_RM8_CL = shift_rm 1 SK_arithmetic_right SC_cl"

definition handle_code_SAR_RM8_IMM8 :: "'w handler" where
  "handle_code_SAR_RM8_IMM8 = shift_rm 1 SK_arithmetic_right SC_imm8"

definition handle_code_SAR_RM16_1 :: "'w handler" where
  "handle_code_SAR_RM16_1 = shift_rm 2 SK_arithmetic_right SC_one"

definition handle_code_SAR_RM16_CL :: "'w handler" where
  "handle_code_SAR_RM16_CL = shift_rm 2 SK_arithmetic_right SC_cl"

definition handle_code_SAR_RM16_IMM8 :: "'w handler" where
  "handle_code_SAR_RM16_IMM8 = shift_rm 2 SK_arithmetic_right SC_imm8"

definition handle_code_SAR_RM32_1 :: "'w handler" where
  "handle_code_SAR_RM32_1 = shift_rm 4 SK_arithmetic_right SC_one"

definition handle_code_SAR_RM32_CL :: "'w handler" where
  "handle_code_SAR_RM32_CL = shift_rm 4 SK_arithmetic_right SC_cl"

definition handle_code_SAR_RM32_IMM8 :: "'w handler" where
  "handle_code_SAR_RM32_IMM8 = shift_rm 4 SK_arithmetic_right SC_imm8"

definition handle_code_SAR_RM64_1 :: "'w handler" where
  "handle_code_SAR_RM64_1 = shift_rm 8 SK_arithmetic_right SC_one"

definition handle_code_SAR_RM64_CL :: "'w handler" where
  "handle_code_SAR_RM64_CL = shift_rm 8 SK_arithmetic_right SC_cl"

definition handle_code_SAR_RM64_IMM8 :: "'w handler" where
  "handle_code_SAR_RM64_IMM8 = shift_rm 8 SK_arithmetic_right SC_imm8"

section \<open>Rotates\<close>

definition width_mask :: "nat \<Rightarrow> u64" where
  "width_mask width = (if width \<ge> 8 then NOT 0 else push_bit (width * 8) 1 - 1)"

definition msb_mask :: "nat \<Rightarrow> u64" where
  "msb_mask width = push_bit (width * 8 - 1) 1"

text \<open>The write of the destination with its page fault, as these functions spell it out.\<close>

definition store_operand :: "nat \<Rightarrow> u64 \<Rightarrow> 'w handler" where
  "store_operand width value c =
     (case write_operand c 0 value width of
        (False, c1) \<Rightarrow> (memory_fault c1 (memory_address c1), c1)
      | (True, c1) \<Rightarrow> (no_stop, c1))"

definition masked_count :: "nat \<Rightarrow> u64 \<Rightarrow> nat" where
  "masked_count width count = unat (count AND (if width * 8 = 64 then 0x3F else 0x1F))"

definition rotate_left :: "nat \<Rightarrow> u64 \<Rightarrow> bool \<Rightarrow> 'w handler" where
  "rotate_left width count count_is_cl = with_operand 0 width (\<lambda>value c.
     let bits = width * 8; masked = masked_count width count; m = width_mask width
     in if masked = 0 then store_operand width (value AND m) c
        else let shift = masked mod bits;
                 result = (if shift = 0 then value AND m
                           else (push_bit shift value OR drop_bit (bits - shift) value) AND m);
                 s = put_flag kFlagCF (result AND 1 \<noteq> 0) (state c);
                 op0_is_mem = (op_kind (instr c) 0 \<noteq> REGISTER);
                 old_msb = (value AND msb_mask width \<noteq> 0);
                 old_next = (value AND drop_bit 1 (msb_mask width) \<noteq> 0);
                 s1 = (if masked = 1 \<or> count_is_cl \<or> op0_is_mem then put_flag kFlagOF (old_msb \<noteq> old_next) s else s)
             in store_operand width result (c\<lparr>state := s1\<rparr>))"

definition rotate_right :: "nat \<Rightarrow> u64 \<Rightarrow> bool \<Rightarrow> 'w handler" where
  "rotate_right width count count_is_cl = with_operand 0 width (\<lambda>value c.
     let bits = width * 8; masked = masked_count width count; m = width_mask width
     in if masked = 0 then store_operand width (value AND m) c
        else let shift = masked mod bits;
                 result = (if shift = 0 then value AND m
                           else (drop_bit shift value OR push_bit (bits - shift) value) AND m);
                 s = put_flag kFlagCF (result AND msb_mask width \<noteq> 0) (state c);
                 op0_is_mem = (op_kind (instr c) 0 \<noteq> REGISTER);
                 old_lsb = (value AND 1 \<noteq> 0);
                 old_msb = (value AND msb_mask width \<noteq> 0);
                 s1 = (if masked = 1 \<or> count_is_cl \<or> op0_is_mem then put_flag kFlagOF (old_lsb \<noteq> old_msb) s else s)
             in store_operand width result (c\<lparr>state := s1\<rparr>))"

fun rcl_loop :: "nat \<Rightarrow> nat \<Rightarrow> u64 \<Rightarrow> bool \<Rightarrow> u64 \<times> bool" where
  "rcl_loop width 0 value cf = (value, cf)"
| "rcl_loop width (Suc i) value cf =
     (let new_cf = (value AND msb_mask width \<noteq> 0);
          value1 = (push_bit 1 value AND width_mask width) OR (if cf then 1 else 0)
      in rcl_loop width i value1 new_cf)"

definition rotate_carry_left :: "nat \<Rightarrow> u64 \<Rightarrow> 'w handler" where
  "rotate_carry_left width count = with_operand 0 width (\<lambda>value c.
     let bits = width * 8; shift = masked_count width count mod (bits + 1); m = width_mask width
     in if shift = 0 then store_operand width (value AND m) c
        else let original = value AND m;
                 (value1, cf) = rcl_loop width shift original (rflags (state c) AND kFlagCF \<noteq> 0);
                 of_bit = ((original AND msb_mask width \<noteq> 0) \<noteq> (original AND drop_bit 1 (msb_mask width) \<noteq> 0))
             in store_operand width value1 (c\<lparr>state := put_flag kFlagOF of_bit (put_flag kFlagCF cf (state c))\<rparr>))"

fun rcr_loop :: "nat \<Rightarrow> nat \<Rightarrow> u64 \<Rightarrow> bool \<Rightarrow> u64 \<times> bool" where
  "rcr_loop width 0 value cf = (value, cf)"
| "rcr_loop width (Suc i) value cf =
     (let new_cf = (value AND 1 \<noteq> 0);
          value1 = (drop_bit 1 value OR (if cf then msb_mask width else 0)) AND width_mask width
      in rcr_loop width i value1 new_cf)"

definition rotate_carry_right :: "nat \<Rightarrow> u64 \<Rightarrow> 'w handler" where
  "rotate_carry_right width count = with_operand 0 width (\<lambda>value c.
     let bits = width * 8; shift = masked_count width count mod (bits + 1); m = width_mask width
     in if shift = 0 then store_operand width (value AND m) c
        else let old_cf = (rflags (state c) AND kFlagCF \<noteq> 0);
                 original = value AND m;
                 (value1, cf) = rcr_loop width shift original old_cf;
                 of_bit = ((original AND msb_mask width \<noteq> 0) \<noteq> old_cf)
             in store_operand width value1 (c\<lparr>state := put_flag kFlagOF of_bit (put_flag kFlagCF cf (state c))\<rparr>))"

section \<open>Double-width shifts\<close>

definition double_shift_flags :: "nat \<Rightarrow> u64 \<Rightarrow> bool \<Rightarrow> bool \<Rightarrow> cpu_state \<Rightarrow> cpu_state" where
  "double_shift_flags width result cf of_bit s =
     put_flags [(kFlagCF, cf), (kFlagAF, False), (kFlagOF, of_bit), (kFlagZF, result AND width_mask width = 0),
                (kFlagSF, result AND msb_mask width \<noteq> 0), (kFlagPF, even_parity (low_byte result))] s"

definition shld :: "nat \<Rightarrow> u64 \<Rightarrow> 'w handler" where
  "shld width count = with_operand 0 width (\<lambda>dst c.
     let bits = width * 8; shift = masked_count width count mod bits
     in if shift = 0 then store_operand width (dst AND width_mask width) c
        else let src = read_register (state c) (op_register (instr c) 1) AND width_mask width;
                 result = (push_bit shift dst OR drop_bit (bits - shift) src) AND width_mask width;
                 cf = (drop_bit (bits - shift) dst AND 1 \<noteq> 0);
                 of_bit = (if shift = 1 then (result AND msb_mask width \<noteq> 0) \<noteq> cf else False)
             in store_operand width result (upd_state (double_shift_flags width result cf of_bit) c))"

definition shrd :: "nat \<Rightarrow> u64 \<Rightarrow> 'w handler" where
  "shrd width count = with_operand 0 width (\<lambda>dst c.
     let bits = width * 8; shift = masked_count width count mod bits
     in if shift = 0 then store_operand width (dst AND width_mask width) c
        else let src = read_register (state c) (op_register (instr c) 1) AND width_mask width;
                 result = (drop_bit shift dst OR push_bit (bits - shift) src) AND width_mask width;
                 cf = (drop_bit (shift - 1) dst AND 1 \<noteq> 0);
                 of_bit = (if shift = 1 then (dst AND msb_mask width \<noteq> 0) \<noteq> (result AND msb_mask width \<noteq> 0) else False)
             in store_operand width result (upd_state (double_shift_flags width result cf of_bit) c))"

section \<open>Handlers\<close>

text \<open>The count argument the handlers pass.\<close>

definition count_one :: "'w ctx \<Rightarrow> u64" where "count_one c = 1"
definition count_cl :: "'w ctx \<Rightarrow> u64" where "count_cl c = read_register (state c) CL"
definition count_imm8 :: "'w ctx \<Rightarrow> u64" where "count_imm8 c = ucast (immediate8 (instr c))"

definition with_count :: "('w ctx \<Rightarrow> u64) \<Rightarrow> (u64 \<Rightarrow> 'w handler) \<Rightarrow> 'w handler" where
  "with_count count f c = f (count c) c"

definition handle_code_SAL_RM8_1 :: "'w handler" where
  "handle_code_SAL_RM8_1 = handle_code_SHL_RM8_1"

definition handle_code_SAL_RM16_1 :: "'w handler" where
  "handle_code_SAL_RM16_1 = handle_code_SHL_RM16_1"

definition handle_code_SAL_RM32_1 :: "'w handler" where
  "handle_code_SAL_RM32_1 = handle_code_SHL_RM32_1"

definition handle_code_SAL_RM64_1 :: "'w handler" where
  "handle_code_SAL_RM64_1 = handle_code_SHL_RM64_1"

definition handle_code_SAL_RM8_CL :: "'w handler" where
  "handle_code_SAL_RM8_CL = handle_code_SHL_RM8_CL"

definition handle_code_SAL_RM16_CL :: "'w handler" where
  "handle_code_SAL_RM16_CL = handle_code_SHL_RM16_CL"

definition handle_code_SAL_RM32_CL :: "'w handler" where
  "handle_code_SAL_RM32_CL = handle_code_SHL_RM32_CL"

definition handle_code_SAL_RM64_CL :: "'w handler" where
  "handle_code_SAL_RM64_CL = handle_code_SHL_RM64_CL"

definition handle_code_SAL_RM8_IMM8 :: "'w handler" where
  "handle_code_SAL_RM8_IMM8 = handle_code_SHL_RM8_IMM8"

definition handle_code_SAL_RM16_IMM8 :: "'w handler" where
  "handle_code_SAL_RM16_IMM8 = handle_code_SHL_RM16_IMM8"

definition handle_code_SAL_RM32_IMM8 :: "'w handler" where
  "handle_code_SAL_RM32_IMM8 = handle_code_SHL_RM32_IMM8"

definition handle_code_SAL_RM64_IMM8 :: "'w handler" where
  "handle_code_SAL_RM64_IMM8 = handle_code_SHL_RM64_IMM8"

definition handle_code_ROL_RM8_1 :: "'w handler" where
  "handle_code_ROL_RM8_1 = with_count count_one (\<lambda>count. rotate_left 1 count False)"

definition handle_code_ROL_RM16_1 :: "'w handler" where
  "handle_code_ROL_RM16_1 = with_count count_one (\<lambda>count. rotate_left 2 count False)"

definition handle_code_ROL_RM32_1 :: "'w handler" where
  "handle_code_ROL_RM32_1 = with_count count_one (\<lambda>count. rotate_left 4 count False)"

definition handle_code_ROL_RM64_1 :: "'w handler" where
  "handle_code_ROL_RM64_1 = with_count count_one (\<lambda>count. rotate_left 8 count False)"

definition handle_code_ROL_RM8_CL :: "'w handler" where
  "handle_code_ROL_RM8_CL = with_count count_cl (\<lambda>count. rotate_left 1 count True)"

definition handle_code_ROL_RM16_CL :: "'w handler" where
  "handle_code_ROL_RM16_CL = with_count count_cl (\<lambda>count. rotate_left 2 count True)"

definition handle_code_ROL_RM32_CL :: "'w handler" where
  "handle_code_ROL_RM32_CL = with_count count_cl (\<lambda>count. rotate_left 4 count True)"

definition handle_code_ROL_RM64_CL :: "'w handler" where
  "handle_code_ROL_RM64_CL = with_count count_cl (\<lambda>count. rotate_left 8 count True)"

definition handle_code_ROL_RM8_IMM8 :: "'w handler" where
  "handle_code_ROL_RM8_IMM8 = with_count count_imm8 (\<lambda>count. rotate_left 1 count False)"

definition handle_code_ROL_RM16_IMM8 :: "'w handler" where
  "handle_code_ROL_RM16_IMM8 = with_count count_imm8 (\<lambda>count. rotate_left 2 count False)"

definition handle_code_ROL_RM32_IMM8 :: "'w handler" where
  "handle_code_ROL_RM32_IMM8 = with_count count_imm8 (\<lambda>count. rotate_left 4 count False)"

definition handle_code_ROL_RM64_IMM8 :: "'w handler" where
  "handle_code_ROL_RM64_IMM8 = with_count count_imm8 (\<lambda>count. rotate_left 8 count False)"

definition handle_code_ROR_RM8_1 :: "'w handler" where
  "handle_code_ROR_RM8_1 = with_count count_one (\<lambda>count. rotate_right 1 count False)"

definition handle_code_ROR_RM16_1 :: "'w handler" where
  "handle_code_ROR_RM16_1 = with_count count_one (\<lambda>count. rotate_right 2 count False)"

definition handle_code_ROR_RM32_1 :: "'w handler" where
  "handle_code_ROR_RM32_1 = with_count count_one (\<lambda>count. rotate_right 4 count False)"

definition handle_code_ROR_RM64_1 :: "'w handler" where
  "handle_code_ROR_RM64_1 = with_count count_one (\<lambda>count. rotate_right 8 count False)"

definition handle_code_ROR_RM8_CL :: "'w handler" where
  "handle_code_ROR_RM8_CL = with_count count_cl (\<lambda>count. rotate_right 1 count True)"

definition handle_code_ROR_RM16_CL :: "'w handler" where
  "handle_code_ROR_RM16_CL = with_count count_cl (\<lambda>count. rotate_right 2 count True)"

definition handle_code_ROR_RM32_CL :: "'w handler" where
  "handle_code_ROR_RM32_CL = with_count count_cl (\<lambda>count. rotate_right 4 count True)"

definition handle_code_ROR_RM64_CL :: "'w handler" where
  "handle_code_ROR_RM64_CL = with_count count_cl (\<lambda>count. rotate_right 8 count True)"

definition handle_code_ROR_RM8_IMM8 :: "'w handler" where
  "handle_code_ROR_RM8_IMM8 = with_count count_imm8 (\<lambda>count. rotate_right 1 count False)"

definition handle_code_ROR_RM16_IMM8 :: "'w handler" where
  "handle_code_ROR_RM16_IMM8 = with_count count_imm8 (\<lambda>count. rotate_right 2 count False)"

definition handle_code_ROR_RM32_IMM8 :: "'w handler" where
  "handle_code_ROR_RM32_IMM8 = with_count count_imm8 (\<lambda>count. rotate_right 4 count False)"

definition handle_code_ROR_RM64_IMM8 :: "'w handler" where
  "handle_code_ROR_RM64_IMM8 = with_count count_imm8 (\<lambda>count. rotate_right 8 count False)"

definition handle_code_RCL_RM8_1 :: "'w handler" where
  "handle_code_RCL_RM8_1 = with_count count_one (rotate_carry_left 1)"

definition handle_code_RCL_RM16_1 :: "'w handler" where
  "handle_code_RCL_RM16_1 = with_count count_one (rotate_carry_left 2)"

definition handle_code_RCL_RM32_1 :: "'w handler" where
  "handle_code_RCL_RM32_1 = with_count count_one (rotate_carry_left 4)"

definition handle_code_RCL_RM64_1 :: "'w handler" where
  "handle_code_RCL_RM64_1 = with_count count_one (rotate_carry_left 8)"

definition handle_code_RCL_RM8_CL :: "'w handler" where
  "handle_code_RCL_RM8_CL = with_count count_cl (rotate_carry_left 1)"

definition handle_code_RCL_RM16_CL :: "'w handler" where
  "handle_code_RCL_RM16_CL = with_count count_cl (rotate_carry_left 2)"

definition handle_code_RCL_RM32_CL :: "'w handler" where
  "handle_code_RCL_RM32_CL = with_count count_cl (rotate_carry_left 4)"

definition handle_code_RCL_RM64_CL :: "'w handler" where
  "handle_code_RCL_RM64_CL = with_count count_cl (rotate_carry_left 8)"

definition handle_code_RCL_RM8_IMM8 :: "'w handler" where
  "handle_code_RCL_RM8_IMM8 = with_count count_imm8 (rotate_carry_left 1)"

definition handle_code_RCL_RM16_IMM8 :: "'w handler" where
  "handle_code_RCL_RM16_IMM8 = with_count count_imm8 (rotate_carry_left 2)"

definition handle_code_RCL_RM32_IMM8 :: "'w handler" where
  "handle_code_RCL_RM32_IMM8 = with_count count_imm8 (rotate_carry_left 4)"

definition handle_code_RCL_RM64_IMM8 :: "'w handler" where
  "handle_code_RCL_RM64_IMM8 = with_count count_imm8 (rotate_carry_left 8)"

definition handle_code_RCR_RM8_1 :: "'w handler" where
  "handle_code_RCR_RM8_1 = with_count count_one (rotate_carry_right 1)"

definition handle_code_RCR_RM16_1 :: "'w handler" where
  "handle_code_RCR_RM16_1 = with_count count_one (rotate_carry_right 2)"

definition handle_code_RCR_RM32_1 :: "'w handler" where
  "handle_code_RCR_RM32_1 = with_count count_one (rotate_carry_right 4)"

definition handle_code_RCR_RM64_1 :: "'w handler" where
  "handle_code_RCR_RM64_1 = with_count count_one (rotate_carry_right 8)"

definition handle_code_RCR_RM8_CL :: "'w handler" where
  "handle_code_RCR_RM8_CL = with_count count_cl (rotate_carry_right 1)"

definition handle_code_RCR_RM16_CL :: "'w handler" where
  "handle_code_RCR_RM16_CL = with_count count_cl (rotate_carry_right 2)"

definition handle_code_RCR_RM32_CL :: "'w handler" where
  "handle_code_RCR_RM32_CL = with_count count_cl (rotate_carry_right 4)"

definition handle_code_RCR_RM64_CL :: "'w handler" where
  "handle_code_RCR_RM64_CL = with_count count_cl (rotate_carry_right 8)"

definition handle_code_RCR_RM8_IMM8 :: "'w handler" where
  "handle_code_RCR_RM8_IMM8 = with_count count_imm8 (rotate_carry_right 1)"

definition handle_code_RCR_RM16_IMM8 :: "'w handler" where
  "handle_code_RCR_RM16_IMM8 = with_count count_imm8 (rotate_carry_right 2)"

definition handle_code_RCR_RM32_IMM8 :: "'w handler" where
  "handle_code_RCR_RM32_IMM8 = with_count count_imm8 (rotate_carry_right 4)"

definition handle_code_RCR_RM64_IMM8 :: "'w handler" where
  "handle_code_RCR_RM64_IMM8 = with_count count_imm8 (rotate_carry_right 8)"

definition handle_code_SHLD_RM16_R16_IMM8 :: "'w handler" where
  "handle_code_SHLD_RM16_R16_IMM8 = with_count count_imm8 (shld 2)"

definition handle_code_SHLD_RM32_R32_IMM8 :: "'w handler" where
  "handle_code_SHLD_RM32_R32_IMM8 = with_count count_imm8 (shld 4)"

definition handle_code_SHLD_RM64_R64_IMM8 :: "'w handler" where
  "handle_code_SHLD_RM64_R64_IMM8 = with_count count_imm8 (shld 8)"

definition handle_code_SHLD_RM16_R16_CL :: "'w handler" where
  "handle_code_SHLD_RM16_R16_CL = with_count count_cl (shld 2)"

definition handle_code_SHLD_RM32_R32_CL :: "'w handler" where
  "handle_code_SHLD_RM32_R32_CL = with_count count_cl (shld 4)"

definition handle_code_SHLD_RM64_R64_CL :: "'w handler" where
  "handle_code_SHLD_RM64_R64_CL = with_count count_cl (shld 8)"

definition handle_code_SHRD_RM16_R16_IMM8 :: "'w handler" where
  "handle_code_SHRD_RM16_R16_IMM8 = with_count count_imm8 (shrd 2)"

definition handle_code_SHRD_RM32_R32_IMM8 :: "'w handler" where
  "handle_code_SHRD_RM32_R32_IMM8 = with_count count_imm8 (shrd 4)"

definition handle_code_SHRD_RM64_R64_IMM8 :: "'w handler" where
  "handle_code_SHRD_RM64_R64_IMM8 = with_count count_imm8 (shrd 8)"

definition handle_code_SHRD_RM16_R16_CL :: "'w handler" where
  "handle_code_SHRD_RM16_R16_CL = with_count count_cl (shrd 2)"

definition handle_code_SHRD_RM32_R32_CL :: "'w handler" where
  "handle_code_SHRD_RM32_R32_CL = with_count count_cl (shrd 4)"

definition handle_code_SHRD_RM64_R64_CL :: "'w handler" where
  "handle_code_SHRD_RM64_R64_CL = with_count count_cl (shrd 8)"

end
