(* ===== verification/Shift_Facts.thy ===== *)
theory Shift_Facts
  imports Shift
begin

text \<open>
  Shifts against multiplication and division by powers of two, rotates against the permutation of bits they stand for; the loops of RCL
  and RCR rotate the number made of the carry flag and the operand. Both groups hold for every handler of \<^verbatim>\<open>shift.cpp\<close>.
\<close>

section \<open>Counts, masks and single bits\<close>

lemma width_mask_eq: "width_mask = mask_for_width"
  by (simp add: fun_eq_iff width_mask_def mask_for_width_def)

lemma msb_mask_eq: "msb_mask = sign_bit_for_width"
  by (simp add: fun_eq_iff msb_mask_def sign_bit_for_width_def)

lemma store_operand_checked: "write_operand_checked c 0 v w = store_operand w v c"
  by (simp add: write_operand_checked_def store_operand_def)

lemma and_one_bit: "v AND 1 = 0 \<longleftrightarrow> \<not> bit v 0" for v :: u64
  by (simp add: and_one_eq bit_0 odd_iff_mod_2_eq_one)

lemma drop_bit_and_one: "drop_bit k v AND 1 = 0 \<longleftrightarrow> \<not> bit v k" for v :: u64
  by (simp add: and_one_bit bit_drop_bit_eq del: bit_0)

lemma and_next_bit:
  assumes "0 < w" "w \<le> 8"
  shows "v AND drop_bit 1 (sign_bit_for_width w) = 0 \<longleftrightarrow> \<not> bit v (8 * w - 2)"
proof -
  have "drop_bit 1 (sign_bit_for_width w) = push_bit (8 * w - 2) 1"
    using assms by (intro bit_word_eqI) (auto simp: sign_bit_for_width_def bit_drop_bit_eq bit_exp_iff)
  then show ?thesis by simp
qed

text \<open>The count after masking.\<close>

definition count_period :: "nat \<Rightarrow> nat" where
  "count_period w = (if w = 8 then 64 else 32)"

lemma and_count_mask:
  "unat (v AND 0x3F) = unat v mod 64" "unat (v AND 0x1F) = unat v mod 32" for v :: u64
proof -
  have "v AND 0x3F = take_bit 6 v" "v AND 0x1F = take_bit 5 v"
    by (simp_all add: take_bit_eq_mask mask_eq_exp_minus_1)
  then show "unat (v AND 0x3F) = unat v mod 64" "unat (v AND 0x1F) = unat v mod 32"
    by (simp_all only: unsigned_take_bit_eq) (simp_all add: take_bit_eq_mod)
qed

lemma masked_count_eq: "valid_width w \<Longrightarrow> masked_count w v = unat v mod count_period w"
  by (auto simp: masked_count_def count_period_def and_count_mask valid_width_def)

lemma shift_count_mask_eq: "valid_width w \<Longrightarrow> unat (v AND shift_count_mask w) = unat v mod count_period w"
  by (auto simp: shift_count_mask_def count_period_def and_count_mask valid_width_def)

text \<open>The count a handler is given.\<close>

fun shift_count :: "shift_count_source \<Rightarrow> 'w ctx \<Rightarrow> nat" where
  "shift_count SC_one c = 1"
| "shift_count SC_cl c = unat (read_register (state c) CL)"
| "shift_count SC_imm8 c = unat (immediate8 (instr c))"

lemma read_shift_count_eq:
  assumes "valid_width w"
  shows "unat (read_shift_count c source w) = shift_count source c mod count_period w"
  using assms by (cases source) (simp_all add: shift_count_mask_eq count_period_def)

fun count_of :: "shift_count_source \<Rightarrow> 'w ctx \<Rightarrow> u64" where
  "count_of SC_one = count_one"
| "count_of SC_cl = count_cl"
| "count_of SC_imm8 = count_imm8"

lemma count_of_eq: "unat (count_of source c) = shift_count source c"
  by (cases source) (simp_all add: count_one_def count_cl_def count_imm8_def)

section \<open>Reference semantics of shifts\<close>

datatype shift_op = S_SHL | S_SHR | S_SAR | S_SHLD | S_SHRD

text \<open>The value of a \<open>w\<close>-byte operand \<open>x\<close> shifted by \<open>n\<close>; SHLD and SHRD shift in the bits of \<open>y\<close>.\<close>

fun shifted :: "shift_op \<Rightarrow> nat \<Rightarrow> nat \<Rightarrow> u64 \<Rightarrow> u64 \<Rightarrow> int" where
  "shifted S_SHL w n x y = (uval w x * 2 ^ n) mod 2 ^ (8 * w)"
| "shifted S_SHR w n x y = uval w x div 2 ^ n"
| "shifted S_SAR w n x y = (sval w x div 2 ^ n) mod 2 ^ (8 * w)"
| "shifted S_SHLD w n x y = ((uval w x * 2 ^ (8 * w) + uval w y) * 2 ^ n div 2 ^ (8 * w)) mod 2 ^ (8 * w)"
| "shifted S_SHRD w n x y = ((uval w y * 2 ^ (8 * w) + uval w x) div 2 ^ n) mod 2 ^ (8 * w)"

text \<open>The last bit shifted out.\<close>

fun shifted_out :: "shift_op \<Rightarrow> nat \<Rightarrow> nat \<Rightarrow> u64 \<Rightarrow> bool" where
  "shifted_out S_SHL w n x = bit (uval w x * 2 ^ n) (8 * w)"
| "shifted_out S_SHR w n x = bit (uval w x) (n - 1)"
| "shifted_out S_SAR w n x = bit (sval w x) (n - 1)"
| "shifted_out S_SHLD w n x = bit (uval w x * 2 ^ n) (8 * w)"
| "shifted_out S_SHRD w n x = bit (uval w x) (n - 1)"

fun shift_amount :: "shift_op \<Rightarrow> nat \<Rightarrow> nat \<Rightarrow> nat" where
  "shift_amount S_SHLD w k = k mod count_period w mod (8 * w)"
| "shift_amount S_SHRD w k = k mod count_period w mod (8 * w)"
| "shift_amount _ w k = k mod count_period w"

text \<open>Result and flags of a shift by \<open>n\<close>; the overflow flag is defined for a count of one only, where it says
  that the sign has changed.\<close>

definition shift_effect :: "shift_op \<Rightarrow> nat \<Rightarrow> nat \<Rightarrow> u64 \<Rightarrow> u64 \<Rightarrow> u64 \<Rightarrow> cpu_state \<Rightarrow> cpu_state \<Rightarrow> bool" where
  "shift_effect op w n x y r s s' \<longleftrightarrow>
     (if n = 0 then s' = s \<and> uint r = uval w x
      else uint r = shifted op w n x y \<and> (flag_CF s' \<longleftrightarrow> shifted_out op w n x) \<and> \<not> flag_AF s' \<and>
           (n = 1 \<longrightarrow> (flag_OF s' \<longleftrightarrow> (sval w r < 0) \<noteq> (sval w x < 0))) \<and>
           result_flags w r s' \<and> only_status_flags s s')"

lemma uint_push_masked:
  assumes "w \<le> 8"
  shows "uint (push_bit n v AND mask_for_width w) = (uval w v * 2 ^ n) mod 2 ^ (8 * w)"
proof -
  have "uint (push_bit n v AND mask_for_width w) = take_bit (8 * w) (push_bit n (uint v))"
    using assms by (simp add: uint_masked uval_def unsigned_push_bit_eq take_bit_take_bit min_def)
  also have "\<dots> = take_bit (8 * w) (push_bit n (uval w v))"
    by (auto simp: uval_def take_bit_push_bit take_bit_take_bit intro: bit_eqI)
  finally show ?thesis by (simp add: take_bit_eq_mod push_bit_eq_mult)
qed

lemma bit_mult_exp: "bit (k * 2 ^ n) m \<longleftrightarrow> n \<le> m \<and> bit k (m - n)" for k :: int
  using bit_push_bit_iff [of n k m] by (simp add: push_bit_eq_mult)

lemma bit_div_exp: "bit (k div 2 ^ n) m \<longleftrightarrow> bit k (n + m)" for k :: int
  using bit_drop_bit_eq [of n k] by (simp add: drop_bit_eq_div fun_eq_iff)

lemma bit_uval_iff: "bit (uval w v) k \<longleftrightarrow> k < 8 * w \<and> bit v k"
  by (auto simp: uval_def bit_take_bit_iff bit_uint_iff dest: bit_imp_le_length)

lemma bit_sval_iff: "bit (sval w v) k \<longleftrightarrow> bit v (min k (8 * w - 1))" if "0 < w" "w \<le> 8"
  using that by (auto simp: sval_def bit_signed_take_bit_iff bit_uint_iff min_def)

lemma uint_masked_less: "w \<le> 8 \<Longrightarrow> uint (v AND mask_for_width w) < 2 ^ (8 * w)"
  using uval_bounds [of w v] by (simp add: uint_masked)

lemma uval_masked [simp]: "uval w (v AND mask_for_width w) = uval w v"
  by (simp add: uval_def and_mask_for_width unsigned_take_bit_eq take_bit_take_bit)

lemma sval_masked [simp]: "0 < w \<Longrightarrow> w \<le> 8 \<Longrightarrow> sval w (v AND mask_for_width w) = sval w v"
  by (simp add: sval_uval bit_masked)

lemma sint_sign_extend: "0 < w \<Longrightarrow> w \<le> 8 \<Longrightarrow> sint (sign_extend v w) = sval w v"
  by (rule bit_eqI) (auto simp: sign_extend_eq bit_sint_iff bit_signed_take_bit_iff bit_sval_iff min_def)

lemma uint_signed_drop:
  assumes "0 < w" "w \<le> 8"
  shows "uint (signed_drop_bit n (sign_extend v w) AND mask_for_width w) = (sval w v div 2 ^ n) mod 2 ^ (8 * w)"
proof -
  have "uval w u = sint u mod 2 ^ (8 * w)" for u
    using assms(2) uval_of_int [of w "sint u"] by simp
  then show ?thesis
    using assms by (simp add: uint_masked sint_signed_drop_bit_eq sint_sign_extend drop_bit_eq_div)
qed

fun op_of :: "shift_kind \<Rightarrow> shift_op" where
  "op_of SK_left = S_SHL" | "op_of SK_logical_right = S_SHR" | "op_of SK_arithmetic_right = S_SAR"

lemma uval_div_exp_0: "8 * w \<le> n \<Longrightarrow> uval w v div 2 ^ n = 0"
  by (intro bit_eqI) (auto simp: bit_div_exp bit_uval_iff)

lemma sval_div_exp:
  assumes "0 < w" "w \<le> 8" "8 * w \<le> n"
  shows "sval w v div 2 ^ n = (if bit v (8 * w - 1) then - 1 else 0)"
  using assms by (intro bit_eqI) (auto simp: bit_div_exp bit_sval_iff min_def)

lemma bit_concat:
  fixes a b :: int
  assumes "0 \<le> b" "b < 2 ^ N"
  shows "bit (a * 2 ^ N + b) k \<longleftrightarrow> (if k < N then bit b k else bit a (k - N))"
proof -
  have b: "bit b j \<Longrightarrow> j < N" for j using assms by (metis bit_take_bit_iff take_bit_int_eq_self)
  have "push_bit N a + b = push_bit N a OR b"
    by (rule disjunctive_add) (auto simp: bit_push_bit_iff dest: b)
  then show ?thesis by (auto simp: push_bit_eq_mult [symmetric] bit_or_iff bit_push_bit_iff dest: b)
qed

lemma bit_mod_exp: "bit (k mod 2 ^ n) m \<longleftrightarrow> m < n \<and> bit k m" for k :: int
  by (simp add: take_bit_eq_mod [symmetric] bit_take_bit_iff)

lemmas bit_shifts = bit_mod_exp bit_mult_exp bit_div_exp bit_uval_iff bit_sval_iff bit_concat [OF uval_bounds]

text \<open>The three cases of the count in each direction are one formula.\<close>

lemma shift_result_spec:
  assumes "valid_width w" "0 < n"
  shows "uint (fst (shift_result kind w (v AND mask_for_width w) n)) = shifted (op_of kind) w n v y"
    and "snd (shift_result kind w (v AND mask_for_width w) n) = shifted_out (op_of kind) w n v"
proof -
  have w: "0 < w" "w \<le> 8" using valid_width_bounds [OF assms(1)] by auto
  have dr: "uint (drop_bit n (v AND mask_for_width w)) = uval w v div 2 ^ n"
    using w by (intro bit_eqI) (auto simp: bit_div_exp bit_uval_iff bit_uint_iff bit_drop_bit_eq bit_and_iff bit_mask_for_width dest: bit_imp_le_length)
  have zero: "8 * w \<le> n \<Longrightarrow> uval w v * 2 ^ n mod 2 ^ (8 * w) = 0"
    by (simp add: mod_eq_0_iff_dvd le_imp_power_dvd dvd_mult)
  have ones: "uint (mask_for_width w) = (- 1) mod 2 ^ (8 * w)"
    using w by (intro bit_eqI) (auto simp: take_bit_eq_mod [symmetric] bit_take_bit_iff bit_uint_iff bit_mask_for_width bit_minus_1_iff bit_mask_iff)
  show "uint (fst (shift_result kind w (v AND mask_for_width w) n)) = shifted (op_of kind) w n v y"
    using w ones zero uval_div_exp_0 [of w n v] sval_div_exp [of w n v] uint_signed_drop [of w n "v AND mask_for_width w"]
    by (cases kind) (auto simp: shift_result_def Let_def uint_push_masked dr mult.commute [of w 8] sign_of_masked
        simp del: push_bit_and drop_bit_and)
  have top: "n - 1 \<le> 8 * w - 1 \<Longrightarrow> \<not> n < 8 * w \<Longrightarrow> n = 8 * w" using w assms(2) by linarith
  show "snd (shift_result kind w (v AND mask_for_width w) n) = shifted_out (op_of kind) w n v"
    using w assms(2) top
    by (cases kind) (auto simp: shift_result_def Let_def mult.commute [of w 8] drop_bit_and_one and_one_bit bit_drop_bit_eq bit_masked
        bit_mult_exp bit_uval_iff bit_sval_iff sign_of_masked min_def simp del: push_bit_and drop_bit_and)
qed

section \<open>Handlers of shifts\<close>

lemma result_flags_put:
  assumes "valid_width w" "uint r < 2 ^ (8 * w)"
  shows "result_flags w r s' \<longleftrightarrow> (flag_ZF s' \<longleftrightarrow> r = 0) \<and> (flag_SF s' \<longleftrightarrow> r AND sign_bit_for_width w \<noteq> 0) \<and>
    (flag_PF s' \<longleftrightarrow> even_parity (low_byte r))"
proof -
  have w: "0 < w" "w \<le> 8" using valid_width_bounds [OF assms(1)] by auto
  have u: "uval w r = uint r" using assms(2) by (simp add: uval_def take_bit_int_eq_self)
  then have m: "r AND mask_for_width w = r" using w uint_masked [of w r] by (simp add: word_uint_eq_iff)
  show ?thesis
    using w parity_of_result [of w r] by (simp add: result_flags_def u m sval_neg and_sign_bit uint_0_iff del: One_nat_def)
qed

lemma shifted_bounds:
  assumes "0 < w" "w \<le> 8"
  shows "shifted op w n x y < 2 ^ (8 * w)"
proof (cases op)
  case S_SHR
  then show ?thesis using uval_bounds [of w x] zdiv_mono2 [of "uval w x" 1 "2 ^ n"] by simp
qed simp_all

lemma sign_after_shift:
  assumes "0 < w" "w \<le> 8" "uint r = shifted op w 1 x y"
  shows "(sval w r < 0) \<longleftrightarrow> (case op of S_SHL \<Rightarrow> bit x (8 * w - 2) | S_SHLD \<Rightarrow> bit x (8 * w - 2) | S_SHR \<Rightarrow> False
    | S_SAR \<Rightarrow> bit x (8 * w - 1) | S_SHRD \<Rightarrow> bit y 0)"
proof -
  have "bit r (8 * w - 1) \<longleftrightarrow> bit (shifted op w 1 x y) (8 * w - 1)"
    using assms bit_uint_iff [of r "8 * w - 1"] by auto
  moreover have "bit (shifted op w 1 x y) (8 * w - 1) \<longleftrightarrow> (case op of S_SHL \<Rightarrow> bit x (8 * w - 2) | S_SHLD \<Rightarrow> bit x (8 * w - 2)
    | S_SHR \<Rightarrow> False | S_SAR \<Rightarrow> bit x (8 * w - 1) | S_SHRD \<Rightarrow> bit y 0)"
    using assms(1,2) mult_le_mono2 [of 1 w 8]
    by (cases op; simp only: shifted.simps bit_shifts shift_op.case) (auto simp: min_def numeral_2_eq_2, arith)
  ultimately show ?thesis using assms(1,2) by (simp add: sval_neg)
qed

lemma shift_rm_effect:
  assumes "valid_width w" "read_operand c 0 w = (Some x, c1)"
  shows "\<exists>r s'. shift_rm w kind source c = store_operand w r (c1\<lparr>state := s'\<rparr>) \<and>
    shift_effect (op_of kind) w (shift_count source c mod count_period w) x y r (state c) s'"
proof -
  have w: "0 < w" "w \<le> 8" using valid_width_bounds [OF assms(1)] by auto
  obtain m where c1: "c1 = c\<lparr>mem := m\<rparr>" using read_operand_mem [of c 0 w] assms(2) by auto
  define n where "n = shift_count source c mod count_period w"
  have cnt: "unat (read_shift_count c1 source w) = n"
    using read_shift_count_eq [OF assms(1), of c1 source] by (cases source) (simp_all add: n_def c1)
  have run: "read_operand_checked c 0 w = (Inr x, c1)" by (simp add: read_operand_checked_def assms(2))
  show ?thesis
  proof (cases "n = 0")
    case True
    then have "read_shift_count c1 source w = 0" using cnt by (simp add: unat_eq_0)
    then have "shift_rm w kind source c = store_operand w (x AND mask_for_width w) (c1\<lparr>state := state c\<rparr>)"
      by (simp add: shift_rm_def run store_operand_checked c1)
    then show ?thesis using True w by (auto simp: shift_effect_def uint_masked n_def [symmetric])
  next
    case False
    then have nz: "read_shift_count c1 source w \<noteq> 0" using cnt by auto
    define v where "v = x AND mask_for_width w"
    obtain r cf where r: "shift_result kind w v n = (r, cf)" by fastforce
    have spec: "uint r = shifted (op_of kind) w n x y" "cf = shifted_out (op_of kind) w n x"
      using shift_result_spec [OF assms(1), of n kind x] False r by (auto simp: v_def)
    define s' where "s' = put_flags [(kFlagCF, cf), (kFlagAF, False), (kFlagZF, r = 0),
        (kFlagSF, r AND sign_bit_for_width w \<noteq> 0), (kFlagPF, even_parity (low_byte r)),
        (kFlagOF, shift_overflow kind w v)] (state c)"
    have run': "shift_rm w kind source c = store_operand w r (c1\<lparr>state := s'\<rparr>)"
      using nz r cnt by (simp add: shift_rm_def run store_operand_checked c1 v_def s'_def Let_def)
    have "result_flags w r s'"
      using result_flags_put [OF assms(1), of r s'] spec(1) shifted_bounds [OF w, of "op_of kind" n x y] by (simp add: s'_def)
    moreover have "only_status_flags (state c) s'" by (simp add: only_status_flags_def s'_def)
    moreover have "n = 1 \<Longrightarrow> shift_overflow kind w v \<longleftrightarrow> (sval w r < 0) \<noteq> (sval w x < 0)"
      using w spec(1) sign_after_shift [OF w, of r "op_of kind" x y]
      by (cases kind) (auto simp: shift_overflow_def and_sign_bit and_next_bit v_def bit_masked sval_neg simp del: One_nat_def)
    ultimately have "shift_effect (op_of kind) w n x y r (state c) s'"
      using False spec by (simp add: shift_effect_def s'_def)
    then show ?thesis using run' by (auto simp: n_def)
  qed
qed

section \<open>SHLD and SHRD\<close>

lemma shld_result:
  assumes "0 < w" "w \<le> 8" "0 < n" "n < 8 * w"
  shows "uint ((push_bit n x OR drop_bit (8 * w - n) (y AND mask_for_width w)) AND mask_for_width w) = shifted S_SHLD w n x y"
proof (rule bit_eqI)
  fix k
  have "k < n \<Longrightarrow> 8 * w - n + k = 8 * w + k - n" using assms by linarith
  then show "bit (uint ((push_bit n x OR drop_bit (8 * w - n) (y AND mask_for_width w)) AND mask_for_width w)) k =
      bit (shifted S_SHLD w n x y) k"
    using assms unfolding shifted.simps bit_shifts
    by (auto simp: bit_uint_iff bit_and_iff bit_or_iff bit_push_bit_iff bit_drop_bit_eq bit_mask_for_width
        dest: bit_imp_le_length)
qed

lemma shrd_result:
  assumes "0 < w" "w \<le> 8" "0 < n" "n < 8 * w" "uint x < 2 ^ (8 * w)"
  shows "uint ((drop_bit n x OR push_bit (8 * w - n) (y AND mask_for_width w)) AND mask_for_width w) = shifted S_SHRD w n x y"
proof (rule bit_eqI)
  fix k
  have x: "bit x j \<Longrightarrow> j < 8 * w" for j
    using bit_uval_iff [of w x j] assms(5) bit_imp_le_length [of x j]
    by (simp add: uval_def take_bit_int_eq_self bit_uint_iff)
  show "bit (uint ((drop_bit n x OR push_bit (8 * w - n) (y AND mask_for_width w)) AND mask_for_width w)) k =
      bit (shifted S_SHRD w n x y) k"
    using assms(1-4) unfolding shifted.simps bit_shifts
    by (auto simp: bit_uint_iff bit_and_iff bit_or_iff bit_push_bit_iff bit_drop_bit_eq bit_mask_for_width add.commute [of k n]
        dest: bit_imp_le_length x)
qed

lemma double_shift_effect:
  assumes w: "valid_width w" and n: "n \<noteq> 0"
    and r: "uint r = shifted op w n x y" and cf: "cf \<longleftrightarrow> shifted_out op w n x"
    and ov: "n = 1 \<Longrightarrow> ov \<longleftrightarrow> (sval w r < 0) \<noteq> (sval w x < 0)"
  shows "shift_effect op w n x y r s (double_shift_flags w r cf ov s)"
proof -
  have b: "0 < w" "w \<le> 8" using valid_width_bounds [OF w] by auto
  have "uint r < 2 ^ (8 * w)" using shifted_bounds [OF b, of op n x y] r by simp
  moreover from this have "r AND mask_for_width w = r"
    using b by (simp add: word_uint_eq_iff uint_masked uval_def take_bit_int_eq_self)
  ultimately have "result_flags w r (double_shift_flags w r cf ov s)"
    using result_flags_put [OF w, of r] by (simp add: double_shift_flags_def width_mask_eq msb_mask_eq)
  moreover have "only_status_flags s (double_shift_flags w r cf ov s)"
    by (simp add: only_status_flags_def double_shift_flags_def)
  ultimately show ?thesis using n r cf ov by (simp add: shift_effect_def double_shift_flags_def)
qed

lemma double_shift_cases:
  assumes w: "valid_width w"
    and zero: "n = 0 \<Longrightarrow> res = store_operand w (x AND mask_for_width w) (c1\<lparr>state := s\<rparr>)"
    and run: "n \<noteq> 0 \<Longrightarrow> res = store_operand w r (c1\<lparr>state := double_shift_flags w r cf ov s\<rparr>)"
    and r: "n \<noteq> 0 \<Longrightarrow> uint r = shifted op w n x y" and cf: "n \<noteq> 0 \<Longrightarrow> cf \<longleftrightarrow> shifted_out op w n x"
    and ov: "n = 1 \<Longrightarrow> ov \<longleftrightarrow> (sval w r < 0) \<noteq> (sval w x < 0)"
  shows "\<exists>r s'. res = store_operand w r (c1\<lparr>state := s'\<rparr>) \<and> shift_effect op w n x y r s s'"
proof (cases "n = 0")
  case True
  then have "uint (x AND mask_for_width w) = uval w x" using valid_width_bounds [OF w] by (simp add: uint_masked)
  then show ?thesis using zero True by (auto simp: shift_effect_def)
next
  case False
  then show ?thesis using double_shift_effect [OF w False r cf ov] run by blast
qed

lemma shld_effect:
  assumes "valid_width w" "read_operand c 0 w = (Some x, c1)"
  shows "\<exists>r s'. with_count (count_of source) (shld w) c = store_operand w r (c1\<lparr>state := s'\<rparr>) \<and>
    shift_effect S_SHLD w (shift_amount S_SHLD w (shift_count source c)) x (read_register (state c) (op_register (instr c) 1))
      r (state c) s'"
proof -
  have w: "0 < w" "w \<le> 8" using valid_width_bounds [OF assms(1)] by auto
  obtain m where c1: "c1 = c\<lparr>mem := m\<rparr>" using read_operand_mem [of c 0 w] assms(2) by auto
  define n where "n = shift_amount S_SHLD w (shift_count source c)"
  define y where "y = read_register (state c) (op_register (instr c) 1)"
  define r where "r = (push_bit n x OR drop_bit (8 * w - n) (y AND mask_for_width w)) AND mask_for_width w"
  define cf where "cf = bit x (8 * w - n)"
  define ov where "ov = (if n = 1 then bit r (8 * w - 1) \<noteq> cf else False)"
  have cnt': "masked_count w (count_of source c) mod (8 * w) = n"
    using masked_count_eq [OF assms(1)] by (simp add: n_def count_of_eq mult.commute)
  have n: "n < 8 * w" using w by (simp add: n_def)
  have "\<exists>r s'. with_count (count_of source) (shld w) c = store_operand w r (c1\<lparr>state := s'\<rparr>) \<and>
      shift_effect S_SHLD w n x y r (state c) s'"
  proof (rule double_shift_cases [OF assms(1), where r = r and cf = cf and ov = ov])
    show "n \<noteq> 0 \<Longrightarrow> uint r = shifted S_SHLD w n x y" using shld_result [OF w _ n] by (simp add: r_def)
    show "n \<noteq> 0 \<Longrightarrow> cf \<longleftrightarrow> shifted_out S_SHLD w n x" using n by (auto simp: cf_def bit_mult_exp bit_uval_iff)
    show "n = 1 \<Longrightarrow> ov \<longleftrightarrow> (sval w r < 0) \<noteq> (sval w x < 0)" using w by (auto simp: ov_def cf_def sval_neg)
  qed (use w n in \<open>simp_all add: cnt' with_count_def shld_def with_operand_def assms(2) Let_def width_mask_eq msb_mask_eq c1
      r_def y_def mult.commute [of w 8] and_sign_bit drop_bit_and_one cf_def ov_def
      del: One_nat_def\<close>)
  then show ?thesis by (simp add: n_def y_def)
qed

lemma shrd_effect:
  assumes "valid_width w" "read_operand c 0 w = (Some x, c1)" "uint x < 2 ^ (8 * w)"
  shows "\<exists>r s'. with_count (count_of source) (shrd w) c = store_operand w r (c1\<lparr>state := s'\<rparr>) \<and>
    shift_effect S_SHRD w (shift_amount S_SHRD w (shift_count source c)) x (read_register (state c) (op_register (instr c) 1))
      r (state c) s'"
proof -
  have w: "0 < w" "w \<le> 8" using valid_width_bounds [OF assms(1)] by auto
  obtain m where c1: "c1 = c\<lparr>mem := m\<rparr>" using read_operand_mem [of c 0 w] assms(2) by auto
  define n where "n = shift_amount S_SHRD w (shift_count source c)"
  define y where "y = read_register (state c) (op_register (instr c) 1)"
  define r where "r = (drop_bit n x OR push_bit (8 * w - n) (y AND mask_for_width w)) AND mask_for_width w"
  define cf where "cf = bit x (n - 1)"
  define ov where "ov = (if n = 1 then bit x (8 * w - 1) \<noteq> bit r (8 * w - 1) else False)"
  have cnt': "masked_count w (count_of source c) mod (8 * w) = n"
    using masked_count_eq [OF assms(1)] by (simp add: n_def count_of_eq mult.commute)
  have n: "n < 8 * w" using w by (simp add: n_def)
  have "\<exists>r s'. with_count (count_of source) (shrd w) c = store_operand w r (c1\<lparr>state := s'\<rparr>) \<and>
      shift_effect S_SHRD w n x y r (state c) s'"
  proof (rule double_shift_cases [OF assms(1), where r = r and cf = cf and ov = ov])
    show "n \<noteq> 0 \<Longrightarrow> uint r = shifted S_SHRD w n x y" using shrd_result [OF w _ n assms(3)] by (simp add: r_def)
    show "n \<noteq> 0 \<Longrightarrow> cf \<longleftrightarrow> shifted_out S_SHRD w n x" using n by (auto simp: cf_def bit_mult_exp bit_uval_iff)
    show "n = 1 \<Longrightarrow> ov \<longleftrightarrow> (sval w r < 0) \<noteq> (sval w x < 0)" using w by (auto simp: ov_def cf_def sval_neg)
  qed (use w n in \<open>simp_all add: cnt' with_count_def shrd_def with_operand_def assms(2) Let_def width_mask_eq msb_mask_eq c1
      r_def y_def mult.commute [of w 8] and_sign_bit drop_bit_and_one cf_def ov_def
      del: One_nat_def\<close>)
  then show ?thesis by (simp add: n_def y_def)
qed

section \<open>All shift handlers\<close>

text \<open>Every shift handler with the operation, width and count its mnemonic promises.\<close>

definition shift_catalog :: "('w handler \<times> shift_op \<times> nat \<times> shift_count_source) list" where
  "shift_catalog =
    [(handle_code_SHL_RM8_1, S_SHL, 1, SC_one),
     (handle_code_SHL_RM8_CL, S_SHL, 1, SC_cl),
     (handle_code_SHL_RM8_IMM8, S_SHL, 1, SC_imm8),
     (handle_code_SHL_RM16_1, S_SHL, 2, SC_one),
     (handle_code_SHL_RM16_CL, S_SHL, 2, SC_cl),
     (handle_code_SHL_RM16_IMM8, S_SHL, 2, SC_imm8),
     (handle_code_SHL_RM32_1, S_SHL, 4, SC_one),
     (handle_code_SHL_RM32_CL, S_SHL, 4, SC_cl),
     (handle_code_SHL_RM32_IMM8, S_SHL, 4, SC_imm8),
     (handle_code_SHL_RM64_1, S_SHL, 8, SC_one),
     (handle_code_SHL_RM64_CL, S_SHL, 8, SC_cl),
     (handle_code_SHL_RM64_IMM8, S_SHL, 8, SC_imm8),
     (handle_code_SHR_RM8_1, S_SHR, 1, SC_one),
     (handle_code_SHR_RM8_CL, S_SHR, 1, SC_cl),
     (handle_code_SHR_RM8_IMM8, S_SHR, 1, SC_imm8),
     (handle_code_SHR_RM16_1, S_SHR, 2, SC_one),
     (handle_code_SHR_RM16_CL, S_SHR, 2, SC_cl),
     (handle_code_SHR_RM16_IMM8, S_SHR, 2, SC_imm8),
     (handle_code_SHR_RM32_1, S_SHR, 4, SC_one),
     (handle_code_SHR_RM32_CL, S_SHR, 4, SC_cl),
     (handle_code_SHR_RM32_IMM8, S_SHR, 4, SC_imm8),
     (handle_code_SHR_RM64_1, S_SHR, 8, SC_one),
     (handle_code_SHR_RM64_CL, S_SHR, 8, SC_cl),
     (handle_code_SHR_RM64_IMM8, S_SHR, 8, SC_imm8),
     (handle_code_SAR_RM8_1, S_SAR, 1, SC_one),
     (handle_code_SAR_RM8_CL, S_SAR, 1, SC_cl),
     (handle_code_SAR_RM8_IMM8, S_SAR, 1, SC_imm8),
     (handle_code_SAR_RM16_1, S_SAR, 2, SC_one),
     (handle_code_SAR_RM16_CL, S_SAR, 2, SC_cl),
     (handle_code_SAR_RM16_IMM8, S_SAR, 2, SC_imm8),
     (handle_code_SAR_RM32_1, S_SAR, 4, SC_one),
     (handle_code_SAR_RM32_CL, S_SAR, 4, SC_cl),
     (handle_code_SAR_RM32_IMM8, S_SAR, 4, SC_imm8),
     (handle_code_SAR_RM64_1, S_SAR, 8, SC_one),
     (handle_code_SAR_RM64_CL, S_SAR, 8, SC_cl),
     (handle_code_SAR_RM64_IMM8, S_SAR, 8, SC_imm8),
     (handle_code_SAL_RM8_1, S_SHL, 1, SC_one),
     (handle_code_SAL_RM16_1, S_SHL, 2, SC_one),
     (handle_code_SAL_RM32_1, S_SHL, 4, SC_one),
     (handle_code_SAL_RM64_1, S_SHL, 8, SC_one),
     (handle_code_SAL_RM8_CL, S_SHL, 1, SC_cl),
     (handle_code_SAL_RM16_CL, S_SHL, 2, SC_cl),
     (handle_code_SAL_RM32_CL, S_SHL, 4, SC_cl),
     (handle_code_SAL_RM64_CL, S_SHL, 8, SC_cl),
     (handle_code_SAL_RM8_IMM8, S_SHL, 1, SC_imm8),
     (handle_code_SAL_RM16_IMM8, S_SHL, 2, SC_imm8),
     (handle_code_SAL_RM32_IMM8, S_SHL, 4, SC_imm8),
     (handle_code_SAL_RM64_IMM8, S_SHL, 8, SC_imm8),
     (handle_code_SHLD_RM16_R16_IMM8, S_SHLD, 2, SC_imm8),
     (handle_code_SHLD_RM32_R32_IMM8, S_SHLD, 4, SC_imm8),
     (handle_code_SHLD_RM64_R64_IMM8, S_SHLD, 8, SC_imm8),
     (handle_code_SHLD_RM16_R16_CL, S_SHLD, 2, SC_cl),
     (handle_code_SHLD_RM32_R32_CL, S_SHLD, 4, SC_cl),
     (handle_code_SHLD_RM64_R64_CL, S_SHLD, 8, SC_cl),
     (handle_code_SHRD_RM16_R16_IMM8, S_SHRD, 2, SC_imm8),
     (handle_code_SHRD_RM32_R32_IMM8, S_SHRD, 4, SC_imm8),
     (handle_code_SHRD_RM64_R64_IMM8, S_SHRD, 8, SC_imm8),
     (handle_code_SHRD_RM16_R16_CL, S_SHRD, 2, SC_cl),
     (handle_code_SHRD_RM32_R32_CL, S_SHRD, 4, SC_cl),
     (handle_code_SHRD_RM64_R64_CL, S_SHRD, 8, SC_cl)]"

definition shift_promise :: "'w handler \<times> shift_op \<times> nat \<times> shift_count_source \<Rightarrow> bool" where
  "shift_promise e \<longleftrightarrow> (case e of (h, op, w, source) \<Rightarrow> \<forall>c.
     (case read_operand c 0 w of
        (None, c1) \<Rightarrow> h c = (memory_fault c1 (memory_address c1), c1)
      | (Some x, c1) \<Rightarrow> uint x < 2 ^ (8 * w) \<longrightarrow>
          (\<exists>r s'. h c = store_operand w r (c1\<lparr>state := s'\<rparr>) \<and>
             shift_effect op w (shift_amount op w (shift_count source c)) x
               (read_register (state c) (op_register (instr c) 1)) r (state c) s')))"

lemma shift_rm_promise: "valid_width w \<Longrightarrow> shift_promise (shift_rm w kind source, op_of kind, w, source)"
  using shift_rm_effect
  by (cases kind) (fastforce simp: shift_promise_def shift_rm_def read_operand_checked_def split: prod.split option.split)+

lemma shld_promise: "valid_width w \<Longrightarrow> shift_promise (with_count (count_of source) (shld w), S_SHLD, w, source)"
  using shld_effect
  by (fastforce simp: shift_promise_def with_count_def shld_def with_operand_def split: prod.split option.split)

lemma shrd_promise: "valid_width w \<Longrightarrow> shift_promise (with_count (count_of source) (shrd w), S_SHRD, w, source)"
  using shrd_effect
  by (fastforce simp: shift_promise_def with_count_def shrd_def with_operand_def split: prod.split option.split)

lemmas shift_handler_defs =
  handle_code_SHL_RM8_1_def handle_code_SHL_RM8_CL_def handle_code_SHL_RM8_IMM8_def
  handle_code_SHL_RM16_1_def handle_code_SHL_RM16_CL_def handle_code_SHL_RM16_IMM8_def
  handle_code_SHL_RM32_1_def handle_code_SHL_RM32_CL_def handle_code_SHL_RM32_IMM8_def
  handle_code_SHL_RM64_1_def handle_code_SHL_RM64_CL_def handle_code_SHL_RM64_IMM8_def
  handle_code_SHR_RM8_1_def handle_code_SHR_RM8_CL_def handle_code_SHR_RM8_IMM8_def
  handle_code_SHR_RM16_1_def handle_code_SHR_RM16_CL_def handle_code_SHR_RM16_IMM8_def
  handle_code_SHR_RM32_1_def handle_code_SHR_RM32_CL_def handle_code_SHR_RM32_IMM8_def
  handle_code_SHR_RM64_1_def handle_code_SHR_RM64_CL_def handle_code_SHR_RM64_IMM8_def
  handle_code_SAR_RM8_1_def handle_code_SAR_RM8_CL_def handle_code_SAR_RM8_IMM8_def
  handle_code_SAR_RM16_1_def handle_code_SAR_RM16_CL_def handle_code_SAR_RM16_IMM8_def
  handle_code_SAR_RM32_1_def handle_code_SAR_RM32_CL_def handle_code_SAR_RM32_IMM8_def
  handle_code_SAR_RM64_1_def handle_code_SAR_RM64_CL_def handle_code_SAR_RM64_IMM8_def
  handle_code_SAL_RM8_1_def handle_code_SAL_RM16_1_def handle_code_SAL_RM32_1_def
  handle_code_SAL_RM64_1_def handle_code_SAL_RM8_CL_def handle_code_SAL_RM16_CL_def
  handle_code_SAL_RM32_CL_def handle_code_SAL_RM64_CL_def handle_code_SAL_RM8_IMM8_def
  handle_code_SAL_RM16_IMM8_def handle_code_SAL_RM32_IMM8_def handle_code_SAL_RM64_IMM8_def
  handle_code_ROL_RM8_1_def handle_code_ROL_RM16_1_def handle_code_ROL_RM32_1_def
  handle_code_ROL_RM64_1_def handle_code_ROL_RM8_CL_def handle_code_ROL_RM16_CL_def
  handle_code_ROL_RM32_CL_def handle_code_ROL_RM64_CL_def handle_code_ROL_RM8_IMM8_def
  handle_code_ROL_RM16_IMM8_def handle_code_ROL_RM32_IMM8_def handle_code_ROL_RM64_IMM8_def
  handle_code_ROR_RM8_1_def handle_code_ROR_RM16_1_def handle_code_ROR_RM32_1_def
  handle_code_ROR_RM64_1_def handle_code_ROR_RM8_CL_def handle_code_ROR_RM16_CL_def
  handle_code_ROR_RM32_CL_def handle_code_ROR_RM64_CL_def handle_code_ROR_RM8_IMM8_def
  handle_code_ROR_RM16_IMM8_def handle_code_ROR_RM32_IMM8_def handle_code_ROR_RM64_IMM8_def
  handle_code_RCL_RM8_1_def handle_code_RCL_RM16_1_def handle_code_RCL_RM32_1_def
  handle_code_RCL_RM64_1_def handle_code_RCL_RM8_CL_def handle_code_RCL_RM16_CL_def
  handle_code_RCL_RM32_CL_def handle_code_RCL_RM64_CL_def handle_code_RCL_RM8_IMM8_def
  handle_code_RCL_RM16_IMM8_def handle_code_RCL_RM32_IMM8_def handle_code_RCL_RM64_IMM8_def
  handle_code_RCR_RM8_1_def handle_code_RCR_RM16_1_def handle_code_RCR_RM32_1_def
  handle_code_RCR_RM64_1_def handle_code_RCR_RM8_CL_def handle_code_RCR_RM16_CL_def
  handle_code_RCR_RM32_CL_def handle_code_RCR_RM64_CL_def handle_code_RCR_RM8_IMM8_def
  handle_code_RCR_RM16_IMM8_def handle_code_RCR_RM32_IMM8_def handle_code_RCR_RM64_IMM8_def
  handle_code_SHLD_RM16_R16_IMM8_def handle_code_SHLD_RM32_R32_IMM8_def handle_code_SHLD_RM64_R64_IMM8_def
  handle_code_SHLD_RM16_R16_CL_def handle_code_SHLD_RM32_R32_CL_def handle_code_SHLD_RM64_R64_CL_def
  handle_code_SHRD_RM16_R16_IMM8_def handle_code_SHRD_RM32_R32_IMM8_def handle_code_SHRD_RM64_R64_IMM8_def
  handle_code_SHRD_RM16_R16_CL_def handle_code_SHRD_RM32_R32_CL_def handle_code_SHRD_RM64_R64_CL_def

lemmas shift_promises =
  shift_rm_promise [where kind = SK_left, unfolded op_of.simps]
  shift_rm_promise [where kind = SK_logical_right, unfolded op_of.simps]
  shift_rm_promise [where kind = SK_arithmetic_right, unfolded op_of.simps]
  shld_promise [where source = SC_cl, unfolded count_of.simps] shld_promise [where source = SC_imm8, unfolded count_of.simps]
  shrd_promise [where source = SC_cl, unfolded count_of.simps] shrd_promise [where source = SC_imm8, unfolded count_of.simps]

lemma shift_catalog_promises: "list_all shift_promise shift_catalog"
  by (simp add: shift_catalog_def shift_handler_defs shift_promises)

section \<open>Reference semantics of rotates\<close>

datatype rotate_op = R_ROL | R_ROR | R_RCL | R_RCR

text \<open>The bits that RCL and RCR rotate: the operand with the carry flag on top of it.\<close>

definition ring :: "nat \<Rightarrow> u64 \<Rightarrow> bool \<Rightarrow> nat \<Rightarrow> bool" where
  "ring w x cf i \<longleftrightarrow> (if i < 8 * w then bit x i else cf)"

definition rotated :: "nat \<Rightarrow> nat \<Rightarrow> (nat \<Rightarrow> bool) \<Rightarrow> (nat \<Rightarrow> bool) \<Rightarrow> bool" where
  "rotated N n f g \<longleftrightarrow> (\<forall>i<N. g ((i + n) mod N) = f i)"

lemma rotated_flip:
  assumes "rotated N (N - k) f g" "k < N"
  shows "rotated N k g f"
  unfolding rotated_def
proof (intro allI impI)
  fix i assume i: "i < N"
  have "((i + k) mod N + (N - k)) mod N = (i + k + (N - k)) mod N" by (simp add: mod_add_left_eq)
  also have "\<dots> = i" using i assms(2) by simp
  finally have "((i + k) mod N + (N - k)) mod N = i" .
  moreover have "(i + k) mod N < N" using i by simp
  ultimately show "f ((i + k) mod N) = g i" using assms(1) unfolding rotated_def by metis
qed

lemma rotated_compose:
  assumes "rotated N a f g" "rotated N b g h"
  shows "rotated N (a + b) f h"
  unfolding rotated_def
proof (intro allI impI)
  fix i assume i: "i < N"
  have "h (((i + a) mod N + b) mod N) = g ((i + a) mod N)" using assms(2) i by (simp add: rotated_def)
  then show "h ((i + (a + b)) mod N) = f i" using assms(1) i by (simp add: rotated_def mod_add_left_eq add.assoc)
qed

lemma rotated_0: "rotated N 0 f f"
  by (simp add: rotated_def)

definition narrow :: "nat \<Rightarrow> u64 \<Rightarrow> bool" where
  "narrow w x \<longleftrightarrow> (\<forall>i. bit x i \<longrightarrow> i < 8 * w)"

lemma narrow_iff:
  assumes "w \<le> 8"
  shows "narrow w x \<longleftrightarrow> uint x < 2 ^ (8 * w)"
proof -
  have "uint x < 2 ^ (8 * w) \<longleftrightarrow> take_bit (8 * w) (uint x) = uint x" by (simp add: take_bit_int_eq_self_iff)
  also have "\<dots> \<longleftrightarrow> take_bit (8 * w) x = x" by (simp add: word_uint_eq_iff unsigned_take_bit_eq)
  also have "\<dots> \<longleftrightarrow> narrow w x"
    by (auto simp: narrow_def bit_eq_iff bit_take_bit_iff)
      (use bit_imp_le_length [of x] in fastforce)
  finally show ?thesis by simp
qed

lemma narrow_masked: "narrow w (v AND mask_for_width w)"
  by (simp add: narrow_def bit_masked)

lemma rotate_left_result:
  assumes "0 < k" "k < 8 * w" "w \<le> 8" "narrow w x"
  shows "rotated (8 * w) k (bit x) (bit ((push_bit k x OR drop_bit (8 * w - k) x) AND mask_for_width w))"
  unfolding rotated_def
proof (intro allI impI)
  fix i assume i: "i < 8 * w"
  have m: "(i + k) mod (8 * w) = (if i + k < 8 * w then i + k else i + k - 8 * w)"
    using i assms(2) by (simp add: le_mod_geq)
  have x: "\<not> bit x (8 * w - k + (i + k))" "i + k < 8 * w \<Longrightarrow> i + k < 64" "8 * w \<le> i + k \<Longrightarrow> i + k - 8 * w < 64"
    using assms i by (auto simp: narrow_def)
  show "bit ((push_bit k x OR drop_bit (8 * w - k) x) AND mask_for_width w) ((i + k) mod (8 * w)) = bit x i"
    using i x assms unfolding m
    by (auto simp: bit_and_iff bit_or_iff bit_push_bit_iff bit_drop_bit_eq bit_mask_for_width dest: bit_imp_le_length)
qed

lemma rotate_right_result:
  assumes "0 < k" "k < 8 * w" "w \<le> 8" "narrow w x"
  shows "rotated (8 * w) k (bit ((drop_bit k x OR push_bit (8 * w - k) x) AND mask_for_width w)) (bit x)"
proof -
  have "drop_bit k x OR push_bit (8 * w - k) x = push_bit (8 * w - k) x OR drop_bit (8 * w - (8 * w - k)) x"
    using assms(2) by (simp add: or.commute)
  then have "rotated (8 * w) (8 * w - k) (bit x) (bit ((drop_bit k x OR push_bit (8 * w - k) x) AND mask_for_width w))"
    using rotate_left_result [of "8 * w - k" w x] assms by simp
  then show ?thesis using assms(2) by (rule rotated_flip)
qed

text \<open>One iteration of either loop rotates by one, so the loop rotates by the number of iterations.\<close>

definition rcl_next :: "nat \<Rightarrow> u64 \<Rightarrow> bool \<Rightarrow> u64" where
  "rcl_next w v cf = (push_bit 1 v AND mask_for_width w) OR (if cf then 1 else 0)"

definition rcr_next :: "nat \<Rightarrow> u64 \<Rightarrow> bool \<Rightarrow> u64" where
  "rcr_next w v cf = (drop_bit 1 v OR (if cf then sign_bit_for_width w else 0)) AND mask_for_width w"

lemma rcl_loop_Suc: "0 < w \<Longrightarrow> rcl_loop w (Suc n) v cf = rcl_loop w n (rcl_next w v cf) (bit v (8 * w - 1))"
  by (simp add: Let_def width_mask_eq msb_mask_eq and_sign_bit rcl_next_def)

lemma rcr_loop_Suc: "rcr_loop w (Suc n) v cf = rcr_loop w n (rcr_next w v cf) (bit v 0)"
  by (simp add: Let_def width_mask_eq msb_mask_eq and_one_bit rcr_next_def del: bit_0)

lemma bit_rcl_next:
  assumes "0 < w" "w \<le> 8"
  shows "bit (rcl_next w v cf) j \<longleftrightarrow> j < 8 * w \<and> (if j = 0 then cf else bit v (j - 1))"
  using assms unfolding rcl_next_def bit_or_iff bit_and_iff bit_push_bit_iff bit_mask_for_width
  by (cases j) (auto simp: bit_1_iff)

lemma bit_rcr_next:
  assumes "0 < w" "w \<le> 8" "narrow w v"
  shows "bit (rcr_next w v cf) j \<longleftrightarrow> j < 8 * w \<and> (if j = 8 * w - 1 then cf else bit v (j + 1))"
  using assms unfolding rcr_next_def bit_or_iff bit_and_iff bit_drop_bit_eq bit_mask_for_width
  by (auto simp: sign_bit_for_width_def bit_exp_iff narrow_def mult.commute [of w 8])

lemma step_positions:
  fixes i :: nat
  assumes "i < 8 * w + 1"
  obtains "i = 8 * w" | "i = 8 * w - 1" "i < 8 * w" | "i + 1 < 8 * w" "i \<noteq> 8 * w - 1"
  using assms by linarith

lemma rcl_next_rotates:
  assumes "0 < w" "w \<le> 8" "narrow w v"
  shows "narrow w (rcl_next w v cf)" "rotated (8 * w + 1) 1 (ring w v cf) (ring w (rcl_next w v cf) (bit v (8 * w - 1)))"
proof -
  have "ring w (rcl_next w v cf) (bit v (8 * w - 1)) ((i + 1) mod (8 * w + 1)) = ring w v cf i" if "i < 8 * w + 1" for i
    using that by (rule step_positions) (use assms(1,2) in \<open>simp_all add: ring_def bit_rcl_next\<close>)
  then show "rotated (8 * w + 1) 1 (ring w v cf) (ring w (rcl_next w v cf) (bit v (8 * w - 1)))" by (simp add: rotated_def)
qed (use assms in \<open>simp add: narrow_def bit_rcl_next\<close>)

lemma rcr_next_rotates:
  assumes "0 < w" "w \<le> 8" "narrow w v"
  shows "narrow w (rcr_next w v cf)" "rotated (8 * w + 1) 1 (ring w (rcr_next w v cf) (bit v 0)) (ring w v cf)"
proof -
  have "ring w v cf ((i + 1) mod (8 * w + 1)) = ring w (rcr_next w v cf) (bit v 0) i" if "i < 8 * w + 1" for i
    using that by (rule step_positions) (use assms in \<open>simp_all add: ring_def bit_rcr_next del: bit_0\<close>)
  then show "rotated (8 * w + 1) 1 (ring w (rcr_next w v cf) (bit v 0)) (ring w v cf)" by (simp add: rotated_def)
qed (use assms in \<open>simp add: narrow_def [of w "rcr_next w v cf"] bit_rcr_next\<close>)

lemma rcl_loop_rotates:
  assumes "0 < w" "w \<le> 8" "narrow w v" "rcl_loop w n v cf = (r, cf')"
  shows "narrow w r \<and> rotated (8 * w + 1) n (ring w v cf) (ring w r cf')"
  using assms(3,4)
proof (induction n arbitrary: v cf)
  case 0
  then show ?case by (simp add: rotated_0)
next
  case (Suc n)
  note step = rcl_next_rotates [OF assms(1,2) Suc.prems(1), of cf]
  have "narrow w r \<and> rotated (8 * w + 1) n (ring w (rcl_next w v cf) (bit v (8 * w - 1))) (ring w r cf')"
    using Suc.prems(2) unfolding rcl_loop_Suc [OF assms(1)] by (rule Suc.IH [OF step(1)])
  then show ?case using rotated_compose [OF step(2)] by simp
qed

lemma rcr_loop_rotates:
  assumes "0 < w" "w \<le> 8" "narrow w v" "rcr_loop w n v cf = (r, cf')"
  shows "narrow w r \<and> rotated (8 * w + 1) n (ring w r cf') (ring w v cf)"
  using assms(3,4)
proof (induction n arbitrary: v cf)
  case 0
  then show ?case by (simp add: rotated_0)
next
  case (Suc n)
  note step = rcr_next_rotates [OF assms(1,2) Suc.prems(1), of cf]
  have "narrow w r \<and> rotated (8 * w + 1) n (ring w r cf') (ring w (rcr_next w v cf) (bit v 0))"
    using Suc.prems(2) unfolding rcr_loop_Suc by (rule Suc.IH [OF step(1)])
  then show ?case using rotated_compose [OF _ step(2)] by fastforce
qed

section \<open>Handlers of rotates\<close>

fun rotation :: "rotate_op \<Rightarrow> nat \<Rightarrow> nat \<Rightarrow> u64 \<Rightarrow> bool \<Rightarrow> u64 \<Rightarrow> bool \<Rightarrow> bool" where
  "rotation R_ROL w n x cf r cf' \<longleftrightarrow> rotated (8 * w) n (bit x) (bit r) \<and> (n \<noteq> 0 \<longrightarrow> cf' = bit r 0)"
| "rotation R_ROR w n x cf r cf' \<longleftrightarrow> rotated (8 * w) n (bit r) (bit x) \<and> (n \<noteq> 0 \<longrightarrow> cf' = bit r (8 * w - 1))"
| "rotation R_RCL w n x cf r cf' \<longleftrightarrow> rotated (8 * w + 1) n (ring w x cf) (ring w r cf')"
| "rotation R_RCR w n x cf r cf' \<longleftrightarrow> rotated (8 * w + 1) n (ring w r cf') (ring w x cf)"

fun rotate_overflow :: "rotate_op \<Rightarrow> nat \<Rightarrow> u64 \<Rightarrow> bool \<Rightarrow> bool" where
  "rotate_overflow R_ROL w r cf' \<longleftrightarrow> bit r (8 * w - 1) \<noteq> cf'"
| "rotate_overflow R_RCL w r cf' \<longleftrightarrow> bit r (8 * w - 1) \<noteq> cf'"
| "rotate_overflow R_ROR w r cf' \<longleftrightarrow> bit r (8 * w - 1) \<noteq> bit r (8 * w - 2)"
| "rotate_overflow R_RCR w r cf' \<longleftrightarrow> bit r (8 * w - 1) \<noteq> bit r (8 * w - 2)"

text \<open>The result of a rotate by \<open>n\<close> and the two flags it sets.\<close>

definition rotate_effect :: "rotate_op \<Rightarrow> nat \<Rightarrow> nat \<Rightarrow> u64 \<Rightarrow> u64 \<Rightarrow> cpu_state \<Rightarrow> cpu_state \<Rightarrow> bool" where
  "rotate_effect op w n x r s s' \<longleftrightarrow> uint r < 2 ^ (8 * w) \<and> rotation op w n x (flag_CF s) r (flag_CF s') \<and>
     (n = 0 \<longrightarrow> s' = s) \<and> (n = 1 \<longrightarrow> (flag_OF s' \<longleftrightarrow> rotate_overflow op w r (flag_CF s'))) \<and>
     only_rflags s s' \<and> (\<forall>k. k \<noteq> 0 \<and> k \<noteq> 11 \<longrightarrow> bit (rflags s') k = bit (rflags s) k)"

lemma rotated_mod: "rotated N (n mod N) f g = rotated N n f g"
  by (simp add: rotated_def mod_add_right_eq)

text \<open>The overflow flag as the code computes it from the operand.\<close>

fun overflow_before :: "rotate_op \<Rightarrow> nat \<Rightarrow> u64 \<Rightarrow> bool \<Rightarrow> bool" where
  "overflow_before R_ROL w x cf \<longleftrightarrow> bit x (8 * w - 1) \<noteq> bit x (8 * w - 2)"
| "overflow_before R_RCL w x cf \<longleftrightarrow> bit x (8 * w - 1) \<noteq> bit x (8 * w - 2)"
| "overflow_before R_ROR w x cf \<longleftrightarrow> bit x 0 \<noteq> bit x (8 * w - 1)"
| "overflow_before R_RCR w x cf \<longleftrightarrow> bit x (8 * w - 1) \<noteq> cf"

lemma rotated_1:
  assumes "rotated N 1 f g" "2 < N"
  shows "g 0 = f (N - 1)" "g (N - 1) = f (N - 2)" "g (N - 2) = f (N - 3)"
proof -
  have g: "i < N \<Longrightarrow> g ((i + 1) mod N) = f i" for i using assms(1) by (simp add: rotated_def)
  have "N - 2 + 1 = N - 1" "N - 3 + 1 = N - 2" "N - 1 + 1 = N" using assms(2) by simp_all
  then show "g 0 = f (N - 1)" "g (N - 1) = f (N - 2)" "g (N - 2) = f (N - 3)"
    using g [of "N - 1"] g [of "N - 2"] g [of "N - 3"] assms(2) by simp_all
qed

lemma overflow_before_eq:
  assumes "0 < w" "rotation op w 1 x cf r cf'"
  shows "overflow_before op w x cf \<longleftrightarrow> rotate_overflow op w r cf'"
proof -
  have N: "2 < 8 * w" "2 < 8 * w + 1" "8 * w + 1 - 2 = 8 * w - 1" "8 * w + 1 - 3 = 8 * w - 2" "8 * w - 1 < 8 * w" "8 * w - 2 < 8 * w"
    using assms(1) by simp_all
  show ?thesis
  proof (cases op)
    case R_ROL
    then show ?thesis using assms(2) rotated_1 [OF _ N(1), of "bit x" "bit r"] by auto
  next
    case R_ROR
    then show ?thesis using assms(2) rotated_1 [OF _ N(1), of "bit r" "bit x"] by auto
  next
    case R_RCL
    then show ?thesis
      using assms(2) rotated_1 [OF _ N(2), of "ring w x cf" "ring w r cf'"] N(3-6) by (auto simp: ring_def)
  next
    case R_RCR
    then show ?thesis
      using assms(2) rotated_1 [OF _ N(2), of "ring w r cf'" "ring w x cf"] N(3-6) by (auto simp: ring_def)
  qed
qed

lemma rotate_effectI:
  assumes "valid_width w" "narrow w r" "rotation op w n x (flag_CF s) r cf'"
    and "n = 1 \<Longrightarrow> b" "ov \<longleftrightarrow> overflow_before op w x (flag_CF s)" "n \<noteq> 0"
  shows "rotate_effect op w n x r s
    (let s1 = put_flag kFlagCF cf' s in if b then put_flag kFlagOF ov s1 else s1)"
  using assms valid_width_bounds [OF assms(1)] overflow_before_eq [of w op x "flag_CF s" r cf']
  by (auto simp: rotate_effect_def put_flag_def only_rflags_def narrow_iff Let_def)

lemma only_rflags_refl: "only_rflags s s"
  unfolding only_rflags_def by (rule exI [of _ "rflags s"]) simp

lemma rotate_cases:
  assumes w: "valid_width w" and r: "narrow w r"
    and still: "z \<Longrightarrow> res = store_operand w r (c1\<lparr>state := s\<rparr>)" "z \<Longrightarrow> rotation op w n x (flag_CF s) r (flag_CF s)" "z \<Longrightarrow> n \<noteq> 1"
    and turn: "\<not> z \<Longrightarrow> res = store_operand w r
        (c1\<lparr>state := let s1 = put_flag kFlagCF cf' s in if b then put_flag kFlagOF ov s1 else s1\<rparr>)"
      "\<not> z \<Longrightarrow> rotation op w n x (flag_CF s) r cf'" "n = 0 \<Longrightarrow> z" "n = 1 \<Longrightarrow> b"
    and ov: "ov \<longleftrightarrow> overflow_before op w x (flag_CF s)"
  shows "\<exists>r s'. res = store_operand w r (c1\<lparr>state := s'\<rparr>) \<and> rotate_effect op w n x r s s'"
proof (cases z)
  case True
  then have "rotate_effect op w n x r s s"
    using still(2,3) r narrow_iff [of w r] valid_width_bounds [OF w] by (auto simp: rotate_effect_def only_rflags_refl)
  then show ?thesis using still(1) True by blast
next
  case False
  then show ?thesis using rotate_effectI [OF w r turn(2) turn(4) ov] turn(1,3) by blast
qed

lemma narrow_mask_id: "narrow w x \<Longrightarrow> x AND mask_for_width w = x"
  by (rule bit_word_eqI) (auto simp: bit_and_iff bit_mask_for_width narrow_def)

lemma rotate_left_effect:
  assumes "valid_width w" "read_operand c 0 w = (Some x, c1)" "narrow w x"
  shows "\<exists>r s'. with_count (count_of source) (\<lambda>count. rotate_left w count b) c = store_operand w r (c1\<lparr>state := s'\<rparr>) \<and>
    rotate_effect R_ROL w (shift_count source c mod count_period w) x r (state c) s'"
proof -
  have w: "0 < w" "w \<le> 8" using valid_width_bounds [OF assms(1)] by auto
  obtain m where c1: "c1 = c\<lparr>mem := m\<rparr>" using read_operand_mem [of c 0 w] assms(2) by auto
  define n where "n = shift_count source c mod count_period w"
  define k where "k = n mod (8 * w)"
  define r where "r = (if k = 0 then x else (push_bit k x OR drop_bit (8 * w - k) x) AND mask_for_width w)"
  define ov where "ov = overflow_before R_ROL w x (flag_CF (state c))"
  have cnt: "masked_count w (count_of source c) = n"
    using masked_count_eq [OF assms(1)] by (simp add: n_def count_of_eq)
  have k: "k < 8 * w" using w by (simp add: k_def)
  have "rotated (8 * w) k (bit x) (bit r)"
    using rotate_left_result [OF _ k w(2) assms(3)] by (auto simp: r_def rotated_0)
  then have rot: "rotated (8 * w) n (bit x) (bit r)" by (simp add: k_def rotated_mod)
  show ?thesis unfolding n_def [symmetric]
  proof (rule rotate_cases [OF assms(1), where z = "n = 0" and r = r and cf' = "bit r 0" and ov = ov and
      b = "n = 1 \<or> b \<or> op_kind (instr c) 0 \<noteq> REGISTER"])
    show "narrow w r" using assms(3) by (auto simp: r_def narrow_def bit_and_iff bit_mask_for_width)
  qed (use w rot assms(3) in \<open>auto simp: with_count_def rotate_left_def with_operand_def assms(2) Let_def width_mask_eq c1 cnt
      narrow_mask_id msb_mask_eq and_sign_bit and_next_bit and_one_bit mult.commute [of w 8] r_def k_def ov_def
      simp del: One_nat_def bit_0\<close>)
qed

lemma rotate_right_effect:
  assumes "valid_width w" "read_operand c 0 w = (Some x, c1)" "narrow w x"
  shows "\<exists>r s'. with_count (count_of source) (\<lambda>count. rotate_right w count b) c = store_operand w r (c1\<lparr>state := s'\<rparr>) \<and>
    rotate_effect R_ROR w (shift_count source c mod count_period w) x r (state c) s'"
proof -
  have w: "0 < w" "w \<le> 8" using valid_width_bounds [OF assms(1)] by auto
  obtain m where c1: "c1 = c\<lparr>mem := m\<rparr>" using read_operand_mem [of c 0 w] assms(2) by auto
  define n where "n = shift_count source c mod count_period w"
  define k where "k = n mod (8 * w)"
  define r where "r = (if k = 0 then x else (drop_bit k x OR push_bit (8 * w - k) x) AND mask_for_width w)"
  define ov where "ov = overflow_before R_ROR w x (flag_CF (state c))"
  have cnt: "masked_count w (count_of source c) = n"
    using masked_count_eq [OF assms(1)] by (simp add: n_def count_of_eq)
  have k: "k < 8 * w" using w by (simp add: k_def)
  have "rotated (8 * w) k (bit r) (bit x)"
    using rotate_right_result [OF _ k w(2) assms(3)] by (auto simp: r_def rotated_0)
  then have rot: "rotated (8 * w) n (bit r) (bit x)" by (simp add: k_def rotated_mod)
  show ?thesis unfolding n_def [symmetric]
  proof (rule rotate_cases [OF assms(1), where z = "n = 0" and r = r and cf' = "bit r (8 * w - 1)" and ov = ov and
      b = "n = 1 \<or> b \<or> op_kind (instr c) 0 \<noteq> REGISTER"])
    show "narrow w r" using assms(3) by (auto simp: r_def narrow_def bit_and_iff bit_mask_for_width)
  qed (use w rot assms(3) in \<open>auto simp: with_count_def rotate_right_def with_operand_def assms(2) Let_def width_mask_eq c1 cnt
      narrow_mask_id msb_mask_eq and_sign_bit and_next_bit and_one_bit mult.commute [of w 8] r_def k_def ov_def
      simp del: One_nat_def bit_0\<close>)
qed

lemma flag_CF_and: "rflags s AND kFlagCF = 0 \<longleftrightarrow> \<not> flag_CF s"
  using carry_flag_iff [of s] by (auto simp: carry_flag_def)

lemma rotate_carry_left_effect:
  assumes "valid_width w" "read_operand c 0 w = (Some x, c1)" "narrow w x"
  shows "\<exists>r s'. with_count (count_of source) (rotate_carry_left w) c = store_operand w r (c1\<lparr>state := s'\<rparr>) \<and>
    rotate_effect R_RCL w (shift_count source c mod count_period w) x r (state c) s'"
proof -
  have w: "0 < w" "w \<le> 8" using valid_width_bounds [OF assms(1)] by auto
  obtain m where c1: "c1 = c\<lparr>mem := m\<rparr>" using read_operand_mem [of c 0 w] assms(2) by auto
  define n where "n = shift_count source c mod count_period w"
  define k where "k = n mod (8 * w + 1)"
  obtain r cf' where r: "rcl_loop w k x (flag_CF (state c)) = (r, cf')" by fastforce
  define ov where "ov = overflow_before R_RCL w x (flag_CF (state c))"
  have cnt: "masked_count w (count_of source c) mod (8 * w + 1) = k"
    using masked_count_eq [OF assms(1)] by (simp add: k_def n_def count_of_eq)
  have rot: "narrow w r" "rotation R_RCL w n x (flag_CF (state c)) r cf'"
    using rcl_loop_rotates [OF w assms(3) r] by (simp_all add: k_def rotated_mod flip: Suc_eq_plus1)
  show ?thesis unfolding n_def [symmetric]
  proof (rule rotate_cases [OF assms(1) rot(1), where z = "k = 0" and cf' = cf' and ov = ov and b = True])
    show "k = 0 \<Longrightarrow> rotation R_RCL w n x (flag_CF (state c)) r (flag_CF (state c))" using rot(2) r by simp
    show "k = 0 \<Longrightarrow> n \<noteq> 1" "n = 0 \<Longrightarrow> k = 0" using w by (auto simp: k_def)
  qed (use w r rot assms(3) in \<open>auto simp: with_count_def rotate_carry_left_def with_operand_def assms(2) Let_def width_mask_eq c1 cnt
      narrow_mask_id msb_mask_eq and_sign_bit and_next_bit mult.commute [of w 8] ov_def flag_CF_and
      simp del: One_nat_def bit_0\<close>)
qed

lemma rotate_carry_right_effect:
  assumes "valid_width w" "read_operand c 0 w = (Some x, c1)" "narrow w x"
  shows "\<exists>r s'. with_count (count_of source) (rotate_carry_right w) c = store_operand w r (c1\<lparr>state := s'\<rparr>) \<and>
    rotate_effect R_RCR w (shift_count source c mod count_period w) x r (state c) s'"
proof -
  have w: "0 < w" "w \<le> 8" using valid_width_bounds [OF assms(1)] by auto
  obtain m where c1: "c1 = c\<lparr>mem := m\<rparr>" using read_operand_mem [of c 0 w] assms(2) by auto
  define n where "n = shift_count source c mod count_period w"
  define k where "k = n mod (8 * w + 1)"
  obtain r cf' where r: "rcr_loop w k x (flag_CF (state c)) = (r, cf')" by fastforce
  define ov where "ov = overflow_before R_RCR w x (flag_CF (state c))"
  have cnt: "masked_count w (count_of source c) mod (8 * w + 1) = k"
    using masked_count_eq [OF assms(1)] by (simp add: k_def n_def count_of_eq)
  have rot: "narrow w r" "rotation R_RCR w n x (flag_CF (state c)) r cf'"
    using rcr_loop_rotates [OF w assms(3) r] by (simp_all add: k_def rotated_mod flip: Suc_eq_plus1)
  show ?thesis unfolding n_def [symmetric]
  proof (rule rotate_cases [OF assms(1) rot(1), where z = "k = 0" and cf' = cf' and ov = ov and b = True])
    show "k = 0 \<Longrightarrow> rotation R_RCR w n x (flag_CF (state c)) r (flag_CF (state c))" using rot(2) r by simp
    show "k = 0 \<Longrightarrow> n \<noteq> 1" "n = 0 \<Longrightarrow> k = 0" using w by (auto simp: k_def)
  qed (use w r rot assms(3) in \<open>auto simp: with_count_def rotate_carry_right_def with_operand_def assms(2) Let_def width_mask_eq c1 cnt
      narrow_mask_id msb_mask_eq and_sign_bit and_next_bit mult.commute [of w 8] ov_def flag_CF_and
      simp del: One_nat_def bit_0\<close>)
qed

section \<open>All rotate handlers\<close>

definition rotate_catalog :: "('w handler \<times> rotate_op \<times> nat \<times> shift_count_source) list" where
  "rotate_catalog =
    [(handle_code_ROL_RM8_1, R_ROL, 1, SC_one),
     (handle_code_ROL_RM16_1, R_ROL, 2, SC_one),
     (handle_code_ROL_RM32_1, R_ROL, 4, SC_one),
     (handle_code_ROL_RM64_1, R_ROL, 8, SC_one),
     (handle_code_ROL_RM8_CL, R_ROL, 1, SC_cl),
     (handle_code_ROL_RM16_CL, R_ROL, 2, SC_cl),
     (handle_code_ROL_RM32_CL, R_ROL, 4, SC_cl),
     (handle_code_ROL_RM64_CL, R_ROL, 8, SC_cl),
     (handle_code_ROL_RM8_IMM8, R_ROL, 1, SC_imm8),
     (handle_code_ROL_RM16_IMM8, R_ROL, 2, SC_imm8),
     (handle_code_ROL_RM32_IMM8, R_ROL, 4, SC_imm8),
     (handle_code_ROL_RM64_IMM8, R_ROL, 8, SC_imm8),
     (handle_code_ROR_RM8_1, R_ROR, 1, SC_one),
     (handle_code_ROR_RM16_1, R_ROR, 2, SC_one),
     (handle_code_ROR_RM32_1, R_ROR, 4, SC_one),
     (handle_code_ROR_RM64_1, R_ROR, 8, SC_one),
     (handle_code_ROR_RM8_CL, R_ROR, 1, SC_cl),
     (handle_code_ROR_RM16_CL, R_ROR, 2, SC_cl),
     (handle_code_ROR_RM32_CL, R_ROR, 4, SC_cl),
     (handle_code_ROR_RM64_CL, R_ROR, 8, SC_cl),
     (handle_code_ROR_RM8_IMM8, R_ROR, 1, SC_imm8),
     (handle_code_ROR_RM16_IMM8, R_ROR, 2, SC_imm8),
     (handle_code_ROR_RM32_IMM8, R_ROR, 4, SC_imm8),
     (handle_code_ROR_RM64_IMM8, R_ROR, 8, SC_imm8),
     (handle_code_RCL_RM8_1, R_RCL, 1, SC_one),
     (handle_code_RCL_RM16_1, R_RCL, 2, SC_one),
     (handle_code_RCL_RM32_1, R_RCL, 4, SC_one),
     (handle_code_RCL_RM64_1, R_RCL, 8, SC_one),
     (handle_code_RCL_RM8_CL, R_RCL, 1, SC_cl),
     (handle_code_RCL_RM16_CL, R_RCL, 2, SC_cl),
     (handle_code_RCL_RM32_CL, R_RCL, 4, SC_cl),
     (handle_code_RCL_RM64_CL, R_RCL, 8, SC_cl),
     (handle_code_RCL_RM8_IMM8, R_RCL, 1, SC_imm8),
     (handle_code_RCL_RM16_IMM8, R_RCL, 2, SC_imm8),
     (handle_code_RCL_RM32_IMM8, R_RCL, 4, SC_imm8),
     (handle_code_RCL_RM64_IMM8, R_RCL, 8, SC_imm8),
     (handle_code_RCR_RM8_1, R_RCR, 1, SC_one),
     (handle_code_RCR_RM16_1, R_RCR, 2, SC_one),
     (handle_code_RCR_RM32_1, R_RCR, 4, SC_one),
     (handle_code_RCR_RM64_1, R_RCR, 8, SC_one),
     (handle_code_RCR_RM8_CL, R_RCR, 1, SC_cl),
     (handle_code_RCR_RM16_CL, R_RCR, 2, SC_cl),
     (handle_code_RCR_RM32_CL, R_RCR, 4, SC_cl),
     (handle_code_RCR_RM64_CL, R_RCR, 8, SC_cl),
     (handle_code_RCR_RM8_IMM8, R_RCR, 1, SC_imm8),
     (handle_code_RCR_RM16_IMM8, R_RCR, 2, SC_imm8),
     (handle_code_RCR_RM32_IMM8, R_RCR, 4, SC_imm8),
     (handle_code_RCR_RM64_IMM8, R_RCR, 8, SC_imm8)]"

definition rotate_promise :: "'w handler \<times> rotate_op \<times> nat \<times> shift_count_source \<Rightarrow> bool" where
  "rotate_promise e \<longleftrightarrow> (case e of (h, op, w, source) \<Rightarrow> \<forall>c.
     (case read_operand c 0 w of
        (None, c1) \<Rightarrow> h c = (memory_fault c1 (memory_address c1), c1)
      | (Some x, c1) \<Rightarrow> uint x < 2 ^ (8 * w) \<longrightarrow>
          (\<exists>r s'. h c = store_operand w r (c1\<lparr>state := s'\<rparr>) \<and>
             rotate_effect op w (shift_count source c mod count_period w) x r (state c) s')))"

lemma narrowI: "valid_width w \<Longrightarrow> uint x < 2 ^ (8 * w) \<Longrightarrow> narrow w x"
  using narrow_iff [of w x] valid_width_bounds [of w] by simp

lemma rotate_promiseI:
  assumes "valid_width w"
    and "\<And>c c1. read_operand c 0 w = (None, c1) \<Longrightarrow> h c = (memory_fault c1 (memory_address c1), c1)"
    and "\<And>c c1 x. read_operand c 0 w = (Some x, c1) \<Longrightarrow> narrow w x \<Longrightarrow> \<exists>r s'. h c = store_operand w r (c1\<lparr>state := s'\<rparr>) \<and>
      rotate_effect op w (shift_count source c mod count_period w) x r (state c) s'"
  shows "rotate_promise (h, op, w, source)"
  unfolding rotate_promise_def prod.case
  using assms(2,3) narrowI [OF assms(1)] by (auto split: option.split)

lemma rotate_promisesI:
  assumes "valid_width w"
  shows "rotate_promise (with_count (count_of source) (\<lambda>count. rotate_left w count b), R_ROL, w, source)"
    and "rotate_promise (with_count (count_of source) (\<lambda>count. rotate_right w count b), R_ROR, w, source)"
    and "rotate_promise (with_count (count_of source) (rotate_carry_left w), R_RCL, w, source)"
    and "rotate_promise (with_count (count_of source) (rotate_carry_right w), R_RCR, w, source)"
proof -
  note fault = with_count_def with_operand_def rotate_left_def rotate_right_def rotate_carry_left_def rotate_carry_right_def
  show "rotate_promise (with_count (count_of source) (\<lambda>count. rotate_left w count b), R_ROL, w, source)"
    by (rule rotate_promiseI [OF assms _ rotate_left_effect [OF assms]]) (simp add: fault)
  show "rotate_promise (with_count (count_of source) (\<lambda>count. rotate_right w count b), R_ROR, w, source)"
    by (rule rotate_promiseI [OF assms _ rotate_right_effect [OF assms]]) (simp add: fault)
  show "rotate_promise (with_count (count_of source) (rotate_carry_left w), R_RCL, w, source)"
    by (rule rotate_promiseI [OF assms _ rotate_carry_left_effect [OF assms]]) (simp add: fault)
  show "rotate_promise (with_count (count_of source) (rotate_carry_right w), R_RCR, w, source)"
    by (rule rotate_promiseI [OF assms _ rotate_carry_right_effect [OF assms]]) (simp add: fault)
qed

lemmas rotate_promises =
  rotate_promisesI [where source = SC_one, unfolded count_of.simps]
  rotate_promisesI [where source = SC_cl, unfolded count_of.simps]
  rotate_promisesI [where source = SC_imm8, unfolded count_of.simps]

lemma rotate_catalog_promises: "list_all rotate_promise rotate_catalog"
  by (simp add: rotate_catalog_def shift_handler_defs rotate_promises)

section \<open>Properties\<close>

text \<open>C22: the shifts SHL, SAL, SHR, SAR, SHLD and SHRD, all forms and widths: a destination that cannot be read is a page fault that changes nothing; otherwise
  what is stored is the operand multiplied or divided by the power of two, with CF the last bit shifted out for counts up to, at and beyond
  the operand size, and a count that is masked to zero changes no flag and still writes the destination.\<close>

theorem shift_semantics:
  assumes "(h, op, w, source) \<in> set shift_catalog"
  shows "case read_operand c 0 w of
      (None, c1) \<Rightarrow> h c = (memory_fault c1 (memory_address c1), c1)
    | (Some x, c1) \<Rightarrow> uint x < 2 ^ (8 * w) \<longrightarrow>
        (\<exists>r s'. h c = store_operand w r (c1\<lparr>state := s'\<rparr>) \<and>
           shift_effect op w (shift_amount op w (shift_count source c)) x
             (read_register (state c) (op_register (instr c) 1)) r (state c) s')"
proof -
  have "shift_promise (h, op, w, source)" using shift_catalog_promises assms by (auto simp: list_all_iff)
  then show ?thesis by (simp add: shift_promise_def)
qed

text \<open>C23: the rotates ROL, ROR, RCL and RCR, all forms and widths: the stored value is the operand with its bits permuted cyclically by the
  masked count. RCL and RCR, which the code computes bit by bit in a loop, rotate the ring of operand and carry flag.\<close>

theorem rotate_semantics:
  assumes "(h, op, w, source) \<in> set rotate_catalog"
  shows "case read_operand c 0 w of
      (None, c1) \<Rightarrow> h c = (memory_fault c1 (memory_address c1), c1)
    | (Some x, c1) \<Rightarrow> uint x < 2 ^ (8 * w) \<longrightarrow>
        (\<exists>r s'. h c = store_operand w r (c1\<lparr>state := s'\<rparr>) \<and>
           rotate_effect op w (shift_count source c mod count_period w) x r (state c) s')"
proof -
  have "rotate_promise (h, op, w, source)" using rotate_catalog_promises assms by (auto simp: list_all_iff)
  then show ?thesis by (simp add: rotate_promise_def)
qed

definition demo_shift :: "unit ctx" where
  "demo_shift = (demo_ctx (null_instruction\<lparr>op_register := \<lambda>_. AL, immediate8 := 3\<rparr>))\<lparr>state := initial_cpu_state\<lparr>gpr := (replicate 16 0)[0 := 0x8C]\<rparr>\<rparr>"

lemma demo_shift_simps:
  "read_operand demo_shift 0 1 = (Some 0x8C, demo_shift)" "unat (immediate8 (instr demo_shift)) = 3"
  by (simp_all add: demo_shift_def demo_ctx_def read_operand_def null_instruction_def read_register_def read_gpr_def)

theorem shift_semantics_witness:
  "\<exists>r s'. handle_code_SAR_RM8_IMM8 demo_shift = store_operand 1 r (demo_shift\<lparr>state := s'\<rparr>) \<and> uint r = 0xF1 \<and> flag_CF s'"
proof -
  have "shifted S_SAR 1 3 0x8C y = 0xF1" "shifted_out S_SAR 1 3 0x8C" for y
    by (simp_all add: sval_def)
  then show ?thesis
    using shift_semantics [of handle_code_SAR_RM8_IMM8 S_SAR 1 SC_imm8 demo_shift]
    by (simp add: shift_catalog_def demo_shift_simps [unfolded One_nat_def] shift_effect_def count_period_def) blast
qed

theorem rotate_semantics_witness:
  "\<exists>r s'. handle_code_RCL_RM8_IMM8 demo_shift = store_operand 1 r (demo_shift\<lparr>state := s'\<rparr>) \<and> rotated 9 3 (ring 1 0x8C False) (ring 1 r (flag_CF s'))"
proof -
  have "\<not> flag_CF (state demo_shift)" by (simp add: demo_shift_def initial_cpu_state_def)
  then show ?thesis
    using rotate_semantics [of handle_code_RCL_RM8_IMM8 R_RCL 1 SC_imm8 demo_shift]
    by (simp add: rotate_catalog_def demo_shift_simps [unfolded One_nat_def] rotate_effect_def count_period_def) blast
qed

end
