(* ===== verification/String_Ops.thy ===== *)
theory String_Ops
  imports Shift
begin

text \<open>
  String instructions (\<^verbatim>\<open>handlers/data/string_ops.cpp\<close>, \<^verbatim>\<open>handlers/data/movs.cpp\<close>). Each loop is a recursion on the number of elements
  that remain, the value of \<^verbatim>\<open>remaining\<close> (\<^verbatim>\<open>count - i\<close> in \<^verbatim>\<open>movs_impl\<close>) at the head of the loop; it never exceeds the 64-bit
  count register, so it always ends. \<open>RCX\<close>, \<open>RSI\<close> and \<open>RDI\<close> are \<^verbatim>\<open>gpr[1]\<close>, \<^verbatim>\<open>gpr[6]\<close> and \<^verbatim>\<open>gpr[7]\<close>.
\<close>

section \<open>The parts the loops share\<close>

definition set_gpr :: "nat \<Rightarrow> u64 \<Rightarrow> cpu_state \<Rightarrow> cpu_state" where
  "set_gpr i v s = s\<lparr>gpr := (gpr s)[i := v]\<rparr>"

definition rep_prefix :: "'w ctx \<Rightarrow> bool" where
  "rep_prefix c \<longleftrightarrow> has_rep_prefix (instr c) \<or> has_repne_prefix (instr c)"

definition initial_count :: "'w ctx \<Rightarrow> nat" where
  "initial_count c = unat (if rep_prefix c then gpr (state c) ! 1 else 1)"

definition direction_flag :: "cpu_state \<Rightarrow> bool" where
  "direction_flag s \<longleftrightarrow> rflags s AND kFlagDF \<noteq> 0"

definition advance :: "bool \<Rightarrow> nat \<Rightarrow> u64 \<Rightarrow> u64" where
  "advance df width a = (if df then a - word_of_nat width else a + word_of_nat width)"

text \<open>The registers as the early and the normal returns leave them.\<close>

definition put_rcx :: "bool \<Rightarrow> nat \<Rightarrow> cpu_state \<Rightarrow> cpu_state" where
  "put_rcx rep remaining s = (if rep then set_gpr 1 (word_of_nat remaining) s else s)"

definition put_si_di :: "bool \<Rightarrow> u64 \<Rightarrow> u64 \<Rightarrow> nat \<Rightarrow> 'w ctx \<Rightarrow> 'w ctx" where
  "put_si_di rep rsi rdi remaining = upd_state (\<lambda>s. put_rcx rep remaining (set_gpr 7 rdi (set_gpr 6 rsi s)))"

definition put_di :: "bool \<Rightarrow> u64 \<Rightarrow> nat \<Rightarrow> 'w ctx \<Rightarrow> 'w ctx" where
  "put_di rep rdi remaining = upd_state (\<lambda>s. put_rcx rep remaining (set_gpr 7 rdi s))"

definition put_si :: "bool \<Rightarrow> u64 \<Rightarrow> nat \<Rightarrow> 'w ctx \<Rightarrow> 'w ctx" where
  "put_si rep rsi remaining = upd_state (\<lambda>s. put_rcx rep remaining (set_gpr 6 rsi s))"

definition hits :: "'w ctx \<Rightarrow> u64 \<Rightarrow> nat \<Rightarrow> bool \<Rightarrow> bool \<Rightarrow> u64" where
  "hits c a width = debug_data_breakpoint_hits (state c) a (word_of_nat width)"

text \<open>Whether a repeated comparison goes on.\<close>

definition compare_continues :: "bool \<Rightarrow> bool \<Rightarrow> nat \<Rightarrow> cpu_state \<Rightarrow> bool" where
  "compare_continues rep repne remaining s \<longleftrightarrow> rep \<and> remaining > 0 \<and>
     (let zf = (rflags s AND kFlagZF \<noteq> 0) in \<not> (if repne then zf else \<not> zf))"

definition compare_flags :: "u64 \<Rightarrow> u64 \<Rightarrow> nat \<Rightarrow> 'w ctx \<Rightarrow> 'w ctx" where
  "compare_flags lhs rhs width = upd_state (\<lambda>s. set_sub_flags s lhs rhs (truncate_to (lhs - rhs) width) width False)"

section \<open>\<^verbatim>\<open>string_ops.cpp\<close>\<close>

fun cmps_loop :: "nat \<Rightarrow> bool \<Rightarrow> bool \<Rightarrow> bool \<Rightarrow> nat \<Rightarrow> u64 \<Rightarrow> u64 \<Rightarrow> 'w handler" where
  "cmps_loop width rep repne df 0 rsi rdi c = (no_stop, put_si_di rep rsi rdi 0 c)"
| "cmps_loop width rep repne df (Suc n) rsi rdi c =
     (case ctx_read c rsi width of
        (None, c1) \<Rightarrow> (memory_fault c1 rsi, put_si_di rep rsi rdi (Suc n) c1)
      | (Some lhs, c1) \<Rightarrow>
         (case ctx_read c1 rdi width of
            (None, c2) \<Rightarrow> (memory_fault c2 rdi, put_si_di rep rsi rdi (Suc n) c2)
          | (Some rhs, c2) \<Rightarrow>
             (let c3 = compare_flags (lhs AND width_mask width) (rhs AND width_mask width) width c2;
                  hit_bits = hits c3 rsi width True False OR hits c3 rdi width True False;
                  rsi1 = advance df width rsi; rdi1 = advance df width rdi;
                  continue_loop = compare_continues rep repne n (state c3)
              in case note_debug_break c3 hit_bits continue_loop of
                   (True, c4) \<Rightarrow> (no_stop, put_si_di rep rsi1 rdi1 n c4)
                 | (False, c4) \<Rightarrow>
                     if \<not> rep \<or> \<not> continue_loop then (no_stop, put_si_di rep rsi1 rdi1 n c4)
                     else cmps_loop width rep repne df n rsi1 rdi1 c4)))"

definition cmps_impl :: "nat \<Rightarrow> 'w handler" where
  "cmps_impl width c =
     (if initial_count c = 0 then (no_stop, c)
      else cmps_loop width (rep_prefix c) (has_repne_prefix (instr c)) (direction_flag (state c)) (initial_count c)
             (gpr (state c) ! 6) (gpr (state c) ! 7) c)"

fun scas_loop :: "nat \<Rightarrow> bool \<Rightarrow> bool \<Rightarrow> bool \<Rightarrow> u64 \<Rightarrow> nat \<Rightarrow> u64 \<Rightarrow> 'w handler" where
  "scas_loop width rep repne df lhs 0 rdi c = (no_stop, put_di rep rdi 0 c)"
| "scas_loop width rep repne df lhs (Suc n) rdi c =
     (case ctx_read c rdi width of
        (None, c1) \<Rightarrow> (memory_fault c1 rdi, put_di rep rdi (Suc n) c1)
      | (Some rhs, c1) \<Rightarrow>
         (let c2 = compare_flags lhs (rhs AND width_mask width) width c1;
              hit_bits = hits c2 rdi width True False;
              rdi1 = advance df width rdi;
              continue_loop = compare_continues rep repne n (state c2)
          in case note_debug_break c2 hit_bits continue_loop of
               (True, c3) \<Rightarrow> (no_stop, put_di rep rdi1 n c3)
             | (False, c3) \<Rightarrow>
                 if \<not> rep \<or> \<not> continue_loop then (no_stop, put_di rep rdi1 n c3)
                 else scas_loop width rep repne df lhs n rdi1 c3))"

definition scas_impl :: "nat \<Rightarrow> 'w handler" where
  "scas_impl width c =
     (if initial_count c = 0 then (no_stop, c)
      else scas_loop width (rep_prefix c) (has_repne_prefix (instr c)) (direction_flag (state c))
             (read_register (state c) RAX AND width_mask width) (initial_count c) (gpr (state c) ! 7) c)"

fun stos_loop :: "nat \<Rightarrow> bool \<Rightarrow> bool \<Rightarrow> u64 \<Rightarrow> nat \<Rightarrow> u64 \<Rightarrow> 'w handler" where
  "stos_loop width rep df value 0 rdi c = (no_stop, put_di rep rdi 0 c)"
| "stos_loop width rep df value (Suc n) rdi c =
     (case ctx_write c rdi value width of
        (False, c1) \<Rightarrow> (memory_fault c1 rdi, put_di rep rdi (Suc n) c1)
      | (True, c1) \<Rightarrow>
         (let hit_bits = hits c1 rdi width False True; rdi1 = advance df width rdi
          in case note_debug_break c1 hit_bits (rep \<and> n > 0) of
               (True, c2) \<Rightarrow> (no_stop, put_di rep rdi1 n c2)
             | (False, c2) \<Rightarrow>
                 if \<not> rep then (no_stop, put_di rep rdi1 n c2) else stos_loop width rep df value n rdi1 c2))"

definition stos_impl :: "nat \<Rightarrow> 'w handler" where
  "stos_impl width c =
     (if initial_count c = 0 then (no_stop, c)
      else stos_loop width (rep_prefix c) (direction_flag (state c))
             (read_register (state c) RAX AND width_mask width) (initial_count c) (gpr (state c) ! 7) c)"

fun lods_loop :: "nat \<Rightarrow> bool \<Rightarrow> bool \<Rightarrow> nat \<Rightarrow> u64 \<Rightarrow> 'w handler" where
  "lods_loop width rep df 0 rsi c = (no_stop, put_si rep rsi 0 c)"
| "lods_loop width rep df (Suc n) rsi c =
     (case ctx_read c rsi width of
        (None, c1) \<Rightarrow> (memory_fault c1 rsi, put_si rep rsi (Suc n) c1)
      | (Some value, c1) \<Rightarrow>
         (let c2 = upd_state (\<lambda>s. write_register s RAX value width) c1;
              hit_bits = hits c2 rsi width True False; rsi1 = advance df width rsi
          in case note_debug_break c2 hit_bits (rep \<and> n > 0) of
               (True, c3) \<Rightarrow> (no_stop, put_si rep rsi1 n c3)
             | (False, c3) \<Rightarrow>
                 if \<not> rep then (no_stop, put_si rep rsi1 n c3) else lods_loop width rep df n rsi1 c3))"

definition lods_impl :: "nat \<Rightarrow> 'w handler" where
  "lods_impl width c =
     (if initial_count c = 0 then (no_stop, c)
      else lods_loop width (rep_prefix c) (direction_flag (state c)) (initial_count c) (gpr (state c) ! 6) c)"

definition handle_code_CMPSB_M8_M8 :: "'w handler" where
  "handle_code_CMPSB_M8_M8 = cmps_impl 1"

definition handle_code_CMPSW_M16_M16 :: "'w handler" where
  "handle_code_CMPSW_M16_M16 = cmps_impl 2"

definition handle_code_CMPSD_M32_M32 :: "'w handler" where
  "handle_code_CMPSD_M32_M32 = cmps_impl 4"

definition handle_code_CMPSQ_M64_M64 :: "'w handler" where
  "handle_code_CMPSQ_M64_M64 = cmps_impl 8"

definition handle_code_SCASB_AL_M8 :: "'w handler" where
  "handle_code_SCASB_AL_M8 = scas_impl 1"

definition handle_code_SCASW_AX_M16 :: "'w handler" where
  "handle_code_SCASW_AX_M16 = scas_impl 2"

definition handle_code_SCASD_EAX_M32 :: "'w handler" where
  "handle_code_SCASD_EAX_M32 = scas_impl 4"

definition handle_code_SCASQ_RAX_M64 :: "'w handler" where
  "handle_code_SCASQ_RAX_M64 = scas_impl 8"

definition handle_code_STOSB_M8_AL :: "'w handler" where
  "handle_code_STOSB_M8_AL = stos_impl 1"

definition handle_code_STOSW_M16_AX :: "'w handler" where
  "handle_code_STOSW_M16_AX = stos_impl 2"

definition handle_code_STOSD_M32_EAX :: "'w handler" where
  "handle_code_STOSD_M32_EAX = stos_impl 4"

definition handle_code_STOSQ_M64_RAX :: "'w handler" where
  "handle_code_STOSQ_M64_RAX = stos_impl 8"

definition handle_code_LODSB_AL_M8 :: "'w handler" where
  "handle_code_LODSB_AL_M8 = lods_impl 1"

definition handle_code_LODSW_AX_M16 :: "'w handler" where
  "handle_code_LODSW_AX_M16 = lods_impl 2"

definition handle_code_LODSD_EAX_M32 :: "'w handler" where
  "handle_code_LODSD_EAX_M32 = lods_impl 4"

definition handle_code_LODSQ_RAX_M64 :: "'w handler" where
  "handle_code_LODSQ_RAX_M64 = lods_impl 8"

section \<open>\<^verbatim>\<open>movs.cpp\<close>\<close>

fun movs_loop :: "nat \<Rightarrow> bool \<Rightarrow> bool \<Rightarrow> nat \<Rightarrow> u64 \<Rightarrow> u64 \<Rightarrow> 'w handler" where
  "movs_loop width rep df 0 rsi rdi c = (no_stop, put_si_di rep rsi rdi 0 c)"
| "movs_loop width rep df (Suc n) rsi rdi c =
     (case ctx_read c rsi width of
        (None, c1) \<Rightarrow> (memory_fault c1 rsi, put_si_di rep rsi rdi (Suc n) c1)
      | (Some value, c1) \<Rightarrow>
         (case ctx_write c1 rdi (truncate_to value width) width of
            (False, c2) \<Rightarrow> (memory_fault c2 rdi, put_si_di rep rsi rdi (Suc n) c2)
          | (True, c2) \<Rightarrow>
             (let hit_bits = hits c2 rsi width True False OR hits c2 rdi width False True;
                  rsi1 = advance df width rsi; rdi1 = advance df width rdi
              in case note_debug_break c2 hit_bits (rep \<and> n > 0) of
                   (True, c3) \<Rightarrow> (no_stop, put_si_di rep rsi1 rdi1 n c3)
                 | (False, c3) \<Rightarrow> movs_loop width rep df n rsi1 rdi1 c3)))"

definition movs_impl :: "nat \<Rightarrow> 'w handler" where
  "movs_impl width c =
     (if initial_count c = 0 then (no_stop, c)
      else movs_loop width (rep_prefix c) (direction_flag (state c)) (initial_count c)
             (gpr (state c) ! 6) (gpr (state c) ! 7) c)"

definition handle_code_MOVSB_M8_M8 :: "'w handler" where
  "handle_code_MOVSB_M8_M8 = movs_impl 1"

definition handle_code_MOVSW_M16_M16 :: "'w handler" where
  "handle_code_MOVSW_M16_M16 = movs_impl 2"

definition handle_code_MOVSD_M32_M32 :: "'w handler" where
  "handle_code_MOVSD_M32_M32 = movs_impl 4"

definition handle_code_MOVSQ_M64_M64 :: "'w handler" where
  "handle_code_MOVSQ_M64_M64 = movs_impl 8"

end
