(* ===== verification/String_Facts.thy ===== *)
theory String_Facts
  imports String_Ops
begin

text \<open>
  Repeated string instructions. The interface \<open>string_loop\<close> says what the five loops have in common; from it one theorem follows for all
  of them: a repeated instruction is the single instruction, executed again until the count or the comparison stops it, with the
  registers up to date after every element, so that it can be interrupted and restarted at any of them.
\<close>

section \<open>The interface\<close>

definition string_continues :: "bool \<Rightarrow> bool \<Rightarrow> bool \<Rightarrow> nat \<Rightarrow> cpu_state \<Rightarrow> bool" where
  "string_continues cmp rep repne n s \<longleftrightarrow> rep \<and> n > 0 \<and> (cmp \<longrightarrow> flag_ZF s = (\<not> repne))"

definition no_watchpoints :: "cpu_state \<Rightarrow> bool" where
  "no_watchpoints s \<longleftrightarrow> dr s ! 7 AND 0xFF = 0"

text \<open>What one element may change of the registers.\<close>

definition keeps_control :: "cpu_state \<Rightarrow> cpu_state \<Rightarrow> bool" where
  "keeps_control s s' \<longleftrightarrow> (wf_cpu s \<longrightarrow> wf_cpu s') \<and> dr s' = dr s \<and> direction_flag s' = direction_flag s \<and>
     gpr s' ! 1 = gpr s ! 1 \<and> gpr s' ! 6 = gpr s ! 6 \<and> gpr s' ! 7 = gpr s ! 7"

text \<open>The instruction without its prefix.\<close>

definition once :: "'w ctx \<Rightarrow> 'w ctx" where
  "once c = c\<lparr>instr := (instr c)\<lparr>has_rep_prefix := False, has_repne_prefix := False\<rparr>\<rparr>"

text \<open>A repeated \<open>h\<close> is one \<open>h\<close> followed by the repeated \<open>h\<close> with the count reduced, unless it faults or the comparison ends it.\<close>

definition rep_iterated :: "'w handler \<Rightarrow> bool \<Rightarrow> 'w ctx \<Rightarrow> bool" where
  "rep_iterated h cmp c \<longleftrightarrow> h c =
     (case h (once c) of (r, c1) \<Rightarrow>
        let c2 = c1\<lparr>instr := instr c\<rparr>; c3 = upd_state (set_gpr 1 (gpr (state c) ! 1 - 1)) c2
        in if r \<noteq> no_stop then (r, c2)
           else if cmp \<and> flag_ZF (state c3) = has_repne_prefix (instr c) then (no_stop, c3)
           else h c3)"

lemma count_pred: "unat v = Suc n \<Longrightarrow> v - 1 = word_of_nat n" for v :: u64
proof -
  assume n: "unat v = Suc n"
  have "v = word_of_nat (Suc n)" by (simp flip: n)
  then show ?thesis by simp
qed

locale string_loop =
  fixes cmp :: bool
    and impl :: "nat \<Rightarrow> 'w handler"
    and loop :: "nat \<Rightarrow> bool \<Rightarrow> bool \<Rightarrow> bool \<Rightarrow> nat \<Rightarrow> 'p \<Rightarrow> 'w handler"
    and elem :: "nat \<Rightarrow> 'p \<Rightarrow> 'w ctx \<Rightarrow> (execution_result + u64) \<times> 'w ctx"
    and adv :: "bool \<Rightarrow> nat \<Rightarrow> 'p \<Rightarrow> 'p"
    and put :: "bool \<Rightarrow> 'p \<Rightarrow> nat \<Rightarrow> cpu_state \<Rightarrow> cpu_state"
    and pos :: "cpu_state \<Rightarrow> 'p"
  assumes impl_eq: "impl w c =
      (if initial_count c = 0 then (no_stop, c)
       else loop w (rep_prefix c) (has_repne_prefix (instr c)) (direction_flag (state c)) (initial_count c) (pos (state c)) c)"
    and loop_0: "loop w rep repne df 0 p c = (no_stop, upd_state (put rep p 0) c)"
    and loop_Suc: "rep \<or> n = 0 \<Longrightarrow> loop w rep repne df (Suc n) p c =
      (case elem w p c of
         (Inl r, c1) \<Rightarrow> (r, upd_state (put rep p (Suc n)) c1)
       | (Inr hit, c1) \<Rightarrow>
          (case note_debug_break c1 hit (string_continues cmp rep repne n (state c1)) of
             (True, c2) \<Rightarrow> (no_stop, upd_state (put rep (adv df w p) n) c2)
           | (False, c2) \<Rightarrow>
               if \<not> string_continues cmp rep repne n (state c1) then (no_stop, upd_state (put rep (adv df w p) n) c2)
               else loop w rep repne df n (adv df w p) c2))"
    and elem_fault: "elem w p c = (Inl r, c1) \<Longrightarrow> r \<noteq> no_stop \<and> state c1 = state c"
    and elem_hit: "elem w p c = (Inr hit, c1) \<Longrightarrow> no_watchpoints (state c) \<Longrightarrow> hit = 0"
    and elem_keeps: "elem w p c = (x, c1) \<Longrightarrow> instr c1 = instr c \<and> keeps_control (state c) (state c1)"
    and elem_put: "elem w p (upd_state (put True q k) c) = apsnd (upd_state (put True q k)) (elem w p c)"
    and elem_instr: "code i = code (instr c) \<Longrightarrow> elem w p (c\<lparr>instr := i\<rparr>) = apsnd (\<lambda>c1. c1\<lparr>instr := i\<rparr>) (elem w p c)"
    and put_put: "put True p n (put True q k s) = put True p n s"
    and put_rflags: "rflags (put rep p n s) = rflags s"
    and put_wf: "wf_cpu s \<Longrightarrow> wf_cpu (put rep p n s)"
    and put_pos: "wf_cpu s \<Longrightarrow> pos (put rep p n s) = p"
    and put_count: "wf_cpu s \<Longrightarrow> put True p n s = set_gpr 1 (word_of_nat n) (put False p k s)"
    and put_same: "put False (pos s) n s = s"
    and pos_keeps: "keeps_control s s' \<Longrightarrow> pos s' = pos s"
begin

lemma put_same_count: "wf_cpu s \<Longrightarrow> put True (pos s) (unat (gpr s ! 1)) s = s"
  using put_count [of s "pos s" "unat (gpr s ! 1)" 0] put_same [of s 0] by (simp add: set_gpr_def)

text \<open>The registers the loop keeps in locals are dead until it ends.\<close>

lemma loop_absorbs: "loop w True repne df n p (upd_state (put True q k) c) = loop w True repne df n p c"
proof (induction n arbitrary: p c)
  case 0
  then show ?case by (simp add: loop_0 put_put)
next
  case (Suc n)
  obtain r c1 where e: "elem w p c = (r, c1)" by fastforce
  show ?case
  proof (cases r)
    case (Inl f)
    then show ?thesis using e by (simp add: loop_Suc elem_put put_put)
  next
    case (Inr hit)
    have "note_debug_break (upd_state (put True q k) c1) hit v = apsnd (upd_state (put True q k)) (note_debug_break c1 hit v)" for v
      by (simp add: note_debug_break_def)
    moreover have "string_continues cmp True repne n (put True q k (state c1)) = string_continues cmp True repne n (state c1)"
      by (simp add: string_continues_def put_rflags)
    ultimately show ?thesis
      using e Inr Suc.IH by (auto simp: loop_Suc elem_put put_put split: prod.split bool.split)
  qed
qed

lemma impl_after:
  assumes "wf_cpu (state c)" "rep_prefix c" "n < 2 ^ 64"
  shows "impl w (upd_state (put True p n) c) =
    (if n = 0 then (no_stop, upd_state (put True p n) c)
     else loop w True (has_repne_prefix (instr c)) (direction_flag (state c)) n p c)"
proof -
  have "gpr (put True p n (state c)) ! 1 = word_of_nat n"
    using put_count [OF assms(1), of p n 0] put_wf [OF assms(1), of False p 0] by (simp add: set_gpr_def wf_cpu_def)
  then have "initial_count (upd_state (put True p n) c) = n"
    using assms(2,3) by (simp add: initial_count_def rep_prefix_def unat_of_nat)
  then show ?thesis
    using assms(2) put_pos [OF assms(1)] loop_absorbs by (simp add: impl_eq rep_prefix_def direction_flag_def put_rflags)
qed

lemma iterated:
  assumes "wf_cpu (state c)" "rep_prefix c" "gpr (state c) ! 1 \<noteq> 0" "no_watchpoints (state c)"
  shows "rep_iterated (impl w) cmp c"
proof -
  obtain n where n: "unat (gpr (state c) ! 1) = Suc n" using assms(3) by (metis not0_implies_Suc unat_eq_zero)
  then have pred: "gpr (state c) ! 1 - 1 = word_of_nat n" "n < 2 ^ 64"
    using unsigned_less [of "gpr (state c) ! 1", where 'a = nat] by (simp_all add: count_pred)
  define p where "p = pos (state c)"
  define df where "df = direction_flag (state c)"
  obtain x c1 where e: "elem w p c = (x, c1)" by fastforce
  have keep: "instr c1 = instr c" "keeps_control (state c) (state c1)" using elem_keeps [OF e] by auto
  then have s1: "wf_cpu (state c1)" "pos (state c1) = p" "direction_flag (state c1) = df" "unat (gpr (state c1) ! 1) = Suc n" "rep_prefix c1"
    using assms(1,2) n pos_keeps [OF keep(2)] by (simp_all add: keeps_control_def p_def df_def rep_prefix_def)
  have run: "impl w c = loop w True (has_repne_prefix (instr c)) df (Suc n) p c"
    using assms(2) n by (simp add: impl_eq initial_count_def p_def df_def)
  have e1: "elem w p (once c) = (x, c1\<lparr>instr := instr (once c)\<rparr>)"
    using elem_instr [of "instr (once c)" c w p] e by (simp add: once_def)
  have run1: "impl w (once c) = loop w False False df (Suc 0) p (once c)"
    by (simp add: impl_eq initial_count_def rep_prefix_def once_def p_def df_def)
  show ?thesis
  proof (cases x)
    case (Inl r)
    then show ?thesis
      using run run1 e e1 put_same [of "state c1" 1] put_same_count [OF s1(1)] s1(2,4) elem_fault keep(1)
      by (auto simp: loop_Suc rep_iterated_def Let_def)
  next
    case (Inr hit)
    then have hit: "hit = 0" using elem_hit e assms(4) by blast
    define c3 where "c3 = upd_state (put True (adv df w p) n) c1"
    have "impl w (once c) = (no_stop, upd_state (put False (adv df w p) 0) (c1\<lparr>instr := instr (once c)\<rparr>))"
      using run1 e1 Inr hit by (simp add: loop_Suc note_debug_break_def string_continues_def)
    moreover have "upd_state (set_gpr 1 (gpr (state c) ! 1 - 1))
        ((upd_state (put False (adv df w p) 0) (c1\<lparr>instr := instr (once c)\<rparr>))\<lparr>instr := instr c\<rparr>) = c3"
      using put_count [OF s1(1), of "adv df w p" n 0] keep(1) pred(1) by (simp add: c3_def)
    moreover have "flag_ZF (state c3) = flag_ZF (state c1)" by (simp add: c3_def put_rflags)
    moreover have "impl w c = (if \<not> string_continues cmp True (has_repne_prefix (instr c)) n (state c1) then (no_stop, c3)
        else loop w True (has_repne_prefix (instr c)) df n (adv df w p) c1)"
      using run e Inr hit by (simp add: loop_Suc note_debug_break_def c3_def)
    moreover have "impl w c3 = (if n = 0 then (no_stop, c3) else loop w True (has_repne_prefix (instr c)) df n (adv df w p) c1)"
      using impl_after [OF s1(1,5) pred(2), of w "adv df w p"] keep(1) s1(3) by (simp add: c3_def)
    ultimately show ?thesis by (auto simp: rep_iterated_def string_continues_def)
  qed
qed

text \<open>The single form: a fault changes no register, otherwise the pointers are behind the element.\<close>

lemma single:
  assumes "impl w (once c) = (r, c1)"
  shows "if r = no_stop then \<exists>s. keeps_control (state c) s \<and> state c1 = put False (adv (direction_flag (state c)) w (pos (state c))) 0 s
    else state c1 = state c"
proof -
  let ?p = "pos (state c)" and ?df = "direction_flag (state c)"
  have run: "impl w (once c) = loop w False False ?df (Suc 0) ?p (once c)"
    by (simp add: impl_eq initial_count_def rep_prefix_def once_def)
  obtain x c0 where e: "elem w ?p (once c) = (x, c0)" by fastforce
  have o: "state (once c) = state c" by (simp add: once_def)
  show ?thesis
  proof (cases x)
    case (Inl f)
    then show ?thesis
      using assms run e elem_fault [of w ?p "once c" f c0] put_same [of "state c" 1] by (auto simp: loop_Suc o)
  next
    case (Inr hit)
    have "impl w (once c) = (no_stop, upd_state (put False (adv ?df w ?p) 0) (snd (note_debug_break c0 hit False)))"
      using run e Inr by (auto simp: loop_Suc string_continues_def split: prod.split bool.split)
    moreover have "state (snd (note_debug_break c0 hit False)) = state c0" by (simp add: note_debug_break_def)
    ultimately show ?thesis using assms elem_keeps [OF e] by (auto simp: o)
  qed
qed

end

section \<open>Restarting\<close>

text \<open>The registers of a repeated instruction after \<open>k\<close> elements: the count and the pointers the instruction uses.\<close>

definition elements_done :: "nat \<Rightarrow> bool \<Rightarrow> bool \<Rightarrow> nat \<Rightarrow> cpu_state \<Rightarrow> cpu_state \<Rightarrow> bool" where
  "elements_done w si di k s s' \<longleftrightarrow>
     (let move = advance (direction_flag s) w ^^ k
      in gpr s' ! 1 = gpr s ! 1 - word_of_nat k \<and> gpr s' ! 6 = (if si then move (gpr s ! 6) else gpr s ! 6) \<and>
         gpr s' ! 7 = (if di then move (gpr s ! 7) else gpr s ! 7))"

definition after_single :: "nat \<Rightarrow> bool \<Rightarrow> bool \<Rightarrow> cpu_state \<Rightarrow> cpu_state \<Rightarrow> bool" where
  "after_single w si di s s' \<longleftrightarrow> wf_cpu s' \<and> dr s' = dr s \<and> direction_flag s' = direction_flag s \<and> gpr s' ! 1 = gpr s ! 1 \<and>
     gpr s' ! 6 = (if si then advance (direction_flag s) w (gpr s ! 6) else gpr s ! 6) \<and>
     gpr s' ! 7 = (if di then advance (direction_flag s) w (gpr s ! 7) else gpr s ! 7)"

text \<open>A fault leaves the registers behind the elements before it and is what the single form reports there.\<close>

definition fault_restarts :: "'w handler \<Rightarrow> nat \<Rightarrow> bool \<Rightarrow> bool \<Rightarrow> 'w ctx \<Rightarrow> bool" where
  "fault_restarts h w si di c \<longleftrightarrow> (case h c of (r, c') \<Rightarrow> r \<noteq> no_stop \<longrightarrow>
     (\<exists>k c1. k < unat (gpr (state c) ! 1) \<and> elements_done w si di k (state c) (state c') \<and>
        state c1 = state c' \<and> instr c1 = instr c \<and> fst (h (once c1)) = r))"

definition repeating :: "'w ctx \<Rightarrow> bool" where
  "repeating c \<longleftrightarrow> wf_cpu (state c) \<and> rep_prefix c \<and> gpr (state c) ! 1 \<noteq> 0 \<and> no_watchpoints (state c)"

lemma restarts:
  assumes it: "\<And>c. repeating c \<Longrightarrow> rep_iterated h cmp c"
    and one: "\<And>c r c1. repeating c \<Longrightarrow> h (once c) = (r, c1) \<Longrightarrow> if r = no_stop then after_single w si di (state c) (state c1) else state c1 = state c"
    and zero: "\<And>c. rep_prefix c \<Longrightarrow> gpr (state c) ! 1 = 0 \<Longrightarrow> h c = (no_stop, c)"
    and c: "repeating c"
  shows "fault_restarts h w si di c"
  using c
proof (induction "unat (gpr (state c) ! 1)" arbitrary: c)
  case 0
  then show ?case by (simp add: repeating_def unat_eq_zero)
next
  case (Suc n)
  obtain r c1 where s: "h (once c) = (r, c1)" by fastforce
  note st = one [OF Suc.prems s]
  let ?c2 = "c1\<lparr>instr := instr c\<rparr>"
  let ?c3 = "upd_state (set_gpr 1 (gpr (state c) ! 1 - 1)) ?c2"
  have eq: "h c = (if r \<noteq> no_stop then (r, ?c2) else if cmp \<and> flag_ZF (state ?c3) = has_repne_prefix (instr c) then (no_stop, ?c3) else h ?c3)"
    using it [OF Suc.prems] unfolding rep_iterated_def s prod.case Let_def .
  show ?case
  proof (cases "r = no_stop")
    case False
    then have "h c = (r, ?c2)" "state ?c2 = state c" using eq st by auto
    then show ?thesis
      using s Suc.hyps(2) unfolding fault_restarts_def
      by (auto simp: elements_done_def intro!: exI [of _ 0] exI [of _ c])
  next
    case True
    then have a: "after_single w si di (state c) (state c1)" using st by simp
    have g: "length (gpr (state c1)) = 16" using a by (simp add: after_single_def wf_cpu_def)
    have "n < 2 ^ 64" using Suc.hyps(2) unsigned_less [of "gpr (state c) ! 1", where 'a = nat] by simp
    then have cnt: "unat (gpr (state ?c3) ! 1) = n"
      using count_pred [OF Suc.hyps(2) [symmetric]] g by (simp add: set_gpr_def unat_of_nat)
    show ?thesis
    proof (cases "gpr (state ?c3) ! 1 = 0")
      case z: True
      then have "h ?c3 = (no_stop, ?c3)" using zero [of ?c3] Suc.prems by (simp add: repeating_def rep_prefix_def)
      then show ?thesis using eq True by (auto simp: fault_restarts_def)
    next
      case nz: False
      have "repeating ?c3"
        using Suc.prems a nz by (simp add: repeating_def after_single_def rep_prefix_def no_watchpoints_def set_gpr_def wf_cpu_def)
      then have ih: "fault_restarts h w si di ?c3" using Suc.hyps(1) cnt by blast
      have moved: "elements_done w si di (Suc k) (state c) s'" if "elements_done w si di k (state ?c3) s'" for k s'
        using that a g by (auto simp: elements_done_def after_single_def Let_def set_gpr_def direction_flag_def funpow_swap1)
      obtain r' c' where h: "h c = (r', c')" by fastforce
      show ?thesis
      proof (cases "r' = no_stop")
        case f: False
        then have "h ?c3 = (r', c')" using h eq True by (auto split: if_splits)
        then obtain k c4 where k: "k < n" "elements_done w si di k (state ?c3) (state c')" "state c4 = state c'" "instr c4 = instr c" "fst (h (once c4)) = r'"
          using ih f cnt unfolding fault_restarts_def by auto
        have "Suc k < unat (gpr (state c) ! 1)" using k(1) Suc.hyps(2) by simp
        then show ?thesis using moved [OF k(2)] k(3-5) unfolding fault_restarts_def h prod.case by blast
      qed (simp add: fault_restarts_def h)
    qed
  qed
qed

section \<open>Memory accesses leave the registers alone\<close>

lemma ctx_read_state: "ctx_read (upd_state f c) a w = apsnd (upd_state f) (ctx_read c a w)"
  by (simp add: ctx_read_def split: prod.split)

lemma ctx_write_state: "ctx_write (upd_state f c) a v w = apsnd (upd_state f) (ctx_write c a v w)"
  by (simp add: ctx_write_def split: prod.split)

lemma ctx_read_instr: "ctx_read (c\<lparr>instr := i\<rparr>) a w = apsnd (\<lambda>c. c\<lparr>instr := i\<rparr>) (ctx_read c a w)"
  by (simp add: ctx_read_def split: prod.split)

lemma ctx_write_instr: "ctx_write (c\<lparr>instr := i\<rparr>) a v w = apsnd (\<lambda>c. c\<lparr>instr := i\<rparr>) (ctx_write c a v w)"
  by (simp add: ctx_write_def split: prod.split)

lemma ctx_read_keeps: "ctx_read c a w = (r, c1) \<Longrightarrow> instr c1 = instr c \<and> state c1 = state c"
  by (auto simp: ctx_read_def split: prod.splits)

lemma ctx_write_keeps: "ctx_write c a v w = (r, c1) \<Longrightarrow> instr c1 = instr c \<and> state c1 = state c"
  by (auto simp: ctx_write_def split: prod.splits)

lemma keeps_control_refl: "keeps_control s s"
  by (simp add: keeps_control_def)

lemma no_watchpoints_hits:
  assumes "no_watchpoints s"
  shows "debug_data_breakpoint_hits s a n is_read is_write = 0"
proof -
  have m: "(0xFF :: u64) = mask 8" "(3 :: u64) = mask 2" by (simp_all add: mask_eq_exp_minus_1)
  have b: "\<not> bit (dr s ! 7) j" if "j < 8" for j
    using assms that bit_and_iff [of "dr s ! 7" "mask 8" j] by (simp add: no_watchpoints_def m(1) bit_mask_iff)
  have z: "drop_bit (i * 2) (dr s ! 7) AND 3 = 0" if "i < 4" for i
    using that b unfolding m(2) by (intro bit_word_eqI) (auto simp: bit_and_iff bit_drop_bit_eq bit_mask_iff)
  show ?thesis
    using z [of 0] z [of 1] z [of 2] z [of 3] by (simp add: debug_data_breakpoint_hits_def Let_def upt_rec numeral_eq_Suc)
qed

section \<open>The five loops\<close>

text \<open>Positions are the pointers a loop advances.\<close>

definition put_pair :: "bool \<Rightarrow> u64 \<times> u64 \<Rightarrow> nat \<Rightarrow> cpu_state \<Rightarrow> cpu_state" where
  "put_pair rep p n s = put_rcx rep n (set_gpr 7 (snd p) (set_gpr 6 (fst p) s))"

definition put_one :: "nat \<Rightarrow> bool \<Rightarrow> u64 \<Rightarrow> nat \<Rightarrow> cpu_state \<Rightarrow> cpu_state" where
  "put_one i rep p n s = put_rcx rep n (set_gpr i p s)"

definition pair_pos :: "cpu_state \<Rightarrow> u64 \<times> u64" where
  "pair_pos s = (gpr s ! 6, gpr s ! 7)"

definition adv_pair :: "bool \<Rightarrow> nat \<Rightarrow> u64 \<times> u64 \<Rightarrow> u64 \<times> u64" where
  "adv_pair df w p = (advance df w (fst p), advance df w (snd p))"

lemma set_gpr_simps [simp]:
  "gpr (set_gpr i v s) = (gpr s)[i := v]" "rflags (set_gpr i v s) = rflags s" "dr (set_gpr i v s) = dr s"
  "mode (set_gpr i v s) = mode s" "wf_cpu (set_gpr i v s) = wf_cpu s"
  by (simp_all add: set_gpr_def wf_cpu_def)

lemma put_rcx_simps [simp]:
  "rflags (put_rcx rep n s) = rflags s" "dr (put_rcx rep n s) = dr s" "mode (put_rcx rep n s) = mode s"
  "wf_cpu (put_rcx rep n s) = wf_cpu s" "gpr (put_rcx rep n s) = (if rep then (gpr s)[1 := word_of_nat n] else gpr s)"
  by (simp_all add: put_rcx_def)

lemma set_gpr_laws:
  "set_gpr i v (set_gpr i u s) = set_gpr i v s" "set_gpr i (gpr s ! i) s = s"
  "i \<noteq> j \<Longrightarrow> set_gpr i v (set_gpr j u s) = set_gpr j u (set_gpr i v s)"
  by (simp_all add: set_gpr_def list_update_swap)

lemma put_laws:
  "put_pair True p n (put_pair True q k s) = put_pair True p n s"
  "wf_cpu s \<Longrightarrow> pair_pos (put_pair rep p n s) = p"
  "wf_cpu s \<Longrightarrow> put_pair True p n s = set_gpr 1 (word_of_nat n) (put_pair False p k s)"
  "put_pair False (pair_pos s) n s = s"
  "keeps_control s s' \<Longrightarrow> pair_pos s' = pair_pos s"
  "rflags (put_pair rep p n s) = rflags s" "wf_cpu s \<Longrightarrow> wf_cpu (put_pair rep p n s)"
  by (simp_all add: put_pair_def pair_pos_def put_rcx_def keeps_control_def set_gpr_def wf_cpu_def list_update_swap)

lemma put_one_laws:
  assumes "i = 6 \<or> i = 7"
  shows "put_one i True p n (put_one i True q k s) = put_one i True p n s"
  "wf_cpu s \<Longrightarrow> gpr (put_one i rep p n s) ! i = p"
  "wf_cpu s \<Longrightarrow> put_one i True p n s = set_gpr 1 (word_of_nat n) (put_one i False p k s)"
  "put_one i False (gpr s ! i) n s = s"
  "keeps_control s s' \<Longrightarrow> gpr s' ! i = gpr s ! i"
  "rflags (put_one i rep p n s) = rflags s" "wf_cpu s \<Longrightarrow> wf_cpu (put_one i rep p n s)"
  using assms by (auto simp: put_one_def put_rcx_def keeps_control_def set_gpr_def wf_cpu_def list_update_swap)

definition movs_elem :: "nat \<Rightarrow> u64 \<times> u64 \<Rightarrow> 'w ctx \<Rightarrow> (execution_result + u64) \<times> 'w ctx" where
  "movs_elem w p c =
     (case ctx_read c (fst p) w of
        (None, c1) \<Rightarrow> (Inl (memory_fault c1 (fst p)), c1)
      | (Some v, c1) \<Rightarrow>
         (case ctx_write c1 (snd p) (truncate_to v w) w of
            (False, c2) \<Rightarrow> (Inl (memory_fault c2 (snd p)), c2)
          | (True, c2) \<Rightarrow> (Inr (hits c2 (fst p) w True False OR hits c2 (snd p) w False True), c2)))"

definition cmps_elem :: "nat \<Rightarrow> u64 \<times> u64 \<Rightarrow> 'w ctx \<Rightarrow> (execution_result + u64) \<times> 'w ctx" where
  "cmps_elem w p c =
     (case ctx_read c (fst p) w of
        (None, c1) \<Rightarrow> (Inl (memory_fault c1 (fst p)), c1)
      | (Some lhs, c1) \<Rightarrow>
         (case ctx_read c1 (snd p) w of
            (None, c2) \<Rightarrow> (Inl (memory_fault c2 (snd p)), c2)
          | (Some rhs, c2) \<Rightarrow>
             (let c3 = compare_flags (lhs AND width_mask w) (rhs AND width_mask w) w c2
              in (Inr (hits c3 (fst p) w True False OR hits c3 (snd p) w True False), c3))))"

definition scas_elem :: "nat \<Rightarrow> u64 \<Rightarrow> 'w ctx \<Rightarrow> (execution_result + u64) \<times> 'w ctx" where
  "scas_elem w p c =
     (case ctx_read c p w of
        (None, c1) \<Rightarrow> (Inl (memory_fault c1 p), c1)
      | (Some rhs, c1) \<Rightarrow>
         (let c2 = compare_flags (read_register (state c) RAX AND width_mask w) (rhs AND width_mask w) w c1
          in (Inr (hits c2 p w True False), c2)))"

definition stos_elem :: "nat \<Rightarrow> u64 \<Rightarrow> 'w ctx \<Rightarrow> (execution_result + u64) \<times> 'w ctx" where
  "stos_elem w p c =
     (case ctx_write c p (read_register (state c) RAX AND width_mask w) w of
        (False, c1) \<Rightarrow> (Inl (memory_fault c1 p), c1)
      | (True, c1) \<Rightarrow> (Inr (hits c1 p w False True), c1))"

definition lods_elem :: "nat \<Rightarrow> u64 \<Rightarrow> 'w ctx \<Rightarrow> (execution_result + u64) \<times> 'w ctx" where
  "lods_elem w p c =
     (case ctx_read c p w of
        (None, c1) \<Rightarrow> (Inl (memory_fault c1 p), c1)
      | (Some v, c1) \<Rightarrow>
         (let c2 = upd_state (\<lambda>s. write_register s RAX v w) c1
          in (Inr (hits c2 p w True False), c2)))"

lemma hits_no_watchpoints: "no_watchpoints (state c) \<Longrightarrow> hits c a w rd wr = 0"
  by (simp add: hits_def no_watchpoints_hits)

lemma hits_frame:
  "hits (c\<lparr>instr := i\<rparr>) a w rd wr = hits c a w rd wr"
  "dr (f (state c)) = dr (state c) \<Longrightarrow> mode (f (state c)) = mode (state c) \<Longrightarrow> hits (upd_state f c) a w rd wr = hits c a w rd wr"
  by (simp_all add: hits_def debug_data_breakpoint_hits_def mask_linear_address_def)

lemma put_keeps_debug [simp]:
  "dr (put_pair rep p n s) = dr s" "mode (put_pair rep p n s) = mode s"
  "dr (put_one i rep q n s) = dr s" "mode (put_one i rep q n s) = mode s"
  by (simp_all add: put_pair_def put_one_def)

lemma memory_fault_code: "code i = code (instr c) \<Longrightarrow> memory_fault (c\<lparr>instr := i\<rparr>) a = memory_fault c a"
  "memory_fault (upd_state f c) a = memory_fault c a"
  by (simp_all add: memory_fault_def)

lemmas string_frame = ctx_read_state ctx_write_state ctx_read_instr ctx_write_instr hits_frame memory_fault_code

lemma movs_interface:
  "movs_elem w p c = (Inl r, c1) \<Longrightarrow> r \<noteq> no_stop \<and> state c1 = state c"
  "movs_elem w p c = (Inr hit, c1) \<Longrightarrow> no_watchpoints (state c) \<Longrightarrow> hit = 0"
  "movs_elem w p c = (x, c1) \<Longrightarrow> instr c1 = instr c \<and> keeps_control (state c) (state c1)"
  by (auto simp: movs_elem_def keeps_control_refl hits_no_watchpoints split: prod.splits option.splits bool.splits dest!: ctx_read_keeps ctx_write_keeps)

lemma movs_frame:
  "movs_elem w p (upd_state (put_pair True q k) c) = apsnd (upd_state (put_pair True q k)) (movs_elem w p c)"
  "code i = code (instr c) \<Longrightarrow> movs_elem w p (c\<lparr>instr := i\<rparr>) = apsnd (\<lambda>c1. c1\<lparr>instr := i\<rparr>) (movs_elem w p c)"
  by (auto simp: movs_elem_def string_frame split: prod.split option.split bool.split dest!: ctx_read_keeps ctx_write_keeps)

lemma put_si_di_pair: "put_si_di rep a b n c = upd_state (put_pair rep (a, b) n) c"
  by (simp add: put_si_di_def put_pair_def)

lemma movs_unfold:
  "movs_impl w c =
    (if initial_count c = 0 then (no_stop, c)
     else movs_loop w (rep_prefix c) (direction_flag (state c)) (initial_count c) (fst (pair_pos (state c))) (snd (pair_pos (state c))) c)"
  "movs_loop w rep df 0 (fst p) (snd p) c = (no_stop, upd_state (put_pair rep p 0) c)"
  by (simp_all add: movs_impl_def pair_pos_def put_si_di_pair)

lemma movs_step:
  "rep \<or> n = 0 \<Longrightarrow> movs_loop w rep df (Suc n) (fst p) (snd p) c =
    (case movs_elem w p c of
       (Inl r, c1) \<Rightarrow> (r, upd_state (put_pair rep p (Suc n)) c1)
     | (Inr hit, c1) \<Rightarrow>
        (case note_debug_break c1 hit (string_continues False rep repne n (state c1)) of
           (True, c2) \<Rightarrow> (no_stop, upd_state (put_pair rep (adv_pair df w p) n) c2)
         | (False, c2) \<Rightarrow>
             if \<not> string_continues False rep repne n (state c1) then (no_stop, upd_state (put_pair rep (adv_pair df w p) n) c2)
             else movs_loop w rep df n (fst (adv_pair df w p)) (snd (adv_pair df w p)) c2))"
  by (cases n) (auto simp: movs_elem_def put_si_di_pair string_continues_def adv_pair_def Let_def split: prod.split option.split bool.split)

interpretation ml: string_loop False movs_impl "\<lambda>w rep repne df n p. movs_loop w rep df n (fst p) (snd p)"
  movs_elem adv_pair put_pair pair_pos
  by unfold_locales (rule movs_unfold movs_step movs_interface movs_frame put_laws; assumption)+

subsection \<open>Comparisons and loads change no register the loops use\<close>

lemma set_sub_flags_gpr: "set_sub_flags (set_gpr i v s) a b r w cf = set_gpr i v (set_sub_flags s a b r w cf)"
  by (simp add: set_sub_flags_def put_flags_state Let_def set_gpr_def)

lemma direction_flag_bit: "direction_flag s = bit (rflags s) 10"
  by (simp only: direction_flag_def kFlagDF_def push_bit_of_1 and_exp_eq_0_iff_not_bit not_not)

lemma set_sub_flags_keeps: "keeps_control s (set_sub_flags s a b r w cf)"
proof -
  have "bit (rflags (set_sub_flags s a b r w cf)) 10 = bit (rflags s) 10"
    using set_sub_flags_status [of s a b r w cf] by (simp add: only_status_flags_def)
  moreover obtain f where "set_sub_flags s a b r w cf = s\<lparr>rflags := f\<rparr>"
    using flag_setters_only(2) [of s a b r w cf] by (auto simp: only_rflags_def)
  ultimately show ?thesis by (simp add: keeps_control_def direction_flag_bit wf_cpu_def)
qed

lemma write_rax_gpr: "i \<noteq> 0 \<Longrightarrow> write_register (set_gpr i v s) RAX x w = set_gpr i v (write_register s RAX x w)"
  by (simp add: write_register_def write_gpr_def Let_def set_gpr_def list_update_swap)

lemma write_rax_keeps: "keeps_control s (write_register s RAX x w)"
  using write_register_wf by (auto simp: keeps_control_def write_register_def write_gpr_def Let_def direction_flag_def wf_cpu_def)

lemma read_rax_gpr: "i \<noteq> 0 \<Longrightarrow> read_register (set_gpr i v s) RAX = read_register s RAX"
  by (simp add: read_register_def read_gpr_def)

lemma flag_ZF_and: "rflags s AND kFlagZF = 0 \<longleftrightarrow> \<not> flag_ZF s"
  by (simp only: kFlagZF_def push_bit_of_1 and_exp_eq_0_iff_not_bit)

lemma compare_continues_eq: "compare_continues rep repne n s = string_continues True rep repne n s"
  by (auto simp: compare_continues_def string_continues_def flag_ZF_and Let_def)


lemma put_commutes:
  "set_sub_flags (put_pair rep p n s) a b r w cf = put_pair rep p n (set_sub_flags s a b r w cf)"
  "set_sub_flags (put_one i rep q n s) a b r w cf = put_one i rep q n (set_sub_flags s a b r w cf)"
  "i \<noteq> 0 \<Longrightarrow> write_register (put_one i rep q n s) RAX x w = put_one i rep q n (write_register s RAX x w)"
  "i \<noteq> 0 \<Longrightarrow> read_register (put_one i rep q n s) RAX = read_register s RAX"
  by (simp_all add: put_pair_def put_one_def put_rcx_def set_sub_flags_gpr write_rax_gpr read_rax_gpr)

lemma put_one_eqs:
  "put_di rep a n c = upd_state (put_one 7 rep a n) c" "put_si rep a n c = upd_state (put_one 6 rep a n) c"
  by (simp_all add: put_di_def put_si_def put_one_def)

lemma note_keeps: "note_debug_break c hit v = (b, c1) \<Longrightarrow> state c1 = state c"
  by (auto simp: note_debug_break_def split: if_splits)

lemma hits_state:
  "hits (c\<lparr>state := write_register s RAX v w\<rparr>) a k rd wr = hits (c\<lparr>state := s\<rparr>) a k rd wr"
  "hits (c\<lparr>state := put_one j rep p n s\<rparr>) a k rd wr = hits (c\<lparr>state := s\<rparr>) a k rd wr"
  "hits (c\<lparr>instr := i, state := s\<rparr>) a k rd wr = hits (c\<lparr>state := s\<rparr>) a k rd wr"
  by (simp_all add: hits_def debug_data_breakpoint_hits_def mask_linear_address_def write_register_def write_gpr_def Let_def)

lemma compare_keeps:
  "s = state c \<Longrightarrow> keeps_control s (state (compare_flags a b w c))" "instr (compare_flags a b w c) = instr c"
  by (simp_all add: compare_flags_def set_sub_flags_keeps)

lemma compare_no_watchpoints: "no_watchpoints (state c) \<Longrightarrow> no_watchpoints (state (compare_flags a b w c))"
  using compare_keeps(1) [OF refl, of c a b w] by (simp add: no_watchpoints_def keeps_control_def)

lemma compare_rax: "read_register (state (compare_flags a b w c)) RAX = read_register (state c) RAX"
  using flag_setters_only(2) [of "state c" a b "truncate_to (a - b) w" w False]
  by (auto simp: compare_flags_def only_rflags_def)

lemma compare_frame:
  "compare_flags a b w (upd_state (put_pair rep p n) c) = upd_state (put_pair rep p n) (compare_flags a b w c)"
  "compare_flags a b w (upd_state (put_one i rep q n) c) = upd_state (put_one i rep q n) (compare_flags a b w c)"
  "compare_flags a b w (c\<lparr>instr := i'\<rparr>) = (compare_flags a b w c)\<lparr>instr := i'\<rparr>"
  by (simp_all add: compare_flags_def put_commutes)

subsection \<open>CMPS\<close>

lemma cmps_interface:
  "cmps_elem w p c = (Inl r, c1) \<Longrightarrow> r \<noteq> no_stop \<and> state c1 = state c"
  "cmps_elem w p c = (Inr hit, c1) \<Longrightarrow> no_watchpoints (state c) \<Longrightarrow> hit = 0"
  "cmps_elem w p c = (x, c1) \<Longrightarrow> instr c1 = instr c \<and> keeps_control (state c) (state c1)"
  by (auto simp: cmps_elem_def keeps_control_refl hits_no_watchpoints Let_def compare_keeps compare_no_watchpoints
    split: prod.splits option.splits bool.splits dest!: ctx_read_keeps ctx_write_keeps)

lemma cmps_frame:
  "cmps_elem w p (upd_state (put_pair True q k) c) = apsnd (upd_state (put_pair True q k)) (cmps_elem w p c)"
  "code i = code (instr c) \<Longrightarrow> cmps_elem w p (c\<lparr>instr := i\<rparr>) = apsnd (\<lambda>c1. c1\<lparr>instr := i\<rparr>) (cmps_elem w p c)"
  by (auto simp: cmps_elem_def string_frame Let_def compare_frame
    split: prod.split option.split bool.split dest!: ctx_read_keeps ctx_write_keeps)

lemma cmps_unfold:
  "cmps_impl w c =
    (if initial_count c = 0 then (no_stop, c)
     else cmps_loop w (rep_prefix c) (has_repne_prefix (instr c)) (direction_flag (state c)) (initial_count c) (fst (pair_pos (state c))) (snd (pair_pos (state c))) c)"
  "cmps_loop w rep repne df 0 (fst p) (snd p) c = (no_stop, upd_state (put_pair rep p 0) c)"
  by (simp_all add: cmps_impl_def pair_pos_def put_si_di_pair)

lemma cmps_step:
  "rep \<or> n = 0 \<Longrightarrow> cmps_loop w rep repne df (Suc n) (fst p) (snd p) c =
    (case cmps_elem w p c of
       (Inl r, c1) \<Rightarrow> (r, upd_state (put_pair rep p (Suc n)) c1)
     | (Inr hit, c1) \<Rightarrow>
        (case note_debug_break c1 hit (string_continues True rep repne n (state c1)) of
           (True, c2) \<Rightarrow> (no_stop, upd_state (put_pair rep (adv_pair df w p) n) c2)
         | (False, c2) \<Rightarrow>
             if \<not> string_continues True rep repne n (state c1) then (no_stop, upd_state (put_pair rep (adv_pair df w p) n) c2)
             else cmps_loop w rep repne df n (fst (adv_pair df w p)) (snd (adv_pair df w p)) c2))"
  by (cases "n = 0") (auto simp: cmps_elem_def string_continues_def Let_def put_si_di_pair adv_pair_def compare_continues_eq
    split: prod.split option.split bool.split dest!: ctx_read_keeps ctx_write_keeps note_keeps)

interpretation cl: string_loop True cmps_impl "\<lambda>w rep repne df n p. cmps_loop w rep repne df n (fst p) (snd p)"
  cmps_elem adv_pair put_pair pair_pos
  by unfold_locales (rule cmps_unfold cmps_step cmps_interface cmps_frame put_laws; assumption)+

subsection \<open>SCAS\<close>

lemma scas_interface:
  "scas_elem w p c = (Inl r, c1) \<Longrightarrow> r \<noteq> no_stop \<and> state c1 = state c"
  "scas_elem w p c = (Inr hit, c1) \<Longrightarrow> no_watchpoints (state c) \<Longrightarrow> hit = 0"
  "scas_elem w p c = (x, c1) \<Longrightarrow> instr c1 = instr c \<and> keeps_control (state c) (state c1)"
  by (auto simp: scas_elem_def keeps_control_refl hits_no_watchpoints Let_def compare_keeps compare_no_watchpoints
    split: prod.splits option.splits bool.splits dest!: ctx_read_keeps ctx_write_keeps)

lemma scas_frame:
  "scas_elem w p (upd_state (put_one 7 True q k) c) = apsnd (upd_state (put_one 7 True q k)) (scas_elem w p c)"
  "code i = code (instr c) \<Longrightarrow> scas_elem w p (c\<lparr>instr := i\<rparr>) = apsnd (\<lambda>c1. c1\<lparr>instr := i\<rparr>) (scas_elem w p c)"
  by (auto simp: scas_elem_def string_frame Let_def compare_frame put_commutes
    split: prod.split option.split bool.split dest!: ctx_read_keeps ctx_write_keeps)

lemma scas_unfold:
  "scas_impl w c =
    (if initial_count c = 0 then (no_stop, c)
     else scas_loop w (rep_prefix c) (has_repne_prefix (instr c)) (direction_flag (state c)) (read_register (state c) RAX AND width_mask w) (initial_count c) ((\<lambda>s. gpr s ! 7) (state c)) c)"
  "scas_loop w rep repne df (read_register (state c) RAX AND width_mask w) 0 p c = (no_stop, upd_state (put_one 7 rep p 0) c)"
  by (simp_all add: scas_impl_def put_one_eqs)

lemma scas_step:
  "rep \<or> n = 0 \<Longrightarrow> scas_loop w rep repne df (read_register (state c) RAX AND width_mask w) (Suc n) p c =
    (case scas_elem w p c of
       (Inl r, c1) \<Rightarrow> (r, upd_state (put_one 7 rep p (Suc n)) c1)
     | (Inr hit, c1) \<Rightarrow>
        (case note_debug_break c1 hit (string_continues True rep repne n (state c1)) of
           (True, c2) \<Rightarrow> (no_stop, upd_state (put_one 7 rep (advance df w p) n) c2)
         | (False, c2) \<Rightarrow>
             if \<not> string_continues True rep repne n (state c1) then (no_stop, upd_state (put_one 7 rep (advance df w p) n) c2)
             else scas_loop w rep repne df (read_register (state c2) RAX AND width_mask w) n (advance df w p) c2))"
  by (cases "n = 0") (auto simp: scas_elem_def string_continues_def Let_def put_one_eqs compare_rax compare_continues_eq
    split: prod.split option.split bool.split dest!: ctx_read_keeps ctx_write_keeps note_keeps)

interpretation sl: string_loop True scas_impl "\<lambda>w rep repne df n p c. scas_loop w rep repne df (read_register (state c) RAX AND width_mask w) n p c"
  scas_elem advance "put_one 7" "\<lambda>s. gpr s ! 7"
  by unfold_locales (rule scas_unfold scas_step scas_interface scas_frame put_one_laws [OF disjI2 [OF refl]]; assumption)+

subsection \<open>STOS\<close>

lemma stos_interface:
  "stos_elem w p c = (Inl r, c1) \<Longrightarrow> r \<noteq> no_stop \<and> state c1 = state c"
  "stos_elem w p c = (Inr hit, c1) \<Longrightarrow> no_watchpoints (state c) \<Longrightarrow> hit = 0"
  "stos_elem w p c = (x, c1) \<Longrightarrow> instr c1 = instr c \<and> keeps_control (state c) (state c1)"
  by (auto simp: stos_elem_def keeps_control_refl hits_no_watchpoints Let_def 
    split: prod.splits option.splits bool.splits dest!: ctx_read_keeps ctx_write_keeps)

lemma stos_frame:
  "stos_elem w p (upd_state (put_one 7 True q k) c) = apsnd (upd_state (put_one 7 True q k)) (stos_elem w p c)"
  "code i = code (instr c) \<Longrightarrow> stos_elem w p (c\<lparr>instr := i\<rparr>) = apsnd (\<lambda>c1. c1\<lparr>instr := i\<rparr>) (stos_elem w p c)"
  by (auto simp: stos_elem_def string_frame Let_def put_commutes
    split: prod.split option.split bool.split dest!: ctx_read_keeps ctx_write_keeps)

lemma stos_unfold:
  "stos_impl w c =
    (if initial_count c = 0 then (no_stop, c)
     else stos_loop w (rep_prefix c) (direction_flag (state c)) (read_register (state c) RAX AND width_mask w) (initial_count c) ((\<lambda>s. gpr s ! 7) (state c)) c)"
  "stos_loop w rep df (read_register (state c) RAX AND width_mask w) 0 p c = (no_stop, upd_state (put_one 7 rep p 0) c)"
  by (simp_all add: stos_impl_def put_one_eqs)

lemma stos_step:
  "rep \<or> n = 0 \<Longrightarrow> stos_loop w rep df (read_register (state c) RAX AND width_mask w) (Suc n) p c =
    (case stos_elem w p c of
       (Inl r, c1) \<Rightarrow> (r, upd_state (put_one 7 rep p (Suc n)) c1)
     | (Inr hit, c1) \<Rightarrow>
        (case note_debug_break c1 hit (string_continues False rep repne n (state c1)) of
           (True, c2) \<Rightarrow> (no_stop, upd_state (put_one 7 rep (advance df w p) n) c2)
         | (False, c2) \<Rightarrow>
             if \<not> string_continues False rep repne n (state c1) then (no_stop, upd_state (put_one 7 rep (advance df w p) n) c2)
             else stos_loop w rep df (read_register (state c2) RAX AND width_mask w) n (advance df w p) c2))"
  by (cases "n = 0") (auto simp: stos_elem_def string_continues_def Let_def put_one_eqs 
    split: prod.split option.split bool.split dest!: ctx_read_keeps ctx_write_keeps note_keeps)

interpretation tl: string_loop False stos_impl "\<lambda>w rep repne df n p c. stos_loop w rep df (read_register (state c) RAX AND width_mask w) n p c"
  stos_elem advance "put_one 7" "\<lambda>s. gpr s ! 7"
  by unfold_locales (rule stos_unfold stos_step stos_interface stos_frame put_one_laws [OF disjI2 [OF refl]]; assumption)+

subsection \<open>LODS\<close>

lemma write_rax_no_watchpoints: "no_watchpoints (state c) \<Longrightarrow> no_watchpoints (write_register (state c) RAX x w)"
  using write_rax_keeps [of "state c" x w] by (simp add: no_watchpoints_def keeps_control_def)

lemma lods_interface:
  "lods_elem w p c = (Inl r, c1) \<Longrightarrow> r \<noteq> no_stop \<and> state c1 = state c"
  "lods_elem w p c = (Inr hit, c1) \<Longrightarrow> no_watchpoints (state c) \<Longrightarrow> hit = 0"
  "lods_elem w p c = (x, c1) \<Longrightarrow> instr c1 = instr c \<and> keeps_control (state c) (state c1)"
  by (auto simp: lods_elem_def keeps_control_refl hits_no_watchpoints Let_def write_rax_keeps write_rax_no_watchpoints
    split: prod.splits option.splits bool.splits dest!: ctx_read_keeps ctx_write_keeps)

lemma lods_frame:
  "lods_elem w p (upd_state (put_one 6 True q k) c) = apsnd (upd_state (put_one 6 True q k)) (lods_elem w p c)"
  "code i = code (instr c) \<Longrightarrow> lods_elem w p (c\<lparr>instr := i\<rparr>) = apsnd (\<lambda>c1. c1\<lparr>instr := i\<rparr>) (lods_elem w p c)"
  by (auto simp: lods_elem_def string_frame Let_def put_commutes hits_state
    split: prod.split option.split bool.split dest!: ctx_read_keeps ctx_write_keeps)

lemma lods_unfold:
  "lods_impl w c =
    (if initial_count c = 0 then (no_stop, c)
     else lods_loop w (rep_prefix c) (direction_flag (state c)) (initial_count c) ((\<lambda>s. gpr s ! 6) (state c)) c)"
  "lods_loop w rep df 0 p c = (no_stop, upd_state (put_one 6 rep p 0) c)"
  by (simp_all add: lods_impl_def put_one_eqs)

lemma lods_step:
  "rep \<or> n = 0 \<Longrightarrow> lods_loop w rep df (Suc n) p c =
    (case lods_elem w p c of
       (Inl r, c1) \<Rightarrow> (r, upd_state (put_one 6 rep p (Suc n)) c1)
     | (Inr hit, c1) \<Rightarrow>
        (case note_debug_break c1 hit (string_continues False rep repne n (state c1)) of
           (True, c2) \<Rightarrow> (no_stop, upd_state (put_one 6 rep (advance df w p) n) c2)
         | (False, c2) \<Rightarrow>
             if \<not> string_continues False rep repne n (state c1) then (no_stop, upd_state (put_one 6 rep (advance df w p) n) c2)
             else lods_loop w rep df n (advance df w p) c2))"
  by (cases "n = 0") (auto simp: lods_elem_def string_continues_def Let_def put_one_eqs 
    split: prod.split option.split bool.split dest!: ctx_read_keeps ctx_write_keeps note_keeps)

interpretation ll: string_loop False lods_impl "\<lambda>w rep repne df n p c. lods_loop w rep df n p c"
  lods_elem advance "put_one 6" "\<lambda>s. gpr s ! 6"
  by unfold_locales (rule lods_unfold lods_step lods_interface lods_frame put_one_laws [OF disjI1 [OF refl]]; assumption)+

section \<open>All string handlers\<close>

text \<open>For each handler: whether a comparison can end it, the width, whether it moves RSI and RDI.\<close>

definition string_catalog :: "('w handler \<times> bool \<times> nat \<times> bool \<times> bool) list" where
  "string_catalog =
    [(handle_code_MOVSB_M8_M8, False, 1, True, True), (handle_code_MOVSW_M16_M16, False, 2, True, True),
     (handle_code_MOVSD_M32_M32, False, 4, True, True), (handle_code_MOVSQ_M64_M64, False, 8, True, True),
     (handle_code_CMPSB_M8_M8, True, 1, True, True), (handle_code_CMPSW_M16_M16, True, 2, True, True),
     (handle_code_CMPSD_M32_M32, True, 4, True, True), (handle_code_CMPSQ_M64_M64, True, 8, True, True),
     (handle_code_SCASB_AL_M8, True, 1, False, True), (handle_code_SCASW_AX_M16, True, 2, False, True),
     (handle_code_SCASD_EAX_M32, True, 4, False, True), (handle_code_SCASQ_RAX_M64, True, 8, False, True),
     (handle_code_STOSB_M8_AL, False, 1, False, True), (handle_code_STOSW_M16_AX, False, 2, False, True),
     (handle_code_STOSD_M32_EAX, False, 4, False, True), (handle_code_STOSQ_M64_RAX, False, 8, False, True),
     (handle_code_LODSB_AL_M8, False, 1, True, False), (handle_code_LODSW_AX_M16, False, 2, True, False),
     (handle_code_LODSD_EAX_M32, False, 4, True, False), (handle_code_LODSQ_RAX_M64, False, 8, True, False)]"

lemmas string_handler_defs =
  handle_code_MOVSB_M8_M8_def handle_code_MOVSW_M16_M16_def handle_code_MOVSD_M32_M32_def handle_code_MOVSQ_M64_M64_def
  handle_code_CMPSB_M8_M8_def handle_code_CMPSW_M16_M16_def handle_code_CMPSD_M32_M32_def handle_code_CMPSQ_M64_M64_def
  handle_code_SCASB_AL_M8_def handle_code_SCASW_AX_M16_def handle_code_SCASD_EAX_M32_def handle_code_SCASQ_RAX_M64_def
  handle_code_STOSB_M8_AL_def handle_code_STOSW_M16_AX_def handle_code_STOSD_M32_EAX_def handle_code_STOSQ_M64_RAX_def
  handle_code_LODSB_AL_M8_def handle_code_LODSW_AX_M16_def handle_code_LODSD_EAX_M32_def handle_code_LODSQ_RAX_M64_def

lemma put_after:
  assumes "wf_cpu s" "keeps_control s s'"
  shows "after_single w True True s (put_pair False (adv_pair (direction_flag s) w (pair_pos s)) 0 s')"
    "after_single w False True s (put_one 7 False (advance (direction_flag s) w (gpr s ! 7)) 0 s')"
    "after_single w True False s (put_one 6 False (advance (direction_flag s) w (gpr s ! 6)) 0 s')"
proof -
  have k: "wf_cpu s'" "length (gpr s') = 16" "dr s' = dr s" "direction_flag s' = direction_flag s"
    "gpr s' ! 1 = gpr s ! 1" "gpr s' ! 6 = gpr s ! 6" "gpr s' ! 7 = gpr s ! 7"
    using assms by (simp_all add: keeps_control_def wf_cpu_def)
  then show "after_single w True True s (put_pair False (adv_pair (direction_flag s) w (pair_pos s)) 0 s')"
    "after_single w False True s (put_one 7 False (advance (direction_flag s) w (gpr s ! 7)) 0 s')"
    "after_single w True False s (put_one 6 False (advance (direction_flag s) w (gpr s ! 6)) 0 s')"
    by (simp_all add: after_single_def put_pair_def put_one_def pair_pos_def adv_pair_def direction_flag_def)
qed

lemma string_single:
  assumes "wf_cpu (state c)"
  shows "movs_impl w (once c) = (r, c1) \<Longrightarrow> if r = no_stop then after_single w True True (state c) (state c1) else state c1 = state c"
    "cmps_impl w (once c) = (r, c1) \<Longrightarrow> if r = no_stop then after_single w True True (state c) (state c1) else state c1 = state c"
    "scas_impl w (once c) = (r, c1) \<Longrightarrow> if r = no_stop then after_single w False True (state c) (state c1) else state c1 = state c"
    "stos_impl w (once c) = (r, c1) \<Longrightarrow> if r = no_stop then after_single w False True (state c) (state c1) else state c1 = state c"
    "lods_impl w (once c) = (r, c1) \<Longrightarrow> if r = no_stop then after_single w True False (state c) (state c1) else state c1 = state c"
  using ml.single [of w c r c1] cl.single [of w c r c1] sl.single [of w c r c1] tl.single [of w c r c1] ll.single [of w c r c1]
    put_after [OF assms, of _ w] by (auto split: if_splits)

lemma string_zero:
  "rep_prefix c \<Longrightarrow> gpr (state c) ! 1 = 0 \<Longrightarrow> movs_impl w c = (no_stop, c) \<and> cmps_impl w c = (no_stop, c) \<and>
     scas_impl w c = (no_stop, c) \<and> stos_impl w c = (no_stop, c) \<and> lods_impl w c = (no_stop, c)"
  by (simp add: movs_impl_def cmps_impl_def scas_impl_def stos_impl_def lods_impl_def initial_count_def)

lemma string_iterated:
  assumes "repeating c"
  shows "rep_iterated (movs_impl w) False c" "rep_iterated (cmps_impl w) True c" "rep_iterated (scas_impl w) True c"
    "rep_iterated (stos_impl w) False c" "rep_iterated (lods_impl w) False c"
  using assms ml.iterated [of c w] cl.iterated [of c w] sl.iterated [of c w] tl.iterated [of c w] ll.iterated [of c w] by (simp_all add: repeating_def)

lemma string_restarts:
  assumes "repeating c"
  shows "fault_restarts (movs_impl w) w True True c" "fault_restarts (cmps_impl w) w True True c" "fault_restarts (scas_impl w) w False True c"
    "fault_restarts (stos_impl w) w False True c" "fault_restarts (lods_impl w) w True False c"
  by (rule restarts [OF string_iterated(1) string_single(1) _ assms] restarts [OF string_iterated(2) string_single(2) _ assms]
        restarts [OF string_iterated(3) string_single(3) _ assms] restarts [OF string_iterated(4) string_single(4) _ assms]
        restarts [OF string_iterated(5) string_single(5) _ assms]; simp add: repeating_def string_zero)+

text \<open>C24: a repeated string instruction (with a count other than 0 and no data watchpoint enabled) is its single form executed again and again: each
  execution of the single form is followed by the repeated form with the count register reduced by one, unless it faults or the comparison of
  REPE/REPNE CMPS and SCAS ends it. A fault can be restarted: when the instruction reports one, some number \<open>k\<close> of elements smaller than the count is
  done, RCX is reduced by \<open>k\<close>, the pointers the instruction uses are moved \<open>k\<close> elements in the direction of DF and the others are
  unchanged, and the fault is the one the single form reports with exactly these registers.\<close>

theorem string_rep_iterated:
  assumes "(h, cmp, w, si, di) \<in> set string_catalog" "wf_cpu (state c)" "rep_prefix c" "gpr (state c) ! 1 \<noteq> 0" "no_watchpoints (state c)"
  shows "rep_iterated h cmp c \<and> fault_restarts h w si di c"
proof -
  have "repeating c" using assms(2-5) by (simp add: repeating_def)
  then show ?thesis
    using assms(1) string_iterated [of c] string_restarts [of c] by (auto simp: string_catalog_def string_handler_defs)
qed

section \<open>Copying\<close>

lemma read_bytes_prefix:
  assumes "read_bytes f P a (k + n) = Some bs"
  shows "read_bytes f P a k = Some (take k bs)" "read_bytes f P (a + word_of_nat k) n = Some (drop k bs)" "length bs = k + n"
proof -
  have len: "length bs = k + n" using assms by (auto simp: read_bytes_def dest: those_length)
  obtain b1 b2 where b: "read_bytes f P a k = Some b1" "read_bytes f P (a + word_of_nat k) n = Some b2" "bs = b1 @ b2"
    using assms read_bytes_split [of k "k + n" f P a] by (auto split: option.splits)
  moreover have "length b1 = k" using b(1) by (auto simp: read_bytes_def dest: those_length)
  ultimately show "read_bytes f P a k = Some (take k bs)" "read_bytes f P (a + word_of_nat k) n = Some (drop k bs)" by simp_all
  show "length bs = k + n" by (rule len)
qed

text \<open>One element.\<close>

lemma movs_elem_copies:
  assumes "plain (mem c)" "valid_width w" "no_watchpoints (state c)"
    and "read_bytes (can data_read) (pages (mem c)) rsi w = Some bs"
    and "allowed_prefix (can data_write) (pages (mem c)) rdi w = w"
  shows "\<exists>m. movs_elem w (rsi, rdi) c = (Inr 0, c\<lparr>mem := m\<rparr>) \<and> plain m \<and> pages m = pokes rdi bs (pages (mem c))"
proof -
  have len: "length bs = w" using assms(4) by (auto simp: read_bytes_def dest: those_length)
  obtain m1 where r: "ctx_read c rsi w = (Some (of_le_bytes bs), c\<lparr>mem := m1\<rparr>)" "plain m1" "tlb_variant (mem c) m1"
    using ctx_read_plain [OF assms(1,2), of rsi] assms(4) by auto
  have v: "truncate_to (of_le_bytes bs) w = of_le_bytes bs"
    using take_bit_of_le_bytes [of bs] len by (simp add: truncate_to_def and_mask_for_width)
  have b: "le_bytes w (of_le_bytes bs :: u64) = bs"
    using le_bytes_of_le_bytes [of bs, where 'a = 64] len valid_width_bounds [OF assms(2)] by simp
  obtain ok m where wr: "ctx_write (c\<lparr>mem := m1\<rparr>) rdi (of_le_bytes bs) w = (ok, c\<lparr>mem := m\<rparr>)"
    "after_write (can data_write) m1 rdi bs (ok, m)" "plain m"
    using ctx_write_plain [of "c\<lparr>mem := m1\<rparr>" w rdi "of_le_bytes bs"] r(2) assms(2) b by auto
  have ok: "ok" "pages m = pokes rdi bs (pages (mem c))"
    using wr(2) assms(5) len tlb_variant_fields(1) [OF r(3)] by (auto simp: after_write_def Let_def)
  have "hits (c\<lparr>mem := m\<rparr>) a k rd wr' = 0" for a k rd wr' using assms(3) by (simp add: hits_no_watchpoints)
  then show ?thesis using r(1) v wr(1,3) ok by (auto simp: movs_elem_def)
qed

text \<open>No source byte lies among the destination bytes that are written before it is read.\<close>

definition copy_safe :: "nat \<Rightarrow> u64 \<Rightarrow> u64 \<Rightarrow> bool" where
  "copy_safe n src dst \<longleftrightarrow> (\<forall>i<n. i \<le> unat (src + word_of_nat i - dst))"

lemma movs_loop_copies:
  assumes "valid_width w" "no_watchpoints (state c)" "plain (mem c)"
    and "read_bytes (can data_read) (pages (mem c)) rsi (n * w) = Some bs"
    and "allowed_prefix (can data_write) (pages (mem c)) rdi (n * w) = n * w"
    and "copy_safe (n * w) rsi rdi"
  shows "\<exists>m. movs_loop w True False n rsi rdi c =
      (no_stop, put_si_di True (rsi + word_of_nat (n * w)) (rdi + word_of_nat (n * w)) 0 (c\<lparr>mem := m\<rparr>)) \<and>
    plain m \<and> pages m = pokes rdi bs (pages (mem c))"
  using assms(2-)
proof (induction n arbitrary: rsi rdi c bs)
  case 0
  then show ?case by (auto intro!: exI [of _ "mem c"])
next
  case (Suc n)
  let ?P = "pages (mem c)"
  have sw: "Suc n * w = w + n * w" by simp
  note rd = read_bytes_prefix [OF Suc.prems(3) [unfolded sw]]
  have al: "allowed_prefix (can data_write) ?P rdi w = w"
    "allowed_prefix (can data_write) ?P (rdi + word_of_nat w) (n * w) = n * w"
    using Suc.prems(4) allowed_prefix_le [of "can data_write" ?P rdi w] unfolding sw allowed_prefix_add by (auto split: if_splits)
  obtain m where m: "movs_elem w (rsi, rdi) c = (Inr 0, c\<lparr>mem := m\<rparr>)" "plain m" "pages m = pokes rdi (take w bs) ?P"
    using movs_elem_copies [OF Suc.prems(2) assms(1) Suc.prems(1) rd(1) al(1)] by blast
  have w64: "length (take w bs) \<le> 2 ^ 64" using valid_width_bounds [OF assms(1)] by (simp add: min_le_iff_disj)
  have "w \<le> unat (rsi + word_of_nat w + word_of_nat i - rdi)" if "i < n * w" for i
    using Suc.prems(5) [unfolded copy_safe_def, rule_format, of "w + i"] that by (simp add: add.assoc)
  then have "read_bytes (can data_read) (pages m) (rsi + word_of_nat w) (n * w) = Some (drop w bs)"
    unfolding m(3) using rd(2,3) by (subst read_bytes_pokes_disjoint [OF w64]) simp_all
  moreover have "copy_safe (n * w) (rsi + word_of_nat w) (rdi + word_of_nat w)"
  proof -
    have "rsi + word_of_nat w + word_of_nat i - (rdi + word_of_nat w) = rsi + word_of_nat i - rdi" for i by simp
    then show ?thesis using Suc.prems(5) unfolding copy_safe_def by (simp only:) simp
  qed
  ultimately obtain m' where m': "movs_loop w True False n (rsi + word_of_nat w) (rdi + word_of_nat w) (c\<lparr>mem := m\<rparr>) =
      (no_stop, put_si_di True (rsi + word_of_nat w + word_of_nat (n * w)) (rdi + word_of_nat w + word_of_nat (n * w)) 0
         (c\<lparr>mem := m, mem := m'\<rparr>))" "plain m'" "pages m' = pokes (rdi + word_of_nat w) (drop w bs) (pages m)"
    using Suc.IH [of "c\<lparr>mem := m\<rparr>" "rsi + word_of_nat w" "drop w bs" "rdi + word_of_nat w"] Suc.prems(1) m al(2) by auto
  have "pages m' = pokes rdi bs ?P"
    using pokes_append [of rdi "take w bs" "drop w bs" ?P] rd(3) m(3) m'(3) by simp
  moreover have "movs_loop w True False (Suc n) rsi rdi c =
      movs_loop w True False n (rsi + word_of_nat w) (rdi + word_of_nat w) (c\<lparr>mem := m\<rparr>)"
    using movs_step [of True n w False "(rsi, rdi)" c False] m(1)
    by (cases n) (simp_all add: string_continues_def note_debug_break_def adv_pair_def advance_def put_si_di_pair)
  ultimately show ?case using m'(1,2) by (auto simp: sw add.assoc)
qed

definition movs_catalog :: "('w handler \<times> nat) list" where
  "movs_catalog = [(handle_code_MOVSB_M8_M8, 1), (handle_code_MOVSW_M16_M16, 2), (handle_code_MOVSD_M32_M32, 4), (handle_code_MOVSQ_M64_M64, 8)]"

text \<open>C25: REP MOVS with the direction flag clear copies memory: if the source range can be read and the destination range written, and no source
  byte is overwritten before it is read (the ranges are disjoint, or the destination starts below the source), then it ends with the destination
  holding the bytes of the source, every other byte unchanged, the pointers behind the ranges and the count zero.\<close>

theorem movs_copies:
  assumes "(h, w) \<in> set movs_catalog" "wf_cpu (state c)" "rep_prefix c" "\<not> direction_flag (state c)"
    and "no_watchpoints (state c)" "plain (mem c)"
    and "n = unat (gpr (state c) ! 1) * w" "n \<le> 2 ^ 64" "src = gpr (state c) ! 6" "dst = gpr (state c) ! 7"
    and "read_bytes (can data_read) (pages (mem c)) src n = Some bs"
    and "allowed_prefix (can data_write) (pages (mem c)) dst n = n" "copy_safe n src dst"
  shows "\<exists>m. h c = (no_stop, put_si_di True (src + word_of_nat n) (dst + word_of_nat n) 0 (c\<lparr>mem := m\<rparr>)) \<and> plain m \<and>
    read_bytes (can data_read) (pages m) dst n = Some bs \<and>
    (\<forall>g a. n \<le> unat (a - dst) \<longrightarrow> byte_at g (pages m) a = byte_at g (pages (mem c)) a)"
proof -
  have h: "h = movs_impl w" "valid_width w" using assms(1) by (auto simp: movs_catalog_def string_handler_defs)
  have len: "length bs = n" using assms(11) by (auto simp: read_bytes_def dest: those_length)
  obtain m where m: "movs_loop w True False (unat (gpr (state c) ! 1)) src dst c =
      (no_stop, put_si_di True (src + word_of_nat n) (dst + word_of_nat n) 0 (c\<lparr>mem := m\<rparr>))" "plain m"
    "pages m = pokes dst bs (pages (mem c))"
    using movs_loop_copies [OF h(2) assms(5,6), of src "unat (gpr (state c) ! 1)" bs dst] assms(7,11-13) by auto
  have "h c = (no_stop, put_si_di True (src + word_of_nat n) (dst + word_of_nat n) 0 (c\<lparr>mem := m\<rparr>))"
  proof -
    have "movs_impl w c = movs_loop w True False (unat (gpr (state c) ! 1)) src dst c"
      using assms(3,4,9,10) ml.put_same_count [OF assms(2)]
      by (cases "gpr (state c) ! 1 = 0") (simp_all add: movs_impl_def initial_count_def put_si_di_pair pair_pos_def unat_eq_zero)
    then show ?thesis using h(1) m(1) by simp
  qed
  moreover have "allowed_prefix (can data_read) (pages (mem c)) dst n = n"
    using assms(12) unfolding allowed_prefix_full by (meson allowed_at_mono write_implies_read)
  then have "read_bytes (can data_read) (pages m) dst n = Some bs"
    using read_bytes_pokes_same [of bs "can data_read" "pages (mem c)" dst] len assms(8) m(3) by simp
  moreover have "n \<le> unat (a - dst) \<Longrightarrow> byte_at g (pages m) a = byte_at g (pages (mem c)) a" for g a
    using byte_at_pokes [of bs g dst "pages (mem c)" a] len assms(8) m(3) by simp
  ultimately show ?thesis using m(2) by blast
qed

section \<open>Concrete instances\<close>

text \<open>\<^verbatim>\<open>rep\<close> with four elements from 0x1000 to 0x1ffe, across a page boundary.\<close>

definition demo_rep :: "unit ctx" where
  "demo_rep = (demo_ctx (null_instruction\<lparr>has_rep_prefix := True\<rparr>))
     \<lparr>state := initial_cpu_state\<lparr>gpr := (replicate 16 0)[1 := 4, 6 := 0x1000, 7 := 0x1FFE]\<rparr>\<rparr>"

lemma demo_rep_simps:
  "wf_cpu (state demo_rep)" "rep_prefix demo_rep" "no_watchpoints (state demo_rep)" "\<not> direction_flag (state demo_rep)"
  "gpr (state demo_rep) ! 1 = 4" "gpr (state demo_rep) ! 6 = 0x1000" "gpr (state demo_rep) ! 7 = 0x1FFE"
  "mem demo_rep = demo_memory"
  using initial_wf
  by (simp_all add: demo_rep_def demo_ctx_def rep_prefix_def no_watchpoints_def direction_flag_def wf_cpu_def null_instruction_def
      initial_cpu_state_def kFlagDF_def)

theorem string_rep_iterated_witness: "rep_iterated handle_code_STOSB_M8_AL False demo_rep \<and> fault_restarts handle_code_STOSB_M8_AL 1 False True demo_rep"
  using string_rep_iterated [of handle_code_STOSB_M8_AL False 1 False True demo_rep] demo_rep_simps by (simp add: string_catalog_def)

lemma demo_copy:
  "read_bytes (can data_read) (pages demo_memory) 0x1000 4 = Some [0, 0, 0, 0]"
  "allowed_prefix (can data_write) (pages demo_memory) 0x1FFE 4 = 4" "copy_safe 4 0x1000 0x1FFE"
proof -
  have "page_slice zero_page 0 4 = [0, 0, 0, 0]" by (simp add: page_slice_def zero_page_def upt_rec)
  then show "read_bytes (can data_read) (pages demo_memory) 0x1000 4 = Some [0, 0, 0, 0]"
    using read_bytes_page [of 4 "0x1000" "pages demo_memory" zero_page "can data_read"]
    by (simp add: demo_pages kPageSize_def zero_page_def kMemoryPermissionAll_def perm_read_def perm_write_def perm_execute_def)
  have "(4 :: nat) = Suc (Suc (Suc (Suc 0)))" by simp
  then show "allowed_prefix (can data_write) (pages demo_memory) 0x1FFE 4 = 4"
    by (simp only:) (simp add: allowed_at_def demo_pages kPageSize_def zero_page_def
        kMemoryPermissionAll_def perm_read_def perm_write_def perm_execute_def)
  have "\<forall>i \<in> set [0..<4]. i \<le> unat (0x1000 + word_of_nat i - 0x1FFE :: u64)" by (simp add: upt_rec)
  then show "copy_safe 4 0x1000 0x1FFE" by (simp add: copy_safe_def)
qed

theorem movs_copies_witness:
  "\<exists>m. handle_code_MOVSB_M8_M8 demo_rep = (no_stop, put_si_di True 0x1004 0x2002 0 (demo_rep\<lparr>mem := m\<rparr>)) \<and> plain m \<and>
     read_bytes (can data_read) (pages m) 0x1FFE 4 = Some [0, 0, 0, 0] \<and>
     (\<forall>g a. 4 \<le> unat (a - 0x1FFE) \<longrightarrow> byte_at g (pages m) a = byte_at g (pages demo_memory) a)"
  using movs_copies [of handle_code_MOVSB_M8_M8 1 demo_rep 4 "0x1000" "0x1FFE" "[0, 0, 0, 0]"] demo_rep_simps demo_copy demo_plain
  by (simp add: movs_catalog_def)

end
