(* ===== verification/Stack_Facts.thy ===== *)
theory Stack_Facts
  imports Control_Flow
begin

text \<open>
  The stack: pushes and pops are inverse, near calls return, an interrupt frame is undone by the matching IRET; what a
  far call leaves on the stack; and what a faulting push has already changed.
\<close>

section \<open>Stack pointer arithmetic\<close>

lemma take_bit_uval: "w \<le> 8 \<Longrightarrow> take_bit (8 * w) a = take_bit (8 * w) b \<longleftrightarrow> uval w a = uval w (b :: u64)"
  by (simp add: word_eq_iff_unsigned [where ?'a = int] unsigned_take_bit_eq uval_def)

lemma uval_take_bit [simp]: "uval w (take_bit (8 * w) a) = uval w a"
  by (cases "8 * w \<le> 64") (simp_all add: uval_def unsigned_take_bit_eq)

lemma take_bit_add_take_bit:
  assumes "w \<le> 8"
  shows "take_bit (8 * w) (take_bit (8 * w) a + b) = take_bit (8 * w) (a + b :: u64)"
  using uval_add [OF assms, of "take_bit (8 * w) a" b False] uval_add [OF assms, of a b False]
  by (simp add: take_bit_uval [OF assms])

lemma take_bit_diff_take_bit:
  assumes "w \<le> 8"
  shows "take_bit (8 * w) (take_bit (8 * w) a - b) = take_bit (8 * w) (a - b :: u64)"
  using uval_sub [OF assms, of "take_bit (8 * w) a" b False] uval_sub [OF assms, of a b False]
  by (simp add: take_bit_uval [OF assms])

lemma stack_pointer_width_le: "stack_pointer_width m \<le> 8"
  by (cases m) (simp_all add: stack_pointer_width_def)

text \<open>A slot below another one, modulo the size of the stack segment.\<close>

lemma apart_below:
  fixes a :: u64
  assumes n: "n \<in> {16, 32, 64}" and a: "take_bit n a = a" and d: "v \<le> d" "d + w \<le> 64" "0 < d"
  shows "apart (take_bit n (a - word_of_nat d)) v a w"
proof -
  define A where "A = uint a"
  let ?b = "take_bit n (a - word_of_nat d)"
  have A: "0 \<le> A" "A < 2 ^ n"
  proof -
    have "take_bit n (uint a) = uint a" using a by (metis unsigned_take_bit_eq)
    then show "0 \<le> A" "A < 2 ^ n" unfolding A_def by (metis take_bit_nonnegative, metis take_bit_int_less_exp)
  qed
  have pn: "(2 :: int) ^ 16 \<le> 2 ^ n" "(2 :: int) ^ n \<le> 2 ^ 64" using n by auto
  have dn: "int d < 2 ^ n" using pn(1) d by (intro less_le_trans [OF _ pn(1)]) simp
  have ud: "uint (word_of_nat d :: u64) = int d" using d by (simp add: unsigned_of_nat take_bit_nat_eq_self)
  have "uint ?b = uint (a - word_of_nat d) mod 2 ^ n"
    by (subst unsigned_take_bit_eq) (rule take_bit_eq_mod)
  also have "\<dots> = ((A - int d) mod 2 ^ 64) mod 2 ^ n" by (simp add: uint_word_ariths ud A_def)
  also have "\<dots> = (A - int d) mod 2 ^ n" using n by (intro mod_mod_cancel le_imp_power_dvd) auto
  finally have "uint ?b = (A - int d) mod 2 ^ n" .
  moreover have "(A - int d) mod 2 ^ n = (if int d \<le> A then A - int d else A - int d + 2 ^ n)"
  proof (cases "int d \<le> A")
    case False
    then have "(A - int d) mod 2 ^ n = A - int d + 2 ^ n"
      using A pn d by (intro int_mod_pos_eq [where q = "- 1"]) auto
    then show ?thesis using False by simp
  qed (use A in simp)
  ultimately have b: "uint ?b = (if int d \<le> A then A - int d else A - int d + 2 ^ n)" by simp
  have ab: "uint (a - ?b) = (if int d \<le> A then int d else int d + 2 ^ 64 - 2 ^ n)"
  proof -
    have "uint (a - ?b) = (A - uint ?b) mod 2 ^ 64" by (simp add: uint_word_ariths A_def)
    also have "\<dots> = (if int d \<le> A then int d else int d + 2 ^ 64 - 2 ^ n)"
    proof (cases "int d \<le> A")
      case False
      then show ?thesis using b A pn dn by (intro int_mod_pos_eq [where q = "- 1"]) auto
    qed (use b d in simp)
    finally show ?thesis .
  qed
  have ba: "uint (?b - a) = 2 ^ 64 - uint (a - ?b)"
  proof -
    have "uint (?b - a) = (uint ?b - A) mod 2 ^ 64" by (simp add: uint_word_ariths A_def)
    also have "\<dots> = 2 ^ 64 - uint (a - ?b)"
      unfolding ab b using A pn d dn
      by (intro int_mod_pos_eq [where q = "if int d \<le> A then - 1 else 0"]) auto
    finally show ?thesis .
  qed
  have "int v \<le> uint (a - ?b)" "int w \<le> uint (?b - a)" using ab ba d pn by auto
  moreover have "uint x = int (unat x)" for x :: u64 by simp
  ultimately show ?thesis unfolding apart_def by (metis of_nat_le_iff)
qed

section \<open>Push and pop\<close>

text \<open>The stack pointer lies in the segment of the mode; the executor establishes this before every
  instruction.\<close>

definition sp_masked :: "'w ctx \<Rightarrow> bool" where
  "sp_masked c \<longleftrightarrow> mask_stack_pointer (state c) (sp_of c) = sp_of c"

lemma valid_width_disj: "valid_width w \<Longrightarrow> w = 1 \<or> w = 2 \<or> w = 4 \<or> w = 8"
  by (simp add: valid_width_def)

lemma sp_of_mem [simp]: "sp_of (c\<lparr>mem := m\<rparr>) = sp_of c" "sp_of (c\<lparr>instr := i\<rparr>) = sp_of c"
  "sp_of (c\<lparr>control_flow_taken := t\<rparr>) = sp_of c" "set_sp sp (c\<lparr>mem := m\<rparr>) = (set_sp sp c)\<lparr>mem := m\<rparr>"
  by (simp_all add: sp_of_def set_sp_def)

lemma mask_stack_pointer_gpr [simp]:
  "mask_stack_pointer (s\<lparr>gpr := g\<rparr>) x = mask_stack_pointer s x"
  "mask_stack_pointer (s\<lparr>rflags := f\<rparr>) x = mask_stack_pointer s x"
  "mask_stack_pointer (s\<lparr>rip := p\<rparr>) x = mask_stack_pointer s x"
  "mask_stack_pointer (s\<lparr>sreg := q\<rparr>) x = mask_stack_pointer s x"
  by (simp_all add: mask_stack_pointer_def)

lemma sp_of_set_sp [simp]: "wf_cpu (state c) \<Longrightarrow> sp_of (set_sp sp c) = mask_stack_pointer (state c) sp"
  by (simp add: sp_of_def set_sp_def wf_cpu_def)

lemma set_sp_fields [simp]: "mem (set_sp sp c) = mem c" "instr (set_sp sp c) = instr c"
  "state (set_sp sp c) = (state c)\<lparr>gpr := (gpr (state c))[4 := mask_stack_pointer (state c) sp]\<rparr>"
  "next_rip (set_sp sp c) = next_rip c"
  by (simp_all add: set_sp_def)

text \<open>The context after the stack pointer went down by \<open>w\<close> and the memory became \<open>m\<close>.\<close>

definition pushed :: "nat \<Rightarrow> 'w memory \<Rightarrow> 'w ctx \<Rightarrow> 'w ctx" where
  "pushed w m c = (set_sp (sp_of c - word_of_nat w) c)\<lparr>mem := m\<rparr>"

lemma push_width_cases:
  assumes "plain (mem c)" "valid_width w" "wf_cpu (state c)"
  defines "a \<equiv> mask_stack_pointer (state c) (sp_of c - word_of_nat w)"
  shows "\<exists>m. push_width v w c = (if may_write c a w then no_stop else memory_fault c a, pushed w m c) \<and>
    plain m \<and> ctx_write (set_sp (sp_of c - word_of_nat w) c) a v w = (may_write c a w, pushed w m c)"
proof -
  let ?c = "set_sp (sp_of c - word_of_nat w) c"
  have p: "plain (mem ?c)" using assms(1) by simp
  obtain ok m where m: "ctx_write ?c a v w = (ok, ?c\<lparr>mem := m\<rparr>)" "plain m"
    using ctx_write_plain [OF p assms(2), of a v] by auto
  have ok: "ok \<longleftrightarrow> may_write c a w"
    using ctx_write_ok [OF p assms(2), of a v] m by (simp add: may_write_def)
  have f: "memory_fault (?c\<lparr>mem := m\<rparr>) a = memory_fault c a" by (simp add: memory_fault_def)
  have "push_width v w c = (if ok then no_stop else memory_fault c a, ?c\<lparr>mem := m\<rparr>)"
    using m valid_width_disj [OF assms(2)] assms(3) f
    by (auto simp: push_width_def write_memory_checked_def Let_def a_def split: if_splits)
  then show ?thesis using m ok by (auto simp: pushed_def)
qed

lemma pop_width_load:
  assumes "plain (mem c)" "valid_width w" "fst (ctx_read c (sp_of c) w) = Some v"
  shows "\<exists>m. pop_width w c = (Inr v, (set_sp (sp_of c + word_of_nat w) c)\<lparr>mem := m\<rparr>) \<and> plain m \<and>
    tlb_variant (mem c) m"
proof -
  obtain m where m: "ctx_read c (sp_of c) w = (Some v, c\<lparr>mem := m\<rparr>)" "plain m" "tlb_variant (mem c) m"
    using ctx_read_plain [OF assms(1,2), of "sp_of c"] assms(3) by auto
  then show ?thesis
    using valid_width_disj [OF assms(2)] by (auto simp: pop_width_def read_memory_checked_def)
qed

lemma mask_sp_back:
  assumes "mask_stack_pointer s sp = sp"
  shows "mask_stack_pointer s (mask_stack_pointer s (sp - x) + x) = sp"
  using assms stack_pointer_width_le [of "mode s"]
  by (simp add: mask_stack_pointer_eq take_bit_add_take_bit)

text \<open>A pop of the same width right after a successful push returns the pushed value, truncated, and restores the stack
  pointer and every other part of the CPU state.\<close>

theorem push_pop_roundtrip:
  assumes "plain (mem c)" "valid_width w" "wf_cpu (state c)" "sp_masked c"
    and "push_width v w c = (no_stop, c')"
  shows "\<exists>m. pop_width w c' = (Inr (take_bit (8 * w) v), c\<lparr>mem := m\<rparr>) \<and> plain m"
proof -
  let ?a = "mask_stack_pointer (state c) (sp_of c - word_of_nat w)"
  obtain m where m: "c' = pushed w m c" "may_write c ?a w" "plain m"
    "ctx_write (set_sp (sp_of c - word_of_nat w) c) ?a v w = (True, c')"
    using push_width_cases [OF assms(1-3), of v] assms(5) by (auto split: if_splits)
  have p: "plain (mem (set_sp (sp_of c - word_of_nat w) c))" using assms(1) by simp
  have sp: "sp_of c' = ?a" using assms(3) by (simp add: m(1) pushed_def)
  have "fst (ctx_read c' (sp_of c') w) = Some (take_bit (8 * w) v)"
    using cm.store_same [OF p assms(2), of ?a v] m(4) sp by simp
  moreover have "plain (mem c')" using m by (simp add: pushed_def)
  ultimately obtain m2 where m2: "pop_width w c' = (Inr (take_bit (8 * w) v), (set_sp (?a + word_of_nat w) c')\<lparr>mem := m2\<rparr>)"
    "plain m2" using pop_width_load [of c' w] assms(2) sp by auto
  have again: "mask_stack_pointer (state c) (?a + word_of_nat w) = sp_of c"
    using mask_sp_back [of "state c" "sp_of c"] assms(4) by (simp add: sp_masked_def)
  have "(set_sp (?a + word_of_nat w) c')\<lparr>mem := m2\<rparr> = c\<lparr>mem := m2\<rparr>"
    using again by (simp add: m(1) pushed_def set_sp_def sp_of_def)
  then show ?thesis using m2 by auto
qed

text \<open>A push that faults has already moved the stack pointer: the context it returns with the page fault is not
  the one it started from.\<close>

theorem push_fault_moves_sp:
  assumes "plain (mem c)" "valid_width w" "wf_cpu (state c)" "sp_masked c"
    and "\<not> may_write c (mask_stack_pointer (state c) (sp_of c - word_of_nat w)) w"
  shows "fst (push_width v w c) = memory_fault c (mask_stack_pointer (state c) (sp_of c - word_of_nat w)) \<and>
    sp_of (snd (push_width v w c)) = mask_stack_pointer (state c) (sp_of c - word_of_nat w) \<and>
    sp_of (snd (push_width v w c)) \<noteq> sp_of c"
proof -
  let ?n = "stack_pointer_width (mode (state c))" and ?a = "mask_stack_pointer (state c) (sp_of c - word_of_nat w)"
  obtain m where m: "push_width v w c = (memory_fault c ?a, pushed w m c)"
    using push_width_cases [OF assms(1-3), of v] assms(5) by auto
  have "?a \<noteq> sp_of c"
  proof
    assume "?a = sp_of c"
    then have "uval ?n (sp_of c - word_of_nat w) = uval ?n (sp_of c)"
      using assms(4) stack_pointer_width_le [of "mode (state c)"]
      by (simp add: sp_masked_def mask_stack_pointer_eq flip: take_bit_uval)
    then have "(uval ?n (sp_of c) - uval ?n (word_of_nat w)) mod 2 ^ (8 * ?n) = uval ?n (sp_of c) mod 2 ^ (8 * ?n)"
      using uval_sub [OF stack_pointer_width_le, of "mode (state c)" "sp_of c" "word_of_nat w" False] uval_bounds [of ?n "sp_of c"]
      by simp
    then have "2 ^ (8 * ?n) dvd uval ?n (word_of_nat w)" by (simp add: mod_eq_dvd_iff)
    moreover have "uval ?n (word_of_nat w) = int w"
      using assms(2) by (cases "mode (state c)") (auto simp: uval_def stack_pointer_width_def elim!: valid_widthE)
    ultimately show False
      using assms(2) by (cases "mode (state c)") (auto simp: stack_pointer_width_def elim!: valid_widthE)
  qed
  then show ?thesis using m assms(3) by (simp add: pushed_def)
qed

section \<open>Frames of several values\<close>

text \<open>
  The interface a stack gives to calls, far calls and interrupts: a push stores its value at the new stack pointer,
  which is the old one less the width, modulo the size of the stack segment. What was pushed before stays readable.
\<close>

locale stack_frames = value_store good load store
  for good :: "'m \<Rightarrow> bool" and load :: "'m \<Rightarrow> u64 \<Rightarrow> nat \<Rightarrow> u64 option \<times> 'm"
    and store :: "'m \<Rightarrow> u64 \<Rightarrow> u64 \<Rightarrow> nat \<Rightarrow> bool \<times> 'm" +
  fixes bytes :: "'m \<Rightarrow> nat" and sp :: "'m \<Rightarrow> u64" and push :: "u64 \<Rightarrow> nat \<Rightarrow> 'm \<Rightarrow> 'm option"
  assumes bytes_cases: "bytes m \<in> {2, 4, 8}"
    and push_bytes: "good m \<Longrightarrow> valid_width w \<Longrightarrow> push x w m = Some m' \<Longrightarrow> bytes m' = bytes m"
    and push_sp: "good m \<Longrightarrow> valid_width w \<Longrightarrow> push x w m = Some m' \<Longrightarrow>
      sp m' = take_bit (8 * bytes m) (sp m - word_of_nat w)"
    and push_stores: "good m \<Longrightarrow> valid_width w \<Longrightarrow> push x w m = Some m' \<Longrightarrow>
      \<exists>d. good d \<and> store d (sp m') x w = (True, m') \<and> (\<forall>b v. valid_width v \<longrightarrow> fst (load d b v) = fst (load m b v))"
begin

lemma push_good: "good m \<Longrightarrow> valid_width w \<Longrightarrow> push x w m = Some m' \<Longrightarrow> good m'"
  using push_stores store_good by (metis snd_conv)

lemma push_load: "good m \<Longrightarrow> valid_width w \<Longrightarrow> push x w m = Some m' \<Longrightarrow>
    fst (load m' (sp m') w) = Some (take_bit (8 * w) x)"
  using push_stores store_same by (metis fst_conv snd_conv)

lemma push_keeps: "good m \<Longrightarrow> valid_width w \<Longrightarrow> push x w m = Some m' \<Longrightarrow> valid_width v \<Longrightarrow>
    apart (sp m') w b v \<Longrightarrow> fst (load m' b v) = fst (load m b v)"
  using push_stores store_other by (metis snd_conv)

lemma take_bit_bytes_diff: "take_bit (8 * bytes m) (take_bit (8 * bytes m) a - b) = take_bit (8 * bytes m) (a - b :: u64)"
  using bytes_cases [of m] by (intro take_bit_diff_take_bit) auto

lemma apart_below_sp:
  assumes "good m" "valid_width w" "push x w m = Some m1" "v \<le> d" "0 < d" "d \<le> 32" "b = take_bit (8 * bytes m) (sp m1 - word_of_nat d)"
  shows "apart b v (sp m1) w"
  unfolding assms(7)
proof (rule apart_below)
  show "8 * bytes m \<in> {16, 32, 64}" using bytes_cases [of m] by auto
  show "take_bit (8 * bytes m) (sp m1) = sp m1" using push_sp [OF assms(1-3)] by simp
qed (use assms valid_width_bounds [OF assms(2)] in auto)

text \<open>Two values.\<close>

lemma two_pushes:
  assumes "good m" "valid_width w" "valid_width v" "push x w m = Some m1" "push y v m1 = Some m2"
  shows "sp m2 = take_bit (8 * bytes m) (sp m - word_of_nat (w + v)) \<and>
    fst (load m2 (sp m2) v) = Some (take_bit (8 * v) y) \<and> fst (load m2 (sp m1) w) = Some (take_bit (8 * w) x)"
proof -
  have g1: "good m1" by (rule push_good [OF assms(1,2,4)])
  have sp2: "sp m2 = take_bit (8 * bytes m) (sp m1 - word_of_nat v)"
    using push_sp [OF g1 assms(3,5)] push_bytes [OF assms(1,2,4)] by simp
  have v: "0 < v" "v \<le> 8" using valid_width_bounds [OF assms(3)] by auto
  have "apart (sp m2) v (sp m1) w" by (rule apart_below_sp [OF assms(1,2,4) _ _ _ sp2]) (use v in auto)
  then have "fst (load m2 (sp m1) w) = Some (take_bit (8 * w) x)"
    using push_keeps [OF g1 assms(3,5,2)] push_load [OF assms(1,2,4)] by simp
  moreover have "sp m2 = take_bit (8 * bytes m) (sp m - word_of_nat (w + v))"
    unfolding sp2 push_sp [OF assms(1,2,4)] take_bit_bytes_diff by (simp add: algebra_simps)
  ultimately show ?thesis using push_load [OF g1 assms(3,5)] by blast
qed

text \<open>Three values: the frame of an interrupt.\<close>

lemma three_pushes:
  assumes "good m" "valid_width w" "valid_width v" "valid_width u"
    and "push x w m = Some m1" "push y v m1 = Some m2" "push z u m2 = Some m3"
  shows "sp m3 = take_bit (8 * bytes m) (sp m - word_of_nat (w + v + u)) \<and>
    fst (load m3 (sp m3) u) = Some (take_bit (8 * u) z) \<and> fst (load m3 (sp m2) v) = Some (take_bit (8 * v) y) \<and>
    fst (load m3 (sp m1) w) = Some (take_bit (8 * w) x)"
proof -
  have g1: "good m1" by (rule push_good [OF assms(1,2,5)])
  have g2: "good m2" by (rule push_good [OF g1 assms(3,6)])
  have b: "bytes m1 = bytes m" "bytes m2 = bytes m"
    using push_bytes [OF assms(1,2,5)] push_bytes [OF g1 assms(3,6)] by simp_all
  note upper = two_pushes [OF g1 assms(3,4,6,7)]
  note lower = two_pushes [OF assms(1,2,3,5,6)]
  have wd: "0 < u" "u \<le> 8" "v \<le> 8" using valid_width_bounds [OF assms(4)] valid_width_bounds [OF assms(3)] by auto
  have "apart (sp m3) u (sp m1) w"
    by (rule apart_below_sp [OF assms(1,2,5), where d = "v + u"]) (use upper b wd in auto)
  then have "fst (load m3 (sp m1) w) = Some (take_bit (8 * w) x)"
    using push_keeps [OF g2 assms(4,7,2)] lower by simp
  moreover have "sp m3 = take_bit (8 * bytes m) (sp m - word_of_nat (w + v + u))"
    using upper unfolding b push_sp [OF assms(1,2,5)] take_bit_bytes_diff by (simp add: algebra_simps)
  ultimately show ?thesis using upper by blast
qed

end

definition push_opt :: "u64 \<Rightarrow> nat \<Rightarrow> 'w ctx \<Rightarrow> 'w ctx option" where
  "push_opt v w c = (case push_width v w c of (r, c') \<Rightarrow> if result_ok r then Some c' else None)"

definition sane :: "'w ctx \<Rightarrow> bool" where
  "sane c \<longleftrightarrow> plain (mem c) \<and> wf_cpu (state c)"

lemma push_opt_Some:
  assumes "sane c" "valid_width w" "push_opt v w c = Some c'"
  shows "push_width v w c = (no_stop, c')" "sp_of c' = mask_stack_pointer (state c) (sp_of c - word_of_nat w)"
    "ctx_write (set_sp (sp_of c - word_of_nat w) c) (sp_of c') v w = (True, c')"
    "\<exists>m. c' = pushed w m c"
proof -
  let ?a = "mask_stack_pointer (state c) (sp_of c - word_of_nat w)"
  obtain m where m: "push_width v w c = (if may_write c ?a w then no_stop else memory_fault c ?a, pushed w m c)"
    "plain m" "ctx_write (set_sp (sp_of c - word_of_nat w) c) ?a v w = (may_write c ?a w, pushed w m c)"
    using push_width_cases [of c w v] assms(1,2) by (auto simp: sane_def)
  then have c: "may_write c ?a w" "c' = pushed w m c" using assms(3) by (auto simp: push_opt_def split: if_splits)
  show sp: "sp_of c' = ?a" using assms(1) by (simp add: c pushed_def sane_def)
  show "push_width v w c = (no_stop, c')"
    "ctx_write (set_sp (sp_of c - word_of_nat w) c) (sp_of c') v w = (True, c')" "\<exists>m. c' = pushed w m c"
    using m c unfolding sp by auto
qed

lemma push_opt_iff:
  assumes "sane c" "valid_width w"
  shows "push_width v w c = (no_stop, c') \<longleftrightarrow> push_opt v w c = Some c'"
  using push_opt_Some(1) [OF assms] by (auto simp: push_opt_def)

lemma ctx_access_state:
  assumes "plain (mem c)" "valid_width w"
  shows "state (snd (ctx_read c a w)) = state c" "state (snd (ctx_write c a x w)) = state c"
  using ctx_read_plain [OF assms, of a] ctx_write_plain [OF assms, of a x] by auto

lemma ctx_read_cong:
  assumes "plain (mem c)" "plain (mem d)" "pages (mem c) = pages (mem d)" "valid_width w"
  shows "fst (ctx_read c a w) = fst (ctx_read d a w)"
  using ctx_read_plain [OF assms(1,4), of a] ctx_read_plain [OF assms(2,4), of a] assms(3) by auto

interpretation sm: stack_frames sane ctx_read ctx_write "\<lambda>c. stack_pointer_width (mode (state c))" sp_of push_opt
proof
  fix c :: "'w ctx" and a b x y :: u64 and w v :: nat and c' :: "'w ctx"
  show "stack_pointer_width (mode (state c)) \<in> {2, 4, 8}"
    by (simp only: stack_pointer_width_def instruction_pointer_width_cases)
  assume s: "sane c" and w: "valid_width w"
  then have g: "plain (mem c)" by (simp add: sane_def)
  show "sane (snd (ctx_read c a w))" "sane (snd (ctx_write c a x w))"
    using s g w cm.load_good cm.store_good by (auto simp: sane_def ctx_access_state)
  show "take_bit (8 * w) y = y" if "fst (ctx_read c a w) = Some y" using cm.load_range [OF g w that] .
  show "fst (ctx_read (snd (ctx_write c a x w)) a w) = Some (take_bit (8 * w) x)" if "fst (ctx_write c a x w)"
    using cm.store_same [OF g w that] .
  show "fst (ctx_read (snd (ctx_read c a w)) b v) = fst (ctx_read c b v)" if "valid_width v"
    using cm.load_stable [OF g w that] .
  show "fst (ctx_read (snd (ctx_write c a x w)) b v) = fst (ctx_read c b v)" if "valid_width v" "apart a w b v"
    using cm.store_other [OF g w that] .
  assume p: "push_opt x w c = Some c'"
  note q = push_opt_Some [OF s w p]
  show "stack_pointer_width (mode (state c')) = stack_pointer_width (mode (state c))"
    using q(4) by (auto simp: pushed_def)
  show "sp_of c' = take_bit (8 * stack_pointer_width (mode (state c))) (sp_of c - word_of_nat w)"
    using q(2) by (simp add: mask_stack_pointer_eq)
  let ?d = "set_sp (sp_of c - word_of_nat w) c"
  have "sane ?d" using s by (simp add: sane_def wf_cpu_def)
  moreover have "fst (ctx_read ?d b v) = fst (ctx_read c b v)" if "valid_width v" for b v
    by (rule ctx_read_cong) (use g that in simp_all)
  ultimately show "\<exists>d. sane d \<and> ctx_write d (sp_of c') x w = (True, c') \<and>
      (\<forall>b v. valid_width v \<longrightarrow> fst (ctx_read d b v) = fst (ctx_read c b v))"
    using q(3) by blast
qed

text \<open>The value in the stack slot \<open>k\<close> bytes above the stack pointer.\<close>

definition stack_slot :: "'w ctx \<Rightarrow> nat \<Rightarrow> nat \<Rightarrow> u64 option" where
  "stack_slot c k w = fst (ctx_read c (mask_stack_pointer (state c) (sp_of c + word_of_nat k)) w)"

text \<open>The context after the stack pointer went up by \<open>w\<close> and the caches of the memory became those of \<open>m\<close>.\<close>

definition popped :: "nat \<Rightarrow> 'w memory \<Rightarrow> 'w ctx \<Rightarrow> 'w ctx" where
  "popped w m c = (set_sp (sp_of c + word_of_nat w) c)\<lparr>mem := m\<rparr>"

lemma pop_slot:
  assumes "sane c" "sp_masked c" "valid_width w" "stack_slot c 0 w = Some v"
  shows "\<exists>m. pop_width w c = (Inr v, popped w m c) \<and> plain m \<and> pages m = pages (mem c)"
proof -
  have "fst (ctx_read c (sp_of c) w) = Some v" using assms(2,4) by (simp add: stack_slot_def sp_masked_def)
  then show ?thesis
    using pop_width_load [of c w v] assms(1,3) by (auto simp: popped_def sane_def tlb_variant_fields)
qed

lemma popped_facts:
  assumes "sane c" "plain m" "pages m = pages (mem c)"
  shows "sane (popped w m c)" "sp_masked (popped w m c)"
    "valid_width v \<Longrightarrow> stack_slot (popped w m c) k v = stack_slot c (w + k) v"
    "sp_of (popped w m c) = mask_stack_pointer (state c) (sp_of c + word_of_nat w)"
    "mode (state (popped w m c)) = mode (state c)" "sreg (state (popped w m c)) = sreg (state c)"
    "rflags (state (popped w m c)) = rflags (state c)" "popped v m2 (popped w m c) = popped (w + v) m2 c"
proof -
  show sp: "sp_of (popped w m c) = mask_stack_pointer (state c) (sp_of c + word_of_nat w)"
    using assms(1) by (simp add: popped_def sane_def)
  have wrap: "mask_stack_pointer (state c) (mask_stack_pointer (state c) a + b) = mask_stack_pointer (state c) (a + b)" for a b
    using stack_pointer_width_le by (simp add: mask_stack_pointer_eq take_bit_add_take_bit)
  show "sane (popped w m c)" using assms by (simp add: popped_def sane_def wf_cpu_def)
  show "sp_masked (popped w m c)" unfolding sp_masked_def sp by (simp add: popped_def wrap [where b = 0, simplified])
  show "stack_slot (popped w m c) k v = stack_slot c (w + k) v" if "valid_width v"
  proof -
    have "mask_stack_pointer (state (popped w m c)) (sp_of (popped w m c) + word_of_nat k) =
        mask_stack_pointer (state c) (sp_of c + word_of_nat (w + k))"
      unfolding sp by (simp add: popped_def wrap add.assoc)
    moreover have "fst (ctx_read (popped w m c) a v) = fst (ctx_read c a v)" for a
      by (rule ctx_read_cong) (use assms that in \<open>simp_all add: popped_def sane_def\<close>)
    ultimately show ?thesis by (simp add: stack_slot_def)
  qed
  have "sp_of (set_sp (sp_of c + word_of_nat w) c) = mask_stack_pointer (state c) (sp_of c + word_of_nat w)"
    using assms(1) by (simp add: sane_def)
  then show "popped v m2 (popped w m c) = popped (w + v) m2 c"
    by (simp add: popped_def set_sp_def wrap add.assoc)
qed (use assms in \<open>simp_all add: popped_def\<close>)

end
