(* ===== verification/Call_Facts.thy ===== *)
theory Call_Facts
  imports Stack_Facts
begin

text \<open>
  Calls return, interrupts return, far calls do not: near CALL against RET, \<^verbatim>\<open>dispatch_interrupt\<close> against IRET and the far
  CALL against RETF, each across an arbitrary callee that keeps the frame and the stack pointer.
\<close>

section \<open>Near calls\<close>

text \<open>The near calls with an immediate target, and the return of the same width.\<close>

definition near_call_catalog :: "('w handler \<times> 'w handler \<times> nat) list" where
  "near_call_catalog =
     [(handle_code_CALL_REL32_64, handle_code_RETNQ, 8), (handle_code_CALL_REL32_32, handle_code_RETND, 4),
      (handle_code_CALL_REL16, handle_code_RETNW, 2)]"

lemma near_call_catalogD:
  assumes "(call, ret, w) \<in> set near_call_catalog"
  shows "valid_width w" "ret = ret_width w 0"
    "call c = and_then (push_width (next_rip c) w c) (jump_to (near_branch64 (instr c)))"
  using assms
  by (auto simp: near_call_catalog_def valid_width_def handle_code_CALL_REL32_64_def handle_code_CALL_REL32_32_def
      handle_code_CALL_REL16_def handle_code_RETNQ_def handle_code_RETND_def handle_code_RETNW_def)

lemma and_then_no_stop [simp]: "and_then (no_stop, c) k = k c"
  by (simp add: and_then_def)

lemma and_then_jump:
  assumes "and_then (push_width v w c) (jump_to t) = (no_stop, c')" "sane c" "valid_width w"
  obtains d where "push_opt v w c = Some d" "c' = d\<lparr>state := (state d)\<lparr>rip := t\<rparr>, control_flow_taken := True\<rparr>"
proof -
  obtain r d where r: "push_width v w c = (r, d)" by (cases "push_width v w c")
  then have "result_ok r" using assms(1) by (auto simp: and_then_def split: if_splits)
  then show ?thesis using that [of d] assms(1) r by (simp add: and_then_def push_opt_def jump_to_def)
qed

lemma ret_width_slot:
  assumes "sane c" "sp_masked c" "valid_width w" "stack_slot c 0 w = Some v"
  shows "\<exists>m. ret_width w 0 c =
      (no_stop, (popped w m c)\<lparr>state := (state (popped w m c))\<lparr>rip := mask_instruction_pointer (state c) v\<rparr>,
         control_flow_taken := True\<rparr>) \<and> plain m \<and> pages m = pages (mem c)"
proof -
  obtain m where m: "pop_width w c = (Inr v, popped w m c)" "plain m" "pages m = pages (mem c)"
    using pop_slot [OF assms] by blast
  note f = popped_facts [OF assms(1) m(2,3)]
  let ?d = "(popped w m c)\<lparr>state := (state (popped w m c))\<lparr>rip := mask_instruction_pointer (state c) v\<rparr>\<rparr>"
  have "set_sp (sp_of (popped w m c)) ?d = ?d"
    using f(2) by (simp add: set_sp_def sp_masked_def sp_of_def)
  moreover have "sp_of ?d = sp_of (popped w m c)" by (simp add: sp_of_def)
  moreover have "mask_instruction_pointer (state (popped w m c)) v = mask_instruction_pointer (state c) v"
    by (simp add: mask_instruction_pointer_eq f(5))
  ultimately show ?thesis using m by (auto simp: ret_width_def bind_value_def Let_def)
qed

text \<open>C10: a near call jumps to its target, and whatever the callee does, as long as it ends with the stack pointer the call
  left, in the same mode, and with the return slot as the call wrote it, the matching RET continues at the
  instruction after the call with the caller's stack pointer.\<close>

theorem call_ret_roundtrip:
  assumes "(call, ret, w) \<in> set near_call_catalog" "sane c" "sp_masked c" "call c = (no_stop, c')"
    and "sane d" "mode (state d) = mode (state c)" "sp_of d = sp_of c'" "stack_slot d 0 w = stack_slot c' 0 w"
  shows "rip (state c') = near_branch64 (instr c) \<and>
    (\<exists>d'. ret d = (no_stop, d') \<and> control_flow_taken d' \<and> sp_of d' = sp_of c \<and>
      rip (state d') = mask_instruction_pointer (state c) (take_bit (8 * w) (next_rip c)) \<and>
      rflags (state d') = rflags (state d) \<and> pages (mem d') = pages (mem d))"
proof -
  note cat = near_call_catalogD [OF assms(1)]
  obtain p where p: "push_opt (next_rip c) w c = Some p"
    "c' = p\<lparr>state := (state p)\<lparr>rip := near_branch64 (instr c)\<rparr>, control_flow_taken := True\<rparr>"
    by (rule and_then_jump [OF _ assms(2) cat(1)]) (use assms(4) cat(3) in auto)
  have q: "mode (state p) = mode (state c)" "plain (mem p)"
    using push_opt_Some(4) [OF assms(2) cat(1) p(1)] sm.push_good [OF assms(2) cat(1) p(1)]
    by (auto simp: pushed_def sane_def)
  have c': "sp_of c' = sp_of p" "mode (state c') = mode (state p)" "mem c' = mem p"
    by (simp_all add: p(2) sp_of_def)
  have spp: "sp_of p = mask_stack_pointer (state c) (sp_of c - word_of_nat w)"
    by (rule push_opt_Some(2) [OF assms(2) cat(1) p(1)])
  have md: "sp_masked d" using assms(6,7) spp by (simp add: sp_masked_def c' mask_stack_pointer_eq)
  have "fst (ctx_read c' (sp_of p) w) = fst (ctx_read p (sp_of p) w)"
    by (rule ctx_read_cong) (use c' q cat(1) in simp_all)
  then have "stack_slot c' 0 w = Some (take_bit (8 * w) (next_rip c))"
    using sm.push_load [OF assms(2) cat(1) p(1)] md assms(6,7)
    by (simp add: stack_slot_def c' q sp_masked_def mask_stack_pointer_eq)
  then obtain m where m: "ret d = (no_stop, (popped w m d)\<lparr>state := (state (popped w m d))\<lparr>rip :=
         mask_instruction_pointer (state d) (take_bit (8 * w) (next_rip c))\<rparr>, control_flow_taken := True\<rparr>)"
      "plain m" "pages m = pages (mem d)"
    using ret_width_slot [OF assms(5) md cat(1)] assms(8) cat(2) by auto
  note f = popped_facts [OF assms(5) m(2,3)]
  have "mask_stack_pointer (state d) (sp_of d + word_of_nat w) = sp_of c"
    using mask_sp_back [of "state c" "sp_of c" "word_of_nat w"] assms(3,6,7)
    by (simp add: c' spp sp_masked_def mask_stack_pointer_eq)
  moreover have "4 < length (gpr (state d))" using assms(5) by (simp add: sane_def wf_cpu_def)
  ultimately show ?thesis using m(1,3) assms(6)
    by (simp add: p(2) sp_of_def mask_instruction_pointer_eq popped_def)
qed

section \<open>Interrupts\<close>

lemma frame_push_eq: "w \<in> {2, 4, 8} \<Longrightarrow> frame_push vec v w c = push_width v w c"
  by (auto simp: frame_push_def push_width_def Let_def)

lemma frame_push_ipw: "frame_push vec v (instruction_pointer_width m) c = push_width v (instruction_pointer_width m) c"
  "frame_push vec v 2 c = push_width v 2 c"
  by (cases m) (simp_all add: frame_push_eq)

lemma and_then_push:
  assumes "and_then (push_width v w c) k = (no_stop, c')" "sane c" "valid_width w"
  obtains d where "push_opt v w c = Some d" "k d = (no_stop, c')"
proof -
  obtain r d where r: "push_width v w c = (r, d)" by (cases "push_width v w c")
  show thesis
  proof (cases "result_ok r")
    case True
    then show thesis using that [of d] assms(1) r by (simp add: and_then_def push_opt_def)
  next
    case False
    then have "r = no_stop" using assms(1) r by (simp add: and_then_def)
    then show thesis using False by simp
  qed
qed

lemma push_opt_state:
  assumes "sane c" "valid_width w" "push_opt v w c = Some d"
  shows "sane d" "mode (state d) = mode (state c)" "sreg (state d) = sreg (state c)" "rflags (state d) = rflags (state c)"
  using push_opt_Some(4) [OF assms] sm.push_good [OF assms] by (auto simp: pushed_def)

lemma ipw_valid [simp]: "valid_width (instruction_pointer_width m)" "valid_width 2" "instruction_pointer_width m \<in> {2, 4, 8}"
  using instruction_pointer_width_cases [of m] by (auto simp: valid_width_def)

text \<open>The gate is read without changing anything but translation caches.\<close>

lemma read_memory_checked_mem:
  assumes "sane c" "valid_width w" "read_memory_checked c a w = (r, c1)"
  shows "\<exists>m. c1 = c\<lparr>mem := m\<rparr> \<and> plain m \<and> pages m = pages (mem c)"
  using assms ctx_read_plain [of c w a]
  by (auto simp: read_memory_checked_def sane_def tlb_variant_fields split: option.splits)

lemma sane_mem: "sane c \<Longrightarrow> plain m \<Longrightarrow> sane (c\<lparr>mem := m\<rparr>)"
  by (simp add: sane_def)

lemma read_memory_checked_twice:
  assumes "sane c" "valid_width w" "valid_width v" "read_memory_checked c a w = (r, c1)" "read_memory_checked c1 b v = (r', c2)"
  shows "\<exists>m. c2 = c\<lparr>mem := m\<rparr> \<and> plain m \<and> pages m = pages (mem c)"
proof -
  obtain m where m: "c1 = c\<lparr>mem := m\<rparr>" "plain m" "pages m = pages (mem c)"
    using read_memory_checked_mem [OF assms(1,2,4)] by blast
  then show ?thesis
    using read_memory_checked_mem [OF _ assms(3), of c1 b r' c2] sane_mem [OF assms(1) m(2)] assms(5) by auto
qed

lemma read_gate_plain:
  assumes "sane c" "read_gate c vec = (r, c1)"
  shows "\<exists>m. c1 = c\<lparr>mem := m\<rparr> \<and> plain m \<and> pages m = pages (mem c)"
proof -
  have same: "\<exists>m. c = c\<lparr>mem := m\<rparr> \<and> plain m \<and> pages m = pages (mem c)"
    using assms(1) by (intro exI [of _ "mem c"]) (simp add: sane_def)
  have w: "valid_width 8" by (simp add: valid_width_def)
  show ?thesis
    using assms(2) same read_memory_checked_mem [OF assms(1) w] read_memory_checked_mem [OF assms(1) ipw_valid(2)]
      read_memory_checked_twice [OF assms(1) w w] read_memory_checked_twice [OF assms(1) ipw_valid(2) ipw_valid(2)]
    by (auto simp: read_gate_def Let_def split: execution_mode.splits if_splits prod.splits sum.splits option.splits)
qed

text \<open>The frame an interrupt without error code leaves.\<close>

definition interrupt_frame :: "u64 \<Rightarrow> u64 \<Rightarrow> 'w ctx \<Rightarrow> 'w ctx \<Rightarrow> bool" where
  "interrupt_frame return_rip flags c c' \<longleftrightarrow>
     (let w = instruction_pointer_width (mode (state c))
      in mode (state c') = mode (state c) \<and>
         sp_of c' = mask_stack_pointer (state c) (sp_of c - word_of_nat (2 * w + 2)) \<and>
         stack_slot c' 0 w = Some (take_bit (8 * w) return_rip) \<and>
         stack_slot c' w 2 = Some (ucast (sreg (state c) ! 1)) \<and>
         stack_slot c' (w + 2) w = Some (take_bit (8 * w) flags))"

lemma mask_sp_add: "mask_stack_pointer s (mask_stack_pointer s x + y) = mask_stack_pointer s (x + y)"
  using stack_pointer_width_le by (simp add: mask_stack_pointer_eq take_bit_add_take_bit)

lemma mask_sp_mode: "mode s = mode t \<Longrightarrow> mask_stack_pointer s x = mask_stack_pointer t x"
  by (simp add: mask_stack_pointer_eq)

lemma take_bit_selector: "take_bit (8 * 2) (ucast (x :: u16) :: u64) = ucast x"
  by (rule bit_word_eqI) (auto simp: bit_take_bit_iff bit_unsigned_iff dest: bit_imp_le_length)

lemma ucast_selector: "ucast (ucast (x :: u16) :: u64) = x"
  by (rule bit_word_eqI) (simp add: bit_unsigned_iff)

lemma three_pushes_frame:
  assumes s: "sane c" and p: "push_opt flags w c = Some c1" "push_opt (ucast (sreg (state c) ! 1)) 2 c1 = Some c2"
    "push_opt return_rip w c2 = Some c3" and w: "w = instruction_pointer_width (mode (state c))"
  shows "interrupt_frame return_rip flags c c3"
proof -
  have v: "valid_width w" "valid_width 2" by (simp_all add: w)
  note s1 = push_opt_state [OF s v(1) p(1)]
  note s2 = push_opt_state [OF s1(1) v(2) p(2)]
  note s3 = push_opt_state [OF s2(1) v(1) p(3)]
  note t = sm.three_pushes [OF s v(1,2,1) p]
  let ?M = "mask_stack_pointer (state c)"
  have sp: "sp_of c1 = ?M (sp_of c - word_of_nat w)" "sp_of c2 = ?M (sp_of c1 - 2)" "sp_of c3 = ?M (sp_of c2 - word_of_nat w)"
    using push_opt_Some(2) [OF s v(1) p(1)] push_opt_Some(2) [OF s1(1) v(2) p(2)]
      push_opt_Some(2) [OF s2(1) v(1) p(3)] s1(2) s2(2) by (simp_all add: mask_stack_pointer_eq)
  have i: "?M (sp_of c1) = sp_of c1" "?M (sp_of c2) = sp_of c2" "?M (sp_of c3) = sp_of c3"
    by (simp_all add: sp mask_stack_pointer_eq)
  have m3: "mask_stack_pointer (state c3) x = ?M x" for x
    using s1(2) s2(2) s3(2) by (intro mask_sp_mode) simp
  have up: "?M (sp_of c3 + word_of_nat w) = sp_of c2" "?M (sp_of c2 + 2) = sp_of c1"
    using i by (simp_all add: sp(2,3) mask_sp_add)
  have "?M (sp_of c3 + word_of_nat (w + 2)) = ?M (?M (sp_of c3 + word_of_nat w) + 2)"
    unfolding mask_sp_add by (simp add: ac_simps)
  then have up2: "?M (sp_of c3 + word_of_nat (w + 2)) = sp_of c1" using up by simp
  have r: "fst (ctx_read c3 (sp_of c3) w) = Some (take_bit (8 * w) return_rip)"
    "fst (ctx_read c3 (sp_of c2) 2) = Some (ucast (sreg (state c) ! 1))"
    "fst (ctx_read c3 (sp_of c1) w) = Some (take_bit (8 * w) flags)"
    using t unfolding take_bit_selector by blast+
  have "stack_slot c3 0 w = Some (take_bit (8 * w) return_rip)" "stack_slot c3 w 2 = Some (ucast (sreg (state c) ! 1))"
    "stack_slot c3 (w + 2) w = Some (take_bit (8 * w) flags)"
    using r by (simp_all only: stack_slot_def m3 up up2 i semiring_1_class.of_nat_0 add_0_right)
  moreover have "sp_of c3 = ?M (sp_of c - word_of_nat (2 * w + 2))"
    using t by (simp add: mask_stack_pointer_eq algebra_simps)
  ultimately show ?thesis using s1(2) s2(2) s3(2) by (simp add: interrupt_frame_def w)
qed

lemma interrupt_frame_cong:
  assumes "interrupt_frame rr fl c c'" "mode (state d) = mode (state c')" "sp_of d = sp_of c'"
    "plain (mem d)" "plain (mem c')" "pages (mem d) = pages (mem c')"
  shows "interrupt_frame rr fl c d"
proof -
  have "stack_slot d k w = stack_slot c' k w" if "valid_width w" for k w
    using ctx_read_cong [OF assms(4-6) that] mask_sp_mode [OF assms(2)] assms(3) by (simp add: stack_slot_def)
  then show ?thesis using assms(1-3) by (simp add: interrupt_frame_def Let_def)
qed

lemma read_gate_stops:
  fixes c :: "'w ctx"
  assumes "read_gate c vec = (Inl r, c1)"
  shows "r \<noteq> no_stop"
proof -
  have m: "read_memory_checked c a w = (Inl r, c1) \<Longrightarrow> r \<noteq> no_stop" for c c1 :: "'w ctx" and a w r
    by (auto simp: read_memory_checked_def memory_fault_def no_stop_def split: prod.splits option.splits)
  have g: "gp_fault c vec \<noteq> no_stop" for c :: "'w ctx" by (simp add: gp_fault_def no_stop_def)
  show ?thesis
    using m g assms by (auto simp: read_gate_def Let_def split: execution_mode.splits if_splits prod.splits sum.splits option.splits)
qed

lemma dispatch_frame:
  assumes "sane c" "dispatch_interrupt vec return_rip None rf c = (no_stop, c')"
  defines "fl \<equiv> if rf then rflags (state c) OR kFlagRF else rflags (state c)"
  shows "interrupt_frame return_rip fl c c' \<and>
    (\<exists>target selector gate_type. fst (read_gate c vec) = Inr (target, selector, gate_type) \<and>
       rip (state c') = mask_instruction_pointer (state c) target \<and> sreg (state c') = (sreg (state c))[1 := selector] \<and>
       rflags (state c') = (if gate_type = 0x0E then set_flag (rflags (state c)) kFlagIF False else rflags (state c)) AND NOT kFlagTF)"
proof -
  let ?w = "instruction_pointer_width (mode (state c))"
  obtain t s g c0 where g: "read_gate c vec = (Inr (t, s, g), c0)"
    using assms(2) read_gate_stops [of c vec] by (auto simp: dispatch_interrupt_def split: prod.splits sum.splits)
  then obtain m where m: "c0 = c\<lparr>mem := m\<rparr>" "plain m" "pages m = pages (mem c)"
    using read_gate_plain [OF assms(1)] by blast
  have s0: "sane c0" using assms(1) m by (simp add: sane_def)
  have d: "and_then (push_width fl ?w c0) (\<lambda>c2. and_then (push_width (ucast (sreg (state c2) ! 1)) 2 c2) (\<lambda>c3.
      and_then (push_width return_rip ?w c3) (enter_gate (t, s, g)))) = (no_stop, c')"
    using assms(2) by (cases rf) (simp_all add: dispatch_interrupt_def g frame_push_ipw m(1) fl_def Let_def)
  obtain c1 where c1: "push_opt fl ?w c0 = Some c1"
    "and_then (push_width (ucast (sreg (state c1) ! 1)) 2 c1) (\<lambda>c3. and_then (push_width return_rip ?w c3) (enter_gate (t, s, g)))
       = (no_stop, c')"
    by (rule and_then_push [OF d s0]) simp
  note s1 = push_opt_state [OF s0 ipw_valid(1) c1(1)]
  obtain c2 where c2: "push_opt (ucast (sreg (state c1) ! 1)) 2 c1 = Some c2"
    "and_then (push_width return_rip ?w c2) (enter_gate (t, s, g)) = (no_stop, c')"
    by (rule and_then_push [OF c1(2) s1(1)]) simp
  note s2 = push_opt_state [OF s1(1) ipw_valid(2) c2(1)]
  obtain c3 where c3: "push_opt return_rip ?w c2 = Some c3" "enter_gate (t, s, g) c3 = (no_stop, c')"
    by (rule and_then_push [OF c2(2) s2(1)]) simp
  note s3 = push_opt_state [OF s2(1) ipw_valid(1) c3(1)]
  have fr: "interrupt_frame return_rip fl c0 c3"
    by (rule three_pushes_frame [OF s0 c1(1) _ c3(1)]) (use c2(1) s1(3) m(1) in simp_all)
  have c': "mode (state c') = mode (state c3)" "gpr (state c') = gpr (state c3)" "mem c' = mem c3"
    "rip (state c') = mask_instruction_pointer (state c3) t" "sreg (state c') = (sreg (state c3))[1 := s]"
    "rflags (state c') = (if g = 0x0E then set_flag (rflags (state c3)) kFlagIF False else rflags (state c3)) AND NOT kFlagTF"
    using c3(2) by (auto simp: enter_gate_def put_flag_def Let_def mask_instruction_pointer_eq)
  have "interrupt_frame return_rip fl c0 c'"
    by (rule interrupt_frame_cong [OF fr]) (use c' s3(1) in \<open>simp_all add: sp_of_def sane_def\<close>)
  then have "interrupt_frame return_rip fl c c'" by (simp add: interrupt_frame_def m(1))
  then show ?thesis
    using c' s1 s2 s3 m(1) g by (simp add: mask_instruction_pointer_eq)
qed

lemma masked_merge:
  fixes F f :: u64
  shows "take_bit n ((F AND NOT (mask n)) OR (f AND mask n)) = take_bit n f"
    "drop_bit n ((F AND NOT (mask n)) OR (f AND mask n)) = drop_bit n F"
  by (auto intro!: bit_word_eqI simp: bit_take_bit_iff bit_or_iff bit_and_iff bit_not_iff bit_mask_iff bit_drop_bit_eq
      dest: bit_imp_le_length [where 'a = 64, simplified])

text \<open>IRET on a stack that holds the three values.\<close>

lemma iret_slots:
  assumes "sane d" "sp_masked d" and w: "w = instruction_pointer_width (mode (state d))"
    and "stack_slot d 0 w = Some t" "stack_slot d w 2 = Some s" "stack_slot d (w + 2) w = Some f"
  shows "\<exists>d'. iret_width w w d = (no_stop, d') \<and> control_flow_taken d' \<and> pages (mem d') = pages (mem d) \<and>
    mode (state d') = mode (state d) \<and> rip (state d') = mask_instruction_pointer (state d) t \<and>
    sreg (state d') = (sreg (state d))[1 := ucast s] \<and> sp_of d' = mask_stack_pointer (state d) (sp_of d + word_of_nat (2 * w + 2)) \<and>
    take_bit (8 * w) (rflags (state d')) = take_bit (8 * w) f \<and>
    drop_bit (8 * w) (rflags (state d')) = drop_bit (8 * w) (rflags (state d))"
proof -
  have v: "valid_width w" "valid_width 2" by (simp_all add: w)
  obtain m1 where m1: "pop_width w d = (Inr t, popped w m1 d)" "plain m1" "pages m1 = pages (mem d)"
    using pop_slot [OF assms(1,2) v(1) assms(4)] by blast
  note f1 = popped_facts [OF assms(1) m1(2,3)]
  obtain m2 where m2: "pop_width 2 (popped w m1 d) = (Inr s, popped 2 m2 (popped w m1 d))" "plain m2" "pages m2 = pages (mem d)"
    using pop_slot [OF f1(1,2) v(2)] f1(3) [OF v(2), of w 0] assms(5) m1(3) by (auto simp: popped_def)
  note f2 = popped_facts [OF assms(1) m2(2,3), where w = "w + 2"]
  obtain m3 where m3: "pop_width w (popped (w + 2) m2 d) = (Inr f, popped w m3 (popped (w + 2) m2 d))" "plain m3" "pages m3 = pages (mem d)"
    using pop_slot [OF f2(1,2) v(1)] f2(3) [OF v(1), where k = 0] assms(6) m2(3) by (auto simp: popped_def)
  note f3 = popped_facts [OF assms(1) m3(2,3), where w = "w + 2 + w"]
  have i: "iret_width w w d = (let c3 = popped (w + 2 + w) m3 d;
       s1 = (state c3)\<lparr>mode := mode_for_far_width w, sreg := (sreg (state c3))[1 := ucast s]\<rparr>;
           s2 = s1\<lparr>rip := mask_instruction_pointer s1 t\<rparr>;
           new_flags = (if w = 8 then f
                        else if w = 4
                        then (rflags s2 AND NOT 0xFFFFFFFF) OR (f AND 0xFFFFFFFF)
                        else (rflags s2 AND NOT 0xFFFF) OR (f AND 0xFFFF))
       in (no_stop, c3\<lparr>state := s2\<lparr>rflags := new_flags\<rparr>, control_flow_taken := True\<rparr>))"
    by (simp only: iret_width_def bind_value_def m1(1) m2(1) m3(1) f1(8) f2(8) prod.case sum.case Let_def)
  have fl: "take_bit (8 * w) (if w = 8 then f else if w = 4 then (F AND NOT 0xFFFFFFFF) OR (f AND 0xFFFFFFFF)
        else (F AND NOT 0xFFFF) OR (f AND 0xFFFF)) = take_bit (8 * w) f"
    "drop_bit (8 * w) (if w = 8 then f else if w = 4 then (F AND NOT 0xFFFFFFFF) OR (f AND 0xFFFFFFFF)
        else (F AND NOT 0xFFFF) OR (f AND 0xFFFF)) = drop_bit (8 * w) F" for F
    using ipw_valid(3) [of "mode (state d)"] masked_merge [of 16 F f] masked_merge [of 32 F f] unfolding w [symmetric]
    by (auto simp: mask_eq_exp_minus_1)
  have mo: "mode_for_far_width w = mode (state d)" by (cases "mode (state d)") (simp_all add: w)
  have sp: "word_of_nat (w + 2 + w) = (word_of_nat (2 * w + 2) :: u64)" by simp
  show ?thesis
    unfolding i Let_def using f3 fl m3(3) mo
    by (simp add: popped_def mask_instruction_pointer_eq sp_of_def)
qed

definition iret_of_mode :: "execution_mode \<Rightarrow> 'w handler" where
  "iret_of_mode m = (case m of real16 \<Rightarrow> handle_code_IRETW | compat32 \<Rightarrow> handle_code_IRETD | long64 \<Rightarrow> handle_code_IRETQ)"

lemma iret_of_mode_eq: "iret_of_mode m = iret_width (instruction_pointer_width m) (instruction_pointer_width m)"
  by (cases m) (simp_all add: iret_of_mode_def handle_code_IRETW_def handle_code_IRETD_def handle_code_IRETQ_def)

text \<open>The interrupt handler kept the three values of its frame.\<close>

definition frame_kept :: "'w ctx \<Rightarrow> 'w ctx \<Rightarrow> bool" where
  "frame_kept c d \<longleftrightarrow>
     (let w = instruction_pointer_width (mode (state c))
      in mode (state d) = mode (state c) \<and> sp_of d = sp_of c \<and> stack_slot d 0 w = stack_slot c 0 w \<and>
         stack_slot d w 2 = stack_slot c w 2 \<and> stack_slot d (w + 2) w = stack_slot c (w + 2) w)"

text \<open>C26: \<^verbatim>\<open>dispatch_interrupt\<close> enters the gate of its vector with IF and TF cleared as the gate asks, and the IRET of the mode,
  run on any state that kept the frame, resumes at the return address with the interrupted code segment, stack
  pointer, mode and flags (RF set in them where the dispatch asked for it).\<close>

theorem interrupt_iret_roundtrip:
  assumes "sane c" "sp_masked c" "dispatch_interrupt vec return_rip None rf c = (no_stop, c')"
    and "sane d" "frame_kept c' d"
  shows "(\<exists>target selector gate_type. fst (read_gate c vec) = Inr (target, selector, gate_type) \<and>
       rip (state c') = mask_instruction_pointer (state c) target \<and> sreg (state c') ! 1 = selector \<and>
       rflags (state c') = (if gate_type = 0x0E then set_flag (rflags (state c)) kFlagIF False else rflags (state c)) AND NOT kFlagTF) \<and>
    (\<exists>d'. iret_of_mode (mode (state c)) d = (no_stop, d') \<and>
       mode (state d') = mode (state c) \<and> sp_of d' = sp_of c \<and> sreg (state d') ! 1 = sreg (state c) ! 1 \<and>
       rip (state d') = mask_instruction_pointer (state c) return_rip \<and>
       take_bit (8 * instruction_pointer_width (mode (state c))) (rflags (state d')) =
         take_bit (8 * instruction_pointer_width (mode (state c)))
           (if rf then rflags (state c) OR kFlagRF else rflags (state c)))"
proof -
  let ?w = "instruction_pointer_width (mode (state c))"
  define fl where "fl = (if rf then rflags (state c) OR kFlagRF else rflags (state c))"
  note df = dispatch_frame [OF assms(1,3)]
  have fr: "interrupt_frame return_rip fl c c'" using df by (simp add: fl_def)
  have m: "mode (state c') = mode (state c)" "mode (state d) = mode (state c)"
    using fr assms(5) by (auto simp: interrupt_frame_def frame_kept_def Let_def)
  have sp: "sp_of d = mask_stack_pointer (state c) (sp_of c - word_of_nat (2 * ?w + 2))"
    using fr assms(5) by (simp add: interrupt_frame_def frame_kept_def Let_def)
  have md: "sp_masked d" by (simp add: sp_masked_def sp mask_stack_pointer_eq m)
  have sl: "stack_slot d 0 ?w = Some (take_bit (8 * ?w) return_rip)" "stack_slot d ?w 2 = Some (ucast (sreg (state c) ! 1))"
    "stack_slot d (?w + 2) ?w = Some (take_bit (8 * ?w) fl)"
    using fr assms(5) unfolding interrupt_frame_def frame_kept_def Let_def m by simp_all
  obtain d' where d': "iret_width ?w ?w d = (no_stop, d')" "mode (state d') = mode (state d)"
    "rip (state d') = mask_instruction_pointer (state d) (take_bit (8 * ?w) return_rip)"
    "sreg (state d') = (sreg (state d))[1 := ucast (ucast (sreg (state c) ! 1) :: u64)]"
    "sp_of d' = mask_stack_pointer (state d) (sp_of d + word_of_nat (2 * ?w + 2))"
    "take_bit (8 * ?w) (rflags (state d')) = take_bit (8 * ?w) (take_bit (8 * ?w) fl)"
    using iret_slots [OF assms(4) md _ sl] m by auto
  have len: "1 < length (sreg (state d))" "1 < length (sreg (state c))"
    using assms(1,4) by (simp_all add: sane_def wf_cpu_def)
  have "mask_stack_pointer (state d) (sp_of d + word_of_nat (2 * ?w + 2)) = sp_of c"
    using mask_sp_back [of "state c" "sp_of c" "word_of_nat (2 * ?w + 2)"] assms(2)
    unfolding sp sp_masked_def mask_sp_mode [OF m(2)] by simp
  then have "sp_of d' = sp_of c" "sreg (state d') ! 1 = sreg (state c) ! 1"
    using d' len by (simp_all add: ucast_selector)
  then have ret: "\<exists>d'. iret_of_mode (mode (state c)) d = (no_stop, d') \<and>
       mode (state d') = mode (state c) \<and> sp_of d' = sp_of c \<and> sreg (state d') ! 1 = sreg (state c) ! 1 \<and>
       rip (state d') = mask_instruction_pointer (state c) return_rip \<and>
       take_bit (8 * ?w) (rflags (state d')) = take_bit (8 * ?w) fl"
    using d' m by (auto simp: iret_of_mode_eq mask_instruction_pointer_eq)
  obtain tg sl g where "fst (read_gate c vec) = Inr (tg, sl, g)" "rip (state c') = mask_instruction_pointer (state c) tg"
    "sreg (state c') = (sreg (state c))[1 := sl]"
    "rflags (state c') = (if g = 0x0E then set_flag (rflags (state c)) kFlagIF False else rflags (state c)) AND NOT kFlagTF"
    using df by blast
  then show ?thesis using ret len unfolding fl_def by (metis nth_list_update_eq)
qed

section \<open>Far calls\<close>

definition far_call_catalog :: "('w handler \<times> 'w handler \<times> nat \<times> execution_mode) list" where
  "far_call_catalog =
     [(handle_code_CALL_PTR1616, handle_code_RETFW, 2, real16), (handle_code_CALL_PTR1632, handle_code_RETFD, 4, compat32)]"

lemma far_call_catalogD:
  assumes "(call, retf, w, m) \<in> set far_call_catalog"
  shows "valid_width w" "2 \<le> w" "retf = retf_width w 0" "mode_for_far_width w = m" "instruction_pointer_width m = w"
    "\<exists>t. call c = unless_stopped (push_far_return (far_branch_selector (instr c)) (next_rip c) w c)
       (far_jump m (far_branch_selector (instr c)) t)"
  using assms
  by (auto simp: far_call_catalog_def valid_width_def handle_code_CALL_PTR1616_def handle_code_CALL_PTR1632_def
      handle_code_RETFW_def handle_code_RETFD_def)

text \<open>A shorter load at the same address sees the low bytes.\<close>

lemma ctx_read_prefix:
  assumes "plain (mem c)" "valid_width w" "valid_width v" "v \<le> w" "fst (ctx_read c a w) = Some x"
  shows "fst (ctx_read c a v) = Some (take_bit (8 * v) x)"
proof -
  let ?R = "read_bytes (can data_read) (pages (mem c)) a"
  obtain bs where bs: "?R w = Some bs" "x = of_le_bytes bs"
    using ctx_read_plain [OF assms(1,2), of a] assms(5) by auto
  then obtain b1 b2 where b: "?R v = Some b1" "bs = b1 @ b2"
    using read_bytes_split [OF assms(4), of "can data_read" "pages (mem c)" a]
    by (cases "?R v") (auto simp: eq_commute [of "Some bs"])
  then have len: "length b1 = v" by (auto simp: read_bytes_def dest: those_length)
  have "take_bit (8 * v) (of_le_bytes (b1 @ b2) :: u64) = of_le_bytes b1"
    by (rule bit_word_eqI)
      (auto simp: bit_take_bit_iff bit_of_le_bytes nth_append len div_less_iff_less_mult mult.commute)
  then show ?thesis using ctx_read_plain [OF assms(1,3), of a] b bs by auto
qed

lemma pop_width_stops: "pop_width w c = (Inl r, d) \<Longrightarrow> r \<noteq> no_stop"
  by (auto simp: pop_width_def read_memory_checked_def memory_fault_def unsupported_instruction_def no_stop_def
      split: if_splits prod.splits sum.splits option.splits)

lemma pop_width_Inr:
  assumes "sane c" "valid_width w" "pop_width w c = (Inr v, d)"
  shows "fst (ctx_read c (sp_of c) w) = Some v"
  using assms ctx_read_plain [of c w "sp_of c"]
  by (auto simp: pop_width_def read_memory_checked_def sane_def split: if_splits prod.splits sum.splits option.splits)

text \<open>A far call leaves, above the stack pointer, first the selector it jumps to and then the offset of the next
  instruction; the caller's own code segment is not saved. A far return of the same width, which takes the offset from the
  lower slot, therefore resumes at an address whose low sixteen bits are the selector that was called.\<close>

theorem far_call_frame:
  assumes "(call, retf, w, m) \<in> set far_call_catalog" "sane c" "mode (state c) = m" "call c = (no_stop, c')"
  shows "stack_slot c' 0 2 = Some (ucast (far_branch_selector (instr c))) \<and>
    stack_slot c' 2 w = Some (take_bit (8 * w) (next_rip c)) \<and>
    (\<forall>d. retf c' = (no_stop, d) \<longrightarrow> take_bit 16 (rip (state d)) = ucast (far_branch_selector (instr c)))"
proof -
  let ?s = "far_branch_selector (instr c)"
  note cat = far_call_catalogD [OF assms(1)]
  have w2: "valid_width 2" by simp
  obtain t where "unless_stopped (push_far_return ?s (next_rip c) w c) (far_jump m ?s t) = (no_stop, c')"
    using cat(6) [of c] assms(4) by auto
  then obtain r p2 where pf: "push_far_return ?s (next_rip c) w c = (r, p2)" "reason r = SR_none"
    and j: "c' = p2\<lparr>state := (state p2)\<lparr>mode := m, sreg := (sreg (state p2))[1 := ?s], rip := t\<rparr>, control_flow_taken := True\<rparr>"
    by (auto simp: unless_stopped_def far_jump_def no_stop_def split: prod.splits if_splits)
  obtain p1 where p1: "push_opt (next_rip c) w c = Some p1" and p2: "push_opt (ucast ?s) 2 p1 = Some p2"
    using pf by (auto simp: push_far_return_def and_then_def push_opt_def result_ok_def split: prod.splits if_splits)
  note s1 = push_opt_state [OF assms(2) cat(1) p1]
  note s2 = push_opt_state [OF s1(1) w2 p2]
  have two: "fst (ctx_read p2 (sp_of p2) 2) = Some (ucast ?s)" "fst (ctx_read p2 (sp_of p1) w) = Some (take_bit (8 * w) (next_rip c))"
    using sm.two_pushes [OF assms(2) cat(1) w2 p1 p2] unfolding take_bit_selector by blast+
  let ?M = "mask_stack_pointer (state c)"
  have mode: "mode (state c') = mode (state c)" "mode (state p2) = mode (state c)" and memc: "mem c' = mem p2" and sp: "sp_of c' = sp_of p2"
    using assms(3) s1 s2 by (simp_all add: j sp_of_def)
  have sp2: "sp_of p2 = ?M (sp_of p1 - 2)" and sp1: "?M (sp_of p1) = sp_of p1"
    using push_opt_Some(2) [OF s1(1) w2 p2] push_opt_Some(2) [OF assms(2) cat(1) p1] s1(2) by (simp_all add: mask_stack_pointer_eq)
  have M: "mask_stack_pointer (state c') = ?M" by (intro ext mask_sp_mode) (rule mode(1))
  have rd: "fst (ctx_read c' a v) = fst (ctx_read p2 a v)" if "valid_width v" for a v
    by (rule ctx_read_cong) (use s2(1) memc that in \<open>simp_all add: sane_def\<close>)
  have low: "fst (ctx_read c' (sp_of c') 2) = Some (ucast ?s)"
    using two by (simp add: rd sp)
  have slots: "stack_slot c' 0 2 = Some (ucast ?s)" "stack_slot c' 2 w = Some (take_bit (8 * w) (next_rip c))"
    using two low cat(1) sp1 by (simp_all add: stack_slot_def M rd sp sp2 mask_sp_add mask_sp_add [where y = 0, simplified])
  have "take_bit 16 (rip (state d)) = ucast ?s" if d: "retf c' = (no_stop, d)" for d
  proof -
    obtain v d1 where v: "pop_width w c' = (Inr v, d1)"
      using d pop_width_stops [of w c'] by (auto simp: cat(3) retf_width_def bind_value_def split: prod.splits sum.splits)
    have sc: "sane c'" using s2(1) by (simp add: j sane_def wf_cpu_def)
    have "fst (ctx_read c' (sp_of c') 2) = Some (take_bit (8 * 2) v)"
      by (rule ctx_read_prefix [OF _ cat(1) w2 cat(2) pop_width_Inr [OF sc cat(1) v]]) (use sc in \<open>simp add: sane_def\<close>)
    then have "take_bit 16 v = ucast ?s" using low by simp
    moreover have "take_bit 16 (rip (state d)) = take_bit 16 v"
      using d v cat(2,4,5) pop_width_stops
      by (auto simp: cat(3) retf_width_def bind_value_def Let_def mask_instruction_pointer_eq min_def
          split: prod.splits sum.splits)
    ultimately show ?thesis by simp
  qed
  then show ?thesis using slots by blast
qed

end
