(* ===== verification/Call_Witness.thy ===== *)
theory Call_Witness
  imports Call_Facts
begin

text \<open>
  The stack properties at concrete contexts: a stack pointer in the second of two mapped pages, in each of the three modes.
\<close>

definition stack_ctx :: "execution_mode \<Rightarrow> u64 \<Rightarrow> instruction \<Rightarrow> unit ctx" where
  "stack_ctx m sp i = (demo_ctx i)\<lparr>state := initial_cpu_state\<lparr>mode := m, gpr := (replicate 16 0)[4 := sp],
     idtr := \<lparr>dt_base = 0x1000, dt_limit = 0x3FF\<rparr>\<rparr>\<rparr>"

text \<open>Every byte of the two pages can be written.\<close>

definition roomy :: "'w ctx \<Rightarrow> bool" where
  "roomy c \<longleftrightarrow> sane c \<and> (\<forall>a. a div kPageSize = 1 \<or> a div kPageSize = 2 \<longrightarrow> allowed_at (can data_write) (pages (mem c)) a)"

lemma stack_ctx_sane: "sane (stack_ctx m sp i)"
  using demo_plain initial_wf by (simp add: sane_def stack_ctx_def demo_ctx_def wf_cpu_def)

lemma stack_ctx_roomy: "roomy (stack_ctx m sp i)"
  using stack_ctx_sane [of m sp i]
  by (auto simp: roomy_def stack_ctx_def demo_ctx_def allowed_at_def demo_pages zero_page_def
      kMemoryPermissionAll_def perm_read_def perm_write_def perm_execute_def)

lemma stack_ctx_simps [simp]:
  "state (stack_ctx m sp i) = initial_cpu_state\<lparr>mode := m, gpr := (replicate 16 0)[4 := sp], idtr := \<lparr>dt_base = 0x1000, dt_limit = 0x3FF\<rparr>\<rparr>"
  "sp_of (stack_ctx m sp i) = sp" "instr (stack_ctx m sp i) = i" "next_rip (stack_ctx m sp i) = 1" "mem (stack_ctx m sp i) = demo_memory"
  by (simp_all add: stack_ctx_def demo_ctx_def sp_of_def)

lemma push_room:
  assumes "roomy c" "valid_width w"
    and "\<forall>i<w. (mask_stack_pointer (state c) (sp_of c - word_of_nat w) + word_of_nat i) div kPageSize \<in> {1, 2}"
  shows "\<exists>c'. push_width v w c = (no_stop, c') \<and> push_opt v w c = Some c' \<and> roomy c' \<and>
    sp_of c' = mask_stack_pointer (state c) (sp_of c - word_of_nat w) \<and> mode (state c') = mode (state c) \<and>
    sreg (state c') = sreg (state c)"
proof -
  let ?a = "mask_stack_pointer (state c) (sp_of c - word_of_nat w)"
  have s: "sane c" using assms(1) by (simp add: roomy_def)
  have "may_write c ?a w" using assms(1,3) by (auto simp: may_write_def roomy_def)
  then obtain m where "push_width v w c = (no_stop, pushed w m c)"
    using push_width_cases [of c w v] s assms(2) by (auto simp: sane_def)
  then have p: "push_width v w c = (no_stop, pushed w m c)" "push_opt v w c = Some (pushed w m c)"
    using push_opt_iff [OF s assms(2), of v] by simp_all
  note st = push_opt_state [OF s assms(2) p(2)]
  let ?d = "set_sp (sp_of c - word_of_nat w) c"
  obtain ok m' where "ctx_write ?d ?a v w = (ok, ?d\<lparr>mem := m'\<rparr>)"
    "after_write (can data_write) (mem ?d) ?a (le_bytes w v) (ok, m')"
    using ctx_write_plain [of ?d w ?a v] s assms(2) by (auto simp: sane_def)
  moreover have "m' = m"
    using arg_cong [where f = "\<lambda>r. mem (snd r)", OF push_opt_Some(3) [OF s assms(2) p(2)]] calculation(1)
      push_opt_Some(2) [OF s assms(2) p(2)] by (simp add: pushed_def)
  ultimately have "allowed_at f (pages m) a = allowed_at f (pages (mem c)) a" for f a
    using after_write_pages by (metis allowed_at_pokes set_sp_fields(1) snd_conv)
  then have "roomy (pushed w m c)" using assms(1) st(1) by (simp add: roomy_def pushed_def)
  then show ?thesis using p st push_opt_Some(2) [OF s assms(2) p(2)] by blast
qed

lemma reason_no_stop [simp]: "reason no_stop = SR_none"
  by (simp add: no_stop_def)

lemma read_room:
  assumes "roomy c" "valid_width w" "\<forall>i<w. (a + word_of_nat i) div kPageSize \<in> {1, 2}"
  shows "\<exists>v m. read_memory_checked c a w = (Inr v, c\<lparr>mem := m\<rparr>) \<and> roomy (c\<lparr>mem := m\<rparr>)"
proof -
  have p: "plain (mem c)" and "may_write c a w" using assms(1,3) by (auto simp: roomy_def sane_def may_write_def)
  then obtain v where "fst (ctx_read c a w) = Some v" using may_write_read assms(2) by blast
  moreover obtain m where "read_memory_checked c a w =
      (case fst (ctx_read c a w) of None \<Rightarrow> Inl (memory_fault c a) | Some v \<Rightarrow> Inr v, c\<lparr>mem := m\<rparr>)"
    "plain m" "tlb_variant (mem c) m"
    using read_memory_checked_plain [OF p assms(2)] by blast
  ultimately show ?thesis using assms(1) by (auto simp: roomy_def sane_def tlb_variant_fields)
qed

lemma valid_widths_2: "valid_width 2" "valid_width 4" "valid_width 8"
  by (simp_all add: valid_width_def)

lemma less_widths: "(i :: nat) < 2 \<longleftrightarrow> i \<in> {0, 1}" "i < 4 \<longleftrightarrow> i \<in> {0, 1, 2, 3}" "i < 8 \<longleftrightarrow> i \<in> {0, 1, 2, 3, 4, 5, 6, 7}"
  by auto

lemmas demo_eval = mask_stack_pointer_eq stack_pointer_width_def kPageSize_def less_widths

lemma demo_push:
  "\<exists>c'. push_width 0x1122334455667788 4 (stack_ctx long64 0x2008 null_instruction) = (no_stop, c')"
  using push_room [OF stack_ctx_roomy valid_widths_2(2), of long64 "0x2008" null_instruction] by (auto simp: demo_eval)

theorem push_pop_roundtrip_witness:
  "\<exists>c' m. push_width 0x1122334455667788 4 (stack_ctx long64 0x2008 null_instruction) = (no_stop, c') \<and>
     pop_width 4 c' = (Inr 0x55667788, (stack_ctx long64 0x2008 null_instruction)\<lparr>mem := m\<rparr>)"
proof -
  let ?c = "stack_ctx long64 0x2008 null_instruction"
  obtain c' where c': "push_width 0x1122334455667788 4 ?c = (no_stop, c')" using demo_push by blast
  have p: "plain (mem ?c)" "wf_cpu (state ?c)" using stack_ctx_sane [of long64 "0x2008" null_instruction] by (simp_all only: sane_def)
  have "sp_masked ?c" by (simp add: sp_masked_def demo_eval)
  then show ?thesis using push_pop_roundtrip [OF p(1) valid_widths_2(2) p(2) _ c'] c' by auto
qed

theorem push_fault_moves_sp_witness:
  "fst (push_width 7 8 (stack_ctx long64 0x1004 null_instruction)) = memory_fault (stack_ctx long64 0x1004 null_instruction) 0xFFC \<and>
   sp_of (snd (push_width 7 8 (stack_ctx long64 0x1004 null_instruction))) = 0xFFC \<and>
   sp_of (stack_ctx long64 0x1004 null_instruction) = 0x1004"
proof -
  let ?c = "stack_ctx long64 0x1004 null_instruction"
  have p: "plain (mem ?c)" "wf_cpu (state ?c)" using stack_ctx_sane [of long64 "0x1004" null_instruction] by (simp_all only: sane_def)
  have m: "mask_stack_pointer (state ?c) (sp_of ?c - word_of_nat 8) = 0xFFC" by (simp add: demo_eval)
  have "\<not> may_write ?c 0xFFC 8"
    by (auto simp: may_write_def allowed_at_def demo_pages demo_eval intro!: exI [of _ 0])
  moreover have "sp_masked ?c" by (simp add: sp_masked_def demo_eval)
  ultimately show ?thesis using push_fault_moves_sp [OF p(1) valid_widths_2(3) p(2), of 7] unfolding m by simp
qed

theorem call_ret_roundtrip_witness:
  "\<exists>c' d'. handle_code_CALL_REL32_64 (stack_ctx long64 0x2008 (null_instruction\<lparr>near_branch64 := 0x1234\<rparr>)) = (no_stop, c') \<and>
     rip (state c') = 0x1234 \<and> handle_code_RETNQ c' = (no_stop, d') \<and> rip (state d') = 1 \<and> sp_of d' = 0x2008"
proof -
  let ?c = "stack_ctx long64 0x2008 (null_instruction\<lparr>near_branch64 := 0x1234\<rparr>)"
  obtain p where p: "push_width (next_rip ?c) 8 ?c = (no_stop, p)" "push_opt (next_rip ?c) 8 ?c = Some p"
      "roomy p" "mode (state p) = long64"
    using push_room [OF stack_ctx_roomy valid_widths_2(3), of long64 "0x2008" "null_instruction\<lparr>near_branch64 := 0x1234\<rparr>"]
    by (auto simp: demo_eval)
  let ?d = "p\<lparr>state := (state p)\<lparr>rip := 0x1234\<rparr>, control_flow_taken := True\<rparr>"
  have d: "handle_code_CALL_REL32_64 ?c = (no_stop, ?d)"
    using p(1) by (simp add: handle_code_CALL_REL32_64_def jump_to_def)
  have cat: "(handle_code_CALL_REL32_64, handle_code_RETNQ, 8) \<in> set near_call_catalog" by (simp add: near_call_catalog_def)
  have s: "sane ?d" "sp_masked ?c" "mode (state ?d) = mode (state ?c)"
    using p(3,4) by (simp_all add: roomy_def sane_def wf_cpu_def sp_masked_def demo_eval)
  show ?thesis
    using call_ret_roundtrip [OF cat stack_ctx_sane s(2) d s(1,3) refl refl] d by (auto simp: mask_instruction_pointer_eq)
qed

theorem far_call_frame_witness:
  "\<exists>c'. handle_code_CALL_PTR1632 (stack_ctx compat32 0x2008 (null_instruction\<lparr>far_branch_selector := 0x23\<rparr>)) = (no_stop, c') \<and>
     stack_slot c' 0 2 = Some 0x23 \<and> stack_slot c' 2 4 = Some 1 \<and>
     (\<forall>d. handle_code_RETFD c' = (no_stop, d) \<longrightarrow> take_bit 16 (rip (state d)) = 0x23)"
proof -
  let ?c = "stack_ctx compat32 0x2008 (null_instruction\<lparr>far_branch_selector := 0x23\<rparr>)"
  obtain p where p: "push_width 1 4 ?c = (no_stop, p)" "roomy p" "sp_of p = 0x2004" "mode (state p) = compat32"
    using push_room [OF stack_ctx_roomy valid_widths_2(2), of compat32 "0x2008" "null_instruction\<lparr>far_branch_selector := 0x23\<rparr>" 1]
    by (auto simp: demo_eval)
  obtain q where q: "push_width 0x23 2 p = (no_stop, q)"
    using push_room [OF p(2) valid_widths_2(1), of "0x23"] p(3,4) by (auto simp: demo_eval)
  obtain c' where c': "handle_code_CALL_PTR1632 ?c = (no_stop, c')"
    by (simp add: handle_code_CALL_PTR1632_def push_far_return_def unless_stopped_def far_jump_def p(1) q)
  have cat: "(handle_code_CALL_PTR1632, handle_code_RETFD, 4, compat32) \<in> set far_call_catalog" by (simp add: far_call_catalog_def)
  show ?thesis using far_call_frame [OF cat stack_ctx_sane _ c'] c' by simp
qed

theorem interrupt_iret_roundtrip_witness:
  "\<exists>c' d'. dispatch_interrupt 3 0x1234 None False (stack_ctx real16 0x2008 null_instruction) = (no_stop, c') \<and>
     iret_of_mode real16 c' = (no_stop, d') \<and> rip (state d') = 0x1234 \<and> sp_of d' = 0x2008 \<and>
     sreg (state d') ! 1 = 0 \<and> take_bit 16 (rflags (state d')) = 0x202"
proof -
  let ?c = "stack_ctx real16 0x2008 null_instruction"
  obtain v m where v: "read_memory_checked ?c 0x100C 2 = (Inr v, ?c\<lparr>mem := m\<rparr>)" "roomy (?c\<lparr>mem := m\<rparr>)"
    using read_room [OF stack_ctx_roomy valid_widths_2(1), of "0x100C"] by (force simp: demo_eval)
  obtain u k where u: "read_memory_checked (?c\<lparr>mem := m\<rparr>) 0x100E 2 = (Inr u, ?c\<lparr>mem := k\<rparr>)" "roomy (?c\<lparr>mem := k\<rparr>)"
    using read_room [OF v(2) valid_widths_2(1), of "0x100E"] by (force simp: demo_eval)
  have g: "read_gate ?c 3 = (Inr (v, ucast u, 0x0E), ?c\<lparr>mem := k\<rparr>)"
    using v(1) u(1) by (simp add: read_gate_def idt_has_entry_def)
  obtain c1 where c1: "push_width 0x202 2 (?c\<lparr>mem := k\<rparr>) = (no_stop, c1)" "roomy c1" "sp_of c1 = 0x2006"
    "mode (state c1) = real16" "sreg (state c1) = replicate 6 0"
    using push_room [OF u(2) valid_widths_2(1), of "0x202"] by (auto simp: demo_eval initial_cpu_state_def)
  obtain c2 where c2: "push_width 0 2 c1 = (no_stop, c2)" "roomy c2" "sp_of c2 = 0x2004" "mode (state c2) = real16"
    using push_room [OF c1(2) valid_widths_2(1), of 0] c1(3,4) by (auto simp: demo_eval)
  obtain c3 where c3: "push_width 0x1234 2 c2 = (no_stop, c3)" "roomy c3"
    using push_room [OF c2(2) valid_widths_2(1), of "0x1234"] c2(3,4) by (auto simp: demo_eval)
  obtain c' where c': "dispatch_interrupt 3 0x1234 None False ?c = (no_stop, c')" "c' = snd (enter_gate (v, ucast u, 0x0E) c3)"
    using c1(1,5) c2(1) c3(1) by (simp add: dispatch_interrupt_def g frame_push_ipw initial_cpu_state_def enter_gate_def Let_def)
  have s: "sane c'" "sp_masked ?c"
    using c3(2) by (simp_all add: c'(2) enter_gate_def Let_def put_flag_def roomy_def sane_def wf_cpu_def sp_masked_def demo_eval)
  have "frame_kept c' c'" by (simp add: frame_kept_def)
  then show ?thesis
    using interrupt_iret_roundtrip [OF stack_ctx_sane s(2) c'(1) s(1)] c'(1)
    by (auto simp: initial_cpu_state_def mask_instruction_pointer_eq)
qed

end
