(* ===== verification/Data_Move.thy ===== *)
theory Data_Move
  imports Alu_Memory
begin

text \<open>
  Data movement: \<^verbatim>\<open>handlers/data/{mov_base,movzx,movsx,movsxd,movbe,movdir,xchg}.cpp\<close> and
  \<^verbatim>\<open>handlers/{xadd,cmpxchg,cmpxchg486}.cpp\<close>. The tracing output of \<^verbatim>\<open>CMPXCHG16B\<close> is left out.
\<close>

section \<open>\<^verbatim>\<open>mov_base.cpp\<close>\<close>

definition kCr4DeBit :: u64 where "kCr4DeBit = push_bit 3 1"

definition mov_gp_fault :: "'w ctx \<Rightarrow> execution_result" where
  "mov_gp_fault c =
     \<lparr>reason = SR_general_protection, retired = 0,
      exception_of = Some \<lparr>ei_reason = SR_general_protection, ei_address = rip (state c), ei_error_code = 0\<rparr>,
      result_code = Some (code (instr c))\<rparr>"

definition mov_ud_fault :: "'w ctx \<Rightarrow> execution_result" where
  "mov_ud_fault c =
     \<lparr>reason = SR_invalid_opcode, retired = 0,
      exception_of = Some \<lparr>ei_reason = SR_invalid_opcode, ei_address = rip (state c), ei_error_code = 0\<rparr>,
      result_code = Some (code (instr c))\<rparr>"

definition cpl_is_zero :: "cpu_state \<Rightarrow> bool" where
  "cpl_is_zero s \<longleftrightarrow> sreg s ! 1 AND 3 = 0"

text \<open>A control register name stands for the debug register of the same number.\<close>

definition resolve_debug_index :: "cpu_state \<Rightarrow> register \<Rightarrow> nat option" where
  "resolve_debug_index s reg =
     (case (case reg of CR n \<Rightarrow> Some (unat n) | DR n \<Rightarrow> Some (unat n) | _ \<Rightarrow> None) of
        None \<Rightarrow> None
      | Some index \<Rightarrow>
          if (index = 4 \<or> index = 5) \<and> cr s ! 4 AND kCr4DeBit \<noteq> 0 then None
          else let index2 = (if index = 4 \<or> index = 5 then index + 2 else index)
               in if index2 > 7 then None else Some index2)"

text \<open>The statement sequences the handlers are instances of.\<close>

definition mov_rm_r :: "nat \<Rightarrow> 'w handler" where
  "mov_rm_r w = with_operand 1 w (\<lambda>value c. write_operand_checked c 0 value w)"

definition mov_from_0_to_1 :: "nat \<Rightarrow> 'w handler" where
  "mov_from_0_to_1 w = with_operand 0 w (\<lambda>value c. write_operand_checked c 1 value w)"

definition put_reg_0 :: "nat \<Rightarrow> u64 \<Rightarrow> 'w handler" where
  "put_reg_0 w value c = (no_stop, upd_state (\<lambda>s. write_register s (op_register (instr c) 0) value w) c)"

definition mov_r_rm :: "nat \<Rightarrow> 'w handler" where
  "mov_r_rm w = with_operand 1 w (put_reg_0 w)"

definition mov_r_imm :: "(instruction \<Rightarrow> u64) \<Rightarrow> nat \<Rightarrow> 'w handler" where
  "mov_r_imm imm w c = put_reg_0 w (imm (instr c)) c"

definition mov_rm_imm :: "(instruction \<Rightarrow> u64) \<Rightarrow> nat \<Rightarrow> 'w handler" where
  "mov_rm_imm imm w c = write_operand_checked c 0 (imm (instr c)) w"

definition mov_r_r :: "nat \<Rightarrow> 'w handler" where
  "mov_r_r w c = put_reg_0 w (read_register (state c) (op_register (instr c) 1)) c"

definition mov_rm_reg :: "nat \<Rightarrow> 'w handler" where
  "mov_rm_reg w c = write_operand_checked c 0 (read_register (state c) (op_register (instr c) 1)) w"

definition mov_sreg_r64 :: "nat \<Rightarrow> 'w handler" where
  "mov_sreg_r64 w = with_operand 1 w (put_reg_0 2)"

definition mov_sreg_rm :: "nat \<Rightarrow> 'w handler" where
  "mov_sreg_rm w = with_operand 1 w (\<lambda>value c.
     let dst_reg = op_register (instr c) 0;
         c1 = upd_state (\<lambda>s. write_register s dst_reg value 2) c
     in if dst_reg = SS
        then let c2 = upd_state (\<lambda>s. s\<lparr>debug_suppression := 1\<rparr>) c1;
                 c3 = (if rflags (state c2) AND kFlagTF \<noteq> 0
                       then upd_state (\<lambda>s. s\<lparr>pending_single_step := True\<rparr>) c2 else c2)
             in (no_stop,
                 if op_kind (instr c3) 1 = MEMORY
                 then c3\<lparr>debug_hit_bits := debug_hit_bits c3 OR
                        debug_data_breakpoint_hits (state c3) (memory_address c3) (word_of_nat w) True False\<rparr>
                 else c3)
        else (no_stop, c1))"

text \<open>The lambda \<^verbatim>\<open>as_cr\<close> of the four control register handlers.\<close>

fun as_cr :: "register \<Rightarrow> register" where
  "as_cr (DR n) = CR n"
| "as_cr reg = reg"

definition mov_r_cr :: "nat \<Rightarrow> 'w handler" where
  "mov_r_cr w c = put_reg_0 w (read_register (state c) (as_cr (op_register (instr c) 1))) c"

definition mov_cr_r :: "nat \<Rightarrow> 'w handler" where
  "mov_cr_r w c =
     (let dst = as_cr (op_register (instr c) 0); src = op_register (instr c) 1;
          value = (if w = 4 then truncate_to (read_register (state c) src) 4 else read_register (state c) src)
      in (no_stop, upd_state (\<lambda>s. write_register s dst value w) c))"

definition mov_r_dr :: "nat \<Rightarrow> 'w handler" where
  "mov_r_dr w c =
     (if \<not> cpl_is_zero (state c) then (mov_gp_fault c, c)
      else case resolve_debug_index (state c) (op_register (instr c) 1) of
             None \<Rightarrow> (mov_ud_fault c, c)
           | Some src_index \<Rightarrow> put_reg_0 w (dr (state c) ! src_index) c)"

definition mov_dr_r :: "nat \<Rightarrow> 'w handler" where
  "mov_dr_r w c =
     (if \<not> cpl_is_zero (state c) then (mov_gp_fault c, c)
      else case resolve_debug_index (state c) (op_register (instr c) 0) of
             None \<Rightarrow> (mov_ud_fault c, c)
           | Some dst_index \<Rightarrow>
               let src = op_register (instr c) 1;
                   value = (if w = 4 then truncate_to (read_register (state c) src) 4 else read_register (state c) src)
               in (no_stop, upd_state (\<lambda>s. s\<lparr>dr := (dr s)[dst_index := value]\<rparr>) c))"

definition lea :: "nat \<Rightarrow> 'w handler" where
  "lea w c = put_reg_0 w (memory_address c) c"

definition handle_code_MOV_RM8_R8 :: "'w handler" where
  "handle_code_MOV_RM8_R8 = with_operand 0 1 (\<lambda>lhs. with_operand 1 1 (\<lambda>rhs c. write_operand_checked c 0 rhs 1))"

definition handle_code_MOV_RM16_R16 :: "'w handler" where
  "handle_code_MOV_RM16_R16 = mov_rm_r 2"

definition handle_code_MOV_RM32_R32 :: "'w handler" where
  "handle_code_MOV_RM32_R32 = mov_rm_r 4"

definition handle_code_MOV_RM64_R64 :: "'w handler" where
  "handle_code_MOV_RM64_R64 = mov_rm_r 8"

definition handle_code_MOV_AL_MOFFS8 :: "'w handler" where
  "handle_code_MOV_AL_MOFFS8 = mov_r_rm 1"

definition handle_code_MOV_AX_MOFFS16 :: "'w handler" where
  "handle_code_MOV_AX_MOFFS16 = mov_r_rm 2"

definition handle_code_MOV_EAX_MOFFS32 :: "'w handler" where
  "handle_code_MOV_EAX_MOFFS32 = mov_r_rm 4"

definition handle_code_MOV_RAX_MOFFS64 :: "'w handler" where
  "handle_code_MOV_RAX_MOFFS64 = mov_r_rm 8"

definition handle_code_MOV_MOFFS8_AL :: "'w handler" where
  "handle_code_MOV_MOFFS8_AL = mov_from_0_to_1 1"

definition handle_code_MOV_MOFFS16_AX :: "'w handler" where
  "handle_code_MOV_MOFFS16_AX = mov_from_0_to_1 2"

definition handle_code_MOV_MOFFS32_EAX :: "'w handler" where
  "handle_code_MOV_MOFFS32_EAX = mov_from_0_to_1 4"

definition handle_code_MOV_MOFFS64_RAX :: "'w handler" where
  "handle_code_MOV_MOFFS64_RAX = mov_from_0_to_1 8"

definition handle_code_MOV_R8_RM8 :: "'w handler" where
  "handle_code_MOV_R8_RM8 = mov_r_rm 1"

definition handle_code_MOV_R16_RM16 :: "'w handler" where
  "handle_code_MOV_R16_RM16 = mov_r_rm 2"

definition handle_code_MOV_R32_RM32 :: "'w handler" where
  "handle_code_MOV_R32_RM32 = mov_r_rm 4"

definition handle_code_MOV_R64_RM64 :: "'w handler" where
  "handle_code_MOV_R64_RM64 = mov_r_rm 8"

definition handle_code_MOV_R8_IMM8 :: "'w handler" where
  "handle_code_MOV_R8_IMM8 = mov_r_imm imm8 1"

definition handle_code_MOV_R16_IMM16 :: "'w handler" where
  "handle_code_MOV_R16_IMM16 = mov_r_imm imm16 2"

definition handle_code_MOV_R32_IMM32 :: "'w handler" where
  "handle_code_MOV_R32_IMM32 = mov_r_imm imm32 4"

definition handle_code_MOV_R64_IMM64 :: "'w handler" where
  "handle_code_MOV_R64_IMM64 = mov_r_imm immediate64 8"

definition handle_code_MOV_RM8_IMM8 :: "'w handler" where
  "handle_code_MOV_RM8_IMM8 = mov_rm_imm imm8 1"

definition handle_code_MOV_RM16_IMM16 :: "'w handler" where
  "handle_code_MOV_RM16_IMM16 = mov_rm_imm imm16 2"

definition handle_code_MOV_RM32_IMM32 :: "'w handler" where
  "handle_code_MOV_RM32_IMM32 = mov_rm_imm imm32 4"

definition handle_code_MOV_RM64_IMM32 :: "'w handler" where
  "handle_code_MOV_RM64_IMM32 = mov_rm_imm imm32_sext 8"

definition handle_code_MOV_RM16_SREG :: "'w handler" where
  "handle_code_MOV_RM16_SREG = mov_rm_reg 2"

definition handle_code_MOV_R32M16_SREG :: "'w handler" where
  "handle_code_MOV_R32M16_SREG = mov_r_r 4"

definition handle_code_MOV_R64M16_SREG :: "'w handler" where
  "handle_code_MOV_R64M16_SREG = mov_r_r 8"

definition handle_code_MOV_SREG_RM16 :: "'w handler" where
  "handle_code_MOV_SREG_RM16 = mov_sreg_rm 2"

definition handle_code_MOV_SREG_R32M16 :: "'w handler" where
  "handle_code_MOV_SREG_R32M16 = mov_sreg_rm 4"

definition handle_code_MOV_SREG_R64M16 :: "'w handler" where
  "handle_code_MOV_SREG_R64M16 = mov_sreg_r64 8"

definition handle_code_MOV_R32_CR :: "'w handler" where
  "handle_code_MOV_R32_CR = mov_r_cr 4"

definition handle_code_MOV_R64_CR :: "'w handler" where
  "handle_code_MOV_R64_CR = mov_r_cr 8"

definition handle_code_MOV_R32_DR :: "'w handler" where
  "handle_code_MOV_R32_DR = mov_r_dr 4"

definition handle_code_MOV_R64_DR :: "'w handler" where
  "handle_code_MOV_R64_DR = mov_r_dr 8"

definition handle_code_MOV_CR_R32 :: "'w handler" where
  "handle_code_MOV_CR_R32 = mov_cr_r 4"

definition handle_code_MOV_CR_R64 :: "'w handler" where
  "handle_code_MOV_CR_R64 = mov_cr_r 8"

definition handle_code_MOV_DR_R32 :: "'w handler" where
  "handle_code_MOV_DR_R32 = mov_dr_r 4"

definition handle_code_MOV_DR_R64 :: "'w handler" where
  "handle_code_MOV_DR_R64 = mov_dr_r 8"

definition handle_code_MOV_R32_TR :: "'w handler" where
  "handle_code_MOV_R32_TR = mov_r_r 4"

definition handle_code_MOV_TR_R32 :: "'w handler" where
  "handle_code_MOV_TR_R32 = mov_r_r 4"

definition handle_code_LEA_R64_M :: "'w handler" where
  "handle_code_LEA_R64_M = lea 8"

definition handle_code_LEA_R32_M :: "'w handler" where
  "handle_code_LEA_R32_M = lea 4"

definition handle_code_LEA_R16_M :: "'w handler" where
  "handle_code_LEA_R16_M = lea 2"

section \<open>\<^verbatim>\<open>movzx.cpp\<close>, \<^verbatim>\<open>movsx.cpp\<close>, \<^verbatim>\<open>movsxd.cpp\<close>\<close>

definition with_operand_checked :: "nat \<Rightarrow> nat \<Rightarrow> (u64 \<Rightarrow> 'w handler) \<Rightarrow> 'w handler" where
  "with_operand_checked k w f c =
     (case read_operand_checked c k w of
        (Inl r, c1) \<Rightarrow> (r, c1)
      | (Inr value, c1) \<Rightarrow> f value c1)"

definition movzx :: "nat \<Rightarrow> nat \<Rightarrow> 'w handler" where
  "movzx src_width width = with_operand_checked 1 src_width (put_reg_0 width)"

definition movsx :: "nat \<Rightarrow> nat \<Rightarrow> 'w handler" where
  "movsx src_width width = with_operand_checked 1 src_width (\<lambda>value. put_reg_0 width (sign_extend value src_width))"

definition handle_code_MOVZX_R16_RM8 :: "'w handler" where
  "handle_code_MOVZX_R16_RM8 = movzx 1 2"

definition handle_code_MOVZX_R32_RM8 :: "'w handler" where
  "handle_code_MOVZX_R32_RM8 = movzx 1 4"

definition handle_code_MOVZX_R64_RM8 :: "'w handler" where
  "handle_code_MOVZX_R64_RM8 = movzx 1 8"

definition handle_code_MOVZX_R16_RM16 :: "'w handler" where
  "handle_code_MOVZX_R16_RM16 = movzx 2 2"

definition handle_code_MOVZX_R32_RM16 :: "'w handler" where
  "handle_code_MOVZX_R32_RM16 = movzx 2 4"

definition handle_code_MOVZX_R64_RM16 :: "'w handler" where
  "handle_code_MOVZX_R64_RM16 = movzx 2 8"

definition handle_code_MOVSX_R16_RM8 :: "'w handler" where
  "handle_code_MOVSX_R16_RM8 = movsx 1 2"

definition handle_code_MOVSX_R32_RM8 :: "'w handler" where
  "handle_code_MOVSX_R32_RM8 = movsx 1 4"

definition handle_code_MOVSX_R64_RM8 :: "'w handler" where
  "handle_code_MOVSX_R64_RM8 = movsx 1 8"

definition handle_code_MOVSX_R16_RM16 :: "'w handler" where
  "handle_code_MOVSX_R16_RM16 = movsx 2 2"

definition handle_code_MOVSX_R32_RM16 :: "'w handler" where
  "handle_code_MOVSX_R32_RM16 = movsx 2 4"

definition handle_code_MOVSX_R64_RM16 :: "'w handler" where
  "handle_code_MOVSX_R64_RM16 = movsx 2 8"

definition handle_code_MOVSXD_R16_RM16 :: "'w handler" where
  "handle_code_MOVSXD_R16_RM16 = movsx 2 2"

definition handle_code_MOVSXD_R32_RM32 :: "'w handler" where
  "handle_code_MOVSXD_R32_RM32 = movsx 4 4"

definition handle_code_MOVSXD_R64_RM32 :: "'w handler" where
  "handle_code_MOVSXD_R64_RM32 = movsx 4 8"

section \<open>\<^verbatim>\<open>movbe.cpp\<close>\<close>

text \<open>\<^verbatim>\<open>std::byteswap\<close> of a \<open>w\<close>-byte integer.\<close>

definition byteswap :: "nat \<Rightarrow> u64 \<Rightarrow> u64" where
  "byteswap w v = of_le_bytes (rev (le_bytes w v))"

definition movbe_r_m :: "nat \<Rightarrow> 'w handler" where
  "movbe_r_m w = with_operand 1 w (\<lambda>value. put_reg_0 w (byteswap w value))"

definition movbe_m_r :: "nat \<Rightarrow> 'w handler" where
  "movbe_m_r w = with_operand 1 w (\<lambda>value c. write_operand_checked c 0 (byteswap w value) w)"

definition handle_code_MOVBE_R16_M16 :: "'w handler" where
  "handle_code_MOVBE_R16_M16 = movbe_r_m 2"

definition handle_code_MOVBE_R32_M32 :: "'w handler" where
  "handle_code_MOVBE_R32_M32 = movbe_r_m 4"

definition handle_code_MOVBE_R64_M64 :: "'w handler" where
  "handle_code_MOVBE_R64_M64 = movbe_r_m 8"

definition handle_code_MOVBE_M16_R16 :: "'w handler" where
  "handle_code_MOVBE_M16_R16 = movbe_m_r 2"

definition handle_code_MOVBE_M32_R32 :: "'w handler" where
  "handle_code_MOVBE_M32_R32 = movbe_m_r 4"

definition handle_code_MOVBE_M64_R64 :: "'w handler" where
  "handle_code_MOVBE_M64_R64 = movbe_m_r 8"

section \<open>\<^verbatim>\<open>movdir.cpp\<close>\<close>

definition movdir64b_impl :: "nat \<Rightarrow> 'w handler" where
  "movdir64b_impl dest_width c =
     (let src_address = memory_address c
      in case mem_read (mem c) src_address 64 data_read of
           (None, m) \<Rightarrow> (memory_fault c src_address, c\<lparr>mem := m\<rparr>)
         | (Some bytes, m) \<Rightarrow>
             let c1 = c\<lparr>mem := m\<rparr>;
                 dest_address = read_register (state c1) (op_register (instr c1) 0) AND mask_for_width dest_width
             in case mem_write (mem c1) dest_address bytes data_write of
                  (False, m2) \<Rightarrow> (memory_fault c1 dest_address, c1\<lparr>mem := m2\<rparr>)
                | (True, m2) \<Rightarrow> (no_stop, c1\<lparr>mem := m2\<rparr>))"

definition handle_code_MOVNTI_M32_R32 :: "'w handler" where
  "handle_code_MOVNTI_M32_R32 = mov_rm_r 4"

definition handle_code_MOVNTI_M64_R64 :: "'w handler" where
  "handle_code_MOVNTI_M64_R64 = mov_rm_r 8"

definition handle_code_MOVDIRI_M32_R32 :: "'w handler" where
  "handle_code_MOVDIRI_M32_R32 = mov_rm_r 4"

definition handle_code_MOVDIRI_M64_R64 :: "'w handler" where
  "handle_code_MOVDIRI_M64_R64 = mov_rm_r 8"

definition handle_code_MOVDIR64B_R16_M512 :: "'w handler" where
  "handle_code_MOVDIR64B_R16_M512 = movdir64b_impl 2"

definition handle_code_MOVDIR64B_R32_M512 :: "'w handler" where
  "handle_code_MOVDIR64B_R32_M512 = movdir64b_impl 4"

definition handle_code_MOVDIR64B_R64_M512 :: "'w handler" where
  "handle_code_MOVDIR64B_R64_M512 = movdir64b_impl 8"

section \<open>\<^verbatim>\<open>xchg.cpp\<close>, \<^verbatim>\<open>xadd.cpp\<close>\<close>

definition xchg_rm_r :: "nat \<Rightarrow> 'w handler" where
  "xchg_rm_r w = with_operand 0 w (\<lambda>lhs c.
     let rhs = read_register (state c) (op_register (instr c) 1)
     in and_then (write_operand_checked c 0 rhs w) (\<lambda>c1. write_operand_checked c1 1 lhs w))"

definition xchg_r_r :: "nat \<Rightarrow> 'w handler" where
  "xchg_r_r w = with_operand 0 w (\<lambda>lhs. with_operand 1 w (\<lambda>rhs c.
     and_then (write_operand_checked c 0 rhs w) (\<lambda>c1. write_operand_checked c1 1 lhs w)))"

definition handle_code_XCHG_RM8_R8 :: "'w handler" where
  "handle_code_XCHG_RM8_R8 = xchg_rm_r 1"

definition handle_code_XCHG_RM16_R16 :: "'w handler" where
  "handle_code_XCHG_RM16_R16 = xchg_rm_r 2"

definition handle_code_XCHG_RM32_R32 :: "'w handler" where
  "handle_code_XCHG_RM32_R32 = xchg_rm_r 4"

definition handle_code_XCHG_RM64_R64 :: "'w handler" where
  "handle_code_XCHG_RM64_R64 = xchg_rm_r 8"

definition handle_code_XCHG_R16_AX :: "'w handler" where
  "handle_code_XCHG_R16_AX = xchg_r_r 2"

definition handle_code_XCHG_R32_EAX :: "'w handler" where
  "handle_code_XCHG_R32_EAX = xchg_r_r 4"

definition handle_code_XCHG_R64_RAX :: "'w handler" where
  "handle_code_XCHG_R64_RAX = xchg_r_r 8"

definition xadd :: "nat \<Rightarrow> 'w handler" where
  "xadd w = with_operand 0 w (\<lambda>lhs c.
     let rhs = read_register (state c) (op_register (instr c) 1); result = lhs + rhs;
         c1 = upd_state (\<lambda>s. set_add_flags s lhs rhs result w False) c
     in and_then (write_operand_checked c1 0 result w) (\<lambda>c2. write_operand_checked c2 1 lhs w))"

definition handle_code_XADD_RM8_R8 :: "'w handler" where
  "handle_code_XADD_RM8_R8 = xadd 1"

definition handle_code_XADD_RM16_R16 :: "'w handler" where
  "handle_code_XADD_RM16_R16 = xadd 2"

definition handle_code_XADD_RM32_R32 :: "'w handler" where
  "handle_code_XADD_RM32_R32 = xadd 4"

definition handle_code_XADD_RM64_R64 :: "'w handler" where
  "handle_code_XADD_RM64_R64 = xadd 8"

section \<open>\<^verbatim>\<open>cmpxchg.cpp\<close>, \<^verbatim>\<open>cmpxchg486.cpp\<close>\<close>

definition set_cmpxchg_flags :: "u64 \<Rightarrow> u64 \<Rightarrow> nat \<Rightarrow> bool \<Rightarrow> cpu_state \<Rightarrow> cpu_state" where
  "set_cmpxchg_flags acc dst w success =
     (let m = mask_for_width w; ua = acc AND m; ub = dst AND m; res = (ua - ub) AND m;
          sa = sint (sign_extend ua w); sb = sint (sign_extend ub w); sres = sint (sign_extend res w)
      in put_flags
          [(kFlagCF, ua < ub), (kFlagZF, success), (kFlagPF, even_parity (low_byte res)),
           (kFlagAF, (ua XOR ub XOR res) AND 0x10 \<noteq> 0), (kFlagSF, sres < 0),
           (kFlagOF, sa \<ge> 0 \<and> sb < 0 \<and> sres < 0 \<or> sa < 0 \<and> sb \<ge> 0 \<and> sres \<ge> 0)])"

text \<open>Both files compare the destination with the accumulator register; they differ in the flags they set.\<close>

definition compare_exchange ::
  "(u64 \<Rightarrow> u64 \<Rightarrow> bool \<Rightarrow> cpu_state \<Rightarrow> cpu_state) \<Rightarrow> register \<Rightarrow> nat \<Rightarrow> 'w handler" where
  "compare_exchange flags acc_reg w = with_operand 0 w (\<lambda>lhs c.
     let rhs = read_register (state c) (op_register (instr c) 1);
         accumulator = read_register (state c) acc_reg
     in if lhs = accumulator
        then and_then (write_operand_checked c 0 rhs w)
               (\<lambda>c1. (no_stop, upd_state (flags accumulator lhs True) c1))
        else (no_stop, upd_state (\<lambda>s. flags accumulator lhs False (write_register s acc_reg lhs w)) c))"

definition cmpxchg :: "register \<Rightarrow> nat \<Rightarrow> 'w handler" where
  "cmpxchg acc_reg w = compare_exchange (\<lambda>acc dst. set_cmpxchg_flags acc dst w) acc_reg w"

definition cmpxchg486 :: "register \<Rightarrow> nat \<Rightarrow> 'w handler" where
  "cmpxchg486 = compare_exchange (\<lambda>acc dst. put_flag kFlagZF)"

definition handle_code_CMPXCHG_RM8_R8 :: "'w handler" where
  "handle_code_CMPXCHG_RM8_R8 = cmpxchg AL 1"

definition handle_code_CMPXCHG_RM16_R16 :: "'w handler" where
  "handle_code_CMPXCHG_RM16_R16 = cmpxchg AX 2"

definition handle_code_CMPXCHG_RM32_R32 :: "'w handler" where
  "handle_code_CMPXCHG_RM32_R32 = cmpxchg EAX 4"

definition handle_code_CMPXCHG_RM64_R64 :: "'w handler" where
  "handle_code_CMPXCHG_RM64_R64 = cmpxchg RAX 8"

text \<open>A misaligned operand is a general protection fault at its address.\<close>

definition alignment_fault :: "'w ctx \<Rightarrow> u64 \<Rightarrow> execution_result" where
  "alignment_fault c address =
     \<lparr>reason = SR_general_protection, retired = 0,
      exception_of = Some \<lparr>ei_reason = SR_general_protection, ei_address = address, ei_error_code = 0\<rparr>,
      result_code = Some (code (instr c))\<rparr>"

definition handle_code_CMPXCHG8B_M64 :: "'w handler" where
  "handle_code_CMPXCHG8B_M64 c =
     (let address = memory_address c
      in if address AND 7 \<noteq> 0 then (alignment_fault c address, c)
         else case read_operand c 0 8 of
                (None, c1) \<Rightarrow> (memory_fault c1 address, c1)
              | (Some lhs, c1) \<Rightarrow>
                  let reg = (\<lambda>r. read_register (state c1) r);
                      desired = push_bit 32 (reg EDX) OR (reg EAX AND 0xFFFFFFFF)
                  in if lhs = desired
                     then let source = push_bit 32 (reg ECX) OR (reg (D32 G_BX) AND 0xFFFFFFFF)
                          in case write_operand c1 0 source 8 of
                               (False, c2) \<Rightarrow> (memory_fault c2 address, c2)
                             | (True, c2) \<Rightarrow> (no_stop, upd_state (put_flag kFlagZF True) c2)
                     else (no_stop, upd_state (\<lambda>s. put_flag kFlagZF False
                             (write_register (write_register s EAX (lhs AND 0xFFFFFFFF) 4)
                                EDX (drop_bit 32 lhs AND 0xFFFFFFFF) 4)) c1))"

text \<open>The 16 bytes are assembled into a wide integer and taken apart again byte by byte.\<close>

definition handle_code_CMPXCHG16B_M128 :: "'w handler" where
  "handle_code_CMPXCHG16B_M128 c =
     (let address = memory_address c
      in if address AND 0xF \<noteq> 0 then (alignment_fault c address, c)
         else case mem_read (mem c) address 16 data_read of
                (None, m) \<Rightarrow> (memory_fault c address, c\<lparr>mem := m\<rparr>)
              | (Some lhs_bytes, m) \<Rightarrow>
                  let c1 = c\<lparr>mem := m\<rparr>; lhs = (of_le_bytes lhs_bytes :: u128);
                      reg = (\<lambda>r. ucast (read_register (state c1) r) :: u128);
                      desired = push_bit 64 (reg RDX) OR reg RAX
                  in if lhs = desired
                     then let source = push_bit 64 (reg RCX) OR reg (Q64 G_BX)
                          in case mem_write (mem c1) address (le_bytes 16 source) data_write of
                               (False, m2) \<Rightarrow> (memory_fault c1 address, c1\<lparr>mem := m2\<rparr>)
                             | (True, m2) \<Rightarrow> (no_stop, upd_state (put_flag kFlagZF True) (c1\<lparr>mem := m2\<rparr>))
                     else (no_stop, upd_state (\<lambda>s. put_flag kFlagZF False
                             (write_register (write_register s RAX (ucast lhs) 8)
                                RDX (ucast (drop_bit 64 lhs)) 8)) c1))"

definition handle_code_CMPXCHG486_RM8_R8 :: "'w handler" where
  "handle_code_CMPXCHG486_RM8_R8 = cmpxchg486 AL 1"

definition handle_code_CMPXCHG486_RM16_R16 :: "'w handler" where
  "handle_code_CMPXCHG486_RM16_R16 = cmpxchg486 AX 2"

definition handle_code_CMPXCHG486_RM32_R32 :: "'w handler" where
  "handle_code_CMPXCHG486_RM32_R32 = cmpxchg486 EAX 4"

end
