(* ===== verification/Bit_Ops.thy ===== *)
theory Bit_Ops
  imports Alu_Memory
begin

text \<open>
  Bit instructions (\<^verbatim>\<open>handlers/\<close>: \<^verbatim>\<open>bt.cpp\<close>, \<^verbatim>\<open>bts.cpp\<close>, \<^verbatim>\<open>btr.cpp\<close>, \<^verbatim>\<open>btc.cpp\<close>, \<^verbatim>\<open>bsf.cpp\<close>, \<^verbatim>\<open>bsr.cpp\<close>, \<^verbatim>\<open>bswap.cpp\<close>,
  \<^verbatim>\<open>bit_count.cpp\<close>, \<^verbatim>\<open>bmi.cpp\<close>). Loops over bit positions are recursions on the number of positions left;
  \<^verbatim>\<open>std::countr_zero\<close>, \<^verbatim>\<open>std::countl_zero\<close> and \<^verbatim>\<open>std::popcount\<close> of a \<open>bits\<close>-bit value are \<open>countr_zero bits\<close>,
  \<open>countl_zero bits\<close> and \<open>popcount bits\<close>.
\<close>

section \<open>The \<^verbatim>\<open><bit>\<close> header\<close>

definition countr_zero :: "nat \<Rightarrow> u64 \<Rightarrow> nat" where
  "countr_zero bits v = length (takeWhile (\<lambda>i. \<not> bit v i) [0..<bits])"

definition countl_zero :: "nat \<Rightarrow> u64 \<Rightarrow> nat" where
  "countl_zero bits v = length (takeWhile (\<lambda>i. \<not> bit v i) (rev [0..<bits]))"

definition popcount :: "nat \<Rightarrow> u64 \<Rightarrow> nat" where
  "popcount bits v = length (filter (bit v) [0..<bits])"

section \<open>\<^verbatim>\<open>bt.cpp\<close>\<close>

definition read_bit_index_1 :: "u64 \<Rightarrow> nat \<Rightarrow> u64" where
  "read_bit_index_1 value width = value AND (8 * word_of_nat width - 1)"

text \<open>
  The element of a bit string in memory that holds the addressed bit. The source computes in
  \<^verbatim>\<open>std::int64_t\<close>; the sum wraps here.
\<close>

definition bit_element_address :: "'w ctx \<Rightarrow> nat \<Rightarrow> u64 \<Rightarrow> u64" where
  "bit_element_address c width bit_index =
     (let bit_span = 8 * word_of_nat width; shift = countr_zero 64 bit_span;
          elem_index = signed_drop_bit shift bit_index
      in memory_address c + elem_index * word_of_nat width)"

definition bit_offset :: "nat \<Rightarrow> u64 \<Rightarrow> nat" where
  "bit_offset width bit_index = unat (bit_index AND (8 * word_of_nat width - 1))"

text \<open>The value and the position of the addressed bit in it.\<close>

definition read_bt_base_value ::
  "nat \<Rightarrow> u64 \<Rightarrow> 'w ctx \<Rightarrow> (execution_result + u64 \<times> nat) \<times> 'w ctx" where
  "read_bt_base_value width bit_index c =
     (if op_kind (instr c) 0 = MEMORY
      then (case read_memory_checked c (bit_element_address c width bit_index) width of
              (Inl r, c1) \<Rightarrow> (Inl r, c1)
            | (Inr v, c1) \<Rightarrow> (Inr (v, bit_offset width bit_index), c1))
      else (case read_operand c 0 width of
              (None, c1) \<Rightarrow> (Inl (memory_fault c1 (memory_address c1)), c1)
            | (Some v, c1) \<Rightarrow> (Inr (v, bit_offset width bit_index), c1)))"

text \<open>The index operand: an immediate reduced to the width, or a register sign-extended from it.\<close>

definition index_imm8 :: "nat \<Rightarrow> 'w ctx \<Rightarrow> u64" where
  "index_imm8 width c = read_bit_index_1 (ucast (immediate8 (instr c))) width"

definition index_reg :: "nat \<Rightarrow> 'w ctx \<Rightarrow> u64" where
  "index_reg width c =
     (let v = read_register (state c) (op_register (instr c) 1)
      in if width = 8 then v else sign_extend v width)"

definition bit_test :: "nat \<Rightarrow> (nat \<Rightarrow> 'w ctx \<Rightarrow> u64) \<Rightarrow> 'w handler" where
  "bit_test width index c =
     (case read_bt_base_value width (index width c) c of
        (Inl r, c1) \<Rightarrow> (r, c1)
      | (Inr (v, b), c1) \<Rightarrow>
          (no_stop, upd_state (put_flag kFlagCF (drop_bit b v AND 1 \<noteq> 0)) c1))"

definition handle_code_BT_RM16_IMM8 :: "'w handler" where
  "handle_code_BT_RM16_IMM8 = bit_test 2 index_imm8"

definition handle_code_BT_RM16_R16 :: "'w handler" where
  "handle_code_BT_RM16_R16 = bit_test 2 index_reg"

definition handle_code_BT_RM32_IMM8 :: "'w handler" where
  "handle_code_BT_RM32_IMM8 = bit_test 4 index_imm8"

definition handle_code_BT_RM32_R32 :: "'w handler" where
  "handle_code_BT_RM32_R32 = bit_test 4 index_reg"

definition handle_code_BT_RM64_IMM8 :: "'w handler" where
  "handle_code_BT_RM64_IMM8 = bit_test 8 index_imm8"

definition handle_code_BT_RM64_R64 :: "'w handler" where
  "handle_code_BT_RM64_R64 = bit_test 8 index_reg"

section \<open>\<^verbatim>\<open>bts.cpp\<close>, \<^verbatim>\<open>btr.cpp\<close>, \<^verbatim>\<open>btc.cpp\<close>\<close>

text \<open>The three read-modify-write functions differ in the assignment to \<^verbatim>\<open>value\<close>.\<close>

definition bit_rmw :: "(u64 \<Rightarrow> u64 \<Rightarrow> u64) \<Rightarrow> nat \<Rightarrow> (nat \<Rightarrow> 'w ctx \<Rightarrow> u64) \<Rightarrow> 'w handler" where
  "bit_rmw change width index c =
     (let bit_index = index width c; address = bit_element_address c width bit_index
      in case read_bt_base_value width bit_index c of
           (Inl r, c1) \<Rightarrow> (r, c1)
         | (Inr (v, b), c1) \<Rightarrow>
             (let old_bit = (drop_bit b v AND 1 \<noteq> 0); value = change v (push_bit b 1)
              in and_then
                   (if op_kind (instr c1) 0 = MEMORY then write_memory_checked c1 address value width
                    else write_operand_checked c1 0 value width)
                   (\<lambda>c2. (no_stop, upd_state (put_flag kFlagCF old_bit) c2))))"

definition bts_rmw :: "nat \<Rightarrow> (nat \<Rightarrow> 'w ctx \<Rightarrow> u64) \<Rightarrow> 'w handler" where
  "bts_rmw = bit_rmw (\<lambda>v m. v OR m)"

definition btr_rmw :: "nat \<Rightarrow> (nat \<Rightarrow> 'w ctx \<Rightarrow> u64) \<Rightarrow> 'w handler" where
  "btr_rmw = bit_rmw (\<lambda>v m. v AND NOT m)"

definition btc_rmw :: "nat \<Rightarrow> (nat \<Rightarrow> 'w ctx \<Rightarrow> u64) \<Rightarrow> 'w handler" where
  "btc_rmw = bit_rmw (\<lambda>v m. v XOR m)"

definition handle_code_BTS_RM16_IMM8 :: "'w handler" where
  "handle_code_BTS_RM16_IMM8 = bts_rmw 2 index_imm8"

definition handle_code_BTS_RM16_R16 :: "'w handler" where
  "handle_code_BTS_RM16_R16 = bts_rmw 2 index_reg"

definition handle_code_BTS_RM32_IMM8 :: "'w handler" where
  "handle_code_BTS_RM32_IMM8 = bts_rmw 4 index_imm8"

definition handle_code_BTS_RM32_R32 :: "'w handler" where
  "handle_code_BTS_RM32_R32 = bts_rmw 4 index_reg"

definition handle_code_BTS_RM64_IMM8 :: "'w handler" where
  "handle_code_BTS_RM64_IMM8 = bts_rmw 8 index_imm8"

definition handle_code_BTS_RM64_R64 :: "'w handler" where
  "handle_code_BTS_RM64_R64 = bts_rmw 8 index_reg"

definition handle_code_BTR_RM16_IMM8 :: "'w handler" where
  "handle_code_BTR_RM16_IMM8 = btr_rmw 2 index_imm8"

definition handle_code_BTR_RM16_R16 :: "'w handler" where
  "handle_code_BTR_RM16_R16 = btr_rmw 2 index_reg"

definition handle_code_BTR_RM32_IMM8 :: "'w handler" where
  "handle_code_BTR_RM32_IMM8 = btr_rmw 4 index_imm8"

definition handle_code_BTR_RM32_R32 :: "'w handler" where
  "handle_code_BTR_RM32_R32 = btr_rmw 4 index_reg"

definition handle_code_BTR_RM64_IMM8 :: "'w handler" where
  "handle_code_BTR_RM64_IMM8 = btr_rmw 8 index_imm8"

definition handle_code_BTR_RM64_R64 :: "'w handler" where
  "handle_code_BTR_RM64_R64 = btr_rmw 8 index_reg"

definition handle_code_BTC_RM16_IMM8 :: "'w handler" where
  "handle_code_BTC_RM16_IMM8 = btc_rmw 2 index_imm8"

definition handle_code_BTC_RM16_R16 :: "'w handler" where
  "handle_code_BTC_RM16_R16 = btc_rmw 2 index_reg"

definition handle_code_BTC_RM32_IMM8 :: "'w handler" where
  "handle_code_BTC_RM32_IMM8 = btc_rmw 4 index_imm8"

definition handle_code_BTC_RM32_R32 :: "'w handler" where
  "handle_code_BTC_RM32_R32 = btc_rmw 4 index_reg"

definition handle_code_BTC_RM64_IMM8 :: "'w handler" where
  "handle_code_BTC_RM64_IMM8 = btc_rmw 8 index_imm8"

definition handle_code_BTC_RM64_R64 :: "'w handler" where
  "handle_code_BTC_RM64_R64 = btc_rmw 8 index_reg"

section \<open>\<^verbatim>\<open>bsf.cpp\<close>, \<^verbatim>\<open>bsr.cpp\<close>\<close>

text \<open>The \<^verbatim>\<open>for\<close> loops: \<open>bsf_loop v b n\<close> has \<open>n\<close> iterations left and stands at bit \<open>b\<close>; \<open>bsr_loop\<close> stands at its last argument.\<close>

fun bsf_loop :: "u64 \<Rightarrow> nat \<Rightarrow> nat \<Rightarrow> nat" where
  "bsf_loop v b 0 = 0"
| "bsf_loop v b (Suc n) = (if v AND push_bit b 1 \<noteq> 0 then b else bsf_loop v (Suc b) n)"

fun bsr_loop :: "u64 \<Rightarrow> nat \<Rightarrow> nat \<Rightarrow> nat" where
  "bsr_loop v index 0 = index"
| "bsr_loop v index (Suc b) =
     (if v AND push_bit (Suc b) 1 \<noteq> 0 then Suc b
      else if Suc b = 1 then (if v AND 1 \<noteq> 0 then 0 else index)
      else bsr_loop v index b)"

definition bit_scan :: "(u64 \<Rightarrow> nat) \<Rightarrow> nat \<Rightarrow> 'w handler" where
  "bit_scan scan width c =
     (case read_operand_checked c 1 width of
        (Inl r, c1) \<Rightarrow> (r, c1)
      | (Inr v, c1) \<Rightarrow>
          if v = 0 then (no_stop, upd_state (put_flag kFlagZF True) c1)
          else (no_stop, upd_state (\<lambda>s. write_register (put_flag kFlagZF False s)
                  (op_register (instr c1) 0) (word_of_nat (scan v)) width) c1))"

definition handle_code_BSF_R16_RM16 :: "'w handler" where
  "handle_code_BSF_R16_RM16 = bit_scan (\<lambda>v. bsf_loop v 0 16) 2"

definition handle_code_BSF_R32_RM32 :: "'w handler" where
  "handle_code_BSF_R32_RM32 = bit_scan (\<lambda>v. bsf_loop v 0 32) 4"

definition handle_code_BSF_R64_RM64 :: "'w handler" where
  "handle_code_BSF_R64_RM64 = bit_scan (\<lambda>v. bsf_loop v 0 64) 8"

definition handle_code_BSR_R16_RM16 :: "'w handler" where
  "handle_code_BSR_R16_RM16 = bit_scan (\<lambda>v. bsr_loop v 15 15) 2"

definition handle_code_BSR_R32_RM32 :: "'w handler" where
  "handle_code_BSR_R32_RM32 = bit_scan (\<lambda>v. bsr_loop v 31 31) 4"

definition handle_code_BSR_R64_RM64 :: "'w handler" where
  "handle_code_BSR_R64_RM64 = bit_scan (\<lambda>v. bsr_loop v 63 63) 8"

section \<open>\<^verbatim>\<open>bswap.cpp\<close>\<close>

definition bswap_reg :: "(u64 \<Rightarrow> u64) \<Rightarrow> nat \<Rightarrow> 'w handler" where
  "bswap_reg f width c =
     (no_stop, upd_state (\<lambda>s. write_register s (op_register (instr c) 0) (f (register_0 c)) width) c)"

definition handle_code_BSWAP_R16 :: "'w handler" where
  "handle_code_BSWAP_R16 = bswap_reg (\<lambda>value.
     push_bit 8 (value AND 0x00FF) OR (drop_bit 8 value AND 0x00FF)) 2"

definition handle_code_BSWAP_R32 :: "'w handler" where
  "handle_code_BSWAP_R32 = bswap_reg (\<lambda>value.
     push_bit 24 (value AND 0xFF) OR push_bit 8 (value AND 0xFF00)
     OR drop_bit 8 (value AND 0xFF0000) OR drop_bit 24 (value AND 0xFF000000)) 4"

definition handle_code_BSWAP_R64 :: "'w handler" where
  "handle_code_BSWAP_R64 = bswap_reg (\<lambda>value.
     push_bit 56 (value AND 0x00000000000000FF) OR push_bit 40 (value AND 0x000000000000FF00)
     OR push_bit 24 (value AND 0x0000000000FF0000) OR push_bit 8 (value AND 0x00000000FF000000)
     OR drop_bit 8 (value AND 0x000000FF00000000) OR drop_bit 24 (value AND 0x0000FF0000000000)
     OR drop_bit 40 (value AND 0x00FF000000000000) OR drop_bit 56 (value AND 0xFF00000000000000)) 8"

section \<open>\<^verbatim>\<open>bit_count.cpp\<close>\<close>

definition clear_count_flags :: "cpu_state \<Rightarrow> cpu_state" where
  "clear_count_flags =
     put_flags [(kFlagCF, False), (kFlagOF, False), (kFlagSF, False), (kFlagAF, False), (kFlagPF, False)]"

text \<open>
  The 16- and 32-bit templates convert the operand to the type \<^verbatim>\<open>T\<close> of the width first; in the 64-bit
  handlers the conversion is the identity.
\<close>

definition count_bits :: "(u64 \<Rightarrow> nat) \<Rightarrow> (u64 \<Rightarrow> nat \<Rightarrow> (u64 \<times> bool) list) \<Rightarrow> nat \<Rightarrow> 'w handler" where
  "count_bits counter flags width c =
     (case read_operand_checked c 1 width of
        (Inl r, c1) \<Rightarrow> (r, c1)
      | (Inr value, c1) \<Rightarrow>
          (let v = truncate_to value width; count = counter v
           in (no_stop, upd_state (\<lambda>s. put_flags (flags v count) (clear_count_flags
                 (write_register s (op_register (instr c1) 0) (word_of_nat count) width))) c1)))"

definition popcnt_narrow :: "nat \<Rightarrow> 'w handler" where
  "popcnt_narrow width = count_bits (popcount (8 * width)) (\<lambda>v count. [(kFlagZF, v = 0)]) width"

definition tzcnt_narrow :: "nat \<Rightarrow> 'w handler" where
  "tzcnt_narrow width =
     count_bits (countr_zero (8 * width)) (\<lambda>v count. [(kFlagCF, v = 0), (kFlagZF, count = 0)]) width"

definition lzcnt_narrow :: "nat \<Rightarrow> 'w handler" where
  "lzcnt_narrow width =
     count_bits (countl_zero (8 * width)) (\<lambda>v count. [(kFlagCF, v = 0), (kFlagZF, count = 0)]) width"

definition handle_code_POPCNT_R16_RM16 :: "'w handler" where
  "handle_code_POPCNT_R16_RM16 = popcnt_narrow 2"

definition handle_code_POPCNT_R32_RM32 :: "'w handler" where
  "handle_code_POPCNT_R32_RM32 = popcnt_narrow 4"

definition handle_code_TZCNT_R16_RM16 :: "'w handler" where
  "handle_code_TZCNT_R16_RM16 = tzcnt_narrow 2"

definition handle_code_TZCNT_R32_RM32 :: "'w handler" where
  "handle_code_TZCNT_R32_RM32 = tzcnt_narrow 4"

definition handle_code_LZCNT_R16_RM16 :: "'w handler" where
  "handle_code_LZCNT_R16_RM16 = lzcnt_narrow 2"

definition handle_code_LZCNT_R32_RM32 :: "'w handler" where
  "handle_code_LZCNT_R32_RM32 = lzcnt_narrow 4"

definition handle_code_POPCNT_R64_RM64 :: "'w handler" where
  "handle_code_POPCNT_R64_RM64 = popcnt_narrow 8"

definition handle_code_TZCNT_R64_RM64 :: "'w handler" where
  "handle_code_TZCNT_R64_RM64 = tzcnt_narrow 8"

definition handle_code_LZCNT_R64_RM64 :: "'w handler" where
  "handle_code_LZCNT_R64_RM64 = lzcnt_narrow 8"

fun crc32_dest_register :: "register \<Rightarrow> nat \<Rightarrow> register" where
  "crc32_dest_register (L8 g) width = (if width = 8 then Q64 g else D32 g)"
| "crc32_dest_register (W16 g) width = (if width = 8 then Q64 g else D32 g)"
| "crc32_dest_register (D32 g) width = (if width = 8 then Q64 g else D32 g)"
| "crc32_dest_register (Q64 g) width = (if width = 8 then Q64 g else D32 g)"
| "crc32_dest_register reg width = reg"

definition crc32c_shift :: "u32 \<Rightarrow> u32" where
  "crc32c_shift crc = drop_bit 1 crc XOR (if crc AND 1 \<noteq> 0 then 0x82F63B78 else 0)"

definition crc32c_update :: "u32 \<Rightarrow> u64 \<Rightarrow> nat \<Rightarrow> u32" where
  "crc32c_update crc value width =
     fold (\<lambda>i crc. fold (\<lambda>b. crc32c_shift) [0..<8]
             (crc XOR ucast (ucast (drop_bit (i * 8) value AND 0xFF) :: u8))) [0..<width] crc"

definition crc32_impl :: "'w handler" where
  "crc32_impl c =
     (let width = operand_width (instr c) 1;
          dest_width = (if code (instr c) = ''CRC32_R64_RM8'' \<or> code (instr c) = ''CRC32_R64_RM64'' then 8 else 4);
          dest_reg = crc32_dest_register (op_register (instr c) 0) dest_width
      in with_operand 1 width (\<lambda>src c1.
           let seed = ucast (read_register (state c1) dest_reg); crc = crc32c_update seed src width
           in (no_stop, upd_state (\<lambda>s. write_register s dest_reg (ucast crc) 0) c1)) c)"

definition handle_code_CRC32_R32_RM8 :: "'w handler" where
  "handle_code_CRC32_R32_RM8 = crc32_impl"

definition handle_code_CRC32_R64_RM8 :: "'w handler" where
  "handle_code_CRC32_R64_RM8 = crc32_impl"

definition handle_code_CRC32_R32_RM16 :: "'w handler" where
  "handle_code_CRC32_R32_RM16 = crc32_impl"

definition handle_code_CRC32_R32_RM32 :: "'w handler" where
  "handle_code_CRC32_R32_RM32 = crc32_impl"

definition handle_code_CRC32_R64_RM64 :: "'w handler" where
  "handle_code_CRC32_R64_RM64 = crc32_impl"

section \<open>\<^verbatim>\<open>bmi.cpp\<close>\<close>

definition width_mask_bmi :: "nat \<Rightarrow> u64" where
  "width_mask_bmi sz = (if sz \<ge> 8 then NOT 0 else push_bit (sz * 8) 1 - 1)"

definition bextr :: "u64 \<Rightarrow> u64 \<Rightarrow> nat \<Rightarrow> u64" where
  "bextr source control sz =
     (let bits = sz * 8; start = unat (control AND 0xFF); len = unat (drop_bit 8 control AND 0xFF)
      in if start \<ge> bits then 0
         else let extract_len = (if start + len \<ge> bits then bits - start else len)
              in fold (\<lambda>i result. if drop_bit (start + i) source AND 1 \<noteq> 0 then result OR push_bit i 1 else result)
                   [0..<extract_len] 0)"

text \<open>One iteration of the loops of \<^verbatim>\<open>pext\<close> and \<^verbatim>\<open>pdep\<close>: the result and the next destination or source bit.\<close>

definition pext_step :: "u64 \<Rightarrow> u64 \<Rightarrow> nat \<Rightarrow> u64 \<times> nat \<Rightarrow> u64 \<times> nat" where
  "pext_step source msk i st =
     (case st of (result, destination_bit) \<Rightarrow>
        if drop_bit i msk AND 1 \<noteq> 0
        then (if drop_bit i source AND 1 \<noteq> 0 then result OR push_bit destination_bit 1 else result,
              destination_bit + 1)
        else (result, destination_bit))"

definition pext :: "u64 \<Rightarrow> u64 \<Rightarrow> nat \<Rightarrow> u64" where
  "pext source msk sz = fst (fold (pext_step source msk) [0..<sz * 8] (0, 0))"

definition pdep_step :: "u64 \<Rightarrow> u64 \<Rightarrow> nat \<Rightarrow> u64 \<times> nat \<Rightarrow> u64 \<times> nat" where
  "pdep_step source msk i st =
     (case st of (result, source_bit) \<Rightarrow>
        if drop_bit i msk AND 1 \<noteq> 0
        then (if drop_bit source_bit source AND 1 \<noteq> 0 then result OR push_bit i 1 else result, source_bit + 1)
        else (result, source_bit))"

definition pdep :: "u64 \<Rightarrow> u64 \<Rightarrow> nat \<Rightarrow> u64" where
  "pdep source msk sz = fst (fold (pdep_step source msk) [0..<sz * 8] (0, 0))"

definition mulx_high :: "u64 \<Rightarrow> u64 \<Rightarrow> nat \<Rightarrow> u64" where
  "mulx_high lhs rhs sz =
     (if sz = 4 then drop_bit 32 (lhs * rhs)
      else ucast (drop_bit 64 (ucast lhs * ucast rhs :: u128)))"

definition mulx_low :: "u64 \<Rightarrow> u64 \<Rightarrow> nat \<Rightarrow> u64" where
  "mulx_low lhs rhs sz =
     (if sz = 4 then (lhs * rhs) AND 0xFFFFFFFF
      else ucast ((ucast lhs * ucast rhs :: u128) AND 0xFFFFFFFFFFFFFFFF))"

definition shift_amount_bmi :: "nat \<Rightarrow> u64 \<Rightarrow> nat" where
  "shift_amount_bmi sz value = unat (value AND (word_of_nat (sz * 8) - 1))"

definition rotate_right_bmi :: "u64 \<Rightarrow> u64 \<Rightarrow> nat \<Rightarrow> u64" where
  "rotate_right_bmi value count sz =
     (let bits = sz * 8; masked_count = unat (count AND (word_of_nat bits - 1))
      in if masked_count = 0 then value
         else drop_bit masked_count value OR push_bit (bits - masked_count) value)"

definition arithmetic_shift_right :: "u64 \<Rightarrow> u64 \<Rightarrow> nat \<Rightarrow> u64" where
  "arithmetic_shift_right value count sz =
     (let masked_count = shift_amount_bmi sz count
      in if masked_count = 0 then value
         else signed_drop_bit masked_count (sign_extend value sz) AND width_mask_bmi sz)"

definition shift_left_bmi :: "u64 \<Rightarrow> u64 \<Rightarrow> nat \<Rightarrow> u64" where
  "shift_left_bmi value count sz = push_bit (shift_amount_bmi sz count) value AND width_mask_bmi sz"

definition shift_right_bmi :: "u64 \<Rightarrow> u64 \<Rightarrow> nat \<Rightarrow> u64" where
  "shift_right_bmi value count sz = drop_bit (shift_amount_bmi sz count) value AND width_mask_bmi sz"

text \<open>The statements that end a handler: set the flags, then write operand 0.\<close>

definition store_with_flags :: "nat \<Rightarrow> u64 \<Rightarrow> (u64 \<times> bool) list \<Rightarrow> 'w handler" where
  "store_with_flags sz result flags c = write_operand_checked (upd_state (put_flags flags) c) 0 result sz"

definition handle_code_blsi :: "nat \<Rightarrow> 'w handler" where
  "handle_code_blsi sz = with_operand 1 sz (\<lambda>src.
     let result = src AND (NOT src + 1)
     in store_with_flags sz result
          [(kFlagSF, result AND push_bit (sz * 8 - 1) 1 \<noteq> 0), (kFlagZF, result = 0), (kFlagCF, src \<noteq> 0),
           (kFlagOF, False), (kFlagAF, False), (kFlagPF, False)])"

definition handle_code_blsr :: "nat \<Rightarrow> 'w handler" where
  "handle_code_blsr sz = with_operand 1 sz (\<lambda>src.
     let result = src AND (src - 1)
     in store_with_flags sz result
          [(kFlagSF, result AND push_bit (sz * 8 - 1) 1 \<noteq> 0), (kFlagZF, result = 0), (kFlagCF, src = 0),
           (kFlagOF, False), (kFlagAF, False), (kFlagPF, False)])"

definition handle_code_blsmsk :: "nat \<Rightarrow> 'w handler" where
  "handle_code_blsmsk sz = with_operand 1 sz (\<lambda>src.
     let result = src XOR (src - 1)
     in store_with_flags sz result
          [(kFlagSF, result AND push_bit (sz * 8 - 1) 1 \<noteq> 0), (kFlagZF, False), (kFlagCF, src = 0),
           (kFlagOF, False), (kFlagAF, False), (kFlagPF, False)])"

definition handle_code_andn :: "nat \<Rightarrow> 'w handler" where
  "handle_code_andn sz = with_operand 1 sz (\<lambda>src1. with_operand 2 sz (\<lambda>src2 c.
     let result = NOT src1 AND src2
     in write_operand_checked (upd_state (\<lambda>s. set_logic_flags s result sz) c) 0 result sz))"

definition handle_code_bzhi :: "nat \<Rightarrow> 'w handler" where
  "handle_code_bzhi sz = with_operand 1 sz (\<lambda>src. with_operand 2 sz (\<lambda>raw_index.
     let bits = sz * 8; index = unat (raw_index AND 0xFF);
         result = (if index = 0 then 0 else if index < bits then src AND (push_bit index 1 - 1) else src)
     in store_with_flags sz result
          [(kFlagSF, result AND push_bit (bits - 1) 1 \<noteq> 0), (kFlagZF, result = 0), (kFlagCF, index \<ge> bits),
           (kFlagOF, False), (kFlagAF, False), (kFlagPF, False)]))"

definition handle_code_bextr :: "nat \<Rightarrow> 'w handler" where
  "handle_code_bextr sz = with_operand 1 sz (\<lambda>src. with_operand 2 sz (\<lambda>control.
     let result = bextr src control sz
     in store_with_flags sz result
          [(kFlagZF, result = 0), (kFlagCF, False), (kFlagOF, False), (kFlagSF, False), (kFlagAF, False),
           (kFlagPF, False)]))"

definition handle_code_mulx :: "nat \<Rightarrow> 'w handler" where
  "handle_code_mulx sz = with_operand 2 sz (\<lambda>src2 c.
     let src1 = read_register (state c) (if sz = 4 then EDX else RDX);
         lo = mulx_low src1 src2 sz; hi = mulx_high src1 src2 sz
     in and_then (write_operand_checked c 1 lo sz) (\<lambda>c1. write_operand_checked c1 0 hi sz))"

text \<open>\<^verbatim>\<open>PDEP\<close>, \<^verbatim>\<open>PEXT\<close> and the shifts that leave the flags alone.\<close>

definition bmi_binary :: "(u64 \<Rightarrow> u64 \<Rightarrow> nat \<Rightarrow> u64) \<Rightarrow> nat \<Rightarrow> 'w handler" where
  "bmi_binary f sz = with_operand 1 sz (\<lambda>src. with_operand 2 sz (\<lambda>src2 c.
     write_operand_checked c 0 (f src src2 sz) sz))"

definition handle_code_pdep :: "nat \<Rightarrow> 'w handler" where
  "handle_code_pdep = bmi_binary pdep"

definition handle_code_pext :: "nat \<Rightarrow> 'w handler" where
  "handle_code_pext = bmi_binary pext"

definition handle_code_rorx :: "nat \<Rightarrow> 'w handler" where
  "handle_code_rorx sz = with_operand 1 sz (\<lambda>src c.
     write_operand_checked c 0 (rotate_right_bmi src (ucast (immediate8 (instr c))) sz) sz)"

definition handle_code_sarx :: "nat \<Rightarrow> 'w handler" where
  "handle_code_sarx = bmi_binary arithmetic_shift_right"

definition handle_code_shlx :: "nat \<Rightarrow> 'w handler" where
  "handle_code_shlx = bmi_binary shift_left_bmi"

definition handle_code_shrx :: "nat \<Rightarrow> 'w handler" where
  "handle_code_shrx = bmi_binary shift_right_bmi"

definition handle_code_VEX_BEXTR_R32_RM32_R32 :: "'w handler" where
  "handle_code_VEX_BEXTR_R32_RM32_R32 = handle_code_bextr 4"

definition handle_code_VEX_BEXTR_R64_RM64_R64 :: "'w handler" where
  "handle_code_VEX_BEXTR_R64_RM64_R64 = handle_code_bextr 8"

definition handle_code_VEX_BLSI_R32_RM32 :: "'w handler" where
  "handle_code_VEX_BLSI_R32_RM32 = handle_code_blsi 4"

definition handle_code_VEX_BLSI_R64_RM64 :: "'w handler" where
  "handle_code_VEX_BLSI_R64_RM64 = handle_code_blsi 8"

definition handle_code_VEX_ANDN_R32_R32_RM32 :: "'w handler" where
  "handle_code_VEX_ANDN_R32_R32_RM32 = handle_code_andn 4"

definition handle_code_VEX_ANDN_R64_R64_RM64 :: "'w handler" where
  "handle_code_VEX_ANDN_R64_R64_RM64 = handle_code_andn 8"

definition handle_code_VEX_BLSMSK_R32_RM32 :: "'w handler" where
  "handle_code_VEX_BLSMSK_R32_RM32 = handle_code_blsmsk 4"

definition handle_code_VEX_BLSMSK_R64_RM64 :: "'w handler" where
  "handle_code_VEX_BLSMSK_R64_RM64 = handle_code_blsmsk 8"

definition handle_code_VEX_BLSR_R32_RM32 :: "'w handler" where
  "handle_code_VEX_BLSR_R32_RM32 = handle_code_blsr 4"

definition handle_code_VEX_BLSR_R64_RM64 :: "'w handler" where
  "handle_code_VEX_BLSR_R64_RM64 = handle_code_blsr 8"

definition handle_code_VEX_BZHI_R32_RM32_R32 :: "'w handler" where
  "handle_code_VEX_BZHI_R32_RM32_R32 = handle_code_bzhi 4"

definition handle_code_VEX_BZHI_R64_RM64_R64 :: "'w handler" where
  "handle_code_VEX_BZHI_R64_RM64_R64 = handle_code_bzhi 8"

definition handle_code_VEX_MULX_R32_R32_RM32 :: "'w handler" where
  "handle_code_VEX_MULX_R32_R32_RM32 = handle_code_mulx 4"

definition handle_code_VEX_MULX_R64_R64_RM64 :: "'w handler" where
  "handle_code_VEX_MULX_R64_R64_RM64 = handle_code_mulx 8"

definition handle_code_VEX_PDEP_R32_R32_RM32 :: "'w handler" where
  "handle_code_VEX_PDEP_R32_R32_RM32 = handle_code_pdep 4"

definition handle_code_VEX_PDEP_R64_R64_RM64 :: "'w handler" where
  "handle_code_VEX_PDEP_R64_R64_RM64 = handle_code_pdep 8"

definition handle_code_VEX_PEXT_R32_R32_RM32 :: "'w handler" where
  "handle_code_VEX_PEXT_R32_R32_RM32 = handle_code_pext 4"

definition handle_code_VEX_PEXT_R64_R64_RM64 :: "'w handler" where
  "handle_code_VEX_PEXT_R64_R64_RM64 = handle_code_pext 8"

definition handle_code_VEX_RORX_R32_RM32_IMM8 :: "'w handler" where
  "handle_code_VEX_RORX_R32_RM32_IMM8 = handle_code_rorx 4"

definition handle_code_VEX_RORX_R64_RM64_IMM8 :: "'w handler" where
  "handle_code_VEX_RORX_R64_RM64_IMM8 = handle_code_rorx 8"

definition handle_code_VEX_SARX_R32_RM32_R32 :: "'w handler" where
  "handle_code_VEX_SARX_R32_RM32_R32 = handle_code_sarx 4"

definition handle_code_VEX_SARX_R64_RM64_R64 :: "'w handler" where
  "handle_code_VEX_SARX_R64_RM64_R64 = handle_code_sarx 8"

definition handle_code_VEX_SHLX_R32_RM32_R32 :: "'w handler" where
  "handle_code_VEX_SHLX_R32_RM32_R32 = handle_code_shlx 4"

definition handle_code_VEX_SHLX_R64_RM64_R64 :: "'w handler" where
  "handle_code_VEX_SHLX_R64_RM64_R64 = handle_code_shlx 8"

definition handle_code_VEX_SHRX_R32_RM32_R32 :: "'w handler" where
  "handle_code_VEX_SHRX_R32_RM32_R32 = handle_code_shrx 4"

definition handle_code_VEX_SHRX_R64_RM64_R64 :: "'w handler" where
  "handle_code_VEX_SHRX_R64_RM64_R64 = handle_code_shrx 8"

end
