(* ===== verification/Bit_Facts.thy ===== *)
theory Bit_Facts
  imports Bit_Ops Shift_Facts
begin

text \<open>
  The bit instructions against bit positions: BT, BTS, BTR and BTC on registers and on bit strings in memory,
  the scans and counts, parallel extract and deposit.
\<close>

section \<open>Bit strings\<close>

datatype bit_op = B_BT | B_BTS | B_BTR | B_BTC

fun bit_changed :: "bit_op \<Rightarrow> nat \<Rightarrow> u64 \<Rightarrow> u64" where
  "bit_changed B_BT p x = x"
| "bit_changed B_BTS p x = set_bit p x"
| "bit_changed B_BTR p x = unset_bit p x"
| "bit_changed B_BTC p x = flip_bit p x"

text \<open>Bit \<open>k\<close> of a bit string, for a signed \<open>k\<close>: the element of \<open>w\<close> bytes that holds it, and its position there.\<close>

definition element_of :: "nat \<Rightarrow> u64 \<Rightarrow> int" where
  "element_of w k = sint k div int (8 * w)"

definition position_of :: "nat \<Rightarrow> u64 \<Rightarrow> nat" where
  "position_of w k = nat (sint k mod int (8 * w))"

definition element_address :: "'w ctx \<Rightarrow> nat \<Rightarrow> u64 \<Rightarrow> u64" where
  "element_address c w k = memory_address c + word_of_int (element_of w k * int w)"

lemma position_of_less: "valid_width w \<Longrightarrow> position_of w k < 8 * w"
  by (auto simp: position_of_def valid_width_def nat_less_iff)

lemma unat_and_mask:
  fixes k :: u64
  assumes "n \<le> 63"
  shows "unat (k AND (2 ^ n - 1)) = nat (sint k mod 2 ^ n)"
proof -
  have "uint (k AND mask n) = take_bit n (sint k)"
    using assms by (simp add: take_bit_eq_mask [symmetric] unsigned_take_bit_eq sint_uint take_bit_signed_take_bit)
  then have "nat (uint (k AND mask n)) = nat (sint k mod 2 ^ n)" by (simp only: take_bit_eq_mod)
  then show ?thesis by (simp only: nat_uint_eq mask_eq_exp_minus_1)
qed

lemma span_exp:
  assumes "valid_width w"
  obtains n where "n \<le> 63" "8 * word_of_nat w = (2 ^ n :: u64)" "int (8 * w) = 2 ^ n"
proof -
  obtain n :: nat where n: "n \<le> 63" "8 * w = 2 ^ n"
  proof (rule valid_widthE [OF assms])
    show thesis if "\<And>n. n \<le> 63 \<Longrightarrow> 8 * w = 2 ^ n \<Longrightarrow> thesis" "w = 1" using that(1) [of 3] that(2) by simp
    show thesis if "\<And>n. n \<le> 63 \<Longrightarrow> 8 * w = 2 ^ n \<Longrightarrow> thesis" "w = 2" using that(1) [of 4] that(2) by simp
    show thesis if "\<And>n. n \<le> 63 \<Longrightarrow> 8 * w = 2 ^ n \<Longrightarrow> thesis" "w = 4" using that(1) [of 5] that(2) by simp
    show thesis if "\<And>n. n \<le> 63 \<Longrightarrow> 8 * w = 2 ^ n \<Longrightarrow> thesis" "w = 8" using that(1) [of 6] that(2) by simp
  qed
  have "8 * word_of_nat w = (word_of_nat (8 * w) :: u64)" "int (8 * w) = int (2 ^ n)"
    by (simp, simp only: n(2))
  then show thesis using that [of n] n by simp
qed

lemma bit_offset_eq: "valid_width w \<Longrightarrow> bit_offset w k = position_of w k"
  unfolding bit_offset_def position_of_def by (erule span_exp) (simp only: unat_and_mask)

lemma countr_zero_eq:
  assumes "bit v k" "\<forall>i<k. \<not> bit v i" "k < n"
  shows "countr_zero n v = k"
proof -
  have "[0..<n] = [0..<k] @ k # [Suc k..<n]"
    using assms(3) by (metis le_add_same_cancel1 less_imp_add_positive upt_add_eq_append upt_conv_Cons zero_le)
  moreover have "takeWhile (\<lambda>i. \<not> bit v i) ([0..<k] @ k # [Suc k..<n]) = [0..<k]"
    using assms(1,2) by (subst takeWhile_append2) auto
  ultimately show ?thesis by (simp add: countr_zero_def)
qed

lemma bit_element_address_eq:
  assumes "valid_width w"
  shows "bit_element_address c w k = element_address c w k"
proof -
  obtain n where n: "n \<le> 63" "8 * word_of_nat w = (2 ^ n :: u64)" "int (8 * w) = 2 ^ n" using span_exp [OF assms] .
  have "countr_zero 64 (2 ^ n) = n" using n(1) by (intro countr_zero_eq) (auto simp: bit_exp_iff)
  moreover have "element_of w k = sint (signed_drop_bit n k)"
    unfolding element_of_def n(3) by (simp only: sint_signed_drop_bit_eq drop_bit_eq_div)
  ultimately show ?thesis by (simp add: bit_element_address_def element_address_def n(2))
qed

section \<open>BT, BTS, BTR, BTC\<close>

text \<open>Only the carry flag changes.\<close>

definition carry_only :: "bool \<Rightarrow> cpu_state \<Rightarrow> cpu_state \<Rightarrow> bool" where
  "carry_only b s s' \<longleftrightarrow> (\<exists>f. s' = s\<lparr>rflags := f\<rparr> \<and> (\<forall>j. bit f j = (if j = 0 then b else bit (rflags s) j)))"

lemma carry_only_put: "carry_only b s (put_flag kFlagCF b s)"
  by (auto simp: carry_only_def put_flag_def)

definition bit_memory_effect ::
  "bit_op \<Rightarrow> nat \<Rightarrow> u64 \<Rightarrow> nat \<Rightarrow> 'w ctx \<Rightarrow> execution_result \<times> 'w ctx \<Rightarrow> bool" where
  "bit_memory_effect op w a p c r \<longleftrightarrow>
     (case fst (ctx_read c a w) of
        None \<Rightarrow> fst r = memory_fault c a \<and> state (snd r) = state c
      | Some x \<Rightarrow>
          if op \<noteq> B_BT \<and> \<not> may_write c a w then fst r = memory_fault c a \<and> state (snd r) = state c
          else fst r = no_stop \<and> carry_only (bit x p) (state c) (state (snd r)) \<and>
               fst (ctx_read (snd r) a w) = Some (bit_changed op p x))"

definition bit_memory_promise :: "'w handler \<times> bit_op \<times> nat \<times> (nat \<Rightarrow> 'w ctx \<Rightarrow> u64) \<Rightarrow> bool" where
  "bit_memory_promise e = (case e of (h, op, w, index) \<Rightarrow>
     \<forall>c. plain (mem c) \<and> op_kind (instr c) 0 = MEMORY \<longrightarrow>
       bit_memory_effect op w (element_address c w (index w c)) (position_of w (index w c)) c (h c))"

definition bit_register_promise :: "'w handler \<times> bit_op \<times> nat \<times> (nat \<Rightarrow> 'w ctx \<Rightarrow> u64) \<Rightarrow> bool" where
  "bit_register_promise e = (case e of (h, op, w, index) \<Rightarrow>
     \<forall>c r. wf_cpu (state c) \<and> op_kind (instr c) 0 = REGISTER \<and> op_register (instr c) 0 = r \<and>
         reg_part r = Some (0, 8 * w) \<longrightarrow>
       (let x = read_register (state c) r; p = position_of w (index w c)
        in \<exists>s'. h c = (no_stop, c\<lparr>state := s'\<rparr>) \<and> read_register s' r = bit_changed op p x \<and>
             (\<exists>s1. carry_only (bit x p) s1 s' \<and>
                (if op = B_BT then s1 = state c else s1 = write_register (state c) r (bit_changed op p x) 0))))"

lemma bit_changed_range:
  assumes "take_bit n x = x" "p < n"
  shows "take_bit n (bit_changed op p x) = bit_changed op p x"
proof (rule bit_word_eqI)
  fix i
  have "bit x i \<Longrightarrow> i < n" using assms(1) by (metis bit_take_bit_iff)
  then show "bit (take_bit n (bit_changed op p x)) i = bit (bit_changed op p x) i"
    using assms(2) by (cases op)
      (auto simp: bit_take_bit_iff bit_set_bit_iff bit_unset_bit_iff bit_flip_bit_iff)
qed

lemma drop_bit_and_one_ne: "drop_bit k v AND 1 \<noteq> 0 \<longleftrightarrow> bit v k" for v :: u64
  by (simp only: drop_bit_and_one not_not)

lemma bit_test_memory:
  assumes w: "valid_width w"
  shows "bit_memory_promise (bit_test w index, B_BT, w, index)"
  unfolding bit_memory_promise_def prod.case
proof (intro allI impI)
  fix c :: "'a ctx" assume c: "plain (mem c) \<and> op_kind (instr c) 0 = MEMORY"
  let ?a = "element_address c w (index w c)"
  obtain m where m: "read_memory_checked c ?a w =
      (case fst (ctx_read c ?a w) of None \<Rightarrow> Inl (memory_fault c ?a) | Some v \<Rightarrow> Inr v, c\<lparr>mem := m\<rparr>)"
    "plain m" "tlb_variant (mem c) m" using read_memory_checked_plain [of c w ?a] c w by blast
  have rd: "fst (ctx_read (c\<lparr>mem := m\<rparr>) ?a w) = fst (ctx_read c ?a w)"
    using ctx_read_frame [of c w "c\<lparr>mem := m\<rparr>" ?a] m c w by (simp add: tlb_variant_fields)
  show "bit_memory_effect B_BT w ?a (position_of w (index w c)) c (bit_test w index c)"
    using c rd carry_only_put [of _ "state c"]
    by (auto simp: bit_memory_effect_def bit_test_def read_bt_base_value_def bit_element_address_eq [OF w] m(1) Let_def
        bit_offset_eq [OF w] drop_bit_and_one_ne split: option.split)
qed

lemma bit_rmw_memory:
  assumes w: "valid_width w" and op: "op \<noteq> B_BT"
    and change: "\<And>x p. change x (2 ^ p) = bit_changed op p x"
  shows "bit_memory_promise (bit_rmw change w index, op, w, index)"
  unfolding bit_memory_promise_def prod.case
proof (intro allI impI)
  fix c :: "'a ctx" assume c: "plain (mem c) \<and> op_kind (instr c) 0 = MEMORY"
  let ?k = "index w c" let ?a = "element_address c w ?k" and ?p = "position_of w ?k"
  obtain m where m: "read_memory_checked c ?a w =
      (case fst (ctx_read c ?a w) of None \<Rightarrow> Inl (memory_fault c ?a) | Some v \<Rightarrow> Inr v, c\<lparr>mem := m\<rparr>)"
    "plain m" "tlb_variant (mem c) m" using read_memory_checked_plain [of c w ?a] c w by blast
  have mw: "may_write (c\<lparr>mem := m\<rparr>) a w = may_write c a w" for a
    using m(3) by (simp add: may_write_def tlb_variant_fields)
  show "bit_memory_effect op w ?a ?p c (bit_rmw change w index c)"
  proof (cases "fst (ctx_read c ?a w)")
    case None
    then show ?thesis using c
      by (simp add: bit_memory_effect_def bit_rmw_def read_bt_base_value_def bit_element_address_eq [OF w] m(1) Let_def)
  next
    case (Some x)
    have rng: "take_bit (8 * w) (bit_changed op ?p x) = bit_changed op ?p x"
      using cm.load_range [OF _ w Some] c position_of_less [OF w] by (simp add: bit_changed_range)
    obtain m' where m': "write_memory_checked (c\<lparr>mem := m\<rparr>) ?a (bit_changed op ?p x) w =
        (if may_write c ?a w then no_stop else memory_fault c ?a, c\<lparr>mem := m'\<rparr>)"
      "may_write c ?a w \<Longrightarrow> fst (ctx_read (c\<lparr>mem := m'\<rparr>) ?a w) = Some (bit_changed op ?p x)"
      using write_memory_checked_plain [of "c\<lparr>mem := m\<rparr>" w ?a "bit_changed op ?p x"] m(2) w rng by (auto simp: mw)
    show ?thesis
      using c Some op m' carry_only_put [of _ "state c"]
      by (simp add: bit_memory_effect_def bit_rmw_def read_bt_base_value_def bit_element_address_eq [OF w] m(1) Let_def
          bit_offset_eq [OF w] drop_bit_and_one_ne change and_then_def)
  qed
qed

lemma carry_only_read [simp]: "carry_only b s s' \<Longrightarrow> read_register s' r = read_register s r"
  by (auto simp: carry_only_def)

lemma bit_test_register: "valid_width w \<Longrightarrow> bit_register_promise (bit_test w index, B_BT, w, index)"
  by (auto simp: bit_register_promise_def bit_test_def read_bt_base_value_def read_operand_def Let_def
      bit_offset_eq drop_bit_and_one_ne carry_only_put carry_only_read [OF carry_only_put])

lemma bit_rmw_register:
  assumes w: "valid_width w" and op: "op \<noteq> B_BT"
    and change: "\<And>x p. change x (2 ^ p) = bit_changed op p x"
  shows "bit_register_promise (bit_rmw change w index, op, w, index)"
  unfolding bit_register_promise_def prod.case
proof (intro allI impI)
  fix c :: "'a ctx" and r
  assume c: "wf_cpu (state c) \<and> op_kind (instr c) 0 = REGISTER \<and> op_register (instr c) 0 = r \<and>
    reg_part r = Some (0, 8 * w)"
  let ?x = "read_register (state c) r" and ?p = "position_of w (index w c)"
  have "take_bit (8 * w) ?x = ?x"
    using c by (intro bit_word_eqI) (auto simp: reg_part_gpr read_gpr_bits bit_take_bit_iff)
  then have rng: "take_bit (8 * w) (bit_changed op ?p ?x) = bit_changed op ?p ?x"
    using position_of_less [OF w] by (simp add: bit_changed_range)
  then have rd: "read_register (write_register (state c) r (bit_changed op ?p ?x) 0) r = bit_changed op ?p ?x"
    using c read_write_register [of "state c" r 0 "8 * w"] by simp
  have h: "bit_rmw change w index c = (no_stop, c\<lparr>state := put_flag kFlagCF (bit ?x ?p)
      (write_register (state c) r (bit_changed op ?p ?x) 0)\<rparr>)"
    using c rng by (simp add: bit_rmw_def read_bt_base_value_def read_operand_def Let_def bit_offset_eq [OF w]
        drop_bit_and_one_ne change write_operand_checked_def write_operand_def and_then_def truncate_to_def
        and_mask_for_width)
  show "let x = ?x; p = ?p
    in \<exists>s'. bit_rmw change w index c = (no_stop, c\<lparr>state := s'\<rparr>) \<and> read_register s' r = bit_changed op p x \<and>
         (\<exists>s1. carry_only (bit x p) s1 s' \<and>
            (if op = B_BT then s1 = state c else s1 = write_register (state c) r (bit_changed op p x) 0))"
    using rd op by (simp add: h Let_def carry_only_put carry_only_read [OF carry_only_put])
qed

lemmas bit_promises =
  bit_test_memory bit_test_register
  bit_rmw_memory [of _ B_BTS] bit_rmw_memory [of _ B_BTR] bit_rmw_memory [of _ B_BTC]
  bit_rmw_register [of _ B_BTS] bit_rmw_register [of _ B_BTR] bit_rmw_register [of _ B_BTC]

definition bit_catalog :: "('w handler \<times> bit_op \<times> nat \<times> (nat \<Rightarrow> 'w ctx \<Rightarrow> u64)) list" where
  "bit_catalog =
    [(handle_code_BT_RM16_IMM8, B_BT, 2, index_imm8),
     (handle_code_BT_RM16_R16, B_BT, 2, index_reg),
     (handle_code_BT_RM32_IMM8, B_BT, 4, index_imm8),
     (handle_code_BT_RM32_R32, B_BT, 4, index_reg),
     (handle_code_BT_RM64_IMM8, B_BT, 8, index_imm8),
     (handle_code_BT_RM64_R64, B_BT, 8, index_reg),
     (handle_code_BTS_RM16_IMM8, B_BTS, 2, index_imm8),
     (handle_code_BTS_RM16_R16, B_BTS, 2, index_reg),
     (handle_code_BTS_RM32_IMM8, B_BTS, 4, index_imm8),
     (handle_code_BTS_RM32_R32, B_BTS, 4, index_reg),
     (handle_code_BTS_RM64_IMM8, B_BTS, 8, index_imm8),
     (handle_code_BTS_RM64_R64, B_BTS, 8, index_reg),
     (handle_code_BTR_RM16_IMM8, B_BTR, 2, index_imm8),
     (handle_code_BTR_RM16_R16, B_BTR, 2, index_reg),
     (handle_code_BTR_RM32_IMM8, B_BTR, 4, index_imm8),
     (handle_code_BTR_RM32_R32, B_BTR, 4, index_reg),
     (handle_code_BTR_RM64_IMM8, B_BTR, 8, index_imm8),
     (handle_code_BTR_RM64_R64, B_BTR, 8, index_reg),
     (handle_code_BTC_RM16_IMM8, B_BTC, 2, index_imm8),
     (handle_code_BTC_RM16_R16, B_BTC, 2, index_reg),
     (handle_code_BTC_RM32_IMM8, B_BTC, 4, index_imm8),
     (handle_code_BTC_RM32_R32, B_BTC, 4, index_reg),
     (handle_code_BTC_RM64_IMM8, B_BTC, 8, index_imm8),
     (handle_code_BTC_RM64_R64, B_BTC, 8, index_reg)]"

lemmas bit_handler_defs =
  handle_code_BT_RM16_IMM8_def handle_code_BT_RM16_R16_def
  handle_code_BT_RM32_IMM8_def handle_code_BT_RM32_R32_def
  handle_code_BT_RM64_IMM8_def handle_code_BT_RM64_R64_def
  handle_code_BTS_RM16_IMM8_def handle_code_BTS_RM16_R16_def
  handle_code_BTS_RM32_IMM8_def handle_code_BTS_RM32_R32_def
  handle_code_BTS_RM64_IMM8_def handle_code_BTS_RM64_R64_def
  handle_code_BTR_RM16_IMM8_def handle_code_BTR_RM16_R16_def
  handle_code_BTR_RM32_IMM8_def handle_code_BTR_RM32_R32_def
  handle_code_BTR_RM64_IMM8_def handle_code_BTR_RM64_R64_def
  handle_code_BTC_RM16_IMM8_def handle_code_BTC_RM16_R16_def
  handle_code_BTC_RM32_IMM8_def handle_code_BTC_RM32_R32_def
  handle_code_BTC_RM64_IMM8_def handle_code_BTC_RM64_R64_def

lemma changed_bits:
  "x OR 2 ^ p = bit_changed B_BTS p x" "x AND NOT (2 ^ p) = bit_changed B_BTR p x"
  "x XOR 2 ^ p = bit_changed B_BTC p x"
  by (auto intro!: bit_word_eqI simp: bit_set_bit_iff bit_unset_bit_iff bit_flip_bit_iff bit_or_iff bit_and_iff
      bit_xor_iff bit_not_iff bit_exp_iff)

lemma bit_catalog_promises:
  "list_all bit_memory_promise bit_catalog" "list_all bit_register_promise bit_catalog"
  unfolding bit_catalog_def bit_handler_defs bts_rmw_def btr_rmw_def btc_rmw_def
  by (simp_all add: bit_promises changed_bits valid_width_def del: bit_changed.simps)

section \<open>Scans and counts\<close>

definition lowest_bit :: "u64 \<Rightarrow> nat \<Rightarrow> bool" where
  "lowest_bit v k \<longleftrightarrow> bit v k \<and> (\<forall>i<k. \<not> bit v i)"

definition highest_bit :: "u64 \<Rightarrow> nat \<Rightarrow> bool" where
  "highest_bit v k \<longleftrightarrow> bit v k \<and> (\<forall>i>k. \<not> bit v i)"

lemma lowest_bit_exists: "v \<noteq> 0 \<Longrightarrow> \<exists>k. lowest_bit v k"
  using exists_least_iff [of "bit v"] by (auto simp: lowest_bit_def bit_eq_iff)

lemma highest_bit_exists:
  assumes "v \<noteq> 0"
  shows "\<exists>k. highest_bit v k"
proof -
  have fin: "finite {i. bit v i}" by (rule finite_subset [of _ "{..<64}"]) (auto dest: bit_imp_le_length)
  have "{i. bit v i} \<noteq> {}" using assms by (auto simp: bit_eq_iff)
  then have "bit v (Max {i. bit v i})" using Max_in [OF fin] by simp
  moreover have "\<not> bit v i" if "Max {i. bit v i} < i" for i
    using Max_ge [OF fin, of i] that by (metis leD mem_Collect_eq)
  ultimately have "highest_bit v (Max {i. bit v i})" unfolding highest_bit_def by blast
  then show ?thesis ..
qed

lemma bit_below: "take_bit n v = v \<Longrightarrow> bit v k \<Longrightarrow> k < n" for v :: u64
  by (metis bit_take_bit_iff)

lemma and_push_1: "v AND push_bit b 1 = 0 \<longleftrightarrow> \<not> bit v b" for v :: u64
  by simp

lemma bsf_loop_eq: "lowest_bit v k \<Longrightarrow> b \<le> k \<Longrightarrow> k < b + n \<Longrightarrow> bsf_loop v b n = k"
proof (induction n arbitrary: b)
  case (Suc n)
  have "k = b" if "bit v b" using that Suc.prems by (auto simp: lowest_bit_def dest: leD intro: ccontr)
  moreover have "b < k" if "\<not> bit v b" using that Suc.prems by (cases "b = k") (auto simp: lowest_bit_def)
  ultimately show ?case using Suc.IH [of "Suc b"] Suc.prems by auto
qed simp

lemma bsr_loop_eq: "highest_bit v k \<Longrightarrow> k \<le> b \<Longrightarrow> 0 < b \<Longrightarrow> bsr_loop v index b = k"
proof (induction b)
  case (Suc b)
  have "k = Suc b" if "bit v (Suc b)" using that Suc.prems by (auto simp: highest_bit_def intro: ccontr)
  moreover have "k \<le> b" if "\<not> bit v (Suc b)"
    using that Suc.prems by (cases "k = Suc b") (auto simp: highest_bit_def)
  moreover have "v AND 1 \<noteq> 0" if "k = 0" using that Suc.prems(1) by (simp add: highest_bit_def and_one_bit del: bit_0)
  moreover have "bsr_loop v index (Suc b) = (if bit v (Suc b) then Suc b
      else if b = 0 then (if v AND 1 \<noteq> 0 then 0 else index) else bsr_loop v index b)"
    by (simp only: bsr_loop.simps and_push_1 not_not One_nat_def nat.inject)
  ultimately show ?case using Suc.IH Suc.prems by (cases "bit v (Suc b)"; cases "b = 0") simp_all
qed simp

lemma countl_zero_eq:
  assumes "highest_bit v k" "k < n"
  shows "countl_zero n v = n - 1 - k"
proof -
  have "[0..<n] = [0..<k] @ k # [Suc k..<n]"
    using assms(2) by (metis less_imp_add_positive upt_add_eq_append upt_conv_Cons zero_le)
  then have "rev [0..<n] = rev [Suc k..<n] @ k # rev [0..<k]" by simp
  moreover have "takeWhile (\<lambda>i. \<not> bit v i) (rev [Suc k..<n] @ k # rev [0..<k]) = rev [Suc k..<n]"
    using assms(1) by (subst takeWhile_append2) (auto simp: highest_bit_def)
  ultimately show ?thesis by (simp add: countl_zero_def)
qed

lemma count_zero_0: "countr_zero n 0 = n" "countl_zero n 0 = n"
  by (simp_all add: countr_zero_def countl_zero_def takeWhile_eq_all_conv [THEN iffD2])

lemma popcount_card: "take_bit n v = v \<Longrightarrow> popcount n v = card {i. bit v i}"
proof -
  assume "take_bit n v = v"
  then have "{i. bit v i} = set (filter (bit v) [0..<n])" using bit_below by auto
  then show ?thesis by (simp add: popcount_def distinct_card del: set_filter)
qed

datatype scan_op = S_BSF | S_BSR | S_TZCNT | S_LZCNT | S_POPCNT

fun scan_value :: "scan_op \<Rightarrow> nat \<Rightarrow> u64 \<Rightarrow> nat \<Rightarrow> bool" where
  "scan_value S_BSF w x n \<longleftrightarrow> lowest_bit x n"
| "scan_value S_BSR w x n \<longleftrightarrow> highest_bit x n"
| "scan_value S_TZCNT w x n \<longleftrightarrow> (if x = 0 then n = 8 * w else lowest_bit x n)"
| "scan_value S_LZCNT w x n \<longleftrightarrow> (if x = 0 then n = 8 * w else n < 8 * w \<and> highest_bit x (8 * w - 1 - n))"
| "scan_value S_POPCNT w x n \<longleftrightarrow> n = card {i. bit x i}"

fun is_scan :: "scan_op \<Rightarrow> bool" where
  "is_scan S_BSF = True" | "is_scan S_BSR = True" | "is_scan _ = False"

text \<open>The flags: the scans change ZF only; the counts clear OF, SF, AF and PF.\<close>

definition scan_flags :: "scan_op \<Rightarrow> u64 \<Rightarrow> nat \<Rightarrow> u64 \<Rightarrow> u64 \<Rightarrow> bool" where
  "scan_flags op x n f f' \<longleftrightarrow>
     (if is_scan op then \<forall>j. bit f' j = (if j = 6 then False else bit f j)
      else \<forall>j. bit f' j = (if j = 0 then op \<noteq> S_POPCNT \<and> x = 0
                          else if j = 6 then (if op = S_POPCNT then x = 0 else n = 0)
                          else j \<notin> {2, 4, 7, 11} \<and> bit f j))"

definition scan_catalog :: "('w handler \<times> scan_op \<times> nat) list" where
  "scan_catalog =
    [(handle_code_BSF_R16_RM16, S_BSF, 2),
     (handle_code_BSF_R32_RM32, S_BSF, 4),
     (handle_code_BSF_R64_RM64, S_BSF, 8),
     (handle_code_BSR_R16_RM16, S_BSR, 2),
     (handle_code_BSR_R32_RM32, S_BSR, 4),
     (handle_code_BSR_R64_RM64, S_BSR, 8),
     (handle_code_TZCNT_R16_RM16, S_TZCNT, 2),
     (handle_code_TZCNT_R32_RM32, S_TZCNT, 4),
     (handle_code_TZCNT_R64_RM64, S_TZCNT, 8),
     (handle_code_LZCNT_R16_RM16, S_LZCNT, 2),
     (handle_code_LZCNT_R32_RM32, S_LZCNT, 4),
     (handle_code_LZCNT_R64_RM64, S_LZCNT, 8),
     (handle_code_POPCNT_R16_RM16, S_POPCNT, 2),
     (handle_code_POPCNT_R32_RM32, S_POPCNT, 4),
     (handle_code_POPCNT_R64_RM64, S_POPCNT, 8)]"

lemmas scan_handler_defs =
  handle_code_BSF_R16_RM16_def
  handle_code_BSF_R32_RM32_def
  handle_code_BSF_R64_RM64_def
  handle_code_BSR_R16_RM16_def
  handle_code_BSR_R32_RM32_def
  handle_code_BSR_R64_RM64_def
  handle_code_TZCNT_R16_RM16_def
  handle_code_TZCNT_R32_RM32_def
  handle_code_TZCNT_R64_RM64_def
  handle_code_LZCNT_R16_RM16_def
  handle_code_LZCNT_R32_RM32_def
  handle_code_LZCNT_R64_RM64_def
  handle_code_POPCNT_R16_RM16_def
  handle_code_POPCNT_R32_RM32_def
  handle_code_POPCNT_R64_RM64_def

lemma register_width_range: "take_bit (8 * w) (word_of_nat n :: u64) = word_of_nat n"
  if "valid_width w" "w \<noteq> 1" "n \<le> 64"
proof -
  have n: "n < 2 ^ (8 * w)" using that by (auto simp: valid_width_def)
  have "unat (word_of_nat n :: u64) = n" using that(3) by (simp add: unat_of_nat)
  then have "unat (take_bit (8 * w) (word_of_nat n :: u64)) = unat (word_of_nat n :: u64)"
    using n by (simp only: unsigned_take_bit_eq take_bit_nat_eq_self)
  then show ?thesis by (rule unsigned_word_eqI)
qed

lemma read_after_scan:
  assumes "wf_cpu s" "reg_part r = Some (0, 8 * w)" "valid_width w" "w \<noteq> 1" "n \<le> 64"
  shows "read_register (write_register s r (word_of_nat n) w) r = word_of_nat n"
  using read_write_register [OF assms(1,2)] register_width_range [OF assms(3,4,5)]
    write_register_override [OF assms(2)] reg_part_width [OF assms(2)] by simp

lemma write_register_rflags:
  assumes "reg_part r = Some p"
  shows "rflags (write_register s r v w) = rflags s" "write_register (s\<lparr>rflags := f\<rparr>) r v w = (write_register s r v w)\<lparr>rflags := f\<rparr>"
  using assms by (simp_all add: reg_part_gpr write_gpr_def Let_def)

definition scan_promise :: "'w handler \<times> scan_op \<times> nat \<Rightarrow> bool" where
  "scan_promise e = (case e of (h, op, w) \<Rightarrow>
     \<forall>c c1 x r. wf_cpu (state c) \<and> read_operand c 1 w = (Some x, c1) \<and> take_bit (8 * w) x = x \<and>
         op_register (instr c) 0 = r \<and> reg_part r = Some (0, 8 * w) \<longrightarrow>
       (\<exists>s'. h c = (no_stop, c1\<lparr>state := s'\<rparr>) \<and>
          (if is_scan op \<and> x = 0 then s' = put_flag kFlagZF True (state c)
           else \<exists>n. scan_value op w x n \<and> read_register s' r = word_of_nat n \<and>
                  scan_flags op x n (rflags (state c)) (rflags s'))))"

lemma bit_scan_promise:
  assumes "valid_width w" "w \<noteq> 1" "is_scan op"
    and scan: "\<And>x. x \<noteq> 0 \<Longrightarrow> take_bit (8 * w) x = x \<Longrightarrow> scan_value op w x (scan x) \<and> scan x \<le> 64"
  shows "scan_promise (bit_scan scan w, op, w)"
  unfolding scan_promise_def prod.case
proof (intro allI impI)
  fix c c1 :: "'a ctx" and x r
  assume c: "wf_cpu (state c) \<and> read_operand c 1 w = (Some x, c1) \<and> take_bit (8 * w) x = x \<and>
    op_register (instr c) 0 = r \<and> reg_part r = Some (0, 8 * w)"
  obtain m where c1: "c1 = c\<lparr>mem := m\<rparr>" using read_operand_mem [of c 1 w] c by auto
  show "\<exists>s'. bit_scan scan w c = (no_stop, c1\<lparr>state := s'\<rparr>) \<and>
      (if is_scan op \<and> x = 0 then s' = put_flag kFlagZF True (state c)
       else \<exists>n. scan_value op w x n \<and> read_register s' r = word_of_nat n \<and>
              scan_flags op x n (rflags (state c)) (rflags s'))"
  proof (cases "x = 0")
    case True
    then show ?thesis using c c1 assms(3) by (simp add: bit_scan_def read_operand_checked_def)
  next
    case False
    let ?s = "write_register (put_flag kFlagZF False (state c)) r (word_of_nat (scan x)) w"
    have "read_register ?s r = word_of_nat (scan x)"
      using c scan [OF False] assms by (intro read_after_scan) (auto simp: put_flag_def wf_cpu_def)
    moreover have "scan_flags op x (scan x) (rflags (state c)) (rflags ?s)"
      using c assms(3) by (simp add: scan_flags_def put_flag_def write_register_rflags)
    ultimately show ?thesis
      using False c c1 scan [OF False] by (auto simp: bit_scan_def read_operand_checked_def)
  qed
qed

lemma count_bits_promise:
  assumes "valid_width w" "w \<noteq> 1" "\<not> is_scan op"
    and count: "\<And>x. take_bit (8 * w) x = x \<Longrightarrow> scan_value op w x (counter x) \<and> counter x \<le> 64"
    and flags: "flags = (if op = S_POPCNT then (\<lambda>v n. [(kFlagZF, v = 0)])
      else (\<lambda>v n. [(kFlagCF, v = 0), (kFlagZF, n = 0)]))"
  shows "scan_promise (count_bits counter flags w, op, w)"
  unfolding scan_promise_def prod.case
proof (intro allI impI)
  fix c c1 :: "'a ctx" and x r
  assume c: "wf_cpu (state c) \<and> read_operand c 1 w = (Some x, c1) \<and> take_bit (8 * w) x = x \<and>
    op_register (instr c) 0 = r \<and> reg_part r = Some (0, 8 * w)"
  obtain m where c1: "c1 = c\<lparr>mem := m\<rparr>" using read_operand_mem [of c 1 w] c by auto
  let ?s1 = "write_register (state c) r (word_of_nat (counter x)) w"
  let ?s = "put_flags (flags x (counter x)) (clear_count_flags ?s1)"
  have fl: "?s = ?s1\<lparr>rflags := rflags ?s\<rparr>" by (simp add: put_flags_state clear_count_flags_def)
  have "read_register ?s r = word_of_nat (counter x)"
    using c count [of x] assms by (subst fl) (simp add: read_after_scan)
  moreover have "scan_flags op x (counter x) (rflags (state c)) (rflags ?s)"
    using c assms(3) flags by (auto simp: scan_flags_def clear_count_flags_def write_register_rflags)
  moreover have "count_bits counter flags w c = (no_stop, c1\<lparr>state := ?s\<rparr>)"
    using c c1 by (simp add: count_bits_def read_operand_checked_def truncate_to_def and_mask_for_width Let_def)
  ultimately show "\<exists>s'. count_bits counter flags w c = (no_stop, c1\<lparr>state := s'\<rparr>) \<and>
      (if is_scan op \<and> x = 0 then s' = put_flag kFlagZF True (state c)
       else \<exists>n. scan_value op w x n \<and> read_register s' r = word_of_nat n \<and>
              scan_flags op x n (rflags (state c)) (rflags s'))"
    using assms(3) count [of x] c by auto
qed

text \<open>What the loops and library functions compute.\<close>

lemma scan_values:
  assumes "w \<le> 8" "take_bit (8 * w) x = x"
  shows "x \<noteq> 0 \<Longrightarrow> scan_value S_BSF w x (bsf_loop x 0 (8 * w)) \<and> bsf_loop x 0 (8 * w) \<le> 64"
    and "x \<noteq> 0 \<Longrightarrow> 0 < w \<Longrightarrow>
      scan_value S_BSR w x (bsr_loop x (8 * w - 1) (8 * w - 1)) \<and> bsr_loop x (8 * w - 1) (8 * w - 1) \<le> 64"
    and "scan_value S_TZCNT w x (countr_zero (8 * w) x) \<and> countr_zero (8 * w) x \<le> 64"
    and "scan_value S_LZCNT w x (countl_zero (8 * w) x) \<and> countl_zero (8 * w) x \<le> 64"
    and "scan_value S_POPCNT w x (popcount (8 * w) x) \<and> popcount (8 * w) x \<le> 64"
proof -
  note below = bit_below [OF assms(2)]
  have low: "k < 8 * w \<and> k \<le> 64" if "lowest_bit x k" for k
    using that below [of k] assms(1) by (auto simp: lowest_bit_def)
  have high: "k < 8 * w \<and> k \<le> 64" if "highest_bit x k" for k
    using that below [of k] assms(1) by (auto simp: highest_bit_def)
  show "x \<noteq> 0 \<Longrightarrow> scan_value S_BSF w x (bsf_loop x 0 (8 * w)) \<and> bsf_loop x 0 (8 * w) \<le> 64"
    using lowest_bit_exists [of x] low bsf_loop_eq [of x _ 0 "8 * w"] by auto
  show "scan_value S_BSR w x (bsr_loop x (8 * w - 1) (8 * w - 1)) \<and> bsr_loop x (8 * w - 1) (8 * w - 1) \<le> 64"
    if x: "x \<noteq> 0" "0 < w"
  proof -
    obtain k where k: "highest_bit x k" using highest_bit_exists [OF x(1)] by blast
    have "k \<le> 8 * w - 1" "0 < 8 * w - 1" using high [OF k] x(2) by linarith+
    then have "bsr_loop x (8 * w - 1) (8 * w - 1) = k" by (rule bsr_loop_eq [OF k])
    then show ?thesis using k high [OF k] by simp
  qed
  show "scan_value S_TZCNT w x (countr_zero (8 * w) x) \<and> countr_zero (8 * w) x \<le> 64"
  proof (cases "x = 0")
    case False
    then obtain k where k: "lowest_bit x k" using lowest_bit_exists by blast
    then have "countr_zero (8 * w) x = k" using low [OF k] by (intro countr_zero_eq) (auto simp: lowest_bit_def)
    then show ?thesis using False k low [OF k] by simp
  qed (use assms(1) count_zero_0 in simp)
  show "scan_value S_LZCNT w x (countl_zero (8 * w) x) \<and> countl_zero (8 * w) x \<le> 64"
  proof (cases "x = 0")
    case False
    then obtain k where k: "highest_bit x k" using highest_bit_exists by blast
    then have "countl_zero (8 * w) x = 8 * w - 1 - k" using high [OF k] by (intro countl_zero_eq) auto
    then show ?thesis using False k high [OF k] assms(1) by simp
  qed (use assms(1) count_zero_0 in simp)
  show "scan_value S_POPCNT w x (popcount (8 * w) x) \<and> popcount (8 * w) x \<le> 64"
    using assms popcount_card [OF assms(2)] length_filter_le [of "bit x" "[0..<8 * w]"]
    by (simp add: popcount_def)
qed

lemma scan_promises:
  assumes "valid_width w" "w \<noteq> 1"
  shows "scan_promise (bit_scan (\<lambda>v. bsf_loop v 0 (8 * w)) w, S_BSF, w)"
    and "scan_promise (bit_scan (\<lambda>v. bsr_loop v (8 * w - 1) (8 * w - 1)) w, S_BSR, w)"
    and "scan_promise (tzcnt_narrow w, S_TZCNT, w)" "scan_promise (lzcnt_narrow w, S_LZCNT, w)"
    and "scan_promise (popcnt_narrow w, S_POPCNT, w)"
  unfolding tzcnt_narrow_def lzcnt_narrow_def popcnt_narrow_def
  by (rule bit_scan_promise count_bits_promise;
      simp add: assms valid_width_bounds scan_values del: scan_value.simps One_nat_def)+

lemma scan_catalog_promises: "list_all scan_promise scan_catalog"
  unfolding scan_catalog_def scan_handler_defs
  using scan_promises [of 2] scan_promises [of 4] scan_promises [of 8] by (simp add: valid_width_def)

text \<open>C36: BT, BTS, BTR and BTC on a bit string in memory, for every handler: a signed bit index selects an element by
  division rounding towards minus infinity and a bit in it by the remainder; the carry flag takes the old bit and the element in memory
  the new one; an element that cannot be read, or written where the instruction writes, is a page fault at its
  address with the registers and flags unchanged.\<close>

theorem bit_memory_semantics:
  assumes "(h, op, w, index) \<in> set bit_catalog" "plain (mem c)" "op_kind (instr c) 0 = MEMORY"
    "a = memory_address c + word_of_int (sint (index w c) div int (8 * w) * int w)"
    "p = nat (sint (index w c) mod int (8 * w))"
  shows "bit_memory_effect op w a p c (h c)"
  using bit_catalog_promises(1) assms(1-3) unfolding assms(4,5)
  by (auto simp: list_all_iff bit_memory_promise_def element_address_def element_of_def position_of_def)

text \<open>The same on registers: the bit index counts modulo the width.\<close>

theorem bit_register_semantics:
  assumes "(h, op, w, index) \<in> set bit_catalog" "wf_cpu (state c)" "op_kind (instr c) 0 = REGISTER"
    "reg_part (op_register (instr c) 0) = Some (0, 8 * w)" "p = nat (sint (index w c) mod int (8 * w))"
    "x = read_register (state c) (op_register (instr c) 0)"
  shows "\<exists>s'. h c = (no_stop, c\<lparr>state := s'\<rparr>) \<and> read_register s' (op_register (instr c) 0) = bit_changed op p x \<and>
    flag_CF s' = bit x p"
proof -
  have "bit_register_promise (h, op, w, index)" using bit_catalog_promises(2) assms(1) by (auto simp: list_all_iff)
  then show ?thesis
    using assms(2-6) by (auto simp: bit_register_promise_def Let_def position_of_def carry_only_def)
qed

text \<open>C37: BSF and BSR write the position of the lowest and of the highest set bit, and for a zero operand set ZF and leave the
  destination alone; TZCNT and LZCNT count the zeros below the lowest and above the highest set bit, up to the operand width for zero;
  POPCNT counts the set bits; each at every width, with the flags the source sets and the others kept or cleared.\<close>

theorem scan_semantics:
  assumes "(h, op, w) \<in> set scan_catalog" "wf_cpu (state c)" "read_operand c 1 w = (Some x, c1)"
    "take_bit (8 * w) x = x" "reg_part (op_register (instr c) 0) = Some (0, 8 * w)"
  shows "\<exists>s'. h c = (no_stop, c1\<lparr>state := s'\<rparr>) \<and>
    (if is_scan op \<and> x = 0 then s' = put_flag kFlagZF True (state c)
     else \<exists>n. scan_value op w x n \<and> read_register s' (op_register (instr c) 0) = word_of_nat n \<and>
            scan_flags op x n (rflags (state c)) (rflags s'))"
proof -
  have "scan_promise (h, op, w)" using scan_catalog_promises assms(1) by (auto simp: list_all_iff)
  then show ?thesis using assms(2-5) unfolding scan_promise_def prod.case by blast
qed

section \<open>Parallel extract and deposit\<close>

text \<open>The number of mask bits below a position, and the bits the loops produce.\<close>

definition rank :: "u64 \<Rightarrow> nat \<Rightarrow> nat" where
  "rank m i = length (filter (bit m) [0..<i])"

lemma rank_Suc: "rank m (Suc i) = rank m i + (if bit m i then 1 else 0)"
  by (simp add: rank_def)

lemma rank_mono: "i \<le> j \<Longrightarrow> rank m i \<le> rank m j"
  by (induction j) (auto simp: rank_Suc le_Suc_eq)

lemma rank_le: "rank m i \<le> i"
  by (induction i) (auto simp: rank_Suc rank_def)

lemma rank_inj: "bit m i \<Longrightarrow> bit m j \<Longrightarrow> rank m i = rank m j \<Longrightarrow> i = j"
proof (induction i j rule: linorder_wlog)
  case (le i j)
  show ?case
  proof (rule ccontr)
    assume "i \<noteq> j"
    then have "rank m (Suc i) \<le> rank m j" using le by (intro rank_mono) auto
    then show False using le by (simp add: rank_Suc)
  qed
qed auto

lemma pext_loop:
  "n \<le> 64 \<Longrightarrow> fold (pext_step v m) [0..<n] (0, 0) = (r, d) \<Longrightarrow>
     d = rank m n \<and> (\<forall>k. bit r k \<longleftrightarrow> (\<exists>i<n. bit m i \<and> rank m i = k \<and> bit v i))"
proof (induction n arbitrary: r d)
  case (Suc n)
  obtain r0 d0 where f: "fold (pext_step v m) [0..<n] (0, 0) = (r0, d0)" by fastforce
  have IH: "d0 = rank m n" "\<And>k. bit r0 k \<longleftrightarrow> (\<exists>i<n. bit m i \<and> rank m i = k \<and> bit v i)"
    using Suc.IH [OF _ f] Suc.prems(1) by auto
  have n: "n < 64" "rank m n < 64" using rank_le [of m n] Suc.prems(1) by linarith+
  have "pext_step v m n (r0, rank m n) = (r, d)" using Suc.prems(2) f IH(1) by simp
  then show ?case using IH(2) n
    by (auto simp: pext_step_def drop_bit_and_one rank_Suc bit_or_iff bit_exp_iff less_Suc_eq split: if_splits)
qed (simp add: rank_def)

lemma pdep_loop:
  "n \<le> 64 \<Longrightarrow> fold (pdep_step v m) [0..<n] (0, 0) = (r, d) \<Longrightarrow>
     d = rank m n \<and> (\<forall>k. bit r k \<longleftrightarrow> k < n \<and> bit m k \<and> bit v (rank m k))"
proof (induction n arbitrary: r d)
  case (Suc n)
  obtain r0 d0 where f: "fold (pdep_step v m) [0..<n] (0, 0) = (r0, d0)" by fastforce
  have IH: "d0 = rank m n" "\<And>k. bit r0 k \<longleftrightarrow> k < n \<and> bit m k \<and> bit v (rank m k)"
    using Suc.IH [OF _ f] Suc.prems(1) by auto
  have "pdep_step v m n (r0, rank m n) = (r, d)" using Suc.prems(2) f IH(1) by simp
  then have r: "d = rank m (Suc n)" "r = (if bit m n \<and> bit v (rank m n) then r0 OR push_bit n 1 else r0)"
    by (auto simp: pdep_step_def drop_bit_and_one rank_Suc split: if_splits)
  have "bit (push_bit n 1 :: u64) k \<longleftrightarrow> k = n" for k using Suc.prems(1) by (auto simp: bit_exp_iff)
  then show ?case by (simp add: r bit_or_iff IH(2) less_Suc_eq del: push_bit_of_1) blast
qed (simp add: rank_def)

lemma bit_pext: "w \<le> 8 \<Longrightarrow> bit (pext v m w) k \<longleftrightarrow> (\<exists>i<8 * w. bit m i \<and> rank m i = k \<and> bit v i)"
  using pext_loop [of "8 * w" v m] by (cases "fold (pext_step v m) [0..<8 * w] (0, 0)") (auto simp: pext_def mult.commute)

lemma bit_pdep: "w \<le> 8 \<Longrightarrow> bit (pdep v m w) k \<longleftrightarrow> k < 8 * w \<and> bit m k \<and> bit v (rank m k)"
  using pdep_loop [of "8 * w" v m] by (cases "fold (pdep_step v m) [0..<8 * w] (0, 0)") (auto simp: pdep_def mult.commute)

lemma rank_surj: "k < rank m n \<Longrightarrow> \<exists>i<n. bit m i \<and> rank m i = k"
proof (induction n)
  case (Suc n)
  then show ?case by (cases "k < rank m n") (auto simp: rank_Suc less_Suc_eq split: if_splits)
qed (simp add: rank_def)

lemma rank_less: "i < n \<Longrightarrow> bit m i \<Longrightarrow> rank m i < rank m n"
  using rank_mono [of "Suc i" n m] by (simp add: rank_Suc)

text \<open>PDEP and PEXT with the same mask undo each other: extracting what was deposited gives back the low bits of the
  source, as many as the mask has, and depositing what was extracted gives back the source under the mask.\<close>

theorem pext_pdep_roundtrip:
  assumes "valid_width w"
  shows "pext (pdep v m w) m w = take_bit (popcount (8 * w) m) v \<and>
    pdep (pext v m w) m w = v AND m AND mask_for_width w"
proof
  have w: "w \<le> 8" using valid_width_bounds [OF assms] by simp
  have pc: "popcount (8 * w) m = rank m (8 * w)" by (simp add: popcount_def rank_def)
  show "pext (pdep v m w) m w = take_bit (popcount (8 * w) m) v"
    using rank_surj [of _ m "8 * w"] rank_less [of _ "8 * w" m]
    by (intro bit_word_eqI) (auto simp: bit_pext [OF w] bit_pdep [OF w] bit_take_bit_iff pc)
  show "pdep (pext v m w) m w = v AND m AND mask_for_width w"
    by (intro bit_word_eqI) (auto simp: bit_pext [OF w] bit_pdep [OF w] bit_and_iff bit_mask_for_width dest: rank_inj)
qed

theorem pext_pdep_roundtrip_witness:
  "valid_width 4 \<and> pext (pdep 5 0xF0F0 4) 0xF0F0 4 = take_bit (popcount (8 * 4) 0xF0F0) 5 \<and>
   pdep (pext 0x1234 0xF0F0 4) 0xF0F0 4 = 0x1234 AND 0xF0F0 AND mask_for_width 4"
  using pext_pdep_roundtrip [of 4 5 "0xF0F0"] pext_pdep_roundtrip [of 4 "0x1234" "0xF0F0"]
  by (simp add: valid_width_def)

section \<open>Concrete instructions\<close>

text \<open>\<^verbatim>\<open>btc [0x1ffe], ecx\<close>, \<^verbatim>\<open>bts ax, 0x13\<close> and \<^verbatim>\<open>lzcnt eax, ecx\<close>.\<close>

definition btc_mem_ecx :: instruction where
  "btc_mem_ecx = null_instruction\<lparr>code := ''BTC_RM32_R32'', op_kind := (\<lambda>k. if k = 0 then MEMORY else REGISTER),
     op_register := (\<lambda>_. ECX), memory_displacement64 := 0x1FFE\<rparr>"

definition bts_ax_imm :: instruction where
  "bts_ax_imm = null_instruction\<lparr>code := ''BTS_RM16_IMM8'', op_register := (\<lambda>_. AX), immediate8 := 0x13\<rparr>"

definition lzcnt_eax_ecx :: instruction where
  "lzcnt_eax_ecx = null_instruction\<lparr>code := ''LZCNT_R32_RM32'', op_register := (\<lambda>k. if k = 0 then EAX else ECX)\<rparr>"

theorem bit_memory_semantics_witness:
  "bit_memory_effect B_BTC 4 0x1FFE 0 (demo_ctx btc_mem_ecx) (handle_code_BTC_RM32_R32 (demo_ctx btc_mem_ecx))"
proof (rule bit_memory_semantics)
  show "(handle_code_BTC_RM32_R32, B_BTC, 4, index_reg) \<in> set bit_catalog" by (simp add: bit_catalog_def)
  show "plain (mem (demo_ctx btc_mem_ecx))" "op_kind (instr (demo_ctx btc_mem_ecx)) 0 = MEMORY"
    using demo_plain by (simp_all add: demo_ctx_def btc_mem_ecx_def)
  have "index_reg 4 (demo_ctx btc_mem_ecx) = 0" by code_simp
  then show "0x1FFE = memory_address (demo_ctx btc_mem_ecx) +
      word_of_int (sint (index_reg 4 (demo_ctx btc_mem_ecx)) div int (8 * 4) * int 4)"
    "0 = nat (sint (index_reg 4 (demo_ctx btc_mem_ecx)) mod int (8 * 4))"
    by (simp_all, code_simp)
qed

theorem bit_register_semantics_witness:
  "\<exists>s'. handle_code_BTS_RM16_IMM8 (demo_ctx bts_ax_imm) = (no_stop, (demo_ctx bts_ax_imm)\<lparr>state := s'\<rparr>) \<and>
    read_register s' AX = bit_changed B_BTS 3 0 \<and> flag_CF s' = bit (0 :: u64) 3"
proof -
  have m: "(handle_code_BTS_RM16_IMM8, B_BTS, 2, index_imm8) \<in> set bit_catalog" by (simp add: bit_catalog_def)
  have p: "3 = nat (sint (index_imm8 2 (demo_ctx bts_ax_imm)) mod int (8 * 2))"
    by (simp add: index_imm8_def read_bit_index_1_def demo_ctx_def bts_ax_imm_def)
  have x: "0 = read_register (state (demo_ctx bts_ax_imm)) (op_register (instr (demo_ctx bts_ax_imm)) 0)"
    by (simp add: demo_ctx_def bts_ax_imm_def initial_cpu_state_def read_register_def read_gpr_def)
  show ?thesis
    using bit_register_semantics [OF m _ _ _ p x] initial_wf by (simp add: demo_ctx_def bts_ax_imm_def null_instruction_def)
qed

theorem scan_semantics_witness:
  "\<exists>s'. handle_code_LZCNT_R32_RM32 (demo_ctx lzcnt_eax_ecx) = (no_stop, (demo_ctx lzcnt_eax_ecx)\<lparr>state := s'\<rparr>) \<and>
    read_register s' EAX = 32 \<and> flag_CF s'"
proof -
  have m: "(handle_code_LZCNT_R32_RM32, S_LZCNT, 4) \<in> set scan_catalog" by (simp add: scan_catalog_def)
  have r: "read_operand (demo_ctx lzcnt_eax_ecx) 1 4 = (Some 0, demo_ctx lzcnt_eax_ecx)"
    by (simp add: read_operand_def demo_ctx_def lzcnt_eax_ecx_def null_instruction_def initial_cpu_state_def
        read_register_def read_gpr_def)
  have c: "wf_cpu (state (demo_ctx lzcnt_eax_ecx))" "op_register (instr (demo_ctx lzcnt_eax_ecx)) 0 = EAX"
    using initial_wf by (simp_all add: demo_ctx_def lzcnt_eax_ecx_def)
  show ?thesis using scan_semantics [OF m c(1) r, unfolded c(2)] by (fastforce simp: scan_flags_def)
qed

end
