(* ===== verification/Data_Facts.thy ===== *)
theory Data_Facts
  imports Data_Move Bit_Facts
begin

text \<open>
  Data movement: compare-and-exchange against its atomic specification and its flags against those of CMP, byte order
  (BSWAP and MOVBE), and two exchanges that do not do what their mnemonics say.
\<close>

section \<open>The flags of CMPXCHG\<close>

lemma sint_sign_extend_neg:
  assumes "valid_width w"
  shows "sint (sign_extend v w) < 0 \<longleftrightarrow> bit v (8 * w - 1)"
proof -
  have "bit (sign_extend v w) 63 \<longleftrightarrow> bit v (8 * w - 1)"
    using valid_width_bounds [OF assms] by (subst sign_extend_eq) (auto simp: bit_signed_take_bit_iff min_def)
  then show ?thesis using bit_last_iff [of "sign_extend v w"] by simp
qed

lemma masked_eq_iff: "w \<le> 8 \<Longrightarrow> a AND mask_for_width w = b AND mask_for_width w \<longleftrightarrow> uval w a = uval w b"
  by (simp add: word_uint_eq_iff uint_masked)

lemma masked_difference:
  assumes "w \<le> 8"
  shows "((a AND mask_for_width w) - (b AND mask_for_width w)) AND mask_for_width w = (a - b) AND mask_for_width w"
    and "a AND mask_for_width w = b AND mask_for_width w \<longleftrightarrow> (a - b) AND mask_for_width w = 0"
proof -
  have d: "uval w (x - y) = (uval w x - uval w y) mod 2 ^ (8 * w)" for x y
    using uval_sub [OF assms, of x y False] by simp
  have "uval w (v AND mask_for_width w) = uval w v" for v
    by (simp add: uval_def and_mask_for_width unsigned_take_bit_eq)
  then show "((a AND mask_for_width w) - (b AND mask_for_width w)) AND mask_for_width w = (a - b) AND mask_for_width w"
    using assms by (simp add: masked_eq_iff d)
  have "(uval w a - uval w b) mod 2 ^ (8 * w) = 0 \<longleftrightarrow> uval w a = uval w b"
    using uval_bounds [of w a] uval_bounds [of w b] by (simp flip: mod_eq_dvd_iff dvd_eq_mod_eq_0)
  then show "a AND mask_for_width w = b AND mask_for_width w \<longleftrightarrow> (a - b) AND mask_for_width w = 0"
    using assms by (simp add: masked_eq_iff masked_eq_0 d)
qed

lemma cmpxchg_flags_sub:
  assumes "valid_width w"
  shows "set_cmpxchg_flags a b w (a AND mask_for_width w = b AND mask_for_width w) s =
    set_sub_flags s a b (a - b) w False"
proof -
  let ?m = "mask_for_width w" and ?t = "8 * w - 1"
  have w: "0 < w" "w \<le> 8" using valid_width_bounds [OF assms] by simp_all
  have sg: "sint (sign_extend (v AND ?m) w) < 0 \<longleftrightarrow> bit v ?t" for v
    using sint_sign_extend_neg [OF assms] w by (simp add: bit_masked)
  have sg': "0 \<le> sint (sign_extend (v AND ?m) w) \<longleftrightarrow> \<not> bit v ?t" for v
    using sg [of v] by linarith
  have mt: "bit ?m (8 * w - Suc 0)" using w by (simp add: bit_mask_for_width)
  have sb: "v AND sign_bit_for_width w = 0 \<longleftrightarrow> \<not> bit v ?t" for v
    using and_sign_bit [OF w(1), of v] by blast
  show ?thesis
    unfolding set_cmpxchg_flags_def set_sub_flags_def Let_def masked_difference [OF w(2)] sg sg' put_flags_state
    by (rule arg_cong [where f = "\<lambda>f. s\<lparr>rflags := f\<rparr>"], rule bit_word_eqI)
      (auto simp: sb mt bit_and_iff bit_xor_iff)
qed

section \<open>Compare and exchange in memory\<close>

lemma write_operand_checked_plain:
  assumes "plain (mem c)" "valid_width w" "op_kind (instr c) k = MEMORY"
  shows "\<exists>m. write_operand_checked c k x w =
      (if may_write c (memory_address c) w then no_stop else memory_fault c (memory_address c), c\<lparr>mem := m\<rparr>) \<and>
    plain m \<and> (may_write c (memory_address c) w \<longrightarrow>
      fst (ctx_read (c\<lparr>mem := m\<rparr>) (memory_address c) w) = Some (take_bit (8 * w) x))"
proof -
  have "write_operand_checked c k x w = write_memory_checked c (memory_address c) (truncate_to x w) w"
    using assms(3) ctx_write_plain [OF assms(1,2), of "memory_address c" "truncate_to x w"]
    by (auto simp: write_operand_checked_def write_operand_def write_memory_checked_def Let_def
        split: bool.split)
  then show ?thesis
    using write_memory_checked_plain [OF assms(1,2), of "memory_address c" "truncate_to x w"]
    by (auto simp: truncate_to_def and_mask_for_width)
qed

text \<open>The page table after a store of \<open>w\<close> bytes of \<open>x\<close> at \<open>a\<close>: the bytes before the first one that may not be
  written are stored, all of them when the store succeeds.\<close>

definition stored_pages :: "nat \<Rightarrow> u64 \<Rightarrow> u64 \<Rightarrow> (u64 \<rightharpoonup> page_entry) \<Rightarrow> (u64 \<rightharpoonup> page_entry)" where
  "stored_pages w a x P = pokes a (take (allowed_prefix (can data_write) P a w) (le_bytes w x)) P"

lemma le_bytes_take_bit: "le_bytes w (take_bit (8 * w) x) = le_bytes w (x :: u64)"
proof (rule nth_equalityI)
  fix i assume "i < length (le_bytes w (take_bit (8 * w) x))"
  then show "le_bytes w (take_bit (8 * w) x) ! i = le_bytes w x ! i"
    by (intro bit_word_eqI) (auto simp: bit_ucast_iff bit_drop_bit_eq bit_take_bit_iff)
qed simp

lemma write_operand_checked_pages:
  assumes "plain (mem c)" "valid_width w" "op_kind (instr c) k = MEMORY"
  shows "pages (mem (snd (write_operand_checked c k x w))) = stored_pages w (memory_address c) x (pages (mem c))"
proof -
  obtain ok m where m: "ctx_write c (memory_address c) (truncate_to x w) w = (ok, c\<lparr>mem := m\<rparr>)"
    "after_write (can data_write) (mem c) (memory_address c) (le_bytes w (truncate_to x w)) (ok, m)"
    using ctx_write_plain [OF assms(1,2), of "memory_address c" "truncate_to x w"] by auto
  have "le_bytes w (truncate_to x w) = le_bytes w x"
    by (simp add: truncate_to_def and_mask_for_width le_bytes_take_bit)
  then show ?thesis
    using assms(3) m(1) after_write_pages [OF m(2)]
    by (auto simp: write_operand_checked_def write_operand_def Let_def stored_pages_def split: bool.split)
qed

text \<open>What the destination at \<open>a\<close>, the state and the page table become, with the value \<open>x\<close> at the destination,
  \<open>acc\<close> the accumulator and \<open>y\<close> the source.\<close>

definition cmpxchg_effect ::
  "nat \<Rightarrow> u64 \<Rightarrow> u64 \<Rightarrow> register \<Rightarrow> u64 \<Rightarrow> 'w ctx \<Rightarrow> execution_result \<times> 'w ctx \<Rightarrow> bool" where
  "cmpxchg_effect w a x acc y c r \<longleftrightarrow>
     (if x = read_register (state c) acc
      then pages (mem (snd r)) = stored_pages w a y (pages (mem c)) \<and>
          (if may_write c a w
           then fst r = no_stop \<and> fst (ctx_read (snd r) a w) = Some (take_bit (8 * w) y) \<and>
                only_rflags (state c) (state (snd r)) \<and> flag_ZF (state (snd r))
           else fst r = memory_fault c a \<and> state (snd r) = state c)
      else fst r = no_stop \<and> fst (ctx_read (snd r) a w) = Some x \<and> tlb_variant (mem c) (mem (snd r)) \<and>
           read_register (state (snd r)) acc = x \<and> \<not> flag_ZF (state (snd r)) \<and>
           (\<forall>i. i \<noteq> 0 \<longrightarrow> gpr (state (snd r)) ! i = gpr (state c) ! i))"

lemma compare_exchange_memory:
  assumes w: "valid_width w" and acc: "reg_part acc = Some (0, 8 * w)" "reg_index acc = 0"
    and fl: "\<And>a b ok s. only_rflags s (flags a b ok s) \<and> (flag_ZF (flags a b ok s) \<longleftrightarrow> ok)"
    and c: "wf_cpu (state c)" "plain (mem c)" "op_kind (instr c) 0 = MEMORY"
    and x: "fst (ctx_read c (memory_address c) w) = Some x"
  shows "cmpxchg_effect w (memory_address c) x acc (read_register (state c) (op_register (instr c) 1)) c
    (compare_exchange flags acc w c)"
proof -
  let ?a = "memory_address c" and ?acc = "read_register (state c) acc"
    and ?y = "read_register (state c) (op_register (instr c) 1)"
  obtain m where m: "read_operand c 0 w = (Some x, c\<lparr>mem := m\<rparr>)" "plain m" "tlb_variant (mem c) m"
    using read_memory_operand [OF c(2) w c(3)] x by auto
  have h: "compare_exchange flags acc w c = (
      if x = ?acc then and_then (write_operand_checked (c\<lparr>mem := m\<rparr>) 0 ?y w)
        (\<lambda>c1. (no_stop, upd_state (flags ?acc x True) c1))
      else (no_stop, c\<lparr>state := flags ?acc x False (write_register (state c) acc x w), mem := m\<rparr>))"
    using m(1) by (simp add: compare_exchange_def with_operand_def Let_def)
  have mw: "may_write (c\<lparr>mem := m\<rparr>) ?a w = may_write c ?a w"
    using m(3) by (simp add: may_write_def tlb_variant_fields)
  show ?thesis
  proof (cases "x = ?acc")
    case True
    obtain m' where m': "write_operand_checked (c\<lparr>mem := m\<rparr>) 0 ?y w =
        (if may_write c ?a w then no_stop else memory_fault c ?a, c\<lparr>mem := m'\<rparr>)"
      "may_write c ?a w \<Longrightarrow> fst (ctx_read (c\<lparr>mem := m'\<rparr>) ?a w) = Some (take_bit (8 * w) ?y)"
      using write_operand_checked_plain [of "c\<lparr>mem := m\<rparr>" w 0 ?y] m(2) w c(3) mw by auto
    moreover have "pages m' = stored_pages w ?a ?y (pages (mem c))"
      using write_operand_checked_pages [of "c\<lparr>mem := m\<rparr>" w 0 ?y] m(2,3) w c(3) m'(1)
      by (simp add: tlb_variant_fields)
    ultimately show ?thesis using True fl by (simp add: h cmpxchg_effect_def and_then_def)
  next
    case False
    obtain f where f: "flags ?acc x False (write_register (state c) acc x w) = (write_register (state c) acc x w)\<lparr>rflags := f\<rparr>"
      "\<not> bit f 6"
      using fl [of "write_register (state c) acc x w" ?acc x False] by (auto simp: only_rflags_def)
    have "fst (ctx_read (c\<lparr>mem := m\<rparr>) ?a w) = Some x"
      using ctx_read_frame [OF c(2) w, of "c\<lparr>mem := m\<rparr>" ?a] m x by (simp add: tlb_variant_fields)
    moreover have "read_register (write_register (state c) acc x w) acc = x"
      using read_write_register [OF c(1) acc(1), of x] cm.load_range [OF c(2) w x]
        write_register_override [OF acc(1)] reg_part_width [OF acc(1)] by simp
    moreover have "gpr (write_register (state c) acc x w) ! i = gpr (state c) ! i" if "i \<noteq> 0" for i
      using that acc by (simp add: reg_part_gpr write_gpr_def Let_def)
    ultimately show ?thesis using False f m(3) by (simp add: h cmpxchg_effect_def)
  qed
qed

definition cmpxchg_catalog :: "('w handler \<times> register \<times> nat) list" where
  "cmpxchg_catalog =
    [(handle_code_CMPXCHG_RM8_R8, AL, 1), (handle_code_CMPXCHG_RM16_R16, AX, 2),
     (handle_code_CMPXCHG_RM32_R32, EAX, 4), (handle_code_CMPXCHG_RM64_R64, RAX, 8),
     (handle_code_CMPXCHG486_RM8_R8, AL, 1), (handle_code_CMPXCHG486_RM16_R16, AX, 2),
     (handle_code_CMPXCHG486_RM32_R32, EAX, 4)]"

lemmas cmpxchg_handler_defs =
  handle_code_CMPXCHG_RM8_R8_def handle_code_CMPXCHG_RM16_R16_def handle_code_CMPXCHG_RM32_R32_def
  handle_code_CMPXCHG_RM64_R64_def handle_code_CMPXCHG486_RM8_R8_def handle_code_CMPXCHG486_RM16_R16_def
  handle_code_CMPXCHG486_RM32_R32_def cmpxchg_def cmpxchg486_def

lemma cmpxchg_flags_zf:
  "only_rflags s (set_cmpxchg_flags a b w ok s) \<and> (flag_ZF (set_cmpxchg_flags a b w ok s) \<longleftrightarrow> ok)"
  "only_rflags s (put_flag kFlagZF ok s) \<and> (flag_ZF (put_flag kFlagZF ok s) \<longleftrightarrow> ok)"
  by (auto simp: set_cmpxchg_flags_def Let_def put_flag_def only_rflags_def put_flags_state)

text \<open>C38: CMPXCHG and CMPXCHG486 with a memory destination, at every width. An unreadable destination is a page fault
  with the state unchanged and the memory unchanged but for its lookup cache. When the destination equals the accumulator
  the source is stored: if every byte may be written the destination reads back as the source, ZF is set and only the
  flags of the state change; otherwise the result is a page fault at the destination and registers and flags are
  unchanged, but the bytes before the first one that may not be written have been overwritten, as the page table after
  the store says. Any other value goes to the accumulator, ZF is clear, no other general-purpose register changes and
  the memory keeps its contents.\<close>

theorem cmpxchg_memory_semantics:
  assumes "(h, acc, w) \<in> set cmpxchg_catalog" "wf_cpu (state c)" "plain (mem c)" "op_kind (instr c) 0 = MEMORY"
  shows "case fst (ctx_read c (memory_address c) w) of
      None \<Rightarrow> fst (h c) = memory_fault c (memory_address c) \<and> state (snd (h c)) = state c \<and>
        tlb_variant (mem c) (mem (snd (h c)))
    | Some x \<Rightarrow> cmpxchg_effect w (memory_address c) x acc (read_register (state c) (op_register (instr c) 1)) c (h c)"
proof -
  obtain flags where h: "h = compare_exchange flags acc w"
    and fl: "\<And>a b ok s. only_rflags s (flags a b ok s) \<and> (flag_ZF (flags a b ok s) \<longleftrightarrow> ok)"
    and acc: "valid_width w" "reg_part acc = Some (0, 8 * w)" "reg_index acc = 0"
    using assms(1) cmpxchg_flags_zf
    unfolding cmpxchg_catalog_def cmpxchg_handler_defs by (auto simp: valid_width_def)
  show ?thesis
  proof (cases "fst (ctx_read c (memory_address c) w)")
    case None
    then show ?thesis using read_memory_operand [OF assms(3) acc(1) assms(4)]
      by (auto simp: h compare_exchange_def with_operand_def)
  next
    case (Some x)
    then show ?thesis using compare_exchange_memory [OF acc fl assms(2-4)] by (simp add: h)
  qed
qed

text \<open>The status flags CMPXCHG computes by its own formulas are those CMP sets for the same operands, at every width.\<close>

theorem cmpxchg_flags_as_cmp:
  assumes "valid_width w"
  shows "set_cmpxchg_flags a b w (a AND mask_for_width w = b AND mask_for_width w) s = snd (alu_sub s a b w)"
  using cmpxchg_flags_sub [OF assms] by (simp add: alu_sub_def Let_def)

section \<open>Byte order\<close>

lemma byteswap_byteswap:
  assumes "w \<le> 8"
  shows "byteswap w (byteswap w v) = take_bit (8 * w) v"
proof -
  have "le_bytes w (byteswap w v) = rev (le_bytes w v)"
    using le_bytes_of_le_bytes [of "rev (le_bytes w v)", where 'a = 64] assms by (simp add: byteswap_def)
  then show ?thesis by (simp add: byteswap_def of_le_bytes_le_bytes)
qed

lemma take_bit_byteswap: "w \<le> 8 \<Longrightarrow> take_bit (8 * w) (byteswap w v) = byteswap w v"
  using take_bit_of_le_bytes [of "rev (le_bytes w v)"] by (simp add: byteswap_def)

lemma bit_byteswap:
  assumes "w \<le> 8"
  shows "bit (byteswap w v) k \<longleftrightarrow> k < 8 * w \<and> bit v (8 * (w - 1 - k div 8) + k mod 8)"
proof (cases "k < 8 * w")
  case True
  then have "k div 8 < w" "w - Suc (k div 8) < w" "k < 64" using assms by auto
  then show ?thesis
    using True by (simp add: byteswap_def bit_of_le_bytes rev_nth bit_le_bytes_nth del: nth_le_bytes)
next
  case False
  then show ?thesis by (auto simp: byteswap_def bit_of_le_bytes)
qed

lemma byte_masks:
  "(0xFF00 :: u64) = push_bit 8 (mask 8)" "(0xFF0000 :: u64) = push_bit 16 (mask 8)"
  "(0xFF000000 :: u64) = push_bit 24 (mask 8)" "(0xFF00000000 :: u64) = push_bit 32 (mask 8)"
  "(0xFF0000000000 :: u64) = push_bit 40 (mask 8)" "(0xFF000000000000 :: u64) = push_bit 48 (mask 8)"
  "(0xFF00000000000000 :: u64) = push_bit 56 (mask 8)" "(0xFF :: u64) = mask 8"
  by (simp_all add: mask_eq_exp_minus_1 push_bit_eq_mult)

text \<open>One byte moved to another place.\<close>

lemma bit_moved_byte:
  "bit (push_bit n (v AND push_bit m (mask 8))) (8 * q + r) \<longleftrightarrow>
     8 * q + r < 64 \<and> n \<le> 8 * q + r \<and> m \<le> 8 * q + r - n \<and> 8 * q + r - n < m + 8 \<and> bit v (8 * q + r - n)"
  "bit (drop_bit n (v AND push_bit m (mask 8))) (8 * q + r) \<longleftrightarrow>
     m \<le> 8 * q + r + n \<and> 8 * q + r + n < m + 8 \<and> bit v (8 * q + r + n)" for v :: u64
  by (auto simp: bit_push_bit_iff bit_drop_bit_eq bit_and_iff bit_mask_iff add.commute dest: bit_imp_le_length)

lemma bit_byteswap_at:
  assumes "r < 8" "w \<le> 8"
  shows "bit (byteswap w v) (8 * q + r) \<longleftrightarrow> q < w \<and> bit v (8 * (w - 1 - q) + r)"
proof -
  have "(8 * q + r) div 8 = q" "(8 * q + r) mod 8 = r" "8 * q + r < 8 * w \<longleftrightarrow> q < w" using assms(1) by auto
  then show ?thesis by (simp add: bit_byteswap [OF assms(2)])
qed

lemma byte_cases:
  fixes k :: nat
  assumes "k < 64"
  obtains q r where "k = 8 * q + r" "r < 8" "q = 0 \<or> q = 1 \<or> q = 2 \<or> q = 3 \<or> q = 4 \<or> q = 5 \<or> q = 6 \<or> q = 7"
proof (rule that [of "k div 8" "k mod 8"])
  have "k div 8 < 8" using assms by linarith
  then show "k div 8 = 0 \<or> k div 8 = 1 \<or> k div 8 = 2 \<or> k div 8 = 3 \<or> k div 8 = 4 \<or> k div 8 = 5 \<or>
      k div 8 = 6 \<or> k div 8 = 7" by linarith
qed simp_all

lemma byte_eqI:
  assumes "\<And>q r. r < 8 \<Longrightarrow> q = 0 \<or> q = 1 \<or> q = 2 \<or> q = 3 \<or> q = 4 \<or> q = 5 \<or> q = 6 \<or> q = 7 \<Longrightarrow>
    bit a (8 * q + r) = bit b (8 * q + r)"
  shows "a = (b :: u64)"
proof (rule bit_word_eqI)
  fix k assume "k < LENGTH(64)"
  then obtain q r where "k = 8 * q + r" "r < 8"
    "q = 0 \<or> q = 1 \<or> q = 2 \<or> q = 3 \<or> q = 4 \<or> q = 5 \<or> q = 6 \<or> q = 7" using byte_cases [of k] by auto
  then show "bit a k = bit b k" using assms by blast
qed

lemma bswap_exprs:
  fixes v :: u64
  shows "take_bit 16 (push_bit 8 (v AND push_bit 0 (mask 8)) OR drop_bit 8 (v AND push_bit 8 (mask 8))) = byteswap 2 v"
    and "take_bit 32 (push_bit 24 (v AND push_bit 0 (mask 8)) OR push_bit 8 (v AND push_bit 8 (mask 8)) OR
      drop_bit 8 (v AND push_bit 16 (mask 8)) OR drop_bit 24 (v AND push_bit 24 (mask 8))) = byteswap 4 v"
    and "take_bit 64 (push_bit 56 (v AND push_bit 0 (mask 8)) OR push_bit 40 (v AND push_bit 8 (mask 8)) OR
      push_bit 24 (v AND push_bit 16 (mask 8)) OR push_bit 8 (v AND push_bit 24 (mask 8)) OR
      drop_bit 8 (v AND push_bit 32 (mask 8)) OR drop_bit 24 (v AND push_bit 40 (mask 8)) OR
      drop_bit 40 (v AND push_bit 48 (mask 8)) OR drop_bit 56 (v AND push_bit 56 (mask 8))) = byteswap 8 v"
  by (rule byte_eqI; simp only: bit_take_bit_iff bit_or_iff bit_moved_byte bit_byteswap_at;
      elim disjE; simp add: add.commute)+

lemma bswap_reg_byteswap:
  assumes "\<And>v. take_bit (8 * w) (f v) = byteswap w v"
    "wf_cpu (state c)" "op_register (instr c) 0 = r" "reg_part r = Some (0, 8 * w)"
  shows "\<exists>s'. bswap_reg f w c = (no_stop, c\<lparr>state := s'\<rparr>) \<and> wf_cpu s' \<and>
    read_register s' r = byteswap w (read_register (state c) r)"
  using assms read_write_register [OF assms(2,4), of "f (read_register (state c) r)"]
    write_register_override [OF assms(4)] reg_part_width [OF assms(4)]
  by (auto simp: bswap_reg_def register_0_def intro: write_register_wf)

definition bswap_catalog :: "('w handler \<times> nat) list" where
  "bswap_catalog = [(handle_code_BSWAP_R16, 2), (handle_code_BSWAP_R32, 4), (handle_code_BSWAP_R64, 8)]"

lemma bswap_catalog_swap:
  assumes "(h, w) \<in> set bswap_catalog"
  obtains f where "h = bswap_reg f w" "\<And>v. take_bit (8 * w) (f v) = byteswap w v" "w \<le> 8"
proof -
  have 2: "drop_bit 8 v AND 0xFF = drop_bit 8 (v AND push_bit 8 (mask 8))" for v :: u64
    by (rule bit_word_eqI) (auto simp: byte_masks(8) bit_and_iff bit_drop_bit_eq bit_push_bit_iff bit_mask_iff)
  have 0: "(0xFF :: u64) = push_bit 0 (mask 8)" by (simp add: byte_masks(8))
  show thesis
    using assms bswap_exprs that
    unfolding bswap_catalog_def handle_code_BSWAP_R16_def handle_code_BSWAP_R32_def handle_code_BSWAP_R64_def
      byte_masks(1-7) 2 unfolding 0 by auto
qed

lemma register_range: "reg_part r = Some (0, n) \<Longrightarrow> take_bit n (read_register s r) = read_register s r"
  by (rule bit_word_eqI) (auto simp: reg_part_gpr read_gpr_bits bit_take_bit_iff)

text \<open>BSWAP reverses the bytes of its register, as \<^verbatim>\<open>std::byteswap\<close> does for MOVBE, and a second BSWAP restores it, at every width.\<close>

theorem bswap_involution:
  assumes "(h, w) \<in> set bswap_catalog" "wf_cpu (state c)" "op_register (instr c) 0 = r" "reg_part r = Some (0, 8 * w)"
  shows "\<exists>s1 s2. h c = (no_stop, c\<lparr>state := s1\<rparr>) \<and> read_register s1 r = byteswap w (read_register (state c) r) \<and>
    h (c\<lparr>state := s1\<rparr>) = (no_stop, c\<lparr>state := s2\<rparr>) \<and> read_register s2 r = read_register (state c) r"
proof -
  obtain f where f: "h = bswap_reg f w" "\<And>v. take_bit (8 * w) (f v) = byteswap w v" "w \<le> 8"
    using bswap_catalog_swap [OF assms(1)] by blast
  obtain s1 where s1: "h c = (no_stop, c\<lparr>state := s1\<rparr>)" "wf_cpu s1"
    "read_register s1 r = byteswap w (read_register (state c) r)"
    using bswap_reg_byteswap [OF f(2) assms(2-4)] f(1) by auto
  obtain s2 where "h (c\<lparr>state := s1\<rparr>) = (no_stop, c\<lparr>state := s2\<rparr>)"
    "read_register s2 r = byteswap w (read_register s1 r)"
    using bswap_reg_byteswap [OF f(2), of "c\<lparr>state := s1\<rparr>" r] s1(2) assms(3,4) f(1) by auto
  then show ?thesis using s1 byteswap_byteswap [OF f(3)] register_range [OF assms(4)] by auto
qed

text \<open>What MOVBE stores, MOVBE loads back: a big-endian store of a register followed by a big-endian load from the same address
  gives the same value, at every width.\<close>

theorem movbe_roundtrip:
  assumes "valid_width w" "wf_cpu (state c)" "plain (mem c)" "op_kind (instr c) 0 = MEMORY" "op_kind (instr c) 1 = REGISTER"
    and "movbe_m_r w c = (no_stop, c1)" and "op_kind i 1 = MEMORY" "op_register i 0 = r" "reg_part r = Some (0, 8 * w)"
    and "memory_address (c1\<lparr>instr := i\<rparr>) = memory_address c"
  shows "\<exists>c2. movbe_r_m w (c1\<lparr>instr := i\<rparr>) = (no_stop, c2) \<and>
    read_register (state c2) r = take_bit (8 * w) (read_register (state c) (op_register (instr c) 1))"
proof -
  let ?v = "read_register (state c) (op_register (instr c) 1)" and ?a = "memory_address c" and ?c = "c1\<lparr>instr := i\<rparr>"
  have w: "w \<le> 8" using valid_width_bounds [OF assms(1)] by simp
  obtain m where m: "c1 = c\<lparr>mem := m\<rparr>" "plain m" "may_write c ?a w"
      "fst (ctx_read (c\<lparr>mem := m\<rparr>) ?a w) = Some (byteswap w ?v)"
    using write_operand_checked_plain [OF assms(3,1,4), of "byteswap w ?v"] assms(5,6)
    by (auto simp: movbe_m_r_def with_register_operand take_bit_byteswap [OF w] split: if_splits)
  obtain m' where "read_operand ?c 1 w = (Some (byteswap w ?v), ?c\<lparr>mem := m'\<rparr>)"
    using read_memory_operand [of ?c w 1] m assms(1,7,10) by (auto simp: ctx_read_def split: prod.splits)
  then have "movbe_r_m w ?c = (no_stop, ?c\<lparr>mem := m', state := write_register (state c) r (take_bit (8 * w) ?v) w\<rparr>)"
    using m(1) assms(8) byteswap_byteswap [OF w] by (simp add: movbe_r_m_def with_operand_def put_reg_0_def)
  then show ?thesis
    using read_write_register [OF assms(2,9)] write_register_override [OF assms(9)] reg_part_width [OF assms(9)] by simp
qed

section \<open>Exchanges\<close>

definition xadd_catalog :: "('w handler \<times> nat) list" where
  "xadd_catalog = [(handle_code_XADD_RM8_R8, 1), (handle_code_XADD_RM16_R16, 2), (handle_code_XADD_RM32_R32, 4),
     (handle_code_XADD_RM64_R64, 8)]"

lemma write_operand_checked_register:
  "op_kind (instr c) k = REGISTER \<Longrightarrow> write_operand_checked c k v w =
     (no_stop, c\<lparr>state := write_register (state c) (op_register (instr c) k) (take_bit (8 * w) v) 0\<rparr>)"
  by (simp add: write_operand_checked_def write_operand_def truncate_to_def and_mask_for_width)

text \<open>XADD on registers stores the sum in the destination and the old destination in the source. The source is written last: with the same register
  twice the sum is lost and the register keeps its old value.\<close>

theorem xadd_semantics:
  assumes "(h, w) \<in> set xadd_catalog" "wf_cpu (state c)" "op_kind (instr c) 0 = REGISTER" "op_kind (instr c) 1 = REGISTER"
    and "op_register (instr c) 0 = r" "reg_part r = Some (lo, 8 * w)"
    and "op_register (instr c) 1 = q" "reg_part q = Some (lo', 8 * w)" "q = r \<or> reg_index q \<noteq> reg_index r"
  shows "\<exists>s'. h c = (no_stop, c\<lparr>state := s'\<rparr>) \<and> read_register s' q = read_register (state c) r \<and>
    (q \<noteq> r \<longrightarrow> read_register s' r = take_bit (8 * w) (read_register (state c) r + read_register (state c) q))"
proof -
  have h: "h = xadd w" using assms(1)
    by (auto simp: xadd_catalog_def handle_code_XADD_RM8_R8_def handle_code_XADD_RM16_R16_def
        handle_code_XADD_RM32_R32_def handle_code_XADD_RM64_R64_def)
  let ?x = "read_register (state c) r" and ?y = "read_register (state c) q"
  let ?s0 = "set_add_flags (state c) ?x ?y (?x + ?y) w False"
  let ?s1 = "write_register ?s0 r (take_bit (8 * w) (?x + ?y)) 0"
  let ?s2 = "write_register ?s1 q (take_bit (8 * w) ?x) 0"
  have "h c = (no_stop, c\<lparr>state := ?s2\<rparr>)"
    using assms(3-8) by (simp add: h xadd_def with_register_operand write_operand_checked_register and_then_def Let_def)
  moreover have wf: "wf_cpu ?s0" "wf_cpu ?s1"
    using only_rflags_wf [OF flag_setters_only(1) assms(2)] by (auto intro: write_register_wf)
  have "take_bit (8 * w) ?x = ?x"
    using assms(6) by (intro bit_word_eqI) (auto simp: reg_part_gpr read_gpr_bits bit_take_bit_iff)
  then have "read_register ?s2 q = ?x" using read_write_register [OF wf(2) assms(8)] by simp
  moreover have "read_register ?s2 r = take_bit (8 * w) (?x + ?y)" if "q \<noteq> r"
    using that assms(6,8,9) read_write_register [OF wf(1) assms(6)] by (simp add: read_write_register_other)
  ultimately show ?thesis by auto
qed

definition moffs_store_catalog :: "('w handler \<times> nat) list" where
  "moffs_store_catalog = [(handle_code_MOV_MOFFS8_AL, 1), (handle_code_MOV_MOFFS16_AX, 2),
     (handle_code_MOV_MOFFS32_EAX, 4), (handle_code_MOV_MOFFS64_RAX, 8)]"

text \<open>MOV to a memory offset (opcodes A2 and A3), whose operands are the memory and then the accumulator, loads: the accumulator takes the value in memory and no byte of
  memory changes.\<close>

theorem mov_moffs_loads:
  assumes "(h, w) \<in> set moffs_store_catalog" "wf_cpu (state c)" "plain (mem c)" "op_kind (instr c) 0 = MEMORY"
    and "op_kind (instr c) 1 = REGISTER" "op_register (instr c) 1 = r" "reg_part r = Some (0, 8 * w)"
    and "fst (ctx_read c (memory_address c) w) = Some x"
  shows "fst (h c) = no_stop \<and> read_register (state (snd (h c))) r = x \<and> pages (mem (snd (h c))) = pages (mem c)"
proof -
  have h: "h = mov_from_0_to_1 w" "valid_width w" using assms(1)
    by (auto simp: moffs_store_catalog_def handle_code_MOV_MOFFS8_AL_def handle_code_MOV_MOFFS16_AX_def
        handle_code_MOV_MOFFS32_EAX_def handle_code_MOV_MOFFS64_RAX_def valid_width_def)
  obtain m where "read_operand c 0 w = (Some x, c\<lparr>mem := m\<rparr>)" "tlb_variant (mem c) m"
    using read_memory_operand [OF assms(3) h(2) assms(4)] assms(8) by auto
  then show ?thesis
    using assms(5,6) read_write_register [OF assms(2,7)] cm.load_range [OF assms(3) h(2) assms(8)]
    by (simp add: h(1) mov_from_0_to_1_def with_operand_def write_operand_checked_register tlb_variant_fields)
qed

section \<open>Concrete instructions\<close>

text \<open>\<^verbatim>\<open>cmpxchg [0x1ffe], cx\<close>, \<^verbatim>\<open>bswap ecx\<close>, \<^verbatim>\<open>movbe [0x1ffe], ecx\<close> and back, \<^verbatim>\<open>xadd cl, cl\<close>, \<^verbatim>\<open>mov [0x1ffe], ax\<close>.\<close>

definition cmpxchg_mem_cx :: instruction where
  "cmpxchg_mem_cx = null_instruction\<lparr>code := ''CMPXCHG_RM16_R16'', op_kind := (\<lambda>k. if k = 0 then MEMORY else REGISTER),
     op_register := (\<lambda>_. CX), memory_displacement64 := 0x1FFE\<rparr>"

definition bswap_ecx :: instruction where
  "bswap_ecx = null_instruction\<lparr>code := ''BSWAP_R32'', op_register := (\<lambda>_. ECX)\<rparr>"

definition movbe_mem_ecx :: instruction where
  "movbe_mem_ecx = null_instruction\<lparr>code := ''MOVBE_M32_R32'', op_kind := (\<lambda>k. if k = 0 then MEMORY else REGISTER),
     op_register := (\<lambda>_. ECX), memory_displacement64 := 0x1FFE\<rparr>"

definition movbe_edx_mem :: instruction where
  "movbe_edx_mem = null_instruction\<lparr>code := ''MOVBE_R32_M32'', op_kind := (\<lambda>k. if k = 0 then REGISTER else MEMORY),
     op_register := (\<lambda>_. EDX), memory_displacement64 := 0x1FFE\<rparr>"

definition xadd_cl_cl :: instruction where
  "xadd_cl_cl = null_instruction\<lparr>code := ''XADD_RM8_R8'', op_register := (\<lambda>_. CL)\<rparr>"

definition mov_mem_ax :: instruction where
  "mov_mem_ax = null_instruction\<lparr>code := ''MOV_MOFFS16_AX'', op_kind := (\<lambda>k. if k = 0 then MEMORY else REGISTER),
     op_register := (\<lambda>_. AX), memory_displacement64 := 0x1FFE\<rparr>"

lemma demo_address:
  "i \<in> {cmpxchg_mem_cx, movbe_mem_ecx, movbe_edx_mem, mov_mem_ax} \<Longrightarrow> memory_address ((demo_ctx j)\<lparr>mem := m, instr := i\<rparr>) = 0x1FFE"
  "i \<in> {cmpxchg_mem_cx, movbe_mem_ecx, movbe_edx_mem, mov_mem_ax} \<Longrightarrow> memory_address (demo_ctx i) = 0x1FFE"
  by (auto simp: memory_address_def demo_ctx_def null_instruction_def cmpxchg_mem_cx_def movbe_mem_ecx_def movbe_edx_mem_def
      mov_mem_ax_def initial_cpu_state_def mask_linear_address_def mode_address_mask_def)

lemma demo_may_write: "w \<le> 4 \<Longrightarrow> may_write (demo_ctx i) 0x1FFE w"
proof -
  have "allowed_at (can data_write) (pages demo_memory) (0x1FFE + word_of_nat j)" if "j < 4" for j
  proof -
    have "j = 0 \<or> j = 1 \<or> j = 2 \<or> j = 3" using that by linarith
    then show ?thesis
      by (auto simp: allowed_at_def demo_pages kPageSize_def zero_page_def kMemoryPermissionAll_def perm_read_def
          perm_write_def perm_execute_def)
  qed
  then show "w \<le> 4 \<Longrightarrow> ?thesis" by (simp add: may_write_def demo_ctx_def)
qed

lemma demo_context: "wf_cpu (state (demo_ctx i))" "plain (mem (demo_ctx i))" "instr (demo_ctx i) = i"
  using initial_wf demo_plain by (simp_all add: demo_ctx_def)

theorem cmpxchg_memory_semantics_witness:
  "\<exists>x. fst (ctx_read (demo_ctx cmpxchg_mem_cx) 0x1FFE 2) = Some x \<and>
     cmpxchg_effect 2 0x1FFE x AX (read_register (state (demo_ctx cmpxchg_mem_cx)) CX) (demo_ctx cmpxchg_mem_cx)
       (handle_code_CMPXCHG_RM16_R16 (demo_ctx cmpxchg_mem_cx))"
proof -
  have k: "op_kind (instr (demo_ctx cmpxchg_mem_cx)) 0 = MEMORY" "op_register (instr (demo_ctx cmpxchg_mem_cx)) 1 = CX"
    by (simp_all add: demo_context cmpxchg_mem_cx_def)
  have a: "memory_address (demo_ctx cmpxchg_mem_cx) = 0x1FFE" by (rule demo_address) simp
  obtain x where x: "fst (ctx_read (demo_ctx cmpxchg_mem_cx) 0x1FFE 2) = Some x"
    using may_write_read [OF demo_context(2) _ demo_may_write, of 2 cmpxchg_mem_cx] by (auto simp: valid_width_def)
  have "(handle_code_CMPXCHG_RM16_R16, AX, 2) \<in> set cmpxchg_catalog" by (simp add: cmpxchg_catalog_def)
  then show ?thesis
    using cmpxchg_memory_semantics [OF _ demo_context(1,2) k(1)] x unfolding a k(2) by fastforce
qed

theorem cmpxchg_flags_as_cmp_witness:
  "set_cmpxchg_flags 0x80 1 1 (0x80 AND mask_for_width 1 = 1 AND mask_for_width 1) initial_cpu_state =
    snd (alu_sub initial_cpu_state 0x80 1 1)"
  using cmpxchg_flags_as_cmp [of 1 "0x80" 1 initial_cpu_state] by (simp add: valid_width_def)

theorem bswap_involution_witness:
  "\<exists>s1 s2. handle_code_BSWAP_R32 (demo_ctx bswap_ecx) = (no_stop, (demo_ctx bswap_ecx)\<lparr>state := s1\<rparr>) \<and>
    handle_code_BSWAP_R32 ((demo_ctx bswap_ecx)\<lparr>state := s1\<rparr>) = (no_stop, (demo_ctx bswap_ecx)\<lparr>state := s2\<rparr>) \<and>
    read_register s2 ECX = read_register initial_cpu_state ECX"
proof -
  have "(handle_code_BSWAP_R32, 4) \<in> set bswap_catalog" by (simp add: bswap_catalog_def)
  moreover have "op_register (instr (demo_ctx bswap_ecx)) 0 = ECX" "state (demo_ctx bswap_ecx) = initial_cpu_state"
    by (simp_all add: demo_ctx_def bswap_ecx_def)
  ultimately show ?thesis using bswap_involution [OF _ demo_context(1), of handle_code_BSWAP_R32 4 bswap_ecx ECX] by auto
qed

theorem movbe_roundtrip_witness:
  "\<exists>c1 c2. movbe_m_r 4 (demo_ctx movbe_mem_ecx) = (no_stop, c1) \<and>
    movbe_r_m 4 (c1\<lparr>instr := movbe_edx_mem\<rparr>) = (no_stop, c2) \<and>
    read_register (state c2) EDX = take_bit (8 * 4) (read_register (state (demo_ctx movbe_mem_ecx)) ECX)"
proof -
  let ?c = "demo_ctx movbe_mem_ecx"
  have k: "op_kind (instr ?c) 0 = MEMORY" "op_kind (instr ?c) 1 = REGISTER" "op_register (instr ?c) 1 = ECX"
    "op_kind movbe_edx_mem 1 = MEMORY" "op_register movbe_edx_mem 0 = EDX"
    by (simp_all add: demo_context movbe_mem_ecx_def movbe_edx_mem_def)
  have a: "memory_address ?c = 0x1FFE" by (rule demo_address) simp
  have w: "valid_width 4" by (simp add: valid_width_def)
  obtain m where m: "movbe_m_r 4 ?c = (no_stop, ?c\<lparr>mem := m\<rparr>)"
    using write_operand_checked_plain [OF demo_context(2) w k(1)] demo_may_write [of 4 movbe_mem_ecx] k(2)
    unfolding a by (fastforce simp: movbe_m_r_def with_register_operand)
  have "memory_address (?c\<lparr>mem := m, instr := movbe_edx_mem\<rparr>) = memory_address ?c"
    unfolding a by (rule demo_address) simp
  then show ?thesis
    using movbe_roundtrip [OF w demo_context(1,2) k(1,2) m k(4,5)] m k(3) by auto
qed

theorem xadd_semantics_witness:
  "\<exists>s'. handle_code_XADD_RM8_R8 (demo_ctx xadd_cl_cl) = (no_stop, (demo_ctx xadd_cl_cl)\<lparr>state := s'\<rparr>) \<and>
    read_register s' CL = read_register (state (demo_ctx xadd_cl_cl)) CL"
proof -
  have "(handle_code_XADD_RM8_R8, 1) \<in> set xadd_catalog" by (simp add: xadd_catalog_def)
  moreover have "op_register (instr (demo_ctx xadd_cl_cl)) k = CL" "op_kind (instr (demo_ctx xadd_cl_cl)) k = REGISTER" for k
    by (simp_all add: demo_context xadd_cl_cl_def null_instruction_def)
  ultimately show ?thesis
    using xadd_semantics [OF _ demo_context(1), of handle_code_XADD_RM8_R8 1 xadd_cl_cl CL 0 CL 0] by auto
qed

theorem mov_moffs_loads_witness:
  "\<exists>x. fst (ctx_read (demo_ctx mov_mem_ax) 0x1FFE 2) = Some x \<and>
    read_register (state (snd (handle_code_MOV_MOFFS16_AX (demo_ctx mov_mem_ax)))) AX = x \<and>
    pages (mem (snd (handle_code_MOV_MOFFS16_AX (demo_ctx mov_mem_ax)))) = pages demo_memory"
proof -
  have k: "op_kind (instr (demo_ctx mov_mem_ax)) 0 = MEMORY" "op_kind (instr (demo_ctx mov_mem_ax)) 1 = REGISTER"
    "op_register (instr (demo_ctx mov_mem_ax)) 1 = AX" "mem (demo_ctx mov_mem_ax) = demo_memory"
    by (simp_all add: demo_ctx_def mov_mem_ax_def)
  have a: "memory_address (demo_ctx mov_mem_ax) = 0x1FFE" by (rule demo_address) simp
  obtain x where x: "fst (ctx_read (demo_ctx mov_mem_ax) 0x1FFE 2) = Some x"
    using may_write_read [OF demo_context(2) _ demo_may_write, of 2 mov_mem_ax] by (auto simp: valid_width_def)
  have "(handle_code_MOV_MOFFS16_AX, 2) \<in> set moffs_store_catalog" by (simp add: moffs_store_catalog_def)
  then show ?thesis
    using mov_moffs_loads [OF _ demo_context(1,2) k(1-3)] x k(4) unfolding a by fastforce
qed

end
