(* ===== verification/Bmi_Facts.thy ===== *)
theory Bmi_Facts
  imports Data_Facts
begin

text \<open>
  The BMI instructions bit by bit: which bit of the sources each bit of the result is.
\<close>

section \<open>Reference semantics\<close>

datatype bmi_op = M_ANDN | M_BEXTR | M_BZHI | M_BLSI | M_BLSR | M_BLSMSK | M_PDEP | M_PEXT
  | M_RORX | M_SARX | M_SHLX | M_SHRX

text \<open>Bit \<open>k\<close> of the result at width \<open>w\<close> on the sources \<open>x\<close> and \<open>y\<close>.\<close>

fun bmi_bit :: "bmi_op \<Rightarrow> nat \<Rightarrow> u64 \<Rightarrow> u64 \<Rightarrow> nat \<Rightarrow> bool" where
  "bmi_bit M_ANDN w x y k \<longleftrightarrow> \<not> bit x k \<and> bit y k"
| "bmi_bit M_BEXTR w x y k \<longleftrightarrow> k < unat y div 256 mod 256 \<and> unat y mod 256 + k < 8 * w \<and> bit x (unat y mod 256 + k)"
| "bmi_bit M_BZHI w x y k \<longleftrightarrow> k < unat y mod 256 \<and> bit x k"
| "bmi_bit M_BLSI w x y k \<longleftrightarrow> lowest_bit x k"
| "bmi_bit M_BLSR w x y k \<longleftrightarrow> bit x k \<and> \<not> lowest_bit x k"
| "bmi_bit M_BLSMSK w x y k \<longleftrightarrow> (\<forall>i<k. \<not> bit x i)"
| "bmi_bit M_PDEP w x y k \<longleftrightarrow> bit y k \<and> bit x (rank y k)"
| "bmi_bit M_PEXT w x y k \<longleftrightarrow> (\<exists>i<8 * w. bit y i \<and> rank y i = k \<and> bit x i)"
| "bmi_bit M_RORX w x y k \<longleftrightarrow> bit x ((k + unat y) mod (8 * w))"
| "bmi_bit M_SARX w x y k \<longleftrightarrow> bit x (min (k + unat y mod (8 * w)) (8 * w - 1))"
| "bmi_bit M_SHLX w x y k \<longleftrightarrow> unat y mod (8 * w) \<le> k \<and> bit x (k - unat y mod (8 * w))"
| "bmi_bit M_SHRX w x y k \<longleftrightarrow> bit x (k + unat y mod (8 * w))"

section \<open>The functions of \<^verbatim>\<open>bmi.cpp\<close>\<close>

lemma bit_minus_1:
  fixes x :: u64
  assumes "lowest_bit x j"
  shows "bit (x - 1) k \<longleftrightarrow> k < 64 \<and> (if k < j then True else if k = j then False else bit x k)"
proof -
  have j: "j < 64" "bit x j" "\<And>i. i < j \<Longrightarrow> \<not> bit x i"
    using assms by (auto simp: lowest_bit_def dest: bit_imp_le_length)
  let ?y = "unset_bit j x"
  have "?y AND 2 ^ j = 0" "?y AND mask j = 0"
    using j(3) by (auto intro!: bit_word_eqI simp: bit_and_iff bit_unset_bit_iff bit_exp_iff bit_mask_iff)
  then have "?y + 2 ^ j = ?y OR 2 ^ j" "?y + mask j = ?y OR mask j" by (simp_all add: disjunctive_add_eq_or)
  moreover have "?y OR 2 ^ j = x"
    using j by (auto intro!: bit_word_eqI simp: bit_or_iff bit_unset_bit_iff bit_exp_iff)
  ultimately have "x - 1 = ?y OR mask j" by (simp add: mask_eq_exp_minus_1) (metis add_diff_eq)
  then show ?thesis
    using j by (auto simp: bit_or_iff bit_unset_bit_iff bit_mask_iff dest: bit_imp_le_length)
qed

lemma lowest_bit_unique: "lowest_bit x j \<Longrightarrow> lowest_bit x k \<Longrightarrow> j = k"
  by (metis lowest_bit_def linorder_less_linear)

lemma lowest_bit_functions:
  fixes x :: u64
  assumes "k < 64"
  shows "bit (x AND (NOT x + 1)) k \<longleftrightarrow> lowest_bit x k"
    and "bit (x AND (x - 1)) k \<longleftrightarrow> bit x k \<and> \<not> lowest_bit x k"
    and "bit (x XOR (x - 1)) k \<longleftrightarrow> (\<forall>i<k. \<not> bit x i)"
proof -
  have neg: "NOT x + 1 = NOT (x - 1)" by (simp add: not_eq_complement)
  show "bit (x AND (NOT x + 1)) k \<longleftrightarrow> lowest_bit x k"
    "bit (x AND (x - 1)) k \<longleftrightarrow> bit x k \<and> \<not> lowest_bit x k"
    "bit (x XOR (x - 1)) k \<longleftrightarrow> (\<forall>i<k. \<not> bit x i)"
  proof (atomize (full), cases "x = 0")
    case True
    then show "(bit (x AND (NOT x + 1)) k \<longleftrightarrow> lowest_bit x k) \<and> (bit (x AND (x - 1)) k \<longleftrightarrow> bit x k \<and> \<not> lowest_bit x k) \<and>
        (bit (x XOR (x - 1)) k \<longleftrightarrow> (\<forall>i<k. \<not> bit x i))"
      using assms by (simp add: lowest_bit_def)
  next
    case False
    then obtain j where j: "lowest_bit x j" using lowest_bit_exists by blast
    have "lowest_bit x k \<longleftrightarrow> k = j" using j lowest_bit_unique by blast
    moreover have "bit x j" "\<And>i. i < j \<Longrightarrow> \<not> bit x i" using j by (auto simp: lowest_bit_def)
    moreover have "(\<forall>i<k. \<not> bit x i) \<longleftrightarrow> k \<le> j" using calculation by (meson linorder_not_less order_less_le_trans)
    ultimately show "(bit (x AND (NOT x + 1)) k \<longleftrightarrow> lowest_bit x k) \<and> (bit (x AND (x - 1)) k \<longleftrightarrow> bit x k \<and> \<not> lowest_bit x k) \<and>
        (bit (x XOR (x - 1)) k \<longleftrightarrow> (\<forall>i<k. \<not> bit x i))"
      using assms by (auto simp: neg bit_and_iff bit_xor_iff bit_not_iff bit_minus_1 [OF j])
  qed
qed

lemma bit_width_mask_bmi: "w \<in> {4, 8} \<Longrightarrow> bit (width_mask_bmi w) k \<longleftrightarrow> k < 8 * w"
  by (auto simp: width_mask_bmi_def bit_not_iff bit_mask_iff simp flip: mask_eq_exp_minus_1 dest: bit_imp_le_length)

lemma unat_take_bit_word: "unat (take_bit n y) = unat y mod 2 ^ n" for y :: u64
  by (simp add: unsigned_take_bit_eq flip: take_bit_eq_mod)

lemma low_bytes: "unat (y AND 0xFF) = unat y mod 256" "unat (drop_bit 8 y) = unat y div 256" for y :: u64
proof -
  have "y AND 0xFF = take_bit 8 y" by (simp only: take_bit_eq_mask mask_eq_exp_minus_1) simp
  then show "unat (y AND 0xFF) = unat y mod 256" by (simp add: unat_take_bit_word)
  show "unat (drop_bit 8 y) = unat y div 256" by (simp add: drop_bit_eq_div unat_div_distrib)
qed

lemma shift_amount_bmi_eq: "w \<in> {4, 8} \<Longrightarrow> shift_amount_bmi w y = unat y mod (8 * w)"
  using unat_take_bit_word [of 5 y] unat_take_bit_word [of 6 y]
  by (auto simp: shift_amount_bmi_def take_bit_eq_mask mask_eq_exp_minus_1)

lemma bextr_loop:
  fixes v :: u64
  shows "n \<le> 64 \<Longrightarrow>
    bit (fold (\<lambda>i result. if drop_bit (s + i) v AND 1 \<noteq> 0 then result OR push_bit i 1 else result) [0..<n] (0 :: u64)) k
      \<longleftrightarrow> k < n \<and> bit v (s + k)"
  by (induction n) (auto simp: drop_bit_and_one_ne bit_or_iff bit_exp_iff less_Suc_eq)

lemma bit_bextr:
  assumes "w \<le> 8"
  shows "bit (bextr v y w) k \<longleftrightarrow>
    k < unat y div 256 mod 256 \<and> unat y mod 256 + k < 8 * w \<and> bit v (unat y mod 256 + k)"
  using assms unfolding bextr_def Let_def low_bytes by (auto simp: bextr_loop)

lemma bit_rotate_right_bmi:
  assumes "w \<in> {4, 8}" "k < 8 * w" "take_bit (8 * w) v = v"
  shows "bit (rotate_right_bmi v y w) k \<longleftrightarrow> bit v ((k + unat y) mod (8 * w))"
proof -
  define n where "n = unat y mod (8 * w)"
  have n: "n < 8 * w" using assms(1) by (auto simp: n_def)
  have "(k + unat y) mod (8 * w) = (k + n) mod (8 * w)" unfolding n_def by (simp add: mod_simps)
  also have "\<dots> = (if k + n < 8 * w then k + n else k + n - 8 * w)"
    using assms(2) n by (auto simp: mod_if)
  finally have e: "(k + unat y) mod (8 * w) = (if k + n < 8 * w then k + n else k + n - 8 * w)" .
  have r: "rotate_right_bmi v y w = (if n = 0 then v else drop_bit n v OR push_bit (8 * w - n) v)"
    using shift_amount_bmi_eq [OF assms(1), of y]
    by (simp add: rotate_right_bmi_def shift_amount_bmi_def Let_def mult.commute n_def)
  have "bit (drop_bit n v) k \<longleftrightarrow> bit v (n + k) \<and> n + k < 8 * w"
    using bit_below [OF assms(3)] by (auto simp: bit_drop_bit_eq)
  moreover have "bit (push_bit (8 * w - n) v) k \<longleftrightarrow> 8 * w - n \<le> k \<and> bit v (k - (8 * w - n))"
    using assms(1,2) by (auto simp: bit_push_bit_iff)
  moreover have "k - (8 * w - n) = k + n - 8 * w" using n by linarith
  ultimately show ?thesis
    unfolding e r using n assms(2) by (auto simp: bit_or_iff add.commute)
qed

lemma bit_arithmetic_shift_right:
  assumes "w \<in> {4, 8}" "k < 8 * w"
  shows "bit (arithmetic_shift_right v y w) k \<longleftrightarrow> bit v (min (k + unat y mod (8 * w)) (8 * w - 1))"
proof -
  define n where "n = unat y mod (8 * w)"
  have n: "n < 8 * w" "8 * w \<le> 64" using assms(1) by (auto simp: n_def)
  have "sign_extend v w = signed_take_bit (8 * w - 1) v" using assms(1) by (intro sign_extend_eq) auto
  then show ?thesis
    using assms n bit_width_mask_bmi [OF assms(1), of k]
    by (auto simp: arithmetic_shift_right_def Let_def shift_amount_bmi_eq [OF assms(1)] bit_and_iff bit_signed_drop_bit_iff
        bit_signed_take_bit_iff min_def add.commute simp flip: n_def)
qed

text \<open>The value each operation computes, in the terms of the source.\<close>

fun bmi_value :: "bmi_op \<Rightarrow> nat \<Rightarrow> u64 \<Rightarrow> u64 \<Rightarrow> u64" where
  "bmi_value M_ANDN w x y = NOT x AND y"
| "bmi_value M_BEXTR w x y = bextr x y w"
| "bmi_value M_BZHI w x y = (let index = unat (y AND 0xFF) in if index = 0 then 0 else if index < w * 8 then x AND (push_bit index 1 - 1) else x)"
| "bmi_value M_BLSI w x y = x AND (NOT x + 1)"
| "bmi_value M_BLSR w x y = x AND (x - 1)"
| "bmi_value M_BLSMSK w x y = x XOR (x - 1)"
| "bmi_value M_PDEP w x y = pdep x y w"
| "bmi_value M_PEXT w x y = pext x y w"
| "bmi_value M_RORX w x y = rotate_right_bmi x y w"
| "bmi_value M_SARX w x y = arithmetic_shift_right x y w"
| "bmi_value M_SHLX w x y = shift_left_bmi x y w"
| "bmi_value M_SHRX w x y = shift_right_bmi x y w"

lemma bit_bzhi:
  assumes "k < 8 * w" "w \<le> 8"
  shows "bit (bmi_value M_BZHI w x y) k \<longleftrightarrow> k < unat y mod 256 \<and> bit x k"
  using assms by (auto simp: low_bytes Let_def bit_and_iff bit_mask_iff simp flip: mask_eq_exp_minus_1)

lemma bit_bmi_value:
  assumes "w \<in> {4, 8}" "k < 8 * w" "take_bit (8 * w) x = x"
  shows "bit (bmi_value op w x y) k \<longleftrightarrow> bmi_bit op w x y k"
proof -
  have w: "k < 64" "w \<le> 8" using assms by auto
  show ?thesis
  proof (cases op)
    case M_BZHI
    then show ?thesis using bit_bzhi [OF assms(2) w(2)] by simp
  qed (use assms w lowest_bit_functions [OF w(1), of x] in
      \<open>simp_all add: bit_and_iff bit_not_iff bit_bextr bit_pdep bit_pext bit_rotate_right_bmi bit_arithmetic_shift_right
        shift_left_bmi_def shift_right_bmi_def shift_amount_bmi_eq bit_width_mask_bmi bit_push_bit_iff bit_drop_bit_eq add.commute\<close>)
qed

section \<open>The handlers\<close>

definition bmi_catalog :: "('w handler \<times> bmi_op \<times> nat) list" where
  "bmi_catalog =
    [(handle_code_VEX_BEXTR_R32_RM32_R32, M_BEXTR, 4),
     (handle_code_VEX_BEXTR_R64_RM64_R64, M_BEXTR, 8),
     (handle_code_VEX_BLSI_R32_RM32, M_BLSI, 4),
     (handle_code_VEX_BLSI_R64_RM64, M_BLSI, 8),
     (handle_code_VEX_ANDN_R32_R32_RM32, M_ANDN, 4),
     (handle_code_VEX_ANDN_R64_R64_RM64, M_ANDN, 8),
     (handle_code_VEX_BLSMSK_R32_RM32, M_BLSMSK, 4),
     (handle_code_VEX_BLSMSK_R64_RM64, M_BLSMSK, 8),
     (handle_code_VEX_BLSR_R32_RM32, M_BLSR, 4),
     (handle_code_VEX_BLSR_R64_RM64, M_BLSR, 8),
     (handle_code_VEX_BZHI_R32_RM32_R32, M_BZHI, 4),
     (handle_code_VEX_BZHI_R64_RM64_R64, M_BZHI, 8),
     (handle_code_VEX_PDEP_R32_R32_RM32, M_PDEP, 4),
     (handle_code_VEX_PDEP_R64_R64_RM64, M_PDEP, 8),
     (handle_code_VEX_PEXT_R32_R32_RM32, M_PEXT, 4),
     (handle_code_VEX_PEXT_R64_R64_RM64, M_PEXT, 8),
     (handle_code_VEX_RORX_R32_RM32_IMM8, M_RORX, 4),
     (handle_code_VEX_RORX_R64_RM64_IMM8, M_RORX, 8),
     (handle_code_VEX_SARX_R32_RM32_R32, M_SARX, 4),
     (handle_code_VEX_SARX_R64_RM64_R64, M_SARX, 8),
     (handle_code_VEX_SHLX_R32_RM32_R32, M_SHLX, 4),
     (handle_code_VEX_SHLX_R64_RM64_R64, M_SHLX, 8),
     (handle_code_VEX_SHRX_R32_RM32_R32, M_SHRX, 4),
     (handle_code_VEX_SHRX_R64_RM64_R64, M_SHRX, 8)]"

lemmas bmi_handler_defs =
  handle_code_VEX_BEXTR_R32_RM32_R32_def
  handle_code_VEX_BEXTR_R64_RM64_R64_def
  handle_code_VEX_BLSI_R32_RM32_def
  handle_code_VEX_BLSI_R64_RM64_def
  handle_code_VEX_ANDN_R32_R32_RM32_def
  handle_code_VEX_ANDN_R64_R64_RM64_def
  handle_code_VEX_BLSMSK_R32_RM32_def
  handle_code_VEX_BLSMSK_R64_RM64_def
  handle_code_VEX_BLSR_R32_RM32_def
  handle_code_VEX_BLSR_R64_RM64_def
  handle_code_VEX_BZHI_R32_RM32_R32_def
  handle_code_VEX_BZHI_R64_RM64_R64_def
  handle_code_VEX_PDEP_R32_R32_RM32_def
  handle_code_VEX_PDEP_R64_R64_RM64_def
  handle_code_VEX_PEXT_R32_R32_RM32_def
  handle_code_VEX_PEXT_R64_R64_RM64_def
  handle_code_VEX_RORX_R32_RM32_IMM8_def
  handle_code_VEX_RORX_R64_RM64_IMM8_def
  handle_code_VEX_SARX_R32_RM32_R32_def
  handle_code_VEX_SARX_R64_RM64_R64_def
  handle_code_VEX_SHLX_R32_RM32_R32_def
  handle_code_VEX_SHLX_R64_RM64_R64_def
  handle_code_VEX_SHRX_R32_RM32_R32_def
  handle_code_VEX_SHRX_R64_RM64_R64_def
  handle_code_bextr_def handle_code_blsi_def handle_code_andn_def handle_code_blsmsk_def handle_code_blsr_def
  handle_code_bzhi_def handle_code_pdep_def handle_code_pext_def handle_code_rorx_def handle_code_sarx_def
  handle_code_shlx_def handle_code_shrx_def bmi_binary_def

text \<open>The second source: operand 2, the immediate byte of RORX, nothing for the three instructions with one source.\<close>

definition second_source :: "bmi_op \<Rightarrow> nat \<Rightarrow> 'w ctx \<Rightarrow> u64 option \<times> 'w ctx" where
  "second_source op w c =
     (if op \<in> {M_BLSI, M_BLSR, M_BLSMSK} then (Some 0, c)
      else if op = M_RORX then (Some (ucast (immediate8 (instr c))), c)
      else read_operand c 2 w)"

lemma bmi_handler:
  assumes "(h, op, w) \<in> set bmi_catalog" "read_operand c 1 w = (Some x, c1)" "second_source op w c1 = (Some y, c2)"
  shows "w \<in> {4, 8} \<and> (\<exists>f. h c = write_operand_checked (c2\<lparr>state := state c2\<lparr>rflags := f\<rparr>\<rparr>) 0 (bmi_value op w x y) w)"
proof -
  have keep: "c2 = c2\<lparr>state := state c2\<lparr>rflags := rflags (state c2)\<rparr>\<rparr>" by simp
  have r: "with_operand 1 w f c = f x c1" for f using assms(2) by (simp add: with_operand_def)
  have r2: "read_operand c1 2 w = (Some y, c2) \<Longrightarrow> with_operand 2 w f c1 = f y c2" for f by (simp add: with_operand_def)
  have "\<exists>f. store_with_flags w v l c2 = write_operand_checked (c2\<lparr>state := state c2\<lparr>rflags := f\<rparr>\<rparr>) 0 v w" for v l
    using put_flags_only [of "state c2" l] by (auto simp: store_with_flags_def only_rflags_def)
  moreover have "\<exists>f. write_operand_checked (upd_state (\<lambda>s. set_logic_flags s v w) c2) 0 v w =
      write_operand_checked (c2\<lparr>state := state c2\<lparr>rflags := f\<rparr>\<rparr>) 0 v w" for v
    using flag_setters_only(3) [of "state c2" v w] by (auto simp: only_rflags_def)
  moreover have "\<exists>f. write_operand_checked c2 0 v w = write_operand_checked (c2\<lparr>state := state c2\<lparr>rflags := f\<rparr>\<rparr>) 0 v w" for v
    by (metis keep)
  ultimately show ?thesis
    using assms(1,3) r r2 by (auto simp: bmi_catalog_def bmi_handler_defs second_source_def Let_def)
qed

text \<open>C35: every BMI instruction with a register destination (ANDN, BEXTR, BZHI, BLSI, BLSR, BLSMSK, PDEP, PEXT, RORX, SARX, SHLX, SHRX) at 32 and 64 bits
  computes its result bit by bit: when the sources can be read, the handler succeeds, changes registers and flags only, and bit \<open>k\<close>
  of the destination is the one the reference \<open>bmi_bit\<close> names; the loops over bit positions, masks and two's complement tricks of
  the source do not show.\<close>

theorem bmi_semantics:
  assumes "(h, op, w) \<in> set bmi_catalog" "wf_cpu (state c)"
    and "op_kind (instr c) 0 = REGISTER" "op_register (instr c) 0 = r" "reg_part r = Some (0, 8 * w)"
    and "read_operand c 1 w = (Some x, c1)" "take_bit (8 * w) x = x" "second_source op w c1 = (Some y, c2)"
  shows "\<exists>s'. h c = (no_stop, c2\<lparr>state := s'\<rparr>) \<and> (\<forall>k. bit (read_register s' r) k \<longleftrightarrow> k < 8 * w \<and> bmi_bit op w x y k)"
proof -
  obtain f where w: "w \<in> {4, 8}" and h: "h c = write_operand_checked (c2\<lparr>state := state c2\<lparr>rflags := f\<rparr>\<rparr>) 0 (bmi_value op w x y) w"
    using bmi_handler [OF assms(1,6,8)] by blast
  obtain m where c2: "c2 = c\<lparr>mem := m\<rparr>"
    using read_operand_mem [of c 1 w] read_operand_mem [of c1 2 w] assms(6,8)
    by (auto simp: second_source_def split: if_splits)
  let ?s = "state c\<lparr>rflags := f\<rparr>"
  let ?s' = "write_register ?s r (take_bit (8 * w) (bmi_value op w x y)) 0"
  have "wf_cpu ?s" using assms(2) by (simp add: wf_cpu_def)
  then have "read_register ?s' r = take_bit (8 * w) (bmi_value op w x y)"
    using read_write_register [OF _ assms(5)] by simp
  moreover have "h c = (no_stop, c2\<lparr>state := ?s'\<rparr>)"
    using h assms(3,4) by (simp add: c2 write_operand_checked_register)
  ultimately show ?thesis using w bit_bmi_value [OF w _ assms(7)] by (auto simp: bit_take_bit_iff)
qed

section \<open>A concrete instruction\<close>

text \<open>\<^verbatim>\<open>pdep ecx, eax, edx\<close>.\<close>

definition pdep_ecx :: instruction where
  "pdep_ecx = null_instruction\<lparr>op_register := (\<lambda>k. if k = 0 then ECX else if k = 1 then EAX else EDX)\<rparr>"

theorem bmi_semantics_witness:
  "\<exists>s'. handle_code_VEX_PDEP_R32_R32_RM32 (demo_ctx pdep_ecx) = (no_stop, (demo_ctx pdep_ecx)\<lparr>state := s'\<rparr>) \<and>
     (\<forall>k. bit (read_register s' ECX) k \<longleftrightarrow> k < 8 * 4 \<and>
        bmi_bit M_PDEP 4 (read_register initial_cpu_state EAX) (read_register initial_cpu_state EDX) k)"
proof (rule bmi_semantics [where ?c1.0 = "demo_ctx pdep_ecx"])
  show "(handle_code_VEX_PDEP_R32_R32_RM32, M_PDEP, 4) \<in> set bmi_catalog" by (simp add: bmi_catalog_def)
  show "wf_cpu (state (demo_ctx pdep_ecx))" using demo_context by blast
  show "take_bit (8 * 4) (read_register initial_cpu_state EAX) = read_register initial_cpu_state EAX"
    by (rule register_range) simp
qed (simp_all add: demo_ctx_def pdep_ecx_def null_instruction_def read_operand_def second_source_def Let_def)

end
