(* ===== verification/Legacy_Ops.thy ===== *)
theory Legacy_Ops
  imports Data_Move
begin

text \<open>
  Decimal adjustment, sign extension of the accumulator, frames and the remaining single-purpose integer
  instructions: \<^verbatim>\<open>handlers/{aaa,aas,aad,aam,daa,das,cbw,cwde,cdqe,cwd,cdq,cqo,xlat,arpl,bound,enter,leave,aadd}.cpp\<close>.
\<close>

section \<open>Decimal adjustment\<close>

text \<open>The flags ZF, SF and PF of the low byte, which end every handler of the group.\<close>

definition byte_flags :: "u64 \<Rightarrow> cpu_state \<Rightarrow> cpu_state" where
  "byte_flags al =
     put_flags [(kFlagZF, al AND 0xFF = 0), (kFlagSF, al AND 0x80 \<noteq> 0), (kFlagPF, even_parity (low_byte al))]"

definition handle_code_AAA :: "'w handler" where
  "handle_code_AAA c =
     (let s = state c; al0 = read_register s AL; af = (rflags s AND kFlagAF \<noteq> 0);
          carry = (af \<or> al0 AND 0x0F > 9); ah0 = read_register s AH;
          al1 = (if carry then al0 + 6 else al0); ah = (if carry then ah0 + 1 else ah0);
          al = al1 AND 0x0F;
          s1 = write_register s AL al 1; s2 = write_register s1 AH ah 1
      in (no_stop, c\<lparr>state := byte_flags al (put_flags [(kFlagAF, carry), (kFlagCF, carry)] s2)\<rparr>))"

definition handle_code_AAS :: "'w handler" where
  "handle_code_AAS c =
     (let s = state c; al0 = read_register s AL; af = (rflags s AND kFlagAF \<noteq> 0);
          carry = (af \<or> al0 AND 0x0F > 9); ah0 = read_register s AH;
          al1 = (if carry then al0 - 6 else al0); ah = (if carry then ah0 - 1 else ah0);
          al = al1 AND 0x0F;
          s1 = write_register s AL al 1; s2 = write_register s1 AH ah 1
      in (no_stop, c\<lparr>state := byte_flags al (put_flags [(kFlagAF, carry), (kFlagCF, carry)] s2)\<rparr>))"

definition handle_code_AAD_IMM8 :: "'w handler" where
  "handle_code_AAD_IMM8 c =
     (let base = immediate8 (instr c)
      in if base = 0 then (mov_gp_fault c, c)
         else let s = state c; al = read_register s AL; ah = read_register s AH;
                  result = (ucast (ah * ucast base + al) :: u8);
                  s1 = write_register s AL (ucast result) 1; s2 = write_register s1 AH 0 1
              in (no_stop, c\<lparr>state := byte_flags (ucast result) (put_flags [(kFlagCF, False), (kFlagAF, False)] s2)\<rparr>))"

definition handle_code_AAM_IMM8 :: "'w handler" where
  "handle_code_AAM_IMM8 c =
     (let base = immediate8 (instr c)
      in if base = 0 then (mov_gp_fault c, c)
         else let s = state c; al = read_register s AL;
                  quo = (ucast (al div ucast base) :: u8); rmd = (ucast (al mod ucast base) :: u8);
                  s1 = write_register s AL (ucast rmd) 1; s2 = write_register s1 AH (ucast quo) 1
              in (no_stop, c\<lparr>state := byte_flags (ucast rmd) (put_flags [(kFlagCF, False), (kFlagAF, False)] s2)\<rparr>))"

definition handle_code_DAA :: "'w handler" where
  "handle_code_DAA c =
     (let s = state c; old_al = read_register s AL;
          old_cf = (rflags s AND kFlagCF \<noteq> 0); old_af = (rflags s AND kFlagAF \<noteq> 0);
          adjust = (old_af \<or> old_al AND 0x0F > 9); high = (old_cf \<or> old_al > 0x99);
          al1 = (if adjust then old_al + 6 else old_al); al = (if high then al1 + 0x60 else al1);
          s1 = put_flags [(kFlagCF, high), (kFlagAF, adjust)] s
      in (no_stop, c\<lparr>state := byte_flags al (write_register s1 AL al 1)\<rparr>))"

definition handle_code_DAS :: "'w handler" where
  "handle_code_DAS c =
     (let s = state c; old_al = read_register s AL;
          old_cf = (rflags s AND kFlagCF \<noteq> 0); old_af = (rflags s AND kFlagAF \<noteq> 0);
          adjust = (old_af \<or> old_al AND 0x0F > 9); high = (old_cf \<or> old_al > 0x99);
          al1 = (if adjust then old_al - 6 else old_al); al = (if high then al1 - 0x60 else al1);
          s1 = put_flags [(kFlagCF, high), (kFlagAF, adjust)] s
      in (no_stop, c\<lparr>state := byte_flags al (write_register s1 AL al 1)\<rparr>))"

section \<open>Sign extension of the accumulator\<close>

definition extend_acc :: "register \<Rightarrow> nat \<Rightarrow> register \<Rightarrow> nat \<Rightarrow> 'w handler" where
  "extend_acc src w dst width c =
     (no_stop, upd_state (\<lambda>s. write_register s dst (sign_extend (read_register s src) w) width) c)"

definition handle_code_CBW :: "'w handler" where
  "handle_code_CBW = extend_acc AL 1 AX 2"

definition handle_code_CWDE :: "'w handler" where
  "handle_code_CWDE = extend_acc AX 2 EAX 4"

definition handle_code_CDQE :: "'w handler" where
  "handle_code_CDQE = extend_acc EAX 4 RAX 8"

definition spread_sign :: "register \<Rightarrow> u64 \<Rightarrow> register \<Rightarrow> u64 \<Rightarrow> nat \<Rightarrow> 'w handler" where
  "spread_sign src sign_mask dst ones width c =
     (no_stop, upd_state (\<lambda>s. write_register s dst
        (if read_register s src AND sign_mask \<noteq> 0 then ones else 0) width) c)"

definition handle_code_CWD :: "'w handler" where
  "handle_code_CWD = spread_sign AX 0x8000 DX 0xFFFF 2"

definition handle_code_CDQ :: "'w handler" where
  "handle_code_CDQ = spread_sign EAX 0x80000000 EDX 0xFFFFFFFF 4"

definition handle_code_CQO :: "'w handler" where
  "handle_code_CQO = spread_sign RAX 0x8000000000000000 RDX (NOT 0) 8"

section \<open>\<^verbatim>\<open>xlat.cpp\<close>, \<^verbatim>\<open>arpl.cpp\<close>, \<^verbatim>\<open>bound.cpp\<close>\<close>

definition handle_code_XLAT_M8 :: "'w handler" where
  "handle_code_XLAT_M8 c =
     (let address = read_register (state c) (Q64 G_BX) + read_register (state c) AL
      in case ctx_read c address 1 of
           (None, c1) \<Rightarrow> (memory_fault c1 address, c1)
         | (Some value, c1) \<Rightarrow> (no_stop, upd_state (\<lambda>s. write_register s AL value 1) c1))"

definition arpl :: "'w handler" where
  "arpl = with_operand 0 2 (\<lambda>destination c.
     let source = read_register (state c) (op_register (instr c) 1);
         src_rpl = source AND 3; dst_rpl = destination AND 3;
         adjusted = (if src_rpl > dst_rpl then (destination AND NOT 3) OR src_rpl else destination);
         modified = (adjusted \<noteq> destination)
     in and_then (write_operand_checked c 0 adjusted 2)
          (\<lambda>c1. (no_stop, upd_state (put_flag kFlagZF modified) c1)))"

definition handle_code_ARPL_R32M16_R32 :: "'w handler" where
  "handle_code_ARPL_R32M16_R32 = arpl"

definition handle_code_ARPL_RM16_R16 :: "'w handler" where
  "handle_code_ARPL_RM16_R16 = arpl"

text \<open>The upper bound is read only when the lower one was; the conversions to signed types read the low \<open>w\<close> bytes.\<close>

definition bound_check :: "nat \<Rightarrow> 'w handler" where
  "bound_check w c =
     (let destination = read_register (state c) (op_register (instr c) 0); address = memory_address c;
          signed = (\<lambda>v. signed_take_bit (8 * w - 1) (uint v))
      in case ctx_read c address w of
           (None, c1) \<Rightarrow> (memory_fault c1 address, c1)
         | (Some lower, c1) \<Rightarrow>
             (case ctx_read c1 (address + word_of_nat w) w of
                (None, c2) \<Rightarrow> (memory_fault c2 address, c2)
              | (Some upper, c2) \<Rightarrow>
                  if signed destination < signed lower \<or> signed destination > signed upper
                  then (mov_gp_fault c2, c2) else (no_stop, c2)))"

definition handle_code_BOUND_R16_M1616 :: "'w handler" where
  "handle_code_BOUND_R16_M1616 = bound_check 2"

definition handle_code_BOUND_R32_M3232 :: "'w handler" where
  "handle_code_BOUND_R32_M3232 = bound_check 4"

section \<open>\<^verbatim>\<open>enter.cpp\<close>, \<^verbatim>\<open>leave.cpp\<close>\<close>

text \<open>The nesting level is read and not used.\<close>

definition handle_code_ENTERW :: "'w handler" where
  "handle_code_ENTERW c =
     (let frame_size = ucast (immediate16 (instr c)); old_bp = read_register (state c) (W16 G_BP);
          sp = (read_register (state c) (W16 G_SP) - 2) AND 0xFFFF
      in case ctx_write c sp old_bp 2 of
           (False, c1) \<Rightarrow> (memory_fault c1 sp, c1)
         | (True, c1) \<Rightarrow>
             (no_stop, upd_state (\<lambda>s.
                write_register (write_register (write_register s (W16 G_SP) sp 2) (W16 G_BP) sp 2)
                  (W16 G_SP) ((sp - frame_size) AND 0xFFFF) 2) c1))"

definition handle_code_ENTERD :: "'w handler" where
  "handle_code_ENTERD c =
     (let frame_size = ucast (immediate16 (instr c)); old_bp = read_register (state c) (D32 G_BP);
          sp = read_register (state c) (D32 G_SP) - 4
      in case ctx_write c sp old_bp 4 of
           (False, c1) \<Rightarrow> (memory_fault c1 sp, c1)
         | (True, c1) \<Rightarrow>
             (no_stop, upd_state (\<lambda>s.
                write_register (write_register (write_register s (D32 G_BP) sp 4) (D32 G_SP) sp 4)
                  (D32 G_SP) ((sp - frame_size) AND 0xFFFFFFFF) 4) c1))"

definition handle_code_ENTERQ :: "'w handler" where
  "handle_code_ENTERQ c =
     (let frame_size = ucast (immediate16 (instr c)); old_bp = read_register (state c) (Q64 G_BP);
          sp = read_register (state c) (Q64 G_SP) - 8
      in case ctx_write c sp old_bp 8 of
           (False, c1) \<Rightarrow> (memory_fault c1 sp, c1)
         | (True, c1) \<Rightarrow>
             (no_stop, upd_state (\<lambda>s.
                write_register (write_register (write_register s (Q64 G_BP) sp 8) (Q64 G_SP) sp 8)
                  (Q64 G_SP) (sp - frame_size) 8) c1))"

definition handle_code_ENTERW_IMM16_IMM8 :: "'w handler" where
  "handle_code_ENTERW_IMM16_IMM8 = handle_code_ENTERW"

definition handle_code_ENTERD_IMM16_IMM8 :: "'w handler" where
  "handle_code_ENTERD_IMM16_IMM8 = handle_code_ENTERD"

definition handle_code_ENTERQ_IMM16_IMM8 :: "'w handler" where
  "handle_code_ENTERQ_IMM16_IMM8 = handle_code_ENTERQ"

definition leave_width :: "register \<Rightarrow> register \<Rightarrow> nat \<Rightarrow> 'w handler" where
  "leave_width bp_reg sp_reg w c =
     (let sp = read_register (state c) bp_reg
      in case ctx_read c sp w of
           (None, c1) \<Rightarrow> (memory_fault c1 sp, c1)
         | (Some popped_bp, c1) \<Rightarrow>
             (no_stop, upd_state (\<lambda>s.
                write_register (write_register s sp_reg (sp + word_of_nat w) w) bp_reg popped_bp w) c1))"

definition handle_code_LEAVEW :: "'w handler" where
  "handle_code_LEAVEW = leave_width (W16 G_BP) (W16 G_SP) 2"

definition handle_code_LEAVED :: "'w handler" where
  "handle_code_LEAVED = leave_width (D32 G_BP) (D32 G_SP) 4"

definition handle_code_LEAVEQ :: "'w handler" where
  "handle_code_LEAVEQ = leave_width (Q64 G_BP) (Q64 G_SP) 8"

section \<open>\<^verbatim>\<open>aadd.cpp\<close>\<close>

definition aadd :: "nat \<Rightarrow> 'w handler" where
  "aadd w c =
     (let address = memory_address c
      in if address AND (word_of_nat w - 1) \<noteq> 0 then (alignment_fault c address, c)
         else case read_operand c 0 w of
                (None, c1) \<Rightarrow> (memory_fault c1 address, c1)
              | (Some lhs, c1) \<Rightarrow>
                  let rhs = read_register (state c1) (op_register (instr c1) 1); result = lhs + rhs
                  in case write_operand c1 0 result w of
                       (False, c2) \<Rightarrow> (memory_fault c2 address, c2)
                     | (True, c2) \<Rightarrow> (no_stop, c2))"

definition handle_code_AADD_M32_R32 :: "'w handler" where
  "handle_code_AADD_M32_R32 = aadd 4"

definition handle_code_AADD_M64_R64 :: "'w handler" where
  "handle_code_AADD_M64_R64 = aadd 8"

end
