(* ===== verification/System_Ops.thy ===== *)
theory System_Ops
  imports Legacy_Ops
begin

text \<open>
  System instructions: model-specific and extended control registers, system calls, flags, interrupts, CPUID
  (\<^verbatim>\<open>handlers/misc/{system,nop}.cpp\<close>, \<^verbatim>\<open>handlers/{rdmsr,wrmsr,rdpmc,rdtscp,rsm,smsw,swapgs,syscall,sysenter,sysexitd,sysexitq,sysretd,sysretq,ud0,ud1,ud2,xsetbv,clac,stac,clts,invd,wbinvd,lfence,mfence,sfence,pause,prefetch,clflush,clflushopt,clwb}.cpp\<close>)
  and the accessors of \<^verbatim>\<open>system_state.hpp\<close>.
\<close>

section \<open>\<^verbatim>\<open>system_state.hpp\<close>\<close>

fun get_segment_base :: "cpu_state \<Rightarrow> register \<Rightarrow> u64" where
  "get_segment_base s FS = fs_base s"
| "get_segment_base s GS = gs_base s"
| "get_segment_base s _ = 0"

fun set_segment_base :: "cpu_state \<Rightarrow> register \<Rightarrow> u64 \<Rightarrow> cpu_state" where
  "set_segment_base s FS base = s\<lparr>fs_base := base\<rparr>"
| "set_segment_base s GS base = s\<lparr>gs_base := base\<rparr>"
| "set_segment_base s _ base = s"

definition load_gdt :: "cpu_state \<Rightarrow> u64 \<Rightarrow> u16 \<Rightarrow> cpu_state" where
  "load_gdt s base limit = s\<lparr>gdtr := \<lparr>dt_base = base, dt_limit = limit\<rparr>\<rparr>"

definition load_idt :: "cpu_state \<Rightarrow> u64 \<Rightarrow> u16 \<Rightarrow> cpu_state" where
  "load_idt s base limit = s\<lparr>idtr := \<lparr>dt_base = base, dt_limit = limit\<rparr>\<rparr>"

section \<open>Model-specific and extended control registers\<close>

text \<open>A 64-bit value in EDX:EAX.\<close>

definition put_edx_eax :: "u64 \<Rightarrow> cpu_state \<Rightarrow> cpu_state" where
  "put_edx_eax value s =
     write_register (write_register s EAX (ucast (ucast value :: u32)) 4)
       EDX (ucast (ucast (drop_bit 32 value) :: u32)) 4"

definition edx_eax :: "cpu_state \<Rightarrow> u64" where
  "edx_eax s = push_bit 32 (read_register s EDX) OR (read_register s EAX AND 0xFFFFFFFF)"

definition ecx_index :: "cpu_state \<Rightarrow> u32" where
  "ecx_index s = ucast (read_register s ECX)"

definition handle_code_RDMSR :: "'w handler" where
  "handle_code_RDMSR c =
     (no_stop, upd_state (\<lambda>s. put_edx_eax (read_msr s (ecx_index s)) s) c)"

definition handle_code_WRMSR :: "'w handler" where
  "handle_code_WRMSR c = (no_stop, upd_state (\<lambda>s. write_msr s (ecx_index s) (edx_eax s)) c)"

definition handle_code_WRMSRNS :: "'w handler" where
  "handle_code_WRMSRNS = with_operand 0 4 (\<lambda>v c.
     (no_stop, upd_state (\<lambda>s. write_msr s (ucast v) (edx_eax s)) c))"

text \<open>
  The loops over the 64 bits of RCX: \<open>bits\<close> lists the positions left. RCX in the register file is rewritten after
  every entry, so a fault leaves the entries done so far cleared.
\<close>

fun rdmsrlist_loop :: "u64 \<Rightarrow> u64 \<Rightarrow> nat list \<Rightarrow> u64 \<Rightarrow> 'w handler" where
  "rdmsrlist_loop rdi rsi [] rcx c = (no_stop, c)"
| "rdmsrlist_loop rdi rsi (b # bits) rcx c =
     (if rcx AND push_bit b 1 = 0 then rdmsrlist_loop rdi rsi bits rcx c
      else let msr_address = rsi + word_of_nat b * 8; value_address = rdi + word_of_nat b * 8
           in case ctx_read c msr_address 8 of
                (None, c1) \<Rightarrow> (memory_fault c1 msr_address, c1)
              | (Some msr_index, c1) \<Rightarrow>
                  (case ctx_write c1 value_address (read_msr (state c1) (ucast msr_index)) 8 of
                     (False, c2) \<Rightarrow> (memory_fault c2 value_address, c2)
                   | (True, c2) \<Rightarrow>
                       let rcx' = rcx AND NOT (push_bit b 1)
                       in rdmsrlist_loop rdi rsi bits rcx' (upd_state (\<lambda>s. write_register s RCX rcx' 0) c2)))"

fun wrmsrlist_loop :: "u64 \<Rightarrow> u64 \<Rightarrow> nat list \<Rightarrow> u64 \<Rightarrow> 'w handler" where
  "wrmsrlist_loop rdi rsi [] rcx c = (no_stop, c)"
| "wrmsrlist_loop rdi rsi (b # bits) rcx c =
     (if rcx AND push_bit b 1 = 0 then wrmsrlist_loop rdi rsi bits rcx c
      else let msr_address = rsi + word_of_nat b * 8; value_address = rdi + word_of_nat b * 8
           in case ctx_read c msr_address 8 of
                (None, c1) \<Rightarrow> (memory_fault c1 msr_address, c1)
              | (Some msr_index, c1) \<Rightarrow>
                  (case ctx_read c1 value_address 8 of
                     (None, c2) \<Rightarrow> (memory_fault c2 value_address, c2)
                   | (Some value, c2) \<Rightarrow>
                       let rcx' = rcx AND NOT (push_bit b 1)
                       in wrmsrlist_loop rdi rsi bits rcx'
                            (upd_state (\<lambda>s. write_register (write_msr s (ucast msr_index) value) RCX rcx' 0) c2)))"

definition msrlist :: "(u64 \<Rightarrow> u64 \<Rightarrow> nat list \<Rightarrow> u64 \<Rightarrow> 'w handler) \<Rightarrow> 'w handler" where
  "msrlist loop c =
     (let rdi = read_register (state c) (Q64 G_DI); rsi = read_register (state c) (Q64 G_SI)
      in if (rdi OR rsi) AND 7 \<noteq> 0 then (alignment_fault c (memory_address c), c)
         else loop rdi rsi [0..<64] (read_register (state c) RCX) c)"

definition handle_code_RDMSRLIST :: "'w handler" where
  "handle_code_RDMSRLIST = msrlist rdmsrlist_loop"

definition handle_code_WRMSRLIST :: "'w handler" where
  "handle_code_WRMSRLIST = msrlist wrmsrlist_loop"

definition handle_code_XSETBV :: "'w handler" where
  "handle_code_XSETBV c =
     (let xcr_index = ecx_index (state c)
      in if xcr_index > 1 then (mov_gp_fault c, c)
         else let low = read_register (state c) EAX AND 0xFFFFFFFF; high = read_register (state c) EDX AND 0xFFFFFFFF
              in (no_stop, upd_state (\<lambda>s. write_xcr s xcr_index (push_bit 32 high OR low)) c))"

definition handle_code_XGETBV :: "'w handler" where
  "handle_code_XGETBV c = (no_stop, upd_state (\<lambda>s. put_edx_eax (read_xcr s (ecx_index s)) s) c)"

definition handle_code_RDPMC :: "'w handler" where
  "handle_code_RDPMC c = (no_stop, upd_state (\<lambda>s. write_register (write_register s EAX 0 4) EDX 0 4) c)"

definition handle_code_RDTSCP :: "'w handler" where
  "handle_code_RDTSCP c =
     (no_stop, upd_state (\<lambda>s. write_register (write_register (write_register s EAX 0 4) EDX 0 4) ECX 0 4) c)"

definition smsw_impl :: "nat \<Rightarrow> 'w handler" where
  "smsw_impl reg_width c =
     (let msw = cr (state c) ! 0 AND 0xFFFF; is_mem = (op_kind (instr c) 0 = MEMORY)
      in write_operand_checked c 0 msw (if is_mem then 2 else reg_width))"

definition handle_code_SMSW_RM16 :: "'w handler" where
  "handle_code_SMSW_RM16 = smsw_impl 2"

definition handle_code_SMSW_R32M16 :: "'w handler" where
  "handle_code_SMSW_R32M16 = smsw_impl 4"

definition handle_code_SMSW_R64M16 :: "'w handler" where
  "handle_code_SMSW_R64M16 = smsw_impl 8"

definition handle_code_CLTS :: "'w handler" where
  "handle_code_CLTS c =
     (no_stop, upd_state (\<lambda>s. s\<lparr>cr := (cr s)[0 := cr s ! 0 AND NOT (push_bit 3 1)]\<rparr>) c)"

section \<open>System calls\<close>

definition kMsrKernelGsBase :: u32 where "kMsrKernelGsBase = 0xC0000102"
definition kMsrLStar :: u32 where "kMsrLStar = 0xC0000082"
definition kMsrSFMASK :: u32 where "kMsrSFMASK = 0xC0000084"
definition kMsrSysenterCS :: u32 where "kMsrSysenterCS = 0x174"
definition kMsrSysenterEsp :: u32 where "kMsrSysenterEsp = 0x175"
definition kMsrSysenterEip :: u32 where "kMsrSysenterEip = 0x176"

abbreviation R11 :: register where "R11 \<equiv> Q64 G_R11"
abbreviation RSP :: register where "RSP \<equiv> Q64 G_SP"

definition handle_code_SWAPGS :: "'w handler" where
  "handle_code_SWAPGS c =
     (no_stop, upd_state (\<lambda>s.
        let user_gs = gs_base s; kernel_gs = read_msr s kMsrKernelGsBase
        in write_msr (s\<lparr>gs_base := kernel_gs\<rparr>) kMsrKernelGsBase user_gs) c)"

definition handle_code_SYSCALL :: "'w handler" where
  "handle_code_SYSCALL c =
     (let s1 = write_register (state c) RCX (next_rip c) 8;
          s2 = write_register s1 R11 (rflags s1) 8;
          lstar = read_msr s2 kMsrLStar; sfmask = read_msr s2 kMsrSFMASK;
          s3 = s2\<lparr>rflags := rflags s2 AND NOT sfmask, rip := lstar\<rparr>
      in (no_stop, c\<lparr>state := s3, control_flow_taken := True\<rparr>))"

definition unsupported_fault :: "'w ctx \<Rightarrow> execution_result" where
  "unsupported_fault c =
     \<lparr>reason = SR_unsupported_instruction, retired = 0,
      exception_of = Some \<lparr>ei_reason = SR_unsupported_instruction, ei_address = rip (state c), ei_error_code = 0\<rparr>,
      result_code = Some (code (instr c))\<rparr>"

definition handle_code_SYSENTER :: "'w handler" where
  "handle_code_SYSENTER c =
     (let c1 = upd_state (\<lambda>s. write_register s ECX (next_rip c) 4) c;
          target = read_msr (state c1) kMsrSysenterEip; stack = read_msr (state c1) kMsrSysenterEsp;
          cs_selector = (ucast (read_msr (state c1) kMsrSysenterCS AND 0xFFFF) :: u16)
      in if cs_selector = 0 then (unsupported_fault c1, c1)
         else let c2 = upd_state (\<lambda>s. write_register s CS (ucast cs_selector) 2) c1;
                  c3 = (if stack \<noteq> 0 then upd_state (\<lambda>s. write_register s RSP stack 8) c2 else c2)
              in if target = 0 then (unsupported_fault c3, c3)
                 else (no_stop, (upd_state (\<lambda>s. s\<lparr>rip := target\<rparr>) c3)\<lparr>control_flow_taken := True\<rparr>))"

definition handle_code_SYSEXITD :: "'w handler" where
  "handle_code_SYSEXITD c =
     (let s = state c; eip = read_register s ECX AND 0xFFFFFFFF; esp = read_register s EDX AND 0xFFFFFFFF;
          s1 = s\<lparr>mode := compat32\<rparr>; s2 = write_register s1 EAX eip 4; s3 = write_register s2 (D32 G_SP) esp 4
      in (no_stop, c\<lparr>state := s3\<lparr>rip := eip\<rparr>, control_flow_taken := True\<rparr>))"

definition handle_code_SYSEXITQ :: "'w handler" where
  "handle_code_SYSEXITQ c =
     (let s = state c; rp = read_register s RCX; sp = read_register s RDX;
          s1 = s\<lparr>mode := long64, rip := rp\<rparr>
      in (no_stop, c\<lparr>state := write_register s1 RSP sp 8, control_flow_taken := True\<rparr>))"

definition handle_code_SYSRETD :: "'w handler" where
  "handle_code_SYSRETD c =
     (let s = state c; restore_rip = read_register s ECX AND 0xFFFFFFFF;
          restore_flags = read_register s R11 AND 0xFFFFFFFF;
          s1 = s\<lparr>mode := compat32\<rparr>; s2 = write_register s1 EAX restore_rip 4;
          s3 = write_register s2 (D32 G_SP) (read_register s2 EDX) 4
      in (no_stop, c\<lparr>state := s3\<lparr>rip := restore_rip, rflags := restore_flags\<rparr>, control_flow_taken := True\<rparr>))"

definition handle_code_SYSRETQ :: "'w handler" where
  "handle_code_SYSRETQ c =
     (let s = state c; restore_rip = read_register s RCX; restore_flags = read_register s R11
      in (no_stop, c\<lparr>state := s\<lparr>mode := long64, rip := restore_rip, rflags := restore_flags\<rparr>,
                     control_flow_taken := True\<rparr>))"

section \<open>Flags\<close>

definition flag_handler :: "u64 \<Rightarrow> bool \<Rightarrow> 'w handler" where
  "flag_handler b value c = (no_stop, upd_state (put_flag b value) c)"

definition handle_code_CLC :: "'w handler" where "handle_code_CLC = flag_handler kFlagCF False"
definition handle_code_STC :: "'w handler" where "handle_code_STC = flag_handler kFlagCF True"
definition handle_code_CLD :: "'w handler" where "handle_code_CLD = flag_handler kFlagDF False"
definition handle_code_STD :: "'w handler" where "handle_code_STD = flag_handler kFlagDF True"
definition handle_code_CLI :: "'w handler" where "handle_code_CLI = flag_handler kFlagIF False"
definition handle_code_STI :: "'w handler" where "handle_code_STI = flag_handler kFlagIF True"
definition handle_code_CLAC :: "'w handler" where "handle_code_CLAC = flag_handler (push_bit 18 1) False"
definition handle_code_STAC :: "'w handler" where "handle_code_STAC = flag_handler (push_bit 18 1) True"

definition handle_code_CMC :: "'w handler" where
  "handle_code_CMC c = (no_stop, upd_state (\<lambda>s. put_flag kFlagCF (rflags s AND kFlagCF = 0) s) c)"

definition handle_code_PUSHFQ :: "'w handler" where
  "handle_code_PUSHFQ c =
     (let c1 = set_sp (sp_of c - 8) c in write_memory_checked c1 (sp_of c1) (rflags (state c1)) 8)"

text \<open>The bits POPFQ does not load.\<close>

definition kSysBits :: u64 where
  "kSysBits = kFlagIF OR push_bit 12 3 OR push_bit 17 1 OR push_bit 19 1 OR push_bit 20 1"

definition handle_code_POPFQ :: "'w handler" where
  "handle_code_POPFQ c =
     (case read_memory_checked c (sp_of c) 8 of
        (Inl r, c1) \<Rightarrow> (r, c1)
      | (Inr value, c1) \<Rightarrow>
          let c2 = upd_state (\<lambda>s. s\<lparr>rflags :=
                (value AND NOT kSysBits AND NOT (push_bit 16 1)) OR (rflags s AND kSysBits)\<rparr>) c1;
              c3 = upd_state (\<lambda>s. s\<lparr>rflags := rflags s OR (kFlagIF OR 2)\<rparr>) c2
          in (no_stop, set_sp (sp_of c3 + 8) c3))"

definition handle_code_LAHF :: "'w handler" where
  "handle_code_LAHF c =
     (let f = rflags (state c); pick = (\<lambda>b v. if f AND b \<noteq> 0 then v else (0 :: u64));
          ah = pick kFlagSF 0x80 OR pick kFlagZF 0x40 OR pick kFlagAF 0x10 OR pick kFlagPF 0x04 OR pick kFlagCF 0x01
                OR 0x02
      in (no_stop, upd_state (\<lambda>s. write_register s AH ah 0) c))"

definition handle_code_SAHF :: "'w handler" where
  "handle_code_SAHF c =
     (let ah = read_register (state c) AH
      in (no_stop, upd_state (put_flags
            [(kFlagSF, ah AND 0x80 \<noteq> 0), (kFlagZF, ah AND 0x40 \<noteq> 0), (kFlagAF, ah AND 0x10 \<noteq> 0),
             (kFlagPF, ah AND 0x04 \<noteq> 0), (kFlagCF, ah AND 0x01 \<noteq> 0)]) c))"

section \<open>Interrupts and stops\<close>

definition handle_code_HLT :: "'w handler" where
  "handle_code_HLT c = (\<lparr>reason = SR_halted, retired = 0, exception_of = None, result_code = None\<rparr>, c)"

definition handle_code_INT1 :: "'w handler" where
  "handle_code_INT1 c = dispatch_interrupt 1 (next_rip c) None False c"

definition handle_code_INT3 :: "'w handler" where
  "handle_code_INT3 c = dispatch_interrupt 3 (next_rip c) None False c"

definition handle_code_INT_IMM8 :: "'w handler" where
  "handle_code_INT_IMM8 c = dispatch_interrupt (immediate8 (instr c)) (next_rip c) None False c"

definition handle_code_INTO :: "'w handler" where
  "handle_code_INTO c =
     (if rflags (state c) AND kFlagOF = 0 then (no_stop, c) else dispatch_interrupt 4 (next_rip c) None False c)"

definition handle_code_RSM :: "'w handler" where
  "handle_code_RSM c = (mov_gp_fault c, c)"

definition undefined_opcode :: "'w handler" where
  "undefined_opcode c = (mov_ud_fault c, c)"

definition handle_code_UD0 :: "'w handler" where "handle_code_UD0 = undefined_opcode"
definition handle_code_UD0_R16_RM16 :: "'w handler" where "handle_code_UD0_R16_RM16 = undefined_opcode"
definition handle_code_UD0_R32_RM32 :: "'w handler" where "handle_code_UD0_R32_RM32 = undefined_opcode"
definition handle_code_UD0_R64_RM64 :: "'w handler" where "handle_code_UD0_R64_RM64 = undefined_opcode"
definition handle_code_UD1_R16_RM16 :: "'w handler" where "handle_code_UD1_R16_RM16 = undefined_opcode"
definition handle_code_UD1_R32_RM32 :: "'w handler" where "handle_code_UD1_R32_RM32 = undefined_opcode"
definition handle_code_UD1_R64_RM64 :: "'w handler" where "handle_code_UD1_R64_RM64 = undefined_opcode"
definition handle_code_UD2 :: "'w handler" where "handle_code_UD2 = undefined_opcode"

section \<open>Time stamp, CPUID, MXCSR and segment bases\<close>

text \<open>The function-local \<^verbatim>\<open>static\<close> counter of RDTSC is an argument and a result.\<close>

definition handle_code_RDTSC :: "u64 \<Rightarrow> 'w ctx \<Rightarrow> (execution_result \<times> 'w ctx) \<times> u64" where
  "handle_code_RDTSC tsc c = (let tsc1 = tsc + 1 in ((no_stop, upd_state (put_edx_eax tsc1) c), tsc1))"

definition cpuid_values :: "u32 \<Rightarrow> u32 \<Rightarrow> u32 \<times> u32 \<times> u32 \<times> u32" where
  "cpuid_values leaf subleaf =
     (if leaf = 0 then (1, 0x756E6547, 0x6C65746E, 0x49656E69)
      else if leaf = 1 then (0x000306A9, 0x00100800, 0, 0x0183F3FF)
      else (0, 0, 0, 0))"

definition handle_code_CPUID :: "'w handler" where
  "handle_code_CPUID c =
     (case cpuid_values (ucast (read_register (state c) EAX)) (ecx_index (state c)) of (a, b, cx, d) \<Rightarrow>
        (no_stop, upd_state (\<lambda>s.
           write_register (write_register (write_register (write_register s EAX (ucast a) 4)
             (D32 G_BX) (ucast b) 4) ECX (ucast cx) 4) EDX (ucast d) 4) c))"

definition stmxcsr :: "'w handler" where
  "stmxcsr c = write_operand_checked c 0 (ucast (mxcsr (state c))) 4"

definition ldmxcsr :: "'w handler" where
  "ldmxcsr = with_operand 0 4 (\<lambda>value c.
     if drop_bit 16 value \<noteq> 0 then (alignment_fault c (memory_address c), c)
     else (no_stop, upd_state (\<lambda>s. s\<lparr>mxcsr := ucast value\<rparr>) c))"

definition handle_code_STMXCSR :: "'w handler" where "handle_code_STMXCSR = stmxcsr"
definition handle_code_STMXCSR_M32 :: "'w handler" where "handle_code_STMXCSR_M32 = stmxcsr"
definition handle_code_LDMXCSR :: "'w handler" where "handle_code_LDMXCSR = ldmxcsr"
definition handle_code_LDMXCSR_M32 :: "'w handler" where "handle_code_LDMXCSR_M32 = ldmxcsr"

definition handle_code_RDSSPD_R32 :: "'w handler" where "handle_code_RDSSPD_R32 = put_reg_0 4 0"
definition handle_code_RDSSPQ_R64 :: "'w handler" where "handle_code_RDSSPQ_R64 = put_reg_0 8 0"

definition handle_code_RDFSBASE_R64 :: "'w handler" where
  "handle_code_RDFSBASE_R64 c = put_reg_0 8 (fs_base (state c)) c"

definition handle_code_RDGSBASE_R64 :: "'w handler" where
  "handle_code_RDGSBASE_R64 c = put_reg_0 8 (gs_base (state c)) c"

definition handle_code_WRFSBASE_R64 :: "'w handler" where
  "handle_code_WRFSBASE_R64 c = (no_stop, upd_state (\<lambda>s. s\<lparr>fs_base := register_0 c\<rparr>) c)"

definition handle_code_WRGSBASE_R64 :: "'w handler" where
  "handle_code_WRGSBASE_R64 c = (no_stop, upd_state (\<lambda>s. s\<lparr>gs_base := register_0 c\<rparr>) c)"

section \<open>Cache control, fences and no-operations\<close>

definition touch :: "'w handler" where
  "touch = with_operand_checked 0 1 (\<lambda>ignored c. (no_stop, c))"

definition handle_code_CLFLUSH_M8 :: "'w handler" where "handle_code_CLFLUSH_M8 = touch"
definition handle_code_CLFLUSHOPT_M8 :: "'w handler" where "handle_code_CLFLUSHOPT_M8 = touch"
definition handle_code_CLWB_M8 :: "'w handler" where "handle_code_CLWB_M8 = touch"

definition no_operation :: "'w handler" where
  "no_operation c = (no_stop, c)"

definition handle_code_INVD :: "'w handler" where "handle_code_INVD = no_operation"
definition handle_code_LFENCE :: "'w handler" where "handle_code_LFENCE = no_operation"
definition handle_code_LFENCE_E9 :: "'w handler" where "handle_code_LFENCE_E9 = no_operation"
definition handle_code_LFENCE_EA :: "'w handler" where "handle_code_LFENCE_EA = no_operation"
definition handle_code_LFENCE_EB :: "'w handler" where "handle_code_LFENCE_EB = no_operation"
definition handle_code_LFENCE_EC :: "'w handler" where "handle_code_LFENCE_EC = no_operation"
definition handle_code_LFENCE_ED :: "'w handler" where "handle_code_LFENCE_ED = no_operation"
definition handle_code_LFENCE_EE :: "'w handler" where "handle_code_LFENCE_EE = no_operation"
definition handle_code_LFENCE_EF :: "'w handler" where "handle_code_LFENCE_EF = no_operation"
definition handle_code_MFENCE :: "'w handler" where "handle_code_MFENCE = no_operation"
definition handle_code_MFENCE_F1 :: "'w handler" where "handle_code_MFENCE_F1 = no_operation"
definition handle_code_MFENCE_F2 :: "'w handler" where "handle_code_MFENCE_F2 = no_operation"
definition handle_code_MFENCE_F3 :: "'w handler" where "handle_code_MFENCE_F3 = no_operation"
definition handle_code_MFENCE_F4 :: "'w handler" where "handle_code_MFENCE_F4 = no_operation"
definition handle_code_MFENCE_F5 :: "'w handler" where "handle_code_MFENCE_F5 = no_operation"
definition handle_code_MFENCE_F6 :: "'w handler" where "handle_code_MFENCE_F6 = no_operation"
definition handle_code_MFENCE_F7 :: "'w handler" where "handle_code_MFENCE_F7 = no_operation"
definition handle_code_PAUSE :: "'w handler" where "handle_code_PAUSE = no_operation"
definition handle_code_PREFETCHNTA_M8 :: "'w handler" where "handle_code_PREFETCHNTA_M8 = no_operation"
definition handle_code_PREFETCHT0_M8 :: "'w handler" where "handle_code_PREFETCHT0_M8 = no_operation"
definition handle_code_PREFETCHT1_M8 :: "'w handler" where "handle_code_PREFETCHT1_M8 = no_operation"
definition handle_code_PREFETCHT2_M8 :: "'w handler" where "handle_code_PREFETCHT2_M8 = no_operation"
definition handle_code_PREFETCHW_M8 :: "'w handler" where "handle_code_PREFETCHW_M8 = no_operation"
definition handle_code_PREFETCHWT1_M8 :: "'w handler" where "handle_code_PREFETCHWT1_M8 = no_operation"
definition handle_code_SFENCE :: "'w handler" where "handle_code_SFENCE = no_operation"
definition handle_code_SFENCE_F9 :: "'w handler" where "handle_code_SFENCE_F9 = no_operation"
definition handle_code_SFENCE_FA :: "'w handler" where "handle_code_SFENCE_FA = no_operation"
definition handle_code_SFENCE_FB :: "'w handler" where "handle_code_SFENCE_FB = no_operation"
definition handle_code_SFENCE_FC :: "'w handler" where "handle_code_SFENCE_FC = no_operation"
definition handle_code_SFENCE_FD :: "'w handler" where "handle_code_SFENCE_FD = no_operation"
definition handle_code_SFENCE_FE :: "'w handler" where "handle_code_SFENCE_FE = no_operation"
definition handle_code_SFENCE_FF :: "'w handler" where "handle_code_SFENCE_FF = no_operation"
definition handle_code_WBINVD :: "'w handler" where "handle_code_WBINVD = no_operation"
definition handle_code_NOPD :: "'w handler" where "handle_code_NOPD = no_operation"
definition handle_code_NOPW :: "'w handler" where "handle_code_NOPW = no_operation"
definition handle_code_NOP_RM16 :: "'w handler" where "handle_code_NOP_RM16 = no_operation"
definition handle_code_NOP_RM32 :: "'w handler" where "handle_code_NOP_RM32 = no_operation"
definition handle_code_NOP_RM64 :: "'w handler" where "handle_code_NOP_RM64 = no_operation"
definition handle_code_ENDBR64 :: "'w handler" where "handle_code_ENDBR64 = no_operation"

end
