(* ===== verification/System_Facts.thy ===== *)
theory System_Facts
  imports System_Ops Data_Facts
begin

text \<open>
  System calls, model-specific registers and stack frames: what SYSCALL saves SYSRET restores, a value written to a
  model-specific register is read back, LEAVE undoes ENTER, and the list forms of RDMSR and WRMSR leave in RCX the
  entries that are still to be done.
\<close>

section \<open>Registers after writes\<close>

lemma write_register_fields:
  assumes "reg_part r = Some p"
  shows "rip (write_register s r v w) = rip s" "mode (write_register s r v w) = mode s"
    "msr (write_register s r v w) = msr s" "rflags (write_register s r v w) = rflags s"
  using assms by (simp_all add: reg_part_gpr write_gpr_def Let_def)

lemma write_full_register:
  assumes "wf_cpu s" "reg_part r = Some (0, 8 * w)" "0 < w"
  shows "read_register (write_register s r v w) r = take_bit (8 * w) v"
  using read_write_register [OF assms(1,2)] write_register_override [OF assms(2)] reg_part_width [OF assms(2)] by simp

lemma masked_add: "take_bit n (take_bit n a + b) = take_bit n (a + b)" for a b :: u64
proof -
  let ?k = "min n 64"
  have u: "uint (take_bit n (x + y)) = take_bit ?k (uint x + uint y)" for x y :: u64
    by (simp only: unsigned_take_bit_eq uint_word_ariths take_bit_eq_mod [symmetric] take_bit_take_bit len_num0 len_bit0 len_num1) simp
  have "take_bit ?k (take_bit n (uint a)) = take_bit ?k (uint a)" by (simp add: take_bit_take_bit)
  then have "take_bit ?k (take_bit n (uint a) + uint b) = take_bit ?k (uint a + uint b)"
    using take_bit_add [of ?k "take_bit n (uint a)" "uint b"] take_bit_add [of ?k "uint a" "uint b"] by metis
  then have "uint (take_bit n (take_bit n a + b)) = uint (take_bit n (a + b))" by (simp only: u unsigned_take_bit_eq [of n a])
  then show ?thesis by (rule unsigned_word_eqI)
qed

section \<open>SYSCALL and SYSRET\<close>

text \<open>C39: SYSCALL enters at LSTAR with the flags of SFMASK cleared, and SYSRETQ returns: from any later state in which RCX and R11 hold what
  SYSCALL put there it resumes after the SYSCALL with the flags the caller had, in 64-bit mode, and changes no general-purpose register.\<close>

theorem syscall_sysret_roundtrip:
  fixes c :: "'w ctx"
  assumes "wf_cpu (state c)"
  shows "\<exists>s1. handle_code_SYSCALL c = (no_stop, c\<lparr>state := s1, control_flow_taken := True\<rparr>) \<and>
    rip s1 = read_msr (state c) 0xC0000082 \<and>
    rflags s1 = rflags (state c) AND NOT (read_msr (state c) 0xC0000084) \<and>
    (\<forall>c2 :: 'w ctx. read_register (state c2) RCX = read_register s1 RCX \<and> read_register (state c2) R11 = read_register s1 R11 \<longrightarrow>
       (\<exists>s2. handle_code_SYSRETQ c2 = (no_stop, c2\<lparr>state := s2, control_flow_taken := True\<rparr>) \<and>
          rip s2 = next_rip c \<and> rflags s2 = rflags (state c) \<and> gpr s2 = gpr (state c2) \<and> mode s2 = long64))"
proof -
  let ?s1 = "write_register (state c) RCX (next_rip c) 8"
  let ?s2 = "write_register ?s1 R11 (rflags (state c)) 8"
  have w1: "wf_cpu ?s1" using assms by (rule write_register_wf)
  have r: "read_register ?s2 RCX = next_rip c" "read_register ?s2 R11 = rflags (state c)"
    using write_full_register [OF assms, of RCX 8] write_full_register [OF w1, of R11 8]
    by (simp_all add: read_write_register_other take_bit_word_eq_self)
  let ?s3 = "?s2\<lparr>rflags := rflags (state c) AND NOT (read_msr (state c) 0xC0000084),
      rip := read_msr (state c) 0xC0000082\<rparr>"
  have h: "handle_code_SYSCALL c = (no_stop, c\<lparr>state := ?s3, control_flow_taken := True\<rparr>)"
    by (simp add: handle_code_SYSCALL_def Let_def write_register_fields read_msr_def kMsrLStar_def kMsrSFMASK_def)
  have rr: "read_register (s\<lparr>rflags := f, rip := p\<rparr>) q = read_register s q" for s f p q
    by (cases q) (simp_all add: read_register_def read_gpr_def mmx_get_def Let_def)
  show ?thesis
  proof (rule exI [of _ ?s3], intro conjI allI impI, rule h)
    fix c2 :: "'w ctx"
    assume "read_register (state c2) RCX = read_register ?s3 RCX \<and> read_register (state c2) R11 = read_register ?s3 R11"
    then show "\<exists>s2. handle_code_SYSRETQ c2 = (no_stop, c2\<lparr>state := s2, control_flow_taken := True\<rparr>) \<and>
        rip s2 = next_rip c \<and> rflags s2 = rflags (state c) \<and> gpr s2 = gpr (state c2) \<and> mode s2 = long64"
      using r by (intro exI [of _ "(state c2)\<lparr>mode := long64, rip := next_rip c, rflags := rflags (state c)\<rparr>"])
        (simp add: rr handle_code_SYSRETQ_def)
  qed simp_all
qed

section \<open>Model-specific registers\<close>

lemma put_edx_eax_read:
  assumes "wf_cpu s"
  shows "edx_eax (put_edx_eax v s) = v"
proof -
  let ?s1 = "write_register s EAX (ucast (ucast v :: u32)) 4"
  have w1: "wf_cpu ?s1" using assms by (rule write_register_wf)
  have "read_register (put_edx_eax v s) EAX = take_bit 32 (ucast (ucast v :: u32))"
    "read_register (put_edx_eax v s) EDX = take_bit 32 (ucast (ucast (drop_bit 32 v) :: u32))"
    using write_full_register [OF assms, of EAX 4] write_full_register [OF w1, of EDX 4]
    by (simp_all add: put_edx_eax_def read_write_register_other)
  then show ?thesis
    by (intro bit_word_eqI)
      (auto simp: edx_eax_def mask_consts(3) bit_or_iff bit_and_iff bit_push_bit_iff bit_take_bit_iff bit_ucast_iff
        bit_mask_iff bit_drop_bit_eq)
qed

text \<open>WRMSR writes EDX:EAX to the register ECX names and to no other, and RDMSR reads it back.\<close>

theorem msr_roundtrip:
  assumes "wf_cpu (state c)"
  shows "\<exists>s1. handle_code_WRMSR c = (no_stop, c\<lparr>state := s1\<rparr>) \<and>
    (\<forall>i. read_msr s1 i = (if i = ecx_index (state c) then edx_eax (state c) else read_msr (state c) i)) \<and>
    (\<forall>c2. wf_cpu (state c2) \<and> msr (state c2) = msr s1 \<and> ecx_index (state c2) = ecx_index (state c) \<longrightarrow>
       edx_eax (state (snd (handle_code_RDMSR c2))) = edx_eax (state c))"
  by (auto simp: handle_code_WRMSR_def handle_code_RDMSR_def write_msr_def read_msr_def put_edx_eax_read)

section \<open>ENTER and LEAVE\<close>

definition frame_catalog :: "('w handler \<times> 'w handler \<times> register \<times> register \<times> nat) list" where
  "frame_catalog =
    [(handle_code_ENTERW_IMM16_IMM8, handle_code_LEAVEW, W16 G_SP, W16 G_BP, 2),
     (handle_code_ENTERD_IMM16_IMM8, handle_code_LEAVED, D32 G_SP, D32 G_BP, 4),
     (handle_code_ENTERQ_IMM16_IMM8, handle_code_LEAVEQ, RSP, Q64 G_BP, 8)]"

text \<open>What the two writes to the stack pointer and the write to the frame pointer leave.\<close>

lemma frame_registers:
  assumes "wf_cpu s" "reg_part bp = Some (0, 8 * w)" "reg_part sp = Some (0, 8 * w)" "reg_index sp \<noteq> reg_index bp" "0 < w"
  shows "read_register (write_register (write_register (write_register s bp a w) sp a w) sp b w) bp = take_bit (8 * w) a"
    "read_register (write_register (write_register (write_register s sp a w) bp a w) sp b w) bp = take_bit (8 * w) a"
  using write_full_register [OF assms(1,2,5)] write_full_register [OF write_register_wf [OF assms(1)] assms(2,5)] assms(2-4)
  by (simp_all add: read_write_register_other)

lemma stored_frame:
  assumes "plain (mem c)" "valid_width w" "ctx_write c a v w = (True, c0)"
  shows "state c0 = state c \<and> plain (mem c0) \<and> fst (ctx_read (c0\<lparr>state := s\<rparr>) a w) = Some (take_bit (8 * w) v)"
  using ctx_write_plain [OF assms(1,2), of a v] cm.store_same [OF assms(1,2), of a v] assms(3) by auto

definition enter_spec :: "'w handler \<Rightarrow> register \<Rightarrow> register \<Rightarrow> nat \<Rightarrow> 'w ctx \<Rightarrow> bool" where
  "enter_spec enter sp bp w c \<longleftrightarrow> (\<forall>c1. enter c = (no_stop, c1) \<longrightarrow>
     wf_cpu (state c1) \<and> plain (mem c1) \<and>
     read_register (state c1) bp = take_bit (8 * w) (read_register (state c) sp - word_of_nat w) \<and>
     fst (ctx_read c1 (read_register (state c1) bp) w) = Some (take_bit (8 * w) (read_register (state c) bp)))"

lemma enter_frame:
  assumes "wf_cpu (state c)" "plain (mem c)"
  shows "enter_spec handle_code_ENTERW (W16 G_SP) (W16 G_BP) 2 c"
    and "4 \<le> read_register (state c) (D32 G_SP) \<Longrightarrow> enter_spec handle_code_ENTERD (D32 G_SP) (D32 G_BP) 4 c"
    and "enter_spec handle_code_ENTERQ RSP (Q64 G_BP) 8 c"
proof -
  have m: "v AND 0xFFFF = take_bit 16 v" "v AND 0xFFFFFFFF = take_bit 32 v" for v :: u64
    by (simp_all add: take_bit_eq_mask mask_eq_exp_minus_1)
  have d: "take_bit 32 (read_register (state c) (D32 G_SP) - 4) = read_register (state c) (D32 G_SP) - 4"
    if "4 \<le> read_register (state c) (D32 G_SP)"
  proof -
    let ?x = "read_register (state c) (D32 G_SP)"
    have "take_bit 32 (unat ?x) = unat ?x"
      using register_range [of "D32 G_SP" 32 "state c"] by (metis reg_part.simps(7) unsigned_take_bit_eq)
    then have "unat ?x < 2 ^ 32" by (metis take_bit_nat_less_exp)
    moreover have "unat (?x - 4) \<le> unat ?x" using that word_sub_le_iff [of ?x 4] by (simp add: word_le_nat_alt)
    ultimately have "unat (take_bit 32 (?x - 4)) = unat (?x - 4)"
      by (simp only: unsigned_take_bit_eq take_bit_nat_eq_self)
    then show ?thesis by (rule unsigned_word_eqI)
  qed
  show "enter_spec handle_code_ENTERW (W16 G_SP) (W16 G_BP) 2 c"
    using assms stored_frame [OF assms(2), of 2]
    by (auto simp: enter_spec_def handle_code_ENTERW_def Let_def valid_width_def frame_registers m
        intro!: write_register_wf split: prod.splits bool.splits)
  show "enter_spec handle_code_ENTERD (D32 G_SP) (D32 G_BP) 4 c" if "4 \<le> read_register (state c) (D32 G_SP)"
    using assms stored_frame [OF assms(2), of 4] d [OF that]
    by (auto simp: enter_spec_def handle_code_ENTERD_def Let_def valid_width_def frame_registers m
        intro!: write_register_wf split: prod.splits bool.splits)
  show "enter_spec handle_code_ENTERQ RSP (Q64 G_BP) 8 c"
    using assms stored_frame [OF assms(2), of 8]
    by (auto simp: enter_spec_def handle_code_ENTERQ_def Let_def valid_width_def frame_registers take_bit_word_eq_self
        intro!: write_register_wf split: prod.splits bool.splits)
qed

lemma leave_undoes:
  assumes "enter_spec enter sp bp w c" "enter c = (no_stop, c1)" "valid_width w"
    and "reg_part bp = Some (0, 8 * w)" "reg_part sp = Some (0, 8 * w)" "reg_index sp \<noteq> reg_index bp"
  shows "\<exists>c2. leave_width bp sp w (c1\<lparr>instr := i\<rparr>) = (no_stop, c2) \<and>
    read_register (state c2) sp = read_register (state c) sp \<and> read_register (state c2) bp = read_register (state c) bp"
proof -
  let ?c = "c1\<lparr>instr := i\<rparr>" and ?sp = "read_register (state c) sp" and ?bp = "read_register (state c) bp"
  have c1: "wf_cpu (state c1)" "plain (mem c1)" "read_register (state c1) bp = take_bit (8 * w) (?sp - word_of_nat w)"
    "fst (ctx_read c1 (read_register (state c1) bp) w) = Some (take_bit (8 * w) ?bp)"
    using assms(1,2) by (auto simp: enter_spec_def)
  have w: "0 < w" using valid_width_bounds [OF assms(3)] by simp
  obtain m where m: "ctx_read ?c (read_register (state c1) bp) w = (Some ?bp, ?c\<lparr>mem := m\<rparr>)"
    using ctx_read_plain [of ?c w "read_register (state c1) bp"] ctx_read_plain [of c1 w "read_register (state c1) bp"]
      c1 assms(3) register_range [OF assms(4)] by auto
  let ?s1 = "write_register (state c1) sp (read_register (state c1) bp + word_of_nat w) w"
  have "read_register ?s1 sp = take_bit (8 * w) (take_bit (8 * w) (?sp - word_of_nat w) + word_of_nat w)"
    using write_full_register [OF c1(1) assms(5) w] c1(3) by simp
  also have "\<dots> = take_bit (8 * w) (?sp - word_of_nat w + word_of_nat w)"
    by (rule masked_add)
  also have "\<dots> = ?sp" using register_range [OF assms(5)] by simp
  finally have "read_register (write_register ?s1 bp ?bp w) sp = ?sp" using assms(4-6) by (simp add: read_write_register_other)
  moreover have "read_register (write_register ?s1 bp ?bp w) bp = ?bp"
    using write_full_register [OF write_register_wf [OF c1(1)] assms(4) w] register_range [OF assms(4)] by simp
  ultimately show ?thesis using m by (auto simp: leave_width_def)
qed

text \<open>LEAVE undoes ENTER, at every operand size and for every frame size: stack and frame pointer return to what they were. (The
  32-bit ENTER pushes at an address that is not reduced to 32 bits, so it needs room below ESP.)\<close>

theorem enter_leave_roundtrip:
  assumes "(enter, leave, sp, bp, w) \<in> set frame_catalog" "wf_cpu (state c)" "plain (mem c)"
    and "w = 4 \<Longrightarrow> 4 \<le> read_register (state c) sp" and "enter c = (no_stop, c1)"
  shows "\<exists>c2. leave (c1\<lparr>instr := i\<rparr>) = (no_stop, c2) \<and>
    read_register (state c2) sp = read_register (state c) sp \<and> read_register (state c2) bp = read_register (state c) bp"
proof -
  have "enter_spec enter sp bp w c \<and> leave = leave_width bp sp w \<and> valid_width w \<and>
      reg_part bp = Some (0, 8 * w) \<and> reg_part sp = Some (0, 8 * w) \<and> reg_index sp \<noteq> reg_index bp"
    using assms(1,4) enter_frame [OF assms(2,3)]
    by (auto simp: frame_catalog_def handle_code_ENTERW_IMM16_IMM8_def handle_code_ENTERD_IMM16_IMM8_def
        handle_code_ENTERQ_IMM16_IMM8_def handle_code_LEAVEW_def handle_code_LEAVED_def handle_code_LEAVEQ_def valid_width_def)
  then show ?thesis using leave_undoes [where enter = enter and c = c, OF _ assms(5)] by blast
qed

section \<open>RDMSRLIST and WRMSRLIST\<close>

text \<open>
  Entry \<open>b\<close> of a list, done: the index is read at \<open>si + 8 * b\<close> and the register's value is stored at \<open>di + 8 * b\<close>, or the value
  read there goes to the register; then bit \<open>b\<close> leaves RCX. And the entry that cannot be done: one of its two accesses
  fails, the result is a page fault at the address of that access, and only memory (a store cut short, a lookup cache)
  can have changed.
\<close>

definition rcx_without :: "nat \<Rightarrow> cpu_state \<Rightarrow> cpu_state" where
  "rcx_without b s = write_register s RCX (read_register s RCX AND NOT (2 ^ b)) 0"

definition rd_entry :: "u64 \<Rightarrow> u64 \<Rightarrow> nat \<Rightarrow> 'w ctx \<Rightarrow> 'w ctx \<Rightarrow> bool" where
  "rd_entry di si b c c' \<longleftrightarrow> (\<exists>i c1 c2. ctx_read c (si + word_of_nat b * 8) 8 = (Some i, c1) \<and>
     ctx_write c1 (di + word_of_nat b * 8) (read_msr (state c) (ucast i)) 8 = (True, c2) \<and>
     c' = c2\<lparr>state := rcx_without b (state c)\<rparr>)"

definition rd_fault :: "u64 \<Rightarrow> u64 \<Rightarrow> nat \<Rightarrow> 'w ctx \<Rightarrow> execution_result \<times> 'w ctx \<Rightarrow> bool" where
  "rd_fault di si b c r \<longleftrightarrow>
     ctx_read c (si + word_of_nat b * 8) 8 = (None, snd r) \<and> fst r = memory_fault c (si + word_of_nat b * 8) \<or>
     (\<exists>i c1. ctx_read c (si + word_of_nat b * 8) 8 = (Some i, c1) \<and>
        ctx_write c1 (di + word_of_nat b * 8) (read_msr (state c) (ucast i)) 8 = (False, snd r) \<and>
        fst r = memory_fault c (di + word_of_nat b * 8))"

definition wr_entry :: "u64 \<Rightarrow> u64 \<Rightarrow> nat \<Rightarrow> 'w ctx \<Rightarrow> 'w ctx \<Rightarrow> bool" where
  "wr_entry di si b c c' \<longleftrightarrow> (\<exists>i v c1 c2. ctx_read c (si + word_of_nat b * 8) 8 = (Some i, c1) \<and>
     ctx_read c1 (di + word_of_nat b * 8) 8 = (Some v, c2) \<and>
     c' = c2\<lparr>state := rcx_without b (write_msr (state c) (ucast i) v)\<rparr>)"

definition wr_fault :: "u64 \<Rightarrow> u64 \<Rightarrow> nat \<Rightarrow> 'w ctx \<Rightarrow> execution_result \<times> 'w ctx \<Rightarrow> bool" where
  "wr_fault di si b c r \<longleftrightarrow>
     ctx_read c (si + word_of_nat b * 8) 8 = (None, snd r) \<and> fst r = memory_fault c (si + word_of_nat b * 8) \<or>
     (\<exists>i c1. ctx_read c (si + word_of_nat b * 8) 8 = (Some i, c1) \<and>
        ctx_read c1 (di + word_of_nat b * 8) 8 = (None, snd r) \<and> fst r = memory_fault c (di + word_of_nat b * 8))"

text \<open>The entries below a position that \<open>v\<close> selects, done one after the other.\<close>

inductive entries_done :: "(nat \<Rightarrow> 'w ctx \<Rightarrow> 'w ctx \<Rightarrow> bool) \<Rightarrow> u64 \<Rightarrow> nat \<Rightarrow> 'w ctx \<Rightarrow> 'w ctx \<Rightarrow> bool"
  for entry v where
  start: "entries_done entry v 0 c c"
| selected: "entries_done entry v n c c1 \<Longrightarrow> bit v n \<Longrightarrow> entry n c1 c2 \<Longrightarrow> entries_done entry v (Suc n) c c2"
| unselected: "entries_done entry v n c c1 \<Longrightarrow> \<not> bit v n \<Longrightarrow> entries_done entry v (Suc n) c c1"

text \<open>What the two loops share: an entry either faults, or is done, its bit leaves RCX and the loop goes on.\<close>

locale msr_list =
  fixes loop :: "nat list \<Rightarrow> u64 \<Rightarrow> 'w handler" and entry :: "nat \<Rightarrow> 'w ctx \<Rightarrow> 'w ctx \<Rightarrow> bool"
    and fault :: "nat \<Rightarrow> 'w ctx \<Rightarrow> execution_result \<times> 'w ctx \<Rightarrow> bool"
  assumes empty: "loop [] rcx c = (no_stop, c)"
    and skip: "\<not> bit rcx b \<Longrightarrow> loop (b # bits) rcx c = loop bits rcx c"
    and step: "bit rcx b \<Longrightarrow> read_register (state c) RCX = rcx \<Longrightarrow>
      fault b c (loop (b # bits) rcx c) \<or>
      (\<exists>c1. entry b c c1 \<and> loop (b # bits) rcx c = loop bits (rcx AND NOT (2 ^ b)) c1)"
    and entry_rcx: "entry b c c1 \<Longrightarrow> wf_cpu (state c) \<Longrightarrow>
      wf_cpu (state c1) \<and> read_register (state c1) RCX = read_register (state c) RCX AND NOT (2 ^ b)"
    and fault_state: "fault b c r \<Longrightarrow> state (snd r) = state c"
begin

lemma loop_from:
  assumes "entries_done entry v n c0 c" "wf_cpu (state c)" "n \<le> 64"
    and "read_register (state c) RCX = v AND NOT (mask n)"
  shows "\<exists>j c1. entries_done entry v j c0 c1 \<and> read_register (state c1) RCX = v AND NOT (mask j) \<and>
    (j = 64 \<and> loop [n..<64] (v AND NOT (mask n)) c = (no_stop, c1) \<or>
     j < 64 \<and> bit v j \<and> fault j c1 (loop [n..<64] (v AND NOT (mask n)) c))"
  using assms
proof (induction "64 - n" arbitrary: n c)
  case 0
  then have "n = 64" by simp
  then show ?case using 0 empty by auto
next
  case (Suc k)
  let ?rcx = "v AND NOT (mask n)"
  have n: "n < 64" "k = 64 - Suc n" "[n..<64] = n # [Suc n..<64]"
    using Suc.hyps(2) Suc.prems(3) by (simp_all add: upt_conv_Cons)
  have b: "bit ?rcx n = bit v n" by (simp add: bit_and_iff bit_not_iff bit_mask_iff n(1))
  have clear: "?rcx AND NOT (2 ^ n) = v AND NOT (mask (Suc n))" "\<not> bit v n \<Longrightarrow> ?rcx = v AND NOT (mask (Suc n))"
    by (rule bit_word_eqI; auto simp: bit_and_iff bit_not_iff bit_mask_iff bit_exp_iff less_Suc_eq)+
  show ?case
  proof (cases "bit v n")
    case False
    then have "loop [n..<64] ?rcx c = loop [Suc n..<64] (v AND NOT (mask (Suc n))) c"
      using skip [of ?rcx n "[Suc n..<64]" c] b clear(2) [OF False] unfolding n(3) by metis
    then show ?thesis
      using Suc.hyps(1) [OF n(2) entries_done.unselected [OF Suc.prems(1) False] Suc.prems(2)] n(1) Suc.prems(4)
        clear(2) [OF False] by simp
  next
    case True
    consider (fault) "fault n c (loop [n..<64] ?rcx c)"
      | (next_entry) c1 where "entry n c c1" "loop [n..<64] ?rcx c = loop [Suc n..<64] (v AND NOT (mask (Suc n))) c1"
      using step [of ?rcx n c "[Suc n..<64]"] Suc.prems(4) True b unfolding n(3) clear by metis
    then show ?thesis
    proof cases
      case fault
      then show ?thesis using Suc.prems(1,4) True n(1) by blast
    next
      case (next_entry c1)
      then show ?thesis
        using Suc.hyps(1) [OF n(2) entries_done.selected [OF Suc.prems(1) True next_entry(1)]] n(1)
          entry_rcx [OF next_entry(1) Suc.prems(2)] Suc.prems(4) clear(1) by simp
    qed
  qed
qed

lemma loop_entries:
  assumes "wf_cpu (state c)"
  shows "\<exists>j c1. entries_done entry (read_register (state c) RCX) j c c1 \<and>
    read_register (state c1) RCX = read_register (state c) RCX AND NOT (mask j) \<and>
    (j = 64 \<and> loop [0..<64] (read_register (state c) RCX) c = (no_stop, c1) \<and> read_register (state c1) RCX = 0 \<or>
     j < 64 \<and> bit (read_register (state c) RCX) j \<and> fault j c1 (loop [0..<64] (read_register (state c) RCX) c) \<and>
       state (snd (loop [0..<64] (read_register (state c) RCX) c)) = state c1)"
proof -
  let ?v = "read_register (state c) RCX"
  have v: "?v AND NOT (mask 0) = ?v" by simp
  have z: "?v AND NOT (mask 64) = 0" by (rule bit_word_eqI) (auto simp: bit_and_iff bit_not_iff bit_mask_iff)
  obtain j c1 where "entries_done entry ?v j c c1" "read_register (state c1) RCX = ?v AND NOT (mask j)"
    "j = 64 \<and> loop [0..<64] ?v c = (no_stop, c1) \<or> j < 64 \<and> bit ?v j \<and> fault j c1 (loop [0..<64] ?v c)"
    using loop_from [OF entries_done.start assms, of ?v] unfolding v by auto
  then show ?thesis using fault_state [of j c1] z by metis
qed

end

lemma read_rcx_write: "wf_cpu s \<Longrightarrow> read_register (write_register s RCX v 0) RCX = v"
  using read_write_register [of s RCX 0 64] by (simp add: take_bit_word_eq_self)

lemma and_exp_0: "v AND 2 ^ b = 0 \<longleftrightarrow> \<not> bit v b" for v :: u64
  by (rule and_exp_eq_0_iff_not_bit)

lemma ctx_read_memory: "ctx_read c a w = (x, c1) \<Longrightarrow> \<exists>m. c1 = c\<lparr>mem := m\<rparr>"
  by (auto simp: ctx_read_def split: prod.splits)

lemma ctx_write_memory: "ctx_write c a v w = (x, c1) \<Longrightarrow> \<exists>m. c1 = c\<lparr>mem := m\<rparr>"
  by (auto simp: ctx_write_def split: prod.splits)

lemma ctx_access_frame:
  "ctx_read c a w = (x, c1) \<Longrightarrow> state c1 = state c \<and> memory_fault c1 = memory_fault c"
  "ctx_write c a v w = (y, c1) \<Longrightarrow> state c1 = state c \<and> memory_fault c1 = memory_fault c"
  by (auto dest!: ctx_read_memory ctx_write_memory simp: fun_eq_iff)

lemma write_msr_rcx [simp]:
  "wf_cpu (write_msr s i v) \<longleftrightarrow> wf_cpu s" "read_register (write_msr s i v) RCX = read_register s RCX"
  by (simp_all add: write_msr_def wf_cpu_def read_register_def read_gpr_def)

lemma rcx_without_rcx:
  "wf_cpu s \<Longrightarrow> wf_cpu (rcx_without b s) \<and> read_register (rcx_without b s) RCX = read_register s RCX AND NOT (2 ^ b)"
  by (simp add: rcx_without_def write_register_wf read_rcx_write)

interpretation rd: msr_list "rdmsrlist_loop di si" "rd_entry di si" "rd_fault di si" for di si
proof
  fix rcx :: u64 and b bits and c c1 :: "'w ctx" and r
  show "rdmsrlist_loop di si [] rcx c = (no_stop, c)" by simp
  show "rdmsrlist_loop di si (b # bits) rcx c = rdmsrlist_loop di si bits rcx c" if "\<not> bit rcx b"
    using that by (simp add: and_exp_0)
  show "rd_fault di si b c (rdmsrlist_loop di si (b # bits) rcx c) \<or>
      (\<exists>c1. rd_entry di si b c c1 \<and> rdmsrlist_loop di si (b # bits) rcx c = rdmsrlist_loop di si bits (rcx AND NOT (2 ^ b)) c1)"
    if "bit rcx b" "read_register (state c) RCX = rcx"
  proof (cases "ctx_read c (si + word_of_nat b * 8) 8")
    case (Pair x c1)
    note f = ctx_access_frame(1) [OF Pair]
    show ?thesis
    proof (cases x)
      case None
      then show ?thesis using that Pair f by (simp add: and_exp_0 Let_def rd_fault_def)
    next
      case (Some i)
      obtain y c2 where c2: "ctx_write c1 (di + word_of_nat b * 8) (read_msr (state c) (ucast i)) 8 = (y, c2)" by fastforce
      show ?thesis
        using that Pair f Some c2 ctx_access_frame(2) [OF c2]
        by (cases y) (auto simp: and_exp_0 Let_def rd_fault_def rd_entry_def rcx_without_def)
    qed
  qed
  show "wf_cpu (state c1) \<and> read_register (state c1) RCX = read_register (state c) RCX AND NOT (2 ^ b)"
    if "rd_entry di si b c c1" "wf_cpu (state c)"
    using that rcx_without_rcx by (auto simp: rd_entry_def)
  show "state (snd r) = state c" if "rd_fault di si b c r"
    using that unfolding rd_fault_def by (metis ctx_access_frame)
qed

interpretation wr: msr_list "wrmsrlist_loop di si" "wr_entry di si" "wr_fault di si" for di si
proof
  fix rcx :: u64 and b bits and c c1 :: "'w ctx" and r
  show "wrmsrlist_loop di si [] rcx c = (no_stop, c)" by simp
  show "wrmsrlist_loop di si (b # bits) rcx c = wrmsrlist_loop di si bits rcx c" if "\<not> bit rcx b"
    using that by (simp add: and_exp_0)
  show "wr_fault di si b c (wrmsrlist_loop di si (b # bits) rcx c) \<or>
      (\<exists>c1. wr_entry di si b c c1 \<and> wrmsrlist_loop di si (b # bits) rcx c = wrmsrlist_loop di si bits (rcx AND NOT (2 ^ b)) c1)"
    if "bit rcx b" "read_register (state c) RCX = rcx"
  proof (cases "ctx_read c (si + word_of_nat b * 8) 8")
    case (Pair x c1)
    note f = ctx_access_frame(1) [OF Pair]
    show ?thesis
    proof (cases x)
      case None
      then show ?thesis using that Pair f by (simp add: and_exp_0 Let_def wr_fault_def)
    next
      case (Some i)
      obtain y c2 where c2: "ctx_read c1 (di + word_of_nat b * 8) 8 = (y, c2)" by fastforce
      show ?thesis
        using that Pair f Some c2 ctx_access_frame(1) [OF c2]
        by (cases y) (auto simp: and_exp_0 Let_def wr_fault_def wr_entry_def rcx_without_def)
    qed
  qed
  show "wf_cpu (state c1) \<and> read_register (state c1) RCX = read_register (state c) RCX AND NOT (2 ^ b)"
    if "wr_entry di si b c c1" "wf_cpu (state c)"
    using that rcx_without_rcx by (auto simp: wr_entry_def)
  show "state (snd r) = state c" if "wr_fault di si b c r"
    using that unfolding wr_fault_def by (metis ctx_access_frame)
qed

definition msrlist_catalog :: "('w handler \<times> (u64 \<Rightarrow> u64 \<Rightarrow> nat \<Rightarrow> 'w ctx \<Rightarrow> 'w ctx \<Rightarrow> bool) \<times>
    (u64 \<Rightarrow> u64 \<Rightarrow> nat \<Rightarrow> 'w ctx \<Rightarrow> execution_result \<times> 'w ctx \<Rightarrow> bool)) list" where
  "msrlist_catalog = [(handle_code_RDMSRLIST, rd_entry, rd_fault), (handle_code_WRMSRLIST, wr_entry, wr_fault)]"

text \<open>C40: RDMSRLIST and WRMSRLIST on aligned lists do the entries selected by RCX in order, from entry 0 on: entry \<open>b\<close>
  takes its index at RSI + 8b, moves the value between that register and RDI + 8b and clears bit \<open>b\<close> of RCX. Either all 64
  positions are passed, the instruction succeeds in exactly the machine after these entries and RCX is zero; or a
  selected entry \<open>j\<close> fails, the result is a page fault at the address of its failing access (RSI + 8j or RDI + 8j),
  the registers are those after the selected entries below \<open>j\<close>, and RCX still selects entry \<open>j\<close> and the later ones and
  nothing else, so that a restart continues there. Misaligned lists are a general protection fault that changes nothing.\<close>

theorem msrlist_restartable:
  assumes "(h, entry, fault) \<in> set msrlist_catalog" "wf_cpu (state c)"
    and "di = read_register (state c) (Q64 G_DI)" "si = read_register (state c) (Q64 G_SI)"
    and "v = read_register (state c) RCX"
  shows "if (di OR si) AND 7 \<noteq> 0 then h c = (alignment_fault c (memory_address c), c)
    else \<exists>j c1. entries_done (entry di si) v j c c1 \<and> read_register (state c1) RCX = v AND NOT (mask j) \<and>
      (j = 64 \<and> h c = (no_stop, c1) \<and> read_register (state c1) RCX = 0 \<or>
       j < 64 \<and> bit v j \<and> fault di si j c1 (h c) \<and> state (snd (h c)) = state c1)"
proof -
  note rd = rd.loop_entries [OF assms(2), of di si] and wr = wr.loop_entries [OF assms(2), of di si]
  consider "h = handle_code_RDMSRLIST" "entry = rd_entry" "fault = rd_fault"
    | "h = handle_code_WRMSRLIST" "entry = wr_entry" "fault = wr_fault"
    using assms(1) by (auto simp: msrlist_catalog_def)
  then show ?thesis
  proof cases
    case 1
    then show ?thesis using rd unfolding assms(3-5) by (simp add: handle_code_RDMSRLIST_def msrlist_def Let_def)
  next
    case 2
    then show ?thesis using wr unfolding assms(3-5) by (simp add: handle_code_WRMSRLIST_def msrlist_def Let_def)
  qed
qed

section \<open>Concrete contexts\<close>

text \<open>A stack that grows down from \<^term>\<open>0x2008 :: u64\<close> and a list with two entries selected.\<close>

definition demo_frame :: "unit ctx" where
  "demo_frame = (demo_ctx (null_instruction\<lparr>immediate16 := 0x20\<rparr>))\<lparr>state := initial_cpu_state\<lparr>gpr := (replicate 16 0)[4 := 0x2008]\<rparr>\<rparr>"

definition demo_list :: "unit ctx" where
  "demo_list = (demo_ctx null_instruction)\<lparr>state := initial_cpu_state\<lparr>gpr := (replicate 16 0)[1 := 5, 6 := 0x1000, 7 := 0x1800]\<rparr>\<rparr>"

lemma demo_frame_good: "wf_cpu (state demo_frame)" "plain (mem demo_frame)" "wf_cpu (state demo_list)"
  using initial_wf demo_plain by (simp_all add: demo_frame_def demo_list_def demo_ctx_def wf_cpu_def)

theorem syscall_sysret_roundtrip_witness:
  "\<exists>s1 s2. handle_code_SYSCALL (demo_ctx null_instruction) =
      (no_stop, (demo_ctx null_instruction)\<lparr>state := s1, control_flow_taken := True\<rparr>) \<and>
    handle_code_SYSRETQ ((demo_ctx null_instruction)\<lparr>state := s1\<rparr>) =
      (no_stop, (demo_ctx null_instruction)\<lparr>state := s2, control_flow_taken := True\<rparr>) \<and>
    rip s2 = 1 \<and> rflags s2 = 0x202"
proof -
  have d: "next_rip (demo_ctx null_instruction) = 1" "rflags (state (demo_ctx null_instruction)) = 0x202"
    by (simp_all add: demo_ctx_def initial_cpu_state_def)
  obtain s1 where s1: "handle_code_SYSCALL (demo_ctx null_instruction) =
      (no_stop, (demo_ctx null_instruction)\<lparr>state := s1, control_flow_taken := True\<rparr>)"
    "\<forall>c2 :: unit ctx. read_register (state c2) RCX = read_register s1 RCX \<and>
        read_register (state c2) R11 = read_register s1 R11 \<longrightarrow>
      (\<exists>s2. handle_code_SYSRETQ c2 = (no_stop, c2\<lparr>state := s2, control_flow_taken := True\<rparr>) \<and>
        rip s2 = 1 \<and> rflags s2 = 0x202 \<and> gpr s2 = gpr (state c2) \<and> mode s2 = long64)"
    using syscall_sysret_roundtrip [OF demo_context(1) [of null_instruction], unfolded d] by metis
  then show ?thesis using spec [OF s1(2), of "(demo_ctx null_instruction)\<lparr>state := s1\<rparr>"] by auto
qed

theorem msr_roundtrip_witness:
  "\<exists>s1. handle_code_WRMSR demo_list = (no_stop, demo_list\<lparr>state := s1\<rparr>) \<and> read_msr s1 5 = edx_eax (state demo_list)"
proof -
  have "ecx_index (state demo_list) = 5"
    by (simp add: demo_list_def ecx_index_def read_register_def read_gpr_def)
  then show ?thesis using msr_roundtrip [OF demo_frame_good(3)] by fastforce
qed

theorem enter_leave_roundtrip_witness:
  "\<exists>c1 c2. handle_code_ENTERQ_IMM16_IMM8 demo_frame = (no_stop, c1) \<and>
    handle_code_LEAVEQ (c1\<lparr>instr := null_instruction\<rparr>) = (no_stop, c2) \<and>
    read_register (state c2) RSP = read_register (state demo_frame) RSP"
proof -
  have sp: "read_register (state demo_frame) RSP - 8 = 0x2000" by (simp add: demo_frame_def read_register_def read_gpr_def)
  have "allowed_at (can data_write) (pages demo_memory) (0x2000 + word_of_nat j)" if "j < 8" for j
  proof -
    have "j = 0 \<or> j = 1 \<or> j = 2 \<or> j = 3 \<or> j = 4 \<or> j = 5 \<or> j = 6 \<or> j = 7" using that by linarith
    then show ?thesis
      by (auto simp: allowed_at_def demo_pages kPageSize_def zero_page_def kMemoryPermissionAll_def perm_read_def
          perm_write_def perm_execute_def)
  qed
  then have "may_write demo_frame 0x2000 8" by (simp add: may_write_def demo_frame_def demo_ctx_def)
  then obtain c0 where "ctx_write demo_frame 0x2000 (read_register (state demo_frame) (Q64 G_BP)) 8 = (True, c0)"
    using ctx_write_ok [OF demo_frame_good(2), of 8] by (metis (full_types) prod.collapse valid_width_def)
  then obtain c1 where c1: "handle_code_ENTERQ_IMM16_IMM8 demo_frame = (no_stop, c1)"
    by (simp add: handle_code_ENTERQ_IMM16_IMM8_def handle_code_ENTERQ_def Let_def sp)
  have "(handle_code_ENTERQ_IMM16_IMM8, handle_code_LEAVEQ, RSP, Q64 G_BP, 8) \<in> set frame_catalog"
    by (simp add: frame_catalog_def)
  from enter_leave_roundtrip [OF this demo_frame_good(1,2) _ c1] c1 show ?thesis by fastforce
qed

theorem msrlist_restartable_witness:
  "\<exists>j c1. entries_done (rd_entry 0x1800 0x1000) 5 j demo_list c1 \<and> read_register (state c1) RCX = 5 AND NOT (mask j) \<and>
    (j = 64 \<and> handle_code_RDMSRLIST demo_list = (no_stop, c1) \<and> read_register (state c1) RCX = 0 \<or>
     j < 64 \<and> bit (5 :: u64) j \<and> rd_fault 0x1800 0x1000 j c1 (handle_code_RDMSRLIST demo_list) \<and>
       state (snd (handle_code_RDMSRLIST demo_list)) = state c1)"
proof -
  have "read_register (state demo_list) (Q64 G_DI) = 0x1800" "read_register (state demo_list) (Q64 G_SI) = 0x1000"
    "read_register (state demo_list) RCX = 5"
    by (simp_all add: demo_list_def read_register_def read_gpr_def)
  moreover have "(handle_code_RDMSRLIST, rd_entry, rd_fault) \<in> set msrlist_catalog" by (simp add: msrlist_catalog_def)
  ultimately show ?thesis
    using msrlist_restartable [of handle_code_RDMSRLIST rd_entry rd_fault demo_list "0x1800" "0x1000" 5] demo_frame_good(3)
    by simp
qed

end
