(* ===== verification/Executor_Model.thy ===== *)
theory Executor_Model
  imports Control_Flow
begin

text \<open>
  The executor (\<^verbatim>\<open>seven_core/src/executor.cpp\<close>, \<^verbatim>\<open>executor.hpp\<close>, \<^verbatim>\<open>hooks.hpp\<close>): registration of hooks with deferral while hooks
  run, the decode and code page caches, debug breakpoints, fault recovery with its bounded number of retries, \<^verbatim>\<open>step\<close> and
  \<^verbatim>\<open>run\<close>.

  Parameters, in the record \<open>config\<close>: the decoder and the instruction information of iced-x86, the SIMD profile of
  the build, the environment variable that disables the decode cache, and the dispatch table from codes to
  handlers (\<^verbatim>\<open>handled_codes.def\<close>; a code without an entry takes the default branch of the switch). Hooks and the context
  callbacks are functions that may change the CPU state and the memory and return the calls they make on the executor; a hook
  that calls \<^verbatim>\<open>step\<close> or \<^verbatim>\<open>run\<close> itself is outside the model, and so is an execution hook that registers or
  removes hooks, which changes the vector the source is iterating over. The stderr tracing is left out.
\<close>

section \<open>Hooks\<close>

datatype instruction_hook_action = IH_continue_to_core | IH_skip_core | IH_stop

record instruction_hook_result =
  ih_action :: instruction_hook_action
  ih_stop_result :: "execution_result option"

datatype fault_hook_action = FH_stop | FH_retry | FH_restart_instruction

datatype trap_kind = TK_syscall | TK_cpuid | TK_rdtsc | TK_rdtscp | TK_invalid_opcode | TK_interrupt

datatype trap_hook_action = TH_continue_to_core | TH_handled | TH_stop

record trap_hook_result =
  th_action :: trap_hook_action
  th_stop_result :: "execution_result option"

text \<open>An execution hook is given the address and may only act on the CPU state and the memory.\<close>

type_synonym 'w execution_hook = "u64 \<Rightarrow> cpu_state \<Rightarrow> 'w memory \<Rightarrow> cpu_state \<times> 'w memory"

datatype (dead 'w) instruction_hook =
    Instruction_Hook (run_instruction_hook:
      "instruction \<Rightarrow> u64 \<Rightarrow> cpu_state \<Rightarrow> 'w memory \<Rightarrow> (instruction_hook_result \<times> 'w hook_op list) \<times> cpu_state \<times> 'w memory")
and (dead 'w) trap_hook =
    Trap_Hook (run_trap_hook:
      "trap_kind \<Rightarrow> instruction \<Rightarrow> u64 \<Rightarrow> cpu_state \<Rightarrow> 'w memory \<Rightarrow> (trap_hook_result \<times> 'w hook_op list) \<times> cpu_state \<times> 'w memory")
and (dead 'w) fault_hook =
    Fault_Hook (run_fault_hook:
      "execution_result \<Rightarrow> u64 \<Rightarrow> u64 \<Rightarrow> cpu_state \<Rightarrow> 'w memory \<Rightarrow> (fault_hook_action \<times> 'w hook_op list) \<times> cpu_state \<times> 'w memory")
and (dead 'w) stop_hook =
    Stop_Hook (run_stop_hook:
      "execution_result \<Rightarrow> u64 \<Rightarrow> cpu_state \<Rightarrow> 'w memory \<Rightarrow> 'w hook_op list \<times> cpu_state \<times> 'w memory")
and (dead 'w) hook_op =
    Add_Instruction_Hook "'w instruction_hook"
  | Add_Code_Hook icode "'w instruction_hook"
  | Add_Execution_Hook "'w execution_hook"
  | Add_Execution_Address_Hook u64 "'w execution_hook"
  | Add_Stop_Hook "'w stop_hook"
  | Add_Fault_Hook "'w fault_hook"
  | Add_Trap_Hook trap_kind "'w trap_hook"
  | Remove_Hook u64
  | Clear_Hooks
  | Request_Stop
  | Clear_Stop_Request

text \<open>The closures queued in \<^verbatim>\<open>pending_hook_mutations_\<close>.\<close>

datatype (dead 'w) hook_mutation =
    Emplace_Instruction u64 "'w instruction_hook"
  | Emplace_Code u64 icode "'w instruction_hook"
  | Emplace_Execution u64 "'w execution_hook"
  | Emplace_Execution_Address u64 u64 "'w execution_hook"
  | Emplace_Stop u64 "'w stop_hook"
  | Emplace_Fault u64 "'w fault_hook"
  | Emplace_Trap u64 trap_kind "'w trap_hook"
  | Remove_Now u64
  | Clear_All

section \<open>The executor\<close>

record code_page_entry =
  cp_page_base :: u64
  cp_code_epoch :: u64
  cp_valid :: bool
  cp_bytes :: "u8 list"

record decode_entry =
  dc_rip :: u64
  dc_code_epoch :: u64
  dc_mode :: execution_mode
  dc_valid :: bool
  dc_simd_allowed :: bool
  dc_trap_kind :: "trap_kind option"
  dc_instruction_length :: u32
  dc_reported_code :: icode
  dc_instr :: instruction

text \<open>The hash maps from a key to its hooks are association lists; ids are unique, so the iteration order of
  \<^verbatim>\<open>unordered_map\<close> does not matter.\<close>

type_synonym ('k, 'h) buckets = "('k \<times> (u64 \<times> 'h) list) list"

record 'w executor =
  total_steps :: u64
  total_retired :: u64
  code_execution_counts :: "icode \<Rightarrow> u64"
  stop_reason_counts :: "stop_reason \<Rightarrow> u64"
  exec_next_hook_id :: u64
  instruction_hooks :: "(u64 \<times> 'w instruction_hook) list"
  code_hooks :: "(icode, 'w instruction_hook) buckets"
  stop_hooks :: "(u64 \<times> 'w stop_hook) list"
  fault_hooks :: "(u64 \<times> 'w fault_hook) list"
  trap_hooks :: "(trap_kind, 'w trap_hook) buckets"
  code_page_cache :: "nat \<Rightarrow> code_page_entry"
  decode_cache :: "nat \<Rightarrow> decode_entry"
  execution_hooks :: "(u64 \<times> 'w execution_hook) list"
  execution_address_hooks :: "(u64, 'w execution_hook) buckets"
  dispatching_hooks :: bool
  pending_hook_mutations :: "'w hook_mutation list"
  has_instruction_hooks :: bool
  has_code_hooks :: bool
  has_execution_hooks :: bool
  has_execution_address_hooks :: bool
  has_stop_hooks :: bool
  has_fault_hooks :: bool
  has_trap_hooks :: bool
  collect_code_stats :: bool
  context_read_cb :: "(cpu_state \<Rightarrow> 'w \<Rightarrow> cpu_state \<times> 'w) option"
  context_write_cb :: "(cpu_state \<Rightarrow> 'w \<Rightarrow> cpu_state \<times> 'w) option"
  stop_requested :: bool
  has_violation :: bool
  violation_ip :: u64
  violation_address :: u64
  violation_reason :: stop_reason

text \<open>A new executor: \<open>stats\<close> is whether the environment asks for statistics, \<open>i0\<close> the default instruction of the decoder.\<close>

definition new_executor :: "bool \<Rightarrow> instruction \<Rightarrow> 'w executor" where
  "new_executor stats i0 =
     \<lparr>total_steps = 0, total_retired = 0, code_execution_counts = (\<lambda>_. 0), stop_reason_counts = (\<lambda>_. 0),
      exec_next_hook_id = 1, instruction_hooks = [], code_hooks = [], stop_hooks = [], fault_hooks = [], trap_hooks = [],
      code_page_cache = (\<lambda>_. \<lparr>cp_page_base = 0, cp_code_epoch = 0, cp_valid = False, cp_bytes = replicate 4096 0\<rparr>),
      decode_cache = (\<lambda>_. \<lparr>dc_rip = 0, dc_code_epoch = 0, dc_mode = long64, dc_valid = False, dc_simd_allowed = True,
        dc_trap_kind = None, dc_instruction_length = 0, dc_reported_code = ''INVALID'', dc_instr = i0\<rparr>),
      execution_hooks = [], execution_address_hooks = [], dispatching_hooks = False, pending_hook_mutations = [],
      has_instruction_hooks = False, has_code_hooks = False, has_execution_hooks = False, has_execution_address_hooks = False,
      has_stop_hooks = False, has_fault_hooks = False, has_trap_hooks = False, collect_code_stats = stats,
      context_read_cb = None, context_write_cb = None, stop_requested = False, has_violation = False,
      violation_ip = 0, violation_address = 0, violation_reason = SR_none\<rparr>"

text \<open>The executor with the CPU state and memory it is called on.\<close>

record 'w emu =
  exec :: "'w executor"
  cpu :: cpu_state
  ram :: "'w memory"

section \<open>Statistics, stop requests, violations\<close>

definition reset_stats :: "'w executor \<Rightarrow> 'w executor" where
  "reset_stats x = x\<lparr>total_steps := 0, total_retired := 0, code_execution_counts := (\<lambda>_. 0), stop_reason_counts := (\<lambda>_. 0)\<rparr>"

definition set_context_read_callback :: "(cpu_state \<Rightarrow> 'w \<Rightarrow> cpu_state \<times> 'w) option \<Rightarrow> 'w executor \<Rightarrow> 'w executor" where
  "set_context_read_callback f x = x\<lparr>context_read_cb := f\<rparr>"

definition set_context_write_callback :: "(cpu_state \<Rightarrow> 'w \<Rightarrow> cpu_state \<times> 'w) option \<Rightarrow> 'w executor \<Rightarrow> 'w executor" where
  "set_context_write_callback f x = x\<lparr>context_write_cb := f\<rparr>"

definition request_stop :: "'w executor \<Rightarrow> 'w executor" where
  "request_stop x = x\<lparr>stop_requested := True\<rparr>"

definition clear_stop_request :: "'w executor \<Rightarrow> 'w executor" where
  "clear_stop_request x = x\<lparr>stop_requested := False\<rparr>"

definition clear_violation :: "'w executor \<Rightarrow> 'w executor" where
  "clear_violation x = x\<lparr>has_violation := False, violation_ip := 0, violation_address := 0, violation_reason := SR_none\<rparr>"

definition count_stop :: "stop_reason \<Rightarrow> 'w executor \<Rightarrow> 'w executor" where
  "count_stop r x = x\<lparr>stop_reason_counts := (stop_reason_counts x)(r := stop_reason_counts x r + 1)\<rparr>"

definition count_retired :: "icode \<Rightarrow> 'w executor \<Rightarrow> 'w executor" where
  "count_retired cd x =
     (if collect_code_stats x
      then x\<lparr>code_execution_counts := (code_execution_counts x)(cd := code_execution_counts x cd + 1),
             total_retired := total_retired x + 1\<rparr>
      else x)"

section \<open>Registration of hooks\<close>

definition refresh_hook_flags :: "'w executor \<Rightarrow> 'w executor" where
  "refresh_hook_flags x =
     x\<lparr>has_instruction_hooks := instruction_hooks x \<noteq> [],
       has_code_hooks := list_ex (\<lambda>(_, hs). hs \<noteq> []) (code_hooks x),
       has_execution_hooks := execution_hooks x \<noteq> [],
       has_execution_address_hooks := execution_address_hooks x \<noteq> [],
       has_stop_hooks := stop_hooks x \<noteq> [],
       has_fault_hooks := fault_hooks x \<noteq> [],
       has_trap_hooks := list_ex (\<lambda>(_, hs). hs \<noteq> []) (trap_hooks x)\<rparr>"

text \<open>\<^verbatim>\<open>hooks[key].emplace_back(id, hook)\<close>\<close>

fun bucket_add :: "'k \<Rightarrow> u64 \<times> 'h \<Rightarrow> ('k, 'h) buckets \<Rightarrow> ('k, 'h) buckets" where
  "bucket_add k e [] = [(k, [e])]"
| "bucket_add k e ((k', hs) # bs) = (if k' = k then (k', hs @ [e]) # bs else (k', hs) # bucket_add k e bs)"

definition remove_first :: "u64 \<Rightarrow> (u64 \<times> 'h) list \<Rightarrow> (u64 \<times> 'h) list option" where
  "remove_first hid hs = (if list_ex (\<lambda>(i, _). i = hid) hs then Some (erase_first (\<lambda>(i, _). i = hid) hs) else None)"

fun bucket_remove :: "bool \<Rightarrow> u64 \<Rightarrow> ('k, 'h) buckets \<Rightarrow> ('k, 'h) buckets option" where
  "bucket_remove drop_empty hid [] = None"
| "bucket_remove drop_empty hid ((k, hs) # bs) =
     (case remove_first hid hs of
        Some hs' \<Rightarrow> Some (if drop_empty \<and> hs' = [] then bs else (k, hs') # bs)
      | None \<Rightarrow> map_option (\<lambda>bs'. (k, hs) # bs') (bucket_remove drop_empty hid bs))"

definition remove_now :: "u64 \<Rightarrow> 'w executor \<Rightarrow> bool \<times> 'w executor" where
  "remove_now hid x =
     (case remove_first hid (execution_hooks x) of Some hs \<Rightarrow> (True, x\<lparr>execution_hooks := hs\<rparr>)
      | None \<Rightarrow>
     (case bucket_remove True hid (execution_address_hooks x) of Some hs \<Rightarrow> (True, x\<lparr>execution_address_hooks := hs\<rparr>)
      | None \<Rightarrow>
     (case remove_first hid (instruction_hooks x) of Some hs \<Rightarrow> (True, x\<lparr>instruction_hooks := hs\<rparr>)
      | None \<Rightarrow>
     (case bucket_remove False hid (code_hooks x) of Some hs \<Rightarrow> (True, x\<lparr>code_hooks := hs\<rparr>)
      | None \<Rightarrow>
     (case remove_first hid (stop_hooks x) of Some hs \<Rightarrow> (True, x\<lparr>stop_hooks := hs\<rparr>)
      | None \<Rightarrow>
     (case remove_first hid (fault_hooks x) of Some hs \<Rightarrow> (True, x\<lparr>fault_hooks := hs\<rparr>)
      | None \<Rightarrow>
     (case bucket_remove False hid (trap_hooks x) of Some hs \<Rightarrow> (True, x\<lparr>trap_hooks := hs\<rparr>)
      | None \<Rightarrow> (False, x))))))))"

definition clear_hook_lists :: "'w executor \<Rightarrow> 'w executor" where
  "clear_hook_lists x =
     x\<lparr>execution_hooks := [], execution_address_hooks := [], instruction_hooks := [], code_hooks := [],
       stop_hooks := [], fault_hooks := [], trap_hooks := [], pending_hook_mutations := []\<rparr>"

fun run_mutation :: "'w hook_mutation \<Rightarrow> 'w executor \<Rightarrow> 'w executor" where
  "run_mutation (Emplace_Instruction hid h) x = x\<lparr>instruction_hooks := instruction_hooks x @ [(hid, h)]\<rparr>"
| "run_mutation (Emplace_Code hid cd h) x = x\<lparr>code_hooks := bucket_add cd (hid, h) (code_hooks x)\<rparr>"
| "run_mutation (Emplace_Execution hid h) x = x\<lparr>execution_hooks := execution_hooks x @ [(hid, h)]\<rparr>"
| "run_mutation (Emplace_Execution_Address hid a h) x =
     x\<lparr>execution_address_hooks := bucket_add a (hid, h) (execution_address_hooks x)\<rparr>"
| "run_mutation (Emplace_Stop hid h) x = x\<lparr>stop_hooks := stop_hooks x @ [(hid, h)]\<rparr>"
| "run_mutation (Emplace_Fault hid h) x = x\<lparr>fault_hooks := fault_hooks x @ [(hid, h)]\<rparr>"
| "run_mutation (Emplace_Trap hid k h) x = x\<lparr>trap_hooks := bucket_add k (hid, h) (trap_hooks x)\<rparr>"
| "run_mutation (Remove_Now hid) x = snd (remove_now hid x)"
| "run_mutation Clear_All x = clear_hook_lists x"

text \<open>The common body of the \<^verbatim>\<open>add_*_hook\<close> functions.\<close>

definition register_hook :: "(u64 \<Rightarrow> 'w hook_mutation) \<Rightarrow> 'w executor \<Rightarrow> u64 \<times> 'w executor" where
  "register_hook mk x =
     (let hid = exec_next_hook_id x; x1 = x\<lparr>exec_next_hook_id := hid + 1\<rparr>
      in (hid, if dispatching_hooks x1
               then x1\<lparr>pending_hook_mutations := pending_hook_mutations x1 @ [mk hid]\<rparr>
               else refresh_hook_flags (run_mutation (mk hid) x1)))"

definition add_instruction_hook :: "'w instruction_hook \<Rightarrow> 'w executor \<Rightarrow> u64 \<times> 'w executor" where
  "add_instruction_hook h = register_hook (\<lambda>hid. Emplace_Instruction hid h)"

definition add_code_hook :: "icode \<Rightarrow> 'w instruction_hook \<Rightarrow> 'w executor \<Rightarrow> u64 \<times> 'w executor" where
  "add_code_hook cd h = register_hook (\<lambda>hid. Emplace_Code hid cd h)"

definition add_execution_hook :: "'w execution_hook \<Rightarrow> 'w executor \<Rightarrow> u64 \<times> 'w executor" where
  "add_execution_hook h = register_hook (\<lambda>hid. Emplace_Execution hid h)"

definition add_execution_address_hook :: "u64 \<Rightarrow> 'w execution_hook \<Rightarrow> 'w executor \<Rightarrow> u64 \<times> 'w executor" where
  "add_execution_address_hook a h = register_hook (\<lambda>hid. Emplace_Execution_Address hid a h)"

definition add_stop_hook :: "'w stop_hook \<Rightarrow> 'w executor \<Rightarrow> u64 \<times> 'w executor" where
  "add_stop_hook h = register_hook (\<lambda>hid. Emplace_Stop hid h)"

definition add_fault_hook :: "'w fault_hook \<Rightarrow> 'w executor \<Rightarrow> u64 \<times> 'w executor" where
  "add_fault_hook h = register_hook (\<lambda>hid. Emplace_Fault hid h)"

definition add_trap_hook :: "trap_kind \<Rightarrow> 'w trap_hook \<Rightarrow> 'w executor \<Rightarrow> u64 \<times> 'w executor" where
  "add_trap_hook k h = register_hook (\<lambda>hid. Emplace_Trap hid k h)"

definition remove_hook :: "u64 \<Rightarrow> 'w executor \<Rightarrow> bool \<times> 'w executor" where
  "remove_hook hid x =
     (if dispatching_hooks x
      then (True, x\<lparr>pending_hook_mutations := pending_hook_mutations x @ [Remove_Now hid]\<rparr>)
      else case remove_now hid x of (removed, x1) \<Rightarrow> (removed, refresh_hook_flags x1))"

definition clear_hooks :: "'w executor \<Rightarrow> 'w executor" where
  "clear_hooks x =
     (if dispatching_hooks x
      then x\<lparr>pending_hook_mutations := pending_hook_mutations x @ [Clear_All]\<rparr>
      else refresh_hook_flags (clear_hook_lists x))"

definition apply_pending_hook_mutations :: "'w executor \<Rightarrow> 'w executor" where
  "apply_pending_hook_mutations x =
     (if pending_hook_mutations x = [] then x
      else refresh_hook_flags (fold run_mutation (pending_hook_mutations x) (x\<lparr>pending_hook_mutations := []\<rparr>)))"

fun exec_hook_op :: "'w hook_op \<Rightarrow> 'w executor \<Rightarrow> 'w executor" where
  "exec_hook_op (Add_Instruction_Hook h) x = snd (add_instruction_hook h x)"
| "exec_hook_op (Add_Code_Hook cd h) x = snd (add_code_hook cd h x)"
| "exec_hook_op (Add_Execution_Hook h) x = snd (add_execution_hook h x)"
| "exec_hook_op (Add_Execution_Address_Hook a h) x = snd (add_execution_address_hook a h x)"
| "exec_hook_op (Add_Stop_Hook h) x = snd (add_stop_hook h x)"
| "exec_hook_op (Add_Fault_Hook h) x = snd (add_fault_hook h x)"
| "exec_hook_op (Add_Trap_Hook k h) x = snd (add_trap_hook k h x)"
| "exec_hook_op (Remove_Hook hid) x = snd (remove_hook hid x)"
| "exec_hook_op Clear_Hooks x = clear_hooks x"
| "exec_hook_op Request_Stop x = request_stop x"
| "exec_hook_op Clear_Stop_Request x = clear_stop_request x"

section \<open>Dispatch of hooks\<close>

abbreviation upd_exec :: "('w executor \<Rightarrow> 'w executor) \<Rightarrow> 'w emu \<Rightarrow> 'w emu" where
  "upd_exec f e \<equiv> e\<lparr>exec := f (exec e)\<rparr>"

definition after_hook :: "'w hook_op list \<times> cpu_state \<times> 'w memory \<Rightarrow> 'w emu \<Rightarrow> 'w emu" where
  "after_hook r e = (case r of (ops, s, m) \<Rightarrow> e\<lparr>exec := fold exec_hook_op ops (exec e), cpu := s, ram := m\<rparr>)"

definition begin_dispatch :: "'w emu \<Rightarrow> 'w emu" where
  "begin_dispatch = upd_exec (dispatching_hooks_update (\<lambda>_. True))"

definition end_dispatch :: "'w emu \<Rightarrow> 'w emu" where
  "end_dispatch = upd_exec (\<lambda>x. apply_pending_hook_mutations (x\<lparr>dispatching_hooks := False\<rparr>))"

text \<open>The loops over the hooks of a list: the first answer other than the default ends them.\<close>

fun instruction_hook_loop ::
  "(u64 \<times> 'w instruction_hook) list \<Rightarrow> instruction \<Rightarrow> u64 \<Rightarrow> 'w emu \<Rightarrow> instruction_hook_result option \<times> 'w emu" where
  "instruction_hook_loop [] i nxt e = (None, e)"
| "instruction_hook_loop ((_, h) # hs) i nxt e =
     (case run_instruction_hook h i nxt (cpu e) (ram e) of ((r, ops), s, m) \<Rightarrow>
        let e1 = after_hook (ops, s, m) e
        in if ih_action r = IH_continue_to_core then instruction_hook_loop hs i nxt e1 else (Some r, e1))"

definition run_instruction_hooks :: "instruction \<Rightarrow> u64 \<Rightarrow> 'w emu \<Rightarrow> (instruction_hook_action \<times> execution_result) \<times> 'w emu" where
  "run_instruction_hooks i nxt e =
     (let e0 = (if pending_hook_mutations (exec e) \<noteq> [] then upd_exec apply_pending_hook_mutations e else e);
          own = (case map_of (code_hooks (exec e0)) (code i) of None \<Rightarrow> [] | Some hs \<Rightarrow> hs)
      in if instruction_hooks (exec e0) = [] \<and> own = [] then ((IH_continue_to_core, no_stop), e0)
         else case instruction_hook_loop (instruction_hooks (exec e0) @ own) i nxt (begin_dispatch e0) of
                (None, e1) \<Rightarrow> ((IH_continue_to_core, no_stop), end_dispatch e1)
              | (Some r, e1) \<Rightarrow>
                  ((ih_action r,
                    if ih_action r = IH_stop
                    then (case ih_stop_result r of Some res \<Rightarrow> res
                          | None \<Rightarrow> \<lparr>reason = SR_unsupported_instruction, retired = 0, exception_of = None,
                                     result_code = Some (code i)\<rparr>)
                    else no_stop), end_dispatch e1))"

fun trap_hook_loop ::
  "(u64 \<times> 'w trap_hook) list \<Rightarrow> trap_kind \<Rightarrow> instruction \<Rightarrow> u64 \<Rightarrow> 'w emu \<Rightarrow> trap_hook_result \<times> 'w emu" where
  "trap_hook_loop [] k i nxt e = (\<lparr>th_action = TH_continue_to_core, th_stop_result = None\<rparr>, e)"
| "trap_hook_loop ((_, h) # hs) k i nxt e =
     (case run_trap_hook h k i nxt (cpu e) (ram e) of ((r, ops), s, m) \<Rightarrow>
        let e1 = after_hook (ops, s, m) e
        in if th_action r = TH_continue_to_core then trap_hook_loop hs k i nxt e1 else (r, e1))"

definition run_trap_hooks :: "trap_kind \<Rightarrow> instruction \<Rightarrow> u64 \<Rightarrow> 'w emu \<Rightarrow> trap_hook_result \<times> 'w emu" where
  "run_trap_hooks k i nxt e =
     (case map_of (trap_hooks (exec e)) k of
        None \<Rightarrow> (\<lparr>th_action = TH_continue_to_core, th_stop_result = None\<rparr>, e)
      | Some hs \<Rightarrow> (case trap_hook_loop hs k i nxt (begin_dispatch e) of (r, e1) \<Rightarrow> (r, end_dispatch e1)))"

fun fault_hook_loop ::
  "(u64 \<times> 'w fault_hook) list \<Rightarrow> execution_result \<Rightarrow> u64 \<Rightarrow> u64 \<Rightarrow> 'w emu \<Rightarrow> fault_hook_action \<times> 'w emu" where
  "fault_hook_loop [] fault start address e = (FH_stop, e)"
| "fault_hook_loop ((_, h) # hs) fault start address e =
     (case run_fault_hook h fault start address (cpu e) (ram e) of ((a, ops), s, m) \<Rightarrow>
        let e1 = after_hook (ops, s, m) e
        in if a = FH_stop then fault_hook_loop hs fault start address e1 else (a, e1))"

definition run_fault_hooks :: "execution_result \<Rightarrow> u64 \<Rightarrow> u64 \<Rightarrow> 'w emu \<Rightarrow> fault_hook_action \<times> 'w emu" where
  "run_fault_hooks fault start address e =
     (if fault_hooks (exec e) = [] then (FH_stop, e)
      else case fault_hook_loop (fault_hooks (exec e)) fault start address (begin_dispatch e) of
             (a, e1) \<Rightarrow> (a, end_dispatch e1))"

fun stop_hook_loop :: "(u64 \<times> 'w stop_hook) list \<Rightarrow> execution_result \<Rightarrow> u64 \<Rightarrow> 'w emu \<Rightarrow> 'w emu" where
  "stop_hook_loop [] res address e = e"
| "stop_hook_loop ((_, h) # hs) res address e =
     stop_hook_loop hs res address (after_hook (run_stop_hook h res address (cpu e) (ram e)) e)"

definition notify_stop_hooks :: "execution_result \<Rightarrow> u64 \<Rightarrow> 'w emu \<Rightarrow> 'w emu" where
  "notify_stop_hooks res address e =
     (if stop_hooks (exec e) = [] then e
      else end_dispatch (stop_hook_loop (stop_hooks (exec e)) res address (begin_dispatch e)))"

fun execution_hook_loop :: "(u64 \<times> 'w execution_hook) list \<Rightarrow> 'w emu \<Rightarrow> 'w emu" where
  "execution_hook_loop [] e = e"
| "execution_hook_loop ((_, h) # hs) e =
     (case h (rip (cpu e)) (cpu e) (ram e) of (s, m) \<Rightarrow> execution_hook_loop hs (e\<lparr>cpu := s, ram := m\<rparr>))"

definition run_execution_hooks :: "'w emu \<Rightarrow> 'w emu" where
  "run_execution_hooks e =
     (let e1 = (if has_execution_hooks (exec e) then execution_hook_loop (execution_hooks (exec e)) e else e)
      in if has_execution_address_hooks (exec e1)
         then (case map_of (execution_address_hooks (exec e1)) (rip (cpu e1)) of
                 None \<Rightarrow> e1 | Some hs \<Rightarrow> execution_hook_loop hs e1)
         else e1)"

end
