(* ===== verification/Executor_Step.thy ===== *)
theory Executor_Step
  imports Executor_Model
begin

text \<open>
  \<^verbatim>\<open>Executor::step\<close> and \<^verbatim>\<open>Executor::run\<close>, with the helpers of the first part of \<^verbatim>\<open>executor.cpp\<close>. One pass through the
  retry loop of \<^verbatim>\<open>step\<close> is the function \<open>attempt\<close>; it answers \<open>Again\<close> where the source has \<^verbatim>\<open>continue\<close> and
  \<open>Finished\<close> where it returns.
\<close>

section \<open>Parameters\<close>

datatype encoding_kind = Legacy | VEX | EVEX | Other_Encoding

text \<open>\<^verbatim>\<open>iced_x86::OpAccess\<close> and the \<^verbatim>\<open>UsedMemory\<close> of the instruction information.\<close>

datatype op_access = OA_NONE | OA_READ | OA_COND_READ | OA_WRITE | OA_COND_WRITE | OA_READ_WRITE | OA_READ_COND_WRITE | OA_NO_MEM_ACCESS

record used_memory =
  um_segment :: register
  um_base :: register
  um_index :: register
  um_scale :: u64
  um_displacement :: u64
  um_size :: u64
  um_access :: op_access

record 'w config =
  decode :: "nat \<Rightarrow> u8 list \<Rightarrow> u64 \<Rightarrow> instruction option"
  encoding :: "instruction \<Rightarrow> encoding_kind"
  op_count :: "instruction \<Rightarrow> nat"
  used_memory_of :: "instruction \<Rightarrow> used_memory list"
  handler_of :: "icode \<Rightarrow> 'w handler option"
  kEnableAvx :: bool
  kEnableAvx512 :: bool
  kVectorBytes :: nat
  disable_decode_cache :: bool

section \<open>Classification of instructions\<close>

fun vector_width_for_register :: "register \<Rightarrow> nat" where
  "vector_width_for_register (ZMM _) = 64"
| "vector_width_for_register (YMM _) = 32"
| "vector_width_for_register (XMM _) = 16"
| "vector_width_for_register _ = 0"

definition simd_profile_allows :: "'w config \<Rightarrow> instruction \<Rightarrow> bool" where
  "simd_profile_allows cfg i \<longleftrightarrow>
     (if encoding cfg i = EVEX \<and> \<not> kEnableAvx512 cfg then False
      else if encoding cfg i = VEX \<and> \<not> kEnableAvx cfg then False
      else \<not> list_ex (\<lambda>k. op_kind i k = REGISTER \<and> vector_width_for_register (op_register i k) > kVectorBytes cfg)
               [0..<op_count cfg i])"

definition normalize_reported_code :: "icode \<Rightarrow> icode" where
  "normalize_reported_code cd =
     (if cd = ''PUSHD_IMM8'' then ''PUSHQ_IMM8'' else if cd = ''PUSHD_IMM32'' then ''PUSHQ_IMM32'' else cd)"

definition trap_kind_for_code :: "icode \<Rightarrow> trap_kind option" where
  "trap_kind_for_code cd =
     (if cd = ''SYSCALL'' then Some TK_syscall else if cd = ''CPUID'' then Some TK_cpuid
      else if cd = ''RDTSC'' then Some TK_rdtsc else if cd = ''RDTSCP'' then Some TK_rdtscp
      else if cd \<in> set [''INT1'', ''INT3'', ''INT_IMM8'', ''INTO''] then Some TK_interrupt
      else None)"

section \<open>Debug registers\<close>

record debug_memory_access =
  da_address :: u64
  da_size :: u64
  da_is_read :: bool
  da_is_write :: bool

fun op_access_reads :: "op_access \<Rightarrow> bool" where
  "op_access_reads OA_READ = True"
| "op_access_reads OA_COND_READ = True"
| "op_access_reads OA_READ_WRITE = True"
| "op_access_reads OA_READ_COND_WRITE = True"
| "op_access_reads _ = False"

fun op_access_writes :: "op_access \<Rightarrow> bool" where
  "op_access_writes OA_WRITE = True"
| "op_access_writes OA_COND_WRITE = True"
| "op_access_writes OA_READ_WRITE = True"
| "op_access_writes OA_READ_COND_WRITE = True"
| "op_access_writes _ = False"

definition used_memory_address :: "cpu_state \<Rightarrow> used_memory \<Rightarrow> u64" where
  "used_memory_address s u =
     (let a0 = (if um_base u \<noteq> NONE then read_register s (um_base u) else 0);
          a1 = (if um_index u \<noteq> NONE then a0 + read_register s (um_index u) * um_scale u else a0);
          a2 = a1 + um_displacement u;
          a3 = (if um_segment u = FS then a2 + fs_base s else if um_segment u = GS then a2 + gs_base s else a2)
      in mask_linear_address s a3)"

definition collect_debug_memory_accesses :: "'w config \<Rightarrow> cpu_state \<Rightarrow> instruction \<Rightarrow> debug_memory_access list" where
  "collect_debug_memory_accesses cfg s i =
     map (\<lambda>u. \<lparr>da_address = used_memory_address s u, da_size = max 1 (um_size u),
               da_is_read = op_access_reads (um_access u), da_is_write = op_access_writes (um_access u)\<rparr>)
       (filter (\<lambda>u. op_access_reads (um_access u) \<or> op_access_writes (um_access u)) (used_memory_of cfg i))"

definition dr7_enabled :: "cpu_state \<Rightarrow> nat \<Rightarrow> bool" where
  "dr7_enabled s i \<longleftrightarrow> drop_bit (i * 2) (dr s ! 7) AND 3 \<noteq> 0"

definition dr7_rw :: "cpu_state \<Rightarrow> nat \<Rightarrow> u64" where
  "dr7_rw s i = drop_bit (16 + i * 4) (dr s ! 7) AND 3"

definition has_enabled_execute_breakpoints :: "cpu_state \<Rightarrow> bool" where
  "has_enabled_execute_breakpoints s \<longleftrightarrow> list_ex (\<lambda>i. dr7_enabled s i \<and> dr7_rw s i = 0) [0..<4]"

definition has_enabled_data_breakpoints :: "cpu_state \<Rightarrow> bool" where
  "has_enabled_data_breakpoints s \<longleftrightarrow> list_ex (\<lambda>i. dr7_enabled s i \<and> dr7_rw s i \<noteq> 0) [0..<4]"

definition collect_execute_breakpoint_hits :: "cpu_state \<Rightarrow> u64 \<Rightarrow> u64" where
  "collect_execute_breakpoint_hits s instruction_rip =
     fold (\<lambda>i hits. if dr7_enabled s i \<and> dr7_rw s i = 0 \<and> mask_linear_address s (dr s ! i) = instruction_rip
                    then hits OR push_bit i 1 else hits) [0..<4] 0"

definition collect_data_breakpoint_hits :: "cpu_state \<Rightarrow> debug_memory_access list \<Rightarrow> u64" where
  "collect_data_breakpoint_hits s accesses =
     fold (\<lambda>a hits. hits OR debug_data_breakpoint_hits s (da_address a) (da_size a) (da_is_read a) (da_is_write a)) accesses 0"

section \<open>Faults\<close>

datatype (dead 'w) attempt_result = Again "'w emu" | Finished execution_result "'w emu"

abbreviation upd_cpu :: "(cpu_state \<Rightarrow> cpu_state) \<Rightarrow> 'w emu \<Rightarrow> 'w emu" where
  "upd_cpu f e \<equiv> e\<lparr>cpu := f (cpu e)\<rparr>"

text \<open>\<^verbatim>\<open>state.gpr[4] = mask_stack_pointer(state, state.gpr[4])\<close>\<close>

definition mask_sp :: "cpu_state \<Rightarrow> cpu_state" where
  "mask_sp s = s\<lparr>gpr := (gpr s)[4 := mask_stack_pointer s (gpr s ! 4)]\<rparr>"

definition fault_result :: "stop_reason \<Rightarrow> u64 \<Rightarrow> icode option \<Rightarrow> execution_result" where
  "fault_result r a cd =
     \<lparr>reason = r, retired = 0, exception_of = Some \<lparr>ei_reason = r, ei_address = a, ei_error_code = 0\<rparr>, result_code = cd\<rparr>"

definition plain_result :: "stop_reason \<Rightarrow> u64 \<Rightarrow> icode option \<Rightarrow> execution_result" where
  "plain_result r n cd = \<lparr>reason = r, retired = n, exception_of = None, result_code = cd\<rparr>"

definition fault_address_of :: "execution_result \<Rightarrow> u64 \<Rightarrow> u64" where
  "fault_address_of res fallback = (case exception_of res of Some ex \<Rightarrow> ei_address ex | None \<Rightarrow> fallback)"

definition record_violation :: "u64 \<Rightarrow> execution_result \<Rightarrow> u64 \<Rightarrow> 'w executor \<Rightarrow> 'w executor" where
  "record_violation start res fault_address x =
     (if reason res = SR_none \<or> reason res = SR_halted \<or> reason res = SR_execution_limit \<or> reason res = SR_stop_requested
      then x
      else x\<lparr>has_violation := True, violation_reason := reason res, violation_ip := start, violation_address := fault_address\<rparr>)"

definition try_recover_fault :: "u64 \<Rightarrow> execution_result \<Rightarrow> u64 \<Rightarrow> 'w emu \<Rightarrow> bool \<times> 'w emu" where
  "try_recover_fault start fault fault_address e =
     (case run_fault_hooks fault start fault_address e of (action, e1) \<Rightarrow>
        (case action of
           FH_retry \<Rightarrow> (True, e1)
         | FH_restart_instruction \<Rightarrow> (True, upd_cpu (\<lambda>s. mask_sp (s\<lparr>rip := start\<rparr>)) e1)
         | FH_stop \<Rightarrow> (False, e1)))"

text \<open>The three statements before every \<^verbatim>\<open>return fault\<close>.\<close>

definition report_stop :: "u64 \<Rightarrow> execution_result \<Rightarrow> 'w emu \<Rightarrow> 'w emu" where
  "report_stop start res e =
     (let e1 = upd_exec (\<lambda>x. count_stop (reason res) (record_violation start res (fault_address_of res (rip (cpu e))) x)) e
      in notify_stop_hooks res (rip (cpu e1)) e1)"

definition fault_or_stop :: "u64 \<Rightarrow> execution_result \<Rightarrow> 'w emu \<Rightarrow> 'w attempt_result" where
  "fault_or_stop start res e =
     (case try_recover_fault start res (fault_address_of res (rip (cpu e))) e of
        (True, e1) \<Rightarrow> Again e1
      | (False, e1) \<Rightarrow> Finished res (report_stop start res e1))"

section \<open>Fetch and decode\<close>

definition kDecodeCacheSize :: u64 where "kDecodeCacheSize = 8192"
definition kCodePageCacheSize :: u64 where "kCodePageCacheSize = 64"
definition max_instruction_length :: nat where "max_instruction_length = 15"

definition can_use_decode_cache :: "'w config \<Rightarrow> 'w memory \<Rightarrow> bool" where
  "can_use_decode_cache cfg m \<longleftrightarrow> \<not> has_fetch_access_hooks m \<and> \<not> disable_decode_cache cfg"

definition decode_index :: "u64 \<Rightarrow> nat" where
  "decode_index a = unat (drop_bit 1 a AND (kDecodeCacheSize - 1))"

definition page_cache_index :: "u64 \<Rightarrow> nat" where
  "page_cache_index page_base = unat (drop_bit 12 page_base AND (kCodePageCacheSize - 1))"

text \<open>The code page cache, filled where it does not hold the page at the current epoch.\<close>

definition fill_page_cache :: "u64 \<Rightarrow> u64 \<Rightarrow> 'w emu \<Rightarrow> 'w emu" where
  "fill_page_cache page_base epoch e =
     (let k = page_cache_index page_base; pc = code_page_cache (exec e) k
      in if \<not> cp_valid pc \<or> cp_page_base pc \<noteq> page_base \<or> cp_code_epoch pc \<noteq> epoch
         then (case read_code_page (ram e) page_base of
                 (Some bs, m) \<Rightarrow>
                   e\<lparr>ram := m, exec := (exec e)\<lparr>code_page_cache := (code_page_cache (exec e))
                       (k := \<lparr>cp_page_base = page_base, cp_code_epoch = epoch, cp_valid = True, cp_bytes = bs\<rparr>)\<rparr>\<rparr>
               | (None, m) \<Rightarrow>
                   e\<lparr>ram := m, exec := (exec e)\<lparr>code_page_cache := (code_page_cache (exec e))
                       (k := pc\<lparr>cp_valid := False\<rparr>)\<rparr>\<rparr>)
         else e)"

definition read_fetch :: "'w emu \<Rightarrow> u8 list option \<times> 'w emu" where
  "read_fetch e =
     (case mem_read (ram e) (rip (cpu e)) (word_of_nat max_instruction_length) instruction_fetch of
        (r, m) \<Rightarrow> (r, e\<lparr>ram := m\<rparr>))"

definition fetch_bytes :: "bool \<Rightarrow> u64 \<Rightarrow> 'w emu \<Rightarrow> u8 list option \<times> 'w emu" where
  "fetch_bytes can_use epoch e =
     (let page_base = rip (cpu e) AND NOT (kPageSize - 1); page_offset = unat (rip (cpu e) - page_base)
      in if can_use \<and> page_offset + max_instruction_length \<le> 4096
         then let e1 = fill_page_cache page_base epoch e;
                  pc = code_page_cache (exec e1) (page_cache_index page_base)
              in if cp_valid pc \<and> cp_page_base pc = page_base \<and> cp_code_epoch pc = epoch
                 then (Some (drop page_offset (cp_bytes pc)), e1)
                 else read_fetch e1
         else read_fetch e)"

definition build_entry :: "'w config \<Rightarrow> u64 \<Rightarrow> u64 \<Rightarrow> execution_mode \<Rightarrow> bool \<Rightarrow> instruction \<Rightarrow> decode_entry" where
  "build_entry cfg at epoch m can_use i =
     \<lparr>dc_rip = at, dc_code_epoch = epoch, dc_mode = m, dc_valid = can_use,
      dc_simd_allowed = simd_profile_allows cfg i, dc_trap_kind = trap_kind_for_code (code i),
      dc_instruction_length = max 1 (instr_length i), dc_reported_code = normalize_reported_code (code i), dc_instr = i\<rparr>"

definition fetch_decode :: "'w config \<Rightarrow> 'w emu \<Rightarrow> (execution_result + decode_entry) \<times> 'w emu" where
  "fetch_decode cfg e =
     (let epoch = code_epoch (ram e); can_use = can_use_decode_cache cfg (ram e);
          at = rip (cpu e); k = decode_index at; ce = decode_cache (exec e) k
      in if can_use \<and> dc_valid ce \<and> dc_rip ce = at \<and> dc_code_epoch ce = epoch \<and> dc_mode ce = mode (cpu e)
         then (Inr ce, e)
         else case fetch_bytes can_use epoch e of
                (None, e1) \<Rightarrow> (Inl (fault_result SR_page_fault at None), e1)
              | (Some bs, e1) \<Rightarrow>
                  (case decode cfg (decoder_bitness (mode (cpu e1))) bs at of
                     None \<Rightarrow> (Inl (fault_result SR_decode_error at None), e1)
                   | Some i \<Rightarrow>
                       let ce1 = build_entry cfg at epoch (mode (cpu e1)) can_use i
                       in (Inr ce1, upd_exec (\<lambda>x. x\<lparr>decode_cache := (decode_cache x)(k := ce1)\<rparr>) e1)))"

section \<open>Execution of one instruction\<close>

definition make_ctx :: "'w emu \<Rightarrow> instruction \<Rightarrow> u64 \<Rightarrow> 'w ctx" where
  "make_ctx e i nxt =
     \<lparr>state = cpu e, mem = ram e, instr = i, next_rip = nxt, control_flow_taken = False, debug_hit_bits = 0,
      push_rf_for_debug = False\<rparr>"

definition put_ctx :: "'w ctx \<Rightarrow> 'w emu \<Rightarrow> 'w emu" where
  "put_ctx c e = e\<lparr>cpu := state c, ram := mem c\<rparr>"

definition invalid_opcode :: "u64 \<Rightarrow> instruction \<Rightarrow> u64 \<Rightarrow> 'w emu \<Rightarrow> 'w attempt_result" where
  "invalid_opcode start i nxt e =
     (case run_trap_hooks TK_invalid_opcode i nxt e of (r, e1) \<Rightarrow>
        (case th_action r of
           TH_handled \<Rightarrow>
             Finished (plain_result SR_none 1 (Some ''INVALID''))
               (upd_cpu (\<lambda>s. mask_sp (s\<lparr>rip := nxt\<rparr>))
                 (upd_exec (\<lambda>x. if collect_code_stats x then x\<lparr>total_retired := total_retired x + 1\<rparr> else x) e1))
         | TH_stop \<Rightarrow>
             fault_or_stop start (case th_stop_result r of Some f \<Rightarrow> f
               | None \<Rightarrow> fault_result SR_invalid_opcode (rip (cpu e1)) (Some ''INVALID'')) e1
         | TH_continue_to_core \<Rightarrow>
             fault_or_stop start (fault_result SR_invalid_opcode (rip (cpu e1)) (Some ''INVALID'')) e1))"

text \<open>The end of an instruction a trap hook or an instruction hook has executed.\<close>

definition finish_hooked :: "u64 \<Rightarrow> instruction \<Rightarrow> u64 \<Rightarrow> icode \<Rightarrow> 'w emu \<Rightarrow> 'w attempt_result" where
  "finish_hooked start i nxt reported e =
     Finished (plain_result SR_none 1 (Some reported))
       (upd_exec (count_retired (code i))
         (upd_cpu (\<lambda>s. mask_sp (s\<lparr>rip := (if rip s = start then nxt else mask_instruction_pointer s (rip s))\<rparr>)) e))"

definition execute_breakpoint :: "u64 \<Rightarrow> instruction \<Rightarrow> u64 \<Rightarrow> icode \<Rightarrow> u64 \<Rightarrow> 'w emu \<Rightarrow> 'w attempt_result" where
  "execute_breakpoint start i nxt reported hits e =
     (let e1 = upd_cpu (\<lambda>s. s\<lparr>dr := (dr s)[6 := dr s ! 6 OR hits]\<rparr>) e
      in case dispatch_interrupt 1 start None False (make_ctx e1 i nxt) of (res, c) \<Rightarrow>
           let e2 = put_ctx c e1
           in if reason res \<noteq> SR_none then fault_or_stop start res e2
              else Finished (plain_result SR_none 0 (Some reported))
                     (upd_cpu (\<lambda>s. mask_sp (s\<lparr>rip := mask_instruction_pointer s (rip s)\<rparr>)) e2))"

definition unsupported :: "'w ctx \<Rightarrow> execution_result" where
  "unsupported c = fault_result SR_unsupported_instruction (rip (state c)) None"

definition dispatch :: "'w config \<Rightarrow> icode \<Rightarrow> 'w handler" where
  "dispatch cfg cd c = (case handler_of cfg cd of Some h \<Rightarrow> h c | None \<Rightarrow> (unsupported c, c))"

text \<open>The debug trap after an instruction: watchpoints and single stepping.\<close>

definition debug_trap :: "u64 \<Rightarrow> instruction \<Rightarrow> execution_result \<Rightarrow> bool \<Rightarrow> bool \<Rightarrow> u64 \<Rightarrow> 'w emu \<Rightarrow> 'w attempt_result" where
  "debug_trap start i res tf_hit push_rf data_hits e =
     (let e1 = upd_cpu (\<lambda>s.
            let s1 = (if tf_hit then s\<lparr>dr := (dr s)[6 := dr s ! 6 OR push_bit 14 1], pending_single_step := False\<rparr> else s)
            in s1\<lparr>dr := (dr s1)[6 := dr s1 ! 6 OR data_hits], pending_debug_hit_bits := 0\<rparr>) e;
          return_rip = rip (cpu e1)
      in case dispatch_interrupt 1 return_rip None push_rf (make_ctx e1 i return_rip) of (db, c) \<Rightarrow>
           let e2 = put_ctx c e1
           in if reason db \<noteq> SR_none then Finished db (report_stop start db e2) else Finished res e2)"

definition retire :: "u64 \<Rightarrow> instruction \<Rightarrow> icode \<Rightarrow> bool \<Rightarrow> bool \<Rightarrow> bool \<Rightarrow> debug_memory_access list \<Rightarrow>
    execution_result \<Rightarrow> 'w ctx \<Rightarrow> 'w emu \<Rightarrow> 'w attempt_result" where
  "retire start i cd check_data debug_suppressed tf_active accesses result0 c e =
     (let e1 = upd_exec (count_retired cd) (put_ctx c e);
          current_shadow = (debug_suppression (cpu e1) \<noteq> 0);
          e2 = upd_cpu (\<lambda>s. mask_sp (s\<lparr>rip := (if control_flow_taken c then mask_instruction_pointer s (rip s) else next_rip c)\<rparr>)) e1;
          res = result0\<lparr>retired := 1\<rparr>
      in if \<not> current_shadow \<and> pending_debug_hit_bits (cpu e2) = 0 \<and> \<not> check_data \<and>
            \<not> pending_single_step (cpu e2) \<and> \<not> tf_active
         then Finished res e2
         else let current_hits = (if debug_hit_bits c \<noteq> 0 then debug_hit_bits c else collect_data_breakpoint_hits (cpu e2) accesses)
              in if current_shadow
                 then Finished res (upd_cpu (\<lambda>s. s\<lparr>pending_debug_hit_bits := pending_debug_hit_bits s OR current_hits\<rparr>) e2)
                 else let data_hits = pending_debug_hit_bits (cpu e2) OR current_hits;
                          tf_hit = (pending_single_step (cpu e2) \<or> \<not> debug_suppressed \<and> tf_active)
                      in if data_hits \<noteq> 0 \<or> tf_hit
                         then debug_trap start i res tf_hit (push_rf_for_debug c) data_hits e2
                         else Finished res e2)"

definition run_core :: "'w config \<Rightarrow> u64 \<Rightarrow> decode_entry \<Rightarrow> u64 \<Rightarrow> bool \<Rightarrow> bool \<Rightarrow> bool \<Rightarrow> debug_memory_access list \<Rightarrow>
    'w emu \<Rightarrow> 'w attempt_result" where
  "run_core cfg start ce nxt check_data debug_suppressed tf_active accesses e =
     (let cd = dc_reported_code ce
      in case dispatch cfg cd (make_ctx e (dc_instr ce) nxt) of (res0, c) \<Rightarrow>
           let res = res0\<lparr>result_code := Some cd\<rparr>
           in if reason res = SR_none
              then retire start (dc_instr ce) cd check_data debug_suppressed tf_active accesses res c e
              else let e1 = put_ctx c e
                   in case try_recover_fault start res (fault_address_of res (rip (cpu e1))) e1 of
                        (True, e2) \<Rightarrow> Again e2
                      | (False, e2) \<Rightarrow>
                          Finished res (report_stop start res
                            (if debug_suppressed
                             then upd_cpu (\<lambda>s. s\<lparr>pending_single_step := False, pending_debug_hit_bits := 0\<rparr>) e2
                             else e2)))"

text \<open>Instruction hooks, then the handler.\<close>

definition run_hooked :: "'w config \<Rightarrow> u64 \<Rightarrow> decode_entry \<Rightarrow> u64 \<Rightarrow> bool \<Rightarrow> bool \<Rightarrow> bool \<Rightarrow> debug_memory_access list \<Rightarrow>
    'w emu \<Rightarrow> 'w attempt_result" where
  "run_hooked cfg start ce nxt check_data debug_suppressed tf_active accesses e =
     (let e1 = run_execution_hooks e;
          need = (has_instruction_hooks (exec e1) \<or> has_code_hooks (exec e1))
      in case (if need then run_instruction_hooks (dc_instr ce) nxt e1 else ((IH_continue_to_core, no_stop), e1)) of
           ((action, stop0), e2) \<Rightarrow>
             (case action of
                IH_stop \<Rightarrow>
                  let stop = (if result_code stop0 = None then stop0\<lparr>result_code := Some (dc_reported_code ce)\<rparr> else stop0)
                  in if reason stop \<noteq> SR_none then fault_or_stop start stop e2 else Finished stop e2
              | IH_skip_core \<Rightarrow> finish_hooked start (dc_instr ce) nxt (dc_reported_code ce) e2
              | IH_continue_to_core \<Rightarrow> run_core cfg start ce nxt check_data debug_suppressed tf_active accesses e2))"

definition run_trapped :: "'w config \<Rightarrow> u64 \<Rightarrow> decode_entry \<Rightarrow> u64 \<Rightarrow> bool \<Rightarrow> bool \<Rightarrow> bool \<Rightarrow> debug_memory_access list \<Rightarrow>
    'w emu \<Rightarrow> 'w attempt_result" where
  "run_trapped cfg start ce nxt check_data debug_suppressed tf_active accesses e =
     (case dc_trap_kind ce of
        None \<Rightarrow> run_hooked cfg start ce nxt check_data debug_suppressed tf_active accesses e
      | Some k \<Rightarrow>
          (case run_trap_hooks k (dc_instr ce) nxt e of (r, e1) \<Rightarrow>
             (case th_action r of
                TH_handled \<Rightarrow> finish_hooked start (dc_instr ce) nxt (dc_reported_code ce) e1
              | TH_stop \<Rightarrow>
                  fault_or_stop start (case th_stop_result r of Some f \<Rightarrow> f
                    | None \<Rightarrow> fault_result SR_general_protection (rip (cpu e1)) (Some (code (dc_instr ce)))) e1
              | TH_continue_to_core \<Rightarrow> run_hooked cfg start ce nxt check_data debug_suppressed tf_active accesses e1)))"

text \<open>From the decoded entry on: invalid opcodes, the SIMD profile, breakpoints on execution.\<close>

definition execute_entry :: "'w config \<Rightarrow> u64 \<Rightarrow> decode_entry \<Rightarrow> 'w emu \<Rightarrow> 'w attempt_result" where
  "execute_entry cfg start ce e =
     (let i = dc_instr ce; s = cpu e;
          nxt = mask_instruction_pointer s (rip s + ucast (dc_instruction_length ce));
          check_execute = (dr s ! 7 \<noteq> 0 \<and> has_enabled_execute_breakpoints s);
          check_data = (dr s ! 7 \<noteq> 0 \<and> has_enabled_data_breakpoints s);
          accesses = (if check_data then collect_debug_memory_accesses cfg s i else [])
      in if code i = ''INVALID'' then invalid_opcode start i nxt e
         else if \<not> dc_simd_allowed ce
         then fault_or_stop start (fault_result SR_unsupported_instruction (rip s) (Some (code i))) e
         else let rf_suppressed = (rflags s AND kFlagRF \<noteq> 0);
                  s1 = (if rf_suppressed then s\<lparr>rflags := rflags s AND NOT kFlagRF\<rparr> else s);
                  debug_suppressed = (debug_suppression s1 \<noteq> 0);
                  s2 = (if debug_suppressed then s1\<lparr>debug_suppression := 0\<rparr> else s1);
                  tf_active = (rflags s2 AND kFlagTF \<noteq> 0);
                  hits = (if \<not> rf_suppressed \<and> \<not> debug_suppressed \<and> check_execute
                          then collect_execute_breakpoint_hits s2 start else 0);
                  e1 = e\<lparr>cpu := s2\<rparr>
              in if hits \<noteq> 0 then execute_breakpoint start i nxt (dc_reported_code ce) hits e1
                 else run_trapped cfg start ce nxt check_data debug_suppressed tf_active accesses e1)"

definition attempt :: "'w config \<Rightarrow> u64 \<Rightarrow> 'w emu \<Rightarrow> 'w attempt_result" where
  "attempt cfg start e =
     (case fetch_decode cfg e of
        (Inl fault, e1) \<Rightarrow> fault_or_stop start fault e1
      | (Inr ce, e1) \<Rightarrow> execute_entry cfg start ce e1)"

section \<open>\<^verbatim>\<open>step\<close> and \<^verbatim>\<open>run\<close>\<close>

definition kMaxFaultRetries :: nat where "kMaxFaultRetries = 8"

fun attempts :: "'w config \<Rightarrow> u64 \<Rightarrow> nat \<Rightarrow> 'w emu \<Rightarrow> execution_result \<times> 'w emu" where
  "attempts cfg start 0 e =
     (let fault = plain_result SR_execution_limit 0 None; e1 = upd_exec (count_stop SR_execution_limit) e
      in (fault, notify_stop_hooks fault (rip (cpu e1)) e1))"
| "attempts cfg start (Suc n) e =
     (case attempt cfg start e of Again e1 \<Rightarrow> attempts cfg start n e1 | Finished res e1 \<Rightarrow> (res, e1))"

definition sync_context :: "(cpu_state \<Rightarrow> 'w \<Rightarrow> cpu_state \<times> 'w) option \<Rightarrow> 'w emu \<Rightarrow> 'w emu" where
  "sync_context cb e =
     (case cb of None \<Rightarrow> e
      | Some f \<Rightarrow> (case f (cpu e) (world (ram e)) of (s, w) \<Rightarrow> e\<lparr>cpu := s, ram := (ram e)\<lparr>world := w\<rparr>\<rparr>))"

definition step :: "'w config \<Rightarrow> 'w emu \<Rightarrow> execution_result \<times> 'w emu" where
  "step cfg e0 =
     (let e = upd_exec (\<lambda>x. let y = clear_violation x
                in if collect_code_stats y then y\<lparr>total_steps := total_steps y + 1\<rparr> else y) e0
      in if stop_requested (exec e)
         then let stopped = plain_result SR_stop_requested 0 None; e1 = upd_exec (count_stop SR_stop_requested) e
              in (stopped, notify_stop_hooks stopped (rip (cpu e1)) e1)
         else let e1 = sync_context (context_read_cb (exec e)) e;
                  e2 = upd_cpu (\<lambda>s. mask_sp (s\<lparr>rip := mask_instruction_pointer s (rip s)\<rparr>)) e1
              in case attempts cfg (rip (cpu e2)) kMaxFaultRetries e2 of
                   (res, e3) \<Rightarrow> (res, sync_context (context_write_cb (exec e3)) e3))"

fun run_from :: "'w config \<Rightarrow> u64 \<Rightarrow> nat \<Rightarrow> nat \<Rightarrow> 'w emu \<Rightarrow> execution_result \<times> 'w emu" where
  "run_from cfg limit i 0 e =
     (let e1 = upd_exec (count_stop SR_execution_limit) e; res = plain_result SR_execution_limit limit None
      in (res, notify_stop_hooks res (rip (cpu e1)) e1))"
| "run_from cfg limit i (Suc n) e =
     (if stop_requested (exec e)
      then let stopped = plain_result SR_stop_requested (word_of_nat i) None; e1 = upd_exec (count_stop SR_stop_requested) e
           in (stopped, notify_stop_hooks stopped (rip (cpu e1)) e1)
      else case step cfg e of (res, e1) \<Rightarrow>
             if reason res \<noteq> SR_none then (res\<lparr>retired := retired res + word_of_nat i\<rparr>, e1)
             else run_from cfg limit (Suc i) n e1)"

definition run :: "'w config \<Rightarrow> u64 \<Rightarrow> 'w emu \<Rightarrow> execution_result \<times> 'w emu" where
  "run cfg max_instructions e = run_from cfg max_instructions 0 (unat max_instructions) e"

end
