(* ===== verification/Executor_Cache.thy ===== *)
theory Executor_Cache
  imports Executor_Step
begin

text \<open>
  The two caches of the executor. An entry carries the code epoch of the memory at the time it was filled; the memory advances
  its epoch whenever the bytes an instruction fetch can see may have changed. The interface \<open>epoch_cache\<close> states what
  makes such a cache correct, and is interpreted for the decoded instructions and for the code pages. Fetching through both
  caches refines decoding the bytes in memory.
\<close>

section \<open>Caches stamped with an epoch\<close>

definition cache_ok :: "('e \<Rightarrow> bool) \<Rightarrow> ('e \<Rightarrow> u64) \<Rightarrow> ('e \<Rightarrow> bool) \<Rightarrow> u64 \<Rightarrow> (nat \<Rightarrow> 'e) \<Rightarrow> bool" where
  "cache_ok live stamp right now c \<longleftrightarrow>
     (\<forall>k. live (c k) \<longrightarrow> stamp (c k) \<le> now \<and> (stamp (c k) = now \<longrightarrow> right (c k)))"

locale epoch_cache =
  fixes live :: "'e \<Rightarrow> bool" and stamp :: "'e \<Rightarrow> u64" and right :: "'m \<Rightarrow> 'e \<Rightarrow> bool"
    and now :: "'m \<Rightarrow> u64" and keeps :: "'m \<Rightarrow> 'm \<Rightarrow> bool"
  assumes keep_now: "keeps m m' \<Longrightarrow> now m' = now m"
    and keep_right: "keeps m m' \<Longrightarrow> right m e \<Longrightarrow> right m' e"
begin

abbreviation ok :: "'m \<Rightarrow> (nat \<Rightarrow> 'e) \<Rightarrow> bool" where
  "ok m \<equiv> cache_ok live stamp (right m) (now m)"

lemma evolve:
  assumes "ok m c" "keeps m m' \<or> now m < now m'"
  shows "ok m' c"
  using assms(2)
proof
  assume k: "keeps m m'"
  from assms(1) show ?thesis unfolding cache_ok_def keep_now [OF k] by (blast intro: keep_right [OF k])
next
  assume "now m < now m'"
  with assms(1) show ?thesis unfolding cache_ok_def by (metis leD less_imp_le order_trans)
qed

lemma fill: "ok m c \<Longrightarrow> (live e \<Longrightarrow> stamp e = now m \<and> right m e) \<Longrightarrow> ok m (c(k := e))"
  by (simp add: cache_ok_def)

lemma hit: "ok m c \<Longrightarrow> live (c k) \<Longrightarrow> stamp (c k) = now m \<Longrightarrow> right m (c k)"
  by (simp add: cache_ok_def)

end

section \<open>The code an instruction fetch sees\<close>

definition code_bytes :: "'w memory \<Rightarrow> u64 \<Rightarrow> nat \<Rightarrow> u8 list option" where
  "code_bytes m = read_bytes (can instruction_fetch) (pages m)"

definition same_code :: "'w memory \<Rightarrow> 'w memory \<Rightarrow> bool" where
  "same_code m m' \<longleftrightarrow> code_epoch m' = code_epoch m \<and> code_bytes m' = code_bytes m"

definition page_right :: "'w memory \<Rightarrow> code_page_entry \<Rightarrow> bool" where
  "page_right m pc \<longleftrightarrow> code_bytes m (cp_page_base pc) 4096 = Some (cp_bytes pc)"

definition decode_right :: "'w config \<Rightarrow> 'w memory \<Rightarrow> decode_entry \<Rightarrow> bool" where
  "decode_right cfg m ce \<longleftrightarrow>
     (\<exists>bs i. code_bytes m (dc_rip ce) max_instruction_length = Some bs \<and>
        decode cfg (decoder_bitness (dc_mode ce)) bs (dc_rip ce) = Some i \<and>
        ce = build_entry cfg (dc_rip ce) (dc_code_epoch ce) (dc_mode ce) True i)"

interpretation page_cache: epoch_cache cp_valid cp_code_epoch page_right code_epoch same_code
  by unfold_locales (simp_all add: same_code_def page_right_def)

interpretation instruction_cache: epoch_cache dc_valid dc_code_epoch "decode_right cfg" code_epoch same_code for cfg
  by unfold_locales (simp_all add: same_code_def decode_right_def)

definition caches_ok :: "'w config \<Rightarrow> 'w executor \<Rightarrow> 'w memory \<Rightarrow> bool" where
  "caches_ok cfg x m \<longleftrightarrow> cache_ok cp_valid cp_code_epoch (page_right m) (code_epoch m) (code_page_cache x) \<and>
     cache_ok dc_valid dc_code_epoch (decode_right cfg m) (code_epoch m) (decode_cache x)"

lemma caches_evolve: "caches_ok cfg x m \<Longrightarrow> same_code m m' \<or> code_epoch m < code_epoch m' \<Longrightarrow> caches_ok cfg x m'"
  by (auto simp: caches_ok_def intro: page_cache.evolve instruction_cache.evolve)

lemma same_code_variant: "tlb_variant m m' \<Longrightarrow> same_code m m'"
  by (auto simp: same_code_def code_bytes_def tlb_variant_def)

lemmas caches_variant = caches_evolve [OF _ disjI1 [OF same_code_variant]]

section \<open>Pages\<close>

lemma page_base_facts:
  fixes a :: u64
  defines "b \<equiv> a AND NOT (kPageSize - 1)"
  shows "b mod kPageSize = 0" "b div kPageSize = a div kPageSize" "a - b = a mod kPageSize" "a = b + a mod kPageSize"
proof -
  have m: "NOT (kPageSize - 1) = (NOT (mask 12) :: u64)" by (simp add: kPageSize_def mask_eq_exp_minus_1)
  have b: "b = push_bit 12 (drop_bit 12 a)"
    unfolding b_def m by (rule bit_word_eqI) (auto simp: bit_and_iff bit_not_iff bit_push_bit_iff bit_drop_bit_eq bit_mask_iff)
  have q: "x div kPageSize = drop_bit 12 x" "x mod kPageSize = take_bit 12 x" for x :: u64
    by (simp_all add: drop_bit_eq_div take_bit_eq_mod kPageSize_def)
  show "b mod kPageSize = 0" "b div kPageSize = a div kPageSize"
    unfolding q b by (rule bit_word_eqI; auto simp: bit_take_bit_iff bit_push_bit_iff bit_drop_bit_eq dest: bit_imp_le_length)+
  show "a = b + a mod kPageSize" unfolding q b by (simp add: bits_ident)
  then show "a - b = a mod kPageSize" by (metis add_diff_cancel_left')
qed

lemma code_bytes_part:
  assumes "code_bytes m b 4096 = Some bs" "off + n \<le> 4096"
  shows "code_bytes m (b + word_of_nat off) n = Some (take n (drop off bs)) \<and> n \<le> length (drop off bs)"
proof -
  let ?r = "read_bytes (can instruction_fetch) (pages m)"
  obtain b1 b2 where b: "bs = b1 @ b2" "?r b off = Some b1" "?r (b + word_of_nat off) (4096 - off) = Some b2"
    using assms read_bytes_split [of off 4096 "can instruction_fetch" "pages m" b]
    by (cases "?r b off"; cases "?r (b + word_of_nat off) (4096 - off)") (simp_all add: code_bytes_def)
  have n: "n \<le> 4096 - off" using assms(2) by simp
  obtain c1 c2 where c: "b2 = c1 @ c2" "?r (b + word_of_nat off) n = Some c1"
    using b(3) read_bytes_split [OF n, of "can instruction_fetch" "pages m" "b + word_of_nat off"]
    by (cases "?r (b + word_of_nat off) n"; cases "?r (b + word_of_nat off + word_of_nat n) (4096 - off - n)") simp_all
  have "length b1 = off" "length c1 = n" using those_length b(2) c(2) unfolding read_bytes_def by fastforce+
  then show ?thesis using b c by (simp add: code_bytes_def)
qed

lemma read_code_page_plain:
  assumes "plain m" "b mod kPageSize = 0"
  shows "fst (read_code_page m b) = code_bytes m b 4096 \<and> tlb_variant m (snd (read_code_page m b)) \<and> plain (snd (read_code_page m b))"
proof -
  obtain r m1 where l: "lookup_page m (b div kPageSize) = (r, m1)" by fastforce
  then have r: "r = (if pages m (b div kPageSize) = None then None else Some (b div kPageSize))"
    and v: "tlb_variant m m1" and c: "tlb_coherent m1"
    using plain_tlb [OF assms(1)] by (blast elim: lookup_pageE)+
  have p: "passthrough_read m = None" using assms(1) by (simp add: plain_def)
  have pl: "plain m1" by (rule plain_variant [OF assms(1) v c])
  show ?thesis
  proof (cases "byte_at (can instruction_fetch) (pages m) b")
    case None
    then have "code_bytes m b 4096 = None" unfolding code_bytes_def by (intro read_bytes_fail) simp_all
    then show ?thesis
      using None assms(2) l r v pl p
      by (auto simp: read_code_page_def byte_at_def page_at_def tlb_variant_fields split: option.splits if_splits)
  next
    case (Some x)
    then obtain e where e: "pages m (b div kPageSize) = Some e" "can instruction_fetch (permissions e)"
      by (auto simp: byte_at_def split: option.splits if_splits)
    have "unat (b mod kPageSize) = unat b mod 4096" by (simp add: unat_mod kPageSize_def)
    then have "unat b mod 4096 = 0" using assms(2) by simp
    then have "code_bytes m b 4096 = Some (page_slice e 0 4096)"
      using read_bytes_page [of 4096 b "pages m" e "can instruction_fetch"] e assms(2) by (simp add: code_bytes_def)
    then show ?thesis
      using assms(2) l r v pl p e by (simp add: read_code_page_def page_at_def tlb_variant_fields)
  qed
qed

section \<open>Fetch\<close>

definition fetched :: "'w config \<Rightarrow> 'w emu \<Rightarrow> 'w emu \<Rightarrow> bool" where
  "fetched cfg e e' \<longleftrightarrow> plain (ram e') \<and> tlb_variant (ram e) (ram e') \<and> cpu e' = cpu e \<and> caches_ok cfg (exec e') (ram e') \<and>
     decode_cache (exec e') = decode_cache (exec e)"

lemma read_fetch_plain:
  assumes "plain (ram e)" "caches_ok cfg (exec e) (ram e)"
  shows "fst (read_fetch e) = code_bytes (ram e) (rip (cpu e)) max_instruction_length \<and> fetched cfg e (snd (read_fetch e))"
proof -
  obtain r m where q: "mem_read (ram e) (rip (cpu e)) (word_of_nat max_instruction_length) instruction_fetch = (r, m)"
    by fastforce
  have n: "(word_of_nat max_instruction_length :: u64) = 15" by (simp add: max_instruction_length_def)
  have "r = code_bytes (ram e) (rip (cpu e)) max_instruction_length \<and> tlb_variant (ram e) m \<and> plain m"
    using mem_read_plain [OF assms(1), of 15 "rip (cpu e)" instruction_fetch] q unfolding n
    by (simp add: code_bytes_def max_instruction_length_def)
  then show ?thesis
    using q caches_variant [OF assms(2)] by (simp add: read_fetch_def fetched_def)
qed

lemma fill_page_cache_plain:
  assumes "plain (ram e)" "caches_ok cfg (exec e) (ram e)" "b mod kPageSize = 0"
  shows "fetched cfg e (fill_page_cache b (code_epoch (ram e)) e)"
proof -
  obtain r m where q: "read_code_page (ram e) b = (r, m)" by fastforce
  have m: "r = code_bytes (ram e) b 4096" "tlb_variant (ram e) m" "plain m"
    using read_code_page_plain [OF assms(1,3)] q by simp_all
  note ok = caches_variant [OF assms(2) m(2)]
  have ep: "code_epoch m = code_epoch (ram e)" "code_bytes m = code_bytes (ram e)"
    using same_code_variant [OF m(2)] by (simp_all add: same_code_def)
  have fill: "caches_ok cfg ((exec e)\<lparr>code_page_cache := (code_page_cache (exec e))(k := pc)\<rparr>) m"
    if "cp_valid pc \<longrightarrow> cp_code_epoch pc = code_epoch m \<and> page_right m pc" for k pc
    using ok that by (simp add: caches_ok_def page_cache.fill)
  show ?thesis
    using assms m ep fill
    by (auto simp: fill_page_cache_def fetched_def q Let_def page_right_def split: option.splits)
qed

lemma fetch_bytes_plain:
  assumes "plain (ram e)" "caches_ok cfg (exec e) (ram e)"
  shows "map_option (take max_instruction_length) (fst (fetch_bytes u (code_epoch (ram e)) e)) =
      code_bytes (ram e) (rip (cpu e)) max_instruction_length \<and> fetched cfg e (snd (fetch_bytes u (code_epoch (ram e)) e))"
proof -
  let ?a = "rip (cpu e)" and ?b = "rip (cpu e) AND NOT (kPageSize - 1)" and ?n = max_instruction_length
  let ?e1 = "fill_page_cache ?b (code_epoch (ram e)) e"
  let ?pc = "code_page_cache (exec ?e1) (page_cache_index ?b)"
  have f: "fetched cfg e ?e1" by (rule fill_page_cache_plain [OF assms page_base_facts(1)])
  have tk: "map_option (take ?n) (code_bytes m a ?n) = code_bytes m a ?n" for m :: "'w memory" and a
    by (cases "code_bytes m a ?n") (auto simp: code_bytes_def read_bytes_def dest!: those_length)
  have same: "code_bytes (ram ?e1) = code_bytes (ram e)" "code_epoch (ram ?e1) = code_epoch (ram e)" "cpu ?e1 = cpu e"
    using f same_code_variant [of "ram e" "ram ?e1"] by (simp_all add: fetched_def same_code_def)
  have slow: "map_option (take ?n) (fst (read_fetch e')) = code_bytes (ram e) ?a ?n \<and> fetched cfg e (snd (read_fetch e'))"
    if "fetched cfg e e'" "code_bytes (ram e') = code_bytes (ram e)" for e'
    using read_fetch_plain [of e' cfg] that tk by (auto simp: fetched_def intro: tlb_variant_trans)
  have refl: "fetched cfg e e" using assms by (simp add: fetched_def)
  show ?thesis
  proof (cases "u \<and> unat (?a - ?b) + ?n \<le> 4096 \<and> cp_valid ?pc \<and> cp_page_base ?pc = ?b \<and> cp_code_epoch ?pc = code_epoch (ram e)")
    case True
    then have "code_bytes (ram e) ?b 4096 = Some (cp_bytes ?pc)"
      using f page_cache.hit [of "ram ?e1" "code_page_cache (exec ?e1)" "page_cache_index ?b"] same
      by (simp add: fetched_def caches_ok_def page_right_def)
    then have "code_bytes (ram e) ?a ?n = Some (take ?n (drop (unat (?a - ?b)) (cp_bytes ?pc)))"
      using code_bytes_part [of "ram e" ?b "cp_bytes ?pc" "unat (?a - ?b)" ?n] True by simp
    then show ?thesis using True f by (simp add: fetch_bytes_def Let_def)
  next
    case False
    then show ?thesis
      using slow [OF f same(1)] slow [OF refl] by (auto simp: fetch_bytes_def Let_def)
  qed
qed

text \<open>What a fetch means: decode the bytes at the instruction pointer.\<close>

definition decode_at :: "'w config \<Rightarrow> 'w memory \<Rightarrow> cpu_state \<Rightarrow> execution_result + instruction" where
  "decode_at cfg m s =
     (case code_bytes m (rip s) max_instruction_length of
        None \<Rightarrow> Inl (fault_result SR_page_fault (rip s) None)
      | Some bs \<Rightarrow> (case decode cfg (decoder_bitness (mode s)) bs (rip s) of
                      None \<Rightarrow> Inl (fault_result SR_decode_error (rip s) None)
                    | Some i \<Rightarrow> Inr i))"

text \<open>An instruction is decoded from its first 15 bytes, however many the decoder is given.\<close>

definition decodes_15 :: "'w config \<Rightarrow> bool" where
  "decodes_15 cfg \<longleftrightarrow> (\<forall>bits bs a. decode cfg bits bs a = decode cfg bits (take max_instruction_length bs) a)"

lemma cache_hit_decode:
  assumes "decode_right cfg m ce" "dc_rip ce = rip s" "dc_mode ce = mode s"
  shows "\<exists>i. decode_at cfg m s = Inr i \<and> ce = build_entry cfg (rip s) (dc_code_epoch ce) (mode s) True i"
  using assms by (auto simp: decode_right_def decode_at_def)

lemma decode_filled:
  assumes "fetched cfg e e1" "decode_at cfg (ram e) (cpu e) = Inr i"
  shows "caches_ok cfg ((exec e1)\<lparr>decode_cache := (decode_cache (exec e1))
    (k := build_entry cfg (rip (cpu e)) (code_epoch (ram e)) (mode (cpu e)) u i)\<rparr>) (ram e1)"
proof -
  let ?new = "build_entry cfg (rip (cpu e)) (code_epoch (ram e)) (mode (cpu e)) u i"
  have same: "same_code (ram e) (ram e1)" using assms(1) same_code_variant by (auto simp: fetched_def)
  then have r: "decode_right cfg (ram e1) (build_entry cfg (rip (cpu e)) (code_epoch (ram e)) (mode (cpu e)) True i)"
    using assms(2) by (auto simp: decode_at_def decode_right_def build_entry_def same_code_def split: option.splits)
  have "dc_code_epoch ?new = code_epoch (ram e1) \<and> decode_right cfg (ram e1) ?new" if "dc_valid ?new"
    using that r same by (simp add: build_entry_def same_code_def)
  then show ?thesis
    using assms(1) by (auto simp: caches_ok_def fetched_def intro!: instruction_cache.fill)
qed

lemma fetch_decode_plain:
  assumes "plain (ram e)" "caches_ok cfg (exec e) (ram e)" "decodes_15 cfg"
  shows "map_sum id dc_instr (fst (fetch_decode cfg e)) = decode_at cfg (ram e) (cpu e) \<and>
    (\<forall>ce. fst (fetch_decode cfg e) = Inr ce \<longrightarrow>
       ce = build_entry cfg (rip (cpu e)) (code_epoch (ram e)) (mode (cpu e)) (can_use_decode_cache cfg (ram e)) (dc_instr ce)) \<and>
    plain (ram (snd (fetch_decode cfg e))) \<and> tlb_variant (ram e) (ram (snd (fetch_decode cfg e))) \<and>
    cpu (snd (fetch_decode cfg e)) = cpu e \<and> caches_ok cfg (exec (snd (fetch_decode cfg e))) (ram (snd (fetch_decode cfg e)))"
proof -
  let ?u = "can_use_decode_cache cfg (ram e)" and ?n = "code_epoch (ram e)" and ?s = "cpu e"
  let ?ce = "decode_cache (exec e) (decode_index (rip ?s))"
  show ?thesis
  proof (cases "?u \<and> dc_valid ?ce \<and> dc_rip ?ce = rip ?s \<and> dc_code_epoch ?ce = ?n \<and> dc_mode ?ce = mode ?s")
    case True
    then have "decode_right cfg (ram e) ?ce"
      using assms(2) instruction_cache.hit [of cfg "ram e"] by (auto simp: caches_ok_def)
    then obtain i where "decode_at cfg (ram e) ?s = Inr i" "?ce = build_entry cfg (rip ?s) ?n (mode ?s) True i"
      using cache_hit_decode [of cfg "ram e" ?ce ?s] True by metis
    then show ?thesis using True assms(1,2) by (simp add: fetch_decode_def Let_def) (simp add: build_entry_def)
  next
    case miss: False
    obtain r e1 where f: "fetch_bytes ?u ?n e = (r, e1)" by fastforce
    then have r: "map_option (take max_instruction_length) r = code_bytes (ram e) (rip ?s) max_instruction_length"
      and e1: "fetched cfg e e1"
      using fetch_bytes_plain [OF assms(1,2), of ?u] by simp_all
    show ?thesis
    proof (cases r)
      case None
      then show ?thesis using miss f r e1 by (auto simp: fetch_decode_def Let_def decode_at_def fetched_def)
    next
      case (Some bs)
      have d: "decode cfg b bs a = decode cfg b (take max_instruction_length bs) a" for b a
        using assms(3) by (simp add: decodes_15_def)
      show ?thesis
      proof (cases "decode cfg (decoder_bitness (mode ?s)) bs (rip ?s)")
        case None
        then show ?thesis
          using miss f Some r e1 d [of "decoder_bitness (mode ?s)" "rip ?s"]
          by (auto simp: fetch_decode_def Let_def decode_at_def fetched_def split: option.splits)
      next
        case i: (Some i)
        have "decode_at cfg (ram e) ?s = Inr i" using i Some d [of "decoder_bitness (mode ?s)" "rip ?s"] by (simp add: decode_at_def flip: r)
        note decode_filled [OF e1 this, where u = ?u]
        then show ?thesis
          using miss f Some i e1 \<open>decode_at cfg (ram e) ?s = Inr i\<close>
          by (auto simp: fetch_decode_def Let_def decode_at_def fetched_def build_entry_def split: option.splits)
      qed
    qed
  qed
qed

text \<open>C12: on a memory without hooks, regions and passthrough, fetching through the code page cache and the cache of decoded
  instructions gives exactly the instruction the bytes in memory decode to (a page fault where they are not executable, a
  decode error where the decoder fails), changes nothing of the guest but the lookup cache, and keeps both caches
  correct.\<close>

theorem fetch_decode_refines:
  assumes "plain (ram e)" "caches_ok cfg (exec e) (ram e)" "decodes_15 cfg"
  shows "map_sum id dc_instr (fst (fetch_decode cfg e)) = decode_at cfg (ram e) (cpu e) \<and>
    (\<forall>ce. fst (fetch_decode cfg e) = Inr ce \<longrightarrow>
       ce = build_entry cfg (rip (cpu e)) (code_epoch (ram e)) (mode (cpu e)) (can_use_decode_cache cfg (ram e)) (dc_instr ce)) \<and>
    plain (ram (snd (fetch_decode cfg e))) \<and> tlb_variant (ram e) (ram (snd (fetch_decode cfg e))) \<and>
    cpu (snd (fetch_decode cfg e)) = cpu e \<and> caches_ok cfg (exec (snd (fetch_decode cfg e))) (ram (snd (fetch_decode cfg e)))"
  using fetch_decode_plain [OF assms] .

section \<open>Changes of the memory\<close>

lemma byte_at_pokes_other:
  assumes "\<forall>i<length bs. \<not> allowed_at f P (a + word_of_nat i)"
  shows "byte_at f (pokes a bs P) x = byte_at f P x"
  using assms
proof (induction bs arbitrary: a P)
  case (Cons b bs)
  have "byte_at f (poke a b P) x = byte_at f P x"
    using Cons.prems [rule_format, of 0] by (auto simp: byte_at_def poke_def allowed_at_def split: option.splits)
  moreover have "\<forall>i<length bs. \<not> allowed_at f (poke a b P) (a + 1 + word_of_nat i)"
    using Cons.prems [rule_format, of "Suc _"] by (auto simp: add.assoc)
  ultimately show ?case using Cons.IH [of "poke a b P" "a + 1"] by simp
qed simp

lemma code_bytes_pokes:
  assumes "\<not> touches_code (pages m) a (length bs)"
  shows "code_bytes (m\<lparr>pages := pokes a bs (pages m)\<rparr>) = code_bytes m"
  using byte_at_pokes_other [of bs executable_perm "pages m" a] assms
  by (auto simp: code_bytes_def read_bytes_def fun_eq_iff touches_code_def)

lemma for_pages_epoch:
  "(\<And>k m. code_epoch (body k m) = code_epoch m) \<Longrightarrow> code_epoch (for_pages body p q m) = code_epoch m"
  using for_pages_invariant [of "\<lambda>n. code_epoch n = code_epoch m" body m p q] by simp

lemma mapping_epochs:
  "code_epoch (mem_map a sz perms m) = code_epoch m + 1" "code_epoch (mem_unmap a sz m) = code_epoch m + 1"
  "code_epoch (mem_reprotect a sz perms m) = code_epoch m + 1" "code_epoch (restore_pages snapshot m) = code_epoch m + 1"
  using fold_emplace_pages [of snapshot "(invalidate_tlb (bump_page_code_epoch m))\<lparr>pages := Map.empty\<rparr>"]
  by (auto simp: mem_map_def mem_unmap_def mem_reprotect_def for_pages_epoch map_page_def reprotect_page_def Let_def
      restore_pages_def invalidate_tlb_def bump_page_code_epoch_def split: option.splits)

text \<open>C19: every completed write keeps the caches correct: one that changes executable bytes advances the code epoch, so that the
  next fetch decodes the new bytes (self-modifying code), and one that changes no executable byte leaves the cached
  instructions valid. Mapping, unmapping, changing permissions and restoring a snapshot keep them correct as well.\<close>

theorem memory_changes_keep_caches:
  assumes "plain m" "caches_ok cfg x m" "code_epoch m \<noteq> NOT 0" "bs \<noteq> []" "length bs + 4096 \<le> 2 ^ 64"
  shows "(fst (mem_write m a bs kind) \<longrightarrow> caches_ok cfg x (snd (mem_write m a bs kind))) \<and>
    caches_ok cfg x (mem_map a sz perms m) \<and> caches_ok cfg x (mem_unmap a sz m) \<and>
    caches_ok cfg x (mem_reprotect a sz perms m) \<and> caches_ok cfg x (restore_pages snapshot m)"
proof -
  have adv: "code_epoch m < code_epoch m + 1" using assms(3) by (rule epoch_advances)
  have bump: "caches_ok cfg x m'" if "code_epoch m' = code_epoch m + 1" for m'
    using caches_evolve [OF assms(2), of m'] that adv by simp
  have "caches_ok cfg x (snd (mem_write m a bs kind))" if ok: "fst (mem_write m a bs kind)"
  proof -
    let ?t = "touches_code (pages m) a (length bs)"
    obtain t where w: "snd (mem_write m a bs kind) =
        m\<lparr>pages := pokes a bs (pages m), tlb := t, code_epoch := code_epoch m + (if ?t then 1 else 0)\<rparr>"
      using mem_write_plain [OF assms(1,4,5), where a = a and kind = kind] ok
      unfolding after_write_def Let_def by auto
    show ?thesis
    proof (cases ?t)
      case True
      then show ?thesis by (intro bump) (simp add: w)
    next
      case False
      then have "same_code m (snd (mem_write m a bs kind))"
        using code_bytes_pokes [OF False] by (simp add: w same_code_def code_bytes_def)
      then show ?thesis using caches_evolve [OF assms(2)] by blast
    qed
  qed
  then show ?thesis by (simp add: bump mapping_epochs)
qed

end
