(* ===== verification/Executor_Hooks.thy ===== *)
theory Executor_Hooks
  imports Executor_Step
begin

text \<open>
  Hook registration in the executor: while hooks run, registrations are queued; between dispatches nothing is
  queued and the cached emptiness flags agree with the lists. The invariant is kept by every registration call and by
  \<^verbatim>\<open>step\<close> and \<^verbatim>\<open>run\<close>, whatever the hooks do.
\<close>

section \<open>Deferral\<close>

definition hook_lists :: "'w executor \<Rightarrow> _" where
  "hook_lists x = (instruction_hooks x, code_hooks x, execution_hooks x, execution_address_hooks x,
     stop_hooks x, fault_hooks x, trap_hooks x)"

text \<open>The cached flags agree with the lists.\<close>

definition flags_fresh :: "'w executor \<Rightarrow> bool" where
  "flags_fresh x \<longleftrightarrow>
     has_instruction_hooks x = (instruction_hooks x \<noteq> []) \<and>
     has_code_hooks x = (\<exists>(k, hs) \<in> set (code_hooks x). hs \<noteq> []) \<and>
     has_execution_hooks x = (execution_hooks x \<noteq> []) \<and>
     has_execution_address_hooks x = (execution_address_hooks x \<noteq> []) \<and>
     has_stop_hooks x = (stop_hooks x \<noteq> []) \<and> has_fault_hooks x = (fault_hooks x \<noteq> []) \<and>
     has_trap_hooks x = (\<exists>(k, hs) \<in> set (trap_hooks x). hs \<noteq> [])"

definition settled :: "'w executor \<Rightarrow> bool" where
  "settled x \<longleftrightarrow> \<not> dispatching_hooks x \<and> pending_hook_mutations x = [] \<and> flags_fresh x"

lemmas registration_defs = register_hook_def add_instruction_hook_def add_code_hook_def add_execution_hook_def
  add_execution_address_hook_def add_stop_hook_def add_fault_hook_def add_trap_hook_def

interpretation xr: deferred_registry dispatching_hooks hook_lists exec_hook_op
proof
  fix x :: "'w executor" and op
  assume "dispatching_hooks x"
  then show "dispatching_hooks (exec_hook_op op x)" "hook_lists (exec_hook_op op x) = hook_lists x"
    by (cases op; simp add: registration_defs remove_hook_def clear_hooks_def request_stop_def clear_stop_request_def
        hook_lists_def Let_def)+
qed

lemma flags_fresh_refresh [simp]: "flags_fresh (refresh_hook_flags x)"
  by (simp add: flags_fresh_def refresh_hook_flags_def list_ex_iff case_prod_beta)

lemma flags_fresh_updates [simp]:
  "flags_fresh (x\<lparr>dispatching_hooks := b\<rparr>) = flags_fresh x"
  "flags_fresh (x\<lparr>pending_hook_mutations := p\<rparr>) = flags_fresh x"
  "flags_fresh (x\<lparr>exec_next_hook_id := n\<rparr>) = flags_fresh x"
  "flags_fresh (x\<lparr>stop_requested := b\<rparr>) = flags_fresh x"
  by (simp_all add: flags_fresh_def)

text \<open>While hooks run.\<close>

definition dispatching :: "'w executor \<Rightarrow> bool" where
  "dispatching x \<longleftrightarrow> dispatching_hooks x \<and> flags_fresh x"

lemma hook_op_dispatching: "dispatching x \<Longrightarrow> dispatching (exec_hook_op op x)"
  by (cases op; simp add: dispatching_def registration_defs remove_hook_def clear_hooks_def request_stop_def
      clear_stop_request_def Let_def)

lemma hook_ops_dispatching: "dispatching x \<Longrightarrow> dispatching (fold exec_hook_op ops x)"
  by (induction ops arbitrary: x) (simp_all add: hook_op_dispatching)

lemma run_mutation_idle:
  "dispatching_hooks (run_mutation mu x) = dispatching_hooks x"
  "pending_hook_mutations x = [] \<Longrightarrow> pending_hook_mutations (run_mutation mu x) = []"
  by (cases mu; simp add: clear_hook_lists_def remove_now_def split: option.splits)+

lemma fold_mutation_idle:
  "dispatching_hooks (fold run_mutation mus x) = dispatching_hooks x"
  "pending_hook_mutations x = [] \<Longrightarrow> pending_hook_mutations (fold run_mutation mus x) = []"
  by (induction mus arbitrary: x) (simp_all add: run_mutation_idle)

lemma refresh_idle [simp]:
  "dispatching_hooks (refresh_hook_flags x) = dispatching_hooks x"
  "pending_hook_mutations (refresh_hook_flags x) = pending_hook_mutations x"
  "hook_lists (refresh_hook_flags x) = hook_lists x"
  by (simp_all add: refresh_hook_flags_def hook_lists_def)

lemma apply_pending_settled:
  "\<not> dispatching_hooks x \<Longrightarrow> flags_fresh x \<Longrightarrow> settled (apply_pending_hook_mutations x)"
  by (simp add: settled_def apply_pending_hook_mutations_def fold_mutation_idle)

lemma apply_pending_lists:
  "hook_lists (apply_pending_hook_mutations x) =
     hook_lists (fold run_mutation (pending_hook_mutations x) (x\<lparr>pending_hook_mutations := []\<rparr>))"
  by (simp add: apply_pending_hook_mutations_def) (simp add: hook_lists_def)

lemma settledD [dest]: "settled x \<Longrightarrow> pending_hook_mutations x = []" "settled x \<Longrightarrow> \<not> dispatching_hooks x"
  by (simp_all add: settled_def)

section \<open>Dispatching keeps the invariant\<close>

lemma begin_dispatching: "settled (exec e) \<Longrightarrow> dispatching (exec (begin_dispatch e))"
  by (simp add: begin_dispatch_def dispatching_def settled_def)

lemma end_settled: "dispatching (exec e) \<Longrightarrow> settled (exec (end_dispatch e))"
  by (simp add: end_dispatch_def dispatching_def apply_pending_settled)

lemma after_hook_dispatching: "dispatching (exec e) \<Longrightarrow> dispatching (exec (after_hook r e))"
  by (cases r) (simp add: after_hook_def hook_ops_dispatching)

lemma loops_dispatching:
  "dispatching (exec e) \<Longrightarrow> dispatching (exec (snd (instruction_hook_loop ihs i nxt e)))"
  "dispatching (exec e) \<Longrightarrow> dispatching (exec (snd (trap_hook_loop ths k i nxt e)))"
  "dispatching (exec e) \<Longrightarrow> dispatching (exec (snd (fault_hook_loop fhs res start address e)))"
  "dispatching (exec e) \<Longrightarrow> dispatching (exec (stop_hook_loop shs res address e))"
  subgoal by (induction ihs i nxt e rule: instruction_hook_loop.induct)
    (simp_all add: after_hook_dispatching Let_def split: prod.splits)
  subgoal by (induction ths k i nxt e rule: trap_hook_loop.induct)
    (simp_all add: after_hook_dispatching Let_def split: prod.splits)
  subgoal by (induction fhs res start address e rule: fault_hook_loop.induct)
    (simp_all add: after_hook_dispatching Let_def split: prod.splits)
  subgoal by (induction shs res address e rule: stop_hook_loop.induct) (simp_all add: after_hook_dispatching)
  done

lemma dispatch_settled:
  assumes "settled (exec e)"
  shows "settled (exec (snd (run_instruction_hooks i nxt e)))" "settled (exec (snd (run_trap_hooks k i nxt e)))"
    "settled (exec (snd (run_fault_hooks res start address e)))" "settled (exec (notify_stop_hooks res address e))"
proof -
  note b = begin_dispatching [OF assms]
  have p: "pending_hook_mutations (exec e) = []" using assms by blast
  show "settled (exec (snd (run_instruction_hooks i nxt e)))"
    using assms end_settled [OF loops_dispatching(1) [OF b]]
    by (auto simp: run_instruction_hooks_def p Let_def split: option.splits prod.splits)
      (metis snd_conv)+
  show "settled (exec (snd (run_trap_hooks k i nxt e)))"
    using assms end_settled [OF loops_dispatching(2) [OF b]]
    by (simp add: run_trap_hooks_def case_prod_beta split: option.splits)
  show "settled (exec (snd (run_fault_hooks res start address e)))"
    using assms end_settled [OF loops_dispatching(3) [OF b]]
    by (simp add: run_fault_hooks_def case_prod_beta)
  show "settled (exec (notify_stop_hooks res address e))"
    using assms end_settled [OF loops_dispatching(4) [OF b]] by (simp add: notify_stop_hooks_def)
qed

text \<open>An attempt is settled when the executor it leaves is.\<close>

fun attempt_emu :: "'w attempt_result \<Rightarrow> 'w emu" where
  "attempt_emu (Again e) = e"
| "attempt_emu (Finished res e) = e"

lemma settled_bookkeeping [simp]:
  "settled (count_stop r x) = settled x"
  "settled (count_retired cd x) = settled x"
  "settled (record_violation start res a x) = settled x"
  "settled (clear_violation x) = settled x"
  "settled (x\<lparr>total_steps := n\<rparr>) = settled x"
  "settled (x\<lparr>total_retired := n\<rparr>) = settled x"
  "settled (x\<lparr>decode_cache := dc\<rparr>) = settled x"
  "settled (x\<lparr>code_page_cache := pc\<rparr>) = settled x"
  "settled (set_context_read_callback cb x) = settled x"
  "settled (set_context_write_callback cb x) = settled x"
  "settled (reset_stats x) = settled x"
  by (simp_all add: settled_def flags_fresh_def count_stop_def count_retired_def record_violation_def clear_violation_def
      set_context_read_callback_def set_context_write_callback_def reset_stats_def)

lemma execution_hook_loop_exec [simp]: "exec (execution_hook_loop hs e) = exec e"
  by (induction hs e rule: execution_hook_loop.induct) (simp_all split: prod.splits)

lemma run_execution_hooks_exec [simp]: "exec (run_execution_hooks e) = exec e"
  by (simp add: run_execution_hooks_def Let_def split: option.splits)

lemma fetch_decode_settled: "settled (exec e) \<Longrightarrow> settled (exec (snd (fetch_decode cfg e)))"
proof -
  assume a: "settled (exec e)"
  have rf: "exec (snd (read_fetch e')) = exec e'" for e' :: "'w emu"
    by (simp add: read_fetch_def split: prod.splits)
  have fp: "settled (exec (fill_page_cache b n e))" for b n
    using a by (simp add: fill_page_cache_def Let_def split: prod.splits option.splits)
  have fb: "settled (exec (snd (fetch_bytes u n e)))" for u n
    using a fp by (simp add: fetch_bytes_def Let_def rf)
  show ?thesis
    using a fb [of "can_use_decode_cache cfg (ram e)" "code_epoch (ram e)"]
    by (auto simp: fetch_decode_def Let_def split: prod.splits option.splits)
qed

lemma recover_settled: "settled (exec e) \<Longrightarrow> settled (exec (snd (try_recover_fault start res a e)))"
  using dispatch_settled(3) [of e res start a]
  by (auto simp: try_recover_fault_def split: prod.splits fault_hook_action.splits)

lemma report_settled: "settled (exec e) \<Longrightarrow> settled (exec (report_stop start res e))"
  by (simp add: report_stop_def Let_def dispatch_settled)

lemma fault_or_stop_settled: "settled (exec e) \<Longrightarrow> settled (exec (attempt_emu (fault_or_stop start res e)))"
  using recover_settled [of e start res "fault_address_of res (rip (cpu e))"]
  by (auto simp: fault_or_stop_def report_settled split: prod.splits bool.splits)

lemmas settled_intros = dispatch_settled recover_settled report_settled fault_or_stop_settled

lemma debug_trap_settled:
  "settled (exec e) \<Longrightarrow> settled (exec (attempt_emu (debug_trap start i res tf rf hits e)))"
  by (simp add: debug_trap_def Let_def put_ctx_def report_settled split: prod.splits)

lemma retire_settled:
  "settled (exec e) \<Longrightarrow> settled (exec (attempt_emu (retire start i cd chk supp tf acc res c e)))"
  by (simp add: retire_def Let_def put_ctx_def debug_trap_settled)

lemma run_core_settled:
  "settled (exec e) \<Longrightarrow> settled (exec (attempt_emu (run_core cfg start ce nxt chk supp tf acc e)))"
proof -
  assume a: "settled (exec e)"
  obtain res0 c where d: "dispatch cfg (dc_reported_code ce) (make_ctx e (dc_instr ce) nxt) = (res0, c)"
    by fastforce
  let ?res = "res0\<lparr>result_code := Some (dc_reported_code ce)\<rparr>"
  obtain ok e2 where r: "try_recover_fault start ?res (fault_address_of ?res (rip (cpu (put_ctx c e)))) (put_ctx c e) = (ok, e2)"
    by fastforce
  have "settled (exec e2)" using recover_settled [of "put_ctx c e"] a r by (metis put_ctx_def emu.simps(1) emu.surjective emu.update_convs(2,3) snd_conv)
  then show ?thesis using a d r
    by (cases ok) (simp_all add: run_core_def Let_def retire_settled report_settled)
qed

lemma finish_hooked_settled: "settled (exec e) \<Longrightarrow> settled (exec (attempt_emu (finish_hooked start i nxt cd e)))"
  by (simp add: finish_hooked_def)

lemma run_hooked_settled:
  "settled (exec e) \<Longrightarrow> settled (exec (attempt_emu (run_hooked cfg start ce nxt chk supp tf acc e)))"
  using dispatch_settled(1) [of "run_execution_hooks e" "dc_instr ce" nxt]
  by (auto simp: run_hooked_def Let_def finish_hooked_settled run_core_settled fault_or_stop_settled
      split: prod.splits instruction_hook_action.splits)

lemma run_trapped_settled:
  "settled (exec e) \<Longrightarrow> settled (exec (attempt_emu (run_trapped cfg start ce nxt chk supp tf acc e)))"
proof (cases "dc_trap_kind ce")
  case (Some k)
  assume "settled (exec e)"
  then show ?thesis
    using Some dispatch_settled(2) [of e k "dc_instr ce" nxt]
    by (auto simp: run_trapped_def finish_hooked_settled run_hooked_settled fault_or_stop_settled
        split: prod.splits trap_hook_action.splits)
qed (simp add: run_trapped_def run_hooked_settled)

lemma execute_entry_settled: "settled (exec e) \<Longrightarrow> settled (exec (attempt_emu (execute_entry cfg start ce e)))"
proof -
  assume a: "settled (exec e)"
  have i: "settled (exec (attempt_emu (invalid_opcode start i nxt e)))" for i nxt
    using dispatch_settled(2) [OF a, of TK_invalid_opcode i nxt]
    by (auto simp: invalid_opcode_def fault_or_stop_settled split: prod.splits trap_hook_action.splits)
  have b: "settled (exec (attempt_emu (execute_breakpoint start i nxt cd hits e')))" if "exec e' = exec e" for i nxt cd hits e'
    using a that by (simp add: execute_breakpoint_def Let_def put_ctx_def fault_or_stop_settled split: prod.splits)
  show ?thesis
    using a by (simp add: execute_entry_def Let_def i b run_trapped_settled fault_or_stop_settled)
qed

lemma attempt_settled: "settled (exec e) \<Longrightarrow> settled (exec (attempt_emu (attempt cfg start e)))"
  using fetch_decode_settled [of e cfg]
  by (auto simp: attempt_def fault_or_stop_settled execute_entry_settled split: prod.splits sum.splits)

lemma attempts_settled: "settled (exec e) \<Longrightarrow> settled (exec (snd (attempts cfg start n e)))"
proof (induction n arbitrary: e)
  case (Suc n)
  show ?case
    using attempt_settled [OF Suc.prems, of cfg start] Suc.IH by (auto split: attempt_result.splits)
qed (simp add: Let_def dispatch_settled)

lemma sync_context_exec [simp]: "exec (sync_context cb e) = exec e"
  by (simp add: sync_context_def split: option.splits prod.splits)

lemma step_settled: "settled (exec e) \<Longrightarrow> settled (exec (snd (step cfg e)))"
proof -
  assume a: "settled (exec e)"
  let ?e = "upd_exec (\<lambda>x. let y = clear_violation x in if collect_code_stats y then y\<lparr>total_steps := total_steps y + 1\<rparr> else y) e"
  have "settled (exec ?e)" using a by (simp add: Let_def)
  then show ?thesis
    by (simp add: step_def Let_def dispatch_settled attempts_settled case_prod_beta)
qed

lemma run_from_settled: "settled (exec e) \<Longrightarrow> settled (exec (snd (run_from cfg limit i n e)))"
proof (induction n arbitrary: i e)
  case (Suc n)
  then show ?case
    using step_settled [OF Suc.prems, of cfg] by (auto simp: Let_def dispatch_settled split: prod.splits)
qed (simp add: Let_def dispatch_settled)

text \<open>The emulators a host can build: a new executor, then any sequence of registrations, callbacks, changes of the guest by
  the host, steps and runs.\<close>

inductive reachable_emu :: "'w config \<Rightarrow> 'w emu \<Rightarrow> bool" for cfg where
  fresh: "reachable_emu cfg \<lparr>exec = new_executor stats i0, cpu = s, ram = m\<rparr>"
| registration: "reachable_emu cfg e \<Longrightarrow> reachable_emu cfg (upd_exec (exec_hook_op op) e)"
| read_callback: "reachable_emu cfg e \<Longrightarrow> reachable_emu cfg (upd_exec (set_context_read_callback cb) e)"
| write_callback: "reachable_emu cfg e \<Longrightarrow> reachable_emu cfg (upd_exec (set_context_write_callback cb) e)"
| statistics: "reachable_emu cfg e \<Longrightarrow> reachable_emu cfg (upd_exec reset_stats e)"
| violation: "reachable_emu cfg e \<Longrightarrow> reachable_emu cfg (upd_exec clear_violation e)"
| host: "reachable_emu cfg e \<Longrightarrow> reachable_emu cfg (e\<lparr>cpu := s, ram := m\<rparr>)"
| stepped: "reachable_emu cfg e \<Longrightarrow> reachable_emu cfg (snd (step cfg e))"
| ran: "reachable_emu cfg e \<Longrightarrow> reachable_emu cfg (snd (run cfg n e))"

lemma hook_op_settled:
  assumes "settled x"
  shows "settled (exec_hook_op op x)"
proof -
  have r: "settled (refresh_hook_flags (run_mutation mu (x\<lparr>exec_next_hook_id := n\<rparr>)))" for mu n
    using assms by (simp add: settled_def run_mutation_idle)
  have "settled (refresh_hook_flags (snd (remove_now hid x)))" for hid
    using assms run_mutation_idle [where mu = "Remove_Now hid" and x = x] by (simp add: settled_def)
  moreover have "settled (refresh_hook_flags (clear_hook_lists x))"
    using assms run_mutation_idle [where mu = Clear_All and x = x] by (simp add: settled_def)
  ultimately show ?thesis
    using assms r
    by (cases op)
      (simp_all add: registration_defs remove_hook_def clear_hooks_def Let_def request_stop_def clear_stop_request_def settledD(2)
        case_prod_beta, simp_all add: settled_def)
qed

lemmas reachable_settled_intros = hook_op_settled step_settled run_from_settled

text \<open>C17: whatever hooks are registered and whatever they do, between calls of the executor no registration is pending, no
  dispatch is marked as running, and the cached flags that let \<^verbatim>\<open>step\<close> skip hook dispatch agree with the lists of hooks.\<close>

theorem reachable_executor_settled:
  assumes "reachable_emu cfg e"
  shows "settled (exec e)"
  using assms
proof (induction rule: reachable_emu.induct)
  case (fresh stats i0 s m)
  show ?case by (simp add: settled_def flags_fresh_def new_executor_def)
qed (simp_all add: reachable_settled_intros run_def)

section \<open>Deferred registration\<close>

text \<open>Lists and flags only: two executors that agree there evolve alike under registrations.\<close>

lemma run_mutation_refresh [simp]: "refresh_hook_flags (run_mutation mu (refresh_hook_flags x)) = refresh_hook_flags (run_mutation mu x)"
  by (cases mu; simp add: refresh_hook_flags_def clear_hook_lists_def remove_now_def split: option.splits)

lemma refresh_idem [simp]: "refresh_hook_flags (refresh_hook_flags x) = refresh_hook_flags x"
  by (simp add: refresh_hook_flags_def)

lemma fold_mutation_refresh:
  "refresh_hook_flags (fold run_mutation mus (refresh_hook_flags x)) = refresh_hook_flags (fold run_mutation mus x)"
proof (induction mus arbitrary: x)
  case (Cons mu mus)
  show ?case
    using Cons.IH [of "run_mutation mu (refresh_hook_flags x)"] Cons.IH [of "run_mutation mu x"] by simp
qed simp

lemma run_mutation_scalars [simp]:
  "run_mutation mu (x\<lparr>exec_next_hook_id := n\<rparr>) = (run_mutation mu x)\<lparr>exec_next_hook_id := n\<rparr>"
  "run_mutation mu (x\<lparr>stop_requested := b\<rparr>) = (run_mutation mu x)\<lparr>stop_requested := b\<rparr>"
  "exec_next_hook_id (run_mutation mu x) = exec_next_hook_id x"
  by (cases mu; simp add: clear_hook_lists_def remove_now_def split: option.splits)+

lemma fold_mutation_scalars [simp]:
  "fold run_mutation mus (x\<lparr>exec_next_hook_id := n\<rparr>) = (fold run_mutation mus x)\<lparr>exec_next_hook_id := n\<rparr>"
  "fold run_mutation mus (x\<lparr>stop_requested := b\<rparr>) = (fold run_mutation mus x)\<lparr>stop_requested := b\<rparr>"
  "exec_next_hook_id (fold run_mutation mus x) = exec_next_hook_id x"
  by (induction mus arbitrary: x) simp_all

lemma refresh_scalars [simp]:
  "refresh_hook_flags (x\<lparr>exec_next_hook_id := n\<rparr>) = (refresh_hook_flags x)\<lparr>exec_next_hook_id := n\<rparr>"
  "refresh_hook_flags (x\<lparr>stop_requested := b\<rparr>) = (refresh_hook_flags x)\<lparr>stop_requested := b\<rparr>"
  "exec_next_hook_id (refresh_hook_flags x) = exec_next_hook_id x"
  by (simp_all add: refresh_hook_flags_def)

lemma refresh_lists [simp]:
  "instruction_hooks (refresh_hook_flags x) = instruction_hooks x" "code_hooks (refresh_hook_flags x) = code_hooks x"
  "execution_hooks (refresh_hook_flags x) = execution_hooks x" "stop_hooks (refresh_hook_flags x) = stop_hooks x"
  "execution_address_hooks (refresh_hook_flags x) = execution_address_hooks x"
  "fault_hooks (refresh_hook_flags x) = fault_hooks x" "trap_hooks (refresh_hook_flags x) = trap_hooks x"
  by (simp_all add: refresh_hook_flags_def)

text \<open>What a dispatching executor stands for: the queue applied.\<close>

definition flushed :: "'w executor \<Rightarrow> 'w executor" where
  "flushed x = refresh_hook_flags (fold run_mutation (pending_hook_mutations x) (x\<lparr>dispatching_hooks := False, pending_hook_mutations := []\<rparr>))"

lemma refresh_fresh: "flags_fresh x \<Longrightarrow> refresh_hook_flags x = x"
  by (simp add: flags_fresh_def refresh_hook_flags_def list_ex_iff case_prod_beta)

lemma flushed_apply: "flags_fresh x \<Longrightarrow> apply_pending_hook_mutations (x\<lparr>dispatching_hooks := False\<rparr>) = flushed x"
  by (simp add: apply_pending_hook_mutations_def flushed_def refresh_fresh)

lemma flushed_idle: "\<not> dispatching_hooks (flushed x)"
  by (simp add: flushed_def fold_mutation_idle)

lemma flushed_op:
  assumes "dispatching_hooks x"
  shows "flushed (exec_hook_op op x) = exec_hook_op op (flushed x)"
proof -
  let ?y = "x\<lparr>dispatching_hooks := False, pending_hook_mutations := []\<rparr>"
  have n: "x\<lparr>exec_next_hook_id := n, dispatching_hooks := False, pending_hook_mutations := []\<rparr> = ?y\<lparr>exec_next_hook_id := n\<rparr>"
    "x\<lparr>stop_requested := b, dispatching_hooks := False, pending_hook_mutations := []\<rparr> = ?y\<lparr>stop_requested := b\<rparr>" for n b
    by simp_all
  have q: "flushed (x\<lparr>pending_hook_mutations := pending_hook_mutations x @ [mu]\<rparr>) = refresh_hook_flags (run_mutation mu (flushed x))"
    "flushed (x\<lparr>exec_next_hook_id := n, pending_hook_mutations := pending_hook_mutations x @ [mu]\<rparr>) =
       refresh_hook_flags (run_mutation mu ((flushed x)\<lparr>exec_next_hook_id := n\<rparr>))" for mu n
    by (simp_all add: flushed_def n)
  have s: "flushed (x\<lparr>stop_requested := b\<rparr>) = (flushed x)\<lparr>stop_requested := b\<rparr>"
    "exec_next_hook_id (flushed x) = exec_next_hook_id x" for b
    by (simp_all add: flushed_def n)
  show ?thesis
    using assms
    by (cases op) (simp_all add: registration_defs remove_hook_def clear_hooks_def request_stop_def clear_stop_request_def
        Let_def flushed_idle q s case_prod_beta del: run_mutation_scalars)
qed

lemma flushed_ops:
  "dispatching_hooks x \<Longrightarrow> flushed (fold exec_hook_op ops x) = fold exec_hook_op ops (flushed x)"
  by (induction ops arbitrary: x) (simp_all add: flushed_op xr.perform_busy)

text \<open>Registrations a hook makes while hooks are dispatched are queued, and flushing the queue at the end of the dispatch
  leaves the executor that the same calls would have produced without a dispatch: identifiers, order of the hooks and flags
  are the same.\<close>

theorem deferred_registration:
  assumes "settled x"
  shows "apply_pending_hook_mutations ((fold exec_hook_op ops (x\<lparr>dispatching_hooks := True\<rparr>))\<lparr>dispatching_hooks := False\<rparr>) =
    fold exec_hook_op ops x \<and>
    hook_lists (fold exec_hook_op ops (x\<lparr>dispatching_hooks := True\<rparr>)) = hook_lists x"
proof
  let ?d = "x\<lparr>dispatching_hooks := True\<rparr>"
  have d: "dispatching ?d" using assms by (simp add: settled_def dispatching_def)
  have "flushed ?d = x" using assms by (simp add: flushed_def settled_def refresh_fresh)
  then show "apply_pending_hook_mutations ((fold exec_hook_op ops ?d)\<lparr>dispatching_hooks := False\<rparr>) = fold exec_hook_op ops x"
    using hook_ops_dispatching [OF d, of ops] by (simp add: flushed_apply dispatching_def flushed_ops)
  show "hook_lists (fold exec_hook_op ops ?d) = hook_lists x"
    using xr.perform_all [of ?d ops] by (simp add: hook_lists_def)
qed

section \<open>Registration and removal\<close>

definition hooks_for :: "('k, 'h) buckets \<Rightarrow> 'k \<Rightarrow> (u64 \<times> 'h) list" where
  "hooks_for bs k = (case map_of bs k of None \<Rightarrow> [] | Some hs \<Rightarrow> hs)"

text \<open>The hooks that can run, by the key they are looked up with.\<close>

definition active_hooks :: "'w executor \<Rightarrow> _" where
  "active_hooks x = (instruction_hooks x, hooks_for (code_hooks x), execution_hooks x, hooks_for (execution_address_hooks x),
     stop_hooks x, fault_hooks x, hooks_for (trap_hooks x))"

definition bucket_ids :: "('k, 'h) buckets \<Rightarrow> u64 set" where
  "bucket_ids bs = (\<Union>(k, hs) \<in> set bs. fst ` set hs)"

definition hook_ids :: "'w executor \<Rightarrow> u64 set" where
  "hook_ids x = fst ` set (instruction_hooks x) \<union> bucket_ids (code_hooks x) \<union> fst ` set (execution_hooks x) \<union>
     bucket_ids (execution_address_hooks x) \<union> fst ` set (stop_hooks x) \<union> fst ` set (fault_hooks x) \<union>
     bucket_ids (trap_hooks x)"

fun adds_hook :: "'w hook_op \<Rightarrow> bool" where
  "adds_hook (Remove_Hook hid) = False"
| "adds_hook Clear_Hooks = False"
| "adds_hook Request_Stop = False"
| "adds_hook Clear_Stop_Request = False"
| "adds_hook _ = True"

lemma remove_first_absent: "hid \<notin> fst ` set hs \<Longrightarrow> remove_first hid hs = None"
  by (force simp: remove_first_def list_ex_iff)

lemma remove_first_last: "hid \<notin> fst ` set hs \<Longrightarrow> remove_first hid (hs @ [(hid, h)]) = Some hs"
proof -
  assume "hid \<notin> fst ` set hs"
  then have "erase_first (\<lambda>(i, _). i = hid) (hs @ [(hid, h)]) = hs" by (induction hs) auto
  then show ?thesis by (simp add: remove_first_def)
qed

lemma bucket_remove_absent: "hid \<notin> bucket_ids bs \<Longrightarrow> bucket_remove drop_empty hid bs = None"
  by (induction drop_empty hid bs rule: bucket_remove.induct) (auto simp: bucket_ids_def remove_first_absent)

lemma bucket_add_remove:
  assumes "hid \<notin> bucket_ids bs" "drop_empty \<longrightarrow> (\<forall>(k, hs) \<in> set bs. hs \<noteq> [])"
  shows "\<exists>bs'. bucket_remove drop_empty hid (bucket_add k (hid, h) bs) = Some bs' \<and> hooks_for bs' = hooks_for bs"
  using assms
proof (induction k "(hid, h)" bs rule: bucket_add.induct)
  case (1 k)
  then show ?case using remove_first_last [of hid "[]" h] by (auto simp: hooks_for_def fun_eq_iff)
next
  case (2 k k' hs bs)
  show ?case
  proof (cases "k' = k")
    case True
    then show ?thesis using 2 remove_first_last [of hid hs h] by (auto simp: bucket_ids_def)
  next
    case False
    obtain bs' where b: "bucket_remove drop_empty hid (bucket_add k (hid, h) bs) = Some bs'" "hooks_for bs' = hooks_for bs"
      using 2 False by (auto simp: bucket_ids_def)
    have "hid \<notin> fst ` set hs" using 2(2) by (auto simp: bucket_ids_def)
    then show ?thesis
      using False b by (simp add: remove_first_absent hooks_for_def fun_eq_iff)
  qed
qed

text \<open>The identifier an \<^verbatim>\<open>add_*_hook\<close> call returns removes that hook: \<^verbatim>\<open>remove_hook\<close> reports success, the hooks that run
  afterwards are those before the registration, and the identifier is not used again.\<close>

theorem hook_add_remove:
  assumes "settled x" "adds_hook op" "hid = exec_next_hook_id x" "hid \<notin> hook_ids x"
    and "\<forall>(a, hs) \<in> set (execution_address_hooks x). hs \<noteq> []"
  shows "\<exists>x'. remove_hook hid (exec_hook_op op x) = (True, x') \<and> settled x' \<and> active_hooks x' = active_hooks x \<and>
     exec_next_hook_id x' = hid + 1"
proof -
  have idle: "\<not> dispatching_hooks x" "pending_hook_mutations x = []" using assms(1) by blast+
  have absent: "hid \<notin> fst ` set (instruction_hooks x)" "hid \<notin> bucket_ids (code_hooks x)" "hid \<notin> fst ` set (execution_hooks x)"
     "hid \<notin> bucket_ids (execution_address_hooks x)" "hid \<notin> fst ` set (stop_hooks x)" "hid \<notin> fst ` set (fault_hooks x)"
     "hid \<notin> bucket_ids (trap_hooks x)" using assms(4) by (simp_all add: hook_ids_def)
  note present = remove_first_last [OF absent(1)] remove_first_last [OF absent(3)] remove_first_last [OF absent(5)]
    remove_first_last [OF absent(6)]
  have buckets: "\<exists>bs. bucket_remove False hid (bucket_add cd (hid, h) (code_hooks x)) = Some bs \<and> hooks_for bs = hooks_for (code_hooks x)"
    "\<exists>bs. bucket_remove True hid (bucket_add a (hid, g) (execution_address_hooks x)) = Some bs \<and>
       hooks_for bs = hooks_for (execution_address_hooks x)"
    "\<exists>bs. bucket_remove False hid (bucket_add k (hid, t) (trap_hooks x)) = Some bs \<and> hooks_for bs = hooks_for (trap_hooks x)"
    for cd h a g k t
    by (rule bucket_add_remove; use assms(5) in \<open>simp add: absent\<close>)+
  have "\<exists>x'. remove_hook hid (exec_hook_op op x) = (True, x') \<and> active_hooks x' = active_hooks x \<and> exec_next_hook_id x' = hid + 1"
  proof -
    note defs = registration_defs remove_hook_def remove_now_def idle assms(3) [symmetric] absent present
      remove_first_absent bucket_remove_absent active_hooks_def Let_def
    show ?thesis
    proof (cases op)
      case (Add_Code_Hook cd h)
      with buckets(1) [of cd h] show ?thesis by (auto simp: defs)
    next
      case (Add_Execution_Address_Hook a g)
      with buckets(2) [of a g] show ?thesis by (auto simp: defs)
    next
      case (Add_Trap_Hook k t)
      with buckets(3) [of k t] show ?thesis by (auto simp: defs)
    qed (use assms(2) in \<open>simp_all add: defs\<close>)
  qed
  then show ?thesis using hook_op_settled [OF hook_op_settled [OF assms(1)], of "Remove_Hook hid" op] by auto
qed

end
