(* ===== verification/Executor_Facts.thy ===== *)
theory Executor_Facts
  imports Executor_Cache Executor_Hooks
begin

text \<open>
  What \<^verbatim>\<open>step\<close> and \<^verbatim>\<open>run\<close> do on an executor without hooks: one instruction is one application of its handler to the state,
  followed by the update of the instruction pointer; a fault is reported and recorded; stop requests and the limit of
  \<^verbatim>\<open>run\<close> are obeyed; retries of a faulting instruction are bounded.
\<close>

section \<open>Quiet executors\<close>

definition no_hooks :: "'w executor \<Rightarrow> bool" where
  "no_hooks x \<longleftrightarrow> settled x \<and> instruction_hooks x = [] \<and> code_hooks x = [] \<and> execution_hooks x = [] \<and>
     execution_address_hooks x = [] \<and> stop_hooks x = [] \<and> fault_hooks x = [] \<and> trap_hooks x = []"

text \<open>No breakpoint, no single stepping, nothing pending from an earlier instruction.\<close>

definition debug_quiet :: "cpu_state \<Rightarrow> bool" where
  "debug_quiet s \<longleftrightarrow> dr s ! 7 = 0 \<and> rflags s AND kFlagTF = 0 \<and> rflags s AND kFlagRF = 0 \<and> debug_suppression s = 0 \<and>
     pending_debug_hit_bits s = 0 \<and> \<not> pending_single_step s"

definition runnable :: "'w config \<Rightarrow> 'w emu \<Rightarrow> bool" where
  "runnable cfg e \<longleftrightarrow> no_hooks (exec e) \<and> \<not> stop_requested (exec e) \<and> context_read_cb (exec e) = None \<and>
     context_write_cb (exec e) = None \<and> plain (ram e) \<and> caches_ok cfg (exec e) (ram e) \<and> decodes_15 cfg"

text \<open>The state an instruction starts from.\<close>

definition entry_state :: "cpu_state \<Rightarrow> cpu_state" where
  "entry_state s = mask_sp (s\<lparr>rip := mask_instruction_pointer s (rip s)\<rparr>)"

lemma no_hooks_simps:
  assumes "no_hooks x"
  shows "instruction_hooks x = []" "code_hooks x = []" "stop_hooks x = []" "fault_hooks x = []" "trap_hooks x = []"
    "\<not> has_instruction_hooks x" "\<not> has_code_hooks x" "\<not> has_execution_hooks x" "\<not> has_execution_address_hooks x"
  using assms by (simp_all add: no_hooks_def settled_def flags_fresh_def)

lemma no_hooks_bookkeeping [simp]:
  "no_hooks (count_stop r x) = no_hooks x" "no_hooks (count_retired cd x) = no_hooks x"
  "no_hooks (record_violation start res a x) = no_hooks x" "no_hooks (clear_violation x) = no_hooks x"
  "no_hooks (x\<lparr>total_steps := n\<rparr>) = no_hooks x"
  "no_hooks (x\<lparr>decode_cache := dc\<rparr>) = no_hooks x" "no_hooks (x\<lparr>code_page_cache := pc\<rparr>) = no_hooks x"
  by (simp_all add: no_hooks_def, simp_all add: count_stop_def count_retired_def record_violation_def clear_violation_def)

lemma context_bookkeeping [simp]:
  "context_write_cb (count_stop r x) = context_write_cb x" "context_write_cb (count_retired cd x) = context_write_cb x"
  "context_write_cb (record_violation start res a x) = context_write_cb x"
  by (simp_all add: count_stop_def count_retired_def record_violation_def)

lemma hookless_dispatch:
  assumes "no_hooks (exec e)"
  shows "run_trap_hooks k i nxt e = (\<lparr>th_action = TH_continue_to_core, th_stop_result = None\<rparr>, e)"
    "run_fault_hooks res start a e = (FH_stop, e)" "notify_stop_hooks res a e = e" "run_execution_hooks e = e"
  using no_hooks_simps [OF assms]
  by (simp_all add: run_trap_hooks_def run_fault_hooks_def notify_stop_hooks_def run_execution_hooks_def)

text \<open>Two executors that differ in their caches only.\<close>

definition cache_variant :: "'w executor \<Rightarrow> 'w executor \<Rightarrow> bool" where
  "cache_variant x y \<longleftrightarrow> y = x\<lparr>code_page_cache := code_page_cache y, decode_cache := decode_cache y\<rparr>"

lemma cache_variant_intros:
  "cache_variant x x" "cache_variant x (x\<lparr>code_page_cache := pc\<rparr>)"
  "cache_variant x y \<Longrightarrow> cache_variant x (y\<lparr>decode_cache := dc\<rparr>)"
  subgoal by (simp add: cache_variant_def)
  subgoal by (simp add: cache_variant_def)
  subgoal unfolding cache_variant_def by (drule arg_cong [where f = "decode_cache_update (\<lambda>_. dc)"]) simp
  done

lemma cache_variantD:
  assumes "cache_variant x y"
  shows "no_hooks y = no_hooks x" "context_write_cb y = context_write_cb x" "has_violation y = has_violation x"
    "stop_reason_counts y = stop_reason_counts x" "stop_requested y = stop_requested x" "context_read_cb y = context_read_cb x"
proof -
  obtain pc dc where "y = x\<lparr>code_page_cache := pc, decode_cache := dc\<rparr>" using assms by (auto simp: cache_variant_def)
  then show "no_hooks y = no_hooks x" "context_write_cb y = context_write_cb x" "has_violation y = has_violation x"
    "stop_reason_counts y = stop_reason_counts x" "stop_requested y = stop_requested x" "context_read_cb y = context_read_cb x" by simp_all
qed

lemma fetch_decode_exec: "cache_variant (exec e) (exec (snd (fetch_decode cfg e)))"
proof -
  have rf: "exec (snd (read_fetch e')) = exec e'" for e' :: "'w emu"
    by (simp add: read_fetch_def split: prod.splits)
  have fp: "cache_variant (exec e) (exec (fill_page_cache b n e))" for b n
    by (simp add: fill_page_cache_def Let_def cache_variant_intros split: prod.splits option.splits)
  have fb: "cache_variant (exec e) (exec (snd (fetch_bytes u n e)))" for u n
    by (simp add: fetch_bytes_def Let_def rf fp cache_variant_intros)
  show ?thesis
    using fb [of "can_use_decode_cache cfg (ram e)" "code_epoch (ram e)"]
    by (auto simp: fetch_decode_def Let_def cache_variant_intros split: prod.splits option.splits)
qed

lemma fault_or_stop_hookless:
  "no_hooks (exec e) \<Longrightarrow> fault_or_stop start res e = Finished res (report_stop start res e)"
  by (simp add: fault_or_stop_def try_recover_fault_def hookless_dispatch)

lemma report_stop_hookless:
  "no_hooks (exec e) \<Longrightarrow> report_stop start res e =
     upd_exec (\<lambda>x. count_stop (reason res) (record_violation start res (fault_address_of res (rip (cpu e))) x)) e"
  by (simp add: report_stop_def Let_def hookless_dispatch)

text \<open>The instruction the caches deliver, executed without hooks and breakpoints.\<close>

lemma execute_entry_quiet:
  assumes "no_hooks (exec e)" "debug_quiet (cpu e)" "code (dc_instr ce) \<noteq> ''INVALID''" "dc_simd_allowed ce"
  shows "execute_entry cfg start ce e =
    run_core cfg start ce (mask_instruction_pointer (cpu e) (rip (cpu e) + ucast (dc_instruction_length ce))) False False False [] e"
proof -
  have "e\<lparr>cpu := cpu e\<rparr> = e" by simp
  then show ?thesis
    using assms no_hooks_simps [OF assms(1)]
    by (cases "dc_trap_kind ce")
      (simp_all add: execute_entry_def Let_def debug_quiet_def run_trapped_def run_hooked_def hookless_dispatch)
qed

lemma attempt_ok:
  assumes "no_hooks (exec e)" "plain (ram e)" "caches_ok cfg (exec e) (ram e)" "decodes_15 cfg" "debug_quiet (cpu e)"
    and "decode_at cfg (ram e) (cpu e) = Inr i" "code i \<noteq> ''INVALID''" "simd_profile_allows cfg i"
  shows "\<exists>e1. cpu e1 = cpu e \<and> tlb_variant (ram e) (ram e1) \<and> plain (ram e1) \<and> caches_ok cfg (exec e1) (ram e1) \<and>
    cache_variant (exec e) (exec e1) \<and>
    attempt cfg start e = run_core cfg start (build_entry cfg (rip (cpu e)) (code_epoch (ram e)) (mode (cpu e))
        (can_use_decode_cache cfg (ram e)) i)
      (mask_instruction_pointer (cpu e) (rip (cpu e) + ucast (max 1 (instr_length i)))) False False False [] e1"
proof -
  obtain r e1 where f: "fetch_decode cfg e = (r, e1)" by fastforce
  note ref = fetch_decode_plain [OF assms(2-4), unfolded f fst_conv snd_conv]
  have "map_sum id dc_instr r = Inr i" using ref assms(6) by simp
  then obtain ce where ce: "r = Inr ce" "dc_instr ce = i" by (cases r) auto
  let ?ce = "build_entry cfg (rip (cpu e)) (code_epoch (ram e)) (mode (cpu e)) (can_use_decode_cache cfg (ram e)) i"
  have e: "ce = ?ce" using ref ce by auto
  have v: "cache_variant (exec e) (exec e1)" using fetch_decode_exec [of e cfg] f by simp
  then have h: "no_hooks (exec e1)" using assms(1) by (simp add: cache_variantD)
  have b: "dc_instr ?ce = i" "dc_simd_allowed ?ce = simd_profile_allows cfg i" "dc_instruction_length ?ce = max 1 (instr_length i)"
    by (simp_all add: build_entry_def)
  have "attempt cfg start e = run_core cfg start ?ce
      (mask_instruction_pointer (cpu e) (rip (cpu e) + ucast (max 1 (instr_length i)))) False False False [] e1"
    using execute_entry_quiet [OF h, of ?ce cfg start] ref assms(5,7,8) b by (simp add: attempt_def f ce(1) e)
  then show ?thesis using ref v by blast
qed

lemma run_core_quiet:
  assumes "no_hooks (exec e)"
    and "dispatch cfg (dc_reported_code ce) (make_ctx e (dc_instr ce) nxt) = (res, c)"
  shows "reason res = SR_none \<Longrightarrow> debug_suppression (state c) = 0 \<Longrightarrow> pending_debug_hit_bits (state c) = 0 \<Longrightarrow>
      \<not> pending_single_step (state c) \<Longrightarrow> run_core cfg start ce nxt False False False [] e =
      Finished (res\<lparr>result_code := Some (dc_reported_code ce), retired := 1\<rparr>)
       (e\<lparr>exec := count_retired (dc_reported_code ce) (exec e), ram := mem c,
          cpu := mask_sp ((state c)\<lparr>rip := (if control_flow_taken c then mask_instruction_pointer (state c) (rip (state c))
            else next_rip c)\<rparr>)\<rparr>)"
    and "reason res \<noteq> SR_none \<Longrightarrow> run_core cfg start ce nxt False False False [] e =
      Finished (res\<lparr>result_code := Some (dc_reported_code ce)\<rparr>)
        (report_stop start (res\<lparr>result_code := Some (dc_reported_code ce)\<rparr>) (put_ctx c e))"
  using assms
  by (simp_all add: run_core_def retire_def Let_def put_ctx_def mask_sp_def try_recover_fault_def hookless_dispatch)

text \<open>What \<^verbatim>\<open>step\<close> does around the retry loop.\<close>

definition started :: "'w executor \<Rightarrow> 'w executor" where
  "started x = (let y = clear_violation x in if collect_code_stats y then y\<lparr>total_steps := total_steps y + 1\<rparr> else y)"

lemma started_simps [simp]:
  "settled (started x) = settled x" "stop_requested (started x) = stop_requested x" "\<not> has_violation (started x)"
  "context_read_cb (started x) = context_read_cb x" "context_write_cb (started x) = context_write_cb x"
  "stop_reason_counts (started x) = stop_reason_counts x" "caches_ok cfg (started x) m = caches_ok cfg x m"
  "fault_hooks (started x) = fault_hooks x" "stop_hooks (started x) = stop_hooks x" "no_hooks (started x) = no_hooks x"
  by (simp_all add: started_def Let_def) (simp_all add: clear_violation_def caches_ok_def)

lemma step_attempts:
  assumes "\<not> stop_requested (exec e)" "context_read_cb (exec e) = None"
  shows "step cfg e = (case attempts cfg (rip (entry_state (cpu e))) kMaxFaultRetries
      (e\<lparr>exec := started (exec e), cpu := entry_state (cpu e)\<rparr>) of (res, e3) \<Rightarrow> (res, sync_context (context_write_cb (exec e3)) e3))"
  unfolding step_def Let_def [of "upd_exec _ e"] started_def [symmetric] using assms
  by (simp add: Let_def [of "sync_context _ _"] sync_context_def entry_state_def)

section \<open>One instruction\<close>

text \<open>The context in which the handler of a decoded instruction runs; the fetch may have filled the lookup cache.\<close>

definition instruction_ctx :: "'w memory \<Rightarrow> cpu_state \<Rightarrow> instruction \<Rightarrow> 'w ctx" where
  "instruction_ctx m s i =
     \<lparr>state = s, mem = m, instr = i, next_rip = mask_instruction_pointer s (rip s + ucast (max 1 (instr_length i))),
      control_flow_taken = False, debug_hit_bits = 0, push_rf_for_debug = False\<rparr>"

text \<open>The state after a handler has succeeded.\<close>

definition final_state :: "'w ctx \<Rightarrow> cpu_state" where
  "final_state c = mask_sp ((state c)\<lparr>rip :=
     (if control_flow_taken c then mask_instruction_pointer (state c) (rip (state c)) else next_rip c)\<rparr>)"

definition ready :: "'w config \<Rightarrow> 'w emu \<Rightarrow> instruction \<Rightarrow> bool" where
  "ready cfg e i \<longleftrightarrow> runnable cfg e \<and> debug_quiet (entry_state (cpu e)) \<and>
     decode_at cfg (ram e) (entry_state (cpu e)) = Inr i \<and> code i \<noteq> ''INVALID'' \<and> simd_profile_allows cfg i"

lemma step_ready:
  assumes "ready cfg e i"
  shows "\<exists>e1 ce. cpu e1 = entry_state (cpu e) \<and> tlb_variant (ram e) (ram e1) \<and> plain (ram e1) \<and> no_hooks (exec e1) \<and>
    caches_ok cfg (exec e1) (ram e1) \<and> stop_requested (exec e1) = stop_requested (exec e) \<and>
    context_read_cb (exec e1) = None \<and> context_write_cb (exec e1) = None \<and>
    \<not> has_violation (exec e1) \<and> stop_reason_counts (exec e1) = stop_reason_counts (exec e) \<and> dc_instr ce = i \<and> dc_reported_code ce = normalize_reported_code (code i) \<and>
    make_ctx e1 i (next_rip (instruction_ctx (ram e) (entry_state (cpu e)) i)) = instruction_ctx (ram e1) (entry_state (cpu e)) i \<and>
    (\<forall>res e2. run_core cfg (rip (entry_state (cpu e))) ce (next_rip (instruction_ctx (ram e) (entry_state (cpu e)) i))
        False False False [] e1 = Finished res e2 \<longrightarrow>
      context_write_cb (exec e2) = context_write_cb (exec e1) \<longrightarrow> step cfg e = (res, e2))"
proof -
  let ?s = "entry_state (cpu e)"
  have r: "runnable cfg e" "debug_quiet ?s" "decode_at cfg (ram e) ?s = Inr i" "code i \<noteq> ''INVALID''" "simd_profile_allows cfg i"
    using assms by (simp_all add: ready_def)
  define e0 where "e0 = e\<lparr>exec := started (exec e), cpu := ?s\<rparr>"
  have e0: "cpu e0 = ?s" "ram e0 = ram e" "no_hooks (exec e0)" "caches_ok cfg (exec e0) (ram e0)"
    "context_write_cb (exec e0) = None" "context_read_cb (exec e0) = None" "stop_requested (exec e0) = stop_requested (exec e)"
    "\<not> has_violation (exec e0)" "stop_reason_counts (exec e0) = stop_reason_counts (exec e)"
    "step cfg e = (case attempts cfg (rip ?s) kMaxFaultRetries e0 of (res, e3) \<Rightarrow> (res, sync_context (context_write_cb (exec e3)) e3))"
    using r(1) step_attempts [of e cfg] by (simp_all add: runnable_def e0_def)
  obtain e1 where e1: "cpu e1 = cpu e0" "tlb_variant (ram e0) (ram e1)" "plain (ram e1)" "cache_variant (exec e0) (exec e1)"
    "caches_ok cfg (exec e1) (ram e1)" "attempt cfg (rip ?s) e0 = run_core cfg (rip ?s) (build_entry cfg (rip (cpu e0)) (code_epoch (ram e0)) (mode (cpu e0))
        (can_use_decode_cache cfg (ram e0)) i)
      (mask_instruction_pointer (cpu e0) (rip (cpu e0) + ucast (max 1 (instr_length i)))) False False False [] e1"
    using attempt_ok [OF e0(3) _ e0(4), of i "rip ?s"] r e0(1,2) by (auto simp: runnable_def)
  show ?thesis
    using e0 e1 cache_variantD [OF e1(4)]
    by (intro exI [of _ e1] exI [of _ "build_entry cfg (rip (cpu e0)) (code_epoch (ram e0)) (mode (cpu e0))
        (can_use_decode_cache cfg (ram e0)) i"])
      (auto simp: build_entry_def instruction_ctx_def make_ctx_def kMaxFaultRetries_def numeral_eq_Suc sync_context_def)
qed

text \<open>C11: \<^verbatim>\<open>step\<close> is the instruction. On a memory without hooks, regions and passthrough, with no executor hooks and no
  debugging, a step at bytes that decode to an instruction applies that instruction's handler (chosen by the
  normalised code) once to the current state, then sets the instruction pointer to the next instruction or to the masked target of the
  control transfer, masks the stack pointer, and reports one retired instruction.\<close>

theorem step_executes_instruction:
  assumes "ready cfg e i"
    and "\<And>m. tlb_variant (ram e) m \<Longrightarrow> plain m \<Longrightarrow>
      dispatch cfg (normalize_reported_code (code i)) (instruction_ctx m (entry_state (cpu e)) i) = (res m, c m) \<and>
      reason (res m) = SR_none \<and> debug_suppression (state (c m)) = 0 \<and> pending_debug_hit_bits (state (c m)) = 0 \<and>
      \<not> pending_single_step (state (c m))"
  shows "\<exists>m e'. tlb_variant (ram e) m \<and> plain m \<and>
    step cfg e = ((res m)\<lparr>result_code := Some (normalize_reported_code (code i)), retired := 1\<rparr>, e') \<and>
    cpu e' = final_state (c m) \<and> ram e' = mem (c m)"
proof -
  let ?s = "entry_state (cpu e)"
  obtain e1 ce where e1: "tlb_variant (ram e) (ram e1)" "plain (ram e1)" "no_hooks (exec e1)"
    "dc_instr ce = i" "dc_reported_code ce = normalize_reported_code (code i)"
    "make_ctx e1 i (next_rip (instruction_ctx (ram e) ?s i)) = instruction_ctx (ram e1) ?s i"
    and st: "\<forall>res e2. run_core cfg (rip ?s) ce (next_rip (instruction_ctx (ram e) ?s i)) False False False [] e1 = Finished res e2 \<longrightarrow>
      context_write_cb (exec e2) = context_write_cb (exec e1) \<longrightarrow> step cfg e = (res, e2)"
    using step_ready [OF assms(1)] by blast
  note h = assms(2) [OF e1(1,2)]
  have "dispatch cfg (dc_reported_code ce) (make_ctx e1 (dc_instr ce) (next_rip (instruction_ctx (ram e) ?s i))) = (res (ram e1), c (ram e1))"
    using h e1 by simp
  note run_core_quiet(1) [OF e1(3) this, where start = "rip ?s"]
  then show ?thesis using st h e1 by (intro exI [of _ "ram e1"]) (simp add: final_state_def)
qed

text \<open>C13: a fault of the handler ends the step with the handler's result: nothing is retired by the executor, the state and the
  memory are the ones the handler left, and unless the instruction merely halted the violation records the address of
  the instruction, the faulting address and the reason.\<close>

theorem step_reports_fault:
  assumes "ready cfg e i"
    and "\<And>m. tlb_variant (ram e) m \<Longrightarrow> plain m \<Longrightarrow>
      dispatch cfg (normalize_reported_code (code i)) (instruction_ctx m (entry_state (cpu e)) i) = (res m, c m) \<and>
      reason (res m) \<noteq> SR_none"
  shows "\<exists>m e'. let x = exec e' in tlb_variant (ram e) m \<and> plain m \<and>
    step cfg e = ((res m)\<lparr>result_code := Some (normalize_reported_code (code i))\<rparr>, e') \<and> cpu e' = state (c m) \<and> ram e' = mem (c m) \<and>
    stop_reason_counts x = (stop_reason_counts (exec e))(reason (res m) := stop_reason_counts (exec e) (reason (res m)) + 1) \<and>
    (if reason (res m) \<in> {SR_halted, SR_execution_limit, SR_stop_requested} then \<not> has_violation x
     else has_violation x \<and> violation_reason x = reason (res m) \<and> violation_ip x = rip (entry_state (cpu e)) \<and>
       violation_address x = fault_address_of (res m) (rip (state (c m))))"
proof -
  let ?s = "entry_state (cpu e)" and ?cd = "normalize_reported_code (code i)"
  obtain e1 ce where e1: "tlb_variant (ram e) (ram e1)" "plain (ram e1)" "no_hooks (exec e1)" "\<not> has_violation (exec e1)"
    "stop_reason_counts (exec e1) = stop_reason_counts (exec e)" "dc_instr ce = i" "dc_reported_code ce = ?cd"
    "make_ctx e1 i (next_rip (instruction_ctx (ram e) ?s i)) = instruction_ctx (ram e1) ?s i"
    and st: "\<forall>res e2. run_core cfg (rip ?s) ce (next_rip (instruction_ctx (ram e) ?s i)) False False False [] e1 = Finished res e2 \<longrightarrow>
      context_write_cb (exec e2) = context_write_cb (exec e1) \<longrightarrow> step cfg e = (res, e2)"
    using step_ready [OF assms(1)] by blast
  let ?m = "ram e1"
  note h = assms(2) [OF e1(1,2)]
  have d: "dispatch cfg (dc_reported_code ce) (make_ctx e1 (dc_instr ce) (next_rip (instruction_ctx (ram e) ?s i))) = (res ?m, c ?m)"
    using h e1 by simp
  show ?thesis
    using run_core_quiet(2) [OF e1(3) d, where start = "rip ?s"] st h e1
    by (intro exI [of _ ?m])
      (auto simp: report_stop_hookless put_ctx_def Let_def, auto simp: count_stop_def record_violation_def fault_address_of_def)
qed

section \<open>Runs\<close>

text \<open>The emulator after the first \<open>n\<close> steps, and whether a run gets that far.\<close>

primrec steps :: "'w config \<Rightarrow> nat \<Rightarrow> 'w emu \<Rightarrow> 'w emu" where
  "steps cfg 0 e = e"
| "steps cfg (Suc n) e = snd (step cfg (steps cfg n e))"

definition goes_on :: "'w config \<Rightarrow> nat \<Rightarrow> 'w emu \<Rightarrow> bool" where
  "goes_on cfg k e \<longleftrightarrow> (\<forall>j<k. \<not> stop_requested (exec (steps cfg j e)) \<and> reason (fst (step cfg (steps cfg j e))) = SR_none)"

lemma run_from_goes_on:
  assumes "goes_on cfg k e" "k \<le> n"
  shows "run_from cfg limit 0 n e = run_from cfg limit k (n - k) (steps cfg k e)"
  using assms
proof (induction k)
  case (Suc k)
  then have "run_from cfg limit 0 n e = run_from cfg limit k (Suc (n - Suc k)) (steps cfg k e)"
    by (simp add: goes_on_def Suc_diff_Suc)
  also have "\<dots> = run_from cfg limit (Suc k) (n - Suc k) (steps cfg (Suc k) e)"
    using Suc.prems by (simp add: goes_on_def case_prod_beta)
  finally show ?case .
qed simp

text \<open>How \<^verbatim>\<open>run\<close> and \<^verbatim>\<open>step\<close> end without executing: the stop is counted and the stop hooks are told.\<close>

definition stopped_with :: "stop_reason \<Rightarrow> u64 \<Rightarrow> 'w emu \<Rightarrow> execution_result \<times> 'w emu" where
  "stopped_with r k e =
     (let e1 = upd_exec (count_stop r) e; res = plain_result r k None in (res, notify_stop_hooks res (rip (cpu e1)) e1))"

text \<open>The run does not go on after \<open>k\<close> steps.\<close>

definition run_ends :: "'w config \<Rightarrow> nat \<Rightarrow> 'w emu \<Rightarrow> nat \<Rightarrow> bool" where
  "run_ends cfg n e k \<longleftrightarrow> k = n \<or> stop_requested (exec (steps cfg k e)) \<or> reason (fst (step cfg (steps cfg k e))) \<noteq> SR_none"

lemma first_end: "\<exists>k. k \<le> n \<and> goes_on cfg k e \<and> run_ends cfg n e k"
proof -
  define k where "k = (LEAST k. run_ends cfg n e k)"
  have n: "run_ends cfg n e n" by (simp add: run_ends_def)
  have "run_ends cfg n e k" unfolding k_def using n by (rule LeastI)
  moreover have "k \<le> n" unfolding k_def using n by (rule Least_le)
  moreover have "\<not> run_ends cfg n e j" if "j < k" for j using that unfolding k_def by (rule not_less_Least)
  ultimately show ?thesis by (auto simp: goes_on_def run_ends_def)
qed

text \<open>C14: \<^verbatim>\<open>run\<close> is iterated \<^verbatim>\<open>step\<close>, result and machine. It makes the first \<open>k\<close> steps, none of which reports a reason to stop or finds a
  stop requested, and ends after the least such \<open>k\<close>: with the limit when \<open>k = n\<close>, with the requested stop and \<open>k\<close> as the
  retired count, both in the machine after exactly \<open>k\<close> steps with that stop counted and the stop hooks told; or with the result and the machine of the
  next step, \<open>k\<close> added to its retired count.\<close>

theorem run_iterates_step:
  "\<exists>k. k \<le> unat n \<and> goes_on cfg k e \<and> run_ends cfg (unat n) e k \<and>
    run cfg n e =
      (if k = unat n then stopped_with SR_execution_limit n (steps cfg k e)
       else if stop_requested (exec (steps cfg k e)) then stopped_with SR_stop_requested (word_of_nat k) (steps cfg k e)
       else case step cfg (steps cfg k e) of (res, e') \<Rightarrow> (res\<lparr>retired := retired res + word_of_nat k\<rparr>, e'))"
proof -
  obtain k where k: "k \<le> unat n" "goes_on cfg k e" "run_ends cfg (unat n) e k" using first_end by blast
  have r: "run cfg n e = run_from cfg n k (unat n - k) (steps cfg k e)"
    unfolding run_def by (rule run_from_goes_on [OF k(2,1)])
  show ?thesis
  proof (cases "k = unat n")
    case True
    then show ?thesis using k r by (intro exI [of _ k]) (simp add: stopped_with_def Let_def)
  next
    case False
    then obtain d where d: "unat n - k = Suc d" using k(1) by (metis Suc_diff_Suc le_neq_implies_less)
    then show ?thesis
      using k r False by (intro exI [of _ k]) (auto simp: run_ends_def stopped_with_def Let_def case_prod_beta)
  qed
qed

lemma stop_bookkeeping [simp]:
  "stop_hooks (count_stop r x) = stop_hooks x" "stop_requested (count_stop r x) = stop_requested x"
  "stop_hooks (clear_violation x) = stop_hooks x" "stop_requested (clear_violation x) = stop_requested x"
  by (simp_all add: count_stop_def clear_violation_def)

text \<open>A stop request is obeyed before anything is fetched or executed: \<^verbatim>\<open>step\<close> and \<^verbatim>\<open>run\<close> (with a positive limit) report it with
  nothing retired, the guest is unchanged when no stop hook runs, and the request stays until it is cleared.\<close>

theorem stop_request_obeyed:
  assumes "stop_requested (exec e)" "stop_hooks (exec e) = []" "0 < n"
  shows "fst (step cfg e) = plain_result SR_stop_requested 0 None \<and> cpu (snd (step cfg e)) = cpu e \<and> ram (snd (step cfg e)) = ram e \<and>
    stop_requested (exec (snd (step cfg e))) \<and>
    fst (run cfg n e) = plain_result SR_stop_requested 0 None \<and> cpu (snd (run cfg n e)) = cpu e \<and> ram (snd (run cfg n e)) = ram e \<and>
    stop_requested (exec (snd (run cfg n e)))"
proof -
  obtain d where d: "unat n = Suc d" using assms(3) by (metis Suc_pred unat_gt_0 word_gt_0)
  show ?thesis
    using assms(1,2) by (simp add: step_def run_def d Let_def notify_stop_hooks_def)
qed

section \<open>Bounded retries\<close>











text \<open>A fault hook that asks for a retry and counts how often it was asked.\<close>

definition retry_hook :: "nat fault_hook" where
  "retry_hook = Fault_Hook (\<lambda>fault start address s m. ((FH_retry, []), s, m\<lparr>world := world m + 1\<rparr>))"

lemma plain_world [simp]: "plain (m\<lparr>world := w\<rparr>) = plain m"
  by (simp add: plain_def tlb_coherent_def)

lemma caches_world [simp]: "caches_ok cfg x (m\<lparr>world := w\<rparr>) = caches_ok cfg x m"
  by (simp add: caches_ok_def page_right_def [abs_def] decode_right_def [abs_def] code_bytes_def)

definition retrying :: "nat executor \<Rightarrow> bool" where
  "retrying x \<longleftrightarrow> settled x \<and> (\<exists>hid. fault_hooks x = [(hid, retry_hook)]) \<and> stop_hooks x = []"

lemma run_retry_hook:
  assumes "retrying (exec e)"
  shows "run_fault_hooks fault start a e = (FH_retry, e\<lparr>ram := (ram e)\<lparr>world := world (ram e) + 1\<rparr>\<rparr>)"
proof -
  obtain hid where h: "fault_hooks (exec e) = [(hid, retry_hook)]" using assms by (auto simp: retrying_def)
  have "dispatching_hooks (exec e) = False" "pending_hook_mutations (exec e) = []" using assms by (auto simp: retrying_def settled_def)
  then show ?thesis
    by (simp add: run_fault_hooks_def h retry_hook_def begin_dispatch_def end_dispatch_def after_hook_def
        apply_pending_hook_mutations_def Let_def)
qed

lemma retrying_variant: "cache_variant x y \<Longrightarrow> retrying y = retrying x"
proof -
  assume "cache_variant x y"
  then obtain pc dc where "y = x\<lparr>code_page_cache := pc, decode_cache := dc\<rparr>" by (auto simp: cache_variant_def)
  then show ?thesis by (simp add: retrying_def)
qed

lemma attempts_retry:
  assumes "retrying (exec e)" "plain (ram e)" "caches_ok cfg (exec e) (ram e)" "decodes_15 cfg"
    and "decode_at cfg (ram e) (cpu e) = Inl fault"
  shows "fst (attempts cfg start n e) = plain_result SR_execution_limit 0 None \<and>
    cpu (snd (attempts cfg start n e)) = cpu e \<and> world (ram (snd (attempts cfg start n e))) = world (ram e) + n \<and>
    context_write_cb (exec (snd (attempts cfg start n e))) = context_write_cb (exec e)"
  using assms
proof (induction n arbitrary: e)
  case 0
  then show ?case by (simp add: Let_def notify_stop_hooks_def retrying_def)
next
  case (Suc n)
  obtain r e1 where f: "fetch_decode cfg e = (r, e1)" by fastforce
  note ref = fetch_decode_plain [OF Suc.prems(2-4), unfolded f fst_conv snd_conv]
  have "r = Inl fault" using ref Suc.prems(5) by (cases r) auto
  have v: "cache_variant (exec e) (exec e1)" using fetch_decode_exec [of e cfg] f by simp
  then have rt: "retrying (exec e1)" "context_write_cb (exec e1) = context_write_cb (exec e)"
    using Suc.prems(1) by (simp_all add: retrying_variant cache_variantD(2))
  let ?e2 = "e1\<lparr>ram := (ram e1)\<lparr>world := world (ram e1) + 1\<rparr>\<rparr>"
  have a: "attempt cfg start e = Again ?e2"
    using rt by (simp add: attempt_def f \<open>r = Inl fault\<close> fault_or_stop_def try_recover_fault_def run_retry_hook)
  have "code_bytes (ram ?e2) = code_bytes (ram e)" "world (ram e1) = world (ram e)"
    using ref by (auto simp: code_bytes_def tlb_variant_def)
  then show ?case
    using Suc.IH [of ?e2] ref rt Suc.prems(4,5) by (simp add: a decode_at_def)
qed

text \<open>When the bytes at the instruction pointer cannot be fetched or decoded and this hook keeps asking for a
  retry without repairing anything, it is asked exactly \<^verbatim>\<open>kMaxFaultRetries\<close> times and the step reports the execution
  limit, leaving the CPU state as it was after masking.\<close>

theorem retry_hook_asked:
  assumes "retrying (exec e)" "\<not> stop_requested (exec e)" "context_read_cb (exec e) = None" "context_write_cb (exec e) = None"
    and "plain (ram e)" "caches_ok cfg (exec e) (ram e)" "decodes_15 cfg" "decode_at cfg (ram e) (entry_state (cpu e)) = Inl fault"
  shows "fst (step cfg e) = plain_result SR_execution_limit 0 None \<and>
    world (ram (snd (step cfg e))) = world (ram e) + kMaxFaultRetries \<and> cpu (snd (step cfg e)) = entry_state (cpu e)"
proof -
  let ?e0 = "e\<lparr>exec := started (exec e), cpu := entry_state (cpu e)\<rparr>"
  note attempts_retry [of ?e0 cfg fault "rip (entry_state (cpu e))" kMaxFaultRetries]
  then show ?thesis
    using assms by (simp add: step_attempts retrying_def case_prod_beta sync_context_def)
qed

end
