(* ===== verification/Executor_Witness.thy ===== *)
theory Executor_Witness
  imports Executor_Facts Memory_Witness Alu_Memory
begin

text \<open>
  The properties of the executor at a concrete emulator: two mapped pages of zero bytes, which the decoder of the configuration reads as
  \<^verbatim>\<open>jmp 0x1010\<close> or as an instruction without a handler.
\<close>

definition demo_config :: "instruction \<Rightarrow> unit config" where
  "demo_config i =
     \<lparr>decode = (\<lambda>bits bs a. if take 1 bs = [0] then Some i else None), encoding = (\<lambda>_. Legacy), op_count = (\<lambda>_. 0),
      used_memory_of = (\<lambda>_. []), handler_of = [''JMP_REL8_64'' \<mapsto> handle_code_JMP_REL8_64],
      kEnableAvx = False, kEnableAvx512 = False, kVectorBytes = 16, disable_decode_cache = False\<rparr>"

definition jump_instruction :: instruction where
  "jump_instruction = null_instruction\<lparr>code := ''JMP_REL8_64'', near_branch64 := 0x1010, instr_length := 2\<rparr>"

definition unknown_instruction :: instruction where
  "unknown_instruction = null_instruction\<lparr>code := ''HLT''\<rparr>"

definition demo_emu :: "unit emu" where
  "demo_emu = \<lparr>exec = new_executor False null_instruction, cpu = initial_cpu_state\<lparr>rip := 0x1000\<rparr>, ram = demo_memory\<rparr>"

lemma demo_emu_simps [simp]:
  "cpu demo_emu = initial_cpu_state\<lparr>rip := 0x1000\<rparr>" "ram demo_emu = demo_memory"
  "entry_state (initial_cpu_state\<lparr>rip := 0x1000\<rparr>) = initial_cpu_state\<lparr>rip := 0x1000\<rparr>"
  by (simp_all add: demo_emu_def entry_state_def mask_sp_def initial_cpu_state_def mask_instruction_pointer_def
      mode_address_mask_def mask_stack_pointer_def list_update_same_conv)

lemma initial_debug [simp]:
  "debug_suppression initial_cpu_state = 0" "pending_debug_hit_bits initial_cpu_state = 0" "\<not> pending_single_step initial_cpu_state"
  "mode initial_cpu_state = long64"
  by (simp_all add: initial_cpu_state_def)

lemma new_executor_quiet [simp]:
  "no_hooks (new_executor b i)" "settled (new_executor b i)" "caches_ok cfg (new_executor b i) m"
  "\<not> stop_requested (new_executor b i)" "context_read_cb (new_executor b i) = None" "context_write_cb (new_executor b i) = None"
  by (simp_all add: no_hooks_def settled_def flags_fresh_def new_executor_def caches_ok_def cache_ok_def)

lemma demo_code: "code_bytes demo_memory 0x1000 max_instruction_length = Some (replicate 15 0)"
proof -
  have "page_slice zero_page 0 15 = replicate 15 0"
    by (simp add: page_slice_def zero_page_def map_replicate_const)
  then show ?thesis
    using read_bytes_page [of 15 "0x1000" "pages demo_memory" zero_page "can instruction_fetch"]
    by (simp add: code_bytes_def demo_pages max_instruction_length_def kPageSize_def zero_page_def
        kMemoryPermissionAll_def perm_read_def perm_write_def perm_execute_def)
qed

lemma demo_runnable: "runnable (demo_config i) demo_emu"
  using demo_plain by (simp add: runnable_def demo_emu_def decodes_15_def demo_config_def max_instruction_length_def)

lemma demo_ready:
  assumes "code i \<noteq> ''INVALID''"
  shows "ready (demo_config i) demo_emu i"
  using demo_runnable assms
  by (simp add: ready_def debug_quiet_def decode_at_def demo_code)
    (simp add: initial_cpu_state_def demo_config_def simd_profile_allows_def kFlagTF_def kFlagRF_def)

theorem fetch_decode_refines_witness:
  "map_sum id dc_instr (fst (fetch_decode (demo_config jump_instruction) demo_emu)) = Inr jump_instruction"
  using fetch_decode_refines [of demo_emu "demo_config jump_instruction"] demo_runnable [of jump_instruction] demo_ready [of jump_instruction]
  by (simp add: runnable_def ready_def jump_instruction_def)

theorem step_executes_instruction_witness:
  "\<exists>e'. step (demo_config jump_instruction) demo_emu =
     (no_stop\<lparr>result_code := Some ''JMP_REL8_64'', retired := 1\<rparr>, e') \<and> rip (cpu e') = 0x1010"
proof -
  let ?c = "\<lambda>m :: unit memory. snd (jump_to 0x1010 (instruction_ctx m (entry_state (cpu demo_emu)) jump_instruction))"
  have cd: "normalize_reported_code (code jump_instruction) = ''JMP_REL8_64''" "code jump_instruction \<noteq> ''INVALID''"
    by (simp_all add: jump_instruction_def normalize_reported_code_def)
  have h: "dispatch (demo_config jump_instruction) (normalize_reported_code (code jump_instruction))
        (instruction_ctx m (entry_state (cpu demo_emu)) jump_instruction) = (no_stop, ?c m) \<and>
      reason no_stop = SR_none \<and> debug_suppression (state (?c m)) = 0 \<and> pending_debug_hit_bits (state (?c m)) = 0 \<and>
      \<not> pending_single_step (state (?c m))" for m
    unfolding cd(1) by (simp add: dispatch_def demo_config_def handle_code_JMP_REL8_64_def instruction_ctx_def jump_to_def
        jump_instruction_def no_stop_def)
  obtain m e' where "step (demo_config jump_instruction) demo_emu = (no_stop\<lparr>result_code := Some ''JMP_REL8_64'', retired := 1\<rparr>, e')"
    "cpu e' = final_state (?c m)"
    using step_executes_instruction [OF demo_ready [OF cd(2)] h] unfolding cd(1) by blast
  then show ?thesis
    by (simp add: final_state_def jump_to_def instruction_ctx_def mask_sp_def mask_instruction_pointer_def mode_address_mask_def)
qed

theorem step_reports_fault_witness:
  "\<exists>e'. step (demo_config unknown_instruction) demo_emu =
     (fault_result SR_unsupported_instruction 0x1000 (Some ''HLT''), e') \<and>
     has_violation (exec e') \<and> violation_ip (exec e') = 0x1000 \<and> violation_reason (exec e') = SR_unsupported_instruction"
proof -
  let ?c = "\<lambda>m :: unit memory. instruction_ctx m (entry_state (cpu demo_emu)) unknown_instruction"
  have cd: "normalize_reported_code (code unknown_instruction) = ''HLT''" "code unknown_instruction \<noteq> ''INVALID''"
    by (simp_all add: unknown_instruction_def normalize_reported_code_def)
  have h: "dispatch (demo_config unknown_instruction) (normalize_reported_code (code unknown_instruction)) (?c m) =
      (fault_result SR_unsupported_instruction 0x1000 None, ?c m) \<and>
      reason (fault_result SR_unsupported_instruction 0x1000 None) \<noteq> SR_none" for m
    unfolding cd(1) by (simp add: dispatch_def demo_config_def unsupported_def instruction_ctx_def fault_result_def)
  show ?thesis
    using step_reports_fault [OF demo_ready [OF cd(2)] h] unfolding cd(1) by (auto simp: fault_result_def Let_def)
qed

theorem stop_request_obeyed_witness:
  "ram (snd (run (demo_config jump_instruction) 5 (upd_exec request_stop demo_emu))) = demo_memory"
  using stop_request_obeyed [of "upd_exec request_stop demo_emu" 5 "demo_config jump_instruction"]
  by (simp add: request_stop_def) (simp add: demo_emu_def new_executor_def)

text \<open>A hook that registers another hook and removes itself while it is dispatched.\<close>

definition self_removing :: "unit stop_hook" where
  "self_removing = Stop_Hook (\<lambda>res a s m. ([Remove_Hook 1, Add_Fault_Hook (Fault_Hook (\<lambda>_ _ _ s m. ((FH_stop, []), s, m)))], s, m))"

theorem reachable_executor_settled_witness:
  "settled (exec (snd (run (demo_config jump_instruction) 3 (upd_exec (exec_hook_op (Add_Stop_Hook self_removing)) demo_emu))))"
proof (rule reachable_executor_settled)
  have "reachable_emu (demo_config jump_instruction) demo_emu" unfolding demo_emu_def by (rule fresh)
  then show "reachable_emu (demo_config jump_instruction)
      (snd (run (demo_config jump_instruction) 3 (upd_exec (exec_hook_op (Add_Stop_Hook self_removing)) demo_emu)))"
    by (intro ran registration)
qed

theorem deferred_registration_witness:
  "hook_lists (fold exec_hook_op [Clear_Hooks, Add_Stop_Hook self_removing]
     ((new_executor True null_instruction)\<lparr>dispatching_hooks := True\<rparr>)) = hook_lists (new_executor True null_instruction)"
  using deferred_registration [of "new_executor True null_instruction" "[Clear_Hooks, Add_Stop_Hook self_removing]"] by simp

theorem hook_add_remove_witness:
  "\<exists>x'. remove_hook 1 (exec_hook_op (Add_Stop_Hook self_removing) (new_executor True null_instruction)) = (True, x') \<and>
     stop_hooks x' = []"
proof -
  have "settled (new_executor True null_instruction :: unit executor)" "adds_hook (Add_Stop_Hook self_removing)"
    "1 = exec_next_hook_id (new_executor True null_instruction :: unit executor)"
    "1 \<notin> hook_ids (new_executor True null_instruction :: unit executor)"
    "\<forall>(a, hs)\<in>set (execution_address_hooks (new_executor True null_instruction :: unit executor)). hs \<noteq> []"
    by simp_all (simp_all add: new_executor_def hook_ids_def bucket_ids_def)
  then show ?thesis
    using hook_add_remove [of "new_executor True null_instruction" "Add_Stop_Hook self_removing" 1]
    by (fastforce simp: active_hooks_def new_executor_def)
qed

theorem memory_changes_keep_caches_witness:
  "caches_ok (demo_config jump_instruction) (new_executor True null_instruction) (snd (mem_write demo_memory 0x1FFE [1, 2, 3, 4] data_write))"
  using memory_changes_keep_caches [OF demo_plain new_executor_quiet(3), of "[1, 2, 3, 4]" "0x1FFE" data_write] demo_write
  by (simp add: demo_memory_def mapping_epochs empty_memory_def)

text \<open>A memory with no pages: every fetch faults.\<close>

definition retry_config :: "nat config" where
  "retry_config =
     \<lparr>decode = (\<lambda>_ _ _. None), encoding = (\<lambda>_. Legacy), op_count = (\<lambda>_. 0), used_memory_of = (\<lambda>_. []), handler_of = Map.empty,
      kEnableAvx = False, kEnableAvx512 = False, kVectorBytes = 16, disable_decode_cache = False\<rparr>"

definition retry_emu :: "nat emu" where
  "retry_emu = \<lparr>exec = snd (add_fault_hook retry_hook (new_executor False null_instruction)), cpu = initial_cpu_state,
     ram = empty_memory 0\<rparr>"

theorem retry_hook_asked_witness:
  "fst (step retry_config retry_emu) = plain_result SR_execution_limit 0 None \<and> world (ram (snd (step retry_config retry_emu))) = 8"
proof -
  have x: "retrying (exec retry_emu)" "\<not> stop_requested (exec retry_emu)" "context_read_cb (exec retry_emu) = None"
    "context_write_cb (exec retry_emu) = None" "caches_ok retry_config (exec retry_emu) (ram retry_emu)"
    by (simp_all add: retry_emu_def add_fault_hook_def register_hook_def new_executor_def refresh_hook_flags_def retrying_def
        settled_def flags_fresh_def caches_ok_def cache_ok_def Let_def)
  have "plain (ram retry_emu)"
    using empty_memory_inv [of "0 :: nat"] by (simp add: retry_emu_def plain_def mem_inv_def) (simp add: empty_memory_def)
  moreover have "decode_at retry_config (ram retry_emu) (entry_state (cpu retry_emu)) =
      Inl (fault_result SR_page_fault (rip (entry_state (cpu retry_emu))) None)"
    by (simp add: decode_at_def code_bytes_def read_bytes_fail byte_at_def retry_emu_def empty_memory_def max_instruction_length_def)
  moreover have "decodes_15 retry_config" by (simp add: decodes_15_def retry_config_def)
  ultimately show ?thesis
    using retry_hook_asked [of retry_emu retry_config] x by (simp add: kMaxFaultRetries_def) (simp add: retry_emu_def empty_memory_def)
qed

section \<open>A write that fails half way\<close>

lemma demo_failed_write:
  "\<not> fst (mem_write demo_memory 0x2FFF [1, 2] data_write)"
  "pages (snd (mem_write demo_memory 0x2FFF [1, 2] data_write)) = poke 0x2FFF 1 (pages demo_memory)"
  "code_epoch (snd (mem_write demo_memory 0x2FFF [1, 2] data_write)) = code_epoch demo_memory"
  using mem_write_plain [OF demo_plain, of "[1, 2]" data_write "0x2FFF"]
  by (auto simp: after_write_def Let_def allowed_at_def demo_pages kPageSize_def zero_page_def
      kMemoryPermissionAll_def perm_read_def perm_write_def perm_execute_def)

text \<open>A write that reaches an inaccessible page after it has changed an executable one fails without advancing the code epoch:
  the caches were correct before it and are not afterwards, so that code can be executed that is no longer in memory.\<close>

theorem failed_write_leaves_stale_code:
  "\<exists>x. caches_ok cfg x demo_memory \<and> \<not> fst (mem_write demo_memory 0x2FFF [1, 2] data_write) \<and>
     \<not> caches_ok cfg x (snd (mem_write demo_memory 0x2FFF [1, 2] data_write))"
proof -
  let ?m = "snd (mem_write demo_memory 0x2FFF [1, 2] data_write)"
  let ?pc = "\<lparr>cp_page_base = 0x2000, cp_code_epoch = code_epoch demo_memory, cp_valid = True, cp_bytes = page_slice zero_page 0 4096\<rparr>"
  let ?x = "(new_executor False null_instruction)\<lparr>code_page_cache := \<lambda>_. ?pc\<rparr>"
  have "code_bytes demo_memory 0x2000 4096 = Some (page_slice zero_page 0 4096)"
    using read_bytes_page [of 4096 "0x2000" "pages demo_memory" zero_page "can instruction_fetch"]
    by (simp add: code_bytes_def demo_pages kPageSize_def zero_page_def kMemoryPermissionAll_def perm_read_def perm_write_def perm_execute_def)
  then have "caches_ok cfg ?x demo_memory"
    by (simp add: caches_ok_def cache_ok_def page_right_def) (simp add: new_executor_def)
  moreover have "\<not> page_right ?m ?pc"
  proof
    assume "page_right ?m ?pc"
    then have "code_bytes ?m 0x2FFF 1 = Some (take 1 (drop 4095 (page_slice zero_page 0 4096)))"
      using code_bytes_part [of ?m "0x2000" "page_slice zero_page 0 4096" 4095 1] by (simp add: page_right_def)
    moreover have "take 1 (drop 4095 (page_slice zero_page 0 4096)) = [0]"
      by (simp add: page_slice_def zero_page_def drop_map drop_upt take_map)
    ultimately show False
      by (simp add: code_bytes_def read_bytes_def byte_at_def demo_failed_write poke_def demo_pages kPageSize_def zero_page_def
          kMemoryPermissionAll_def perm_read_def perm_write_def perm_execute_def)
  qed
  then have "\<not> caches_ok cfg ?x ?m" by (auto simp: caches_ok_def cache_ok_def demo_failed_write)
  ultimately show ?thesis using demo_failed_write(1) by blast
qed

end
