(* ===== verification/Run_Facts.thy ===== *)
theory Run_Facts
  imports Executor_Witness
begin

text \<open>
  A guest loop run to its end: fetching, decoding through the caches, dispatch, the handler of LOOP and the update of the
  instruction pointer, composed over all iterations.
\<close>

section \<open>Handlers that leave memory alone\<close>

lemma step_registers:
  assumes "ready cfg e i"
    and "\<And>m. dispatch cfg (normalize_reported_code (code i)) (instruction_ctx m (entry_state (cpu e)) i) =
      (no_stop, (instruction_ctx m (entry_state (cpu e)) i)\<lparr>state := s, control_flow_taken := b\<rparr>)"
    and "debug_suppression s = 0" "pending_debug_hit_bits s = 0" "\<not> pending_single_step s"
  shows "\<exists>e'. step cfg e = (no_stop\<lparr>result_code := Some (normalize_reported_code (code i)), retired := 1\<rparr>, e') \<and>
    cpu e' = final_state ((instruction_ctx (ram e) (entry_state (cpu e)) i)\<lparr>state := s, control_flow_taken := b\<rparr>) \<and>
    runnable cfg e' \<and> pages (ram e') = pages (ram e)"
proof -
  let ?s = "entry_state (cpu e)" and ?n = "next_rip (instruction_ctx (ram e) (entry_state (cpu e)) i)"
  obtain e1 ce where e1: "tlb_variant (ram e) (ram e1)" "plain (ram e1)" "no_hooks (exec e1)" "caches_ok cfg (exec e1) (ram e1)"
    "stop_requested (exec e1) = stop_requested (exec e)" "context_read_cb (exec e1) = None" "context_write_cb (exec e1) = None"
    "dc_instr ce = i" "dc_reported_code ce = normalize_reported_code (code i)"
    "make_ctx e1 i ?n = instruction_ctx (ram e1) ?s i"
    and st: "\<forall>res e2. run_core cfg (rip ?s) ce ?n False False False [] e1 = Finished res e2 \<longrightarrow>
      context_write_cb (exec e2) = context_write_cb (exec e1) \<longrightarrow> step cfg e = (res, e2)"
    using step_ready [OF assms(1)] by blast
  let ?c = "(instruction_ctx (ram e1) ?s i)\<lparr>state := s, control_flow_taken := b\<rparr>"
  let ?e' = "e1\<lparr>exec := count_retired (dc_reported_code ce) (exec e1), ram := mem ?c, cpu := final_state ?c\<rparr>"
  have "dispatch cfg (dc_reported_code ce) (make_ctx e1 (dc_instr ce) ?n) = (no_stop, ?c)" using assms(2) e1 by simp
  from run_core_quiet(1) [OF e1(3) this, where start = "rip ?s"]
  have "step cfg e = (no_stop\<lparr>result_code := Some (normalize_reported_code (code i)), retired := 1\<rparr>, ?e')"
    using st e1 assms(3-5) by (simp add: final_state_def no_stop_def)
  moreover have "runnable cfg ?e'"
    using e1 assms(1)
    by (simp add: runnable_def ready_def instruction_ctx_def) (simp add: count_retired_def caches_ok_def)
  moreover have "final_state ?c = final_state ((instruction_ctx (ram e) ?s i)\<lparr>state := s, control_flow_taken := b\<rparr>)"
    by (simp add: final_state_def instruction_ctx_def)
  ultimately show ?thesis using e1(1) by (simp add: instruction_ctx_def tlb_variant_fields)
qed

section \<open>A counted loop\<close>

text \<open>The emulator is about to execute, in 64-bit mode, a LOOP instruction that branches to itself.\<close>

definition spinning :: "'w config \<Rightarrow> 'w emu \<Rightarrow> instruction \<Rightarrow> bool" where
  "spinning cfg e i \<longleftrightarrow> ready cfg e i \<and> code i = ''LOOP_REL8_64_RCX'' \<and> near_branch64 i = rip (cpu e) \<and>
     mode (cpu e) = long64 \<and> wf_cpu (cpu e)"

lemma mask_long:
  assumes "mode s = long64"
  shows "mask_instruction_pointer s v = v" "mask_sp s = s"
  using assms by (simp_all add: mask_sp_def mask_instruction_pointer_eq mask_stack_pointer_eq stack_pointer_width_def take_bit_word_eq_self)

lemma entry_state_long: "mode s = long64 \<Longrightarrow> entry_state s = s"
  by (simp add: entry_state_def mask_long)

lemma rcx_gpr: "wf_cpu s \<Longrightarrow> read_register s RCX = gpr s ! 1" "write_register s RCX v 8 = s\<lparr>gpr := (gpr s)[1 := v]\<rparr>"
  by (simp_all add: read_register_def read_gpr_def write_register_def write_gpr_def Let_def)

lemma loop_handler:
  assumes "wf_cpu (state c)"
  shows "handle_code_LOOP_REL8_64_RCX c =
    (let v = gpr (state c) ! 1 - 1; s = (state c)\<lparr>gpr := (gpr (state c))[1 := v]\<rparr>
     in (no_stop, if v = 0 then c\<lparr>state := s\<rparr> else c\<lparr>state := s\<lparr>rip := near_branch64 (instr c)\<rparr>, control_flow_taken := True\<rparr>))"
  using assms by (simp add: handle_code_LOOP_REL8_64_RCX_def loop_common_def decrement_counter_def jump_to_def Let_def rcx_gpr
      and_mask_for_width take_bit_word_eq_self)

lemma decode_at_same:
  assumes "pages m' = pages m" "rip s' = rip s" "mode s' = mode s"
  shows "decode_at cfg m' s' = decode_at cfg m s"
  unfolding decode_at_def code_bytes_def assms ..

lemma spin:
  assumes "spinning cfg e i" "handler_of cfg ''LOOP_REL8_64_RCX'' = Some handle_code_LOOP_REL8_64_RCX"
  shows "\<exists>e'. step cfg e = (no_stop\<lparr>result_code := Some ''LOOP_REL8_64_RCX'', retired := 1\<rparr>, e') \<and> runnable cfg e' \<and>
    cpu e' = (cpu e)\<lparr>gpr := (gpr (cpu e))[1 := gpr (cpu e) ! 1 - 1],
      rip := (if gpr (cpu e) ! 1 = 1 then rip (cpu e) + ucast (max 1 (instr_length i)) else rip (cpu e))\<rparr> \<and>
    (gpr (cpu e) ! 1 \<noteq> 1 \<longrightarrow> spinning cfg e' i)"
proof -
  let ?s = "cpu e" and ?v = "gpr (cpu e) ! 1 - 1"
  have sp: "ready cfg e i" "code i = ''LOOP_REL8_64_RCX''" "near_branch64 i = rip ?s" "mode ?s = long64" "wf_cpu ?s"
    using assms(1) by (simp_all add: spinning_def)
  have es: "entry_state ?s = ?s" by (rule entry_state_long) (rule sp(4))
  have nr: "normalize_reported_code (code i) = ''LOOP_REL8_64_RCX''" by (simp add: sp(2) normalize_reported_code_def)
  let ?s' = "?s\<lparr>gpr := (gpr ?s)[1 := ?v]\<rparr>"
  have "dispatch cfg (normalize_reported_code (code i)) (instruction_ctx m (entry_state ?s) i) =
      (no_stop, (instruction_ctx m (entry_state ?s) i)\<lparr>state := ?s', control_flow_taken := (?v \<noteq> 0)\<rparr>)" for m
    unfolding nr es using sp(3,5) assms(2)
    by (simp add: dispatch_def loop_handler instruction_ctx_def Let_def)
  moreover have "debug_quiet ?s" using sp(1) es by (simp add: ready_def)
  ultimately obtain e' where e': "step cfg e = (no_stop\<lparr>result_code := Some ''LOOP_REL8_64_RCX'', retired := 1\<rparr>, e')"
    "cpu e' = final_state ((instruction_ctx (ram e) ?s i)\<lparr>state := ?s', control_flow_taken := (?v \<noteq> 0)\<rparr>)"
    "runnable cfg e'" "pages (ram e') = pages (ram e)"
    using step_registers [OF sp(1), where s = ?s' and b = "?v \<noteq> 0"] unfolding nr es by (auto simp: debug_quiet_def)
  have c: "cpu e' = ?s'\<lparr>rip := (if gpr ?s ! 1 = 1 then rip ?s + ucast (max 1 (instr_length i)) else rip ?s)\<rparr>"
    unfolding e'(2) using sp(4)
    by (simp add: final_state_def instruction_ctx_def mask_long)
  have "spinning cfg e' i" if "gpr ?s ! 1 \<noteq> 1"
  proof -
    have "mode (cpu e') = long64" "rip (cpu e') = rip ?s" "wf_cpu (cpu e')" "debug_quiet (cpu e')"
      using c sp(4,5) that \<open>debug_quiet ?s\<close> by (simp_all add: wf_cpu_def debug_quiet_def)
    moreover have "decode_at cfg (ram e') (cpu e') = decode_at cfg (ram e) ?s"
      using calculation(1,2) sp(4) e'(4) by (intro decode_at_same) simp_all
    ultimately show ?thesis using sp e'(3) es by (simp add: spinning_def ready_def entry_state_long)
  qed
  then show ?thesis using e'(1,3) c by auto
qed

text \<open>The run of \<open>Suc n\<close> steps, from the iteration number \<open>k\<close> on.\<close>

lemma spin_run:
  assumes "handler_of cfg ''LOOP_REL8_64_RCX'' = Some handle_code_LOOP_REL8_64_RCX"
  shows "spinning cfg e i \<Longrightarrow> unat (gpr (cpu e) ! 1) = Suc n \<Longrightarrow>
    \<exists>e'. run_from cfg limit k (Suc n) e = (plain_result SR_execution_limit limit None, e') \<and>
      cpu e' = (cpu e)\<lparr>gpr := (gpr (cpu e))[1 := 0], rip := rip (cpu e) + ucast (max 1 (instr_length i))\<rparr>"
proof (induction n arbitrary: k e)
  case 0
  then have v: "gpr (cpu e) ! 1 = 1" by (metis One_nat_def unat_1 word_unat_eq_iff)
  have "\<not> stop_requested (exec e)" using 0(1) by (simp add: spinning_def ready_def runnable_def)
  moreover obtain e1 where e1: "step cfg e = (no_stop\<lparr>result_code := Some ''LOOP_REL8_64_RCX'', retired := 1\<rparr>, e1)" "runnable cfg e1"
    "cpu e1 = (cpu e)\<lparr>gpr := (gpr (cpu e))[1 := 0], rip := rip (cpu e) + ucast (max 1 (instr_length i))\<rparr>"
    using spin [OF 0(1) assms] v by auto
  ultimately show ?case
    by (simp add: no_stop_def Let_def hookless_dispatch runnable_def)
next
  case (Suc n)
  have nz: "gpr (cpu e) ! 1 \<noteq> 0" "gpr (cpu e) ! 1 \<noteq> 1" using Suc.prems(2) by auto
  then have v: "gpr (cpu e) ! 1 \<noteq> 1" "unat (gpr (cpu e) ! 1 - 1) = Suc n"
    using Suc.prems(2) unat_minus_one [OF nz(1)] by simp_all
  have q: "\<not> stop_requested (exec e)" "wf_cpu (cpu e)" using Suc.prems(1) by (simp_all add: spinning_def ready_def runnable_def)
  obtain e1 where e1: "step cfg e = (no_stop\<lparr>result_code := Some ''LOOP_REL8_64_RCX'', retired := 1\<rparr>, e1)" "spinning cfg e1 i"
    "cpu e1 = (cpu e)\<lparr>gpr := (gpr (cpu e))[1 := gpr (cpu e) ! 1 - 1]\<rparr>"
    using spin [OF Suc.prems(1) assms] v(1) by auto
  then have "unat (gpr (cpu e1) ! 1) = Suc n" using q(2) v(2) by (simp add: wf_cpu_def)
  from Suc.IH [OF e1(2) this, of "Suc k"] show ?case
    using q(1) e1 by (auto simp: no_stop_def)
qed

text \<open>C16: a counted loop ends. In 64-bit mode a LOOP that branches to itself, started with \<open>RCX = n > 0\<close> and run with the limit \<open>n\<close>, is executed
  exactly \<open>n\<close> times, through the caches, the dispatch and the handler: the run uses up its limit and leaves RCX at 0 and the instruction
  pointer behind the loop, with everything else in the CPU state unchanged.\<close>

theorem counted_loop_ends:
  assumes "spinning cfg e i" "handler_of cfg ''LOOP_REL8_64_RCX'' = Some handle_code_LOOP_REL8_64_RCX"
    and "gpr (cpu e) ! 1 = n" "n \<noteq> 0"
  shows "\<exists>e'. run cfg n e = (plain_result SR_execution_limit n None, e') \<and>
    cpu e' = (cpu e)\<lparr>gpr := (gpr (cpu e))[1 := 0], rip := rip (cpu e) + ucast (max 1 (instr_length i))\<rparr>"
proof -
  obtain k where "unat n = Suc k" using assms(4) by (metis not0_implies_Suc unat_eq_zero)
  then show ?thesis using spin_run [OF assms(2,1), of k n 0] assms(3) by (simp add: run_def)
qed

section \<open>A concrete loop\<close>

text \<open>\<^verbatim>\<open>loop $\<close> with \<open>RCX = 2\<^sup>4\<^sup>0\<close>.\<close>

definition loop_instruction :: instruction where
  "loop_instruction = null_instruction\<lparr>code := ''LOOP_REL8_64_RCX'', near_branch64 := 0x1000, instr_length := 2\<rparr>"

definition loop_config :: "unit config" where
  "loop_config = (demo_config loop_instruction)\<lparr>handler_of := [''LOOP_REL8_64_RCX'' \<mapsto> handle_code_LOOP_REL8_64_RCX]\<rparr>"

definition loop_emu :: "unit emu" where
  "loop_emu = demo_emu\<lparr>cpu := (cpu demo_emu)\<lparr>gpr := (replicate 16 0)[1 := 2 ^ 40]\<rparr>\<rparr>"

lemma loop_spinning: "spinning loop_config loop_emu loop_instruction"
proof -
  have w: "wf_cpu (cpu loop_emu)" "mode (cpu loop_emu) = long64" "rip (cpu loop_emu) = 0x1000"
    using initial_wf by (simp_all add: loop_emu_def wf_cpu_def)
  have d: "decode_at loop_config (ram loop_emu) (cpu loop_emu) = Inr loop_instruction"
    by (simp add: decode_at_def w(3)) (simp add: loop_emu_def demo_code loop_config_def demo_config_def)
  have "ready loop_config loop_emu loop_instruction"
    using demo_plain unfolding ready_def entry_state_long [OF w(2)] d
    by (simp add: runnable_def debug_quiet_def loop_emu_def)
      (simp add: demo_emu_def loop_config_def demo_config_def loop_instruction_def decodes_15_def initial_cpu_state_def
        max_instruction_length_def simd_profile_allows_def kFlagTF_def kFlagRF_def)
  then show ?thesis using w by (simp add: spinning_def loop_instruction_def)
qed

theorem counted_loop_ends_witness:
  "\<exists>e'. run loop_config (2 ^ 40) loop_emu = (plain_result SR_execution_limit (2 ^ 40) None, e') \<and>
     cpu e' = (cpu loop_emu)\<lparr>gpr := (gpr (cpu loop_emu))[1 := 0], rip := rip (cpu loop_emu) + ucast (max 1 (instr_length loop_instruction))\<rparr>"
  by (rule counted_loop_ends [OF loop_spinning]) (simp_all add: loop_config_def loop_emu_def)

end
