(* ===== verification/Handler_Invariant.thy ===== *)
theory Handler_Invariant
  imports System_Ops String_Ops Multiply Bit_Ops Control_Flow
begin

text \<open>
  The machine invariant of an execution context: the register file has the array bounds of \<^verbatim>\<open>CpuState\<close> and the memory satisfies the
  invariant of \<open>Memory_Invariant\<close>. Every statement a handler is made of keeps it, whatever access hooks, MMIO regions and
  passthrough callbacks do.
\<close>

section \<open>The invariant\<close>

definition wf_ctx :: "'w ctx \<Rightarrow> bool" where
  "wf_ctx c \<longleftrightarrow> wf_cpu (state c) \<and> mem_inv (mem c)"

definition wf_handler :: "'w handler \<Rightarrow> bool" where
  "wf_handler h \<longleftrightarrow> (\<forall>c. wf_ctx c \<longrightarrow> wf_ctx (snd (h c)))"

lemma wf_ctx_update [simp]:
  "wf_cpu s \<Longrightarrow> wf_ctx c \<Longrightarrow> wf_ctx (c\<lparr>state := s\<rparr>)"
  "mem_inv m \<Longrightarrow> wf_ctx c \<Longrightarrow> wf_ctx (c\<lparr>mem := m\<rparr>)"
  "wf_ctx (c\<lparr>control_flow_taken := b\<rparr>) = wf_ctx c" "wf_ctx (c\<lparr>next_rip := v\<rparr>) = wf_ctx c"
  "wf_ctx (c\<lparr>debug_hit_bits := v\<rparr>) = wf_ctx c" "wf_ctx (c\<lparr>push_rf_for_debug := b\<rparr>) = wf_ctx c"
  by (simp_all add: wf_ctx_def)

lemma wf_ctx_parts [simp]: "wf_ctx c \<Longrightarrow> wf_cpu (state c)" "wf_ctx c \<Longrightarrow> mem_inv (mem c)"
  by (simp_all add: wf_ctx_def)

lemma wf_cpu_scalar [simp]:
  "wf_cpu (s\<lparr>rip := v\<rparr>) = wf_cpu s" "wf_cpu (s\<lparr>mode := md\<rparr>) = wf_cpu s" "wf_cpu (s\<lparr>rflags := v\<rparr>) = wf_cpu s"
  "wf_cpu (s\<lparr>fs_base := v\<rparr>) = wf_cpu s" "wf_cpu (s\<lparr>gs_base := v\<rparr>) = wf_cpu s" "wf_cpu (s\<lparr>gdtr := d\<rparr>) = wf_cpu s"
  "wf_cpu (s\<lparr>idtr := d\<rparr>) = wf_cpu s" "wf_cpu (s\<lparr>msr := ms\<rparr>) = wf_cpu s" "wf_cpu (s\<lparr>mxcsr := mx\<rparr>) = wf_cpu s"
  "wf_cpu (s\<lparr>debug_suppression := ds\<rparr>) = wf_cpu s" "wf_cpu (s\<lparr>pending_single_step := b\<rparr>) = wf_cpu s"
  "wf_cpu (s\<lparr>pending_debug_hit_bits := v\<rparr>) = wf_cpu s"
  by (simp_all add: wf_cpu_def)

lemma wf_cpu_array [simp]:
  "wf_cpu s \<Longrightarrow> wf_cpu (s\<lparr>gpr := xs\<rparr>) \<longleftrightarrow> length xs = 16" "wf_cpu s \<Longrightarrow> wf_cpu (s\<lparr>sreg := ys\<rparr>) \<longleftrightarrow> length ys = 6"
  "wf_cpu s \<Longrightarrow> wf_cpu (s\<lparr>cr := xs\<rparr>) \<longleftrightarrow> length xs = 16" "wf_cpu s \<Longrightarrow> wf_cpu (s\<lparr>dr := xs\<rparr>) \<longleftrightarrow> length xs = 16"
  "wf_cpu s \<Longrightarrow> wf_cpu (s\<lparr>tr := xs\<rparr>) \<longleftrightarrow> length xs = 8" "wf_cpu s \<Longrightarrow> wf_cpu (s\<lparr>xcr := xs\<rparr>) \<longleftrightarrow> length xs = 2"
  by (simp_all add: wf_cpu_def)

lemma wf_cpu_lengths [simp]:
  "wf_cpu s \<Longrightarrow> length (gpr s) = 16" "wf_cpu s \<Longrightarrow> length (sreg s) = 6" "wf_cpu s \<Longrightarrow> length (cr s) = 16"
  "wf_cpu s \<Longrightarrow> length (dr s) = 16" "wf_cpu s \<Longrightarrow> length (tr s) = 8" "wf_cpu s \<Longrightarrow> length (xcr s) = 2"
  by (simp_all add: wf_cpu_def)

lemma wf_flag_setters [simp]:
  "wf_cpu (put_flag b v s) = wf_cpu s" "wf_cpu (put_flags fs s) = wf_cpu s"
  "wf_cpu (set_add_flags s x y r w d) = wf_cpu s" "wf_cpu (set_sub_flags s x y r w d) = wf_cpu s"
  "wf_cpu (set_logic_flags s r w) = wf_cpu s" "wf_cpu (set_multiply_flags s r w d) = wf_cpu s"
  by (simp_all add: put_flag_def put_flags_state set_add_flags_def set_sub_flags_def set_logic_flags_def
      set_multiply_flags_def Let_def)

declare write_register_wf [simp]

section \<open>Statements\<close>

text \<open>Accesses to memory and operands.\<close>

lemma wf_access [simp]:
  "wf_ctx c \<Longrightarrow> wf_ctx (snd (ctx_read c a w))" "wf_ctx c \<Longrightarrow> wf_ctx (snd (ctx_write c a v w))"
  by (simp_all add: ctx_read_def ctx_write_def case_prod_beta read_inv write_inv)

lemma wf_operand [simp]:
  "wf_ctx c \<Longrightarrow> wf_ctx (snd (read_operand c k w))" "wf_ctx c \<Longrightarrow> wf_ctx (snd (write_operand c k v w))"
  by (simp_all add: read_operand_def write_operand_def case_prod_beta Let_def)

lemma wf_checked [simp]:
  assumes "wf_ctx c"
  shows "wf_ctx (snd (read_operand_checked c k w))" "wf_ctx (snd (write_operand_checked c k v w))"
    "wf_ctx (snd (read_divisor_checked c w))" "wf_ctx (snd (read_memory_checked c a w))"
    "wf_ctx (snd (write_memory_checked c a v w))"
  using assms
  by (simp_all add: read_operand_checked_def write_operand_checked_def read_divisor_checked_def read_memory_checked_def
      write_memory_checked_def case_prod_beta split: option.split bool.split)

text \<open>Sequencing.\<close>

lemma wf_with_operand [simp]:
  "wf_ctx c \<Longrightarrow> (\<And>v c1. wf_ctx c1 \<Longrightarrow> wf_ctx (snd (f v c1))) \<Longrightarrow> wf_ctx (snd (with_operand k w f c))"
  by (simp add: with_operand_def case_prod_beta split: option.split)

lemma wf_and_then [simp]:
  "wf_ctx (snd r) \<Longrightarrow> (\<And>c1. wf_ctx c1 \<Longrightarrow> wf_ctx (snd (f c1))) \<Longrightarrow> wf_ctx (snd (and_then r f))"
  by (simp add: and_then_def case_prod_beta)

lemma wf_bind_value [simp]:
  "wf_ctx (snd r) \<Longrightarrow> (\<And>v c1. wf_ctx c1 \<Longrightarrow> wf_ctx (snd (f v c1))) \<Longrightarrow> wf_ctx (snd (bind_value r f))"
  by (simp add: bind_value_def case_prod_beta split: sum.split)

lemma wf_unless_stopped [simp]:
  "wf_ctx (snd r) \<Longrightarrow> (\<And>c1. wf_ctx c1 \<Longrightarrow> wf_ctx (snd (f c1))) \<Longrightarrow> wf_ctx (snd (unless_stopped r f))"
  by (simp add: unless_stopped_def case_prod_beta)

lemma wf_handlerI: "(\<And>c. wf_ctx c \<Longrightarrow> wf_ctx (snd (h c))) \<Longrightarrow> wf_handler h"
  by (simp add: wf_handler_def)

lemma wf_handlerD [simp]: "wf_handler h \<Longrightarrow> wf_ctx c \<Longrightarrow> wf_ctx (snd (h c))"
  by (simp add: wf_handler_def)

section \<open>Two-operand instructions\<close>

definition wf_operation :: "alu_op \<Rightarrow> bool" where
  "wf_operation op \<longleftrightarrow> (\<forall>s x y w. wf_cpu s \<longrightarrow> wf_cpu (snd (op s x y w)))"

lemma wf_operations [simp]:
  "wf_operation alu_add" "wf_operation alu_sub" "wf_operation alu_adc" "wf_operation alu_sbb"
  "wf_operation alu_and" "wf_operation alu_or" "wf_operation alu_xor"
  "wf_operation alu_inc" "wf_operation alu_dec" "wf_operation alu_neg" "wf_operation alu_not"
  by (simp_all add: wf_operation_def alu_add_def alu_sub_def alu_adc_def alu_sbb_def alu_and_def alu_or_def alu_xor_def
      alu_inc_def alu_dec_def alu_neg_def alu_not_def Let_def)

lemma wf_operation_results [simp]:
  assumes "wf_operation op" "wf_ctx c"
  shows "wf_ctx (snd (alu_store op w x y c))" "wf_ctx (snd (alu_store_reg op w x y c))" "wf_ctx (snd (alu_discard op w x y c))"
  using assms by (simp_all add: wf_operation_def alu_store_def alu_store_reg_def alu_discard_def case_prod_beta split: bool.split)

lemma wf_alu_forms [simp]:
  assumes "wf_operation op"
  shows "wf_handler (alu_rm_r op w)" "wf_handler (alu_r_rm op w)" "wf_handler (alu_rm_imm op imm w)"
    "wf_handler (alu_acc_imm op imm w)" "wf_handler (cmp_rm_r op w)" "wf_handler (cmp_r_rm op w)"
    "wf_handler (cmp_rm_imm op imm w)" "wf_handler (cmp_acc_imm op imm w)" "wf_handler (unary_rm op w)"
  using assms by (simp_all add: wf_handler_def alu_rm_r_def alu_r_rm_def alu_rm_imm_def alu_acc_imm_def cmp_rm_r_def
      cmp_r_rm_def cmp_rm_imm_def cmp_acc_imm_def unary_rm_def)

section \<open>Branches, calls and the stack\<close>

lemma wf_stack [simp]:
  "wf_ctx c \<Longrightarrow> wf_ctx (set_sp v c)" "wf_ctx c \<Longrightarrow> wf_ctx (snd (push_width v w c))" "wf_ctx c \<Longrightarrow> wf_ctx (snd (pop_width w c))"
  "wf_ctx c \<Longrightarrow> wf_ctx (snd (note_debug_break c v b))" "wf_ctx c \<Longrightarrow> wf_ctx (note_ss_load v w c)"
  by (simp_all add: set_sp_def push_width_def pop_width_def note_debug_break_def note_ss_load_def case_prod_beta Let_def
      split: sum.split)

lemma wf_interrupt_parts [simp]:
  assumes "wf_ctx c"
  shows "wf_ctx (snd (read_gate c v))" "wf_ctx (snd (frame_push v x w c))" "wf_ctx (snd (enter_gate g c))"
  using assms
  by (simp_all add: read_gate_def frame_push_def enter_gate_def case_prod_beta Let_def
      split: sum.split option.split execution_mode.split)

lemma wf_dispatch_interrupt [simp]: "wf_ctx c \<Longrightarrow> wf_ctx (snd (dispatch_interrupt v r e b c))"
  by (simp add: dispatch_interrupt_def case_prod_beta Let_def split: sum.split option.split)

lemma wf_push_values [simp]: "wf_ctx c \<Longrightarrow> wf_ctx (snd (push_values vs w c))"
  by (induction vs arbitrary: c) simp_all

lemma wf_transfer [simp]:
  assumes "wf_ctx c"
  shows "wf_ctx (snd (jump_to t c))" "wf_ctx (snd (far_jump md sel t c))" "wf_ctx (snd (push_far_return sel off w c))"
    "wf_ctx (snd (read_far_mem w c))" "wf_ctx (snd (read_near_target_width c w))"
  using assms by (simp_all add: jump_to_def far_jump_def push_far_return_def read_far_mem_def read_near_target_width_def
      case_prod_beta split: sum.split)

lemma wf_call_return [simp]:
  assumes "wf_ctx c"
  shows "wf_ctx (snd (call_rm_width w c))" "wf_ctx (snd (ret_width w imm c))" "wf_ctx (snd (retf_width w imm c))"
  using assms by (simp_all add: call_rm_width_def ret_width_def retf_width_def Let_def)

lemma wf_control_flow [simp]:
  "wf_handler (push_operand_width w)" "wf_handler (push_imm_width iw w b)" "wf_handler (pop_operand_width w)"
  "wf_handler (push_segment i w)" "wf_handler (push_flags_width w)" "wf_handler (push_all_width w)"
  "wf_handler (call_rm_width w)" "wf_handler (ret_width w imm)" "wf_handler (retf_width w imm)" "wf_handler (iret_width w fw)"
  "wf_handler (call_far_mem w md)" "wf_handler (jmp_far_mem w md)" "wf_handler (branch_if test)" "wf_handler (cmov w cnd)"
  "wf_handler (setcc cnd)" "wf_handler (loop_common r w b1 b2)" "wf_handler (jcxz_common r w)"
  by (simp_all add: wf_handler_def push_operand_width_def push_imm_width_def pop_operand_width_def push_segment_def
      push_flags_width_def push_all_width_def iret_width_def call_far_mem_def jmp_far_mem_def branch_if_def cmov_def
      setcc_def loop_common_def decrement_counter_def jcxz_common_def case_prod_beta Let_def split: bool.split)

section \<open>Multiplication, division, shifts\<close>

lemma wf_with_divisor [simp]: "(\<And>d. wf_handler (f d)) \<Longrightarrow> wf_handler (with_divisor w f)"
  by (simp add: wf_handler_def with_divisor_def case_prod_beta split: sum.split)

lemma wf_idiv_finish [simp]: "wf_ctx c \<Longrightarrow> wf_ctx (snd (idiv_finish w lo hi q r c))"
  by (simp add: idiv_finish_def Let_def)

lemma wf_divide_8_64 [simp]:
  "wf_handler handle_code_DIV_RM8" "wf_handler handle_code_DIV_RM64" "wf_handler handle_code_IDIV_RM8" "wf_handler handle_code_IDIV_RM64"
  unfolding handle_code_DIV_RM8_def handle_code_DIV_RM64_def handle_code_IDIV_RM8_def handle_code_IDIV_RM64_def
  by (rule wf_with_divisor, simp add: wf_handler_def Let_def)+

lemma wf_multiply [simp]:
  "wf_handler (mul_pair w lo hi)" "wf_handler (imul_reg_rm_imm w iw)" "wf_handler (imul_r_rm w)" "wf_handler (imul_pair w lo hi)"
  "wf_handler (div_pair w lo hi)" "wf_handler (idiv_pair w lo hi)"
  by (simp_all add: wf_handler_def mul_pair_def imul_reg_rm_imm_def imul_r_rm_def imul_pair_def div_pair_def idiv_pair_def
      with_divisor_def idiv_finish_def case_prod_beta Let_def split: sum.split)

lemma wf_store_operand [simp]: "wf_ctx c \<Longrightarrow> wf_ctx (snd (store_operand w v c))"
  by (simp add: store_operand_def case_prod_beta split: bool.split)

lemma wf_shift [simp]:
  "wf_handler (shift_rm w kd src)" "wf_handler (rotate_left w n b)" "wf_handler (rotate_right w n b)"
  "wf_handler (rotate_carry_left w n)" "wf_handler (rotate_carry_right w n)" "wf_handler (shld w n)" "wf_handler (shrd w n)"
  by (simp_all add: wf_handler_def shift_rm_def rotate_left_def rotate_right_def rotate_carry_left_def rotate_carry_right_def
      shld_def shrd_def double_shift_flags_def case_prod_beta Let_def split: sum.split)

lemma wf_with_count [simp]: "(\<And>n. wf_handler (f n)) \<Longrightarrow> wf_handler (with_count n f)"
  by (simp add: wf_handler_def with_count_def)

section \<open>String instructions\<close>

lemma wf_string_parts [simp]:
  "wf_ctx c \<Longrightarrow> wf_ctx (put_si_di b x y n c)" "wf_ctx c \<Longrightarrow> wf_ctx (put_di b x n c)" "wf_ctx c \<Longrightarrow> wf_ctx (put_si b x n c)"
  "wf_ctx c \<Longrightarrow> wf_ctx (compare_flags x y w c)"
  by (simp_all add: put_si_di_def put_di_def put_si_def put_rcx_def set_gpr_def compare_flags_def)

lemma wf_string_loops [simp]:
  "wf_ctx c \<Longrightarrow> wf_ctx (snd (cmps_loop w rep repne df n rsi rdi c))"
  "wf_ctx c \<Longrightarrow> wf_ctx (snd (scas_loop w rep repne df acc n rdi c))"
  "wf_ctx c \<Longrightarrow> wf_ctx (snd (stos_loop w rep df acc n rdi c))"
  "wf_ctx c \<Longrightarrow> wf_ctx (snd (lods_loop w rep df n rsi c))"
  "wf_ctx c \<Longrightarrow> wf_ctx (snd (movs_loop w rep df n rsi rdi c))"
  by (induction n arbitrary: rep rsi rdi c) (simp_all add: case_prod_beta Let_def split: option.split bool.split)

lemma wf_string [simp]:
  "wf_handler (cmps_impl w)" "wf_handler (scas_impl w)" "wf_handler (stos_impl w)" "wf_handler (lods_impl w)" "wf_handler (movs_impl w)"
  by (simp_all add: wf_handler_def cmps_impl_def scas_impl_def stos_impl_def lods_impl_def movs_impl_def Let_def)

section \<open>Bit instructions\<close>

lemma wf_read_bt_base_value [simp]: "wf_ctx c \<Longrightarrow> wf_ctx (snd (read_bt_base_value w i c))"
  by (simp add: read_bt_base_value_def case_prod_beta split: sum.split option.split)

lemma wf_store_with_flags [simp]: "wf_ctx c \<Longrightarrow> wf_ctx (snd (store_with_flags w v fs c))"
  by (simp add: store_with_flags_def)

lemma wf_bits [simp]:
  "wf_handler (bit_test w i)" "wf_handler (bts_rmw w i)" "wf_handler (btr_rmw w i)" "wf_handler (btc_rmw w i)" "wf_handler (bit_scan f w)"
  "wf_handler (bswap_reg g w)" "wf_handler (popcnt_narrow w)" "wf_handler (tzcnt_narrow w)" "wf_handler (lzcnt_narrow w)"
  "wf_handler crc32_impl"
  by (simp_all add: wf_handler_def bit_test_def bts_rmw_def btr_rmw_def btc_rmw_def bit_rmw_def bit_scan_def bswap_reg_def
      popcnt_narrow_def tzcnt_narrow_def lzcnt_narrow_def count_bits_def clear_count_flags_def crc32_impl_def case_prod_beta Let_def
      split: sum.split option.split bool.split)

lemma wf_bmi [simp]:
  "wf_handler (handle_code_blsi w)" "wf_handler (handle_code_blsr w)" "wf_handler (handle_code_blsmsk w)" "wf_handler (handle_code_andn w)"
  "wf_handler (handle_code_bzhi w)" "wf_handler (handle_code_bextr w)" "wf_handler (handle_code_mulx w)" "wf_handler (handle_code_rorx w)"
  "wf_handler (handle_code_pdep w)" "wf_handler (handle_code_pext w)" "wf_handler (handle_code_sarx w)" "wf_handler (handle_code_shlx w)"
  "wf_handler (handle_code_shrx w)"
  by (simp_all add: wf_handler_def handle_code_pdep_def handle_code_pext_def handle_code_sarx_def handle_code_shlx_def handle_code_shrx_def
      handle_code_blsi_def handle_code_blsr_def handle_code_blsmsk_def handle_code_andn_def handle_code_bzhi_def
      handle_code_bextr_def handle_code_mulx_def handle_code_rorx_def bmi_binary_def Let_def)

section \<open>Data movement\<close>

lemma wf_with_operand_checked [simp]:
  "wf_ctx c \<Longrightarrow> (\<And>v c1. wf_ctx c1 \<Longrightarrow> wf_ctx (snd (f v c1))) \<Longrightarrow> wf_ctx (snd (with_operand_checked k w f c))"
  by (simp add: with_operand_checked_def case_prod_beta split: sum.split)

lemma wf_put_reg_0 [simp]: "wf_ctx c \<Longrightarrow> wf_ctx (snd (put_reg_0 w v c))"
  by (simp add: put_reg_0_def)

lemma wf_moves [simp]:
  "wf_handler (mov_rm_r w)" "wf_handler (mov_from_0_to_1 w)" "wf_handler (mov_r_rm w)" "wf_handler (mov_r_imm imm w)"
  "wf_handler (mov_rm_imm imm w)" "wf_handler (mov_r_r w)" "wf_handler (mov_rm_reg w)" "wf_handler (mov_sreg_r64 w)"
  "wf_handler (mov_sreg_rm w)" "wf_handler (mov_r_cr w)" "wf_handler (mov_cr_r w)" "wf_handler (mov_r_dr w)"
  "wf_handler (mov_dr_r w)" "wf_handler (lea w)" "wf_handler (movzx sw w)" "wf_handler (movsx sw w)"
  "wf_handler (movbe_r_m w)" "wf_handler (movbe_m_r w)" "wf_handler (movdir64b_impl w)" "wf_handler (xchg_rm_r w)"
  "wf_handler (xchg_r_r w)" "wf_handler (xadd w)" "wf_handler (put_reg_0 w v)"
  by (simp_all add: wf_handler_def mov_rm_r_def mov_from_0_to_1_def mov_r_rm_def mov_r_imm_def mov_rm_imm_def mov_r_r_def
      mov_rm_reg_def mov_sreg_r64_def mov_sreg_rm_def mov_r_cr_def mov_cr_r_def mov_r_dr_def mov_dr_r_def lea_def movzx_def
      movsx_def movbe_r_m_def movbe_m_r_def movdir64b_impl_def xchg_rm_r_def xchg_r_r_def xadd_def case_prod_beta Let_def
      read_inv write_inv split: sum.split option.split bool.split)

lemma wf_set_cmpxchg_flags [simp]: "wf_cpu s \<Longrightarrow> wf_cpu (set_cmpxchg_flags x y w b s)"
  by (simp add: set_cmpxchg_flags_def Let_def)

lemma wf_compare_exchange [simp]:
  "wf_handler (cmpxchg r w)" "wf_handler (cmpxchg486 r w)" "wf_handler handle_code_CMPXCHG8B_M64" "wf_handler handle_code_CMPXCHG16B_M128"
  by (simp_all add: wf_handler_def cmpxchg_def cmpxchg486_def compare_exchange_def handle_code_CMPXCHG8B_M64_def
      handle_code_CMPXCHG16B_M128_def case_prod_beta Let_def read_inv write_inv split: sum.split option.split bool.split)

section \<open>Legacy and system instructions\<close>

lemma wf_legacy [simp]:
  "wf_handler (extend_acc r1 w1 r2 w2)" "wf_handler (spread_sign r1 x r2 y w)" "wf_handler arpl" "wf_handler (bound_check w)"
  "wf_handler (leave_width r1 r2 w)" "wf_handler (aadd w)"
  "wf_handler handle_code_AAA" "wf_handler handle_code_AAS" "wf_handler handle_code_AAD_IMM8" "wf_handler handle_code_AAM_IMM8"
  "wf_handler handle_code_DAA" "wf_handler handle_code_DAS" "wf_handler handle_code_XLAT_M8"
  by (simp_all add: wf_handler_def extend_acc_def spread_sign_def arpl_def bound_check_def leave_width_def aadd_def byte_flags_def
      handle_code_AAA_def handle_code_AAS_def handle_code_AAD_IMM8_def handle_code_AAM_IMM8_def handle_code_DAA_def
      handle_code_DAS_def handle_code_XLAT_M8_def case_prod_beta Let_def split: sum.split option.split bool.split)

lemma wf_enter [simp]:
  "wf_handler handle_code_ENTERW" "wf_handler handle_code_ENTERD" "wf_handler handle_code_ENTERQ"
  by (simp_all add: wf_handler_def handle_code_ENTERW_def handle_code_ENTERD_def handle_code_ENTERQ_def case_prod_beta Let_def
      split: sum.split option.split bool.split)

lemma wf_system_state [simp]:
  "wf_cpu (write_msr s i v) = wf_cpu s" "wf_cpu s \<Longrightarrow> wf_cpu (write_xcr s i v)" "wf_cpu s \<Longrightarrow> wf_cpu (put_edx_eax v s)"
  "wf_cpu (load_gdt s v l) = wf_cpu s" "wf_cpu (load_idt s v l) = wf_cpu s"
  by (simp_all add: write_msr_def write_xcr_def put_edx_eax_def load_gdt_def load_idt_def)

lemma wf_msrlist_loops [simp]:
  "wf_ctx c \<Longrightarrow> wf_ctx (snd (rdmsrlist_loop rdi rsi bs rcx c))" "wf_ctx c \<Longrightarrow> wf_ctx (snd (wrmsrlist_loop rdi rsi bs rcx c))"
  by (induction bs arbitrary: rcx c) (simp_all add: case_prod_beta Let_def split: option.split bool.split)

lemma wf_msrlist [simp]: "wf_handler (msrlist rdmsrlist_loop)" "wf_handler (msrlist wrmsrlist_loop)"
  by (simp_all add: wf_handler_def msrlist_def Let_def)

lemma wf_system [simp]:
  "wf_handler (smsw_impl w)" "wf_handler (flag_handler b v)" "wf_handler undefined_opcode" "wf_handler stmxcsr" "wf_handler ldmxcsr"
  "wf_handler touch" "wf_handler no_operation"
  by (simp_all add: wf_handler_def smsw_impl_def flag_handler_def undefined_opcode_def stmxcsr_def ldmxcsr_def touch_def no_operation_def
      case_prod_beta Let_def split: sum.split option.split bool.split)

end
