(* ===== verification/Simd_Int.thy ===== *)
theory Simd_Int
  imports Bit_Ops
begin

text \<open>
  Packed integer instructions (\<^verbatim>\<open>handlers/arithmetic/simd_int.cpp\<close>), for the default build with 512-bit vectors. \<^verbatim>\<open>SimdUint\<close> is a 512-bit word. The
  templates over a lane type \<^verbatim>\<open>T\<close> are definitions over a word type \<open>'a\<close>; a function on a signed lane type reads its arguments with
  \<open>sint\<close>. A loop over the lanes of a vector is a fold over their byte offsets.
\<close>

type_synonym simd = "512 word"

section \<open>Vector registers\<close>

fun is_vector_register :: "register \<Rightarrow> bool" where
  "is_vector_register (XMM _) = True"
| "is_vector_register (YMM _) = True"
| "is_vector_register (ZMM _) = True"
| "is_vector_register _ = False"

fun vector_index :: "register \<Rightarrow> nat" where
  "vector_index (XMM i) = unat i"
| "vector_index (YMM i) = unat i"
| "vector_index (ZMM i) = unat i"
| "vector_index _ = 0"

fun vector_width :: "register \<Rightarrow> nat" where
  "vector_width (ZMM _) = 64"
| "vector_width (YMM _) = 32"
| "vector_width (XMM _) = 16"
| "vector_width _ = 16"

definition simd_mask :: "nat \<Rightarrow> simd" where
  "simd_mask bytes = (if bytes \<ge> 64 then NOT 0 else push_bit (bytes * 8) 1 - 1)"

definition read_vec :: "cpu_state \<Rightarrow> register \<Rightarrow> simd" where
  "read_vec s reg = vectors s ! vector_index reg AND simd_mask (vector_width reg)"

definition write_vec :: "register \<Rightarrow> simd \<Rightarrow> bool \<Rightarrow> cpu_state \<Rightarrow> cpu_state" where
  "write_vec reg value zero_upper s =
     (let i = vector_index reg; m = simd_mask (vector_width reg)
      in s\<lparr>vectors := (vectors s)[i := (if zero_upper then value AND m else (vectors s ! i AND NOT m) OR (value AND m))]\<rparr>)"

definition read_vec_mem :: "'w ctx \<Rightarrow> u64 \<Rightarrow> nat \<Rightarrow> simd option \<times> 'w ctx" where
  "read_vec_mem c address width =
     (case mem_read (mem c) address (word_of_nat width) data_read of
        (r, m) \<Rightarrow> (map_option of_le_bytes r, c\<lparr>mem := m\<rparr>))"

text \<open>The byte offsets \<^verbatim>\<open>for (lane = 0; lane < width; lane += step)\<close>; the steps are lane sizes and broadcast element sizes, never 0.\<close>

definition lanes :: "nat \<Rightarrow> nat \<Rightarrow> nat list" where
  "lanes width step = filter (\<lambda>lane. step dvd lane) [0..<width]"

text \<open>\<open>None\<close> is the source's \<^verbatim>\<open>*ok = false\<close>.\<close>

definition read_vec_operand :: "'w ctx \<Rightarrow> nat \<Rightarrow> nat \<Rightarrow> simd option \<times> 'w ctx" where
  "read_vec_operand c k width =
     (let kind = op_kind (instr c) k; reg = op_register (instr c) k
      in if kind = REGISTER
         then (if is_vector_register reg then Some (read_vec (state c) reg AND simd_mask width) else None, c)
         else if kind = MEMORY
         then if is_broadcast (instr c)
              then let element_width = memory_size_bytes (instr c)
                   in case read_vec_mem c (memory_address c) element_width of
                        (None, c1) \<Rightarrow> (None, c1)
                      | (Some element, c1) \<Rightarrow>
                          let lane_value = element AND simd_mask element_width
                          in (Some (fold (\<lambda>lane out. out OR push_bit (lane * 8) lane_value) (lanes width element_width) 0), c1)
              else read_vec_mem c (memory_address c) width
         else (None, c))"

fun read_opmask :: "cpu_state \<Rightarrow> register \<Rightarrow> u64" where
  "read_opmask s (K i) = (if i = 0 then NOT 0 else opmask s ! unat i)"
| "read_opmask s _ = NOT 0"

section \<open>Lanes\<close>

definition sizeof :: "'a::len itself \<Rightarrow> nat" where
  "sizeof t = LENGTH('a) div 8"

definition lane_load :: "simd \<Rightarrow> nat \<Rightarrow> 'a::len word" where
  "lane_load value offset =
     of_le_bytes (map (\<lambda>i. ucast (drop_bit ((offset + i) * 8) value AND 0xFF)) [0..<sizeof TYPE('a)])"

definition lane_store :: "nat \<Rightarrow> 'a::len word \<Rightarrow> simd \<Rightarrow> simd" where
  "lane_store offset lane_value value =
     fold (\<lambda>i v. (v AND NOT (push_bit ((offset + i) * 8) 0xFF)) OR
                 push_bit ((offset + i) * 8) (ucast (le_bytes (sizeof TYPE('a)) lane_value ! i)))
       [0..<sizeof TYPE('a)] value"

definition apply_masked_lanes :: "'a::len itself \<Rightarrow> 'w ctx \<Rightarrow> register \<Rightarrow> simd \<Rightarrow> simd \<Rightarrow> simd" where
  "apply_masked_lanes t c dst_reg original computed =
     (let msk = op_mask (instr c)
      in if msk = NONE \<or> msk = K 0 then computed
         else let lane_mask = read_opmask (state c) msk
              in fold (\<lambda>lane out.
                   if drop_bit (lane div sizeof t) lane_mask AND 1 \<noteq> 0
                   then lane_store lane (lane_load computed lane :: 'a word) out
                   else if zeroing_masking (instr c) then lane_store lane (0 :: 'a word) out
                   else out)
                 (lanes (vector_width dst_reg) (sizeof t)) (original AND simd_mask (vector_width dst_reg)))"

definition all_ones :: "'a::len word" where
  "all_ones = of_le_bytes (replicate (sizeof TYPE('a)) 0xFF)"

definition sat_add_unsigned :: "'a::len word \<Rightarrow> 'a word \<Rightarrow> 'a word" where
  "sat_add_unsigned lhs rhs = (if NOT 0 - lhs < rhs then NOT 0 else lhs + rhs)"

text \<open>\<^verbatim>\<open>std::numeric_limits\<close> of the signed lane types.\<close>

definition smax :: "'a::len itself \<Rightarrow> int" where "smax t = 2 ^ (LENGTH('a) - 1) - 1"
definition smin :: "'a::len itself \<Rightarrow> int" where "smin t = - (2 ^ (LENGTH('a) - 1))"

definition sat_add_signed :: "'a::len word \<Rightarrow> 'a word \<Rightarrow> 'a word" where
  "sat_add_signed lhs rhs =
     (if 0 < sint rhs \<and> smax TYPE('a) - sint rhs < sint lhs then word_of_int (smax TYPE('a))
      else if sint rhs < 0 \<and> sint lhs < smin TYPE('a) - sint rhs then word_of_int (smin TYPE('a))
      else lhs + rhs)"

definition sat_sub_unsigned :: "'a::len word \<Rightarrow> 'a word \<Rightarrow> 'a word" where
  "sat_sub_unsigned lhs rhs = (if lhs < rhs then 0 else lhs - rhs)"

definition sat_sub_signed :: "'a::len word \<Rightarrow> 'a word \<Rightarrow> 'a word" where
  "sat_sub_signed lhs rhs =
     (if 0 < sint rhs \<and> sint lhs < smin TYPE('a) + sint rhs then word_of_int (smin TYPE('a))
      else if sint rhs < 0 \<and> smax TYPE('a) + sint rhs < sint lhs then word_of_int (smax TYPE('a))
      else lhs - rhs)"

definition avg_unsigned :: "'a::len word \<Rightarrow> 'a word \<Rightarrow> 'a word" where
  "avg_unsigned lhs rhs = word_of_int ((uint lhs + uint rhs + 1) div 2)"

text \<open>The lambdas of the instances.\<close>

definition lane_eq :: "'a::len word \<Rightarrow> 'a word \<Rightarrow> 'a word" where
  "lane_eq a b = (if a = b then all_ones else 0)"

definition lane_gt :: "'a::len word \<Rightarrow> 'a word \<Rightarrow> 'a word" where
  "lane_gt a b = (if sint b < sint a then all_ones else 0)"

definition lane_mullw :: "u16 \<Rightarrow> u16 \<Rightarrow> u16" where
  "lane_mullw a b = word_of_int (sint a * sint b)"

definition lane_mulhw :: "u16 \<Rightarrow> u16 \<Rightarrow> u16" where
  "lane_mulhw a b = word_of_int ((sint a * sint b) div 2 ^ 16)"

definition lane_mulhuw :: "u16 \<Rightarrow> u16 \<Rightarrow> u16" where
  "lane_mulhuw a b = word_of_int ((uint a * uint b) div 2 ^ 16)"

definition lane_smin :: "'a::len word \<Rightarrow> 'a word \<Rightarrow> 'a word" where
  "lane_smin a b = (if sint b < sint a then b else a)"

definition shift_left_lane :: "'a::len word \<Rightarrow> u64 \<Rightarrow> 'a word" where
  "shift_left_lane value count = (if unat count \<ge> sizeof TYPE('a) * 8 then 0 else push_bit (unat count) value)"

definition shift_right_logical_lane :: "'a::len word \<Rightarrow> u64 \<Rightarrow> 'a word" where
  "shift_right_logical_lane value count = (if unat count \<ge> sizeof TYPE('a) * 8 then 0 else drop_bit (unat count) value)"

definition shift_right_arithmetic_lane :: "'a::len word \<Rightarrow> u64 \<Rightarrow> 'a word" where
  "shift_right_arithmetic_lane value count =
     (if unat count \<ge> sizeof TYPE('a) * 8 then (if sint value < 0 then - 1 else 0) else signed_drop_bit (unat count) value)"

section \<open>The templates\<close>

text \<open>The check that opens every template, and a read with the fault return that follows it.\<close>

definition with_vector_dst :: "(register \<Rightarrow> 'w handler) \<Rightarrow> 'w handler" where
  "with_vector_dst f c =
     (if op_kind (instr c) 0 \<noteq> REGISTER \<or> \<not> is_vector_register (op_register (instr c) 0)
      then (memory_fault c (memory_address c), c) else f (op_register (instr c) 0) c)"

definition with_vec_operand :: "nat \<Rightarrow> nat \<Rightarrow> (simd \<Rightarrow> 'w handler) \<Rightarrow> 'w handler" where
  "with_vec_operand k width f c =
     (case read_vec_operand c k width of
        (None, c1) \<Rightarrow> (memory_fault c1 (memory_address c1), c1)
      | (Some v, c1) \<Rightarrow> f v c1)"

definition put_vec :: "register \<Rightarrow> simd \<Rightarrow> bool \<Rightarrow> 'w handler" where
  "put_vec reg value zero_upper c = (no_stop, upd_state (write_vec reg value zero_upper) c)"

text \<open>The loops over lanes.\<close>

definition map_lanes :: "('a::len word \<Rightarrow> 'a word) \<Rightarrow> nat \<Rightarrow> simd \<Rightarrow> simd" where
  "map_lanes f width src = fold (\<lambda>lane. lane_store lane (f (lane_load src lane))) (lanes width (sizeof TYPE('a))) 0"

definition zip_lanes :: "('a::len word \<Rightarrow> 'a word \<Rightarrow> 'a word) \<Rightarrow> nat \<Rightarrow> simd \<Rightarrow> simd \<Rightarrow> simd \<Rightarrow> simd" where
  "zip_lanes f width lhs rhs out =
     fold (\<lambda>lane. lane_store lane (f (lane_load lhs lane) (lane_load rhs lane))) (lanes width (sizeof TYPE('a))) out"

definition legacy_custom_binary :: "(simd \<Rightarrow> simd \<Rightarrow> nat \<Rightarrow> simd) \<Rightarrow> bool \<Rightarrow> 'w handler" where
  "legacy_custom_binary f zero_upper = with_vector_dst (\<lambda>dst_reg c.
     let lhs_bits = read_vec (state c) dst_reg; w = vector_width dst_reg
     in with_vec_operand 1 w (\<lambda>rhs_bits. put_vec dst_reg (f lhs_bits rhs_bits w) zero_upper) c)"

definition legacy_binary :: "('a::len word \<Rightarrow> 'a word \<Rightarrow> 'a word) \<Rightarrow> bool \<Rightarrow> 'w handler" where
  "legacy_binary f zero_upper = with_vector_dst (\<lambda>dst_reg c.
     let lhs_bits = read_vec (state c) dst_reg; w = vector_width dst_reg
     in with_vec_operand 1 w (\<lambda>rhs_bits. put_vec dst_reg (zip_lanes f w lhs_bits rhs_bits lhs_bits) zero_upper) c)"

definition vex_binary :: "('a::len word \<Rightarrow> 'a word \<Rightarrow> 'a word) \<Rightarrow> bool \<Rightarrow> 'w handler" where
  "vex_binary f zero_upper = with_vector_dst (\<lambda>dst_reg c.
     let original = read_vec (state c) dst_reg; w = vector_width dst_reg
     in with_vec_operand 1 w (\<lambda>lhs_bits. with_vec_operand 2 w (\<lambda>rhs_bits c1.
          put_vec dst_reg (apply_masked_lanes TYPE('a) c1 dst_reg original (zip_lanes f w lhs_bits rhs_bits 0)) zero_upper c1)) c)"

definition legacy_compare :: "('a::len word \<Rightarrow> 'a word \<Rightarrow> 'a word) \<Rightarrow> bool \<Rightarrow> 'w handler" where
  "legacy_compare f zero_upper = with_vector_dst (\<lambda>dst_reg c.
     let lhs_bits = read_vec (state c) dst_reg; w = vector_width dst_reg
     in with_vec_operand 1 w (\<lambda>rhs_bits. put_vec dst_reg (zip_lanes f w lhs_bits rhs_bits 0) zero_upper) c)"

definition vex_compare :: "('a::len word \<Rightarrow> 'a word \<Rightarrow> 'a word) \<Rightarrow> bool \<Rightarrow> 'w handler" where
  "vex_compare f zero_upper = with_vector_dst (\<lambda>dst_reg c.
     let original = read_vec (state c) dst_reg; w = vector_width dst_reg
     in with_vec_operand 1 w (\<lambda>lhs_bits. with_vec_operand 2 w (\<lambda>rhs_bits c1.
          put_vec dst_reg (apply_masked_lanes TYPE('a) c1 dst_reg original (zip_lanes f w lhs_bits rhs_bits 0)) zero_upper c1)) c)"

definition legacy_bitwise :: "(simd \<Rightarrow> simd \<Rightarrow> simd) \<Rightarrow> bool \<Rightarrow> 'w handler" where
  "legacy_bitwise f zero_upper = with_vector_dst (\<lambda>dst_reg c.
     let lhs = read_vec (state c) dst_reg
     in with_vec_operand 1 (vector_width dst_reg) (\<lambda>rhs. put_vec dst_reg (f lhs rhs) zero_upper) c)"

text \<open>\<^verbatim>\<open>vex_bitwise<void>\<close> and \<^verbatim>\<open>vex_bitwise<T>\<close>.\<close>

definition vex_bitwise :: "(simd \<Rightarrow> simd \<Rightarrow> simd) \<Rightarrow> bool \<Rightarrow> 'w handler" where
  "vex_bitwise f zero_upper = with_vector_dst (\<lambda>dst_reg.
     let w = vector_width dst_reg
     in with_vec_operand 1 w (\<lambda>lhs. with_vec_operand 2 w (\<lambda>rhs. put_vec dst_reg (f lhs rhs) zero_upper)))"

definition vex_bitwise_lanes :: "'a::len itself \<Rightarrow> (simd \<Rightarrow> simd \<Rightarrow> simd) \<Rightarrow> bool \<Rightarrow> 'w handler" where
  "vex_bitwise_lanes t f zero_upper = with_vector_dst (\<lambda>dst_reg c.
     let original = read_vec (state c) dst_reg; w = vector_width dst_reg
     in with_vec_operand 1 w (\<lambda>lhs. with_vec_operand 2 w (\<lambda>rhs c1.
          put_vec dst_reg (apply_masked_lanes t c1 dst_reg original (f lhs rhs)) zero_upper c1)) c)"

definition legacy_shift_reg :: "('a::len word \<Rightarrow> u64 \<Rightarrow> 'a word) \<Rightarrow> bool \<Rightarrow> 'w handler" where
  "legacy_shift_reg f zero_upper = with_vector_dst (\<lambda>dst_reg.
     with_vec_operand 1 (vector_width dst_reg) (\<lambda>count_bits c.
       let count = lane_load count_bits 0; src_bits = read_vec (state c) dst_reg
       in put_vec dst_reg (map_lanes (\<lambda>v. f v count) (vector_width dst_reg) src_bits) zero_upper c))"

definition legacy_shift_imm :: "('a::len word \<Rightarrow> u64 \<Rightarrow> 'a word) \<Rightarrow> bool \<Rightarrow> 'w handler" where
  "legacy_shift_imm f zero_upper = with_vector_dst (\<lambda>dst_reg c.
     let count = ucast (immediate8 (instr c)); src_bits = read_vec (state c) dst_reg
     in put_vec dst_reg (map_lanes (\<lambda>v. f v count) (vector_width dst_reg) src_bits) zero_upper c)"

definition vex_shift_imm :: "('a::len word \<Rightarrow> u64 \<Rightarrow> 'a word) \<Rightarrow> bool \<Rightarrow> 'w handler" where
  "vex_shift_imm f zero_upper = with_vector_dst (\<lambda>dst_reg c.
     let original = read_vec (state c) dst_reg; w = vector_width dst_reg
     in with_vec_operand 1 w (\<lambda>src_bits c1.
          let count = ucast (immediate8 (instr c1))
          in put_vec dst_reg (apply_masked_lanes TYPE('a) c1 dst_reg original (map_lanes (\<lambda>v. f v count) w src_bits)) zero_upper c1) c)"

definition vex_shift_reg :: "('a::len word \<Rightarrow> u64 \<Rightarrow> 'a word) \<Rightarrow> bool \<Rightarrow> 'w handler" where
  "vex_shift_reg f zero_upper = with_vector_dst (\<lambda>dst_reg c.
     if op_kind (instr c) 1 \<noteq> REGISTER \<or> \<not> is_vector_register (op_register (instr c) 1)
     then (memory_fault c (memory_address c), c)
     else with_vec_operand 2 8 (\<lambda>count_bits c1.
       let count = lane_load count_bits 0; original = read_vec (state c1) dst_reg;
           src_bits = read_vec (state c1) (op_register (instr c1) 1)
       in put_vec dst_reg (apply_masked_lanes TYPE('a) c1 dst_reg original (map_lanes (\<lambda>v. f v count) (vector_width dst_reg) src_bits))
            zero_upper c1) c)"

text \<open>The byte shifts within 128-bit lanes.\<close>

definition shift_dq :: "bool \<Rightarrow> nat \<Rightarrow> nat \<Rightarrow> simd \<Rightarrow> simd" where
  "shift_dq shift_right width count src_bits =
     (let lane_mask = push_bit 128 1 - 1
      in fold (\<lambda>lane out.
           let bit_offset = lane * 8; lane_bits = drop_bit bit_offset src_bits AND lane_mask;
               shifted = (if count < 16
                          then if shift_right then drop_bit (count * 8) lane_bits else push_bit (count * 8) lane_bits AND lane_mask
                          else 0)
           in out OR push_bit bit_offset (shifted AND lane_mask)) (lanes width 16) 0)"

definition legacy_shift_dq_imm :: "bool \<Rightarrow> bool \<Rightarrow> 'w handler" where
  "legacy_shift_dq_imm shift_right zero_upper = with_vector_dst (\<lambda>dst_reg c.
     put_vec dst_reg (shift_dq shift_right (vector_width dst_reg) (unat (immediate8 (instr c))) (read_vec (state c) dst_reg)) zero_upper c)"

definition vex_shift_dq_imm :: "bool \<Rightarrow> bool \<Rightarrow> 'w handler" where
  "vex_shift_dq_imm shift_right zero_upper = with_vector_dst (\<lambda>dst_reg.
     with_vec_operand 1 (vector_width dst_reg) (\<lambda>src_bits c.
       put_vec dst_reg (shift_dq shift_right (vector_width dst_reg) (unat (immediate8 (instr c))) src_bits) zero_upper c))"

section \<open>String comparison\<close>

record pcmp_source =
  pcmp_values :: "int list"
  pcmp_raw :: "nat list"

definition pcmp_element_width :: "u8 \<Rightarrow> nat" where
  "pcmp_element_width imm = (if imm AND 1 \<noteq> 0 then 2 else 1)"

definition pcmp_element_count :: "u8 \<Rightarrow> nat" where
  "pcmp_element_count imm = (if pcmp_element_width imm = 2 then 8 else 16)"

text \<open>Only the first \<^verbatim>\<open>elem_count\<close> entries of the arrays are ever read.\<close>

definition pcmp_extract_source :: "simd \<Rightarrow> u8 \<Rightarrow> pcmp_source" where
  "pcmp_extract_source bits imm =
     (let w = pcmp_element_width imm; signed_mode = (imm AND 2 \<noteq> 0);
          raw8 = (\<lambda>i. lane_load bits (i * w) :: u8); raw16 = (\<lambda>i. lane_load bits (i * w) :: u16);
          idx = [0..<pcmp_element_count imm]
      in if w = 1
         then \<lparr>pcmp_values = map (\<lambda>i. if signed_mode then sint (raw8 i) else uint (raw8 i)) idx, pcmp_raw = map (\<lambda>i. unat (raw8 i)) idx\<rparr>
         else \<lparr>pcmp_values = map (\<lambda>i. if signed_mode then sint (raw16 i) else uint (raw16 i)) idx, pcmp_raw = map (\<lambda>i. unat (raw16 i)) idx\<rparr>)"

definition pcmp_explicit_length :: "u64 \<Rightarrow> nat \<Rightarrow> nat" where
  "pcmp_explicit_length raw elem_count =
     (let signed_length = sint (ucast (raw AND 0xFFFFFFFF) :: u32);
          magnitude = (if signed_length = - (2 ^ 31) then 2 ^ 31 else if signed_length < 0 then - signed_length else signed_length)
      in min (nat magnitude) elem_count)"

definition pcmp_implicit_length :: "pcmp_source \<Rightarrow> nat \<Rightarrow> nat" where
  "pcmp_implicit_length src elem_count = length (takeWhile (\<lambda>i. pcmp_raw src ! i \<noteq> 0) [0..<elem_count])"

text \<open>The result mask of a loop that sets bit \<open>j\<close> where it found a match.\<close>

definition match_mask :: "(nat \<Rightarrow> bool) \<Rightarrow> nat \<Rightarrow> u32" where
  "match_mask matches n = fold (\<lambda>j res. if matches j then res OR push_bit j 1 else res) [0..<n] 0"

definition pcmp_equal_any :: "pcmp_source \<Rightarrow> pcmp_source \<Rightarrow> nat \<Rightarrow> nat \<Rightarrow> u32" where
  "pcmp_equal_any lhs rhs len1 len2 =
     match_mask (\<lambda>j. list_ex (\<lambda>i. pcmp_values lhs ! i = pcmp_values rhs ! j) [0..<len1]) len2"

definition pcmp_ranges :: "pcmp_source \<Rightarrow> pcmp_source \<Rightarrow> nat \<Rightarrow> nat \<Rightarrow> u32" where
  "pcmp_ranges lhs rhs len1 len2 =
     match_mask (\<lambda>j. list_ex (\<lambda>i. pcmp_values lhs ! i \<le> pcmp_values rhs ! j \<and> pcmp_values rhs ! j \<le> pcmp_values lhs ! (i + 1))
       (filter (\<lambda>i. even i) [0..<len1 - 1])) len2"

definition pcmp_equal_each :: "pcmp_source \<Rightarrow> pcmp_source \<Rightarrow> nat \<Rightarrow> nat \<Rightarrow> nat \<Rightarrow> u32" where
  "pcmp_equal_each lhs rhs len1 len2 elem_count =
     match_mask (\<lambda>i. if i < len1 \<and> i < len2 then pcmp_values lhs ! i = pcmp_values rhs ! i else i \<ge> len1 \<and> i \<ge> len2) elem_count"

definition pcmp_equal_ordered :: "pcmp_source \<Rightarrow> pcmp_source \<Rightarrow> nat \<Rightarrow> nat \<Rightarrow> nat \<Rightarrow> u32" where
  "pcmp_equal_ordered lhs rhs len1 len2 elem_count =
     match_mask (\<lambda>j. list_all (\<lambda>i. let rhs_index = j + i
         in \<not> (rhs_index \<ge> len2 \<or> rhs_index \<ge> elem_count \<or> pcmp_values lhs ! i \<noteq> pcmp_values rhs ! rhs_index))
       (takeWhile (\<lambda>i. i < len1) [0..<elem_count])) elem_count"

definition pcmp_apply_polarity :: "u8 \<Rightarrow> u32 \<Rightarrow> nat \<Rightarrow> nat \<Rightarrow> u32" where
  "pcmp_apply_polarity imm intres1 len2 elem_count =
     (let full_mask = push_bit elem_count 1 - 1; p = drop_bit 4 imm AND 3
      in if p = 0 \<or> p = 2 then intres1 AND full_mask
         else if p = 1 then NOT intres1 AND full_mask
         else let valid_mask = (if len2 \<ge> elem_count then full_mask else push_bit len2 1 - 1)
              in ((NOT intres1 AND valid_mask) OR (intres1 AND NOT valid_mask)) AND full_mask)"

definition set_pcmpstr_flags :: "u32 \<Rightarrow> nat \<Rightarrow> nat \<Rightarrow> nat \<Rightarrow> cpu_state \<Rightarrow> cpu_state" where
  "set_pcmpstr_flags intres2 len1 len2 elem_count s =
     (let rf0 = rflags s AND NOT (kFlagCF OR kFlagPF OR kFlagAF OR kFlagZF OR kFlagSF OR kFlagOF);
          rf1 = (if intres2 \<noteq> 0 then rf0 OR kFlagCF else rf0);
          rf2 = (if len2 < elem_count then rf1 OR kFlagZF else rf1);
          rf3 = (if len1 < elem_count then rf2 OR kFlagSF else rf2);
          rf4 = (if intres2 AND 1 \<noteq> 0 then rf3 OR kFlagOF else rf3)
      in s\<lparr>rflags := rf4\<rparr>)"

text \<open>The two results: a mask in XMM0 or an index in ECX.\<close>

definition pcmp_mask :: "u8 \<Rightarrow> u32 \<Rightarrow> simd" where
  "pcmp_mask imm intres2 =
     (if imm AND 0x40 = 0 then ucast intres2
      else fold (\<lambda>i out.
             if drop_bit i intres2 AND 1 = 0 then out
             else if pcmp_element_width imm = 1 then lane_store i (all_ones :: u8) out
             else lane_store (i * pcmp_element_width imm) (all_ones :: u16) out) [0..<pcmp_element_count imm] 0)"

definition pcmp_index :: "u8 \<Rightarrow> u32 \<Rightarrow> nat" where
  "pcmp_index imm intres2 =
     (if intres2 = 0 then pcmp_element_count imm
      else if imm AND 0x40 = 0 then length (takeWhile (\<lambda>i. \<not> bit intres2 i) [0..<32])
      else case find (\<lambda>i. drop_bit i intres2 AND 1 \<noteq> 0) (rev [0..<pcmp_element_count imm]) of
             Some i \<Rightarrow> i | None \<Rightarrow> pcmp_element_count imm)"

definition pcmp_intermediate :: "u8 \<Rightarrow> pcmp_source \<Rightarrow> pcmp_source \<Rightarrow> nat \<Rightarrow> nat \<Rightarrow> u32" where
  "pcmp_intermediate imm lhs rhs len1 len2 =
     (let k = drop_bit 2 imm AND 3; n = pcmp_element_count imm
      in if k = 0 then pcmp_equal_any lhs rhs len1 len2
         else if k = 1 then pcmp_ranges lhs rhs len1 len2
         else if k = 2 then pcmp_equal_each lhs rhs len1 len2 n
         else pcmp_equal_ordered lhs rhs len1 len2 n)"

definition pcmpstr :: "bool \<Rightarrow> bool \<Rightarrow> 'w handler" where
  "pcmpstr explicit_lengths return_mask = with_vector_dst (\<lambda>dst_reg c.
     let imm = immediate8 (instr c); elem_count = pcmp_element_count imm; lhs_bits = read_vec (state c) dst_reg
     in with_vec_operand 1 16 (\<lambda>rhs_bits c1.
          let lhs = pcmp_extract_source lhs_bits imm; rhs = pcmp_extract_source rhs_bits imm;
              len1 = (if explicit_lengths then pcmp_explicit_length (gpr (state c1) ! 0) elem_count
                      else pcmp_implicit_length lhs elem_count);
              len2 = (if explicit_lengths then pcmp_explicit_length (gpr (state c1) ! 2) elem_count
                      else pcmp_implicit_length rhs elem_count);
              intres2 = pcmp_apply_polarity imm (pcmp_intermediate imm lhs rhs len1 len2) len2 elem_count;
              c2 = upd_state (set_pcmpstr_flags intres2 len1 len2 elem_count) c1
          in if return_mask then put_vec (XMM 0) (pcmp_mask imm intres2) False c2
             else (no_stop, upd_state (\<lambda>s. write_register s ECX (word_of_nat (pcmp_index imm intres2)) 4) c2)) c)"

section \<open>Products and sums over lanes\<close>

definition pmuludq :: "simd \<Rightarrow> simd \<Rightarrow> nat \<Rightarrow> simd" where
  "pmuludq lhs_bits rhs_bits width =
     fold (\<lambda>lane. lane_store lane (ucast (lane_load lhs_bits lane :: u32) * ucast (lane_load rhs_bits lane :: u32) :: u64))
       (lanes width 8) 0"

definition pmaddwd :: "simd \<Rightarrow> simd \<Rightarrow> nat \<Rightarrow> simd" where
  "pmaddwd lhs_bits rhs_bits width =
     fold (\<lambda>lane. lane_store lane
         (word_of_int (sint (lane_load lhs_bits lane :: u16) * sint (lane_load rhs_bits lane :: u16) +
            sint (lane_load lhs_bits (lane + 2) :: u16) * sint (lane_load rhs_bits (lane + 2) :: u16)) :: u32))
       (lanes width 4) 0"

definition psadbw :: "simd \<Rightarrow> simd \<Rightarrow> nat \<Rightarrow> simd" where
  "psadbw lhs_bits rhs_bits width =
     fold (\<lambda>lane. lane_store lane
         (fold (\<lambda>i sum. let lhs = lane_load lhs_bits (lane + i) :: u8; rhs = lane_load rhs_bits (lane + i)
              in sum + (if rhs < lhs then ucast (lhs - rhs) else ucast (rhs - lhs))) [0..<8] (0 :: u64)))
       (lanes width 8) 0"

section \<open>Handlers\<close>

definition handle_code_PADDB_XMM_XMMM128 :: "'w handler" where
  "handle_code_PADDB_XMM_XMMM128 = legacy_binary (\<lambda>a b :: u8. a + b) False"

definition handle_code_PADDW_XMM_XMMM128 :: "'w handler" where
  "handle_code_PADDW_XMM_XMMM128 = legacy_binary (\<lambda>a b :: u16. a + b) False"

definition handle_code_PADDD_XMM_XMMM128 :: "'w handler" where
  "handle_code_PADDD_XMM_XMMM128 = legacy_binary (\<lambda>a b :: u32. a + b) False"

definition handle_code_PADDQ_XMM_XMMM128 :: "'w handler" where
  "handle_code_PADDQ_XMM_XMMM128 = legacy_binary (\<lambda>a b :: u64. a + b) False"

definition handle_code_PADDUSB_XMM_XMMM128 :: "'w handler" where
  "handle_code_PADDUSB_XMM_XMMM128 = legacy_binary (sat_add_unsigned :: u8 \<Rightarrow> u8 \<Rightarrow> u8) False"

definition handle_code_PADDUSW_XMM_XMMM128 :: "'w handler" where
  "handle_code_PADDUSW_XMM_XMMM128 = legacy_binary (sat_add_unsigned :: u16 \<Rightarrow> u16 \<Rightarrow> u16) False"

definition handle_code_PADDSB_XMM_XMMM128 :: "'w handler" where
  "handle_code_PADDSB_XMM_XMMM128 = legacy_binary (sat_add_signed :: u8 \<Rightarrow> u8 \<Rightarrow> u8) False"

definition handle_code_PADDSW_XMM_XMMM128 :: "'w handler" where
  "handle_code_PADDSW_XMM_XMMM128 = legacy_binary (sat_add_signed :: u16 \<Rightarrow> u16 \<Rightarrow> u16) False"

definition handle_code_PSUBB_XMM_XMMM128 :: "'w handler" where
  "handle_code_PSUBB_XMM_XMMM128 = legacy_binary (\<lambda>a b :: u8. a - b) False"

definition handle_code_PSUBW_XMM_XMMM128 :: "'w handler" where
  "handle_code_PSUBW_XMM_XMMM128 = legacy_binary (\<lambda>a b :: u16. a - b) False"

definition handle_code_PSUBD_XMM_XMMM128 :: "'w handler" where
  "handle_code_PSUBD_XMM_XMMM128 = legacy_binary (\<lambda>a b :: u32. a - b) False"

definition handle_code_PSUBQ_XMM_XMMM128 :: "'w handler" where
  "handle_code_PSUBQ_XMM_XMMM128 = legacy_binary (\<lambda>a b :: u64. a - b) False"

definition handle_code_PSUBUSB_XMM_XMMM128 :: "'w handler" where
  "handle_code_PSUBUSB_XMM_XMMM128 = legacy_binary (sat_sub_unsigned :: u8 \<Rightarrow> u8 \<Rightarrow> u8) False"

definition handle_code_PSUBUSW_XMM_XMMM128 :: "'w handler" where
  "handle_code_PSUBUSW_XMM_XMMM128 = legacy_binary (sat_sub_unsigned :: u16 \<Rightarrow> u16 \<Rightarrow> u16) False"

definition handle_code_PSUBSB_XMM_XMMM128 :: "'w handler" where
  "handle_code_PSUBSB_XMM_XMMM128 = legacy_binary (sat_sub_signed :: u8 \<Rightarrow> u8 \<Rightarrow> u8) False"

definition handle_code_PSUBSW_XMM_XMMM128 :: "'w handler" where
  "handle_code_PSUBSW_XMM_XMMM128 = legacy_binary (sat_sub_signed :: u16 \<Rightarrow> u16 \<Rightarrow> u16) False"

definition handle_code_PCMPEQB_XMM_XMMM128 :: "'w handler" where
  "handle_code_PCMPEQB_XMM_XMMM128 = legacy_compare (lane_eq :: u8 \<Rightarrow> u8 \<Rightarrow> u8) False"

definition handle_code_PCMPEQW_XMM_XMMM128 :: "'w handler" where
  "handle_code_PCMPEQW_XMM_XMMM128 = legacy_compare (lane_eq :: u16 \<Rightarrow> u16 \<Rightarrow> u16) False"

definition handle_code_PCMPEQD_XMM_XMMM128 :: "'w handler" where
  "handle_code_PCMPEQD_XMM_XMMM128 = legacy_compare (lane_eq :: u32 \<Rightarrow> u32 \<Rightarrow> u32) False"

definition handle_code_PCMPEQQ_XMM_XMMM128 :: "'w handler" where
  "handle_code_PCMPEQQ_XMM_XMMM128 = legacy_compare (lane_eq :: u64 \<Rightarrow> u64 \<Rightarrow> u64) False"

definition handle_code_PCMPGTB_XMM_XMMM128 :: "'w handler" where
  "handle_code_PCMPGTB_XMM_XMMM128 = legacy_compare (lane_gt :: u8 \<Rightarrow> u8 \<Rightarrow> u8) False"

definition handle_code_PCMPGTW_XMM_XMMM128 :: "'w handler" where
  "handle_code_PCMPGTW_XMM_XMMM128 = legacy_compare (lane_gt :: u16 \<Rightarrow> u16 \<Rightarrow> u16) False"

definition handle_code_PCMPGTD_XMM_XMMM128 :: "'w handler" where
  "handle_code_PCMPGTD_XMM_XMMM128 = legacy_compare (lane_gt :: u32 \<Rightarrow> u32 \<Rightarrow> u32) False"

definition handle_code_PCMPGTQ_XMM_XMMM128 :: "'w handler" where
  "handle_code_PCMPGTQ_XMM_XMMM128 = legacy_compare (lane_gt :: u64 \<Rightarrow> u64 \<Rightarrow> u64) False"

definition handle_code_PAVGB_XMM_XMMM128 :: "'w handler" where
  "handle_code_PAVGB_XMM_XMMM128 = legacy_binary (avg_unsigned :: u8 \<Rightarrow> u8 \<Rightarrow> u8) False"

definition handle_code_PAVGW_XMM_XMMM128 :: "'w handler" where
  "handle_code_PAVGW_XMM_XMMM128 = legacy_binary (avg_unsigned :: u16 \<Rightarrow> u16 \<Rightarrow> u16) False"

definition handle_code_PMULLW_XMM_XMMM128 :: "'w handler" where
  "handle_code_PMULLW_XMM_XMMM128 = legacy_binary lane_mullw False"

definition handle_code_PMULHW_XMM_XMMM128 :: "'w handler" where
  "handle_code_PMULHW_XMM_XMMM128 = legacy_binary lane_mulhw False"

definition handle_code_PMULHUW_XMM_XMMM128 :: "'w handler" where
  "handle_code_PMULHUW_XMM_XMMM128 = legacy_binary lane_mulhuw False"

definition handle_code_PMULUDQ_XMM_XMMM128 :: "'w handler" where
  "handle_code_PMULUDQ_XMM_XMMM128 = legacy_custom_binary pmuludq False"

definition handle_code_PMADDWD_XMM_XMMM128 :: "'w handler" where
  "handle_code_PMADDWD_XMM_XMMM128 = legacy_custom_binary pmaddwd False"

definition handle_code_PSADBW_XMM_XMMM128 :: "'w handler" where
  "handle_code_PSADBW_XMM_XMMM128 = legacy_custom_binary psadbw False"

definition handle_code_PMAXUB_XMM_XMMM128 :: "'w handler" where
  "handle_code_PMAXUB_XMM_XMMM128 = legacy_binary (max :: u8 \<Rightarrow> u8 \<Rightarrow> u8) False"

definition handle_code_PMINSW_XMM_XMMM128 :: "'w handler" where
  "handle_code_PMINSW_XMM_XMMM128 = legacy_binary (lane_smin :: u16 \<Rightarrow> u16 \<Rightarrow> u16) False"

definition handle_code_PAND_XMM_XMMM128 :: "'w handler" where
  "handle_code_PAND_XMM_XMMM128 = legacy_bitwise (\<lambda>a b. a AND b) False"

definition handle_code_PANDN_XMM_XMMM128 :: "'w handler" where
  "handle_code_PANDN_XMM_XMMM128 = legacy_bitwise (\<lambda>a b. NOT a AND b) False"

definition handle_code_POR_XMM_XMMM128 :: "'w handler" where
  "handle_code_POR_XMM_XMMM128 = legacy_bitwise (\<lambda>a b. a OR b) False"

definition handle_code_PXOR_XMM_XMMM128 :: "'w handler" where
  "handle_code_PXOR_XMM_XMMM128 = legacy_bitwise (\<lambda>a b. a XOR b) False"

definition handle_code_PSLLW_XMM_XMMM128 :: "'w handler" where
  "handle_code_PSLLW_XMM_XMMM128 = legacy_shift_reg (shift_left_lane :: u16 \<Rightarrow> u64 \<Rightarrow> u16) False"

definition handle_code_PSLLD_XMM_XMMM128 :: "'w handler" where
  "handle_code_PSLLD_XMM_XMMM128 = legacy_shift_reg (shift_left_lane :: u32 \<Rightarrow> u64 \<Rightarrow> u32) False"

definition handle_code_PSLLQ_XMM_XMMM128 :: "'w handler" where
  "handle_code_PSLLQ_XMM_XMMM128 = legacy_shift_reg (shift_left_lane :: u64 \<Rightarrow> u64 \<Rightarrow> u64) False"

definition handle_code_PSRLW_XMM_XMMM128 :: "'w handler" where
  "handle_code_PSRLW_XMM_XMMM128 = legacy_shift_reg (shift_right_logical_lane :: u16 \<Rightarrow> u64 \<Rightarrow> u16) False"

definition handle_code_PSRLD_XMM_XMMM128 :: "'w handler" where
  "handle_code_PSRLD_XMM_XMMM128 = legacy_shift_reg (shift_right_logical_lane :: u32 \<Rightarrow> u64 \<Rightarrow> u32) False"

definition handle_code_PSRLQ_XMM_XMMM128 :: "'w handler" where
  "handle_code_PSRLQ_XMM_XMMM128 = legacy_shift_reg (shift_right_logical_lane :: u64 \<Rightarrow> u64 \<Rightarrow> u64) False"

definition handle_code_PSRAW_XMM_XMMM128 :: "'w handler" where
  "handle_code_PSRAW_XMM_XMMM128 = legacy_shift_reg (shift_right_arithmetic_lane :: u16 \<Rightarrow> u64 \<Rightarrow> u16) False"

definition handle_code_PSRAD_XMM_XMMM128 :: "'w handler" where
  "handle_code_PSRAD_XMM_XMMM128 = legacy_shift_reg (shift_right_arithmetic_lane :: u32 \<Rightarrow> u64 \<Rightarrow> u32) False"

definition handle_code_PSLLW_XMM_IMM8 :: "'w handler" where
  "handle_code_PSLLW_XMM_IMM8 = legacy_shift_imm (shift_left_lane :: u16 \<Rightarrow> u64 \<Rightarrow> u16) False"

definition handle_code_PSLLD_XMM_IMM8 :: "'w handler" where
  "handle_code_PSLLD_XMM_IMM8 = legacy_shift_imm (shift_left_lane :: u32 \<Rightarrow> u64 \<Rightarrow> u32) False"

definition handle_code_PSLLQ_XMM_IMM8 :: "'w handler" where
  "handle_code_PSLLQ_XMM_IMM8 = legacy_shift_imm (shift_left_lane :: u64 \<Rightarrow> u64 \<Rightarrow> u64) False"

definition handle_code_PSRLW_XMM_IMM8 :: "'w handler" where
  "handle_code_PSRLW_XMM_IMM8 = legacy_shift_imm (shift_right_logical_lane :: u16 \<Rightarrow> u64 \<Rightarrow> u16) False"

definition handle_code_PSRLD_XMM_IMM8 :: "'w handler" where
  "handle_code_PSRLD_XMM_IMM8 = legacy_shift_imm (shift_right_logical_lane :: u32 \<Rightarrow> u64 \<Rightarrow> u32) False"

definition handle_code_PSRLQ_XMM_IMM8 :: "'w handler" where
  "handle_code_PSRLQ_XMM_IMM8 = legacy_shift_imm (shift_right_logical_lane :: u64 \<Rightarrow> u64 \<Rightarrow> u64) False"

definition handle_code_PSRAW_XMM_IMM8 :: "'w handler" where
  "handle_code_PSRAW_XMM_IMM8 = legacy_shift_imm (shift_right_arithmetic_lane :: u16 \<Rightarrow> u64 \<Rightarrow> u16) False"

definition handle_code_PSRAD_XMM_IMM8 :: "'w handler" where
  "handle_code_PSRAD_XMM_IMM8 = legacy_shift_imm (shift_right_arithmetic_lane :: u32 \<Rightarrow> u64 \<Rightarrow> u32) False"

definition handle_code_PSRLDQ_XMM_IMM8 :: "'w handler" where
  "handle_code_PSRLDQ_XMM_IMM8 = legacy_shift_dq_imm True False"

definition handle_code_PSLLDQ_XMM_IMM8 :: "'w handler" where
  "handle_code_PSLLDQ_XMM_IMM8 = legacy_shift_dq_imm False False"

definition handle_code_VEX_VPADDB_XMM_XMM_XMMM128 :: "'w handler" where
  "handle_code_VEX_VPADDB_XMM_XMM_XMMM128 = vex_binary (\<lambda>a b :: u8. a + b) True"

definition handle_code_VEX_VPADDW_XMM_XMM_XMMM128 :: "'w handler" where
  "handle_code_VEX_VPADDW_XMM_XMM_XMMM128 = vex_binary (\<lambda>a b :: u16. a + b) True"

definition handle_code_VEX_VPADDD_XMM_XMM_XMMM128 :: "'w handler" where
  "handle_code_VEX_VPADDD_XMM_XMM_XMMM128 = vex_binary (\<lambda>a b :: u32. a + b) True"

definition handle_code_VEX_VPADDQ_XMM_XMM_XMMM128 :: "'w handler" where
  "handle_code_VEX_VPADDQ_XMM_XMM_XMMM128 = vex_binary (\<lambda>a b :: u64. a + b) True"

definition handle_code_VEX_VPADDUSB_XMM_XMM_XMMM128 :: "'w handler" where
  "handle_code_VEX_VPADDUSB_XMM_XMM_XMMM128 = vex_binary (sat_add_unsigned :: u8 \<Rightarrow> u8 \<Rightarrow> u8) True"

definition handle_code_VEX_VPADDUSW_XMM_XMM_XMMM128 :: "'w handler" where
  "handle_code_VEX_VPADDUSW_XMM_XMM_XMMM128 = vex_binary (sat_add_unsigned :: u16 \<Rightarrow> u16 \<Rightarrow> u16) True"

definition handle_code_VEX_VPADDSB_XMM_XMM_XMMM128 :: "'w handler" where
  "handle_code_VEX_VPADDSB_XMM_XMM_XMMM128 = vex_binary (sat_add_signed :: u8 \<Rightarrow> u8 \<Rightarrow> u8) True"

definition handle_code_VEX_VPADDSW_XMM_XMM_XMMM128 :: "'w handler" where
  "handle_code_VEX_VPADDSW_XMM_XMM_XMMM128 = vex_binary (sat_add_signed :: u16 \<Rightarrow> u16 \<Rightarrow> u16) True"

definition handle_code_VEX_VPSUBB_XMM_XMM_XMMM128 :: "'w handler" where
  "handle_code_VEX_VPSUBB_XMM_XMM_XMMM128 = vex_binary (\<lambda>a b :: u8. a - b) True"

definition handle_code_VEX_VPSUBW_XMM_XMM_XMMM128 :: "'w handler" where
  "handle_code_VEX_VPSUBW_XMM_XMM_XMMM128 = vex_binary (\<lambda>a b :: u16. a - b) True"

definition handle_code_VEX_VPSUBD_XMM_XMM_XMMM128 :: "'w handler" where
  "handle_code_VEX_VPSUBD_XMM_XMM_XMMM128 = vex_binary (\<lambda>a b :: u32. a - b) True"

definition handle_code_VEX_VPSUBQ_XMM_XMM_XMMM128 :: "'w handler" where
  "handle_code_VEX_VPSUBQ_XMM_XMM_XMMM128 = vex_binary (\<lambda>a b :: u64. a - b) True"

definition handle_code_VEX_VPSUBUSB_XMM_XMM_XMMM128 :: "'w handler" where
  "handle_code_VEX_VPSUBUSB_XMM_XMM_XMMM128 = vex_binary (sat_sub_unsigned :: u8 \<Rightarrow> u8 \<Rightarrow> u8) True"

definition handle_code_VEX_VPSUBUSW_XMM_XMM_XMMM128 :: "'w handler" where
  "handle_code_VEX_VPSUBUSW_XMM_XMM_XMMM128 = vex_binary (sat_sub_unsigned :: u16 \<Rightarrow> u16 \<Rightarrow> u16) True"

definition handle_code_VEX_VPSUBSB_XMM_XMM_XMMM128 :: "'w handler" where
  "handle_code_VEX_VPSUBSB_XMM_XMM_XMMM128 = vex_binary (sat_sub_signed :: u8 \<Rightarrow> u8 \<Rightarrow> u8) True"

definition handle_code_VEX_VPSUBSW_XMM_XMM_XMMM128 :: "'w handler" where
  "handle_code_VEX_VPSUBSW_XMM_XMM_XMMM128 = vex_binary (sat_sub_signed :: u16 \<Rightarrow> u16 \<Rightarrow> u16) True"

definition handle_code_VEX_VPCMPEQB_XMM_XMM_XMMM128 :: "'w handler" where
  "handle_code_VEX_VPCMPEQB_XMM_XMM_XMMM128 = vex_compare (lane_eq :: u8 \<Rightarrow> u8 \<Rightarrow> u8) True"

definition handle_code_VEX_VPCMPEQW_XMM_XMM_XMMM128 :: "'w handler" where
  "handle_code_VEX_VPCMPEQW_XMM_XMM_XMMM128 = vex_compare (lane_eq :: u16 \<Rightarrow> u16 \<Rightarrow> u16) True"

definition handle_code_VEX_VPCMPEQD_XMM_XMM_XMMM128 :: "'w handler" where
  "handle_code_VEX_VPCMPEQD_XMM_XMM_XMMM128 = vex_compare (lane_eq :: u32 \<Rightarrow> u32 \<Rightarrow> u32) True"

definition handle_code_VEX_VPCMPEQQ_XMM_XMM_XMMM128 :: "'w handler" where
  "handle_code_VEX_VPCMPEQQ_XMM_XMM_XMMM128 = vex_compare (lane_eq :: u64 \<Rightarrow> u64 \<Rightarrow> u64) True"

definition handle_code_VEX_VPCMPGTB_XMM_XMM_XMMM128 :: "'w handler" where
  "handle_code_VEX_VPCMPGTB_XMM_XMM_XMMM128 = vex_compare (lane_gt :: u8 \<Rightarrow> u8 \<Rightarrow> u8) True"

definition handle_code_VEX_VPCMPGTW_XMM_XMM_XMMM128 :: "'w handler" where
  "handle_code_VEX_VPCMPGTW_XMM_XMM_XMMM128 = vex_compare (lane_gt :: u16 \<Rightarrow> u16 \<Rightarrow> u16) True"

definition handle_code_VEX_VPCMPGTD_XMM_XMM_XMMM128 :: "'w handler" where
  "handle_code_VEX_VPCMPGTD_XMM_XMM_XMMM128 = vex_compare (lane_gt :: u32 \<Rightarrow> u32 \<Rightarrow> u32) True"

definition handle_code_VEX_VPCMPGTQ_XMM_XMM_XMMM128 :: "'w handler" where
  "handle_code_VEX_VPCMPGTQ_XMM_XMM_XMMM128 = vex_compare (lane_gt :: u64 \<Rightarrow> u64 \<Rightarrow> u64) True"

definition handle_code_VEX_VPAVGB_XMM_XMM_XMMM128 :: "'w handler" where
  "handle_code_VEX_VPAVGB_XMM_XMM_XMMM128 = vex_binary (avg_unsigned :: u8 \<Rightarrow> u8 \<Rightarrow> u8) True"

definition handle_code_VEX_VPAVGW_XMM_XMM_XMMM128 :: "'w handler" where
  "handle_code_VEX_VPAVGW_XMM_XMM_XMMM128 = vex_binary (avg_unsigned :: u16 \<Rightarrow> u16 \<Rightarrow> u16) True"

definition handle_code_VEX_VPMULLW_XMM_XMM_XMMM128 :: "'w handler" where
  "handle_code_VEX_VPMULLW_XMM_XMM_XMMM128 = vex_binary lane_mullw True"

definition handle_code_VEX_VPAND_XMM_XMM_XMMM128 :: "'w handler" where
  "handle_code_VEX_VPAND_XMM_XMM_XMMM128 = vex_bitwise (\<lambda>a b. a AND b) True"

definition handle_code_VEX_VPANDN_XMM_XMM_XMMM128 :: "'w handler" where
  "handle_code_VEX_VPANDN_XMM_XMM_XMMM128 = vex_bitwise (\<lambda>a b. NOT a AND b) True"

definition handle_code_VEX_VPOR_XMM_XMM_XMMM128 :: "'w handler" where
  "handle_code_VEX_VPOR_XMM_XMM_XMMM128 = vex_bitwise (\<lambda>a b. a OR b) True"

definition handle_code_VEX_VPXOR_XMM_XMM_XMMM128 :: "'w handler" where
  "handle_code_VEX_VPXOR_XMM_XMM_XMMM128 = vex_bitwise (\<lambda>a b. a XOR b) True"

definition handle_code_VEX_VPSLLW_XMM_XMM_XMMM128 :: "'w handler" where
  "handle_code_VEX_VPSLLW_XMM_XMM_XMMM128 = vex_shift_reg (shift_left_lane :: u16 \<Rightarrow> u64 \<Rightarrow> u16) True"

definition handle_code_VEX_VPSLLD_XMM_XMM_XMMM128 :: "'w handler" where
  "handle_code_VEX_VPSLLD_XMM_XMM_XMMM128 = vex_shift_reg (shift_left_lane :: u32 \<Rightarrow> u64 \<Rightarrow> u32) True"

definition handle_code_VEX_VPSLLQ_XMM_XMM_XMMM128 :: "'w handler" where
  "handle_code_VEX_VPSLLQ_XMM_XMM_XMMM128 = vex_shift_reg (shift_left_lane :: u64 \<Rightarrow> u64 \<Rightarrow> u64) True"

definition handle_code_VEX_VPSRLW_XMM_XMM_XMMM128 :: "'w handler" where
  "handle_code_VEX_VPSRLW_XMM_XMM_XMMM128 = vex_shift_reg (shift_right_logical_lane :: u16 \<Rightarrow> u64 \<Rightarrow> u16) True"

definition handle_code_VEX_VPSRLD_XMM_XMM_XMMM128 :: "'w handler" where
  "handle_code_VEX_VPSRLD_XMM_XMM_XMMM128 = vex_shift_reg (shift_right_logical_lane :: u32 \<Rightarrow> u64 \<Rightarrow> u32) True"

definition handle_code_VEX_VPSRLQ_XMM_XMM_XMMM128 :: "'w handler" where
  "handle_code_VEX_VPSRLQ_XMM_XMM_XMMM128 = vex_shift_reg (shift_right_logical_lane :: u64 \<Rightarrow> u64 \<Rightarrow> u64) True"

definition handle_code_VEX_VPSRAW_XMM_XMM_XMMM128 :: "'w handler" where
  "handle_code_VEX_VPSRAW_XMM_XMM_XMMM128 = vex_shift_reg (shift_right_arithmetic_lane :: u16 \<Rightarrow> u64 \<Rightarrow> u16) True"

definition handle_code_VEX_VPSRAD_XMM_XMM_XMMM128 :: "'w handler" where
  "handle_code_VEX_VPSRAD_XMM_XMM_XMMM128 = vex_shift_reg (shift_right_arithmetic_lane :: u32 \<Rightarrow> u64 \<Rightarrow> u32) True"

definition handle_code_VEX_VPSLLW_XMM_XMM_IMM8 :: "'w handler" where
  "handle_code_VEX_VPSLLW_XMM_XMM_IMM8 = vex_shift_imm (shift_left_lane :: u16 \<Rightarrow> u64 \<Rightarrow> u16) True"

definition handle_code_VEX_VPSLLD_XMM_XMM_IMM8 :: "'w handler" where
  "handle_code_VEX_VPSLLD_XMM_XMM_IMM8 = vex_shift_imm (shift_left_lane :: u32 \<Rightarrow> u64 \<Rightarrow> u32) True"

definition handle_code_VEX_VPSLLQ_XMM_XMM_IMM8 :: "'w handler" where
  "handle_code_VEX_VPSLLQ_XMM_XMM_IMM8 = vex_shift_imm (shift_left_lane :: u64 \<Rightarrow> u64 \<Rightarrow> u64) True"

definition handle_code_VEX_VPSRLW_XMM_XMM_IMM8 :: "'w handler" where
  "handle_code_VEX_VPSRLW_XMM_XMM_IMM8 = vex_shift_imm (shift_right_logical_lane :: u16 \<Rightarrow> u64 \<Rightarrow> u16) True"

definition handle_code_VEX_VPSRLD_XMM_XMM_IMM8 :: "'w handler" where
  "handle_code_VEX_VPSRLD_XMM_XMM_IMM8 = vex_shift_imm (shift_right_logical_lane :: u32 \<Rightarrow> u64 \<Rightarrow> u32) True"

definition handle_code_VEX_VPSRLQ_XMM_XMM_IMM8 :: "'w handler" where
  "handle_code_VEX_VPSRLQ_XMM_XMM_IMM8 = vex_shift_imm (shift_right_logical_lane :: u64 \<Rightarrow> u64 \<Rightarrow> u64) True"

definition handle_code_VEX_VPSRAW_XMM_XMM_IMM8 :: "'w handler" where
  "handle_code_VEX_VPSRAW_XMM_XMM_IMM8 = vex_shift_imm (shift_right_arithmetic_lane :: u16 \<Rightarrow> u64 \<Rightarrow> u16) True"

definition handle_code_VEX_VPSRAD_XMM_XMM_IMM8 :: "'w handler" where
  "handle_code_VEX_VPSRAD_XMM_XMM_IMM8 = vex_shift_imm (shift_right_arithmetic_lane :: u32 \<Rightarrow> u64 \<Rightarrow> u32) True"

definition handle_code_VEX_VPSRLDQ_XMM_XMM_IMM8 :: "'w handler" where
  "handle_code_VEX_VPSRLDQ_XMM_XMM_IMM8 = vex_shift_dq_imm True True"

definition handle_code_VEX_VPSRLDQ_YMM_YMM_IMM8 :: "'w handler" where
  "handle_code_VEX_VPSRLDQ_YMM_YMM_IMM8 = vex_shift_dq_imm True True"

definition handle_code_VEX_VPSLLDQ_XMM_XMM_IMM8 :: "'w handler" where
  "handle_code_VEX_VPSLLDQ_XMM_XMM_IMM8 = vex_shift_dq_imm False True"

definition handle_code_VEX_VPSLLDQ_YMM_YMM_IMM8 :: "'w handler" where
  "handle_code_VEX_VPSLLDQ_YMM_YMM_IMM8 = vex_shift_dq_imm False True"

definition handle_code_VEX_VPADDB_YMM_YMM_YMMM256 :: "'w handler" where
  "handle_code_VEX_VPADDB_YMM_YMM_YMMM256 = vex_binary (\<lambda>a b :: u8. a + b) True"

definition handle_code_VEX_VPADDW_YMM_YMM_YMMM256 :: "'w handler" where
  "handle_code_VEX_VPADDW_YMM_YMM_YMMM256 = vex_binary (\<lambda>a b :: u16. a + b) True"

definition handle_code_VEX_VPADDD_YMM_YMM_YMMM256 :: "'w handler" where
  "handle_code_VEX_VPADDD_YMM_YMM_YMMM256 = vex_binary (\<lambda>a b :: u32. a + b) True"

definition handle_code_VEX_VPADDQ_YMM_YMM_YMMM256 :: "'w handler" where
  "handle_code_VEX_VPADDQ_YMM_YMM_YMMM256 = vex_binary (\<lambda>a b :: u64. a + b) True"

definition handle_code_VEX_VPADDUSB_YMM_YMM_YMMM256 :: "'w handler" where
  "handle_code_VEX_VPADDUSB_YMM_YMM_YMMM256 = vex_binary (sat_add_unsigned :: u8 \<Rightarrow> u8 \<Rightarrow> u8) True"

definition handle_code_VEX_VPADDUSW_YMM_YMM_YMMM256 :: "'w handler" where
  "handle_code_VEX_VPADDUSW_YMM_YMM_YMMM256 = vex_binary (sat_add_unsigned :: u16 \<Rightarrow> u16 \<Rightarrow> u16) True"

definition handle_code_VEX_VPADDSB_YMM_YMM_YMMM256 :: "'w handler" where
  "handle_code_VEX_VPADDSB_YMM_YMM_YMMM256 = vex_binary (sat_add_signed :: u8 \<Rightarrow> u8 \<Rightarrow> u8) True"

definition handle_code_VEX_VPADDSW_YMM_YMM_YMMM256 :: "'w handler" where
  "handle_code_VEX_VPADDSW_YMM_YMM_YMMM256 = vex_binary (sat_add_signed :: u16 \<Rightarrow> u16 \<Rightarrow> u16) True"

definition handle_code_VEX_VPSUBB_YMM_YMM_YMMM256 :: "'w handler" where
  "handle_code_VEX_VPSUBB_YMM_YMM_YMMM256 = vex_binary (\<lambda>a b :: u8. a - b) True"

definition handle_code_VEX_VPSUBW_YMM_YMM_YMMM256 :: "'w handler" where
  "handle_code_VEX_VPSUBW_YMM_YMM_YMMM256 = vex_binary (\<lambda>a b :: u16. a - b) True"

definition handle_code_VEX_VPSUBD_YMM_YMM_YMMM256 :: "'w handler" where
  "handle_code_VEX_VPSUBD_YMM_YMM_YMMM256 = vex_binary (\<lambda>a b :: u32. a - b) True"

definition handle_code_VEX_VPSUBQ_YMM_YMM_YMMM256 :: "'w handler" where
  "handle_code_VEX_VPSUBQ_YMM_YMM_YMMM256 = vex_binary (\<lambda>a b :: u64. a - b) True"

definition handle_code_VEX_VPSUBUSB_YMM_YMM_YMMM256 :: "'w handler" where
  "handle_code_VEX_VPSUBUSB_YMM_YMM_YMMM256 = vex_binary (sat_sub_unsigned :: u8 \<Rightarrow> u8 \<Rightarrow> u8) True"

definition handle_code_VEX_VPSUBUSW_YMM_YMM_YMMM256 :: "'w handler" where
  "handle_code_VEX_VPSUBUSW_YMM_YMM_YMMM256 = vex_binary (sat_sub_unsigned :: u16 \<Rightarrow> u16 \<Rightarrow> u16) True"

definition handle_code_VEX_VPSUBSB_YMM_YMM_YMMM256 :: "'w handler" where
  "handle_code_VEX_VPSUBSB_YMM_YMM_YMMM256 = vex_binary (sat_sub_signed :: u8 \<Rightarrow> u8 \<Rightarrow> u8) True"

definition handle_code_VEX_VPSUBSW_YMM_YMM_YMMM256 :: "'w handler" where
  "handle_code_VEX_VPSUBSW_YMM_YMM_YMMM256 = vex_binary (sat_sub_signed :: u16 \<Rightarrow> u16 \<Rightarrow> u16) True"

definition handle_code_VEX_VPCMPEQB_YMM_YMM_YMMM256 :: "'w handler" where
  "handle_code_VEX_VPCMPEQB_YMM_YMM_YMMM256 = vex_compare (lane_eq :: u8 \<Rightarrow> u8 \<Rightarrow> u8) True"

definition handle_code_VEX_VPCMPEQW_YMM_YMM_YMMM256 :: "'w handler" where
  "handle_code_VEX_VPCMPEQW_YMM_YMM_YMMM256 = vex_compare (lane_eq :: u16 \<Rightarrow> u16 \<Rightarrow> u16) True"

definition handle_code_VEX_VPCMPEQD_YMM_YMM_YMMM256 :: "'w handler" where
  "handle_code_VEX_VPCMPEQD_YMM_YMM_YMMM256 = vex_compare (lane_eq :: u32 \<Rightarrow> u32 \<Rightarrow> u32) True"

definition handle_code_VEX_VPCMPEQQ_YMM_YMM_YMMM256 :: "'w handler" where
  "handle_code_VEX_VPCMPEQQ_YMM_YMM_YMMM256 = vex_compare (lane_eq :: u64 \<Rightarrow> u64 \<Rightarrow> u64) True"

definition handle_code_VEX_VPCMPGTB_YMM_YMM_YMMM256 :: "'w handler" where
  "handle_code_VEX_VPCMPGTB_YMM_YMM_YMMM256 = vex_compare (lane_gt :: u8 \<Rightarrow> u8 \<Rightarrow> u8) True"

definition handle_code_VEX_VPCMPGTW_YMM_YMM_YMMM256 :: "'w handler" where
  "handle_code_VEX_VPCMPGTW_YMM_YMM_YMMM256 = vex_compare (lane_gt :: u16 \<Rightarrow> u16 \<Rightarrow> u16) True"

definition handle_code_VEX_VPCMPGTD_YMM_YMM_YMMM256 :: "'w handler" where
  "handle_code_VEX_VPCMPGTD_YMM_YMM_YMMM256 = vex_compare (lane_gt :: u32 \<Rightarrow> u32 \<Rightarrow> u32) True"

definition handle_code_VEX_VPCMPGTQ_YMM_YMM_YMMM256 :: "'w handler" where
  "handle_code_VEX_VPCMPGTQ_YMM_YMM_YMMM256 = vex_compare (lane_gt :: u64 \<Rightarrow> u64 \<Rightarrow> u64) True"

definition handle_code_VEX_VPAVGB_YMM_YMM_YMMM256 :: "'w handler" where
  "handle_code_VEX_VPAVGB_YMM_YMM_YMMM256 = vex_binary (avg_unsigned :: u8 \<Rightarrow> u8 \<Rightarrow> u8) True"

definition handle_code_VEX_VPAVGW_YMM_YMM_YMMM256 :: "'w handler" where
  "handle_code_VEX_VPAVGW_YMM_YMM_YMMM256 = vex_binary (avg_unsigned :: u16 \<Rightarrow> u16 \<Rightarrow> u16) True"

definition handle_code_VEX_VPMULLW_YMM_YMM_YMMM256 :: "'w handler" where
  "handle_code_VEX_VPMULLW_YMM_YMM_YMMM256 = vex_binary lane_mullw True"

definition handle_code_VEX_VPAND_YMM_YMM_YMMM256 :: "'w handler" where
  "handle_code_VEX_VPAND_YMM_YMM_YMMM256 = vex_bitwise (\<lambda>a b. a AND b) True"

definition handle_code_VEX_VPANDN_YMM_YMM_YMMM256 :: "'w handler" where
  "handle_code_VEX_VPANDN_YMM_YMM_YMMM256 = vex_bitwise (\<lambda>a b. NOT a AND b) True"

definition handle_code_VEX_VPOR_YMM_YMM_YMMM256 :: "'w handler" where
  "handle_code_VEX_VPOR_YMM_YMM_YMMM256 = vex_bitwise (\<lambda>a b. a OR b) True"

definition handle_code_VEX_VPXOR_YMM_YMM_YMMM256 :: "'w handler" where
  "handle_code_VEX_VPXOR_YMM_YMM_YMMM256 = vex_bitwise (\<lambda>a b. a XOR b) True"

definition handle_code_VEX_VPSLLW_YMM_YMM_YMMM256 :: "'w handler" where
  "handle_code_VEX_VPSLLW_YMM_YMM_YMMM256 = vex_shift_reg (shift_left_lane :: u16 \<Rightarrow> u64 \<Rightarrow> u16) True"

definition handle_code_VEX_VPSLLD_YMM_YMM_YMMM256 :: "'w handler" where
  "handle_code_VEX_VPSLLD_YMM_YMM_YMMM256 = vex_shift_reg (shift_left_lane :: u32 \<Rightarrow> u64 \<Rightarrow> u32) True"

definition handle_code_VEX_VPSLLQ_YMM_YMM_YMMM256 :: "'w handler" where
  "handle_code_VEX_VPSLLQ_YMM_YMM_YMMM256 = vex_shift_reg (shift_left_lane :: u64 \<Rightarrow> u64 \<Rightarrow> u64) True"

definition handle_code_VEX_VPSRLW_YMM_YMM_YMMM256 :: "'w handler" where
  "handle_code_VEX_VPSRLW_YMM_YMM_YMMM256 = vex_shift_reg (shift_right_logical_lane :: u16 \<Rightarrow> u64 \<Rightarrow> u16) True"

definition handle_code_VEX_VPSRLD_YMM_YMM_YMMM256 :: "'w handler" where
  "handle_code_VEX_VPSRLD_YMM_YMM_YMMM256 = vex_shift_reg (shift_right_logical_lane :: u32 \<Rightarrow> u64 \<Rightarrow> u32) True"

definition handle_code_VEX_VPSRLQ_YMM_YMM_YMMM256 :: "'w handler" where
  "handle_code_VEX_VPSRLQ_YMM_YMM_YMMM256 = vex_shift_reg (shift_right_logical_lane :: u64 \<Rightarrow> u64 \<Rightarrow> u64) True"

definition handle_code_VEX_VPSRAW_YMM_YMM_YMMM256 :: "'w handler" where
  "handle_code_VEX_VPSRAW_YMM_YMM_YMMM256 = vex_shift_reg (shift_right_arithmetic_lane :: u16 \<Rightarrow> u64 \<Rightarrow> u16) True"

definition handle_code_VEX_VPSRAD_YMM_YMM_YMMM256 :: "'w handler" where
  "handle_code_VEX_VPSRAD_YMM_YMM_YMMM256 = vex_shift_reg (shift_right_arithmetic_lane :: u32 \<Rightarrow> u64 \<Rightarrow> u32) True"

definition handle_code_VEX_VPSLLW_YMM_YMM_IMM8 :: "'w handler" where
  "handle_code_VEX_VPSLLW_YMM_YMM_IMM8 = vex_shift_imm (shift_left_lane :: u16 \<Rightarrow> u64 \<Rightarrow> u16) True"

definition handle_code_VEX_VPSLLD_YMM_YMM_IMM8 :: "'w handler" where
  "handle_code_VEX_VPSLLD_YMM_YMM_IMM8 = vex_shift_imm (shift_left_lane :: u32 \<Rightarrow> u64 \<Rightarrow> u32) True"

definition handle_code_VEX_VPSLLQ_YMM_YMM_IMM8 :: "'w handler" where
  "handle_code_VEX_VPSLLQ_YMM_YMM_IMM8 = vex_shift_imm (shift_left_lane :: u64 \<Rightarrow> u64 \<Rightarrow> u64) True"

definition handle_code_VEX_VPSRLW_YMM_YMM_IMM8 :: "'w handler" where
  "handle_code_VEX_VPSRLW_YMM_YMM_IMM8 = vex_shift_imm (shift_right_logical_lane :: u16 \<Rightarrow> u64 \<Rightarrow> u16) True"

definition handle_code_VEX_VPSRLD_YMM_YMM_IMM8 :: "'w handler" where
  "handle_code_VEX_VPSRLD_YMM_YMM_IMM8 = vex_shift_imm (shift_right_logical_lane :: u32 \<Rightarrow> u64 \<Rightarrow> u32) True"

definition handle_code_VEX_VPSRLQ_YMM_YMM_IMM8 :: "'w handler" where
  "handle_code_VEX_VPSRLQ_YMM_YMM_IMM8 = vex_shift_imm (shift_right_logical_lane :: u64 \<Rightarrow> u64 \<Rightarrow> u64) True"

definition handle_code_VEX_VPSRAW_YMM_YMM_IMM8 :: "'w handler" where
  "handle_code_VEX_VPSRAW_YMM_YMM_IMM8 = vex_shift_imm (shift_right_arithmetic_lane :: u16 \<Rightarrow> u64 \<Rightarrow> u16) True"

definition handle_code_VEX_VPSRAD_YMM_YMM_IMM8 :: "'w handler" where
  "handle_code_VEX_VPSRAD_YMM_YMM_IMM8 = vex_shift_imm (shift_right_arithmetic_lane :: u32 \<Rightarrow> u64 \<Rightarrow> u32) True"

definition handle_code_EVEX_VPADDB_XMM_K1Z_XMM_XMMM128 :: "'w handler" where
  "handle_code_EVEX_VPADDB_XMM_K1Z_XMM_XMMM128 = vex_binary (\<lambda>a b :: u8. a + b) True"

definition handle_code_EVEX_VPADDB_YMM_K1Z_YMM_YMMM256 :: "'w handler" where
  "handle_code_EVEX_VPADDB_YMM_K1Z_YMM_YMMM256 = vex_binary (\<lambda>a b :: u8. a + b) True"

definition handle_code_EVEX_VPADDB_ZMM_K1Z_ZMM_ZMMM512 :: "'w handler" where
  "handle_code_EVEX_VPADDB_ZMM_K1Z_ZMM_ZMMM512 = vex_binary (\<lambda>a b :: u8. a + b) True"

definition handle_code_EVEX_VPADDW_XMM_K1Z_XMM_XMMM128 :: "'w handler" where
  "handle_code_EVEX_VPADDW_XMM_K1Z_XMM_XMMM128 = vex_binary (\<lambda>a b :: u16. a + b) True"

definition handle_code_EVEX_VPADDW_YMM_K1Z_YMM_YMMM256 :: "'w handler" where
  "handle_code_EVEX_VPADDW_YMM_K1Z_YMM_YMMM256 = vex_binary (\<lambda>a b :: u16. a + b) True"

definition handle_code_EVEX_VPADDW_ZMM_K1Z_ZMM_ZMMM512 :: "'w handler" where
  "handle_code_EVEX_VPADDW_ZMM_K1Z_ZMM_ZMMM512 = vex_binary (\<lambda>a b :: u16. a + b) True"

definition handle_code_EVEX_VPADDD_XMM_K1Z_XMM_XMMM128B32 :: "'w handler" where
  "handle_code_EVEX_VPADDD_XMM_K1Z_XMM_XMMM128B32 = vex_binary (\<lambda>a b :: u32. a + b) True"

definition handle_code_EVEX_VPADDD_YMM_K1Z_YMM_YMMM256B32 :: "'w handler" where
  "handle_code_EVEX_VPADDD_YMM_K1Z_YMM_YMMM256B32 = vex_binary (\<lambda>a b :: u32. a + b) True"

definition handle_code_EVEX_VPADDD_ZMM_K1Z_ZMM_ZMMM512B32 :: "'w handler" where
  "handle_code_EVEX_VPADDD_ZMM_K1Z_ZMM_ZMMM512B32 = vex_binary (\<lambda>a b :: u32. a + b) True"

definition handle_code_EVEX_VPADDQ_XMM_K1Z_XMM_XMMM128B64 :: "'w handler" where
  "handle_code_EVEX_VPADDQ_XMM_K1Z_XMM_XMMM128B64 = vex_binary (\<lambda>a b :: u64. a + b) True"

definition handle_code_EVEX_VPADDQ_YMM_K1Z_YMM_YMMM256B64 :: "'w handler" where
  "handle_code_EVEX_VPADDQ_YMM_K1Z_YMM_YMMM256B64 = vex_binary (\<lambda>a b :: u64. a + b) True"

definition handle_code_EVEX_VPADDQ_ZMM_K1Z_ZMM_ZMMM512B64 :: "'w handler" where
  "handle_code_EVEX_VPADDQ_ZMM_K1Z_ZMM_ZMMM512B64 = vex_binary (\<lambda>a b :: u64. a + b) True"

definition handle_code_EVEX_VPADDUSB_XMM_K1Z_XMM_XMMM128 :: "'w handler" where
  "handle_code_EVEX_VPADDUSB_XMM_K1Z_XMM_XMMM128 = vex_binary (sat_add_unsigned :: u8 \<Rightarrow> u8 \<Rightarrow> u8) True"

definition handle_code_EVEX_VPADDUSB_YMM_K1Z_YMM_YMMM256 :: "'w handler" where
  "handle_code_EVEX_VPADDUSB_YMM_K1Z_YMM_YMMM256 = vex_binary (sat_add_unsigned :: u8 \<Rightarrow> u8 \<Rightarrow> u8) True"

definition handle_code_EVEX_VPADDUSB_ZMM_K1Z_ZMM_ZMMM512 :: "'w handler" where
  "handle_code_EVEX_VPADDUSB_ZMM_K1Z_ZMM_ZMMM512 = vex_binary (sat_add_unsigned :: u8 \<Rightarrow> u8 \<Rightarrow> u8) True"

definition handle_code_EVEX_VPADDUSW_XMM_K1Z_XMM_XMMM128 :: "'w handler" where
  "handle_code_EVEX_VPADDUSW_XMM_K1Z_XMM_XMMM128 = vex_binary (sat_add_unsigned :: u16 \<Rightarrow> u16 \<Rightarrow> u16) True"

definition handle_code_EVEX_VPADDUSW_YMM_K1Z_YMM_YMMM256 :: "'w handler" where
  "handle_code_EVEX_VPADDUSW_YMM_K1Z_YMM_YMMM256 = vex_binary (sat_add_unsigned :: u16 \<Rightarrow> u16 \<Rightarrow> u16) True"

definition handle_code_EVEX_VPADDUSW_ZMM_K1Z_ZMM_ZMMM512 :: "'w handler" where
  "handle_code_EVEX_VPADDUSW_ZMM_K1Z_ZMM_ZMMM512 = vex_binary (sat_add_unsigned :: u16 \<Rightarrow> u16 \<Rightarrow> u16) True"

definition handle_code_EVEX_VPADDSB_XMM_K1Z_XMM_XMMM128 :: "'w handler" where
  "handle_code_EVEX_VPADDSB_XMM_K1Z_XMM_XMMM128 = vex_binary (sat_add_signed :: u8 \<Rightarrow> u8 \<Rightarrow> u8) True"

definition handle_code_EVEX_VPADDSB_YMM_K1Z_YMM_YMMM256 :: "'w handler" where
  "handle_code_EVEX_VPADDSB_YMM_K1Z_YMM_YMMM256 = vex_binary (sat_add_signed :: u8 \<Rightarrow> u8 \<Rightarrow> u8) True"

definition handle_code_EVEX_VPADDSB_ZMM_K1Z_ZMM_ZMMM512 :: "'w handler" where
  "handle_code_EVEX_VPADDSB_ZMM_K1Z_ZMM_ZMMM512 = vex_binary (sat_add_signed :: u8 \<Rightarrow> u8 \<Rightarrow> u8) True"

definition handle_code_EVEX_VPADDSW_XMM_K1Z_XMM_XMMM128 :: "'w handler" where
  "handle_code_EVEX_VPADDSW_XMM_K1Z_XMM_XMMM128 = vex_binary (sat_add_signed :: u16 \<Rightarrow> u16 \<Rightarrow> u16) True"

definition handle_code_EVEX_VPADDSW_YMM_K1Z_YMM_YMMM256 :: "'w handler" where
  "handle_code_EVEX_VPADDSW_YMM_K1Z_YMM_YMMM256 = vex_binary (sat_add_signed :: u16 \<Rightarrow> u16 \<Rightarrow> u16) True"

definition handle_code_EVEX_VPADDSW_ZMM_K1Z_ZMM_ZMMM512 :: "'w handler" where
  "handle_code_EVEX_VPADDSW_ZMM_K1Z_ZMM_ZMMM512 = vex_binary (sat_add_signed :: u16 \<Rightarrow> u16 \<Rightarrow> u16) True"

definition handle_code_EVEX_VPSUBB_XMM_K1Z_XMM_XMMM128 :: "'w handler" where
  "handle_code_EVEX_VPSUBB_XMM_K1Z_XMM_XMMM128 = vex_binary (\<lambda>a b :: u8. a - b) True"

definition handle_code_EVEX_VPSUBB_YMM_K1Z_YMM_YMMM256 :: "'w handler" where
  "handle_code_EVEX_VPSUBB_YMM_K1Z_YMM_YMMM256 = vex_binary (\<lambda>a b :: u8. a - b) True"

definition handle_code_EVEX_VPSUBB_ZMM_K1Z_ZMM_ZMMM512 :: "'w handler" where
  "handle_code_EVEX_VPSUBB_ZMM_K1Z_ZMM_ZMMM512 = vex_binary (\<lambda>a b :: u8. a - b) True"

definition handle_code_EVEX_VPSUBW_XMM_K1Z_XMM_XMMM128 :: "'w handler" where
  "handle_code_EVEX_VPSUBW_XMM_K1Z_XMM_XMMM128 = vex_binary (\<lambda>a b :: u16. a - b) True"

definition handle_code_EVEX_VPSUBW_YMM_K1Z_YMM_YMMM256 :: "'w handler" where
  "handle_code_EVEX_VPSUBW_YMM_K1Z_YMM_YMMM256 = vex_binary (\<lambda>a b :: u16. a - b) True"

definition handle_code_EVEX_VPSUBW_ZMM_K1Z_ZMM_ZMMM512 :: "'w handler" where
  "handle_code_EVEX_VPSUBW_ZMM_K1Z_ZMM_ZMMM512 = vex_binary (\<lambda>a b :: u16. a - b) True"

definition handle_code_EVEX_VPSUBD_XMM_K1Z_XMM_XMMM128B32 :: "'w handler" where
  "handle_code_EVEX_VPSUBD_XMM_K1Z_XMM_XMMM128B32 = vex_binary (\<lambda>a b :: u32. a - b) True"

definition handle_code_EVEX_VPSUBD_YMM_K1Z_YMM_YMMM256B32 :: "'w handler" where
  "handle_code_EVEX_VPSUBD_YMM_K1Z_YMM_YMMM256B32 = vex_binary (\<lambda>a b :: u32. a - b) True"

definition handle_code_EVEX_VPSUBD_ZMM_K1Z_ZMM_ZMMM512B32 :: "'w handler" where
  "handle_code_EVEX_VPSUBD_ZMM_K1Z_ZMM_ZMMM512B32 = vex_binary (\<lambda>a b :: u32. a - b) True"

definition handle_code_EVEX_VPSUBQ_XMM_K1Z_XMM_XMMM128B64 :: "'w handler" where
  "handle_code_EVEX_VPSUBQ_XMM_K1Z_XMM_XMMM128B64 = vex_binary (\<lambda>a b :: u64. a - b) True"

definition handle_code_EVEX_VPSUBQ_YMM_K1Z_YMM_YMMM256B64 :: "'w handler" where
  "handle_code_EVEX_VPSUBQ_YMM_K1Z_YMM_YMMM256B64 = vex_binary (\<lambda>a b :: u64. a - b) True"

definition handle_code_EVEX_VPSUBQ_ZMM_K1Z_ZMM_ZMMM512B64 :: "'w handler" where
  "handle_code_EVEX_VPSUBQ_ZMM_K1Z_ZMM_ZMMM512B64 = vex_binary (\<lambda>a b :: u64. a - b) True"

definition handle_code_EVEX_VPSUBUSB_XMM_K1Z_XMM_XMMM128 :: "'w handler" where
  "handle_code_EVEX_VPSUBUSB_XMM_K1Z_XMM_XMMM128 = vex_binary (sat_sub_unsigned :: u8 \<Rightarrow> u8 \<Rightarrow> u8) True"

definition handle_code_EVEX_VPSUBUSB_YMM_K1Z_YMM_YMMM256 :: "'w handler" where
  "handle_code_EVEX_VPSUBUSB_YMM_K1Z_YMM_YMMM256 = vex_binary (sat_sub_unsigned :: u8 \<Rightarrow> u8 \<Rightarrow> u8) True"

definition handle_code_EVEX_VPSUBUSB_ZMM_K1Z_ZMM_ZMMM512 :: "'w handler" where
  "handle_code_EVEX_VPSUBUSB_ZMM_K1Z_ZMM_ZMMM512 = vex_binary (sat_sub_unsigned :: u8 \<Rightarrow> u8 \<Rightarrow> u8) True"

definition handle_code_EVEX_VPSUBUSW_XMM_K1Z_XMM_XMMM128 :: "'w handler" where
  "handle_code_EVEX_VPSUBUSW_XMM_K1Z_XMM_XMMM128 = vex_binary (sat_sub_unsigned :: u16 \<Rightarrow> u16 \<Rightarrow> u16) True"

definition handle_code_EVEX_VPSUBUSW_YMM_K1Z_YMM_YMMM256 :: "'w handler" where
  "handle_code_EVEX_VPSUBUSW_YMM_K1Z_YMM_YMMM256 = vex_binary (sat_sub_unsigned :: u16 \<Rightarrow> u16 \<Rightarrow> u16) True"

definition handle_code_EVEX_VPSUBUSW_ZMM_K1Z_ZMM_ZMMM512 :: "'w handler" where
  "handle_code_EVEX_VPSUBUSW_ZMM_K1Z_ZMM_ZMMM512 = vex_binary (sat_sub_unsigned :: u16 \<Rightarrow> u16 \<Rightarrow> u16) True"

definition handle_code_EVEX_VPSUBSB_XMM_K1Z_XMM_XMMM128 :: "'w handler" where
  "handle_code_EVEX_VPSUBSB_XMM_K1Z_XMM_XMMM128 = vex_binary (sat_sub_signed :: u8 \<Rightarrow> u8 \<Rightarrow> u8) True"

definition handle_code_EVEX_VPSUBSB_YMM_K1Z_YMM_YMMM256 :: "'w handler" where
  "handle_code_EVEX_VPSUBSB_YMM_K1Z_YMM_YMMM256 = vex_binary (sat_sub_signed :: u8 \<Rightarrow> u8 \<Rightarrow> u8) True"

definition handle_code_EVEX_VPSUBSB_ZMM_K1Z_ZMM_ZMMM512 :: "'w handler" where
  "handle_code_EVEX_VPSUBSB_ZMM_K1Z_ZMM_ZMMM512 = vex_binary (sat_sub_signed :: u8 \<Rightarrow> u8 \<Rightarrow> u8) True"

definition handle_code_EVEX_VPSUBSW_XMM_K1Z_XMM_XMMM128 :: "'w handler" where
  "handle_code_EVEX_VPSUBSW_XMM_K1Z_XMM_XMMM128 = vex_binary (sat_sub_signed :: u16 \<Rightarrow> u16 \<Rightarrow> u16) True"

definition handle_code_EVEX_VPSUBSW_YMM_K1Z_YMM_YMMM256 :: "'w handler" where
  "handle_code_EVEX_VPSUBSW_YMM_K1Z_YMM_YMMM256 = vex_binary (sat_sub_signed :: u16 \<Rightarrow> u16 \<Rightarrow> u16) True"

definition handle_code_EVEX_VPSUBSW_ZMM_K1Z_ZMM_ZMMM512 :: "'w handler" where
  "handle_code_EVEX_VPSUBSW_ZMM_K1Z_ZMM_ZMMM512 = vex_binary (sat_sub_signed :: u16 \<Rightarrow> u16 \<Rightarrow> u16) True"

definition handle_code_EVEX_VPCMPEQB_XMM_K1Z_XMM_XMMM128 :: "'w handler" where
  "handle_code_EVEX_VPCMPEQB_XMM_K1Z_XMM_XMMM128 = vex_compare (lane_eq :: u8 \<Rightarrow> u8 \<Rightarrow> u8) True"

definition handle_code_EVEX_VPCMPEQB_YMM_K1Z_YMM_YMMM256 :: "'w handler" where
  "handle_code_EVEX_VPCMPEQB_YMM_K1Z_YMM_YMMM256 = vex_compare (lane_eq :: u8 \<Rightarrow> u8 \<Rightarrow> u8) True"

definition handle_code_EVEX_VPCMPEQB_ZMM_K1Z_ZMM_ZMMM512 :: "'w handler" where
  "handle_code_EVEX_VPCMPEQB_ZMM_K1Z_ZMM_ZMMM512 = vex_compare (lane_eq :: u8 \<Rightarrow> u8 \<Rightarrow> u8) True"

definition handle_code_EVEX_VPCMPEQW_XMM_K1Z_XMM_XMMM128 :: "'w handler" where
  "handle_code_EVEX_VPCMPEQW_XMM_K1Z_XMM_XMMM128 = vex_compare (lane_eq :: u16 \<Rightarrow> u16 \<Rightarrow> u16) True"

definition handle_code_EVEX_VPCMPEQW_YMM_K1Z_YMM_YMMM256 :: "'w handler" where
  "handle_code_EVEX_VPCMPEQW_YMM_K1Z_YMM_YMMM256 = vex_compare (lane_eq :: u16 \<Rightarrow> u16 \<Rightarrow> u16) True"

definition handle_code_EVEX_VPCMPEQW_ZMM_K1Z_ZMM_ZMMM512 :: "'w handler" where
  "handle_code_EVEX_VPCMPEQW_ZMM_K1Z_ZMM_ZMMM512 = vex_compare (lane_eq :: u16 \<Rightarrow> u16 \<Rightarrow> u16) True"

definition handle_code_EVEX_VPCMPEQD_XMM_K1Z_XMM_XMMM128 :: "'w handler" where
  "handle_code_EVEX_VPCMPEQD_XMM_K1Z_XMM_XMMM128 = vex_compare (lane_eq :: u32 \<Rightarrow> u32 \<Rightarrow> u32) True"

definition handle_code_EVEX_VPCMPEQD_YMM_K1Z_YMM_YMMM256 :: "'w handler" where
  "handle_code_EVEX_VPCMPEQD_YMM_K1Z_YMM_YMMM256 = vex_compare (lane_eq :: u32 \<Rightarrow> u32 \<Rightarrow> u32) True"

definition handle_code_EVEX_VPCMPEQD_ZMM_K1Z_ZMM_ZMMM512 :: "'w handler" where
  "handle_code_EVEX_VPCMPEQD_ZMM_K1Z_ZMM_ZMMM512 = vex_compare (lane_eq :: u32 \<Rightarrow> u32 \<Rightarrow> u32) True"

definition handle_code_EVEX_VPCMPEQQ_XMM_K1Z_XMM_XMMM128 :: "'w handler" where
  "handle_code_EVEX_VPCMPEQQ_XMM_K1Z_XMM_XMMM128 = vex_compare (lane_eq :: u64 \<Rightarrow> u64 \<Rightarrow> u64) True"

definition handle_code_EVEX_VPCMPEQQ_YMM_K1Z_YMM_YMMM256 :: "'w handler" where
  "handle_code_EVEX_VPCMPEQQ_YMM_K1Z_YMM_YMMM256 = vex_compare (lane_eq :: u64 \<Rightarrow> u64 \<Rightarrow> u64) True"

definition handle_code_EVEX_VPCMPEQQ_ZMM_K1Z_ZMM_ZMMM512 :: "'w handler" where
  "handle_code_EVEX_VPCMPEQQ_ZMM_K1Z_ZMM_ZMMM512 = vex_compare (lane_eq :: u64 \<Rightarrow> u64 \<Rightarrow> u64) True"

definition handle_code_EVEX_VPCMPGTB_XMM_K1Z_XMM_XMMM128 :: "'w handler" where
  "handle_code_EVEX_VPCMPGTB_XMM_K1Z_XMM_XMMM128 = vex_compare (lane_gt :: u8 \<Rightarrow> u8 \<Rightarrow> u8) True"

definition handle_code_EVEX_VPCMPGTB_YMM_K1Z_YMM_YMMM256 :: "'w handler" where
  "handle_code_EVEX_VPCMPGTB_YMM_K1Z_YMM_YMMM256 = vex_compare (lane_gt :: u8 \<Rightarrow> u8 \<Rightarrow> u8) True"

definition handle_code_EVEX_VPCMPGTB_ZMM_K1Z_ZMM_ZMMM512 :: "'w handler" where
  "handle_code_EVEX_VPCMPGTB_ZMM_K1Z_ZMM_ZMMM512 = vex_compare (lane_gt :: u8 \<Rightarrow> u8 \<Rightarrow> u8) True"

definition handle_code_EVEX_VPCMPGTW_XMM_K1Z_XMM_XMMM128 :: "'w handler" where
  "handle_code_EVEX_VPCMPGTW_XMM_K1Z_XMM_XMMM128 = vex_compare (lane_gt :: u16 \<Rightarrow> u16 \<Rightarrow> u16) True"

definition handle_code_EVEX_VPCMPGTW_YMM_K1Z_YMM_YMMM256 :: "'w handler" where
  "handle_code_EVEX_VPCMPGTW_YMM_K1Z_YMM_YMMM256 = vex_compare (lane_gt :: u16 \<Rightarrow> u16 \<Rightarrow> u16) True"

definition handle_code_EVEX_VPCMPGTW_ZMM_K1Z_ZMM_ZMMM512 :: "'w handler" where
  "handle_code_EVEX_VPCMPGTW_ZMM_K1Z_ZMM_ZMMM512 = vex_compare (lane_gt :: u16 \<Rightarrow> u16 \<Rightarrow> u16) True"

definition handle_code_EVEX_VPCMPGTD_XMM_K1Z_XMM_XMMM128 :: "'w handler" where
  "handle_code_EVEX_VPCMPGTD_XMM_K1Z_XMM_XMMM128 = vex_compare (lane_gt :: u32 \<Rightarrow> u32 \<Rightarrow> u32) True"

definition handle_code_EVEX_VPCMPGTD_YMM_K1Z_YMM_YMMM256 :: "'w handler" where
  "handle_code_EVEX_VPCMPGTD_YMM_K1Z_YMM_YMMM256 = vex_compare (lane_gt :: u32 \<Rightarrow> u32 \<Rightarrow> u32) True"

definition handle_code_EVEX_VPCMPGTD_ZMM_K1Z_ZMM_ZMMM512 :: "'w handler" where
  "handle_code_EVEX_VPCMPGTD_ZMM_K1Z_ZMM_ZMMM512 = vex_compare (lane_gt :: u32 \<Rightarrow> u32 \<Rightarrow> u32) True"

definition handle_code_EVEX_VPCMPGTQ_XMM_K1Z_XMM_XMMM128 :: "'w handler" where
  "handle_code_EVEX_VPCMPGTQ_XMM_K1Z_XMM_XMMM128 = vex_compare (lane_gt :: u64 \<Rightarrow> u64 \<Rightarrow> u64) True"

definition handle_code_EVEX_VPCMPGTQ_YMM_K1Z_YMM_YMMM256 :: "'w handler" where
  "handle_code_EVEX_VPCMPGTQ_YMM_K1Z_YMM_YMMM256 = vex_compare (lane_gt :: u64 \<Rightarrow> u64 \<Rightarrow> u64) True"

definition handle_code_EVEX_VPCMPGTQ_ZMM_K1Z_ZMM_ZMMM512 :: "'w handler" where
  "handle_code_EVEX_VPCMPGTQ_ZMM_K1Z_ZMM_ZMMM512 = vex_compare (lane_gt :: u64 \<Rightarrow> u64 \<Rightarrow> u64) True"

definition handle_code_EVEX_VPAVGB_XMM_K1Z_XMM_XMMM128 :: "'w handler" where
  "handle_code_EVEX_VPAVGB_XMM_K1Z_XMM_XMMM128 = vex_binary (avg_unsigned :: u8 \<Rightarrow> u8 \<Rightarrow> u8) True"

definition handle_code_EVEX_VPAVGB_YMM_K1Z_YMM_YMMM256 :: "'w handler" where
  "handle_code_EVEX_VPAVGB_YMM_K1Z_YMM_YMMM256 = vex_binary (avg_unsigned :: u8 \<Rightarrow> u8 \<Rightarrow> u8) True"

definition handle_code_EVEX_VPAVGB_ZMM_K1Z_ZMM_ZMMM512 :: "'w handler" where
  "handle_code_EVEX_VPAVGB_ZMM_K1Z_ZMM_ZMMM512 = vex_binary (avg_unsigned :: u8 \<Rightarrow> u8 \<Rightarrow> u8) True"

definition handle_code_EVEX_VPAVGW_XMM_K1Z_XMM_XMMM128 :: "'w handler" where
  "handle_code_EVEX_VPAVGW_XMM_K1Z_XMM_XMMM128 = vex_binary (avg_unsigned :: u16 \<Rightarrow> u16 \<Rightarrow> u16) True"

definition handle_code_EVEX_VPAVGW_YMM_K1Z_YMM_YMMM256 :: "'w handler" where
  "handle_code_EVEX_VPAVGW_YMM_K1Z_YMM_YMMM256 = vex_binary (avg_unsigned :: u16 \<Rightarrow> u16 \<Rightarrow> u16) True"

definition handle_code_EVEX_VPAVGW_ZMM_K1Z_ZMM_ZMMM512 :: "'w handler" where
  "handle_code_EVEX_VPAVGW_ZMM_K1Z_ZMM_ZMMM512 = vex_binary (avg_unsigned :: u16 \<Rightarrow> u16 \<Rightarrow> u16) True"

definition handle_code_EVEX_VPMULLW_XMM_K1Z_XMM_XMMM128 :: "'w handler" where
  "handle_code_EVEX_VPMULLW_XMM_K1Z_XMM_XMMM128 = vex_binary lane_mullw True"

definition handle_code_EVEX_VPMULLW_YMM_K1Z_YMM_YMMM256 :: "'w handler" where
  "handle_code_EVEX_VPMULLW_YMM_K1Z_YMM_YMMM256 = vex_binary lane_mullw True"

definition handle_code_EVEX_VPMULLW_ZMM_K1Z_ZMM_ZMMM512 :: "'w handler" where
  "handle_code_EVEX_VPMULLW_ZMM_K1Z_ZMM_ZMMM512 = vex_binary lane_mullw True"

definition handle_code_EVEX_VPANDD_XMM_K1Z_XMM_XMMM128B32 :: "'w handler" where
  "handle_code_EVEX_VPANDD_XMM_K1Z_XMM_XMMM128B32 = vex_bitwise_lanes TYPE(32) (\<lambda>a b. a AND b) True"

definition handle_code_EVEX_VPANDD_YMM_K1Z_YMM_YMMM256B32 :: "'w handler" where
  "handle_code_EVEX_VPANDD_YMM_K1Z_YMM_YMMM256B32 = vex_bitwise_lanes TYPE(32) (\<lambda>a b. a AND b) True"

definition handle_code_EVEX_VPANDD_ZMM_K1Z_ZMM_ZMMM512B32 :: "'w handler" where
  "handle_code_EVEX_VPANDD_ZMM_K1Z_ZMM_ZMMM512B32 = vex_bitwise_lanes TYPE(32) (\<lambda>a b. a AND b) True"

definition handle_code_EVEX_VPANDQ_XMM_K1Z_XMM_XMMM128B64 :: "'w handler" where
  "handle_code_EVEX_VPANDQ_XMM_K1Z_XMM_XMMM128B64 = vex_bitwise_lanes TYPE(64) (\<lambda>a b. a AND b) True"

definition handle_code_EVEX_VPANDQ_YMM_K1Z_YMM_YMMM256B64 :: "'w handler" where
  "handle_code_EVEX_VPANDQ_YMM_K1Z_YMM_YMMM256B64 = vex_bitwise_lanes TYPE(64) (\<lambda>a b. a AND b) True"

definition handle_code_EVEX_VPANDQ_ZMM_K1Z_ZMM_ZMMM512B64 :: "'w handler" where
  "handle_code_EVEX_VPANDQ_ZMM_K1Z_ZMM_ZMMM512B64 = vex_bitwise_lanes TYPE(64) (\<lambda>a b. a AND b) True"

definition handle_code_EVEX_VPANDND_XMM_K1Z_XMM_XMMM128B32 :: "'w handler" where
  "handle_code_EVEX_VPANDND_XMM_K1Z_XMM_XMMM128B32 = vex_bitwise_lanes TYPE(32) (\<lambda>a b. NOT a AND b) True"

definition handle_code_EVEX_VPANDND_YMM_K1Z_YMM_YMMM256B32 :: "'w handler" where
  "handle_code_EVEX_VPANDND_YMM_K1Z_YMM_YMMM256B32 = vex_bitwise_lanes TYPE(32) (\<lambda>a b. NOT a AND b) True"

definition handle_code_EVEX_VPANDND_ZMM_K1Z_ZMM_ZMMM512B32 :: "'w handler" where
  "handle_code_EVEX_VPANDND_ZMM_K1Z_ZMM_ZMMM512B32 = vex_bitwise_lanes TYPE(32) (\<lambda>a b. NOT a AND b) True"

definition handle_code_EVEX_VPANDNQ_XMM_K1Z_XMM_XMMM128B64 :: "'w handler" where
  "handle_code_EVEX_VPANDNQ_XMM_K1Z_XMM_XMMM128B64 = vex_bitwise_lanes TYPE(64) (\<lambda>a b. NOT a AND b) True"

definition handle_code_EVEX_VPANDNQ_YMM_K1Z_YMM_YMMM256B64 :: "'w handler" where
  "handle_code_EVEX_VPANDNQ_YMM_K1Z_YMM_YMMM256B64 = vex_bitwise_lanes TYPE(64) (\<lambda>a b. NOT a AND b) True"

definition handle_code_EVEX_VPANDNQ_ZMM_K1Z_ZMM_ZMMM512B64 :: "'w handler" where
  "handle_code_EVEX_VPANDNQ_ZMM_K1Z_ZMM_ZMMM512B64 = vex_bitwise_lanes TYPE(64) (\<lambda>a b. NOT a AND b) True"

definition handle_code_EVEX_VPORD_XMM_K1Z_XMM_XMMM128B32 :: "'w handler" where
  "handle_code_EVEX_VPORD_XMM_K1Z_XMM_XMMM128B32 = vex_bitwise_lanes TYPE(32) (\<lambda>a b. a OR b) True"

definition handle_code_EVEX_VPORD_YMM_K1Z_YMM_YMMM256B32 :: "'w handler" where
  "handle_code_EVEX_VPORD_YMM_K1Z_YMM_YMMM256B32 = vex_bitwise_lanes TYPE(32) (\<lambda>a b. a OR b) True"

definition handle_code_EVEX_VPORD_ZMM_K1Z_ZMM_ZMMM512B32 :: "'w handler" where
  "handle_code_EVEX_VPORD_ZMM_K1Z_ZMM_ZMMM512B32 = vex_bitwise_lanes TYPE(32) (\<lambda>a b. a OR b) True"

definition handle_code_EVEX_VPORQ_XMM_K1Z_XMM_XMMM128B64 :: "'w handler" where
  "handle_code_EVEX_VPORQ_XMM_K1Z_XMM_XMMM128B64 = vex_bitwise_lanes TYPE(64) (\<lambda>a b. a OR b) True"

definition handle_code_EVEX_VPORQ_YMM_K1Z_YMM_YMMM256B64 :: "'w handler" where
  "handle_code_EVEX_VPORQ_YMM_K1Z_YMM_YMMM256B64 = vex_bitwise_lanes TYPE(64) (\<lambda>a b. a OR b) True"

definition handle_code_EVEX_VPORQ_ZMM_K1Z_ZMM_ZMMM512B64 :: "'w handler" where
  "handle_code_EVEX_VPORQ_ZMM_K1Z_ZMM_ZMMM512B64 = vex_bitwise_lanes TYPE(64) (\<lambda>a b. a OR b) True"

definition handle_code_EVEX_VPXORD_XMM_K1Z_XMM_XMMM128B32 :: "'w handler" where
  "handle_code_EVEX_VPXORD_XMM_K1Z_XMM_XMMM128B32 = vex_bitwise_lanes TYPE(32) (\<lambda>a b. a XOR b) True"

definition handle_code_EVEX_VPXORD_YMM_K1Z_YMM_YMMM256B32 :: "'w handler" where
  "handle_code_EVEX_VPXORD_YMM_K1Z_YMM_YMMM256B32 = vex_bitwise_lanes TYPE(32) (\<lambda>a b. a XOR b) True"

definition handle_code_EVEX_VPXORD_ZMM_K1Z_ZMM_ZMMM512B32 :: "'w handler" where
  "handle_code_EVEX_VPXORD_ZMM_K1Z_ZMM_ZMMM512B32 = vex_bitwise_lanes TYPE(32) (\<lambda>a b. a XOR b) True"

definition handle_code_EVEX_VPXORQ_XMM_K1Z_XMM_XMMM128B64 :: "'w handler" where
  "handle_code_EVEX_VPXORQ_XMM_K1Z_XMM_XMMM128B64 = vex_bitwise_lanes TYPE(64) (\<lambda>a b. a XOR b) True"

definition handle_code_EVEX_VPXORQ_YMM_K1Z_YMM_YMMM256B64 :: "'w handler" where
  "handle_code_EVEX_VPXORQ_YMM_K1Z_YMM_YMMM256B64 = vex_bitwise_lanes TYPE(64) (\<lambda>a b. a XOR b) True"

definition handle_code_EVEX_VPXORQ_ZMM_K1Z_ZMM_ZMMM512B64 :: "'w handler" where
  "handle_code_EVEX_VPXORQ_ZMM_K1Z_ZMM_ZMMM512B64 = vex_bitwise_lanes TYPE(64) (\<lambda>a b. a XOR b) True"

definition handle_code_EVEX_VPSLLW_XMM_K1Z_XMM_XMMM128 :: "'w handler" where
  "handle_code_EVEX_VPSLLW_XMM_K1Z_XMM_XMMM128 = vex_shift_reg (shift_left_lane :: u16 \<Rightarrow> u64 \<Rightarrow> u16) True"

definition handle_code_EVEX_VPSLLW_YMM_K1Z_YMM_XMMM128 :: "'w handler" where
  "handle_code_EVEX_VPSLLW_YMM_K1Z_YMM_XMMM128 = vex_shift_reg (shift_left_lane :: u16 \<Rightarrow> u64 \<Rightarrow> u16) True"

definition handle_code_EVEX_VPSLLW_ZMM_K1Z_ZMM_XMMM128 :: "'w handler" where
  "handle_code_EVEX_VPSLLW_ZMM_K1Z_ZMM_XMMM128 = vex_shift_reg (shift_left_lane :: u16 \<Rightarrow> u64 \<Rightarrow> u16) True"

definition handle_code_EVEX_VPSLLD_XMM_K1Z_XMM_XMMM128 :: "'w handler" where
  "handle_code_EVEX_VPSLLD_XMM_K1Z_XMM_XMMM128 = vex_shift_reg (shift_left_lane :: u32 \<Rightarrow> u64 \<Rightarrow> u32) True"

definition handle_code_EVEX_VPSLLD_YMM_K1Z_YMM_XMMM128 :: "'w handler" where
  "handle_code_EVEX_VPSLLD_YMM_K1Z_YMM_XMMM128 = vex_shift_reg (shift_left_lane :: u32 \<Rightarrow> u64 \<Rightarrow> u32) True"

definition handle_code_EVEX_VPSLLD_ZMM_K1Z_ZMM_XMMM128 :: "'w handler" where
  "handle_code_EVEX_VPSLLD_ZMM_K1Z_ZMM_XMMM128 = vex_shift_reg (shift_left_lane :: u32 \<Rightarrow> u64 \<Rightarrow> u32) True"

definition handle_code_EVEX_VPSLLQ_XMM_K1Z_XMM_XMMM128 :: "'w handler" where
  "handle_code_EVEX_VPSLLQ_XMM_K1Z_XMM_XMMM128 = vex_shift_reg (shift_left_lane :: u64 \<Rightarrow> u64 \<Rightarrow> u64) True"

definition handle_code_EVEX_VPSLLQ_YMM_K1Z_YMM_XMMM128 :: "'w handler" where
  "handle_code_EVEX_VPSLLQ_YMM_K1Z_YMM_XMMM128 = vex_shift_reg (shift_left_lane :: u64 \<Rightarrow> u64 \<Rightarrow> u64) True"

definition handle_code_EVEX_VPSLLQ_ZMM_K1Z_ZMM_XMMM128 :: "'w handler" where
  "handle_code_EVEX_VPSLLQ_ZMM_K1Z_ZMM_XMMM128 = vex_shift_reg (shift_left_lane :: u64 \<Rightarrow> u64 \<Rightarrow> u64) True"

definition handle_code_EVEX_VPSRLW_XMM_K1Z_XMM_XMMM128 :: "'w handler" where
  "handle_code_EVEX_VPSRLW_XMM_K1Z_XMM_XMMM128 = vex_shift_reg (shift_right_logical_lane :: u16 \<Rightarrow> u64 \<Rightarrow> u16) True"

definition handle_code_EVEX_VPSRLW_YMM_K1Z_YMM_XMMM128 :: "'w handler" where
  "handle_code_EVEX_VPSRLW_YMM_K1Z_YMM_XMMM128 = vex_shift_reg (shift_right_logical_lane :: u16 \<Rightarrow> u64 \<Rightarrow> u16) True"

definition handle_code_EVEX_VPSRLW_ZMM_K1Z_ZMM_XMMM128 :: "'w handler" where
  "handle_code_EVEX_VPSRLW_ZMM_K1Z_ZMM_XMMM128 = vex_shift_reg (shift_right_logical_lane :: u16 \<Rightarrow> u64 \<Rightarrow> u16) True"

definition handle_code_EVEX_VPSRLD_XMM_K1Z_XMM_XMMM128 :: "'w handler" where
  "handle_code_EVEX_VPSRLD_XMM_K1Z_XMM_XMMM128 = vex_shift_reg (shift_right_logical_lane :: u32 \<Rightarrow> u64 \<Rightarrow> u32) True"

definition handle_code_EVEX_VPSRLD_YMM_K1Z_YMM_XMMM128 :: "'w handler" where
  "handle_code_EVEX_VPSRLD_YMM_K1Z_YMM_XMMM128 = vex_shift_reg (shift_right_logical_lane :: u32 \<Rightarrow> u64 \<Rightarrow> u32) True"

definition handle_code_EVEX_VPSRLD_ZMM_K1Z_ZMM_XMMM128 :: "'w handler" where
  "handle_code_EVEX_VPSRLD_ZMM_K1Z_ZMM_XMMM128 = vex_shift_reg (shift_right_logical_lane :: u32 \<Rightarrow> u64 \<Rightarrow> u32) True"

definition handle_code_EVEX_VPSRLQ_XMM_K1Z_XMM_XMMM128 :: "'w handler" where
  "handle_code_EVEX_VPSRLQ_XMM_K1Z_XMM_XMMM128 = vex_shift_reg (shift_right_logical_lane :: u64 \<Rightarrow> u64 \<Rightarrow> u64) True"

definition handle_code_EVEX_VPSRLQ_YMM_K1Z_YMM_XMMM128 :: "'w handler" where
  "handle_code_EVEX_VPSRLQ_YMM_K1Z_YMM_XMMM128 = vex_shift_reg (shift_right_logical_lane :: u64 \<Rightarrow> u64 \<Rightarrow> u64) True"

definition handle_code_EVEX_VPSRLQ_ZMM_K1Z_ZMM_XMMM128 :: "'w handler" where
  "handle_code_EVEX_VPSRLQ_ZMM_K1Z_ZMM_XMMM128 = vex_shift_reg (shift_right_logical_lane :: u64 \<Rightarrow> u64 \<Rightarrow> u64) True"

definition handle_code_EVEX_VPSRAW_XMM_K1Z_XMM_XMMM128 :: "'w handler" where
  "handle_code_EVEX_VPSRAW_XMM_K1Z_XMM_XMMM128 = vex_shift_reg (shift_right_arithmetic_lane :: u16 \<Rightarrow> u64 \<Rightarrow> u16) True"

definition handle_code_EVEX_VPSRAW_YMM_K1Z_YMM_XMMM128 :: "'w handler" where
  "handle_code_EVEX_VPSRAW_YMM_K1Z_YMM_XMMM128 = vex_shift_reg (shift_right_arithmetic_lane :: u16 \<Rightarrow> u64 \<Rightarrow> u16) True"

definition handle_code_EVEX_VPSRAW_ZMM_K1Z_ZMM_XMMM128 :: "'w handler" where
  "handle_code_EVEX_VPSRAW_ZMM_K1Z_ZMM_XMMM128 = vex_shift_reg (shift_right_arithmetic_lane :: u16 \<Rightarrow> u64 \<Rightarrow> u16) True"

definition handle_code_EVEX_VPSRAD_XMM_K1Z_XMM_XMMM128 :: "'w handler" where
  "handle_code_EVEX_VPSRAD_XMM_K1Z_XMM_XMMM128 = vex_shift_reg (shift_right_arithmetic_lane :: u32 \<Rightarrow> u64 \<Rightarrow> u32) True"

definition handle_code_EVEX_VPSRAD_YMM_K1Z_YMM_XMMM128 :: "'w handler" where
  "handle_code_EVEX_VPSRAD_YMM_K1Z_YMM_XMMM128 = vex_shift_reg (shift_right_arithmetic_lane :: u32 \<Rightarrow> u64 \<Rightarrow> u32) True"

definition handle_code_EVEX_VPSRAD_ZMM_K1Z_ZMM_XMMM128 :: "'w handler" where
  "handle_code_EVEX_VPSRAD_ZMM_K1Z_ZMM_XMMM128 = vex_shift_reg (shift_right_arithmetic_lane :: u32 \<Rightarrow> u64 \<Rightarrow> u32) True"

definition handle_code_EVEX_VPSLLW_XMM_K1Z_XMMM128_IMM8 :: "'w handler" where
  "handle_code_EVEX_VPSLLW_XMM_K1Z_XMMM128_IMM8 = vex_shift_imm (shift_left_lane :: u16 \<Rightarrow> u64 \<Rightarrow> u16) True"

definition handle_code_EVEX_VPSLLW_YMM_K1Z_YMMM256_IMM8 :: "'w handler" where
  "handle_code_EVEX_VPSLLW_YMM_K1Z_YMMM256_IMM8 = vex_shift_imm (shift_left_lane :: u16 \<Rightarrow> u64 \<Rightarrow> u16) True"

definition handle_code_EVEX_VPSLLW_ZMM_K1Z_ZMMM512_IMM8 :: "'w handler" where
  "handle_code_EVEX_VPSLLW_ZMM_K1Z_ZMMM512_IMM8 = vex_shift_imm (shift_left_lane :: u16 \<Rightarrow> u64 \<Rightarrow> u16) True"

definition handle_code_EVEX_VPSLLD_XMM_K1Z_XMMM128B32_IMM8 :: "'w handler" where
  "handle_code_EVEX_VPSLLD_XMM_K1Z_XMMM128B32_IMM8 = vex_shift_imm (shift_left_lane :: u32 \<Rightarrow> u64 \<Rightarrow> u32) True"

definition handle_code_EVEX_VPSLLD_YMM_K1Z_YMMM256B32_IMM8 :: "'w handler" where
  "handle_code_EVEX_VPSLLD_YMM_K1Z_YMMM256B32_IMM8 = vex_shift_imm (shift_left_lane :: u32 \<Rightarrow> u64 \<Rightarrow> u32) True"

definition handle_code_EVEX_VPSLLD_ZMM_K1Z_ZMMM512B32_IMM8 :: "'w handler" where
  "handle_code_EVEX_VPSLLD_ZMM_K1Z_ZMMM512B32_IMM8 = vex_shift_imm (shift_left_lane :: u32 \<Rightarrow> u64 \<Rightarrow> u32) True"

definition handle_code_EVEX_VPSLLQ_XMM_K1Z_XMMM128B64_IMM8 :: "'w handler" where
  "handle_code_EVEX_VPSLLQ_XMM_K1Z_XMMM128B64_IMM8 = vex_shift_imm (shift_left_lane :: u64 \<Rightarrow> u64 \<Rightarrow> u64) True"

definition handle_code_EVEX_VPSLLQ_YMM_K1Z_YMMM256B64_IMM8 :: "'w handler" where
  "handle_code_EVEX_VPSLLQ_YMM_K1Z_YMMM256B64_IMM8 = vex_shift_imm (shift_left_lane :: u64 \<Rightarrow> u64 \<Rightarrow> u64) True"

definition handle_code_EVEX_VPSLLQ_ZMM_K1Z_ZMMM512B64_IMM8 :: "'w handler" where
  "handle_code_EVEX_VPSLLQ_ZMM_K1Z_ZMMM512B64_IMM8 = vex_shift_imm (shift_left_lane :: u64 \<Rightarrow> u64 \<Rightarrow> u64) True"

definition handle_code_EVEX_VPSRLW_XMM_K1Z_XMMM128_IMM8 :: "'w handler" where
  "handle_code_EVEX_VPSRLW_XMM_K1Z_XMMM128_IMM8 = vex_shift_imm (shift_right_logical_lane :: u16 \<Rightarrow> u64 \<Rightarrow> u16) True"

definition handle_code_EVEX_VPSRLW_YMM_K1Z_YMMM256_IMM8 :: "'w handler" where
  "handle_code_EVEX_VPSRLW_YMM_K1Z_YMMM256_IMM8 = vex_shift_imm (shift_right_logical_lane :: u16 \<Rightarrow> u64 \<Rightarrow> u16) True"

definition handle_code_EVEX_VPSRLW_ZMM_K1Z_ZMMM512_IMM8 :: "'w handler" where
  "handle_code_EVEX_VPSRLW_ZMM_K1Z_ZMMM512_IMM8 = vex_shift_imm (shift_right_logical_lane :: u16 \<Rightarrow> u64 \<Rightarrow> u16) True"

definition handle_code_EVEX_VPSRLD_XMM_K1Z_XMMM128B32_IMM8 :: "'w handler" where
  "handle_code_EVEX_VPSRLD_XMM_K1Z_XMMM128B32_IMM8 = vex_shift_imm (shift_right_logical_lane :: u32 \<Rightarrow> u64 \<Rightarrow> u32) True"

definition handle_code_EVEX_VPSRLD_YMM_K1Z_YMMM256B32_IMM8 :: "'w handler" where
  "handle_code_EVEX_VPSRLD_YMM_K1Z_YMMM256B32_IMM8 = vex_shift_imm (shift_right_logical_lane :: u32 \<Rightarrow> u64 \<Rightarrow> u32) True"

definition handle_code_EVEX_VPSRLD_ZMM_K1Z_ZMMM512B32_IMM8 :: "'w handler" where
  "handle_code_EVEX_VPSRLD_ZMM_K1Z_ZMMM512B32_IMM8 = vex_shift_imm (shift_right_logical_lane :: u32 \<Rightarrow> u64 \<Rightarrow> u32) True"

definition handle_code_EVEX_VPSRLQ_XMM_K1Z_XMMM128B64_IMM8 :: "'w handler" where
  "handle_code_EVEX_VPSRLQ_XMM_K1Z_XMMM128B64_IMM8 = vex_shift_imm (shift_right_logical_lane :: u64 \<Rightarrow> u64 \<Rightarrow> u64) True"

definition handle_code_EVEX_VPSRLQ_YMM_K1Z_YMMM256B64_IMM8 :: "'w handler" where
  "handle_code_EVEX_VPSRLQ_YMM_K1Z_YMMM256B64_IMM8 = vex_shift_imm (shift_right_logical_lane :: u64 \<Rightarrow> u64 \<Rightarrow> u64) True"

definition handle_code_EVEX_VPSRLQ_ZMM_K1Z_ZMMM512B64_IMM8 :: "'w handler" where
  "handle_code_EVEX_VPSRLQ_ZMM_K1Z_ZMMM512B64_IMM8 = vex_shift_imm (shift_right_logical_lane :: u64 \<Rightarrow> u64 \<Rightarrow> u64) True"

definition handle_code_EVEX_VPSRAW_XMM_K1Z_XMMM128_IMM8 :: "'w handler" where
  "handle_code_EVEX_VPSRAW_XMM_K1Z_XMMM128_IMM8 = vex_shift_imm (shift_right_arithmetic_lane :: u16 \<Rightarrow> u64 \<Rightarrow> u16) True"

definition handle_code_EVEX_VPSRAW_YMM_K1Z_YMMM256_IMM8 :: "'w handler" where
  "handle_code_EVEX_VPSRAW_YMM_K1Z_YMMM256_IMM8 = vex_shift_imm (shift_right_arithmetic_lane :: u16 \<Rightarrow> u64 \<Rightarrow> u16) True"

definition handle_code_EVEX_VPSRAW_ZMM_K1Z_ZMMM512_IMM8 :: "'w handler" where
  "handle_code_EVEX_VPSRAW_ZMM_K1Z_ZMMM512_IMM8 = vex_shift_imm (shift_right_arithmetic_lane :: u16 \<Rightarrow> u64 \<Rightarrow> u16) True"

definition handle_code_EVEX_VPSRAD_XMM_K1Z_XMMM128B32_IMM8 :: "'w handler" where
  "handle_code_EVEX_VPSRAD_XMM_K1Z_XMMM128B32_IMM8 = vex_shift_imm (shift_right_arithmetic_lane :: u32 \<Rightarrow> u64 \<Rightarrow> u32) True"

definition handle_code_EVEX_VPSRAD_YMM_K1Z_YMMM256B32_IMM8 :: "'w handler" where
  "handle_code_EVEX_VPSRAD_YMM_K1Z_YMMM256B32_IMM8 = vex_shift_imm (shift_right_arithmetic_lane :: u32 \<Rightarrow> u64 \<Rightarrow> u32) True"

definition handle_code_EVEX_VPSRAD_ZMM_K1Z_ZMMM512B32_IMM8 :: "'w handler" where
  "handle_code_EVEX_VPSRAD_ZMM_K1Z_ZMMM512B32_IMM8 = vex_shift_imm (shift_right_arithmetic_lane :: u32 \<Rightarrow> u64 \<Rightarrow> u32) True"

definition handle_code_PCMPISTRI_XMM_XMMM128_IMM8 :: "'w handler" where
  "handle_code_PCMPISTRI_XMM_XMMM128_IMM8 = pcmpstr False False"

definition handle_code_PCMPISTRM_XMM_XMMM128_IMM8 :: "'w handler" where
  "handle_code_PCMPISTRM_XMM_XMMM128_IMM8 = pcmpstr False True"

definition handle_code_PCMPESTRI_XMM_XMMM128_IMM8 :: "'w handler" where
  "handle_code_PCMPESTRI_XMM_XMMM128_IMM8 = pcmpstr True False"

definition handle_code_PCMPESTRM_XMM_XMMM128_IMM8 :: "'w handler" where
  "handle_code_PCMPESTRM_XMM_XMMM128_IMM8 = pcmpstr True True"

end
