(* ===== verification/Simd_Mov.thy ===== *)
theory Simd_Mov
  imports Simd_Int
begin

text \<open>
  Vector moves (\<^verbatim>\<open>handlers/simd_mov.cpp\<close>). The file has its own copies of the register helpers of \<^verbatim>\<open>simd_int.cpp\<close>; those that differ have the suffix
  \<open>_mov\<close>: \<^verbatim>\<open>read_vec\<close> does not mask and \<^verbatim>\<open>write_vec\<close> is given the width.
\<close>

section \<open>Helpers\<close>

definition read_vec_mov :: "cpu_state \<Rightarrow> register \<Rightarrow> simd" where
  "read_vec_mov s reg = vectors s ! vector_index reg"

definition write_vec_mov :: "register \<Rightarrow> simd \<Rightarrow> nat \<Rightarrow> bool \<Rightarrow> cpu_state \<Rightarrow> cpu_state" where
  "write_vec_mov reg value width zero_upper s =
     (let i = vector_index reg; m = simd_mask width
      in s\<lparr>vectors := (vectors s)[i := (if zero_upper then value AND m else (vectors s ! i AND NOT m) OR (value AND m))]\<rparr>)"

definition write_vec_mem :: "'w ctx \<Rightarrow> u64 \<Rightarrow> simd \<Rightarrow> nat \<Rightarrow> bool \<times> 'w ctx" where
  "write_vec_mem c address value width =
     (case mem_write (mem c) address (le_bytes width value) data_write of (ok, m) \<Rightarrow> (ok, c\<lparr>mem := m\<rparr>))"

definition infer_width :: "instruction \<Rightarrow> nat \<Rightarrow> nat \<Rightarrow> nat" where
  "infer_width i dst_index src_index =
     (if op_kind i dst_index = REGISTER \<and> is_vector_register (op_register i dst_index)
      then vector_width (op_register i dst_index)
      else if op_kind i src_index = REGISTER \<and> is_vector_register (op_register i src_index)
      then vector_width (op_register i src_index)
      else if operand_width i dst_index \<noteq> 0 then operand_width i dst_index else operand_width i src_index)"

definition read_any :: "'w ctx \<Rightarrow> nat \<Rightarrow> nat \<Rightarrow> simd option \<times> 'w ctx" where
  "read_any c k width =
     (let kind = op_kind (instr c) k; reg = op_register (instr c) k
      in if kind = REGISTER
         then (Some ((if is_vector_register reg then read_vec_mov (state c) reg else ucast (read_register (state c) reg)) AND simd_mask width), c)
         else if kind = MEMORY then read_vec_mem c (memory_address c) width
         else (Some (ucast (immediate_value (instr c) k) AND simd_mask width), c))"

definition write_any :: "'w ctx \<Rightarrow> nat \<Rightarrow> simd \<Rightarrow> nat \<Rightarrow> bool \<Rightarrow> bool \<times> 'w ctx" where
  "write_any c k value0 width zero_upper =
     (let value = value0 AND simd_mask width; kind = op_kind (instr c) k; reg = op_register (instr c) k
      in if kind = REGISTER
         then (True, upd_state (\<lambda>s. if is_vector_register reg then write_vec_mov reg value width zero_upper s
                                  else write_register s reg (ucast value) width) c)
         else if kind = MEMORY then write_vec_mem c (memory_address c) value width
         else (False, c))"

text \<open>The two fault returns.\<close>

definition with_any :: "nat \<Rightarrow> nat \<Rightarrow> (simd \<Rightarrow> 'w handler) \<Rightarrow> 'w handler" where
  "with_any k width f c =
     (case read_any c k width of
        (None, c1) \<Rightarrow> (memory_fault c1 (memory_address c1), c1)
      | (Some v, c1) \<Rightarrow> f v c1)"

definition put_any :: "nat \<Rightarrow> nat \<Rightarrow> bool \<Rightarrow> simd \<Rightarrow> 'w handler" where
  "put_any k width zero_upper value c =
     (case write_any c k value width zero_upper of
        (False, c1) \<Rightarrow> (memory_fault c1 (memory_address c1), c1)
      | (True, c1) \<Rightarrow> (no_stop, c1))"

definition put_vec_mov :: "register \<Rightarrow> simd \<Rightarrow> bool \<Rightarrow> 'w handler" where
  "put_vec_mov reg value zero_upper c = (no_stop, upd_state (write_vec_mov reg value (vector_width reg) zero_upper) c)"

section \<open>Moves\<close>

definition full_move :: "nat \<Rightarrow> nat \<Rightarrow> bool \<Rightarrow> 'w handler" where
  "full_move dst src zero_upper c =
     (let width = infer_width (instr c) dst src in with_any src width (put_any dst width zero_upper) c)"

definition low_move :: "nat \<Rightarrow> nat \<Rightarrow> nat \<Rightarrow> bool \<Rightarrow> 'w handler" where
  "low_move dst src width zero_upper = with_any src width (put_any dst width zero_upper)"

definition low_move_legacy_scalar_load :: "nat \<Rightarrow> nat \<Rightarrow> nat \<Rightarrow> 'w handler" where
  "low_move_legacy_scalar_load dst src width =
     with_any src width (\<lambda>value c. put_any dst width (op_kind (instr c) src = MEMORY) value c)"

definition merge_low_move :: "nat \<Rightarrow> nat \<Rightarrow> nat \<Rightarrow> nat \<Rightarrow> bool \<Rightarrow> 'w handler" where
  "merge_low_move dst merge src width zero_upper = with_any src width (\<lambda>value c.
     let merge_value = read_vec_mov (state c) (op_register (instr c) merge);
         updated = (merge_value AND NOT (simd_mask width)) OR (value AND simd_mask width)
     in put_vec_mov (op_register (instr c) dst) updated zero_upper c)"

definition merge_high_move :: "nat \<Rightarrow> nat \<Rightarrow> nat \<Rightarrow> nat \<Rightarrow> bool \<Rightarrow> 'w handler" where
  "merge_high_move dst merge src width zero_upper = with_any src width (\<lambda>value c.
     let merge_value = read_vec_mov (state c) (op_register (instr c) merge);
         shifted = push_bit (width * 8) (simd_mask width);
         updated = (merge_value AND NOT shifted) OR (push_bit (width * 8) value AND shifted)
     in put_vec_mov (op_register (instr c) dst) updated zero_upper c)"

definition gpr_to_xmm :: "nat \<Rightarrow> nat \<Rightarrow> nat \<Rightarrow> 'w handler" where
  "gpr_to_xmm dst src width = with_any src width (put_any dst width True)"

definition xmm_to_gpr :: "nat \<Rightarrow> nat \<Rightarrow> nat \<Rightarrow> 'w handler" where
  "xmm_to_gpr dst src width = with_any src width (put_any dst width False)"

definition pextrw_to_gpr_or_mem :: "'w handler" where
  "pextrw_to_gpr_or_mem c =
     (let lane = unat (immediate_value (instr c) 2 AND 7);
          wd = drop_bit (lane * 16) (read_vec_mov (state c) (op_register (instr c) 1)) AND 0xFFFF
      in if op_kind (instr c) 0 = REGISTER
         then (no_stop, upd_state (\<lambda>s. write_register s (op_register (instr c) 0) (ucast wd) (register_width (op_register (instr c) 0))) c)
         else case write_vec_mem c (memory_address c) wd 2 of
                (False, c1) \<Rightarrow> (memory_fault c1 (memory_address c1), c1)
              | (True, c1) \<Rightarrow> (no_stop, c1))"

definition high_lane_to_gpr :: "nat \<Rightarrow> nat \<Rightarrow> nat \<Rightarrow> 'w handler" where
  "high_lane_to_gpr dst src width c =
     (let value = drop_bit (width * 8) (read_vec_mov (state c) (op_register (instr c) src)) AND simd_mask width
      in put_any dst width False value c)"

definition movlhps_legacy :: "'w handler" where
  "movlhps_legacy c =
     (let dst_reg = op_register (instr c) 0; dst_value = read_vec_mov (state c) dst_reg;
          src_low = read_vec_mov (state c) (op_register (instr c) 1) AND simd_mask 8
      in put_vec_mov dst_reg ((dst_value AND simd_mask 8) OR push_bit 64 src_low) False c)"

definition movhlps_legacy :: "'w handler" where
  "movhlps_legacy c =
     (let dst_reg = op_register (instr c) 0; dst_value = read_vec_mov (state c) dst_reg;
          src_high = drop_bit 64 (read_vec_mov (state c) (op_register (instr c) 1)) AND simd_mask 8
      in put_vec_mov dst_reg ((dst_value AND push_bit 64 (simd_mask 8)) OR src_high) False c)"

definition vmovlhps :: "'w handler" where
  "vmovlhps c =
     (let src1_low = read_vec_mov (state c) (op_register (instr c) 1) AND simd_mask 8;
          src2_low = read_vec_mov (state c) (op_register (instr c) 2) AND simd_mask 8
      in put_vec_mov (op_register (instr c) 0) (src1_low OR push_bit 64 src2_low) True c)"

definition vmovhlps :: "'w handler" where
  "vmovhlps c =
     (let src1_high = drop_bit 64 (read_vec_mov (state c) (op_register (instr c) 1)) AND simd_mask 8;
          src2_high = drop_bit 64 (read_vec_mov (state c) (op_register (instr c) 2)) AND simd_mask 8
      in put_vec_mov (op_register (instr c) 0) (src2_high OR push_bit 64 src1_high) True c)"

section \<open>Handlers\<close>

definition handle_code_MOVAPS_XMM_XMMM128 :: "'w handler" where
  "handle_code_MOVAPS_XMM_XMMM128 = full_move 0 1 False"

definition handle_code_MOVAPD_XMM_XMMM128 :: "'w handler" where
  "handle_code_MOVAPD_XMM_XMMM128 = full_move 0 1 False"

definition handle_code_MOVUPS_XMM_XMMM128 :: "'w handler" where
  "handle_code_MOVUPS_XMM_XMMM128 = full_move 0 1 False"

definition handle_code_MOVUPD_XMM_XMMM128 :: "'w handler" where
  "handle_code_MOVUPD_XMM_XMMM128 = full_move 0 1 False"

definition handle_code_MOVSS_XMM_XMMM32 :: "'w handler" where
  "handle_code_MOVSS_XMM_XMMM32 = low_move_legacy_scalar_load 0 1 4"

definition handle_code_MOVSD_XMM_XMMM64 :: "'w handler" where
  "handle_code_MOVSD_XMM_XMMM64 = low_move_legacy_scalar_load 0 1 8"

definition handle_code_MOVAPS_XMMM128_XMM :: "'w handler" where
  "handle_code_MOVAPS_XMMM128_XMM = full_move 0 1 False"

definition handle_code_MOVAPD_XMMM128_XMM :: "'w handler" where
  "handle_code_MOVAPD_XMMM128_XMM = full_move 0 1 False"

definition handle_code_MOVUPS_XMMM128_XMM :: "'w handler" where
  "handle_code_MOVUPS_XMMM128_XMM = full_move 0 1 False"

definition handle_code_MOVUPD_XMMM128_XMM :: "'w handler" where
  "handle_code_MOVUPD_XMMM128_XMM = full_move 0 1 False"

definition handle_code_MOVSS_XMMM32_XMM :: "'w handler" where
  "handle_code_MOVSS_XMMM32_XMM = low_move 0 1 4 False"

definition handle_code_MOVSD_XMMM64_XMM :: "'w handler" where
  "handle_code_MOVSD_XMMM64_XMM = low_move 0 1 8 False"

definition handle_code_MOVDQA_XMM_XMMM128 :: "'w handler" where
  "handle_code_MOVDQA_XMM_XMMM128 = full_move 0 1 False"

definition handle_code_MOVDQU_XMM_XMMM128 :: "'w handler" where
  "handle_code_MOVDQU_XMM_XMMM128 = full_move 0 1 False"

definition handle_code_LDDQU_XMM_M128 :: "'w handler" where
  "handle_code_LDDQU_XMM_M128 = full_move 0 1 False"

definition handle_code_MOVDQA_XMMM128_XMM :: "'w handler" where
  "handle_code_MOVDQA_XMMM128_XMM = full_move 0 1 False"

definition handle_code_MOVDQU_XMMM128_XMM :: "'w handler" where
  "handle_code_MOVDQU_XMMM128_XMM = full_move 0 1 False"

definition handle_code_MOVLPS_XMM_M64 :: "'w handler" where
  "handle_code_MOVLPS_XMM_M64 = low_move 0 1 8 False"

definition handle_code_MOVLPD_XMM_M64 :: "'w handler" where
  "handle_code_MOVLPD_XMM_M64 = low_move 0 1 8 False"

definition handle_code_MOVHPS_XMM_M64 :: "'w handler" where
  "handle_code_MOVHPS_XMM_M64 = merge_high_move 0 1 2 8 False"

definition handle_code_MOVHPD_XMM_M64 :: "'w handler" where
  "handle_code_MOVHPD_XMM_M64 = merge_high_move 0 1 2 8 False"

definition handle_code_MOVLHPS_XMM_XMM :: "'w handler" where
  "handle_code_MOVLHPS_XMM_XMM = movlhps_legacy"

definition handle_code_MOVHLPS_XMM_XMM :: "'w handler" where
  "handle_code_MOVHLPS_XMM_XMM = movhlps_legacy"

definition handle_code_MOVLPS_M64_XMM :: "'w handler" where
  "handle_code_MOVLPS_M64_XMM = xmm_to_gpr 0 1 8"

definition handle_code_MOVLPD_M64_XMM :: "'w handler" where
  "handle_code_MOVLPD_M64_XMM = xmm_to_gpr 0 1 8"

definition handle_code_MOVHPS_M64_XMM :: "'w handler" where
  "handle_code_MOVHPS_M64_XMM = high_lane_to_gpr 0 1 8"

definition handle_code_MOVHPD_M64_XMM :: "'w handler" where
  "handle_code_MOVHPD_M64_XMM = high_lane_to_gpr 0 1 8"

definition handle_code_MOVD_XMM_RM32 :: "'w handler" where
  "handle_code_MOVD_XMM_RM32 = gpr_to_xmm 0 1 4"

definition handle_code_MOVQ_XMM_RM64 :: "'w handler" where
  "handle_code_MOVQ_XMM_RM64 = gpr_to_xmm 0 1 8"

definition handle_code_MOVD_RM32_XMM :: "'w handler" where
  "handle_code_MOVD_RM32_XMM = xmm_to_gpr 0 1 4"

definition handle_code_MOVQ_RM64_XMM :: "'w handler" where
  "handle_code_MOVQ_RM64_XMM = xmm_to_gpr 0 1 8"

definition handle_code_PEXTRW_R32_XMM_IMM8 :: "'w handler" where
  "handle_code_PEXTRW_R32_XMM_IMM8 = pextrw_to_gpr_or_mem"

definition handle_code_PEXTRW_R64_XMM_IMM8 :: "'w handler" where
  "handle_code_PEXTRW_R64_XMM_IMM8 = pextrw_to_gpr_or_mem"

definition handle_code_PEXTRW_R32M16_XMM_IMM8 :: "'w handler" where
  "handle_code_PEXTRW_R32M16_XMM_IMM8 = pextrw_to_gpr_or_mem"

definition handle_code_PEXTRW_R64M16_XMM_IMM8 :: "'w handler" where
  "handle_code_PEXTRW_R64M16_XMM_IMM8 = pextrw_to_gpr_or_mem"

definition handle_code_MOVQ_XMM_XMMM64 :: "'w handler" where
  "handle_code_MOVQ_XMM_XMMM64 = low_move 0 1 8 True"

definition handle_code_MOVQ_XMMM64_XMM :: "'w handler" where
  "handle_code_MOVQ_XMMM64_XMM = low_move 0 1 8 True"

definition handle_code_MOVNTPS_M128_XMM :: "'w handler" where
  "handle_code_MOVNTPS_M128_XMM = xmm_to_gpr 0 1 16"

definition handle_code_MOVNTPD_M128_XMM :: "'w handler" where
  "handle_code_MOVNTPD_M128_XMM = xmm_to_gpr 0 1 16"

definition handle_code_MOVNTDQ_M128_XMM :: "'w handler" where
  "handle_code_MOVNTDQ_M128_XMM = xmm_to_gpr 0 1 16"

definition handle_code_MOVNTDQA_XMM_M128 :: "'w handler" where
  "handle_code_MOVNTDQA_XMM_M128 = full_move 0 1 False"

definition handle_code_VEX_VMOVAPS_XMM_XMMM128 :: "'w handler" where
  "handle_code_VEX_VMOVAPS_XMM_XMMM128 = full_move 0 1 True"

definition handle_code_VEX_VMOVAPS_YMM_YMMM256 :: "'w handler" where
  "handle_code_VEX_VMOVAPS_YMM_YMMM256 = full_move 0 1 True"

definition handle_code_VEX_VMOVAPS_XMMM128_XMM :: "'w handler" where
  "handle_code_VEX_VMOVAPS_XMMM128_XMM = full_move 0 1 True"

definition handle_code_VEX_VMOVAPS_YMMM256_YMM :: "'w handler" where
  "handle_code_VEX_VMOVAPS_YMMM256_YMM = full_move 0 1 True"

definition handle_code_VEX_VMOVAPD_XMM_XMMM128 :: "'w handler" where
  "handle_code_VEX_VMOVAPD_XMM_XMMM128 = full_move 0 1 True"

definition handle_code_VEX_VMOVAPD_YMM_YMMM256 :: "'w handler" where
  "handle_code_VEX_VMOVAPD_YMM_YMMM256 = full_move 0 1 True"

definition handle_code_VEX_VMOVAPD_XMMM128_XMM :: "'w handler" where
  "handle_code_VEX_VMOVAPD_XMMM128_XMM = full_move 0 1 True"

definition handle_code_VEX_VMOVAPD_YMMM256_YMM :: "'w handler" where
  "handle_code_VEX_VMOVAPD_YMMM256_YMM = full_move 0 1 True"

definition handle_code_VEX_VMOVUPS_XMM_XMMM128 :: "'w handler" where
  "handle_code_VEX_VMOVUPS_XMM_XMMM128 = full_move 0 1 True"

definition handle_code_VEX_VMOVUPS_YMM_YMMM256 :: "'w handler" where
  "handle_code_VEX_VMOVUPS_YMM_YMMM256 = full_move 0 1 True"

definition handle_code_VEX_VMOVUPS_XMMM128_XMM :: "'w handler" where
  "handle_code_VEX_VMOVUPS_XMMM128_XMM = full_move 0 1 True"

definition handle_code_VEX_VMOVUPS_YMMM256_YMM :: "'w handler" where
  "handle_code_VEX_VMOVUPS_YMMM256_YMM = full_move 0 1 True"

definition handle_code_VEX_VMOVUPD_XMM_XMMM128 :: "'w handler" where
  "handle_code_VEX_VMOVUPD_XMM_XMMM128 = full_move 0 1 True"

definition handle_code_VEX_VMOVUPD_YMM_YMMM256 :: "'w handler" where
  "handle_code_VEX_VMOVUPD_YMM_YMMM256 = full_move 0 1 True"

definition handle_code_VEX_VMOVUPD_XMMM128_XMM :: "'w handler" where
  "handle_code_VEX_VMOVUPD_XMMM128_XMM = full_move 0 1 True"

definition handle_code_VEX_VMOVUPD_YMMM256_YMM :: "'w handler" where
  "handle_code_VEX_VMOVUPD_YMMM256_YMM = full_move 0 1 True"

definition handle_code_VEX_VMOVSS_XMM_XMM_XMM :: "'w handler" where
  "handle_code_VEX_VMOVSS_XMM_XMM_XMM = merge_low_move 0 1 2 4 True"

definition handle_code_VEX_VMOVSS_XMM_XMM_XMM_0_F11 :: "'w handler" where
  "handle_code_VEX_VMOVSS_XMM_XMM_XMM_0_F11 = merge_low_move 0 1 2 4 True"

definition handle_code_VEX_VMOVSS_XMM_M32 :: "'w handler" where
  "handle_code_VEX_VMOVSS_XMM_M32 = low_move 0 1 4 True"

definition handle_code_VEX_VMOVSS_M32_XMM :: "'w handler" where
  "handle_code_VEX_VMOVSS_M32_XMM = low_move 0 1 4 False"

definition handle_code_VEX_VMOVSD_XMM_XMM_XMM :: "'w handler" where
  "handle_code_VEX_VMOVSD_XMM_XMM_XMM = merge_low_move 0 1 2 8 True"

definition handle_code_VEX_VMOVSD_XMM_XMM_XMM_0_F11 :: "'w handler" where
  "handle_code_VEX_VMOVSD_XMM_XMM_XMM_0_F11 = merge_low_move 0 1 2 8 True"

definition handle_code_VEX_VMOVSD_XMM_M64 :: "'w handler" where
  "handle_code_VEX_VMOVSD_XMM_M64 = low_move 0 1 8 True"

definition handle_code_VEX_VMOVSD_M64_XMM :: "'w handler" where
  "handle_code_VEX_VMOVSD_M64_XMM = low_move 0 1 8 False"

definition handle_code_VEX_VMOVDQA_XMM_XMMM128 :: "'w handler" where
  "handle_code_VEX_VMOVDQA_XMM_XMMM128 = full_move 0 1 True"

definition handle_code_VEX_VMOVDQA_YMM_YMMM256 :: "'w handler" where
  "handle_code_VEX_VMOVDQA_YMM_YMMM256 = full_move 0 1 True"

definition handle_code_VEX_VMOVDQA_XMMM128_XMM :: "'w handler" where
  "handle_code_VEX_VMOVDQA_XMMM128_XMM = full_move 0 1 True"

definition handle_code_VEX_VMOVDQA_YMMM256_YMM :: "'w handler" where
  "handle_code_VEX_VMOVDQA_YMMM256_YMM = full_move 0 1 True"

definition handle_code_VEX_VMOVDQU_XMM_XMMM128 :: "'w handler" where
  "handle_code_VEX_VMOVDQU_XMM_XMMM128 = full_move 0 1 True"

definition handle_code_VEX_VMOVDQU_YMM_YMMM256 :: "'w handler" where
  "handle_code_VEX_VMOVDQU_YMM_YMMM256 = full_move 0 1 True"

definition handle_code_VEX_VMOVDQU_XMMM128_XMM :: "'w handler" where
  "handle_code_VEX_VMOVDQU_XMMM128_XMM = full_move 0 1 True"

definition handle_code_VEX_VMOVDQU_YMMM256_YMM :: "'w handler" where
  "handle_code_VEX_VMOVDQU_YMMM256_YMM = full_move 0 1 True"

definition handle_code_VEX_VMOVD_XMM_RM32 :: "'w handler" where
  "handle_code_VEX_VMOVD_XMM_RM32 = gpr_to_xmm 0 1 4"

definition handle_code_VEX_VMOVQ_XMM_RM64 :: "'w handler" where
  "handle_code_VEX_VMOVQ_XMM_RM64 = gpr_to_xmm 0 1 8"

definition handle_code_VEX_VMOVD_RM32_XMM :: "'w handler" where
  "handle_code_VEX_VMOVD_RM32_XMM = xmm_to_gpr 0 1 4"

definition handle_code_VEX_VMOVQ_RM64_XMM :: "'w handler" where
  "handle_code_VEX_VMOVQ_RM64_XMM = xmm_to_gpr 0 1 8"

definition handle_code_VEX_VMOVQ_XMM_XMMM64 :: "'w handler" where
  "handle_code_VEX_VMOVQ_XMM_XMMM64 = low_move 0 1 8 True"

definition handle_code_VEX_VMOVQ_XMMM64_XMM :: "'w handler" where
  "handle_code_VEX_VMOVQ_XMMM64_XMM = low_move 0 1 8 True"

definition handle_code_VEX_VMOVLPS_XMM_XMM_M64 :: "'w handler" where
  "handle_code_VEX_VMOVLPS_XMM_XMM_M64 = merge_high_move 0 1 2 8 True"

definition handle_code_VEX_VMOVLPS_M64_XMM :: "'w handler" where
  "handle_code_VEX_VMOVLPS_M64_XMM = xmm_to_gpr 0 1 8"

definition handle_code_VEX_VMOVLPD_XMM_XMM_M64 :: "'w handler" where
  "handle_code_VEX_VMOVLPD_XMM_XMM_M64 = merge_high_move 0 1 2 8 True"

definition handle_code_VEX_VMOVLPD_M64_XMM :: "'w handler" where
  "handle_code_VEX_VMOVLPD_M64_XMM = xmm_to_gpr 0 1 8"

definition handle_code_VEX_VMOVHPS_XMM_XMM_M64 :: "'w handler" where
  "handle_code_VEX_VMOVHPS_XMM_XMM_M64 = merge_high_move 0 1 2 8 True"

definition handle_code_VEX_VMOVLHPS_XMM_XMM_XMM :: "'w handler" where
  "handle_code_VEX_VMOVLHPS_XMM_XMM_XMM = vmovlhps"

definition handle_code_VEX_VMOVHLPS_XMM_XMM_XMM :: "'w handler" where
  "handle_code_VEX_VMOVHLPS_XMM_XMM_XMM = vmovhlps"

definition handle_code_VEX_VMOVHPS_M64_XMM :: "'w handler" where
  "handle_code_VEX_VMOVHPS_M64_XMM = high_lane_to_gpr 0 1 8"

definition handle_code_VEX_VMOVHPD_XMM_XMM_M64 :: "'w handler" where
  "handle_code_VEX_VMOVHPD_XMM_XMM_M64 = merge_high_move 0 1 2 8 True"

definition handle_code_VEX_VMOVHPD_M64_XMM :: "'w handler" where
  "handle_code_VEX_VMOVHPD_M64_XMM = high_lane_to_gpr 0 1 8"

definition handle_code_VEX_VMOVNTPS_M128_XMM :: "'w handler" where
  "handle_code_VEX_VMOVNTPS_M128_XMM = xmm_to_gpr 0 1 16"

definition handle_code_VEX_VMOVNTPS_M256_YMM :: "'w handler" where
  "handle_code_VEX_VMOVNTPS_M256_YMM = xmm_to_gpr 0 1 32"

definition handle_code_VEX_VMOVNTPD_M128_XMM :: "'w handler" where
  "handle_code_VEX_VMOVNTPD_M128_XMM = xmm_to_gpr 0 1 16"

definition handle_code_VEX_VMOVNTPD_M256_YMM :: "'w handler" where
  "handle_code_VEX_VMOVNTPD_M256_YMM = xmm_to_gpr 0 1 32"

definition handle_code_VEX_VMOVNTDQ_M128_XMM :: "'w handler" where
  "handle_code_VEX_VMOVNTDQ_M128_XMM = xmm_to_gpr 0 1 16"

definition handle_code_VEX_VMOVNTDQ_M256_YMM :: "'w handler" where
  "handle_code_VEX_VMOVNTDQ_M256_YMM = xmm_to_gpr 0 1 32"

definition handle_code_VEX_VMOVNTDQA_XMM_M128 :: "'w handler" where
  "handle_code_VEX_VMOVNTDQA_XMM_M128 = full_move 0 1 True"

definition handle_code_VEX_VMOVNTDQA_YMM_M256 :: "'w handler" where
  "handle_code_VEX_VMOVNTDQA_YMM_M256 = full_move 0 1 True"

definition handle_code_EVEX_VMOVAPS_XMM_K1Z_XMMM128 :: "'w handler" where
  "handle_code_EVEX_VMOVAPS_XMM_K1Z_XMMM128 = full_move 0 1 True"

definition handle_code_EVEX_VMOVAPS_YMM_K1Z_YMMM256 :: "'w handler" where
  "handle_code_EVEX_VMOVAPS_YMM_K1Z_YMMM256 = full_move 0 1 True"

definition handle_code_EVEX_VMOVAPS_ZMM_K1Z_ZMMM512 :: "'w handler" where
  "handle_code_EVEX_VMOVAPS_ZMM_K1Z_ZMMM512 = full_move 0 1 True"

definition handle_code_EVEX_VMOVAPS_XMMM128_K1Z_XMM :: "'w handler" where
  "handle_code_EVEX_VMOVAPS_XMMM128_K1Z_XMM = full_move 0 1 True"

definition handle_code_EVEX_VMOVAPS_YMMM256_K1Z_YMM :: "'w handler" where
  "handle_code_EVEX_VMOVAPS_YMMM256_K1Z_YMM = full_move 0 1 True"

definition handle_code_EVEX_VMOVAPS_ZMMM512_K1Z_ZMM :: "'w handler" where
  "handle_code_EVEX_VMOVAPS_ZMMM512_K1Z_ZMM = full_move 0 1 True"

definition handle_code_EVEX_VMOVAPD_XMM_K1Z_XMMM128 :: "'w handler" where
  "handle_code_EVEX_VMOVAPD_XMM_K1Z_XMMM128 = full_move 0 1 True"

definition handle_code_EVEX_VMOVAPD_YMM_K1Z_YMMM256 :: "'w handler" where
  "handle_code_EVEX_VMOVAPD_YMM_K1Z_YMMM256 = full_move 0 1 True"

definition handle_code_EVEX_VMOVAPD_ZMM_K1Z_ZMMM512 :: "'w handler" where
  "handle_code_EVEX_VMOVAPD_ZMM_K1Z_ZMMM512 = full_move 0 1 True"

definition handle_code_EVEX_VMOVAPD_XMMM128_K1Z_XMM :: "'w handler" where
  "handle_code_EVEX_VMOVAPD_XMMM128_K1Z_XMM = full_move 0 1 True"

definition handle_code_EVEX_VMOVAPD_YMMM256_K1Z_YMM :: "'w handler" where
  "handle_code_EVEX_VMOVAPD_YMMM256_K1Z_YMM = full_move 0 1 True"

definition handle_code_EVEX_VMOVAPD_ZMMM512_K1Z_ZMM :: "'w handler" where
  "handle_code_EVEX_VMOVAPD_ZMMM512_K1Z_ZMM = full_move 0 1 True"

definition handle_code_EVEX_VMOVUPS_XMM_K1Z_XMMM128 :: "'w handler" where
  "handle_code_EVEX_VMOVUPS_XMM_K1Z_XMMM128 = full_move 0 1 True"

definition handle_code_EVEX_VMOVUPS_YMM_K1Z_YMMM256 :: "'w handler" where
  "handle_code_EVEX_VMOVUPS_YMM_K1Z_YMMM256 = full_move 0 1 True"

definition handle_code_EVEX_VMOVUPS_ZMM_K1Z_ZMMM512 :: "'w handler" where
  "handle_code_EVEX_VMOVUPS_ZMM_K1Z_ZMMM512 = full_move 0 1 True"

definition handle_code_EVEX_VMOVUPS_XMMM128_K1Z_XMM :: "'w handler" where
  "handle_code_EVEX_VMOVUPS_XMMM128_K1Z_XMM = full_move 0 1 True"

definition handle_code_EVEX_VMOVUPS_YMMM256_K1Z_YMM :: "'w handler" where
  "handle_code_EVEX_VMOVUPS_YMMM256_K1Z_YMM = full_move 0 1 True"

definition handle_code_EVEX_VMOVUPS_ZMMM512_K1Z_ZMM :: "'w handler" where
  "handle_code_EVEX_VMOVUPS_ZMMM512_K1Z_ZMM = full_move 0 1 True"

definition handle_code_EVEX_VMOVUPD_XMM_K1Z_XMMM128 :: "'w handler" where
  "handle_code_EVEX_VMOVUPD_XMM_K1Z_XMMM128 = full_move 0 1 True"

definition handle_code_EVEX_VMOVUPD_YMM_K1Z_YMMM256 :: "'w handler" where
  "handle_code_EVEX_VMOVUPD_YMM_K1Z_YMMM256 = full_move 0 1 True"

definition handle_code_EVEX_VMOVUPD_ZMM_K1Z_ZMMM512 :: "'w handler" where
  "handle_code_EVEX_VMOVUPD_ZMM_K1Z_ZMMM512 = full_move 0 1 True"

definition handle_code_EVEX_VMOVUPD_XMMM128_K1Z_XMM :: "'w handler" where
  "handle_code_EVEX_VMOVUPD_XMMM128_K1Z_XMM = full_move 0 1 True"

definition handle_code_EVEX_VMOVUPD_YMMM256_K1Z_YMM :: "'w handler" where
  "handle_code_EVEX_VMOVUPD_YMMM256_K1Z_YMM = full_move 0 1 True"

definition handle_code_EVEX_VMOVUPD_ZMMM512_K1Z_ZMM :: "'w handler" where
  "handle_code_EVEX_VMOVUPD_ZMMM512_K1Z_ZMM = full_move 0 1 True"

definition handle_code_EVEX_VMOVSS_XMM_K1Z_XMM_XMM :: "'w handler" where
  "handle_code_EVEX_VMOVSS_XMM_K1Z_XMM_XMM = merge_low_move 0 1 2 4 True"

definition handle_code_EVEX_VMOVSS_XMM_K1Z_XMM_XMM_0_F11 :: "'w handler" where
  "handle_code_EVEX_VMOVSS_XMM_K1Z_XMM_XMM_0_F11 = merge_low_move 0 1 2 4 True"

definition handle_code_EVEX_VMOVSS_XMM_K1Z_M32 :: "'w handler" where
  "handle_code_EVEX_VMOVSS_XMM_K1Z_M32 = low_move 0 1 4 True"

definition handle_code_EVEX_VMOVSS_M32_K1_XMM :: "'w handler" where
  "handle_code_EVEX_VMOVSS_M32_K1_XMM = low_move 0 1 4 False"

definition handle_code_EVEX_VMOVSD_XMM_K1Z_XMM_XMM :: "'w handler" where
  "handle_code_EVEX_VMOVSD_XMM_K1Z_XMM_XMM = merge_low_move 0 1 2 8 True"

definition handle_code_EVEX_VMOVSD_XMM_K1Z_XMM_XMM_0_F11 :: "'w handler" where
  "handle_code_EVEX_VMOVSD_XMM_K1Z_XMM_XMM_0_F11 = merge_low_move 0 1 2 8 True"

definition handle_code_EVEX_VMOVSD_XMM_K1Z_M64 :: "'w handler" where
  "handle_code_EVEX_VMOVSD_XMM_K1Z_M64 = low_move 0 1 8 True"

definition handle_code_EVEX_VMOVSD_M64_K1_XMM :: "'w handler" where
  "handle_code_EVEX_VMOVSD_M64_K1_XMM = low_move 0 1 8 False"

definition handle_code_EVEX_VMOVDQA32_XMM_K1Z_XMMM128 :: "'w handler" where
  "handle_code_EVEX_VMOVDQA32_XMM_K1Z_XMMM128 = full_move 0 1 True"

definition handle_code_EVEX_VMOVDQA32_YMM_K1Z_YMMM256 :: "'w handler" where
  "handle_code_EVEX_VMOVDQA32_YMM_K1Z_YMMM256 = full_move 0 1 True"

definition handle_code_EVEX_VMOVDQA32_ZMM_K1Z_ZMMM512 :: "'w handler" where
  "handle_code_EVEX_VMOVDQA32_ZMM_K1Z_ZMMM512 = full_move 0 1 True"

definition handle_code_EVEX_VMOVDQA32_XMMM128_K1Z_XMM :: "'w handler" where
  "handle_code_EVEX_VMOVDQA32_XMMM128_K1Z_XMM = full_move 0 1 True"

definition handle_code_EVEX_VMOVDQA32_YMMM256_K1Z_YMM :: "'w handler" where
  "handle_code_EVEX_VMOVDQA32_YMMM256_K1Z_YMM = full_move 0 1 True"

definition handle_code_EVEX_VMOVDQA32_ZMMM512_K1Z_ZMM :: "'w handler" where
  "handle_code_EVEX_VMOVDQA32_ZMMM512_K1Z_ZMM = full_move 0 1 True"

definition handle_code_EVEX_VMOVDQA64_XMM_K1Z_XMMM128 :: "'w handler" where
  "handle_code_EVEX_VMOVDQA64_XMM_K1Z_XMMM128 = full_move 0 1 True"

definition handle_code_EVEX_VMOVDQA64_YMM_K1Z_YMMM256 :: "'w handler" where
  "handle_code_EVEX_VMOVDQA64_YMM_K1Z_YMMM256 = full_move 0 1 True"

definition handle_code_EVEX_VMOVDQA64_ZMM_K1Z_ZMMM512 :: "'w handler" where
  "handle_code_EVEX_VMOVDQA64_ZMM_K1Z_ZMMM512 = full_move 0 1 True"

definition handle_code_EVEX_VMOVDQA64_XMMM128_K1Z_XMM :: "'w handler" where
  "handle_code_EVEX_VMOVDQA64_XMMM128_K1Z_XMM = full_move 0 1 True"

definition handle_code_EVEX_VMOVDQA64_YMMM256_K1Z_YMM :: "'w handler" where
  "handle_code_EVEX_VMOVDQA64_YMMM256_K1Z_YMM = full_move 0 1 True"

definition handle_code_EVEX_VMOVDQA64_ZMMM512_K1Z_ZMM :: "'w handler" where
  "handle_code_EVEX_VMOVDQA64_ZMMM512_K1Z_ZMM = full_move 0 1 True"

definition handle_code_EVEX_VMOVDQU32_XMM_K1Z_XMMM128 :: "'w handler" where
  "handle_code_EVEX_VMOVDQU32_XMM_K1Z_XMMM128 = full_move 0 1 True"

definition handle_code_EVEX_VMOVDQU32_YMM_K1Z_YMMM256 :: "'w handler" where
  "handle_code_EVEX_VMOVDQU32_YMM_K1Z_YMMM256 = full_move 0 1 True"

definition handle_code_EVEX_VMOVDQU32_ZMM_K1Z_ZMMM512 :: "'w handler" where
  "handle_code_EVEX_VMOVDQU32_ZMM_K1Z_ZMMM512 = full_move 0 1 True"

definition handle_code_EVEX_VMOVDQU32_XMMM128_K1Z_XMM :: "'w handler" where
  "handle_code_EVEX_VMOVDQU32_XMMM128_K1Z_XMM = full_move 0 1 True"

definition handle_code_EVEX_VMOVDQU32_YMMM256_K1Z_YMM :: "'w handler" where
  "handle_code_EVEX_VMOVDQU32_YMMM256_K1Z_YMM = full_move 0 1 True"

definition handle_code_EVEX_VMOVDQU32_ZMMM512_K1Z_ZMM :: "'w handler" where
  "handle_code_EVEX_VMOVDQU32_ZMMM512_K1Z_ZMM = full_move 0 1 True"

definition handle_code_EVEX_VMOVDQU64_XMM_K1Z_XMMM128 :: "'w handler" where
  "handle_code_EVEX_VMOVDQU64_XMM_K1Z_XMMM128 = full_move 0 1 True"

definition handle_code_EVEX_VMOVDQU64_YMM_K1Z_YMMM256 :: "'w handler" where
  "handle_code_EVEX_VMOVDQU64_YMM_K1Z_YMMM256 = full_move 0 1 True"

definition handle_code_EVEX_VMOVDQU64_ZMM_K1Z_ZMMM512 :: "'w handler" where
  "handle_code_EVEX_VMOVDQU64_ZMM_K1Z_ZMMM512 = full_move 0 1 True"

definition handle_code_EVEX_VMOVDQU64_XMMM128_K1Z_XMM :: "'w handler" where
  "handle_code_EVEX_VMOVDQU64_XMMM128_K1Z_XMM = full_move 0 1 True"

definition handle_code_EVEX_VMOVDQU64_YMMM256_K1Z_YMM :: "'w handler" where
  "handle_code_EVEX_VMOVDQU64_YMMM256_K1Z_YMM = full_move 0 1 True"

definition handle_code_EVEX_VMOVDQU64_ZMMM512_K1Z_ZMM :: "'w handler" where
  "handle_code_EVEX_VMOVDQU64_ZMMM512_K1Z_ZMM = full_move 0 1 True"

definition handle_code_EVEX_VMOVDQU8_XMM_K1Z_XMMM128 :: "'w handler" where
  "handle_code_EVEX_VMOVDQU8_XMM_K1Z_XMMM128 = full_move 0 1 True"

definition handle_code_EVEX_VMOVDQU8_YMM_K1Z_YMMM256 :: "'w handler" where
  "handle_code_EVEX_VMOVDQU8_YMM_K1Z_YMMM256 = full_move 0 1 True"

definition handle_code_EVEX_VMOVDQU8_ZMM_K1Z_ZMMM512 :: "'w handler" where
  "handle_code_EVEX_VMOVDQU8_ZMM_K1Z_ZMMM512 = full_move 0 1 True"

definition handle_code_EVEX_VMOVDQU8_XMMM128_K1Z_XMM :: "'w handler" where
  "handle_code_EVEX_VMOVDQU8_XMMM128_K1Z_XMM = full_move 0 1 True"

definition handle_code_EVEX_VMOVDQU8_YMMM256_K1Z_YMM :: "'w handler" where
  "handle_code_EVEX_VMOVDQU8_YMMM256_K1Z_YMM = full_move 0 1 True"

definition handle_code_EVEX_VMOVDQU8_ZMMM512_K1Z_ZMM :: "'w handler" where
  "handle_code_EVEX_VMOVDQU8_ZMMM512_K1Z_ZMM = full_move 0 1 True"

definition handle_code_EVEX_VMOVDQU16_XMM_K1Z_XMMM128 :: "'w handler" where
  "handle_code_EVEX_VMOVDQU16_XMM_K1Z_XMMM128 = full_move 0 1 True"

definition handle_code_EVEX_VMOVDQU16_YMM_K1Z_YMMM256 :: "'w handler" where
  "handle_code_EVEX_VMOVDQU16_YMM_K1Z_YMMM256 = full_move 0 1 True"

definition handle_code_EVEX_VMOVDQU16_ZMM_K1Z_ZMMM512 :: "'w handler" where
  "handle_code_EVEX_VMOVDQU16_ZMM_K1Z_ZMMM512 = full_move 0 1 True"

definition handle_code_EVEX_VMOVDQU16_XMMM128_K1Z_XMM :: "'w handler" where
  "handle_code_EVEX_VMOVDQU16_XMMM128_K1Z_XMM = full_move 0 1 True"

definition handle_code_EVEX_VMOVDQU16_YMMM256_K1Z_YMM :: "'w handler" where
  "handle_code_EVEX_VMOVDQU16_YMMM256_K1Z_YMM = full_move 0 1 True"

definition handle_code_EVEX_VMOVDQU16_ZMMM512_K1Z_ZMM :: "'w handler" where
  "handle_code_EVEX_VMOVDQU16_ZMMM512_K1Z_ZMM = full_move 0 1 True"

definition handle_code_EVEX_VMOVD_XMM_RM32 :: "'w handler" where
  "handle_code_EVEX_VMOVD_XMM_RM32 = gpr_to_xmm 0 1 4"

definition handle_code_EVEX_VMOVQ_XMM_RM64 :: "'w handler" where
  "handle_code_EVEX_VMOVQ_XMM_RM64 = gpr_to_xmm 0 1 8"

definition handle_code_EVEX_VMOVD_RM32_XMM :: "'w handler" where
  "handle_code_EVEX_VMOVD_RM32_XMM = xmm_to_gpr 0 1 4"

definition handle_code_EVEX_VMOVQ_RM64_XMM :: "'w handler" where
  "handle_code_EVEX_VMOVQ_RM64_XMM = xmm_to_gpr 0 1 8"

definition handle_code_EVEX_VMOVQ_XMM_XMMM64 :: "'w handler" where
  "handle_code_EVEX_VMOVQ_XMM_XMMM64 = low_move 0 1 8 True"

definition handle_code_EVEX_VMOVQ_XMMM64_XMM :: "'w handler" where
  "handle_code_EVEX_VMOVQ_XMMM64_XMM = low_move 0 1 8 True"

definition handle_code_EVEX_VMOVLPS_XMM_XMM_M64 :: "'w handler" where
  "handle_code_EVEX_VMOVLPS_XMM_XMM_M64 = merge_high_move 0 1 2 8 True"

definition handle_code_EVEX_VMOVLPS_M64_XMM :: "'w handler" where
  "handle_code_EVEX_VMOVLPS_M64_XMM = xmm_to_gpr 0 1 8"

definition handle_code_EVEX_VMOVLPD_XMM_XMM_M64 :: "'w handler" where
  "handle_code_EVEX_VMOVLPD_XMM_XMM_M64 = merge_high_move 0 1 2 8 True"

definition handle_code_EVEX_VMOVLPD_M64_XMM :: "'w handler" where
  "handle_code_EVEX_VMOVLPD_M64_XMM = xmm_to_gpr 0 1 8"

definition handle_code_EVEX_VMOVHPS_XMM_XMM_M64 :: "'w handler" where
  "handle_code_EVEX_VMOVHPS_XMM_XMM_M64 = merge_high_move 0 1 2 8 True"

definition handle_code_EVEX_VMOVLHPS_XMM_XMM_XMM :: "'w handler" where
  "handle_code_EVEX_VMOVLHPS_XMM_XMM_XMM = vmovlhps"

definition handle_code_EVEX_VMOVHLPS_XMM_XMM_XMM :: "'w handler" where
  "handle_code_EVEX_VMOVHLPS_XMM_XMM_XMM = vmovhlps"

definition handle_code_EVEX_VMOVHPS_M64_XMM :: "'w handler" where
  "handle_code_EVEX_VMOVHPS_M64_XMM = high_lane_to_gpr 0 1 8"

definition handle_code_EVEX_VMOVHPD_XMM_XMM_M64 :: "'w handler" where
  "handle_code_EVEX_VMOVHPD_XMM_XMM_M64 = merge_high_move 0 1 2 8 True"

definition handle_code_EVEX_VMOVHPD_M64_XMM :: "'w handler" where
  "handle_code_EVEX_VMOVHPD_M64_XMM = high_lane_to_gpr 0 1 8"

definition handle_code_EVEX_VMOVNTPS_M128_XMM :: "'w handler" where
  "handle_code_EVEX_VMOVNTPS_M128_XMM = xmm_to_gpr 0 1 16"

definition handle_code_EVEX_VMOVNTPS_M256_YMM :: "'w handler" where
  "handle_code_EVEX_VMOVNTPS_M256_YMM = xmm_to_gpr 0 1 32"

definition handle_code_EVEX_VMOVNTPS_M512_ZMM :: "'w handler" where
  "handle_code_EVEX_VMOVNTPS_M512_ZMM = xmm_to_gpr 0 1 64"

definition handle_code_EVEX_VMOVNTPD_M128_XMM :: "'w handler" where
  "handle_code_EVEX_VMOVNTPD_M128_XMM = xmm_to_gpr 0 1 16"

definition handle_code_EVEX_VMOVNTPD_M256_YMM :: "'w handler" where
  "handle_code_EVEX_VMOVNTPD_M256_YMM = xmm_to_gpr 0 1 32"

definition handle_code_EVEX_VMOVNTPD_M512_ZMM :: "'w handler" where
  "handle_code_EVEX_VMOVNTPD_M512_ZMM = xmm_to_gpr 0 1 64"

definition handle_code_EVEX_VMOVNTDQ_M128_XMM :: "'w handler" where
  "handle_code_EVEX_VMOVNTDQ_M128_XMM = xmm_to_gpr 0 1 16"

definition handle_code_EVEX_VMOVNTDQ_M256_YMM :: "'w handler" where
  "handle_code_EVEX_VMOVNTDQ_M256_YMM = xmm_to_gpr 0 1 32"

definition handle_code_EVEX_VMOVNTDQ_M512_ZMM :: "'w handler" where
  "handle_code_EVEX_VMOVNTDQ_M512_ZMM = xmm_to_gpr 0 1 64"

definition handle_code_EVEX_VMOVNTDQA_XMM_M128 :: "'w handler" where
  "handle_code_EVEX_VMOVNTDQA_XMM_M128 = full_move 0 1 True"

definition handle_code_EVEX_VMOVNTDQA_YMM_M256 :: "'w handler" where
  "handle_code_EVEX_VMOVNTDQA_YMM_M256 = full_move 0 1 True"

definition handle_code_EVEX_VMOVNTDQA_ZMM_M512 :: "'w handler" where
  "handle_code_EVEX_VMOVNTDQA_ZMM_M512 = full_move 0 1 True"

end
