(* ===== verification/Simd_Shuffle.thy ===== *)
theory Simd_Shuffle
  imports Simd_Int
begin

text \<open>
  Shuffles, interleaves and packs (\<^verbatim>\<open>handlers/arithmetic/simd_shuffle.cpp\<close>, \<^verbatim>\<open>handlers/arithmetic/simd_pack.cpp\<close>). Both files repeat the register
  helpers of \<^verbatim>\<open>simd_int.cpp\<close>; their \<^verbatim>\<open>read_operand\<close> has no broadcast. \<^verbatim>\<open>float\<close> and \<^verbatim>\<open>double\<close> elements are only copied, so they are
  words of 32 and 64 bits; a \<^verbatim>\<open>std::array\<close> is a list.
\<close>

definition read_vec_operand_plain :: "'w ctx \<Rightarrow> nat \<Rightarrow> nat \<Rightarrow> simd option \<times> 'w ctx" where
  "read_vec_operand_plain c k width =
     (let kind = op_kind (instr c) k; reg = op_register (instr c) k
      in if kind = REGISTER
         then (if is_vector_register reg then Some (read_vec (state c) reg AND simd_mask width) else None, c)
         else if kind = MEMORY then read_vec_mem c (memory_address c) width
         else (None, c))"

definition with_plain_operand :: "nat \<Rightarrow> nat \<Rightarrow> (simd \<Rightarrow> 'w handler) \<Rightarrow> 'w handler" where
  "with_plain_operand k width f c =
     (case read_vec_operand_plain c k width of
        (None, c1) \<Rightarrow> (memory_fault c1 (memory_address c1), c1)
      | (Some v, c1) \<Rightarrow> f v c1)"

section \<open>Shuffles\<close>

definition load_elements :: "nat \<Rightarrow> simd \<Rightarrow> nat \<Rightarrow> 'a::len word list" where
  "load_elements n value lane = map (\<lambda>i. lane_load value (lane + i * sizeof TYPE('a))) [0..<n]"

definition store_elements :: "nat \<Rightarrow> 'a::len word list \<Rightarrow> simd \<Rightarrow> simd" where
  "store_elements lane elements value = fold (\<lambda>i. lane_store (lane + i * sizeof TYPE('a)) (elements ! i)) [0..<length elements] value"

definition legacy_binary_lanewise :: "nat \<Rightarrow> nat \<Rightarrow> ('a::len word list \<Rightarrow> 'a word list \<Rightarrow> 'a word list) \<Rightarrow> bool \<Rightarrow> 'w handler" where
  "legacy_binary_lanewise n lane_bytes f zero_upper = with_vector_dst (\<lambda>dst_reg c.
     let lhs_bits = read_vec (state c) dst_reg; w = vector_width dst_reg
     in with_plain_operand 1 w (\<lambda>rhs_bits. put_vec dst_reg
          (fold (\<lambda>lane. store_elements lane (f (load_elements n lhs_bits lane) (load_elements n rhs_bits lane))) (lanes w lane_bytes) lhs_bits)
          zero_upper) c)"

definition vex_binary_lanewise :: "nat \<Rightarrow> nat \<Rightarrow> ('a::len word list \<Rightarrow> 'a word list \<Rightarrow> 'a word list) \<Rightarrow> bool \<Rightarrow> 'w handler" where
  "vex_binary_lanewise n lane_bytes f zero_upper = with_vector_dst (\<lambda>dst_reg.
     let w = vector_width dst_reg
     in with_plain_operand 1 w (\<lambda>lhs_bits. with_plain_operand 2 w (\<lambda>rhs_bits. put_vec dst_reg
          (fold (\<lambda>lane. store_elements lane (f (load_elements n lhs_bits lane) (load_elements n rhs_bits lane))) (lanes w lane_bytes) 0)
          zero_upper)))"

text \<open>\<^verbatim>\<open>legacy_unary_lanewise\<close> and \<^verbatim>\<open>vex_unary_lanewise\<close> have the same body.\<close>

definition unary_lanewise :: "nat \<Rightarrow> nat \<Rightarrow> ('a::len word list \<Rightarrow> 'a word list) \<Rightarrow> bool \<Rightarrow> 'w handler" where
  "unary_lanewise n lane_bytes f zero_upper = with_vector_dst (\<lambda>dst_reg.
     let w = vector_width dst_reg
     in with_plain_operand 1 w (\<lambda>src_bits. put_vec dst_reg
          (fold (\<lambda>lane. store_elements lane (f (load_elements n src_bits lane))) (lanes w lane_bytes) 0) zero_upper))"

definition duplicate_low_double :: "bool \<Rightarrow> 'w handler" where
  "duplicate_low_double zero_upper = with_vector_dst (\<lambda>dst_reg.
     with_plain_operand 1 8 (\<lambda>src_bits.
       let src = load_elements 1 src_bits 0 :: u64 list
       in put_vec dst_reg (fold (\<lambda>lane. store_elements lane [src ! 0, src ! 0]) (lanes (vector_width dst_reg) 16) 0) zero_upper))"

text \<open>A field of the immediate, \<^verbatim>\<open>(imm >> s) & m\<close>.\<close>

definition imm_field :: "'w ctx \<Rightarrow> nat \<Rightarrow> u8 \<Rightarrow> nat" where
  "imm_field c s m = unat (drop_bit s (immediate8 (instr c)) AND m)"

section \<open>Packs and interleaves\<close>

definition pack_lane_pair :: "('s::len word list \<Rightarrow> 's word list \<Rightarrow> 'd::len word list) \<Rightarrow> simd \<Rightarrow> simd \<Rightarrow> nat \<Rightarrow> simd" where
  "pack_lane_pair f lhs rhs lane_offset =
     (let lhs_count = 16 div sizeof TYPE('s); dst_count = 16 div sizeof TYPE('d);
          out = f (load_elements lhs_count lhs lane_offset) (load_elements lhs_count rhs lane_offset)
      in fold (\<lambda>i. lane_store (i * sizeof TYPE('d)) (out ! i)) [0..<dst_count] 0)"

definition legacy_pack :: "('s::len word list \<Rightarrow> 's word list \<Rightarrow> 'd::len word list) \<Rightarrow> 'w handler" where
  "legacy_pack f = with_vector_dst (\<lambda>dst_reg c.
     let lhs_bits = read_vec (state c) dst_reg
     in with_plain_operand 1 16 (\<lambda>rhs_bits. put_vec dst_reg (0 OR pack_lane_pair f lhs_bits rhs_bits 0) False) c)"

definition vex_pack :: "('s::len word list \<Rightarrow> 's word list \<Rightarrow> 'd::len word list) \<Rightarrow> 'w handler" where
  "vex_pack f = with_vector_dst (\<lambda>dst_reg.
     let w = vector_width dst_reg
     in with_plain_operand 1 w (\<lambda>lhs_bits. with_plain_operand 2 w (\<lambda>rhs_bits. put_vec dst_reg
          (fold (\<lambda>lane out. out OR push_bit (lane * 8) (pack_lane_pair f lhs_bits rhs_bits lane)) (lanes w 16) 0) True)))"

definition legacy_unpack :: "(simd \<Rightarrow> simd \<Rightarrow> nat \<Rightarrow> simd) \<Rightarrow> 'w handler" where
  "legacy_unpack f = with_vector_dst (\<lambda>dst_reg c.
     let lhs_bits = read_vec (state c) dst_reg
     in with_plain_operand 1 16 (\<lambda>rhs_bits. put_vec dst_reg (0 OR f lhs_bits rhs_bits 0) False) c)"

definition vex_unpack :: "(simd \<Rightarrow> simd \<Rightarrow> nat \<Rightarrow> simd) \<Rightarrow> 'w handler" where
  "vex_unpack f = with_vector_dst (\<lambda>dst_reg.
     let w = vector_width dst_reg
     in with_plain_operand 1 w (\<lambda>lhs_bits. with_plain_operand 2 w (\<lambda>rhs_bits. put_vec dst_reg
          (fold (\<lambda>lane out. out OR push_bit (lane * 8) (f lhs_bits rhs_bits lane)) (lanes w 16) 0) True)))"

definition sat_pack_signed :: "int \<Rightarrow> 'a::len word" where
  "sat_pack_signed value =
     (if smax TYPE('a) < value then word_of_int (smax TYPE('a))
      else if value < smin TYPE('a) then word_of_int (smin TYPE('a)) else word_of_int value)"

definition sat_pack_unsigned :: "int \<Rightarrow> 'a::len word" where
  "sat_pack_unsigned value = (if value < 0 then 0 else if 2 ^ LENGTH('a) - 1 < value then - 1 else word_of_int value)"

text \<open>
  The lambdas of the instances: each packs all elements of \<^verbatim>\<open>lhs\<close> and then all of \<^verbatim>\<open>rhs\<close>, or interleaves the elements of a half
  (\<open>base\<close> 0 or 8) of a 128-bit lane of both.
\<close>

definition pack_signed :: "'s::len word list \<Rightarrow> 's word list \<Rightarrow> 'd::len word list" where
  "pack_signed lhs rhs = map (\<lambda>x. sat_pack_signed (sint x)) (lhs @ rhs)"

definition pack_unsigned :: "'s::len word list \<Rightarrow> 's word list \<Rightarrow> 'd::len word list" where
  "pack_unsigned lhs rhs = map (\<lambda>x. sat_pack_unsigned (sint x)) (lhs @ rhs)"

definition unpack_elements :: "'a::len itself \<Rightarrow> nat \<Rightarrow> nat \<Rightarrow> simd \<Rightarrow> simd \<Rightarrow> nat \<Rightarrow> simd" where
  "unpack_elements t count base lhs rhs lane =
     fold (\<lambda>i out.
       let a = lane_load lhs (lane + base + i * sizeof t) :: 'a word; b = lane_load rhs (lane + base + i * sizeof t) :: 'a word
       in lane_store (i * (2 * sizeof t) + sizeof t) b (lane_store (i * (2 * sizeof t)) a out)) [0..<count] 0"

section \<open>Handlers\<close>

definition handle_code_UNPCKLPS_XMM_XMMM128 :: "'w handler" where
  "handle_code_UNPCKLPS_XMM_XMMM128 = legacy_binary_lanewise 4 16 (\<lambda>lhs rhs :: u32 list. [lhs ! 0, rhs ! 0, lhs ! 1, rhs ! 1]) False"

definition handle_code_UNPCKLPD_XMM_XMMM128 :: "'w handler" where
  "handle_code_UNPCKLPD_XMM_XMMM128 = legacy_binary_lanewise 2 16 (\<lambda>lhs rhs :: u64 list. [lhs ! 0, rhs ! 0]) False"

definition handle_code_UNPCKHPS_XMM_XMMM128 :: "'w handler" where
  "handle_code_UNPCKHPS_XMM_XMMM128 = legacy_binary_lanewise 4 16 (\<lambda>lhs rhs :: u32 list. [lhs ! 2, rhs ! 2, lhs ! 3, rhs ! 3]) False"

definition handle_code_UNPCKHPD_XMM_XMMM128 :: "'w handler" where
  "handle_code_UNPCKHPD_XMM_XMMM128 = legacy_binary_lanewise 2 16 (\<lambda>lhs rhs :: u64 list. [lhs ! 1, rhs ! 1]) False"

definition handle_code_SHUFPS_XMM_XMMM128_IMM8 :: "'w handler" where
  "handle_code_SHUFPS_XMM_XMMM128_IMM8 = (\<lambda>c. legacy_binary_lanewise 4 16 (\<lambda>lhs rhs :: u32 list. [lhs ! imm_field c 0 3, lhs ! imm_field c 2 3, rhs ! imm_field c 4 3, rhs ! imm_field c 6 3]) False c)"

definition handle_code_SHUFPD_XMM_XMMM128_IMM8 :: "'w handler" where
  "handle_code_SHUFPD_XMM_XMMM128_IMM8 = (\<lambda>c. legacy_binary_lanewise 2 16 (\<lambda>lhs rhs :: u64 list. [lhs ! imm_field c 0 1, rhs ! imm_field c 1 1]) False c)"

definition handle_code_PSHUFD_XMM_XMMM128_IMM8 :: "'w handler" where
  "handle_code_PSHUFD_XMM_XMMM128_IMM8 = (\<lambda>c. unary_lanewise 4 16 (\<lambda>src :: u32 list. [src ! imm_field c 0 3, src ! imm_field c 2 3, src ! imm_field c 4 3, src ! imm_field c 6 3]) False c)"

definition handle_code_PSHUFLW_XMM_XMMM128_IMM8 :: "'w handler" where
  "handle_code_PSHUFLW_XMM_XMMM128_IMM8 = (\<lambda>c. unary_lanewise 8 16 (\<lambda>src :: u16 list. [src ! imm_field c 0 3, src ! imm_field c 2 3, src ! imm_field c 4 3, src ! imm_field c 6 3, src ! 4, src ! 5, src ! 6, src ! 7]) False c)"

definition handle_code_PSHUFHW_XMM_XMMM128_IMM8 :: "'w handler" where
  "handle_code_PSHUFHW_XMM_XMMM128_IMM8 = (\<lambda>c. unary_lanewise 8 16 (\<lambda>src :: u16 list. [src ! 0, src ! 1, src ! 2, src ! 3, src ! (4 + imm_field c 0 3), src ! (4 + imm_field c 2 3), src ! (4 + imm_field c 4 3), src ! (4 + imm_field c 6 3)]) False c)"

definition handle_code_MOVSLDUP_XMM_XMMM128 :: "'w handler" where
  "handle_code_MOVSLDUP_XMM_XMMM128 = unary_lanewise 4 16 (\<lambda>src :: u32 list. [src ! 0, src ! 0, src ! 2, src ! 2]) False"

definition handle_code_MOVSHDUP_XMM_XMMM128 :: "'w handler" where
  "handle_code_MOVSHDUP_XMM_XMMM128 = unary_lanewise 4 16 (\<lambda>src :: u32 list. [src ! 1, src ! 1, src ! 3, src ! 3]) False"

definition handle_code_MOVDDUP_XMM_XMMM64 :: "'w handler" where
  "handle_code_MOVDDUP_XMM_XMMM64 = duplicate_low_double False"

definition handle_code_VEX_VUNPCKLPS_XMM_XMM_XMMM128 :: "'w handler" where
  "handle_code_VEX_VUNPCKLPS_XMM_XMM_XMMM128 = vex_binary_lanewise 4 16 (\<lambda>lhs rhs :: u32 list. [lhs ! 0, rhs ! 0, lhs ! 1, rhs ! 1]) True"

definition handle_code_VEX_VUNPCKLPD_XMM_XMM_XMMM128 :: "'w handler" where
  "handle_code_VEX_VUNPCKLPD_XMM_XMM_XMMM128 = vex_binary_lanewise 2 16 (\<lambda>lhs rhs :: u64 list. [lhs ! 0, rhs ! 0]) True"

definition handle_code_VEX_VUNPCKHPS_XMM_XMM_XMMM128 :: "'w handler" where
  "handle_code_VEX_VUNPCKHPS_XMM_XMM_XMMM128 = vex_binary_lanewise 4 16 (\<lambda>lhs rhs :: u32 list. [lhs ! 2, rhs ! 2, lhs ! 3, rhs ! 3]) True"

definition handle_code_VEX_VUNPCKHPD_XMM_XMM_XMMM128 :: "'w handler" where
  "handle_code_VEX_VUNPCKHPD_XMM_XMM_XMMM128 = vex_binary_lanewise 2 16 (\<lambda>lhs rhs :: u64 list. [lhs ! 1, rhs ! 1]) True"

definition handle_code_VEX_VSHUFPS_XMM_XMM_XMMM128 :: "'w handler" where
  "handle_code_VEX_VSHUFPS_XMM_XMM_XMMM128 = (\<lambda>c. vex_binary_lanewise 4 16 (\<lambda>lhs rhs :: u32 list. [lhs ! imm_field c 0 3, lhs ! imm_field c 2 3, rhs ! imm_field c 4 3, rhs ! imm_field c 6 3]) True c)"

definition handle_code_VEX_VSHUFPD_XMM_XMM_XMMM128 :: "'w handler" where
  "handle_code_VEX_VSHUFPD_XMM_XMM_XMMM128 = (\<lambda>c. vex_binary_lanewise 2 16 (\<lambda>lhs rhs :: u64 list. [lhs ! imm_field c 0 1, rhs ! imm_field c 1 1]) True c)"

definition handle_code_VEX_VMOVSLDUP_XMM_XMMM128 :: "'w handler" where
  "handle_code_VEX_VMOVSLDUP_XMM_XMMM128 = unary_lanewise 4 16 (\<lambda>src :: u32 list. [src ! 0, src ! 0, src ! 2, src ! 2]) True"

definition handle_code_VEX_VMOVSHDUP_XMM_XMMM128 :: "'w handler" where
  "handle_code_VEX_VMOVSHDUP_XMM_XMMM128 = unary_lanewise 4 16 (\<lambda>src :: u32 list. [src ! 1, src ! 1, src ! 3, src ! 3]) True"

definition handle_code_VEX_VMOVDDUP_XMM_XMMM64 :: "'w handler" where
  "handle_code_VEX_VMOVDDUP_XMM_XMMM64 = duplicate_low_double True"

definition handle_code_VEX_VUNPCKLPS_YMM_YMM_YMMM256 :: "'w handler" where
  "handle_code_VEX_VUNPCKLPS_YMM_YMM_YMMM256 = vex_binary_lanewise 4 16 (\<lambda>lhs rhs :: u32 list. [lhs ! 0, rhs ! 0, lhs ! 1, rhs ! 1]) True"

definition handle_code_VEX_VUNPCKLPD_YMM_YMM_YMMM256 :: "'w handler" where
  "handle_code_VEX_VUNPCKLPD_YMM_YMM_YMMM256 = vex_binary_lanewise 2 16 (\<lambda>lhs rhs :: u64 list. [lhs ! 0, rhs ! 0]) True"

definition handle_code_VEX_VUNPCKHPS_YMM_YMM_YMMM256 :: "'w handler" where
  "handle_code_VEX_VUNPCKHPS_YMM_YMM_YMMM256 = vex_binary_lanewise 4 16 (\<lambda>lhs rhs :: u32 list. [lhs ! 2, rhs ! 2, lhs ! 3, rhs ! 3]) True"

definition handle_code_VEX_VUNPCKHPD_YMM_YMM_YMMM256 :: "'w handler" where
  "handle_code_VEX_VUNPCKHPD_YMM_YMM_YMMM256 = vex_binary_lanewise 2 16 (\<lambda>lhs rhs :: u64 list. [lhs ! 1, rhs ! 1]) True"

definition handle_code_VEX_VSHUFPS_YMM_YMM_YMMM256 :: "'w handler" where
  "handle_code_VEX_VSHUFPS_YMM_YMM_YMMM256 = (\<lambda>c. vex_binary_lanewise 4 16 (\<lambda>lhs rhs :: u32 list. [lhs ! imm_field c 0 3, lhs ! imm_field c 2 3, rhs ! imm_field c 4 3, rhs ! imm_field c 6 3]) True c)"

definition handle_code_VEX_VSHUFPD_YMM_YMM_YMMM256 :: "'w handler" where
  "handle_code_VEX_VSHUFPD_YMM_YMM_YMMM256 = (\<lambda>c. vex_binary_lanewise 2 16 (\<lambda>lhs rhs :: u64 list. [lhs ! imm_field c 0 1, rhs ! imm_field c 1 1]) True c)"

definition handle_code_VEX_VMOVSLDUP_YMM_YMMM256 :: "'w handler" where
  "handle_code_VEX_VMOVSLDUP_YMM_YMMM256 = unary_lanewise 4 16 (\<lambda>src :: u32 list. [src ! 0, src ! 0, src ! 2, src ! 2]) True"

definition handle_code_VEX_VMOVSHDUP_YMM_YMMM256 :: "'w handler" where
  "handle_code_VEX_VMOVSHDUP_YMM_YMMM256 = unary_lanewise 4 16 (\<lambda>src :: u32 list. [src ! 1, src ! 1, src ! 3, src ! 3]) True"

definition handle_code_VEX_VMOVDDUP_YMM_YMMM256 :: "'w handler" where
  "handle_code_VEX_VMOVDDUP_YMM_YMMM256 = unary_lanewise 2 16 (\<lambda>src :: u64 list. [src ! 0, src ! 0]) True"

definition handle_code_EVEX_VUNPCKLPS_XMM_K1Z_XMM_XMMM128 :: "'w handler" where
  "handle_code_EVEX_VUNPCKLPS_XMM_K1Z_XMM_XMMM128 = vex_binary_lanewise 4 16 (\<lambda>lhs rhs :: u32 list. [lhs ! 0, rhs ! 0, lhs ! 1, rhs ! 1]) True"

definition handle_code_EVEX_VUNPCKLPD_XMM_K1Z_XMM_XMMM128 :: "'w handler" where
  "handle_code_EVEX_VUNPCKLPD_XMM_K1Z_XMM_XMMM128 = vex_binary_lanewise 2 16 (\<lambda>lhs rhs :: u64 list. [lhs ! 0, rhs ! 0]) True"

definition handle_code_EVEX_VUNPCKHPS_XMM_K1Z_XMM_XMMM128 :: "'w handler" where
  "handle_code_EVEX_VUNPCKHPS_XMM_K1Z_XMM_XMMM128 = vex_binary_lanewise 4 16 (\<lambda>lhs rhs :: u32 list. [lhs ! 2, rhs ! 2, lhs ! 3, rhs ! 3]) True"

definition handle_code_EVEX_VUNPCKHPD_XMM_K1Z_XMM_XMMM128 :: "'w handler" where
  "handle_code_EVEX_VUNPCKHPD_XMM_K1Z_XMM_XMMM128 = vex_binary_lanewise 2 16 (\<lambda>lhs rhs :: u64 list. [lhs ! 1, rhs ! 1]) True"

definition handle_code_EVEX_VSHUFPS_XMM_K1Z_XMM_XMMM128 :: "'w handler" where
  "handle_code_EVEX_VSHUFPS_XMM_K1Z_XMM_XMMM128 = (\<lambda>c. vex_binary_lanewise 4 16 (\<lambda>lhs rhs :: u32 list. [lhs ! imm_field c 0 3, lhs ! imm_field c 2 3, rhs ! imm_field c 4 3, rhs ! imm_field c 6 3]) True c)"

definition handle_code_EVEX_VSHUFPD_XMM_K1Z_XMM_XMMM128 :: "'w handler" where
  "handle_code_EVEX_VSHUFPD_XMM_K1Z_XMM_XMMM128 = (\<lambda>c. vex_binary_lanewise 2 16 (\<lambda>lhs rhs :: u64 list. [lhs ! imm_field c 0 1, rhs ! imm_field c 1 1]) True c)"

definition handle_code_EVEX_VMOVSLDUP_XMM_K1Z_XMM_XMMM128 :: "'w handler" where
  "handle_code_EVEX_VMOVSLDUP_XMM_K1Z_XMM_XMMM128 = unary_lanewise 4 16 (\<lambda>src :: u32 list. [src ! 0, src ! 0, src ! 2, src ! 2]) True"

definition handle_code_EVEX_VMOVSHDUP_XMM_K1Z_XMM_XMMM128 :: "'w handler" where
  "handle_code_EVEX_VMOVSHDUP_XMM_K1Z_XMM_XMMM128 = unary_lanewise 4 16 (\<lambda>src :: u32 list. [src ! 1, src ! 1, src ! 3, src ! 3]) True"

definition handle_code_EVEX_VMOVDDUP_XMM_K1Z_XMM_XMMM64 :: "'w handler" where
  "handle_code_EVEX_VMOVDDUP_XMM_K1Z_XMM_XMMM64 = duplicate_low_double True"

definition handle_code_EVEX_VUNPCKLPS_YMM_K1Z_YMM_YMMM256 :: "'w handler" where
  "handle_code_EVEX_VUNPCKLPS_YMM_K1Z_YMM_YMMM256 = vex_binary_lanewise 4 16 (\<lambda>lhs rhs :: u32 list. [lhs ! 0, rhs ! 0, lhs ! 1, rhs ! 1]) True"

definition handle_code_EVEX_VUNPCKLPD_YMM_K1Z_YMM_YMMM256 :: "'w handler" where
  "handle_code_EVEX_VUNPCKLPD_YMM_K1Z_YMM_YMMM256 = vex_binary_lanewise 2 16 (\<lambda>lhs rhs :: u64 list. [lhs ! 0, rhs ! 0]) True"

definition handle_code_EVEX_VUNPCKHPS_YMM_K1Z_YMM_YMMM256 :: "'w handler" where
  "handle_code_EVEX_VUNPCKHPS_YMM_K1Z_YMM_YMMM256 = vex_binary_lanewise 4 16 (\<lambda>lhs rhs :: u32 list. [lhs ! 2, rhs ! 2, lhs ! 3, rhs ! 3]) True"

definition handle_code_EVEX_VUNPCKHPD_YMM_K1Z_YMM_YMMM256 :: "'w handler" where
  "handle_code_EVEX_VUNPCKHPD_YMM_K1Z_YMM_YMMM256 = vex_binary_lanewise 2 16 (\<lambda>lhs rhs :: u64 list. [lhs ! 1, rhs ! 1]) True"

definition handle_code_EVEX_VSHUFPS_YMM_K1Z_YMM_YMMM256 :: "'w handler" where
  "handle_code_EVEX_VSHUFPS_YMM_K1Z_YMM_YMMM256 = (\<lambda>c. vex_binary_lanewise 4 16 (\<lambda>lhs rhs :: u32 list. [lhs ! imm_field c 0 3, lhs ! imm_field c 2 3, rhs ! imm_field c 4 3, rhs ! imm_field c 6 3]) True c)"

definition handle_code_EVEX_VSHUFPD_YMM_K1Z_YMM_YMMM256 :: "'w handler" where
  "handle_code_EVEX_VSHUFPD_YMM_K1Z_YMM_YMMM256 = (\<lambda>c. vex_binary_lanewise 2 16 (\<lambda>lhs rhs :: u64 list. [lhs ! imm_field c 0 1, rhs ! imm_field c 1 1]) True c)"

definition handle_code_EVEX_VMOVSLDUP_YMM_K1Z_YMM_YMMM256 :: "'w handler" where
  "handle_code_EVEX_VMOVSLDUP_YMM_K1Z_YMM_YMMM256 = unary_lanewise 4 16 (\<lambda>src :: u32 list. [src ! 0, src ! 0, src ! 2, src ! 2]) True"

definition handle_code_EVEX_VMOVSHDUP_YMM_K1Z_YMM_YMMM256 :: "'w handler" where
  "handle_code_EVEX_VMOVSHDUP_YMM_K1Z_YMM_YMMM256 = unary_lanewise 4 16 (\<lambda>src :: u32 list. [src ! 1, src ! 1, src ! 3, src ! 3]) True"

definition handle_code_EVEX_VMOVDDUP_YMM_K1Z_YMM_YMMM256 :: "'w handler" where
  "handle_code_EVEX_VMOVDDUP_YMM_K1Z_YMM_YMMM256 = unary_lanewise 2 16 (\<lambda>src :: u64 list. [src ! 0, src ! 0]) True"

definition handle_code_EVEX_VUNPCKLPS_ZMM_K1Z_ZMM_ZMMM512 :: "'w handler" where
  "handle_code_EVEX_VUNPCKLPS_ZMM_K1Z_ZMM_ZMMM512 = vex_binary_lanewise 4 16 (\<lambda>lhs rhs :: u32 list. [lhs ! 0, rhs ! 0, lhs ! 1, rhs ! 1]) True"

definition handle_code_EVEX_VUNPCKLPD_ZMM_K1Z_ZMM_ZMMM512 :: "'w handler" where
  "handle_code_EVEX_VUNPCKLPD_ZMM_K1Z_ZMM_ZMMM512 = vex_binary_lanewise 2 16 (\<lambda>lhs rhs :: u64 list. [lhs ! 0, rhs ! 0]) True"

definition handle_code_EVEX_VUNPCKHPS_ZMM_K1Z_ZMM_ZMMM512 :: "'w handler" where
  "handle_code_EVEX_VUNPCKHPS_ZMM_K1Z_ZMM_ZMMM512 = vex_binary_lanewise 4 16 (\<lambda>lhs rhs :: u32 list. [lhs ! 2, rhs ! 2, lhs ! 3, rhs ! 3]) True"

definition handle_code_EVEX_VUNPCKHPD_ZMM_K1Z_ZMM_ZMMM512 :: "'w handler" where
  "handle_code_EVEX_VUNPCKHPD_ZMM_K1Z_ZMM_ZMMM512 = vex_binary_lanewise 2 16 (\<lambda>lhs rhs :: u64 list. [lhs ! 1, rhs ! 1]) True"

definition handle_code_EVEX_VSHUFPS_ZMM_K1Z_ZMM_ZMMM512 :: "'w handler" where
  "handle_code_EVEX_VSHUFPS_ZMM_K1Z_ZMM_ZMMM512 = (\<lambda>c. vex_binary_lanewise 4 16 (\<lambda>lhs rhs :: u32 list. [lhs ! imm_field c 0 3, lhs ! imm_field c 2 3, rhs ! imm_field c 4 3, rhs ! imm_field c 6 3]) True c)"

definition handle_code_EVEX_VSHUFPD_ZMM_K1Z_ZMM_ZMMM512 :: "'w handler" where
  "handle_code_EVEX_VSHUFPD_ZMM_K1Z_ZMM_ZMMM512 = (\<lambda>c. vex_binary_lanewise 2 16 (\<lambda>lhs rhs :: u64 list. [lhs ! imm_field c 0 1, rhs ! imm_field c 1 1]) True c)"

definition handle_code_EVEX_VMOVSLDUP_ZMM_K1Z_ZMM_ZMMM512 :: "'w handler" where
  "handle_code_EVEX_VMOVSLDUP_ZMM_K1Z_ZMM_ZMMM512 = unary_lanewise 4 16 (\<lambda>src :: u32 list. [src ! 0, src ! 0, src ! 2, src ! 2]) True"

definition handle_code_EVEX_VMOVSHDUP_ZMM_K1Z_ZMM_ZMMM512 :: "'w handler" where
  "handle_code_EVEX_VMOVSHDUP_ZMM_K1Z_ZMM_ZMMM512 = unary_lanewise 4 16 (\<lambda>src :: u32 list. [src ! 1, src ! 1, src ! 3, src ! 3]) True"

definition handle_code_EVEX_VMOVDDUP_ZMM_K1Z_ZMM_ZMMM512 :: "'w handler" where
  "handle_code_EVEX_VMOVDDUP_ZMM_K1Z_ZMM_ZMMM512 = unary_lanewise 2 16 (\<lambda>src :: u64 list. [src ! 0, src ! 0]) True"

definition handle_code_PACKSSWB_XMM_XMMM128 :: "'w handler" where
  "handle_code_PACKSSWB_XMM_XMMM128 = legacy_pack (pack_signed :: u16 list \<Rightarrow> u16 list \<Rightarrow> u8 list)"

definition handle_code_PACKSSDW_XMM_XMMM128 :: "'w handler" where
  "handle_code_PACKSSDW_XMM_XMMM128 = legacy_pack (pack_signed :: u32 list \<Rightarrow> u32 list \<Rightarrow> u16 list)"

definition handle_code_PACKUSWB_XMM_XMMM128 :: "'w handler" where
  "handle_code_PACKUSWB_XMM_XMMM128 = legacy_pack (pack_unsigned :: u16 list \<Rightarrow> u16 list \<Rightarrow> u8 list)"

definition handle_code_PUNPCKLBW_XMM_XMMM128 :: "'w handler" where
  "handle_code_PUNPCKLBW_XMM_XMMM128 = legacy_unpack (unpack_elements TYPE(8) 8 0)"

definition handle_code_PUNPCKHBW_XMM_XMMM128 :: "'w handler" where
  "handle_code_PUNPCKHBW_XMM_XMMM128 = legacy_unpack (unpack_elements TYPE(8) 8 8)"

definition handle_code_PUNPCKLWD_XMM_XMMM128 :: "'w handler" where
  "handle_code_PUNPCKLWD_XMM_XMMM128 = legacy_unpack (unpack_elements TYPE(16) 4 0)"

definition handle_code_PUNPCKHWD_XMM_XMMM128 :: "'w handler" where
  "handle_code_PUNPCKHWD_XMM_XMMM128 = legacy_unpack (unpack_elements TYPE(16) 4 8)"

definition handle_code_PUNPCKLDQ_XMM_XMMM128 :: "'w handler" where
  "handle_code_PUNPCKLDQ_XMM_XMMM128 = legacy_unpack (unpack_elements TYPE(32) 2 0)"

definition handle_code_PUNPCKHDQ_XMM_XMMM128 :: "'w handler" where
  "handle_code_PUNPCKHDQ_XMM_XMMM128 = legacy_unpack (unpack_elements TYPE(32) 2 8)"

definition handle_code_PUNPCKLQDQ_XMM_XMMM128 :: "'w handler" where
  "handle_code_PUNPCKLQDQ_XMM_XMMM128 = legacy_unpack (unpack_elements TYPE(64) 1 0)"

definition handle_code_PUNPCKHQDQ_XMM_XMMM128 :: "'w handler" where
  "handle_code_PUNPCKHQDQ_XMM_XMMM128 = legacy_unpack (unpack_elements TYPE(64) 1 8)"

definition handle_code_VEX_VPACKSSWB_XMM_XMM_XMMM128 :: "'w handler" where
  "handle_code_VEX_VPACKSSWB_XMM_XMM_XMMM128 = vex_pack (pack_signed :: u16 list \<Rightarrow> u16 list \<Rightarrow> u8 list)"

definition handle_code_VEX_VPACKSSDW_XMM_XMM_XMMM128 :: "'w handler" where
  "handle_code_VEX_VPACKSSDW_XMM_XMM_XMMM128 = vex_pack (pack_signed :: u32 list \<Rightarrow> u32 list \<Rightarrow> u16 list)"

definition handle_code_VEX_VPACKUSWB_XMM_XMM_XMMM128 :: "'w handler" where
  "handle_code_VEX_VPACKUSWB_XMM_XMM_XMMM128 = vex_pack (pack_unsigned :: u16 list \<Rightarrow> u16 list \<Rightarrow> u8 list)"

definition handle_code_VEX_VPUNPCKLBW_XMM_XMM_XMMM128 :: "'w handler" where
  "handle_code_VEX_VPUNPCKLBW_XMM_XMM_XMMM128 = vex_unpack (unpack_elements TYPE(8) 8 0)"

definition handle_code_VEX_VPUNPCKHBW_XMM_XMM_XMMM128 :: "'w handler" where
  "handle_code_VEX_VPUNPCKHBW_XMM_XMM_XMMM128 = vex_unpack (unpack_elements TYPE(8) 8 8)"

definition handle_code_VEX_VPUNPCKLWD_XMM_XMM_XMMM128 :: "'w handler" where
  "handle_code_VEX_VPUNPCKLWD_XMM_XMM_XMMM128 = vex_unpack (unpack_elements TYPE(16) 4 0)"

definition handle_code_VEX_VPUNPCKHWD_XMM_XMM_XMMM128 :: "'w handler" where
  "handle_code_VEX_VPUNPCKHWD_XMM_XMM_XMMM128 = vex_unpack (unpack_elements TYPE(16) 4 8)"

definition handle_code_VEX_VPUNPCKLDQ_XMM_XMM_XMMM128 :: "'w handler" where
  "handle_code_VEX_VPUNPCKLDQ_XMM_XMM_XMMM128 = vex_unpack (unpack_elements TYPE(32) 2 0)"

definition handle_code_VEX_VPUNPCKHDQ_XMM_XMM_XMMM128 :: "'w handler" where
  "handle_code_VEX_VPUNPCKHDQ_XMM_XMM_XMMM128 = vex_unpack (unpack_elements TYPE(32) 2 8)"

definition handle_code_VEX_VPACKSSWB_YMM_YMM_YMMM256 :: "'w handler" where
  "handle_code_VEX_VPACKSSWB_YMM_YMM_YMMM256 = vex_pack (pack_signed :: u16 list \<Rightarrow> u16 list \<Rightarrow> u8 list)"

definition handle_code_VEX_VPACKSSDW_YMM_YMM_YMMM256 :: "'w handler" where
  "handle_code_VEX_VPACKSSDW_YMM_YMM_YMMM256 = vex_pack (pack_signed :: u32 list \<Rightarrow> u32 list \<Rightarrow> u16 list)"

definition handle_code_VEX_VPACKUSWB_YMM_YMM_YMMM256 :: "'w handler" where
  "handle_code_VEX_VPACKUSWB_YMM_YMM_YMMM256 = vex_pack (pack_unsigned :: u16 list \<Rightarrow> u16 list \<Rightarrow> u8 list)"

definition handle_code_VEX_VPUNPCKLBW_YMM_YMM_YMMM256 :: "'w handler" where
  "handle_code_VEX_VPUNPCKLBW_YMM_YMM_YMMM256 = vex_unpack (unpack_elements TYPE(8) 8 0)"

definition handle_code_VEX_VPUNPCKHBW_YMM_YMM_YMMM256 :: "'w handler" where
  "handle_code_VEX_VPUNPCKHBW_YMM_YMM_YMMM256 = vex_unpack (unpack_elements TYPE(8) 8 8)"

definition handle_code_VEX_VPUNPCKLWD_YMM_YMM_YMMM256 :: "'w handler" where
  "handle_code_VEX_VPUNPCKLWD_YMM_YMM_YMMM256 = vex_unpack (unpack_elements TYPE(16) 4 0)"

definition handle_code_VEX_VPUNPCKHWD_YMM_YMM_YMMM256 :: "'w handler" where
  "handle_code_VEX_VPUNPCKHWD_YMM_YMM_YMMM256 = vex_unpack (unpack_elements TYPE(16) 4 8)"

definition handle_code_VEX_VPUNPCKLDQ_YMM_YMM_YMMM256 :: "'w handler" where
  "handle_code_VEX_VPUNPCKLDQ_YMM_YMM_YMMM256 = vex_unpack (unpack_elements TYPE(32) 2 0)"

definition handle_code_VEX_VPUNPCKHDQ_YMM_YMM_YMMM256 :: "'w handler" where
  "handle_code_VEX_VPUNPCKHDQ_YMM_YMM_YMMM256 = vex_unpack (unpack_elements TYPE(32) 2 8)"

definition handle_code_EVEX_VPACKSSWB_XMM_K1Z_XMM_XMMM128 :: "'w handler" where
  "handle_code_EVEX_VPACKSSWB_XMM_K1Z_XMM_XMMM128 = vex_pack (pack_signed :: u16 list \<Rightarrow> u16 list \<Rightarrow> u8 list)"

definition handle_code_EVEX_VPACKSSDW_XMM_K1Z_XMM_XMMM128 :: "'w handler" where
  "handle_code_EVEX_VPACKSSDW_XMM_K1Z_XMM_XMMM128 = vex_pack (pack_signed :: u32 list \<Rightarrow> u32 list \<Rightarrow> u16 list)"

definition handle_code_EVEX_VPACKUSWB_XMM_K1Z_XMM_XMMM128 :: "'w handler" where
  "handle_code_EVEX_VPACKUSWB_XMM_K1Z_XMM_XMMM128 = vex_pack (pack_unsigned :: u16 list \<Rightarrow> u16 list \<Rightarrow> u8 list)"

definition handle_code_EVEX_VPUNPCKLBW_XMM_K1Z_XMM_XMMM128 :: "'w handler" where
  "handle_code_EVEX_VPUNPCKLBW_XMM_K1Z_XMM_XMMM128 = vex_unpack (unpack_elements TYPE(8) 8 0)"

definition handle_code_EVEX_VPUNPCKHBW_XMM_K1Z_XMM_XMMM128 :: "'w handler" where
  "handle_code_EVEX_VPUNPCKHBW_XMM_K1Z_XMM_XMMM128 = vex_unpack (unpack_elements TYPE(8) 8 8)"

definition handle_code_EVEX_VPUNPCKLWD_XMM_K1Z_XMM_XMMM128 :: "'w handler" where
  "handle_code_EVEX_VPUNPCKLWD_XMM_K1Z_XMM_XMMM128 = vex_unpack (unpack_elements TYPE(16) 4 0)"

definition handle_code_EVEX_VPUNPCKHWD_XMM_K1Z_XMM_XMMM128 :: "'w handler" where
  "handle_code_EVEX_VPUNPCKHWD_XMM_K1Z_XMM_XMMM128 = vex_unpack (unpack_elements TYPE(16) 4 8)"

definition handle_code_EVEX_VPUNPCKLDQ_XMM_K1Z_XMM_XMMM128 :: "'w handler" where
  "handle_code_EVEX_VPUNPCKLDQ_XMM_K1Z_XMM_XMMM128 = vex_unpack (unpack_elements TYPE(32) 2 0)"

definition handle_code_EVEX_VPUNPCKHDQ_XMM_K1Z_XMM_XMMM128 :: "'w handler" where
  "handle_code_EVEX_VPUNPCKHDQ_XMM_K1Z_XMM_XMMM128 = vex_unpack (unpack_elements TYPE(32) 2 8)"

definition handle_code_EVEX_VPACKSSWB_YMM_K1Z_YMM_YMMM256 :: "'w handler" where
  "handle_code_EVEX_VPACKSSWB_YMM_K1Z_YMM_YMMM256 = vex_pack (pack_signed :: u16 list \<Rightarrow> u16 list \<Rightarrow> u8 list)"

definition handle_code_EVEX_VPACKSSDW_YMM_K1Z_YMM_YMMM256 :: "'w handler" where
  "handle_code_EVEX_VPACKSSDW_YMM_K1Z_YMM_YMMM256 = vex_pack (pack_signed :: u32 list \<Rightarrow> u32 list \<Rightarrow> u16 list)"

definition handle_code_EVEX_VPACKUSWB_YMM_K1Z_YMM_YMMM256 :: "'w handler" where
  "handle_code_EVEX_VPACKUSWB_YMM_K1Z_YMM_YMMM256 = vex_pack (pack_unsigned :: u16 list \<Rightarrow> u16 list \<Rightarrow> u8 list)"

definition handle_code_EVEX_VPUNPCKLBW_YMM_K1Z_YMM_YMMM256 :: "'w handler" where
  "handle_code_EVEX_VPUNPCKLBW_YMM_K1Z_YMM_YMMM256 = vex_unpack (unpack_elements TYPE(8) 8 0)"

definition handle_code_EVEX_VPUNPCKHBW_YMM_K1Z_YMM_YMMM256 :: "'w handler" where
  "handle_code_EVEX_VPUNPCKHBW_YMM_K1Z_YMM_YMMM256 = vex_unpack (unpack_elements TYPE(8) 8 8)"

definition handle_code_EVEX_VPUNPCKLWD_YMM_K1Z_YMM_YMMM256 :: "'w handler" where
  "handle_code_EVEX_VPUNPCKLWD_YMM_K1Z_YMM_YMMM256 = vex_unpack (unpack_elements TYPE(16) 4 0)"

definition handle_code_EVEX_VPUNPCKHWD_YMM_K1Z_YMM_YMMM256 :: "'w handler" where
  "handle_code_EVEX_VPUNPCKHWD_YMM_K1Z_YMM_YMMM256 = vex_unpack (unpack_elements TYPE(16) 4 8)"

definition handle_code_EVEX_VPUNPCKLDQ_YMM_K1Z_YMM_YMMM256 :: "'w handler" where
  "handle_code_EVEX_VPUNPCKLDQ_YMM_K1Z_YMM_YMMM256 = vex_unpack (unpack_elements TYPE(32) 2 0)"

definition handle_code_EVEX_VPUNPCKHDQ_YMM_K1Z_YMM_YMMM256 :: "'w handler" where
  "handle_code_EVEX_VPUNPCKHDQ_YMM_K1Z_YMM_YMMM256 = vex_unpack (unpack_elements TYPE(32) 2 8)"

definition handle_code_EVEX_VPACKSSWB_ZMM_K1Z_ZMM_ZMMM512 :: "'w handler" where
  "handle_code_EVEX_VPACKSSWB_ZMM_K1Z_ZMM_ZMMM512 = vex_pack (pack_signed :: u16 list \<Rightarrow> u16 list \<Rightarrow> u8 list)"

definition handle_code_EVEX_VPACKSSDW_ZMM_K1Z_ZMM_ZMMM512 :: "'w handler" where
  "handle_code_EVEX_VPACKSSDW_ZMM_K1Z_ZMM_ZMMM512 = vex_pack (pack_signed :: u32 list \<Rightarrow> u32 list \<Rightarrow> u16 list)"

definition handle_code_EVEX_VPACKUSWB_ZMM_K1Z_ZMM_ZMMM512 :: "'w handler" where
  "handle_code_EVEX_VPACKUSWB_ZMM_K1Z_ZMM_ZMMM512 = vex_pack (pack_unsigned :: u16 list \<Rightarrow> u16 list \<Rightarrow> u8 list)"

definition handle_code_EVEX_VPUNPCKLBW_ZMM_K1Z_ZMM_ZMMM512 :: "'w handler" where
  "handle_code_EVEX_VPUNPCKLBW_ZMM_K1Z_ZMM_ZMMM512 = vex_unpack (unpack_elements TYPE(8) 8 0)"

definition handle_code_EVEX_VPUNPCKHBW_ZMM_K1Z_ZMM_ZMMM512 :: "'w handler" where
  "handle_code_EVEX_VPUNPCKHBW_ZMM_K1Z_ZMM_ZMMM512 = vex_unpack (unpack_elements TYPE(8) 8 8)"

definition handle_code_EVEX_VPUNPCKLWD_ZMM_K1Z_ZMM_ZMMM512 :: "'w handler" where
  "handle_code_EVEX_VPUNPCKLWD_ZMM_K1Z_ZMM_ZMMM512 = vex_unpack (unpack_elements TYPE(16) 4 0)"

definition handle_code_EVEX_VPUNPCKHWD_ZMM_K1Z_ZMM_ZMMM512 :: "'w handler" where
  "handle_code_EVEX_VPUNPCKHWD_ZMM_K1Z_ZMM_ZMMM512 = vex_unpack (unpack_elements TYPE(16) 4 8)"

definition handle_code_EVEX_VPUNPCKLDQ_ZMM_K1Z_ZMM_ZMMM512 :: "'w handler" where
  "handle_code_EVEX_VPUNPCKLDQ_ZMM_K1Z_ZMM_ZMMM512 = vex_unpack (unpack_elements TYPE(32) 2 0)"

definition handle_code_EVEX_VPUNPCKHDQ_ZMM_K1Z_ZMM_ZMMM512 :: "'w handler" where
  "handle_code_EVEX_VPUNPCKHDQ_ZMM_K1Z_ZMM_ZMMM512 = vex_unpack (unpack_elements TYPE(32) 2 8)"

end
