(* ===== verification/Simd_Dispatch.thy ===== *)
theory Simd_Dispatch
  imports Handler_Invariant Simd_Mov Simd_Shuffle
begin

text \<open>
  The vector instructions keep the machine invariant: the statements and templates of \<open>Simd_Int\<close>, \<open>Simd_Mov\<close> and \<open>Simd_Shuffle\<close>, and the
  entries of \<^verbatim>\<open>handled_codes.def\<close> for their handlers.
\<close>

section \<open>Statements\<close>

lemma wf_cpu_vectors [simp]:
  "wf_cpu s \<Longrightarrow> wf_cpu (s\<lparr>vectors := xs\<rparr>) \<longleftrightarrow> length xs = 32" "wf_cpu s \<Longrightarrow> length (vectors s) = 32"
  unfolding wf_cpu_def by simp_all

lemma wf_write_vec [simp]:
  "wf_cpu s \<Longrightarrow> wf_cpu (write_vec r v z s)" "wf_cpu s \<Longrightarrow> wf_cpu (write_vec_mov r v w z s)"
  "wf_cpu s \<Longrightarrow> wf_cpu (set_pcmpstr_flags x l1 l2 n s)"
  by (simp_all add: write_vec_def write_vec_mov_def set_pcmpstr_flags_def Let_def)

lemma wf_vec_access [simp]:
  "wf_ctx c \<Longrightarrow> wf_ctx (snd (read_vec_mem c a w))" "wf_ctx c \<Longrightarrow> wf_ctx (snd (write_vec_mem c a v w))"
  by (simp_all add: read_vec_mem_def write_vec_mem_def case_prod_beta read_inv write_inv)

lemma wf_vec_operand [simp]:
  assumes "wf_ctx c"
  shows "wf_ctx (snd (read_vec_operand c k w))" "wf_ctx (snd (read_vec_operand_plain c k w))"
    "wf_ctx (snd (read_any c k w))" "wf_ctx (snd (write_any c k v w z))"
  using assms
  by (simp_all add: read_vec_operand_def read_vec_operand_plain_def read_any_def write_any_def Let_def case_prod_beta split: option.split)

lemma wf_vec_statements [simp]:
  assumes "wf_ctx c"
  shows "(\<And>r c. wf_ctx c \<Longrightarrow> wf_ctx (snd (f r c))) \<Longrightarrow> wf_ctx (snd (with_vector_dst f c))"
    "(\<And>v c. wf_ctx c \<Longrightarrow> wf_ctx (snd (g v c))) \<Longrightarrow> wf_ctx (snd (with_vec_operand k w g c))"
    "(\<And>v c. wf_ctx c \<Longrightarrow> wf_ctx (snd (g v c))) \<Longrightarrow> wf_ctx (snd (with_plain_operand k w g c))"
    "(\<And>v c. wf_ctx c \<Longrightarrow> wf_ctx (snd (g v c))) \<Longrightarrow> wf_ctx (snd (with_any k w g c))"
    "wf_ctx (snd (put_vec r v z c))" "wf_ctx (snd (put_vec_mov r v z c))" "wf_ctx (snd (put_any k w z v c))"
  using assms
  by (simp_all add: with_vector_dst_def with_vec_operand_def with_plain_operand_def with_any_def put_vec_def put_vec_mov_def put_any_def
      case_prod_beta split: option.split bool.split)

section \<open>Templates\<close>

lemma wf_packed [simp]:
  "wf_handler (legacy_custom_binary f0 z)" "wf_handler (legacy_binary f z)" "wf_handler (vex_binary f z)" "wf_handler (legacy_compare f z)"
  "wf_handler (vex_compare f z)" "wf_handler (legacy_bitwise g z)" "wf_handler (vex_bitwise g z)" "wf_handler (vex_bitwise_lanes t g z)"
  "wf_handler (legacy_shift_reg s z)" "wf_handler (legacy_shift_imm s z)" "wf_handler (vex_shift_imm s z)" "wf_handler (vex_shift_reg s z)"
  "wf_handler (legacy_shift_dq_imm b z)" "wf_handler (vex_shift_dq_imm b z)" "wf_handler (pcmpstr e m)"
  by (simp_all add: wf_handler_def legacy_custom_binary_def legacy_binary_def vex_binary_def legacy_compare_def vex_compare_def
      legacy_bitwise_def vex_bitwise_def vex_bitwise_lanes_def legacy_shift_reg_def legacy_shift_imm_def vex_shift_imm_def
      vex_shift_reg_def legacy_shift_dq_imm_def vex_shift_dq_imm_def pcmpstr_def Let_def)

lemma wf_vector_moves [simp]:
  "wf_handler (full_move d s z)" "wf_handler (low_move d s w z)" "wf_handler (low_move_legacy_scalar_load d s w)"
  "wf_handler (merge_low_move d m s w z)" "wf_handler (merge_high_move d m s w z)" "wf_handler (gpr_to_xmm d s w)"
  "wf_handler (xmm_to_gpr d s w)" "wf_handler pextrw_to_gpr_or_mem" "wf_handler (high_lane_to_gpr d s w)" "wf_handler movlhps_legacy"
  "wf_handler movhlps_legacy" "wf_handler vmovlhps" "wf_handler vmovhlps"
  by (simp_all add: wf_handler_def full_move_def low_move_def low_move_legacy_scalar_load_def merge_low_move_def merge_high_move_def
      gpr_to_xmm_def xmm_to_gpr_def pextrw_to_gpr_or_mem_def high_lane_to_gpr_def movlhps_legacy_def movhlps_legacy_def vmovlhps_def
      vmovhlps_def Let_def case_prod_beta split: bool.split)

lemma wf_rearrangements [simp]:
  "wf_handler (duplicate_low_double z)" "wf_handler (legacy_pack f)" "wf_handler (vex_pack f)" "wf_handler (legacy_unpack g)"
  "wf_handler (vex_unpack g)" "wf_handler (\<lambda>c. legacy_binary_lanewise n l (h c) z c)" "wf_handler (\<lambda>c. vex_binary_lanewise n l (h c) z c)"
  "wf_handler (\<lambda>c. unary_lanewise n l (k c) z c)"
  by (simp_all add: wf_handler_def duplicate_low_double_def legacy_pack_def vex_pack_def legacy_unpack_def vex_unpack_def
      legacy_binary_lanewise_def vex_binary_lanewise_def unary_lanewise_def Let_def)

lemmas wf_rearrangements_const [simp] =
  wf_rearrangements(6) [where h="\<lambda>_. h" for h, simplified] wf_rearrangements(7) [where h="\<lambda>_. h" for h, simplified]
  wf_rearrangements(8) [where k="\<lambda>_. k" for k, simplified]

section \<open>The tables\<close>

definition packed_integer_table :: "(icode \<times> 'w handler) list" where
  "packed_integer_table =
    [(''PADDB_XMM_XMMM128'', handle_code_PADDB_XMM_XMMM128), (''PADDW_XMM_XMMM128'', handle_code_PADDW_XMM_XMMM128),
     (''PADDD_XMM_XMMM128'', handle_code_PADDD_XMM_XMMM128), (''PADDQ_XMM_XMMM128'', handle_code_PADDQ_XMM_XMMM128),
     (''PADDUSB_XMM_XMMM128'', handle_code_PADDUSB_XMM_XMMM128), (''PADDUSW_XMM_XMMM128'', handle_code_PADDUSW_XMM_XMMM128),
     (''PADDSB_XMM_XMMM128'', handle_code_PADDSB_XMM_XMMM128), (''PADDSW_XMM_XMMM128'', handle_code_PADDSW_XMM_XMMM128),
     (''PSUBB_XMM_XMMM128'', handle_code_PSUBB_XMM_XMMM128), (''PSUBW_XMM_XMMM128'', handle_code_PSUBW_XMM_XMMM128),
     (''PSUBD_XMM_XMMM128'', handle_code_PSUBD_XMM_XMMM128), (''PSUBQ_XMM_XMMM128'', handle_code_PSUBQ_XMM_XMMM128),
     (''PSUBUSB_XMM_XMMM128'', handle_code_PSUBUSB_XMM_XMMM128), (''PSUBUSW_XMM_XMMM128'', handle_code_PSUBUSW_XMM_XMMM128),
     (''PSUBSB_XMM_XMMM128'', handle_code_PSUBSB_XMM_XMMM128), (''PSUBSW_XMM_XMMM128'', handle_code_PSUBSW_XMM_XMMM128),
     (''PCMPEQB_XMM_XMMM128'', handle_code_PCMPEQB_XMM_XMMM128), (''PCMPEQW_XMM_XMMM128'', handle_code_PCMPEQW_XMM_XMMM128),
     (''PCMPEQD_XMM_XMMM128'', handle_code_PCMPEQD_XMM_XMMM128), (''PCMPEQQ_XMM_XMMM128'', handle_code_PCMPEQQ_XMM_XMMM128),
     (''PCMPGTB_XMM_XMMM128'', handle_code_PCMPGTB_XMM_XMMM128), (''PCMPGTW_XMM_XMMM128'', handle_code_PCMPGTW_XMM_XMMM128),
     (''PCMPGTD_XMM_XMMM128'', handle_code_PCMPGTD_XMM_XMMM128), (''PCMPGTQ_XMM_XMMM128'', handle_code_PCMPGTQ_XMM_XMMM128),
     (''PAVGB_XMM_XMMM128'', handle_code_PAVGB_XMM_XMMM128), (''PAVGW_XMM_XMMM128'', handle_code_PAVGW_XMM_XMMM128),
     (''PMULLW_XMM_XMMM128'', handle_code_PMULLW_XMM_XMMM128), (''PMULHW_XMM_XMMM128'', handle_code_PMULHW_XMM_XMMM128),
     (''PMULHUW_XMM_XMMM128'', handle_code_PMULHUW_XMM_XMMM128), (''PMULUDQ_XMM_XMMM128'', handle_code_PMULUDQ_XMM_XMMM128),
     (''PMADDWD_XMM_XMMM128'', handle_code_PMADDWD_XMM_XMMM128), (''PSADBW_XMM_XMMM128'', handle_code_PSADBW_XMM_XMMM128),
     (''PMAXUB_XMM_XMMM128'', handle_code_PMAXUB_XMM_XMMM128), (''PMINSW_XMM_XMMM128'', handle_code_PMINSW_XMM_XMMM128),
     (''PAND_XMM_XMMM128'', handle_code_PAND_XMM_XMMM128), (''PANDN_XMM_XMMM128'', handle_code_PANDN_XMM_XMMM128),
     (''POR_XMM_XMMM128'', handle_code_POR_XMM_XMMM128), (''PXOR_XMM_XMMM128'', handle_code_PXOR_XMM_XMMM128),
     (''PSLLW_XMM_XMMM128'', handle_code_PSLLW_XMM_XMMM128), (''PSLLD_XMM_XMMM128'', handle_code_PSLLD_XMM_XMMM128),
     (''PSLLQ_XMM_XMMM128'', handle_code_PSLLQ_XMM_XMMM128), (''PSRLW_XMM_XMMM128'', handle_code_PSRLW_XMM_XMMM128),
     (''PSRLD_XMM_XMMM128'', handle_code_PSRLD_XMM_XMMM128), (''PSRLQ_XMM_XMMM128'', handle_code_PSRLQ_XMM_XMMM128),
     (''PSRAW_XMM_XMMM128'', handle_code_PSRAW_XMM_XMMM128), (''PSRAD_XMM_XMMM128'', handle_code_PSRAD_XMM_XMMM128),
     (''PSLLW_XMM_IMM8'', handle_code_PSLLW_XMM_IMM8), (''PSLLD_XMM_IMM8'', handle_code_PSLLD_XMM_IMM8),
     (''PSLLQ_XMM_IMM8'', handle_code_PSLLQ_XMM_IMM8), (''PSRLW_XMM_IMM8'', handle_code_PSRLW_XMM_IMM8),
     (''PSRLD_XMM_IMM8'', handle_code_PSRLD_XMM_IMM8), (''PSRLQ_XMM_IMM8'', handle_code_PSRLQ_XMM_IMM8),
     (''PSRAW_XMM_IMM8'', handle_code_PSRAW_XMM_IMM8), (''PSRAD_XMM_IMM8'', handle_code_PSRAD_XMM_IMM8),
     (''PSRLDQ_XMM_IMM8'', handle_code_PSRLDQ_XMM_IMM8), (''PSLLDQ_XMM_IMM8'', handle_code_PSLLDQ_XMM_IMM8),
     (''VEX_VPADDB_XMM_XMM_XMMM128'', handle_code_VEX_VPADDB_XMM_XMM_XMMM128),
     (''VEX_VPADDW_XMM_XMM_XMMM128'', handle_code_VEX_VPADDW_XMM_XMM_XMMM128),
     (''VEX_VPADDD_XMM_XMM_XMMM128'', handle_code_VEX_VPADDD_XMM_XMM_XMMM128),
     (''VEX_VPADDQ_XMM_XMM_XMMM128'', handle_code_VEX_VPADDQ_XMM_XMM_XMMM128),
     (''VEX_VPADDUSB_XMM_XMM_XMMM128'', handle_code_VEX_VPADDUSB_XMM_XMM_XMMM128),
     (''VEX_VPADDUSW_XMM_XMM_XMMM128'', handle_code_VEX_VPADDUSW_XMM_XMM_XMMM128),
     (''VEX_VPADDSB_XMM_XMM_XMMM128'', handle_code_VEX_VPADDSB_XMM_XMM_XMMM128),
     (''VEX_VPADDSW_XMM_XMM_XMMM128'', handle_code_VEX_VPADDSW_XMM_XMM_XMMM128),
     (''VEX_VPSUBB_XMM_XMM_XMMM128'', handle_code_VEX_VPSUBB_XMM_XMM_XMMM128),
     (''VEX_VPSUBW_XMM_XMM_XMMM128'', handle_code_VEX_VPSUBW_XMM_XMM_XMMM128),
     (''VEX_VPSUBD_XMM_XMM_XMMM128'', handle_code_VEX_VPSUBD_XMM_XMM_XMMM128),
     (''VEX_VPSUBQ_XMM_XMM_XMMM128'', handle_code_VEX_VPSUBQ_XMM_XMM_XMMM128),
     (''VEX_VPSUBUSB_XMM_XMM_XMMM128'', handle_code_VEX_VPSUBUSB_XMM_XMM_XMMM128),
     (''VEX_VPSUBUSW_XMM_XMM_XMMM128'', handle_code_VEX_VPSUBUSW_XMM_XMM_XMMM128),
     (''VEX_VPSUBSB_XMM_XMM_XMMM128'', handle_code_VEX_VPSUBSB_XMM_XMM_XMMM128),
     (''VEX_VPSUBSW_XMM_XMM_XMMM128'', handle_code_VEX_VPSUBSW_XMM_XMM_XMMM128),
     (''VEX_VPCMPEQB_XMM_XMM_XMMM128'', handle_code_VEX_VPCMPEQB_XMM_XMM_XMMM128),
     (''VEX_VPCMPEQW_XMM_XMM_XMMM128'', handle_code_VEX_VPCMPEQW_XMM_XMM_XMMM128),
     (''VEX_VPCMPEQD_XMM_XMM_XMMM128'', handle_code_VEX_VPCMPEQD_XMM_XMM_XMMM128),
     (''VEX_VPCMPEQQ_XMM_XMM_XMMM128'', handle_code_VEX_VPCMPEQQ_XMM_XMM_XMMM128),
     (''VEX_VPCMPGTB_XMM_XMM_XMMM128'', handle_code_VEX_VPCMPGTB_XMM_XMM_XMMM128),
     (''VEX_VPCMPGTW_XMM_XMM_XMMM128'', handle_code_VEX_VPCMPGTW_XMM_XMM_XMMM128),
     (''VEX_VPCMPGTD_XMM_XMM_XMMM128'', handle_code_VEX_VPCMPGTD_XMM_XMM_XMMM128),
     (''VEX_VPCMPGTQ_XMM_XMM_XMMM128'', handle_code_VEX_VPCMPGTQ_XMM_XMM_XMMM128),
     (''VEX_VPAVGB_XMM_XMM_XMMM128'', handle_code_VEX_VPAVGB_XMM_XMM_XMMM128),
     (''VEX_VPAVGW_XMM_XMM_XMMM128'', handle_code_VEX_VPAVGW_XMM_XMM_XMMM128),
     (''VEX_VPMULLW_XMM_XMM_XMMM128'', handle_code_VEX_VPMULLW_XMM_XMM_XMMM128),
     (''VEX_VPAND_XMM_XMM_XMMM128'', handle_code_VEX_VPAND_XMM_XMM_XMMM128),
     (''VEX_VPANDN_XMM_XMM_XMMM128'', handle_code_VEX_VPANDN_XMM_XMM_XMMM128),
     (''VEX_VPOR_XMM_XMM_XMMM128'', handle_code_VEX_VPOR_XMM_XMM_XMMM128),
     (''VEX_VPXOR_XMM_XMM_XMMM128'', handle_code_VEX_VPXOR_XMM_XMM_XMMM128),
     (''VEX_VPSLLW_XMM_XMM_XMMM128'', handle_code_VEX_VPSLLW_XMM_XMM_XMMM128),
     (''VEX_VPSLLD_XMM_XMM_XMMM128'', handle_code_VEX_VPSLLD_XMM_XMM_XMMM128),
     (''VEX_VPSLLQ_XMM_XMM_XMMM128'', handle_code_VEX_VPSLLQ_XMM_XMM_XMMM128),
     (''VEX_VPSRLW_XMM_XMM_XMMM128'', handle_code_VEX_VPSRLW_XMM_XMM_XMMM128),
     (''VEX_VPSRLD_XMM_XMM_XMMM128'', handle_code_VEX_VPSRLD_XMM_XMM_XMMM128),
     (''VEX_VPSRLQ_XMM_XMM_XMMM128'', handle_code_VEX_VPSRLQ_XMM_XMM_XMMM128),
     (''VEX_VPSRAW_XMM_XMM_XMMM128'', handle_code_VEX_VPSRAW_XMM_XMM_XMMM128),
     (''VEX_VPSRAD_XMM_XMM_XMMM128'', handle_code_VEX_VPSRAD_XMM_XMM_XMMM128),
     (''VEX_VPSLLW_XMM_XMM_IMM8'', handle_code_VEX_VPSLLW_XMM_XMM_IMM8),
     (''VEX_VPSLLD_XMM_XMM_IMM8'', handle_code_VEX_VPSLLD_XMM_XMM_IMM8),
     (''VEX_VPSLLQ_XMM_XMM_IMM8'', handle_code_VEX_VPSLLQ_XMM_XMM_IMM8),
     (''VEX_VPSRLW_XMM_XMM_IMM8'', handle_code_VEX_VPSRLW_XMM_XMM_IMM8),
     (''VEX_VPSRLD_XMM_XMM_IMM8'', handle_code_VEX_VPSRLD_XMM_XMM_IMM8),
     (''VEX_VPSRLQ_XMM_XMM_IMM8'', handle_code_VEX_VPSRLQ_XMM_XMM_IMM8),
     (''VEX_VPSRAW_XMM_XMM_IMM8'', handle_code_VEX_VPSRAW_XMM_XMM_IMM8),
     (''VEX_VPSRAD_XMM_XMM_IMM8'', handle_code_VEX_VPSRAD_XMM_XMM_IMM8),
     (''VEX_VPSRLDQ_XMM_XMM_IMM8'', handle_code_VEX_VPSRLDQ_XMM_XMM_IMM8),
     (''VEX_VPSRLDQ_YMM_YMM_IMM8'', handle_code_VEX_VPSRLDQ_YMM_YMM_IMM8),
     (''VEX_VPSLLDQ_XMM_XMM_IMM8'', handle_code_VEX_VPSLLDQ_XMM_XMM_IMM8),
     (''VEX_VPSLLDQ_YMM_YMM_IMM8'', handle_code_VEX_VPSLLDQ_YMM_YMM_IMM8),
     (''VEX_VPADDB_YMM_YMM_YMMM256'', handle_code_VEX_VPADDB_YMM_YMM_YMMM256),
     (''VEX_VPADDW_YMM_YMM_YMMM256'', handle_code_VEX_VPADDW_YMM_YMM_YMMM256),
     (''VEX_VPADDD_YMM_YMM_YMMM256'', handle_code_VEX_VPADDD_YMM_YMM_YMMM256),
     (''VEX_VPADDQ_YMM_YMM_YMMM256'', handle_code_VEX_VPADDQ_YMM_YMM_YMMM256),
     (''VEX_VPADDUSB_YMM_YMM_YMMM256'', handle_code_VEX_VPADDUSB_YMM_YMM_YMMM256),
     (''VEX_VPADDUSW_YMM_YMM_YMMM256'', handle_code_VEX_VPADDUSW_YMM_YMM_YMMM256),
     (''VEX_VPADDSB_YMM_YMM_YMMM256'', handle_code_VEX_VPADDSB_YMM_YMM_YMMM256),
     (''VEX_VPADDSW_YMM_YMM_YMMM256'', handle_code_VEX_VPADDSW_YMM_YMM_YMMM256),
     (''VEX_VPSUBB_YMM_YMM_YMMM256'', handle_code_VEX_VPSUBB_YMM_YMM_YMMM256),
     (''VEX_VPSUBW_YMM_YMM_YMMM256'', handle_code_VEX_VPSUBW_YMM_YMM_YMMM256),
     (''VEX_VPSUBD_YMM_YMM_YMMM256'', handle_code_VEX_VPSUBD_YMM_YMM_YMMM256),
     (''VEX_VPSUBQ_YMM_YMM_YMMM256'', handle_code_VEX_VPSUBQ_YMM_YMM_YMMM256),
     (''VEX_VPSUBUSB_YMM_YMM_YMMM256'', handle_code_VEX_VPSUBUSB_YMM_YMM_YMMM256),
     (''VEX_VPSUBUSW_YMM_YMM_YMMM256'', handle_code_VEX_VPSUBUSW_YMM_YMM_YMMM256),
     (''VEX_VPSUBSB_YMM_YMM_YMMM256'', handle_code_VEX_VPSUBSB_YMM_YMM_YMMM256),
     (''VEX_VPSUBSW_YMM_YMM_YMMM256'', handle_code_VEX_VPSUBSW_YMM_YMM_YMMM256),
     (''VEX_VPCMPEQB_YMM_YMM_YMMM256'', handle_code_VEX_VPCMPEQB_YMM_YMM_YMMM256),
     (''VEX_VPCMPEQW_YMM_YMM_YMMM256'', handle_code_VEX_VPCMPEQW_YMM_YMM_YMMM256),
     (''VEX_VPCMPEQD_YMM_YMM_YMMM256'', handle_code_VEX_VPCMPEQD_YMM_YMM_YMMM256),
     (''VEX_VPCMPEQQ_YMM_YMM_YMMM256'', handle_code_VEX_VPCMPEQQ_YMM_YMM_YMMM256),
     (''VEX_VPCMPGTB_YMM_YMM_YMMM256'', handle_code_VEX_VPCMPGTB_YMM_YMM_YMMM256),
     (''VEX_VPCMPGTW_YMM_YMM_YMMM256'', handle_code_VEX_VPCMPGTW_YMM_YMM_YMMM256),
     (''VEX_VPCMPGTD_YMM_YMM_YMMM256'', handle_code_VEX_VPCMPGTD_YMM_YMM_YMMM256),
     (''VEX_VPCMPGTQ_YMM_YMM_YMMM256'', handle_code_VEX_VPCMPGTQ_YMM_YMM_YMMM256),
     (''VEX_VPAVGB_YMM_YMM_YMMM256'', handle_code_VEX_VPAVGB_YMM_YMM_YMMM256),
     (''VEX_VPAVGW_YMM_YMM_YMMM256'', handle_code_VEX_VPAVGW_YMM_YMM_YMMM256),
     (''VEX_VPMULLW_YMM_YMM_YMMM256'', handle_code_VEX_VPMULLW_YMM_YMM_YMMM256),
     (''VEX_VPAND_YMM_YMM_YMMM256'', handle_code_VEX_VPAND_YMM_YMM_YMMM256),
     (''VEX_VPANDN_YMM_YMM_YMMM256'', handle_code_VEX_VPANDN_YMM_YMM_YMMM256),
     (''VEX_VPOR_YMM_YMM_YMMM256'', handle_code_VEX_VPOR_YMM_YMM_YMMM256),
     (''VEX_VPXOR_YMM_YMM_YMMM256'', handle_code_VEX_VPXOR_YMM_YMM_YMMM256),
     (''VEX_VPSLLW_YMM_YMM_IMM8'', handle_code_VEX_VPSLLW_YMM_YMM_IMM8),
     (''VEX_VPSLLD_YMM_YMM_IMM8'', handle_code_VEX_VPSLLD_YMM_YMM_IMM8),
     (''VEX_VPSLLQ_YMM_YMM_IMM8'', handle_code_VEX_VPSLLQ_YMM_YMM_IMM8),
     (''VEX_VPSRLW_YMM_YMM_IMM8'', handle_code_VEX_VPSRLW_YMM_YMM_IMM8),
     (''VEX_VPSRLD_YMM_YMM_IMM8'', handle_code_VEX_VPSRLD_YMM_YMM_IMM8),
     (''VEX_VPSRLQ_YMM_YMM_IMM8'', handle_code_VEX_VPSRLQ_YMM_YMM_IMM8),
     (''VEX_VPSRAW_YMM_YMM_IMM8'', handle_code_VEX_VPSRAW_YMM_YMM_IMM8),
     (''VEX_VPSRAD_YMM_YMM_IMM8'', handle_code_VEX_VPSRAD_YMM_YMM_IMM8),
     (''EVEX_VPADDB_XMM_K1Z_XMM_XMMM128'', handle_code_EVEX_VPADDB_XMM_K1Z_XMM_XMMM128),
     (''EVEX_VPADDB_YMM_K1Z_YMM_YMMM256'', handle_code_EVEX_VPADDB_YMM_K1Z_YMM_YMMM256),
     (''EVEX_VPADDB_ZMM_K1Z_ZMM_ZMMM512'', handle_code_EVEX_VPADDB_ZMM_K1Z_ZMM_ZMMM512),
     (''EVEX_VPADDW_XMM_K1Z_XMM_XMMM128'', handle_code_EVEX_VPADDW_XMM_K1Z_XMM_XMMM128),
     (''EVEX_VPADDW_YMM_K1Z_YMM_YMMM256'', handle_code_EVEX_VPADDW_YMM_K1Z_YMM_YMMM256),
     (''EVEX_VPADDW_ZMM_K1Z_ZMM_ZMMM512'', handle_code_EVEX_VPADDW_ZMM_K1Z_ZMM_ZMMM512),
     (''EVEX_VPADDD_XMM_K1Z_XMM_XMMM128B32'', handle_code_EVEX_VPADDD_XMM_K1Z_XMM_XMMM128B32),
     (''EVEX_VPADDD_YMM_K1Z_YMM_YMMM256B32'', handle_code_EVEX_VPADDD_YMM_K1Z_YMM_YMMM256B32),
     (''EVEX_VPADDD_ZMM_K1Z_ZMM_ZMMM512B32'', handle_code_EVEX_VPADDD_ZMM_K1Z_ZMM_ZMMM512B32),
     (''EVEX_VPADDQ_XMM_K1Z_XMM_XMMM128B64'', handle_code_EVEX_VPADDQ_XMM_K1Z_XMM_XMMM128B64),
     (''EVEX_VPADDQ_YMM_K1Z_YMM_YMMM256B64'', handle_code_EVEX_VPADDQ_YMM_K1Z_YMM_YMMM256B64),
     (''EVEX_VPADDQ_ZMM_K1Z_ZMM_ZMMM512B64'', handle_code_EVEX_VPADDQ_ZMM_K1Z_ZMM_ZMMM512B64),
     (''EVEX_VPADDUSB_XMM_K1Z_XMM_XMMM128'', handle_code_EVEX_VPADDUSB_XMM_K1Z_XMM_XMMM128),
     (''EVEX_VPADDUSB_YMM_K1Z_YMM_YMMM256'', handle_code_EVEX_VPADDUSB_YMM_K1Z_YMM_YMMM256),
     (''EVEX_VPADDUSB_ZMM_K1Z_ZMM_ZMMM512'', handle_code_EVEX_VPADDUSB_ZMM_K1Z_ZMM_ZMMM512),
     (''EVEX_VPADDUSW_XMM_K1Z_XMM_XMMM128'', handle_code_EVEX_VPADDUSW_XMM_K1Z_XMM_XMMM128),
     (''EVEX_VPADDUSW_YMM_K1Z_YMM_YMMM256'', handle_code_EVEX_VPADDUSW_YMM_K1Z_YMM_YMMM256),
     (''EVEX_VPADDUSW_ZMM_K1Z_ZMM_ZMMM512'', handle_code_EVEX_VPADDUSW_ZMM_K1Z_ZMM_ZMMM512),
     (''EVEX_VPADDSB_XMM_K1Z_XMM_XMMM128'', handle_code_EVEX_VPADDSB_XMM_K1Z_XMM_XMMM128),
     (''EVEX_VPADDSB_YMM_K1Z_YMM_YMMM256'', handle_code_EVEX_VPADDSB_YMM_K1Z_YMM_YMMM256),
     (''EVEX_VPADDSB_ZMM_K1Z_ZMM_ZMMM512'', handle_code_EVEX_VPADDSB_ZMM_K1Z_ZMM_ZMMM512),
     (''EVEX_VPADDSW_XMM_K1Z_XMM_XMMM128'', handle_code_EVEX_VPADDSW_XMM_K1Z_XMM_XMMM128),
     (''EVEX_VPADDSW_YMM_K1Z_YMM_YMMM256'', handle_code_EVEX_VPADDSW_YMM_K1Z_YMM_YMMM256),
     (''EVEX_VPADDSW_ZMM_K1Z_ZMM_ZMMM512'', handle_code_EVEX_VPADDSW_ZMM_K1Z_ZMM_ZMMM512),
     (''EVEX_VPSUBB_XMM_K1Z_XMM_XMMM128'', handle_code_EVEX_VPSUBB_XMM_K1Z_XMM_XMMM128),
     (''EVEX_VPSUBB_YMM_K1Z_YMM_YMMM256'', handle_code_EVEX_VPSUBB_YMM_K1Z_YMM_YMMM256),
     (''EVEX_VPSUBB_ZMM_K1Z_ZMM_ZMMM512'', handle_code_EVEX_VPSUBB_ZMM_K1Z_ZMM_ZMMM512),
     (''EVEX_VPSUBW_XMM_K1Z_XMM_XMMM128'', handle_code_EVEX_VPSUBW_XMM_K1Z_XMM_XMMM128),
     (''EVEX_VPSUBW_YMM_K1Z_YMM_YMMM256'', handle_code_EVEX_VPSUBW_YMM_K1Z_YMM_YMMM256),
     (''EVEX_VPSUBW_ZMM_K1Z_ZMM_ZMMM512'', handle_code_EVEX_VPSUBW_ZMM_K1Z_ZMM_ZMMM512),
     (''EVEX_VPSUBD_XMM_K1Z_XMM_XMMM128B32'', handle_code_EVEX_VPSUBD_XMM_K1Z_XMM_XMMM128B32),
     (''EVEX_VPSUBD_YMM_K1Z_YMM_YMMM256B32'', handle_code_EVEX_VPSUBD_YMM_K1Z_YMM_YMMM256B32),
     (''EVEX_VPSUBD_ZMM_K1Z_ZMM_ZMMM512B32'', handle_code_EVEX_VPSUBD_ZMM_K1Z_ZMM_ZMMM512B32),
     (''EVEX_VPSUBQ_XMM_K1Z_XMM_XMMM128B64'', handle_code_EVEX_VPSUBQ_XMM_K1Z_XMM_XMMM128B64),
     (''EVEX_VPSUBQ_YMM_K1Z_YMM_YMMM256B64'', handle_code_EVEX_VPSUBQ_YMM_K1Z_YMM_YMMM256B64),
     (''EVEX_VPSUBQ_ZMM_K1Z_ZMM_ZMMM512B64'', handle_code_EVEX_VPSUBQ_ZMM_K1Z_ZMM_ZMMM512B64),
     (''EVEX_VPSUBUSB_XMM_K1Z_XMM_XMMM128'', handle_code_EVEX_VPSUBUSB_XMM_K1Z_XMM_XMMM128),
     (''EVEX_VPSUBUSB_YMM_K1Z_YMM_YMMM256'', handle_code_EVEX_VPSUBUSB_YMM_K1Z_YMM_YMMM256),
     (''EVEX_VPSUBUSB_ZMM_K1Z_ZMM_ZMMM512'', handle_code_EVEX_VPSUBUSB_ZMM_K1Z_ZMM_ZMMM512),
     (''EVEX_VPSUBUSW_XMM_K1Z_XMM_XMMM128'', handle_code_EVEX_VPSUBUSW_XMM_K1Z_XMM_XMMM128),
     (''EVEX_VPSUBUSW_YMM_K1Z_YMM_YMMM256'', handle_code_EVEX_VPSUBUSW_YMM_K1Z_YMM_YMMM256),
     (''EVEX_VPSUBUSW_ZMM_K1Z_ZMM_ZMMM512'', handle_code_EVEX_VPSUBUSW_ZMM_K1Z_ZMM_ZMMM512),
     (''EVEX_VPSUBSB_XMM_K1Z_XMM_XMMM128'', handle_code_EVEX_VPSUBSB_XMM_K1Z_XMM_XMMM128),
     (''EVEX_VPSUBSB_YMM_K1Z_YMM_YMMM256'', handle_code_EVEX_VPSUBSB_YMM_K1Z_YMM_YMMM256),
     (''EVEX_VPSUBSB_ZMM_K1Z_ZMM_ZMMM512'', handle_code_EVEX_VPSUBSB_ZMM_K1Z_ZMM_ZMMM512),
     (''EVEX_VPSUBSW_XMM_K1Z_XMM_XMMM128'', handle_code_EVEX_VPSUBSW_XMM_K1Z_XMM_XMMM128),
     (''EVEX_VPSUBSW_YMM_K1Z_YMM_YMMM256'', handle_code_EVEX_VPSUBSW_YMM_K1Z_YMM_YMMM256),
     (''EVEX_VPSUBSW_ZMM_K1Z_ZMM_ZMMM512'', handle_code_EVEX_VPSUBSW_ZMM_K1Z_ZMM_ZMMM512),
     (''EVEX_VPAVGB_XMM_K1Z_XMM_XMMM128'', handle_code_EVEX_VPAVGB_XMM_K1Z_XMM_XMMM128),
     (''EVEX_VPAVGB_YMM_K1Z_YMM_YMMM256'', handle_code_EVEX_VPAVGB_YMM_K1Z_YMM_YMMM256),
     (''EVEX_VPAVGB_ZMM_K1Z_ZMM_ZMMM512'', handle_code_EVEX_VPAVGB_ZMM_K1Z_ZMM_ZMMM512),
     (''EVEX_VPAVGW_XMM_K1Z_XMM_XMMM128'', handle_code_EVEX_VPAVGW_XMM_K1Z_XMM_XMMM128),
     (''EVEX_VPAVGW_YMM_K1Z_YMM_YMMM256'', handle_code_EVEX_VPAVGW_YMM_K1Z_YMM_YMMM256),
     (''EVEX_VPAVGW_ZMM_K1Z_ZMM_ZMMM512'', handle_code_EVEX_VPAVGW_ZMM_K1Z_ZMM_ZMMM512),
     (''EVEX_VPMULLW_XMM_K1Z_XMM_XMMM128'', handle_code_EVEX_VPMULLW_XMM_K1Z_XMM_XMMM128),
     (''EVEX_VPMULLW_YMM_K1Z_YMM_YMMM256'', handle_code_EVEX_VPMULLW_YMM_K1Z_YMM_YMMM256),
     (''EVEX_VPMULLW_ZMM_K1Z_ZMM_ZMMM512'', handle_code_EVEX_VPMULLW_ZMM_K1Z_ZMM_ZMMM512),
     (''EVEX_VPANDD_XMM_K1Z_XMM_XMMM128B32'', handle_code_EVEX_VPANDD_XMM_K1Z_XMM_XMMM128B32),
     (''EVEX_VPANDD_YMM_K1Z_YMM_YMMM256B32'', handle_code_EVEX_VPANDD_YMM_K1Z_YMM_YMMM256B32),
     (''EVEX_VPANDD_ZMM_K1Z_ZMM_ZMMM512B32'', handle_code_EVEX_VPANDD_ZMM_K1Z_ZMM_ZMMM512B32),
     (''EVEX_VPANDQ_XMM_K1Z_XMM_XMMM128B64'', handle_code_EVEX_VPANDQ_XMM_K1Z_XMM_XMMM128B64),
     (''EVEX_VPANDQ_YMM_K1Z_YMM_YMMM256B64'', handle_code_EVEX_VPANDQ_YMM_K1Z_YMM_YMMM256B64),
     (''EVEX_VPANDQ_ZMM_K1Z_ZMM_ZMMM512B64'', handle_code_EVEX_VPANDQ_ZMM_K1Z_ZMM_ZMMM512B64),
     (''EVEX_VPANDND_XMM_K1Z_XMM_XMMM128B32'', handle_code_EVEX_VPANDND_XMM_K1Z_XMM_XMMM128B32),
     (''EVEX_VPANDND_YMM_K1Z_YMM_YMMM256B32'', handle_code_EVEX_VPANDND_YMM_K1Z_YMM_YMMM256B32),
     (''EVEX_VPANDND_ZMM_K1Z_ZMM_ZMMM512B32'', handle_code_EVEX_VPANDND_ZMM_K1Z_ZMM_ZMMM512B32),
     (''EVEX_VPANDNQ_XMM_K1Z_XMM_XMMM128B64'', handle_code_EVEX_VPANDNQ_XMM_K1Z_XMM_XMMM128B64),
     (''EVEX_VPANDNQ_YMM_K1Z_YMM_YMMM256B64'', handle_code_EVEX_VPANDNQ_YMM_K1Z_YMM_YMMM256B64),
     (''EVEX_VPANDNQ_ZMM_K1Z_ZMM_ZMMM512B64'', handle_code_EVEX_VPANDNQ_ZMM_K1Z_ZMM_ZMMM512B64),
     (''EVEX_VPORD_XMM_K1Z_XMM_XMMM128B32'', handle_code_EVEX_VPORD_XMM_K1Z_XMM_XMMM128B32),
     (''EVEX_VPORD_YMM_K1Z_YMM_YMMM256B32'', handle_code_EVEX_VPORD_YMM_K1Z_YMM_YMMM256B32),
     (''EVEX_VPORD_ZMM_K1Z_ZMM_ZMMM512B32'', handle_code_EVEX_VPORD_ZMM_K1Z_ZMM_ZMMM512B32),
     (''EVEX_VPORQ_XMM_K1Z_XMM_XMMM128B64'', handle_code_EVEX_VPORQ_XMM_K1Z_XMM_XMMM128B64),
     (''EVEX_VPORQ_YMM_K1Z_YMM_YMMM256B64'', handle_code_EVEX_VPORQ_YMM_K1Z_YMM_YMMM256B64),
     (''EVEX_VPORQ_ZMM_K1Z_ZMM_ZMMM512B64'', handle_code_EVEX_VPORQ_ZMM_K1Z_ZMM_ZMMM512B64),
     (''EVEX_VPXORD_XMM_K1Z_XMM_XMMM128B32'', handle_code_EVEX_VPXORD_XMM_K1Z_XMM_XMMM128B32),
     (''EVEX_VPXORD_YMM_K1Z_YMM_YMMM256B32'', handle_code_EVEX_VPXORD_YMM_K1Z_YMM_YMMM256B32),
     (''EVEX_VPXORD_ZMM_K1Z_ZMM_ZMMM512B32'', handle_code_EVEX_VPXORD_ZMM_K1Z_ZMM_ZMMM512B32),
     (''EVEX_VPXORQ_XMM_K1Z_XMM_XMMM128B64'', handle_code_EVEX_VPXORQ_XMM_K1Z_XMM_XMMM128B64),
     (''EVEX_VPXORQ_YMM_K1Z_YMM_YMMM256B64'', handle_code_EVEX_VPXORQ_YMM_K1Z_YMM_YMMM256B64),
     (''EVEX_VPXORQ_ZMM_K1Z_ZMM_ZMMM512B64'', handle_code_EVEX_VPXORQ_ZMM_K1Z_ZMM_ZMMM512B64),
     (''EVEX_VPSLLW_XMM_K1Z_XMM_XMMM128'', handle_code_EVEX_VPSLLW_XMM_K1Z_XMM_XMMM128),
     (''EVEX_VPSLLW_YMM_K1Z_YMM_XMMM128'', handle_code_EVEX_VPSLLW_YMM_K1Z_YMM_XMMM128),
     (''EVEX_VPSLLW_ZMM_K1Z_ZMM_XMMM128'', handle_code_EVEX_VPSLLW_ZMM_K1Z_ZMM_XMMM128),
     (''EVEX_VPSLLD_XMM_K1Z_XMM_XMMM128'', handle_code_EVEX_VPSLLD_XMM_K1Z_XMM_XMMM128),
     (''EVEX_VPSLLD_YMM_K1Z_YMM_XMMM128'', handle_code_EVEX_VPSLLD_YMM_K1Z_YMM_XMMM128),
     (''EVEX_VPSLLD_ZMM_K1Z_ZMM_XMMM128'', handle_code_EVEX_VPSLLD_ZMM_K1Z_ZMM_XMMM128),
     (''EVEX_VPSLLQ_XMM_K1Z_XMM_XMMM128'', handle_code_EVEX_VPSLLQ_XMM_K1Z_XMM_XMMM128),
     (''EVEX_VPSLLQ_YMM_K1Z_YMM_XMMM128'', handle_code_EVEX_VPSLLQ_YMM_K1Z_YMM_XMMM128),
     (''EVEX_VPSLLQ_ZMM_K1Z_ZMM_XMMM128'', handle_code_EVEX_VPSLLQ_ZMM_K1Z_ZMM_XMMM128),
     (''EVEX_VPSRLW_XMM_K1Z_XMM_XMMM128'', handle_code_EVEX_VPSRLW_XMM_K1Z_XMM_XMMM128),
     (''EVEX_VPSRLW_YMM_K1Z_YMM_XMMM128'', handle_code_EVEX_VPSRLW_YMM_K1Z_YMM_XMMM128),
     (''EVEX_VPSRLW_ZMM_K1Z_ZMM_XMMM128'', handle_code_EVEX_VPSRLW_ZMM_K1Z_ZMM_XMMM128),
     (''EVEX_VPSRLD_XMM_K1Z_XMM_XMMM128'', handle_code_EVEX_VPSRLD_XMM_K1Z_XMM_XMMM128),
     (''EVEX_VPSRLD_YMM_K1Z_YMM_XMMM128'', handle_code_EVEX_VPSRLD_YMM_K1Z_YMM_XMMM128),
     (''EVEX_VPSRLD_ZMM_K1Z_ZMM_XMMM128'', handle_code_EVEX_VPSRLD_ZMM_K1Z_ZMM_XMMM128),
     (''EVEX_VPSRLQ_XMM_K1Z_XMM_XMMM128'', handle_code_EVEX_VPSRLQ_XMM_K1Z_XMM_XMMM128),
     (''EVEX_VPSRLQ_YMM_K1Z_YMM_XMMM128'', handle_code_EVEX_VPSRLQ_YMM_K1Z_YMM_XMMM128),
     (''EVEX_VPSRLQ_ZMM_K1Z_ZMM_XMMM128'', handle_code_EVEX_VPSRLQ_ZMM_K1Z_ZMM_XMMM128),
     (''EVEX_VPSRAW_XMM_K1Z_XMM_XMMM128'', handle_code_EVEX_VPSRAW_XMM_K1Z_XMM_XMMM128),
     (''EVEX_VPSRAW_YMM_K1Z_YMM_XMMM128'', handle_code_EVEX_VPSRAW_YMM_K1Z_YMM_XMMM128),
     (''EVEX_VPSRAW_ZMM_K1Z_ZMM_XMMM128'', handle_code_EVEX_VPSRAW_ZMM_K1Z_ZMM_XMMM128),
     (''EVEX_VPSRAD_XMM_K1Z_XMM_XMMM128'', handle_code_EVEX_VPSRAD_XMM_K1Z_XMM_XMMM128),
     (''EVEX_VPSRAD_YMM_K1Z_YMM_XMMM128'', handle_code_EVEX_VPSRAD_YMM_K1Z_YMM_XMMM128),
     (''EVEX_VPSRAD_ZMM_K1Z_ZMM_XMMM128'', handle_code_EVEX_VPSRAD_ZMM_K1Z_ZMM_XMMM128),
     (''EVEX_VPSLLW_XMM_K1Z_XMMM128_IMM8'', handle_code_EVEX_VPSLLW_XMM_K1Z_XMMM128_IMM8),
     (''EVEX_VPSLLW_YMM_K1Z_YMMM256_IMM8'', handle_code_EVEX_VPSLLW_YMM_K1Z_YMMM256_IMM8),
     (''EVEX_VPSLLW_ZMM_K1Z_ZMMM512_IMM8'', handle_code_EVEX_VPSLLW_ZMM_K1Z_ZMMM512_IMM8),
     (''EVEX_VPSLLD_XMM_K1Z_XMMM128B32_IMM8'', handle_code_EVEX_VPSLLD_XMM_K1Z_XMMM128B32_IMM8),
     (''EVEX_VPSLLD_YMM_K1Z_YMMM256B32_IMM8'', handle_code_EVEX_VPSLLD_YMM_K1Z_YMMM256B32_IMM8),
     (''EVEX_VPSLLD_ZMM_K1Z_ZMMM512B32_IMM8'', handle_code_EVEX_VPSLLD_ZMM_K1Z_ZMMM512B32_IMM8),
     (''EVEX_VPSLLQ_XMM_K1Z_XMMM128B64_IMM8'', handle_code_EVEX_VPSLLQ_XMM_K1Z_XMMM128B64_IMM8),
     (''EVEX_VPSLLQ_YMM_K1Z_YMMM256B64_IMM8'', handle_code_EVEX_VPSLLQ_YMM_K1Z_YMMM256B64_IMM8),
     (''EVEX_VPSLLQ_ZMM_K1Z_ZMMM512B64_IMM8'', handle_code_EVEX_VPSLLQ_ZMM_K1Z_ZMMM512B64_IMM8),
     (''EVEX_VPSRLW_XMM_K1Z_XMMM128_IMM8'', handle_code_EVEX_VPSRLW_XMM_K1Z_XMMM128_IMM8),
     (''EVEX_VPSRLW_YMM_K1Z_YMMM256_IMM8'', handle_code_EVEX_VPSRLW_YMM_K1Z_YMMM256_IMM8),
     (''EVEX_VPSRLW_ZMM_K1Z_ZMMM512_IMM8'', handle_code_EVEX_VPSRLW_ZMM_K1Z_ZMMM512_IMM8),
     (''EVEX_VPSRLD_XMM_K1Z_XMMM128B32_IMM8'', handle_code_EVEX_VPSRLD_XMM_K1Z_XMMM128B32_IMM8),
     (''EVEX_VPSRLD_YMM_K1Z_YMMM256B32_IMM8'', handle_code_EVEX_VPSRLD_YMM_K1Z_YMMM256B32_IMM8),
     (''EVEX_VPSRLD_ZMM_K1Z_ZMMM512B32_IMM8'', handle_code_EVEX_VPSRLD_ZMM_K1Z_ZMMM512B32_IMM8),
     (''EVEX_VPSRLQ_XMM_K1Z_XMMM128B64_IMM8'', handle_code_EVEX_VPSRLQ_XMM_K1Z_XMMM128B64_IMM8),
     (''EVEX_VPSRLQ_YMM_K1Z_YMMM256B64_IMM8'', handle_code_EVEX_VPSRLQ_YMM_K1Z_YMMM256B64_IMM8),
     (''EVEX_VPSRLQ_ZMM_K1Z_ZMMM512B64_IMM8'', handle_code_EVEX_VPSRLQ_ZMM_K1Z_ZMMM512B64_IMM8),
     (''EVEX_VPSRAW_XMM_K1Z_XMMM128_IMM8'', handle_code_EVEX_VPSRAW_XMM_K1Z_XMMM128_IMM8),
     (''EVEX_VPSRAW_YMM_K1Z_YMMM256_IMM8'', handle_code_EVEX_VPSRAW_YMM_K1Z_YMMM256_IMM8),
     (''EVEX_VPSRAW_ZMM_K1Z_ZMMM512_IMM8'', handle_code_EVEX_VPSRAW_ZMM_K1Z_ZMMM512_IMM8),
     (''EVEX_VPSRAD_XMM_K1Z_XMMM128B32_IMM8'', handle_code_EVEX_VPSRAD_XMM_K1Z_XMMM128B32_IMM8),
     (''EVEX_VPSRAD_YMM_K1Z_YMMM256B32_IMM8'', handle_code_EVEX_VPSRAD_YMM_K1Z_YMMM256B32_IMM8),
     (''EVEX_VPSRAD_ZMM_K1Z_ZMMM512B32_IMM8'', handle_code_EVEX_VPSRAD_ZMM_K1Z_ZMMM512B32_IMM8),
     (''PCMPISTRI_XMM_XMMM128_IMM8'', handle_code_PCMPISTRI_XMM_XMMM128_IMM8),
     (''PCMPISTRM_XMM_XMMM128_IMM8'', handle_code_PCMPISTRM_XMM_XMMM128_IMM8),
     (''PCMPESTRI_XMM_XMMM128_IMM8'', handle_code_PCMPESTRI_XMM_XMMM128_IMM8),
     (''PCMPESTRM_XMM_XMMM128_IMM8'', handle_code_PCMPESTRM_XMM_XMMM128_IMM8)]"

lemma packed_integer_table_wf: "list_all (\<lambda>(cd, h). wf_handler h) packed_integer_table"
  by (simp add: packed_integer_table_def
    handle_code_PADDB_XMM_XMMM128_def handle_code_PADDW_XMM_XMMM128_def handle_code_PADDD_XMM_XMMM128_def
    handle_code_PADDQ_XMM_XMMM128_def handle_code_PADDUSB_XMM_XMMM128_def handle_code_PADDUSW_XMM_XMMM128_def
    handle_code_PADDSB_XMM_XMMM128_def handle_code_PADDSW_XMM_XMMM128_def handle_code_PSUBB_XMM_XMMM128_def
    handle_code_PSUBW_XMM_XMMM128_def handle_code_PSUBD_XMM_XMMM128_def handle_code_PSUBQ_XMM_XMMM128_def
    handle_code_PSUBUSB_XMM_XMMM128_def handle_code_PSUBUSW_XMM_XMMM128_def handle_code_PSUBSB_XMM_XMMM128_def
    handle_code_PSUBSW_XMM_XMMM128_def handle_code_PCMPEQB_XMM_XMMM128_def handle_code_PCMPEQW_XMM_XMMM128_def
    handle_code_PCMPEQD_XMM_XMMM128_def handle_code_PCMPEQQ_XMM_XMMM128_def handle_code_PCMPGTB_XMM_XMMM128_def
    handle_code_PCMPGTW_XMM_XMMM128_def handle_code_PCMPGTD_XMM_XMMM128_def handle_code_PCMPGTQ_XMM_XMMM128_def
    handle_code_PAVGB_XMM_XMMM128_def handle_code_PAVGW_XMM_XMMM128_def handle_code_PMULLW_XMM_XMMM128_def
    handle_code_PMULHW_XMM_XMMM128_def handle_code_PMULHUW_XMM_XMMM128_def handle_code_PMULUDQ_XMM_XMMM128_def
    handle_code_PMADDWD_XMM_XMMM128_def handle_code_PSADBW_XMM_XMMM128_def handle_code_PMAXUB_XMM_XMMM128_def
    handle_code_PMINSW_XMM_XMMM128_def handle_code_PAND_XMM_XMMM128_def handle_code_PANDN_XMM_XMMM128_def
    handle_code_POR_XMM_XMMM128_def handle_code_PXOR_XMM_XMMM128_def handle_code_PSLLW_XMM_XMMM128_def
    handle_code_PSLLD_XMM_XMMM128_def handle_code_PSLLQ_XMM_XMMM128_def handle_code_PSRLW_XMM_XMMM128_def
    handle_code_PSRLD_XMM_XMMM128_def handle_code_PSRLQ_XMM_XMMM128_def handle_code_PSRAW_XMM_XMMM128_def
    handle_code_PSRAD_XMM_XMMM128_def handle_code_PSLLW_XMM_IMM8_def handle_code_PSLLD_XMM_IMM8_def handle_code_PSLLQ_XMM_IMM8_def
    handle_code_PSRLW_XMM_IMM8_def handle_code_PSRLD_XMM_IMM8_def handle_code_PSRLQ_XMM_IMM8_def handle_code_PSRAW_XMM_IMM8_def
    handle_code_PSRAD_XMM_IMM8_def handle_code_PSRLDQ_XMM_IMM8_def handle_code_PSLLDQ_XMM_IMM8_def
    handle_code_VEX_VPADDB_XMM_XMM_XMMM128_def handle_code_VEX_VPADDW_XMM_XMM_XMMM128_def handle_code_VEX_VPADDD_XMM_XMM_XMMM128_def
    handle_code_VEX_VPADDQ_XMM_XMM_XMMM128_def handle_code_VEX_VPADDUSB_XMM_XMM_XMMM128_def
    handle_code_VEX_VPADDUSW_XMM_XMM_XMMM128_def handle_code_VEX_VPADDSB_XMM_XMM_XMMM128_def
    handle_code_VEX_VPADDSW_XMM_XMM_XMMM128_def handle_code_VEX_VPSUBB_XMM_XMM_XMMM128_def handle_code_VEX_VPSUBW_XMM_XMM_XMMM128_def
    handle_code_VEX_VPSUBD_XMM_XMM_XMMM128_def handle_code_VEX_VPSUBQ_XMM_XMM_XMMM128_def handle_code_VEX_VPSUBUSB_XMM_XMM_XMMM128_def
    handle_code_VEX_VPSUBUSW_XMM_XMM_XMMM128_def handle_code_VEX_VPSUBSB_XMM_XMM_XMMM128_def
    handle_code_VEX_VPSUBSW_XMM_XMM_XMMM128_def handle_code_VEX_VPCMPEQB_XMM_XMM_XMMM128_def
    handle_code_VEX_VPCMPEQW_XMM_XMM_XMMM128_def handle_code_VEX_VPCMPEQD_XMM_XMM_XMMM128_def
    handle_code_VEX_VPCMPEQQ_XMM_XMM_XMMM128_def handle_code_VEX_VPCMPGTB_XMM_XMM_XMMM128_def
    handle_code_VEX_VPCMPGTW_XMM_XMM_XMMM128_def handle_code_VEX_VPCMPGTD_XMM_XMM_XMMM128_def
    handle_code_VEX_VPCMPGTQ_XMM_XMM_XMMM128_def handle_code_VEX_VPAVGB_XMM_XMM_XMMM128_def handle_code_VEX_VPAVGW_XMM_XMM_XMMM128_def
    handle_code_VEX_VPMULLW_XMM_XMM_XMMM128_def handle_code_VEX_VPAND_XMM_XMM_XMMM128_def handle_code_VEX_VPANDN_XMM_XMM_XMMM128_def
    handle_code_VEX_VPOR_XMM_XMM_XMMM128_def handle_code_VEX_VPXOR_XMM_XMM_XMMM128_def handle_code_VEX_VPSLLW_XMM_XMM_XMMM128_def
    handle_code_VEX_VPSLLD_XMM_XMM_XMMM128_def handle_code_VEX_VPSLLQ_XMM_XMM_XMMM128_def handle_code_VEX_VPSRLW_XMM_XMM_XMMM128_def
    handle_code_VEX_VPSRLD_XMM_XMM_XMMM128_def handle_code_VEX_VPSRLQ_XMM_XMM_XMMM128_def handle_code_VEX_VPSRAW_XMM_XMM_XMMM128_def
    handle_code_VEX_VPSRAD_XMM_XMM_XMMM128_def handle_code_VEX_VPSLLW_XMM_XMM_IMM8_def handle_code_VEX_VPSLLD_XMM_XMM_IMM8_def
    handle_code_VEX_VPSLLQ_XMM_XMM_IMM8_def handle_code_VEX_VPSRLW_XMM_XMM_IMM8_def handle_code_VEX_VPSRLD_XMM_XMM_IMM8_def
    handle_code_VEX_VPSRLQ_XMM_XMM_IMM8_def handle_code_VEX_VPSRAW_XMM_XMM_IMM8_def handle_code_VEX_VPSRAD_XMM_XMM_IMM8_def
    handle_code_VEX_VPSRLDQ_XMM_XMM_IMM8_def handle_code_VEX_VPSRLDQ_YMM_YMM_IMM8_def handle_code_VEX_VPSLLDQ_XMM_XMM_IMM8_def
    handle_code_VEX_VPSLLDQ_YMM_YMM_IMM8_def handle_code_VEX_VPADDB_YMM_YMM_YMMM256_def handle_code_VEX_VPADDW_YMM_YMM_YMMM256_def
    handle_code_VEX_VPADDD_YMM_YMM_YMMM256_def handle_code_VEX_VPADDQ_YMM_YMM_YMMM256_def handle_code_VEX_VPADDUSB_YMM_YMM_YMMM256_def
    handle_code_VEX_VPADDUSW_YMM_YMM_YMMM256_def handle_code_VEX_VPADDSB_YMM_YMM_YMMM256_def
    handle_code_VEX_VPADDSW_YMM_YMM_YMMM256_def handle_code_VEX_VPSUBB_YMM_YMM_YMMM256_def handle_code_VEX_VPSUBW_YMM_YMM_YMMM256_def
    handle_code_VEX_VPSUBD_YMM_YMM_YMMM256_def handle_code_VEX_VPSUBQ_YMM_YMM_YMMM256_def handle_code_VEX_VPSUBUSB_YMM_YMM_YMMM256_def
    handle_code_VEX_VPSUBUSW_YMM_YMM_YMMM256_def handle_code_VEX_VPSUBSB_YMM_YMM_YMMM256_def
    handle_code_VEX_VPSUBSW_YMM_YMM_YMMM256_def handle_code_VEX_VPCMPEQB_YMM_YMM_YMMM256_def
    handle_code_VEX_VPCMPEQW_YMM_YMM_YMMM256_def handle_code_VEX_VPCMPEQD_YMM_YMM_YMMM256_def
    handle_code_VEX_VPCMPEQQ_YMM_YMM_YMMM256_def handle_code_VEX_VPCMPGTB_YMM_YMM_YMMM256_def
    handle_code_VEX_VPCMPGTW_YMM_YMM_YMMM256_def handle_code_VEX_VPCMPGTD_YMM_YMM_YMMM256_def
    handle_code_VEX_VPCMPGTQ_YMM_YMM_YMMM256_def handle_code_VEX_VPAVGB_YMM_YMM_YMMM256_def handle_code_VEX_VPAVGW_YMM_YMM_YMMM256_def
    handle_code_VEX_VPMULLW_YMM_YMM_YMMM256_def handle_code_VEX_VPAND_YMM_YMM_YMMM256_def handle_code_VEX_VPANDN_YMM_YMM_YMMM256_def
    handle_code_VEX_VPOR_YMM_YMM_YMMM256_def handle_code_VEX_VPXOR_YMM_YMM_YMMM256_def handle_code_VEX_VPSLLW_YMM_YMM_IMM8_def
    handle_code_VEX_VPSLLD_YMM_YMM_IMM8_def handle_code_VEX_VPSLLQ_YMM_YMM_IMM8_def handle_code_VEX_VPSRLW_YMM_YMM_IMM8_def
    handle_code_VEX_VPSRLD_YMM_YMM_IMM8_def handle_code_VEX_VPSRLQ_YMM_YMM_IMM8_def handle_code_VEX_VPSRAW_YMM_YMM_IMM8_def
    handle_code_VEX_VPSRAD_YMM_YMM_IMM8_def handle_code_EVEX_VPADDB_XMM_K1Z_XMM_XMMM128_def
    handle_code_EVEX_VPADDB_YMM_K1Z_YMM_YMMM256_def handle_code_EVEX_VPADDB_ZMM_K1Z_ZMM_ZMMM512_def
    handle_code_EVEX_VPADDW_XMM_K1Z_XMM_XMMM128_def handle_code_EVEX_VPADDW_YMM_K1Z_YMM_YMMM256_def
    handle_code_EVEX_VPADDW_ZMM_K1Z_ZMM_ZMMM512_def handle_code_EVEX_VPADDD_XMM_K1Z_XMM_XMMM128B32_def
    handle_code_EVEX_VPADDD_YMM_K1Z_YMM_YMMM256B32_def handle_code_EVEX_VPADDD_ZMM_K1Z_ZMM_ZMMM512B32_def
    handle_code_EVEX_VPADDQ_XMM_K1Z_XMM_XMMM128B64_def handle_code_EVEX_VPADDQ_YMM_K1Z_YMM_YMMM256B64_def
    handle_code_EVEX_VPADDQ_ZMM_K1Z_ZMM_ZMMM512B64_def handle_code_EVEX_VPADDUSB_XMM_K1Z_XMM_XMMM128_def
    handle_code_EVEX_VPADDUSB_YMM_K1Z_YMM_YMMM256_def handle_code_EVEX_VPADDUSB_ZMM_K1Z_ZMM_ZMMM512_def
    handle_code_EVEX_VPADDUSW_XMM_K1Z_XMM_XMMM128_def handle_code_EVEX_VPADDUSW_YMM_K1Z_YMM_YMMM256_def
    handle_code_EVEX_VPADDUSW_ZMM_K1Z_ZMM_ZMMM512_def handle_code_EVEX_VPADDSB_XMM_K1Z_XMM_XMMM128_def
    handle_code_EVEX_VPADDSB_YMM_K1Z_YMM_YMMM256_def handle_code_EVEX_VPADDSB_ZMM_K1Z_ZMM_ZMMM512_def
    handle_code_EVEX_VPADDSW_XMM_K1Z_XMM_XMMM128_def handle_code_EVEX_VPADDSW_YMM_K1Z_YMM_YMMM256_def
    handle_code_EVEX_VPADDSW_ZMM_K1Z_ZMM_ZMMM512_def handle_code_EVEX_VPSUBB_XMM_K1Z_XMM_XMMM128_def
    handle_code_EVEX_VPSUBB_YMM_K1Z_YMM_YMMM256_def handle_code_EVEX_VPSUBB_ZMM_K1Z_ZMM_ZMMM512_def
    handle_code_EVEX_VPSUBW_XMM_K1Z_XMM_XMMM128_def handle_code_EVEX_VPSUBW_YMM_K1Z_YMM_YMMM256_def
    handle_code_EVEX_VPSUBW_ZMM_K1Z_ZMM_ZMMM512_def handle_code_EVEX_VPSUBD_XMM_K1Z_XMM_XMMM128B32_def
    handle_code_EVEX_VPSUBD_YMM_K1Z_YMM_YMMM256B32_def handle_code_EVEX_VPSUBD_ZMM_K1Z_ZMM_ZMMM512B32_def
    handle_code_EVEX_VPSUBQ_XMM_K1Z_XMM_XMMM128B64_def handle_code_EVEX_VPSUBQ_YMM_K1Z_YMM_YMMM256B64_def
    handle_code_EVEX_VPSUBQ_ZMM_K1Z_ZMM_ZMMM512B64_def handle_code_EVEX_VPSUBUSB_XMM_K1Z_XMM_XMMM128_def
    handle_code_EVEX_VPSUBUSB_YMM_K1Z_YMM_YMMM256_def handle_code_EVEX_VPSUBUSB_ZMM_K1Z_ZMM_ZMMM512_def
    handle_code_EVEX_VPSUBUSW_XMM_K1Z_XMM_XMMM128_def handle_code_EVEX_VPSUBUSW_YMM_K1Z_YMM_YMMM256_def
    handle_code_EVEX_VPSUBUSW_ZMM_K1Z_ZMM_ZMMM512_def handle_code_EVEX_VPSUBSB_XMM_K1Z_XMM_XMMM128_def
    handle_code_EVEX_VPSUBSB_YMM_K1Z_YMM_YMMM256_def handle_code_EVEX_VPSUBSB_ZMM_K1Z_ZMM_ZMMM512_def
    handle_code_EVEX_VPSUBSW_XMM_K1Z_XMM_XMMM128_def handle_code_EVEX_VPSUBSW_YMM_K1Z_YMM_YMMM256_def
    handle_code_EVEX_VPSUBSW_ZMM_K1Z_ZMM_ZMMM512_def handle_code_EVEX_VPAVGB_XMM_K1Z_XMM_XMMM128_def
    handle_code_EVEX_VPAVGB_YMM_K1Z_YMM_YMMM256_def handle_code_EVEX_VPAVGB_ZMM_K1Z_ZMM_ZMMM512_def
    handle_code_EVEX_VPAVGW_XMM_K1Z_XMM_XMMM128_def handle_code_EVEX_VPAVGW_YMM_K1Z_YMM_YMMM256_def
    handle_code_EVEX_VPAVGW_ZMM_K1Z_ZMM_ZMMM512_def handle_code_EVEX_VPMULLW_XMM_K1Z_XMM_XMMM128_def
    handle_code_EVEX_VPMULLW_YMM_K1Z_YMM_YMMM256_def handle_code_EVEX_VPMULLW_ZMM_K1Z_ZMM_ZMMM512_def
    handle_code_EVEX_VPANDD_XMM_K1Z_XMM_XMMM128B32_def handle_code_EVEX_VPANDD_YMM_K1Z_YMM_YMMM256B32_def
    handle_code_EVEX_VPANDD_ZMM_K1Z_ZMM_ZMMM512B32_def handle_code_EVEX_VPANDQ_XMM_K1Z_XMM_XMMM128B64_def
    handle_code_EVEX_VPANDQ_YMM_K1Z_YMM_YMMM256B64_def handle_code_EVEX_VPANDQ_ZMM_K1Z_ZMM_ZMMM512B64_def
    handle_code_EVEX_VPANDND_XMM_K1Z_XMM_XMMM128B32_def handle_code_EVEX_VPANDND_YMM_K1Z_YMM_YMMM256B32_def
    handle_code_EVEX_VPANDND_ZMM_K1Z_ZMM_ZMMM512B32_def handle_code_EVEX_VPANDNQ_XMM_K1Z_XMM_XMMM128B64_def
    handle_code_EVEX_VPANDNQ_YMM_K1Z_YMM_YMMM256B64_def handle_code_EVEX_VPANDNQ_ZMM_K1Z_ZMM_ZMMM512B64_def
    handle_code_EVEX_VPORD_XMM_K1Z_XMM_XMMM128B32_def handle_code_EVEX_VPORD_YMM_K1Z_YMM_YMMM256B32_def
    handle_code_EVEX_VPORD_ZMM_K1Z_ZMM_ZMMM512B32_def handle_code_EVEX_VPORQ_XMM_K1Z_XMM_XMMM128B64_def
    handle_code_EVEX_VPORQ_YMM_K1Z_YMM_YMMM256B64_def handle_code_EVEX_VPORQ_ZMM_K1Z_ZMM_ZMMM512B64_def
    handle_code_EVEX_VPXORD_XMM_K1Z_XMM_XMMM128B32_def handle_code_EVEX_VPXORD_YMM_K1Z_YMM_YMMM256B32_def
    handle_code_EVEX_VPXORD_ZMM_K1Z_ZMM_ZMMM512B32_def handle_code_EVEX_VPXORQ_XMM_K1Z_XMM_XMMM128B64_def
    handle_code_EVEX_VPXORQ_YMM_K1Z_YMM_YMMM256B64_def handle_code_EVEX_VPXORQ_ZMM_K1Z_ZMM_ZMMM512B64_def
    handle_code_EVEX_VPSLLW_XMM_K1Z_XMM_XMMM128_def handle_code_EVEX_VPSLLW_YMM_K1Z_YMM_XMMM128_def
    handle_code_EVEX_VPSLLW_ZMM_K1Z_ZMM_XMMM128_def handle_code_EVEX_VPSLLD_XMM_K1Z_XMM_XMMM128_def
    handle_code_EVEX_VPSLLD_YMM_K1Z_YMM_XMMM128_def handle_code_EVEX_VPSLLD_ZMM_K1Z_ZMM_XMMM128_def
    handle_code_EVEX_VPSLLQ_XMM_K1Z_XMM_XMMM128_def handle_code_EVEX_VPSLLQ_YMM_K1Z_YMM_XMMM128_def
    handle_code_EVEX_VPSLLQ_ZMM_K1Z_ZMM_XMMM128_def handle_code_EVEX_VPSRLW_XMM_K1Z_XMM_XMMM128_def
    handle_code_EVEX_VPSRLW_YMM_K1Z_YMM_XMMM128_def handle_code_EVEX_VPSRLW_ZMM_K1Z_ZMM_XMMM128_def
    handle_code_EVEX_VPSRLD_XMM_K1Z_XMM_XMMM128_def handle_code_EVEX_VPSRLD_YMM_K1Z_YMM_XMMM128_def
    handle_code_EVEX_VPSRLD_ZMM_K1Z_ZMM_XMMM128_def handle_code_EVEX_VPSRLQ_XMM_K1Z_XMM_XMMM128_def
    handle_code_EVEX_VPSRLQ_YMM_K1Z_YMM_XMMM128_def handle_code_EVEX_VPSRLQ_ZMM_K1Z_ZMM_XMMM128_def
    handle_code_EVEX_VPSRAW_XMM_K1Z_XMM_XMMM128_def handle_code_EVEX_VPSRAW_YMM_K1Z_YMM_XMMM128_def
    handle_code_EVEX_VPSRAW_ZMM_K1Z_ZMM_XMMM128_def handle_code_EVEX_VPSRAD_XMM_K1Z_XMM_XMMM128_def
    handle_code_EVEX_VPSRAD_YMM_K1Z_YMM_XMMM128_def handle_code_EVEX_VPSRAD_ZMM_K1Z_ZMM_XMMM128_def
    handle_code_EVEX_VPSLLW_XMM_K1Z_XMMM128_IMM8_def handle_code_EVEX_VPSLLW_YMM_K1Z_YMMM256_IMM8_def
    handle_code_EVEX_VPSLLW_ZMM_K1Z_ZMMM512_IMM8_def handle_code_EVEX_VPSLLD_XMM_K1Z_XMMM128B32_IMM8_def
    handle_code_EVEX_VPSLLD_YMM_K1Z_YMMM256B32_IMM8_def handle_code_EVEX_VPSLLD_ZMM_K1Z_ZMMM512B32_IMM8_def
    handle_code_EVEX_VPSLLQ_XMM_K1Z_XMMM128B64_IMM8_def handle_code_EVEX_VPSLLQ_YMM_K1Z_YMMM256B64_IMM8_def
    handle_code_EVEX_VPSLLQ_ZMM_K1Z_ZMMM512B64_IMM8_def handle_code_EVEX_VPSRLW_XMM_K1Z_XMMM128_IMM8_def
    handle_code_EVEX_VPSRLW_YMM_K1Z_YMMM256_IMM8_def handle_code_EVEX_VPSRLW_ZMM_K1Z_ZMMM512_IMM8_def
    handle_code_EVEX_VPSRLD_XMM_K1Z_XMMM128B32_IMM8_def handle_code_EVEX_VPSRLD_YMM_K1Z_YMMM256B32_IMM8_def
    handle_code_EVEX_VPSRLD_ZMM_K1Z_ZMMM512B32_IMM8_def handle_code_EVEX_VPSRLQ_XMM_K1Z_XMMM128B64_IMM8_def
    handle_code_EVEX_VPSRLQ_YMM_K1Z_YMMM256B64_IMM8_def handle_code_EVEX_VPSRLQ_ZMM_K1Z_ZMMM512B64_IMM8_def
    handle_code_EVEX_VPSRAW_XMM_K1Z_XMMM128_IMM8_def handle_code_EVEX_VPSRAW_YMM_K1Z_YMMM256_IMM8_def
    handle_code_EVEX_VPSRAW_ZMM_K1Z_ZMMM512_IMM8_def handle_code_EVEX_VPSRAD_XMM_K1Z_XMMM128B32_IMM8_def
    handle_code_EVEX_VPSRAD_YMM_K1Z_YMMM256B32_IMM8_def handle_code_EVEX_VPSRAD_ZMM_K1Z_ZMMM512B32_IMM8_def
    handle_code_PCMPISTRI_XMM_XMMM128_IMM8_def handle_code_PCMPISTRM_XMM_XMMM128_IMM8_def handle_code_PCMPESTRI_XMM_XMMM128_IMM8_def
    handle_code_PCMPESTRM_XMM_XMMM128_IMM8_def)

definition vector_move_table :: "(icode \<times> 'w handler) list" where
  "vector_move_table =
    [(''MOVAPS_XMM_XMMM128'', handle_code_MOVAPS_XMM_XMMM128), (''MOVAPD_XMM_XMMM128'', handle_code_MOVAPD_XMM_XMMM128),
     (''MOVUPS_XMM_XMMM128'', handle_code_MOVUPS_XMM_XMMM128), (''MOVUPD_XMM_XMMM128'', handle_code_MOVUPD_XMM_XMMM128),
     (''MOVSS_XMM_XMMM32'', handle_code_MOVSS_XMM_XMMM32), (''MOVSD_XMM_XMMM64'', handle_code_MOVSD_XMM_XMMM64),
     (''MOVAPS_XMMM128_XMM'', handle_code_MOVAPS_XMMM128_XMM), (''MOVAPD_XMMM128_XMM'', handle_code_MOVAPD_XMMM128_XMM),
     (''MOVUPS_XMMM128_XMM'', handle_code_MOVUPS_XMMM128_XMM), (''MOVUPD_XMMM128_XMM'', handle_code_MOVUPD_XMMM128_XMM),
     (''MOVSS_XMMM32_XMM'', handle_code_MOVSS_XMMM32_XMM), (''MOVSD_XMMM64_XMM'', handle_code_MOVSD_XMMM64_XMM),
     (''MOVDQA_XMM_XMMM128'', handle_code_MOVDQA_XMM_XMMM128), (''MOVDQU_XMM_XMMM128'', handle_code_MOVDQU_XMM_XMMM128),
     (''LDDQU_XMM_M128'', handle_code_LDDQU_XMM_M128), (''MOVDQA_XMMM128_XMM'', handle_code_MOVDQA_XMMM128_XMM),
     (''MOVDQU_XMMM128_XMM'', handle_code_MOVDQU_XMMM128_XMM), (''MOVLPS_XMM_M64'', handle_code_MOVLPS_XMM_M64),
     (''MOVLPD_XMM_M64'', handle_code_MOVLPD_XMM_M64), (''MOVHPS_XMM_M64'', handle_code_MOVHPS_XMM_M64),
     (''MOVHPD_XMM_M64'', handle_code_MOVHPD_XMM_M64), (''MOVLHPS_XMM_XMM'', handle_code_MOVLHPS_XMM_XMM),
     (''MOVHLPS_XMM_XMM'', handle_code_MOVHLPS_XMM_XMM), (''MOVLPS_M64_XMM'', handle_code_MOVLPS_M64_XMM),
     (''MOVLPD_M64_XMM'', handle_code_MOVLPD_M64_XMM), (''MOVHPS_M64_XMM'', handle_code_MOVHPS_M64_XMM),
     (''MOVHPD_M64_XMM'', handle_code_MOVHPD_M64_XMM), (''MOVD_XMM_RM32'', handle_code_MOVD_XMM_RM32),
     (''MOVQ_XMM_RM64'', handle_code_MOVQ_XMM_RM64), (''MOVD_RM32_XMM'', handle_code_MOVD_RM32_XMM),
     (''MOVQ_RM64_XMM'', handle_code_MOVQ_RM64_XMM), (''PEXTRW_R32_XMM_IMM8'', handle_code_PEXTRW_R32_XMM_IMM8),
     (''PEXTRW_R64_XMM_IMM8'', handle_code_PEXTRW_R64_XMM_IMM8), (''PEXTRW_R32M16_XMM_IMM8'', handle_code_PEXTRW_R32M16_XMM_IMM8),
     (''PEXTRW_R64M16_XMM_IMM8'', handle_code_PEXTRW_R64M16_XMM_IMM8), (''MOVQ_XMM_XMMM64'', handle_code_MOVQ_XMM_XMMM64),
     (''MOVQ_XMMM64_XMM'', handle_code_MOVQ_XMMM64_XMM), (''MOVNTPS_M128_XMM'', handle_code_MOVNTPS_M128_XMM),
     (''MOVNTPD_M128_XMM'', handle_code_MOVNTPD_M128_XMM), (''MOVNTDQ_M128_XMM'', handle_code_MOVNTDQ_M128_XMM),
     (''MOVNTDQA_XMM_M128'', handle_code_MOVNTDQA_XMM_M128), (''VEX_VMOVAPS_XMM_XMMM128'', handle_code_VEX_VMOVAPS_XMM_XMMM128),
     (''VEX_VMOVAPS_YMM_YMMM256'', handle_code_VEX_VMOVAPS_YMM_YMMM256),
     (''VEX_VMOVAPS_XMMM128_XMM'', handle_code_VEX_VMOVAPS_XMMM128_XMM),
     (''VEX_VMOVAPS_YMMM256_YMM'', handle_code_VEX_VMOVAPS_YMMM256_YMM),
     (''VEX_VMOVAPD_XMM_XMMM128'', handle_code_VEX_VMOVAPD_XMM_XMMM128),
     (''VEX_VMOVAPD_YMM_YMMM256'', handle_code_VEX_VMOVAPD_YMM_YMMM256),
     (''VEX_VMOVAPD_XMMM128_XMM'', handle_code_VEX_VMOVAPD_XMMM128_XMM),
     (''VEX_VMOVAPD_YMMM256_YMM'', handle_code_VEX_VMOVAPD_YMMM256_YMM),
     (''VEX_VMOVUPS_XMM_XMMM128'', handle_code_VEX_VMOVUPS_XMM_XMMM128),
     (''VEX_VMOVUPS_YMM_YMMM256'', handle_code_VEX_VMOVUPS_YMM_YMMM256),
     (''VEX_VMOVUPS_XMMM128_XMM'', handle_code_VEX_VMOVUPS_XMMM128_XMM),
     (''VEX_VMOVUPS_YMMM256_YMM'', handle_code_VEX_VMOVUPS_YMMM256_YMM),
     (''VEX_VMOVUPD_XMM_XMMM128'', handle_code_VEX_VMOVUPD_XMM_XMMM128),
     (''VEX_VMOVUPD_YMM_YMMM256'', handle_code_VEX_VMOVUPD_YMM_YMMM256),
     (''VEX_VMOVUPD_XMMM128_XMM'', handle_code_VEX_VMOVUPD_XMMM128_XMM),
     (''VEX_VMOVUPD_YMMM256_YMM'', handle_code_VEX_VMOVUPD_YMMM256_YMM),
     (''VEX_VMOVSS_XMM_XMM_XMM'', handle_code_VEX_VMOVSS_XMM_XMM_XMM),
     (''VEX_VMOVSS_XMM_XMM_XMM_0_F11'', handle_code_VEX_VMOVSS_XMM_XMM_XMM_0_F11),
     (''VEX_VMOVSS_XMM_M32'', handle_code_VEX_VMOVSS_XMM_M32), (''VEX_VMOVSS_M32_XMM'', handle_code_VEX_VMOVSS_M32_XMM),
     (''VEX_VMOVSD_XMM_XMM_XMM'', handle_code_VEX_VMOVSD_XMM_XMM_XMM),
     (''VEX_VMOVSD_XMM_XMM_XMM_0_F11'', handle_code_VEX_VMOVSD_XMM_XMM_XMM_0_F11),
     (''VEX_VMOVSD_XMM_M64'', handle_code_VEX_VMOVSD_XMM_M64), (''VEX_VMOVSD_M64_XMM'', handle_code_VEX_VMOVSD_M64_XMM),
     (''VEX_VMOVDQA_XMM_XMMM128'', handle_code_VEX_VMOVDQA_XMM_XMMM128),
     (''VEX_VMOVDQA_YMM_YMMM256'', handle_code_VEX_VMOVDQA_YMM_YMMM256),
     (''VEX_VMOVDQA_XMMM128_XMM'', handle_code_VEX_VMOVDQA_XMMM128_XMM),
     (''VEX_VMOVDQA_YMMM256_YMM'', handle_code_VEX_VMOVDQA_YMMM256_YMM),
     (''VEX_VMOVDQU_XMM_XMMM128'', handle_code_VEX_VMOVDQU_XMM_XMMM128),
     (''VEX_VMOVDQU_YMM_YMMM256'', handle_code_VEX_VMOVDQU_YMM_YMMM256),
     (''VEX_VMOVDQU_XMMM128_XMM'', handle_code_VEX_VMOVDQU_XMMM128_XMM),
     (''VEX_VMOVDQU_YMMM256_YMM'', handle_code_VEX_VMOVDQU_YMMM256_YMM), (''VEX_VMOVD_XMM_RM32'', handle_code_VEX_VMOVD_XMM_RM32),
     (''VEX_VMOVQ_XMM_RM64'', handle_code_VEX_VMOVQ_XMM_RM64), (''VEX_VMOVD_RM32_XMM'', handle_code_VEX_VMOVD_RM32_XMM),
     (''VEX_VMOVQ_RM64_XMM'', handle_code_VEX_VMOVQ_RM64_XMM), (''VEX_VMOVQ_XMM_XMMM64'', handle_code_VEX_VMOVQ_XMM_XMMM64),
     (''VEX_VMOVQ_XMMM64_XMM'', handle_code_VEX_VMOVQ_XMMM64_XMM), (''VEX_VMOVLPS_XMM_XMM_M64'', handle_code_VEX_VMOVLPS_XMM_XMM_M64),
     (''VEX_VMOVLPS_M64_XMM'', handle_code_VEX_VMOVLPS_M64_XMM), (''VEX_VMOVLPD_XMM_XMM_M64'', handle_code_VEX_VMOVLPD_XMM_XMM_M64),
     (''VEX_VMOVLPD_M64_XMM'', handle_code_VEX_VMOVLPD_M64_XMM), (''VEX_VMOVHPS_XMM_XMM_M64'', handle_code_VEX_VMOVHPS_XMM_XMM_M64),
     (''VEX_VMOVLHPS_XMM_XMM_XMM'', handle_code_VEX_VMOVLHPS_XMM_XMM_XMM),
     (''VEX_VMOVHLPS_XMM_XMM_XMM'', handle_code_VEX_VMOVHLPS_XMM_XMM_XMM), (''VEX_VMOVHPS_M64_XMM'', handle_code_VEX_VMOVHPS_M64_XMM),
     (''VEX_VMOVHPD_XMM_XMM_M64'', handle_code_VEX_VMOVHPD_XMM_XMM_M64), (''VEX_VMOVHPD_M64_XMM'', handle_code_VEX_VMOVHPD_M64_XMM),
     (''VEX_VMOVNTPS_M128_XMM'', handle_code_VEX_VMOVNTPS_M128_XMM), (''VEX_VMOVNTPS_M256_YMM'', handle_code_VEX_VMOVNTPS_M256_YMM),
     (''VEX_VMOVNTPD_M128_XMM'', handle_code_VEX_VMOVNTPD_M128_XMM), (''VEX_VMOVNTPD_M256_YMM'', handle_code_VEX_VMOVNTPD_M256_YMM),
     (''VEX_VMOVNTDQ_M128_XMM'', handle_code_VEX_VMOVNTDQ_M128_XMM), (''VEX_VMOVNTDQ_M256_YMM'', handle_code_VEX_VMOVNTDQ_M256_YMM),
     (''VEX_VMOVNTDQA_XMM_M128'', handle_code_VEX_VMOVNTDQA_XMM_M128),
     (''VEX_VMOVNTDQA_YMM_M256'', handle_code_VEX_VMOVNTDQA_YMM_M256),
     (''EVEX_VMOVAPS_XMM_K1Z_XMMM128'', handle_code_EVEX_VMOVAPS_XMM_K1Z_XMMM128),
     (''EVEX_VMOVAPS_YMM_K1Z_YMMM256'', handle_code_EVEX_VMOVAPS_YMM_K1Z_YMMM256),
     (''EVEX_VMOVAPS_ZMM_K1Z_ZMMM512'', handle_code_EVEX_VMOVAPS_ZMM_K1Z_ZMMM512),
     (''EVEX_VMOVAPS_XMMM128_K1Z_XMM'', handle_code_EVEX_VMOVAPS_XMMM128_K1Z_XMM),
     (''EVEX_VMOVAPS_YMMM256_K1Z_YMM'', handle_code_EVEX_VMOVAPS_YMMM256_K1Z_YMM),
     (''EVEX_VMOVAPS_ZMMM512_K1Z_ZMM'', handle_code_EVEX_VMOVAPS_ZMMM512_K1Z_ZMM),
     (''EVEX_VMOVAPD_XMM_K1Z_XMMM128'', handle_code_EVEX_VMOVAPD_XMM_K1Z_XMMM128),
     (''EVEX_VMOVAPD_YMM_K1Z_YMMM256'', handle_code_EVEX_VMOVAPD_YMM_K1Z_YMMM256),
     (''EVEX_VMOVAPD_ZMM_K1Z_ZMMM512'', handle_code_EVEX_VMOVAPD_ZMM_K1Z_ZMMM512),
     (''EVEX_VMOVAPD_XMMM128_K1Z_XMM'', handle_code_EVEX_VMOVAPD_XMMM128_K1Z_XMM),
     (''EVEX_VMOVAPD_YMMM256_K1Z_YMM'', handle_code_EVEX_VMOVAPD_YMMM256_K1Z_YMM),
     (''EVEX_VMOVAPD_ZMMM512_K1Z_ZMM'', handle_code_EVEX_VMOVAPD_ZMMM512_K1Z_ZMM),
     (''EVEX_VMOVUPS_XMM_K1Z_XMMM128'', handle_code_EVEX_VMOVUPS_XMM_K1Z_XMMM128),
     (''EVEX_VMOVUPS_YMM_K1Z_YMMM256'', handle_code_EVEX_VMOVUPS_YMM_K1Z_YMMM256),
     (''EVEX_VMOVUPS_ZMM_K1Z_ZMMM512'', handle_code_EVEX_VMOVUPS_ZMM_K1Z_ZMMM512),
     (''EVEX_VMOVUPS_XMMM128_K1Z_XMM'', handle_code_EVEX_VMOVUPS_XMMM128_K1Z_XMM),
     (''EVEX_VMOVUPS_YMMM256_K1Z_YMM'', handle_code_EVEX_VMOVUPS_YMMM256_K1Z_YMM),
     (''EVEX_VMOVUPS_ZMMM512_K1Z_ZMM'', handle_code_EVEX_VMOVUPS_ZMMM512_K1Z_ZMM),
     (''EVEX_VMOVUPD_XMM_K1Z_XMMM128'', handle_code_EVEX_VMOVUPD_XMM_K1Z_XMMM128),
     (''EVEX_VMOVUPD_YMM_K1Z_YMMM256'', handle_code_EVEX_VMOVUPD_YMM_K1Z_YMMM256),
     (''EVEX_VMOVUPD_ZMM_K1Z_ZMMM512'', handle_code_EVEX_VMOVUPD_ZMM_K1Z_ZMMM512),
     (''EVEX_VMOVUPD_XMMM128_K1Z_XMM'', handle_code_EVEX_VMOVUPD_XMMM128_K1Z_XMM),
     (''EVEX_VMOVUPD_YMMM256_K1Z_YMM'', handle_code_EVEX_VMOVUPD_YMMM256_K1Z_YMM),
     (''EVEX_VMOVUPD_ZMMM512_K1Z_ZMM'', handle_code_EVEX_VMOVUPD_ZMMM512_K1Z_ZMM),
     (''EVEX_VMOVSS_XMM_K1Z_XMM_XMM'', handle_code_EVEX_VMOVSS_XMM_K1Z_XMM_XMM),
     (''EVEX_VMOVSS_XMM_K1Z_XMM_XMM_0_F11'', handle_code_EVEX_VMOVSS_XMM_K1Z_XMM_XMM_0_F11),
     (''EVEX_VMOVSS_XMM_K1Z_M32'', handle_code_EVEX_VMOVSS_XMM_K1Z_M32),
     (''EVEX_VMOVSS_M32_K1_XMM'', handle_code_EVEX_VMOVSS_M32_K1_XMM),
     (''EVEX_VMOVSD_XMM_K1Z_XMM_XMM'', handle_code_EVEX_VMOVSD_XMM_K1Z_XMM_XMM),
     (''EVEX_VMOVSD_XMM_K1Z_XMM_XMM_0_F11'', handle_code_EVEX_VMOVSD_XMM_K1Z_XMM_XMM_0_F11),
     (''EVEX_VMOVSD_XMM_K1Z_M64'', handle_code_EVEX_VMOVSD_XMM_K1Z_M64),
     (''EVEX_VMOVSD_M64_K1_XMM'', handle_code_EVEX_VMOVSD_M64_K1_XMM),
     (''EVEX_VMOVDQA32_XMM_K1Z_XMMM128'', handle_code_EVEX_VMOVDQA32_XMM_K1Z_XMMM128),
     (''EVEX_VMOVDQA32_YMM_K1Z_YMMM256'', handle_code_EVEX_VMOVDQA32_YMM_K1Z_YMMM256),
     (''EVEX_VMOVDQA32_ZMM_K1Z_ZMMM512'', handle_code_EVEX_VMOVDQA32_ZMM_K1Z_ZMMM512),
     (''EVEX_VMOVDQA32_XMMM128_K1Z_XMM'', handle_code_EVEX_VMOVDQA32_XMMM128_K1Z_XMM),
     (''EVEX_VMOVDQA32_YMMM256_K1Z_YMM'', handle_code_EVEX_VMOVDQA32_YMMM256_K1Z_YMM),
     (''EVEX_VMOVDQA32_ZMMM512_K1Z_ZMM'', handle_code_EVEX_VMOVDQA32_ZMMM512_K1Z_ZMM),
     (''EVEX_VMOVDQA64_XMM_K1Z_XMMM128'', handle_code_EVEX_VMOVDQA64_XMM_K1Z_XMMM128),
     (''EVEX_VMOVDQA64_YMM_K1Z_YMMM256'', handle_code_EVEX_VMOVDQA64_YMM_K1Z_YMMM256),
     (''EVEX_VMOVDQA64_ZMM_K1Z_ZMMM512'', handle_code_EVEX_VMOVDQA64_ZMM_K1Z_ZMMM512),
     (''EVEX_VMOVDQA64_XMMM128_K1Z_XMM'', handle_code_EVEX_VMOVDQA64_XMMM128_K1Z_XMM),
     (''EVEX_VMOVDQA64_YMMM256_K1Z_YMM'', handle_code_EVEX_VMOVDQA64_YMMM256_K1Z_YMM),
     (''EVEX_VMOVDQA64_ZMMM512_K1Z_ZMM'', handle_code_EVEX_VMOVDQA64_ZMMM512_K1Z_ZMM),
     (''EVEX_VMOVDQU32_XMM_K1Z_XMMM128'', handle_code_EVEX_VMOVDQU32_XMM_K1Z_XMMM128),
     (''EVEX_VMOVDQU32_YMM_K1Z_YMMM256'', handle_code_EVEX_VMOVDQU32_YMM_K1Z_YMMM256),
     (''EVEX_VMOVDQU32_ZMM_K1Z_ZMMM512'', handle_code_EVEX_VMOVDQU32_ZMM_K1Z_ZMMM512),
     (''EVEX_VMOVDQU32_XMMM128_K1Z_XMM'', handle_code_EVEX_VMOVDQU32_XMMM128_K1Z_XMM),
     (''EVEX_VMOVDQU32_YMMM256_K1Z_YMM'', handle_code_EVEX_VMOVDQU32_YMMM256_K1Z_YMM),
     (''EVEX_VMOVDQU32_ZMMM512_K1Z_ZMM'', handle_code_EVEX_VMOVDQU32_ZMMM512_K1Z_ZMM),
     (''EVEX_VMOVDQU64_XMM_K1Z_XMMM128'', handle_code_EVEX_VMOVDQU64_XMM_K1Z_XMMM128),
     (''EVEX_VMOVDQU64_YMM_K1Z_YMMM256'', handle_code_EVEX_VMOVDQU64_YMM_K1Z_YMMM256),
     (''EVEX_VMOVDQU64_ZMM_K1Z_ZMMM512'', handle_code_EVEX_VMOVDQU64_ZMM_K1Z_ZMMM512),
     (''EVEX_VMOVDQU64_XMMM128_K1Z_XMM'', handle_code_EVEX_VMOVDQU64_XMMM128_K1Z_XMM),
     (''EVEX_VMOVDQU64_YMMM256_K1Z_YMM'', handle_code_EVEX_VMOVDQU64_YMMM256_K1Z_YMM),
     (''EVEX_VMOVDQU64_ZMMM512_K1Z_ZMM'', handle_code_EVEX_VMOVDQU64_ZMMM512_K1Z_ZMM),
     (''EVEX_VMOVDQU8_XMM_K1Z_XMMM128'', handle_code_EVEX_VMOVDQU8_XMM_K1Z_XMMM128),
     (''EVEX_VMOVDQU8_YMM_K1Z_YMMM256'', handle_code_EVEX_VMOVDQU8_YMM_K1Z_YMMM256),
     (''EVEX_VMOVDQU8_ZMM_K1Z_ZMMM512'', handle_code_EVEX_VMOVDQU8_ZMM_K1Z_ZMMM512),
     (''EVEX_VMOVDQU8_XMMM128_K1Z_XMM'', handle_code_EVEX_VMOVDQU8_XMMM128_K1Z_XMM),
     (''EVEX_VMOVDQU8_YMMM256_K1Z_YMM'', handle_code_EVEX_VMOVDQU8_YMMM256_K1Z_YMM),
     (''EVEX_VMOVDQU8_ZMMM512_K1Z_ZMM'', handle_code_EVEX_VMOVDQU8_ZMMM512_K1Z_ZMM),
     (''EVEX_VMOVDQU16_XMM_K1Z_XMMM128'', handle_code_EVEX_VMOVDQU16_XMM_K1Z_XMMM128),
     (''EVEX_VMOVDQU16_YMM_K1Z_YMMM256'', handle_code_EVEX_VMOVDQU16_YMM_K1Z_YMMM256),
     (''EVEX_VMOVDQU16_ZMM_K1Z_ZMMM512'', handle_code_EVEX_VMOVDQU16_ZMM_K1Z_ZMMM512),
     (''EVEX_VMOVDQU16_XMMM128_K1Z_XMM'', handle_code_EVEX_VMOVDQU16_XMMM128_K1Z_XMM),
     (''EVEX_VMOVDQU16_YMMM256_K1Z_YMM'', handle_code_EVEX_VMOVDQU16_YMMM256_K1Z_YMM),
     (''EVEX_VMOVDQU16_ZMMM512_K1Z_ZMM'', handle_code_EVEX_VMOVDQU16_ZMMM512_K1Z_ZMM),
     (''EVEX_VMOVD_XMM_RM32'', handle_code_EVEX_VMOVD_XMM_RM32), (''EVEX_VMOVQ_XMM_RM64'', handle_code_EVEX_VMOVQ_XMM_RM64),
     (''EVEX_VMOVD_RM32_XMM'', handle_code_EVEX_VMOVD_RM32_XMM), (''EVEX_VMOVQ_RM64_XMM'', handle_code_EVEX_VMOVQ_RM64_XMM),
     (''EVEX_VMOVQ_XMM_XMMM64'', handle_code_EVEX_VMOVQ_XMM_XMMM64), (''EVEX_VMOVQ_XMMM64_XMM'', handle_code_EVEX_VMOVQ_XMMM64_XMM),
     (''EVEX_VMOVLPS_XMM_XMM_M64'', handle_code_EVEX_VMOVLPS_XMM_XMM_M64),
     (''EVEX_VMOVLPS_M64_XMM'', handle_code_EVEX_VMOVLPS_M64_XMM),
     (''EVEX_VMOVLPD_XMM_XMM_M64'', handle_code_EVEX_VMOVLPD_XMM_XMM_M64),
     (''EVEX_VMOVLPD_M64_XMM'', handle_code_EVEX_VMOVLPD_M64_XMM),
     (''EVEX_VMOVHPS_XMM_XMM_M64'', handle_code_EVEX_VMOVHPS_XMM_XMM_M64),
     (''EVEX_VMOVLHPS_XMM_XMM_XMM'', handle_code_EVEX_VMOVLHPS_XMM_XMM_XMM),
     (''EVEX_VMOVHLPS_XMM_XMM_XMM'', handle_code_EVEX_VMOVHLPS_XMM_XMM_XMM),
     (''EVEX_VMOVHPS_M64_XMM'', handle_code_EVEX_VMOVHPS_M64_XMM),
     (''EVEX_VMOVHPD_XMM_XMM_M64'', handle_code_EVEX_VMOVHPD_XMM_XMM_M64),
     (''EVEX_VMOVHPD_M64_XMM'', handle_code_EVEX_VMOVHPD_M64_XMM), (''EVEX_VMOVNTPS_M128_XMM'', handle_code_EVEX_VMOVNTPS_M128_XMM),
     (''EVEX_VMOVNTPS_M256_YMM'', handle_code_EVEX_VMOVNTPS_M256_YMM),
     (''EVEX_VMOVNTPS_M512_ZMM'', handle_code_EVEX_VMOVNTPS_M512_ZMM),
     (''EVEX_VMOVNTPD_M128_XMM'', handle_code_EVEX_VMOVNTPD_M128_XMM),
     (''EVEX_VMOVNTPD_M256_YMM'', handle_code_EVEX_VMOVNTPD_M256_YMM),
     (''EVEX_VMOVNTPD_M512_ZMM'', handle_code_EVEX_VMOVNTPD_M512_ZMM),
     (''EVEX_VMOVNTDQ_M128_XMM'', handle_code_EVEX_VMOVNTDQ_M128_XMM),
     (''EVEX_VMOVNTDQ_M256_YMM'', handle_code_EVEX_VMOVNTDQ_M256_YMM),
     (''EVEX_VMOVNTDQ_M512_ZMM'', handle_code_EVEX_VMOVNTDQ_M512_ZMM),
     (''EVEX_VMOVNTDQA_XMM_M128'', handle_code_EVEX_VMOVNTDQA_XMM_M128),
     (''EVEX_VMOVNTDQA_YMM_M256'', handle_code_EVEX_VMOVNTDQA_YMM_M256),
     (''EVEX_VMOVNTDQA_ZMM_M512'', handle_code_EVEX_VMOVNTDQA_ZMM_M512)]"

lemma vector_move_table_wf: "list_all (\<lambda>(cd, h). wf_handler h) vector_move_table"
  by (simp add: vector_move_table_def
    handle_code_MOVAPS_XMM_XMMM128_def handle_code_MOVAPD_XMM_XMMM128_def handle_code_MOVUPS_XMM_XMMM128_def
    handle_code_MOVUPD_XMM_XMMM128_def handle_code_MOVSS_XMM_XMMM32_def handle_code_MOVSD_XMM_XMMM64_def
    handle_code_MOVAPS_XMMM128_XMM_def handle_code_MOVAPD_XMMM128_XMM_def handle_code_MOVUPS_XMMM128_XMM_def
    handle_code_MOVUPD_XMMM128_XMM_def handle_code_MOVSS_XMMM32_XMM_def handle_code_MOVSD_XMMM64_XMM_def
    handle_code_MOVDQA_XMM_XMMM128_def handle_code_MOVDQU_XMM_XMMM128_def handle_code_LDDQU_XMM_M128_def
    handle_code_MOVDQA_XMMM128_XMM_def handle_code_MOVDQU_XMMM128_XMM_def handle_code_MOVLPS_XMM_M64_def handle_code_MOVLPD_XMM_M64_def
    handle_code_MOVHPS_XMM_M64_def handle_code_MOVHPD_XMM_M64_def handle_code_MOVLHPS_XMM_XMM_def handle_code_MOVHLPS_XMM_XMM_def
    handle_code_MOVLPS_M64_XMM_def handle_code_MOVLPD_M64_XMM_def handle_code_MOVHPS_M64_XMM_def handle_code_MOVHPD_M64_XMM_def
    handle_code_MOVD_XMM_RM32_def handle_code_MOVQ_XMM_RM64_def handle_code_MOVD_RM32_XMM_def handle_code_MOVQ_RM64_XMM_def
    handle_code_PEXTRW_R32_XMM_IMM8_def handle_code_PEXTRW_R64_XMM_IMM8_def handle_code_PEXTRW_R32M16_XMM_IMM8_def
    handle_code_PEXTRW_R64M16_XMM_IMM8_def handle_code_MOVQ_XMM_XMMM64_def handle_code_MOVQ_XMMM64_XMM_def
    handle_code_MOVNTPS_M128_XMM_def handle_code_MOVNTPD_M128_XMM_def handle_code_MOVNTDQ_M128_XMM_def
    handle_code_MOVNTDQA_XMM_M128_def handle_code_VEX_VMOVAPS_XMM_XMMM128_def handle_code_VEX_VMOVAPS_YMM_YMMM256_def
    handle_code_VEX_VMOVAPS_XMMM128_XMM_def handle_code_VEX_VMOVAPS_YMMM256_YMM_def handle_code_VEX_VMOVAPD_XMM_XMMM128_def
    handle_code_VEX_VMOVAPD_YMM_YMMM256_def handle_code_VEX_VMOVAPD_XMMM128_XMM_def handle_code_VEX_VMOVAPD_YMMM256_YMM_def
    handle_code_VEX_VMOVUPS_XMM_XMMM128_def handle_code_VEX_VMOVUPS_YMM_YMMM256_def handle_code_VEX_VMOVUPS_XMMM128_XMM_def
    handle_code_VEX_VMOVUPS_YMMM256_YMM_def handle_code_VEX_VMOVUPD_XMM_XMMM128_def handle_code_VEX_VMOVUPD_YMM_YMMM256_def
    handle_code_VEX_VMOVUPD_XMMM128_XMM_def handle_code_VEX_VMOVUPD_YMMM256_YMM_def handle_code_VEX_VMOVSS_XMM_XMM_XMM_def
    handle_code_VEX_VMOVSS_XMM_XMM_XMM_0_F11_def handle_code_VEX_VMOVSS_XMM_M32_def handle_code_VEX_VMOVSS_M32_XMM_def
    handle_code_VEX_VMOVSD_XMM_XMM_XMM_def handle_code_VEX_VMOVSD_XMM_XMM_XMM_0_F11_def handle_code_VEX_VMOVSD_XMM_M64_def
    handle_code_VEX_VMOVSD_M64_XMM_def handle_code_VEX_VMOVDQA_XMM_XMMM128_def handle_code_VEX_VMOVDQA_YMM_YMMM256_def
    handle_code_VEX_VMOVDQA_XMMM128_XMM_def handle_code_VEX_VMOVDQA_YMMM256_YMM_def handle_code_VEX_VMOVDQU_XMM_XMMM128_def
    handle_code_VEX_VMOVDQU_YMM_YMMM256_def handle_code_VEX_VMOVDQU_XMMM128_XMM_def handle_code_VEX_VMOVDQU_YMMM256_YMM_def
    handle_code_VEX_VMOVD_XMM_RM32_def handle_code_VEX_VMOVQ_XMM_RM64_def handle_code_VEX_VMOVD_RM32_XMM_def
    handle_code_VEX_VMOVQ_RM64_XMM_def handle_code_VEX_VMOVQ_XMM_XMMM64_def handle_code_VEX_VMOVQ_XMMM64_XMM_def
    handle_code_VEX_VMOVLPS_XMM_XMM_M64_def handle_code_VEX_VMOVLPS_M64_XMM_def handle_code_VEX_VMOVLPD_XMM_XMM_M64_def
    handle_code_VEX_VMOVLPD_M64_XMM_def handle_code_VEX_VMOVHPS_XMM_XMM_M64_def handle_code_VEX_VMOVLHPS_XMM_XMM_XMM_def
    handle_code_VEX_VMOVHLPS_XMM_XMM_XMM_def handle_code_VEX_VMOVHPS_M64_XMM_def handle_code_VEX_VMOVHPD_XMM_XMM_M64_def
    handle_code_VEX_VMOVHPD_M64_XMM_def handle_code_VEX_VMOVNTPS_M128_XMM_def handle_code_VEX_VMOVNTPS_M256_YMM_def
    handle_code_VEX_VMOVNTPD_M128_XMM_def handle_code_VEX_VMOVNTPD_M256_YMM_def handle_code_VEX_VMOVNTDQ_M128_XMM_def
    handle_code_VEX_VMOVNTDQ_M256_YMM_def handle_code_VEX_VMOVNTDQA_XMM_M128_def handle_code_VEX_VMOVNTDQA_YMM_M256_def
    handle_code_EVEX_VMOVAPS_XMM_K1Z_XMMM128_def handle_code_EVEX_VMOVAPS_YMM_K1Z_YMMM256_def
    handle_code_EVEX_VMOVAPS_ZMM_K1Z_ZMMM512_def handle_code_EVEX_VMOVAPS_XMMM128_K1Z_XMM_def
    handle_code_EVEX_VMOVAPS_YMMM256_K1Z_YMM_def handle_code_EVEX_VMOVAPS_ZMMM512_K1Z_ZMM_def
    handle_code_EVEX_VMOVAPD_XMM_K1Z_XMMM128_def handle_code_EVEX_VMOVAPD_YMM_K1Z_YMMM256_def
    handle_code_EVEX_VMOVAPD_ZMM_K1Z_ZMMM512_def handle_code_EVEX_VMOVAPD_XMMM128_K1Z_XMM_def
    handle_code_EVEX_VMOVAPD_YMMM256_K1Z_YMM_def handle_code_EVEX_VMOVAPD_ZMMM512_K1Z_ZMM_def
    handle_code_EVEX_VMOVUPS_XMM_K1Z_XMMM128_def handle_code_EVEX_VMOVUPS_YMM_K1Z_YMMM256_def
    handle_code_EVEX_VMOVUPS_ZMM_K1Z_ZMMM512_def handle_code_EVEX_VMOVUPS_XMMM128_K1Z_XMM_def
    handle_code_EVEX_VMOVUPS_YMMM256_K1Z_YMM_def handle_code_EVEX_VMOVUPS_ZMMM512_K1Z_ZMM_def
    handle_code_EVEX_VMOVUPD_XMM_K1Z_XMMM128_def handle_code_EVEX_VMOVUPD_YMM_K1Z_YMMM256_def
    handle_code_EVEX_VMOVUPD_ZMM_K1Z_ZMMM512_def handle_code_EVEX_VMOVUPD_XMMM128_K1Z_XMM_def
    handle_code_EVEX_VMOVUPD_YMMM256_K1Z_YMM_def handle_code_EVEX_VMOVUPD_ZMMM512_K1Z_ZMM_def
    handle_code_EVEX_VMOVSS_XMM_K1Z_XMM_XMM_def handle_code_EVEX_VMOVSS_XMM_K1Z_XMM_XMM_0_F11_def
    handle_code_EVEX_VMOVSS_XMM_K1Z_M32_def handle_code_EVEX_VMOVSS_M32_K1_XMM_def handle_code_EVEX_VMOVSD_XMM_K1Z_XMM_XMM_def
    handle_code_EVEX_VMOVSD_XMM_K1Z_XMM_XMM_0_F11_def handle_code_EVEX_VMOVSD_XMM_K1Z_M64_def handle_code_EVEX_VMOVSD_M64_K1_XMM_def
    handle_code_EVEX_VMOVDQA32_XMM_K1Z_XMMM128_def handle_code_EVEX_VMOVDQA32_YMM_K1Z_YMMM256_def
    handle_code_EVEX_VMOVDQA32_ZMM_K1Z_ZMMM512_def handle_code_EVEX_VMOVDQA32_XMMM128_K1Z_XMM_def
    handle_code_EVEX_VMOVDQA32_YMMM256_K1Z_YMM_def handle_code_EVEX_VMOVDQA32_ZMMM512_K1Z_ZMM_def
    handle_code_EVEX_VMOVDQA64_XMM_K1Z_XMMM128_def handle_code_EVEX_VMOVDQA64_YMM_K1Z_YMMM256_def
    handle_code_EVEX_VMOVDQA64_ZMM_K1Z_ZMMM512_def handle_code_EVEX_VMOVDQA64_XMMM128_K1Z_XMM_def
    handle_code_EVEX_VMOVDQA64_YMMM256_K1Z_YMM_def handle_code_EVEX_VMOVDQA64_ZMMM512_K1Z_ZMM_def
    handle_code_EVEX_VMOVDQU32_XMM_K1Z_XMMM128_def handle_code_EVEX_VMOVDQU32_YMM_K1Z_YMMM256_def
    handle_code_EVEX_VMOVDQU32_ZMM_K1Z_ZMMM512_def handle_code_EVEX_VMOVDQU32_XMMM128_K1Z_XMM_def
    handle_code_EVEX_VMOVDQU32_YMMM256_K1Z_YMM_def handle_code_EVEX_VMOVDQU32_ZMMM512_K1Z_ZMM_def
    handle_code_EVEX_VMOVDQU64_XMM_K1Z_XMMM128_def handle_code_EVEX_VMOVDQU64_YMM_K1Z_YMMM256_def
    handle_code_EVEX_VMOVDQU64_ZMM_K1Z_ZMMM512_def handle_code_EVEX_VMOVDQU64_XMMM128_K1Z_XMM_def
    handle_code_EVEX_VMOVDQU64_YMMM256_K1Z_YMM_def handle_code_EVEX_VMOVDQU64_ZMMM512_K1Z_ZMM_def
    handle_code_EVEX_VMOVDQU8_XMM_K1Z_XMMM128_def handle_code_EVEX_VMOVDQU8_YMM_K1Z_YMMM256_def
    handle_code_EVEX_VMOVDQU8_ZMM_K1Z_ZMMM512_def handle_code_EVEX_VMOVDQU8_XMMM128_K1Z_XMM_def
    handle_code_EVEX_VMOVDQU8_YMMM256_K1Z_YMM_def handle_code_EVEX_VMOVDQU8_ZMMM512_K1Z_ZMM_def
    handle_code_EVEX_VMOVDQU16_XMM_K1Z_XMMM128_def handle_code_EVEX_VMOVDQU16_YMM_K1Z_YMMM256_def
    handle_code_EVEX_VMOVDQU16_ZMM_K1Z_ZMMM512_def handle_code_EVEX_VMOVDQU16_XMMM128_K1Z_XMM_def
    handle_code_EVEX_VMOVDQU16_YMMM256_K1Z_YMM_def handle_code_EVEX_VMOVDQU16_ZMMM512_K1Z_ZMM_def handle_code_EVEX_VMOVD_XMM_RM32_def
    handle_code_EVEX_VMOVQ_XMM_RM64_def handle_code_EVEX_VMOVD_RM32_XMM_def handle_code_EVEX_VMOVQ_RM64_XMM_def
    handle_code_EVEX_VMOVQ_XMM_XMMM64_def handle_code_EVEX_VMOVQ_XMMM64_XMM_def handle_code_EVEX_VMOVLPS_XMM_XMM_M64_def
    handle_code_EVEX_VMOVLPS_M64_XMM_def handle_code_EVEX_VMOVLPD_XMM_XMM_M64_def handle_code_EVEX_VMOVLPD_M64_XMM_def
    handle_code_EVEX_VMOVHPS_XMM_XMM_M64_def handle_code_EVEX_VMOVLHPS_XMM_XMM_XMM_def handle_code_EVEX_VMOVHLPS_XMM_XMM_XMM_def
    handle_code_EVEX_VMOVHPS_M64_XMM_def handle_code_EVEX_VMOVHPD_XMM_XMM_M64_def handle_code_EVEX_VMOVHPD_M64_XMM_def
    handle_code_EVEX_VMOVNTPS_M128_XMM_def handle_code_EVEX_VMOVNTPS_M256_YMM_def handle_code_EVEX_VMOVNTPS_M512_ZMM_def
    handle_code_EVEX_VMOVNTPD_M128_XMM_def handle_code_EVEX_VMOVNTPD_M256_YMM_def handle_code_EVEX_VMOVNTPD_M512_ZMM_def
    handle_code_EVEX_VMOVNTDQ_M128_XMM_def handle_code_EVEX_VMOVNTDQ_M256_YMM_def handle_code_EVEX_VMOVNTDQ_M512_ZMM_def
    handle_code_EVEX_VMOVNTDQA_XMM_M128_def handle_code_EVEX_VMOVNTDQA_YMM_M256_def handle_code_EVEX_VMOVNTDQA_ZMM_M512_def)

definition rearrange_table :: "(icode \<times> 'w handler) list" where
  "rearrange_table =
    [(''UNPCKLPS_XMM_XMMM128'', handle_code_UNPCKLPS_XMM_XMMM128), (''UNPCKLPD_XMM_XMMM128'', handle_code_UNPCKLPD_XMM_XMMM128),
     (''UNPCKHPS_XMM_XMMM128'', handle_code_UNPCKHPS_XMM_XMMM128), (''UNPCKHPD_XMM_XMMM128'', handle_code_UNPCKHPD_XMM_XMMM128),
     (''SHUFPS_XMM_XMMM128_IMM8'', handle_code_SHUFPS_XMM_XMMM128_IMM8),
     (''SHUFPD_XMM_XMMM128_IMM8'', handle_code_SHUFPD_XMM_XMMM128_IMM8),
     (''PSHUFD_XMM_XMMM128_IMM8'', handle_code_PSHUFD_XMM_XMMM128_IMM8),
     (''PSHUFLW_XMM_XMMM128_IMM8'', handle_code_PSHUFLW_XMM_XMMM128_IMM8),
     (''PSHUFHW_XMM_XMMM128_IMM8'', handle_code_PSHUFHW_XMM_XMMM128_IMM8),
     (''MOVSLDUP_XMM_XMMM128'', handle_code_MOVSLDUP_XMM_XMMM128), (''MOVSHDUP_XMM_XMMM128'', handle_code_MOVSHDUP_XMM_XMMM128),
     (''MOVDDUP_XMM_XMMM64'', handle_code_MOVDDUP_XMM_XMMM64),
     (''VEX_VUNPCKLPS_XMM_XMM_XMMM128'', handle_code_VEX_VUNPCKLPS_XMM_XMM_XMMM128),
     (''VEX_VUNPCKLPD_XMM_XMM_XMMM128'', handle_code_VEX_VUNPCKLPD_XMM_XMM_XMMM128),
     (''VEX_VUNPCKHPS_XMM_XMM_XMMM128'', handle_code_VEX_VUNPCKHPS_XMM_XMM_XMMM128),
     (''VEX_VUNPCKHPD_XMM_XMM_XMMM128'', handle_code_VEX_VUNPCKHPD_XMM_XMM_XMMM128),
     (''VEX_VMOVSLDUP_XMM_XMMM128'', handle_code_VEX_VMOVSLDUP_XMM_XMMM128),
     (''VEX_VMOVSHDUP_XMM_XMMM128'', handle_code_VEX_VMOVSHDUP_XMM_XMMM128),
     (''VEX_VMOVDDUP_XMM_XMMM64'', handle_code_VEX_VMOVDDUP_XMM_XMMM64),
     (''VEX_VUNPCKLPS_YMM_YMM_YMMM256'', handle_code_VEX_VUNPCKLPS_YMM_YMM_YMMM256),
     (''VEX_VUNPCKLPD_YMM_YMM_YMMM256'', handle_code_VEX_VUNPCKLPD_YMM_YMM_YMMM256),
     (''VEX_VUNPCKHPS_YMM_YMM_YMMM256'', handle_code_VEX_VUNPCKHPS_YMM_YMM_YMMM256),
     (''VEX_VUNPCKHPD_YMM_YMM_YMMM256'', handle_code_VEX_VUNPCKHPD_YMM_YMM_YMMM256),
     (''VEX_VMOVSLDUP_YMM_YMMM256'', handle_code_VEX_VMOVSLDUP_YMM_YMMM256),
     (''VEX_VMOVSHDUP_YMM_YMMM256'', handle_code_VEX_VMOVSHDUP_YMM_YMMM256),
     (''VEX_VMOVDDUP_YMM_YMMM256'', handle_code_VEX_VMOVDDUP_YMM_YMMM256),
     (''PACKSSWB_XMM_XMMM128'', handle_code_PACKSSWB_XMM_XMMM128), (''PACKSSDW_XMM_XMMM128'', handle_code_PACKSSDW_XMM_XMMM128),
     (''PACKUSWB_XMM_XMMM128'', handle_code_PACKUSWB_XMM_XMMM128), (''PUNPCKLBW_XMM_XMMM128'', handle_code_PUNPCKLBW_XMM_XMMM128),
     (''PUNPCKHBW_XMM_XMMM128'', handle_code_PUNPCKHBW_XMM_XMMM128), (''PUNPCKLWD_XMM_XMMM128'', handle_code_PUNPCKLWD_XMM_XMMM128),
     (''PUNPCKHWD_XMM_XMMM128'', handle_code_PUNPCKHWD_XMM_XMMM128), (''PUNPCKLDQ_XMM_XMMM128'', handle_code_PUNPCKLDQ_XMM_XMMM128),
     (''PUNPCKHDQ_XMM_XMMM128'', handle_code_PUNPCKHDQ_XMM_XMMM128), (''PUNPCKLQDQ_XMM_XMMM128'', handle_code_PUNPCKLQDQ_XMM_XMMM128),
     (''PUNPCKHQDQ_XMM_XMMM128'', handle_code_PUNPCKHQDQ_XMM_XMMM128),
     (''VEX_VPACKSSWB_XMM_XMM_XMMM128'', handle_code_VEX_VPACKSSWB_XMM_XMM_XMMM128),
     (''VEX_VPACKSSDW_XMM_XMM_XMMM128'', handle_code_VEX_VPACKSSDW_XMM_XMM_XMMM128),
     (''VEX_VPACKUSWB_XMM_XMM_XMMM128'', handle_code_VEX_VPACKUSWB_XMM_XMM_XMMM128),
     (''VEX_VPUNPCKLBW_XMM_XMM_XMMM128'', handle_code_VEX_VPUNPCKLBW_XMM_XMM_XMMM128),
     (''VEX_VPUNPCKHBW_XMM_XMM_XMMM128'', handle_code_VEX_VPUNPCKHBW_XMM_XMM_XMMM128),
     (''VEX_VPUNPCKLWD_XMM_XMM_XMMM128'', handle_code_VEX_VPUNPCKLWD_XMM_XMM_XMMM128),
     (''VEX_VPUNPCKHWD_XMM_XMM_XMMM128'', handle_code_VEX_VPUNPCKHWD_XMM_XMM_XMMM128),
     (''VEX_VPUNPCKLDQ_XMM_XMM_XMMM128'', handle_code_VEX_VPUNPCKLDQ_XMM_XMM_XMMM128),
     (''VEX_VPUNPCKHDQ_XMM_XMM_XMMM128'', handle_code_VEX_VPUNPCKHDQ_XMM_XMM_XMMM128),
     (''VEX_VPACKSSWB_YMM_YMM_YMMM256'', handle_code_VEX_VPACKSSWB_YMM_YMM_YMMM256),
     (''VEX_VPACKSSDW_YMM_YMM_YMMM256'', handle_code_VEX_VPACKSSDW_YMM_YMM_YMMM256),
     (''VEX_VPACKUSWB_YMM_YMM_YMMM256'', handle_code_VEX_VPACKUSWB_YMM_YMM_YMMM256),
     (''VEX_VPUNPCKLBW_YMM_YMM_YMMM256'', handle_code_VEX_VPUNPCKLBW_YMM_YMM_YMMM256),
     (''VEX_VPUNPCKHBW_YMM_YMM_YMMM256'', handle_code_VEX_VPUNPCKHBW_YMM_YMM_YMMM256),
     (''VEX_VPUNPCKLWD_YMM_YMM_YMMM256'', handle_code_VEX_VPUNPCKLWD_YMM_YMM_YMMM256),
     (''VEX_VPUNPCKHWD_YMM_YMM_YMMM256'', handle_code_VEX_VPUNPCKHWD_YMM_YMM_YMMM256),
     (''VEX_VPUNPCKLDQ_YMM_YMM_YMMM256'', handle_code_VEX_VPUNPCKLDQ_YMM_YMM_YMMM256),
     (''VEX_VPUNPCKHDQ_YMM_YMM_YMMM256'', handle_code_VEX_VPUNPCKHDQ_YMM_YMM_YMMM256),
     (''EVEX_VPACKSSWB_XMM_K1Z_XMM_XMMM128'', handle_code_EVEX_VPACKSSWB_XMM_K1Z_XMM_XMMM128),
     (''EVEX_VPACKUSWB_XMM_K1Z_XMM_XMMM128'', handle_code_EVEX_VPACKUSWB_XMM_K1Z_XMM_XMMM128),
     (''EVEX_VPUNPCKLBW_XMM_K1Z_XMM_XMMM128'', handle_code_EVEX_VPUNPCKLBW_XMM_K1Z_XMM_XMMM128),
     (''EVEX_VPUNPCKHBW_XMM_K1Z_XMM_XMMM128'', handle_code_EVEX_VPUNPCKHBW_XMM_K1Z_XMM_XMMM128),
     (''EVEX_VPUNPCKLWD_XMM_K1Z_XMM_XMMM128'', handle_code_EVEX_VPUNPCKLWD_XMM_K1Z_XMM_XMMM128),
     (''EVEX_VPUNPCKHWD_XMM_K1Z_XMM_XMMM128'', handle_code_EVEX_VPUNPCKHWD_XMM_K1Z_XMM_XMMM128),
     (''EVEX_VPACKSSWB_YMM_K1Z_YMM_YMMM256'', handle_code_EVEX_VPACKSSWB_YMM_K1Z_YMM_YMMM256),
     (''EVEX_VPACKUSWB_YMM_K1Z_YMM_YMMM256'', handle_code_EVEX_VPACKUSWB_YMM_K1Z_YMM_YMMM256),
     (''EVEX_VPUNPCKLBW_YMM_K1Z_YMM_YMMM256'', handle_code_EVEX_VPUNPCKLBW_YMM_K1Z_YMM_YMMM256),
     (''EVEX_VPUNPCKHBW_YMM_K1Z_YMM_YMMM256'', handle_code_EVEX_VPUNPCKHBW_YMM_K1Z_YMM_YMMM256),
     (''EVEX_VPUNPCKLWD_YMM_K1Z_YMM_YMMM256'', handle_code_EVEX_VPUNPCKLWD_YMM_K1Z_YMM_YMMM256),
     (''EVEX_VPUNPCKHWD_YMM_K1Z_YMM_YMMM256'', handle_code_EVEX_VPUNPCKHWD_YMM_K1Z_YMM_YMMM256),
     (''EVEX_VPACKSSWB_ZMM_K1Z_ZMM_ZMMM512'', handle_code_EVEX_VPACKSSWB_ZMM_K1Z_ZMM_ZMMM512),
     (''EVEX_VPACKUSWB_ZMM_K1Z_ZMM_ZMMM512'', handle_code_EVEX_VPACKUSWB_ZMM_K1Z_ZMM_ZMMM512),
     (''EVEX_VPUNPCKLBW_ZMM_K1Z_ZMM_ZMMM512'', handle_code_EVEX_VPUNPCKLBW_ZMM_K1Z_ZMM_ZMMM512),
     (''EVEX_VPUNPCKHBW_ZMM_K1Z_ZMM_ZMMM512'', handle_code_EVEX_VPUNPCKHBW_ZMM_K1Z_ZMM_ZMMM512),
     (''EVEX_VPUNPCKLWD_ZMM_K1Z_ZMM_ZMMM512'', handle_code_EVEX_VPUNPCKLWD_ZMM_K1Z_ZMM_ZMMM512),
     (''EVEX_VPUNPCKHWD_ZMM_K1Z_ZMM_ZMMM512'', handle_code_EVEX_VPUNPCKHWD_ZMM_K1Z_ZMM_ZMMM512)]"

lemma rearrange_table_wf: "list_all (\<lambda>(cd, h). wf_handler h) rearrange_table"
  by (simp add: rearrange_table_def
    handle_code_UNPCKLPS_XMM_XMMM128_def handle_code_UNPCKLPD_XMM_XMMM128_def handle_code_UNPCKHPS_XMM_XMMM128_def
    handle_code_UNPCKHPD_XMM_XMMM128_def handle_code_SHUFPS_XMM_XMMM128_IMM8_def handle_code_SHUFPD_XMM_XMMM128_IMM8_def
    handle_code_PSHUFD_XMM_XMMM128_IMM8_def handle_code_PSHUFLW_XMM_XMMM128_IMM8_def handle_code_PSHUFHW_XMM_XMMM128_IMM8_def
    handle_code_MOVSLDUP_XMM_XMMM128_def handle_code_MOVSHDUP_XMM_XMMM128_def handle_code_MOVDDUP_XMM_XMMM64_def
    handle_code_VEX_VUNPCKLPS_XMM_XMM_XMMM128_def handle_code_VEX_VUNPCKLPD_XMM_XMM_XMMM128_def
    handle_code_VEX_VUNPCKHPS_XMM_XMM_XMMM128_def handle_code_VEX_VUNPCKHPD_XMM_XMM_XMMM128_def
    handle_code_VEX_VMOVSLDUP_XMM_XMMM128_def handle_code_VEX_VMOVSHDUP_XMM_XMMM128_def handle_code_VEX_VMOVDDUP_XMM_XMMM64_def
    handle_code_VEX_VUNPCKLPS_YMM_YMM_YMMM256_def handle_code_VEX_VUNPCKLPD_YMM_YMM_YMMM256_def
    handle_code_VEX_VUNPCKHPS_YMM_YMM_YMMM256_def handle_code_VEX_VUNPCKHPD_YMM_YMM_YMMM256_def
    handle_code_VEX_VMOVSLDUP_YMM_YMMM256_def handle_code_VEX_VMOVSHDUP_YMM_YMMM256_def handle_code_VEX_VMOVDDUP_YMM_YMMM256_def
    handle_code_PACKSSWB_XMM_XMMM128_def handle_code_PACKSSDW_XMM_XMMM128_def handle_code_PACKUSWB_XMM_XMMM128_def
    handle_code_PUNPCKLBW_XMM_XMMM128_def handle_code_PUNPCKHBW_XMM_XMMM128_def handle_code_PUNPCKLWD_XMM_XMMM128_def
    handle_code_PUNPCKHWD_XMM_XMMM128_def handle_code_PUNPCKLDQ_XMM_XMMM128_def handle_code_PUNPCKHDQ_XMM_XMMM128_def
    handle_code_PUNPCKLQDQ_XMM_XMMM128_def handle_code_PUNPCKHQDQ_XMM_XMMM128_def handle_code_VEX_VPACKSSWB_XMM_XMM_XMMM128_def
    handle_code_VEX_VPACKSSDW_XMM_XMM_XMMM128_def handle_code_VEX_VPACKUSWB_XMM_XMM_XMMM128_def
    handle_code_VEX_VPUNPCKLBW_XMM_XMM_XMMM128_def handle_code_VEX_VPUNPCKHBW_XMM_XMM_XMMM128_def
    handle_code_VEX_VPUNPCKLWD_XMM_XMM_XMMM128_def handle_code_VEX_VPUNPCKHWD_XMM_XMM_XMMM128_def
    handle_code_VEX_VPUNPCKLDQ_XMM_XMM_XMMM128_def handle_code_VEX_VPUNPCKHDQ_XMM_XMM_XMMM128_def
    handle_code_VEX_VPACKSSWB_YMM_YMM_YMMM256_def handle_code_VEX_VPACKSSDW_YMM_YMM_YMMM256_def
    handle_code_VEX_VPACKUSWB_YMM_YMM_YMMM256_def handle_code_VEX_VPUNPCKLBW_YMM_YMM_YMMM256_def
    handle_code_VEX_VPUNPCKHBW_YMM_YMM_YMMM256_def handle_code_VEX_VPUNPCKLWD_YMM_YMM_YMMM256_def
    handle_code_VEX_VPUNPCKHWD_YMM_YMM_YMMM256_def handle_code_VEX_VPUNPCKLDQ_YMM_YMM_YMMM256_def
    handle_code_VEX_VPUNPCKHDQ_YMM_YMM_YMMM256_def handle_code_EVEX_VPACKSSWB_XMM_K1Z_XMM_XMMM128_def
    handle_code_EVEX_VPACKUSWB_XMM_K1Z_XMM_XMMM128_def handle_code_EVEX_VPUNPCKLBW_XMM_K1Z_XMM_XMMM128_def
    handle_code_EVEX_VPUNPCKHBW_XMM_K1Z_XMM_XMMM128_def handle_code_EVEX_VPUNPCKLWD_XMM_K1Z_XMM_XMMM128_def
    handle_code_EVEX_VPUNPCKHWD_XMM_K1Z_XMM_XMMM128_def handle_code_EVEX_VPACKSSWB_YMM_K1Z_YMM_YMMM256_def
    handle_code_EVEX_VPACKUSWB_YMM_K1Z_YMM_YMMM256_def handle_code_EVEX_VPUNPCKLBW_YMM_K1Z_YMM_YMMM256_def
    handle_code_EVEX_VPUNPCKHBW_YMM_K1Z_YMM_YMMM256_def handle_code_EVEX_VPUNPCKLWD_YMM_K1Z_YMM_YMMM256_def
    handle_code_EVEX_VPUNPCKHWD_YMM_K1Z_YMM_YMMM256_def handle_code_EVEX_VPACKSSWB_ZMM_K1Z_ZMM_ZMMM512_def
    handle_code_EVEX_VPACKUSWB_ZMM_K1Z_ZMM_ZMMM512_def handle_code_EVEX_VPUNPCKLBW_ZMM_K1Z_ZMM_ZMMM512_def
    handle_code_EVEX_VPUNPCKHBW_ZMM_K1Z_ZMM_ZMMM512_def handle_code_EVEX_VPUNPCKLWD_ZMM_K1Z_ZMM_ZMMM512_def
    handle_code_EVEX_VPUNPCKHWD_ZMM_K1Z_ZMM_ZMMM512_def)

end
