(* ===== verification/X87_Model.thy ===== *)
theory X87_Model
  imports Simd_Int
begin

text \<open>
  Extended-precision numbers and the x87 helpers (\<^verbatim>\<open>float80.hpp\<close>, \<^verbatim>\<open>x87_encoding.hpp\<close>, \<^verbatim>\<open>x87_helpers.hpp\<close>). The arithmetic itself is
  Berkeley SoftFloat and the mathematical functions of the host, neither part of the repository: they are the fields of the
  record \<open>fp_env\<close>, a parameter of every definition that calls them. SoftFloat's global rounding mode and precision are never set, and
  its accumulated flags never read, so its functions are functions. \<^verbatim>\<open>float\<close> and \<^verbatim>\<open>double\<close> values are their bit patterns. One more field,
  \<open>st_distance\<close>, is the distance of a register's number from that of \<^verbatim>\<open>ST0\<close> in the decoder library's enumeration.
\<close>

section \<open>The floating-point environment\<close>

datatype sf_rounding = softfloat_round_minMag | softfloat_round_min | softfloat_round_max

record fp_env =
  f64_to_extF80 :: "u64 \<Rightarrow> float80"
  i32_to_extF80 :: "u32 \<Rightarrow> float80"
  i64_to_extF80 :: "u64 \<Rightarrow> float80"
  ui64_to_extF80 :: "u64 \<Rightarrow> float80"
  extF80_add :: "float80 \<Rightarrow> float80 \<Rightarrow> float80"
  extF80_sub :: "float80 \<Rightarrow> float80 \<Rightarrow> float80"
  extF80_mul :: "float80 \<Rightarrow> float80 \<Rightarrow> float80"
  extF80_div :: "float80 \<Rightarrow> float80 \<Rightarrow> float80"
  extF80_rem :: "float80 \<Rightarrow> float80 \<Rightarrow> float80"
  extF80_sqrt :: "float80 \<Rightarrow> float80"
  extF80_eq :: "float80 \<Rightarrow> float80 \<Rightarrow> bool"
  extF80_lt :: "float80 \<Rightarrow> float80 \<Rightarrow> bool"
  extF80_le :: "float80 \<Rightarrow> float80 \<Rightarrow> bool"
  extF80_to_f64 :: "float80 \<Rightarrow> u64"
  extF80_to_i64 :: "float80 \<Rightarrow> sf_rounding \<Rightarrow> u64"
  extF80_to_ui64 :: "float80 \<Rightarrow> sf_rounding \<Rightarrow> u64"
  extF80_roundToInt :: "float80 \<Rightarrow> sf_rounding \<Rightarrow> float80"
  float_to_double :: "u32 \<Rightarrow> u64"
  double_to_float :: "u64 \<Rightarrow> u32"
  std_ldexp :: "u64 \<Rightarrow> int \<Rightarrow> u64"
  std_frexp :: "u64 \<Rightarrow> u64 \<times> int"
  std_sin :: "u64 \<Rightarrow> u64"
  std_cos :: "u64 \<Rightarrow> u64"
  std_tan :: "u64 \<Rightarrow> u64"
  std_atan2 :: "u64 \<Rightarrow> u64 \<Rightarrow> u64"
  std_pow :: "u64 \<Rightarrow> u64 \<Rightarrow> u64"
  std_log2 :: "u64 \<Rightarrow> u64"
  st_distance :: "register \<Rightarrow> u32"

section \<open>Float80\<close>

text \<open>The converting constructors and conversion operators of \<^verbatim>\<open>Float80\<close>; an \<^verbatim>\<open>int16_t\<close> argument is promoted to \<^verbatim>\<open>int\<close>.\<close>

definition f80_of_double :: "fp_env \<Rightarrow> u64 \<Rightarrow> float80" where
  "f80_of_double fp d = f64_to_extF80 fp d"

definition f80_of_float :: "fp_env \<Rightarrow> u32 \<Rightarrow> float80" where
  "f80_of_float fp f = f80_of_double fp (float_to_double fp f)"

definition f80_of_int :: "fp_env \<Rightarrow> int \<Rightarrow> float80" where
  "f80_of_int fp i = i32_to_extF80 fp (word_of_int i)"

definition f80_to_double :: "fp_env \<Rightarrow> float80 \<Rightarrow> u64" where
  "f80_to_double fp x = extF80_to_f64 fp x"

definition f80_to_float :: "fp_env \<Rightarrow> float80 \<Rightarrow> u32" where
  "f80_to_float fp x = double_to_float fp (f80_to_double fp x)"

definition f80_to_int64 :: "fp_env \<Rightarrow> float80 \<Rightarrow> u64" where
  "f80_to_int64 fp x = extF80_to_i64 fp x softfloat_round_minMag"

definition f80_to_uint64 :: "fp_env \<Rightarrow> float80 \<Rightarrow> u64" where
  "f80_to_uint64 fp x = extF80_to_ui64 fp x softfloat_round_minMag"

definition f80_to_int :: "fp_env \<Rightarrow> float80 \<Rightarrow> int" where
  "f80_to_int fp x = sint (ucast (f80_to_int64 fp x) :: u32)"

definition f80_neg :: "float80 \<Rightarrow> float80" where
  "f80_neg x = x\<lparr>f80_signExp := f80_signExp x XOR 0x8000\<rparr>"

text \<open>\<^verbatim>\<open>x == 0\<close>, \<^verbatim>\<open>x < 0\<close> and their like compare with \<^verbatim>\<open>Float80(int)\<close>.\<close>

definition f80_is :: "fp_env \<Rightarrow> float80 \<Rightarrow> int \<Rightarrow> bool" where
  "f80_is fp x i = extF80_eq fp x (f80_of_int fp i)"

abbreviation f80_eq0 :: "fp_env \<Rightarrow> float80 \<Rightarrow> bool" where
  "f80_eq0 fp x \<equiv> f80_is fp x 0"

definition f80_isnan :: "float80 \<Rightarrow> bool" where
  "f80_isnan x \<longleftrightarrow> f80_signExp x AND 0x7FFF = 0x7FFF \<and> f80_signif x \<noteq> 0x8000000000000000"

definition f80_isinf :: "float80 \<Rightarrow> bool" where
  "f80_isinf x \<longleftrightarrow> f80_signExp x AND 0x7FFF = 0x7FFF \<and> f80_signif x = 0x8000000000000000"

definition f80_signbit :: "float80 \<Rightarrow> bool" where
  "f80_signbit x \<longleftrightarrow> f80_signExp x AND 0x8000 \<noteq> 0"

definition f80_abs :: "float80 \<Rightarrow> float80" where
  "f80_abs x = x\<lparr>f80_signExp := f80_signExp x AND 0x7FFF\<rparr>"

definition f80_trunc :: "fp_env \<Rightarrow> float80 \<Rightarrow> float80" where
  "f80_trunc fp x = extF80_roundToInt fp x softfloat_round_minMag"

definition f80_floor :: "fp_env \<Rightarrow> float80 \<Rightarrow> float80" where
  "f80_floor fp x = extF80_roundToInt fp x softfloat_round_min"

definition f80_ceil :: "fp_env \<Rightarrow> float80 \<Rightarrow> float80" where
  "f80_ceil fp x = extF80_roundToInt fp x softfloat_round_max"

definition f80_remainder :: "fp_env \<Rightarrow> float80 \<Rightarrow> float80 \<Rightarrow> float80" where
  "f80_remainder fp a b = extF80_rem fp a b"

definition f80_fmod :: "fp_env \<Rightarrow> float80 \<Rightarrow> float80 \<Rightarrow> float80" where
  "f80_fmod fp a b =
     (if f80_isnan a \<or> f80_isnan b \<or> f80_isinf a \<or> f80_eq0 fp b
      then \<lparr>f80_signif = 0xC000000000000000, f80_signExp = 0x7FFF\<rparr>
      else let q = f80_trunc fp (extF80_div fp a b) in extF80_sub fp a (extF80_mul fp q b))"

text \<open>The exponent sum of \<^verbatim>\<open>ldexp\<close> is an \<^verbatim>\<open>int\<close>; where it exceeds that type the C++ expression has no defined value.\<close>

definition f80_ldexp :: "fp_env \<Rightarrow> float80 \<Rightarrow> int \<Rightarrow> float80" where
  "f80_ldexp fp x n =
     (if f80_isnan x \<or> f80_isinf x \<or> f80_eq0 fp x then x
      else let biased = f80_signExp x AND 0x7FFF; newexp = uint biased + n
           in if biased = 0 then f80_of_double fp (std_ldexp fp (f80_to_double fp x) n)
              else if newexp \<ge> 0x7FFF then \<lparr>f80_signif = 0x8000000000000000, f80_signExp = (f80_signExp x AND 0x8000) OR 0x7FFF\<rparr>
              else if newexp \<le> 0 then f80_of_double fp (std_ldexp fp (f80_to_double fp x) n)
              else x\<lparr>f80_signExp := (f80_signExp x AND 0x8000) OR word_of_int newexp\<rparr>)"

definition f80_frexp :: "fp_env \<Rightarrow> float80 \<Rightarrow> float80 \<times> int" where
  "f80_frexp fp x =
     (if f80_isnan x \<or> f80_isinf x \<or> f80_eq0 fp x then (x, 0)
      else let biased = f80_signExp x AND 0x7FFF
           in if biased = 0 then (case std_frexp fp (f80_to_double fp x) of (m, e) \<Rightarrow> (f80_of_double fp m, e))
              else (x\<lparr>f80_signExp := (f80_signExp x AND 0x8000) OR 16382\<rparr>, uint biased - 16382))"

definition f80_sqrt :: "fp_env \<Rightarrow> float80 \<Rightarrow> float80" where
  "f80_sqrt fp x = extF80_sqrt fp x"

definition f80_sin :: "fp_env \<Rightarrow> float80 \<Rightarrow> float80" where
  "f80_sin fp x = f80_of_double fp (std_sin fp (f80_to_double fp x))"

definition f80_cos :: "fp_env \<Rightarrow> float80 \<Rightarrow> float80" where
  "f80_cos fp x = f80_of_double fp (std_cos fp (f80_to_double fp x))"

definition f80_tan :: "fp_env \<Rightarrow> float80 \<Rightarrow> float80" where
  "f80_tan fp x = f80_of_double fp (std_tan fp (f80_to_double fp x))"

definition f80_atan2 :: "fp_env \<Rightarrow> float80 \<Rightarrow> float80 \<Rightarrow> float80" where
  "f80_atan2 fp y x = f80_of_double fp (std_atan2 fp (f80_to_double fp y) (f80_to_double fp x))"

definition f80_pow :: "fp_env \<Rightarrow> float80 \<Rightarrow> float80 \<Rightarrow> float80" where
  "f80_pow fp b e = f80_of_double fp (std_pow fp (f80_to_double fp b) (f80_to_double fp e))"

definition f80_log2 :: "fp_env \<Rightarrow> float80 \<Rightarrow> float80" where
  "f80_log2 fp x = f80_of_double fp (std_log2 fp (f80_to_double fp x))"

definition f80_infinity :: float80 where "f80_infinity = \<lparr>f80_signif = 0x8000000000000000, f80_signExp = 0x7FFF\<rparr>"

definition f80_quiet_NaN :: float80 where "f80_quiet_NaN = \<lparr>f80_signif = 0xC000000000000000, f80_signExp = 0x7FFF\<rparr>"

definition f80_signaling_NaN :: float80 where "f80_signaling_NaN = \<lparr>f80_signif = 0xA000000000000000, f80_signExp = 0x7FFF\<rparr>"

definition f80_min :: float80 where "f80_min = \<lparr>f80_signif = 0x8000000000000000, f80_signExp = 1\<rparr>"

definition f80_max :: float80 where "f80_max = \<lparr>f80_signif = 0xFFFFFFFFFFFFFFFF, f80_signExp = 0x7FFE\<rparr>"

definition f80_lowest :: float80 where "f80_lowest = f80_max\<lparr>f80_signExp := f80_signExp f80_max OR 0x8000\<rparr>"

definition f80_denorm_min :: float80 where "f80_denorm_min = \<lparr>f80_signif = 1, f80_signExp = 0\<rparr>"

section \<open>Memory encoding\<close>

definition decode_ext80 :: "u8 list \<Rightarrow> float80" where
  "decode_ext80 raw = \<lparr>f80_signif = of_le_bytes (take 8 raw), f80_signExp = of_le_bytes (take 2 (drop 8 raw))\<rparr>"

definition encode_ext80 :: "float80 \<Rightarrow> u8 list" where
  "encode_ext80 value = le_bytes 8 (f80_signif value) @ le_bytes 2 (f80_signExp value)"

section \<open>Exceptions\<close>

definition kX87ExceptionInvalid :: u16 where "kX87ExceptionInvalid = 0x0001"
definition kX87ExceptionDenormal :: u16 where "kX87ExceptionDenormal = 0x0002"
definition kX87ExceptionZeroDiv :: u16 where "kX87ExceptionZeroDiv = 0x0004"
definition kX87ExceptionOverflow :: u16 where "kX87ExceptionOverflow = 0x0008"
definition kX87ExceptionUnderflow :: u16 where "kX87ExceptionUnderflow = 0x0010"
definition kX87ExceptionPrecision :: u16 where "kX87ExceptionPrecision = 0x0020"
definition kX87ExceptionStackFault :: u16 where "kX87ExceptionStackFault = 0x0040"
definition kX87ExceptionMask :: u16 where "kX87ExceptionMask = 0x003F"

definition x87_exceptions_masked :: "cpu_state \<Rightarrow> u16 \<Rightarrow> bool" where
  "x87_exceptions_masked s exceptions \<longleftrightarrow> exceptions AND NOT (x87_control_word s) AND kX87ExceptionMask = 0"

definition x87_exception :: "u16 \<Rightarrow> 'w handler" where
  "x87_exception exceptions c =
     (let sw0 = x87_status_word (state c);
          sw1 = sw0 OR (exceptions AND kX87ExceptionMask);
          sw2 = sw1 OR (exceptions AND kX87ExceptionStackFault);
          masked = x87_exceptions_masked (state c) exceptions;
          sw3 = (if masked then sw2 else sw2 OR 0x0080);
          c1 = upd_state (\<lambda>s. set_x87_status_word s sw3) c
      in if masked then (no_stop, c1)
         else (\<lparr>reason = SR_floating_point_exception, retired = 0,
                exception_of = Some \<lparr>ei_reason = SR_floating_point_exception, ei_address = rip (state c1), ei_error_code = ucast exceptions\<rparr>,
                result_code = Some (code (instr c1))\<rparr>, c1))"

text \<open>\<^verbatim>\<open>auto r = x87_exception(ctx, e); if (!r.ok()) return r;\<close>, and the same under \<^verbatim>\<open>if (e != 0)\<close>.\<close>

definition x87_raise :: "u16 \<Rightarrow> 'w handler \<Rightarrow> 'w handler" where
  "x87_raise e k c = (case x87_exception e c of (r, c1) \<Rightarrow> if result_ok r then k c1 else (r, c1))"

definition x87_raise_if :: "u16 \<Rightarrow> 'w handler \<Rightarrow> 'w handler" where
  "x87_raise_if e k c = (if e \<noteq> 0 then x87_raise e k c else k c)"

definition x87_stack_underflow :: "'w handler" where
  "x87_stack_underflow c =
     x87_exception (kX87ExceptionInvalid OR kX87ExceptionStackFault)
       (upd_state (\<lambda>s. set_x87_status_word s (x87_status_word s AND NOT 0x0200)) c)"

definition x87_stack_overflow :: "'w handler" where
  "x87_stack_overflow c =
     x87_exception (kX87ExceptionInvalid OR kX87ExceptionStackFault)
       (upd_state (\<lambda>s. set_x87_status_word s (x87_status_word s OR 0x0200)) c)"

text \<open>\<^verbatim>\<open>if (auto r = x87_precision_if_changed(ctx, before, after); !r.ok()) return r;\<close>\<close>

definition x87_precision_if_changed :: "fp_env \<Rightarrow> float80 \<Rightarrow> float80 \<Rightarrow> 'w handler \<Rightarrow> 'w handler" where
  "x87_precision_if_changed fp before after k c =
     (if extF80_eq fp before after then k c else x87_raise kX87ExceptionPrecision k c)"

definition x87_tiny :: "fp_env \<Rightarrow> float80 \<Rightarrow> bool" where
  "x87_tiny fp x \<longleftrightarrow> \<not> f80_eq0 fp x \<and> extF80_lt fp (f80_abs x) f80_min"

definition x87_classify_result :: "fp_env \<Rightarrow> float80 \<Rightarrow> float80 \<Rightarrow> float80 \<Rightarrow> u16" where
  "x87_classify_result fp result lhs rhs =
     (if f80_isnan result then kX87ExceptionInvalid else 0) OR
     (if f80_isinf result then kX87ExceptionOverflow else 0) OR
     (if x87_tiny fp result then kX87ExceptionUnderflow else 0) OR
     (if x87_tiny fp lhs \<or> x87_tiny fp rhs \<or> x87_tiny fp result then kX87ExceptionDenormal else 0)"

definition x87_precision_from_binary :: "fp_env \<Rightarrow> float80 \<Rightarrow> float80 \<Rightarrow> float80 \<Rightarrow> u16" where
  "x87_precision_from_binary fp lhs rhs result =
     (if f80_isnan result \<or> f80_isinf result then 0
      else let add_exact = extF80_eq fp (extF80_sub fp result lhs) rhs \<or> extF80_eq fp (extF80_sub fp result rhs) lhs;
               sub_exact = extF80_eq fp (extF80_sub fp lhs result) rhs \<or> extF80_eq fp (extF80_add fp result rhs) lhs;
               mul_exact = (f80_eq0 fp lhs \<or> f80_eq0 fp rhs) \<or> extF80_eq fp (extF80_div fp result lhs) rhs \<or>
                 extF80_eq fp (extF80_div fp result rhs) lhs;
               div_exact = (\<not> f80_eq0 fp rhs \<and> extF80_eq fp (extF80_mul fp result rhs) lhs) \<or>
                 (\<not> f80_eq0 fp lhs \<and> extF80_eq fp (extF80_mul fp result lhs) rhs)
           in if add_exact \<or> sub_exact \<or> mul_exact \<or> div_exact then 0
              else if f80_eq0 fp result \<and> \<not> f80_eq0 fp lhs \<and> \<not> f80_eq0 fp rhs
              then kX87ExceptionUnderflow OR kX87ExceptionPrecision
              else kX87ExceptionPrecision)"

section \<open>Stack operands\<close>

text \<open>
  \<^verbatim>\<open>x87_st_index\<close> is the 32-bit difference of the register's number and that of \<^verbatim>\<open>ST0\<close>. The stack registers are numbered
  consecutively; for any other register, \<^verbatim>\<open>Register::NONE\<close> of a missing operand included, the difference wraps around to a value that the
  numbering of the decoder library decides.
\<close>

fun x87_st_index :: "fp_env \<Rightarrow> register \<Rightarrow> u64" where
  "x87_st_index fp (ST n) = ucast n"
| "x87_st_index fp reg = ucast (st_distance fp reg)"

fun is_st :: "register \<Rightarrow> bool" where
  "is_st (ST _) = True"
| "is_st _ = False"

text \<open>\<^verbatim>\<open>return memory_fault(ctx, memory_address(ctx))\<close> and \<^verbatim>\<open>if (!ctx.state.x87_pop()) return x87_stack_underflow(ctx); return {};\<close>\<close>

definition operand_fault :: "'w handler" where
  "operand_fault c = (memory_fault c (memory_address c), c)"

definition x87_pop_or_underflow :: "'w handler" where
  "x87_pop_or_underflow c =
     (case x87_pop (state c) of
        (False, _) \<Rightarrow> x87_stack_underflow c
      | (True, s) \<Rightarrow> (no_stop, c\<lparr>state := s\<rparr>))"

definition x87_push_or :: "'w handler \<Rightarrow> fp_env \<Rightarrow> float80 \<Rightarrow> 'w handler" where
  "x87_push_or full fp value c =
     (case x87_push (f80_eq0 fp) (state c) value of
        (False, _) \<Rightarrow> full c
      | (True, s) \<Rightarrow> (no_stop, c\<lparr>state := s\<rparr>))"

definition x87_put :: "fp_env \<Rightarrow> u64 \<Rightarrow> float80 \<Rightarrow> 'w handler" where
  "x87_put fp idx value c = (no_stop, upd_state (\<lambda>s. x87_set (f80_eq0 fp) s idx value) c)"

definition x87_unary_st0 :: "fp_env \<Rightarrow> (float80 \<Rightarrow> float80) \<Rightarrow> 'w handler" where
  "x87_unary_st0 fp fn c =
     (if x87_is_empty (state c) 0 then x87_stack_underflow c
      else let input = x87_get (state c) 0; value = fn input
           in x87_raise_if (x87_classify_result fp value input (f80_of_int fp 0)) (x87_put fp 0 value) c)"

definition x87_fxch :: "fp_env \<Rightarrow> 'w handler" where
  "x87_fxch fp c =
     (if op_kind (instr c) 1 \<noteq> REGISTER then operand_fault c
      else let reg = op_register (instr c) 1; idx = x87_st_index fp reg
           in if \<not> is_st reg then operand_fault c
              else if x87_is_empty (state c) 0 \<or> x87_is_empty (state c) idx then x87_stack_underflow c
              else (no_stop, upd_state (\<lambda>s. x87_swap s idx) c))"

section \<open>Operands in memory\<close>

text \<open>
  The beginning of the helpers with a memory operand: \<^verbatim>\<open>ctx.memory.read\<close> into a \<^verbatim>\<open>float\<close>, a \<^verbatim>\<open>double\<close> or a signed integer of the given
  width, converted to \<^verbatim>\<open>Float80\<close>. A failed read and any other width end in a fault.
\<close>

definition read_m_fp :: "fp_env \<Rightarrow> nat \<Rightarrow> 'w ctx \<Rightarrow> float80 option \<times> 'w ctx" where
  "read_m_fp fp width c =
     (if width = 4 \<or> width = 8
      then case ctx_read c (memory_address c) width of
             (r, c1) \<Rightarrow> (map_option (\<lambda>v. if width = 4 then f80_of_float fp (ucast v) else f80_of_double fp v) r, c1)
      else (None, c))"

definition read_m_int :: "fp_env \<Rightarrow> nat \<Rightarrow> 'w ctx \<Rightarrow> float80 option \<times> 'w ctx" where
  "read_m_int fp width c =
     (if width = 2 \<or> width = 4 \<or> width = 8
      then case ctx_read c (memory_address c) width of
             (r, c1) \<Rightarrow> (map_option (\<lambda>v. if width = 2 then f80_of_int fp (sint (ucast v :: u16))
                                       else if width = 4 then f80_of_int fp (sint (ucast v :: u32))
                                       else i64_to_extF80 fp v) r, c1)
      else (None, c))"

definition with_x87_operand :: "('w ctx \<Rightarrow> float80 option \<times> 'w ctx) \<Rightarrow> (float80 \<Rightarrow> 'w handler) \<Rightarrow> 'w handler" where
  "with_x87_operand rd k c =
     (case rd c of
        (None, c1) \<Rightarrow> operand_fault c1
      | (Some v, c1) \<Rightarrow> k v c1)"

text \<open>The end of the binary helpers: classify the result, raise the exceptions, store.\<close>

definition x87_finish_binary :: "fp_env \<Rightarrow> u64 \<Rightarrow> float80 \<Rightarrow> float80 \<Rightarrow> float80 \<times> u16 \<Rightarrow> 'w handler" where
  "x87_finish_binary fp dst lhs rhs r =
     (case r of (value, exceptions) \<Rightarrow>
        x87_raise_if (exceptions OR (x87_classify_result fp value lhs rhs OR x87_precision_from_binary fp lhs rhs value))
          (x87_put fp dst value))"

definition x87_binary_mem_st0_with_status :: "fp_env \<Rightarrow> nat \<Rightarrow> (float80 \<Rightarrow> float80 \<Rightarrow> float80 \<times> u16) \<Rightarrow> 'w handler" where
  "x87_binary_mem_st0_with_status fp width fn =
     with_x87_operand (read_m_fp fp width) (\<lambda>rhs c.
       if x87_is_empty (state c) 0 then x87_stack_underflow c
       else let lhs = x87_get (state c) 0 in x87_finish_binary fp 0 lhs rhs (fn lhs rhs) c)"

definition x87_binary_mem_st0 :: "fp_env \<Rightarrow> nat \<Rightarrow> (float80 \<Rightarrow> float80 \<Rightarrow> float80) \<Rightarrow> 'w handler" where
  "x87_binary_mem_st0 fp width fn =
     with_x87_operand (read_m_fp fp width) (\<lambda>rhs c.
       if x87_is_empty (state c) 0 then x87_stack_underflow c
       else let lhs = x87_get (state c) 0; value = fn lhs rhs in x87_finish_binary fp 0 lhs rhs (value, 0) c)"

definition x87_binary_mem_int_st0 :: "fp_env \<Rightarrow> nat \<Rightarrow> (float80 \<Rightarrow> float80 \<Rightarrow> float80) \<Rightarrow> 'w handler" where
  "x87_binary_mem_int_st0 fp width fn =
     with_x87_operand (read_m_int fp width) (\<lambda>rhs c.
       if x87_is_empty (state c) 0 then x87_stack_underflow c
       else let lhs = x87_get (state c) 0; value = fn lhs rhs in x87_finish_binary fp 0 lhs rhs (value, 0) c)"

definition x87_binary_mem_int_st0_with_status :: "fp_env \<Rightarrow> nat \<Rightarrow> (float80 \<Rightarrow> float80 \<Rightarrow> float80 \<times> u16) \<Rightarrow> 'w handler" where
  "x87_binary_mem_int_st0_with_status fp width fn =
     with_x87_operand (read_m_int fp width) (\<lambda>rhs c.
       if x87_is_empty (state c) 0 then x87_stack_underflow c
       else let lhs = x87_get (state c) 0 in x87_finish_binary fp 0 lhs rhs (fn lhs rhs) c)"

definition with_st_regs :: "fp_env \<Rightarrow> nat \<Rightarrow> nat \<Rightarrow> (u64 \<Rightarrow> float80 \<Rightarrow> float80 \<Rightarrow> 'w handler) \<Rightarrow> 'w handler" where
  "with_st_regs fp dst_op src_op k c =
     (if op_kind (instr c) dst_op \<noteq> REGISTER \<or> op_kind (instr c) src_op \<noteq> REGISTER then operand_fault c
      else let dst = op_register (instr c) dst_op; src = op_register (instr c) src_op
           in if \<not> is_st dst \<or> \<not> is_st src then operand_fault c
              else let dst_idx = x87_st_index fp dst; src_idx = x87_st_index fp src
                   in if x87_is_empty (state c) dst_idx \<or> x87_is_empty (state c) src_idx then x87_stack_underflow c
                      else k dst_idx (x87_get (state c) dst_idx) (x87_get (state c) src_idx) c)"

definition x87_binary_st_regs :: "fp_env \<Rightarrow> nat \<Rightarrow> nat \<Rightarrow> (float80 \<Rightarrow> float80 \<Rightarrow> float80) \<Rightarrow> 'w handler" where
  "x87_binary_st_regs fp dst_op src_op fn =
     with_st_regs fp dst_op src_op (\<lambda>dst_idx lhs rhs. x87_finish_binary fp dst_idx lhs rhs (fn lhs rhs, 0))"

definition x87_binary_st_regs_with_status :: "fp_env \<Rightarrow> nat \<Rightarrow> nat \<Rightarrow> (float80 \<Rightarrow> float80 \<Rightarrow> float80 \<times> u16) \<Rightarrow> 'w handler" where
  "x87_binary_st_regs_with_status fp dst_op src_op fn =
     with_st_regs fp dst_op src_op (\<lambda>dst_idx lhs rhs. x87_finish_binary fp dst_idx lhs rhs (fn lhs rhs))"

section \<open>Loads and stores\<close>

text \<open>\<^verbatim>\<open>for (i ...) if (!ctx.memory.write(base + i, &raw[i], 1)) return memory_fault(ctx, base + i);\<close>\<close>

fun write_raw :: "u64 \<Rightarrow> u8 list \<Rightarrow> 'w ctx \<Rightarrow> execution_result option \<times> 'w ctx" where
  "write_raw a [] c = (None, c)"
| "write_raw a (b # bs) c =
     (case ctx_write c a (ucast b) 1 of
        (False, c1) \<Rightarrow> (Some (memory_fault c1 a), c1)
      | (True, c1) \<Rightarrow> write_raw (a + 1) bs c1)"

definition pop_if :: "bool \<Rightarrow> 'w handler" where
  "pop_if p c = (if p then x87_pop_or_underflow c else (no_stop, c))"

definition x87_store_mem :: "fp_env \<Rightarrow> nat \<Rightarrow> bool \<Rightarrow> 'w handler" where
  "x87_store_mem fp width p c =
     (if x87_is_empty (state c) 0 then x87_stack_underflow c
      else let value = x87_get (state c) 0
           in if width = 4 \<or> width = 8
              then (case write_memory_checked c (memory_address c) (if width = 4 then ucast (f80_to_float fp value) else f80_to_double fp value) width of
                      (r, c1) \<Rightarrow> if result_ok r then pop_if p c1 else (r, c1))
              else if width = 10
              then (case write_raw (memory_address c) (encode_ext80 value) c of
                      (Some r, c1) \<Rightarrow> (r, c1)
                    | (None, c1) \<Rightarrow> pop_if p c1)
              else operand_fault c)"

definition x87_push_from_memory :: "fp_env \<Rightarrow> nat \<Rightarrow> 'w handler" where
  "x87_push_from_memory fp width c =
     (if width = 10
      then case mem_read (mem c) (memory_address c) 10 data_read of
             (None, m) \<Rightarrow> operand_fault (c\<lparr>mem := m\<rparr>)
           | (Some raw, m) \<Rightarrow> x87_push_or (x87_exception kX87ExceptionInvalid) fp (decode_ext80 raw) (c\<lparr>mem := m\<rparr>)
      else with_x87_operand (read_m_fp fp width) (x87_push_or (x87_exception kX87ExceptionInvalid) fp) c)"

definition x87_store_to_memory :: "fp_env \<Rightarrow> nat \<Rightarrow> bool \<Rightarrow> 'w handler" where
  "x87_store_to_memory fp width p = x87_store_mem fp width p"

definition x87_round_half_even :: "fp_env \<Rightarrow> float80 \<Rightarrow> float80" where
  "x87_round_half_even fp value =
     (let flo = f80_floor fp value; frac = extF80_sub fp value flo; half = f80_of_double fp 0x3FE0000000000000
      in if extF80_lt fp frac half then flo
         else if extF80_lt fp half frac then extF80_add fp flo (f80_of_int fp 1)
         else let parity = f80_fmod fp (f80_abs flo) (f80_of_int fp 2)
              in if f80_eq0 fp parity then flo else extF80_add fp flo (f80_of_int fp 1))"

definition x87_round_to_control :: "fp_env \<Rightarrow> cpu_state \<Rightarrow> float80 \<Rightarrow> float80" where
  "x87_round_to_control fp s value =
     (let rc = drop_bit 10 (x87_control_word s) AND 3
      in if rc = 0 then x87_round_half_even fp value
         else if rc = 1 then f80_floor fp value
         else if rc = 2 then f80_ceil fp value
         else f80_trunc fp value)"

definition int_limits :: "fp_env \<Rightarrow> nat \<Rightarrow> float80 \<times> float80" where
  "int_limits fp width =
     (if width = 2 then (f80_of_int fp (- 32768), f80_of_int fp 32767)
      else if width = 4 then (f80_of_int fp (- 2147483648), f80_of_int fp 2147483647)
      else (i64_to_extF80 fp 0x8000000000000000, i64_to_extF80 fp 0x7FFFFFFFFFFFFFFF))"

definition x87_store_integer :: "fp_env \<Rightarrow> nat \<Rightarrow> bool \<Rightarrow> bool \<Rightarrow> 'w handler" where
  "x87_store_integer fp width p truncate_only c =
     (if x87_is_empty (state c) 0 then x87_stack_underflow c
      else let value = x87_get (state c) 0;
               rounded = (if truncate_only then f80_trunc fp value else x87_round_to_control fp (state c) value);
               inexact = (if extF80_eq fp rounded value then 0 else kX87ExceptionPrecision);
               (lower, upper) = int_limits fp width;
               invalid = f80_isnan rounded \<or> f80_isinf rounded \<or> extF80_lt fp rounded lower \<or> extF80_lt fp upper rounded;
               exceptions = inexact OR (if invalid then kX87ExceptionInvalid else 0);
               out = f80_to_int64 fp (if invalid then lower else rounded)
           in if width \<noteq> 2 \<and> width \<noteq> 4 \<and> width \<noteq> 8 then operand_fault c
              else case ctx_write c (memory_address c) out width of
                     (False, c1) \<Rightarrow> operand_fault c1
                   | (True, c1) \<Rightarrow> x87_raise_if exceptions (pop_if p) c1)"

definition x87_load_integer :: "fp_env \<Rightarrow> nat \<Rightarrow> 'w handler" where
  "x87_load_integer fp width = with_x87_operand (read_m_int fp width) (x87_push_or x87_stack_overflow fp)"

definition x87_reg_move :: "fp_env \<Rightarrow> nat \<Rightarrow> nat \<Rightarrow> bool \<Rightarrow> 'w handler" where
  "x87_reg_move fp dst src p c =
     (if op_kind (instr c) dst \<noteq> REGISTER \<or> op_kind (instr c) src \<noteq> REGISTER then operand_fault c
      else let d = x87_st_index fp (op_register (instr c) dst); r = x87_st_index fp (op_register (instr c) src)
           in if x87_is_empty (state c) r then x87_stack_underflow c
              else (no_stop, upd_state (\<lambda>s.
                let s1 = x87_set (f80_eq0 fp) s d (x87_get s r) in if p then x87_mark_empty s1 r else s1) c))"

section \<open>Comparison\<close>

text \<open>The relation is \<open>-2\<close> for unordered; the exceptions so far are an argument and a result.\<close>

definition x87_cmp :: "fp_env \<Rightarrow> float80 \<Rightarrow> float80 \<Rightarrow> bool \<Rightarrow> u16 \<Rightarrow> int \<times> u16" where
  "x87_cmp fp a b quiet exceptions =
     (if f80_isnan a \<or> f80_isnan b then (- 2, if quiet then exceptions else exceptions OR kX87ExceptionInvalid)
      else if extF80_lt fp a b then (- 1, exceptions)
      else if extF80_lt fp b a then (1, exceptions)
      else (0, exceptions))"

definition x87_set_cmp_flags :: "int \<Rightarrow> cpu_state \<Rightarrow> cpu_state" where
  "x87_set_cmp_flags relation s =
     (let sw = x87_status_word s AND NOT 0x4700
      in set_x87_status_word s
           (if relation = - 2 then sw OR 0x4500 else if relation < 0 then sw OR 0x0100 else if relation = 0 then sw OR 0x4000 else sw))"

definition x87_set_eflags_cmp :: "int \<Rightarrow> cpu_state \<Rightarrow> cpu_state" where
  "x87_set_eflags_cmp relation s =
     (let s1 = set_x87_status_word s (x87_status_word s AND NOT 0x0200);
          f1 = set_flag (rflags s1) kFlagCF (relation = - 2 \<or> relation < 0);
          f2 = set_flag f1 kFlagPF (relation = - 2);
          f3 = set_flag f2 kFlagZF (relation = - 2 \<or> relation = 0)
      in s1\<lparr>rflags := f3\<rparr>)"

definition x87_move_if :: "fp_env \<Rightarrow> bool \<Rightarrow> 'w handler" where
  "x87_move_if fp cond c =
     (if \<not> cond then (no_stop, c)
      else if op_kind (instr c) 1 \<noteq> REGISTER then operand_fault c
      else let src = op_register (instr c) 1; src_idx = x87_st_index fp src
           in if \<not> is_st src then operand_fault c
              else if x87_is_empty (state c) 0 \<or> x87_is_empty (state c) src_idx then x87_stack_underflow c
              else x87_put fp 0 (x87_get (state c) src_idx) c)"

text \<open>
  The common body of the comparisons: when an operand is empty the unordered result is stored and the exception raised; unless that
  stops, the comparison goes on with the contents of the registers.
\<close>

definition x87_compare_body :: "fp_env \<Rightarrow> bool \<Rightarrow> bool \<Rightarrow> bool \<Rightarrow> (cpu_state \<Rightarrow> float80 \<times> float80) \<Rightarrow> 'w handler \<Rightarrow> 'w handler" where
  "x87_compare_body fp eflags quiet vacant operands k c =
     (let set_result = (if eflags then x87_set_eflags_cmp else x87_set_cmp_flags);
          exceptions = (if vacant then kX87ExceptionInvalid else 0);
          compare = (\<lambda>c1. case operands (state c1) of (a, b) \<Rightarrow>
            case x87_cmp fp a b quiet exceptions of (rel, e) \<Rightarrow> x87_raise_if e k (upd_state (set_result rel) c1))
      in if vacant then x87_raise exceptions compare (upd_state (set_result (- 2)) c) else compare c)"

definition x87_compare_mem :: "fp_env \<Rightarrow> nat \<Rightarrow> bool \<Rightarrow> bool \<Rightarrow> bool \<Rightarrow> 'w handler" where
  "x87_compare_mem fp width p eflags quiet =
     with_x87_operand (read_m_fp fp width) (\<lambda>rhs c.
       x87_compare_body fp eflags quiet (x87_is_empty (state c) 0) (\<lambda>s. (x87_get s 0, rhs)) (pop_if p) c)"

definition x87_compare_regs :: "fp_env \<Rightarrow> nat \<Rightarrow> nat \<Rightarrow> bool \<Rightarrow> bool \<Rightarrow> bool \<Rightarrow> bool \<Rightarrow> 'w handler" where
  "x87_compare_regs fp lhs_op rhs_op pop_lhs pop_rhs eflags quiet c =
     (if op_kind (instr c) lhs_op \<noteq> REGISTER \<or> op_kind (instr c) rhs_op \<noteq> REGISTER then operand_fault c
      else let lhs_idx = x87_st_index fp (op_register (instr c) lhs_op); rhs_idx = x87_st_index fp (op_register (instr c) rhs_op)
           in x87_compare_body fp eflags quiet (x87_is_empty (state c) lhs_idx \<or> x87_is_empty (state c) rhs_idx)
                (\<lambda>s. (x87_get s lhs_idx, x87_get s rhs_idx))
                (\<lambda>c1. if \<not> pop_rhs then pop_if pop_lhs c1
                      else case x87_pop (state c1) of
                             (False, _) \<Rightarrow> x87_stack_underflow c1
                           | (True, s) \<Rightarrow> pop_if pop_lhs (c1\<lparr>state := s\<rparr>)) c)"

definition x87_compare_st0_sti :: "fp_env \<Rightarrow> nat \<Rightarrow> bool \<Rightarrow> bool \<Rightarrow> bool \<Rightarrow> 'w handler" where
  "x87_compare_st0_sti fp src_op eflags pop_st0 quiet c =
     (if op_kind (instr c) src_op \<noteq> REGISTER then operand_fault c
      else let src_idx = x87_st_index fp (op_register (instr c) src_op)
           in x87_compare_body fp eflags quiet (x87_is_empty (state c) 0 \<or> x87_is_empty (state c) src_idx)
                (\<lambda>s. (x87_get s 0, x87_get s src_idx)) (pop_if pop_st0) c)"

section \<open>Decimal integers\<close>

text \<open>The loops over the nine bytes of digits; \<open>i\<close> is the index of the next byte and \<open>n\<close> the number of bytes left.\<close>

fun bcd_load :: "u64 \<Rightarrow> nat \<Rightarrow> nat \<Rightarrow> u64 \<Rightarrow> u64 \<Rightarrow> 'w ctx \<Rightarrow> (execution_result + u64) \<times> 'w ctx" where
  "bcd_load base i 0 magnitude mul c = (Inr magnitude, c)"
| "bcd_load base i (Suc n) magnitude mul c =
     (case ctx_read c (base + word_of_nat i) 1 of
        (None, c1) \<Rightarrow> (Inl (memory_fault c1 (base + word_of_nat i)), c1)
      | (Some b, c1) \<Rightarrow>
          let m1 = magnitude + (b AND 0x0F) * mul; mul1 = mul * 10;
              m2 = m1 + (drop_bit 4 b AND 0x0F) * mul1; mul2 = mul1 * 10
          in bcd_load base (Suc i) n m2 mul2 c1)"

definition x87_load_bcd :: "fp_env \<Rightarrow> 'w handler" where
  "x87_load_bcd fp c =
     (let base = memory_address c
      in case bcd_load base 0 9 0 1 c of
           (Inl r, c1) \<Rightarrow> (r, c1)
         | (Inr magnitude, c1) \<Rightarrow>
             (case ctx_read c1 (base + 9) 1 of
                (None, c2) \<Rightarrow> (memory_fault c2 (base + 9), c2)
              | (Some sign, c2) \<Rightarrow>
                  let value = ui64_to_extF80 fp magnitude
                  in x87_push_or x87_stack_overflow fp (if sign AND 0x80 \<noteq> 0 then f80_neg value else value) c2))"

fun bcd_store :: "u64 \<Rightarrow> nat \<Rightarrow> nat \<Rightarrow> u64 \<Rightarrow> 'w ctx \<Rightarrow> execution_result option \<times> 'w ctx" where
  "bcd_store base i 0 v c = (None, c)"
| "bcd_store base i (Suc n) v c =
     (let d0 = ucast (v mod 10) :: u8; v1 = v div 10; d1 = ucast (v1 mod 10) :: u8; v2 = v1 div 10; packed = push_bit 4 d1 OR d0
      in case ctx_write c (base + word_of_nat i) (ucast packed) 1 of
           (False, c1) \<Rightarrow> (Some (memory_fault c1 (base + word_of_nat i)), c1)
         | (True, c1) \<Rightarrow> bcd_store base (Suc i) n v2 c1)"

definition x87_store_bcd :: "fp_env \<Rightarrow> 'w handler" where
  "x87_store_bcd fp c =
     (let base = memory_address c
      in if x87_is_empty (state c) 0 then x87_stack_underflow c
         else let value = x87_get (state c) 0; neg = extF80_lt fp value (f80_of_int fp 0);
                  v = f80_to_uint64 fp (if neg then f80_neg value else value)
              in case bcd_store base 0 9 v c of
                   (Some r, c1) \<Rightarrow> (r, c1)
                 | (None, c1) \<Rightarrow>
                     (case ctx_write c1 (base + 9) (if neg then 0x80 else 0) 1 of
                        (False, c2) \<Rightarrow> (memory_fault c2 (base + 9), c2)
                      | (True, c2) \<Rightarrow> (no_stop, c2)))"

section \<open>Register stores\<close>

definition x87_store_st0_to_sti :: "fp_env \<Rightarrow> bool \<Rightarrow> 'w handler" where
  "x87_store_st0_to_sti fp p c =
     (if op_kind (instr c) 1 \<noteq> REGISTER then operand_fault c
      else let idx = x87_st_index fp (op_register (instr c) 1)
           in if x87_is_empty (state c) 0 then x87_stack_underflow c
              else pop_if p (upd_state (\<lambda>s. x87_set (f80_eq0 fp) s idx (x87_get s 0)) c))"

definition x87_free_sti :: "fp_env \<Rightarrow> bool \<Rightarrow> 'w handler" where
  "x87_free_sti fp p c =
     (if op_kind (instr c) 0 \<noteq> REGISTER then operand_fault c
      else pop_if p (upd_state (\<lambda>s. x87_mark_empty s (x87_st_index fp (op_register (instr c) 0))) c))"

definition x87_fstp_m80fp :: "'w handler" where
  "x87_fstp_m80fp c =
     (let base = memory_address c
      in if x87_is_empty (state c) 0 then x87_stack_underflow c
         else case write_raw base (encode_ext80 (x87_get (state c) 0)) c of
                (Some r, c1) \<Rightarrow> (r, c1)
              | (None, c1) \<Rightarrow> x87_pop_or_underflow c1)"

definition x87_fxam_class_bits :: "fp_env \<Rightarrow> float80 \<Rightarrow> bool \<Rightarrow> u16" where
  "x87_fxam_class_bits fp value vacant =
     (if vacant then 0x4100
      else if f80_isnan value then 0x0100
      else if f80_isinf value then 0x0500
      else if f80_eq0 fp value then 0x4000
      else if extF80_lt fp (f80_abs value) f80_min then 0x4400
      else 0x0400)"

definition x87_set_fxam_flags :: "fp_env \<Rightarrow> float80 \<Rightarrow> bool \<Rightarrow> cpu_state \<Rightarrow> cpu_state" where
  "x87_set_fxam_flags fp value vacant s =
     (let sw0 = x87_status_word s AND NOT 0x4700; sw1 = sw0 OR x87_fxam_class_bits fp value vacant
      in set_x87_status_word s (if f80_signbit value then sw1 OR 0x0200 else sw1))"

end
