(* ===== verification/X87_Ops.thy ===== *)
theory X87_Ops
  imports X87_Model
begin

text \<open>
  The x87 and MMX handlers (\<^verbatim>\<open>handlers/x87_arithmetic.cpp\<close>, \<^verbatim>\<open>handlers/x87_compare.cpp\<close>, \<^verbatim>\<open>handlers/x87_special.cpp\<close>,
  \<^verbatim>\<open>handlers/mmx_x87.cpp\<close>). A handler that calculates takes the floating-point environment as its first argument.
\<close>

section \<open>Division\<close>

definition x87_div_pair :: "fp_env \<Rightarrow> bool \<Rightarrow> float80 \<Rightarrow> float80 \<Rightarrow> float80 \<times> u16" where
  "x87_div_pair fp reversed lhs rhs =
     (let dividend = (if reversed then rhs else lhs); divisor = (if reversed then lhs else rhs)
      in if f80_eq0 fp divisor
         then if f80_eq0 fp dividend then (f80_quiet_NaN, kX87ExceptionInvalid)
              else (if f80_signbit dividend \<noteq> f80_signbit divisor then f80_neg f80_infinity else f80_infinity, kX87ExceptionZeroDiv)
         else let value = (if reversed then extF80_div fp rhs lhs else extF80_div fp lhs rhs);
                  e1 = (if f80_eq0 fp value \<and> \<not> f80_eq0 fp dividend then kX87ExceptionUnderflow OR kX87ExceptionPrecision else 0);
                  e2 = (if extF80_eq fp (extF80_mul fp value divisor) dividend then 0 else kX87ExceptionPrecision)
              in (value, e1 OR e2))"

text \<open>\<^verbatim>\<open>const auto result = ...; if (!result.ok()) return result; if (!ctx.state.x87_pop()) ...\<close>\<close>

definition then_pop :: "'w handler \<Rightarrow> 'w handler" where
  "then_pop h c = (case h c of (r, c1) \<Rightarrow> if result_ok r then x87_pop_or_underflow c1 else (r, c1))"

section \<open>MMX and mask extraction\<close>

fun mm_index :: "register \<Rightarrow> u64" where
  "mm_index (MM n) = ucast n"
| "mm_index _ = 0"

definition read_mmx :: "cpu_state \<Rightarrow> register \<Rightarrow> u64" where
  "read_mmx s reg = mmx_get s (mm_index reg)"

fun xmm_index :: "register \<Rightarrow> nat" where
  "xmm_index (XMM n) = unat n"
| "xmm_index _ = 0"

definition write_or_fault :: "u64 \<Rightarrow> nat \<Rightarrow> 'w handler" where
  "write_or_fault v w c = (case write_operand c 0 v w of (False, c1) \<Rightarrow> operand_fault c1 | (True, c1) \<Rightarrow> (no_stop, c1))"

definition byte_signs :: "nat \<Rightarrow> simd \<Rightarrow> u64" where
  "byte_signs n src =
     fold (\<lambda>i m. m OR push_bit i (if drop_bit (i * 8 + 7) src AND 1 \<noteq> 0 then 1 else 0)) [0..<n] 0"

definition pmovmskb :: "nat \<Rightarrow> bool \<Rightarrow> nat \<Rightarrow> 'w handler" where
  "pmovmskb src_bytes use_mmx dst_bytes c =
     (let reg = op_register (instr c) 1;
          src = (if use_mmx then ucast (read_mmx (state c) reg) else vectors (state c) ! vector_index reg)
      in write_or_fault (byte_signs src_bytes src) dst_bytes c)"

definition movmskpd :: "nat \<Rightarrow> 'w handler" where
  "movmskpd dst_bytes c =
     (let src = vectors (state c) ! vector_index (op_register (instr c) 1)
      in write_or_fault (ucast ((drop_bit 63 src AND 1) OR push_bit 1 (drop_bit 127 src AND 1))) dst_bytes c)"

fun masked_store :: "u64 \<Rightarrow> (u8 \<times> u8) list \<Rightarrow> 'w handler" where
  "masked_store a [] c = (no_stop, c)"
| "masked_store a ((b, k) # bs) c =
     (if k AND 0x80 \<noteq> 0
      then case ctx_write c a (ucast b) 1 of
             (False, c1) \<Rightarrow> (memory_fault c1 a, c1)
           | (True, c1) \<Rightarrow> masked_store (a + 1) bs c1
      else masked_store (a + 1) bs c)"

definition store_masked_bytes :: "nat \<Rightarrow> nat \<Rightarrow> nat \<Rightarrow> bool \<Rightarrow> 'w handler" where
  "store_masked_bytes data_index mask_index width use_xmm c =
     (let dest = read_register (state c) (Q64 G_DI);
          data_reg = op_register (instr c) data_index; mask_reg = op_register (instr c) mask_index;
          bytes = (if use_xmm then le_bytes width (vectors (state c) ! xmm_index data_reg) else le_bytes width (read_mmx (state c) data_reg));
          mask = (if use_xmm then le_bytes width (vectors (state c) ! xmm_index mask_reg) else le_bytes width (read_mmx (state c) mask_reg))
      in masked_store dest (zip bytes mask) c)"

definition mmx_move :: "nat \<Rightarrow> nat \<Rightarrow> nat \<Rightarrow> 'w handler" where
  "mmx_move dst_index src_index width c =
     (case read_operand c src_index width of
        (None, c1) \<Rightarrow> operand_fault c1
      | (Some value, c1) \<Rightarrow>
          (case write_operand c1 dst_index value width of
             (False, c2) \<Rightarrow> operand_fault c2
           | (True, c2) \<Rightarrow> (no_stop, c2)))"

definition emms :: "cpu_state \<Rightarrow> cpu_state" where
  "emms s = s\<lparr>x87_tags := map (\<lambda>_. 3) (x87_tags s)\<rparr>"

section \<open>Saved state\<close>

text \<open>\<^verbatim>\<open>validate_memory_span\<close>, with the address and the number of bytes left as the loop variables.\<close>

definition span_allowed :: "access_kind \<Rightarrow> u64 \<Rightarrow> u64 \<Rightarrow> 'w memory \<Rightarrow> bool \<times> 'w memory" where
  "span_allowed kind address chunk m =
     (if kind = data_write then has_permissions m address chunk perm_write
      else case has_permissions m address chunk perm_read of
             (True, m1) \<Rightarrow> (True, m1)
           | (False, m1) \<Rightarrow>
               (case has_permissions m1 address chunk perm_write of
                  (True, m2) \<Rightarrow> (True, m2)
                | (False, m2) \<Rightarrow> has_permissions m2 address chunk perm_execute))"

lemma unat_page_offset: "unat (a mod kPageSize) < 4096"
  by (simp add: unat_mod kPageSize_def)

function validate_memory_span :: "access_kind \<Rightarrow> u64 \<Rightarrow> nat \<Rightarrow> 'w ctx \<Rightarrow> execution_result option \<times> 'w ctx" where
  "validate_memory_span kind address remaining c =
     (if remaining = 0 then (None, c)
      else let chunk = min remaining (4096 - unat (address mod kPageSize))
           in case span_allowed kind address (word_of_nat chunk) (mem c) of
                (allowed, m1) \<Rightarrow>
                  (case is_mapped m1 address (word_of_nat chunk) of
                     (mapped, m2) \<Rightarrow>
                       if \<not> mapped \<or> \<not> allowed then (Some (memory_fault c address), c\<lparr>mem := m2\<rparr>)
                       else validate_memory_span kind (address + word_of_nat chunk) (remaining - chunk) (c\<lparr>mem := m2\<rparr>)))"
  by pat_completeness auto
termination
  by (relation "measure (\<lambda>(kind, address, remaining, c). remaining)") (simp_all add: unat_page_offset)

declare validate_memory_span.simps [simp del]

definition x87_ftw :: "cpu_state \<Rightarrow> u8" where
  "x87_ftw s = fold (\<lambda>phys ftw. if x87_tags s ! phys \<noteq> 3 then ftw OR push_bit phys 1 else ftw) [0..<8] 0"

text \<open>Writes whose result the source ignores, and fields written until one fails.\<close>

definition put_field :: "u64 \<Rightarrow> u64 \<Rightarrow> nat \<Rightarrow> 'w ctx \<Rightarrow> 'w ctx" where
  "put_field a v w c = snd (ctx_write c a v w)"

fun write_fields :: "u64 \<Rightarrow> (u64 \<times> u64 \<times> nat) list \<Rightarrow> 'w ctx \<Rightarrow> execution_result option \<times> 'w ctx" where
  "write_fields base [] c = (None, c)"
| "write_fields base ((off, v, w) # fs) c =
     (case ctx_write c (base + off) v w of
        (False, c1) \<Rightarrow> (Some (memory_fault c1 (base + off)), c1)
      | (True, c1) \<Rightarrow> write_fields base fs c1)"

fun put_fields :: "u64 \<Rightarrow> (u64 \<times> u64 \<times> nat) list \<Rightarrow> 'w ctx \<Rightarrow> 'w ctx" where
  "put_fields base [] c = c"
| "put_fields base ((off, v, w) # fs) c = put_fields base fs (put_field (base + off) v w c)"

text \<open>\<^verbatim>\<open>if (!ctx.memory.read(base + off, &v, w)) return memory_fault(ctx, base + off);\<close>\<close>

definition with_field :: "u64 \<Rightarrow> nat \<Rightarrow> (u64 \<Rightarrow> 'w handler) \<Rightarrow> 'w handler" where
  "with_field a w k c =
     (case ctx_read c a w of
        (None, c1) \<Rightarrow> (memory_fault c1 a, c1)
      | (Some v, c1) \<Rightarrow> k v c1)"

definition store_x87_env :: "u64 \<Rightarrow> 'w ctx \<Rightarrow> 'w ctx" where
  "store_x87_env base c =
     (let fcw = ucast (x87_control_word (state c)); fsw = ucast (x87_status_word (state c)); ftw = ucast (x87_ftw (state c))
      in put_fields base [(0, fcw, 2), (2, fsw, 2), (4, ftw, 2), (6, 0, 2), (8, 0, 8), (16, 0, 8), (24, 0, 2)] c)"

definition load_x87_env :: "u64 \<Rightarrow> 'w handler" where
  "load_x87_env base =
     with_field base 2 (\<lambda>fcw. with_field (base + 2) 2 (\<lambda>fsw. with_field (base + 4) 2 (\<lambda>ftw c.
       if fcw AND 0xE0C0 \<noteq> 0 then (memory_fault c base, c)
       else (no_stop, upd_state (\<lambda>s.
         fold (\<lambda>i s. s\<lparr>x87_tags := (x87_tags s)[x87_phys_index s (word_of_nat i) := if drop_bit i ftw AND 1 \<noteq> 0 then 0 else 3]\<rparr>) [0..<8]
           (set_x87_status_word (set_x87_control_word s (ucast fcw)) (ucast fsw))) c))))"

fun put_raw :: "u64 \<Rightarrow> u8 list \<Rightarrow> 'w ctx \<Rightarrow> 'w ctx" where
  "put_raw a [] c = c"
| "put_raw a (b # bs) c = put_raw (a + 1) bs (put_field a (ucast b) 1 c)"

text \<open>Byte reads into a zeroed buffer: with the result ignored, and until one fails.\<close>

fun get_raw :: "u64 \<Rightarrow> nat \<Rightarrow> 'w ctx \<Rightarrow> u8 list \<times> 'w ctx" where
  "get_raw a 0 c = ([], c)"
| "get_raw a (Suc n) c =
     (case ctx_read c a 1 of
        (r, c1) \<Rightarrow> (case get_raw (a + 1) n c1 of (bs, c2) \<Rightarrow> ((case r of None \<Rightarrow> 0 | Some b \<Rightarrow> ucast b) # bs, c2)))"

fun read_raw :: "u64 \<Rightarrow> nat \<Rightarrow> 'w ctx \<Rightarrow> (execution_result + u8 list) \<times> 'w ctx" where
  "read_raw a 0 c = (Inr [], c)"
| "read_raw a (Suc n) c =
     (case ctx_read c a 1 of
        (None, c1) \<Rightarrow> (Inl (memory_fault c1 a), c1)
      | (Some b, c1) \<Rightarrow>
          (case read_raw (a + 1) n c1 of
             (Inl r, c2) \<Rightarrow> (Inl r, c2)
           | (Inr bs, c2) \<Rightarrow> (Inr (ucast b # bs), c2)))"

definition write_fxsave_st :: "u64 \<Rightarrow> nat \<Rightarrow> float80 \<Rightarrow> 'w ctx \<Rightarrow> 'w ctx" where
  "write_fxsave_st base phys value = put_raw (base + 32 + word_of_nat (phys * 16)) (encode_ext80 value @ replicate 6 0)"

definition read_fxsave_st :: "u64 \<Rightarrow> nat \<Rightarrow> 'w ctx \<Rightarrow> float80 \<times> 'w ctx" where
  "read_fxsave_st base phys c =
     (case get_raw (base + 32 + word_of_nat (phys * 16)) 16 c of (raw, c1) \<Rightarrow> (decode_ext80 raw, c1))"

definition write_fpu_state :: "u64 \<Rightarrow> u64 \<Rightarrow> 'w ctx \<Rightarrow> 'w ctx" where
  "write_fpu_state base offset c =
     (let fcw = ucast (x87_control_word (state c)); fsw = ucast (x87_status_word (state c)); ftw = ucast (x87_ftw (state c))
      in put_fields (base + offset) [(0, fcw, 2), (2, fsw, 2), (4, ftw, 1), (5, 0, 1), (6, 0, 2), (8, 0, 8), (16, 0, 8)] c)"

definition fsave :: "nat \<Rightarrow> 'w handler" where
  "fsave env_size c =
     (let base = memory_address c
      in if base AND 0x7 \<noteq> 0 then (memory_fault c base, c)
         else let c1 = write_fpu_state base 0 c;
                  c2 = fold (\<lambda>i c. write_fxsave_st base i (x87_get (state c) (word_of_nat i)) c) [0..<8] c1
              in (no_stop, upd_state x87_reset c2))"

definition frstor :: "fp_env \<Rightarrow> nat \<Rightarrow> 'w handler" where
  "frstor fp env_size c0 =
     (let base = memory_address c0
      in if base AND 0x7 \<noteq> 0 then (memory_fault c0 base, c0)
         else with_field base 2 (\<lambda>fcw. with_field (base + 2) 2 (\<lambda>fsw. with_field (base + 4) 1 (\<lambda>ftw c.
           (no_stop, fold (\<lambda>i c.
              if drop_bit i ftw AND 1 \<noteq> 0
              then (case read_fxsave_st base i c of (v, c1) \<Rightarrow> upd_state (\<lambda>s. x87_set (f80_eq0 fp) s (word_of_nat i) v) c1)
              else upd_state (\<lambda>s. x87_mark_empty s (word_of_nat i)) c) [0..<8]
              (upd_state (\<lambda>s. set_x87_status_word (set_x87_control_word s (ucast fcw)) (ucast fsw)) c))))) c0)"

text \<open>The loops over the vector registers of FXSAVE and FXRSTOR.\<close>

fun save_xmm :: "u64 \<Rightarrow> nat list \<Rightarrow> 'w ctx \<Rightarrow> execution_result option \<times> 'w ctx" where
  "save_xmm base [] c = (None, c)"
| "save_xmm base (i # is) c =
     (case write_raw (base + 160 + word_of_nat (i * 16)) (le_bytes 16 (vectors (state c) ! i)) c of
        (Some r, c1) \<Rightarrow> (Some r, c1)
      | (None, c1) \<Rightarrow> save_xmm base is c1)"

fun restore_xmm :: "u64 \<Rightarrow> nat list \<Rightarrow> 'w handler" where
  "restore_xmm base [] c = (no_stop, c)"
| "restore_xmm base (i # is) c =
     (case read_raw (base + 160 + word_of_nat (i * 16)) 16 c of
        (Inl r, c1) \<Rightarrow> (r, c1)
      | (Inr raw, c1) \<Rightarrow> restore_xmm base is (upd_state (\<lambda>s. s\<lparr>vectors := (vectors s)[i := of_le_bytes raw]\<rparr>) c1))"

definition fxsave :: "bool \<Rightarrow> 'w handler" where
  "fxsave is64 c =
     (let base = memory_address c
      in if base AND 0xF \<noteq> 0 then (memory_fault c base, c)
         else case validate_memory_span data_write base 0x200 c of
                (Some r, c1) \<Rightarrow> (r, c1)
              | (None, c1) \<Rightarrow>
                  (let s = state c1
                   in case write_fields base
                        [(0, ucast (x87_control_word s), 2), (2, ucast (x87_status_word s), 2), (4, ucast (x87_ftw s), 1), (5, 0, 1),
                         (6, 0, 2), (8, 0, 8), (16, 0, 8), (24, ucast (mxcsr s), 4), (28, 0xFFFF, 4)] c1 of
                        (Some r, c2) \<Rightarrow> (r, c2)
                      | (None, c2) \<Rightarrow>
                          (case save_xmm base [0..<16] (fold (\<lambda>phys c. write_fxsave_st base phys (x87_stack (state c) ! phys) c) [0..<8] c2) of
                             (Some r, c3) \<Rightarrow> (r, c3)
                           | (None, c3) \<Rightarrow>
                               (case write_raw (base + 416) (replicate 96 0) c3 of
                                  (Some r, c4) \<Rightarrow> (r, c4)
                                | (None, c4) \<Rightarrow> (no_stop, c4)))))"

definition restore_st :: "fp_env \<Rightarrow> u64 \<Rightarrow> u64 \<Rightarrow> nat \<Rightarrow> 'w ctx \<Rightarrow> 'w ctx" where
  "restore_st fp base ftw phys c =
     (if drop_bit phys ftw AND 1 \<noteq> 0
      then case read_fxsave_st base phys c of
             (v, c1) \<Rightarrow> upd_state (\<lambda>s. s\<lparr>x87_stack := (x87_stack s)[phys := v],
               x87_tags := (x87_tags s)[phys := (if f80_eq0 fp v then 1 else 0)]\<rparr>) c1
      else upd_state (\<lambda>s. s\<lparr>x87_tags := (x87_tags s)[phys := 3]\<rparr>) c)"

definition fxrstor :: "fp_env \<Rightarrow> bool \<Rightarrow> 'w handler" where
  "fxrstor fp is64 c0 =
     (let base = memory_address c0
      in if base AND 0xF \<noteq> 0 then (memory_fault c0 base, c0)
         else case validate_memory_span data_read base 0x200 c0 of
                (Some r, c1) \<Rightarrow> (r, c1)
              | (None, c1) \<Rightarrow>
                  with_field base 2 (\<lambda>fcw. with_field (base + 2) 2 (\<lambda>fsw. with_field (base + 4) 1 (\<lambda>ftw. with_field (base + 24) 4 (\<lambda>mx c.
                    restore_xmm base [0..<16]
                      (fold (restore_st fp base ftw) [0..<8]
                        (upd_state (\<lambda>s. (set_x87_status_word (set_x87_control_word s (ucast fcw AND NOT 0xE0C0)) (ucast fsw))
                           \<lparr>mxcsr := ucast mx AND 0x0000FFFF\<rparr>) c)))))) c1)"

section \<open>Functions of one and two numbers\<close>

text \<open>\<^verbatim>\<open>if (tested != 0 && result == 0) { raise underflow and precision }\<close> and \<^verbatim>\<open>if (exceptions != 0) { raise them }\<close>.\<close>

definition x87_checked :: "fp_env \<Rightarrow> float80 \<Rightarrow> bool \<Rightarrow> u16 \<Rightarrow> 'w handler \<Rightarrow> 'w handler" where
  "x87_checked fp tested vanished exceptions k =
     (if \<not> f80_eq0 fp tested \<and> vanished
      then x87_raise (kX87ExceptionUnderflow OR kX87ExceptionPrecision) (x87_raise_if exceptions k)
      else x87_raise_if exceptions k)"

definition x87_function :: "fp_env \<Rightarrow> (float80 \<Rightarrow> float80) \<Rightarrow> 'w handler \<Rightarrow> 'w handler" where
  "x87_function fp fn k c =
     (if x87_is_empty (state c) 0 then x87_stack_underflow c
      else let value = x87_get (state c) 0; result = fn value
           in x87_checked fp value (f80_eq0 fp result) (x87_classify_result fp result value (f80_of_int fp 0))
                (\<lambda>c1. k (upd_state (\<lambda>s. x87_set (f80_eq0 fp) s 0 result) c1)) c)"

definition x87_set1_pop :: "fp_env \<Rightarrow> float80 \<Rightarrow> 'w handler" where
  "x87_set1_pop fp v c = x87_pop_or_underflow (upd_state (\<lambda>s. x87_set (f80_eq0 fp) s 1 v) c)"

section \<open>Handlers of \<^verbatim>\<open>x87_arithmetic.cpp\<close>\<close>

definition handle_code_FADD_M32FP :: "fp_env \<Rightarrow> 'w handler" where
  "handle_code_FADD_M32FP fp = x87_binary_mem_st0 fp 4 (extF80_add fp)"

definition handle_code_FSUBR_M32FP :: "fp_env \<Rightarrow> 'w handler" where
  "handle_code_FSUBR_M32FP fp = x87_binary_mem_st0 fp 4 (\<lambda>a b. extF80_sub fp b a)"

definition handle_code_FDIVR_M32FP :: "fp_env \<Rightarrow> 'w handler" where
  "handle_code_FDIVR_M32FP fp = x87_binary_mem_st0_with_status fp 4 (x87_div_pair fp True)"

definition handle_code_FMUL_M32FP :: "fp_env \<Rightarrow> 'w handler" where
  "handle_code_FMUL_M32FP fp = x87_binary_mem_st0 fp 4 (extF80_mul fp)"

definition handle_code_FSUB_M32FP :: "fp_env \<Rightarrow> 'w handler" where
  "handle_code_FSUB_M32FP fp = x87_binary_mem_st0 fp 4 (extF80_sub fp)"

definition handle_code_FDIV_M32FP :: "fp_env \<Rightarrow> 'w handler" where
  "handle_code_FDIV_M32FP fp = x87_binary_mem_st0_with_status fp 4 (x87_div_pair fp False)"

definition handle_code_FADD_ST0_STI :: "fp_env \<Rightarrow> 'w handler" where
  "handle_code_FADD_ST0_STI fp = x87_binary_st_regs fp 0 1 (extF80_add fp)"

definition handle_code_FMUL_ST0_STI :: "fp_env \<Rightarrow> 'w handler" where
  "handle_code_FMUL_ST0_STI fp = x87_binary_st_regs fp 0 1 (extF80_mul fp)"

definition handle_code_FSUB_ST0_STI :: "fp_env \<Rightarrow> 'w handler" where
  "handle_code_FSUB_ST0_STI fp = x87_binary_st_regs fp 0 1 (extF80_sub fp)"

definition handle_code_FSUBR_ST0_STI :: "fp_env \<Rightarrow> 'w handler" where
  "handle_code_FSUBR_ST0_STI fp = x87_binary_st_regs fp 0 1 (\<lambda>a b. extF80_sub fp b a)"

definition handle_code_FDIV_ST0_STI :: "fp_env \<Rightarrow> 'w handler" where
  "handle_code_FDIV_ST0_STI fp = x87_binary_st_regs_with_status fp 0 1 (x87_div_pair fp False)"

definition handle_code_FDIVR_ST0_STI :: "fp_env \<Rightarrow> 'w handler" where
  "handle_code_FDIVR_ST0_STI fp = x87_binary_st_regs_with_status fp 0 1 (x87_div_pair fp True)"

definition handle_code_FADD_M64FP :: "fp_env \<Rightarrow> 'w handler" where
  "handle_code_FADD_M64FP fp = x87_binary_mem_st0 fp 8 (extF80_add fp)"

definition handle_code_FSUBR_M64FP :: "fp_env \<Rightarrow> 'w handler" where
  "handle_code_FSUBR_M64FP fp = x87_binary_mem_st0 fp 8 (\<lambda>a b. extF80_sub fp b a)"

definition handle_code_FDIVR_M64FP :: "fp_env \<Rightarrow> 'w handler" where
  "handle_code_FDIVR_M64FP fp = x87_binary_mem_st0_with_status fp 8 (x87_div_pair fp True)"

definition handle_code_FMUL_M64FP :: "fp_env \<Rightarrow> 'w handler" where
  "handle_code_FMUL_M64FP fp = x87_binary_mem_st0 fp 8 (extF80_mul fp)"

definition handle_code_FSUB_M64FP :: "fp_env \<Rightarrow> 'w handler" where
  "handle_code_FSUB_M64FP fp = x87_binary_mem_st0 fp 8 (extF80_sub fp)"

definition handle_code_FDIV_M64FP :: "fp_env \<Rightarrow> 'w handler" where
  "handle_code_FDIV_M64FP fp = x87_binary_mem_st0_with_status fp 8 (x87_div_pair fp False)"

definition handle_code_FADD_STI_ST0 :: "fp_env \<Rightarrow> 'w handler" where
  "handle_code_FADD_STI_ST0 fp = x87_binary_st_regs fp 0 1 (extF80_add fp)"

definition handle_code_FMUL_STI_ST0 :: "fp_env \<Rightarrow> 'w handler" where
  "handle_code_FMUL_STI_ST0 fp = x87_binary_st_regs fp 0 1 (extF80_mul fp)"

definition handle_code_FSUBR_STI_ST0 :: "fp_env \<Rightarrow> 'w handler" where
  "handle_code_FSUBR_STI_ST0 fp = x87_binary_st_regs fp 0 1 (\<lambda>a b. extF80_sub fp b a)"

definition handle_code_FSUB_STI_ST0 :: "fp_env \<Rightarrow> 'w handler" where
  "handle_code_FSUB_STI_ST0 fp = x87_binary_st_regs fp 0 1 (extF80_sub fp)"

definition handle_code_FDIVR_STI_ST0 :: "fp_env \<Rightarrow> 'w handler" where
  "handle_code_FDIVR_STI_ST0 fp = x87_binary_st_regs_with_status fp 0 1 (x87_div_pair fp True)"

definition handle_code_FDIV_STI_ST0 :: "fp_env \<Rightarrow> 'w handler" where
  "handle_code_FDIV_STI_ST0 fp = x87_binary_st_regs_with_status fp 0 1 (x87_div_pair fp False)"

definition handle_code_FADDP_STI_ST0 :: "fp_env \<Rightarrow> 'w handler" where
  "handle_code_FADDP_STI_ST0 fp = then_pop (x87_binary_st_regs fp 0 1 (extF80_add fp))"

definition handle_code_FMULP_STI_ST0 :: "fp_env \<Rightarrow> 'w handler" where
  "handle_code_FMULP_STI_ST0 fp = then_pop (x87_binary_st_regs fp 0 1 (extF80_mul fp))"

definition handle_code_FSUBRP_STI_ST0 :: "fp_env \<Rightarrow> 'w handler" where
  "handle_code_FSUBRP_STI_ST0 fp = then_pop (x87_binary_st_regs fp 0 1 (\<lambda>a b. extF80_sub fp b a))"

definition handle_code_FSUBP_STI_ST0 :: "fp_env \<Rightarrow> 'w handler" where
  "handle_code_FSUBP_STI_ST0 fp = then_pop (x87_binary_st_regs fp 0 1 (extF80_sub fp))"

definition handle_code_FDIVRP_STI_ST0 :: "fp_env \<Rightarrow> 'w handler" where
  "handle_code_FDIVRP_STI_ST0 fp = then_pop (x87_binary_st_regs_with_status fp 0 1 (x87_div_pair fp True))"

definition handle_code_FDIVP_STI_ST0 :: "fp_env \<Rightarrow> 'w handler" where
  "handle_code_FDIVP_STI_ST0 fp = then_pop (x87_binary_st_regs_with_status fp 0 1 (x87_div_pair fp False))"

definition handle_code_FSTP_M32FP :: "fp_env \<Rightarrow> 'w handler" where
  "handle_code_FSTP_M32FP fp = x87_store_mem fp 4 True"

definition handle_code_FSTP_M64FP :: "fp_env \<Rightarrow> 'w handler" where
  "handle_code_FSTP_M64FP fp = x87_store_mem fp 8 True"

definition handle_code_FIADD_M16INT :: "fp_env \<Rightarrow> 'w handler" where
  "handle_code_FIADD_M16INT fp = x87_binary_mem_int_st0 fp 2 (extF80_add fp)"

definition handle_code_FIADD_M32INT :: "fp_env \<Rightarrow> 'w handler" where
  "handle_code_FIADD_M32INT fp = x87_binary_mem_int_st0 fp 4 (extF80_add fp)"

definition handle_code_FIMUL_M16INT :: "fp_env \<Rightarrow> 'w handler" where
  "handle_code_FIMUL_M16INT fp = x87_binary_mem_int_st0 fp 2 (extF80_mul fp)"

definition handle_code_FIMUL_M32INT :: "fp_env \<Rightarrow> 'w handler" where
  "handle_code_FIMUL_M32INT fp = x87_binary_mem_int_st0 fp 4 (extF80_mul fp)"

definition handle_code_FISUB_M16INT :: "fp_env \<Rightarrow> 'w handler" where
  "handle_code_FISUB_M16INT fp = x87_binary_mem_int_st0 fp 2 (extF80_sub fp)"

definition handle_code_FISUB_M32INT :: "fp_env \<Rightarrow> 'w handler" where
  "handle_code_FISUB_M32INT fp = x87_binary_mem_int_st0 fp 4 (extF80_sub fp)"

definition handle_code_FISUBR_M16INT :: "fp_env \<Rightarrow> 'w handler" where
  "handle_code_FISUBR_M16INT fp = x87_binary_mem_int_st0 fp 2 (\<lambda>a b. extF80_sub fp b a)"

definition handle_code_FISUBR_M32INT :: "fp_env \<Rightarrow> 'w handler" where
  "handle_code_FISUBR_M32INT fp = x87_binary_mem_int_st0 fp 4 (\<lambda>a b. extF80_sub fp b a)"

definition handle_code_FIDIV_M16INT :: "fp_env \<Rightarrow> 'w handler" where
  "handle_code_FIDIV_M16INT fp = x87_binary_mem_int_st0_with_status fp 2 (x87_div_pair fp False)"

definition handle_code_FIDIV_M32INT :: "fp_env \<Rightarrow> 'w handler" where
  "handle_code_FIDIV_M32INT fp = x87_binary_mem_int_st0_with_status fp 4 (x87_div_pair fp False)"

definition handle_code_FIDIVR_M16INT :: "fp_env \<Rightarrow> 'w handler" where
  "handle_code_FIDIVR_M16INT fp = x87_binary_mem_int_st0_with_status fp 2 (x87_div_pair fp True)"

definition handle_code_FIDIVR_M32INT :: "fp_env \<Rightarrow> 'w handler" where
  "handle_code_FIDIVR_M32INT fp = x87_binary_mem_int_st0_with_status fp 4 (x87_div_pair fp True)"

definition handle_code_FPREM :: "fp_env \<Rightarrow> 'w handler" where
  "handle_code_FPREM fp = x87_binary_st_regs fp 0 1 (f80_fmod fp)"

definition handle_code_FPREM1 :: "fp_env \<Rightarrow> 'w handler" where
  "handle_code_FPREM1 fp = x87_binary_st_regs fp 0 1 (f80_remainder fp)"

section \<open>Handlers of \<^verbatim>\<open>x87_compare.cpp\<close>\<close>

definition handle_code_FTST :: "fp_env \<Rightarrow> 'w handler" where
  "handle_code_FTST fp = (\<lambda>c.
     if x87_is_empty (state c) 0 then x87_stack_underflow (upd_state (x87_set_cmp_flags (- 2)) c)
     else case x87_cmp fp (x87_get (state c) 0) (f80_of_int fp 0) False 0 of
            (rel, e) \<Rightarrow> let c1 = upd_state (x87_set_cmp_flags rel) c in if e \<noteq> 0 then x87_exception e c1 else (no_stop, c1))"

definition handle_code_FCOM_M32FP :: "fp_env \<Rightarrow> 'w handler" where
  "handle_code_FCOM_M32FP fp = x87_compare_mem fp 4 False False False"

definition handle_code_FCOMP_M32FP :: "fp_env \<Rightarrow> 'w handler" where
  "handle_code_FCOMP_M32FP fp = x87_compare_mem fp 4 True False False"

definition handle_code_FCOM_ST0_STI :: "fp_env \<Rightarrow> 'w handler" where
  "handle_code_FCOM_ST0_STI fp = x87_compare_st0_sti fp 1 False False False"

definition handle_code_FCOMP_ST0_STI :: "fp_env \<Rightarrow> 'w handler" where
  "handle_code_FCOMP_ST0_STI fp = x87_compare_st0_sti fp 1 False True False"

definition handle_code_FCOMPP :: "fp_env \<Rightarrow> 'w handler" where
  "handle_code_FCOMPP fp = x87_compare_regs fp 0 1 True True False False"

definition handle_code_FUCOMPP :: "fp_env \<Rightarrow> 'w handler" where
  "handle_code_FUCOMPP fp = x87_compare_regs fp 0 1 True True False True"

definition handle_code_FCOMI_ST0_STI :: "fp_env \<Rightarrow> 'w handler" where
  "handle_code_FCOMI_ST0_STI fp = x87_compare_st0_sti fp 1 True False False"

definition handle_code_FUCOMI_ST0_STI :: "fp_env \<Rightarrow> 'w handler" where
  "handle_code_FUCOMI_ST0_STI fp = x87_compare_st0_sti fp 1 True False True"

definition handle_code_FCOMIP_ST0_STI :: "fp_env \<Rightarrow> 'w handler" where
  "handle_code_FCOMIP_ST0_STI fp = x87_compare_st0_sti fp 1 True True False"

definition handle_code_FUCOMIP_ST0_STI :: "fp_env \<Rightarrow> 'w handler" where
  "handle_code_FUCOMIP_ST0_STI fp = x87_compare_st0_sti fp 1 True True True"

definition handle_code_FCOM_M64FP :: "fp_env \<Rightarrow> 'w handler" where
  "handle_code_FCOM_M64FP fp = x87_compare_mem fp 8 False False False"

definition handle_code_FCOMP_M64FP :: "fp_env \<Rightarrow> 'w handler" where
  "handle_code_FCOMP_M64FP fp = x87_compare_mem fp 8 True False False"

definition handle_code_FUCOM_ST0_STI :: "fp_env \<Rightarrow> 'w handler" where
  "handle_code_FUCOM_ST0_STI fp = x87_compare_st0_sti fp 1 False False True"

definition handle_code_FUCOMP_ST0_STI :: "fp_env \<Rightarrow> 'w handler" where
  "handle_code_FUCOMP_ST0_STI fp = x87_compare_st0_sti fp 1 False True True"

definition handle_code_FCOM_ST0_STI_DCD0 :: "fp_env \<Rightarrow> 'w handler" where
  "handle_code_FCOM_ST0_STI_DCD0 fp = handle_code_FCOM_ST0_STI fp"

definition handle_code_FCOMP_ST0_STI_DCD8 :: "fp_env \<Rightarrow> 'w handler" where
  "handle_code_FCOMP_ST0_STI_DCD8 fp = handle_code_FCOMP_ST0_STI fp"

definition handle_code_FCOMP_ST0_STI_DED0 :: "fp_env \<Rightarrow> 'w handler" where
  "handle_code_FCOMP_ST0_STI_DED0 fp = handle_code_FCOMP_ST0_STI fp"

definition handle_code_FCMOVB_ST0_STI :: "fp_env \<Rightarrow> 'w handler" where
  "handle_code_FCMOVB_ST0_STI fp = (\<lambda>c. x87_move_if fp (rflags (state c) AND kFlagCF \<noteq> 0) c)"

definition handle_code_FCMOVBE_ST0_STI :: "fp_env \<Rightarrow> 'w handler" where
  "handle_code_FCMOVBE_ST0_STI fp = (\<lambda>c. x87_move_if fp (rflags (state c) AND kFlagCF \<noteq> 0 \<or> rflags (state c) AND kFlagZF \<noteq> 0) c)"

definition handle_code_FCMOVE_ST0_STI :: "fp_env \<Rightarrow> 'w handler" where
  "handle_code_FCMOVE_ST0_STI fp = (\<lambda>c. x87_move_if fp (rflags (state c) AND kFlagZF \<noteq> 0) c)"

definition handle_code_FCMOVNB_ST0_STI :: "fp_env \<Rightarrow> 'w handler" where
  "handle_code_FCMOVNB_ST0_STI fp = (\<lambda>c. x87_move_if fp (rflags (state c) AND kFlagCF = 0) c)"

definition handle_code_FCMOVNBE_ST0_STI :: "fp_env \<Rightarrow> 'w handler" where
  "handle_code_FCMOVNBE_ST0_STI fp = (\<lambda>c. x87_move_if fp (rflags (state c) AND kFlagCF = 0 \<and> rflags (state c) AND kFlagZF = 0) c)"

definition handle_code_FCMOVNE_ST0_STI :: "fp_env \<Rightarrow> 'w handler" where
  "handle_code_FCMOVNE_ST0_STI fp = (\<lambda>c. x87_move_if fp (rflags (state c) AND kFlagZF = 0) c)"

definition handle_code_FCMOVNU_ST0_STI :: "fp_env \<Rightarrow> 'w handler" where
  "handle_code_FCMOVNU_ST0_STI fp = (\<lambda>c. x87_move_if fp (rflags (state c) AND kFlagPF = 0) c)"

definition handle_code_FCMOVU_ST0_STI :: "fp_env \<Rightarrow> 'w handler" where
  "handle_code_FCMOVU_ST0_STI fp = (\<lambda>c. x87_move_if fp (rflags (state c) AND kFlagPF \<noteq> 0) c)"

section \<open>Handlers of \<^verbatim>\<open>x87_special.cpp\<close>\<close>

definition handle_code_FNOP :: "'w handler" where
  "handle_code_FNOP = (\<lambda>c. (no_stop, c))"

definition handle_code_FDECSTP :: "'w handler" where
  "handle_code_FDECSTP = (\<lambda>c. (no_stop, upd_state (\<lambda>s. set_x87_top s ((x87_top s + 7) AND 7)) c))"

definition handle_code_FINCSTP :: "'w handler" where
  "handle_code_FINCSTP = (\<lambda>c. (no_stop, upd_state (\<lambda>s. set_x87_top s ((x87_top s + 1) AND 7)) c))"

definition handle_code_FXAM :: "fp_env \<Rightarrow> 'w handler" where
  "handle_code_FXAM fp = (\<lambda>c.
     if x87_is_empty (state c) 0 then (no_stop, upd_state (x87_set_fxam_flags fp (f80_of_int fp 0) True) c)
     else (no_stop, upd_state (\<lambda>s. x87_set_fxam_flags fp (x87_get s 0) False s) c))"

definition handle_code_FBLD_M80BCD :: "fp_env \<Rightarrow> 'w handler" where
  "handle_code_FBLD_M80BCD fp = x87_load_bcd fp"

definition handle_code_FBSTP_M80BCD :: "fp_env \<Rightarrow> 'w handler" where
  "handle_code_FBSTP_M80BCD fp = then_pop (x87_store_bcd fp)"

definition handle_code_FSTP_M80FP :: "'w handler" where
  "handle_code_FSTP_M80FP = x87_fstp_m80fp"

definition handle_code_FXCH_ST0_STI :: "fp_env \<Rightarrow> 'w handler" where
  "handle_code_FXCH_ST0_STI fp = x87_fxch fp"

definition handle_code_FXCH_ST0_STI_DDC8 :: "fp_env \<Rightarrow> 'w handler" where
  "handle_code_FXCH_ST0_STI_DDC8 fp = x87_fxch fp"

definition handle_code_FXCH_ST0_STI_DFC8 :: "fp_env \<Rightarrow> 'w handler" where
  "handle_code_FXCH_ST0_STI_DFC8 fp = x87_fxch fp"

definition handle_code_FSTP_STI :: "fp_env \<Rightarrow> 'w handler" where
  "handle_code_FSTP_STI fp = x87_store_st0_to_sti fp True"

definition handle_code_FSTP_STI_DFD0 :: "fp_env \<Rightarrow> 'w handler" where
  "handle_code_FSTP_STI_DFD0 fp = x87_store_st0_to_sti fp True"

definition handle_code_FSTP_STI_DFD8 :: "fp_env \<Rightarrow> 'w handler" where
  "handle_code_FSTP_STI_DFD8 fp = x87_store_st0_to_sti fp True"

definition handle_code_FSTPNCE_STI :: "fp_env \<Rightarrow> 'w handler" where
  "handle_code_FSTPNCE_STI fp = x87_store_st0_to_sti fp True"

definition handle_code_FFREE_STI :: "fp_env \<Rightarrow> 'w handler" where
  "handle_code_FFREE_STI fp = x87_free_sti fp False"

definition handle_code_FFREEP_STI :: "fp_env \<Rightarrow> 'w handler" where
  "handle_code_FFREEP_STI fp = x87_free_sti fp True"

section \<open>Handlers of \<^verbatim>\<open>mmx_x87.cpp\<close>\<close>

definition handle_code_MOVD_MM_RM32 :: "'w handler" where
  "handle_code_MOVD_MM_RM32 = mmx_move 0 1 4"

definition handle_code_MOVQ_MM_RM64 :: "'w handler" where
  "handle_code_MOVQ_MM_RM64 = mmx_move 0 1 8"

definition handle_code_MOVD_RM32_MM :: "'w handler" where
  "handle_code_MOVD_RM32_MM = mmx_move 0 1 4"

definition handle_code_MOVQ_RM64_MM :: "'w handler" where
  "handle_code_MOVQ_RM64_MM = mmx_move 0 1 8"

definition handle_code_MOVQ_MM_MMM64 :: "'w handler" where
  "handle_code_MOVQ_MM_MMM64 = mmx_move 0 1 8"

definition handle_code_MOVQ_MMM64_MM :: "'w handler" where
  "handle_code_MOVQ_MMM64_MM = mmx_move 0 1 8"

definition handle_code_FNINIT :: "'w handler" where
  "handle_code_FNINIT = (\<lambda>c. (no_stop, upd_state x87_reset c))"

definition handle_code_FINIT :: "'w handler" where
  "handle_code_FINIT = (\<lambda>c. (no_stop, upd_state x87_reset c))"

definition handle_code_EMMS :: "'w handler" where
  "handle_code_EMMS = (\<lambda>c. (no_stop, upd_state emms c))"

definition handle_code_FEMMS :: "'w handler" where
  "handle_code_FEMMS = (\<lambda>c. (no_stop, upd_state emms c))"

definition handle_code_FNCLEX :: "'w handler" where
  "handle_code_FNCLEX = (\<lambda>c. (no_stop, upd_state (\<lambda>s. s\<lparr>x87_status_word := x87_status_word s AND NOT 0x00BF\<rparr>) c))"

definition handle_code_FLD1 :: "fp_env \<Rightarrow> 'w handler" where
  "handle_code_FLD1 fp = x87_push_or x87_stack_overflow fp (f80_of_int fp 1)"

definition handle_code_FLDL2T :: "fp_env \<Rightarrow> 'w handler" where
  "handle_code_FLDL2T fp = x87_push_or x87_stack_overflow fp (f80_of_double fp 0x400A934F0979A371)"

definition handle_code_FLDL2E :: "fp_env \<Rightarrow> 'w handler" where
  "handle_code_FLDL2E fp = x87_push_or x87_stack_overflow fp (f80_of_double fp 0x3FF71547652B82FE)"

definition handle_code_FLDPI :: "fp_env \<Rightarrow> 'w handler" where
  "handle_code_FLDPI fp = x87_push_or x87_stack_overflow fp (f80_of_double fp 0x400921FB54442D18)"

definition handle_code_FLDLG2 :: "fp_env \<Rightarrow> 'w handler" where
  "handle_code_FLDLG2 fp = x87_push_or x87_stack_overflow fp (f80_of_double fp 0x3FD34413509F79FF)"

definition handle_code_FLDLN2 :: "fp_env \<Rightarrow> 'w handler" where
  "handle_code_FLDLN2 fp = x87_push_or x87_stack_overflow fp (f80_of_double fp 0x3FE62E42FEFA39EF)"

definition handle_code_FLDZ :: "fp_env \<Rightarrow> 'w handler" where
  "handle_code_FLDZ fp = x87_push_or x87_stack_overflow fp (f80_of_int fp 0)"

definition handle_code_FCHS :: "fp_env \<Rightarrow> 'w handler" where
  "handle_code_FCHS fp = x87_unary_st0 fp f80_neg"

definition handle_code_FABS :: "fp_env \<Rightarrow> 'w handler" where
  "handle_code_FABS fp = x87_unary_st0 fp f80_abs"

definition handle_code_FSQRT :: "fp_env \<Rightarrow> 'w handler" where
  "handle_code_FSQRT fp = (\<lambda>c.
     if x87_is_empty (state c) 0 then x87_stack_underflow c
     else let value = x87_get (state c) 0; result = f80_sqrt fp value
          in if extF80_lt fp value (f80_of_int fp 0) then x87_exception kX87ExceptionInvalid c
             else x87_checked fp value (f80_eq0 fp result) (x87_classify_result fp result value (f80_of_int fp 0))
                    (x87_precision_if_changed fp value result (x87_put fp 0 result)) c)"

definition handle_code_FRNDINT :: "fp_env \<Rightarrow> 'w handler" where
  "handle_code_FRNDINT fp = (\<lambda>c.
     if x87_is_empty (state c) 0 then x87_stack_underflow c
     else let value = x87_get (state c) 0; rounded = x87_round_to_control fp (state c) value
          in if extF80_eq fp rounded value then x87_put fp 0 rounded c else x87_raise kX87ExceptionPrecision (x87_put fp 0 rounded) c)"

definition handle_code_FSIN :: "fp_env \<Rightarrow> 'w handler" where
  "handle_code_FSIN fp = x87_function fp (f80_sin fp) (\<lambda>c. (no_stop, c))"

definition handle_code_FCOS :: "fp_env \<Rightarrow> 'w handler" where
  "handle_code_FCOS fp = x87_function fp (f80_cos fp) (\<lambda>c. (no_stop, c))"

definition handle_code_FSINCOS :: "fp_env \<Rightarrow> 'w handler" where
  "handle_code_FSINCOS fp = (\<lambda>c.
     if x87_is_empty (state c) 0 then x87_stack_underflow c
     else let x = x87_get (state c) 0; cosine = f80_cos fp x; sine = f80_sin fp x
          in x87_checked fp x (f80_eq0 fp cosine \<or> f80_eq0 fp sine)
               (x87_classify_result fp cosine x (f80_of_int fp 0) OR x87_classify_result fp sine x (f80_of_int fp 0))
               (\<lambda>c1. x87_push_or x87_stack_overflow fp sine (upd_state (\<lambda>s. x87_set (f80_eq0 fp) s 0 cosine) c1)) c)"

definition handle_code_FPTAN :: "fp_env \<Rightarrow> 'w handler" where
  "handle_code_FPTAN fp = x87_function fp (f80_tan fp) (x87_push_or x87_stack_overflow fp (f80_of_int fp 1))"

definition handle_code_FPATAN :: "fp_env \<Rightarrow> 'w handler" where
  "handle_code_FPATAN fp = (\<lambda>c.
     if x87_is_empty (state c) 0 \<or> x87_is_empty (state c) 1 then x87_stack_underflow c
     else x87_set1_pop fp (f80_atan2 fp (x87_get (state c) 1) (x87_get (state c) 0)) c)"

definition handle_code_F2XM1 :: "fp_env \<Rightarrow> 'w handler" where
  "handle_code_F2XM1 fp = (\<lambda>c.
     if x87_is_empty (state c) 0 then x87_stack_underflow c
     else let value = x87_get (state c) 0;
              result = extF80_sub fp (f80_pow fp (f80_of_int fp 2) value) (f80_of_int fp 1)
          in if extF80_lt fp value (f80_of_int fp (- 1)) \<or> extF80_lt fp (f80_of_int fp 1) value then x87_exception kX87ExceptionInvalid c
             else x87_checked fp value (f80_eq0 fp result) (x87_classify_result fp result value (f80_of_int fp 0)) (x87_put fp 0 result) c)"

definition handle_code_FYL2X :: "fp_env \<Rightarrow> 'w handler" where
  "handle_code_FYL2X fp = (\<lambda>c.
     if x87_is_empty (state c) 0 \<or> x87_is_empty (state c) 1 then x87_stack_underflow c
     else let y = x87_get (state c) 1; x = x87_get (state c) 0; result = extF80_mul fp y (f80_log2 fp x)
          in if extF80_le fp x (f80_of_int fp 0) then x87_exception kX87ExceptionInvalid c
             else x87_checked fp y (f80_eq0 fp result) (x87_classify_result fp result y x) (x87_set1_pop fp result) c)"

definition handle_code_FYL2XP1 :: "fp_env \<Rightarrow> 'w handler" where
  "handle_code_FYL2XP1 fp = (\<lambda>c.
     if x87_is_empty (state c) 0 \<or> x87_is_empty (state c) 1 then x87_stack_underflow c
     else let y = x87_get (state c) 1; x = x87_get (state c) 0; x1 = extF80_add fp x (f80_of_int fp 1);
              result = extF80_mul fp y (f80_log2 fp x1)
          in if extF80_le fp x (f80_of_int fp (- 1)) then x87_exception kX87ExceptionInvalid c
             else x87_checked fp y (f80_eq0 fp result) (x87_classify_result fp result y x1) (x87_set1_pop fp result) c)"

definition handle_code_FSCALE :: "fp_env \<Rightarrow> 'w handler" where
  "handle_code_FSCALE fp = (\<lambda>c.
     if x87_is_empty (state c) 0 \<or> x87_is_empty (state c) 1 then x87_stack_underflow c
     else let a = x87_get (state c) 0; b = x87_get (state c) 1; result = f80_ldexp fp a (f80_to_int fp (f80_trunc fp b))
          in x87_checked fp a (f80_eq0 fp result) (x87_classify_result fp result a b) (x87_put fp 0 result) c)"

definition handle_code_FLDENV_M14BYTE :: "'w handler" where
  "handle_code_FLDENV_M14BYTE = (\<lambda>c. load_x87_env (memory_address c) c)"

definition handle_code_FLDENV_M28BYTE :: "'w handler" where
  "handle_code_FLDENV_M28BYTE = (\<lambda>c. load_x87_env (memory_address c) c)"

definition handle_code_FLD_M32FP :: "fp_env \<Rightarrow> 'w handler" where
  "handle_code_FLD_M32FP fp = x87_push_from_memory fp 4"

definition handle_code_FLD_M64FP :: "fp_env \<Rightarrow> 'w handler" where
  "handle_code_FLD_M64FP fp = x87_push_from_memory fp 8"

definition handle_code_FLD_M80FP :: "fp_env \<Rightarrow> 'w handler" where
  "handle_code_FLD_M80FP fp = x87_push_from_memory fp 10"

definition handle_code_FLD_STI :: "fp_env \<Rightarrow> 'w handler" where
  "handle_code_FLD_STI fp = (\<lambda>c.
     if op_kind (instr c) 0 \<noteq> REGISTER \<or> op_kind (instr c) 1 \<noteq> REGISTER then operand_fault c
     else x87_push_or operand_fault fp (x87_get (state c) (x87_st_index fp (op_register (instr c) 0))) c)"

definition handle_code_FNSTENV_M14BYTE :: "'w handler" where
  "handle_code_FNSTENV_M14BYTE = (\<lambda>c. (no_stop, store_x87_env (memory_address c) c))"

definition handle_code_FSTENV_M14BYTE :: "'w handler" where
  "handle_code_FSTENV_M14BYTE = handle_code_FNSTENV_M14BYTE"

definition handle_code_FNSTENV_M28BYTE :: "'w handler" where
  "handle_code_FNSTENV_M28BYTE = (\<lambda>c. (no_stop, store_x87_env (memory_address c) c))"

definition handle_code_FSTENV_M28BYTE :: "'w handler" where
  "handle_code_FSTENV_M28BYTE = handle_code_FNSTENV_M28BYTE"

definition handle_code_FLDCW_M2BYTE :: "'w handler" where
  "handle_code_FLDCW_M2BYTE = (\<lambda>c.
     case read_operand_checked c 0 2 of
       (Inl _, c1) \<Rightarrow> operand_fault c1
     | (Inr value, c1) \<Rightarrow>
         if value AND 0xE0C0 \<noteq> 0 then operand_fault c1
         else (no_stop, upd_state (\<lambda>s. set_x87_control_word s (ucast value)) c1))"

definition handle_code_FNSTCW_M2BYTE :: "'w handler" where
  "handle_code_FNSTCW_M2BYTE = (\<lambda>c. write_or_fault (ucast (x87_control_word (state c))) 2 c)"

definition handle_code_FST_M32FP :: "fp_env \<Rightarrow> 'w handler" where
  "handle_code_FST_M32FP fp = x87_store_to_memory fp 4 False"

definition handle_code_FST_M64FP :: "fp_env \<Rightarrow> 'w handler" where
  "handle_code_FST_M64FP fp = x87_store_to_memory fp 8 False"

definition handle_code_FST_STI :: "fp_env \<Rightarrow> 'w handler" where
  "handle_code_FST_STI fp = x87_reg_move fp 0 1 False"

definition handle_code_FNSTSW_M2BYTE :: "'w handler" where
  "handle_code_FNSTSW_M2BYTE = (\<lambda>c. write_or_fault (ucast (x87_status_word (state c))) 2 c)"

definition handle_code_FSTSW_M2BYTE :: "'w handler" where
  "handle_code_FSTSW_M2BYTE = handle_code_FNSTSW_M2BYTE"

definition handle_code_FNSTSW_AX :: "'w handler" where
  "handle_code_FNSTSW_AX = (\<lambda>c. (no_stop, upd_state (\<lambda>s. write_register s AX (ucast (x87_status_word s)) 2) c))"

definition handle_code_FSTSW_AX :: "'w handler" where
  "handle_code_FSTSW_AX = handle_code_FNSTSW_AX"

definition handle_code_FXSAVE_M512BYTE :: "'w handler" where
  "handle_code_FXSAVE_M512BYTE = fxsave False"

definition handle_code_FXSAVE64_M512BYTE :: "'w handler" where
  "handle_code_FXSAVE64_M512BYTE = fxsave True"

definition handle_code_FXRSTOR_M512BYTE :: "fp_env \<Rightarrow> 'w handler" where
  "handle_code_FXRSTOR_M512BYTE fp = fxrstor fp False"

definition handle_code_FXRSTOR64_M512BYTE :: "fp_env \<Rightarrow> 'w handler" where
  "handle_code_FXRSTOR64_M512BYTE fp = fxrstor fp True"

definition handle_code_FSAVE_M94BYTE :: "'w handler" where
  "handle_code_FSAVE_M94BYTE = fsave 94"

definition handle_code_FSAVE_M108BYTE :: "'w handler" where
  "handle_code_FSAVE_M108BYTE = fsave 108"

definition handle_code_FRSTOR_M94BYTE :: "fp_env \<Rightarrow> 'w handler" where
  "handle_code_FRSTOR_M94BYTE fp = frstor fp 94"

definition handle_code_FRSTOR_M108BYTE :: "fp_env \<Rightarrow> 'w handler" where
  "handle_code_FRSTOR_M108BYTE fp = frstor fp 108"

definition handle_code_FILD_M16INT :: "fp_env \<Rightarrow> 'w handler" where
  "handle_code_FILD_M16INT fp = x87_load_integer fp 2"

definition handle_code_FILD_M32INT :: "fp_env \<Rightarrow> 'w handler" where
  "handle_code_FILD_M32INT fp = x87_load_integer fp 4"

definition handle_code_FILD_M64INT :: "fp_env \<Rightarrow> 'w handler" where
  "handle_code_FILD_M64INT fp = x87_load_integer fp 8"

definition handle_code_FIST_M16INT :: "fp_env \<Rightarrow> 'w handler" where
  "handle_code_FIST_M16INT fp = x87_store_integer fp 2 False False"

definition handle_code_FIST_M32INT :: "fp_env \<Rightarrow> 'w handler" where
  "handle_code_FIST_M32INT fp = x87_store_integer fp 4 False False"

definition handle_code_FIST_M64INT :: "fp_env \<Rightarrow> 'w handler" where
  "handle_code_FIST_M64INT fp = x87_store_integer fp 8 False False"

definition handle_code_FISTP_M16INT :: "fp_env \<Rightarrow> 'w handler" where
  "handle_code_FISTP_M16INT fp = x87_store_integer fp 2 True False"

definition handle_code_FISTP_M32INT :: "fp_env \<Rightarrow> 'w handler" where
  "handle_code_FISTP_M32INT fp = x87_store_integer fp 4 True False"

definition handle_code_FISTP_M64INT :: "fp_env \<Rightarrow> 'w handler" where
  "handle_code_FISTP_M64INT fp = x87_store_integer fp 8 True False"

definition handle_code_FISTTP_M16INT :: "fp_env \<Rightarrow> 'w handler" where
  "handle_code_FISTTP_M16INT fp = x87_store_integer fp 2 True True"

definition handle_code_FISTTP_M32INT :: "fp_env \<Rightarrow> 'w handler" where
  "handle_code_FISTTP_M32INT fp = x87_store_integer fp 4 True True"

definition handle_code_FISTTP_M64INT :: "fp_env \<Rightarrow> 'w handler" where
  "handle_code_FISTTP_M64INT fp = x87_store_integer fp 8 True True"

definition handle_code_MASKMOVQ_R_DI_MM_MM :: "'w handler" where
  "handle_code_MASKMOVQ_R_DI_MM_MM = store_masked_bytes 1 2 8 False"

definition handle_code_MASKMOVDQU_R_DI_XMM_XMM :: "'w handler" where
  "handle_code_MASKMOVDQU_R_DI_XMM_XMM = store_masked_bytes 1 2 16 True"

definition handle_code_VEX_VMASKMOVDQU_R_DI_XMM_XMM :: "'w handler" where
  "handle_code_VEX_VMASKMOVDQU_R_DI_XMM_XMM = store_masked_bytes 1 2 16 True"

definition handle_code_PMOVMSKB_R32_MM :: "'w handler" where
  "handle_code_PMOVMSKB_R32_MM = pmovmskb 8 True 4"

definition handle_code_PMOVMSKB_R64_MM :: "'w handler" where
  "handle_code_PMOVMSKB_R64_MM = pmovmskb 8 True 8"

definition handle_code_PMOVMSKB_R32_XMM :: "'w handler" where
  "handle_code_PMOVMSKB_R32_XMM = pmovmskb 16 False 4"

definition handle_code_PMOVMSKB_R64_XMM :: "'w handler" where
  "handle_code_PMOVMSKB_R64_XMM = pmovmskb 16 False 8"

definition handle_code_VEX_VPMOVMSKB_R32_XMM :: "'w handler" where
  "handle_code_VEX_VPMOVMSKB_R32_XMM = pmovmskb 16 False 4"

definition handle_code_VEX_VPMOVMSKB_R64_XMM :: "'w handler" where
  "handle_code_VEX_VPMOVMSKB_R64_XMM = pmovmskb 16 False 8"

definition handle_code_VEX_VPMOVMSKB_R32_YMM :: "'w handler" where
  "handle_code_VEX_VPMOVMSKB_R32_YMM = pmovmskb 32 False 4"

definition handle_code_VEX_VPMOVMSKB_R64_YMM :: "'w handler" where
  "handle_code_VEX_VPMOVMSKB_R64_YMM = pmovmskb 32 False 8"

definition handle_code_MOVMSKPD_R32_XMM :: "'w handler" where
  "handle_code_MOVMSKPD_R32_XMM = movmskpd 4"

definition handle_code_MOVMSKPD_R64_XMM :: "'w handler" where
  "handle_code_MOVMSKPD_R64_XMM = movmskpd 8"

definition handle_code_MOVQ2DQ_XMM_MM :: "'w handler" where
  "handle_code_MOVQ2DQ_XMM_MM = (\<lambda>c.
     let i = vector_index (op_register (instr c) 0); src = read_mmx (state c) (op_register (instr c) 1)
     in (no_stop, upd_state (\<lambda>s. s\<lparr>vectors := (vectors s)[i := (vectors s ! i AND NOT (push_bit 128 1 - 1)) OR ucast src]\<rparr>) c))"

definition handle_code_MOVDQ2Q_MM_XMM :: "'w handler" where
  "handle_code_MOVDQ2Q_MM_XMM = (\<lambda>c.
     let value = ucast (vectors (state c) ! vector_index (op_register (instr c) 1) AND (push_bit 64 1 - 1))
     in (no_stop, upd_state (\<lambda>s. mmx_set s (mm_index (op_register (instr c) 0)) value) c))"

end
