(* ===== verification/X87_Stack.thy ===== *)
theory X87_Stack
  imports X87_Ops
begin

text \<open>
  The x87 register stack seen from ST(0) on (\<open>st_view\<close>), the invariant of its registers (\<open>fpu_inv\<close>: eight registers and tags, and the stack
  pointer repeated in the status word), what pushing, popping, storing and raising an exception do to the view, and that they
  leave the other registers alone (\<open>stack_only\<close>).
\<close>

section \<open>The register stack\<close>

definition st_view :: "cpu_state \<Rightarrow> float80 option list" where
  "st_view s = map (\<lambda>i. if x87_is_empty s (word_of_nat i) then None else Some (x87_get s (word_of_nat i))) [0..<8]"

definition x87_synced :: "cpu_state \<Rightarrow> bool" where
  "x87_synced s \<longleftrightarrow> ucast (drop_bit 11 (x87_status_word s) AND 7) = x87_top s"

definition fpu_inv :: "cpu_state \<Rightarrow> bool" where
  "fpu_inv s \<longleftrightarrow> length (x87_stack s) = 8 \<and> length (x87_tags s) = 8 \<and> x87_top s < 8 \<and> x87_synced s"

lemma and_7: "unat (w AND 7) = unat w mod 8" for w :: "'a::len word"
proof -
  have "w AND 7 = take_bit 3 w" by (simp add: take_bit_eq_mask mask_eq_exp_minus_1)
  then have "unat (w AND 7) = take_bit 3 (unat w)" by (simp only: unsigned_take_bit_eq)
  then show ?thesis by (simp add: take_bit_eq_mod)
qed

lemma unat_u8_u32: "unat (ucast v :: u32) = unat v" for v :: u8
proof -
  have "unat v < 2 ^ 32" using unsigned_less [of v, where 'a = nat] by simp
  then show ?thesis by (simp only: unsigned_ucast_eq) (simp add: take_bit_nat_eq_self)
qed

lemma x87_phys_index_eq:
  assumes "x87_top s < 8" "i < 8"
  shows "x87_phys_index s (word_of_nat i) = (unat (x87_top s) + i) mod 8"
proof -
  have t: "unat (x87_top s) < 8" using assms(1) by (simp add: word_less_nat_alt)
  have "unat (word_of_nat i :: u64) = i" using assms(2) by (simp add: unat_of_nat)
  then have "unat (ucast (word_of_nat i :: u64) :: u8) = i" using assms(2) by (simp add: unsigned_ucast_eq take_bit_nat_eq_self)
  then have "unat (ucast (ucast (word_of_nat i :: u64) :: u8) :: u32) = i" by (simp only: unat_u8_u32)
  moreover have "unat (ucast (x87_top s) :: u32) = unat (x87_top s)"
    by (rule unat_u8_u32)
  ultimately show ?thesis using t assms(2) by (simp add: x87_phys_index_def and_7 unat_word_ariths)
qed

lemma mod8_inj: "i < 8 \<Longrightarrow> j < 8 \<Longrightarrow> (t + i) mod 8 = (t + j) mod 8 \<longleftrightarrow> i = j" for t i j :: nat
proof (induction i j rule: linorder_wlog)
  case (le i j)
  then show ?case
    using mod_eq_dvd_iff_nat [of "t + i" "t + j" 8] by (auto dest: dvd_imp_le)
qed (auto simp: eq_commute)

lemma st_view_length [simp]: "length (st_view s) = 8"
  by (simp add: st_view_def)

lemma st_view_ne [simp]: "st_view s \<noteq> []"
  by (simp add: st_view_def)

lemma st_view_nth:
  assumes "x87_top s < 8" "i < 8"
  shows "st_view s ! i = (let p = (unat (x87_top s) + i) mod 8 in if x87_tags s ! p = 3 then None else Some (x87_stack s ! p))"
  using assms by (simp add: st_view_def x87_is_empty_def x87_get_def x87_phys_index_eq)

lemma st_view_eqI:
  assumes "x87_top s < 8" "length xs = 8"
    "\<And>i. i < 8 \<Longrightarrow> (let p = (unat (x87_top s) + i) mod 8 in if x87_tags s ! p = 3 then None else Some (x87_stack s ! p)) = xs ! i"
  shows "st_view s = xs"
  using assms by (intro nth_equalityI) (simp_all add: st_view_nth)

lemma fpu_invD: "fpu_inv s \<Longrightarrow> length (x87_stack s) = 8" "fpu_inv s \<Longrightarrow> length (x87_tags s) = 8" "fpu_inv s \<Longrightarrow> x87_top s < 8"
  by (simp_all add: fpu_inv_def)

lemma view_set:
  assumes "fpu_inv s" "i < 8"
  shows "st_view (x87_set z s (word_of_nat i) v) = (st_view s)[i := Some v]"
  using fpu_invD [OF assms(1)] assms(2)
  by (intro st_view_eqI) (auto simp: x87_set_def Let_def x87_phys_index_eq st_view_nth nth_list_update mod8_inj)

lemma view_mark_empty:
  assumes "fpu_inv s" "i < 8"
  shows "st_view (x87_mark_empty s (word_of_nat i)) = (st_view s)[i := None]"
  using fpu_invD [OF assms(1)] assms(2)
  by (intro st_view_eqI) (auto simp: x87_mark_empty_def Let_def x87_phys_index_eq st_view_nth nth_list_update mod8_inj)

lemma view_swap:
  assumes "fpu_inv s" "i < 8"
  shows "st_view (x87_swap s (word_of_nat i)) = (st_view s)[0 := st_view s ! i, i := st_view s ! 0]"
proof -
  note inv = fpu_invD [OF assms(1)]
  have t: "unat (x87_top s) < 8" using inv(3) by (simp add: word_less_nat_alt)
  have p0: "x87_phys_index s 0 = unat (x87_top s)" using x87_phys_index_eq [of s 0] inv(3) t by simp
  have z: "(unat (x87_top s) + j) mod 8 = unat (x87_top s) \<longleftrightarrow> j = 0" if "j < 8" for j
    using mod8_inj [of j 0 "unat (x87_top s)"] that t by simp
  show ?thesis
  proof (rule st_view_eqI)
    fix j :: nat assume j: "j < 8"
    show "(let p = (unat (x87_top (x87_swap s (word_of_nat i))) + j) mod 8
        in if x87_tags (x87_swap s (word_of_nat i)) ! p = 3 then None else Some (x87_stack (x87_swap s (word_of_nat i)) ! p)) =
        (st_view s)[0 := st_view s ! i, i := st_view s ! 0] ! j"
      using inv t j assms(2) z [OF j] z [OF assms(2)] mod8_inj [OF j assms(2), of "unat (x87_top s)"]
      by (cases "j = i"; cases "j = 0") (simp_all add: x87_swap_def Let_def p0 x87_phys_index_eq st_view_nth)
  qed (use inv in \<open>simp_all add: x87_swap_def Let_def\<close>)
qed

lemma view_push:
  assumes "fpu_inv s"
  shows "x87_push z s v =
    (if last (st_view s) = None then (True, snd (x87_push z s v)) else (False, s))"
    "last (st_view s) = None \<Longrightarrow> st_view (snd (x87_push z s v)) = Some v # butlast (st_view s)"
proof -
  note inv = fpu_invD [OF assms]
  have t: "unat (x87_top s) < 8" using inv(3) by (simp add: word_less_nat_alt)
  have n: "unat ((x87_top s + 7) AND 7) = (unat (x87_top s) + 7) mod 8"
    using t by (simp add: and_7 unat_word_ariths mod_mod_cancel)
  have l: "last (st_view s) = None \<longleftrightarrow> x87_tags s ! ((unat (x87_top s) + 7) mod 8) = 3"
    using inv st_view_nth [of s 7] last_conv_nth [of "st_view s"] by (auto simp: Let_def)
  show "x87_push z s v = (if last (st_view s) = None then (True, snd (x87_push z s v)) else (False, s))"
    by (simp add: x87_push_def l n Let_def)
  assume e: "last (st_view s) = None"
  have tp: "unat (x87_top (snd (x87_push z s v))) = (unat (x87_top s) + 7) mod 8"
    using e l n by (simp add: x87_push_def set_x87_top_def Let_def and_7)
  show "st_view (snd (x87_push z s v)) = Some v # butlast (st_view s)"
  proof (rule st_view_eqI)
    show "x87_top (snd (x87_push z s v)) < 8" using tp by (simp add: word_less_nat_alt)
    fix i :: nat assume i: "i < 8"
    have p: "((unat (x87_top s) + 7) mod 8 + i) mod 8 = (unat (x87_top s) + (7 + i)) mod 8" by (simp add: mod_add_left_eq add.assoc)
    have q: "i = Suc j \<Longrightarrow> (unat (x87_top s) + (7 + i)) mod 8 = (unat (x87_top s) + j) mod 8" for j
      by (simp add: add.left_commute [of _ 8])
    show "(let p = (unat (x87_top (snd (x87_push z s v))) + i) mod 8
        in if x87_tags (snd (x87_push z s v)) ! p = 3 then None else Some (x87_stack (snd (x87_push z s v)) ! p)) = (Some v # butlast (st_view s)) ! i"
    proof (cases i)
      case 0
      then show ?thesis using e l n inv tp by (simp add: x87_push_def set_x87_top_def Let_def)
    next
      case (Suc j)
      then have "(unat (x87_top s) + j) mod 8 \<noteq> (unat (x87_top s) + 7) mod 8" using i mod8_inj [of j 7 "unat (x87_top s)"] by simp
      then show ?thesis
        unfolding tp p using Suc q [OF Suc] e l n inv i
        by (simp add: x87_push_def set_x87_top_def Let_def nth_butlast st_view_nth)
    qed
  qed simp
qed

lemma view_pop:
  assumes "fpu_inv s"
  shows "x87_pop s = (if st_view s ! 0 = None then (False, s) else (True, snd (x87_pop s)))"
    "st_view s ! 0 \<noteq> None \<Longrightarrow> st_view (snd (x87_pop s)) = tl (st_view s) @ [None]"
proof -
  note inv = fpu_invD [OF assms]
  have t: "unat (x87_top s) < 8" using inv(3) by (simp add: word_less_nat_alt)
  have n: "unat ((x87_top s + 1) AND 7) = (unat (x87_top s) + 1) mod 8"
    using t by (simp add: and_7 unat_word_ariths mod_mod_cancel)
  have l: "st_view s ! 0 = None \<longleftrightarrow> x87_tags s ! unat (x87_top s) = 3"
    using inv t st_view_nth [of s 0] by (auto simp: Let_def)
  show "x87_pop s = (if st_view s ! 0 = None then (False, s) else (True, snd (x87_pop s)))"
    by (simp add: x87_pop_def l Let_def)
  assume e: "st_view s ! 0 \<noteq> None"
  have tp: "unat (x87_top (snd (x87_pop s))) = (unat (x87_top s) + 1) mod 8"
    using e l n by (simp add: x87_pop_def set_x87_top_def Let_def and_7)
  show "st_view (snd (x87_pop s)) = tl (st_view s) @ [None]"
  proof (rule st_view_eqI)
    show "x87_top (snd (x87_pop s)) < 8" using tp by (simp add: word_less_nat_alt)
    fix i :: nat assume i: "i < 8"
    have p: "((unat (x87_top s) + 1) mod 8 + i) mod 8 = (unat (x87_top s) + Suc i) mod 8" by (simp add: mod_Suc_eq mod_add_left_eq add.assoc)
    show "(let p = (unat (x87_top (snd (x87_pop s))) + i) mod 8
        in if x87_tags (snd (x87_pop s)) ! p = 3 then None else Some (x87_stack (snd (x87_pop s)) ! p)) = (tl (st_view s) @ [None]) ! i"
    proof (cases "i = 7")
      case True
      then show ?thesis unfolding tp p using e l n t inv by (simp add: x87_pop_def set_x87_top_def Let_def nth_append)
    next
      case False
      then have "(unat (x87_top s) + Suc i) mod 8 \<noteq> unat (x87_top s)"
        using i t mod8_inj [of "Suc i" 0 "unat (x87_top s)"] by simp
      then show ?thesis
        unfolding tp p using False e l n inv i
        by (simp add: x87_pop_def set_x87_top_def Let_def nth_append nth_tl st_view_nth)
    qed
  qed simp
qed

section \<open>The status word\<close>

lemma top_bits: "fpu_inv s \<Longrightarrow> ucast (drop_bit 11 (x87_status_word s) AND 7) = x87_top s"
  by (simp add: fpu_inv_def x87_synced_def)

lemma set_top_inv:
  assumes "length (x87_stack s) = 8" "length (x87_tags s) = 8"
  shows "fpu_inv (set_x87_top s t)"
proof -
  have "ucast (drop_bit 11 ((w AND NOT 0x3800) OR push_bit 11 (ucast (t AND 7) :: u16)) AND 7) = t AND 7" for w :: u16
  proof -
    have m: "(0x3800 :: u16) = push_bit 11 (mask 3)" "(7 :: u16) = mask 3" "(7 :: u8) = mask 3"
      by (simp_all add: mask_eq_exp_minus_1 push_bit_eq_mult)
    show ?thesis unfolding m by (rule bit_word_eqI) (auto simp: bit_simps)
  qed
  moreover have "t AND 7 < 8" by (simp add: word_less_nat_alt and_7)
  ultimately show ?thesis using assms by (simp add: fpu_inv_def x87_synced_def set_x87_top_def Let_def)
qed

lemma top_field_less: "ucast (v AND 7 :: u16) < (8 :: u8)"
proof -
  have "ucast (v AND 7) = (ucast v :: u8) AND 7" by (rule bit_word_eqI) (auto simp: bit_simps)
  then show ?thesis by (simp add: word_less_nat_alt and_7)
qed

lemma set_status_inv: "length (x87_stack s) = 8 \<Longrightarrow> length (x87_tags s) = 8 \<Longrightarrow> fpu_inv (set_x87_status_word s v)"
  by (simp add: fpu_inv_def x87_synced_def set_x87_status_word_def top_field_less)

text \<open>Changes of the status word that leave the bits of the stack pointer alone.\<close>

definition top_field :: "u16 \<Rightarrow> u16" where
  "top_field w = w AND 0x3800"

lemma top_field_simps [simp]:
  "top_field (v OR w) = top_field v OR top_field w" "top_field (v AND 0x7F) = 0" "top_field 0x80 = 0" "top_field 0 = 0"
  by (simp_all add: top_field_def bit.conj_disj_distrib2 and.assoc)

lemma top_field_bits: "drop_bit 11 w AND 7 = drop_bit 11 (top_field w) AND 7" for w :: u16
proof -
  have m: "(0x3800 :: u16) = push_bit 11 (mask 3)" "(7 :: u16) = mask 3"
    by (simp_all add: mask_eq_exp_minus_1 push_bit_eq_mult)
  show ?thesis unfolding top_field_def m by (rule bit_word_eqI) (auto simp: bit_simps)
qed

lemma set_status_word_same:
  assumes "fpu_inv s" "top_field v = top_field (x87_status_word s)"
  shows "set_x87_status_word s v = s\<lparr>x87_status_word := v\<rparr>"
  using top_bits [OF assms(1)] assms(2) top_field_bits [of v] top_field_bits [of "x87_status_word s"]
  by (simp add: set_x87_status_word_def)

lemma status_update [simp]:
  "st_view (s\<lparr>x87_status_word := v\<rparr>) = st_view s"
  "fpu_inv s \<Longrightarrow> top_field v = top_field (x87_status_word s) \<Longrightarrow> fpu_inv (s\<lparr>x87_status_word := v\<rparr>)"
proof -
  show "st_view (s\<lparr>x87_status_word := v\<rparr>) = st_view s"
    by (simp add: st_view_def x87_is_empty_def x87_get_def x87_phys_index_def)
  show "fpu_inv (s\<lparr>x87_status_word := v\<rparr>)" if "fpu_inv s" "top_field v = top_field (x87_status_word s)"
    using that top_field_bits [of v] top_field_bits [of "x87_status_word s"] by (simp add: fpu_inv_def x87_synced_def)
qed

text \<open>The status word after exceptions are raised, and the result the executor sees.\<close>

definition status_with :: "cpu_state \<Rightarrow> u16 \<Rightarrow> u16" where
  "status_with s e = x87_status_word s OR (e AND 0x7F) OR (if x87_exceptions_masked s e then 0 else 0x80)"

definition fp_stop :: "'w ctx \<Rightarrow> u16 \<Rightarrow> execution_result" where
  "fp_stop c e =
     \<lparr>reason = SR_floating_point_exception, retired = 0,
      exception_of = Some \<lparr>ei_reason = SR_floating_point_exception, ei_address = rip (state c), ei_error_code = ucast e\<rparr>,
      result_code = Some (code (instr c))\<rparr>"

lemma fp_stop_not_ok [simp]: "\<not> result_ok (fp_stop c e)" "result_ok no_stop"
  by (simp_all add: result_ok_def fp_stop_def no_stop_def)

lemma top_field_status_with [simp]: "top_field (status_with s e) = top_field (x87_status_word s)"
  by (simp add: status_with_def)

lemma x87_exception_eq:
  assumes "fpu_inv (state c)"
  shows "x87_exception e c =
    (if x87_exceptions_masked (state c) e then no_stop else fp_stop c e, upd_state (\<lambda>s. s\<lparr>x87_status_word := status_with s e\<rparr>) c)"
proof -
  let ?sw = "(x87_status_word (state c) OR (e AND kX87ExceptionMask)) OR (e AND kX87ExceptionStackFault)"
  have m: "e AND kX87ExceptionMask OR e AND kX87ExceptionStackFault = e AND 0x7F"
    by (simp add: kX87ExceptionMask_def kX87ExceptionStackFault_def bit.conj_disj_distrib [symmetric])
  have s: "(if x87_exceptions_masked (state c) e then ?sw else ?sw OR 0x80) = status_with (state c) e"
    unfolding status_with_def m [symmetric] by (simp add: ac_simps)
  have "set_x87_status_word (state c) (status_with (state c) e) = (state c)\<lparr>x87_status_word := status_with (state c) e\<rparr>"
    by (rule set_status_word_same [OF assms]) simp
  then show ?thesis unfolding x87_exception_def Let_def s by (simp add: fp_stop_def)
qed

lemma x87_raise_eq:
  assumes "fpu_inv (state c)"
  shows "x87_raise e k c =
    (let c1 = upd_state (\<lambda>s. s\<lparr>x87_status_word := status_with s e\<rparr>) c
     in if x87_exceptions_masked (state c) e then k c1 else (fp_stop c e, c1))"
  by (simp add: x87_raise_def x87_exception_eq [OF assms] Let_def)

lemma status_with_0: "status_with s 0 = x87_status_word s" "x87_exceptions_masked s 0"
  by (simp_all add: status_with_def x87_exceptions_masked_def)

lemma x87_raise_if_eq:
  assumes "fpu_inv (state c)"
  shows "x87_raise_if e k c =
    (let c1 = upd_state (\<lambda>s. s\<lparr>x87_status_word := status_with s e\<rparr>) c
     in if x87_exceptions_masked (state c) e then k c1 else (fp_stop c e, c1))"
  using status_with_0 [of "state c"] by (simp add: x87_raise_if_def x87_raise_eq [OF assms] Let_def)

definition stack_fault :: "cpu_state \<Rightarrow> bool \<Rightarrow> u16" where
  "stack_fault s over =
     (if over then x87_status_word s OR 0x0200 else x87_status_word s AND NOT 0x0200) OR 0x41 OR (if bit (x87_control_word s) 0 then 0 else 0x80)"

lemma masked_stack_fault: "x87_exceptions_masked s (kX87ExceptionInvalid OR kX87ExceptionStackFault) \<longleftrightarrow> bit (x87_control_word s) 0"
proof -
  have "x AND NOT w AND 0x3F = (x AND 0x3F) AND NOT w" for x w :: u16 by (simp add: ac_simps)
  then have "x87_exceptions_masked s (kX87ExceptionInvalid OR kX87ExceptionStackFault) \<longleftrightarrow> 1 AND NOT (x87_control_word s) = 0"
    by (simp add: x87_exceptions_masked_def kX87ExceptionInvalid_def kX87ExceptionStackFault_def kX87ExceptionMask_def)
  also have "\<dots> \<longleftrightarrow> bit (x87_control_word s) 0"
    by (simp add: one_and_eq mod_2_eq_odd bit_0 even_not_iff)
  finally show ?thesis .
qed

lemma x87_stack_fault_eq:
  assumes "fpu_inv (state c)"
  shows "x87_stack_underflow c = (if bit (x87_control_word (state c)) 0 then no_stop else fp_stop c 0x41,
      upd_state (\<lambda>s. s\<lparr>x87_status_word := stack_fault s False\<rparr>) c)"
    "x87_stack_overflow c = (if bit (x87_control_word (state c)) 0 then no_stop else fp_stop c 0x41,
      upd_state (\<lambda>s. s\<lparr>x87_status_word := stack_fault s True\<rparr>) c)"
proof -
  have t: "top_field (w AND NOT 0x0200) = top_field w" "top_field (w OR 0x0200) = top_field w" for w
    by (simp_all add: top_field_def bit.conj_disj_distrib2 and.assoc)
  have e: "kX87ExceptionInvalid OR kX87ExceptionStackFault = 0x41" by (simp add: kX87ExceptionInvalid_def kX87ExceptionStackFault_def)
  note m = masked_stack_fault [unfolded e]
  have u: "set_x87_status_word (state c) v = (state c)\<lparr>x87_status_word := v\<rparr>" "fpu_inv ((state c)\<lparr>x87_status_word := v\<rparr>)"
    if "v = x87_status_word (state c) AND NOT 0x0200 \<or> v = x87_status_word (state c) OR 0x0200" for v
    using that t set_status_word_same [OF assms] status_update(2) [OF assms] by blast+
  note fin = x87_exception_eq m status_with_def stack_fault_def fp_stop_def
  show "x87_stack_underflow c = (if bit (x87_control_word (state c)) 0 then no_stop else fp_stop c 0x41,
      upd_state (\<lambda>s. s\<lparr>x87_status_word := stack_fault s False\<rparr>) c)"
    unfolding x87_stack_underflow_def e u(1) [OF disjI1 [OF refl]] using u(2) [OF disjI1 [OF refl]] by (subst x87_exception_eq) (simp_all add: fin)
  show "x87_stack_overflow c = (if bit (x87_control_word (state c)) 0 then no_stop else fp_stop c 0x41,
      upd_state (\<lambda>s. s\<lparr>x87_status_word := stack_fault s True\<rparr>) c)"
    unfolding x87_stack_overflow_def e u(1) [OF disjI2 [OF refl]] using u(2) [OF disjI2 [OF refl]] by (subst x87_exception_eq) (simp_all add: fin)
qed

section \<open>Frames\<close>

text \<open>Only the register stack differs: its contents, tags and pointer, and the pointer's field of the status word.\<close>

definition stack_only :: "cpu_state \<Rightarrow> cpu_state \<Rightarrow> bool" where
  "stack_only s s' \<longleftrightarrow>
     s'\<lparr>x87_stack := x87_stack s, x87_tags := x87_tags s, x87_top := x87_top s, x87_status_word := x87_status_word s\<rparr> = s \<and>
     x87_status_word s' AND NOT 0x3800 = x87_status_word s AND NOT 0x3800"

lemma stack_only_refl [simp]: "stack_only s s"
  by (simp add: stack_only_def)

lemma stack_only_trans [trans]: "stack_only s s1 \<Longrightarrow> stack_only s1 s2 \<Longrightarrow> stack_only s s2"
proof -
  assume a: "stack_only s s1" "stack_only s1 s2"
  let ?f = "\<lambda>t u. u\<lparr>x87_stack := x87_stack t, x87_tags := x87_tags t, x87_top := x87_top t, x87_status_word := x87_status_word t\<rparr>"
  have "?f s s2 = ?f s (?f s1 s2)" by simp
  also have "\<dots> = s" using a by (simp only: stack_only_def)
  finally show ?thesis using a by (simp add: stack_only_def)
qed

lemma stack_updates:
  assumes "fpu_inv s" 
  shows "stack_only s (x87_set z s i v)" "fpu_inv (x87_set z s i v)"
    "stack_only s (x87_mark_empty s i)" "fpu_inv (x87_mark_empty s i)"
    "stack_only s (x87_swap s i)" "fpu_inv (x87_swap s i)"
    "stack_only s (snd (x87_push z s v))" "fpu_inv (snd (x87_push z s v))"
    "stack_only s (snd (x87_pop s))" "fpu_inv (snd (x87_pop s))"
    "stack_only s (set_x87_top s t)" "fpu_inv (set_x87_top s t)"
proof -
  have k: "((w AND NOT 0x3800) OR push_bit 11 (ucast (t AND 7) :: u16)) AND NOT 0x3800 = w AND NOT 0x3800" for w and t :: u8
  proof -
    have m: "(0x3800 :: u16) = push_bit 11 (mask 3)" "(7 :: u8) = mask 3"
      by (simp_all add: mask_eq_exp_minus_1 push_bit_eq_mult)
    show ?thesis unfolding m by (rule bit_word_eqI) (auto simp: bit_simps)
  qed
  note inv = assms [unfolded fpu_inv_def]
  show "stack_only s (x87_set z s i v)" "fpu_inv (x87_set z s i v)" 
    "stack_only s (x87_mark_empty s i)" "fpu_inv (x87_mark_empty s i)"
    "stack_only s (x87_swap s i)" "fpu_inv (x87_swap s i)"
    using inv by (simp_all add: stack_only_def fpu_inv_def x87_synced_def x87_set_def x87_mark_empty_def x87_swap_def Let_def)
  have st: "stack_only s (set_x87_top s' t)" if "stack_only s s'" for s' t
    using that k unfolding stack_only_def set_x87_top_def Let_def by simp
  show "stack_only s (set_x87_top s t)" by (rule st) simp
  show "fpu_inv (set_x87_top s t)" using inv by (intro set_top_inv) simp_all
  show "stack_only s (snd (x87_push z s v))" "fpu_inv (snd (x87_push z s v))" "stack_only s (snd (x87_pop s))" "fpu_inv (snd (x87_pop s))"
    using inv assms by (auto simp: x87_push_def x87_pop_def Let_def intro!: set_top_inv st) (simp_all add: stack_only_def)
qed

section \<open>A concrete environment\<close>

text \<open>A floating-point environment for integers: a number is its significand, with the exponent for which that is its value.\<close>

definition demo_of :: "int \<Rightarrow> float80" where
  "demo_of i = (if i = 0 then f80_zero else \<lparr>f80_signif = word_of_int \<bar>i\<bar>, f80_signExp = if i < 0 then 0xC03E else 0x403E\<rparr>)"

definition demo_val :: "float80 \<Rightarrow> int" where
  "demo_val x = (if f80_signbit x then - uint (f80_signif x) else uint (f80_signif x))"

definition demo_fp :: fp_env where
  "demo_fp =
     \<lparr>f64_to_extF80 = (\<lambda>_. f80_zero), i32_to_extF80 = (\<lambda>i. demo_of (sint i)), i64_to_extF80 = (\<lambda>i. demo_of (sint i)),
      ui64_to_extF80 = (\<lambda>i. demo_of (uint i)), extF80_add = (\<lambda>a b. demo_of (demo_val a + demo_val b)),
      extF80_sub = (\<lambda>a b. demo_of (demo_val a - demo_val b)), extF80_mul = (\<lambda>a b. demo_of (demo_val a * demo_val b)),
      extF80_div = (\<lambda>a b. demo_of (demo_val a div demo_val b)), extF80_rem = (\<lambda>a b. demo_of (demo_val a mod demo_val b)),
      extF80_sqrt = id, extF80_eq = (\<lambda>a b. demo_val a = demo_val b), extF80_lt = (\<lambda>a b. demo_val a < demo_val b),
      extF80_le = (\<lambda>a b. demo_val a \<le> demo_val b), extF80_to_f64 = (\<lambda>_. 0), extF80_to_i64 = (\<lambda>a _. word_of_int (demo_val a)),
      extF80_to_ui64 = (\<lambda>a _. word_of_int (demo_val a)), extF80_roundToInt = (\<lambda>a _. a), float_to_double = (\<lambda>_. 0),
      double_to_float = (\<lambda>_. 0), std_ldexp = (\<lambda>x _. x), std_frexp = (\<lambda>x. (x, 0)), std_sin = id, std_cos = id, std_tan = id,
      std_atan2 = (\<lambda>x _. x), std_pow = (\<lambda>x _. x), std_log2 = id, st_distance = (\<lambda>_. 0)\<rparr>"

end
