(* ===== verification/X87_Dispatch.thy ===== *)
theory X87_Dispatch
  imports Simd_Dispatch X87_Stack
begin

text \<open>
  The x87 and MMX instructions keep the machine invariant, for every floating-point environment, and the entries of
  \<^verbatim>\<open>handled_codes.def\<close> for their handlers.
\<close>

section \<open>Registers\<close>

lemma wf_cpu_x87 [simp]:
  "wf_cpu (s\<lparr>x87_status_word := v\<rparr>) = wf_cpu s" "wf_cpu (s\<lparr>x87_control_word := v\<rparr>) = wf_cpu s"
  "wf_cpu s \<Longrightarrow> wf_cpu (s\<lparr>x87_stack := xs\<rparr>) \<longleftrightarrow> length xs = 8" "wf_cpu s \<Longrightarrow> wf_cpu (s\<lparr>x87_tags := ts\<rparr>) \<longleftrightarrow> length ts = 8"
  "wf_cpu s \<Longrightarrow> wf_cpu (s\<lparr>x87_top := t\<rparr>) \<longleftrightarrow> t < 8" "wf_cpu s \<Longrightarrow> wf_cpu (s\<lparr>mmx := ms\<rparr>) \<longleftrightarrow> length ms = 8"
  "wf_cpu s \<Longrightarrow> length (x87_stack s) = 8" "wf_cpu s \<Longrightarrow> length (x87_tags s) = 8" "wf_cpu s \<Longrightarrow> length (mmx s) = 8"
  unfolding wf_cpu_def by simp_all

lemma and_7_less [simp]: "w AND 7 < 8" "ucast (v AND 7) < (8 :: u8)" for w :: u8 and v :: u16
  by (simp add: word_less_nat_alt and_7) (rule top_field_less)

lemma wf_x87_registers [simp]:
  assumes "wf_cpu s"
  shows "wf_cpu (set_x87_status_word s v)" "wf_cpu (set_x87_control_word s v)" "wf_cpu (set_x87_top s t)" "wf_cpu (x87_reset s)" "wf_cpu (emms s)"
    "wf_cpu (x87_set z s i x)" "wf_cpu (x87_mark_empty s i)" "wf_cpu (x87_swap s i)" "wf_cpu (mmx_set s i m)"
    "wf_cpu (snd (x87_push z s x))" "wf_cpu (snd (x87_pop s))" "wf_cpu (x87_set_cmp_flags r s)" "wf_cpu (x87_set_eflags_cmp r s)"
    "wf_cpu (x87_set_fxam_flags fp x b s)"
proof -
  show a: "wf_cpu (set_x87_status_word s v)" for v using assms by (simp add: set_x87_status_word_def)
  show "wf_cpu (set_x87_top s t)" using assms by (simp add: set_x87_top_def Let_def)
  show "wf_cpu (set_x87_control_word s v)" "wf_cpu (x87_reset s)" "wf_cpu (emms s)"
    "wf_cpu (x87_set z s i x)" "wf_cpu (x87_mark_empty s i)" "wf_cpu (x87_swap s i)" "wf_cpu (mmx_set s i m)"
    using assms by (simp_all add: set_x87_control_word_def x87_reset_def emms_def x87_set_def x87_mark_empty_def x87_swap_def mmx_set_def Let_def)
  show "wf_cpu (snd (x87_push z s x))" "wf_cpu (snd (x87_pop s))"
    using assms by (simp_all add: x87_push_def x87_pop_def set_x87_top_def Let_def)
  show "wf_cpu (x87_set_cmp_flags r s)" "wf_cpu (x87_set_eflags_cmp r s)" "wf_cpu (x87_set_fxam_flags fp x b s)"
    using a by (simp_all add: x87_set_cmp_flags_def x87_set_eflags_cmp_def x87_set_fxam_flags_def Let_def)
qed

lemma wf_fold: "(\<And>x c. wf_ctx c \<Longrightarrow> wf_ctx (f x c)) \<Longrightarrow> wf_ctx c \<Longrightarrow> wf_ctx (fold f xs c)"
  by (induction xs arbitrary: c) simp_all

section \<open>Statements\<close>

lemma wf_x87_faults [simp]:
  assumes "wf_ctx c"
  shows "wf_ctx (snd (x87_exception e c))" "wf_ctx (snd (x87_stack_underflow c))" "wf_ctx (snd (x87_stack_overflow c))"
    "wf_ctx (snd (operand_fault c))" "wf_ctx (snd (x87_put fp i v c))" "wf_ctx (snd (x87_pop_or_underflow c))" "wf_ctx (snd (pop_if b c))"
    "wf_ctx (snd (x87_set1_pop fp v c))"
proof -
  have e: "wf_ctx (snd (x87_exception e c))" if "wf_ctx c" for e and c :: "'a ctx" using that by (simp add: x87_exception_def Let_def)
  then have u: "wf_ctx (snd (x87_stack_underflow c))" if "wf_ctx c" for c :: "'a ctx" using that by (simp add: x87_stack_underflow_def)
  have p: "wf_ctx (snd (x87_pop_or_underflow c))" if "wf_ctx c" for c :: "'a ctx"
    using that u by (simp add: x87_pop_or_underflow_def case_prod_beta split: bool.split)
  show "wf_ctx (snd (x87_exception e c))" "wf_ctx (snd (x87_stack_underflow c))" "wf_ctx (snd (x87_stack_overflow c))"
    "wf_ctx (snd (operand_fault c))" "wf_ctx (snd (x87_put fp i v c))" "wf_ctx (snd (x87_pop_or_underflow c))" "wf_ctx (snd (pop_if b c))"
    "wf_ctx (snd (x87_set1_pop fp v c))"
    using assms e u p by (simp_all add: x87_stack_overflow_def operand_fault_def x87_put_def pop_if_def x87_set1_pop_def)
qed

lemma wf_x87_sequencing [simp]:
  assumes "wf_ctx c" "\<And>c. wf_ctx c \<Longrightarrow> wf_ctx (snd (k c))"
  shows "wf_ctx (snd (x87_raise e k c))" "wf_ctx (snd (x87_raise_if e k c))" "wf_ctx (snd (x87_precision_if_changed fp x y k c))"
    "wf_ctx (snd (x87_checked fp x b e k c))" "wf_ctx (snd (x87_push_or k fp v c))" "wf_ctx (snd (x87_compare_body fp b1 b2 b3 ops k c))"
    "wf_ctx (snd (x87_function fp fn k c))" "wf_ctx (snd (then_pop k c))"
proof -
  have r: "wf_ctx (snd (x87_raise e k c))" if "wf_ctx c" "\<And>c. wf_ctx c \<Longrightarrow> wf_ctx (snd (k c))" for e k and c :: "'a ctx"
    using that by (simp add: x87_raise_def case_prod_beta)
  have i: "wf_ctx (snd (x87_raise_if e k c))" if "wf_ctx c" "\<And>c. wf_ctx c \<Longrightarrow> wf_ctx (snd (k c))" for e k and c :: "'a ctx"
    using that r by (simp add: x87_raise_if_def)
  have ch: "wf_ctx (snd (x87_checked fp x b e k c))" if "wf_ctx c" "\<And>c. wf_ctx c \<Longrightarrow> wf_ctx (snd (k c))" for x b e k and c :: "'a ctx"
    using that r i by (simp add: x87_checked_def)
  show "wf_ctx (snd (x87_raise e k c))" "wf_ctx (snd (x87_raise_if e k c))" "wf_ctx (snd (x87_precision_if_changed fp x y k c))"
    "wf_ctx (snd (x87_checked fp x b e k c))" "wf_ctx (snd (x87_function fp fn k c))" "wf_ctx (snd (then_pop k c))"
    using assms r i ch by (simp_all add: x87_precision_if_changed_def x87_function_def then_pop_def case_prod_beta Let_def)
  show "wf_ctx (snd (x87_push_or k fp v c))"
    using assms by (simp add: x87_push_or_def case_prod_beta split: bool.split)
  show "wf_ctx (snd (x87_compare_body fp b1 b2 b3 ops k c))"
    using assms r i by (simp add: x87_compare_body_def case_prod_beta Let_def)
qed

lemma wf_read_m [simp]:
  assumes "wf_ctx c"
  shows "wf_ctx (snd (read_m_fp fp w c))" "wf_ctx (snd (read_m_int fp w c))" "wf_ctx (snd (write_or_fault v w c))"
  using assms by (simp_all add: read_m_fp_def read_m_int_def write_or_fault_def case_prod_beta split: bool.split)

lemma wf_with_x87_operand [simp]:
  assumes "wf_ctx (snd (rd c))" "\<And>v c. wf_ctx c \<Longrightarrow> wf_ctx (snd (k v c))"
  shows "wf_ctx (snd (with_x87_operand rd k c))"
  using assms by (simp add: with_x87_operand_def case_prod_beta split: option.split)

lemma wf_with_st_regs [simp]:
  "wf_ctx c \<Longrightarrow> (\<And>d a b c. wf_ctx c \<Longrightarrow> wf_ctx (snd (k d a b c))) \<Longrightarrow> wf_ctx (snd (with_st_regs fp i j k c))"
  by (simp add: with_st_regs_def Let_def)

lemma wf_finish_binary [simp]: "wf_ctx c \<Longrightarrow> wf_ctx (snd (x87_finish_binary fp d a b r c))"
  by (simp add: x87_finish_binary_def case_prod_beta)

lemma wf_with_field [simp]:
  "wf_ctx c \<Longrightarrow> (\<And>v c. wf_ctx c \<Longrightarrow> wf_ctx (snd (k v c))) \<Longrightarrow> wf_ctx (snd (with_field a w k c))"
  by (simp add: with_field_def case_prod_beta split: option.split)

lemma wf_put_field [simp]: "wf_ctx c \<Longrightarrow> wf_ctx (put_field a v w c)"
  by (simp add: put_field_def)

text \<open>Loops.\<close>

lemma wf_byte_loops [simp]:
  assumes "wf_ctx c"
  shows "wf_ctx (snd (write_raw a bs c))" "wf_ctx (put_raw a bs c)" "wf_ctx (snd (get_raw a n c))" "wf_ctx (snd (read_raw a n c))"
    "wf_ctx (snd (write_fields a fs c))" "wf_ctx (put_fields a fs c)" "wf_ctx (snd (masked_store a ps c))"
    "wf_ctx (snd (bcd_load a i n x y c))" "wf_ctx (snd (bcd_store a i n x c))"
proof -
  show "wf_ctx (snd (write_raw a bs c))" using assms by (induction bs arbitrary: a c) (simp_all add: case_prod_beta split: bool.split)
  show "wf_ctx (put_raw a bs c)" using assms by (induction bs arbitrary: a c) simp_all
  show "wf_ctx (snd (get_raw a n c))" using assms by (induction n arbitrary: a c) (simp_all add: case_prod_beta)
  show "wf_ctx (snd (read_raw a n c))" using assms by (induction n arbitrary: a c) (simp_all add: case_prod_beta split: option.split sum.split)
  show "wf_ctx (snd (write_fields a fs c))" using assms by (induction fs arbitrary: c) (auto simp: case_prod_beta split: bool.split)
  show "wf_ctx (put_fields a fs c)" using assms by (induction fs arbitrary: c) auto
  show "wf_ctx (snd (masked_store a ps c))" using assms by (induction ps arbitrary: a c) (auto simp: case_prod_beta split: bool.split)
  show "wf_ctx (snd (bcd_load a i n x y c))" using assms by (induction n arbitrary: i x y c) (simp_all add: case_prod_beta Let_def split: option.split)
  show "wf_ctx (snd (bcd_store a i n x c))" using assms by (induction n arbitrary: i x c) (simp_all add: case_prod_beta Let_def split: bool.split)
qed


lemma wf_permissions [simp]:
  assumes "mem_inv m"
  shows "mem_inv (snd (is_mapped m a n))" "mem_inv (snd (has_permissions m a n p))" "mem_inv (snd (span_allowed k a n m))"
  using query_inv [OF assms] query_inv(2) [OF query_inv(2) [OF assms]] query_inv(2) [OF query_inv(2) [OF query_inv(2) [OF assms]]]
  by (auto simp: span_allowed_def case_prod_beta split: bool.split)

lemma wf_validate_memory_span [simp]: "wf_ctx c \<Longrightarrow> wf_ctx (snd (validate_memory_span k a n c))"
proof (induction n arbitrary: a c rule: less_induct)
  case (less n)
  define h where "h = min n (4096 - unat (a mod kPageSize))"
  have h: "n - h < n" if "n \<noteq> 0" using that unat_page_offset [of a] by (simp add: h_def)
  show ?case
    using less.prems less.IH [OF h]
    by (subst validate_memory_span.simps) (simp add: h_def [symmetric] case_prod_beta Let_def)
qed

lemma wf_register_loops [simp]:
  assumes "wf_ctx c"
  shows "wf_ctx (snd (save_xmm a is c))" "wf_ctx (snd (restore_xmm a is c))" "wf_ctx (snd (read_fxsave_st a i c))"
    "wf_ctx (write_fxsave_st a i v c)" "wf_ctx (restore_st fp a f i c)"
proof -
  show "wf_ctx (snd (save_xmm a is c))" using assms by (induction "is" arbitrary: c) (simp_all add: case_prod_beta split: option.split)
  show "wf_ctx (snd (restore_xmm a is c))" using assms by (induction "is" arbitrary: c) (simp_all add: case_prod_beta split: sum.split)
  show r: "wf_ctx (snd (read_fxsave_st a i c))" using assms by (simp add: read_fxsave_st_def case_prod_beta)
  show "wf_ctx (write_fxsave_st a i v c)" using assms by (simp add: write_fxsave_st_def)
  show "wf_ctx (restore_st fp a f i c)" using assms r by (simp add: restore_st_def case_prod_beta)
qed

section \<open>Templates\<close>

lemma wf_x87_arithmetic [simp]:
  "wf_handler (x87_unary_st0 fp fn)" "wf_handler (x87_fxch fp)" "wf_handler (x87_binary_mem_st0 fp w f)" "wf_handler (x87_binary_mem_st0_with_status fp w g)"
  "wf_handler (x87_binary_mem_int_st0 fp w f)" "wf_handler (x87_binary_mem_int_st0_with_status fp w g)" "wf_handler (x87_binary_st_regs fp i j f)"
  "wf_handler (x87_binary_st_regs_with_status fp i j g)"
  by (simp_all add: wf_handler_def x87_unary_st0_def x87_fxch_def x87_binary_mem_st0_def x87_binary_mem_st0_with_status_def x87_binary_mem_int_st0_def
      x87_binary_mem_int_st0_with_status_def x87_binary_st_regs_def x87_binary_st_regs_with_status_def Let_def)

lemma wf_x87_loads [simp]:
  "wf_handler (x87_push_from_memory fp w)" "wf_handler (x87_load_integer fp w)" "wf_handler (x87_load_bcd fp)"
  by (simp_all add: wf_handler_def x87_push_from_memory_def x87_load_integer_def x87_load_bcd_def case_prod_beta Let_def read_inv
      split: option.split sum.split)

lemma wf_x87_store_mem [simp]: "wf_handler (x87_store_mem fp w b)" "wf_handler (x87_store_to_memory fp w b)"
  by (simp_all add: wf_handler_def x87_store_to_memory_def x87_store_mem_def case_prod_beta Let_def split: option.split)

lemma wf_if: "wf_ctx (snd x) \<Longrightarrow> wf_ctx (snd y) \<Longrightarrow> wf_ctx (snd (if b then x else y))"
  by simp

lemma wf_store_raising:
  "wf_ctx c \<Longrightarrow> wf_ctx (snd (case ctx_write c a v w of (False, c1) \<Rightarrow> operand_fault c1 | (True, c1) \<Rightarrow> x87_raise_if e (pop_if b) c1))"
  by (simp add: case_prod_beta split: bool.split)

lemma wf_x87_store_integer [simp]: "wf_handler (x87_store_integer fp w b t)"
proof -
  obtain lo hi where l: "int_limits fp w = (lo, hi)" by fastforce
  show ?thesis
    unfolding wf_handler_def x87_store_integer_def Let_def l prod.case
    by (intro allI impI wf_if wf_store_raising wf_x87_faults)
qed

lemma wf_x87_stores [simp]:
  "wf_handler (x87_reg_move fp i j b)" "wf_handler (x87_store_bcd fp)" "wf_handler (x87_store_st0_to_sti fp b)" "wf_handler (x87_free_sti fp b)"
  "wf_handler x87_fstp_m80fp"
  by (simp_all add: wf_handler_def x87_reg_move_def x87_store_bcd_def x87_store_st0_to_sti_def x87_free_sti_def x87_fstp_m80fp_def case_prod_beta Let_def
      split: option.split bool.split)

lemma wf_x87_compares [simp]:
  "wf_ctx c \<Longrightarrow> wf_ctx (snd (x87_move_if fp b c))" "wf_handler (x87_compare_mem fp w p e q)"
  "wf_handler (x87_compare_regs fp i j p p' e q)" "wf_handler (x87_compare_st0_sti fp i e p q)"
  by (simp_all add: wf_handler_def x87_move_if_def x87_compare_mem_def x87_compare_regs_def x87_compare_st0_sti_def case_prod_beta Let_def split: bool.split)

lemma wf_mmx [simp]:
  "wf_handler (pmovmskb n b w)" "wf_handler (movmskpd w)" "wf_handler (store_masked_bytes i j w b)" "wf_handler (mmx_move i j w)"
  by (simp_all add: wf_handler_def pmovmskb_def movmskpd_def store_masked_bytes_def mmx_move_def case_prod_beta Let_def split: option.split bool.split)

lemma wf_cpu_fold: "(\<And>x s. wf_cpu s \<Longrightarrow> wf_cpu (g x s)) \<Longrightarrow> wf_cpu s \<Longrightarrow> wf_cpu (fold g xs s)"
  by (induction xs arbitrary: s) simp_all

lemma wf_x87_env [simp]:
  "wf_ctx c \<Longrightarrow> wf_ctx (store_x87_env a c)" "wf_ctx c \<Longrightarrow> wf_ctx (write_fpu_state a v c)" "wf_ctx c \<Longrightarrow> wf_ctx (snd (load_x87_env a c))"
  by (simp_all add: store_x87_env_def write_fpu_state_def load_x87_env_def wf_cpu_fold Let_def)

lemma wf_saved_state [simp]: "wf_handler (fsave n)" "wf_handler (frstor fp n)" "wf_handler (fxsave b)" "wf_handler (fxrstor fp b)"
  by (simp_all add: wf_handler_def fsave_def frstor_def fxsave_def fxrstor_def wf_fold case_prod_beta Let_def del: write_fields.simps split: option.split)

lemma wf_then_pop: "wf_handler k \<Longrightarrow> wf_handler (then_pop k)"
  by (simp add: wf_handler_def)

section \<open>The table\<close>

definition x87_table :: "fp_env \<Rightarrow> (icode \<times> 'w handler) list" where
  "x87_table fp =
    [(''FADD_M32FP'', handle_code_FADD_M32FP fp), (''FSUBR_M32FP'', handle_code_FSUBR_M32FP fp),
     (''FDIVR_M32FP'', handle_code_FDIVR_M32FP fp), (''FMUL_M32FP'', handle_code_FMUL_M32FP fp),
     (''FSUB_M32FP'', handle_code_FSUB_M32FP fp), (''FDIV_M32FP'', handle_code_FDIV_M32FP fp),
     (''FADD_ST0_STI'', handle_code_FADD_ST0_STI fp), (''FMUL_ST0_STI'', handle_code_FMUL_ST0_STI fp),
     (''FSUB_ST0_STI'', handle_code_FSUB_ST0_STI fp), (''FSUBR_ST0_STI'', handle_code_FSUBR_ST0_STI fp),
     (''FDIV_ST0_STI'', handle_code_FDIV_ST0_STI fp), (''FDIVR_ST0_STI'', handle_code_FDIVR_ST0_STI fp),
     (''FADD_M64FP'', handle_code_FADD_M64FP fp), (''FSUBR_M64FP'', handle_code_FSUBR_M64FP fp),
     (''FDIVR_M64FP'', handle_code_FDIVR_M64FP fp), (''FMUL_M64FP'', handle_code_FMUL_M64FP fp),
     (''FSUB_M64FP'', handle_code_FSUB_M64FP fp), (''FDIV_M64FP'', handle_code_FDIV_M64FP fp),
     (''FADD_STI_ST0'', handle_code_FADD_STI_ST0 fp), (''FMUL_STI_ST0'', handle_code_FMUL_STI_ST0 fp),
     (''FSUBR_STI_ST0'', handle_code_FSUBR_STI_ST0 fp), (''FSUB_STI_ST0'', handle_code_FSUB_STI_ST0 fp),
     (''FDIVR_STI_ST0'', handle_code_FDIVR_STI_ST0 fp), (''FDIV_STI_ST0'', handle_code_FDIV_STI_ST0 fp),
     (''FADDP_STI_ST0'', handle_code_FADDP_STI_ST0 fp), (''FMULP_STI_ST0'', handle_code_FMULP_STI_ST0 fp),
     (''FSUBRP_STI_ST0'', handle_code_FSUBRP_STI_ST0 fp), (''FSUBP_STI_ST0'', handle_code_FSUBP_STI_ST0 fp),
     (''FDIVRP_STI_ST0'', handle_code_FDIVRP_STI_ST0 fp), (''FDIVP_STI_ST0'', handle_code_FDIVP_STI_ST0 fp),
     (''FSTP_M32FP'', handle_code_FSTP_M32FP fp), (''FSTP_M64FP'', handle_code_FSTP_M64FP fp),
     (''FIADD_M16INT'', handle_code_FIADD_M16INT fp), (''FIADD_M32INT'', handle_code_FIADD_M32INT fp),
     (''FIMUL_M16INT'', handle_code_FIMUL_M16INT fp), (''FIMUL_M32INT'', handle_code_FIMUL_M32INT fp),
     (''FISUB_M16INT'', handle_code_FISUB_M16INT fp), (''FISUB_M32INT'', handle_code_FISUB_M32INT fp),
     (''FISUBR_M16INT'', handle_code_FISUBR_M16INT fp), (''FISUBR_M32INT'', handle_code_FISUBR_M32INT fp),
     (''FIDIV_M16INT'', handle_code_FIDIV_M16INT fp), (''FIDIV_M32INT'', handle_code_FIDIV_M32INT fp),
     (''FIDIVR_M16INT'', handle_code_FIDIVR_M16INT fp), (''FIDIVR_M32INT'', handle_code_FIDIVR_M32INT fp),
     (''FPREM'', handle_code_FPREM fp), (''FPREM1'', handle_code_FPREM1 fp), (''FTST'', handle_code_FTST fp),
     (''FCOM_M32FP'', handle_code_FCOM_M32FP fp), (''FCOMP_M32FP'', handle_code_FCOMP_M32FP fp),
     (''FCOM_ST0_STI'', handle_code_FCOM_ST0_STI fp), (''FCOMP_ST0_STI'', handle_code_FCOMP_ST0_STI fp),
     (''FCOMPP'', handle_code_FCOMPP fp), (''FUCOMPP'', handle_code_FUCOMPP fp), (''FCOMI_ST0_STI'', handle_code_FCOMI_ST0_STI fp),
     (''FUCOMI_ST0_STI'', handle_code_FUCOMI_ST0_STI fp), (''FCOMIP_ST0_STI'', handle_code_FCOMIP_ST0_STI fp),
     (''FUCOMIP_ST0_STI'', handle_code_FUCOMIP_ST0_STI fp), (''FCOM_M64FP'', handle_code_FCOM_M64FP fp),
     (''FCOMP_M64FP'', handle_code_FCOMP_M64FP fp), (''FUCOM_ST0_STI'', handle_code_FUCOM_ST0_STI fp),
     (''FUCOMP_ST0_STI'', handle_code_FUCOMP_ST0_STI fp), (''FCOM_ST0_STI_DCD0'', handle_code_FCOM_ST0_STI_DCD0 fp),
     (''FCOMP_ST0_STI_DCD8'', handle_code_FCOMP_ST0_STI_DCD8 fp), (''FCOMP_ST0_STI_DED0'', handle_code_FCOMP_ST0_STI_DED0 fp),
     (''FCMOVB_ST0_STI'', handle_code_FCMOVB_ST0_STI fp), (''FCMOVBE_ST0_STI'', handle_code_FCMOVBE_ST0_STI fp),
     (''FCMOVE_ST0_STI'', handle_code_FCMOVE_ST0_STI fp), (''FCMOVNB_ST0_STI'', handle_code_FCMOVNB_ST0_STI fp),
     (''FCMOVNBE_ST0_STI'', handle_code_FCMOVNBE_ST0_STI fp), (''FCMOVNE_ST0_STI'', handle_code_FCMOVNE_ST0_STI fp),
     (''FCMOVNU_ST0_STI'', handle_code_FCMOVNU_ST0_STI fp), (''FCMOVU_ST0_STI'', handle_code_FCMOVU_ST0_STI fp),
     (''FNOP'', handle_code_FNOP), (''FDECSTP'', handle_code_FDECSTP), (''FINCSTP'', handle_code_FINCSTP),
     (''FXAM'', handle_code_FXAM fp), (''FBLD_M80BCD'', handle_code_FBLD_M80BCD fp), (''FBSTP_M80BCD'', handle_code_FBSTP_M80BCD fp),
     (''FSTP_M80FP'', handle_code_FSTP_M80FP), (''FXCH_ST0_STI'', handle_code_FXCH_ST0_STI fp),
     (''FXCH_ST0_STI_DDC8'', handle_code_FXCH_ST0_STI_DDC8 fp), (''FXCH_ST0_STI_DFC8'', handle_code_FXCH_ST0_STI_DFC8 fp),
     (''FSTP_STI'', handle_code_FSTP_STI fp), (''FSTP_STI_DFD0'', handle_code_FSTP_STI_DFD0 fp),
     (''FSTP_STI_DFD8'', handle_code_FSTP_STI_DFD8 fp), (''FSTPNCE_STI'', handle_code_FSTPNCE_STI fp),
     (''FFREE_STI'', handle_code_FFREE_STI fp), (''FFREEP_STI'', handle_code_FFREEP_STI fp),
     (''MOVD_MM_RM32'', handle_code_MOVD_MM_RM32), (''MOVQ_MM_RM64'', handle_code_MOVQ_MM_RM64),
     (''MOVD_RM32_MM'', handle_code_MOVD_RM32_MM), (''MOVQ_RM64_MM'', handle_code_MOVQ_RM64_MM),
     (''MOVQ_MM_MMM64'', handle_code_MOVQ_MM_MMM64), (''MOVQ_MMM64_MM'', handle_code_MOVQ_MMM64_MM), (''FNINIT'', handle_code_FNINIT),
     (''FINIT'', handle_code_FINIT), (''EMMS'', handle_code_EMMS), (''FEMMS'', handle_code_FEMMS), (''FNCLEX'', handle_code_FNCLEX),
     (''FLD1'', handle_code_FLD1 fp), (''FLDL2T'', handle_code_FLDL2T fp), (''FLDL2E'', handle_code_FLDL2E fp),
     (''FLDPI'', handle_code_FLDPI fp), (''FLDLG2'', handle_code_FLDLG2 fp), (''FLDLN2'', handle_code_FLDLN2 fp),
     (''FLDZ'', handle_code_FLDZ fp), (''FCHS'', handle_code_FCHS fp), (''FABS'', handle_code_FABS fp),
     (''FSQRT'', handle_code_FSQRT fp), (''FRNDINT'', handle_code_FRNDINT fp), (''FSIN'', handle_code_FSIN fp),
     (''FCOS'', handle_code_FCOS fp), (''FSINCOS'', handle_code_FSINCOS fp), (''FPTAN'', handle_code_FPTAN fp),
     (''FPATAN'', handle_code_FPATAN fp), (''F2XM1'', handle_code_F2XM1 fp), (''FYL2X'', handle_code_FYL2X fp),
     (''FYL2XP1'', handle_code_FYL2XP1 fp), (''FSCALE'', handle_code_FSCALE fp), (''FLDENV_M14BYTE'', handle_code_FLDENV_M14BYTE),
     (''FLDENV_M28BYTE'', handle_code_FLDENV_M28BYTE), (''FLD_M32FP'', handle_code_FLD_M32FP fp),
     (''FLD_M64FP'', handle_code_FLD_M64FP fp), (''FLD_M80FP'', handle_code_FLD_M80FP fp), (''FLD_STI'', handle_code_FLD_STI fp),
     (''FNSTENV_M14BYTE'', handle_code_FNSTENV_M14BYTE), (''FSTENV_M14BYTE'', handle_code_FSTENV_M14BYTE),
     (''FNSTENV_M28BYTE'', handle_code_FNSTENV_M28BYTE), (''FSTENV_M28BYTE'', handle_code_FSTENV_M28BYTE),
     (''FLDCW_M2BYTE'', handle_code_FLDCW_M2BYTE), (''FNSTCW_M2BYTE'', handle_code_FNSTCW_M2BYTE),
     (''FST_M32FP'', handle_code_FST_M32FP fp), (''FST_M64FP'', handle_code_FST_M64FP fp), (''FST_STI'', handle_code_FST_STI fp),
     (''FNSTSW_M2BYTE'', handle_code_FNSTSW_M2BYTE), (''FSTSW_M2BYTE'', handle_code_FSTSW_M2BYTE),
     (''FNSTSW_AX'', handle_code_FNSTSW_AX), (''FSTSW_AX'', handle_code_FSTSW_AX), (''FXSAVE_M512BYTE'', handle_code_FXSAVE_M512BYTE),
     (''FXSAVE64_M512BYTE'', handle_code_FXSAVE64_M512BYTE), (''FXRSTOR_M512BYTE'', handle_code_FXRSTOR_M512BYTE fp),
     (''FXRSTOR64_M512BYTE'', handle_code_FXRSTOR64_M512BYTE fp), (''FSAVE_M94BYTE'', handle_code_FSAVE_M94BYTE),
     (''FSAVE_M108BYTE'', handle_code_FSAVE_M108BYTE), (''FRSTOR_M94BYTE'', handle_code_FRSTOR_M94BYTE fp),
     (''FRSTOR_M108BYTE'', handle_code_FRSTOR_M108BYTE fp), (''FILD_M16INT'', handle_code_FILD_M16INT fp),
     (''FILD_M32INT'', handle_code_FILD_M32INT fp), (''FILD_M64INT'', handle_code_FILD_M64INT fp),
     (''FIST_M16INT'', handle_code_FIST_M16INT fp), (''FIST_M32INT'', handle_code_FIST_M32INT fp),
     (''FISTP_M16INT'', handle_code_FISTP_M16INT fp), (''FISTP_M32INT'', handle_code_FISTP_M32INT fp),
     (''FISTP_M64INT'', handle_code_FISTP_M64INT fp), (''FISTTP_M16INT'', handle_code_FISTTP_M16INT fp),
     (''FISTTP_M32INT'', handle_code_FISTTP_M32INT fp), (''FISTTP_M64INT'', handle_code_FISTTP_M64INT fp),
     (''MASKMOVQ_R_DI_MM_MM'', handle_code_MASKMOVQ_R_DI_MM_MM), (''MASKMOVDQU_R_DI_XMM_XMM'', handle_code_MASKMOVDQU_R_DI_XMM_XMM),
     (''VEX_VMASKMOVDQU_R_DI_XMM_XMM'', handle_code_VEX_VMASKMOVDQU_R_DI_XMM_XMM), (''PMOVMSKB_R32_MM'', handle_code_PMOVMSKB_R32_MM),
     (''PMOVMSKB_R64_MM'', handle_code_PMOVMSKB_R64_MM), (''PMOVMSKB_R32_XMM'', handle_code_PMOVMSKB_R32_XMM),
     (''PMOVMSKB_R64_XMM'', handle_code_PMOVMSKB_R64_XMM), (''VEX_VPMOVMSKB_R32_XMM'', handle_code_VEX_VPMOVMSKB_R32_XMM),
     (''VEX_VPMOVMSKB_R64_XMM'', handle_code_VEX_VPMOVMSKB_R64_XMM), (''VEX_VPMOVMSKB_R32_YMM'', handle_code_VEX_VPMOVMSKB_R32_YMM),
     (''VEX_VPMOVMSKB_R64_YMM'', handle_code_VEX_VPMOVMSKB_R64_YMM), (''MOVMSKPD_R32_XMM'', handle_code_MOVMSKPD_R32_XMM),
     (''MOVMSKPD_R64_XMM'', handle_code_MOVMSKPD_R64_XMM), (''MOVQ2DQ_XMM_MM'', handle_code_MOVQ2DQ_XMM_MM),
     (''MOVDQ2Q_MM_XMM'', handle_code_MOVDQ2Q_MM_XMM)]"

text \<open>The handlers written out in the source.\<close>

lemma wf_x87_written_out:
  "wf_handler (handle_code_FTST fp)" "wf_handler (handle_code_FCMOVB_ST0_STI fp)" "wf_handler (handle_code_FCMOVBE_ST0_STI fp)"
  "wf_handler (handle_code_FCMOVE_ST0_STI fp)" "wf_handler (handle_code_FCMOVNB_ST0_STI fp)"
  "wf_handler (handle_code_FCMOVNBE_ST0_STI fp)" "wf_handler (handle_code_FCMOVNE_ST0_STI fp)"
  "wf_handler (handle_code_FCMOVNU_ST0_STI fp)" "wf_handler (handle_code_FCMOVU_ST0_STI fp)" "wf_handler handle_code_FNOP"
  "wf_handler handle_code_FDECSTP" "wf_handler handle_code_FINCSTP" "wf_handler (handle_code_FXAM fp)" "wf_handler handle_code_FNINIT"
  "wf_handler handle_code_FINIT" "wf_handler handle_code_EMMS" "wf_handler handle_code_FEMMS" "wf_handler handle_code_FNCLEX"
  "wf_handler (handle_code_FLD1 fp)" "wf_handler (handle_code_FLDL2T fp)" "wf_handler (handle_code_FLDL2E fp)"
  "wf_handler (handle_code_FLDPI fp)" "wf_handler (handle_code_FLDLG2 fp)" "wf_handler (handle_code_FLDLN2 fp)"
  "wf_handler (handle_code_FLDZ fp)" "wf_handler (handle_code_FSQRT fp)" "wf_handler (handle_code_FRNDINT fp)"
  "wf_handler (handle_code_FSIN fp)" "wf_handler (handle_code_FCOS fp)" "wf_handler (handle_code_FSINCOS fp)"
  "wf_handler (handle_code_FPTAN fp)" "wf_handler (handle_code_FPATAN fp)" "wf_handler (handle_code_F2XM1 fp)"
  "wf_handler (handle_code_FYL2X fp)" "wf_handler (handle_code_FYL2XP1 fp)" "wf_handler (handle_code_FSCALE fp)"
  "wf_handler handle_code_FLDENV_M14BYTE" "wf_handler handle_code_FLDENV_M28BYTE" "wf_handler (handle_code_FLD_STI fp)"
  "wf_handler handle_code_FNSTENV_M14BYTE" "wf_handler handle_code_FNSTENV_M28BYTE" "wf_handler handle_code_FLDCW_M2BYTE"
  "wf_handler handle_code_FNSTCW_M2BYTE" "wf_handler handle_code_FNSTSW_M2BYTE" "wf_handler handle_code_FNSTSW_AX"
  "wf_handler handle_code_MOVQ2DQ_XMM_MM" "wf_handler handle_code_MOVDQ2Q_MM_XMM"
  by (simp_all add: wf_handler_def case_prod_beta Let_def
      handle_code_FTST_def handle_code_FCMOVB_ST0_STI_def handle_code_FCMOVBE_ST0_STI_def handle_code_FCMOVE_ST0_STI_def
      handle_code_FCMOVNB_ST0_STI_def handle_code_FCMOVNBE_ST0_STI_def handle_code_FCMOVNE_ST0_STI_def handle_code_FCMOVNU_ST0_STI_def
      handle_code_FCMOVU_ST0_STI_def handle_code_FNOP_def handle_code_FDECSTP_def handle_code_FINCSTP_def handle_code_FXAM_def
      handle_code_FNINIT_def handle_code_FINIT_def handle_code_EMMS_def handle_code_FEMMS_def handle_code_FNCLEX_def
      handle_code_FLD1_def handle_code_FLDL2T_def handle_code_FLDL2E_def handle_code_FLDPI_def handle_code_FLDLG2_def
      handle_code_FLDLN2_def handle_code_FLDZ_def handle_code_FSQRT_def handle_code_FRNDINT_def handle_code_FSIN_def
      handle_code_FCOS_def handle_code_FSINCOS_def handle_code_FPTAN_def handle_code_FPATAN_def handle_code_F2XM1_def
      handle_code_FYL2X_def handle_code_FYL2XP1_def handle_code_FSCALE_def handle_code_FLDENV_M14BYTE_def
      handle_code_FLDENV_M28BYTE_def handle_code_FLD_STI_def handle_code_FNSTENV_M14BYTE_def handle_code_FNSTENV_M28BYTE_def
      handle_code_FLDCW_M2BYTE_def handle_code_FNSTCW_M2BYTE_def handle_code_FNSTSW_M2BYTE_def handle_code_FNSTSW_AX_def
      handle_code_MOVQ2DQ_XMM_MM_def handle_code_MOVDQ2Q_MM_XMM_def
      split: option.split sum.split bool.split)

lemma x87_table_wf: "list_all (\<lambda>(cd, h). wf_handler h) (x87_table fp)"
  by (simp add: x87_table_def wf_x87_written_out wf_then_pop
    handle_code_FADD_M32FP_def handle_code_FSUBR_M32FP_def handle_code_FDIVR_M32FP_def handle_code_FMUL_M32FP_def
    handle_code_FSUB_M32FP_def handle_code_FDIV_M32FP_def handle_code_FADD_ST0_STI_def handle_code_FMUL_ST0_STI_def
    handle_code_FSUB_ST0_STI_def handle_code_FSUBR_ST0_STI_def handle_code_FDIV_ST0_STI_def handle_code_FDIVR_ST0_STI_def
    handle_code_FADD_M64FP_def handle_code_FSUBR_M64FP_def handle_code_FDIVR_M64FP_def handle_code_FMUL_M64FP_def
    handle_code_FSUB_M64FP_def handle_code_FDIV_M64FP_def handle_code_FADD_STI_ST0_def handle_code_FMUL_STI_ST0_def
    handle_code_FSUBR_STI_ST0_def handle_code_FSUB_STI_ST0_def handle_code_FDIVR_STI_ST0_def handle_code_FDIV_STI_ST0_def
    handle_code_FADDP_STI_ST0_def handle_code_FMULP_STI_ST0_def handle_code_FSUBRP_STI_ST0_def handle_code_FSUBP_STI_ST0_def
    handle_code_FDIVRP_STI_ST0_def handle_code_FDIVP_STI_ST0_def handle_code_FSTP_M32FP_def handle_code_FSTP_M64FP_def
    handle_code_FIADD_M16INT_def handle_code_FIADD_M32INT_def handle_code_FIMUL_M16INT_def handle_code_FIMUL_M32INT_def
    handle_code_FISUB_M16INT_def handle_code_FISUB_M32INT_def handle_code_FISUBR_M16INT_def handle_code_FISUBR_M32INT_def
    handle_code_FIDIV_M16INT_def handle_code_FIDIV_M32INT_def handle_code_FIDIVR_M16INT_def handle_code_FIDIVR_M32INT_def
    handle_code_FPREM_def handle_code_FPREM1_def handle_code_FCOM_M32FP_def handle_code_FCOMP_M32FP_def handle_code_FCOM_ST0_STI_def
    handle_code_FCOMP_ST0_STI_def handle_code_FCOMPP_def handle_code_FUCOMPP_def handle_code_FCOMI_ST0_STI_def
    handle_code_FUCOMI_ST0_STI_def handle_code_FCOMIP_ST0_STI_def handle_code_FUCOMIP_ST0_STI_def handle_code_FCOM_M64FP_def
    handle_code_FCOMP_M64FP_def handle_code_FUCOM_ST0_STI_def handle_code_FUCOMP_ST0_STI_def handle_code_FCOM_ST0_STI_DCD0_def
    handle_code_FCOMP_ST0_STI_DCD8_def handle_code_FCOMP_ST0_STI_DED0_def handle_code_FBLD_M80BCD_def handle_code_FBSTP_M80BCD_def
    handle_code_FSTP_M80FP_def handle_code_FXCH_ST0_STI_def handle_code_FXCH_ST0_STI_DDC8_def handle_code_FXCH_ST0_STI_DFC8_def
    handle_code_FSTP_STI_def handle_code_FSTP_STI_DFD0_def handle_code_FSTP_STI_DFD8_def handle_code_FSTPNCE_STI_def
    handle_code_FFREE_STI_def handle_code_FFREEP_STI_def handle_code_MOVD_MM_RM32_def handle_code_MOVQ_MM_RM64_def
    handle_code_MOVD_RM32_MM_def handle_code_MOVQ_RM64_MM_def handle_code_MOVQ_MM_MMM64_def handle_code_MOVQ_MMM64_MM_def
    handle_code_FCHS_def handle_code_FABS_def handle_code_FLD_M32FP_def handle_code_FLD_M64FP_def handle_code_FLD_M80FP_def
    handle_code_FSTENV_M14BYTE_def handle_code_FSTENV_M28BYTE_def handle_code_FST_M32FP_def handle_code_FST_M64FP_def
    handle_code_FST_STI_def handle_code_FSTSW_M2BYTE_def handle_code_FSTSW_AX_def handle_code_FXSAVE_M512BYTE_def
    handle_code_FXSAVE64_M512BYTE_def handle_code_FXRSTOR_M512BYTE_def handle_code_FXRSTOR64_M512BYTE_def handle_code_FSAVE_M94BYTE_def
    handle_code_FSAVE_M108BYTE_def handle_code_FRSTOR_M94BYTE_def handle_code_FRSTOR_M108BYTE_def handle_code_FILD_M16INT_def
    handle_code_FILD_M32INT_def handle_code_FILD_M64INT_def handle_code_FIST_M16INT_def handle_code_FIST_M32INT_def
    handle_code_FISTP_M16INT_def handle_code_FISTP_M32INT_def handle_code_FISTP_M64INT_def handle_code_FISTTP_M16INT_def
    handle_code_FISTTP_M32INT_def handle_code_FISTTP_M64INT_def handle_code_MASKMOVQ_R_DI_MM_MM_def
    handle_code_MASKMOVDQU_R_DI_XMM_XMM_def handle_code_VEX_VMASKMOVDQU_R_DI_XMM_XMM_def handle_code_PMOVMSKB_R32_MM_def
    handle_code_PMOVMSKB_R64_MM_def handle_code_PMOVMSKB_R32_XMM_def handle_code_PMOVMSKB_R64_XMM_def
    handle_code_VEX_VPMOVMSKB_R32_XMM_def handle_code_VEX_VPMOVMSKB_R64_XMM_def handle_code_VEX_VPMOVMSKB_R32_YMM_def
    handle_code_VEX_VPMOVMSKB_R64_YMM_def handle_code_MOVMSKPD_R32_XMM_def handle_code_MOVMSKPD_R64_XMM_def)

end
