(* ===== verification/Dispatch.thy ===== *)
theory Dispatch
  imports X87_Dispatch Executor_Step
begin

text \<open>
  The dispatch of \<^verbatim>\<open>executor.cpp\<close> on the modelled instruction codes: the entries of \<^verbatim>\<open>handled_codes.def\<close> whose handlers the
  development models, one table per component (those of the vector instructions are in \<open>Simd_Dispatch\<close>, those of the x87 instructions in \<open>X87_Dispatch\<close>), and that every handler in them keeps the machine invariant. \<^verbatim>\<open>RDTSC\<close>, whose handler has a
  counter of its own, has no entry.
\<close>

section \<open>The tables\<close>

definition alu_table :: "(icode \<times> 'w handler) list" where
  "alu_table =
    [(''ADD_RM8_R8'', handle_code_ADD_RM8_R8), (''ADD_R8_RM8'', handle_code_ADD_R8_RM8), (''ADD_RM8_IMM8'', handle_code_ADD_RM8_IMM8),
     (''ADD_RM8_IMM8_82'', handle_code_ADD_RM8_IMM8_82), (''ADD_AL_IMM8'', handle_code_ADD_AL_IMM8),
     (''ADD_AX_IMM16'', handle_code_ADD_AX_IMM16), (''ADD_EAX_IMM32'', handle_code_ADD_EAX_IMM32),
     (''ADD_RAX_IMM32'', handle_code_ADD_RAX_IMM32), (''ADD_RM16_R16'', handle_code_ADD_RM16_R16),
     (''ADD_R16_RM16'', handle_code_ADD_R16_RM16), (''ADD_RM16_IMM16'', handle_code_ADD_RM16_IMM16),
     (''ADD_RM16_IMM8'', handle_code_ADD_RM16_IMM8), (''ADD_RM32_R32'', handle_code_ADD_RM32_R32),
     (''ADD_R32_RM32'', handle_code_ADD_R32_RM32), (''ADD_RM32_IMM32'', handle_code_ADD_RM32_IMM32),
     (''ADD_RM32_IMM8'', handle_code_ADD_RM32_IMM8), (''ADD_RM64_R64'', handle_code_ADD_RM64_R64),
     (''ADD_R64_RM64'', handle_code_ADD_R64_RM64), (''ADD_RM64_IMM32'', handle_code_ADD_RM64_IMM32),
     (''ADD_RM64_IMM8'', handle_code_ADD_RM64_IMM8), (''SUB_RM8_R8'', handle_code_SUB_RM8_R8),
     (''SUB_R8_RM8'', handle_code_SUB_R8_RM8), (''SUB_RM8_IMM8'', handle_code_SUB_RM8_IMM8),
     (''SUB_RM8_IMM8_82'', handle_code_SUB_RM8_IMM8_82), (''SUB_AL_IMM8'', handle_code_SUB_AL_IMM8),
     (''SUB_AX_IMM16'', handle_code_SUB_AX_IMM16), (''SUB_EAX_IMM32'', handle_code_SUB_EAX_IMM32),
     (''SUB_RAX_IMM32'', handle_code_SUB_RAX_IMM32), (''SUB_RM16_R16'', handle_code_SUB_RM16_R16),
     (''SUB_R16_RM16'', handle_code_SUB_R16_RM16), (''SUB_RM16_IMM16'', handle_code_SUB_RM16_IMM16),
     (''SUB_RM16_IMM8'', handle_code_SUB_RM16_IMM8), (''SUB_RM32_R32'', handle_code_SUB_RM32_R32),
     (''SUB_R32_RM32'', handle_code_SUB_R32_RM32), (''SUB_RM32_IMM32'', handle_code_SUB_RM32_IMM32),
     (''SUB_RM32_IMM8'', handle_code_SUB_RM32_IMM8), (''SUB_RM64_R64'', handle_code_SUB_RM64_R64),
     (''SUB_R64_RM64'', handle_code_SUB_R64_RM64), (''SUB_RM64_IMM32'', handle_code_SUB_RM64_IMM32),
     (''SUB_RM64_IMM8'', handle_code_SUB_RM64_IMM8), (''ADC_RM8_R8'', handle_code_ADC_RM8_R8),
     (''ADC_R8_RM8'', handle_code_ADC_R8_RM8), (''ADC_RM8_IMM8'', handle_code_ADC_RM8_IMM8),
     (''ADC_RM8_IMM8_82'', handle_code_ADC_RM8_IMM8_82), (''ADC_AL_IMM8'', handle_code_ADC_AL_IMM8),
     (''ADC_AX_IMM16'', handle_code_ADC_AX_IMM16), (''ADC_EAX_IMM32'', handle_code_ADC_EAX_IMM32),
     (''ADC_RAX_IMM32'', handle_code_ADC_RAX_IMM32), (''ADC_RM16_R16'', handle_code_ADC_RM16_R16),
     (''ADC_R16_RM16'', handle_code_ADC_R16_RM16), (''ADC_RM16_IMM16'', handle_code_ADC_RM16_IMM16),
     (''ADC_RM16_IMM8'', handle_code_ADC_RM16_IMM8), (''ADC_RM32_R32'', handle_code_ADC_RM32_R32),
     (''ADC_R32_RM32'', handle_code_ADC_R32_RM32), (''ADC_RM32_IMM32'', handle_code_ADC_RM32_IMM32),
     (''ADC_RM32_IMM8'', handle_code_ADC_RM32_IMM8), (''ADC_RM64_R64'', handle_code_ADC_RM64_R64),
     (''ADC_R64_RM64'', handle_code_ADC_R64_RM64), (''ADC_RM64_IMM32'', handle_code_ADC_RM64_IMM32),
     (''ADC_RM64_IMM8'', handle_code_ADC_RM64_IMM8), (''SBB_RM8_R8'', handle_code_SBB_RM8_R8),
     (''SBB_R8_RM8'', handle_code_SBB_R8_RM8), (''SBB_RM8_IMM8'', handle_code_SBB_RM8_IMM8),
     (''SBB_RM8_IMM8_82'', handle_code_SBB_RM8_IMM8_82), (''SBB_AL_IMM8'', handle_code_SBB_AL_IMM8),
     (''SBB_AX_IMM16'', handle_code_SBB_AX_IMM16), (''SBB_EAX_IMM32'', handle_code_SBB_EAX_IMM32),
     (''SBB_RAX_IMM32'', handle_code_SBB_RAX_IMM32), (''SBB_RM16_R16'', handle_code_SBB_RM16_R16),
     (''SBB_R16_RM16'', handle_code_SBB_R16_RM16), (''SBB_RM16_IMM16'', handle_code_SBB_RM16_IMM16),
     (''SBB_RM16_IMM8'', handle_code_SBB_RM16_IMM8), (''SBB_RM32_R32'', handle_code_SBB_RM32_R32),
     (''SBB_R32_RM32'', handle_code_SBB_R32_RM32), (''SBB_RM32_IMM32'', handle_code_SBB_RM32_IMM32),
     (''SBB_RM32_IMM8'', handle_code_SBB_RM32_IMM8), (''SBB_RM64_R64'', handle_code_SBB_RM64_R64),
     (''SBB_R64_RM64'', handle_code_SBB_R64_RM64), (''SBB_RM64_IMM32'', handle_code_SBB_RM64_IMM32),
     (''SBB_RM64_IMM8'', handle_code_SBB_RM64_IMM8), (''AND_RM8_R8'', handle_code_AND_RM8_R8),
     (''AND_R8_RM8'', handle_code_AND_R8_RM8), (''AND_RM8_IMM8'', handle_code_AND_RM8_IMM8),
     (''AND_RM8_IMM8_82'', handle_code_AND_RM8_IMM8_82), (''AND_AL_IMM8'', handle_code_AND_AL_IMM8),
     (''AND_AX_IMM16'', handle_code_AND_AX_IMM16), (''AND_EAX_IMM32'', handle_code_AND_EAX_IMM32),
     (''AND_RAX_IMM32'', handle_code_AND_RAX_IMM32), (''AND_RM16_R16'', handle_code_AND_RM16_R16),
     (''AND_R16_RM16'', handle_code_AND_R16_RM16), (''AND_RM16_IMM16'', handle_code_AND_RM16_IMM16),
     (''AND_RM16_IMM8'', handle_code_AND_RM16_IMM8), (''AND_RM32_R32'', handle_code_AND_RM32_R32),
     (''AND_R32_RM32'', handle_code_AND_R32_RM32), (''AND_RM32_IMM32'', handle_code_AND_RM32_IMM32),
     (''AND_RM32_IMM8'', handle_code_AND_RM32_IMM8), (''AND_RM64_R64'', handle_code_AND_RM64_R64),
     (''AND_R64_RM64'', handle_code_AND_R64_RM64), (''AND_RM64_IMM32'', handle_code_AND_RM64_IMM32),
     (''AND_RM64_IMM8'', handle_code_AND_RM64_IMM8), (''OR_RM8_R8'', handle_code_OR_RM8_R8), (''OR_R8_RM8'', handle_code_OR_R8_RM8),
     (''OR_RM8_IMM8'', handle_code_OR_RM8_IMM8), (''OR_RM8_IMM8_82'', handle_code_OR_RM8_IMM8_82),
     (''OR_AL_IMM8'', handle_code_OR_AL_IMM8), (''OR_AX_IMM16'', handle_code_OR_AX_IMM16),
     (''OR_EAX_IMM32'', handle_code_OR_EAX_IMM32), (''OR_RAX_IMM32'', handle_code_OR_RAX_IMM32),
     (''OR_RM16_R16'', handle_code_OR_RM16_R16), (''OR_R16_RM16'', handle_code_OR_R16_RM16),
     (''OR_RM16_IMM16'', handle_code_OR_RM16_IMM16), (''OR_RM16_IMM8'', handle_code_OR_RM16_IMM8),
     (''OR_RM32_R32'', handle_code_OR_RM32_R32), (''OR_R32_RM32'', handle_code_OR_R32_RM32),
     (''OR_RM32_IMM32'', handle_code_OR_RM32_IMM32), (''OR_RM32_IMM8'', handle_code_OR_RM32_IMM8),
     (''OR_RM64_R64'', handle_code_OR_RM64_R64), (''OR_R64_RM64'', handle_code_OR_R64_RM64),
     (''OR_RM64_IMM32'', handle_code_OR_RM64_IMM32), (''OR_RM64_IMM8'', handle_code_OR_RM64_IMM8),
     (''XOR_RM8_R8'', handle_code_XOR_RM8_R8), (''XOR_R8_RM8'', handle_code_XOR_R8_RM8), (''XOR_RM8_IMM8'', handle_code_XOR_RM8_IMM8),
     (''XOR_RM8_IMM8_82'', handle_code_XOR_RM8_IMM8_82), (''XOR_AL_IMM8'', handle_code_XOR_AL_IMM8),
     (''XOR_AX_IMM16'', handle_code_XOR_AX_IMM16), (''XOR_EAX_IMM32'', handle_code_XOR_EAX_IMM32),
     (''XOR_RAX_IMM32'', handle_code_XOR_RAX_IMM32), (''XOR_RM16_R16'', handle_code_XOR_RM16_R16),
     (''XOR_R16_RM16'', handle_code_XOR_R16_RM16), (''XOR_RM16_IMM16'', handle_code_XOR_RM16_IMM16),
     (''XOR_RM16_IMM8'', handle_code_XOR_RM16_IMM8), (''XOR_RM32_R32'', handle_code_XOR_RM32_R32),
     (''XOR_R32_RM32'', handle_code_XOR_R32_RM32), (''XOR_RM32_IMM32'', handle_code_XOR_RM32_IMM32),
     (''XOR_RM32_IMM8'', handle_code_XOR_RM32_IMM8), (''XOR_RM64_R64'', handle_code_XOR_RM64_R64),
     (''XOR_R64_RM64'', handle_code_XOR_R64_RM64), (''XOR_RM64_IMM32'', handle_code_XOR_RM64_IMM32),
     (''XOR_RM64_IMM8'', handle_code_XOR_RM64_IMM8), (''CMP_RM8_R8'', handle_code_CMP_RM8_R8),
     (''CMP_R8_RM8'', handle_code_CMP_R8_RM8), (''CMP_RM8_IMM8'', handle_code_CMP_RM8_IMM8),
     (''CMP_RM8_IMM8_82'', handle_code_CMP_RM8_IMM8_82), (''CMP_AL_IMM8'', handle_code_CMP_AL_IMM8),
     (''CMP_AX_IMM16'', handle_code_CMP_AX_IMM16), (''CMP_EAX_IMM32'', handle_code_CMP_EAX_IMM32),
     (''CMP_RAX_IMM32'', handle_code_CMP_RAX_IMM32), (''CMP_RM16_R16'', handle_code_CMP_RM16_R16),
     (''CMP_R16_RM16'', handle_code_CMP_R16_RM16), (''CMP_RM16_IMM16'', handle_code_CMP_RM16_IMM16),
     (''CMP_RM16_IMM8'', handle_code_CMP_RM16_IMM8), (''CMP_RM32_R32'', handle_code_CMP_RM32_R32),
     (''CMP_R32_RM32'', handle_code_CMP_R32_RM32), (''CMP_RM32_IMM32'', handle_code_CMP_RM32_IMM32),
     (''CMP_RM32_IMM8'', handle_code_CMP_RM32_IMM8), (''CMP_RM64_R64'', handle_code_CMP_RM64_R64),
     (''CMP_R64_RM64'', handle_code_CMP_R64_RM64), (''CMP_RM64_IMM32'', handle_code_CMP_RM64_IMM32),
     (''CMP_RM64_IMM8'', handle_code_CMP_RM64_IMM8), (''TEST_RM8_R8'', handle_code_TEST_RM8_R8),
     (''TEST_RM16_R16'', handle_code_TEST_RM16_R16), (''TEST_RM32_R32'', handle_code_TEST_RM32_R32),
     (''TEST_RM64_R64'', handle_code_TEST_RM64_R64), (''TEST_RM8_IMM8'', handle_code_TEST_RM8_IMM8),
     (''TEST_RM16_IMM16'', handle_code_TEST_RM16_IMM16), (''TEST_RM32_IMM32'', handle_code_TEST_RM32_IMM32),
     (''TEST_RM64_IMM32'', handle_code_TEST_RM64_IMM32), (''TEST_AL_IMM8'', handle_code_TEST_AL_IMM8),
     (''TEST_AX_IMM16'', handle_code_TEST_AX_IMM16), (''TEST_EAX_IMM32'', handle_code_TEST_EAX_IMM32),
     (''TEST_RAX_IMM32'', handle_code_TEST_RAX_IMM32), (''TEST_RM8_IMM8_F6R1'', handle_code_TEST_RM8_IMM8_F6R1),
     (''TEST_RM16_IMM16_F7R1'', handle_code_TEST_RM16_IMM16_F7R1), (''TEST_RM32_IMM32_F7R1'', handle_code_TEST_RM32_IMM32_F7R1),
     (''TEST_RM64_IMM32_F7R1'', handle_code_TEST_RM64_IMM32_F7R1)]"

lemma alu_table_wf: "list_all (\<lambda>(cd, h). wf_handler h) alu_table"
  by (simp add: alu_table_def
    handle_code_ADD_RM8_R8_def handle_code_ADD_R8_RM8_def handle_code_ADD_RM8_IMM8_def handle_code_ADD_RM8_IMM8_82_def
    handle_code_ADD_AL_IMM8_def handle_code_ADD_AX_IMM16_def handle_code_ADD_EAX_IMM32_def handle_code_ADD_RAX_IMM32_def
    handle_code_ADD_RM16_R16_def handle_code_ADD_R16_RM16_def handle_code_ADD_RM16_IMM16_def handle_code_ADD_RM16_IMM8_def
    handle_code_ADD_RM32_R32_def handle_code_ADD_R32_RM32_def handle_code_ADD_RM32_IMM32_def handle_code_ADD_RM32_IMM8_def
    handle_code_ADD_RM64_R64_def handle_code_ADD_R64_RM64_def handle_code_ADD_RM64_IMM32_def handle_code_ADD_RM64_IMM8_def
    handle_code_SUB_RM8_R8_def handle_code_SUB_R8_RM8_def handle_code_SUB_RM8_IMM8_def handle_code_SUB_RM8_IMM8_82_def
    handle_code_SUB_AL_IMM8_def handle_code_SUB_AX_IMM16_def handle_code_SUB_EAX_IMM32_def handle_code_SUB_RAX_IMM32_def
    handle_code_SUB_RM16_R16_def handle_code_SUB_R16_RM16_def handle_code_SUB_RM16_IMM16_def handle_code_SUB_RM16_IMM8_def
    handle_code_SUB_RM32_R32_def handle_code_SUB_R32_RM32_def handle_code_SUB_RM32_IMM32_def handle_code_SUB_RM32_IMM8_def
    handle_code_SUB_RM64_R64_def handle_code_SUB_R64_RM64_def handle_code_SUB_RM64_IMM32_def handle_code_SUB_RM64_IMM8_def
    handle_code_ADC_RM8_R8_def handle_code_ADC_R8_RM8_def handle_code_ADC_RM8_IMM8_def handle_code_ADC_RM8_IMM8_82_def
    handle_code_ADC_AL_IMM8_def handle_code_ADC_AX_IMM16_def handle_code_ADC_EAX_IMM32_def handle_code_ADC_RAX_IMM32_def
    handle_code_ADC_RM16_R16_def handle_code_ADC_R16_RM16_def handle_code_ADC_RM16_IMM16_def handle_code_ADC_RM16_IMM8_def
    handle_code_ADC_RM32_R32_def handle_code_ADC_R32_RM32_def handle_code_ADC_RM32_IMM32_def handle_code_ADC_RM32_IMM8_def
    handle_code_ADC_RM64_R64_def handle_code_ADC_R64_RM64_def handle_code_ADC_RM64_IMM32_def handle_code_ADC_RM64_IMM8_def
    handle_code_SBB_RM8_R8_def handle_code_SBB_R8_RM8_def handle_code_SBB_RM8_IMM8_def handle_code_SBB_RM8_IMM8_82_def
    handle_code_SBB_AL_IMM8_def handle_code_SBB_AX_IMM16_def handle_code_SBB_EAX_IMM32_def handle_code_SBB_RAX_IMM32_def
    handle_code_SBB_RM16_R16_def handle_code_SBB_R16_RM16_def handle_code_SBB_RM16_IMM16_def handle_code_SBB_RM16_IMM8_def
    handle_code_SBB_RM32_R32_def handle_code_SBB_R32_RM32_def handle_code_SBB_RM32_IMM32_def handle_code_SBB_RM32_IMM8_def
    handle_code_SBB_RM64_R64_def handle_code_SBB_R64_RM64_def handle_code_SBB_RM64_IMM32_def handle_code_SBB_RM64_IMM8_def
    handle_code_AND_RM8_R8_def handle_code_AND_R8_RM8_def handle_code_AND_RM8_IMM8_def handle_code_AND_RM8_IMM8_82_def
    handle_code_AND_AL_IMM8_def handle_code_AND_AX_IMM16_def handle_code_AND_EAX_IMM32_def handle_code_AND_RAX_IMM32_def
    handle_code_AND_RM16_R16_def handle_code_AND_R16_RM16_def handle_code_AND_RM16_IMM16_def handle_code_AND_RM16_IMM8_def
    handle_code_AND_RM32_R32_def handle_code_AND_R32_RM32_def handle_code_AND_RM32_IMM32_def handle_code_AND_RM32_IMM8_def
    handle_code_AND_RM64_R64_def handle_code_AND_R64_RM64_def handle_code_AND_RM64_IMM32_def handle_code_AND_RM64_IMM8_def
    handle_code_OR_RM8_R8_def handle_code_OR_R8_RM8_def handle_code_OR_RM8_IMM8_def handle_code_OR_RM8_IMM8_82_def
    handle_code_OR_AL_IMM8_def handle_code_OR_AX_IMM16_def handle_code_OR_EAX_IMM32_def handle_code_OR_RAX_IMM32_def
    handle_code_OR_RM16_R16_def handle_code_OR_R16_RM16_def handle_code_OR_RM16_IMM16_def handle_code_OR_RM16_IMM8_def
    handle_code_OR_RM32_R32_def handle_code_OR_R32_RM32_def handle_code_OR_RM32_IMM32_def handle_code_OR_RM32_IMM8_def
    handle_code_OR_RM64_R64_def handle_code_OR_R64_RM64_def handle_code_OR_RM64_IMM32_def handle_code_OR_RM64_IMM8_def
    handle_code_XOR_RM8_R8_def handle_code_XOR_R8_RM8_def handle_code_XOR_RM8_IMM8_def handle_code_XOR_RM8_IMM8_82_def
    handle_code_XOR_AL_IMM8_def handle_code_XOR_AX_IMM16_def handle_code_XOR_EAX_IMM32_def handle_code_XOR_RAX_IMM32_def
    handle_code_XOR_RM16_R16_def handle_code_XOR_R16_RM16_def handle_code_XOR_RM16_IMM16_def handle_code_XOR_RM16_IMM8_def
    handle_code_XOR_RM32_R32_def handle_code_XOR_R32_RM32_def handle_code_XOR_RM32_IMM32_def handle_code_XOR_RM32_IMM8_def
    handle_code_XOR_RM64_R64_def handle_code_XOR_R64_RM64_def handle_code_XOR_RM64_IMM32_def handle_code_XOR_RM64_IMM8_def
    handle_code_CMP_RM8_R8_def handle_code_CMP_R8_RM8_def handle_code_CMP_RM8_IMM8_def handle_code_CMP_RM8_IMM8_82_def
    handle_code_CMP_AL_IMM8_def handle_code_CMP_AX_IMM16_def handle_code_CMP_EAX_IMM32_def handle_code_CMP_RAX_IMM32_def
    handle_code_CMP_RM16_R16_def handle_code_CMP_R16_RM16_def handle_code_CMP_RM16_IMM16_def handle_code_CMP_RM16_IMM8_def
    handle_code_CMP_RM32_R32_def handle_code_CMP_R32_RM32_def handle_code_CMP_RM32_IMM32_def handle_code_CMP_RM32_IMM8_def
    handle_code_CMP_RM64_R64_def handle_code_CMP_R64_RM64_def handle_code_CMP_RM64_IMM32_def handle_code_CMP_RM64_IMM8_def
    handle_code_TEST_RM8_R8_def handle_code_TEST_RM16_R16_def handle_code_TEST_RM32_R32_def handle_code_TEST_RM64_R64_def
    handle_code_TEST_RM8_IMM8_def handle_code_TEST_RM16_IMM16_def handle_code_TEST_RM32_IMM32_def handle_code_TEST_RM64_IMM32_def
    handle_code_TEST_AL_IMM8_def handle_code_TEST_AX_IMM16_def handle_code_TEST_EAX_IMM32_def handle_code_TEST_RAX_IMM32_def
    handle_code_TEST_RM8_IMM8_F6R1_def handle_code_TEST_RM16_IMM16_F7R1_def handle_code_TEST_RM32_IMM32_F7R1_def
    handle_code_TEST_RM64_IMM32_F7R1_def)

definition control_flow_table :: "(icode \<times> 'w handler) list" where
  "control_flow_table =
    [(''PUSH_R64'', handle_code_PUSH_R64), (''PUSH_RM64'', handle_code_PUSH_RM64), (''PUSHQ_IMM8'', handle_code_PUSHQ_IMM8),
     (''PUSHQ_IMM32'', handle_code_PUSHQ_IMM32), (''PUSH_R16'', handle_code_PUSH_R16), (''PUSH_R32'', handle_code_PUSH_R32),
     (''PUSH_RM16'', handle_code_PUSH_RM16), (''PUSH_RM32'', handle_code_PUSH_RM32), (''PUSH_IMM16'', handle_code_PUSH_IMM16),
     (''PUSHW_IMM8'', handle_code_PUSHW_IMM8), (''PUSHD_IMM8'', handle_code_PUSHD_IMM8), (''PUSHD_IMM32'', handle_code_PUSHD_IMM32),
     (''PUSHW_ES'', handle_code_PUSHW_ES), (''PUSHW_CS'', handle_code_PUSHW_CS), (''PUSHW_SS'', handle_code_PUSHW_SS),
     (''PUSHW_DS'', handle_code_PUSHW_DS), (''PUSHW_FS'', handle_code_PUSHW_FS), (''PUSHW_GS'', handle_code_PUSHW_GS),
     (''PUSHD_ES'', handle_code_PUSHD_ES), (''PUSHD_CS'', handle_code_PUSHD_CS), (''PUSHD_SS'', handle_code_PUSHD_SS),
     (''PUSHD_DS'', handle_code_PUSHD_DS), (''PUSHD_FS'', handle_code_PUSHD_FS), (''PUSHD_GS'', handle_code_PUSHD_GS),
     (''PUSHQ_FS'', handle_code_PUSHQ_FS), (''PUSHQ_GS'', handle_code_PUSHQ_GS), (''PUSHFW'', handle_code_PUSHFW),
     (''PUSHFD'', handle_code_PUSHFD), (''PUSHAW'', handle_code_PUSHAW), (''PUSHAD'', handle_code_PUSHAD),
     (''POP_R16'', handle_code_POP_R16), (''POP_R32'', handle_code_POP_R32), (''POP_RM16'', handle_code_POP_RM16),
     (''POP_RM32'', handle_code_POP_RM32), (''POPW_SS'', handle_code_POPW_SS), (''POP_R64'', handle_code_POP_R64),
     (''POP_RM64'', handle_code_POP_RM64), (''POPD_SS'', handle_code_POPD_SS), (''CALL_RM64'', handle_code_CALL_RM64),
     (''CALL_REL32_64'', handle_code_CALL_REL32_64), (''CALL_RM16'', handle_code_CALL_RM16), (''CALL_RM32'', handle_code_CALL_RM32),
     (''CALL_REL16'', handle_code_CALL_REL16), (''CALL_REL32_32'', handle_code_CALL_REL32_32),
     (''CALL_M1616'', handle_code_CALL_M1616), (''CALL_M1632'', handle_code_CALL_M1632), (''CALL_M1664'', handle_code_CALL_M1664),
     (''CALL_PTR1616'', handle_code_CALL_PTR1616), (''CALL_PTR1632'', handle_code_CALL_PTR1632), (''RETNQ'', handle_code_RETNQ),
     (''RETNQ_IMM16'', handle_code_RETNQ_IMM16), (''RETNW'', handle_code_RETNW), (''RETNW_IMM16'', handle_code_RETNW_IMM16),
     (''RETND'', handle_code_RETND), (''RETND_IMM16'', handle_code_RETND_IMM16), (''RETFW'', handle_code_RETFW),
     (''RETFD'', handle_code_RETFD), (''RETFQ'', handle_code_RETFQ), (''RETFW_IMM16'', handle_code_RETFW_IMM16),
     (''RETFD_IMM16'', handle_code_RETFD_IMM16), (''RETFQ_IMM16'', handle_code_RETFQ_IMM16), (''IRETW'', handle_code_IRETW),
     (''IRETD'', handle_code_IRETD), (''IRETQ'', handle_code_IRETQ), (''JMP_RM64'', handle_code_JMP_RM64),
     (''JMP_RM16'', handle_code_JMP_RM16), (''JMP_RM32'', handle_code_JMP_RM32), (''JMP_REL8_64'', handle_code_JMP_REL8_64),
     (''JMP_REL32_64'', handle_code_JMP_REL32_64), (''JMP_REL8_16'', handle_code_JMP_REL8_16),
     (''JMP_REL8_32'', handle_code_JMP_REL8_32), (''JMP_REL16'', handle_code_JMP_REL16), (''JMP_REL32_32'', handle_code_JMP_REL32_32),
     (''JMP_M1616'', handle_code_JMP_M1616), (''JMP_M1632'', handle_code_JMP_M1632), (''JMP_M1664'', handle_code_JMP_M1664),
     (''JMP_PTR1616'', handle_code_JMP_PTR1616), (''JMP_PTR1632'', handle_code_JMP_PTR1632), (''JA_REL8_64'', handle_code_JA_REL8_64),
     (''JA_REL32_64'', handle_code_JA_REL32_64), (''JA_REL8_16'', handle_code_JA_REL8_16), (''JA_REL8_32'', handle_code_JA_REL8_32),
     (''JA_REL16'', handle_code_JA_REL16), (''JA_REL32_32'', handle_code_JA_REL32_32), (''JAE_REL8_64'', handle_code_JAE_REL8_64),
     (''JAE_REL32_64'', handle_code_JAE_REL32_64), (''JAE_REL8_16'', handle_code_JAE_REL8_16),
     (''JAE_REL8_32'', handle_code_JAE_REL8_32), (''JAE_REL16'', handle_code_JAE_REL16), (''JAE_REL32_32'', handle_code_JAE_REL32_32),
     (''JB_REL8_64'', handle_code_JB_REL8_64), (''JB_REL32_64'', handle_code_JB_REL32_64), (''JB_REL8_16'', handle_code_JB_REL8_16),
     (''JB_REL8_32'', handle_code_JB_REL8_32), (''JB_REL16'', handle_code_JB_REL16), (''JB_REL32_32'', handle_code_JB_REL32_32),
     (''JBE_REL8_64'', handle_code_JBE_REL8_64), (''JBE_REL32_64'', handle_code_JBE_REL32_64),
     (''JBE_REL8_16'', handle_code_JBE_REL8_16), (''JBE_REL8_32'', handle_code_JBE_REL8_32), (''JBE_REL16'', handle_code_JBE_REL16),
     (''JBE_REL32_32'', handle_code_JBE_REL32_32), (''JE_REL8_64'', handle_code_JE_REL8_64),
     (''JE_REL32_64'', handle_code_JE_REL32_64), (''JE_REL8_16'', handle_code_JE_REL8_16), (''JE_REL8_32'', handle_code_JE_REL8_32),
     (''JE_REL16'', handle_code_JE_REL16), (''JE_REL32_32'', handle_code_JE_REL32_32), (''JG_REL8_64'', handle_code_JG_REL8_64),
     (''JG_REL32_64'', handle_code_JG_REL32_64), (''JG_REL8_16'', handle_code_JG_REL8_16), (''JG_REL8_32'', handle_code_JG_REL8_32),
     (''JG_REL16'', handle_code_JG_REL16), (''JG_REL32_32'', handle_code_JG_REL32_32), (''JGE_REL8_64'', handle_code_JGE_REL8_64),
     (''JGE_REL32_64'', handle_code_JGE_REL32_64), (''JGE_REL8_16'', handle_code_JGE_REL8_16),
     (''JGE_REL8_32'', handle_code_JGE_REL8_32), (''JGE_REL16'', handle_code_JGE_REL16), (''JGE_REL32_32'', handle_code_JGE_REL32_32),
     (''JL_REL8_64'', handle_code_JL_REL8_64), (''JL_REL32_64'', handle_code_JL_REL32_64), (''JL_REL8_16'', handle_code_JL_REL8_16),
     (''JL_REL8_32'', handle_code_JL_REL8_32), (''JL_REL16'', handle_code_JL_REL16), (''JL_REL32_32'', handle_code_JL_REL32_32),
     (''JLE_REL8_64'', handle_code_JLE_REL8_64), (''JLE_REL32_64'', handle_code_JLE_REL32_64),
     (''JLE_REL8_16'', handle_code_JLE_REL8_16), (''JLE_REL8_32'', handle_code_JLE_REL8_32), (''JLE_REL16'', handle_code_JLE_REL16),
     (''JLE_REL32_32'', handle_code_JLE_REL32_32), (''JNE_REL8_64'', handle_code_JNE_REL8_64),
     (''JNE_REL32_64'', handle_code_JNE_REL32_64), (''JNE_REL8_16'', handle_code_JNE_REL8_16),
     (''JNE_REL8_32'', handle_code_JNE_REL8_32), (''JNE_REL16'', handle_code_JNE_REL16), (''JNE_REL32_32'', handle_code_JNE_REL32_32),
     (''JNO_REL8_64'', handle_code_JNO_REL8_64), (''JNO_REL32_64'', handle_code_JNO_REL32_64),
     (''JNO_REL8_16'', handle_code_JNO_REL8_16), (''JNO_REL8_32'', handle_code_JNO_REL8_32), (''JNO_REL16'', handle_code_JNO_REL16),
     (''JNO_REL32_32'', handle_code_JNO_REL32_32), (''JNP_REL8_64'', handle_code_JNP_REL8_64),
     (''JNP_REL32_64'', handle_code_JNP_REL32_64), (''JNP_REL8_16'', handle_code_JNP_REL8_16),
     (''JNP_REL8_32'', handle_code_JNP_REL8_32), (''JNP_REL16'', handle_code_JNP_REL16), (''JNP_REL32_32'', handle_code_JNP_REL32_32),
     (''JNS_REL8_64'', handle_code_JNS_REL8_64), (''JNS_REL32_64'', handle_code_JNS_REL32_64),
     (''JNS_REL8_16'', handle_code_JNS_REL8_16), (''JNS_REL8_32'', handle_code_JNS_REL8_32), (''JNS_REL16'', handle_code_JNS_REL16),
     (''JNS_REL32_32'', handle_code_JNS_REL32_32), (''JO_REL8_64'', handle_code_JO_REL8_64),
     (''JO_REL32_64'', handle_code_JO_REL32_64), (''JO_REL8_16'', handle_code_JO_REL8_16), (''JO_REL8_32'', handle_code_JO_REL8_32),
     (''JO_REL16'', handle_code_JO_REL16), (''JO_REL32_32'', handle_code_JO_REL32_32), (''JP_REL8_64'', handle_code_JP_REL8_64),
     (''JP_REL32_64'', handle_code_JP_REL32_64), (''JP_REL8_16'', handle_code_JP_REL8_16), (''JP_REL8_32'', handle_code_JP_REL8_32),
     (''JP_REL16'', handle_code_JP_REL16), (''JP_REL32_32'', handle_code_JP_REL32_32), (''JS_REL8_64'', handle_code_JS_REL8_64),
     (''JS_REL32_64'', handle_code_JS_REL32_64), (''JS_REL8_16'', handle_code_JS_REL8_16), (''JS_REL8_32'', handle_code_JS_REL8_32),
     (''JS_REL16'', handle_code_JS_REL16), (''JS_REL32_32'', handle_code_JS_REL32_32),
     (''LOOP_REL8_16_CX'', handle_code_LOOP_REL8_16_CX), (''LOOP_REL8_32_CX'', handle_code_LOOP_REL8_32_CX),
     (''LOOP_REL8_16_ECX'', handle_code_LOOP_REL8_16_ECX), (''LOOP_REL8_32_ECX'', handle_code_LOOP_REL8_32_ECX),
     (''LOOP_REL8_64_ECX'', handle_code_LOOP_REL8_64_ECX), (''LOOP_REL8_16_RCX'', handle_code_LOOP_REL8_16_RCX),
     (''LOOP_REL8_64_RCX'', handle_code_LOOP_REL8_64_RCX), (''LOOPE_REL8_16_CX'', handle_code_LOOPE_REL8_16_CX),
     (''LOOPE_REL8_32_CX'', handle_code_LOOPE_REL8_32_CX), (''LOOPE_REL8_16_ECX'', handle_code_LOOPE_REL8_16_ECX),
     (''LOOPE_REL8_32_ECX'', handle_code_LOOPE_REL8_32_ECX), (''LOOPE_REL8_64_ECX'', handle_code_LOOPE_REL8_64_ECX),
     (''LOOPE_REL8_16_RCX'', handle_code_LOOPE_REL8_16_RCX), (''LOOPE_REL8_64_RCX'', handle_code_LOOPE_REL8_64_RCX),
     (''LOOPNE_REL8_16_CX'', handle_code_LOOPNE_REL8_16_CX), (''LOOPNE_REL8_32_CX'', handle_code_LOOPNE_REL8_32_CX),
     (''LOOPNE_REL8_16_ECX'', handle_code_LOOPNE_REL8_16_ECX), (''LOOPNE_REL8_32_ECX'', handle_code_LOOPNE_REL8_32_ECX),
     (''LOOPNE_REL8_64_ECX'', handle_code_LOOPNE_REL8_64_ECX), (''LOOPNE_REL8_16_RCX'', handle_code_LOOPNE_REL8_16_RCX),
     (''LOOPNE_REL8_64_RCX'', handle_code_LOOPNE_REL8_64_RCX), (''JECXZ_REL8_16'', handle_code_JECXZ_REL8_16),
     (''JECXZ_REL8_32'', handle_code_JECXZ_REL8_32), (''JECXZ_REL8_64'', handle_code_JECXZ_REL8_64),
     (''JRCXZ_REL8_16'', handle_code_JRCXZ_REL8_16), (''JRCXZ_REL8_64'', handle_code_JRCXZ_REL8_64),
     (''CMOVO_R16_RM16'', handle_code_CMOVO_R16_RM16), (''CMOVNO_R16_RM16'', handle_code_CMOVNO_R16_RM16),
     (''CMOVB_R16_RM16'', handle_code_CMOVB_R16_RM16), (''CMOVAE_R16_RM16'', handle_code_CMOVAE_R16_RM16),
     (''CMOVE_R16_RM16'', handle_code_CMOVE_R16_RM16), (''CMOVNE_R16_RM16'', handle_code_CMOVNE_R16_RM16),
     (''CMOVBE_R16_RM16'', handle_code_CMOVBE_R16_RM16), (''CMOVA_R16_RM16'', handle_code_CMOVA_R16_RM16),
     (''CMOVS_R16_RM16'', handle_code_CMOVS_R16_RM16), (''CMOVNS_R16_RM16'', handle_code_CMOVNS_R16_RM16),
     (''CMOVP_R16_RM16'', handle_code_CMOVP_R16_RM16), (''CMOVNP_R16_RM16'', handle_code_CMOVNP_R16_RM16),
     (''CMOVL_R16_RM16'', handle_code_CMOVL_R16_RM16), (''CMOVGE_R16_RM16'', handle_code_CMOVGE_R16_RM16),
     (''CMOVLE_R16_RM16'', handle_code_CMOVLE_R16_RM16), (''CMOVG_R16_RM16'', handle_code_CMOVG_R16_RM16),
     (''CMOVO_R32_RM32'', handle_code_CMOVO_R32_RM32), (''CMOVNO_R32_RM32'', handle_code_CMOVNO_R32_RM32),
     (''CMOVB_R32_RM32'', handle_code_CMOVB_R32_RM32), (''CMOVAE_R32_RM32'', handle_code_CMOVAE_R32_RM32),
     (''CMOVE_R32_RM32'', handle_code_CMOVE_R32_RM32), (''CMOVNE_R32_RM32'', handle_code_CMOVNE_R32_RM32),
     (''CMOVBE_R32_RM32'', handle_code_CMOVBE_R32_RM32), (''CMOVA_R32_RM32'', handle_code_CMOVA_R32_RM32),
     (''CMOVS_R32_RM32'', handle_code_CMOVS_R32_RM32), (''CMOVNS_R32_RM32'', handle_code_CMOVNS_R32_RM32),
     (''CMOVP_R32_RM32'', handle_code_CMOVP_R32_RM32), (''CMOVNP_R32_RM32'', handle_code_CMOVNP_R32_RM32),
     (''CMOVL_R32_RM32'', handle_code_CMOVL_R32_RM32), (''CMOVGE_R32_RM32'', handle_code_CMOVGE_R32_RM32),
     (''CMOVLE_R32_RM32'', handle_code_CMOVLE_R32_RM32), (''CMOVG_R32_RM32'', handle_code_CMOVG_R32_RM32),
     (''CMOVO_R64_RM64'', handle_code_CMOVO_R64_RM64), (''CMOVNO_R64_RM64'', handle_code_CMOVNO_R64_RM64),
     (''CMOVB_R64_RM64'', handle_code_CMOVB_R64_RM64), (''CMOVAE_R64_RM64'', handle_code_CMOVAE_R64_RM64),
     (''CMOVE_R64_RM64'', handle_code_CMOVE_R64_RM64), (''CMOVNE_R64_RM64'', handle_code_CMOVNE_R64_RM64),
     (''CMOVBE_R64_RM64'', handle_code_CMOVBE_R64_RM64), (''CMOVA_R64_RM64'', handle_code_CMOVA_R64_RM64),
     (''CMOVS_R64_RM64'', handle_code_CMOVS_R64_RM64), (''CMOVNS_R64_RM64'', handle_code_CMOVNS_R64_RM64),
     (''CMOVP_R64_RM64'', handle_code_CMOVP_R64_RM64), (''CMOVNP_R64_RM64'', handle_code_CMOVNP_R64_RM64),
     (''CMOVL_R64_RM64'', handle_code_CMOVL_R64_RM64), (''CMOVGE_R64_RM64'', handle_code_CMOVGE_R64_RM64),
     (''CMOVLE_R64_RM64'', handle_code_CMOVLE_R64_RM64), (''CMOVG_R64_RM64'', handle_code_CMOVG_R64_RM64),
     (''SETO_RM8'', handle_code_SETO_RM8), (''SETNO_RM8'', handle_code_SETNO_RM8), (''SETB_RM8'', handle_code_SETB_RM8),
     (''SETAE_RM8'', handle_code_SETAE_RM8), (''SETE_RM8'', handle_code_SETE_RM8), (''SETNE_RM8'', handle_code_SETNE_RM8),
     (''SETBE_RM8'', handle_code_SETBE_RM8), (''SETA_RM8'', handle_code_SETA_RM8), (''SETS_RM8'', handle_code_SETS_RM8),
     (''SETNS_RM8'', handle_code_SETNS_RM8), (''SETP_RM8'', handle_code_SETP_RM8), (''SETNP_RM8'', handle_code_SETNP_RM8),
     (''SETL_RM8'', handle_code_SETL_RM8), (''SETGE_RM8'', handle_code_SETGE_RM8), (''SETLE_RM8'', handle_code_SETLE_RM8),
     (''SETG_RM8'', handle_code_SETG_RM8)]"

lemma wf_control_flow_handlers [simp]:
  "wf_handler handle_code_CALL_REL32_64" "wf_handler handle_code_CALL_RM32" "wf_handler handle_code_CALL_REL16"
  "wf_handler handle_code_CALL_REL32_32" "wf_handler handle_code_CALL_PTR1616" "wf_handler handle_code_CALL_PTR1632"
  "wf_handler handle_code_RETNQ_IMM16" "wf_handler handle_code_RETNW_IMM16" "wf_handler handle_code_RETND_IMM16"
  "wf_handler handle_code_RETFW_IMM16" "wf_handler handle_code_RETFD_IMM16" "wf_handler handle_code_RETFQ_IMM16"
  "wf_handler handle_code_JMP_RM64" "wf_handler handle_code_JMP_RM16" "wf_handler handle_code_JMP_RM32"
  "wf_handler handle_code_JMP_REL8_64" "wf_handler handle_code_JMP_REL32_64" "wf_handler handle_code_JMP_REL8_16"
  "wf_handler handle_code_JMP_REL8_32" "wf_handler handle_code_JMP_REL16" "wf_handler handle_code_JMP_REL32_32"
  "wf_handler handle_code_JMP_PTR1616" "wf_handler handle_code_JMP_PTR1632"
  by (simp_all add: wf_handler_def case_prod_beta Let_def
    handle_code_CALL_REL32_64_def handle_code_CALL_RM32_def handle_code_CALL_REL16_def handle_code_CALL_REL32_32_def
    handle_code_CALL_PTR1616_def handle_code_CALL_PTR1632_def handle_code_RETNQ_IMM16_def handle_code_RETNW_IMM16_def
    handle_code_RETND_IMM16_def handle_code_RETFW_IMM16_def handle_code_RETFD_IMM16_def handle_code_RETFQ_IMM16_def
    handle_code_JMP_RM64_def handle_code_JMP_RM16_def handle_code_JMP_RM32_def handle_code_JMP_REL8_64_def handle_code_JMP_REL32_64_def
    handle_code_JMP_REL8_16_def handle_code_JMP_REL8_32_def handle_code_JMP_REL16_def handle_code_JMP_REL32_32_def
    handle_code_JMP_PTR1616_def handle_code_JMP_PTR1632_def
    split: sum.split option.split bool.split)

lemma control_flow_table_wf: "list_all (\<lambda>(cd, h). wf_handler h) control_flow_table"
  by (simp add: control_flow_table_def
    handle_code_PUSH_R64_def handle_code_PUSH_RM64_def handle_code_PUSHQ_IMM8_def handle_code_PUSHQ_IMM32_def handle_code_PUSH_R16_def
    handle_code_PUSH_R32_def handle_code_PUSH_RM16_def handle_code_PUSH_RM32_def handle_code_PUSH_IMM16_def handle_code_PUSHW_IMM8_def
    handle_code_PUSHD_IMM8_def handle_code_PUSHD_IMM32_def handle_code_PUSHW_ES_def handle_code_PUSHW_CS_def handle_code_PUSHW_SS_def
    handle_code_PUSHW_DS_def handle_code_PUSHW_FS_def handle_code_PUSHW_GS_def handle_code_PUSHD_ES_def handle_code_PUSHD_CS_def
    handle_code_PUSHD_SS_def handle_code_PUSHD_DS_def handle_code_PUSHD_FS_def handle_code_PUSHD_GS_def handle_code_PUSHQ_FS_def
    handle_code_PUSHQ_GS_def handle_code_PUSHFW_def handle_code_PUSHFD_def handle_code_PUSHAW_def handle_code_PUSHAD_def
    handle_code_POP_R16_def handle_code_POP_R32_def handle_code_POP_RM16_def handle_code_POP_RM32_def handle_code_POPW_SS_def
    handle_code_POP_R64_def handle_code_POP_RM64_def handle_code_POPD_SS_def handle_code_CALL_RM64_def handle_code_CALL_RM16_def
    handle_code_CALL_M1616_def handle_code_CALL_M1632_def handle_code_CALL_M1664_def handle_code_RETNQ_def handle_code_RETNW_def
    handle_code_RETND_def handle_code_RETFW_def handle_code_RETFD_def handle_code_RETFQ_def handle_code_IRETW_def handle_code_IRETD_def
    handle_code_IRETQ_def handle_code_JMP_M1616_def handle_code_JMP_M1632_def handle_code_JMP_M1664_def handle_code_JA_REL8_64_def
    handle_code_JA_REL32_64_def handle_code_JA_REL8_16_def handle_code_JA_REL8_32_def handle_code_JA_REL16_def
    handle_code_JA_REL32_32_def handle_code_JAE_REL8_64_def handle_code_JAE_REL32_64_def handle_code_JAE_REL8_16_def
    handle_code_JAE_REL8_32_def handle_code_JAE_REL16_def handle_code_JAE_REL32_32_def handle_code_JB_REL8_64_def
    handle_code_JB_REL32_64_def handle_code_JB_REL8_16_def handle_code_JB_REL8_32_def handle_code_JB_REL16_def
    handle_code_JB_REL32_32_def handle_code_JBE_REL8_64_def handle_code_JBE_REL32_64_def handle_code_JBE_REL8_16_def
    handle_code_JBE_REL8_32_def handle_code_JBE_REL16_def handle_code_JBE_REL32_32_def handle_code_JE_REL8_64_def
    handle_code_JE_REL32_64_def handle_code_JE_REL8_16_def handle_code_JE_REL8_32_def handle_code_JE_REL16_def
    handle_code_JE_REL32_32_def handle_code_JG_REL8_64_def handle_code_JG_REL32_64_def handle_code_JG_REL8_16_def
    handle_code_JG_REL8_32_def handle_code_JG_REL16_def handle_code_JG_REL32_32_def handle_code_JGE_REL8_64_def
    handle_code_JGE_REL32_64_def handle_code_JGE_REL8_16_def handle_code_JGE_REL8_32_def handle_code_JGE_REL16_def
    handle_code_JGE_REL32_32_def handle_code_JL_REL8_64_def handle_code_JL_REL32_64_def handle_code_JL_REL8_16_def
    handle_code_JL_REL8_32_def handle_code_JL_REL16_def handle_code_JL_REL32_32_def handle_code_JLE_REL8_64_def
    handle_code_JLE_REL32_64_def handle_code_JLE_REL8_16_def handle_code_JLE_REL8_32_def handle_code_JLE_REL16_def
    handle_code_JLE_REL32_32_def handle_code_JNE_REL8_64_def handle_code_JNE_REL32_64_def handle_code_JNE_REL8_16_def
    handle_code_JNE_REL8_32_def handle_code_JNE_REL16_def handle_code_JNE_REL32_32_def handle_code_JNO_REL8_64_def
    handle_code_JNO_REL32_64_def handle_code_JNO_REL8_16_def handle_code_JNO_REL8_32_def handle_code_JNO_REL16_def
    handle_code_JNO_REL32_32_def handle_code_JNP_REL8_64_def handle_code_JNP_REL32_64_def handle_code_JNP_REL8_16_def
    handle_code_JNP_REL8_32_def handle_code_JNP_REL16_def handle_code_JNP_REL32_32_def handle_code_JNS_REL8_64_def
    handle_code_JNS_REL32_64_def handle_code_JNS_REL8_16_def handle_code_JNS_REL8_32_def handle_code_JNS_REL16_def
    handle_code_JNS_REL32_32_def handle_code_JO_REL8_64_def handle_code_JO_REL32_64_def handle_code_JO_REL8_16_def
    handle_code_JO_REL8_32_def handle_code_JO_REL16_def handle_code_JO_REL32_32_def handle_code_JP_REL8_64_def
    handle_code_JP_REL32_64_def handle_code_JP_REL8_16_def handle_code_JP_REL8_32_def handle_code_JP_REL16_def
    handle_code_JP_REL32_32_def handle_code_JS_REL8_64_def handle_code_JS_REL32_64_def handle_code_JS_REL8_16_def
    handle_code_JS_REL8_32_def handle_code_JS_REL16_def handle_code_JS_REL32_32_def handle_code_LOOP_REL8_16_CX_def
    handle_code_LOOP_REL8_32_CX_def handle_code_LOOP_REL8_16_ECX_def handle_code_LOOP_REL8_32_ECX_def handle_code_LOOP_REL8_64_ECX_def
    handle_code_LOOP_REL8_16_RCX_def handle_code_LOOP_REL8_64_RCX_def handle_code_LOOPE_REL8_16_CX_def handle_code_LOOPE_REL8_32_CX_def
    handle_code_LOOPE_REL8_16_ECX_def handle_code_LOOPE_REL8_32_ECX_def handle_code_LOOPE_REL8_64_ECX_def
    handle_code_LOOPE_REL8_16_RCX_def handle_code_LOOPE_REL8_64_RCX_def handle_code_LOOPNE_REL8_16_CX_def
    handle_code_LOOPNE_REL8_32_CX_def handle_code_LOOPNE_REL8_16_ECX_def handle_code_LOOPNE_REL8_32_ECX_def
    handle_code_LOOPNE_REL8_64_ECX_def handle_code_LOOPNE_REL8_16_RCX_def handle_code_LOOPNE_REL8_64_RCX_def
    handle_code_JECXZ_REL8_16_def handle_code_JECXZ_REL8_32_def handle_code_JECXZ_REL8_64_def handle_code_JRCXZ_REL8_16_def
    handle_code_JRCXZ_REL8_64_def handle_code_CMOVO_R16_RM16_def handle_code_CMOVNO_R16_RM16_def handle_code_CMOVB_R16_RM16_def
    handle_code_CMOVAE_R16_RM16_def handle_code_CMOVE_R16_RM16_def handle_code_CMOVNE_R16_RM16_def handle_code_CMOVBE_R16_RM16_def
    handle_code_CMOVA_R16_RM16_def handle_code_CMOVS_R16_RM16_def handle_code_CMOVNS_R16_RM16_def handle_code_CMOVP_R16_RM16_def
    handle_code_CMOVNP_R16_RM16_def handle_code_CMOVL_R16_RM16_def handle_code_CMOVGE_R16_RM16_def handle_code_CMOVLE_R16_RM16_def
    handle_code_CMOVG_R16_RM16_def handle_code_CMOVO_R32_RM32_def handle_code_CMOVNO_R32_RM32_def handle_code_CMOVB_R32_RM32_def
    handle_code_CMOVAE_R32_RM32_def handle_code_CMOVE_R32_RM32_def handle_code_CMOVNE_R32_RM32_def handle_code_CMOVBE_R32_RM32_def
    handle_code_CMOVA_R32_RM32_def handle_code_CMOVS_R32_RM32_def handle_code_CMOVNS_R32_RM32_def handle_code_CMOVP_R32_RM32_def
    handle_code_CMOVNP_R32_RM32_def handle_code_CMOVL_R32_RM32_def handle_code_CMOVGE_R32_RM32_def handle_code_CMOVLE_R32_RM32_def
    handle_code_CMOVG_R32_RM32_def handle_code_CMOVO_R64_RM64_def handle_code_CMOVNO_R64_RM64_def handle_code_CMOVB_R64_RM64_def
    handle_code_CMOVAE_R64_RM64_def handle_code_CMOVE_R64_RM64_def handle_code_CMOVNE_R64_RM64_def handle_code_CMOVBE_R64_RM64_def
    handle_code_CMOVA_R64_RM64_def handle_code_CMOVS_R64_RM64_def handle_code_CMOVNS_R64_RM64_def handle_code_CMOVP_R64_RM64_def
    handle_code_CMOVNP_R64_RM64_def handle_code_CMOVL_R64_RM64_def handle_code_CMOVGE_R64_RM64_def handle_code_CMOVLE_R64_RM64_def
    handle_code_CMOVG_R64_RM64_def handle_code_SETO_RM8_def handle_code_SETNO_RM8_def handle_code_SETB_RM8_def
    handle_code_SETAE_RM8_def handle_code_SETE_RM8_def handle_code_SETNE_RM8_def handle_code_SETBE_RM8_def handle_code_SETA_RM8_def
    handle_code_SETS_RM8_def handle_code_SETNS_RM8_def handle_code_SETP_RM8_def handle_code_SETNP_RM8_def handle_code_SETL_RM8_def
    handle_code_SETGE_RM8_def handle_code_SETLE_RM8_def handle_code_SETG_RM8_def)

definition multiply_table :: "(icode \<times> 'w handler) list" where
  "multiply_table =
    [(''INC_RM8'', handle_code_INC_RM8), (''INC_RM16'', handle_code_INC_RM16), (''INC_RM32'', handle_code_INC_RM32),
     (''INC_RM64'', handle_code_INC_RM64), (''DEC_RM8'', handle_code_DEC_RM8), (''DEC_RM16'', handle_code_DEC_RM16),
     (''DEC_RM32'', handle_code_DEC_RM32), (''DEC_RM64'', handle_code_DEC_RM64), (''NEG_RM8'', handle_code_NEG_RM8),
     (''NEG_RM16'', handle_code_NEG_RM16), (''NEG_RM32'', handle_code_NEG_RM32), (''NEG_RM64'', handle_code_NEG_RM64),
     (''NOT_RM8'', handle_code_NOT_RM8), (''NOT_RM16'', handle_code_NOT_RM16), (''NOT_RM32'', handle_code_NOT_RM32),
     (''NOT_RM64'', handle_code_NOT_RM64), (''MUL_RM8'', handle_code_MUL_RM8), (''MUL_RM16'', handle_code_MUL_RM16),
     (''MUL_RM32'', handle_code_MUL_RM32), (''MUL_RM64'', handle_code_MUL_RM64), (''IMUL_RM8'', handle_code_IMUL_RM8),
     (''IMUL_R16_RM16'', handle_code_IMUL_R16_RM16), (''IMUL_R16_RM16_IMM16'', handle_code_IMUL_R16_RM16_IMM16),
     (''IMUL_R16_RM16_IMM8'', handle_code_IMUL_R16_RM16_IMM8), (''IMUL_R32_RM32'', handle_code_IMUL_R32_RM32),
     (''IMUL_R32_RM32_IMM32'', handle_code_IMUL_R32_RM32_IMM32), (''IMUL_R32_RM32_IMM8'', handle_code_IMUL_R32_RM32_IMM8),
     (''IMUL_R64_RM64'', handle_code_IMUL_R64_RM64), (''IMUL_R64_RM64_IMM32'', handle_code_IMUL_R64_RM64_IMM32),
     (''IMUL_R64_RM64_IMM8'', handle_code_IMUL_R64_RM64_IMM8), (''IMUL_RM16'', handle_code_IMUL_RM16),
     (''IMUL_RM32'', handle_code_IMUL_RM32), (''IMUL_RM64'', handle_code_IMUL_RM64), (''DIV_RM8'', handle_code_DIV_RM8),
     (''DIV_RM16'', handle_code_DIV_RM16), (''DIV_RM32'', handle_code_DIV_RM32), (''DIV_RM64'', handle_code_DIV_RM64),
     (''IDIV_RM8'', handle_code_IDIV_RM8), (''IDIV_RM16'', handle_code_IDIV_RM16), (''IDIV_RM32'', handle_code_IDIV_RM32),
     (''IDIV_RM64'', handle_code_IDIV_RM64)]"

lemma wf_multiply_handlers [simp]:
  "wf_handler handle_code_MUL_RM8" "wf_handler handle_code_MUL_RM64" "wf_handler handle_code_IMUL_RM8"
  by (simp_all add: wf_handler_def case_prod_beta Let_def
    handle_code_MUL_RM8_def handle_code_MUL_RM64_def handle_code_IMUL_RM8_def
    split: sum.split option.split bool.split)

lemma multiply_table_wf: "list_all (\<lambda>(cd, h). wf_handler h) multiply_table"
  by (simp add: multiply_table_def
    handle_code_INC_RM8_def handle_code_INC_RM16_def handle_code_INC_RM32_def handle_code_INC_RM64_def handle_code_DEC_RM8_def
    handle_code_DEC_RM16_def handle_code_DEC_RM32_def handle_code_DEC_RM64_def handle_code_NEG_RM8_def handle_code_NEG_RM16_def
    handle_code_NEG_RM32_def handle_code_NEG_RM64_def handle_code_NOT_RM8_def handle_code_NOT_RM16_def handle_code_NOT_RM32_def
    handle_code_NOT_RM64_def handle_code_MUL_RM16_def handle_code_MUL_RM32_def handle_code_IMUL_R16_RM16_def
    handle_code_IMUL_R16_RM16_IMM16_def handle_code_IMUL_R16_RM16_IMM8_def handle_code_IMUL_R32_RM32_def
    handle_code_IMUL_R32_RM32_IMM32_def handle_code_IMUL_R32_RM32_IMM8_def handle_code_IMUL_R64_RM64_def
    handle_code_IMUL_R64_RM64_IMM32_def handle_code_IMUL_R64_RM64_IMM8_def handle_code_IMUL_RM16_def handle_code_IMUL_RM32_def
    handle_code_IMUL_RM64_def handle_code_DIV_RM16_def handle_code_DIV_RM32_def handle_code_IDIV_RM16_def handle_code_IDIV_RM32_def)

definition shift_table :: "(icode \<times> 'w handler) list" where
  "shift_table =
    [(''SHL_RM8_1'', handle_code_SHL_RM8_1), (''SHL_RM8_CL'', handle_code_SHL_RM8_CL), (''SHL_RM8_IMM8'', handle_code_SHL_RM8_IMM8),
     (''SHL_RM16_1'', handle_code_SHL_RM16_1), (''SHL_RM16_CL'', handle_code_SHL_RM16_CL),
     (''SHL_RM16_IMM8'', handle_code_SHL_RM16_IMM8), (''SHL_RM32_1'', handle_code_SHL_RM32_1),
     (''SHL_RM32_CL'', handle_code_SHL_RM32_CL), (''SHL_RM32_IMM8'', handle_code_SHL_RM32_IMM8),
     (''SHL_RM64_1'', handle_code_SHL_RM64_1), (''SHL_RM64_CL'', handle_code_SHL_RM64_CL),
     (''SHL_RM64_IMM8'', handle_code_SHL_RM64_IMM8), (''SHR_RM8_1'', handle_code_SHR_RM8_1), (''SHR_RM8_CL'', handle_code_SHR_RM8_CL),
     (''SHR_RM8_IMM8'', handle_code_SHR_RM8_IMM8), (''SHR_RM16_1'', handle_code_SHR_RM16_1),
     (''SHR_RM16_CL'', handle_code_SHR_RM16_CL), (''SHR_RM16_IMM8'', handle_code_SHR_RM16_IMM8),
     (''SHR_RM32_1'', handle_code_SHR_RM32_1), (''SHR_RM32_CL'', handle_code_SHR_RM32_CL),
     (''SHR_RM32_IMM8'', handle_code_SHR_RM32_IMM8), (''SHR_RM64_1'', handle_code_SHR_RM64_1),
     (''SHR_RM64_CL'', handle_code_SHR_RM64_CL), (''SHR_RM64_IMM8'', handle_code_SHR_RM64_IMM8),
     (''SAR_RM8_1'', handle_code_SAR_RM8_1), (''SAR_RM8_CL'', handle_code_SAR_RM8_CL), (''SAR_RM8_IMM8'', handle_code_SAR_RM8_IMM8),
     (''SAR_RM16_1'', handle_code_SAR_RM16_1), (''SAR_RM16_CL'', handle_code_SAR_RM16_CL),
     (''SAR_RM16_IMM8'', handle_code_SAR_RM16_IMM8), (''SAR_RM32_1'', handle_code_SAR_RM32_1),
     (''SAR_RM32_CL'', handle_code_SAR_RM32_CL), (''SAR_RM32_IMM8'', handle_code_SAR_RM32_IMM8),
     (''SAR_RM64_1'', handle_code_SAR_RM64_1), (''SAR_RM64_CL'', handle_code_SAR_RM64_CL),
     (''SAR_RM64_IMM8'', handle_code_SAR_RM64_IMM8), (''SAL_RM8_1'', handle_code_SAL_RM8_1), (''SAL_RM16_1'', handle_code_SAL_RM16_1),
     (''SAL_RM32_1'', handle_code_SAL_RM32_1), (''SAL_RM64_1'', handle_code_SAL_RM64_1), (''SAL_RM8_CL'', handle_code_SAL_RM8_CL),
     (''SAL_RM16_CL'', handle_code_SAL_RM16_CL), (''SAL_RM32_CL'', handle_code_SAL_RM32_CL),
     (''SAL_RM64_CL'', handle_code_SAL_RM64_CL), (''SAL_RM8_IMM8'', handle_code_SAL_RM8_IMM8),
     (''SAL_RM16_IMM8'', handle_code_SAL_RM16_IMM8), (''SAL_RM32_IMM8'', handle_code_SAL_RM32_IMM8),
     (''SAL_RM64_IMM8'', handle_code_SAL_RM64_IMM8), (''ROL_RM8_1'', handle_code_ROL_RM8_1), (''ROL_RM16_1'', handle_code_ROL_RM16_1),
     (''ROL_RM32_1'', handle_code_ROL_RM32_1), (''ROL_RM64_1'', handle_code_ROL_RM64_1), (''ROL_RM8_CL'', handle_code_ROL_RM8_CL),
     (''ROL_RM16_CL'', handle_code_ROL_RM16_CL), (''ROL_RM32_CL'', handle_code_ROL_RM32_CL),
     (''ROL_RM64_CL'', handle_code_ROL_RM64_CL), (''ROL_RM8_IMM8'', handle_code_ROL_RM8_IMM8),
     (''ROL_RM16_IMM8'', handle_code_ROL_RM16_IMM8), (''ROL_RM32_IMM8'', handle_code_ROL_RM32_IMM8),
     (''ROL_RM64_IMM8'', handle_code_ROL_RM64_IMM8), (''ROR_RM8_1'', handle_code_ROR_RM8_1), (''ROR_RM16_1'', handle_code_ROR_RM16_1),
     (''ROR_RM32_1'', handle_code_ROR_RM32_1), (''ROR_RM64_1'', handle_code_ROR_RM64_1), (''ROR_RM8_CL'', handle_code_ROR_RM8_CL),
     (''ROR_RM16_CL'', handle_code_ROR_RM16_CL), (''ROR_RM32_CL'', handle_code_ROR_RM32_CL),
     (''ROR_RM64_CL'', handle_code_ROR_RM64_CL), (''ROR_RM8_IMM8'', handle_code_ROR_RM8_IMM8),
     (''ROR_RM16_IMM8'', handle_code_ROR_RM16_IMM8), (''ROR_RM32_IMM8'', handle_code_ROR_RM32_IMM8),
     (''ROR_RM64_IMM8'', handle_code_ROR_RM64_IMM8), (''RCL_RM8_1'', handle_code_RCL_RM8_1), (''RCL_RM16_1'', handle_code_RCL_RM16_1),
     (''RCL_RM32_1'', handle_code_RCL_RM32_1), (''RCL_RM64_1'', handle_code_RCL_RM64_1), (''RCL_RM8_CL'', handle_code_RCL_RM8_CL),
     (''RCL_RM16_CL'', handle_code_RCL_RM16_CL), (''RCL_RM32_CL'', handle_code_RCL_RM32_CL),
     (''RCL_RM64_CL'', handle_code_RCL_RM64_CL), (''RCL_RM8_IMM8'', handle_code_RCL_RM8_IMM8),
     (''RCL_RM16_IMM8'', handle_code_RCL_RM16_IMM8), (''RCL_RM32_IMM8'', handle_code_RCL_RM32_IMM8),
     (''RCL_RM64_IMM8'', handle_code_RCL_RM64_IMM8), (''RCR_RM8_1'', handle_code_RCR_RM8_1), (''RCR_RM16_1'', handle_code_RCR_RM16_1),
     (''RCR_RM32_1'', handle_code_RCR_RM32_1), (''RCR_RM64_1'', handle_code_RCR_RM64_1), (''RCR_RM8_CL'', handle_code_RCR_RM8_CL),
     (''RCR_RM16_CL'', handle_code_RCR_RM16_CL), (''RCR_RM32_CL'', handle_code_RCR_RM32_CL),
     (''RCR_RM64_CL'', handle_code_RCR_RM64_CL), (''RCR_RM8_IMM8'', handle_code_RCR_RM8_IMM8),
     (''RCR_RM16_IMM8'', handle_code_RCR_RM16_IMM8), (''RCR_RM32_IMM8'', handle_code_RCR_RM32_IMM8),
     (''RCR_RM64_IMM8'', handle_code_RCR_RM64_IMM8), (''SHLD_RM16_R16_IMM8'', handle_code_SHLD_RM16_R16_IMM8),
     (''SHLD_RM32_R32_IMM8'', handle_code_SHLD_RM32_R32_IMM8), (''SHLD_RM64_R64_IMM8'', handle_code_SHLD_RM64_R64_IMM8),
     (''SHLD_RM16_R16_CL'', handle_code_SHLD_RM16_R16_CL), (''SHLD_RM32_R32_CL'', handle_code_SHLD_RM32_R32_CL),
     (''SHLD_RM64_R64_CL'', handle_code_SHLD_RM64_R64_CL), (''SHRD_RM16_R16_IMM8'', handle_code_SHRD_RM16_R16_IMM8),
     (''SHRD_RM32_R32_IMM8'', handle_code_SHRD_RM32_R32_IMM8), (''SHRD_RM64_R64_IMM8'', handle_code_SHRD_RM64_R64_IMM8),
     (''SHRD_RM16_R16_CL'', handle_code_SHRD_RM16_R16_CL), (''SHRD_RM32_R32_CL'', handle_code_SHRD_RM32_R32_CL),
     (''SHRD_RM64_R64_CL'', handle_code_SHRD_RM64_R64_CL)]"

lemma shift_table_wf: "list_all (\<lambda>(cd, h). wf_handler h) shift_table"
  by (simp add: shift_table_def
    handle_code_SHL_RM8_1_def handle_code_SHL_RM8_CL_def handle_code_SHL_RM8_IMM8_def handle_code_SHL_RM16_1_def
    handle_code_SHL_RM16_CL_def handle_code_SHL_RM16_IMM8_def handle_code_SHL_RM32_1_def handle_code_SHL_RM32_CL_def
    handle_code_SHL_RM32_IMM8_def handle_code_SHL_RM64_1_def handle_code_SHL_RM64_CL_def handle_code_SHL_RM64_IMM8_def
    handle_code_SHR_RM8_1_def handle_code_SHR_RM8_CL_def handle_code_SHR_RM8_IMM8_def handle_code_SHR_RM16_1_def
    handle_code_SHR_RM16_CL_def handle_code_SHR_RM16_IMM8_def handle_code_SHR_RM32_1_def handle_code_SHR_RM32_CL_def
    handle_code_SHR_RM32_IMM8_def handle_code_SHR_RM64_1_def handle_code_SHR_RM64_CL_def handle_code_SHR_RM64_IMM8_def
    handle_code_SAR_RM8_1_def handle_code_SAR_RM8_CL_def handle_code_SAR_RM8_IMM8_def handle_code_SAR_RM16_1_def
    handle_code_SAR_RM16_CL_def handle_code_SAR_RM16_IMM8_def handle_code_SAR_RM32_1_def handle_code_SAR_RM32_CL_def
    handle_code_SAR_RM32_IMM8_def handle_code_SAR_RM64_1_def handle_code_SAR_RM64_CL_def handle_code_SAR_RM64_IMM8_def
    handle_code_SAL_RM8_1_def handle_code_SAL_RM16_1_def handle_code_SAL_RM32_1_def handle_code_SAL_RM64_1_def
    handle_code_SAL_RM8_CL_def handle_code_SAL_RM16_CL_def handle_code_SAL_RM32_CL_def handle_code_SAL_RM64_CL_def
    handle_code_SAL_RM8_IMM8_def handle_code_SAL_RM16_IMM8_def handle_code_SAL_RM32_IMM8_def handle_code_SAL_RM64_IMM8_def
    handle_code_ROL_RM8_1_def handle_code_ROL_RM16_1_def handle_code_ROL_RM32_1_def handle_code_ROL_RM64_1_def
    handle_code_ROL_RM8_CL_def handle_code_ROL_RM16_CL_def handle_code_ROL_RM32_CL_def handle_code_ROL_RM64_CL_def
    handle_code_ROL_RM8_IMM8_def handle_code_ROL_RM16_IMM8_def handle_code_ROL_RM32_IMM8_def handle_code_ROL_RM64_IMM8_def
    handle_code_ROR_RM8_1_def handle_code_ROR_RM16_1_def handle_code_ROR_RM32_1_def handle_code_ROR_RM64_1_def
    handle_code_ROR_RM8_CL_def handle_code_ROR_RM16_CL_def handle_code_ROR_RM32_CL_def handle_code_ROR_RM64_CL_def
    handle_code_ROR_RM8_IMM8_def handle_code_ROR_RM16_IMM8_def handle_code_ROR_RM32_IMM8_def handle_code_ROR_RM64_IMM8_def
    handle_code_RCL_RM8_1_def handle_code_RCL_RM16_1_def handle_code_RCL_RM32_1_def handle_code_RCL_RM64_1_def
    handle_code_RCL_RM8_CL_def handle_code_RCL_RM16_CL_def handle_code_RCL_RM32_CL_def handle_code_RCL_RM64_CL_def
    handle_code_RCL_RM8_IMM8_def handle_code_RCL_RM16_IMM8_def handle_code_RCL_RM32_IMM8_def handle_code_RCL_RM64_IMM8_def
    handle_code_RCR_RM8_1_def handle_code_RCR_RM16_1_def handle_code_RCR_RM32_1_def handle_code_RCR_RM64_1_def
    handle_code_RCR_RM8_CL_def handle_code_RCR_RM16_CL_def handle_code_RCR_RM32_CL_def handle_code_RCR_RM64_CL_def
    handle_code_RCR_RM8_IMM8_def handle_code_RCR_RM16_IMM8_def handle_code_RCR_RM32_IMM8_def handle_code_RCR_RM64_IMM8_def
    handle_code_SHLD_RM16_R16_IMM8_def handle_code_SHLD_RM32_R32_IMM8_def handle_code_SHLD_RM64_R64_IMM8_def
    handle_code_SHLD_RM16_R16_CL_def handle_code_SHLD_RM32_R32_CL_def handle_code_SHLD_RM64_R64_CL_def
    handle_code_SHRD_RM16_R16_IMM8_def handle_code_SHRD_RM32_R32_IMM8_def handle_code_SHRD_RM64_R64_IMM8_def
    handle_code_SHRD_RM16_R16_CL_def handle_code_SHRD_RM32_R32_CL_def handle_code_SHRD_RM64_R64_CL_def)

definition string_table :: "(icode \<times> 'w handler) list" where
  "string_table =
    [(''CMPSB_M8_M8'', handle_code_CMPSB_M8_M8), (''CMPSW_M16_M16'', handle_code_CMPSW_M16_M16),
     (''CMPSD_M32_M32'', handle_code_CMPSD_M32_M32), (''CMPSQ_M64_M64'', handle_code_CMPSQ_M64_M64),
     (''SCASB_AL_M8'', handle_code_SCASB_AL_M8), (''SCASW_AX_M16'', handle_code_SCASW_AX_M16),
     (''SCASD_EAX_M32'', handle_code_SCASD_EAX_M32), (''SCASQ_RAX_M64'', handle_code_SCASQ_RAX_M64),
     (''STOSB_M8_AL'', handle_code_STOSB_M8_AL), (''STOSW_M16_AX'', handle_code_STOSW_M16_AX),
     (''STOSD_M32_EAX'', handle_code_STOSD_M32_EAX), (''STOSQ_M64_RAX'', handle_code_STOSQ_M64_RAX),
     (''LODSB_AL_M8'', handle_code_LODSB_AL_M8), (''LODSW_AX_M16'', handle_code_LODSW_AX_M16),
     (''LODSD_EAX_M32'', handle_code_LODSD_EAX_M32), (''LODSQ_RAX_M64'', handle_code_LODSQ_RAX_M64),
     (''MOVSB_M8_M8'', handle_code_MOVSB_M8_M8), (''MOVSW_M16_M16'', handle_code_MOVSW_M16_M16),
     (''MOVSD_M32_M32'', handle_code_MOVSD_M32_M32), (''MOVSQ_M64_M64'', handle_code_MOVSQ_M64_M64)]"

lemma string_table_wf: "list_all (\<lambda>(cd, h). wf_handler h) string_table"
  by (simp add: string_table_def
    handle_code_CMPSB_M8_M8_def handle_code_CMPSW_M16_M16_def handle_code_CMPSD_M32_M32_def handle_code_CMPSQ_M64_M64_def
    handle_code_SCASB_AL_M8_def handle_code_SCASW_AX_M16_def handle_code_SCASD_EAX_M32_def handle_code_SCASQ_RAX_M64_def
    handle_code_STOSB_M8_AL_def handle_code_STOSW_M16_AX_def handle_code_STOSD_M32_EAX_def handle_code_STOSQ_M64_RAX_def
    handle_code_LODSB_AL_M8_def handle_code_LODSW_AX_M16_def handle_code_LODSD_EAX_M32_def handle_code_LODSQ_RAX_M64_def
    handle_code_MOVSB_M8_M8_def handle_code_MOVSW_M16_M16_def handle_code_MOVSD_M32_M32_def handle_code_MOVSQ_M64_M64_def)

definition bit_table :: "(icode \<times> 'w handler) list" where
  "bit_table =
    [(''BT_RM16_IMM8'', handle_code_BT_RM16_IMM8), (''BT_RM16_R16'', handle_code_BT_RM16_R16),
     (''BT_RM32_IMM8'', handle_code_BT_RM32_IMM8), (''BT_RM32_R32'', handle_code_BT_RM32_R32),
     (''BT_RM64_IMM8'', handle_code_BT_RM64_IMM8), (''BT_RM64_R64'', handle_code_BT_RM64_R64),
     (''BTS_RM16_IMM8'', handle_code_BTS_RM16_IMM8), (''BTS_RM16_R16'', handle_code_BTS_RM16_R16),
     (''BTS_RM32_IMM8'', handle_code_BTS_RM32_IMM8), (''BTS_RM32_R32'', handle_code_BTS_RM32_R32),
     (''BTS_RM64_IMM8'', handle_code_BTS_RM64_IMM8), (''BTS_RM64_R64'', handle_code_BTS_RM64_R64),
     (''BTR_RM16_IMM8'', handle_code_BTR_RM16_IMM8), (''BTR_RM16_R16'', handle_code_BTR_RM16_R16),
     (''BTR_RM32_IMM8'', handle_code_BTR_RM32_IMM8), (''BTR_RM32_R32'', handle_code_BTR_RM32_R32),
     (''BTR_RM64_IMM8'', handle_code_BTR_RM64_IMM8), (''BTR_RM64_R64'', handle_code_BTR_RM64_R64),
     (''BTC_RM16_IMM8'', handle_code_BTC_RM16_IMM8), (''BTC_RM16_R16'', handle_code_BTC_RM16_R16),
     (''BTC_RM32_IMM8'', handle_code_BTC_RM32_IMM8), (''BTC_RM32_R32'', handle_code_BTC_RM32_R32),
     (''BTC_RM64_IMM8'', handle_code_BTC_RM64_IMM8), (''BTC_RM64_R64'', handle_code_BTC_RM64_R64),
     (''BSF_R16_RM16'', handle_code_BSF_R16_RM16), (''BSF_R32_RM32'', handle_code_BSF_R32_RM32),
     (''BSF_R64_RM64'', handle_code_BSF_R64_RM64), (''BSR_R16_RM16'', handle_code_BSR_R16_RM16),
     (''BSR_R32_RM32'', handle_code_BSR_R32_RM32), (''BSR_R64_RM64'', handle_code_BSR_R64_RM64),
     (''BSWAP_R16'', handle_code_BSWAP_R16), (''BSWAP_R32'', handle_code_BSWAP_R32), (''BSWAP_R64'', handle_code_BSWAP_R64),
     (''POPCNT_R16_RM16'', handle_code_POPCNT_R16_RM16), (''POPCNT_R32_RM32'', handle_code_POPCNT_R32_RM32),
     (''TZCNT_R16_RM16'', handle_code_TZCNT_R16_RM16), (''TZCNT_R32_RM32'', handle_code_TZCNT_R32_RM32),
     (''LZCNT_R16_RM16'', handle_code_LZCNT_R16_RM16), (''LZCNT_R32_RM32'', handle_code_LZCNT_R32_RM32),
     (''POPCNT_R64_RM64'', handle_code_POPCNT_R64_RM64), (''TZCNT_R64_RM64'', handle_code_TZCNT_R64_RM64),
     (''LZCNT_R64_RM64'', handle_code_LZCNT_R64_RM64), (''CRC32_R32_RM8'', handle_code_CRC32_R32_RM8),
     (''CRC32_R64_RM8'', handle_code_CRC32_R64_RM8), (''CRC32_R32_RM16'', handle_code_CRC32_R32_RM16),
     (''CRC32_R32_RM32'', handle_code_CRC32_R32_RM32), (''CRC32_R64_RM64'', handle_code_CRC32_R64_RM64),
     (''VEX_BEXTR_R32_RM32_R32'', handle_code_VEX_BEXTR_R32_RM32_R32),
     (''VEX_BEXTR_R64_RM64_R64'', handle_code_VEX_BEXTR_R64_RM64_R64), (''VEX_BLSI_R32_RM32'', handle_code_VEX_BLSI_R32_RM32),
     (''VEX_BLSI_R64_RM64'', handle_code_VEX_BLSI_R64_RM64), (''VEX_ANDN_R32_R32_RM32'', handle_code_VEX_ANDN_R32_R32_RM32),
     (''VEX_ANDN_R64_R64_RM64'', handle_code_VEX_ANDN_R64_R64_RM64), (''VEX_BLSMSK_R32_RM32'', handle_code_VEX_BLSMSK_R32_RM32),
     (''VEX_BLSMSK_R64_RM64'', handle_code_VEX_BLSMSK_R64_RM64), (''VEX_BLSR_R32_RM32'', handle_code_VEX_BLSR_R32_RM32),
     (''VEX_BLSR_R64_RM64'', handle_code_VEX_BLSR_R64_RM64), (''VEX_BZHI_R32_RM32_R32'', handle_code_VEX_BZHI_R32_RM32_R32),
     (''VEX_BZHI_R64_RM64_R64'', handle_code_VEX_BZHI_R64_RM64_R64), (''VEX_MULX_R32_R32_RM32'', handle_code_VEX_MULX_R32_R32_RM32),
     (''VEX_MULX_R64_R64_RM64'', handle_code_VEX_MULX_R64_R64_RM64), (''VEX_PDEP_R32_R32_RM32'', handle_code_VEX_PDEP_R32_R32_RM32),
     (''VEX_PDEP_R64_R64_RM64'', handle_code_VEX_PDEP_R64_R64_RM64), (''VEX_PEXT_R32_R32_RM32'', handle_code_VEX_PEXT_R32_R32_RM32),
     (''VEX_PEXT_R64_R64_RM64'', handle_code_VEX_PEXT_R64_R64_RM64), (''VEX_RORX_R32_RM32_IMM8'', handle_code_VEX_RORX_R32_RM32_IMM8),
     (''VEX_RORX_R64_RM64_IMM8'', handle_code_VEX_RORX_R64_RM64_IMM8), (''VEX_SARX_R32_RM32_R32'', handle_code_VEX_SARX_R32_RM32_R32),
     (''VEX_SARX_R64_RM64_R64'', handle_code_VEX_SARX_R64_RM64_R64), (''VEX_SHLX_R32_RM32_R32'', handle_code_VEX_SHLX_R32_RM32_R32),
     (''VEX_SHLX_R64_RM64_R64'', handle_code_VEX_SHLX_R64_RM64_R64), (''VEX_SHRX_R32_RM32_R32'', handle_code_VEX_SHRX_R32_RM32_R32),
     (''VEX_SHRX_R64_RM64_R64'', handle_code_VEX_SHRX_R64_RM64_R64)]"

lemma bit_table_wf: "list_all (\<lambda>(cd, h). wf_handler h) bit_table"
  by (simp add: bit_table_def
    handle_code_BT_RM16_IMM8_def handle_code_BT_RM16_R16_def handle_code_BT_RM32_IMM8_def handle_code_BT_RM32_R32_def
    handle_code_BT_RM64_IMM8_def handle_code_BT_RM64_R64_def handle_code_BTS_RM16_IMM8_def handle_code_BTS_RM16_R16_def
    handle_code_BTS_RM32_IMM8_def handle_code_BTS_RM32_R32_def handle_code_BTS_RM64_IMM8_def handle_code_BTS_RM64_R64_def
    handle_code_BTR_RM16_IMM8_def handle_code_BTR_RM16_R16_def handle_code_BTR_RM32_IMM8_def handle_code_BTR_RM32_R32_def
    handle_code_BTR_RM64_IMM8_def handle_code_BTR_RM64_R64_def handle_code_BTC_RM16_IMM8_def handle_code_BTC_RM16_R16_def
    handle_code_BTC_RM32_IMM8_def handle_code_BTC_RM32_R32_def handle_code_BTC_RM64_IMM8_def handle_code_BTC_RM64_R64_def
    handle_code_BSF_R16_RM16_def handle_code_BSF_R32_RM32_def handle_code_BSF_R64_RM64_def handle_code_BSR_R16_RM16_def
    handle_code_BSR_R32_RM32_def handle_code_BSR_R64_RM64_def handle_code_BSWAP_R16_def handle_code_BSWAP_R32_def
    handle_code_BSWAP_R64_def handle_code_POPCNT_R16_RM16_def handle_code_POPCNT_R32_RM32_def handle_code_TZCNT_R16_RM16_def
    handle_code_TZCNT_R32_RM32_def handle_code_LZCNT_R16_RM16_def handle_code_LZCNT_R32_RM32_def handle_code_POPCNT_R64_RM64_def
    handle_code_TZCNT_R64_RM64_def handle_code_LZCNT_R64_RM64_def handle_code_CRC32_R32_RM8_def handle_code_CRC32_R64_RM8_def
    handle_code_CRC32_R32_RM16_def handle_code_CRC32_R32_RM32_def handle_code_CRC32_R64_RM64_def handle_code_VEX_BEXTR_R32_RM32_R32_def
    handle_code_VEX_BEXTR_R64_RM64_R64_def handle_code_VEX_BLSI_R32_RM32_def handle_code_VEX_BLSI_R64_RM64_def
    handle_code_VEX_ANDN_R32_R32_RM32_def handle_code_VEX_ANDN_R64_R64_RM64_def handle_code_VEX_BLSMSK_R32_RM32_def
    handle_code_VEX_BLSMSK_R64_RM64_def handle_code_VEX_BLSR_R32_RM32_def handle_code_VEX_BLSR_R64_RM64_def
    handle_code_VEX_BZHI_R32_RM32_R32_def handle_code_VEX_BZHI_R64_RM64_R64_def handle_code_VEX_MULX_R32_R32_RM32_def
    handle_code_VEX_MULX_R64_R64_RM64_def handle_code_VEX_PDEP_R32_R32_RM32_def handle_code_VEX_PDEP_R64_R64_RM64_def
    handle_code_VEX_PEXT_R32_R32_RM32_def handle_code_VEX_PEXT_R64_R64_RM64_def handle_code_VEX_RORX_R32_RM32_IMM8_def
    handle_code_VEX_RORX_R64_RM64_IMM8_def handle_code_VEX_SARX_R32_RM32_R32_def handle_code_VEX_SARX_R64_RM64_R64_def
    handle_code_VEX_SHLX_R32_RM32_R32_def handle_code_VEX_SHLX_R64_RM64_R64_def handle_code_VEX_SHRX_R32_RM32_R32_def
    handle_code_VEX_SHRX_R64_RM64_R64_def)

definition data_move_table :: "(icode \<times> 'w handler) list" where
  "data_move_table =
    [(''MOV_RM8_R8'', handle_code_MOV_RM8_R8), (''MOV_RM16_R16'', handle_code_MOV_RM16_R16),
     (''MOV_RM32_R32'', handle_code_MOV_RM32_R32), (''MOV_RM64_R64'', handle_code_MOV_RM64_R64),
     (''MOV_AL_MOFFS8'', handle_code_MOV_AL_MOFFS8), (''MOV_AX_MOFFS16'', handle_code_MOV_AX_MOFFS16),
     (''MOV_EAX_MOFFS32'', handle_code_MOV_EAX_MOFFS32), (''MOV_RAX_MOFFS64'', handle_code_MOV_RAX_MOFFS64),
     (''MOV_MOFFS8_AL'', handle_code_MOV_MOFFS8_AL), (''MOV_MOFFS16_AX'', handle_code_MOV_MOFFS16_AX),
     (''MOV_MOFFS32_EAX'', handle_code_MOV_MOFFS32_EAX), (''MOV_MOFFS64_RAX'', handle_code_MOV_MOFFS64_RAX),
     (''MOV_R8_RM8'', handle_code_MOV_R8_RM8), (''MOV_R16_RM16'', handle_code_MOV_R16_RM16),
     (''MOV_R32_RM32'', handle_code_MOV_R32_RM32), (''MOV_R64_RM64'', handle_code_MOV_R64_RM64),
     (''MOV_R8_IMM8'', handle_code_MOV_R8_IMM8), (''MOV_R16_IMM16'', handle_code_MOV_R16_IMM16),
     (''MOV_R32_IMM32'', handle_code_MOV_R32_IMM32), (''MOV_R64_IMM64'', handle_code_MOV_R64_IMM64),
     (''MOV_RM8_IMM8'', handle_code_MOV_RM8_IMM8), (''MOV_RM16_IMM16'', handle_code_MOV_RM16_IMM16),
     (''MOV_RM32_IMM32'', handle_code_MOV_RM32_IMM32), (''MOV_RM64_IMM32'', handle_code_MOV_RM64_IMM32),
     (''MOV_RM16_SREG'', handle_code_MOV_RM16_SREG), (''MOV_R32M16_SREG'', handle_code_MOV_R32M16_SREG),
     (''MOV_R64M16_SREG'', handle_code_MOV_R64M16_SREG), (''MOV_SREG_RM16'', handle_code_MOV_SREG_RM16),
     (''MOV_SREG_R32M16'', handle_code_MOV_SREG_R32M16), (''MOV_SREG_R64M16'', handle_code_MOV_SREG_R64M16),
     (''MOV_R32_CR'', handle_code_MOV_R32_CR), (''MOV_R64_CR'', handle_code_MOV_R64_CR), (''MOV_R32_DR'', handle_code_MOV_R32_DR),
     (''MOV_R64_DR'', handle_code_MOV_R64_DR), (''MOV_CR_R32'', handle_code_MOV_CR_R32), (''MOV_CR_R64'', handle_code_MOV_CR_R64),
     (''MOV_DR_R32'', handle_code_MOV_DR_R32), (''MOV_DR_R64'', handle_code_MOV_DR_R64), (''MOV_R32_TR'', handle_code_MOV_R32_TR),
     (''MOV_TR_R32'', handle_code_MOV_TR_R32), (''LEA_R64_M'', handle_code_LEA_R64_M), (''LEA_R32_M'', handle_code_LEA_R32_M),
     (''LEA_R16_M'', handle_code_LEA_R16_M), (''MOVZX_R16_RM8'', handle_code_MOVZX_R16_RM8),
     (''MOVZX_R32_RM8'', handle_code_MOVZX_R32_RM8), (''MOVZX_R64_RM8'', handle_code_MOVZX_R64_RM8),
     (''MOVZX_R16_RM16'', handle_code_MOVZX_R16_RM16), (''MOVZX_R32_RM16'', handle_code_MOVZX_R32_RM16),
     (''MOVZX_R64_RM16'', handle_code_MOVZX_R64_RM16), (''MOVSX_R16_RM8'', handle_code_MOVSX_R16_RM8),
     (''MOVSX_R32_RM8'', handle_code_MOVSX_R32_RM8), (''MOVSX_R64_RM8'', handle_code_MOVSX_R64_RM8),
     (''MOVSX_R16_RM16'', handle_code_MOVSX_R16_RM16), (''MOVSX_R32_RM16'', handle_code_MOVSX_R32_RM16),
     (''MOVSX_R64_RM16'', handle_code_MOVSX_R64_RM16), (''MOVSXD_R16_RM16'', handle_code_MOVSXD_R16_RM16),
     (''MOVSXD_R32_RM32'', handle_code_MOVSXD_R32_RM32), (''MOVSXD_R64_RM32'', handle_code_MOVSXD_R64_RM32),
     (''MOVBE_R16_M16'', handle_code_MOVBE_R16_M16), (''MOVBE_R32_M32'', handle_code_MOVBE_R32_M32),
     (''MOVBE_R64_M64'', handle_code_MOVBE_R64_M64), (''MOVBE_M16_R16'', handle_code_MOVBE_M16_R16),
     (''MOVBE_M32_R32'', handle_code_MOVBE_M32_R32), (''MOVBE_M64_R64'', handle_code_MOVBE_M64_R64),
     (''MOVNTI_M32_R32'', handle_code_MOVNTI_M32_R32), (''MOVNTI_M64_R64'', handle_code_MOVNTI_M64_R64),
     (''MOVDIRI_M32_R32'', handle_code_MOVDIRI_M32_R32), (''MOVDIRI_M64_R64'', handle_code_MOVDIRI_M64_R64),
     (''MOVDIR64B_R16_M512'', handle_code_MOVDIR64B_R16_M512), (''MOVDIR64B_R32_M512'', handle_code_MOVDIR64B_R32_M512),
     (''MOVDIR64B_R64_M512'', handle_code_MOVDIR64B_R64_M512), (''XCHG_RM8_R8'', handle_code_XCHG_RM8_R8),
     (''XCHG_RM16_R16'', handle_code_XCHG_RM16_R16), (''XCHG_RM32_R32'', handle_code_XCHG_RM32_R32),
     (''XCHG_RM64_R64'', handle_code_XCHG_RM64_R64), (''XCHG_R16_AX'', handle_code_XCHG_R16_AX),
     (''XCHG_R32_EAX'', handle_code_XCHG_R32_EAX), (''XCHG_R64_RAX'', handle_code_XCHG_R64_RAX),
     (''XADD_RM8_R8'', handle_code_XADD_RM8_R8), (''XADD_RM16_R16'', handle_code_XADD_RM16_R16),
     (''XADD_RM32_R32'', handle_code_XADD_RM32_R32), (''XADD_RM64_R64'', handle_code_XADD_RM64_R64),
     (''CMPXCHG_RM8_R8'', handle_code_CMPXCHG_RM8_R8), (''CMPXCHG_RM16_R16'', handle_code_CMPXCHG_RM16_R16),
     (''CMPXCHG_RM32_R32'', handle_code_CMPXCHG_RM32_R32), (''CMPXCHG_RM64_R64'', handle_code_CMPXCHG_RM64_R64),
     (''CMPXCHG8B_M64'', handle_code_CMPXCHG8B_M64), (''CMPXCHG16B_M128'', handle_code_CMPXCHG16B_M128),
     (''CMPXCHG486_RM8_R8'', handle_code_CMPXCHG486_RM8_R8), (''CMPXCHG486_RM16_R16'', handle_code_CMPXCHG486_RM16_R16),
     (''CMPXCHG486_RM32_R32'', handle_code_CMPXCHG486_RM32_R32)]"

lemma wf_data_move_handlers [simp]:
  "wf_handler handle_code_MOV_RM8_R8"
  by (simp_all add: wf_handler_def case_prod_beta Let_def
    handle_code_MOV_RM8_R8_def
    split: sum.split option.split bool.split)

lemma data_move_table_wf: "list_all (\<lambda>(cd, h). wf_handler h) data_move_table"
  by (simp add: data_move_table_def
    handle_code_MOV_RM16_R16_def handle_code_MOV_RM32_R32_def handle_code_MOV_RM64_R64_def handle_code_MOV_AL_MOFFS8_def
    handle_code_MOV_AX_MOFFS16_def handle_code_MOV_EAX_MOFFS32_def handle_code_MOV_RAX_MOFFS64_def handle_code_MOV_MOFFS8_AL_def
    handle_code_MOV_MOFFS16_AX_def handle_code_MOV_MOFFS32_EAX_def handle_code_MOV_MOFFS64_RAX_def handle_code_MOV_R8_RM8_def
    handle_code_MOV_R16_RM16_def handle_code_MOV_R32_RM32_def handle_code_MOV_R64_RM64_def handle_code_MOV_R8_IMM8_def
    handle_code_MOV_R16_IMM16_def handle_code_MOV_R32_IMM32_def handle_code_MOV_R64_IMM64_def handle_code_MOV_RM8_IMM8_def
    handle_code_MOV_RM16_IMM16_def handle_code_MOV_RM32_IMM32_def handle_code_MOV_RM64_IMM32_def handle_code_MOV_RM16_SREG_def
    handle_code_MOV_R32M16_SREG_def handle_code_MOV_R64M16_SREG_def handle_code_MOV_SREG_RM16_def handle_code_MOV_SREG_R32M16_def
    handle_code_MOV_SREG_R64M16_def handle_code_MOV_R32_CR_def handle_code_MOV_R64_CR_def handle_code_MOV_R32_DR_def
    handle_code_MOV_R64_DR_def handle_code_MOV_CR_R32_def handle_code_MOV_CR_R64_def handle_code_MOV_DR_R32_def
    handle_code_MOV_DR_R64_def handle_code_MOV_R32_TR_def handle_code_MOV_TR_R32_def handle_code_LEA_R64_M_def
    handle_code_LEA_R32_M_def handle_code_LEA_R16_M_def handle_code_MOVZX_R16_RM8_def handle_code_MOVZX_R32_RM8_def
    handle_code_MOVZX_R64_RM8_def handle_code_MOVZX_R16_RM16_def handle_code_MOVZX_R32_RM16_def handle_code_MOVZX_R64_RM16_def
    handle_code_MOVSX_R16_RM8_def handle_code_MOVSX_R32_RM8_def handle_code_MOVSX_R64_RM8_def handle_code_MOVSX_R16_RM16_def
    handle_code_MOVSX_R32_RM16_def handle_code_MOVSX_R64_RM16_def handle_code_MOVSXD_R16_RM16_def handle_code_MOVSXD_R32_RM32_def
    handle_code_MOVSXD_R64_RM32_def handle_code_MOVBE_R16_M16_def handle_code_MOVBE_R32_M32_def handle_code_MOVBE_R64_M64_def
    handle_code_MOVBE_M16_R16_def handle_code_MOVBE_M32_R32_def handle_code_MOVBE_M64_R64_def handle_code_MOVNTI_M32_R32_def
    handle_code_MOVNTI_M64_R64_def handle_code_MOVDIRI_M32_R32_def handle_code_MOVDIRI_M64_R64_def handle_code_MOVDIR64B_R16_M512_def
    handle_code_MOVDIR64B_R32_M512_def handle_code_MOVDIR64B_R64_M512_def handle_code_XCHG_RM8_R8_def handle_code_XCHG_RM16_R16_def
    handle_code_XCHG_RM32_R32_def handle_code_XCHG_RM64_R64_def handle_code_XCHG_R16_AX_def handle_code_XCHG_R32_EAX_def
    handle_code_XCHG_R64_RAX_def handle_code_XADD_RM8_R8_def handle_code_XADD_RM16_R16_def handle_code_XADD_RM32_R32_def
    handle_code_XADD_RM64_R64_def handle_code_CMPXCHG_RM8_R8_def handle_code_CMPXCHG_RM16_R16_def handle_code_CMPXCHG_RM32_R32_def
    handle_code_CMPXCHG_RM64_R64_def handle_code_CMPXCHG486_RM8_R8_def handle_code_CMPXCHG486_RM16_R16_def
    handle_code_CMPXCHG486_RM32_R32_def)

definition legacy_table :: "(icode \<times> 'w handler) list" where
  "legacy_table =
    [(''AAA'', handle_code_AAA), (''AAS'', handle_code_AAS), (''AAD_IMM8'', handle_code_AAD_IMM8),
     (''AAM_IMM8'', handle_code_AAM_IMM8), (''DAA'', handle_code_DAA), (''DAS'', handle_code_DAS), (''CBW'', handle_code_CBW),
     (''CWDE'', handle_code_CWDE), (''CDQE'', handle_code_CDQE), (''CWD'', handle_code_CWD), (''CDQ'', handle_code_CDQ),
     (''CQO'', handle_code_CQO), (''XLAT_M8'', handle_code_XLAT_M8), (''ARPL_R32M16_R32'', handle_code_ARPL_R32M16_R32),
     (''ARPL_RM16_R16'', handle_code_ARPL_RM16_R16), (''BOUND_R16_M1616'', handle_code_BOUND_R16_M1616),
     (''BOUND_R32_M3232'', handle_code_BOUND_R32_M3232), (''ENTERW_IMM16_IMM8'', handle_code_ENTERW_IMM16_IMM8),
     (''ENTERD_IMM16_IMM8'', handle_code_ENTERD_IMM16_IMM8), (''ENTERQ_IMM16_IMM8'', handle_code_ENTERQ_IMM16_IMM8),
     (''LEAVEW'', handle_code_LEAVEW), (''LEAVED'', handle_code_LEAVED), (''LEAVEQ'', handle_code_LEAVEQ),
     (''AADD_M32_R32'', handle_code_AADD_M32_R32), (''AADD_M64_R64'', handle_code_AADD_M64_R64)]"

lemma legacy_table_wf: "list_all (\<lambda>(cd, h). wf_handler h) legacy_table"
  by (simp add: legacy_table_def
    handle_code_CBW_def handle_code_CWDE_def handle_code_CDQE_def handle_code_CWD_def handle_code_CDQ_def handle_code_CQO_def
    handle_code_ARPL_R32M16_R32_def handle_code_ARPL_RM16_R16_def handle_code_BOUND_R16_M1616_def handle_code_BOUND_R32_M3232_def
    handle_code_ENTERW_IMM16_IMM8_def handle_code_ENTERD_IMM16_IMM8_def handle_code_ENTERQ_IMM16_IMM8_def handle_code_LEAVEW_def
    handle_code_LEAVED_def handle_code_LEAVEQ_def handle_code_AADD_M32_R32_def handle_code_AADD_M64_R64_def)

definition system_table :: "(icode \<times> 'w handler) list" where
  "system_table =
    [(''RDMSR'', handle_code_RDMSR), (''WRMSR'', handle_code_WRMSR), (''WRMSRNS'', handle_code_WRMSRNS),
     (''RDMSRLIST'', handle_code_RDMSRLIST), (''WRMSRLIST'', handle_code_WRMSRLIST), (''XSETBV'', handle_code_XSETBV),
     (''XGETBV'', handle_code_XGETBV), (''RDPMC'', handle_code_RDPMC), (''RDTSCP'', handle_code_RDTSCP),
     (''SMSW_RM16'', handle_code_SMSW_RM16), (''SMSW_R32M16'', handle_code_SMSW_R32M16), (''SMSW_R64M16'', handle_code_SMSW_R64M16),
     (''CLTS'', handle_code_CLTS), (''SWAPGS'', handle_code_SWAPGS), (''SYSCALL'', handle_code_SYSCALL),
     (''SYSENTER'', handle_code_SYSENTER), (''SYSEXITD'', handle_code_SYSEXITD), (''SYSEXITQ'', handle_code_SYSEXITQ),
     (''SYSRETD'', handle_code_SYSRETD), (''SYSRETQ'', handle_code_SYSRETQ), (''CLC'', handle_code_CLC), (''STC'', handle_code_STC),
     (''CLD'', handle_code_CLD), (''STD'', handle_code_STD), (''CLI'', handle_code_CLI), (''STI'', handle_code_STI),
     (''CLAC'', handle_code_CLAC), (''STAC'', handle_code_STAC), (''CMC'', handle_code_CMC), (''PUSHFQ'', handle_code_PUSHFQ),
     (''POPFQ'', handle_code_POPFQ), (''LAHF'', handle_code_LAHF), (''SAHF'', handle_code_SAHF), (''HLT'', handle_code_HLT),
     (''INT1'', handle_code_INT1), (''INT3'', handle_code_INT3), (''INT_IMM8'', handle_code_INT_IMM8), (''INTO'', handle_code_INTO),
     (''RSM'', handle_code_RSM), (''UD0'', handle_code_UD0), (''UD0_R16_RM16'', handle_code_UD0_R16_RM16),
     (''UD0_R32_RM32'', handle_code_UD0_R32_RM32), (''UD0_R64_RM64'', handle_code_UD0_R64_RM64),
     (''UD1_R16_RM16'', handle_code_UD1_R16_RM16), (''UD1_R32_RM32'', handle_code_UD1_R32_RM32),
     (''UD1_R64_RM64'', handle_code_UD1_R64_RM64), (''UD2'', handle_code_UD2), (''CPUID'', handle_code_CPUID),
     (''STMXCSR_M32'', handle_code_STMXCSR_M32), (''LDMXCSR_M32'', handle_code_LDMXCSR_M32), (''RDSSPD_R32'', handle_code_RDSSPD_R32),
     (''RDSSPQ_R64'', handle_code_RDSSPQ_R64), (''RDFSBASE_R64'', handle_code_RDFSBASE_R64),
     (''RDGSBASE_R64'', handle_code_RDGSBASE_R64), (''WRFSBASE_R64'', handle_code_WRFSBASE_R64),
     (''WRGSBASE_R64'', handle_code_WRGSBASE_R64), (''CLFLUSH_M8'', handle_code_CLFLUSH_M8),
     (''CLFLUSHOPT_M8'', handle_code_CLFLUSHOPT_M8), (''CLWB_M8'', handle_code_CLWB_M8), (''INVD'', handle_code_INVD),
     (''LFENCE'', handle_code_LFENCE), (''LFENCE_E9'', handle_code_LFENCE_E9), (''LFENCE_EA'', handle_code_LFENCE_EA),
     (''LFENCE_EB'', handle_code_LFENCE_EB), (''LFENCE_EC'', handle_code_LFENCE_EC), (''LFENCE_ED'', handle_code_LFENCE_ED),
     (''LFENCE_EE'', handle_code_LFENCE_EE), (''LFENCE_EF'', handle_code_LFENCE_EF), (''MFENCE'', handle_code_MFENCE),
     (''MFENCE_F1'', handle_code_MFENCE_F1), (''MFENCE_F2'', handle_code_MFENCE_F2), (''MFENCE_F3'', handle_code_MFENCE_F3),
     (''MFENCE_F4'', handle_code_MFENCE_F4), (''MFENCE_F5'', handle_code_MFENCE_F5), (''MFENCE_F6'', handle_code_MFENCE_F6),
     (''MFENCE_F7'', handle_code_MFENCE_F7), (''PAUSE'', handle_code_PAUSE), (''PREFETCHNTA_M8'', handle_code_PREFETCHNTA_M8),
     (''PREFETCHT0_M8'', handle_code_PREFETCHT0_M8), (''PREFETCHT1_M8'', handle_code_PREFETCHT1_M8),
     (''PREFETCHT2_M8'', handle_code_PREFETCHT2_M8), (''PREFETCHW_M8'', handle_code_PREFETCHW_M8),
     (''PREFETCHWT1_M8'', handle_code_PREFETCHWT1_M8), (''SFENCE'', handle_code_SFENCE), (''SFENCE_F9'', handle_code_SFENCE_F9),
     (''SFENCE_FA'', handle_code_SFENCE_FA), (''SFENCE_FB'', handle_code_SFENCE_FB), (''SFENCE_FC'', handle_code_SFENCE_FC),
     (''SFENCE_FD'', handle_code_SFENCE_FD), (''SFENCE_FE'', handle_code_SFENCE_FE), (''SFENCE_FF'', handle_code_SFENCE_FF),
     (''WBINVD'', handle_code_WBINVD), (''NOPD'', handle_code_NOPD), (''NOPW'', handle_code_NOPW),
     (''NOP_RM16'', handle_code_NOP_RM16), (''NOP_RM32'', handle_code_NOP_RM32), (''NOP_RM64'', handle_code_NOP_RM64),
     (''ENDBR64'', handle_code_ENDBR64)]"

lemma wf_system_handlers [simp]:
  "wf_handler handle_code_RDMSR" "wf_handler handle_code_WRMSR" "wf_handler handle_code_WRMSRNS" "wf_handler handle_code_XSETBV"
  "wf_handler handle_code_XGETBV" "wf_handler handle_code_RDPMC" "wf_handler handle_code_RDTSCP" "wf_handler handle_code_CLTS"
  "wf_handler handle_code_SWAPGS" "wf_handler handle_code_SYSCALL" "wf_handler handle_code_SYSENTER" "wf_handler handle_code_SYSEXITD"
  "wf_handler handle_code_SYSEXITQ" "wf_handler handle_code_SYSRETD" "wf_handler handle_code_SYSRETQ" "wf_handler handle_code_CMC"
  "wf_handler handle_code_PUSHFQ" "wf_handler handle_code_POPFQ" "wf_handler handle_code_LAHF" "wf_handler handle_code_SAHF"
  "wf_handler handle_code_HLT" "wf_handler handle_code_INT1" "wf_handler handle_code_INT3" "wf_handler handle_code_INT_IMM8"
  "wf_handler handle_code_INTO" "wf_handler handle_code_RSM" "wf_handler handle_code_CPUID" "wf_handler handle_code_RDFSBASE_R64"
  "wf_handler handle_code_RDGSBASE_R64" "wf_handler handle_code_WRFSBASE_R64" "wf_handler handle_code_WRGSBASE_R64"
  by (simp_all add: wf_handler_def case_prod_beta Let_def
    handle_code_RDMSR_def handle_code_WRMSR_def handle_code_WRMSRNS_def handle_code_XSETBV_def handle_code_XGETBV_def
    handle_code_RDPMC_def handle_code_RDTSCP_def handle_code_CLTS_def handle_code_SWAPGS_def handle_code_SYSCALL_def
    handle_code_SYSENTER_def handle_code_SYSEXITD_def handle_code_SYSEXITQ_def handle_code_SYSRETD_def handle_code_SYSRETQ_def
    handle_code_CMC_def handle_code_PUSHFQ_def handle_code_POPFQ_def handle_code_LAHF_def handle_code_SAHF_def handle_code_HLT_def
    handle_code_INT1_def handle_code_INT3_def handle_code_INT_IMM8_def handle_code_INTO_def handle_code_RSM_def handle_code_CPUID_def
    handle_code_RDFSBASE_R64_def handle_code_RDGSBASE_R64_def handle_code_WRFSBASE_R64_def handle_code_WRGSBASE_R64_def
    split: sum.split option.split bool.split)

lemma system_table_wf: "list_all (\<lambda>(cd, h). wf_handler h) system_table"
  by (simp add: system_table_def
    handle_code_RDMSRLIST_def handle_code_WRMSRLIST_def handle_code_SMSW_RM16_def handle_code_SMSW_R32M16_def
    handle_code_SMSW_R64M16_def handle_code_CLC_def handle_code_STC_def handle_code_CLD_def handle_code_STD_def handle_code_CLI_def
    handle_code_STI_def handle_code_CLAC_def handle_code_STAC_def handle_code_UD0_def handle_code_UD0_R16_RM16_def
    handle_code_UD0_R32_RM32_def handle_code_UD0_R64_RM64_def handle_code_UD1_R16_RM16_def handle_code_UD1_R32_RM32_def
    handle_code_UD1_R64_RM64_def handle_code_UD2_def handle_code_STMXCSR_M32_def handle_code_LDMXCSR_M32_def handle_code_RDSSPD_R32_def
    handle_code_RDSSPQ_R64_def handle_code_CLFLUSH_M8_def handle_code_CLFLUSHOPT_M8_def handle_code_CLWB_M8_def handle_code_INVD_def
    handle_code_LFENCE_def handle_code_LFENCE_E9_def handle_code_LFENCE_EA_def handle_code_LFENCE_EB_def handle_code_LFENCE_EC_def
    handle_code_LFENCE_ED_def handle_code_LFENCE_EE_def handle_code_LFENCE_EF_def handle_code_MFENCE_def handle_code_MFENCE_F1_def
    handle_code_MFENCE_F2_def handle_code_MFENCE_F3_def handle_code_MFENCE_F4_def handle_code_MFENCE_F5_def handle_code_MFENCE_F6_def
    handle_code_MFENCE_F7_def handle_code_PAUSE_def handle_code_PREFETCHNTA_M8_def handle_code_PREFETCHT0_M8_def
    handle_code_PREFETCHT1_M8_def handle_code_PREFETCHT2_M8_def handle_code_PREFETCHW_M8_def handle_code_PREFETCHWT1_M8_def
    handle_code_SFENCE_def handle_code_SFENCE_F9_def handle_code_SFENCE_FA_def handle_code_SFENCE_FB_def handle_code_SFENCE_FC_def
    handle_code_SFENCE_FD_def handle_code_SFENCE_FE_def handle_code_SFENCE_FF_def handle_code_WBINVD_def handle_code_NOPD_def
    handle_code_NOPW_def handle_code_NOP_RM16_def handle_code_NOP_RM32_def handle_code_NOP_RM64_def handle_code_ENDBR64_def)

section \<open>The whole table\<close>

definition handler_table :: "fp_env \<Rightarrow> (icode \<times> 'w handler) list" where
  "handler_table fp = alu_table @ control_flow_table @ multiply_table @ shift_table @ string_table @ bit_table @ data_move_table @
     legacy_table @ system_table @ packed_integer_table @ vector_move_table @ rearrange_table @ x87_table fp"

lemma handler_table_wf: "(cd, h) \<in> set (handler_table fp) \<Longrightarrow> wf_handler h"
  using alu_table_wf control_flow_table_wf multiply_table_wf shift_table_wf string_table_wf bit_table_wf data_move_table_wf
    legacy_table_wf system_table_wf packed_integer_table_wf vector_move_table_wf rearrange_table_wf x87_table_wf [of fp]
  by (auto simp: handler_table_def list_all_iff)

end
