(* ===== verification/Machine_Invariant.thy ===== *)
theory Machine_Invariant
  imports Dispatch Executor_Witness
begin

text \<open>
  The machine invariant through the executor: a locale for configurations whose handlers keep the invariant of a context, in which
  \<^verbatim>\<open>step\<close> and \<^verbatim>\<open>run\<close> keep the invariant of the emulator, and its interpretation on the dispatch table of the modelled handlers.
\<close>

section \<open>The emulator\<close>

text \<open>The guest is well-formed and no hooks or context callbacks are installed in the executor; the memory may have hooks, MMIO regions
  and passthrough.\<close>

definition wf_emu :: "'w emu \<Rightarrow> bool" where
  "wf_emu e \<longleftrightarrow> wf_cpu (cpu e) \<and> mem_inv (ram e) \<and> no_hooks (exec e) \<and> context_read_cb (exec e) = None \<and>
     context_write_cb (exec e) = None"

fun wf_result :: "'w attempt_result \<Rightarrow> bool" where
  "wf_result (Again e) = wf_emu e"
| "wf_result (Finished res e) = wf_emu e"

lemma wf_emu_parts [simp]: "wf_emu e \<Longrightarrow> wf_cpu (cpu e)" "wf_emu e \<Longrightarrow> mem_inv (ram e)" "wf_emu e \<Longrightarrow> no_hooks (exec e)"
  "wf_emu e \<Longrightarrow> context_read_cb (exec e) = None" "wf_emu e \<Longrightarrow> context_write_cb (exec e) = None"
  by (simp_all add: wf_emu_def)

lemma read_cb_bookkeeping [simp]:
  "context_read_cb (count_stop r x) = context_read_cb x" "context_read_cb (count_retired cd x) = context_read_cb x"
  "context_read_cb (record_violation start res a x) = context_read_cb x"
  by (simp_all add: count_stop_def count_retired_def record_violation_def)

lemma wf_emu_update [simp]:
  "wf_emu e \<Longrightarrow> wf_emu (e\<lparr>cpu := s\<rparr>) \<longleftrightarrow> wf_cpu s" "wf_emu e \<Longrightarrow> wf_emu (e\<lparr>ram := m\<rparr>) \<longleftrightarrow> mem_inv m"
  "wf_emu e \<Longrightarrow> wf_emu (e\<lparr>exec := x\<rparr>) \<longleftrightarrow> no_hooks x \<and> context_read_cb x = None \<and> context_write_cb x = None"
  unfolding wf_emu_def by auto

lemma wf_mask_sp [simp]: "wf_cpu s \<Longrightarrow> wf_cpu (mask_sp s)"
  by (simp add: mask_sp_def)

lemma wf_contexts [simp]: "wf_emu e \<Longrightarrow> wf_ctx (make_ctx e i nxt)" "wf_emu e \<Longrightarrow> wf_ctx c \<Longrightarrow> wf_emu (put_ctx c e)"
  unfolding wf_emu_def wf_ctx_def by (simp_all add: make_ctx_def put_ctx_def)

lemma wf_fetch [simp]:
  assumes "wf_emu e"
  shows "wf_emu (fill_page_cache b n e)" "wf_emu (snd (read_fetch e))"
proof -
  have "mem_inv (snd (read_code_page (ram e) b))" using assms by (simp add: read_code_page_inv)
  then show "wf_emu (fill_page_cache b n e)"
    using assms unfolding wf_emu_def by (auto simp: fill_page_cache_def Let_def split: prod.split option.split)
  show "wf_emu (snd (read_fetch e))" using assms by (simp add: read_fetch_def case_prod_beta read_inv)
qed

lemma wf_fetch_decode [simp]:
  assumes "wf_emu e"
  shows "wf_emu (snd (fetch_decode cfg e))"
proof -
  have "wf_emu (snd (fetch_bytes u n e))" for u n using assms by (simp add: fetch_bytes_def Let_def)
  then show ?thesis using assms by (simp add: fetch_decode_def case_prod_beta Let_def split: option.split)
qed

lemma wf_report [simp]:
  assumes "wf_emu e"
  shows "wf_emu (report_stop start res e)" "wf_result (fault_or_stop start res e)" "try_recover_fault start res a e = (False, e)"
  using assms by (simp_all add: report_stop_hookless fault_or_stop_hookless try_recover_fault_def hookless_dispatch)

lemma wf_debug [simp]:
  assumes "wf_emu e"
  shows "wf_result (execute_breakpoint start i nxt cd hs e)" "wf_result (debug_trap start i res b1 b2 hs e)"
    "wf_result (invalid_opcode start i nxt e)"
  using assms by (simp_all add: execute_breakpoint_def debug_trap_def invalid_opcode_def hookless_dispatch case_prod_beta Let_def)

lemma wf_retire [simp]: "wf_emu e \<Longrightarrow> wf_ctx c \<Longrightarrow> wf_result (retire start i cd b1 b2 b3 acc res c e)"
  by (simp add: retire_def Let_def)

section \<open>Typed configurations\<close>

locale typed_handlers =
  fixes cfg :: "'w config"
  assumes handlers_wf: "handler_of cfg cd = Some h \<Longrightarrow> wf_handler h"
begin

lemma dispatch_wf: "wf_ctx c \<Longrightarrow> wf_ctx (snd (dispatch cfg cd c))"
  using handlers_wf by (auto simp: dispatch_def split: option.split)

lemma run_core_wf: "wf_emu e \<Longrightarrow> wf_result (run_core cfg start ce nxt b1 b2 b3 acc e)"
  by (simp add: run_core_def dispatch_wf case_prod_beta Let_def)

lemma execute_entry_wf:
  assumes "wf_emu e"
  shows "wf_result (execute_entry cfg start ce e)"
proof -
  have h: "wf_result (run_hooked cfg start ce nxt b1 b2 b3 acc e)" if "wf_emu e" for nxt b1 b2 b3 acc e
    using that no_hooks_simps [OF wf_emu_parts(3) [OF that]]
    by (simp add: run_hooked_def hookless_dispatch run_core_wf Let_def)
  have "wf_result (run_trapped cfg start ce nxt b1 b2 b3 acc e)" if "wf_emu e" for nxt b1 b2 b3 acc e
    using that h by (simp add: run_trapped_def hookless_dispatch split: option.split)
  then show ?thesis using assms by (simp add: execute_entry_def Let_def)
qed

lemma attempts_wf: "wf_emu e \<Longrightarrow> wf_emu (snd (attempts cfg start n e))"
proof (induction n arbitrary: e)
  case (Suc n)
  have "wf_result (attempt cfg start e)"
    using Suc.prems wf_fetch_decode [of e cfg] by (auto simp: attempt_def execute_entry_wf case_prod_beta split: sum.split)
  then show ?case using Suc.IH by (auto split: attempt_result.split)
qed (simp add: hookless_dispatch Let_def)

lemma step_wf:
  assumes "wf_emu e"
  shows "wf_emu (snd (step cfg e))"
proof (cases "stop_requested (exec e)")
  case True
  then show ?thesis
    unfolding step_def Let_def [of "upd_exec _ e"] started_def [symmetric]
    using assms by (simp add: Let_def hookless_dispatch)
next
  case False
  have a: "wf_emu (snd (attempts cfg st n (e\<lparr>exec := started (exec e), cpu := entry_state (cpu e)\<rparr>)))" for st n
    using assms by (intro attempts_wf) (simp add: entry_state_def)
  then show ?thesis
    using step_attempts [OF False, of cfg] assms by (simp add: case_prod_beta sync_context_def)
qed

lemma run_from_wf: "wf_emu e \<Longrightarrow> wf_emu (snd (run_from cfg limit i n e))"
  by (induction n arbitrary: i e) (simp_all add: hookless_dispatch Let_def case_prod_beta step_wf)

end

text \<open>The configuration with the modelled handlers in place of its own, for a floating-point environment.\<close>

definition modelled :: "fp_env \<Rightarrow> 'w config \<Rightarrow> 'w config" where
  "modelled fp cfg = cfg\<lparr>handler_of := map_of (handler_table fp)\<rparr>"

interpretation th: typed_handlers "modelled fp cfg" for fp cfg
  by unfold_locales (auto simp: modelled_def dest!: map_of_SomeD intro: handler_table_wf)

text \<open>C15: execution keeps the machine well-formed. With the dispatch table of the 1613 modelled handlers, from an emulator without executor
  hooks whose register file has its array bounds and whose memory satisfies its invariant, \<^verbatim>\<open>run\<close> with any limit ends in such an emulator again, whatever
  bytes are executed, whatever the floating-point library computes and however it ends, with breakpoints and single stepping and
  with any access hooks, MMIO regions and passthrough callbacks in the memory.\<close>

theorem run_keeps_machine:
  assumes "wf_emu e"
  shows "wf_emu (snd (run (modelled fp cfg) n e))"
  unfolding run_def by (rule th.run_from_wf [OF assms])

section \<open>A concrete machine\<close>

lemma demo_emu_wf: "wf_emu demo_emu"
proof -
  have "mem_inv demo_memory"
    unfolding demo_memory_def by (rule map_inv(1) [OF empty_memory_inv]) (simp add: empty_memory_def)
  moreover have "exec demo_emu = new_executor False null_instruction" by (simp add: demo_emu_def)
  ultimately show ?thesis using initial_wf unfolding wf_emu_def by simp
qed

theorem run_keeps_machine_witness: "wf_emu (snd (run (modelled demo_fp (demo_config jump_instruction)) 1000 demo_emu))"
  by (rule run_keeps_machine [OF demo_emu_wf])

end
