(* ===== verification/Simd_Lanes.thy ===== *)
theory Simd_Lanes
  imports Simd_Int
begin

text \<open>
  Lanes of a vector as bit ranges: what \<open>lane_load\<close>, \<open>lane_store\<close> and the loops over lanes do to the bits of a vector, and the lane
  functions of the packed instructions against integer arithmetic.
\<close>

section \<open>Lanes as bit ranges\<close>

lemma sizeof_bits: "8 dvd LENGTH('a) \<Longrightarrow> 8 * sizeof TYPE('a::len) = LENGTH('a)"
  by (simp add: sizeof_def)

lemma byte_mask: "(255 :: 'a::len word) = mask 8"
  by (simp add: mask_eq_exp_minus_1)

lemma bit_lane_load:
  assumes "8 dvd LENGTH('a::len)"
  shows "bit (lane_load v off :: 'a word) n \<longleftrightarrow> n < LENGTH('a) \<and> bit v (8 * off + n)"
proof -
  have "n div 8 < sizeof TYPE('a) \<longleftrightarrow> n < LENGTH('a)"
    using sizeof_bits [OF assms] by linarith
  moreover have "(off + n div 8) * 8 + n mod 8 = 8 * off + n"
    by (simp add: algebra_simps)
  ultimately show ?thesis
    by (auto simp: lane_load_def bit_of_le_bytes bit_simps byte_mask add.commute mult.commute dest: bit_imp_le_length)
qed

lemma bit_store_bytes:
  "bit (fold (\<lambda>i v. (v AND NOT (push_bit ((off + i) * 8) 0xFF)) OR push_bit ((off + i) * 8) (ucast (b i :: u8)))
      [0..<m] (v :: simd)) n \<longleftrightarrow>
   n < 512 \<and> (if 8 * off \<le> n \<and> n < 8 * off + 8 * m then bit (b ((n - 8 * off) div 8)) ((n - 8 * off) mod 8) else bit v n)"
proof (induction m)
  case 0
  then show ?case by (auto dest: bit_imp_le_length)
next
  case (Suc m)
  show ?case
  proof (cases "8 * off + 8 * m \<le> n \<and> n < 8 * off + 8 * Suc m")
    case True
    define r where "r = n - (off + m) * 8"
    with True have "n = (off + m) * 8 + r" by simp
    moreover from this True have "r < 8" by simp
    ultimately have r: "n = (off + m) * 8 + r" "r < 8" .
    then have q: "(n - 8 * off) div 8 = m" "(n - 8 * off) mod 8 = r" "8 * off \<le> n \<and> n < 8 * off + 8 * Suc m" using True by (simp_all add: algebra_simps)
    have "bit (push_bit ((off + m) * 8) 0xFF :: simd) n \<longleftrightarrow> n < 512" "bit (push_bit ((off + m) * 8) (ucast (b m)) :: simd) n \<longleftrightarrow> n < 512 \<and> bit (b m) r"
      using r by (auto simp: bit_push_bit_iff bit_ucast_iff byte_mask bit_mask_iff)
    then show ?thesis
      unfolding q if_True using q(3) by (simp add: bit_or_iff bit_and_iff bit_not_iff del: mult_Suc_right distrib_right_numeral) (auto dest: bit_imp_le_length)
  next
    case False
    have "(off + m) * 8 \<le> n \<Longrightarrow> n - (off + m) * 8 < 8 \<Longrightarrow> False" using False by simp
    then have "\<not> bit (push_bit ((off + m) * 8) 0xFF :: simd) n" "\<not> bit (push_bit ((off + m) * 8) (ucast (b m)) :: simd) n"
      by (auto simp: bit_simps byte_mask dest: bit_imp_le_length)
    moreover have "8 * off \<le> n \<and> n < 8 * off + 8 * Suc m \<longleftrightarrow> 8 * off \<le> n \<and> n < 8 * off + 8 * m" using False by auto
    ultimately show ?thesis
      by (simp add: bit_or_iff bit_and_iff bit_not_iff Suc.IH del: mult_Suc_right distrib_right_numeral) auto
  qed
qed

lemma bit_lane_store:
  assumes "8 dvd LENGTH('a::len)"
  shows "bit (lane_store off (x :: 'a word) v) n \<longleftrightarrow>
    n < 512 \<and> (if 8 * off \<le> n \<and> n < 8 * off + LENGTH('a) then bit x (n - 8 * off) else bit v n)"
proof -
  have "bit (le_bytes (sizeof TYPE('a)) x ! (k div 8)) (k mod 8) = bit x k" if "k < LENGTH('a)" for k
  proof -
    have "k div 8 < sizeof TYPE('a)" using that sizeof_bits [OF assms] by linarith
    then show ?thesis by (simp add: bit_le_bytes_nth del: nth_le_bytes)
  qed
  then show ?thesis
    using sizeof_bits [OF assms] unfolding lane_store_def bit_store_bytes by (auto simp del: nth_le_bytes)
qed

lemma lanes_multiple: "0 < s \<Longrightarrow> lanes (k * s) s = map (\<lambda>j. j * s) [0..<k]"
proof (induction k)
  case (Suc k)
  have "[0..<Suc k * s] = [0..<k * s] @ [k * s..<k * s + s]"
    using upt_add_eq_append [of 0 "k * s" s] by (simp add: add.commute [of s])
  then have "lanes (Suc k * s) s = lanes (k * s) s @ filter (\<lambda>lane. s dvd lane) [k * s..<k * s + s]"
    by (simp add: lanes_def)
  also have "filter (\<lambda>lane. s dvd lane) [k * s..<k * s + s] = [k * s]"
  proof -
    have "[k * s..<k * s + s] = k * s # [Suc (k * s)..<k * s + s]" using Suc.prems by (simp add: upt_conv_Cons)
    moreover have "filter (\<lambda>lane. s dvd lane) [Suc (k * s)..<k * s + s] = []"
    proof -
      have "\<not> s dvd l" if "k * s < l" "l < k * s + s" for l
      proof
        assume "s dvd l"
        then obtain q where "l = s * q" ..
        with that have "s * k < s * q" "s * q < s * Suc k" by (simp_all add: algebra_simps)
        then have "k < q" "q < Suc k" by (simp_all only: mult_less_cancel1)
        then show False by simp
      qed
      then show ?thesis by (auto simp: filter_empty_conv)
    qed
    ultimately show ?thesis by simp
  qed
  finally show ?case using Suc by simp
qed (simp add: lanes_def)


lemma bit_fold_lanes:
  assumes "8 dvd LENGTH('a::len)"
  shows "bit (fold (\<lambda>lane out. if P lane then lane_store lane (g lane :: 'a word) out else out)
      (lanes (k * sizeof TYPE('a)) (sizeof TYPE('a))) out) n \<longleftrightarrow>
    n < 512 \<and> (if n < k * LENGTH('a) \<and> P (n div LENGTH('a) * sizeof TYPE('a))
      then bit (g (n div LENGTH('a) * sizeof TYPE('a))) (n mod LENGTH('a)) else bit out n)"
proof -
  have s: "0 < sizeof TYPE('a)" "8 * (j * sizeof TYPE('a)) = j * LENGTH('a)" for j
    using sizeof_bits [OF assms] len_gt_0 [where 'a='a] by (metis gr0I mult_0_right not_less0, simp)
  have last: "n div LENGTH('a) = k \<and> n mod LENGTH('a) = n - k * LENGTH('a)" if "k * LENGTH('a) \<le> n" "n < k * LENGTH('a) + LENGTH('a)" for k
  proof -
    have "n = k * LENGTH('a) + (n - k * LENGTH('a))" "n - k * LENGTH('a) < LENGTH('a)" using that by auto
    then show ?thesis by (metis add.commute div_mult_self3 div_less add_0 len_gt_0 mod_less mod_mult_self1 less_numeral_extra(3))
  qed
  show ?thesis
    unfolding lanes_multiple [OF s(1)]
  proof (induction k)
    case 0
    then show ?case by (auto dest: bit_imp_le_length)
  next
    case (Suc k)
    show ?case
    proof (cases "k * LENGTH('a) \<le> n \<and> n < k * LENGTH('a) + LENGTH('a)")
      case True
      with last have "n div LENGTH('a) = k" "n mod LENGTH('a) = n - k * LENGTH('a)" by auto
      with True Suc show ?thesis by (simp add: bit_lane_store [OF assms] s add.commute [of "LENGTH('a)"])
    next
      case False
      with Suc show ?thesis by (auto simp add: bit_lane_store [OF assms] s)
    qed
  qed
qed

text \<open>The value of lane \<open>j\<close> of a vector of \<open>n\<close>-bit lanes.\<close>

definition vlane :: "nat \<Rightarrow> simd \<Rightarrow> nat \<Rightarrow> int" where
  "vlane n v j = uint v div 2 ^ (n * j) mod 2 ^ n"

lemma vlane_load:
  assumes "8 dvd LENGTH('a::len)"
  shows "vlane LENGTH('a) v j = uint (lane_load v (j * sizeof TYPE('a)) :: 'a word)"
proof -
  have s: "8 * (j * sizeof TYPE('a)) = LENGTH('a) * j" using arg_cong [OF sizeof_bits [OF assms], of "\<lambda>x. x * j"] by auto
  have "take_bit LENGTH('a) (drop_bit (LENGTH('a) * j) (uint v)) = uint (lane_load v (j * sizeof TYPE('a)) :: 'a word)"
    by (intro bit_eqI) (auto simp: bit_simps bit_lane_load [OF assms] s dest: bit_imp_le_length)
  then show ?thesis by (simp add: vlane_def take_bit_eq_mod drop_bit_eq_div)
qed

lemma lane_load_fold:
  assumes "8 dvd LENGTH('a::len)" "j < k" "k * LENGTH('a) \<le> 512"
  shows "lane_load (fold (\<lambda>lane out. if P lane then lane_store lane (g lane :: 'a word) out else out)
      (lanes (k * sizeof TYPE('a)) (sizeof TYPE('a))) out) (j * sizeof TYPE('a)) =
    (if P (j * sizeof TYPE('a)) then g (j * sizeof TYPE('a)) else lane_load out (j * sizeof TYPE('a)))"
proof (rule bit_word_eqI)
  fix n assume n: "n < LENGTH('a)"
  have s: "8 * (j * sizeof TYPE('a)) = j * LENGTH('a)" using sizeof_bits [OF assms(1)] by simp
  have "j * LENGTH('a) + n < k * LENGTH('a)"
    using n assms(2) mult_le_mono1 [of "Suc j" k "LENGTH('a)"] by simp
  with assms(3) n show "bit (lane_load (fold (\<lambda>lane out. if P lane then lane_store lane (g lane :: 'a word) out else out)
      (lanes (k * sizeof TYPE('a)) (sizeof TYPE('a))) out) (j * sizeof TYPE('a)) :: 'a word) n =
    bit (if P (j * sizeof TYPE('a)) then g (j * sizeof TYPE('a)) else lane_load out (j * sizeof TYPE('a))) n"
    by (auto simp: bit_lane_load [OF assms(1)] bit_fold_lanes [OF assms(1)] s)
qed

lemma drop_bit_fold:
  assumes "8 dvd LENGTH('a::len)"
  shows "drop_bit (k * LENGTH('a)) (fold (\<lambda>lane out. if P lane then lane_store lane (g lane :: 'a word) out else out)
      (lanes (k * sizeof TYPE('a)) (sizeof TYPE('a))) out) = drop_bit (k * LENGTH('a)) out"
  by (rule bit_word_eqI) (auto simp: bit_simps bit_fold_lanes [OF assms] dest: bit_imp_le_length)

section \<open>Reference semantics\<close>

datatype packed_op =
    P_Add | P_Sub | P_Add_Unsigned_Sat | P_Add_Signed_Sat | P_Sub_Unsigned_Sat | P_Sub_Signed_Sat
  | P_Avg | P_Max_Unsigned | P_Min_Signed | P_Eq | P_Gt | P_Mul_Low | P_Mul_High | P_Mul_High_Unsigned
  | P_And | P_Or | P_Xor | P_Andn

definition lane_signed :: "nat \<Rightarrow> int \<Rightarrow> int" where
  "lane_signed n a = (if a < 2 ^ (n - 1) then a else a - 2 ^ n)"

definition clamp :: "int \<Rightarrow> int \<Rightarrow> int \<Rightarrow> int" where
  "clamp lo hi x = max lo (min hi x)"

fun packed_ref :: "packed_op \<Rightarrow> nat \<Rightarrow> int \<Rightarrow> int \<Rightarrow> int" where
  "packed_ref P_Add n a b = (a + b) mod 2 ^ n"
| "packed_ref P_Sub n a b = (a - b) mod 2 ^ n"
| "packed_ref P_Add_Unsigned_Sat n a b = clamp 0 (2 ^ n - 1) (a + b)"
| "packed_ref P_Sub_Unsigned_Sat n a b = clamp 0 (2 ^ n - 1) (a - b)"
| "packed_ref P_Add_Signed_Sat n a b = clamp (- (2 ^ (n - 1))) (2 ^ (n - 1) - 1) (lane_signed n a + lane_signed n b) mod 2 ^ n"
| "packed_ref P_Sub_Signed_Sat n a b = clamp (- (2 ^ (n - 1))) (2 ^ (n - 1) - 1) (lane_signed n a - lane_signed n b) mod 2 ^ n"
| "packed_ref P_Avg n a b = (a + b + 1) div 2"
| "packed_ref P_Max_Unsigned n a b = max a b"
| "packed_ref P_Min_Signed n a b = min (lane_signed n a) (lane_signed n b) mod 2 ^ n"
| "packed_ref P_Eq n a b = (if a = b then 2 ^ n - 1 else 0)"
| "packed_ref P_Gt n a b = (if lane_signed n a > lane_signed n b then 2 ^ n - 1 else 0)"
| "packed_ref P_Mul_Low n a b = (a * b) mod 2 ^ n"
| "packed_ref P_Mul_High n a b = (lane_signed n a * lane_signed n b) div 2 ^ n mod 2 ^ n"
| "packed_ref P_Mul_High_Unsigned n a b = (a * b) div 2 ^ n"
| "packed_ref P_And n a b = a AND b"
| "packed_ref P_Or n a b = a OR b"
| "packed_ref P_Xor n a b = a XOR b"
| "packed_ref P_Andn n a b = (2 ^ n - 1 - a) AND b"

definition computes :: "('a::len word \<Rightarrow> 'a word \<Rightarrow> 'a word) \<Rightarrow> packed_op \<Rightarrow> bool" where
  "computes f op \<longleftrightarrow> (\<forall>a b. uint (f a b) = packed_ref op LENGTH('a) (uint a) (uint b))"

lemma lane_signed_uint: "lane_signed LENGTH('a) (uint w) = sint w" for w :: "'a::len word"
proof -
  obtain n where n: "LENGTH('a) = Suc n" using len_gt_0 [where 'a='a] by (cases "LENGTH('a)") auto
  have k: "0 \<le> uint w" "uint w < 2 ^ Suc n" using uint_lt2p [of w] n by simp_all
  have "(uint w + 2 ^ n) mod 2 ^ Suc n = (if uint w < 2 ^ n then uint w + 2 ^ n else uint w - 2 ^ n)"
    using k minus_mod_self2 [of "uint w + 2 ^ n" "2 ^ Suc n"] by (auto simp: mod_pos_pos_trivial)
  then show ?thesis
    by (simp add: sint_uint n signed_take_bit_eq_take_bit_shift take_bit_eq_mod lane_signed_def)
qed

lemma sint_bounds: "- (2 ^ (LENGTH('a) - 1)) \<le> sint w" "sint w \<le> 2 ^ (LENGTH('a) - 1) - 1" for w :: "'a::len word"
  using sint_lt [of w] sint_ge [of w] by simp_all

lemma word_of_sint: "a + b = word_of_int (sint a + sint b)" "a - b = word_of_int (sint a - sint b)" for a b :: "'a::len word"
  by simp_all

lemma computes_wrap:
  "computes (\<lambda>a b :: 'a::len word. a + b) P_Add" "computes (\<lambda>a b :: 'a::len word. a - b) P_Sub"
  by (simp_all add: computes_def uint_word_ariths)

lemma uint_all_ones: "uint (- 1 :: 'a::len word) = 2 ^ LENGTH('a) - 1"
  by (simp only: unsigned_minus_1_eq_mask mask_eq_exp_minus_1)

lemma computes_unsigned_sat:
  "computes (sat_add_unsigned :: 'a::len word \<Rightarrow> _) P_Add_Unsigned_Sat"
  "computes (sat_sub_unsigned :: 'a::len word \<Rightarrow> _) P_Sub_Unsigned_Sat"
proof -
  have "uint (NOT 0 - a) = 2 ^ LENGTH('a) - 1 - uint a" for a :: "'a word"
    using uint_lt2p [of a] by (simp add: uint_word_ariths zmod_minus1 mod_diff_left_eq) 
      (rule mod_pos_pos_trivial; (use uint_lt2p [of a] uint_ge_0 [of a] in linarith))
  moreover have "uint (NOT 0 :: 'a word) = 2 ^ LENGTH('a) - 1"
    using uint_all_ones [where 'a='a] by simp
  ultimately show "computes (sat_add_unsigned :: 'a::len word \<Rightarrow> _) P_Add_Unsigned_Sat"
    by (auto simp: computes_def sat_add_unsigned_def clamp_def word_less_def uint_plus_if' max_def min_def)
  have "uint (sat_sub_unsigned a b) = clamp 0 (2 ^ LENGTH('a) - 1) (uint a - uint b)" for a b :: "'a word"
    by (auto simp: sat_sub_unsigned_def clamp_def word_less_def uint_sub_if' max_def min_def)
      (use uint_lt2p [of a] uint_ge_0 [of a] uint_ge_0 [of b] in linarith)+
  then show "computes (sat_sub_unsigned :: 'a::len word \<Rightarrow> _) P_Sub_Unsigned_Sat"
    by (simp add: computes_def)
qed

lemma sat_signed_clamp:
  "sat_add_signed a b = word_of_int (clamp (smin TYPE('a)) (smax TYPE('a)) (sint a + sint b))"
  "sat_sub_signed a b = word_of_int (clamp (smin TYPE('a)) (smax TYPE('a)) (sint a - sint b))" for a b :: "'a::len word"
proof -
  have "smin TYPE('a) \<le> sint a" "sint a \<le> smax TYPE('a)" "smin TYPE('a) \<le> sint b" "sint b \<le> smax TYPE('a)"
    using sint_bounds [of a] sint_bounds [of b] by (simp_all add: smin_def smax_def)
  then show "sat_add_signed a b = word_of_int (clamp (smin TYPE('a)) (smax TYPE('a)) (sint a + sint b))"
    "sat_sub_signed a b = word_of_int (clamp (smin TYPE('a)) (smax TYPE('a)) (sint a - sint b))"
    unfolding sat_add_signed_def sat_sub_signed_def clamp_def word_of_sint 
    by (auto simp: max_def min_def intro!: arg_cong [where f=word_of_int] simp del: of_int_add of_int_diff)
qed

lemma computes_signed_sat:
  "computes (sat_add_signed :: 'a::len word \<Rightarrow> _) P_Add_Signed_Sat"
  "computes (sat_sub_signed :: 'a::len word \<Rightarrow> _) P_Sub_Signed_Sat"
  by (simp_all add: computes_def lane_signed_uint sat_signed_clamp uint_word_of_int smin_def smax_def)

lemma all_ones_eq: "8 dvd LENGTH('a) \<Longrightarrow> (all_ones :: 'a::len word) = - 1"
  using sizeof_bits [where 'a='a]
  by (intro bit_word_eqI) (auto simp: all_ones_def bit_of_le_bytes byte_mask bit_simps)

lemma computes_compare:
  assumes "8 dvd LENGTH('a)"
  shows "computes (lane_eq :: 'a::len word \<Rightarrow> _) P_Eq" "computes (lane_gt :: 'a::len word \<Rightarrow> _) P_Gt"
  by (auto simp: computes_def lane_signed_uint lane_eq_def lane_gt_def all_ones_eq [OF assms] uint_all_ones
      word_uint_eq_iff simp del: unsigned_minus_1_eq_mask)

lemma computes_avg: "computes (avg_unsigned :: 'a::len word \<Rightarrow> _) P_Avg"
proof -
  have "(uint a + uint b + 1) div 2 < 2 ^ LENGTH('a)" for a b :: "'a word"
    using uint_lt2p [of a] uint_lt2p [of b] by linarith
  then show ?thesis by (auto simp: computes_def avg_unsigned_def uint_word_of_int)
qed

lemma sint_mod: "sint w mod 2 ^ LENGTH('a) = uint w" for w :: "'a::len word"
  using uint_word_of_int [of "sint w", where 'a='a] by simp

lemma computes_extremes:
  "computes (max :: 'a::len word \<Rightarrow> _) P_Max_Unsigned" "computes (lane_smin :: 'a::len word \<Rightarrow> _) P_Min_Signed"
  by (auto simp: computes_def lane_signed_uint lane_smin_def min_def max_def word_le_def sint_mod)

lemma computes_mul: "computes lane_mullw P_Mul_Low" "computes lane_mulhw P_Mul_High" "computes lane_mulhuw P_Mul_High_Unsigned"
proof -
  show "computes lane_mulhw P_Mul_High"
    by (simp add: computes_def lane_mulhw_def uint_word_of_int flip: lane_signed_uint)
  have "word_of_int (sint a * sint b) = a * b" for a b :: u16 by simp
  then show "computes lane_mullw P_Mul_Low"
    by (simp add: computes_def lane_mullw_def uint_word_ariths)
  have "uint a * uint b div 65536 < 65536" for a b :: u16
    using uint_lt2p [of a] uint_lt2p [of b] mult_strict_mono [of "uint a" 65536 "uint b" 65536] by simp
  then show "computes lane_mulhuw P_Mul_High_Unsigned"
    by (simp add: computes_def lane_mulhuw_def uint_word_of_int pos_imp_zdiv_nonneg_iff)
qed

lemma vlane_bits: "vlane n v j = take_bit n (drop_bit (n * j) (uint v))"
  by (simp add: vlane_def take_bit_eq_mod drop_bit_eq_div)

lemma vlane_cong:
  assumes "take_bit m v = take_bit m v'" "j < m div n"
  shows "vlane n v j = vlane n v' j"
proof (unfold vlane_bits, rule bit_eqI)
  fix i
  have "n * Suc j \<le> m" using assms(2) by (metis Suc_leI div_times_less_eq_dividend le_trans mult.commute mult_le_mono2)
  then have *: "i < n \<Longrightarrow> n * j + i < m" by simp
  have "bit (take_bit m v) (n * j + i) = bit (take_bit m v') (n * j + i)" using assms(1) by simp
  then show "bit (take_bit n (drop_bit (n * j) (uint v))) i = bit (take_bit n (drop_bit (n * j) (uint v'))) i"
    using * by (auto simp: bit_simps)
qed

text \<open>Lane sizes that divide every register width.\<close>

definition lane_size :: "'a::len itself \<Rightarrow> bool" where
  "lane_size t \<longleftrightarrow> 8 dvd LENGTH('a) \<and> LENGTH('a) dvd 128"

lemma vector_width_cases: "vector_width r \<in> {16, 32, 64}"
  by (cases r) simp_all

lemma lane_count:
  assumes "lane_size TYPE('a::len)"
  obtains k where "vector_width r = k * sizeof TYPE('a)" "8 * vector_width r div LENGTH('a) = k"
    "k * LENGTH('a) = 8 * vector_width r" "k * LENGTH('a) \<le> 512"
proof -
  obtain m where m: "128 = LENGTH('a) * m" using assms by (auto simp: lane_size_def)
  have s: "8 * sizeof TYPE('a) = LENGTH('a)" using assms by (simp add: lane_size_def sizeof_bits)
  define q where "q = vector_width r div 16"
  have q: "vector_width r = 16 * q" "q \<le> 4"
    using vector_width_cases [of r] by (auto simp: q_def)
  have "8 * (sizeof TYPE('a) * m) = 8 * 16" unfolding mult.assoc [symmetric] s using m by simp
  then have "m * sizeof TYPE('a) = 16" by (simp add: mult.commute)
  then have "vector_width r = (m * q) * sizeof TYPE('a)" using q by simp
  moreover have k: "(m * q) * LENGTH('a) = 8 * vector_width r" using q m by (simp add: mult.commute [of m])
  moreover from this have "8 * vector_width r div LENGTH('a) = m * q" by (metis len_not_eq_0 nonzero_mult_div_cancel_right)
  moreover have "8 * vector_width r \<le> 512" using q by simp
  ultimately show ?thesis by (metis that)
qed

lemma simd_mask_eq: "simd_mask w = mask (8 * w)"
  by (simp add: simd_mask_def mask_eq_exp_minus_1 push_bit_eq_mult mult.commute)

lemma write_vec_slot:
  fixes r v zu s defines "w \<equiv> 8 * vector_width r"
  obtains u where "write_vec r v zu s = s\<lparr>vectors := (vectors s)[vector_index r := u]\<rparr>" "take_bit w u = take_bit w v"
    "drop_bit w u = (if zu then 0 else drop_bit w (vectors s ! vector_index r))"
proof
  let ?m = "simd_mask (vector_width r)"
  let ?u = "if zu then v AND ?m else (vectors s ! vector_index r AND NOT ?m) OR (v AND ?m)"
  show "write_vec r v zu s = s\<lparr>vectors := (vectors s)[vector_index r := ?u]\<rparr>" by (simp add: write_vec_def Let_def)
  show "take_bit w ?u = take_bit w v" "drop_bit w ?u = (if zu then 0 else drop_bit w (vectors s ! vector_index r))"
    by (rule bit_word_eqI; auto simp: bit_simps simd_mask_eq w_def dest: bit_imp_le_length)+
qed

end
