(* ===== verification/Simd_Facts.thy ===== *)
theory Simd_Facts
  imports Simd_Lanes Alu_Memory
begin

text \<open>
  What the packed integer instructions compute: every handler of the two catalogs against integer arithmetic on the lanes of its operands,
  with the write mask, the bits above the destination register and the fault of an unreadable operand.
\<close>

section \<open>Packed instructions\<close>

text \<open>
  The encodings: \<open>Two_Operand\<close> reads and overwrites its first operand and keeps the bits above it; \<open>Three_Operand\<close> clears them and obeys
  the write mask; \<open>Three_Operand_Unmasked\<close> clears them and has no mask.
\<close>

datatype encoding = Two_Operand | Three_Operand | Three_Operand_Unmasked

definition packed_sources :: "encoding \<Rightarrow> 'w ctx \<Rightarrow> (simd \<times> simd) option \<times> 'w ctx" where
  "packed_sources enc c =
     (let dst = op_register (instr c) 0; w = vector_width dst
      in if enc = Two_Operand
         then case read_vec_operand c 1 w of (r, c1) \<Rightarrow> (map_option (Pair (read_vec (state c) dst)) r, c1)
         else case read_vec_operand c 1 w of
                (None, c1) \<Rightarrow> (None, c1)
              | (Some a, c1) \<Rightarrow> case read_vec_operand c1 2 w of (r, c2) \<Rightarrow> (map_option (Pair a) r, c2))"

definition masked_off :: "encoding \<Rightarrow> 'w ctx \<Rightarrow> nat \<Rightarrow> bool" where
  "masked_off enc c j \<longleftrightarrow> enc = Three_Operand \<and> op_mask (instr c) \<noteq> NONE \<and> op_mask (instr c) \<noteq> K 0 \<and>
     \<not> bit (read_opmask (state c) (op_mask (instr c))) j"

text \<open>\<open>u\<close> is a correct new value of the destination: every lane that the mask selects is \<open>res\<close> of its number, and the bits above
  the register are kept or cleared.\<close>

definition vector_result :: "encoding \<Rightarrow> 'w ctx \<Rightarrow> nat \<Rightarrow> (nat \<Rightarrow> int) \<Rightarrow> simd \<Rightarrow> bool" where
  "vector_result enc c n res u \<longleftrightarrow>
     (let dst = op_register (instr c) 0; w = 8 * vector_width dst; old = vectors (state c) ! vector_index dst
      in (\<forall>j < w div n. vlane n u j =
            (if masked_off enc c j then if zeroing_masking (instr c) then 0 else vlane n old j else res j)) \<and>
         drop_bit w u = (if enc = Two_Operand then drop_bit w old else 0))"

definition computes_packed :: "'w handler \<Rightarrow> encoding \<Rightarrow> packed_op \<Rightarrow> nat \<Rightarrow> bool" where
  "computes_packed h enc op n \<longleftrightarrow>
     (\<forall>c dst. op_kind (instr c) 0 = REGISTER \<and> op_register (instr c) 0 = dst \<and> is_vector_register dst \<longrightarrow>
        (case packed_sources enc c of
           (None, c1) \<Rightarrow> h c = (memory_fault c1 (memory_address c1), c1)
         | (Some (lhs, rhs), c1) \<Rightarrow>
             \<exists>u. h c = (no_stop, c1\<lparr>state := (state c)\<lparr>vectors := (vectors (state c))[vector_index dst := u]\<rparr>\<rparr>) \<and>
                 vector_result enc c n (\<lambda>j. packed_ref op n (vlane n lhs j) (vlane n rhs j)) u))"

lemma read_vec_operand_frame:
  "read_vec_operand c k w = (r, c1) \<Longrightarrow> state c1 = state c \<and> instr c1 = instr c"
  by (auto simp: read_vec_operand_def read_vec_mem_def Let_def split: if_splits prod.splits option.splits)

lemma put_vec_result:
  fixes c dst
  assumes "op_register (instr c) 0 = dst" "enc = Two_Operand \<longleftrightarrow> \<not> zu"
    "\<And>j. j < 8 * vector_width dst div n \<Longrightarrow> vlane n v j =
       (if masked_off enc c j then if zeroing_masking (instr c) then 0 else vlane n (vectors (state c) ! vector_index dst) j else res j)"
    "state c1 = state c"
  shows "\<exists>u. put_vec dst v zu c1 = (no_stop, c1\<lparr>state := (state c)\<lparr>vectors := (vectors (state c))[vector_index dst := u]\<rparr>\<rparr>) \<and>
    vector_result enc c n res u"
proof -
  obtain u where u: "write_vec dst v zu (state c) = (state c)\<lparr>vectors := (vectors (state c))[vector_index dst := u]\<rparr>"
    "take_bit (8 * vector_width dst) u = take_bit (8 * vector_width dst) v"
    "drop_bit (8 * vector_width dst) u = (if zu then 0 else drop_bit (8 * vector_width dst) (vectors (state c) ! vector_index dst))"
    by (rule write_vec_slot)
  then have "vector_result enc c n res u"
    using assms vlane_cong [OF u(2)] by (simp add: vector_result_def Let_def)
  then show ?thesis using u(1) assms(4) by (auto simp: put_vec_def)
qed

lemma vlane_zip:
  fixes f :: "'a::len word \<Rightarrow> 'a word \<Rightarrow> 'a word"
  assumes "lane_size TYPE('a)" "computes f op" "j < 8 * vector_width r div LENGTH('a)"
  shows "vlane LENGTH('a) (zip_lanes f (vector_width r) a b out) j =
    packed_ref op LENGTH('a) (vlane LENGTH('a) a j) (vlane LENGTH('a) b j)"
proof -
  have d: "8 dvd LENGTH('a)" using assms(1) by (simp add: lane_size_def)
  obtain k where k: "vector_width r = k * sizeof TYPE('a)" "8 * vector_width r div LENGTH('a) = k" "k * LENGTH('a) \<le> 512"
    by (rule lane_count [OF assms(1), of r])
  show ?thesis
    using assms(2,3) k lane_load_fold [OF d, of j k "\<lambda>_. True" "\<lambda>l. f (lane_load a l) (lane_load b l)" out]
    by (simp add: vlane_load [OF d] zip_lanes_def computes_def)
qed

lemma vlane_masked:
  assumes "lane_size TYPE('a::len)" "op_register (instr c) 0 = dst" "j < 8 * vector_width dst div LENGTH('a)"
    "state c1 = state c" "instr c1 = instr c"
  shows "vlane LENGTH('a) (apply_masked_lanes TYPE('a) c1 dst (read_vec (state c) dst) v) j =
    (if masked_off Three_Operand c j then if zeroing_masking (instr c) then 0 else vlane LENGTH('a) (vectors (state c) ! vector_index dst) j
     else vlane LENGTH('a) v j)"
proof (cases "op_mask (instr c) = NONE \<or> op_mask (instr c) = K 0")
  case True
  then show ?thesis using assms by (auto simp: apply_masked_lanes_def masked_off_def Let_def)
next
  case False
  have d: "8 dvd LENGTH('a)" using assms(1) by (simp add: lane_size_def)
  obtain k where k: "vector_width dst = k * sizeof TYPE('a)" "8 * vector_width dst div LENGTH('a) = k" "k * LENGTH('a) \<le> 512"
    by (rule lane_count [OF assms(1), of dst])
  have s: "0 < sizeof TYPE('a)" using vector_width_cases [of dst] k(1) by (cases "sizeof TYPE('a)") auto
  let ?m = "read_opmask (state c) (op_mask (instr c))"
  let ?A = "\<lambda>lane. drop_bit (lane div sizeof TYPE('a)) ?m AND 1 \<noteq> 0"
  let ?o = "read_vec (state c) dst AND simd_mask (vector_width dst)"
  have f: "apply_masked_lanes TYPE('a) c1 dst (read_vec (state c) dst) v =
    fold (\<lambda>lane out. if ?A lane \<or> zeroing_masking (instr c)
        then lane_store lane (if ?A lane then lane_load v lane else 0 :: 'a word) out else out)
      (lanes (k * sizeof TYPE('a)) (sizeof TYPE('a))) ?o"
    using False assms(4,5) unfolding apply_masked_lanes_def k(1) Let_def by (auto intro!: fold_cong)
  have a: "?A (j * sizeof TYPE('a)) \<longleftrightarrow> bit ?m j"
    using s by (simp add: and_one_eq odd_iff_mod_2_eq_one bit_iff_odd_drop_bit)
  have "vlane LENGTH('a) ?o j = vlane LENGTH('a) (vectors (state c) ! vector_index dst) j"
    by (rule vlane_cong [OF _ assms(3)], rule bit_word_eqI) (auto simp: bit_simps read_vec_def simd_mask_eq)
  then show ?thesis
    using False assms(3) k a unfolding f vlane_load [OF d]
    by (simp add: lane_load_fold [OF d] masked_off_def)
qed

lemma computes_packed_two:
  assumes "\<And>dst a b j. j < 8 * vector_width dst div n \<Longrightarrow>
      vlane n (G (vector_width dst) a b) j = packed_ref op n (vlane n a j) (vlane n b j)"
  shows "computes_packed (with_vector_dst (\<lambda>dst_reg (c :: 'w ctx).
     with_vec_operand 1 (vector_width dst_reg) (\<lambda>rhs.
       put_vec dst_reg (G (vector_width dst_reg) (read_vec (state c) dst_reg) rhs) False) c)) Two_Operand op n"
    (is "computes_packed ?h Two_Operand op n")
  unfolding computes_packed_def
proof (intro allI impI)
  fix c :: "'w ctx" and dst
  assume a: "op_kind (instr c) 0 = REGISTER \<and> op_register (instr c) 0 = dst \<and> is_vector_register dst"
  obtain r c1 where r: "read_vec_operand c 1 (vector_width dst) = (r, c1)" by fastforce
  show "case packed_sources Two_Operand c of
           (None, c1) \<Rightarrow> ?h c = (memory_fault c1 (memory_address c1), c1)
         | (Some (lhs, rhs), c1) \<Rightarrow>
             \<exists>u. ?h c = (no_stop, c1\<lparr>state := (state c)\<lparr>vectors := (vectors (state c))[vector_index dst := u]\<rparr>\<rparr>) \<and>
                 vector_result Two_Operand c n (\<lambda>j. packed_ref op n (vlane n lhs j) (vlane n rhs j)) u"
  proof (cases r)
    case None
    then show ?thesis
      using a by (simp add: packed_sources_def with_vector_dst_def with_vec_operand_def r Let_def del: One_nat_def)
  next
    case (Some rhs)
    then show ?thesis
      using a put_vec_result [of c dst Two_Operand False n "G (vector_width dst) (read_vec (state c) dst) rhs"
          "\<lambda>j. packed_ref op n (vlane n (read_vec (state c) dst) j) (vlane n rhs j)" c1] assms read_vec_operand_frame [OF r]
      by (simp add: packed_sources_def with_vector_dst_def with_vec_operand_def r masked_off_def Let_def del: One_nat_def)
  qed
qed

lemma computes_packed_three:
  assumes "enc \<noteq> Two_Operand"
    "\<And>(c :: 'w ctx) c1 dst a b j. state c1 = state c \<Longrightarrow> instr c1 = instr c \<Longrightarrow> op_register (instr c) 0 = dst \<Longrightarrow>
      j < 8 * vector_width dst div n \<Longrightarrow> vlane n (M c1 dst (read_vec (state c) dst) (G (vector_width dst) a b)) j =
        (if masked_off enc c j then if zeroing_masking (instr c) then 0 else vlane n (vectors (state c) ! vector_index dst) j
         else packed_ref op n (vlane n a j) (vlane n b j))"
  shows "computes_packed (with_vector_dst (\<lambda>dst_reg (c :: 'w ctx).
     with_vec_operand 1 (vector_width dst_reg) (\<lambda>lhs. with_vec_operand 2 (vector_width dst_reg) (\<lambda>rhs c1.
       put_vec dst_reg (M c1 dst_reg (read_vec (state c) dst_reg) (G (vector_width dst_reg) lhs rhs)) True c1)) c)) enc op n"
    (is "computes_packed ?h enc op n")
  unfolding computes_packed_def
proof (intro allI impI)
  fix c :: "'w ctx" and dst
  assume a: "op_kind (instr c) 0 = REGISTER \<and> op_register (instr c) 0 = dst \<and> is_vector_register dst"
  obtain r1 c1 where r1: "read_vec_operand c 1 (vector_width dst) = (r1, c1)" by fastforce
  obtain r2 c2 where r2: "read_vec_operand c1 2 (vector_width dst) = (r2, c2)" by fastforce
  have f: "state c2 = state c" "instr c2 = instr c" using read_vec_operand_frame [OF r1] read_vec_operand_frame [OF r2] by simp_all
  show "case packed_sources enc c of
           (None, c1) \<Rightarrow> ?h c = (memory_fault c1 (memory_address c1), c1)
         | (Some (lhs, rhs), c1) \<Rightarrow>
             \<exists>u. ?h c = (no_stop, c1\<lparr>state := (state c)\<lparr>vectors := (vectors (state c))[vector_index dst := u]\<rparr>\<rparr>) \<and>
                 vector_result enc c n (\<lambda>j. packed_ref op n (vlane n lhs j) (vlane n rhs j)) u"
  proof (cases "r1 = None \<or> r2 = None")
    case True
    then show ?thesis
      using a assms(1) by (auto simp: packed_sources_def with_vector_dst_def with_vec_operand_def r1 r2 Let_def simp del: One_nat_def split: option.split)
  next
    case False
    then obtain lhs rhs where "r1 = Some lhs" "r2 = Some rhs" by auto
    then show ?thesis
      using a assms(1) put_vec_result [of c dst enc True n "M c2 dst (read_vec (state c) dst) (G (vector_width dst) lhs rhs)"
          "\<lambda>j. packed_ref op n (vlane n lhs j) (vlane n rhs j)" c2] assms(2) [OF f] f(1)
      by (simp add: packed_sources_def with_vector_dst_def with_vec_operand_def r1 r2 Let_def del: One_nat_def)
  qed
qed


lemma vlane_complement: "2 ^ n - 1 - vlane n a j = take_bit n (NOT (drop_bit (n * j) (uint a)))"
proof -
  have "take_bit n (NOT x) = 2 ^ n - 1 - take_bit n x" for x :: int
    by (simp add: take_bit_not_eq_mask_diff mask_eq_exp_minus_1)
  then show ?thesis by (simp add: vlane_bits)
qed

definition computes_bitwise :: "(simd \<Rightarrow> simd \<Rightarrow> simd) \<Rightarrow> packed_op \<Rightarrow> bool" where
  "computes_bitwise F op \<longleftrightarrow> (\<forall>n a b j. vlane n (F a b) j = packed_ref op n (vlane n a j) (vlane n b j))"

lemma computes_bitwise:
  "computes_bitwise (\<lambda>a b. a AND b) P_And" "computes_bitwise (\<lambda>a b. a OR b) P_Or" "computes_bitwise (\<lambda>a b. a XOR b) P_Xor"
  "computes_bitwise (\<lambda>a b. NOT a AND b) P_Andn"
  unfolding computes_bitwise_def packed_ref.simps vlane_complement unfolding vlane_bits
  by (intro allI bit_eqI; auto simp: bit_simps dest: bit_imp_le_length)+

lemma computes_packed_binary:
  fixes f :: "'a::len word \<Rightarrow> 'a word \<Rightarrow> 'a word"
  assumes "computes f op" "lane_size TYPE('a)"
  shows "computes_packed (legacy_binary f False) Two_Operand op LENGTH('a)"
    "computes_packed (legacy_compare f False) Two_Operand op LENGTH('a)"
    "computes_packed (vex_binary f True) Three_Operand op LENGTH('a)"
    "computes_packed (vex_compare f True) Three_Operand op LENGTH('a)"
  unfolding legacy_binary_def legacy_compare_def vex_binary_def vex_compare_def Let_def
  by (rule computes_packed_two computes_packed_three; simp add: vlane_zip [OF assms(2,1)] vlane_masked [OF assms(2)])+

lemma computes_packed_bitwise:
  assumes "computes_bitwise F op"
  shows "computes_packed (legacy_bitwise F False) Two_Operand op n"
    "computes_packed (vex_bitwise F True) Three_Operand_Unmasked op n"
    "lane_size TYPE('a::len) \<Longrightarrow> computes_packed (vex_bitwise_lanes TYPE('a) F True) Three_Operand op LENGTH('a)"
proof -
  show "computes_packed (legacy_bitwise F False) Two_Operand op n"
    unfolding legacy_bitwise_def Let_def
    using assms by (intro computes_packed_two [where G="\<lambda>_. F"]) (simp add: computes_bitwise_def)
  show "computes_packed (vex_bitwise F True) Three_Operand_Unmasked op n"
    unfolding vex_bitwise_def Let_def
    using assms computes_packed_three [where M="\<lambda>c dst old v. v" and G="\<lambda>_. F" and enc=Three_Operand_Unmasked and op=op and n=n]
    by (simp add: computes_bitwise_def masked_off_def)
  show "computes_packed (vex_bitwise_lanes TYPE('a::len) F True) Three_Operand op LENGTH('a)" if "lane_size TYPE('a::len)"
    unfolding vex_bitwise_lanes_def Let_def
    using assms by (intro computes_packed_three [where G="\<lambda>_. F"]) (simp_all add: computes_bitwise_def vlane_masked [OF that])
qed

lemma lane_sizes: "lane_size TYPE(8)" "lane_size TYPE(16)" "lane_size TYPE(32)" "lane_size TYPE(64)"
  by (simp_all add: lane_size_def)


section \<open>Packed shifts\<close>

datatype shift_op = S_Left | S_Right | S_Arithmetic

fun shift_ref :: "shift_op \<Rightarrow> nat \<Rightarrow> int \<Rightarrow> nat \<Rightarrow> int" where
  "shift_ref S_Left n a count = (a * 2 ^ count) mod 2 ^ n"
| "shift_ref S_Right n a count = a div 2 ^ count"
| "shift_ref S_Arithmetic n a count = (lane_signed n a div 2 ^ count) mod 2 ^ n"

definition computes_shift :: "('a::len word \<Rightarrow> u64 \<Rightarrow> 'a word) \<Rightarrow> shift_op \<Rightarrow> bool" where
  "computes_shift f op \<longleftrightarrow> (\<forall>a k. uint (f a k) = shift_ref op LENGTH('a) (uint a) (unat k))"

lemma computes_shift_left: "8 dvd LENGTH('a) \<Longrightarrow> computes_shift (shift_left_lane :: 'a::len word \<Rightarrow> _) S_Left"
proof -
  assume "8 dvd LENGTH('a)"
  then have s: "sizeof TYPE('a) * 8 = LENGTH('a)" using sizeof_bits [where 'a='a] by (simp add: mult.commute)
  have "uint (push_bit k a) = uint a * 2 ^ k mod 2 ^ LENGTH('a)" for a :: "'a word" and k
    by (subst unsigned_push_bit_eq) (simp add: push_bit_eq_mult take_bit_eq_mod)
  moreover have "x * 2 ^ k mod 2 ^ LENGTH('a) = 0" if "LENGTH('a) \<le> k" for x :: int and k
    using that by (simp add: le_imp_power_dvd dvd_imp_mod_0)
  ultimately show ?thesis by (simp add: computes_shift_def shift_left_lane_def s)
qed

lemma computes_shift_right: "8 dvd LENGTH('a) \<Longrightarrow> computes_shift (shift_right_logical_lane :: 'a::len word \<Rightarrow> _) S_Right"
proof -
  assume "8 dvd LENGTH('a)"
  then have s: "sizeof TYPE('a) * 8 = LENGTH('a)" using sizeof_bits [where 'a='a] by (simp add: mult.commute)
  have "uint a div 2 ^ k = 0" if "LENGTH('a) \<le> k" for a :: "'a word" and k
    using order_less_le_trans [OF uint_lt2p power_increasing [OF that]] by (simp add: div_pos_pos_trivial)
  moreover have "uint (drop_bit k a) = uint a div 2 ^ k" for a :: "'a word" and k
    by (subst unsigned_drop_bit_eq) (simp add: drop_bit_eq_div take_bit_eq_mod)
  ultimately show ?thesis by (simp add: computes_shift_def shift_right_logical_lane_def s)
qed

lemma computes_shift_arithmetic:
  "8 dvd LENGTH('a) \<Longrightarrow> computes_shift (shift_right_arithmetic_lane :: 'a::len word \<Rightarrow> _) S_Arithmetic"
proof -
  assume "8 dvd LENGTH('a)"
  then have s: "sizeof TYPE('a) * 8 = LENGTH('a)" using sizeof_bits [where 'a='a] by (simp add: mult.commute)
  have u: "uint (signed_drop_bit k a) = (sint a div 2 ^ k) mod 2 ^ LENGTH('a)" for a :: "'a word" and k
    unfolding drop_bit_eq_div [symmetric] sint_signed_drop_bit_eq [symmetric] by (rule sint_mod [symmetric])
  have "sint a div 2 ^ k = (if sint a < 0 then - 1 else 0)" if "LENGTH('a) \<le> k" for a :: "'a word" and k
  proof -
    have "(2 :: int) ^ (LENGTH('a) - 1) \<le> 2 ^ k" using that by (intro power_increasing) auto
    then have "- (2 ^ k) \<le> sint a" "sint a < 2 ^ k" using sint_bounds [of a] by linarith+
    then show ?thesis using int_div_pos_eq [of "sint a" "2 ^ k" "- 1" "sint a + 2 ^ k"] by (auto simp: div_pos_pos_trivial)
  qed
  then show ?thesis
    using uint_all_ones [where 'a='a]
    by (auto simp: computes_shift_def shift_right_arithmetic_lane_def s u lane_signed_uint zmod_minus1)
qed


lemma vlane_map:
  fixes f :: "'a::len word \<Rightarrow> u64 \<Rightarrow> 'a word"
  assumes "lane_size TYPE('a)" "computes_shift f op" "j < 8 * vector_width r div LENGTH('a)"
  shows "vlane LENGTH('a) (map_lanes (\<lambda>v. f v k) (vector_width r) a) j = shift_ref op LENGTH('a) (vlane LENGTH('a) a j) (unat k)"
proof -
  have d: "8 dvd LENGTH('a)" using assms(1) by (simp add: lane_size_def)
  obtain n where n: "vector_width r = n * sizeof TYPE('a)" "8 * vector_width r div LENGTH('a) = n" "n * LENGTH('a) \<le> 512"
    by (rule lane_count [OF assms(1), of r])
  show ?thesis
    using assms(2,3) n lane_load_fold [OF d, of j n "\<lambda>_. True" "\<lambda>l. f (lane_load a l) k" 0]
    by (simp add: vlane_load [OF d] map_lanes_def computes_shift_def)
qed

text \<open>Where the count and the shifted vector come from.\<close>

datatype shift_form = Count_Operand | Count_Immediate

definition shift_sources :: "encoding \<Rightarrow> shift_form \<Rightarrow> 'w ctx \<Rightarrow> (simd \<times> nat) option \<times> 'w ctx" where
  "shift_sources enc form c =
     (let dst = op_register (instr c) 0; w = vector_width dst; low = (\<lambda>v. nat (vlane 64 v 0)); imm = unat (immediate8 (instr c))
      in case (enc, form) of
           (Two_Operand, Count_Immediate) \<Rightarrow> (Some (read_vec (state c) dst, imm), c)
         | (Two_Operand, Count_Operand) \<Rightarrow>
             (case read_vec_operand c 1 w of (r, c1) \<Rightarrow> (map_option (\<lambda>v. (read_vec (state c) dst, low v)) r, c1))
         | (_, Count_Immediate) \<Rightarrow>
             (case read_vec_operand c 1 w of (r, c1) \<Rightarrow> (map_option (\<lambda>v. (v, imm)) r, c1))
         | (_, Count_Operand) \<Rightarrow>
             (case read_vec_operand c 2 8 of (r, c1) \<Rightarrow> (map_option (\<lambda>v. (read_vec (state c) (op_register (instr c) 1), low v)) r, c1)))"

definition computes_packed_shift :: "'w handler \<Rightarrow> encoding \<Rightarrow> shift_form \<Rightarrow> shift_op \<Rightarrow> nat \<Rightarrow> bool" where
  "computes_packed_shift h enc form op n \<longleftrightarrow>
     (\<forall>c dst. op_kind (instr c) 0 = REGISTER \<and> op_register (instr c) 0 = dst \<and> is_vector_register dst \<and>
          (enc = Three_Operand \<and> form = Count_Operand \<longrightarrow> op_kind (instr c) 1 = REGISTER \<and> is_vector_register (op_register (instr c) 1)) \<longrightarrow>
        (case shift_sources enc form c of
           (None, c1) \<Rightarrow> h c = (memory_fault c1 (memory_address c1), c1)
         | (Some (src, count), c1) \<Rightarrow>
             \<exists>u. h c = (no_stop, c1\<lparr>state := (state c)\<lparr>vectors := (vectors (state c))[vector_index dst := u]\<rparr>\<rparr>) \<and>
                 vector_result enc c n (\<lambda>j. shift_ref op n (vlane n src j) count) u))"

lemma vlane_low: "nat (vlane 64 v 0) = unat (lane_load v 0 :: u64)"
  using vlane_load [where 'a=64, of v 0] by simp

lemma computes_packed_shift:
  fixes f :: "'a::len word \<Rightarrow> u64 \<Rightarrow> 'a word"
  assumes "computes_shift f op" "lane_size TYPE('a)"
  shows "computes_packed_shift (legacy_shift_imm f False) Two_Operand Count_Immediate op LENGTH('a)"
    "computes_packed_shift (legacy_shift_reg f False) Two_Operand Count_Operand op LENGTH('a)"
    "computes_packed_shift (vex_shift_imm f True) Three_Operand Count_Immediate op LENGTH('a)"
    "computes_packed_shift (vex_shift_reg f True) Three_Operand Count_Operand op LENGTH('a)"
proof -
  note result = put_vec_result [where n="LENGTH('a)" and res="\<lambda>j. shift_ref op LENGTH('a) (vlane LENGTH('a) src j) count" for src count]
  note rules = vlane_map [OF assms(2,1)] vlane_masked [OF assms(2)] computes_packed_shift_def shift_sources_def with_vector_dst_def
    with_vec_operand_def vlane_low Let_def
  show "computes_packed_shift (legacy_shift_imm f False) Two_Operand Count_Immediate op LENGTH('a)"
    by (auto simp: rules legacy_shift_imm_def masked_off_def unat_imm8 intro!: result)
  show "computes_packed_shift (legacy_shift_reg f False) Two_Operand Count_Operand op LENGTH('a)"
    by (auto simp: rules legacy_shift_reg_def masked_off_def intro!: result dest: read_vec_operand_frame split: prod.splits option.splits)
  show "computes_packed_shift (vex_shift_imm f True) Three_Operand Count_Immediate op LENGTH('a)"
    by (auto simp: rules vex_shift_imm_def unat_imm8 intro!: result dest: read_vec_operand_frame split: prod.splits option.splits)
  show "computes_packed_shift (vex_shift_reg f True) Three_Operand Count_Operand op LENGTH('a)"
    by (auto simp: rules vex_shift_reg_def intro!: result dest: read_vec_operand_frame split: prod.splits option.splits)
qed

section \<open>The handlers\<close>

definition packed_catalog :: "('w handler \<times> encoding \<times> packed_op \<times> nat) list" where
  "packed_catalog =
    [(handle_code_PADDB_XMM_XMMM128, Two_Operand, P_Add, 8),
     (handle_code_PADDW_XMM_XMMM128, Two_Operand, P_Add, 16),
     (handle_code_PADDD_XMM_XMMM128, Two_Operand, P_Add, 32),
     (handle_code_PADDQ_XMM_XMMM128, Two_Operand, P_Add, 64),
     (handle_code_PADDUSB_XMM_XMMM128, Two_Operand, P_Add_Unsigned_Sat, 8),
     (handle_code_PADDUSW_XMM_XMMM128, Two_Operand, P_Add_Unsigned_Sat, 16),
     (handle_code_PADDSB_XMM_XMMM128, Two_Operand, P_Add_Signed_Sat, 8),
     (handle_code_PADDSW_XMM_XMMM128, Two_Operand, P_Add_Signed_Sat, 16),
     (handle_code_PSUBB_XMM_XMMM128, Two_Operand, P_Sub, 8),
     (handle_code_PSUBW_XMM_XMMM128, Two_Operand, P_Sub, 16),
     (handle_code_PSUBD_XMM_XMMM128, Two_Operand, P_Sub, 32),
     (handle_code_PSUBQ_XMM_XMMM128, Two_Operand, P_Sub, 64),
     (handle_code_PSUBUSB_XMM_XMMM128, Two_Operand, P_Sub_Unsigned_Sat, 8),
     (handle_code_PSUBUSW_XMM_XMMM128, Two_Operand, P_Sub_Unsigned_Sat, 16),
     (handle_code_PSUBSB_XMM_XMMM128, Two_Operand, P_Sub_Signed_Sat, 8),
     (handle_code_PSUBSW_XMM_XMMM128, Two_Operand, P_Sub_Signed_Sat, 16),
     (handle_code_PCMPEQB_XMM_XMMM128, Two_Operand, P_Eq, 8),
     (handle_code_PCMPEQW_XMM_XMMM128, Two_Operand, P_Eq, 16),
     (handle_code_PCMPEQD_XMM_XMMM128, Two_Operand, P_Eq, 32),
     (handle_code_PCMPEQQ_XMM_XMMM128, Two_Operand, P_Eq, 64),
     (handle_code_PCMPGTB_XMM_XMMM128, Two_Operand, P_Gt, 8),
     (handle_code_PCMPGTW_XMM_XMMM128, Two_Operand, P_Gt, 16),
     (handle_code_PCMPGTD_XMM_XMMM128, Two_Operand, P_Gt, 32),
     (handle_code_PCMPGTQ_XMM_XMMM128, Two_Operand, P_Gt, 64),
     (handle_code_PAVGB_XMM_XMMM128, Two_Operand, P_Avg, 8),
     (handle_code_PAVGW_XMM_XMMM128, Two_Operand, P_Avg, 16),
     (handle_code_PMULLW_XMM_XMMM128, Two_Operand, P_Mul_Low, 16),
     (handle_code_PMULHW_XMM_XMMM128, Two_Operand, P_Mul_High, 16),
     (handle_code_PMULHUW_XMM_XMMM128, Two_Operand, P_Mul_High_Unsigned, 16),
     (handle_code_PMAXUB_XMM_XMMM128, Two_Operand, P_Max_Unsigned, 8),
     (handle_code_PMINSW_XMM_XMMM128, Two_Operand, P_Min_Signed, 16),
     (handle_code_PAND_XMM_XMMM128, Two_Operand, P_And, 64),
     (handle_code_PANDN_XMM_XMMM128, Two_Operand, P_Andn, 64),
     (handle_code_POR_XMM_XMMM128, Two_Operand, P_Or, 64),
     (handle_code_PXOR_XMM_XMMM128, Two_Operand, P_Xor, 64),
     (handle_code_VEX_VPADDB_XMM_XMM_XMMM128, Three_Operand, P_Add, 8),
     (handle_code_VEX_VPADDW_XMM_XMM_XMMM128, Three_Operand, P_Add, 16),
     (handle_code_VEX_VPADDD_XMM_XMM_XMMM128, Three_Operand, P_Add, 32),
     (handle_code_VEX_VPADDQ_XMM_XMM_XMMM128, Three_Operand, P_Add, 64),
     (handle_code_VEX_VPADDUSB_XMM_XMM_XMMM128, Three_Operand, P_Add_Unsigned_Sat, 8),
     (handle_code_VEX_VPADDUSW_XMM_XMM_XMMM128, Three_Operand, P_Add_Unsigned_Sat, 16),
     (handle_code_VEX_VPADDSB_XMM_XMM_XMMM128, Three_Operand, P_Add_Signed_Sat, 8),
     (handle_code_VEX_VPADDSW_XMM_XMM_XMMM128, Three_Operand, P_Add_Signed_Sat, 16),
     (handle_code_VEX_VPSUBB_XMM_XMM_XMMM128, Three_Operand, P_Sub, 8),
     (handle_code_VEX_VPSUBW_XMM_XMM_XMMM128, Three_Operand, P_Sub, 16),
     (handle_code_VEX_VPSUBD_XMM_XMM_XMMM128, Three_Operand, P_Sub, 32),
     (handle_code_VEX_VPSUBQ_XMM_XMM_XMMM128, Three_Operand, P_Sub, 64),
     (handle_code_VEX_VPSUBUSB_XMM_XMM_XMMM128, Three_Operand, P_Sub_Unsigned_Sat, 8),
     (handle_code_VEX_VPSUBUSW_XMM_XMM_XMMM128, Three_Operand, P_Sub_Unsigned_Sat, 16),
     (handle_code_VEX_VPSUBSB_XMM_XMM_XMMM128, Three_Operand, P_Sub_Signed_Sat, 8),
     (handle_code_VEX_VPSUBSW_XMM_XMM_XMMM128, Three_Operand, P_Sub_Signed_Sat, 16),
     (handle_code_VEX_VPCMPEQB_XMM_XMM_XMMM128, Three_Operand, P_Eq, 8),
     (handle_code_VEX_VPCMPEQW_XMM_XMM_XMMM128, Three_Operand, P_Eq, 16),
     (handle_code_VEX_VPCMPEQD_XMM_XMM_XMMM128, Three_Operand, P_Eq, 32),
     (handle_code_VEX_VPCMPEQQ_XMM_XMM_XMMM128, Three_Operand, P_Eq, 64),
     (handle_code_VEX_VPCMPGTB_XMM_XMM_XMMM128, Three_Operand, P_Gt, 8),
     (handle_code_VEX_VPCMPGTW_XMM_XMM_XMMM128, Three_Operand, P_Gt, 16),
     (handle_code_VEX_VPCMPGTD_XMM_XMM_XMMM128, Three_Operand, P_Gt, 32),
     (handle_code_VEX_VPCMPGTQ_XMM_XMM_XMMM128, Three_Operand, P_Gt, 64),
     (handle_code_VEX_VPAVGB_XMM_XMM_XMMM128, Three_Operand, P_Avg, 8),
     (handle_code_VEX_VPAVGW_XMM_XMM_XMMM128, Three_Operand, P_Avg, 16),
     (handle_code_VEX_VPMULLW_XMM_XMM_XMMM128, Three_Operand, P_Mul_Low, 16),
     (handle_code_VEX_VPAND_XMM_XMM_XMMM128, Three_Operand_Unmasked, P_And, 64),
     (handle_code_VEX_VPANDN_XMM_XMM_XMMM128, Three_Operand_Unmasked, P_Andn, 64),
     (handle_code_VEX_VPOR_XMM_XMM_XMMM128, Three_Operand_Unmasked, P_Or, 64),
     (handle_code_VEX_VPXOR_XMM_XMM_XMMM128, Three_Operand_Unmasked, P_Xor, 64),
     (handle_code_VEX_VPADDB_YMM_YMM_YMMM256, Three_Operand, P_Add, 8),
     (handle_code_VEX_VPADDW_YMM_YMM_YMMM256, Three_Operand, P_Add, 16),
     (handle_code_VEX_VPADDD_YMM_YMM_YMMM256, Three_Operand, P_Add, 32),
     (handle_code_VEX_VPADDQ_YMM_YMM_YMMM256, Three_Operand, P_Add, 64),
     (handle_code_VEX_VPADDUSB_YMM_YMM_YMMM256, Three_Operand, P_Add_Unsigned_Sat, 8),
     (handle_code_VEX_VPADDUSW_YMM_YMM_YMMM256, Three_Operand, P_Add_Unsigned_Sat, 16),
     (handle_code_VEX_VPADDSB_YMM_YMM_YMMM256, Three_Operand, P_Add_Signed_Sat, 8),
     (handle_code_VEX_VPADDSW_YMM_YMM_YMMM256, Three_Operand, P_Add_Signed_Sat, 16),
     (handle_code_VEX_VPSUBB_YMM_YMM_YMMM256, Three_Operand, P_Sub, 8),
     (handle_code_VEX_VPSUBW_YMM_YMM_YMMM256, Three_Operand, P_Sub, 16),
     (handle_code_VEX_VPSUBD_YMM_YMM_YMMM256, Three_Operand, P_Sub, 32),
     (handle_code_VEX_VPSUBQ_YMM_YMM_YMMM256, Three_Operand, P_Sub, 64),
     (handle_code_VEX_VPSUBUSB_YMM_YMM_YMMM256, Three_Operand, P_Sub_Unsigned_Sat, 8),
     (handle_code_VEX_VPSUBUSW_YMM_YMM_YMMM256, Three_Operand, P_Sub_Unsigned_Sat, 16),
     (handle_code_VEX_VPSUBSB_YMM_YMM_YMMM256, Three_Operand, P_Sub_Signed_Sat, 8),
     (handle_code_VEX_VPSUBSW_YMM_YMM_YMMM256, Three_Operand, P_Sub_Signed_Sat, 16),
     (handle_code_VEX_VPCMPEQB_YMM_YMM_YMMM256, Three_Operand, P_Eq, 8),
     (handle_code_VEX_VPCMPEQW_YMM_YMM_YMMM256, Three_Operand, P_Eq, 16),
     (handle_code_VEX_VPCMPEQD_YMM_YMM_YMMM256, Three_Operand, P_Eq, 32),
     (handle_code_VEX_VPCMPEQQ_YMM_YMM_YMMM256, Three_Operand, P_Eq, 64),
     (handle_code_VEX_VPCMPGTB_YMM_YMM_YMMM256, Three_Operand, P_Gt, 8),
     (handle_code_VEX_VPCMPGTW_YMM_YMM_YMMM256, Three_Operand, P_Gt, 16),
     (handle_code_VEX_VPCMPGTD_YMM_YMM_YMMM256, Three_Operand, P_Gt, 32),
     (handle_code_VEX_VPCMPGTQ_YMM_YMM_YMMM256, Three_Operand, P_Gt, 64),
     (handle_code_VEX_VPAVGB_YMM_YMM_YMMM256, Three_Operand, P_Avg, 8),
     (handle_code_VEX_VPAVGW_YMM_YMM_YMMM256, Three_Operand, P_Avg, 16),
     (handle_code_VEX_VPMULLW_YMM_YMM_YMMM256, Three_Operand, P_Mul_Low, 16),
     (handle_code_VEX_VPAND_YMM_YMM_YMMM256, Three_Operand_Unmasked, P_And, 64),
     (handle_code_VEX_VPANDN_YMM_YMM_YMMM256, Three_Operand_Unmasked, P_Andn, 64),
     (handle_code_VEX_VPOR_YMM_YMM_YMMM256, Three_Operand_Unmasked, P_Or, 64),
     (handle_code_VEX_VPXOR_YMM_YMM_YMMM256, Three_Operand_Unmasked, P_Xor, 64),
     (handle_code_EVEX_VPADDB_XMM_K1Z_XMM_XMMM128, Three_Operand, P_Add, 8),
     (handle_code_EVEX_VPADDB_YMM_K1Z_YMM_YMMM256, Three_Operand, P_Add, 8),
     (handle_code_EVEX_VPADDB_ZMM_K1Z_ZMM_ZMMM512, Three_Operand, P_Add, 8),
     (handle_code_EVEX_VPADDW_XMM_K1Z_XMM_XMMM128, Three_Operand, P_Add, 16),
     (handle_code_EVEX_VPADDW_YMM_K1Z_YMM_YMMM256, Three_Operand, P_Add, 16),
     (handle_code_EVEX_VPADDW_ZMM_K1Z_ZMM_ZMMM512, Three_Operand, P_Add, 16),
     (handle_code_EVEX_VPADDD_XMM_K1Z_XMM_XMMM128B32, Three_Operand, P_Add, 32),
     (handle_code_EVEX_VPADDD_YMM_K1Z_YMM_YMMM256B32, Three_Operand, P_Add, 32),
     (handle_code_EVEX_VPADDD_ZMM_K1Z_ZMM_ZMMM512B32, Three_Operand, P_Add, 32),
     (handle_code_EVEX_VPADDQ_XMM_K1Z_XMM_XMMM128B64, Three_Operand, P_Add, 64),
     (handle_code_EVEX_VPADDQ_YMM_K1Z_YMM_YMMM256B64, Three_Operand, P_Add, 64),
     (handle_code_EVEX_VPADDQ_ZMM_K1Z_ZMM_ZMMM512B64, Three_Operand, P_Add, 64),
     (handle_code_EVEX_VPADDUSB_XMM_K1Z_XMM_XMMM128, Three_Operand, P_Add_Unsigned_Sat, 8),
     (handle_code_EVEX_VPADDUSB_YMM_K1Z_YMM_YMMM256, Three_Operand, P_Add_Unsigned_Sat, 8),
     (handle_code_EVEX_VPADDUSB_ZMM_K1Z_ZMM_ZMMM512, Three_Operand, P_Add_Unsigned_Sat, 8),
     (handle_code_EVEX_VPADDUSW_XMM_K1Z_XMM_XMMM128, Three_Operand, P_Add_Unsigned_Sat, 16),
     (handle_code_EVEX_VPADDUSW_YMM_K1Z_YMM_YMMM256, Three_Operand, P_Add_Unsigned_Sat, 16),
     (handle_code_EVEX_VPADDUSW_ZMM_K1Z_ZMM_ZMMM512, Three_Operand, P_Add_Unsigned_Sat, 16),
     (handle_code_EVEX_VPADDSB_XMM_K1Z_XMM_XMMM128, Three_Operand, P_Add_Signed_Sat, 8),
     (handle_code_EVEX_VPADDSB_YMM_K1Z_YMM_YMMM256, Three_Operand, P_Add_Signed_Sat, 8),
     (handle_code_EVEX_VPADDSB_ZMM_K1Z_ZMM_ZMMM512, Three_Operand, P_Add_Signed_Sat, 8),
     (handle_code_EVEX_VPADDSW_XMM_K1Z_XMM_XMMM128, Three_Operand, P_Add_Signed_Sat, 16),
     (handle_code_EVEX_VPADDSW_YMM_K1Z_YMM_YMMM256, Three_Operand, P_Add_Signed_Sat, 16),
     (handle_code_EVEX_VPADDSW_ZMM_K1Z_ZMM_ZMMM512, Three_Operand, P_Add_Signed_Sat, 16),
     (handle_code_EVEX_VPSUBB_XMM_K1Z_XMM_XMMM128, Three_Operand, P_Sub, 8),
     (handle_code_EVEX_VPSUBB_YMM_K1Z_YMM_YMMM256, Three_Operand, P_Sub, 8),
     (handle_code_EVEX_VPSUBB_ZMM_K1Z_ZMM_ZMMM512, Three_Operand, P_Sub, 8),
     (handle_code_EVEX_VPSUBW_XMM_K1Z_XMM_XMMM128, Three_Operand, P_Sub, 16),
     (handle_code_EVEX_VPSUBW_YMM_K1Z_YMM_YMMM256, Three_Operand, P_Sub, 16),
     (handle_code_EVEX_VPSUBW_ZMM_K1Z_ZMM_ZMMM512, Three_Operand, P_Sub, 16),
     (handle_code_EVEX_VPSUBD_XMM_K1Z_XMM_XMMM128B32, Three_Operand, P_Sub, 32),
     (handle_code_EVEX_VPSUBD_YMM_K1Z_YMM_YMMM256B32, Three_Operand, P_Sub, 32),
     (handle_code_EVEX_VPSUBD_ZMM_K1Z_ZMM_ZMMM512B32, Three_Operand, P_Sub, 32),
     (handle_code_EVEX_VPSUBQ_XMM_K1Z_XMM_XMMM128B64, Three_Operand, P_Sub, 64),
     (handle_code_EVEX_VPSUBQ_YMM_K1Z_YMM_YMMM256B64, Three_Operand, P_Sub, 64),
     (handle_code_EVEX_VPSUBQ_ZMM_K1Z_ZMM_ZMMM512B64, Three_Operand, P_Sub, 64),
     (handle_code_EVEX_VPSUBUSB_XMM_K1Z_XMM_XMMM128, Three_Operand, P_Sub_Unsigned_Sat, 8),
     (handle_code_EVEX_VPSUBUSB_YMM_K1Z_YMM_YMMM256, Three_Operand, P_Sub_Unsigned_Sat, 8),
     (handle_code_EVEX_VPSUBUSB_ZMM_K1Z_ZMM_ZMMM512, Three_Operand, P_Sub_Unsigned_Sat, 8),
     (handle_code_EVEX_VPSUBUSW_XMM_K1Z_XMM_XMMM128, Three_Operand, P_Sub_Unsigned_Sat, 16),
     (handle_code_EVEX_VPSUBUSW_YMM_K1Z_YMM_YMMM256, Three_Operand, P_Sub_Unsigned_Sat, 16),
     (handle_code_EVEX_VPSUBUSW_ZMM_K1Z_ZMM_ZMMM512, Three_Operand, P_Sub_Unsigned_Sat, 16),
     (handle_code_EVEX_VPSUBSB_XMM_K1Z_XMM_XMMM128, Three_Operand, P_Sub_Signed_Sat, 8),
     (handle_code_EVEX_VPSUBSB_YMM_K1Z_YMM_YMMM256, Three_Operand, P_Sub_Signed_Sat, 8),
     (handle_code_EVEX_VPSUBSB_ZMM_K1Z_ZMM_ZMMM512, Three_Operand, P_Sub_Signed_Sat, 8),
     (handle_code_EVEX_VPSUBSW_XMM_K1Z_XMM_XMMM128, Three_Operand, P_Sub_Signed_Sat, 16),
     (handle_code_EVEX_VPSUBSW_YMM_K1Z_YMM_YMMM256, Three_Operand, P_Sub_Signed_Sat, 16),
     (handle_code_EVEX_VPSUBSW_ZMM_K1Z_ZMM_ZMMM512, Three_Operand, P_Sub_Signed_Sat, 16),
     (handle_code_EVEX_VPCMPEQB_XMM_K1Z_XMM_XMMM128, Three_Operand, P_Eq, 8),
     (handle_code_EVEX_VPCMPEQB_YMM_K1Z_YMM_YMMM256, Three_Operand, P_Eq, 8),
     (handle_code_EVEX_VPCMPEQB_ZMM_K1Z_ZMM_ZMMM512, Three_Operand, P_Eq, 8),
     (handle_code_EVEX_VPCMPEQW_XMM_K1Z_XMM_XMMM128, Three_Operand, P_Eq, 16),
     (handle_code_EVEX_VPCMPEQW_YMM_K1Z_YMM_YMMM256, Three_Operand, P_Eq, 16),
     (handle_code_EVEX_VPCMPEQW_ZMM_K1Z_ZMM_ZMMM512, Three_Operand, P_Eq, 16),
     (handle_code_EVEX_VPCMPEQD_XMM_K1Z_XMM_XMMM128, Three_Operand, P_Eq, 32),
     (handle_code_EVEX_VPCMPEQD_YMM_K1Z_YMM_YMMM256, Three_Operand, P_Eq, 32),
     (handle_code_EVEX_VPCMPEQD_ZMM_K1Z_ZMM_ZMMM512, Three_Operand, P_Eq, 32),
     (handle_code_EVEX_VPCMPEQQ_XMM_K1Z_XMM_XMMM128, Three_Operand, P_Eq, 64),
     (handle_code_EVEX_VPCMPEQQ_YMM_K1Z_YMM_YMMM256, Three_Operand, P_Eq, 64),
     (handle_code_EVEX_VPCMPEQQ_ZMM_K1Z_ZMM_ZMMM512, Three_Operand, P_Eq, 64),
     (handle_code_EVEX_VPCMPGTB_XMM_K1Z_XMM_XMMM128, Three_Operand, P_Gt, 8),
     (handle_code_EVEX_VPCMPGTB_YMM_K1Z_YMM_YMMM256, Three_Operand, P_Gt, 8),
     (handle_code_EVEX_VPCMPGTB_ZMM_K1Z_ZMM_ZMMM512, Three_Operand, P_Gt, 8),
     (handle_code_EVEX_VPCMPGTW_XMM_K1Z_XMM_XMMM128, Three_Operand, P_Gt, 16),
     (handle_code_EVEX_VPCMPGTW_YMM_K1Z_YMM_YMMM256, Three_Operand, P_Gt, 16),
     (handle_code_EVEX_VPCMPGTW_ZMM_K1Z_ZMM_ZMMM512, Three_Operand, P_Gt, 16),
     (handle_code_EVEX_VPCMPGTD_XMM_K1Z_XMM_XMMM128, Three_Operand, P_Gt, 32),
     (handle_code_EVEX_VPCMPGTD_YMM_K1Z_YMM_YMMM256, Three_Operand, P_Gt, 32),
     (handle_code_EVEX_VPCMPGTD_ZMM_K1Z_ZMM_ZMMM512, Three_Operand, P_Gt, 32),
     (handle_code_EVEX_VPCMPGTQ_XMM_K1Z_XMM_XMMM128, Three_Operand, P_Gt, 64),
     (handle_code_EVEX_VPCMPGTQ_YMM_K1Z_YMM_YMMM256, Three_Operand, P_Gt, 64),
     (handle_code_EVEX_VPCMPGTQ_ZMM_K1Z_ZMM_ZMMM512, Three_Operand, P_Gt, 64),
     (handle_code_EVEX_VPAVGB_XMM_K1Z_XMM_XMMM128, Three_Operand, P_Avg, 8),
     (handle_code_EVEX_VPAVGB_YMM_K1Z_YMM_YMMM256, Three_Operand, P_Avg, 8),
     (handle_code_EVEX_VPAVGB_ZMM_K1Z_ZMM_ZMMM512, Three_Operand, P_Avg, 8),
     (handle_code_EVEX_VPAVGW_XMM_K1Z_XMM_XMMM128, Three_Operand, P_Avg, 16),
     (handle_code_EVEX_VPAVGW_YMM_K1Z_YMM_YMMM256, Three_Operand, P_Avg, 16),
     (handle_code_EVEX_VPAVGW_ZMM_K1Z_ZMM_ZMMM512, Three_Operand, P_Avg, 16),
     (handle_code_EVEX_VPMULLW_XMM_K1Z_XMM_XMMM128, Three_Operand, P_Mul_Low, 16),
     (handle_code_EVEX_VPMULLW_YMM_K1Z_YMM_YMMM256, Three_Operand, P_Mul_Low, 16),
     (handle_code_EVEX_VPMULLW_ZMM_K1Z_ZMM_ZMMM512, Three_Operand, P_Mul_Low, 16),
     (handle_code_EVEX_VPANDD_XMM_K1Z_XMM_XMMM128B32, Three_Operand, P_And, 32),
     (handle_code_EVEX_VPANDD_YMM_K1Z_YMM_YMMM256B32, Three_Operand, P_And, 32),
     (handle_code_EVEX_VPANDD_ZMM_K1Z_ZMM_ZMMM512B32, Three_Operand, P_And, 32),
     (handle_code_EVEX_VPANDQ_XMM_K1Z_XMM_XMMM128B64, Three_Operand, P_And, 64),
     (handle_code_EVEX_VPANDQ_YMM_K1Z_YMM_YMMM256B64, Three_Operand, P_And, 64),
     (handle_code_EVEX_VPANDQ_ZMM_K1Z_ZMM_ZMMM512B64, Three_Operand, P_And, 64),
     (handle_code_EVEX_VPANDND_XMM_K1Z_XMM_XMMM128B32, Three_Operand, P_Andn, 32),
     (handle_code_EVEX_VPANDND_YMM_K1Z_YMM_YMMM256B32, Three_Operand, P_Andn, 32),
     (handle_code_EVEX_VPANDND_ZMM_K1Z_ZMM_ZMMM512B32, Three_Operand, P_Andn, 32),
     (handle_code_EVEX_VPANDNQ_XMM_K1Z_XMM_XMMM128B64, Three_Operand, P_Andn, 64),
     (handle_code_EVEX_VPANDNQ_YMM_K1Z_YMM_YMMM256B64, Three_Operand, P_Andn, 64),
     (handle_code_EVEX_VPANDNQ_ZMM_K1Z_ZMM_ZMMM512B64, Three_Operand, P_Andn, 64),
     (handle_code_EVEX_VPORD_XMM_K1Z_XMM_XMMM128B32, Three_Operand, P_Or, 32),
     (handle_code_EVEX_VPORD_YMM_K1Z_YMM_YMMM256B32, Three_Operand, P_Or, 32),
     (handle_code_EVEX_VPORD_ZMM_K1Z_ZMM_ZMMM512B32, Three_Operand, P_Or, 32),
     (handle_code_EVEX_VPORQ_XMM_K1Z_XMM_XMMM128B64, Three_Operand, P_Or, 64),
     (handle_code_EVEX_VPORQ_YMM_K1Z_YMM_YMMM256B64, Three_Operand, P_Or, 64),
     (handle_code_EVEX_VPORQ_ZMM_K1Z_ZMM_ZMMM512B64, Three_Operand, P_Or, 64),
     (handle_code_EVEX_VPXORD_XMM_K1Z_XMM_XMMM128B32, Three_Operand, P_Xor, 32),
     (handle_code_EVEX_VPXORD_YMM_K1Z_YMM_YMMM256B32, Three_Operand, P_Xor, 32),
     (handle_code_EVEX_VPXORD_ZMM_K1Z_ZMM_ZMMM512B32, Three_Operand, P_Xor, 32),
     (handle_code_EVEX_VPXORQ_XMM_K1Z_XMM_XMMM128B64, Three_Operand, P_Xor, 64),
     (handle_code_EVEX_VPXORQ_YMM_K1Z_YMM_YMMM256B64, Three_Operand, P_Xor, 64),
     (handle_code_EVEX_VPXORQ_ZMM_K1Z_ZMM_ZMMM512B64, Three_Operand, P_Xor, 64)]"

definition packed_shift_catalog :: "('w handler \<times> encoding \<times> shift_form \<times> shift_op \<times> nat) list" where
  "packed_shift_catalog =
    [(handle_code_PSLLW_XMM_XMMM128, Two_Operand, Count_Operand, S_Left, 16),
     (handle_code_PSLLD_XMM_XMMM128, Two_Operand, Count_Operand, S_Left, 32),
     (handle_code_PSLLQ_XMM_XMMM128, Two_Operand, Count_Operand, S_Left, 64),
     (handle_code_PSRLW_XMM_XMMM128, Two_Operand, Count_Operand, S_Right, 16),
     (handle_code_PSRLD_XMM_XMMM128, Two_Operand, Count_Operand, S_Right, 32),
     (handle_code_PSRLQ_XMM_XMMM128, Two_Operand, Count_Operand, S_Right, 64),
     (handle_code_PSRAW_XMM_XMMM128, Two_Operand, Count_Operand, S_Arithmetic, 16),
     (handle_code_PSRAD_XMM_XMMM128, Two_Operand, Count_Operand, S_Arithmetic, 32),
     (handle_code_PSLLW_XMM_IMM8, Two_Operand, Count_Immediate, S_Left, 16),
     (handle_code_PSLLD_XMM_IMM8, Two_Operand, Count_Immediate, S_Left, 32),
     (handle_code_PSLLQ_XMM_IMM8, Two_Operand, Count_Immediate, S_Left, 64),
     (handle_code_PSRLW_XMM_IMM8, Two_Operand, Count_Immediate, S_Right, 16),
     (handle_code_PSRLD_XMM_IMM8, Two_Operand, Count_Immediate, S_Right, 32),
     (handle_code_PSRLQ_XMM_IMM8, Two_Operand, Count_Immediate, S_Right, 64),
     (handle_code_PSRAW_XMM_IMM8, Two_Operand, Count_Immediate, S_Arithmetic, 16),
     (handle_code_PSRAD_XMM_IMM8, Two_Operand, Count_Immediate, S_Arithmetic, 32),
     (handle_code_VEX_VPSLLW_XMM_XMM_XMMM128, Three_Operand, Count_Operand, S_Left, 16),
     (handle_code_VEX_VPSLLD_XMM_XMM_XMMM128, Three_Operand, Count_Operand, S_Left, 32),
     (handle_code_VEX_VPSLLQ_XMM_XMM_XMMM128, Three_Operand, Count_Operand, S_Left, 64),
     (handle_code_VEX_VPSRLW_XMM_XMM_XMMM128, Three_Operand, Count_Operand, S_Right, 16),
     (handle_code_VEX_VPSRLD_XMM_XMM_XMMM128, Three_Operand, Count_Operand, S_Right, 32),
     (handle_code_VEX_VPSRLQ_XMM_XMM_XMMM128, Three_Operand, Count_Operand, S_Right, 64),
     (handle_code_VEX_VPSRAW_XMM_XMM_XMMM128, Three_Operand, Count_Operand, S_Arithmetic, 16),
     (handle_code_VEX_VPSRAD_XMM_XMM_XMMM128, Three_Operand, Count_Operand, S_Arithmetic, 32),
     (handle_code_VEX_VPSLLW_XMM_XMM_IMM8, Three_Operand, Count_Immediate, S_Left, 16),
     (handle_code_VEX_VPSLLD_XMM_XMM_IMM8, Three_Operand, Count_Immediate, S_Left, 32),
     (handle_code_VEX_VPSLLQ_XMM_XMM_IMM8, Three_Operand, Count_Immediate, S_Left, 64),
     (handle_code_VEX_VPSRLW_XMM_XMM_IMM8, Three_Operand, Count_Immediate, S_Right, 16),
     (handle_code_VEX_VPSRLD_XMM_XMM_IMM8, Three_Operand, Count_Immediate, S_Right, 32),
     (handle_code_VEX_VPSRLQ_XMM_XMM_IMM8, Three_Operand, Count_Immediate, S_Right, 64),
     (handle_code_VEX_VPSRAW_XMM_XMM_IMM8, Three_Operand, Count_Immediate, S_Arithmetic, 16),
     (handle_code_VEX_VPSRAD_XMM_XMM_IMM8, Three_Operand, Count_Immediate, S_Arithmetic, 32),
     (handle_code_VEX_VPSLLW_YMM_YMM_YMMM256, Three_Operand, Count_Operand, S_Left, 16),
     (handle_code_VEX_VPSLLD_YMM_YMM_YMMM256, Three_Operand, Count_Operand, S_Left, 32),
     (handle_code_VEX_VPSLLQ_YMM_YMM_YMMM256, Three_Operand, Count_Operand, S_Left, 64),
     (handle_code_VEX_VPSRLW_YMM_YMM_YMMM256, Three_Operand, Count_Operand, S_Right, 16),
     (handle_code_VEX_VPSRLD_YMM_YMM_YMMM256, Three_Operand, Count_Operand, S_Right, 32),
     (handle_code_VEX_VPSRLQ_YMM_YMM_YMMM256, Three_Operand, Count_Operand, S_Right, 64),
     (handle_code_VEX_VPSRAW_YMM_YMM_YMMM256, Three_Operand, Count_Operand, S_Arithmetic, 16),
     (handle_code_VEX_VPSRAD_YMM_YMM_YMMM256, Three_Operand, Count_Operand, S_Arithmetic, 32),
     (handle_code_VEX_VPSLLW_YMM_YMM_IMM8, Three_Operand, Count_Immediate, S_Left, 16),
     (handle_code_VEX_VPSLLD_YMM_YMM_IMM8, Three_Operand, Count_Immediate, S_Left, 32),
     (handle_code_VEX_VPSLLQ_YMM_YMM_IMM8, Three_Operand, Count_Immediate, S_Left, 64),
     (handle_code_VEX_VPSRLW_YMM_YMM_IMM8, Three_Operand, Count_Immediate, S_Right, 16),
     (handle_code_VEX_VPSRLD_YMM_YMM_IMM8, Three_Operand, Count_Immediate, S_Right, 32),
     (handle_code_VEX_VPSRLQ_YMM_YMM_IMM8, Three_Operand, Count_Immediate, S_Right, 64),
     (handle_code_VEX_VPSRAW_YMM_YMM_IMM8, Three_Operand, Count_Immediate, S_Arithmetic, 16),
     (handle_code_VEX_VPSRAD_YMM_YMM_IMM8, Three_Operand, Count_Immediate, S_Arithmetic, 32),
     (handle_code_EVEX_VPSLLW_XMM_K1Z_XMM_XMMM128, Three_Operand, Count_Operand, S_Left, 16),
     (handle_code_EVEX_VPSLLW_YMM_K1Z_YMM_XMMM128, Three_Operand, Count_Operand, S_Left, 16),
     (handle_code_EVEX_VPSLLW_ZMM_K1Z_ZMM_XMMM128, Three_Operand, Count_Operand, S_Left, 16),
     (handle_code_EVEX_VPSLLD_XMM_K1Z_XMM_XMMM128, Three_Operand, Count_Operand, S_Left, 32),
     (handle_code_EVEX_VPSLLD_YMM_K1Z_YMM_XMMM128, Three_Operand, Count_Operand, S_Left, 32),
     (handle_code_EVEX_VPSLLD_ZMM_K1Z_ZMM_XMMM128, Three_Operand, Count_Operand, S_Left, 32),
     (handle_code_EVEX_VPSLLQ_XMM_K1Z_XMM_XMMM128, Three_Operand, Count_Operand, S_Left, 64),
     (handle_code_EVEX_VPSLLQ_YMM_K1Z_YMM_XMMM128, Three_Operand, Count_Operand, S_Left, 64),
     (handle_code_EVEX_VPSLLQ_ZMM_K1Z_ZMM_XMMM128, Three_Operand, Count_Operand, S_Left, 64),
     (handle_code_EVEX_VPSRLW_XMM_K1Z_XMM_XMMM128, Three_Operand, Count_Operand, S_Right, 16),
     (handle_code_EVEX_VPSRLW_YMM_K1Z_YMM_XMMM128, Three_Operand, Count_Operand, S_Right, 16),
     (handle_code_EVEX_VPSRLW_ZMM_K1Z_ZMM_XMMM128, Three_Operand, Count_Operand, S_Right, 16),
     (handle_code_EVEX_VPSRLD_XMM_K1Z_XMM_XMMM128, Three_Operand, Count_Operand, S_Right, 32),
     (handle_code_EVEX_VPSRLD_YMM_K1Z_YMM_XMMM128, Three_Operand, Count_Operand, S_Right, 32),
     (handle_code_EVEX_VPSRLD_ZMM_K1Z_ZMM_XMMM128, Three_Operand, Count_Operand, S_Right, 32),
     (handle_code_EVEX_VPSRLQ_XMM_K1Z_XMM_XMMM128, Three_Operand, Count_Operand, S_Right, 64),
     (handle_code_EVEX_VPSRLQ_YMM_K1Z_YMM_XMMM128, Three_Operand, Count_Operand, S_Right, 64),
     (handle_code_EVEX_VPSRLQ_ZMM_K1Z_ZMM_XMMM128, Three_Operand, Count_Operand, S_Right, 64),
     (handle_code_EVEX_VPSRAW_XMM_K1Z_XMM_XMMM128, Three_Operand, Count_Operand, S_Arithmetic, 16),
     (handle_code_EVEX_VPSRAW_YMM_K1Z_YMM_XMMM128, Three_Operand, Count_Operand, S_Arithmetic, 16),
     (handle_code_EVEX_VPSRAW_ZMM_K1Z_ZMM_XMMM128, Three_Operand, Count_Operand, S_Arithmetic, 16),
     (handle_code_EVEX_VPSRAD_XMM_K1Z_XMM_XMMM128, Three_Operand, Count_Operand, S_Arithmetic, 32),
     (handle_code_EVEX_VPSRAD_YMM_K1Z_YMM_XMMM128, Three_Operand, Count_Operand, S_Arithmetic, 32),
     (handle_code_EVEX_VPSRAD_ZMM_K1Z_ZMM_XMMM128, Three_Operand, Count_Operand, S_Arithmetic, 32),
     (handle_code_EVEX_VPSLLW_XMM_K1Z_XMMM128_IMM8, Three_Operand, Count_Immediate, S_Left, 16),
     (handle_code_EVEX_VPSLLW_YMM_K1Z_YMMM256_IMM8, Three_Operand, Count_Immediate, S_Left, 16),
     (handle_code_EVEX_VPSLLW_ZMM_K1Z_ZMMM512_IMM8, Three_Operand, Count_Immediate, S_Left, 16),
     (handle_code_EVEX_VPSLLD_XMM_K1Z_XMMM128B32_IMM8, Three_Operand, Count_Immediate, S_Left, 32),
     (handle_code_EVEX_VPSLLD_YMM_K1Z_YMMM256B32_IMM8, Three_Operand, Count_Immediate, S_Left, 32),
     (handle_code_EVEX_VPSLLD_ZMM_K1Z_ZMMM512B32_IMM8, Three_Operand, Count_Immediate, S_Left, 32),
     (handle_code_EVEX_VPSLLQ_XMM_K1Z_XMMM128B64_IMM8, Three_Operand, Count_Immediate, S_Left, 64),
     (handle_code_EVEX_VPSLLQ_YMM_K1Z_YMMM256B64_IMM8, Three_Operand, Count_Immediate, S_Left, 64),
     (handle_code_EVEX_VPSLLQ_ZMM_K1Z_ZMMM512B64_IMM8, Three_Operand, Count_Immediate, S_Left, 64),
     (handle_code_EVEX_VPSRLW_XMM_K1Z_XMMM128_IMM8, Three_Operand, Count_Immediate, S_Right, 16),
     (handle_code_EVEX_VPSRLW_YMM_K1Z_YMMM256_IMM8, Three_Operand, Count_Immediate, S_Right, 16),
     (handle_code_EVEX_VPSRLW_ZMM_K1Z_ZMMM512_IMM8, Three_Operand, Count_Immediate, S_Right, 16),
     (handle_code_EVEX_VPSRLD_XMM_K1Z_XMMM128B32_IMM8, Three_Operand, Count_Immediate, S_Right, 32),
     (handle_code_EVEX_VPSRLD_YMM_K1Z_YMMM256B32_IMM8, Three_Operand, Count_Immediate, S_Right, 32),
     (handle_code_EVEX_VPSRLD_ZMM_K1Z_ZMMM512B32_IMM8, Three_Operand, Count_Immediate, S_Right, 32),
     (handle_code_EVEX_VPSRLQ_XMM_K1Z_XMMM128B64_IMM8, Three_Operand, Count_Immediate, S_Right, 64),
     (handle_code_EVEX_VPSRLQ_YMM_K1Z_YMMM256B64_IMM8, Three_Operand, Count_Immediate, S_Right, 64),
     (handle_code_EVEX_VPSRLQ_ZMM_K1Z_ZMMM512B64_IMM8, Three_Operand, Count_Immediate, S_Right, 64),
     (handle_code_EVEX_VPSRAW_XMM_K1Z_XMMM128_IMM8, Three_Operand, Count_Immediate, S_Arithmetic, 16),
     (handle_code_EVEX_VPSRAW_YMM_K1Z_YMMM256_IMM8, Three_Operand, Count_Immediate, S_Arithmetic, 16),
     (handle_code_EVEX_VPSRAW_ZMM_K1Z_ZMMM512_IMM8, Three_Operand, Count_Immediate, S_Arithmetic, 16),
     (handle_code_EVEX_VPSRAD_XMM_K1Z_XMMM128B32_IMM8, Three_Operand, Count_Immediate, S_Arithmetic, 32),
     (handle_code_EVEX_VPSRAD_YMM_K1Z_YMMM256B32_IMM8, Three_Operand, Count_Immediate, S_Arithmetic, 32),
     (handle_code_EVEX_VPSRAD_ZMM_K1Z_ZMMM512B32_IMM8, Three_Operand, Count_Immediate, S_Arithmetic, 32)]"

lemmas packed_handlers =
  handle_code_PADDB_XMM_XMMM128_def handle_code_PADDW_XMM_XMMM128_def handle_code_PADDD_XMM_XMMM128_def handle_code_PADDQ_XMM_XMMM128_def
  handle_code_PADDUSB_XMM_XMMM128_def handle_code_PADDUSW_XMM_XMMM128_def handle_code_PADDSB_XMM_XMMM128_def
  handle_code_PADDSW_XMM_XMMM128_def handle_code_PSUBB_XMM_XMMM128_def handle_code_PSUBW_XMM_XMMM128_def handle_code_PSUBD_XMM_XMMM128_def
  handle_code_PSUBQ_XMM_XMMM128_def handle_code_PSUBUSB_XMM_XMMM128_def handle_code_PSUBUSW_XMM_XMMM128_def
  handle_code_PSUBSB_XMM_XMMM128_def handle_code_PSUBSW_XMM_XMMM128_def handle_code_PCMPEQB_XMM_XMMM128_def
  handle_code_PCMPEQW_XMM_XMMM128_def handle_code_PCMPEQD_XMM_XMMM128_def handle_code_PCMPEQQ_XMM_XMMM128_def
  handle_code_PCMPGTB_XMM_XMMM128_def handle_code_PCMPGTW_XMM_XMMM128_def handle_code_PCMPGTD_XMM_XMMM128_def
  handle_code_PCMPGTQ_XMM_XMMM128_def handle_code_PAVGB_XMM_XMMM128_def handle_code_PAVGW_XMM_XMMM128_def handle_code_PMULLW_XMM_XMMM128_def
  handle_code_PMULHW_XMM_XMMM128_def handle_code_PMULHUW_XMM_XMMM128_def handle_code_PMAXUB_XMM_XMMM128_def
  handle_code_PMINSW_XMM_XMMM128_def handle_code_PAND_XMM_XMMM128_def handle_code_PANDN_XMM_XMMM128_def handle_code_POR_XMM_XMMM128_def
  handle_code_PXOR_XMM_XMMM128_def handle_code_VEX_VPADDB_XMM_XMM_XMMM128_def handle_code_VEX_VPADDW_XMM_XMM_XMMM128_def
  handle_code_VEX_VPADDD_XMM_XMM_XMMM128_def handle_code_VEX_VPADDQ_XMM_XMM_XMMM128_def handle_code_VEX_VPADDUSB_XMM_XMM_XMMM128_def
  handle_code_VEX_VPADDUSW_XMM_XMM_XMMM128_def handle_code_VEX_VPADDSB_XMM_XMM_XMMM128_def handle_code_VEX_VPADDSW_XMM_XMM_XMMM128_def
  handle_code_VEX_VPSUBB_XMM_XMM_XMMM128_def handle_code_VEX_VPSUBW_XMM_XMM_XMMM128_def handle_code_VEX_VPSUBD_XMM_XMM_XMMM128_def
  handle_code_VEX_VPSUBQ_XMM_XMM_XMMM128_def handle_code_VEX_VPSUBUSB_XMM_XMM_XMMM128_def handle_code_VEX_VPSUBUSW_XMM_XMM_XMMM128_def
  handle_code_VEX_VPSUBSB_XMM_XMM_XMMM128_def handle_code_VEX_VPSUBSW_XMM_XMM_XMMM128_def handle_code_VEX_VPCMPEQB_XMM_XMM_XMMM128_def
  handle_code_VEX_VPCMPEQW_XMM_XMM_XMMM128_def handle_code_VEX_VPCMPEQD_XMM_XMM_XMMM128_def handle_code_VEX_VPCMPEQQ_XMM_XMM_XMMM128_def
  handle_code_VEX_VPCMPGTB_XMM_XMM_XMMM128_def handle_code_VEX_VPCMPGTW_XMM_XMM_XMMM128_def handle_code_VEX_VPCMPGTD_XMM_XMM_XMMM128_def
  handle_code_VEX_VPCMPGTQ_XMM_XMM_XMMM128_def handle_code_VEX_VPAVGB_XMM_XMM_XMMM128_def handle_code_VEX_VPAVGW_XMM_XMM_XMMM128_def
  handle_code_VEX_VPMULLW_XMM_XMM_XMMM128_def handle_code_VEX_VPAND_XMM_XMM_XMMM128_def handle_code_VEX_VPANDN_XMM_XMM_XMMM128_def
  handle_code_VEX_VPOR_XMM_XMM_XMMM128_def handle_code_VEX_VPXOR_XMM_XMM_XMMM128_def handle_code_VEX_VPADDB_YMM_YMM_YMMM256_def
  handle_code_VEX_VPADDW_YMM_YMM_YMMM256_def handle_code_VEX_VPADDD_YMM_YMM_YMMM256_def handle_code_VEX_VPADDQ_YMM_YMM_YMMM256_def
  handle_code_VEX_VPADDUSB_YMM_YMM_YMMM256_def handle_code_VEX_VPADDUSW_YMM_YMM_YMMM256_def handle_code_VEX_VPADDSB_YMM_YMM_YMMM256_def
  handle_code_VEX_VPADDSW_YMM_YMM_YMMM256_def handle_code_VEX_VPSUBB_YMM_YMM_YMMM256_def handle_code_VEX_VPSUBW_YMM_YMM_YMMM256_def
  handle_code_VEX_VPSUBD_YMM_YMM_YMMM256_def handle_code_VEX_VPSUBQ_YMM_YMM_YMMM256_def handle_code_VEX_VPSUBUSB_YMM_YMM_YMMM256_def
  handle_code_VEX_VPSUBUSW_YMM_YMM_YMMM256_def handle_code_VEX_VPSUBSB_YMM_YMM_YMMM256_def handle_code_VEX_VPSUBSW_YMM_YMM_YMMM256_def
  handle_code_VEX_VPCMPEQB_YMM_YMM_YMMM256_def handle_code_VEX_VPCMPEQW_YMM_YMM_YMMM256_def handle_code_VEX_VPCMPEQD_YMM_YMM_YMMM256_def
  handle_code_VEX_VPCMPEQQ_YMM_YMM_YMMM256_def handle_code_VEX_VPCMPGTB_YMM_YMM_YMMM256_def handle_code_VEX_VPCMPGTW_YMM_YMM_YMMM256_def
  handle_code_VEX_VPCMPGTD_YMM_YMM_YMMM256_def handle_code_VEX_VPCMPGTQ_YMM_YMM_YMMM256_def handle_code_VEX_VPAVGB_YMM_YMM_YMMM256_def
  handle_code_VEX_VPAVGW_YMM_YMM_YMMM256_def handle_code_VEX_VPMULLW_YMM_YMM_YMMM256_def handle_code_VEX_VPAND_YMM_YMM_YMMM256_def
  handle_code_VEX_VPANDN_YMM_YMM_YMMM256_def handle_code_VEX_VPOR_YMM_YMM_YMMM256_def handle_code_VEX_VPXOR_YMM_YMM_YMMM256_def
  handle_code_EVEX_VPADDB_XMM_K1Z_XMM_XMMM128_def handle_code_EVEX_VPADDB_YMM_K1Z_YMM_YMMM256_def
  handle_code_EVEX_VPADDB_ZMM_K1Z_ZMM_ZMMM512_def handle_code_EVEX_VPADDW_XMM_K1Z_XMM_XMMM128_def
  handle_code_EVEX_VPADDW_YMM_K1Z_YMM_YMMM256_def handle_code_EVEX_VPADDW_ZMM_K1Z_ZMM_ZMMM512_def
  handle_code_EVEX_VPADDD_XMM_K1Z_XMM_XMMM128B32_def handle_code_EVEX_VPADDD_YMM_K1Z_YMM_YMMM256B32_def
  handle_code_EVEX_VPADDD_ZMM_K1Z_ZMM_ZMMM512B32_def handle_code_EVEX_VPADDQ_XMM_K1Z_XMM_XMMM128B64_def
  handle_code_EVEX_VPADDQ_YMM_K1Z_YMM_YMMM256B64_def handle_code_EVEX_VPADDQ_ZMM_K1Z_ZMM_ZMMM512B64_def
  handle_code_EVEX_VPADDUSB_XMM_K1Z_XMM_XMMM128_def handle_code_EVEX_VPADDUSB_YMM_K1Z_YMM_YMMM256_def
  handle_code_EVEX_VPADDUSB_ZMM_K1Z_ZMM_ZMMM512_def handle_code_EVEX_VPADDUSW_XMM_K1Z_XMM_XMMM128_def
  handle_code_EVEX_VPADDUSW_YMM_K1Z_YMM_YMMM256_def handle_code_EVEX_VPADDUSW_ZMM_K1Z_ZMM_ZMMM512_def
  handle_code_EVEX_VPADDSB_XMM_K1Z_XMM_XMMM128_def handle_code_EVEX_VPADDSB_YMM_K1Z_YMM_YMMM256_def
  handle_code_EVEX_VPADDSB_ZMM_K1Z_ZMM_ZMMM512_def handle_code_EVEX_VPADDSW_XMM_K1Z_XMM_XMMM128_def
  handle_code_EVEX_VPADDSW_YMM_K1Z_YMM_YMMM256_def handle_code_EVEX_VPADDSW_ZMM_K1Z_ZMM_ZMMM512_def
  handle_code_EVEX_VPSUBB_XMM_K1Z_XMM_XMMM128_def handle_code_EVEX_VPSUBB_YMM_K1Z_YMM_YMMM256_def
  handle_code_EVEX_VPSUBB_ZMM_K1Z_ZMM_ZMMM512_def handle_code_EVEX_VPSUBW_XMM_K1Z_XMM_XMMM128_def
  handle_code_EVEX_VPSUBW_YMM_K1Z_YMM_YMMM256_def handle_code_EVEX_VPSUBW_ZMM_K1Z_ZMM_ZMMM512_def
  handle_code_EVEX_VPSUBD_XMM_K1Z_XMM_XMMM128B32_def handle_code_EVEX_VPSUBD_YMM_K1Z_YMM_YMMM256B32_def
  handle_code_EVEX_VPSUBD_ZMM_K1Z_ZMM_ZMMM512B32_def handle_code_EVEX_VPSUBQ_XMM_K1Z_XMM_XMMM128B64_def
  handle_code_EVEX_VPSUBQ_YMM_K1Z_YMM_YMMM256B64_def handle_code_EVEX_VPSUBQ_ZMM_K1Z_ZMM_ZMMM512B64_def
  handle_code_EVEX_VPSUBUSB_XMM_K1Z_XMM_XMMM128_def handle_code_EVEX_VPSUBUSB_YMM_K1Z_YMM_YMMM256_def
  handle_code_EVEX_VPSUBUSB_ZMM_K1Z_ZMM_ZMMM512_def handle_code_EVEX_VPSUBUSW_XMM_K1Z_XMM_XMMM128_def
  handle_code_EVEX_VPSUBUSW_YMM_K1Z_YMM_YMMM256_def handle_code_EVEX_VPSUBUSW_ZMM_K1Z_ZMM_ZMMM512_def
  handle_code_EVEX_VPSUBSB_XMM_K1Z_XMM_XMMM128_def handle_code_EVEX_VPSUBSB_YMM_K1Z_YMM_YMMM256_def
  handle_code_EVEX_VPSUBSB_ZMM_K1Z_ZMM_ZMMM512_def handle_code_EVEX_VPSUBSW_XMM_K1Z_XMM_XMMM128_def
  handle_code_EVEX_VPSUBSW_YMM_K1Z_YMM_YMMM256_def handle_code_EVEX_VPSUBSW_ZMM_K1Z_ZMM_ZMMM512_def
  handle_code_EVEX_VPCMPEQB_XMM_K1Z_XMM_XMMM128_def handle_code_EVEX_VPCMPEQB_YMM_K1Z_YMM_YMMM256_def
  handle_code_EVEX_VPCMPEQB_ZMM_K1Z_ZMM_ZMMM512_def handle_code_EVEX_VPCMPEQW_XMM_K1Z_XMM_XMMM128_def
  handle_code_EVEX_VPCMPEQW_YMM_K1Z_YMM_YMMM256_def handle_code_EVEX_VPCMPEQW_ZMM_K1Z_ZMM_ZMMM512_def
  handle_code_EVEX_VPCMPEQD_XMM_K1Z_XMM_XMMM128_def handle_code_EVEX_VPCMPEQD_YMM_K1Z_YMM_YMMM256_def
  handle_code_EVEX_VPCMPEQD_ZMM_K1Z_ZMM_ZMMM512_def handle_code_EVEX_VPCMPEQQ_XMM_K1Z_XMM_XMMM128_def
  handle_code_EVEX_VPCMPEQQ_YMM_K1Z_YMM_YMMM256_def handle_code_EVEX_VPCMPEQQ_ZMM_K1Z_ZMM_ZMMM512_def
  handle_code_EVEX_VPCMPGTB_XMM_K1Z_XMM_XMMM128_def handle_code_EVEX_VPCMPGTB_YMM_K1Z_YMM_YMMM256_def
  handle_code_EVEX_VPCMPGTB_ZMM_K1Z_ZMM_ZMMM512_def handle_code_EVEX_VPCMPGTW_XMM_K1Z_XMM_XMMM128_def
  handle_code_EVEX_VPCMPGTW_YMM_K1Z_YMM_YMMM256_def handle_code_EVEX_VPCMPGTW_ZMM_K1Z_ZMM_ZMMM512_def
  handle_code_EVEX_VPCMPGTD_XMM_K1Z_XMM_XMMM128_def handle_code_EVEX_VPCMPGTD_YMM_K1Z_YMM_YMMM256_def
  handle_code_EVEX_VPCMPGTD_ZMM_K1Z_ZMM_ZMMM512_def handle_code_EVEX_VPCMPGTQ_XMM_K1Z_XMM_XMMM128_def
  handle_code_EVEX_VPCMPGTQ_YMM_K1Z_YMM_YMMM256_def handle_code_EVEX_VPCMPGTQ_ZMM_K1Z_ZMM_ZMMM512_def
  handle_code_EVEX_VPAVGB_XMM_K1Z_XMM_XMMM128_def handle_code_EVEX_VPAVGB_YMM_K1Z_YMM_YMMM256_def
  handle_code_EVEX_VPAVGB_ZMM_K1Z_ZMM_ZMMM512_def handle_code_EVEX_VPAVGW_XMM_K1Z_XMM_XMMM128_def
  handle_code_EVEX_VPAVGW_YMM_K1Z_YMM_YMMM256_def handle_code_EVEX_VPAVGW_ZMM_K1Z_ZMM_ZMMM512_def
  handle_code_EVEX_VPMULLW_XMM_K1Z_XMM_XMMM128_def handle_code_EVEX_VPMULLW_YMM_K1Z_YMM_YMMM256_def
  handle_code_EVEX_VPMULLW_ZMM_K1Z_ZMM_ZMMM512_def handle_code_EVEX_VPANDD_XMM_K1Z_XMM_XMMM128B32_def
  handle_code_EVEX_VPANDD_YMM_K1Z_YMM_YMMM256B32_def handle_code_EVEX_VPANDD_ZMM_K1Z_ZMM_ZMMM512B32_def
  handle_code_EVEX_VPANDQ_XMM_K1Z_XMM_XMMM128B64_def handle_code_EVEX_VPANDQ_YMM_K1Z_YMM_YMMM256B64_def
  handle_code_EVEX_VPANDQ_ZMM_K1Z_ZMM_ZMMM512B64_def handle_code_EVEX_VPANDND_XMM_K1Z_XMM_XMMM128B32_def
  handle_code_EVEX_VPANDND_YMM_K1Z_YMM_YMMM256B32_def handle_code_EVEX_VPANDND_ZMM_K1Z_ZMM_ZMMM512B32_def
  handle_code_EVEX_VPANDNQ_XMM_K1Z_XMM_XMMM128B64_def handle_code_EVEX_VPANDNQ_YMM_K1Z_YMM_YMMM256B64_def
  handle_code_EVEX_VPANDNQ_ZMM_K1Z_ZMM_ZMMM512B64_def handle_code_EVEX_VPORD_XMM_K1Z_XMM_XMMM128B32_def
  handle_code_EVEX_VPORD_YMM_K1Z_YMM_YMMM256B32_def handle_code_EVEX_VPORD_ZMM_K1Z_ZMM_ZMMM512B32_def
  handle_code_EVEX_VPORQ_XMM_K1Z_XMM_XMMM128B64_def handle_code_EVEX_VPORQ_YMM_K1Z_YMM_YMMM256B64_def
  handle_code_EVEX_VPORQ_ZMM_K1Z_ZMM_ZMMM512B64_def handle_code_EVEX_VPXORD_XMM_K1Z_XMM_XMMM128B32_def
  handle_code_EVEX_VPXORD_YMM_K1Z_YMM_YMMM256B32_def handle_code_EVEX_VPXORD_ZMM_K1Z_ZMM_ZMMM512B32_def
  handle_code_EVEX_VPXORQ_XMM_K1Z_XMM_XMMM128B64_def handle_code_EVEX_VPXORQ_YMM_K1Z_YMM_YMMM256B64_def
  handle_code_EVEX_VPXORQ_ZMM_K1Z_ZMM_ZMMM512B64_def

lemmas packed_shift_handlers =
  handle_code_PSLLW_XMM_XMMM128_def handle_code_PSLLD_XMM_XMMM128_def handle_code_PSLLQ_XMM_XMMM128_def handle_code_PSRLW_XMM_XMMM128_def
  handle_code_PSRLD_XMM_XMMM128_def handle_code_PSRLQ_XMM_XMMM128_def handle_code_PSRAW_XMM_XMMM128_def handle_code_PSRAD_XMM_XMMM128_def
  handle_code_PSLLW_XMM_IMM8_def handle_code_PSLLD_XMM_IMM8_def handle_code_PSLLQ_XMM_IMM8_def handle_code_PSRLW_XMM_IMM8_def
  handle_code_PSRLD_XMM_IMM8_def handle_code_PSRLQ_XMM_IMM8_def handle_code_PSRAW_XMM_IMM8_def handle_code_PSRAD_XMM_IMM8_def
  handle_code_VEX_VPSLLW_XMM_XMM_XMMM128_def handle_code_VEX_VPSLLD_XMM_XMM_XMMM128_def handle_code_VEX_VPSLLQ_XMM_XMM_XMMM128_def
  handle_code_VEX_VPSRLW_XMM_XMM_XMMM128_def handle_code_VEX_VPSRLD_XMM_XMM_XMMM128_def handle_code_VEX_VPSRLQ_XMM_XMM_XMMM128_def
  handle_code_VEX_VPSRAW_XMM_XMM_XMMM128_def handle_code_VEX_VPSRAD_XMM_XMM_XMMM128_def handle_code_VEX_VPSLLW_XMM_XMM_IMM8_def
  handle_code_VEX_VPSLLD_XMM_XMM_IMM8_def handle_code_VEX_VPSLLQ_XMM_XMM_IMM8_def handle_code_VEX_VPSRLW_XMM_XMM_IMM8_def
  handle_code_VEX_VPSRLD_XMM_XMM_IMM8_def handle_code_VEX_VPSRLQ_XMM_XMM_IMM8_def handle_code_VEX_VPSRAW_XMM_XMM_IMM8_def
  handle_code_VEX_VPSRAD_XMM_XMM_IMM8_def handle_code_VEX_VPSLLW_YMM_YMM_YMMM256_def handle_code_VEX_VPSLLD_YMM_YMM_YMMM256_def
  handle_code_VEX_VPSLLQ_YMM_YMM_YMMM256_def handle_code_VEX_VPSRLW_YMM_YMM_YMMM256_def handle_code_VEX_VPSRLD_YMM_YMM_YMMM256_def
  handle_code_VEX_VPSRLQ_YMM_YMM_YMMM256_def handle_code_VEX_VPSRAW_YMM_YMM_YMMM256_def handle_code_VEX_VPSRAD_YMM_YMM_YMMM256_def
  handle_code_VEX_VPSLLW_YMM_YMM_IMM8_def handle_code_VEX_VPSLLD_YMM_YMM_IMM8_def handle_code_VEX_VPSLLQ_YMM_YMM_IMM8_def
  handle_code_VEX_VPSRLW_YMM_YMM_IMM8_def handle_code_VEX_VPSRLD_YMM_YMM_IMM8_def handle_code_VEX_VPSRLQ_YMM_YMM_IMM8_def
  handle_code_VEX_VPSRAW_YMM_YMM_IMM8_def handle_code_VEX_VPSRAD_YMM_YMM_IMM8_def handle_code_EVEX_VPSLLW_XMM_K1Z_XMM_XMMM128_def
  handle_code_EVEX_VPSLLW_YMM_K1Z_YMM_XMMM128_def handle_code_EVEX_VPSLLW_ZMM_K1Z_ZMM_XMMM128_def
  handle_code_EVEX_VPSLLD_XMM_K1Z_XMM_XMMM128_def handle_code_EVEX_VPSLLD_YMM_K1Z_YMM_XMMM128_def
  handle_code_EVEX_VPSLLD_ZMM_K1Z_ZMM_XMMM128_def handle_code_EVEX_VPSLLQ_XMM_K1Z_XMM_XMMM128_def
  handle_code_EVEX_VPSLLQ_YMM_K1Z_YMM_XMMM128_def handle_code_EVEX_VPSLLQ_ZMM_K1Z_ZMM_XMMM128_def
  handle_code_EVEX_VPSRLW_XMM_K1Z_XMM_XMMM128_def handle_code_EVEX_VPSRLW_YMM_K1Z_YMM_XMMM128_def
  handle_code_EVEX_VPSRLW_ZMM_K1Z_ZMM_XMMM128_def handle_code_EVEX_VPSRLD_XMM_K1Z_XMM_XMMM128_def
  handle_code_EVEX_VPSRLD_YMM_K1Z_YMM_XMMM128_def handle_code_EVEX_VPSRLD_ZMM_K1Z_ZMM_XMMM128_def
  handle_code_EVEX_VPSRLQ_XMM_K1Z_XMM_XMMM128_def handle_code_EVEX_VPSRLQ_YMM_K1Z_YMM_XMMM128_def
  handle_code_EVEX_VPSRLQ_ZMM_K1Z_ZMM_XMMM128_def handle_code_EVEX_VPSRAW_XMM_K1Z_XMM_XMMM128_def
  handle_code_EVEX_VPSRAW_YMM_K1Z_YMM_XMMM128_def handle_code_EVEX_VPSRAW_ZMM_K1Z_ZMM_XMMM128_def
  handle_code_EVEX_VPSRAD_XMM_K1Z_XMM_XMMM128_def handle_code_EVEX_VPSRAD_YMM_K1Z_YMM_XMMM128_def
  handle_code_EVEX_VPSRAD_ZMM_K1Z_ZMM_XMMM128_def handle_code_EVEX_VPSLLW_XMM_K1Z_XMMM128_IMM8_def
  handle_code_EVEX_VPSLLW_YMM_K1Z_YMMM256_IMM8_def handle_code_EVEX_VPSLLW_ZMM_K1Z_ZMMM512_IMM8_def
  handle_code_EVEX_VPSLLD_XMM_K1Z_XMMM128B32_IMM8_def handle_code_EVEX_VPSLLD_YMM_K1Z_YMMM256B32_IMM8_def
  handle_code_EVEX_VPSLLD_ZMM_K1Z_ZMMM512B32_IMM8_def handle_code_EVEX_VPSLLQ_XMM_K1Z_XMMM128B64_IMM8_def
  handle_code_EVEX_VPSLLQ_YMM_K1Z_YMMM256B64_IMM8_def handle_code_EVEX_VPSLLQ_ZMM_K1Z_ZMMM512B64_IMM8_def
  handle_code_EVEX_VPSRLW_XMM_K1Z_XMMM128_IMM8_def handle_code_EVEX_VPSRLW_YMM_K1Z_YMMM256_IMM8_def
  handle_code_EVEX_VPSRLW_ZMM_K1Z_ZMMM512_IMM8_def handle_code_EVEX_VPSRLD_XMM_K1Z_XMMM128B32_IMM8_def
  handle_code_EVEX_VPSRLD_YMM_K1Z_YMMM256B32_IMM8_def handle_code_EVEX_VPSRLD_ZMM_K1Z_ZMMM512B32_IMM8_def
  handle_code_EVEX_VPSRLQ_XMM_K1Z_XMMM128B64_IMM8_def handle_code_EVEX_VPSRLQ_YMM_K1Z_YMMM256B64_IMM8_def
  handle_code_EVEX_VPSRLQ_ZMM_K1Z_ZMMM512B64_IMM8_def handle_code_EVEX_VPSRAW_XMM_K1Z_XMMM128_IMM8_def
  handle_code_EVEX_VPSRAW_YMM_K1Z_YMMM256_IMM8_def handle_code_EVEX_VPSRAW_ZMM_K1Z_ZMMM512_IMM8_def
  handle_code_EVEX_VPSRAD_XMM_K1Z_XMMM128B32_IMM8_def handle_code_EVEX_VPSRAD_YMM_K1Z_YMMM256B32_IMM8_def
  handle_code_EVEX_VPSRAD_ZMM_K1Z_ZMMM512B32_IMM8_def

lemmas packed_rules =
  computes_packed_binary [OF computes_wrap(1) lane_sizes(1), simplified] computes_packed_binary [OF computes_wrap(1) lane_sizes(2), simplified]
  computes_packed_binary [OF computes_wrap(1) lane_sizes(3), simplified] computes_packed_binary [OF computes_wrap(1) lane_sizes(4), simplified]
  computes_packed_binary [OF computes_wrap(2) lane_sizes(1), simplified] computes_packed_binary [OF computes_wrap(2) lane_sizes(2), simplified]
  computes_packed_binary [OF computes_wrap(2) lane_sizes(3), simplified] computes_packed_binary [OF computes_wrap(2) lane_sizes(4), simplified]
  computes_packed_binary [OF computes_unsigned_sat(1) lane_sizes(1), simplified]
  computes_packed_binary [OF computes_unsigned_sat(1) lane_sizes(2), simplified]
  computes_packed_binary [OF computes_unsigned_sat(2) lane_sizes(1), simplified]
  computes_packed_binary [OF computes_unsigned_sat(2) lane_sizes(2), simplified]
  computes_packed_binary [OF computes_signed_sat(1) lane_sizes(1), simplified]
  computes_packed_binary [OF computes_signed_sat(1) lane_sizes(2), simplified]
  computes_packed_binary [OF computes_signed_sat(2) lane_sizes(1), simplified]
  computes_packed_binary [OF computes_signed_sat(2) lane_sizes(2), simplified]
  computes_packed_binary [OF computes_avg lane_sizes(1), simplified] computes_packed_binary [OF computes_avg lane_sizes(2), simplified]
  computes_packed_binary [OF computes_extremes(1) lane_sizes(1), simplified]
  computes_packed_binary [OF computes_extremes(2) lane_sizes(2), simplified]
  computes_packed_binary [OF computes_mul(1) lane_sizes(2), simplified] computes_packed_binary [OF computes_mul(2) lane_sizes(2), simplified]
  computes_packed_binary [OF computes_mul(3) lane_sizes(2), simplified]

lemmas packed_compare_rules =
  computes_packed_binary [OF computes_compare(1) lane_sizes(1), simplified] computes_packed_binary [OF computes_compare(1) lane_sizes(2), simplified]
  computes_packed_binary [OF computes_compare(1) lane_sizes(3), simplified] computes_packed_binary [OF computes_compare(1) lane_sizes(4), simplified]
  computes_packed_binary [OF computes_compare(2) lane_sizes(1), simplified] computes_packed_binary [OF computes_compare(2) lane_sizes(2), simplified]
  computes_packed_binary [OF computes_compare(2) lane_sizes(3), simplified] computes_packed_binary [OF computes_compare(2) lane_sizes(4), simplified]

lemmas packed_bitwise_rules =
  computes_bitwise [THEN computes_packed_bitwise(1)] computes_bitwise [THEN computes_packed_bitwise(2)]
  computes_packed_bitwise(3) [OF computes_bitwise(1) lane_sizes(3), simplified] computes_packed_bitwise(3) [OF computes_bitwise(1) lane_sizes(4), simplified]
  computes_packed_bitwise(3) [OF computes_bitwise(2) lane_sizes(3), simplified] computes_packed_bitwise(3) [OF computes_bitwise(2) lane_sizes(4), simplified]
  computes_packed_bitwise(3) [OF computes_bitwise(3) lane_sizes(3), simplified] computes_packed_bitwise(3) [OF computes_bitwise(3) lane_sizes(4), simplified]
  computes_packed_bitwise(3) [OF computes_bitwise(4) lane_sizes(3), simplified] computes_packed_bitwise(3) [OF computes_bitwise(4) lane_sizes(4), simplified]

lemmas packed_shift_rules =
  computes_packed_shift [OF computes_shift_left lane_sizes(2), simplified] computes_packed_shift [OF computes_shift_left lane_sizes(3), simplified]
  computes_packed_shift [OF computes_shift_left lane_sizes(4), simplified]
  computes_packed_shift [OF computes_shift_right lane_sizes(2), simplified] computes_packed_shift [OF computes_shift_right lane_sizes(3), simplified]
  computes_packed_shift [OF computes_shift_right lane_sizes(4), simplified]
  computes_packed_shift [OF computes_shift_arithmetic lane_sizes(2), simplified]
  computes_packed_shift [OF computes_shift_arithmetic lane_sizes(3), simplified]

lemma packed_sources_frame: "packed_sources enc c = (r, c1) \<Longrightarrow> state c1 = state c"
  by (auto simp: packed_sources_def Let_def split: if_splits prod.splits option.splits dest!: read_vec_operand_frame)

lemma packed_catalog_correct: "list_all (\<lambda>(h, enc, op, n). computes_packed h enc op n) packed_catalog"
  unfolding packed_catalog_def packed_handlers list.pred_inject prod.case
  by (intro conjI list.pred_inject(1) packed_rules packed_compare_rules packed_bitwise_rules)

lemma packed_shift_catalog_correct:
  "list_all (\<lambda>(h, enc, form, op, n). computes_packed_shift h enc form op n) packed_shift_catalog"
  unfolding packed_shift_catalog_def packed_shift_handlers list.pred_inject prod.case
  by (intro conjI list.pred_inject(1) packed_shift_rules)

section \<open>Properties\<close>

text \<open>C27: Packed arithmetic, comparison and logic (202 handlers of \<^verbatim>\<open>simd_int.cpp\<close>, for the legacy, VEX and EVEX encodings): a handler whose
  source operands are read writes only its destination register; lane \<open>j\<close> of the new value is the integer operation of the handler (wrapping,
  saturating, averaging, comparing, multiplying, bitwise) on the lanes \<open>j\<close> of the sources, unless the write mask leaves the lane
  out: then it is zero or the old lane. The bits above the register are kept by legacy encodings and cleared by the others. When a
  source cannot be read the handler faults and changes no register.
\<close>

theorem packed_semantics:
  assumes "(h, enc, op, n) \<in> set packed_catalog" "op_kind (instr c) 0 = REGISTER" "op_register (instr c) 0 = dst" "is_vector_register dst"
  shows "case packed_sources enc c of
      (None, c1) \<Rightarrow> h c = (memory_fault c1 (memory_address c1), c1) \<and> state c1 = state c
    | (Some (lhs, rhs), c1) \<Rightarrow>
        \<exists>u. h c = (no_stop, c1\<lparr>state := (state c)\<lparr>vectors := (vectors (state c))[vector_index dst := u]\<rparr>\<rparr>) \<and>
            vector_result enc c n (\<lambda>j. packed_ref op n (vlane n lhs j) (vlane n rhs j)) u"
proof -
  have "computes_packed h enc op n" using packed_catalog_correct assms(1) by (auto simp: list_all_iff)
  note ok = this [unfolded computes_packed_def, rule_format, of c dst]
  obtain r c1 where r: "packed_sources enc c = (r, c1)" by fastforce
  show ?thesis
    using ok assms(2-) packed_sources_frame [OF r] r by (cases r) auto
qed

text \<open>C28: Packed shifts (96 handlers): each lane is multiplied or divided by the power of two of the whole 64-bit count, so that counts
  of the lane width or more give zero, or the sign for arithmetic shifts; the count is the low quadword of the count operand or the immediate byte.
\<close>

theorem packed_shift_semantics:
  assumes "(h, enc, form, op, n) \<in> set packed_shift_catalog"
    "op_kind (instr c) 0 = REGISTER" "op_register (instr c) 0 = dst" "is_vector_register dst"
    "enc = Three_Operand \<and> form = Count_Operand \<longrightarrow> op_kind (instr c) 1 = REGISTER \<and> is_vector_register (op_register (instr c) 1)"
  shows "case shift_sources enc form c of
      (None, c1) \<Rightarrow> h c = (memory_fault c1 (memory_address c1), c1)
    | (Some (src, count), c1) \<Rightarrow>
        \<exists>u. h c = (no_stop, c1\<lparr>state := (state c)\<lparr>vectors := (vectors (state c))[vector_index dst := u]\<rparr>\<rparr>) \<and>
            vector_result enc c n (\<lambda>j. shift_ref op n (vlane n src j) count) u"
proof -
  have "computes_packed_shift h enc form op n" using packed_shift_catalog_correct assms(1) by (auto simp: list_all_iff)
  note ok = this [unfolded computes_packed_shift_def, rule_format, of c dst]
  show ?thesis by (rule ok) (intro conjI assms(2-))
qed

text \<open>\<^verbatim>\<open>paddusb xmm1, xmm2\<close> and \<^verbatim>\<open>vpsraw ymm1{k2}{z}, ymm3, 4\<close>.\<close>

definition paddusb_xmm1_xmm2 :: instruction where
  "paddusb_xmm1_xmm2 = null_instruction\<lparr>op_register := (\<lambda>k. if k = 0 then XMM 1 else XMM 2)\<rparr>"

definition vpsraw_ymm1_ymm3 :: instruction where
  "vpsraw_ymm1_ymm3 = null_instruction\<lparr>op_register := (\<lambda>k. if k = 0 then YMM 1 else YMM 3), immediate8 := 4, op_mask := K 2,
     zeroing_masking := True\<rparr>"

definition vector_ctx :: "instruction \<Rightarrow> unit ctx" where
  "vector_ctx i = (demo_ctx i)\<lparr>state := initial_cpu_state\<lparr>vectors := map (\<lambda>k. word_of_nat (250 * k)) [0..<32],
     opmask := map word_of_nat [0..<8]\<rparr>\<rparr>"

theorem packed_semantics_witness:
  "\<exists>u. handle_code_PADDUSB_XMM_XMMM128 (vector_ctx paddusb_xmm1_xmm2) =
      (no_stop, (vector_ctx paddusb_xmm1_xmm2)\<lparr>state := (state (vector_ctx paddusb_xmm1_xmm2))\<lparr>vectors :=
         (vectors (state (vector_ctx paddusb_xmm1_xmm2)))[1 := u]\<rparr>\<rparr>) \<and>
    vector_result Two_Operand (vector_ctx paddusb_xmm1_xmm2) 8 (\<lambda>j. packed_ref P_Add_Unsigned_Sat 8 (vlane 8 250 j) (vlane 8 500 j)) u"
proof -
  have "(handle_code_PADDUSB_XMM_XMMM128, Two_Operand, P_Add_Unsigned_Sat, 8) \<in> set packed_catalog" by (simp add: packed_catalog_def)
  from packed_semantics [OF this, of "vector_ctx paddusb_xmm1_xmm2"] show ?thesis
    by (simp add: vector_ctx_def demo_ctx_def paddusb_xmm1_xmm2_def null_instruction_def packed_sources_def read_vec_operand_def read_vec_def
        simd_mask_def Let_def)
qed

theorem packed_shift_semantics_witness:
  "\<exists>u. handle_code_EVEX_VPSRAW_YMM_K1Z_YMMM256_IMM8 (vector_ctx vpsraw_ymm1_ymm3) =
      (no_stop, (vector_ctx vpsraw_ymm1_ymm3)\<lparr>state := (state (vector_ctx vpsraw_ymm1_ymm3))\<lparr>vectors :=
         (vectors (state (vector_ctx vpsraw_ymm1_ymm3)))[1 := u]\<rparr>\<rparr>) \<and>
    vector_result Three_Operand (vector_ctx vpsraw_ymm1_ymm3) 16 (\<lambda>j. shift_ref S_Arithmetic 16 (vlane 16 750 j) 4) u"
proof -
  have "(handle_code_EVEX_VPSRAW_YMM_K1Z_YMMM256_IMM8, Three_Operand, Count_Immediate, S_Arithmetic, 16) \<in> set packed_shift_catalog"
    by (simp add: packed_shift_catalog_def)
  from packed_shift_semantics [OF this, of "vector_ctx vpsraw_ymm1_ymm3"] show ?thesis
    by (simp add: vector_ctx_def demo_ctx_def vpsraw_ymm1_ymm3_def null_instruction_def shift_sources_def read_vec_operand_def read_vec_def
        simd_mask_def Let_def)
qed

end
