(* ===== verification/Shuffle_Facts.thy ===== *)
theory Shuffle_Facts
  imports Simd_Shuffle Simd_Facts
begin

text \<open>
  What the shuffles, interleaves and packs do: each element of the result, by its position in its 128-bit block, against the element
  of the sources it comes from.
\<close>

section \<open>Blocks of 128 bits\<close>

lemma store_elements_lanes:
  fixes es :: "nat \<Rightarrow> 'a::len word list"
  assumes s: "0 < sizeof TYPE('a)" and l: "\<And>lane. length (es lane) = m"
  shows "fold (\<lambda>lane. store_elements lane (es lane)) (lanes (k * (m * sizeof TYPE('a))) (m * sizeof TYPE('a))) v =
    fold (\<lambda>l. lane_store l (es (l div (m * sizeof TYPE('a)) * (m * sizeof TYPE('a))) ! (l div sizeof TYPE('a) mod m)))
      (lanes (k * m * sizeof TYPE('a)) (sizeof TYPE('a))) v"
proof (cases "m = 0")
  case True
  then show ?thesis using l by (simp add: lanes_def store_elements_def)
next
  case False
  let ?s = "sizeof TYPE('a)"
  have split: "[0..<Suc k * m] = [0..<k * m] @ map (\<lambda>i. k * m + i) [0..<m]" for k
    by (rule nth_equalityI) (auto simp: nth_append)
  show ?thesis
  proof (induction k)
    case 0
    then show ?case by (simp add: lanes_def)
  next
    case (Suc k)
    have "fold (\<lambda>l. lane_store l (es (l div (m * ?s) * (m * ?s)) ! (l div ?s mod m))) (map (\<lambda>i. (k * m + i) * ?s) [0..<m]) v =
        store_elements (k * (m * ?s)) (es (k * (m * ?s))) v" for v
      unfolding store_elements_def l fold_map comp_def
    proof (intro fold_cong refl)
      fix i assume "i \<in> set [0..<m]"
      then have i: "i < m" by simp
      have "(k * m + i) * ?s = k * (m * ?s) + i * ?s" by (simp add: algebra_simps)
      moreover have "i * ?s < m * ?s" using i s by simp
      ultimately show "lane_store ((k * m + i) * ?s) (es ((k * m + i) * ?s div (m * ?s) * (m * ?s)) ! ((k * m + i) * ?s div ?s mod m)) =
        lane_store (k * (m * ?s) + i * ?s) (es (k * (m * ?s)) ! i)"
        using s i by simp
    qed
    moreover have "lanes (Suc k * (m * ?s)) (m * ?s) = lanes (k * (m * ?s)) (m * ?s) @ [k * (m * ?s)]"
      using lanes_multiple [of "m * ?s" k] lanes_multiple [of "m * ?s" "Suc k"] s False by simp
    moreover have "lanes (Suc k * m * ?s) ?s = lanes (k * m * ?s) ?s @ map (\<lambda>i. (k * m + i) * ?s) [0..<m]"
      using lanes_multiple [OF s, of "k * m"] lanes_multiple [OF s, of "Suc k * m"] split [of k] by (simp add: comp_def)
    ultimately show ?case using Suc.IH by simp
  qed
qed


lemma unpack_elements_lanes:
  fixes t :: "'a::len itself"
  shows "unpack_elements t n base lhs rhs lane =
    fold (\<lambda>i. lane_store (i * sizeof t)
        ((lane_load (if even i then lhs else rhs) (lane + base + i div 2 * sizeof t)) :: 'a word)) [0..<2 * n] 0"
proof (induction n)
  case 0
  then show ?case by (simp add: unpack_elements_def)
next
  case (Suc n)
  have "[0..<2 * Suc n] = [0..<2 * n] @ [2 * n, Suc (2 * n)]" by simp
  then show ?case using Suc by (simp add: unpack_elements_def Let_def algebra_simps)
qed

lemma bit_fold_or:
  assumes "\<And>lane. drop_bit 128 (G lane :: simd) = 0"
  shows "bit (fold (\<lambda>lane out. out OR push_bit (lane * 8) (G lane)) (lanes (k * 16) 16) 0) n \<longleftrightarrow>
    n < 512 \<and> n < 128 * k \<and> bit (G (n div 128 * 16)) (n mod 128)"
proof -
  have G: "i < 128" if "bit (G lane) i" for lane i
  proof (rule ccontr)
    assume "\<not> i < 128"
    with that have "bit (drop_bit 128 (G lane)) (i - 128)" by (simp add: bit_drop_bit_eq)
    then show False using assms by simp
  qed
  show ?thesis unfolding lanes_multiple [of 16, simplified]
  proof (induction k)
    case (Suc k)
    show ?case
    proof (cases "128 * k \<le> n \<and> n < 128 * k + 128")
      case True
      then have "n div 128 = k" by auto
      moreover from this have "n mod 128 = n - 128 * k" by (simp add: minus_mult_div_eq_mod [symmetric])
      ultimately have "n div 128 = k" "n mod 128 = n - 128 * k" .
      with True Suc show ?thesis by (auto simp: bit_simps)
    next
      case False
      then have "\<not> (128 * k \<le> n \<and> bit (G (k * 16)) (n - 128 * k))" using G [of "k * 16" "n - 128 * k"] by auto
      with False Suc show ?thesis by (auto simp: bit_simps mult.commute)
    qed
  qed simp
qed

lemma block_count:
  assumes "lane_size TYPE('a::len)"
  obtains m k where "128 div LENGTH('a) = m" "m * sizeof TYPE('a) = 16" "m * LENGTH('a) = 128" "0 < m" "0 < sizeof TYPE('a)"
    "vector_width r = k * 16" "8 * vector_width r div LENGTH('a) = k * m" "k * m * LENGTH('a) \<le> 512" "k \<le> 4"
proof -
  obtain m where "128 = LENGTH('a) * m" using assms by (auto simp: lane_size_def)
  then have m: "m * LENGTH('a) = 128" by (simp add: mult.commute)
  then have d: "128 div LENGTH('a) = m" by (metis len_not_eq_0 nonzero_mult_div_cancel_right)
  have s: "8 * sizeof TYPE('a) = LENGTH('a)" using assms by (simp add: lane_size_def sizeof_bits)
  have "8 * (m * sizeof TYPE('a)) = m * (8 * sizeof TYPE('a))" by simp
  then have s16: "m * sizeof TYPE('a) = 16" unfolding s m by simp
  then have p: "0 < m" "0 < sizeof TYPE('a)" by (auto intro: Nat.gr0I)
  define k where "k = vector_width r div 16"
  have k: "vector_width r = k * 16" "k \<le> 4" using vector_width_cases [of r] by (auto simp: k_def)
  have e: "8 * vector_width r = k * m * LENGTH('a)" using k m by simp
  have "8 * vector_width r div LENGTH('a) = k * m" unfolding e by simp
  moreover have "k * m * LENGTH('a) \<le> 512" unfolding e [symmetric] using k by simp
  ultimately show ?thesis using that [OF d s16 m p k(1)] k(2) by blast
qed

lemma vlane_blocks:
  fixes es :: "nat \<Rightarrow> 'a::len word list"
  assumes "lane_size TYPE('a)" "\<And>lane. length (es lane) = 128 div LENGTH('a)" "j < 8 * vector_width r div LENGTH('a)"
  shows "vlane LENGTH('a) (fold (\<lambda>lane. store_elements lane (es lane)) (lanes (vector_width r) 16) out) j =
    uint (es (j div (128 div LENGTH('a)) * 16) ! (j mod (128 div LENGTH('a))))"
proof -
  have d: "8 dvd LENGTH('a)" using assms(1) by (simp add: lane_size_def)
  obtain m k where m: "128 div LENGTH('a) = m" "m * sizeof TYPE('a) = 16" "0 < m" "0 < sizeof TYPE('a)"
    "vector_width r = k * 16" "8 * vector_width r div LENGTH('a) = k * m" "k * m * LENGTH('a) \<le> 512"
    by (rule block_count [OF assms(1), of r])
  have "j * sizeof TYPE('a) div 16 = j div m" using m(2-4) by (metis div_mult_mult2 less_numeral_extra(3))
  then show ?thesis
    using assms(2,3) m store_elements_lanes [OF m(4), of es m k out]
      lane_load_fold [OF d, of j "k * m" "\<lambda>_. True" "\<lambda>l. es (l div 16 * 16) ! (l div sizeof TYPE('a) mod m)" out]
    by (simp add: vlane_load [OF d])
qed

lemma vlane_or_blocks:
  assumes "lane_size TYPE('a::len)" "\<And>lane. drop_bit 128 (G lane :: simd) = 0" "j < 8 * vector_width r div LENGTH('a)"
  shows "vlane LENGTH('a) (fold (\<lambda>lane out. out OR push_bit (lane * 8) (G lane)) (lanes (vector_width r) 16) 0) j =
    vlane LENGTH('a) (G (j div (128 div LENGTH('a)) * 16)) (j mod (128 div LENGTH('a)))"
proof -
  obtain m k where m: "128 div LENGTH('a) = m" "m * LENGTH('a) = 128" "0 < m"
    "vector_width r = k * 16" "8 * vector_width r div LENGTH('a) = k * m" "k \<le> 4"
    by (rule block_count [OF assms(1), of r])
  have p: "(LENGTH('a) * j + i) div 128 = j div m \<and> (LENGTH('a) * j + i) mod 128 = LENGTH('a) * (j mod m) + i \<and> LENGTH('a) * j + i < 128 * k"
    if "i < LENGTH('a)" for i
  proof -
    have "LENGTH('a) * j + i = 128 * (j div m) + (LENGTH('a) * (j mod m) + i)"
      using m(2) by (metis add.assoc distrib_left mult.assoc mult.commute mult_div_mod_eq)
    moreover have "LENGTH('a) * (j mod m) + i < 128"
    proof -
      have "Suc (j mod m) \<le> m" using m(3) by (simp add: Suc_leI)
      then have "LENGTH('a) * Suc (j mod m) \<le> LENGTH('a) * m" by (rule mult_le_mono2)
      then show ?thesis using that m(2) by (simp add: mult.commute)
    qed
    moreover have "j div m < k" using assms(3) m(3,5) by (simp add: div_less_iff_less_mult)
    moreover have "(128 * x + y) div 128 = x \<and> (128 * x + y) mod 128 = y \<and> (x < k \<longrightarrow> 128 * x + y < 128 * k)" if "y < 128" for x y :: nat
      using that by auto
    ultimately show ?thesis by metis
  qed
  show ?thesis
    unfolding vlane_bits m(1,4)
  proof (rule bit_eqI)
    fix i
    show "bit (take_bit LENGTH('a) (drop_bit (LENGTH('a) * j) (uint (fold (\<lambda>lane out. out OR push_bit (lane * 8) (G lane)) (lanes (k * 16) 16) 0)))) i =
      bit (take_bit LENGTH('a) (drop_bit (LENGTH('a) * (j mod m)) (uint (G (j div m * 16))))) i"
    proof (cases "i < LENGTH('a)")
      case True
      then show ?thesis using p [OF True] m(6) by (auto simp: bit_simps bit_fold_or [OF assms(2)])
    qed (simp add: bit_simps)
  qed
qed

lemma vlane_store_block:
  fixes g :: "nat \<Rightarrow> 'a::len word"
  assumes "lane_size TYPE('a)" "128 div LENGTH('a) = m"
  shows "i < m \<Longrightarrow> vlane LENGTH('a) (fold (\<lambda>i. lane_store (i * sizeof TYPE('a)) (g i)) [0..<m] 0) i = uint (g i)"
    "drop_bit 128 (fold (\<lambda>i. lane_store (i * sizeof TYPE('a)) (g i)) [0..<m] 0) = 0"
proof -
  have d: "8 dvd LENGTH('a)" using assms(1) by (simp add: lane_size_def)
  have m: "m * LENGTH('a) = 128" "0 < sizeof TYPE('a)" using block_count [OF assms(1)] assms(2) by metis+
  have f: "fold (\<lambda>i. lane_store (i * sizeof TYPE('a)) (g i)) [0..<m] 0 =
    fold (\<lambda>l out. if True then lane_store l (g (l div sizeof TYPE('a))) out else out) (lanes (m * sizeof TYPE('a)) (sizeof TYPE('a))) 0"
    using m(2) by (simp add: lanes_multiple fold_map comp_def)
  show "i < m \<Longrightarrow> vlane LENGTH('a) (fold (\<lambda>i. lane_store (i * sizeof TYPE('a)) (g i)) [0..<m] 0) i = uint (g i)"
    unfolding f vlane_load [OF d] using m lane_load_fold [OF d, of i m "\<lambda>_. True"] by simp
  show "drop_bit 128 (fold (\<lambda>i. lane_store (i * sizeof TYPE('a)) (g i)) [0..<m] 0) = 0"
    unfolding f m(1) [symmetric] drop_bit_fold [OF d] by simp
qed

lemma load_elements_vlane:
  assumes "lane_size TYPE('a::len)" "128 div LENGTH('a) = m" "i < m"
  shows "uint ((load_elements m v (q * 16) :: 'a word list) ! i) = vlane LENGTH('a) v (q * m + i)"
proof -
  have d: "8 dvd LENGTH('a)" using assms(1) by (simp add: lane_size_def)
  have m: "m * sizeof TYPE('a) = 16" using block_count [OF assms(1)] assms(2) by metis
  have "q * 16 + i * sizeof TYPE('a) = (q * m + i) * sizeof TYPE('a)" unfolding m [symmetric] by (simp add: add_mult_distrib)
  then show ?thesis using assms(3) by (simp add: load_elements_def vlane_load [OF d])
qed

section \<open>Rearrangements\<close>

text \<open>
  What the instructions do to the elements of a 128-bit block: \<open>Select\<close> names a source element for every element of the result, as a
  function of the immediate; \<open>Interleave\<close> alternates the elements of one half of both sources; the packs narrow the elements of both
  sources with saturation.
\<close>

datatype pick = Lhs nat | Rhs nat

datatype rearrange = Select "u8 \<Rightarrow> pick list" | Interleave nat | Pack_Signed | Pack_Unsigned

fun rearranged :: "rearrange \<Rightarrow> nat \<Rightarrow> u8 \<Rightarrow> simd \<Rightarrow> simd \<Rightarrow> nat \<Rightarrow> int" where
  "rearranged (Select sel) n imm lhs rhs j =
     (let m = 128 div n
      in case sel imm ! (j mod m) of Lhs i \<Rightarrow> vlane n lhs (j div m * m + i) | Rhs i \<Rightarrow> vlane n rhs (j div m * m + i))"
| "rearranged (Interleave half) n imm lhs rhs j =
     (let m = 128 div n
      in vlane n (if even (j mod m) then lhs else rhs) (j div m * m + half * (m div 2) + j mod m div 2))"
| "rearranged Pack_Signed n imm lhs rhs j =
     (let m = 128 div n; k = m div 2
      in clamp (- (2 ^ (n - 1))) (2 ^ (n - 1) - 1)
           (lane_signed (2 * n) (vlane (2 * n) (if j mod m < k then lhs else rhs) (j div m * k + j mod m mod k))) mod 2 ^ n)"
| "rearranged Pack_Unsigned n imm lhs rhs j =
     (let m = 128 div n; k = m div 2
      in clamp 0 (2 ^ n - 1)
           (lane_signed (2 * n) (vlane (2 * n) (if j mod m < k then lhs else rhs) (j div m * k + j mod m mod k))))"

text \<open>The sources; \<open>unary\<close> instructions have one, taken twice.\<close>

definition rearrange_sources :: "encoding \<Rightarrow> bool \<Rightarrow> 'w ctx \<Rightarrow> (simd \<times> simd) option \<times> 'w ctx" where
  "rearrange_sources enc unary c =
     (let dst = op_register (instr c) 0; w = vector_width dst
      in if unary then case read_vec_operand_plain c 1 w of (r, c1) \<Rightarrow> (map_option (\<lambda>v. (v, v)) r, c1)
         else if enc = Two_Operand
         then case read_vec_operand_plain c 1 w of (r, c1) \<Rightarrow> (map_option (Pair (read_vec (state c) dst)) r, c1)
         else case read_vec_operand_plain c 1 w of
                (None, c1) \<Rightarrow> (None, c1)
              | (Some a, c1) \<Rightarrow> case read_vec_operand_plain c1 2 w of (r, c2) \<Rightarrow> (map_option (Pair a) r, c2))"

definition computes_rearrangement :: "'w handler \<Rightarrow> encoding \<Rightarrow> bool \<Rightarrow> rearrange \<Rightarrow> nat \<Rightarrow> bool" where
  "computes_rearrangement h enc unary rr n \<longleftrightarrow>
     (\<forall>c dst. op_kind (instr c) 0 = REGISTER \<and> op_register (instr c) 0 = dst \<and> is_vector_register dst \<and>
          (enc = Two_Operand \<longrightarrow> vector_width dst = 16) \<longrightarrow>
        (case rearrange_sources enc unary c of
           (None, c1) \<Rightarrow> h c = (memory_fault c1 (memory_address c1), c1)
         | (Some (lhs, rhs), c1) \<Rightarrow>
             \<exists>u. h c = (no_stop, c1\<lparr>state := (state c)\<lparr>vectors := (vectors (state c))[vector_index dst := u]\<rparr>\<rparr>) \<and>
                 vector_result enc c n (rearranged rr n (immediate8 (instr c)) lhs rhs) u))"

lemma read_vec_operand_plain_frame:
  "read_vec_operand_plain c k w = (r, c1) \<Longrightarrow> state c1 = state c \<and> instr c1 = instr c"
  by (auto simp: read_vec_operand_plain_def read_vec_mem_def Let_def split: if_splits prod.splits option.splits)

definition rearranges :: "bool \<Rightarrow> ('w ctx \<Rightarrow> register \<Rightarrow> simd \<Rightarrow> simd \<Rightarrow> simd) \<Rightarrow> rearrange \<Rightarrow> nat \<Rightarrow> bool" where
  "rearranges xmm G rr n \<longleftrightarrow>
     (\<forall>c dst a b j. (xmm \<longrightarrow> vector_width dst = 16) \<longrightarrow> j < 8 * vector_width dst div n \<longrightarrow>
        vlane n (G c dst a b) j = rearranged rr n (immediate8 (instr c)) a b j)"

lemma computes_rearrangement_two:
  assumes "rearranges True G rr n" "\<And>dst. vector_width dst = 16 \<Longrightarrow> W dst = 16"
  shows "computes_rearrangement (\<lambda>c :: 'w ctx. with_vector_dst (\<lambda>dst_reg c1.
     with_plain_operand 1 (W dst_reg) (\<lambda>rhs. put_vec dst_reg (G c dst_reg (read_vec (state c1) dst_reg) rhs) False) c1) c) Two_Operand False rr n"
    (is "computes_rearrangement ?h Two_Operand False rr n")
  unfolding computes_rearrangement_def
proof (intro allI impI)
  fix c :: "'w ctx" and dst
  assume a: "op_kind (instr c) 0 = REGISTER \<and> op_register (instr c) 0 = dst \<and> is_vector_register dst \<and>
    (Two_Operand = Two_Operand \<longrightarrow> vector_width dst = 16)"
  obtain r c1 where r: "read_vec_operand_plain c 1 16 = (r, c1)" by fastforce
  show "case rearrange_sources Two_Operand False c of
           (None, c1) \<Rightarrow> ?h c = (memory_fault c1 (memory_address c1), c1)
         | (Some (lhs, rhs), c1) \<Rightarrow>
             \<exists>u. ?h c = (no_stop, c1\<lparr>state := (state c)\<lparr>vectors := (vectors (state c))[vector_index dst := u]\<rparr>\<rparr>) \<and>
                 vector_result Two_Operand c n (rearranged rr n (immediate8 (instr c)) lhs rhs) u"
  proof (cases r)
    case None
    then show ?thesis
      using a assms(2) by (simp add: rearrange_sources_def with_vector_dst_def with_plain_operand_def r Let_def del: One_nat_def)
  next
    case (Some rhs)
    then show ?thesis
      using a assms put_vec_result [of c dst Two_Operand False n "G c dst (read_vec (state c) dst) rhs"
          "rearranged rr n (immediate8 (instr c)) (read_vec (state c) dst) rhs" c1] read_vec_operand_plain_frame [OF r]
      by (simp add: rearrange_sources_def with_vector_dst_def with_plain_operand_def r masked_off_def rearranges_def Let_def del: One_nat_def)
  qed
qed

lemma computes_rearrangement_three:
  assumes "rearranges False G rr n"
  shows "computes_rearrangement (\<lambda>c :: 'w ctx. with_vector_dst (\<lambda>dst_reg.
     with_plain_operand 1 (vector_width dst_reg) (\<lambda>lhs. with_plain_operand 2 (vector_width dst_reg) (\<lambda>rhs.
       put_vec dst_reg (G c dst_reg lhs rhs) True))) c) Three_Operand_Unmasked False rr n"
    (is "computes_rearrangement ?h ?e False rr n")
  unfolding computes_rearrangement_def
proof (intro allI impI)
  fix c :: "'w ctx" and dst
  assume a: "op_kind (instr c) 0 = REGISTER \<and> op_register (instr c) 0 = dst \<and> is_vector_register dst \<and> (?e = Two_Operand \<longrightarrow> vector_width dst = 16)"
  obtain r1 c1 where r1: "read_vec_operand_plain c 1 (vector_width dst) = (r1, c1)" by fastforce
  obtain r2 c2 where r2: "read_vec_operand_plain c1 2 (vector_width dst) = (r2, c2)" by fastforce
  have f: "state c2 = state c" using read_vec_operand_plain_frame [OF r1] read_vec_operand_plain_frame [OF r2] by simp
  show "case rearrange_sources ?e False c of
           (None, c1) \<Rightarrow> ?h c = (memory_fault c1 (memory_address c1), c1)
         | (Some (lhs, rhs), c1) \<Rightarrow>
             \<exists>u. ?h c = (no_stop, c1\<lparr>state := (state c)\<lparr>vectors := (vectors (state c))[vector_index dst := u]\<rparr>\<rparr>) \<and>
                 vector_result ?e c n (rearranged rr n (immediate8 (instr c)) lhs rhs) u"
  proof (cases "r1 = None \<or> r2 = None")
    case True
    then show ?thesis
      using a by (auto simp: rearrange_sources_def with_vector_dst_def with_plain_operand_def r1 r2 Let_def simp del: One_nat_def split: option.split)
  next
    case False
    then obtain lhs rhs where "r1 = Some lhs" "r2 = Some rhs" by auto
    then show ?thesis
      using a assms put_vec_result [of c dst ?e True n "G c dst lhs rhs" "rearranged rr n (immediate8 (instr c)) lhs rhs" c2] f
      by (simp add: rearrange_sources_def with_vector_dst_def with_plain_operand_def r1 r2 masked_off_def rearranges_def Let_def del: One_nat_def)
  qed
qed

lemma computes_rearrangement_one:
  assumes "rearranges False (\<lambda>c dst a b. G c dst a) rr n" "enc = Two_Operand \<longleftrightarrow> \<not> zu" "enc \<noteq> Three_Operand"
  shows "computes_rearrangement (\<lambda>c :: 'w ctx. with_vector_dst (\<lambda>dst_reg.
     with_plain_operand 1 (vector_width dst_reg) (\<lambda>src. put_vec dst_reg (G c dst_reg src) zu)) c) enc True rr n"
    (is "computes_rearrangement ?h enc True rr n")
  unfolding computes_rearrangement_def
proof (intro allI impI)
  fix c :: "'w ctx" and dst
  assume a: "op_kind (instr c) 0 = REGISTER \<and> op_register (instr c) 0 = dst \<and> is_vector_register dst \<and> (enc = Two_Operand \<longrightarrow> vector_width dst = 16)"
  obtain r c1 where r: "read_vec_operand_plain c 1 (vector_width dst) = (r, c1)" by fastforce
  show "case rearrange_sources enc True c of
           (None, c1) \<Rightarrow> ?h c = (memory_fault c1 (memory_address c1), c1)
         | (Some (lhs, rhs), c1) \<Rightarrow>
             \<exists>u. ?h c = (no_stop, c1\<lparr>state := (state c)\<lparr>vectors := (vectors (state c))[vector_index dst := u]\<rparr>\<rparr>) \<and>
                 vector_result enc c n (rearranged rr n (immediate8 (instr c)) lhs rhs) u"
  proof (cases r)
    case None
    then show ?thesis
      using a by (simp add: rearrange_sources_def with_vector_dst_def with_plain_operand_def r Let_def del: One_nat_def)
  next
    case (Some src)
    then show ?thesis
      using a assms put_vec_result [of c dst enc zu n "G c dst src" "rearranged rr n (immediate8 (instr c)) src src" c1]
        read_vec_operand_plain_frame [OF r]
      by (simp add: rearrange_sources_def with_vector_dst_def with_plain_operand_def r masked_off_def rearranges_def Let_def del: One_nat_def)
  qed
qed

fun pick_from :: "'a list \<Rightarrow> 'a list \<Rightarrow> pick \<Rightarrow> 'a" where
  "pick_from a b (Lhs i) = a ! i"
| "pick_from a b (Rhs i) = b ! i"

fun pick_index :: "pick \<Rightarrow> nat" where
  "pick_index (Lhs i) = i"
| "pick_index (Rhs i) = i"

definition picks :: "('w ctx \<Rightarrow> 'a word list \<Rightarrow> 'a word list \<Rightarrow> 'a::len word list) \<Rightarrow> (u8 \<Rightarrow> pick list) \<Rightarrow> bool" where
  "picks f sel \<longleftrightarrow>
     (\<forall>c a b. f c a b = map (pick_from a b) (sel (immediate8 (instr c)))) \<and>
     (\<forall>imm. length (sel imm) = 128 div LENGTH('a) \<and> (\<forall>p \<in> set (sel imm). pick_index p < 128 div LENGTH('a)))"

lemma rearranges_select:
  fixes f :: "'w ctx \<Rightarrow> 'a word list \<Rightarrow> 'a word list \<Rightarrow> 'a::len word list"
  assumes "picks f sel" "lane_size TYPE('a)" "128 div LENGTH('a) = m"
  shows "rearranges xmm (\<lambda>c dst a b. fold (\<lambda>lane. store_elements lane (f c (load_elements m a lane) (load_elements m b lane)))
    (lanes (vector_width dst) 16) (out a b)) (Select sel) LENGTH('a)"
  unfolding rearranges_def
proof (intro allI impI)
  fix c :: "'w ctx" and dst and a b :: simd and j
  assume j: "j < 8 * vector_width dst div LENGTH('a)"
  let ?sel = "sel (immediate8 (instr c))"
  have len: "length (f c x y) = 128 div LENGTH('a)" for x y using assms(1) by (simp add: picks_def)
  have "0 < m" using block_count [OF assms(2)] assms(3) by metis
  then have i: "j mod m < m" by simp
  then have l: "j mod m < length ?sel" using assms(1,3) by (auto simp: picks_def)
  have "\<forall>p \<in> set ?sel. pick_index p < m" using assms(1,3) by (simp add: picks_def)
  then have s: "pick_index (?sel ! (j mod m)) < m" "j mod m < length ?sel" using nth_mem [OF l] l by blast+
  have "vlane LENGTH('a) (fold (\<lambda>lane. store_elements lane (f c (load_elements m a lane) (load_elements m b lane)))
      (lanes (vector_width dst) 16) (out a b)) j =
    uint (pick_from (load_elements m a (j div m * 16)) (load_elements m b (j div m * 16)) (?sel ! (j mod m)) :: 'a word)"
    using vlane_blocks [OF assms(2) _ j, where es="\<lambda>lane. f c (load_elements m a lane) (load_elements m b lane)" and out="out a b"]
      len assms(1,3) s(2) by (simp add: picks_def)
  also have "\<dots> = rearranged (Select sel) LENGTH('a) (immediate8 (instr c)) a b j"
    using s(1) by (cases "?sel ! (j mod m)") (simp_all add: load_elements_vlane [OF assms(2,3)] assms(3) Let_def)
  finally show "vlane LENGTH('a) (fold (\<lambda>lane. store_elements lane (f c (load_elements m a lane) (load_elements m b lane)))
    (lanes (vector_width dst) 16) (out a b)) j = rearranged (Select sel) LENGTH('a) (immediate8 (instr c)) a b j" .
qed

lemma rearranges_or:
  assumes "lane_size TYPE('a::len)" "\<And>a b lane. drop_bit 128 (G a b lane) = 0"
    "\<And>a b q i imm. i < 128 div LENGTH('a) \<Longrightarrow>
       vlane LENGTH('a) (G a b (q * 16)) i = rearranged rr LENGTH('a) imm a b (q * (128 div LENGTH('a)) + i)"
  shows "rearranges False (\<lambda>(c :: 'd ctx) dst a b. fold (\<lambda>lane out. out OR push_bit (lane * 8) (G a b lane)) (lanes (vector_width dst) 16) 0) rr LENGTH('a)"
    "rearranges True (\<lambda>(c :: 'd ctx) dst a b. 0 OR G a b 0) rr LENGTH('a)"
proof -
  have m: "0 < 128 div LENGTH('a)" using block_count [OF assms(1)] by metis
  show v: "rearranges False (\<lambda>(c :: 'd ctx) dst a b. fold (\<lambda>lane out. out OR push_bit (lane * 8) (G a b lane)) (lanes (vector_width dst) 16) 0) rr LENGTH('a)"
    unfolding rearranges_def
  proof (intro allI impI)
    fix c :: "'d ctx" and dst a b j
    assume "j < 8 * vector_width dst div LENGTH('a)"
    then show "vlane LENGTH('a) (fold (\<lambda>lane out. out OR push_bit (lane * 8) (G a b lane)) (lanes (vector_width dst) 16) 0) j =
      rearranged rr LENGTH('a) (immediate8 (instr c)) a b j"
      using vlane_or_blocks [OF assms(1), of "G a b" j dst] assms(2) m
        assms(3) [of "j mod (128 div LENGTH('a))" a b "j div (128 div LENGTH('a))" "immediate8 (instr c)", unfolded div_mult_mod_eq] by simp
  qed
  have "lanes 16 16 = [0]" using lanes_multiple [of 16 1] by simp
  then show "rearranges True (\<lambda>(c :: 'd ctx) dst a b. 0 OR G a b 0) rr LENGTH('a)"
    using v unfolding rearranges_def by (metis (no_types, lifting) fold_simps(1) fold_simps(2) mult_zero_left push_bit_0_id id_apply)
qed

lemma rearranges_interleave:
  assumes "lane_size TYPE('a::len)" "128 div LENGTH('a) = 2 * n"
  shows "rearranges False (\<lambda>c dst a b. fold (\<lambda>lane out. out OR push_bit (lane * 8) (unpack_elements TYPE('a) n (half * 8) a b lane)) (lanes (vector_width dst) 16) 0)
      (Interleave half) LENGTH('a)"
    "rearranges True (\<lambda>c dst a b. 0 OR unpack_elements TYPE('a) n (half * 8) a b 0) (Interleave half) LENGTH('a)"
proof -
  have d: "8 dvd LENGTH('a)" using assms(1) by (simp add: lane_size_def)
  have s: "2 * n * sizeof TYPE('a) = 16" using block_count [OF assms(1)] assms(2) by metis
  note block = vlane_store_block [OF assms]
  have z: "drop_bit 128 (unpack_elements TYPE('a) n (half * 8) a b lane) = 0" for a b lane
    unfolding unpack_elements_lanes by (rule block(2))
  have e: "q * 16 + half * 8 + i div 2 * sizeof TYPE('a) = (q * (2 * n) + half * n + i div 2) * sizeof TYPE('a)" for q i
  proof -
    have "q * 16 = q * (2 * n) * sizeof TYPE('a)" unfolding s [symmetric] by simp
    moreover have "half * 8 = half * n * sizeof TYPE('a)" using s by simp
    ultimately show ?thesis by (simp only: add_mult_distrib)
  qed
  have v: "vlane LENGTH('a) (unpack_elements TYPE('a) n (half * 8) a b (q * 16)) i =
      rearranged (Interleave half) LENGTH('a) imm a b (q * (128 div LENGTH('a)) + i)" if "i < 128 div LENGTH('a)" for a b q i imm
  proof -
    have i: "i < 2 * n" using that assms(2) by simp
    show ?thesis
      unfolding unpack_elements_lanes block(1) [OF i] using i by (simp add: e vlane_load [OF d, symmetric] assms(2))
  qed
  show "rearranges False (\<lambda>c dst a b. fold (\<lambda>lane out. out OR push_bit (lane * 8) (unpack_elements TYPE('a) n (half * 8) a b lane)) (lanes (vector_width dst) 16) 0)
      (Interleave half) LENGTH('a)"
    by (rule rearranges_or(1) [OF assms(1) z v])
  show "rearranges True (\<lambda>c dst a b. 0 OR unpack_elements TYPE('a) n (half * 8) a b 0) (Interleave half) LENGTH('a)"
    by (rule rearranges_or(2) [OF assms(1) z v])
qed


lemma sat_pack_clamp:
  "sat_pack_signed x = (word_of_int (clamp (smin TYPE('a)) (smax TYPE('a)) x) :: 'a::len word)"
  "sat_pack_unsigned x = (word_of_int (clamp 0 (2 ^ LENGTH('a) - 1) x) :: 'a::len word)"
proof -
  have "smin TYPE('a) \<le> smax TYPE('a)" by (simp add: smin_def smax_def)
  then show "sat_pack_signed x = (word_of_int (clamp (smin TYPE('a)) (smax TYPE('a)) x) :: 'a::len word)"
    by (auto simp: sat_pack_signed_def clamp_def max_def min_def)
  have "(word_of_int (2 ^ LENGTH('a) - 1) :: 'a word) = - 1"
    unfolding uint_all_ones [symmetric] by simp
  then show "sat_pack_unsigned x = (word_of_int (clamp 0 (2 ^ LENGTH('a) - 1) x) :: 'a::len word)"
    by (auto simp: sat_pack_unsigned_def clamp_def max_def min_def) (use zero_less_power [of "2 :: int" "LENGTH('a)"] in linarith)
qed

lemma rearranges_pack:
  fixes f :: "'s::len word list \<Rightarrow> 's word list \<Rightarrow> 'd::len word list"
  assumes "lane_size TYPE('s)" "lane_size TYPE('d)" "LENGTH('s) = 2 * LENGTH('d)"
    "\<And>a b. f a b = map g (a @ b)"
    "\<And>x imm v j. uint (g x) = pk (sint x)"
    "\<And>imm a b j. rearranged rr LENGTH('d) imm a b j = (let m = 128 div LENGTH('d); k = m div 2
       in pk (lane_signed LENGTH('s) (vlane LENGTH('s) (if j mod m < k then a else b) (j div m * k + j mod m mod k))))"
  shows "rearranges False (\<lambda>(c :: 'w ctx) dst a b. fold (\<lambda>lane out. out OR push_bit (lane * 8) (pack_lane_pair f a b lane)) (lanes (vector_width dst) 16) 0) rr LENGTH('d)"
    "rearranges True (\<lambda>(c :: 'w ctx) dst a b. 0 OR pack_lane_pair f a b 0) rr LENGTH('d)"
proof -
  obtain k where k: "128 div LENGTH('s) = k" "k * sizeof TYPE('s) = 16" "k * LENGTH('s) = 128" "0 < k" "0 < sizeof TYPE('s)"
    by (rule block_count [OF assms(1)])
  obtain m where m: "128 div LENGTH('d) = m" "m * sizeof TYPE('d) = 16" "m * LENGTH('d) = 128" "0 < m" "0 < sizeof TYPE('d)"
    by (rule block_count [OF assms(2)])
  have "m * LENGTH('d) = 2 * k * LENGTH('d)" using k(3) m(3) assms(3) by simp
  then have mk: "m = 2 * k" by simp
  have n: "16 div sizeof TYPE('s) = k" "16 div sizeof TYPE('d) = m"
    using k(2,5) m(2,5) by (metis nonzero_mult_div_cancel_right less_numeral_extra(3))+
  note block = vlane_store_block [OF assms(2) m(1)]
  have z: "drop_bit 128 (pack_lane_pair f a b lane) = 0" for a b lane
    unfolding pack_lane_pair_def Let_def n by (rule block(2))
  have v: "vlane LENGTH('d) (pack_lane_pair f a b (q * 16)) i = rearranged rr LENGTH('d) imm a b (q * (128 div LENGTH('d)) + i)"
    if "i < 128 div LENGTH('d)" for a b q i imm
  proof -
    have i: "i < m" using that m(1) by simp
    have len: "length (load_elements k v lane) = k" for v lane by (simp add: load_elements_def)
    have "vlane LENGTH('d) (pack_lane_pair f a b (q * 16)) i =
      pk (sint ((if i < k then load_elements k a (q * 16) else load_elements k b (q * 16) :: 's word list) ! (i mod k)))"
      unfolding pack_lane_pair_def Let_def n block(1) [OF i] using i k(4) mk
      by (simp add: assms(4,5) nth_append len le_mod_geq)
    also have "\<dots> = pk (lane_signed LENGTH('s) (vlane LENGTH('s) (if i < k then a else b) (q * k + i mod k)))"
      using k(4) by (simp add: load_elements_vlane [OF assms(1) k(1)] lane_signed_uint [symmetric])
    finally show ?thesis using i mk by (simp add: assms(6) m(1) Let_def)
  qed
  show "rearranges False (\<lambda>(c :: 'w ctx) dst a b. fold (\<lambda>lane out. out OR push_bit (lane * 8) (pack_lane_pair f a b lane)) (lanes (vector_width dst) 16) 0) rr LENGTH('d)"
    by (rule rearranges_or(1) [OF assms(2) z v])
  show "rearranges True (\<lambda>(c :: 'w ctx) dst a b. 0 OR pack_lane_pair f a b 0) rr LENGTH('d)"
    by (rule rearranges_or(2) [OF assms(2) z v])
qed


lemma lane_doubles: "LENGTH(16) = 2 * LENGTH(8)" "LENGTH(32) = 2 * LENGTH(16)"
  by simp_all

lemma rearranges_packs:
  assumes "lane_size TYPE('s::len)" "lane_size TYPE('d::len)" "LENGTH('s) = 2 * LENGTH('d)"
  shows "rearranges False (\<lambda>(c :: 'w ctx) dst a b. fold (\<lambda>lane out. out OR push_bit (lane * 8)
      (pack_lane_pair (pack_signed :: 's word list \<Rightarrow> _ \<Rightarrow> 'd word list) a b lane)) (lanes (vector_width dst) 16) 0) Pack_Signed LENGTH('d)"
    "rearranges True (\<lambda>(c :: 'w ctx) dst a b. 0 OR pack_lane_pair (pack_signed :: 's word list \<Rightarrow> _ \<Rightarrow> 'd word list) a b 0) Pack_Signed LENGTH('d)"
    "rearranges False (\<lambda>(c :: 'w ctx) dst a b. fold (\<lambda>lane out. out OR push_bit (lane * 8)
      (pack_lane_pair (pack_unsigned :: 's word list \<Rightarrow> _ \<Rightarrow> 'd word list) a b lane)) (lanes (vector_width dst) 16) 0) Pack_Unsigned LENGTH('d)"
    "rearranges True (\<lambda>(c :: 'w ctx) dst a b. 0 OR pack_lane_pair (pack_unsigned :: 's word list \<Rightarrow> _ \<Rightarrow> 'd word list) a b 0) Pack_Unsigned LENGTH('d)"
proof -
  have lo: "(0 :: int) \<le> clamp 0 (2 ^ LENGTH('d) - 1) x \<and> clamp 0 (2 ^ LENGTH('d) - 1) x < 2 ^ LENGTH('d)" for x
    using zero_less_power [of "2 :: int" "LENGTH('d)"] unfolding clamp_def by linarith
  have s: "uint (sat_pack_signed (sint x) :: 'd word) = clamp (- (2 ^ (LENGTH('d) - 1))) (2 ^ (LENGTH('d) - 1) - 1) (sint x) mod 2 ^ LENGTH('d)" for x :: "'s word"
    unfolding sat_pack_clamp uint_word_of_int smin_def smax_def ..
  have u: "uint (sat_pack_unsigned (sint x) :: 'd word) = clamp 0 (2 ^ LENGTH('d) - 1) (sint x)" for x :: "'s word"
    unfolding sat_pack_clamp uint_word_of_int using lo by (intro mod_pos_pos_trivial) auto
  show "rearranges False (\<lambda>(c :: 'w ctx) dst a b. fold (\<lambda>lane out. out OR push_bit (lane * 8)
      (pack_lane_pair (pack_signed :: 's word list \<Rightarrow> _ \<Rightarrow> 'd word list) a b lane)) (lanes (vector_width dst) 16) 0) Pack_Signed LENGTH('d)"
    by (rule rearranges_pack(1) [OF assms pack_signed_def s]) (simp add: assms(3) Let_def)
  show "rearranges True (\<lambda>(c :: 'w ctx) dst a b. 0 OR pack_lane_pair (pack_signed :: 's word list \<Rightarrow> _ \<Rightarrow> 'd word list) a b 0) Pack_Signed LENGTH('d)"
    by (rule rearranges_pack(2) [OF assms pack_signed_def s]) (simp add: assms(3) Let_def)
  show "rearranges False (\<lambda>(c :: 'w ctx) dst a b. fold (\<lambda>lane out. out OR push_bit (lane * 8)
      (pack_lane_pair (pack_unsigned :: 's word list \<Rightarrow> _ \<Rightarrow> 'd word list) a b lane)) (lanes (vector_width dst) 16) 0) Pack_Unsigned LENGTH('d)"
    by (rule rearranges_pack(1) [OF assms pack_unsigned_def u]) (simp add: assms(3) Let_def)
  show "rearranges True (\<lambda>(c :: 'w ctx) dst a b. 0 OR pack_lane_pair (pack_unsigned :: 's word list \<Rightarrow> _ \<Rightarrow> 'd word list) a b 0) Pack_Unsigned LENGTH('d)"
    by (rule rearranges_pack(2) [OF assms pack_unsigned_def u]) (simp add: assms(3) Let_def)
qed

lemma computes_select:
  fixes f :: "'w ctx \<Rightarrow> 'a word list \<Rightarrow> 'a word list \<Rightarrow> 'a::len word list"
  assumes "picks f sel" "lane_size TYPE('a)" "128 div LENGTH('a) = m"
  shows "computes_rearrangement (\<lambda>c. legacy_binary_lanewise m 16 (f c) False c) Two_Operand False (Select sel) LENGTH('a)"
    "computes_rearrangement (\<lambda>c. vex_binary_lanewise m 16 (f c) True c) Three_Operand_Unmasked False (Select sel) LENGTH('a)"
  unfolding legacy_binary_lanewise_def vex_binary_lanewise_def Let_def
  by (rule computes_rearrangement_two computes_rearrangement_three, rule rearranges_select [OF assms], assumption?)+

lemma computes_select_unary:
  fixes f :: "'w ctx \<Rightarrow> 'a word list \<Rightarrow> 'a::len word list"
  assumes "picks (\<lambda>c a b. f c a) sel" "lane_size TYPE('a)" "128 div LENGTH('a) = m"
  shows "computes_rearrangement (\<lambda>c. unary_lanewise m 16 (f c) False c) Two_Operand True (Select sel) LENGTH('a)"
    "computes_rearrangement (\<lambda>c. unary_lanewise m 16 (f c) True c) Three_Operand_Unmasked True (Select sel) LENGTH('a)"
  unfolding unary_lanewise_def Let_def
  by (rule computes_rearrangement_one, rule rearranges_select [OF assms, of False "\<lambda>_ _. 0"], simp, simp)+

lemma computes_interleave:
  assumes "lane_size TYPE('a::len)" "128 div LENGTH('a) = 2 * n"
  shows "computes_rearrangement (legacy_unpack (unpack_elements TYPE('a) n (half * 8))) Two_Operand False (Interleave half) LENGTH('a)"
    "computes_rearrangement (vex_unpack (unpack_elements TYPE('a) n (half * 8))) Three_Operand_Unmasked False (Interleave half) LENGTH('a)"
  unfolding legacy_unpack_def vex_unpack_def Let_def
  using computes_rearrangement_two [OF rearranges_interleave(2) [OF assms], of "\<lambda>_. 16"]
    computes_rearrangement_three [OF rearranges_interleave(1) [OF assms]] by simp_all

lemma computes_pack:
  assumes "lane_size TYPE('s::len)" "lane_size TYPE('d::len)" "LENGTH('s) = 2 * LENGTH('d)"
  shows "computes_rearrangement (legacy_pack (pack_signed :: 's word list \<Rightarrow> _ \<Rightarrow> 'd word list)) Two_Operand False Pack_Signed LENGTH('d)"
    "computes_rearrangement (vex_pack (pack_signed :: 's word list \<Rightarrow> _ \<Rightarrow> 'd word list)) Three_Operand_Unmasked False Pack_Signed LENGTH('d)"
    "computes_rearrangement (legacy_pack (pack_unsigned :: 's word list \<Rightarrow> _ \<Rightarrow> 'd word list)) Two_Operand False Pack_Unsigned LENGTH('d)"
    "computes_rearrangement (vex_pack (pack_unsigned :: 's word list \<Rightarrow> _ \<Rightarrow> 'd word list)) Three_Operand_Unmasked False Pack_Unsigned LENGTH('d)"
  unfolding legacy_pack_def vex_pack_def Let_def
  using computes_rearrangement_two [OF rearranges_packs(2) [OF assms], of "\<lambda>_. 16"]
    computes_rearrangement_three [OF rearranges_packs(1) [OF assms]]
    computes_rearrangement_two [OF rearranges_packs(4) [OF assms], of "\<lambda>_. 16"]
    computes_rearrangement_three [OF rearranges_packs(3) [OF assms]] by simp_all

section \<open>The instructions\<close>

text \<open>The selections, named after an instruction of the legacy encoding.\<close>

definition sel_unpcklps :: "u8 \<Rightarrow> pick list" where
  "sel_unpcklps imm = [Lhs 0, Rhs 0, Lhs 1, Rhs 1]"

definition sel_unpcklpd :: "u8 \<Rightarrow> pick list" where
  "sel_unpcklpd imm = [Lhs 0, Rhs 0]"

definition sel_unpckhps :: "u8 \<Rightarrow> pick list" where
  "sel_unpckhps imm = [Lhs 2, Rhs 2, Lhs 3, Rhs 3]"

definition sel_unpckhpd :: "u8 \<Rightarrow> pick list" where
  "sel_unpckhpd imm = [Lhs 1, Rhs 1]"

definition sel_shufps :: "u8 \<Rightarrow> pick list" where
  "sel_shufps imm = [Lhs (unat (drop_bit 0 imm AND 3)), Lhs (unat (drop_bit 2 imm AND 3)), Rhs (unat (drop_bit 4 imm AND 3)), Rhs (unat (drop_bit 6 imm AND 3))]"

definition sel_shufpd :: "u8 \<Rightarrow> pick list" where
  "sel_shufpd imm = [Lhs (unat (drop_bit 0 imm AND 1)), Rhs (unat (drop_bit 1 imm AND 1))]"

definition sel_pshufd :: "u8 \<Rightarrow> pick list" where
  "sel_pshufd imm = [Lhs (unat (drop_bit 0 imm AND 3)), Lhs (unat (drop_bit 2 imm AND 3)), Lhs (unat (drop_bit 4 imm AND 3)), Lhs (unat (drop_bit 6 imm AND 3))]"

definition sel_pshuflw :: "u8 \<Rightarrow> pick list" where
  "sel_pshuflw imm = [Lhs (unat (drop_bit 0 imm AND 3)), Lhs (unat (drop_bit 2 imm AND 3)), Lhs (unat (drop_bit 4 imm AND 3)), Lhs (unat (drop_bit 6 imm AND 3)), Lhs 4, Lhs 5, Lhs 6, Lhs 7]"

definition sel_pshufhw :: "u8 \<Rightarrow> pick list" where
  "sel_pshufhw imm = [Lhs 0, Lhs 1, Lhs 2, Lhs 3, Lhs (4 + unat (drop_bit 0 imm AND 3)), Lhs (4 + unat (drop_bit 2 imm AND 3)), Lhs (4 + unat (drop_bit 4 imm AND 3)), Lhs (4 + unat (drop_bit 6 imm AND 3))]"

definition sel_movsldup :: "u8 \<Rightarrow> pick list" where
  "sel_movsldup imm = [Lhs 0, Lhs 0, Lhs 2, Lhs 2]"

definition sel_movshdup :: "u8 \<Rightarrow> pick list" where
  "sel_movshdup imm = [Lhs 1, Lhs 1, Lhs 3, Lhs 3]"

definition sel_movddup :: "u8 \<Rightarrow> pick list" where
  "sel_movddup imm = [Lhs 0, Lhs 0]"

lemma field_bounds: "unat (x AND 3 :: u8) < 4" "unat (x AND 3 :: u8) < 8" "unat (x AND 1 :: u8) < 2"
  using word_and_le1 [of x 3] word_and_le2 [of x 3] word_and_le1 [of x 1] word_and_le2 [of x 1] by (simp_all add: word_le_nat_alt)

lemma lane_lengths: "LENGTH(8) = 8" "LENGTH(16) = 16" "LENGTH(32) = 32" "LENGTH(64) = 64"
  by simp_all

lemma block_sizes: "128 div LENGTH(8) = 16" "128 div LENGTH(16) = 8" "128 div LENGTH(32) = 4" "128 div LENGTH(64) = 2"
  by simp_all

lemma half_block_sizes: "128 div LENGTH(8) = 2 * 8" "128 div LENGTH(16) = 2 * 4" "128 div LENGTH(32) = 2 * 2" "128 div LENGTH(64) = 2 * 1"
  by simp_all

lemma selections:
  "picks (\<lambda>c (lhs :: u32 list) rhs. [lhs ! 0, rhs ! 0, lhs ! 1, rhs ! 1]) sel_unpcklps"
  "picks (\<lambda>c (lhs :: u64 list) rhs. [lhs ! 0, rhs ! 0]) sel_unpcklpd"
  "picks (\<lambda>c (lhs :: u32 list) rhs. [lhs ! 2, rhs ! 2, lhs ! 3, rhs ! 3]) sel_unpckhps"
  "picks (\<lambda>c (lhs :: u64 list) rhs. [lhs ! 1, rhs ! 1]) sel_unpckhpd"
  "picks (\<lambda>c (lhs :: u32 list) rhs. [lhs ! imm_field c 0 3, lhs ! imm_field c 2 3, rhs ! imm_field c 4 3, rhs ! imm_field c 6 3]) sel_shufps"
  "picks (\<lambda>c (lhs :: u64 list) rhs. [lhs ! imm_field c 0 1, rhs ! imm_field c 1 1]) sel_shufpd"
  "picks (\<lambda>c (src :: u32 list) _. [src ! imm_field c 0 3, src ! imm_field c 2 3, src ! imm_field c 4 3, src ! imm_field c 6 3]) sel_pshufd"
  "picks (\<lambda>c (src :: u16 list) _. [src ! imm_field c 0 3, src ! imm_field c 2 3, src ! imm_field c 4 3, src ! imm_field c 6 3, src ! 4, src ! 5, src ! 6, src ! 7]) sel_pshuflw"
  "picks (\<lambda>c (src :: u16 list) _. [src ! 0, src ! 1, src ! 2, src ! 3, src ! (4 + imm_field c 0 3), src ! (4 + imm_field c 2 3), src ! (4 + imm_field c 4 3), src ! (4 + imm_field c 6 3)]) sel_pshufhw"
  "picks (\<lambda>c (src :: u32 list) _. [src ! 0, src ! 0, src ! 2, src ! 2]) sel_movsldup"
  "picks (\<lambda>c (src :: u32 list) _. [src ! 1, src ! 1, src ! 3, src ! 3]) sel_movshdup"
  "picks (\<lambda>c (src :: u64 list) _. [src ! 0, src ! 0]) sel_movddup"
  by (simp_all add: picks_def imm_field_def field_bounds sel_unpcklps_def sel_unpcklpd_def sel_unpckhps_def sel_unpckhpd_def sel_shufps_def sel_shufpd_def sel_pshufd_def sel_pshuflw_def sel_pshufhw_def sel_movsldup_def sel_movshdup_def sel_movddup_def)

definition rearrange_catalog :: "('w handler \<times> encoding \<times> bool \<times> rearrange \<times> nat) list" where
  "rearrange_catalog =
    [(handle_code_UNPCKLPS_XMM_XMMM128, Two_Operand, False, Select sel_unpcklps, 32),
     (handle_code_UNPCKLPD_XMM_XMMM128, Two_Operand, False, Select sel_unpcklpd, 64),
     (handle_code_UNPCKHPS_XMM_XMMM128, Two_Operand, False, Select sel_unpckhps, 32),
     (handle_code_UNPCKHPD_XMM_XMMM128, Two_Operand, False, Select sel_unpckhpd, 64),
     (handle_code_SHUFPS_XMM_XMMM128_IMM8, Two_Operand, False, Select sel_shufps, 32),
     (handle_code_SHUFPD_XMM_XMMM128_IMM8, Two_Operand, False, Select sel_shufpd, 64),
     (handle_code_PSHUFD_XMM_XMMM128_IMM8, Two_Operand, True, Select sel_pshufd, 32),
     (handle_code_PSHUFLW_XMM_XMMM128_IMM8, Two_Operand, True, Select sel_pshuflw, 16),
     (handle_code_PSHUFHW_XMM_XMMM128_IMM8, Two_Operand, True, Select sel_pshufhw, 16),
     (handle_code_MOVSLDUP_XMM_XMMM128, Two_Operand, True, Select sel_movsldup, 32),
     (handle_code_MOVSHDUP_XMM_XMMM128, Two_Operand, True, Select sel_movshdup, 32),
     (handle_code_VEX_VUNPCKLPS_XMM_XMM_XMMM128, Three_Operand_Unmasked, False, Select sel_unpcklps, 32),
     (handle_code_VEX_VUNPCKLPD_XMM_XMM_XMMM128, Three_Operand_Unmasked, False, Select sel_unpcklpd, 64),
     (handle_code_VEX_VUNPCKHPS_XMM_XMM_XMMM128, Three_Operand_Unmasked, False, Select sel_unpckhps, 32),
     (handle_code_VEX_VUNPCKHPD_XMM_XMM_XMMM128, Three_Operand_Unmasked, False, Select sel_unpckhpd, 64),
     (handle_code_VEX_VSHUFPS_XMM_XMM_XMMM128, Three_Operand_Unmasked, False, Select sel_shufps, 32),
     (handle_code_VEX_VSHUFPD_XMM_XMM_XMMM128, Three_Operand_Unmasked, False, Select sel_shufpd, 64),
     (handle_code_VEX_VMOVSLDUP_XMM_XMMM128, Three_Operand_Unmasked, True, Select sel_movsldup, 32),
     (handle_code_VEX_VMOVSHDUP_XMM_XMMM128, Three_Operand_Unmasked, True, Select sel_movshdup, 32),
     (handle_code_VEX_VUNPCKLPS_YMM_YMM_YMMM256, Three_Operand_Unmasked, False, Select sel_unpcklps, 32),
     (handle_code_VEX_VUNPCKLPD_YMM_YMM_YMMM256, Three_Operand_Unmasked, False, Select sel_unpcklpd, 64),
     (handle_code_VEX_VUNPCKHPS_YMM_YMM_YMMM256, Three_Operand_Unmasked, False, Select sel_unpckhps, 32),
     (handle_code_VEX_VUNPCKHPD_YMM_YMM_YMMM256, Three_Operand_Unmasked, False, Select sel_unpckhpd, 64),
     (handle_code_VEX_VSHUFPS_YMM_YMM_YMMM256, Three_Operand_Unmasked, False, Select sel_shufps, 32),
     (handle_code_VEX_VSHUFPD_YMM_YMM_YMMM256, Three_Operand_Unmasked, False, Select sel_shufpd, 64),
     (handle_code_VEX_VMOVSLDUP_YMM_YMMM256, Three_Operand_Unmasked, True, Select sel_movsldup, 32),
     (handle_code_VEX_VMOVSHDUP_YMM_YMMM256, Three_Operand_Unmasked, True, Select sel_movshdup, 32),
     (handle_code_VEX_VMOVDDUP_YMM_YMMM256, Three_Operand_Unmasked, True, Select sel_movddup, 64),
     (handle_code_EVEX_VUNPCKLPS_XMM_K1Z_XMM_XMMM128, Three_Operand_Unmasked, False, Select sel_unpcklps, 32),
     (handle_code_EVEX_VUNPCKLPD_XMM_K1Z_XMM_XMMM128, Three_Operand_Unmasked, False, Select sel_unpcklpd, 64),
     (handle_code_EVEX_VUNPCKHPS_XMM_K1Z_XMM_XMMM128, Three_Operand_Unmasked, False, Select sel_unpckhps, 32),
     (handle_code_EVEX_VUNPCKHPD_XMM_K1Z_XMM_XMMM128, Three_Operand_Unmasked, False, Select sel_unpckhpd, 64),
     (handle_code_EVEX_VSHUFPS_XMM_K1Z_XMM_XMMM128, Three_Operand_Unmasked, False, Select sel_shufps, 32),
     (handle_code_EVEX_VSHUFPD_XMM_K1Z_XMM_XMMM128, Three_Operand_Unmasked, False, Select sel_shufpd, 64),
     (handle_code_EVEX_VMOVSLDUP_XMM_K1Z_XMM_XMMM128, Three_Operand_Unmasked, True, Select sel_movsldup, 32),
     (handle_code_EVEX_VMOVSHDUP_XMM_K1Z_XMM_XMMM128, Three_Operand_Unmasked, True, Select sel_movshdup, 32),
     (handle_code_EVEX_VUNPCKLPS_YMM_K1Z_YMM_YMMM256, Three_Operand_Unmasked, False, Select sel_unpcklps, 32),
     (handle_code_EVEX_VUNPCKLPD_YMM_K1Z_YMM_YMMM256, Three_Operand_Unmasked, False, Select sel_unpcklpd, 64),
     (handle_code_EVEX_VUNPCKHPS_YMM_K1Z_YMM_YMMM256, Three_Operand_Unmasked, False, Select sel_unpckhps, 32),
     (handle_code_EVEX_VUNPCKHPD_YMM_K1Z_YMM_YMMM256, Three_Operand_Unmasked, False, Select sel_unpckhpd, 64),
     (handle_code_EVEX_VSHUFPS_YMM_K1Z_YMM_YMMM256, Three_Operand_Unmasked, False, Select sel_shufps, 32),
     (handle_code_EVEX_VSHUFPD_YMM_K1Z_YMM_YMMM256, Three_Operand_Unmasked, False, Select sel_shufpd, 64),
     (handle_code_EVEX_VMOVSLDUP_YMM_K1Z_YMM_YMMM256, Three_Operand_Unmasked, True, Select sel_movsldup, 32),
     (handle_code_EVEX_VMOVSHDUP_YMM_K1Z_YMM_YMMM256, Three_Operand_Unmasked, True, Select sel_movshdup, 32),
     (handle_code_EVEX_VMOVDDUP_YMM_K1Z_YMM_YMMM256, Three_Operand_Unmasked, True, Select sel_movddup, 64),
     (handle_code_EVEX_VUNPCKLPS_ZMM_K1Z_ZMM_ZMMM512, Three_Operand_Unmasked, False, Select sel_unpcklps, 32),
     (handle_code_EVEX_VUNPCKLPD_ZMM_K1Z_ZMM_ZMMM512, Three_Operand_Unmasked, False, Select sel_unpcklpd, 64),
     (handle_code_EVEX_VUNPCKHPS_ZMM_K1Z_ZMM_ZMMM512, Three_Operand_Unmasked, False, Select sel_unpckhps, 32),
     (handle_code_EVEX_VUNPCKHPD_ZMM_K1Z_ZMM_ZMMM512, Three_Operand_Unmasked, False, Select sel_unpckhpd, 64),
     (handle_code_EVEX_VSHUFPS_ZMM_K1Z_ZMM_ZMMM512, Three_Operand_Unmasked, False, Select sel_shufps, 32),
     (handle_code_EVEX_VSHUFPD_ZMM_K1Z_ZMM_ZMMM512, Three_Operand_Unmasked, False, Select sel_shufpd, 64),
     (handle_code_EVEX_VMOVSLDUP_ZMM_K1Z_ZMM_ZMMM512, Three_Operand_Unmasked, True, Select sel_movsldup, 32),
     (handle_code_EVEX_VMOVSHDUP_ZMM_K1Z_ZMM_ZMMM512, Three_Operand_Unmasked, True, Select sel_movshdup, 32),
     (handle_code_EVEX_VMOVDDUP_ZMM_K1Z_ZMM_ZMMM512, Three_Operand_Unmasked, True, Select sel_movddup, 64),
     (handle_code_PACKSSWB_XMM_XMMM128, Two_Operand, False, Pack_Signed, 8),
     (handle_code_PACKSSDW_XMM_XMMM128, Two_Operand, False, Pack_Signed, 16),
     (handle_code_PACKUSWB_XMM_XMMM128, Two_Operand, False, Pack_Unsigned, 8),
     (handle_code_PUNPCKLBW_XMM_XMMM128, Two_Operand, False, Interleave 0, 8),
     (handle_code_PUNPCKHBW_XMM_XMMM128, Two_Operand, False, Interleave 1, 8),
     (handle_code_PUNPCKLWD_XMM_XMMM128, Two_Operand, False, Interleave 0, 16),
     (handle_code_PUNPCKHWD_XMM_XMMM128, Two_Operand, False, Interleave 1, 16),
     (handle_code_PUNPCKLDQ_XMM_XMMM128, Two_Operand, False, Interleave 0, 32),
     (handle_code_PUNPCKHDQ_XMM_XMMM128, Two_Operand, False, Interleave 1, 32),
     (handle_code_PUNPCKLQDQ_XMM_XMMM128, Two_Operand, False, Interleave 0, 64),
     (handle_code_PUNPCKHQDQ_XMM_XMMM128, Two_Operand, False, Interleave 1, 64),
     (handle_code_VEX_VPACKSSWB_XMM_XMM_XMMM128, Three_Operand_Unmasked, False, Pack_Signed, 8),
     (handle_code_VEX_VPACKSSDW_XMM_XMM_XMMM128, Three_Operand_Unmasked, False, Pack_Signed, 16),
     (handle_code_VEX_VPACKUSWB_XMM_XMM_XMMM128, Three_Operand_Unmasked, False, Pack_Unsigned, 8),
     (handle_code_VEX_VPUNPCKLBW_XMM_XMM_XMMM128, Three_Operand_Unmasked, False, Interleave 0, 8),
     (handle_code_VEX_VPUNPCKHBW_XMM_XMM_XMMM128, Three_Operand_Unmasked, False, Interleave 1, 8),
     (handle_code_VEX_VPUNPCKLWD_XMM_XMM_XMMM128, Three_Operand_Unmasked, False, Interleave 0, 16),
     (handle_code_VEX_VPUNPCKHWD_XMM_XMM_XMMM128, Three_Operand_Unmasked, False, Interleave 1, 16),
     (handle_code_VEX_VPUNPCKLDQ_XMM_XMM_XMMM128, Three_Operand_Unmasked, False, Interleave 0, 32),
     (handle_code_VEX_VPUNPCKHDQ_XMM_XMM_XMMM128, Three_Operand_Unmasked, False, Interleave 1, 32),
     (handle_code_VEX_VPACKSSWB_YMM_YMM_YMMM256, Three_Operand_Unmasked, False, Pack_Signed, 8),
     (handle_code_VEX_VPACKSSDW_YMM_YMM_YMMM256, Three_Operand_Unmasked, False, Pack_Signed, 16),
     (handle_code_VEX_VPACKUSWB_YMM_YMM_YMMM256, Three_Operand_Unmasked, False, Pack_Unsigned, 8),
     (handle_code_VEX_VPUNPCKLBW_YMM_YMM_YMMM256, Three_Operand_Unmasked, False, Interleave 0, 8),
     (handle_code_VEX_VPUNPCKHBW_YMM_YMM_YMMM256, Three_Operand_Unmasked, False, Interleave 1, 8),
     (handle_code_VEX_VPUNPCKLWD_YMM_YMM_YMMM256, Three_Operand_Unmasked, False, Interleave 0, 16),
     (handle_code_VEX_VPUNPCKHWD_YMM_YMM_YMMM256, Three_Operand_Unmasked, False, Interleave 1, 16),
     (handle_code_VEX_VPUNPCKLDQ_YMM_YMM_YMMM256, Three_Operand_Unmasked, False, Interleave 0, 32),
     (handle_code_VEX_VPUNPCKHDQ_YMM_YMM_YMMM256, Three_Operand_Unmasked, False, Interleave 1, 32),
     (handle_code_EVEX_VPACKSSWB_XMM_K1Z_XMM_XMMM128, Three_Operand_Unmasked, False, Pack_Signed, 8),
     (handle_code_EVEX_VPACKSSDW_XMM_K1Z_XMM_XMMM128, Three_Operand_Unmasked, False, Pack_Signed, 16),
     (handle_code_EVEX_VPACKUSWB_XMM_K1Z_XMM_XMMM128, Three_Operand_Unmasked, False, Pack_Unsigned, 8),
     (handle_code_EVEX_VPUNPCKLBW_XMM_K1Z_XMM_XMMM128, Three_Operand_Unmasked, False, Interleave 0, 8),
     (handle_code_EVEX_VPUNPCKHBW_XMM_K1Z_XMM_XMMM128, Three_Operand_Unmasked, False, Interleave 1, 8),
     (handle_code_EVEX_VPUNPCKLWD_XMM_K1Z_XMM_XMMM128, Three_Operand_Unmasked, False, Interleave 0, 16),
     (handle_code_EVEX_VPUNPCKHWD_XMM_K1Z_XMM_XMMM128, Three_Operand_Unmasked, False, Interleave 1, 16),
     (handle_code_EVEX_VPUNPCKLDQ_XMM_K1Z_XMM_XMMM128, Three_Operand_Unmasked, False, Interleave 0, 32),
     (handle_code_EVEX_VPUNPCKHDQ_XMM_K1Z_XMM_XMMM128, Three_Operand_Unmasked, False, Interleave 1, 32),
     (handle_code_EVEX_VPACKSSWB_YMM_K1Z_YMM_YMMM256, Three_Operand_Unmasked, False, Pack_Signed, 8),
     (handle_code_EVEX_VPACKSSDW_YMM_K1Z_YMM_YMMM256, Three_Operand_Unmasked, False, Pack_Signed, 16),
     (handle_code_EVEX_VPACKUSWB_YMM_K1Z_YMM_YMMM256, Three_Operand_Unmasked, False, Pack_Unsigned, 8),
     (handle_code_EVEX_VPUNPCKLBW_YMM_K1Z_YMM_YMMM256, Three_Operand_Unmasked, False, Interleave 0, 8),
     (handle_code_EVEX_VPUNPCKHBW_YMM_K1Z_YMM_YMMM256, Three_Operand_Unmasked, False, Interleave 1, 8),
     (handle_code_EVEX_VPUNPCKLWD_YMM_K1Z_YMM_YMMM256, Three_Operand_Unmasked, False, Interleave 0, 16),
     (handle_code_EVEX_VPUNPCKHWD_YMM_K1Z_YMM_YMMM256, Three_Operand_Unmasked, False, Interleave 1, 16),
     (handle_code_EVEX_VPUNPCKLDQ_YMM_K1Z_YMM_YMMM256, Three_Operand_Unmasked, False, Interleave 0, 32),
     (handle_code_EVEX_VPUNPCKHDQ_YMM_K1Z_YMM_YMMM256, Three_Operand_Unmasked, False, Interleave 1, 32),
     (handle_code_EVEX_VPACKSSWB_ZMM_K1Z_ZMM_ZMMM512, Three_Operand_Unmasked, False, Pack_Signed, 8),
     (handle_code_EVEX_VPACKSSDW_ZMM_K1Z_ZMM_ZMMM512, Three_Operand_Unmasked, False, Pack_Signed, 16),
     (handle_code_EVEX_VPACKUSWB_ZMM_K1Z_ZMM_ZMMM512, Three_Operand_Unmasked, False, Pack_Unsigned, 8),
     (handle_code_EVEX_VPUNPCKLBW_ZMM_K1Z_ZMM_ZMMM512, Three_Operand_Unmasked, False, Interleave 0, 8),
     (handle_code_EVEX_VPUNPCKHBW_ZMM_K1Z_ZMM_ZMMM512, Three_Operand_Unmasked, False, Interleave 1, 8),
     (handle_code_EVEX_VPUNPCKLWD_ZMM_K1Z_ZMM_ZMMM512, Three_Operand_Unmasked, False, Interleave 0, 16),
     (handle_code_EVEX_VPUNPCKHWD_ZMM_K1Z_ZMM_ZMMM512, Three_Operand_Unmasked, False, Interleave 1, 16),
     (handle_code_EVEX_VPUNPCKLDQ_ZMM_K1Z_ZMM_ZMMM512, Three_Operand_Unmasked, False, Interleave 0, 32),
     (handle_code_EVEX_VPUNPCKHDQ_ZMM_K1Z_ZMM_ZMMM512, Three_Operand_Unmasked, False, Interleave 1, 32)]"

lemmas rearrange_handlers =
  handle_code_UNPCKLPS_XMM_XMMM128_def handle_code_UNPCKLPD_XMM_XMMM128_def handle_code_UNPCKHPS_XMM_XMMM128_def
  handle_code_UNPCKHPD_XMM_XMMM128_def handle_code_SHUFPS_XMM_XMMM128_IMM8_def handle_code_SHUFPD_XMM_XMMM128_IMM8_def
  handle_code_PSHUFD_XMM_XMMM128_IMM8_def handle_code_PSHUFLW_XMM_XMMM128_IMM8_def handle_code_PSHUFHW_XMM_XMMM128_IMM8_def
  handle_code_MOVSLDUP_XMM_XMMM128_def handle_code_MOVSHDUP_XMM_XMMM128_def handle_code_VEX_VUNPCKLPS_XMM_XMM_XMMM128_def
  handle_code_VEX_VUNPCKLPD_XMM_XMM_XMMM128_def handle_code_VEX_VUNPCKHPS_XMM_XMM_XMMM128_def handle_code_VEX_VUNPCKHPD_XMM_XMM_XMMM128_def
  handle_code_VEX_VSHUFPS_XMM_XMM_XMMM128_def handle_code_VEX_VSHUFPD_XMM_XMM_XMMM128_def handle_code_VEX_VMOVSLDUP_XMM_XMMM128_def
  handle_code_VEX_VMOVSHDUP_XMM_XMMM128_def handle_code_VEX_VUNPCKLPS_YMM_YMM_YMMM256_def handle_code_VEX_VUNPCKLPD_YMM_YMM_YMMM256_def
  handle_code_VEX_VUNPCKHPS_YMM_YMM_YMMM256_def handle_code_VEX_VUNPCKHPD_YMM_YMM_YMMM256_def handle_code_VEX_VSHUFPS_YMM_YMM_YMMM256_def
  handle_code_VEX_VSHUFPD_YMM_YMM_YMMM256_def handle_code_VEX_VMOVSLDUP_YMM_YMMM256_def handle_code_VEX_VMOVSHDUP_YMM_YMMM256_def
  handle_code_VEX_VMOVDDUP_YMM_YMMM256_def handle_code_EVEX_VUNPCKLPS_XMM_K1Z_XMM_XMMM128_def
  handle_code_EVEX_VUNPCKLPD_XMM_K1Z_XMM_XMMM128_def handle_code_EVEX_VUNPCKHPS_XMM_K1Z_XMM_XMMM128_def
  handle_code_EVEX_VUNPCKHPD_XMM_K1Z_XMM_XMMM128_def handle_code_EVEX_VSHUFPS_XMM_K1Z_XMM_XMMM128_def
  handle_code_EVEX_VSHUFPD_XMM_K1Z_XMM_XMMM128_def handle_code_EVEX_VMOVSLDUP_XMM_K1Z_XMM_XMMM128_def
  handle_code_EVEX_VMOVSHDUP_XMM_K1Z_XMM_XMMM128_def handle_code_EVEX_VUNPCKLPS_YMM_K1Z_YMM_YMMM256_def
  handle_code_EVEX_VUNPCKLPD_YMM_K1Z_YMM_YMMM256_def handle_code_EVEX_VUNPCKHPS_YMM_K1Z_YMM_YMMM256_def
  handle_code_EVEX_VUNPCKHPD_YMM_K1Z_YMM_YMMM256_def handle_code_EVEX_VSHUFPS_YMM_K1Z_YMM_YMMM256_def
  handle_code_EVEX_VSHUFPD_YMM_K1Z_YMM_YMMM256_def handle_code_EVEX_VMOVSLDUP_YMM_K1Z_YMM_YMMM256_def
  handle_code_EVEX_VMOVSHDUP_YMM_K1Z_YMM_YMMM256_def handle_code_EVEX_VMOVDDUP_YMM_K1Z_YMM_YMMM256_def
  handle_code_EVEX_VUNPCKLPS_ZMM_K1Z_ZMM_ZMMM512_def handle_code_EVEX_VUNPCKLPD_ZMM_K1Z_ZMM_ZMMM512_def
  handle_code_EVEX_VUNPCKHPS_ZMM_K1Z_ZMM_ZMMM512_def handle_code_EVEX_VUNPCKHPD_ZMM_K1Z_ZMM_ZMMM512_def
  handle_code_EVEX_VSHUFPS_ZMM_K1Z_ZMM_ZMMM512_def handle_code_EVEX_VSHUFPD_ZMM_K1Z_ZMM_ZMMM512_def
  handle_code_EVEX_VMOVSLDUP_ZMM_K1Z_ZMM_ZMMM512_def handle_code_EVEX_VMOVSHDUP_ZMM_K1Z_ZMM_ZMMM512_def
  handle_code_EVEX_VMOVDDUP_ZMM_K1Z_ZMM_ZMMM512_def handle_code_PACKSSWB_XMM_XMMM128_def handle_code_PACKSSDW_XMM_XMMM128_def
  handle_code_PACKUSWB_XMM_XMMM128_def handle_code_PUNPCKLBW_XMM_XMMM128_def handle_code_PUNPCKHBW_XMM_XMMM128_def
  handle_code_PUNPCKLWD_XMM_XMMM128_def handle_code_PUNPCKHWD_XMM_XMMM128_def handle_code_PUNPCKLDQ_XMM_XMMM128_def
  handle_code_PUNPCKHDQ_XMM_XMMM128_def handle_code_PUNPCKLQDQ_XMM_XMMM128_def handle_code_PUNPCKHQDQ_XMM_XMMM128_def
  handle_code_VEX_VPACKSSWB_XMM_XMM_XMMM128_def handle_code_VEX_VPACKSSDW_XMM_XMM_XMMM128_def handle_code_VEX_VPACKUSWB_XMM_XMM_XMMM128_def
  handle_code_VEX_VPUNPCKLBW_XMM_XMM_XMMM128_def handle_code_VEX_VPUNPCKHBW_XMM_XMM_XMMM128_def
  handle_code_VEX_VPUNPCKLWD_XMM_XMM_XMMM128_def handle_code_VEX_VPUNPCKHWD_XMM_XMM_XMMM128_def
  handle_code_VEX_VPUNPCKLDQ_XMM_XMM_XMMM128_def handle_code_VEX_VPUNPCKHDQ_XMM_XMM_XMMM128_def
  handle_code_VEX_VPACKSSWB_YMM_YMM_YMMM256_def handle_code_VEX_VPACKSSDW_YMM_YMM_YMMM256_def handle_code_VEX_VPACKUSWB_YMM_YMM_YMMM256_def
  handle_code_VEX_VPUNPCKLBW_YMM_YMM_YMMM256_def handle_code_VEX_VPUNPCKHBW_YMM_YMM_YMMM256_def
  handle_code_VEX_VPUNPCKLWD_YMM_YMM_YMMM256_def handle_code_VEX_VPUNPCKHWD_YMM_YMM_YMMM256_def
  handle_code_VEX_VPUNPCKLDQ_YMM_YMM_YMMM256_def handle_code_VEX_VPUNPCKHDQ_YMM_YMM_YMMM256_def
  handle_code_EVEX_VPACKSSWB_XMM_K1Z_XMM_XMMM128_def handle_code_EVEX_VPACKSSDW_XMM_K1Z_XMM_XMMM128_def
  handle_code_EVEX_VPACKUSWB_XMM_K1Z_XMM_XMMM128_def handle_code_EVEX_VPUNPCKLBW_XMM_K1Z_XMM_XMMM128_def
  handle_code_EVEX_VPUNPCKHBW_XMM_K1Z_XMM_XMMM128_def handle_code_EVEX_VPUNPCKLWD_XMM_K1Z_XMM_XMMM128_def
  handle_code_EVEX_VPUNPCKHWD_XMM_K1Z_XMM_XMMM128_def handle_code_EVEX_VPUNPCKLDQ_XMM_K1Z_XMM_XMMM128_def
  handle_code_EVEX_VPUNPCKHDQ_XMM_K1Z_XMM_XMMM128_def handle_code_EVEX_VPACKSSWB_YMM_K1Z_YMM_YMMM256_def
  handle_code_EVEX_VPACKSSDW_YMM_K1Z_YMM_YMMM256_def handle_code_EVEX_VPACKUSWB_YMM_K1Z_YMM_YMMM256_def
  handle_code_EVEX_VPUNPCKLBW_YMM_K1Z_YMM_YMMM256_def handle_code_EVEX_VPUNPCKHBW_YMM_K1Z_YMM_YMMM256_def
  handle_code_EVEX_VPUNPCKLWD_YMM_K1Z_YMM_YMMM256_def handle_code_EVEX_VPUNPCKHWD_YMM_K1Z_YMM_YMMM256_def
  handle_code_EVEX_VPUNPCKLDQ_YMM_K1Z_YMM_YMMM256_def handle_code_EVEX_VPUNPCKHDQ_YMM_K1Z_YMM_YMMM256_def
  handle_code_EVEX_VPACKSSWB_ZMM_K1Z_ZMM_ZMMM512_def handle_code_EVEX_VPACKSSDW_ZMM_K1Z_ZMM_ZMMM512_def
  handle_code_EVEX_VPACKUSWB_ZMM_K1Z_ZMM_ZMMM512_def handle_code_EVEX_VPUNPCKLBW_ZMM_K1Z_ZMM_ZMMM512_def
  handle_code_EVEX_VPUNPCKHBW_ZMM_K1Z_ZMM_ZMMM512_def handle_code_EVEX_VPUNPCKLWD_ZMM_K1Z_ZMM_ZMMM512_def
  handle_code_EVEX_VPUNPCKHWD_ZMM_K1Z_ZMM_ZMMM512_def handle_code_EVEX_VPUNPCKLDQ_ZMM_K1Z_ZMM_ZMMM512_def
  handle_code_EVEX_VPUNPCKHDQ_ZMM_K1Z_ZMM_ZMMM512_def

lemmas rearrange_rules =
  computes_select [OF selections(1) lane_sizes(3) block_sizes(3), unfolded lane_lengths]
  computes_select [OF selections(2) lane_sizes(4) block_sizes(4), unfolded lane_lengths]
  computes_select [OF selections(3) lane_sizes(3) block_sizes(3), unfolded lane_lengths]
  computes_select [OF selections(4) lane_sizes(4) block_sizes(4), unfolded lane_lengths]
  computes_select [OF selections(5) lane_sizes(3) block_sizes(3), unfolded lane_lengths]
  computes_select [OF selections(6) lane_sizes(4) block_sizes(4), unfolded lane_lengths]
  computes_select_unary [OF selections(7) lane_sizes(3) block_sizes(3), unfolded lane_lengths]
  computes_select_unary [OF selections(8) lane_sizes(2) block_sizes(2), unfolded lane_lengths]
  computes_select_unary [OF selections(9) lane_sizes(2) block_sizes(2), unfolded lane_lengths]
  computes_select_unary [OF selections(10) lane_sizes(3) block_sizes(3), unfolded lane_lengths]
  computes_select_unary [OF selections(11) lane_sizes(3) block_sizes(3), unfolded lane_lengths]
  computes_select_unary [OF selections(12) lane_sizes(4) block_sizes(4), unfolded lane_lengths]
  computes_interleave [OF lane_sizes(1) half_block_sizes(1), of 0, unfolded lane_lengths mult_0 nat_mult_1]
  computes_interleave [OF lane_sizes(1) half_block_sizes(1), of 1, unfolded lane_lengths mult_0 nat_mult_1]
  computes_interleave [OF lane_sizes(2) half_block_sizes(2), of 0, unfolded lane_lengths mult_0 nat_mult_1]
  computes_interleave [OF lane_sizes(2) half_block_sizes(2), of 1, unfolded lane_lengths mult_0 nat_mult_1]
  computes_interleave [OF lane_sizes(3) half_block_sizes(3), of 0, unfolded lane_lengths mult_0 nat_mult_1]
  computes_interleave [OF lane_sizes(3) half_block_sizes(3), of 1, unfolded lane_lengths mult_0 nat_mult_1]
  computes_interleave [OF lane_sizes(4) half_block_sizes(4), of 0, unfolded lane_lengths mult_0 nat_mult_1]
  computes_interleave [OF lane_sizes(4) half_block_sizes(4), of 1, unfolded lane_lengths mult_0 nat_mult_1]
  computes_pack [OF lane_sizes(2) lane_sizes(1) lane_doubles(1), unfolded lane_lengths] computes_pack [OF lane_sizes(3) lane_sizes(2) lane_doubles(2), unfolded lane_lengths]

lemma rearrange_catalog_correct:
  "list_all (\<lambda>(h, enc, unary, rr, n). computes_rearrangement h enc unary rr n) rearrange_catalog"
  unfolding rearrange_catalog_def rearrange_handlers list.pred_inject prod.case
  by (intro conjI list.pred_inject(1) rearrange_rules)

text \<open>C29: Data rearrangement (110 handlers of \<^verbatim>\<open>simd_shuffle.cpp\<close> and \<^verbatim>\<open>simd_pack.cpp\<close>): every element of the destination is the source element that
  the instruction's selection names for its position, taken from the same 128-bit block; the interleaves alternate the elements of
  the low or high halves; the packs clamp the double-width elements of the first and then of the second source. No instruction moves
  data between blocks, only the destination changes, and the bits above it are kept (legacy) or cleared. EVEX write masks have no effect.
\<close>

theorem rearrange_semantics:
  assumes "(h, enc, unary, rr, n) \<in> set rearrange_catalog"
    "op_kind (instr c) 0 = REGISTER" "op_register (instr c) 0 = dst" "is_vector_register dst" "enc = Two_Operand \<longrightarrow> vector_width dst = 16"
  shows "case rearrange_sources enc unary c of
      (None, c1) \<Rightarrow> h c = (memory_fault c1 (memory_address c1), c1)
    | (Some (lhs, rhs), c1) \<Rightarrow>
        \<exists>u. h c = (no_stop, c1\<lparr>state := (state c)\<lparr>vectors := (vectors (state c))[vector_index dst := u]\<rparr>\<rparr>) \<and>
            vector_result enc c n (rearranged rr n (immediate8 (instr c)) lhs rhs) u"
proof -
  have "computes_rearrangement h enc unary rr n" using rearrange_catalog_correct assms(1) by (auto simp: list_all_iff)
  note ok = this [unfolded computes_rearrangement_def, rule_format, of c dst]
  show ?thesis by (rule ok) (intro conjI assms(2-))
qed

text \<open>\<^verbatim>\<open>pshufd xmm1, xmm2, 0x1B\<close>.\<close>

definition pshufd_xmm1_xmm2 :: instruction where
  "pshufd_xmm1_xmm2 = null_instruction\<lparr>op_register := (\<lambda>k. if k = 0 then XMM 1 else XMM 2), immediate8 := 0x1B\<rparr>"

theorem rearrange_semantics_witness:
  "\<exists>u. handle_code_PSHUFD_XMM_XMMM128_IMM8 (vector_ctx pshufd_xmm1_xmm2) =
      (no_stop, (vector_ctx pshufd_xmm1_xmm2)\<lparr>state := (state (vector_ctx pshufd_xmm1_xmm2))\<lparr>vectors :=
         (vectors (state (vector_ctx pshufd_xmm1_xmm2)))[1 := u]\<rparr>\<rparr>) \<and>
    vector_result Two_Operand (vector_ctx pshufd_xmm1_xmm2) 32 (rearranged (Select sel_pshufd) 32 0x1B 500 500) u"
proof -
  have "(handle_code_PSHUFD_XMM_XMMM128_IMM8, Two_Operand, True, Select sel_pshufd, 32) \<in> set rearrange_catalog"
    by (simp add: rearrange_catalog_def)
  from rearrange_semantics [OF this, of "vector_ctx pshufd_xmm1_xmm2"] show ?thesis
    by (simp add: vector_ctx_def demo_ctx_def pshufd_xmm1_xmm2_def null_instruction_def rearrange_sources_def read_vec_operand_plain_def
        read_vec_def simd_mask_def Let_def)
qed

end
