(* ===== verification/Snapshot.thy ===== *)
theory Snapshot
  imports Memory_Witness Executor_Model "HOL-Library.Multiset"
begin

text \<open>
  Machine snapshots (\<^verbatim>\<open>snapshot.hpp\<close>, \<^verbatim>\<open>snapshot.cpp\<close>, \<^verbatim>\<open>compat.hpp\<close>): what capture and restore reproduce of the registers, the pages and the
  MMIO regions of a machine.
\<close>

section \<open>Operations\<close>

record machine_snapshot =
  sn_state :: cpu_state
  sn_pages :: "page_snapshot list"
  sn_mmio_regions :: "mmio_region_snapshot list"

definition capture_snapshot :: "cpu_state \<Rightarrow> 'w memory \<Rightarrow> machine_snapshot" where
  "capture_snapshot s m = \<lparr>sn_state = s, sn_pages = snapshot_pages m, sn_mmio_regions = snapshot_mmio_regions m\<rparr>"

text \<open>The two overloads of \<^verbatim>\<open>restore_snapshot\<close>. They overwrite the registers and the memory they are given.\<close>

definition restore_snapshot :: "machine_snapshot \<Rightarrow> 'w memory \<Rightarrow> cpu_state \<times> 'w memory" where
  "restore_snapshot snapshot m = (sn_state snapshot, clear_mmio_regions (restore_pages (sn_pages snapshot) m))"

definition restore_snapshot_resolved :: "machine_snapshot \<Rightarrow> 'w mmio_resolver option \<Rightarrow> 'w memory \<Rightarrow> cpu_state \<times> 'w memory" where
  "restore_snapshot_resolved snapshot resolver m =
     (sn_state snapshot, restore_mmio_regions (sn_mmio_regions snapshot) resolver (restore_pages (sn_pages snapshot) m))"

text \<open>\<^verbatim>\<open>StandaloneMachine\<close> holds a default-constructed executor, register file and memory.\<close>

definition standalone_machine :: "bool \<Rightarrow> instruction \<Rightarrow> 'w \<Rightarrow> 'w emu" where
  "standalone_machine b i w = \<lparr>exec = new_executor b i, cpu = initial_cpu_state, ram = empty_memory w\<rparr>"

section \<open>Pages\<close>

lemma restore_pages_fields [simp]:
  "mmio_regions (restore_pages ps m) = mmio_regions m"
proof -
  obtain P where "restore_pages ps m = ((invalidate_tlb (bump_page_code_epoch m))\<lparr>pages := Map.empty\<rparr>)\<lparr>pages := P\<rparr>"
    using fold_emplace_pages [of ps] unfolding restore_pages_def by blast
  then show ?thesis by (simp add: invalidate_tlb_def bump_page_code_epoch_def)
qed

lemma snapshot_pages_cong: "pages m = pages m' \<Longrightarrow> snapshot_pages m = snapshot_pages m'"
  by (simp add: snapshot_pages_def page_at_def)

lemma mmio_keeps_pages [simp]:
  "pages (clear_mmio_regions m) = pages m" "pages (restore_mmio_regions rs f m) = pages m"
proof -
  show c: "pages (clear_mmio_regions m) = pages m" for m :: "'a memory" by (simp add: clear_mmio_regions_def)
  have "pages (restore_mmio_region f s m) = pages m" for s and m :: "'a memory"
    by (simp add: restore_mmio_region_def push_mmio_region_def Let_def split: option.split)
  then have "pages (fold (restore_mmio_region f) rs m) = pages m" for m :: "'a memory"
    by (induction rs arbitrary: m) simp_all
  then show "pages (restore_mmio_regions rs f m) = pages m" by (simp add: restore_mmio_regions_def c)
qed

section \<open>MMIO regions\<close>

definition region_snapshot :: "'w mmio_region \<Rightarrow> mmio_region_snapshot" where
  "region_snapshot r = \<lparr>ms_id = mr_id r, ms_base = mr_base r, ms_size = mr_size r\<rparr>"

text \<open>A resolver that gives every region of a memory its callbacks back.\<close>

definition resolves :: "'w mmio_resolver \<Rightarrow> 'w memory \<Rightarrow> bool" where
  "resolves f m \<longleftrightarrow> (\<forall>r \<in> set (mmio_regions m). f (region_snapshot r) = Some (mr_on_read r, mr_on_write r))"

definition region_covers :: "'w mmio_region \<Rightarrow> u64 \<Rightarrow> u64 \<Rightarrow> bool" where
  "region_covers r a n \<longleftrightarrow> mr_base r \<le> a \<and> a + n \<le> mr_base r + mr_size r"

lemma restored_regions:
  assumes "\<And>s. s \<in> set ss \<Longrightarrow> \<exists>x y. f s = Some (x, y)"
  shows "mmio_regions (fold (restore_mmio_region (Some f)) ss m) = mmio_regions m @
    map (\<lambda>s. \<lparr>mr_id = ms_id s, mr_base = ms_base s, mr_size = ms_size s, mr_on_read = fst (the (f s)), mr_on_write = snd (the (f s))\<rparr>) ss"
  using assms
proof (induction ss arbitrary: m)
  case (Cons s ss)
  obtain x y where "f s = Some (x, y)" using Cons.prems [of s] by auto
  with Cons show ?case by (simp add: restore_mmio_region_def push_mmio_region_def Let_def)
qed simp

lemma snapshot_regions: "snapshot_mmio_regions m =
    map region_snapshot (sort_key (\<lambda>r. unat (mr_base r) * 2 ^ 64 + unat (mr_id r)) (mmio_regions m))"
proof -
  have "map g (insort_key (k \<circ> g) x xs) = insort_key k (g x) (map g xs)" for g :: "'a mmio_region \<Rightarrow> mmio_region_snapshot" and k :: "_ \<Rightarrow> nat" and x xs
    by (induction xs) simp_all
  then have "map g (sort_key (k \<circ> g) xs) = sort_key k (map g xs)" for g :: "'a mmio_region \<Rightarrow> mmio_region_snapshot" and k :: "_ \<Rightarrow> nat" and xs
    by (induction xs) (simp_all add: sort_key_def)
  from this [of region_snapshot "\<lambda>s. unat (ms_base s) * 2 ^ 64 + unat (ms_id s)" "mmio_regions m"] show ?thesis
    by (simp add: snapshot_mmio_regions_def comp_def region_snapshot_def [abs_def])
qed

lemma regions_roundtrip:
  assumes "resolves f m"
  shows "mmio_regions (restore_mmio_regions (snapshot_mmio_regions m) (Some f) m0) =
    sort_key (\<lambda>r. unat (mr_base r) * 2 ^ 64 + unat (mr_id r)) (mmio_regions m)"
proof -
  let ?rs = "sort_key (\<lambda>r. unat (mr_base r) * 2 ^ 64 + unat (mr_id r)) (mmio_regions m)"
  have "\<forall>r \<in> set ?rs. f (region_snapshot r) = Some (mr_on_read r, mr_on_write r)" using assms by (simp add: resolves_def)
  then show ?thesis
    unfolding snapshot_regions restore_mmio_regions_def
    by (subst restored_regions) (auto simp: clear_mmio_regions_def region_snapshot_def intro!: map_idI)
qed

lemma find_unique:
  assumes "set xs = set ys" "\<And>x y. x \<in> set xs \<Longrightarrow> y \<in> set xs \<Longrightarrow> P x \<Longrightarrow> P y \<Longrightarrow> x = y"
  shows "List.find P xs = List.find P ys"
proof (cases "\<exists>x \<in> set xs. P x")
  case True
  then obtain x where x: "x \<in> set xs" "P x" by auto
  have "List.find P zs = Some x" if "set zs = set xs" for zs
  proof (cases "List.find P zs")
    case None
    then show ?thesis using x that by (auto simp: find_None_iff)
  next
    case (Some z)
    then have "z \<in> set zs" "P z" by (auto simp: find_Some_iff)
    then show ?thesis using Some assms(2) [of z x] x that by simp
  qed
  then show ?thesis using assms(1) by simp
next
  case False
  then have "List.find P xs = None" "List.find P ys = None" using assms(1) by (auto simp: find_None_iff)
  then show ?thesis by simp
qed

section \<open>The round trip\<close>

text \<open>C34: A snapshot restored with a resolver for its MMIO regions, into the registers and memory of any machine, reproduces the
  registers, the pages and the regions it was captured from, and capturing again gives the same snapshot; the memory invariant
  holds, so no stale translation of the overwritten memory is used. The regions are the same, as a multiset; where at most one
  region covers an access, the access reaches the same region as before.
\<close>

theorem machine_snapshot_roundtrip:
  assumes "mem_inv m0" "tlb_epoch m0 \<noteq> NOT 0" "resolves f m" "restore_snapshot_resolved (capture_snapshot s m) (Some f) m0 = (s', m')"
  shows "s' = s \<and> pages m' = pages m \<and> mset (mmio_regions m') = mset (mmio_regions m) \<and> mem_inv m' \<and>
    capture_snapshot s' m' = capture_snapshot s m \<and>
    (\<forall>a n. mmio_boxed m \<and> (\<forall>r \<in> set (mmio_regions m). \<forall>r' \<in> set (mmio_regions m). region_covers r a n \<and> region_covers r' a n \<longrightarrow> r = r') \<longrightarrow>
       find_mmio_region m' a n = find_mmio_region m a n)"
proof -
  let ?ps = "restore_pages (snapshot_pages m) m0"
  have s': "s' = s" and m': "m' = restore_mmio_regions (snapshot_mmio_regions m) (Some f) ?ps"
    using assms(4) by (simp_all add: restore_snapshot_resolved_def capture_snapshot_def)
  have p: "pages m' = pages m" using snapshot_restore_pages [OF mem_invD(1) [OF assms(1)] assms(2), of m] by (simp add: m')
  have r: "mmio_regions m' = sort_key (\<lambda>r. unat (mr_base r) * 2 ^ 64 + unat (mr_id r)) (mmio_regions m)"
    unfolding m' by (rule regions_roundtrip [OF assms(3)])
  have "snapshot_mmio_regions m' = snapshot_mmio_regions m"
    by (simp add: snapshot_regions r sort_key_id_if_sorted)
  then have c: "capture_snapshot s' m' = capture_snapshot s m" by (simp add: capture_snapshot_def s' snapshot_pages_cong [OF p])
  have i: "mem_inv m'" unfolding m' using assms(1,2) by (intro mmio_inv(4) map_inv(3))
  have "find_mmio_region m' a n = find_mmio_region m a n"
    if "mmio_boxed m" "\<forall>r \<in> set (mmio_regions m). \<forall>r' \<in> set (mmio_regions m). region_covers r a n \<and> region_covers r' a n \<longrightarrow> r = r'" for a n
    unfolding find_mmio_exact [OF that(1)] find_mmio_exact [OF mem_invD(2) [OF i]] r
    using that(2) by (intro find_unique) (auto simp: region_covers_def)
  then show ?thesis using s' p r i c by simp
qed

text \<open>A memory with a register bank at \<^verbatim>\<open>0x9000\<close>, restored into an empty machine.\<close>

definition device_memory :: "unit memory" where
  "device_memory = snd (map_mmio 0x9000 0x10 None None demo_memory)"

theorem machine_snapshot_roundtrip_witness:
  "pages (snd (restore_snapshot_resolved (capture_snapshot initial_cpu_state device_memory) (Some (\<lambda>_. Some (None, None))) (empty_memory ()))) =
     pages device_memory \<and>
   find_mmio_region (snd (restore_snapshot_resolved (capture_snapshot initial_cpu_state device_memory) (Some (\<lambda>_. Some (None, None))) (empty_memory ())))
     0x9004 4 = find_mmio_region device_memory 0x9004 4"
proof -
  have regions: "mmio_regions device_memory = [\<lparr>mr_id = next_hook_id demo_memory, mr_base = 0x9000, mr_size = 0x10, mr_on_read = None, mr_on_write = None\<rparr>]"
    using demo_plain by (simp add: device_memory_def map_mmio_def push_mmio_region_def plain_def Let_def)
  have "tlb_epoch (empty_memory ()) \<noteq> NOT 0" "resolves (\<lambda>_. Some (None, None)) device_memory"
    by (simp_all add: empty_memory_def resolves_def regions)
  moreover have "mmio_boxed device_memory"
    using demo_plain by (simp add: device_memory_def map_mmio_def push_mmio_region_def plain_def mmio_boxed_def Let_def)
  ultimately show ?thesis
    using machine_snapshot_roundtrip [OF empty_memory_inv, of "()" "\<lambda>_. Some (None, None)" device_memory initial_cpu_state
        "fst (restore_snapshot_resolved (capture_snapshot initial_cpu_state device_memory) (Some (\<lambda>_. Some (None, None))) (empty_memory ()))"
        "snd (restore_snapshot_resolved (capture_snapshot initial_cpu_state device_memory) (Some (\<lambda>_. Some (None, None))) (empty_memory ()))"]
    by (simp add: regions)
qed

end
