(* ===== verification/Saved_Area.thy ===== *)
theory Saved_Area
  imports X87_Ops Context_Memory
begin

text \<open>
  Areas of guest memory that are filled from the front: what stores, loads and the loops over bytes and fields of
  \<^verbatim>\<open>mmx_x87.cpp\<close> do to them.
\<close>

section \<open>An area of memory\<close>

text \<open>The first bytes of a writable area; stores behind them extend it, loads inside leave it.\<close>

definition area :: "u64 \<Rightarrow> nat \<Rightarrow> u8 list \<Rightarrow> 'w memory \<Rightarrow> bool" where
  "area base n xs m \<longleftrightarrow> plain m \<and> n \<le> 4096 \<and> length xs \<le> n \<and>
     (\<forall>i<n. allowed_at (can data_write) (pages m) (base + word_of_nat i)) \<and>
     (\<forall>i<length xs. byte_at (can data_read) (pages m) (base + word_of_nat i) = Some (xs ! i))"

lemma area_variant: "area base n xs m \<Longrightarrow> tlb_variant m m' \<Longrightarrow> plain m' \<Longrightarrow> area base n xs m'"
  by (simp add: area_def tlb_variant_fields)

lemma area_nil: "plain m \<Longrightarrow> n \<le> 4096 \<Longrightarrow> (\<forall>i<n. allowed_at (can data_write) (pages m) (base + word_of_nat i)) \<Longrightarrow> area base n [] m"
  by (simp add: area_def)

lemma area_store:
  assumes "area base n xs (mem c)" "valid_width w" "length xs + w \<le> n"
  shows "\<exists>m. ctx_write c (base + word_of_nat (length xs)) v w = (True, c\<lparr>mem := m\<rparr>) \<and> area base n (xs @ le_bytes w v) m"
proof -
  let ?a = "base + word_of_nat (length xs)"
  note ar = assms(1) [unfolded area_def]
  have p: "plain (mem c)" using ar by simp
  obtain ok m where m: "ctx_write c ?a v w = (ok, c\<lparr>mem := m\<rparr>)" "after_write (can data_write) (mem c) ?a (le_bytes w v) (ok, m)" "plain m"
    using ctx_write_plain [OF p assms(2)] by blast
  have "allowed_prefix (can data_write) (pages (mem c)) ?a w = w"
    unfolding allowed_prefix_full using ar assms(3) by (auto simp: add.assoc of_nat_add [symmetric] simp del: of_nat_add)
  then have ok: "ok" using m(2) by (simp add: after_write_def)
  then have pg: "pages m = pokes ?a (le_bytes w v) (pages (mem c))" using m(2) after_write_ok(2) by simp
  have d: "unat (base + word_of_nat i - ?a) = (if length xs \<le> i then i - length xs else i + 2 ^ 64 - length xs)" if "i < 4096" for i
  proof -
    have "unat (word_of_nat k :: u64) = k" if "k \<le> 4096" for k using that by (simp add: unat_of_nat)
    then have "unat (word_of_nat i - word_of_nat (length xs) :: u64) = (if length xs \<le> i then i - length xs else i + 2 ^ 64 - length xs)"
      using that ar by (simp add: unat_sub_if_size word_size)
    then show ?thesis by simp
  qed
  have b: "byte_at (can data_read) (pages m) (base + word_of_nat i) = Some ((xs @ le_bytes w v) ! i)" if i: "i < length xs + w" for i
  proof -
    have "allowed_at (can data_write) (pages (mem c)) (base + word_of_nat i)" using ar i assms(3) by simp
    then obtain b where "byte_at (can data_read) (pages (mem c)) (base + word_of_nat i) = Some b"
      using byte_at_allowed allowed_at_mono write_implies_read by meson
    moreover have lw: "length (le_bytes w v) \<le> 2 ^ 64" "i < 4096" "length xs + w \<le> 4096" using ar i assms(3) by simp_all
    moreover have "b = xs ! i" if "i < length xs" using ar that calculation(1) by simp
    ultimately show ?thesis
      unfolding pg byte_at_pokes [OF lw(1)] d [OF lw(2)] using i
      by (cases "i < length xs") (auto simp: nth_append)
  qed
  show ?thesis using m ok b ar assms(3) by (auto simp: area_def pg)
qed

lemma area_load:
  assumes "area base n xs (mem c)" "valid_width w" "k + w \<le> length xs"
  shows "\<exists>m. ctx_read c (base + word_of_nat k) w = (Some (of_le_bytes (take w (drop k xs))), c\<lparr>mem := m\<rparr>) \<and> area base n xs m"
proof -
  note ar = assms(1) [unfolded area_def]
  have "read_bytes (can data_read) (pages (mem c)) (base + word_of_nat k) w = Some (map (\<lambda>i. xs ! (k + i)) [0..<w])"
  proof -
    have "byte_at (can data_read) (pages (mem c)) (base + word_of_nat k + word_of_nat i) = Some (xs ! (k + i))" if "i < w" for i
    proof -
      have "k + i < length xs" using that assms(3) by simp
      then have "byte_at (can data_read) (pages (mem c)) (base + word_of_nat (k + i)) = Some (xs ! (k + i))" using ar by blast
      then show ?thesis by (simp add: add.assoc)
    qed
    then have "map (\<lambda>i. byte_at (can data_read) (pages (mem c)) (base + word_of_nat k + word_of_nat i)) [0..<w] = map (\<lambda>i. Some (xs ! (k + i))) [0..<w]"
      by (intro map_cong) auto
    then show ?thesis by (simp only: read_bytes_def those_map_Some)
  qed
  moreover have "map (\<lambda>i. xs ! (k + i)) [0..<w] = take w (drop k xs)"
    using assms(3) by (intro nth_equalityI) simp_all
  ultimately show ?thesis
    using ctx_read_plain [of c w "base + word_of_nat k"] assms(1,2) ar area_variant [OF assms(1)] by auto
qed

section \<open>Sequences of stores and loads\<close>

lemma ucast_u8_u64 [simp]: "ucast (ucast b :: u64) = b" for b :: u8
  by (rule bit_word_eqI) (simp add: bit_simps)

lemma le_bytes_1 [simp]: "le_bytes 1 (ucast b :: u64) = [b]" "le_bytes (Suc 0) (ucast b :: u64) = [b]" for b :: u8
  by (simp_all add: le_bytes_def)

lemma area_same: "area base n xs (mem c) \<Longrightarrow> \<exists>m. c = c\<lparr>mem := m\<rparr> \<and> area base n xs m"
  by (rule exI [of _ "mem c"]) simp

lemma area_write_raw:
  assumes "area base n xs (mem c)" "length xs + length bs \<le> n"
  shows "\<exists>m. write_raw (base + word_of_nat (length xs)) bs c = (None, c\<lparr>mem := m\<rparr>) \<and> area base n (xs @ bs) m"
  using assms
proof (induction bs arbitrary: xs c)
  case (Cons b bs)
  obtain m where m: "ctx_write c (base + word_of_nat (length xs)) (ucast b) 1 = (True, c\<lparr>mem := m\<rparr>)" "area base n (xs @ [b]) m"
    using area_store [OF Cons.prems(1), of 1 "ucast b"] Cons.prems(2) by (auto simp: valid_width_def)
  then show ?case using Cons.IH [of "xs @ [b]" "c\<lparr>mem := m\<rparr>"] Cons.prems(2) by (auto simp: add.assoc add.commute [of 1])
qed (simp_all add: area_same)

lemma area_put_raw:
  assumes "area base n xs (mem c)" "length xs + length bs \<le> n"
  shows "\<exists>m. put_raw (base + word_of_nat (length xs)) bs c = c\<lparr>mem := m\<rparr> \<and> area base n (xs @ bs) m"
  using assms
proof (induction bs arbitrary: xs c)
  case (Cons b bs)
  obtain m where m: "ctx_write c (base + word_of_nat (length xs)) (ucast b) 1 = (True, c\<lparr>mem := m\<rparr>)" "area base n (xs @ [b]) m"
    using area_store [OF Cons.prems(1), of 1 "ucast b"] Cons.prems(2) by (auto simp: valid_width_def)
  then show ?case using Cons.IH [of "xs @ [b]" "c\<lparr>mem := m\<rparr>"] Cons.prems(2) by (auto simp: put_field_def add.assoc add.commute [of 1])
qed (simp_all add: area_same)

text \<open>Fields written one behind the other.\<close>

fun consecutive :: "nat \<Rightarrow> (u64 \<times> u64 \<times> nat) list \<Rightarrow> bool" where
  "consecutive k [] = True"
| "consecutive k ((off, v, w) # fs) = (off = word_of_nat k \<and> valid_width w \<and> consecutive (k + w) fs)"

definition field_bytes :: "(u64 \<times> u64 \<times> nat) list \<Rightarrow> u8 list" where
  "field_bytes fs = concat (map (\<lambda>(off, v, w). le_bytes w v) fs)"

lemma area_write_fields:
  assumes "area base n xs (mem c)" "consecutive (length xs) fs" "length xs + length (field_bytes fs) \<le> n"
  shows "\<exists>m. write_fields base fs c = (None, c\<lparr>mem := m\<rparr>) \<and> area base n (xs @ field_bytes fs) m"
  using assms
proof (induction base fs c arbitrary: xs rule: write_fields.induct)
  case (1 base c)
  then show ?case by (auto simp: field_bytes_def intro!: exI [of _ "mem c"])
next
  case (2 base off v w fs c)
  have w: "off = word_of_nat (length xs)" "valid_width w" "length xs + w \<le> n" using "2.prems" by (auto simp: field_bytes_def)
  obtain m where m: "ctx_write c (base + off) v w = (True, c\<lparr>mem := m\<rparr>)" "area base n (xs @ le_bytes w v) m"
    using area_store [OF "2.prems"(1) w(2,3), of v] w(1) by auto
  then show ?case using "2.IH" [OF m(1) [symmetric] refl, of "xs @ le_bytes w v"] "2.prems" by (auto simp: field_bytes_def)
qed

lemma area_read_raw:
  assumes "area base n xs (mem c)" "k + l \<le> length xs"
  shows "\<exists>m. read_raw (base + word_of_nat k) l c = (Inr (take l (drop k xs)), c\<lparr>mem := m\<rparr>) \<and> area base n xs m"
  using assms
proof (induction l arbitrary: k c)
  case (Suc l)
  obtain m where m: "ctx_read c (base + word_of_nat k) 1 = (Some (of_le_bytes (take 1 (drop k xs))), c\<lparr>mem := m\<rparr>)" "area base n xs m"
    using area_load [OF Suc.prems(1), of 1 k] Suc.prems(2) by (auto simp: valid_width_def)
  have t: "take (Suc l) (drop k xs) = xs ! k # take l (drop (Suc k) xs)" "take 1 (drop k xs) = [xs ! k]"
    using Suc.prems(2) by (simp_all add: Cons_nth_drop_Suc [symmetric])
  obtain m' where "read_raw (base + word_of_nat (Suc k)) l (c\<lparr>mem := m\<rparr>) = (Inr (take l (drop (Suc k) xs)), c\<lparr>mem := m'\<rparr>)" "area base n xs m'"
    using Suc.IH [of "c\<lparr>mem := m\<rparr>" "Suc k"] Suc.prems(2) m(2) by auto
  then show ?case using m t by (auto simp: add.assoc add.commute [of 1])
qed (simp_all add: area_same)

lemma area_get_raw:
  assumes "area base n xs (mem c)" "k + l \<le> length xs"
  shows "\<exists>m. get_raw (base + word_of_nat k) l c = (take l (drop k xs), c\<lparr>mem := m\<rparr>) \<and> area base n xs m"
  using assms
proof (induction l arbitrary: k c)
  case (Suc l)
  obtain m where m: "ctx_read c (base + word_of_nat k) 1 = (Some (of_le_bytes (take 1 (drop k xs))), c\<lparr>mem := m\<rparr>)" "area base n xs m"
    using area_load [OF Suc.prems(1), of 1 k] Suc.prems(2) by (auto simp: valid_width_def)
  have t: "take (Suc l) (drop k xs) = xs ! k # take l (drop (Suc k) xs)" "take 1 (drop k xs) = [xs ! k]"
    using Suc.prems(2) by (simp_all add: Cons_nth_drop_Suc [symmetric])
  obtain m' where "get_raw (base + word_of_nat (Suc k)) l (c\<lparr>mem := m\<rparr>) = (take l (drop (Suc k) xs), c\<lparr>mem := m'\<rparr>)" "area base n xs m'"
    using Suc.IH [of "c\<lparr>mem := m\<rparr>" "Suc k"] Suc.prems(2) m(2) by auto
  then show ?case using m t by (auto simp: add.assoc add.commute [of 1])
qed (simp_all add: area_same)

section \<open>The span check\<close>

lemma area_permissions:
  assumes "area base n xs m" "k + l \<le> n"
  shows "\<exists>b m'. has_permissions m (base + word_of_nat k) (word_of_nat l) required = (b, m') \<and> area base n xs m'"
    "\<exists>m'. has_permissions m (base + word_of_nat k) (word_of_nat l) perm_write = (True, m') \<and> area base n xs m'"
    "\<exists>m'. is_mapped m (base + word_of_nat k) (word_of_nat l) = (True, m') \<and> area base n xs m'"
proof -
  note ar = assms(1) [unfolded area_def]
  have co: "tlb_coherent m" using ar by (simp add: plain_def)
  have pl: "area base n xs m'" if "tlb_variant m m'" "tlb_coherent m'" for m'
    using that ar by (intro area_variant [OF assms(1)]) (simp_all add: plain_def tlb_variant_fields)
  have l: "unat (word_of_nat l :: u64) = l" using assms(2) ar by (simp add: unat_of_nat)
  have al: "allowed_at (can data_write) (pages m) (base + word_of_nat k + word_of_nat i)" if "i < l" for i
  proof -
    have "allowed_at (can data_write) (pages m) (base + word_of_nat (k + i))" using ar assms(2) that by (meson add_less_cancel_left less_le_trans)
    then show ?thesis by (simp add: add.assoc)
  qed
  have w: "effective_permissions p AND perm_write = perm_write" if "p AND perm_write \<noteq> 0" for p
  proof -
    have "bit p 1" using that and_exp_eq_0_iff_not_bit [of p 1] by (simp add: perm_write_def push_bit_eq_mult)
    then show ?thesis unfolding effective_permissions_def perm_write_def by (auto intro!: bit_word_eqI simp: bit_simps)
  qed
  note ps = pages_satisfy_correct [OF co]
  have pair: "\<exists>m'. r = (fst r, m') \<and> area base n xs m'" if "area base n xs (snd r)" for r using that by (cases r) auto
  show "\<exists>b m'. has_permissions m (base + word_of_nat k) (word_of_nat l) required = (b, m') \<and> area base n xs m'"
    using pair [OF pl [OF ps(2,3) [of "\<lambda>p. effective_permissions p AND required = required"]]] unfolding has_permissions_def by blast
  have "fst (has_permissions m (base + word_of_nat k) (word_of_nat l) perm_write)"
    unfolding has_permissions_iff [OF co] l using w
    by (intro allI impI, elim allowed_at_mono [OF al]) simp
  then show "\<exists>m'. has_permissions m (base + word_of_nat k) (word_of_nat l) perm_write = (True, m') \<and> area base n xs m'"
    using pair [OF pl [OF ps(2,3) [of "\<lambda>p. effective_permissions p AND perm_write = perm_write" "base + word_of_nat k" "word_of_nat l"]]] unfolding has_permissions_def by simp
  have "fst (is_mapped m (base + word_of_nat k) (word_of_nat l))"
    unfolding is_mapped_def ps(1) [of "\<lambda>_. True"] l allowed_prefix_full
    by (intro allI impI, elim allowed_at_mono [OF al]) simp
  then show "\<exists>m'. is_mapped m (base + word_of_nat k) (word_of_nat l) = (True, m') \<and> area base n xs m'"
    using pair [OF pl [OF ps(2,3) [of "\<lambda>_. True" "base + word_of_nat k" "word_of_nat l"]]] unfolding is_mapped_def by simp
qed

lemma area_span_allowed:
  assumes "area base n xs m" "k + l \<le> n"
  shows "\<exists>m'. span_allowed kind (base + word_of_nat k) (word_of_nat l) m = (True, m') \<and> area base n xs m'"
proof -
  obtain b m1 where b: "has_permissions m (base + word_of_nat k) (word_of_nat l) perm_read = (b, m1)" "area base n xs m1"
    using area_permissions(1) [OF assms] by blast
  obtain m2 where "has_permissions m1 (base + word_of_nat k) (word_of_nat l) perm_write = (True, m2)" "area base n xs m2"
    using area_permissions(2) [OF b(2) assms(2)] by blast
  then show ?thesis using b area_permissions(2) [OF assms] by (cases b) (auto simp: span_allowed_def)
qed

lemma area_span:
  assumes "area base n xs (mem c)" "k + l \<le> n"
  shows "\<exists>m. validate_memory_span kind (base + word_of_nat k) l c = (None, c\<lparr>mem := m\<rparr>) \<and> area base n xs m"
  using assms
proof (induction l arbitrary: k c rule: less_induct)
  case (less l)
  show ?case
  proof (cases "l = 0")
    case True
    then show ?thesis using area_same [OF less.prems(1)] by (subst validate_memory_span.simps) simp
  next
    case False
    let ?a = "base + word_of_nat k"
    define h where "h = min l (4096 - unat (?a mod kPageSize))"
    have h: "0 < h" "h \<le> l" using False unat_page_offset [of ?a] by (simp_all add: h_def)
    then have kh: "k + h \<le> n" using less.prems(2) by simp
    obtain m1 where m1: "span_allowed kind ?a (word_of_nat h) (mem c) = (True, m1)" "area base n xs m1"
      using area_span_allowed [OF less.prems(1) kh] by blast
    obtain m2 where m2: "is_mapped m1 ?a (word_of_nat h) = (True, m2)" "area base n xs m2"
      using area_permissions(3) [OF m1(2) kh] by blast
    have "validate_memory_span kind ?a l c = validate_memory_span kind (?a + word_of_nat h) (l - h) (c\<lparr>mem := m2\<rparr>)"
      using False m1(1) m2(1) by (subst validate_memory_span.simps) (simp add: h_def Let_def)
    moreover obtain m where "validate_memory_span kind (base + word_of_nat (k + h)) (l - h) (c\<lparr>mem := m2\<rparr>) = (None, c\<lparr>mem := m\<rparr>)" "area base n xs m"
      using less.IH [of "l - h" "c\<lparr>mem := m2\<rparr>" "k + h"] h less.prems(2) m2(2) by auto
    ultimately show ?thesis by (auto simp: add.assoc)
  qed
qed

end
