(* ===== verification/X87_Stack_Ops.thy ===== *)
theory X87_Stack_Ops
  imports X87_Stack Branch_Facts
begin

text \<open>
  The instructions that only move values on the register stack refine the operations of an abstract stack of eight places.
\<close>

section \<open>Instructions on the register stack\<close>

text \<open>The abstract stack is the list of the eight registers from ST(0) on, \<open>None\<close> for an empty one; \<open>Inl True\<close> is an overflow, \<open>Inl False\<close> an underflow.\<close>

datatype st_op = St_push float80 | St_exchange nat | St_store_pop nat | St_copy nat nat | St_free nat | St_up | St_down | St_move nat | St_skip

fun st_step :: "st_op \<Rightarrow> float80 option list \<Rightarrow> bool + float80 option list" where
  "st_step (St_push v) xs = (if last xs = None then Inr (Some v # butlast xs) else Inl True)"
| "st_step (St_exchange i) xs = (if xs ! 0 = None \<or> xs ! i = None then Inl False else Inr (xs[0 := xs ! i, i := xs ! 0]))"
| "st_step (St_store_pop i) xs = (if xs ! 0 = None then Inl False else Inr (tl (xs[i := xs ! 0]) @ [None]))"
| "st_step (St_copy i k) xs = (if xs ! k = None then Inl False else Inr (xs[i := xs ! k]))"
| "st_step (St_free i) xs = Inr (xs[i := None])"
| "st_step St_up xs = Inr (rotate1 xs)"
| "st_step St_down xs = Inr (last xs # butlast xs)"
| "st_step (St_move i) xs = (if xs ! 0 = None \<or> xs ! i = None then Inl False else Inr (xs[0 := xs ! i]))"
| "st_step St_skip xs = Inr xs"

text \<open>What a handler does to the stack that \<open>st_step\<close> describes.\<close>

definition performs :: "'w handler \<Rightarrow> st_op \<Rightarrow> 'w ctx \<Rightarrow> bool" where
  "performs h op c \<longleftrightarrow>
     (case st_step op (st_view (state c)) of
        Inr v \<Rightarrow> \<exists>s'. h c = (no_stop, c\<lparr>state := s'\<rparr>) \<and> st_view s' = v \<and> fpu_inv s' \<and> stack_only (state c) s'
      | Inl over \<Rightarrow> h c = (if bit (x87_control_word (state c)) 0 then no_stop else fp_stop c 0x41,
          upd_state (\<lambda>s. s\<lparr>x87_status_word := stack_fault s over\<rparr>) c))"

lemma is_empty_view: "i < 8 \<Longrightarrow> x87_is_empty s (word_of_nat i) \<longleftrightarrow> st_view s ! i = None"
  by (simp add: st_view_def)

lemma get_view: "i < 8 \<Longrightarrow> st_view s ! i = Some v \<Longrightarrow> x87_get s (word_of_nat i) = v"
  by (simp add: st_view_def split: if_splits)

lemma view_zero:
  "x87_is_empty s 0 \<longleftrightarrow> st_view s ! 0 = None" "st_view s ! 0 = Some v \<Longrightarrow> x87_get s 0 = v"
  "fpu_inv s \<Longrightarrow> st_view (x87_set z s 0 v) = (st_view s)[0 := Some v]"
  using is_empty_view [of 0 s] get_view [of 0 s] view_set [of s 0] by simp_all

lemma performs_ok:
  assumes "st_step op (st_view (state c)) = Inr v" "h c = (no_stop, c\<lparr>state := s'\<rparr>)" "st_view s' = v" "fpu_inv s'" "stack_only (state c) s'"
  shows "performs h op c"
  unfolding performs_def using assms by auto

lemma performs_fault:
  assumes "fpu_inv (state c)" "st_step op (st_view (state c)) = Inl over" "h c = (if over then x87_stack_overflow c else x87_stack_underflow c)"
  shows "performs h op c"
  unfolding performs_def using assms by (cases over) (simp_all add: x87_stack_fault_eq)

lemma push_eq:
  assumes "fpu_inv (state c)"
  shows "x87_push_or full fp v c =
    (if last (st_view (state c)) = None then (no_stop, upd_state (\<lambda>s. snd (x87_push (f80_eq0 fp) s v)) c) else full c)"
  using view_push(1) [OF assms, of "f80_eq0 fp" v] by (auto simp: x87_push_or_def split: prod.splits bool.splits if_splits)

lemma pop_eq:
  assumes "fpu_inv (state c)"
  shows "x87_pop_or_underflow c =
    (if st_view (state c) ! 0 = None then x87_stack_underflow c else (no_stop, upd_state (\<lambda>s. snd (x87_pop s)) c))"
  using view_pop(1) [OF assms] by (auto simp: x87_pop_or_underflow_def split: prod.splits bool.splits if_splits)

lemma push_performs:
  assumes "fpu_inv (state c)"
  shows "performs (x87_push_or x87_stack_overflow fp v) (St_push v) c"
proof (cases "last (st_view (state c)) = None")
  case True
  then show ?thesis
    using view_push(2) [OF assms True] stack_updates(7,8) [OF assms] by (intro performs_ok) (simp_all add: push_eq [OF assms])
qed (rule performs_fault [OF assms, of _ True], simp_all add: push_eq [OF assms] del: not_None_eq)

text \<open>
  The place of a register operand: the index the code computes, modulo eight. The operand \<open>ST k\<close> is place \<open>k\<close>; a missing operand is
  \<^verbatim>\<open>Register::NONE\<close>, whose place depends on the numbering of the registers.
\<close>

definition st_place :: "fp_env \<Rightarrow> nat \<Rightarrow> 'w ctx \<Rightarrow> nat" where
  "st_place fp n c = unat (x87_st_index fp (op_register (instr c) n)) mod 8"

lemma st_place_st: "op_register (instr c) n = ST k \<Longrightarrow> st_place fp n c = unat k"
  using unsigned_less [of k, where 'a = nat] by (simp add: st_place_def unsigned_ucast_eq take_bit_nat_eq_self)

lemma phys_index_mod: "x87_phys_index s i = x87_phys_index s (word_of_nat (unat i mod 8))"
proof -
  have u: "unat (ucast t + ucast (ucast k :: u8) :: u32) mod 8 = (unat t + unat k) mod 8" for t :: u8 and k :: u64
  proof -
    have c: "unat (ucast b :: u32) = unat b" for b :: u8
      using unsigned_less [of b, where 'a = nat] by (simp add: unsigned_ucast_eq take_bit_nat_eq_self)
    have "unat (ucast k :: u8) = unat k mod 256" by (simp add: unsigned_ucast_eq take_bit_eq_mod)
    then have "unat (ucast t :: u32) = unat t" "unat (ucast (ucast k :: u8) :: u32) = unat k mod 256" by (simp_all only: c)
    moreover have "unat t + unat k mod 256 < 2 ^ 32" using unsigned_less [of t, where 'a = nat] by (simp add: add_strict_mono [of _ 256 _ 256, THEN less_trans])
    ultimately have "unat (ucast t + ucast (ucast k :: u8) :: u32) = unat t + unat k mod 256" by (simp add: unat_word_ariths)
    moreover have "(unat k mod 256) mod 8 = unat k mod 8" by (simp add: mod_mod_cancel)
    ultimately show ?thesis by (metis mod_add_right_eq)
  qed
  have m: "unat (w AND 7) = unat w mod 8" for w :: u32
    by (simp add: and_7)
  have "unat (word_of_nat (unat i mod 8) :: u64) = unat i mod 8" by (simp add: unat_of_nat)
  then show ?thesis unfolding x87_phys_index_def m u by (simp add: mod_simps)
qed

lemma at_place:
  fixes i :: u64
  shows "x87_is_empty s i \<longleftrightarrow> st_view s ! (unat i mod 8) = None"
    "st_view s ! (unat i mod 8) = Some v \<Longrightarrow> x87_get s i = v"
    "fpu_inv s \<Longrightarrow> st_view (x87_set z s i v) = (st_view s)[unat i mod 8 := Some v]"
    "fpu_inv s \<Longrightarrow> st_view (x87_mark_empty s i) = (st_view s)[unat i mod 8 := None]"
    "fpu_inv s \<Longrightarrow> st_view (x87_swap s i) = (st_view s)[0 := st_view s ! (unat i mod 8), unat i mod 8 := st_view s ! 0]"
proof -
  let ?w = "word_of_nat (unat i mod 8) :: u64"
  have w: "x87_is_empty s i = x87_is_empty s ?w" "x87_get s i = x87_get s ?w" "x87_set z s i v = x87_set z s ?w v"
    "x87_mark_empty s i = x87_mark_empty s ?w" "x87_swap s i = x87_swap s ?w"
    unfolding x87_is_empty_def x87_get_def x87_set_def x87_mark_empty_def x87_swap_def phys_index_mod [of s i] by (rule refl)+
  have l: "unat i mod 8 < 8" by simp
  show "x87_is_empty s i \<longleftrightarrow> st_view s ! (unat i mod 8) = None" unfolding w by (rule is_empty_view [OF l])
  show "st_view s ! (unat i mod 8) = Some v \<Longrightarrow> x87_get s i = v" unfolding w by (rule get_view [OF l])
  show "fpu_inv s \<Longrightarrow> st_view (x87_set z s i v) = (st_view s)[unat i mod 8 := Some v]" unfolding w by (rule view_set [OF _ l])
  show "fpu_inv s \<Longrightarrow> st_view (x87_mark_empty s i) = (st_view s)[unat i mod 8 := None]" unfolding w by (rule view_mark_empty [OF _ l])
  show "fpu_inv s \<Longrightarrow> st_view (x87_swap s i) = (st_view s)[0 := st_view s ! (unat i mod 8), unat i mod 8 := st_view s ! 0]"
    unfolding w by (rule view_swap [OF _ l])
qed

text \<open>A handler that performs an operation on the operands it accepts and faults on others.\<close>

definition guarded :: "bool \<Rightarrow> 'w handler \<Rightarrow> st_op \<Rightarrow> 'w ctx \<Rightarrow> bool" where
  "guarded ok h op c \<longleftrightarrow> (if ok then performs h op c else h c = (memory_fault c (memory_address c), c))"

abbreviation reg_operand :: "nat \<Rightarrow> 'w ctx \<Rightarrow> bool" where
  "reg_operand n c \<equiv> op_kind (instr c) n = REGISTER"

abbreviation st_operand :: "nat \<Rightarrow> 'w ctx \<Rightarrow> bool" where
  "st_operand n c \<equiv> reg_operand n c \<and> is_st (op_register (instr c) n)"

lemma exchange_performs:
  assumes "fpu_inv (state c)"
  shows "guarded (st_operand 1 c) (x87_fxch fp) (St_exchange (st_place fp 1 c)) c"
  using assms stack_updates(5,6) [OF assms]
  by (simp add: guarded_def performs_def x87_fxch_def operand_fault_def Let_def st_place_def at_place view_zero x87_stack_fault_eq
      del: One_nat_def not_None_eq)

lemma store_pop_performs:
  assumes "fpu_inv (state c)"
  shows "guarded (reg_operand 1 c) (x87_store_st0_to_sti fp True) (St_store_pop (st_place fp 1 c)) c"
proof (cases "reg_operand 1 c \<and> st_view (state c) ! 0 \<noteq> None")
  case False
  then show ?thesis
    using assms by (auto simp: guarded_def performs_def x87_store_st0_to_sti_def operand_fault_def view_zero x87_stack_fault_eq)
next
  case True
  then obtain v where v: "st_view (state c) ! 0 = Some v" by auto
  then have g: "x87_get (state c) 0 = v" by (rule view_zero)
  let ?i = "x87_st_index fp (op_register (instr c) 1)"
  let ?s = "x87_set (f80_eq0 fp) (state c) ?i v"
  have w: "st_view ?s = (st_view (state c))[st_place fp 1 c := Some v]" using at_place(3) [OF assms] by (simp add: st_place_def)
  then have n: "st_view ?s ! 0 \<noteq> None" using v by (cases "st_place fp 1 c = 0") simp_all
  note up = stack_updates(1,2) [OF assms, of "f80_eq0 fp" ?i v]
  have "performs (x87_store_st0_to_sti fp True) (St_store_pop (st_place fp 1 c)) c"
    using stack_only_trans [OF up(1) stack_updates(9) [OF up(2)]] stack_updates(10) [OF up(2)] view_pop(2) [OF up(2) n] n w v
      pop_eq [of "c\<lparr>state := ?s\<rparr>"] up(2) True
    by (intro performs_ok [where s' = "snd (x87_pop ?s)"])
      (simp_all add: x87_store_st0_to_sti_def view_zero pop_if_def g del: One_nat_def not_None_eq)
  then show ?thesis using True by (simp add: guarded_def)
qed

lemma copy_performs:
  assumes "fpu_inv (state c)"
  shows "guarded (reg_operand 0 c \<and> reg_operand 1 c) (x87_reg_move fp 0 1 False) (St_copy (st_place fp 0 c) (st_place fp 1 c)) c"
proof (cases "reg_operand 0 c \<and> reg_operand 1 c \<and> st_view (state c) ! st_place fp 1 c \<noteq> None")
  case False
  then show ?thesis
    using assms by (auto simp: guarded_def performs_def x87_reg_move_def operand_fault_def Let_def st_place_def at_place x87_stack_fault_eq)
next
  case True
  then obtain v where v: "st_view (state c) ! st_place fp 1 c = Some v" by auto
  then have g: "x87_get (state c) (x87_st_index fp (op_register (instr c) 1)) = v" unfolding st_place_def by (rule at_place)
  let ?i = "x87_st_index fp (op_register (instr c) 0)"
  have "performs (x87_reg_move fp 0 1 False) (St_copy (st_place fp 0 c) (st_place fp 1 c)) c"
    using True v g stack_updates(1,2) [OF assms, of "f80_eq0 fp" ?i v] at_place(3) [OF assms, of "f80_eq0 fp" ?i v]
    by (intro performs_ok [where s' = "x87_set (f80_eq0 fp) (state c) ?i v"])
      (simp_all add: x87_reg_move_def Let_def at_place(1) st_place_def del: One_nat_def)
  then show ?thesis using True by (simp add: guarded_def)
qed

lemma free_performs:
  assumes "fpu_inv (state c)"
  shows "guarded (reg_operand 0 c) (x87_free_sti fp False) (St_free (st_place fp 0 c)) c"
  using assms stack_updates(3,4) [OF assms]
  by (simp add: guarded_def performs_def x87_free_sti_def operand_fault_def pop_if_def st_place_def at_place)

lemma move_performs:
  assumes "fpu_inv (state c)"
  shows "guarded (b \<longrightarrow> st_operand 1 c) (x87_move_if fp b) (if b then St_move (st_place fp 1 c) else St_skip) c"
proof (cases "b \<and> st_operand 1 c")
  case False
  then show ?thesis
    using assms by (auto simp: guarded_def x87_move_if_def operand_fault_def Let_def intro!: performs_ok [where s' = "state c"])
next
  case True
  let ?i = "x87_st_index fp (op_register (instr c) 1)"
  have "performs (x87_move_if fp True) (St_move (st_place fp 1 c)) c"
  proof (cases "st_view (state c) ! 0 \<noteq> None \<and> st_view (state c) ! st_place fp 1 c \<noteq> None")
    case full: True
    then obtain v where v: "st_view (state c) ! st_place fp 1 c = Some v" by auto
    then have g: "x87_get (state c) ?i = v" unfolding st_place_def by (rule at_place)
    show ?thesis
      using full v g True stack_updates(1,2) [OF assms, of "f80_eq0 fp" 0 v] view_zero(3) [OF assms, of "f80_eq0 fp" v]
      by (intro performs_ok [where s' = "x87_set (f80_eq0 fp) (state c) 0 v"])
        (simp_all add: x87_move_if_def Let_def at_place(1) [of _ ?i] st_place_def view_zero x87_put_def del: One_nat_def not_None_eq)
  next
    case False
    with True show ?thesis
      by (intro performs_fault [OF assms, of _ False])
        (auto simp: x87_move_if_def Let_def at_place(1) [of _ ?i] st_place_def view_zero simp del: One_nat_def not_None_eq)
  qed
  then show ?thesis using True by (simp add: guarded_def)
qed

lemma rotate_performs:
  assumes "fpu_inv (state c)"
  shows "performs handle_code_FINCSTP St_up c" "performs handle_code_FDECSTP St_down c"
proof -
  note inv = fpu_invD [OF assms]
  have v: "st_view (set_x87_top (state c) ((x87_top (state c) + w) AND 7)) ! i = st_view (state c) ! ((unat w + i) mod 8)"
    if "i < 8" "unat w < 8" for i w
  proof -
    let ?s = "set_x87_top (state c) ((x87_top (state c) + w) AND 7)"
    have t: "unat (x87_top (state c)) < 8" using inv(3) by (simp add: word_less_nat_alt)
    have "x87_top ?s = (x87_top (state c) + w) AND 7" by (simp add: set_x87_top_def Let_def and.assoc)
    then have "unat (x87_top ?s) = (unat (x87_top (state c)) + unat w) mod 8"
      using t that(2) by (simp add: and_7 unat_word_ariths)
    moreover have "x87_tags ?s = x87_tags (state c)" "x87_stack ?s = x87_stack (state c)" by (simp_all add: set_x87_top_def Let_def)
    moreover have "((t + k) mod 8 + i) mod 8 = (t + (k + i) mod 8) mod 8" for t k :: nat by (simp add: mod_simps add.assoc)
    ultimately show ?thesis
      using that(1) inv fpu_invD(3) [OF stack_updates(12) [OF assms]] by (simp add: st_view_nth Let_def)
  qed
  have up: "performs h op c"
    if "h c = (no_stop, upd_state (\<lambda>s. set_x87_top s ((x87_top s + w) AND 7)) c)" "unat w < 8"
      "st_step op (st_view (state c)) = Inr xs" "length xs = 8" "\<And>i. i < 8 \<Longrightarrow> st_view (state c) ! ((unat w + i) mod 8) = xs ! i" for h op w xs
    using that v stack_updates(11,12) [OF assms]
    by (intro performs_ok [where s' = "set_x87_top (state c) ((x87_top (state c) + w) AND 7)"]) (auto intro!: nth_equalityI)
  show "performs handle_code_FINCSTP St_up c"
    by (rule up [of _ 1]) (auto simp: handle_code_FINCSTP_def nth_rotate1)
  show "performs handle_code_FDECSTP St_down c"
  proof (rule up [of _ 7])
    fix i :: nat assume "i < 8"
    moreover have "(7 + Suc j) mod 8 = j" if "j < 8" for j :: nat using that by simp
    ultimately show "st_view (state c) ! ((unat (7 :: u8) + i) mod 8) = (last (st_view (state c)) # butlast (st_view (state c))) ! i"
      by (cases i) (simp_all add: last_conv_nth nth_butlast)
  qed (simp_all add: handle_code_FDECSTP_def)
qed

text \<open>
  The instructions: the operands on which they perform their operation, and the operation. The conditional moves test
  the flags first.
\<close>

definition st_move_if :: "(cpu_state \<Rightarrow> bool) \<Rightarrow> fp_env \<Rightarrow> 'w ctx \<Rightarrow> st_op" where
  "st_move_if cond fp c = (if cond (state c) then St_move (st_place fp 1 c) else St_skip)"

definition st_move_operand :: "(cpu_state \<Rightarrow> bool) \<Rightarrow> 'w ctx \<Rightarrow> bool" where
  "st_move_operand cond c \<longleftrightarrow> (cond (state c) \<longrightarrow> st_operand 1 c)"

definition cmov_entry :: "(fp_env \<Rightarrow> 'w handler) \<Rightarrow> (cpu_state \<Rightarrow> bool) \<Rightarrow>
    (fp_env \<Rightarrow> 'w handler) \<times> ('w ctx \<Rightarrow> bool) \<times> (fp_env \<Rightarrow> 'w ctx \<Rightarrow> st_op)" where
  "cmov_entry h cond = (h, st_move_operand cond, st_move_if cond)"

definition stack_catalog :: "((fp_env \<Rightarrow> 'w handler) \<times> ('w ctx \<Rightarrow> bool) \<times> (fp_env \<Rightarrow> 'w ctx \<Rightarrow> st_op)) list" where
  "stack_catalog =
    [(handle_code_FLD1, \<lambda>c. True, \<lambda>fp c. St_push (i32_to_extF80 fp 1)),
     (handle_code_FLDZ, \<lambda>c. True, \<lambda>fp c. St_push (i32_to_extF80 fp 0)),
     (handle_code_FLDL2T, \<lambda>c. True, \<lambda>fp c. St_push (f64_to_extF80 fp 0x400A934F0979A371)),
     (handle_code_FLDL2E, \<lambda>c. True, \<lambda>fp c. St_push (f64_to_extF80 fp 0x3FF71547652B82FE)),
     (handle_code_FLDPI, \<lambda>c. True, \<lambda>fp c. St_push (f64_to_extF80 fp 0x400921FB54442D18)),
     (handle_code_FLDLG2, \<lambda>c. True, \<lambda>fp c. St_push (f64_to_extF80 fp 0x3FD34413509F79FF)),
     (handle_code_FLDLN2, \<lambda>c. True, \<lambda>fp c. St_push (f64_to_extF80 fp 0x3FE62E42FEFA39EF)),
     (handle_code_FXCH_ST0_STI, st_operand 1, \<lambda>fp c. St_exchange (st_place fp 1 c)),
     (handle_code_FXCH_ST0_STI_DDC8, st_operand 1, \<lambda>fp c. St_exchange (st_place fp 1 c)),
     (handle_code_FXCH_ST0_STI_DFC8, st_operand 1, \<lambda>fp c. St_exchange (st_place fp 1 c)),
     (handle_code_FST_STI, \<lambda>c. reg_operand 0 c \<and> reg_operand 1 c, \<lambda>fp c. St_copy (st_place fp 0 c) (st_place fp 1 c)),
     (handle_code_FSTP_STI, reg_operand 1, \<lambda>fp c. St_store_pop (st_place fp 1 c)),
     (handle_code_FSTP_STI_DFD0, reg_operand 1, \<lambda>fp c. St_store_pop (st_place fp 1 c)),
     (handle_code_FSTP_STI_DFD8, reg_operand 1, \<lambda>fp c. St_store_pop (st_place fp 1 c)),
     (handle_code_FSTPNCE_STI, reg_operand 1, \<lambda>fp c. St_store_pop (st_place fp 1 c)),
     (handle_code_FFREE_STI, reg_operand 0, \<lambda>fp c. St_free (st_place fp 0 c)),
     (\<lambda>fp. handle_code_FINCSTP, \<lambda>c. True, \<lambda>fp c. St_up),
     (\<lambda>fp. handle_code_FDECSTP, \<lambda>c. True, \<lambda>fp c. St_down),
     (\<lambda>fp. handle_code_FNOP, \<lambda>c. True, \<lambda>fp c. St_skip),
     cmov_entry handle_code_FCMOVB_ST0_STI (\<lambda>s. flag_CF s),
     cmov_entry handle_code_FCMOVE_ST0_STI (\<lambda>s. flag_ZF s),
     cmov_entry handle_code_FCMOVBE_ST0_STI (\<lambda>s. flag_CF s \<or> flag_ZF s),
     cmov_entry handle_code_FCMOVU_ST0_STI (\<lambda>s. flag_PF s),
     cmov_entry handle_code_FCMOVNB_ST0_STI (\<lambda>s. \<not> flag_CF s),
     cmov_entry handle_code_FCMOVNE_ST0_STI (\<lambda>s. \<not> flag_ZF s),
     cmov_entry handle_code_FCMOVNBE_ST0_STI (\<lambda>s. \<not> flag_CF s \<and> \<not> flag_ZF s),
     cmov_entry handle_code_FCMOVNU_ST0_STI (\<lambda>s. \<not> flag_PF s)]"

lemma stack_catalog_correct:
  assumes "fpu_inv (state c)"
  shows "list_all (\<lambda>(h, ok, op). guarded (ok c) (h fp) (op fp c) c) stack_catalog"
proof -
  have t: "guarded True h op c \<longleftrightarrow> performs h op c" for h op by (simp add: guarded_def)
  have skip: "performs handle_code_FNOP St_skip c"
    using assms by (intro performs_ok [where s' = "state c"]) (simp_all add: handle_code_FNOP_def)
  have cm: "guarded (st_move_operand cond c) (\<lambda>c. x87_move_if fp (P c) c) (st_move_if cond fp c) c" if "P c = cond (state c)" for P cond
    using move_performs [OF assms, of "cond (state c)" fp] unfolding guarded_def performs_def that st_move_operand_def st_move_if_def .
  show ?thesis
    unfolding stack_catalog_def list.pred_inject cmov_entry_def prod.case handle_code_FLD1_def handle_code_FLDZ_def handle_code_FLDL2T_def
      handle_code_FLDL2E_def handle_code_FLDPI_def handle_code_FLDLG2_def handle_code_FLDLN2_def handle_code_FXCH_ST0_STI_def
      handle_code_FXCH_ST0_STI_DDC8_def handle_code_FXCH_ST0_STI_DFC8_def handle_code_FST_STI_def handle_code_FSTP_STI_def
      handle_code_FSTP_STI_DFD0_def handle_code_FSTP_STI_DFD8_def handle_code_FSTPNCE_STI_def handle_code_FFREE_STI_def
      handle_code_FCMOVB_ST0_STI_def handle_code_FCMOVE_ST0_STI_def handle_code_FCMOVBE_ST0_STI_def handle_code_FCMOVU_ST0_STI_def
      handle_code_FCMOVNB_ST0_STI_def handle_code_FCMOVNE_ST0_STI_def handle_code_FCMOVNBE_ST0_STI_def handle_code_FCMOVNU_ST0_STI_def t
    using push_performs [OF assms, of fp] exchange_performs [OF assms, of fp] store_pop_performs [OF assms, of fp]
      copy_performs [OF assms, of fp] free_performs [OF assms, of fp] rotate_performs [OF assms] skip
    by (auto simp: f80_of_int_def f80_of_double_def flag_tests intro!: cm)
qed

text \<open>C30: The register stack behaves as an abstract stack of eight places (27 instructions: loads of constants, FXCH, FST and FSTP to a
  register, FFREE, FINCSTP, FDECSTP, FNOP, FCMOVcc), whatever operands the decoded instruction has. Read from ST(0) on, the registers after the
  instruction are those of the abstract operation; nothing else of the machine changes. An overflow or underflow leaves every register as
  it was, sets IE, SF and the direction in C1, and stops the machine exactly when the invalid-operation exception is unmasked.
  Constant loads, FINCSTP, FDECSTP and FNOP look at no operand. FXCH and a taken FCMOVcc use operand 1, which must be a stack register;
  FFREE uses the register in operand 0. The stores to a register take operand 1, as the code has it: as the source of FST to
  operand 0 and as the destination of FSTP, so for an instruction with a single operand this is the place of
  \<^verbatim>\<open>Register::NONE\<close> and not the register the instruction names. On operands of another kind the result is a page fault that changes nothing.\<close>

theorem x87_stack_refines:
  assumes "(h, ok, op) \<in> set stack_catalog" "fpu_inv (state c)"
  shows "if ok c
    then case st_step (op fp c) (st_view (state c)) of
        Inr v \<Rightarrow> \<exists>s'. h fp c = (no_stop, c\<lparr>state := s'\<rparr>) \<and> st_view s' = v \<and> fpu_inv s' \<and> stack_only (state c) s'
      | Inl over \<Rightarrow> h fp c = (if bit (x87_control_word (state c)) 0 then no_stop else fp_stop c 0x41,
          upd_state (\<lambda>s. s\<lparr>x87_status_word := stack_fault s over\<rparr>) c)
    else h fp c = (memory_fault c (memory_address c), c)"
proof -
  have "guarded (ok c) (h fp) (op fp c) c" using stack_catalog_correct [OF assms(2), of fp] assms(1) by (auto simp: list_all_iff)
  then show ?thesis unfolding guarded_def performs_def .
qed

end
