(* ===== verification/X87_State.thy ===== *)
theory X87_State
  imports Saved_Area X87_Stack_Ops
begin

text \<open>
  The FXSAVE image: FXSAVE writes it, FXRSTOR restores the registers from it.
\<close>

section \<open>The FXSAVE image\<close>

definition st_image :: "float80 \<Rightarrow> u8 list" where
  "st_image v = encode_ext80 v @ replicate 6 0"

definition fx_fields :: "cpu_state \<Rightarrow> (u64 \<times> u64 \<times> nat) list" where
  "fx_fields s =
     [(0, ucast (x87_control_word s), 2), (2, ucast (x87_status_word s), 2), (4, ucast (x87_ftw s), 1), (5, 0, 1),
      (6, 0, 2), (8, 0, 8), (16, 0, 8), (24, ucast (mxcsr s), 4), (28, 0xFFFF, 4)]"

definition fx_image :: "cpu_state \<Rightarrow> u8 list" where
  "fx_image s =
     field_bytes (fx_fields s) @ concat (map (\<lambda>i. st_image (x87_stack s ! i)) [0..<8]) @
     concat (map (\<lambda>i. le_bytes 16 (vectors s ! i)) [0..<16]) @ replicate 96 0"

lemma st_image_length [simp]: "length (st_image v) = 16"
  by (simp add: st_image_def encode_ext80_def)

lemma concat_length [simp]: "(\<And>i. length (f i) = k) \<Longrightarrow> length (concat (map f [a..<b])) = k * (b - a)"
  by (induction b) (auto simp: Suc_diff_le)

lemma concat_field:
  assumes "\<And>i. length (f i) = k" "j < b"
  shows "take k (drop (k * j) (concat (map f [0..<b]) @ ys)) = f j"
proof -
  have "[0..<b] = [0..<j] @ j # [Suc j..<b]" using assms(2) by (metis le_add1 less_imp_add_positive upt_add_eq_append upt_conv_Cons plus_nat.add_0)
  then show ?thesis using assms(1) by simp
qed

lemma ftw_bit: "p < 8 \<Longrightarrow> bit (x87_ftw s) p \<longleftrightarrow> x87_tags s ! p \<noteq> 3"
proof -
  have "bit (fold (\<lambda>i f. if P i then f OR push_bit i 1 else f) [0..<n] (0 :: u8)) p \<longleftrightarrow> p < n \<and> P p" if "p < 8" for P n
    using that by (induction n) (auto simp: bit_simps less_Suc_eq)
  then show "p < 8 \<Longrightarrow> bit (x87_ftw s) p \<longleftrightarrow> x87_tags s ! p \<noteq> 3" by (simp add: x87_ftw_def)
qed

lemma fx_image_length [simp]: "length (fx_image s) = 512"
  by (simp add: fx_image_def fx_fields_def field_bytes_def)

section \<open>FXSAVE writes it\<close>

lemma area_save_st:
  assumes "area base 512 xs (mem c)" "length xs = 32" "k \<le> 8"
  shows "\<exists>m. fold (\<lambda>phys c. write_fxsave_st base phys (x87_stack (state c) ! phys) c) [0..<k] c = c\<lparr>mem := m\<rparr> \<and>
    area base 512 (xs @ concat (map (\<lambda>i. st_image (x87_stack (state c) ! i)) [0..<k])) m"
  using assms(3)
proof (induction k)
  case (Suc k)
  then obtain m where m: "fold (\<lambda>phys c. write_fxsave_st base phys (x87_stack (state c) ! phys) c) [0..<k] c = c\<lparr>mem := m\<rparr>"
    "area base 512 (xs @ concat (map (\<lambda>i. st_image (x87_stack (state c) ! i)) [0..<k])) m" by auto
  let ?ys = "xs @ concat (map (\<lambda>i. st_image (x87_stack (state c) ! i)) [0..<k])"
  have l: "length ?ys = 32 + k * 16" using assms(2) by simp
  obtain m' where "put_raw (base + word_of_nat (length ?ys)) (st_image (x87_stack (state c) ! k)) (c\<lparr>mem := m\<rparr>) = c\<lparr>mem := m'\<rparr>"
    "area base 512 (?ys @ st_image (x87_stack (state c) ! k)) m'"
    using area_put_raw [of base 512 ?ys "c\<lparr>mem := m\<rparr>" "st_image (x87_stack (state c) ! k)"] m(2) l Suc.prems by auto
  then show ?case using m(1) unfolding l by (auto simp: write_fxsave_st_def st_image_def add.assoc)
qed (use assms in \<open>simp add: area_same\<close>)

lemma area_save_xmm:
  assumes "area base 512 xs (mem c)" "length xs = 160 + 16 * k" "k + j \<le> 16"
  shows "\<exists>m. save_xmm base [k..<k + j] c = (None, c\<lparr>mem := m\<rparr>) \<and>
    area base 512 (xs @ concat (map (\<lambda>i. le_bytes 16 (vectors (state c) ! i)) [k..<k + j])) m"
  using assms
proof (induction j arbitrary: k xs c)
  case (Suc j)
  let ?b = "le_bytes 16 (vectors (state c) ! k)"
  have l: "base + 160 + word_of_nat (k * 16) = base + word_of_nat (length xs)" using Suc.prems(2) by (simp add: add.assoc mult.commute)
  obtain m where m: "write_raw (base + word_of_nat (length xs)) ?b c = (None, c\<lparr>mem := m\<rparr>)" "area base 512 (xs @ ?b) m"
    using area_write_raw [OF Suc.prems(1), of ?b] Suc.prems(2,3) by auto
  obtain m' where m': "save_xmm base [Suc k..<Suc k + j] (c\<lparr>mem := m\<rparr>) = (None, c\<lparr>mem := m'\<rparr>)"
    "area base 512 (xs @ ?b @ concat (map (\<lambda>i. le_bytes 16 (vectors (state c) ! i)) [Suc k..<Suc k + j])) m'"
    using Suc.IH [of "xs @ ?b" "c\<lparr>mem := m\<rparr>" "Suc k"] m(2) Suc.prems(2,3) by auto
  have e: "[k..<k + Suc j] = k # [Suc k..<Suc k + j]" by (simp add: upt_conv_Cons)
  show ?case unfolding e using m(1) m' by (auto simp: l simp del: upt_Suc add_Suc of_nat_mult)
qed (simp add: area_same)

lemma fxsave_area:
  assumes "plain (mem c)" "memory_address c = base" "base AND 0xF = 0"
    "\<forall>i<512. allowed_at (can data_write) (pages (mem c)) (base + word_of_nat i)"
  shows "\<exists>m. fxsave b c = (no_stop, c\<lparr>mem := m\<rparr>) \<and> area base 512 (fx_image (state c)) m"
proof -
  let ?h = "field_bytes (fx_fields (state c))"
  let ?st = "concat (map (\<lambda>i. st_image (x87_stack (state c) ! i)) [0..<8])"
  let ?v = "concat (map (\<lambda>i. le_bytes 16 (vectors (state c) ! i)) [0..<16])"
  have h: "length ?h = 32" by (simp add: fx_fields_def field_bytes_def)
  have "area base 512 [] (mem c)" using assms by (intro area_nil) auto
  then obtain m1 where m1: "validate_memory_span data_write base 512 c = (None, c\<lparr>mem := m1\<rparr>)" "area base 512 [] m1"
    using area_span [of base 512 "[]" c 0 512 data_write] by auto
  obtain m2 where m2: "write_fields base (fx_fields (state c)) (c\<lparr>mem := m1\<rparr>) = (None, c\<lparr>mem := m2\<rparr>)" "area base 512 ?h m2"
    using area_write_fields [of base 512 "[]" "c\<lparr>mem := m1\<rparr>" "fx_fields (state c)"] m1(2) h by (auto simp: fx_fields_def valid_width_def)
  obtain m3 where m3: "fold (\<lambda>phys c. write_fxsave_st base phys (x87_stack (state c) ! phys) c) [0..<8] (c\<lparr>mem := m2\<rparr>) = c\<lparr>mem := m3\<rparr>"
    "area base 512 (?h @ ?st) m3"
    using area_save_st [of base ?h "c\<lparr>mem := m2\<rparr>" 8] m2(2) h by auto
  obtain m4 where m4: "save_xmm base [0..<16] (c\<lparr>mem := m3\<rparr>) = (None, c\<lparr>mem := m4\<rparr>)" "area base 512 (?h @ ?st @ ?v) m4"
    using area_save_xmm [of base "?h @ ?st" "c\<lparr>mem := m3\<rparr>" 0 16] m3(2) h by auto
  obtain m5 where m5: "write_raw (base + 416) (replicate 96 0) (c\<lparr>mem := m4\<rparr>) = (None, c\<lparr>mem := m5\<rparr>)" "area base 512 (fx_image (state c)) m5"
    using area_write_raw [of base 512 "?h @ ?st @ ?v" "c\<lparr>mem := m4\<rparr>" "replicate 96 0"] m4(2) h by (auto simp: fx_image_def)
  show ?thesis
    using m1 m2(1) m3(1) m4(1) m5 assms(2,3) by (auto simp: fxsave_def fx_fields_def [symmetric] Let_def simp del: One_nat_def)
qed

section \<open>FXRSTOR reads it\<close>

text \<open>The registers FXRSTOR leaves: those that were saved, over the registers \<open>s0\<close> it is executed with.\<close>

definition fx_restored :: "fp_env \<Rightarrow> cpu_state \<Rightarrow> cpu_state \<Rightarrow> cpu_state" where
  "fx_restored fp s s0 =
     s0\<lparr>x87_control_word := x87_control_word s AND NOT 0xE0C0, x87_status_word := x87_status_word s,
       x87_top := ucast (drop_bit 11 (x87_status_word s) AND 7), mxcsr := mxcsr s AND 0xFFFF,
       x87_stack := map (\<lambda>i. if x87_tags s ! i = 3 then x87_stack s0 ! i else x87_stack s ! i) [0..<8],
       x87_tags := map (\<lambda>i. if x87_tags s ! i = 3 then 3 else if f80_eq0 fp (x87_stack s ! i) then 1 else 0) [0..<8],
       vectors := map (\<lambda>i. take_bit 128 (vectors s ! i)) [0..<16] @ drop 16 (vectors s0)\<rparr>"

lemma decode_encode [simp]: "decode_ext80 (st_image v) = v"
  by (simp add: decode_ext80_def st_image_def encode_ext80_def of_le_bytes_le_bytes take_bit_word_eq_self)

lemma image_parts:
  "take 2 (fx_image s) = le_bytes 2 (ucast (x87_control_word s) :: u64)"
  "take 2 (drop 2 (fx_image s)) = le_bytes 2 (ucast (x87_status_word s) :: u64)"
  "take 1 (drop 4 (fx_image s)) = le_bytes 1 (ucast (x87_ftw s) :: u64)"
  "take 4 (drop 24 (fx_image s)) = le_bytes 4 (ucast (mxcsr s) :: u64)"
  "p < 8 \<Longrightarrow> take 16 (drop (32 + p * 16) (fx_image s)) = st_image (x87_stack s ! p)"
  "i < 16 \<Longrightarrow> take 16 (drop (160 + i * 16) (fx_image s)) = le_bytes 16 (vectors s ! i)"
proof -
  note f = fx_image_def fx_fields_def field_bytes_def
  show "take 2 (fx_image s) = le_bytes 2 (ucast (x87_control_word s) :: u64)"
    "take 2 (drop 2 (fx_image s)) = le_bytes 2 (ucast (x87_status_word s) :: u64)"
    "take 1 (drop 4 (fx_image s)) = le_bytes 1 (ucast (x87_ftw s) :: u64)"
    "take 4 (drop 24 (fx_image s)) = le_bytes 4 (ucast (mxcsr s) :: u64)"
    by (simp_all add: f)
  have h: "length (field_bytes (fx_fields s)) = 32" by (simp add: f)
  have d: "drop (n + k) (xs @ ys) = drop k ys" if "length xs = n" for n k and xs ys :: "u8 list" using that by auto
  let ?st = "concat (map (\<lambda>i. st_image (x87_stack s ! i)) [0..<8])" and ?v = "concat (map (\<lambda>i. le_bytes 16 (vectors s ! i)) [0..<16])"
  have "drop (32 + p * 16) (fx_image s) = drop (16 * p) (?st @ ?v @ replicate 96 0)" for p
    unfolding fx_image_def using d [OF h, of "p * 16"] by (simp only: mult.commute)
  then show "take 16 (drop (32 + p * 16) (fx_image s)) = st_image (x87_stack s ! p)" if "p < 8"
    using concat_field [of "\<lambda>i. st_image (x87_stack s ! i)" 16 p 8] that by simp
  have "length (field_bytes (fx_fields s) @ ?st) = 160" using h by simp
  then have "drop (160 + i * 16) (fx_image s) = drop (16 * i) (?v @ replicate 96 0)" for i
    unfolding fx_image_def append_assoc [symmetric, of "field_bytes (fx_fields s)" ?st] using d by (simp only: mult.commute)
  then show "take 16 (drop (160 + i * 16) (fx_image s)) = le_bytes 16 (vectors s ! i)" if "i < 16"
    using concat_field [of "\<lambda>i. le_bytes 16 (vectors s ! i)" 16 i 16] that by simp
qed

definition st_part :: "fp_env \<Rightarrow> cpu_state \<Rightarrow> nat \<Rightarrow> cpu_state \<Rightarrow> cpu_state" where
  "st_part fp s n s0 =
     s0\<lparr>x87_stack := map (\<lambda>i. if i < n \<and> x87_tags s ! i \<noteq> 3 then x87_stack s ! i else x87_stack s0 ! i) [0..<8],
       x87_tags := map (\<lambda>i. if i < n then (if x87_tags s ! i = 3 then 3 else if f80_eq0 fp (x87_stack s ! i) then 1 else 0)
         else x87_tags s0 ! i) [0..<8]\<rparr>"

definition xmm_part :: "cpu_state \<Rightarrow> nat \<Rightarrow> nat \<Rightarrow> cpu_state \<Rightarrow> cpu_state" where
  "xmm_part s k j s0 =
     s0\<lparr>vectors := map (\<lambda>i. if k \<le> i \<and> i < j then take_bit 128 (vectors s ! i) else vectors s0 ! i) [0..<32]\<rparr>"

lemma area_read_st:
  assumes "area base 512 (fx_image s) (mem c)" "p < 8"
  shows "\<exists>m. read_fxsave_st base p c = (x87_stack s ! p, c\<lparr>mem := m\<rparr>) \<and> area base 512 (fx_image s) m"
  using area_get_raw [OF assms(1), of "32 + p * 16" 16] assms(2) image_parts(5) [OF assms(2), of s]
  by (auto simp: read_fxsave_st_def add.assoc)

lemma area_restore_st:
  assumes "area base 512 (fx_image s) (mem c)" "length (x87_stack (state c)) = 8" "length (x87_tags (state c)) = 8" "n \<le> 8"
  shows "\<exists>m. fold (restore_st fp base (ucast (x87_ftw s))) [0..<n] c = c\<lparr>mem := m, state := st_part fp s n (state c)\<rparr> \<and>
    area base 512 (fx_image s) m"
  using assms(4)
proof (induction n)
  case 0
  have "st_part fp s 0 (state c) = state c"
    using map_nth [of "x87_stack (state c)"] map_nth [of "x87_tags (state c)"] assms(2,3) by (simp add: st_part_def del: map_nth upt.simps)
  then show ?case using assms(1) by (auto intro!: exI [of _ "mem c"])
next
  case (Suc n)
  then obtain m where m: "fold (restore_st fp base (ucast (x87_ftw s))) [0..<n] c = c\<lparr>mem := m, state := st_part fp s n (state c)\<rparr>"
    "area base 512 (fx_image s) m" by auto
  let ?c = "c\<lparr>mem := m, state := st_part fp s n (state c)\<rparr>"
  have b: "drop_bit n (ucast (x87_ftw s) :: u64) AND 1 \<noteq> 0 \<longleftrightarrow> x87_tags s ! n \<noteq> 3"
    using Suc.prems ftw_bit [of n s] by (simp add: and_one_eq odd_iff_mod_2_eq_one [symmetric] bit_iff_odd_drop_bit [symmetric] bit_simps del: odd_iff_mod_2_eq_one)
  obtain m' where m': "read_fxsave_st base n ?c = (x87_stack s ! n, ?c\<lparr>mem := m'\<rparr>)" "area base 512 (fx_image s) m'"
    using area_read_st [of base s ?c n] m(2) Suc.prems by auto
  have st: "map (\<lambda>i. if i < Suc n \<and> P i then f i else g i) [0..<8] = (if P n then (map (\<lambda>i. if i < n \<and> P i then f i else g i) [0..<8])[n := f n]
      else map (\<lambda>i. if i < n \<and> P i then f i else g i) [0..<8])" for P and f g :: "nat \<Rightarrow> float80"
    using Suc.prems by (auto simp: less_Suc_eq nth_list_update simp del: upt.simps intro!: nth_equalityI)
  have tg: "map (\<lambda>i. if i < Suc n then f i else g i) [0..<8] = (map (\<lambda>i. if i < n then f i else g i) [0..<8])[n := f n]" for f g :: "nat \<Rightarrow> u8"
    using Suc.prems by (auto simp: less_Suc_eq nth_list_update simp del: upt.simps intro!: nth_equalityI)
  have "st_part fp s (Suc n) (state c) = (st_part fp s n (state c))
      \<lparr>x87_stack := if x87_tags s ! n = 3 then x87_stack (st_part fp s n (state c)) else (x87_stack (st_part fp s n (state c)))[n := x87_stack s ! n],
       x87_tags := (x87_tags (st_part fp s n (state c)))[n := if x87_tags s ! n = 3 then 3 else if f80_eq0 fp (x87_stack s ! n) then 1 else 0]\<rparr>"
    unfolding st_part_def st tg by simp
  moreover have "fold (restore_st fp base (ucast (x87_ftw s))) [0..<Suc n] c = restore_st fp base (ucast (x87_ftw s)) n ?c"
    using m(1) by simp
  ultimately show ?case
    using m(2) m' b unfolding restore_st_def [of fp base "ucast (x87_ftw s)" n ?c] by (cases "x87_tags s ! n = 3") auto
qed

lemma area_restore_xmm:
  assumes "area base 512 (fx_image s) (mem c)" "length (vectors (state c)) = 32" "k + j \<le> 16"
  shows "\<exists>m. restore_xmm base [k..<k + j] c = (no_stop, c\<lparr>mem := m, state := xmm_part s k (k + j) (state c)\<rparr>) \<and> area base 512 (fx_image s) m"
  using assms
proof (induction j arbitrary: k c)
  case 0
  have f: "(k \<le> i \<and> i < k) = False" for i by auto
  have "xmm_part s k k (state c) = state c"
    unfolding xmm_part_def f using map_nth [of "vectors (state c)"] "0.prems"(2) by simp
  then show ?case using 0 by (auto intro!: exI [of _ "mem c"])
next
  case (Suc j)
  let ?s = "(state c)\<lparr>vectors := (vectors (state c))[k := take_bit 128 (vectors s ! k)]\<rparr>"
  obtain m where m: "read_raw (base + 160 + word_of_nat (k * 16)) 16 c = (Inr (le_bytes 16 (vectors s ! k)), c\<lparr>mem := m\<rparr>)" "area base 512 (fx_image s) m"
    using area_read_raw [OF Suc.prems(1), of "160 + k * 16" 16] image_parts(6) [of k s] Suc.prems(3) by (auto simp: add.assoc)
  obtain m' where m': "restore_xmm base [Suc k..<Suc k + j] (c\<lparr>mem := m, state := ?s\<rparr>) =
      (no_stop, c\<lparr>mem := m', state := xmm_part s (Suc k) (Suc k + j) ?s\<rparr>)" "area base 512 (fx_image s) m'"
    using Suc.IH [of "c\<lparr>mem := m, state := ?s\<rparr>" "Suc k"] m(2) Suc.prems(2,3) by auto
  have e: "[k..<k + Suc j] = k # [Suc k..<Suc k + j]" by (simp add: upt_conv_Cons)
  have x: "xmm_part s (Suc k) (Suc k + j) ?s = xmm_part s k (k + Suc j) (state c)"
    using Suc.prems(2,3) unfolding xmm_part_def by (auto simp: nth_list_update simp del: upt.simps intro!: arg_cong [where f = "\<lambda>v. (state c)\<lparr>vectors := v\<rparr>"])
  show ?case
    unfolding e using m m' by (auto simp: x of_le_bytes_le_bytes simp del: upt_Suc add_Suc of_nat_mult)
qed

lemma of_le_bytes_ucast:
  fixes x :: "'a::len word"
  assumes "LENGTH('a) \<le> 8 * w"
  shows "(of_le_bytes (le_bytes w (ucast x :: u64)) :: u64) = ucast x"
proof -
  have "take_bit (8 * w) (ucast x :: u64) = ucast x"
    using assms bit_imp_le_length [of x] by (intro bit_word_eqI) (fastforce simp: bit_simps)
  then show ?thesis by (simp add: of_le_bytes_le_bytes)
qed

text \<open>The registers between the header and the register loops.\<close>

definition fx_header :: "cpu_state \<Rightarrow> cpu_state \<Rightarrow> cpu_state" where
  "fx_header s s0 =
     (set_x87_status_word (set_x87_control_word s0 (x87_control_word s AND NOT 0xE0C0)) (x87_status_word s))\<lparr>mxcsr := mxcsr s AND 0xFFFF\<rparr>"

lemma restored_parts:
  assumes "length (vectors s0) = 32"
  shows "xmm_part s 0 16 (st_part fp s 8 (fx_header s s0)) = fx_restored fp s s0"
proof -
  have "map (\<lambda>i. if 0 \<le> i \<and> i < 16 then f i else xs ! i) [0..<32] = map f [0..<16] @ drop 16 xs" if "length xs = 32" for f and xs :: "simd list"
    using that by (intro nth_equalityI) (auto simp: nth_append simp del: upt.simps)
  moreover have "map (\<lambda>i. if i < 8 \<and> P i then f i else g i) [0..<8] = map (\<lambda>i. if P i then f i else g i) [0..<8]"
    "map (\<lambda>i. if i < 8 then h i else k i) [0..<8] = map h [0..<8]" for P and f g :: "nat \<Rightarrow> float80" and h k :: "nat \<Rightarrow> u8"
    by (auto simp del: upt.simps)
  ultimately show ?thesis
    using assms by (simp add: xmm_part_def st_part_def fx_restored_def fx_header_def set_x87_status_word_def set_x87_control_word_def if_not_P cong: if_cong del: upt.simps)
qed

lemma fxrstor_area:
  assumes "area base 512 (fx_image s) (mem c)" "memory_address c = base" "base AND 0xF = 0" "wf_cpu (state c)"
  shows "\<exists>m. fxrstor fp b c = (no_stop, c\<lparr>mem := m, state := fx_restored fp s (state c)\<rparr>) \<and> area base 512 (fx_image s) m"
proof -
  have wf: "length (x87_stack (state c)) = 8" "length (x87_tags (state c)) = 8" "length (vectors (state c)) = 32"
    using assms(4) by (simp_all add: wf_cpu_def)
  have rd: "\<exists>m. area base 512 (fx_image s) m \<and> (\<forall>f :: u64 \<Rightarrow> 'a handler.
      with_field (base + word_of_nat k) w f (c\<lparr>mem := m0\<rparr>) = f (of_le_bytes (take w (drop k (fx_image s)))) (c\<lparr>mem := m\<rparr>))"
    if "area base 512 (fx_image s) m0" "valid_width w" "k + w \<le> 512" for m0 w k
    using area_load [of base 512 "fx_image s" "c\<lparr>mem := m0\<rparr>" w k] that by (auto simp: with_field_def)
  have v: "of_le_bytes (take 2 (drop 0 (fx_image s))) = (ucast (x87_control_word s) :: u64)"
    "of_le_bytes (take 2 (drop 2 (fx_image s))) = (ucast (x87_status_word s) :: u64)"
    "of_le_bytes (take 1 (drop 4 (fx_image s))) = (ucast (x87_ftw s) :: u64)"
    "of_le_bytes (take 4 (drop 24 (fx_image s))) = (ucast (mxcsr s) :: u64)"
    unfolding drop_0 image_parts by (simp_all add: of_le_bytes_ucast)
  let ?s1 = "fx_header s (state c)"
  obtain m1 where m1: "validate_memory_span data_read base 512 c = (None, c\<lparr>mem := m1\<rparr>)" "area base 512 (fx_image s) m1"
    using area_span [OF assms(1), of 0 512 data_read] by auto
  have u: "ucast (ucast x :: u64) = x" "ucast (ucast y :: u64) = y" for x :: u16 and y :: u32
    by (auto intro!: bit_word_eqI simp: bit_simps)
  obtain a1 where a1: "area base 512 (fx_image s) a1"
    "\<And>f :: u64 \<Rightarrow> 'a handler. with_field base 2 f (c\<lparr>mem := m1\<rparr>) = f (ucast (x87_control_word s)) (c\<lparr>mem := a1\<rparr>)"
    using rd [OF m1(2), of 2 0] v(1) by (auto simp: valid_width_def)
  obtain a2 where a2: "area base 512 (fx_image s) a2"
    "\<And>f :: u64 \<Rightarrow> 'a handler. with_field (base + 2) 2 f (c\<lparr>mem := a1\<rparr>) = f (ucast (x87_status_word s)) (c\<lparr>mem := a2\<rparr>)"
    using rd [OF a1(1), of 2 2] v(2) by (auto simp: valid_width_def)
  obtain a3 where a3: "area base 512 (fx_image s) a3"
    "\<And>f :: u64 \<Rightarrow> 'a handler. with_field (base + 4) 1 f (c\<lparr>mem := a2\<rparr>) = f (ucast (x87_ftw s)) (c\<lparr>mem := a3\<rparr>)"
    using rd [OF a2(1), of 1 4] v(3) by (auto simp: valid_width_def)
  obtain m2 where m2: "area base 512 (fx_image s) m2"
    "\<And>f :: u64 \<Rightarrow> 'a handler. with_field (base + 24) 4 f (c\<lparr>mem := a3\<rparr>) = f (ucast (mxcsr s)) (c\<lparr>mem := m2\<rparr>)"
    using rd [OF a3(1), of 4 24] v(4) by (auto simp: valid_width_def)
  have fx: "fxrstor fp b c = restore_xmm base [0..<16] (fold (restore_st fp base (ucast (x87_ftw s))) [0..<8] (c\<lparr>mem := m2, state := ?s1\<rparr>))"
    using assms(2,3) m1(1) a1(2) a2(2) a3(2) m2(2) by (simp add: fxrstor_def fx_header_def u Let_def del: One_nat_def)
  obtain m3 where m3: "fold (restore_st fp base (ucast (x87_ftw s))) [0..<8] (c\<lparr>mem := m2, state := ?s1\<rparr>) =
      c\<lparr>mem := m3, state := st_part fp s 8 ?s1\<rparr>" "area base 512 (fx_image s) m3"
    using area_restore_st [of base s "c\<lparr>mem := m2, state := ?s1\<rparr>" 8 fp] m2(1) wf by (auto simp: fx_header_def set_x87_status_word_def set_x87_control_word_def)
  obtain m4 where m4: "restore_xmm base [0..<16] (c\<lparr>mem := m3, state := st_part fp s 8 ?s1\<rparr>) =
      (no_stop, c\<lparr>mem := m4, state := xmm_part s 0 16 (st_part fp s 8 ?s1)\<rparr>)" "area base 512 (fx_image s) m4"
    using area_restore_xmm [of base s "c\<lparr>mem := m3, state := st_part fp s 8 ?s1\<rparr>" 0 16] m3(2) wf
    by (auto simp: st_part_def fx_header_def set_x87_status_word_def set_x87_control_word_def)
  show ?thesis using fx m3(1) m4 restored_parts [OF wf(3)] by auto
qed

lemma restored_view:
  assumes "fpu_inv s"
  shows "st_view (fx_restored fp s s0) = st_view s"
proof -
  note inv = fpu_invD [OF assms]
  show ?thesis
    using inv top_bits [OF assms]
    by (intro st_view_eqI) (simp_all add: st_view_nth Let_def fx_restored_def del: upt.simps)
qed

text \<open>C32: FXSAVE to an aligned writable area succeeds and FXRSTOR from it, executed later with any other register contents, brings back the
  whole register stack (values, empty places, stack pointer), the status word, the defined bits of the control word and of MXCSR, and the low 128 bits of
  XMM0 to XMM15, whose upper parts it clears; no other register changes.\<close>

theorem fxsave_fxrstor_roundtrip:
  assumes "plain (mem c)" "memory_address c = base" "base AND 0xF = 0"
    "\<forall>i<512. allowed_at (can data_write) (pages (mem c)) (base + word_of_nat i)" "fpu_inv (state c)"
  shows "\<exists>m. handle_code_FXSAVE_M512BYTE c = (no_stop, c\<lparr>mem := m\<rparr>) \<and>
    (\<forall>c' fp. mem c' = m \<and> memory_address c' = base \<and> wf_cpu (state c') \<longrightarrow>
      (\<exists>m'. handle_code_FXRSTOR_M512BYTE fp c' = (no_stop, c'\<lparr>mem := m', state := fx_restored fp (state c) (state c')\<rparr>)) \<and>
      st_view (fx_restored fp (state c) (state c')) = st_view (state c))"
proof -
  obtain m where m: "fxsave False c = (no_stop, c\<lparr>mem := m\<rparr>)" "area base 512 (fx_image (state c)) m"
    using fxsave_area [OF assms(1-4)] by blast
  have "\<exists>m'. handle_code_FXRSTOR_M512BYTE fp c' = (no_stop, c'\<lparr>mem := m', state := fx_restored fp (state c) (state c')\<rparr>)"
    if "mem c' = m" "memory_address c' = base" "wf_cpu (state c')" for c' fp
    using fxrstor_area [of base "state c" c' fp False] m(2) assms(3) that by (auto simp: handle_code_FXRSTOR_M512BYTE_def)
  then show ?thesis
    using m(1) restored_view [OF assms(5)] by (intro exI [of _ m]) (auto simp: handle_code_FXSAVE_M512BYTE_def)
qed

end
