(* ===== verification/X87_Decimal.thy ===== *)
theory X87_Decimal
  imports X87_State
begin

text \<open>
  Packed decimal integers: FBSTP and FBLD.
\<close>

section \<open>Decimal integers\<close>

text \<open>The digits of a number, two per byte from the lowest.\<close>

fun bcd_bytes :: "nat \<Rightarrow> nat \<Rightarrow> u8 list" where
  "bcd_bytes 0 v = []"
| "bcd_bytes (Suc n) v = word_of_nat (16 * (v div 10 mod 10) + v mod 10) # bcd_bytes n (v div 100)"

lemma bcd_bytes_length [simp]: "length (bcd_bytes n v) = n"
  by (induction n arbitrary: v) simp_all

lemma bcd_bytes_nth:
  "i < n \<Longrightarrow> bcd_bytes n v ! i = word_of_nat (16 * (v div 10 ^ (2 * i + 1) mod 10) + v div 10 ^ (2 * i) mod 10)"
proof (induction n arbitrary: v i)
  case (Suc n)
  show ?case
  proof (cases i)
    case (Suc j)
    have d: "v div 100 div 10 ^ k = v div 10 ^ (k + 2)" for k by (simp add: div_mult2_eq [symmetric] power_add)
    have e: "2 * Suc j = 2 * j + 2" "2 * Suc j + 1 = 2 * j + 1 + 2" by simp_all
    show ?thesis using Suc.IH [of j "v div 100"] Suc.prems Suc unfolding Suc e d by simp
  qed simp
qed simp

lemma packed_digits:
  assumes "a < 10" "b < 10"
  shows "push_bit 4 (word_of_nat b) OR word_of_nat a = (word_of_nat (16 * b + a) :: u8)"
    "(word_of_nat (16 * b + a) :: u64) AND 0x0F = word_of_nat a"
    "drop_bit 4 (word_of_nat (16 * b + a) :: u64) AND 0x0F = word_of_nat b"
proof -
  have m: "unat (w AND 0x0F) = unat w mod 16" for w :: u64
  proof -
    have "w AND 0x0F = take_bit 4 w" by (simp add: take_bit_eq_mask mask_eq_exp_minus_1)
    then have "unat (w AND 0x0F) = take_bit 4 (unat w)" by (simp only: unsigned_take_bit_eq)
    then show ?thesis by (simp add: take_bit_eq_mod)
  qed
  have u: "unat (word_of_nat k :: u64) = k" if "k < 256" for k using that by (simp add: unat_of_nat)
  have lt: "16 * b + a < 256" "a < 256" "b < 256" using assms by simp_all
  show "(word_of_nat (16 * b + a) :: u64) AND 0x0F = word_of_nat a"
    unfolding word_unat_eq_iff m u [OF lt(1)] u [OF lt(2)] using assms by simp
  show "drop_bit 4 (word_of_nat (16 * b + a) :: u64) AND 0x0F = word_of_nat b"
    unfolding word_unat_eq_iff m unat_drop_bit_eq u [OF lt(1)] u [OF lt(3)] using assms by (simp add: drop_bit_eq_div)
  have "a = 0 \<or> a = 1 \<or> a = 2 \<or> a = 3 \<or> a = 4 \<or> a = 5 \<or> a = 6 \<or> a = 7 \<or> a = 8 \<or> a = 9" using assms(1) by arith
  moreover have "b = 0 \<or> b = 1 \<or> b = 2 \<or> b = 3 \<or> b = 4 \<or> b = 5 \<or> b = 6 \<or> b = 7 \<or> b = 8 \<or> b = 9" using assms(2) by arith
  ultimately show "push_bit 4 (word_of_nat b) OR word_of_nat a = (word_of_nat (16 * b + a) :: u8)"
    by (elim disjE) simp_all
qed

lemma ucast_of_byte: "k < 256 \<Longrightarrow> ucast (word_of_nat k :: u8) = (word_of_nat k :: u64)"
  by (simp add: word_unat_eq_iff unat_of_nat unsigned_ucast_eq take_bit_nat_eq_self)

lemma area_bcd_store:
  assumes "area base k xs (mem c)" "length xs + n \<le> k"
  shows "\<exists>m. bcd_store base (length xs) n v c = (None, c\<lparr>mem := m\<rparr>) \<and> area base k (xs @ bcd_bytes n (unat v)) m"
  using assms
proof (induction n arbitrary: v xs c)
  case (Suc n)
  let ?b = "word_of_nat (16 * (unat v div 10 mod 10) + unat v mod 10) :: u8"
  have d: "ucast (w mod 10) = (word_of_nat (unat w mod 10) :: u8)" for w :: u64
    by (simp add: word_unat_eq_iff unat_of_nat unat_mod unsigned_ucast_eq take_bit_nat_eq_self)
  have p: "push_bit 4 (ucast (v div 10 mod 10)) OR ucast (v mod 10) = ?b"
    using packed_digits(1) [of "unat v mod 10" "unat v div 10 mod 10"] by (simp add: d unat_div)
  obtain m where m: "ctx_write c (base + word_of_nat (length xs)) (ucast ?b) 1 = (True, c\<lparr>mem := m\<rparr>)" "area base k (xs @ [?b]) m"
    using area_store [OF Suc.prems(1), of 1 "ucast ?b"] Suc.prems(2) by (auto simp: valid_width_def)
  obtain m' where m': "bcd_store base (Suc (length xs)) n (v div 10 div 10) (c\<lparr>mem := m\<rparr>) = (None, c\<lparr>mem := m'\<rparr>)"
    "area base k (xs @ ?b # bcd_bytes n (unat v div 100)) m'"
    using Suc.IH [of "xs @ [?b]" "c\<lparr>mem := m\<rparr>" "v div 10 div 10"] m(2) Suc.prems(2) by (auto simp: unat_div div_mult2_eq [symmetric])
  show ?case using m(1) m' unfolding bcd_store.simps Let_def p by (auto simp del: One_nat_def)
qed (simp add: area_same)

lemma area_bcd_load:
  assumes "area base k xs (mem c)" "i + n \<le> length xs" "take n (drop i xs) = bcd_bytes n v"
  shows "\<exists>m. bcd_load base i n mag f c = (Inr (mag + f * word_of_nat (v mod 100 ^ n)), c\<lparr>mem := m\<rparr>) \<and> area base k xs m"
  using assms
proof (induction n arbitrary: i v mag f c)
  case (Suc n)
  let ?a = "v mod 10" and ?b = "v div 10 mod 10"
  have x: "xs ! i = word_of_nat (16 * ?b + ?a)" "take n (drop (Suc i) xs) = bcd_bytes n (v div 100)" "take 1 (drop i xs) = [xs ! i]"
    using Suc.prems(2,3) by (auto simp: Cons_nth_drop_Suc [symmetric])
  have lt: "16 * ?b + ?a < 256" by (rule less_le_trans [of _ "16 * 10 + 10"]) (simp_all add: add_strict_mono)
  then have b: "ucast (xs ! i) = (word_of_nat (16 * ?b + ?a) :: u64)"
    unfolding x(1) by (rule ucast_of_byte)
  obtain m where m: "ctx_read c (base + word_of_nat i) 1 = (Some (word_of_nat (16 * ?b + ?a)), c\<lparr>mem := m\<rparr>)" "area base k xs m"
    using area_load [OF Suc.prems(1), of 1 i] Suc.prems(2) x(3) b by (auto simp: valid_width_def)
  have d: "(word_of_nat (16 * ?b + ?a) :: u64) AND 0x0F = word_of_nat ?a" "drop_bit 4 (word_of_nat (16 * ?b + ?a) :: u64) AND 0x0F = word_of_nat ?b"
    using packed_digits(2,3) [of ?a ?b] by simp_all
  have "v mod 100 ^ Suc n = ?a + 10 * ?b + 100 * (v div 100 mod 100 ^ n)"
    using mod_mult2_eq [of v 10 10] by (simp add: mod_mult2_eq)
  then have e: "mag + word_of_nat ?a * f + word_of_nat ?b * (f * 10) + f * 10 * 10 * word_of_nat (v div 100 mod 100 ^ n) =
      mag + f * word_of_nat (v mod 100 ^ Suc n)" by (simp add: algebra_simps)
  obtain m' where "bcd_load base (Suc i) n (mag + word_of_nat ?a * f + word_of_nat ?b * (f * 10)) (f * 10 * 10) (c\<lparr>mem := m\<rparr>) =
      (Inr (mag + f * word_of_nat (v mod 100 ^ Suc n)), c\<lparr>mem := m'\<rparr>)" "area base k xs m'"
    using Suc.IH [of "c\<lparr>mem := m\<rparr>" "Suc i" "v div 100" "mag + word_of_nat ?a * f + word_of_nat ?b * (f * 10)" "f * 10 * 10"] m(2) x(2) Suc.prems(2)
    unfolding e by auto
  then show ?case using m(1) unfolding bcd_load.simps Let_def by (auto simp: d simp del: One_nat_def of_nat_add of_nat_mult power_Suc)
qed (simp add: area_same)

section \<open>The decimal round trip\<close>

lemma f80_neg_neg [simp]: "f80_neg (f80_neg x) = x"
  by (simp add: f80_neg_def xor.assoc)

lemma load_bcd:
  fixes sign :: u64
  assumes "area base 10 (bcd_bytes 9 (unat n) @ le_bytes 1 sign) (mem c)" "memory_address c = base" "unat n < 10 ^ 18" "sign = (if neg then 0x80 else 0)"
    "fpu_inv (state c)" "last (st_view (state c)) = None"
  shows "\<exists>m s'. handle_code_FBLD_M80BCD fp c = (no_stop, c\<lparr>mem := m, state := s'\<rparr>) \<and>
    st_view s' = Some (if neg then f80_neg (ui64_to_extF80 fp n) else ui64_to_extF80 fp n) # butlast (st_view (state c)) \<and>
    stack_only (state c) s'"
proof -
  let ?xs = "bcd_bytes 9 (unat n) @ le_bytes 1 sign"
  have "(100 :: nat) ^ 9 = 10 ^ 18" by simp
  then have w: "word_of_nat (unat n mod 100 ^ 9) = n" using assms(3) by simp
  obtain m1 where m1: "bcd_load base 0 9 0 1 c = (Inr n, c\<lparr>mem := m1\<rparr>)" "area base 10 ?xs m1"
    using area_bcd_load [OF assms(1), of 0 9 "unat n" 0 1] w by (auto simp del: bcd_bytes.simps bcd_load.simps One_nat_def)
  have "of_le_bytes (take 1 (drop 9 ?xs)) = sign"
    using assms(4) by (cases neg) (simp_all add: le_bytes_def del: bcd_bytes.simps)
  then obtain m2 where m2: "ctx_read (c\<lparr>mem := m1\<rparr>) (base + 9) 1 = (Some sign, c\<lparr>mem := m2\<rparr>)"
    using area_load [of base 10 ?xs "c\<lparr>mem := m1\<rparr>" 1 9] m1(2) by (auto simp: valid_width_def simp del: bcd_bytes.simps One_nat_def)
  have "sign AND 0x80 \<noteq> 0 \<longleftrightarrow> neg" using assms(4) by simp
  then show ?thesis
    using m1(1) m2 assms(2,5,6) push_eq [of "c\<lparr>mem := m2\<rparr>"] view_push(2) [OF assms(5,6)] stack_updates(7) [OF assms(5)]
    by (intro exI [of _ m2] exI [of _ "snd (x87_push (f80_eq0 fp) (state c) (if neg then f80_neg (ui64_to_extF80 fp n) else ui64_to_extF80 fp n))"])
      (auto simp: handle_code_FBLD_M80BCD_def x87_load_bcd_def Let_def simp del: bcd_load.simps One_nat_def)
qed

text \<open>C33: FBSTP of an integral value of at most 18 digits stores ten bytes: byte \<open>i\<close> below 9 holds the decimal digit \<open>2i\<close> of
  the magnitude in its low and digit \<open>2i + 1\<close> in its high nibble, and byte 9 is 0x80 for a negative value and 0 otherwise.
  It pops the value, and nothing else of the state changes but the register stack. FBLD from the same place, executed
  with any other register contents that leave room, pushes the same value and changes only the register stack. That the value
  is integral is stated by the conversions of SoftFloat: its magnitude converts to an integer and back.\<close>

theorem bcd_roundtrip:
  assumes "plain (mem c)" "memory_address c = base" "\<forall>i<10. allowed_at (can data_write) (pages (mem c)) (base + word_of_nat i)"
    "fpu_inv (state c)" "st_view (state c) ! 0 = Some v"
    "a = (if extF80_lt fp v (i32_to_extF80 fp 0) then f80_neg v else v)" "n = extF80_to_ui64 fp a softfloat_round_minMag"
    "ui64_to_extF80 fp n = a" "n < 10 ^ 18"
  shows "\<exists>m s1. handle_code_FBSTP_M80BCD fp c = (no_stop, c\<lparr>mem := m, state := s1\<rparr>) \<and> st_view s1 = tl (st_view (state c)) @ [None] \<and>
    stack_only (state c) s1 \<and>
    (\<forall>i<9. byte_at (can data_read) (pages m) (base + word_of_nat i) =
       Some (word_of_nat (16 * (unat n div 10 ^ (2 * i + 1) mod 10) + unat n div 10 ^ (2 * i) mod 10))) \<and>
    byte_at (can data_read) (pages m) (base + 9) = Some (if extF80_lt fp v (i32_to_extF80 fp 0) then 0x80 else 0) \<and>
    (\<forall>c'. mem c' = m \<and> memory_address c' = base \<and> fpu_inv (state c') \<and> last (st_view (state c')) = None \<longrightarrow>
      (\<exists>m' s2. handle_code_FBLD_M80BCD fp c' = (no_stop, c'\<lparr>mem := m', state := s2\<rparr>) \<and>
        st_view s2 = Some v # butlast (st_view (state c')) \<and> stack_only (state c') s2))"
proof -
  let ?neg = "extF80_lt fp v (i32_to_extF80 fp 0)"
  let ?sign = "(if ?neg then 0x80 else 0) :: u64"
  have n: "unat n < 10 ^ 18" using assms(9) by (simp add: word_less_nat_alt)
  have g: "x87_get (state c) 0 = v" using assms(5) by (rule view_zero)
  have "area base 10 [] (mem c)" using assms(1,3) by (intro area_nil) auto
  then obtain m1 where m1: "bcd_store base 0 9 n c = (None, c\<lparr>mem := m1\<rparr>)" "area base 10 (bcd_bytes 9 (unat n)) m1"
    using area_bcd_store [of base 10 "[]" c 9 n] by auto
  obtain m2 where m2: "ctx_write (c\<lparr>mem := m1\<rparr>) (base + 9) ?sign 1 = (True, c\<lparr>mem := m2\<rparr>)"
    "area base 10 (bcd_bytes 9 (unat n) @ le_bytes 1 ?sign) m2"
    using area_store [of base 10 "bcd_bytes 9 (unat n)" "c\<lparr>mem := m1\<rparr>" 1 ?sign] m1(2) by (auto simp: valid_width_def simp del: One_nat_def bcd_bytes.simps)
  have bytes: "byte_at (can data_read) (pages m2) (base + word_of_nat i) = Some ((bcd_bytes 9 (unat n) @ le_bytes 1 ?sign) ! i)" if "i < 10" for i
    using m2(2) that by (simp add: area_def del: bcd_bytes.simps)
  have digits: "byte_at (can data_read) (pages m2) (base + word_of_nat i) =
      Some (word_of_nat (16 * (unat n div 10 ^ (2 * i + 1) mod 10) + unat n div 10 ^ (2 * i) mod 10))" if "i < 9" for i
    unfolding bcd_bytes_nth [OF that, symmetric] using bytes [of i] that by (simp add: nth_append del: bcd_bytes.simps)
  have sign: "byte_at (can data_read) (pages m2) (base + 9) = Some (if ?neg then 0x80 else 0)"
    using bytes [of 9] by (simp add: nth_append le_bytes_def del: bcd_bytes.simps)
  have "x87_store_bcd fp c = (no_stop, c\<lparr>mem := m2\<rparr>)"
    using assms(2,5,6,7) m1(1) m2(1) g by (simp add: x87_store_bcd_def view_zero f80_of_int_def f80_to_uint64_def Let_def del: One_nat_def bcd_store.simps)
  then have st: "handle_code_FBSTP_M80BCD fp c = (no_stop, c\<lparr>mem := m2, state := snd (x87_pop (state c))\<rparr>)"
    using pop_eq [of "c\<lparr>mem := m2\<rparr>"] assms(4,5) by (simp add: handle_code_FBSTP_M80BCD_def then_pop_def)
  have ld: "\<exists>m' s2. handle_code_FBLD_M80BCD fp c' = (no_stop, c'\<lparr>mem := m', state := s2\<rparr>) \<and>
      st_view s2 = Some v # butlast (st_view (state c')) \<and> stack_only (state c') s2"
    if c': "mem c' = m2" "memory_address c' = base" "fpu_inv (state c')" "last (st_view (state c')) = None" for c'
    using load_bcd [of base n ?sign c' ?neg fp] m2(2) c' n assms(6,8) by (auto split: if_splits)
  show ?thesis
    using st ld digits sign view_pop(2) [OF assms(4)] stack_updates(9) [OF assms(4)] assms(5)
    by (intro exI [of _ m2] exI [of _ "snd (x87_pop (state c))"]) auto
qed

end
