(* ===== verification/X87_Arith.thy ===== *)
theory X87_Arith
  imports X87_Stack_Ops
begin

text \<open>
  x87 arithmetic against a reference definition: the operation on two values with the exceptions it raises, and what the
  instruction does with them by the masks of the control word.
\<close>

section \<open>Arithmetic\<close>

datatype x87_op = F_add | F_sub | F_subr | F_mul | F_div | F_divr | F_prem | F_prem1

datatype arith_source = A_fp nat | A_int nat | A_st

text \<open>The quotient with the exceptions of the division: a zero divisor gives a signed infinity, or NaN when the dividend is zero too.\<close>

definition x87_quotient :: "fp_env \<Rightarrow> float80 \<Rightarrow> float80 \<Rightarrow> float80 \<times> u16" where
  "x87_quotient fp n d =
     (if f80_eq0 fp d \<and> f80_eq0 fp n then (f80_quiet_NaN, kX87ExceptionInvalid)
      else if f80_eq0 fp d then (if f80_signbit n = f80_signbit d then f80_infinity else f80_neg f80_infinity, kX87ExceptionZeroDiv)
      else let q = extF80_div fp n d
           in (q, (if f80_eq0 fp q \<and> \<not> f80_eq0 fp n then kX87ExceptionUnderflow OR kX87ExceptionPrecision else 0) OR
                  (if extF80_eq fp (extF80_mul fp q d) n then 0 else kX87ExceptionPrecision)))"

fun arith_result :: "fp_env \<Rightarrow> x87_op \<Rightarrow> float80 \<Rightarrow> float80 \<Rightarrow> float80 \<times> u16" where
  "arith_result fp F_add a b = (extF80_add fp a b, 0)"
| "arith_result fp F_sub a b = (extF80_sub fp a b, 0)"
| "arith_result fp F_subr a b = (extF80_sub fp b a, 0)"
| "arith_result fp F_mul a b = (extF80_mul fp a b, 0)"
| "arith_result fp F_div a b = x87_quotient fp a b"
| "arith_result fp F_divr a b = x87_quotient fp b a"
| "arith_result fp F_prem a b = (f80_fmod fp a b, 0)"
| "arith_result fp F_prem1 a b = (extF80_rem fp a b, 0)"

text \<open>The exceptions an operation raises: its own, those of the result, and the loss of precision.\<close>

definition arith_exceptions :: "fp_env \<Rightarrow> x87_op \<Rightarrow> float80 \<Rightarrow> float80 \<Rightarrow> u16" where
  "arith_exceptions fp op a b =
     (case arith_result fp op a b of (v, e) \<Rightarrow> e OR (x87_classify_result fp v a b OR x87_precision_from_binary fp a b v))"

text \<open>The second operand: from memory, converted exactly, or a register. The first is ST(0) or the first register operand.\<close>

fun arith_operand :: "fp_env \<Rightarrow> arith_source \<Rightarrow> 'w ctx \<Rightarrow> float80 option option \<times> 'w ctx" where
  "arith_operand fp (A_fp w) c = (case ctx_read c (memory_address c) w of
     (r, c1) \<Rightarrow> (map_option (\<lambda>v. Some (f64_to_extF80 fp (if w = 4 then float_to_double fp (ucast v) else v))) r, c1))"
| "arith_operand fp (A_int w) c = (case ctx_read c (memory_address c) w of
     (r, c1) \<Rightarrow> (map_option (\<lambda>v. Some (i32_to_extF80 fp (if w = 2 then scast (ucast v :: u16) else ucast v))) r, c1))"
| "arith_operand fp A_st c = (Some (st_view (state c) ! st_place fp 1 c), c)"

fun arith_dst :: "fp_env \<Rightarrow> arith_source \<Rightarrow> 'w ctx \<Rightarrow> nat" where
  "arith_dst fp A_st c = st_place fp 0 c"
| "arith_dst fp _ c = 0"

text \<open>The register forms need two stack registers as operands.\<close>

definition arith_operands :: "arith_source \<Rightarrow> 'w ctx \<Rightarrow> bool" where
  "arith_operands src c \<longleftrightarrow> (src = A_st \<longrightarrow> st_operand 0 c \<and> st_operand 1 c)"

definition arith_catalog :: "((fp_env \<Rightarrow> 'w handler) \<times> arith_source \<times> x87_op \<times> bool) list" where
  "arith_catalog =
    [(handle_code_FADD_M32FP, A_fp 4, F_add, False), (handle_code_FSUBR_M32FP, A_fp 4, F_subr, False),
     (handle_code_FDIVR_M32FP, A_fp 4, F_divr, False), (handle_code_FMUL_M32FP, A_fp 4, F_mul, False), (handle_code_FSUB_M32FP, A_fp 4, F_sub, False),
     (handle_code_FDIV_M32FP, A_fp 4, F_div, False), (handle_code_FADD_ST0_STI, A_st, F_add, False), (handle_code_FMUL_ST0_STI, A_st, F_mul, False),
     (handle_code_FSUB_ST0_STI, A_st, F_sub, False), (handle_code_FSUBR_ST0_STI, A_st, F_subr, False), (handle_code_FDIV_ST0_STI, A_st, F_div, False),
     (handle_code_FDIVR_ST0_STI, A_st, F_divr, False), (handle_code_FADD_M64FP, A_fp 8, F_add, False),
     (handle_code_FSUBR_M64FP, A_fp 8, F_subr, False), (handle_code_FDIVR_M64FP, A_fp 8, F_divr, False),
     (handle_code_FMUL_M64FP, A_fp 8, F_mul, False), (handle_code_FSUB_M64FP, A_fp 8, F_sub, False), (handle_code_FDIV_M64FP, A_fp 8, F_div, False),
     (handle_code_FADD_STI_ST0, A_st, F_add, False), (handle_code_FMUL_STI_ST0, A_st, F_mul, False), (handle_code_FSUBR_STI_ST0, A_st, F_subr, False),
     (handle_code_FSUB_STI_ST0, A_st, F_sub, False), (handle_code_FDIVR_STI_ST0, A_st, F_divr, False), (handle_code_FDIV_STI_ST0, A_st, F_div, False),
     (handle_code_FADDP_STI_ST0, A_st, F_add, True), (handle_code_FMULP_STI_ST0, A_st, F_mul, True), (handle_code_FSUBRP_STI_ST0, A_st, F_subr, True),
     (handle_code_FSUBP_STI_ST0, A_st, F_sub, True), (handle_code_FDIVRP_STI_ST0, A_st, F_divr, True), (handle_code_FDIVP_STI_ST0, A_st, F_div, True),
     (handle_code_FIADD_M16INT, A_int 2, F_add, False), (handle_code_FIADD_M32INT, A_int 4, F_add, False),
     (handle_code_FIMUL_M16INT, A_int 2, F_mul, False), (handle_code_FIMUL_M32INT, A_int 4, F_mul, False),
     (handle_code_FISUB_M16INT, A_int 2, F_sub, False), (handle_code_FISUB_M32INT, A_int 4, F_sub, False),
     (handle_code_FISUBR_M16INT, A_int 2, F_subr, False), (handle_code_FISUBR_M32INT, A_int 4, F_subr, False),
     (handle_code_FIDIV_M16INT, A_int 2, F_div, False), (handle_code_FIDIV_M32INT, A_int 4, F_div, False),
     (handle_code_FIDIVR_M16INT, A_int 2, F_divr, False), (handle_code_FIDIVR_M32INT, A_int 4, F_divr, False),
     (handle_code_FPREM, A_st, F_prem, False), (handle_code_FPREM1, A_st, F_prem1, False)]"

lemmas arith_handler_defs =
  handle_code_FADD_M32FP_def handle_code_FSUBR_M32FP_def handle_code_FDIVR_M32FP_def handle_code_FMUL_M32FP_def handle_code_FSUB_M32FP_def
  handle_code_FDIV_M32FP_def handle_code_FADD_ST0_STI_def handle_code_FMUL_ST0_STI_def handle_code_FSUB_ST0_STI_def handle_code_FSUBR_ST0_STI_def
  handle_code_FDIV_ST0_STI_def handle_code_FDIVR_ST0_STI_def handle_code_FADD_M64FP_def handle_code_FSUBR_M64FP_def handle_code_FDIVR_M64FP_def
  handle_code_FMUL_M64FP_def handle_code_FSUB_M64FP_def handle_code_FDIV_M64FP_def handle_code_FADD_STI_ST0_def handle_code_FMUL_STI_ST0_def
  handle_code_FSUBR_STI_ST0_def handle_code_FSUB_STI_ST0_def handle_code_FDIVR_STI_ST0_def handle_code_FDIV_STI_ST0_def handle_code_FADDP_STI_ST0_def
  handle_code_FMULP_STI_ST0_def handle_code_FSUBRP_STI_ST0_def handle_code_FSUBP_STI_ST0_def handle_code_FDIVRP_STI_ST0_def
  handle_code_FDIVP_STI_ST0_def handle_code_FIADD_M16INT_def handle_code_FIADD_M32INT_def handle_code_FIMUL_M16INT_def handle_code_FIMUL_M32INT_def
  handle_code_FISUB_M16INT_def handle_code_FISUB_M32INT_def handle_code_FISUBR_M16INT_def handle_code_FISUBR_M32INT_def handle_code_FIDIV_M16INT_def
  handle_code_FIDIV_M32INT_def handle_code_FIDIVR_M16INT_def handle_code_FIDIVR_M32INT_def handle_code_FPREM_def handle_code_FPREM1_def

section \<open>The handlers are instances\<close>

fun arith_handler :: "fp_env \<Rightarrow> arith_source \<Rightarrow> (float80 \<Rightarrow> float80 \<Rightarrow> float80 \<times> u16) \<Rightarrow> 'w handler" where
  "arith_handler fp (A_fp w) fn = x87_binary_mem_st0_with_status fp w fn"
| "arith_handler fp (A_int w) fn = x87_binary_mem_int_st0_with_status fp w fn"
| "arith_handler fp A_st fn = x87_binary_st_regs_with_status fp 0 1 fn"

lemma plain_as_status:
  "x87_binary_mem_st0 fp w fn = x87_binary_mem_st0_with_status fp w (\<lambda>a b. (fn a b, 0))"
  "x87_binary_mem_int_st0 fp w fn = x87_binary_mem_int_st0_with_status fp w (\<lambda>a b. (fn a b, 0))"
  "x87_binary_st_regs fp i j fn = x87_binary_st_regs_with_status fp i j (\<lambda>a b. (fn a b, 0))"
  unfolding x87_binary_mem_st0_def x87_binary_mem_st0_with_status_def x87_binary_mem_int_st0_def
    x87_binary_mem_int_st0_with_status_def x87_binary_st_regs_def x87_binary_st_regs_with_status_def Let_def by (rule refl)+

lemma div_pair_quotient: "x87_div_pair fp True = (\<lambda>a b. x87_quotient fp b a)" "x87_div_pair fp False = x87_quotient fp"
  unfolding fun_eq_iff x87_div_pair_def x87_quotient_def Let_def by simp_all

lemma arith_catalog_instances:
  "list_all (\<lambda>(h, src, op, p). h fp = (if p then then_pop else id) (arith_handler fp src (arith_result fp op)) \<and>
     src \<in> {A_fp 4, A_fp 8, A_int 2, A_int 4, A_st} \<and> (p \<longrightarrow> src = A_st)) arith_catalog"
  by (simp add: arith_catalog_def arith_handler_defs plain_as_status div_pair_quotient f80_remainder_def [abs_def]
      arith_result.simps [abs_def])

section \<open>What they do\<close>

text \<open>The outcome of an operation on places \<open>d\<close> (with value \<open>a\<close>) and the operand \<open>b\<close>.\<close>

definition arith_outcome :: "fp_env \<Rightarrow> x87_op \<Rightarrow> bool \<Rightarrow> nat \<Rightarrow> float80 \<Rightarrow> float80 \<Rightarrow> 'w ctx \<Rightarrow> execution_result \<times> 'w ctx \<Rightarrow> bool" where
  "arith_outcome fp op p d a b c r \<longleftrightarrow>
     (let v = fst (arith_result fp op a b); e = arith_exceptions fp op a b; s1 = (state c)\<lparr>x87_status_word := status_with (state c) e\<rparr>;
          xs = (st_view (state c))[d := Some v]
      in if x87_exceptions_masked (state c) e
         then \<exists>s'. r = (no_stop, c\<lparr>state := s'\<rparr>) \<and> st_view s' = (if p then tl xs @ [None] else xs) \<and> fpu_inv s' \<and> stack_only s1 s'
         else r = (fp_stop c e, c\<lparr>state := s1\<rparr>))"

lemma finish_outcome:
  assumes "fpu_inv (state c)" "d < 8"
  shows "arith_outcome fp op False d a b c (x87_finish_binary fp (word_of_nat d) a b (arith_result fp op a b) c)"
proof -
  let ?e = "arith_exceptions fp op a b" and ?v = "fst (arith_result fp op a b)"
  let ?s = "(state c)\<lparr>x87_status_word := status_with (state c) ?e\<rparr>"
  have i: "fpu_inv ?s" using assms by simp
  have "x87_finish_binary fp (word_of_nat d) a b (arith_result fp op a b) c = x87_raise_if ?e (x87_put fp (word_of_nat d) ?v) c"
    by (simp add: x87_finish_binary_def arith_exceptions_def case_prod_beta)
  then show ?thesis
    using stack_updates(1,2) [OF i, of "f80_eq0 fp" "word_of_nat d" ?v] view_set [OF i assms(2), of "f80_eq0 fp" ?v]
    by (simp add: arith_outcome_def x87_raise_if_eq [OF assms(1)] x87_put_def Let_def)
qed

lemma then_pop_outcome:
  assumes "arith_outcome fp op False d a b c (h c)" "d = 0 \<or> st_view (state c) ! 0 \<noteq> None"
  shows "arith_outcome fp op True d a b c (then_pop h c)"
proof (cases "x87_exceptions_masked (state c) (arith_exceptions fp op a b)")
  case False
  then show ?thesis using assms(1) by (auto simp: arith_outcome_def then_pop_def Let_def)
next
  case True
  let ?s1 = "(state c)\<lparr>x87_status_word := status_with (state c) (arith_exceptions fp op a b)\<rparr>"
  let ?xs = "(st_view (state c))[d := Some (fst (arith_result fp op a b))]"
  obtain s' where s: "h c = (no_stop, c\<lparr>state := s'\<rparr>)" "st_view s' = ?xs" "fpu_inv s'" "stack_only ?s1 s'"
    using True assms(1) by (auto simp: arith_outcome_def Let_def)
  have n: "st_view s' ! 0 \<noteq> None" using assms(2) s(2) by (cases "d = 0") simp_all
  have "then_pop h c = (no_stop, c\<lparr>state := snd (x87_pop s')\<rparr>)"
    using n s pop_eq [of "c\<lparr>state := s'\<rparr>"] by (simp add: then_pop_def del: not_None_eq)
  then show ?thesis
    using True view_pop(2) [OF s(3) n] stack_updates(10) [OF s(3)] stack_only_trans [OF s(4) stack_updates(9) [OF s(3)]] s(2)
    by (simp add: arith_outcome_def Let_def)
qed

text \<open>With an empty operand: a stack underflow. The popping instructions go on to pop when it is masked; with an empty ST(0)
  that is a second underflow, which adds nothing.\<close>

definition arith_underflow :: "bool \<Rightarrow> 'w ctx \<Rightarrow> execution_result \<times> 'w ctx \<Rightarrow> bool" where
  "arith_underflow p c r \<longleftrightarrow>
     (let s1 = (state c)\<lparr>x87_status_word := stack_fault (state c) False\<rparr>
      in if \<not> bit (x87_control_word (state c)) 0 then r = (fp_stop c 0x41, c\<lparr>state := s1\<rparr>)
         else if p \<and> st_view (state c) ! 0 \<noteq> None
         then \<exists>s'. r = (no_stop, c\<lparr>state := s'\<rparr>) \<and> st_view s' = tl (st_view (state c)) @ [None] \<and> fpu_inv s' \<and> stack_only s1 s'
         else r = (no_stop, c\<lparr>state := s1\<rparr>))"

lemma top_field_stack_fault [simp]: "top_field (stack_fault s over) = top_field (x87_status_word s)"
  by (simp add: stack_fault_def top_field_def bit.conj_disj_distrib2 and.assoc)

lemma stack_fault_again: "stack_fault (s\<lparr>x87_status_word := stack_fault s over\<rparr>) over = stack_fault s over"
  unfolding stack_fault_def by (rule bit_word_eqI) (auto simp: bit_simps)

lemma underflow_outcome:
  assumes "fpu_inv (state c)" "h c = x87_stack_underflow c"
  shows "arith_underflow False c (h c)" "arith_underflow True c (then_pop h c)"
proof -
  let ?s = "(state c)\<lparr>x87_status_word := stack_fault (state c) False\<rparr>"
  have i: "fpu_inv ?s" using assms(1) by simp
  show "arith_underflow False c (h c)" using assms by (simp add: arith_underflow_def x87_stack_fault_eq)
  show "arith_underflow True c (then_pop h c)"
  proof (cases "bit (x87_control_word (state c)) 0")
    case False
    then show ?thesis using assms by (simp add: arith_underflow_def then_pop_def x87_stack_fault_eq)
  next
    case True
    then have t: "then_pop h c = x87_pop_or_underflow (c\<lparr>state := ?s\<rparr>)" using assms by (simp add: then_pop_def x87_stack_fault_eq)
    show ?thesis
    proof (cases "st_view (state c) ! 0 = None")
      case e: True
      then show ?thesis using i assms(1) True t pop_eq [of "c\<lparr>state := ?s\<rparr>"]
        by (simp add: arith_underflow_def x87_stack_fault_eq stack_fault_again)
    next
      case e: False
      then show ?thesis using i True t pop_eq [of "c\<lparr>state := ?s\<rparr>"] view_pop(2) [OF i] stack_updates(9,10) [OF i]
        by (simp add: arith_underflow_def del: not_None_eq)
    qed
  qed
qed

lemma fp_operand_state: "ctx_read c a w = (r, c1) \<Longrightarrow> state c1 = state c \<and> instr c1 = instr c"
  by (auto simp: ctx_read_def split: prod.splits)

lemma arith_mem_handler:
  assumes "fpu_inv (state c)" "src \<in> {A_fp 4, A_fp 8, A_int 2, A_int 4}" "arith_operand fp src c = (r, c1)"
  shows "state c1 = state c" "r = None \<Longrightarrow> arith_handler fp src fn c = (memory_fault c1 (memory_address c1), c1)"
    "r = Some b \<Longrightarrow> \<exists>y. b = Some y \<and> arith_handler fp src fn c =
       (if st_view (state c) ! 0 = None then x87_stack_underflow c1
        else x87_finish_binary fp 0 (the (st_view (state c) ! 0)) y (fn (the (st_view (state c) ! 0)) y) c1)"
proof -
  note defs = read_m_fp_def read_m_int_def f80_of_float_def f80_of_double_def f80_of_int_def
  have op: "\<exists>rd. arith_handler fp src fn = with_x87_operand rd (\<lambda>rhs c. if x87_is_empty (state c) 0 then x87_stack_underflow c
      else let lhs = x87_get (state c) 0 in x87_finish_binary fp 0 lhs rhs (fn lhs rhs) c) \<and>
    rd c = (map_option the r, c1) \<and> r \<noteq> Some None \<and> state c1 = state c"
    using assms(2,3)
    by (elim insertE; simp add: x87_binary_mem_st0_with_status_def x87_binary_mem_int_st0_with_status_def split: prod.splits)
      (auto simp: defs option.map_comp comp_def dest: fp_operand_state intro!: exI split: prod.splits)
  then obtain rd where rd: "arith_handler fp src fn = with_x87_operand rd (\<lambda>rhs c. if x87_is_empty (state c) 0 then x87_stack_underflow c
      else let lhs = x87_get (state c) 0 in x87_finish_binary fp 0 lhs rhs (fn lhs rhs) c)"
    "rd c = (map_option the r, c1)" "r \<noteq> Some None" and s: "state c1 = state c" by blast
  show "state c1 = state c" by (rule s)
  show "arith_handler fp src fn c = (memory_fault c1 (memory_address c1), c1)" if "r = None"
    using rd that by (simp add: with_x87_operand_def operand_fault_def)
  show "\<exists>y. b = Some y \<and> arith_handler fp src fn c =
       (if st_view (state c) ! 0 = None then x87_stack_underflow c1
        else x87_finish_binary fp 0 (the (st_view (state c) ! 0)) y (fn (the (st_view (state c) ! 0)) y) c1)" if "r = Some b"
    using rd that s view_zero(2) [of "state c"]
    by (cases b) (auto simp: with_x87_operand_def view_zero(1) Let_def)
qed

lemma arith_st_handler:
  assumes "fpu_inv (state c)"
  shows "arith_handler fp A_st fn c =
    (if arith_operands A_st c
     then case (st_view (state c) ! st_place fp 0 c, st_view (state c) ! st_place fp 1 c) of
         (Some a, Some b) \<Rightarrow> x87_finish_binary fp (word_of_nat (st_place fp 0 c)) a b (fn a b) c
       | _ \<Rightarrow> x87_stack_underflow c
     else (memory_fault c (memory_address c), c))"
proof -
  have w: "x87_st_index fp r = word_of_nat (unat (x87_st_index fp r) mod 8)" if "is_st r" for r
  proof -
    obtain n where n: "r = ST n" using \<open>is_st r\<close> by (cases r) simp_all
    then show ?thesis using unsigned_less [of n, where 'a = nat] by (simp add: unsigned_ucast_eq take_bit_nat_eq_self)
  qed
  show ?thesis
    using at_place(1) [of "state c" "x87_st_index fp (op_register (instr c) 0)"] at_place(2) [of "state c" "x87_st_index fp (op_register (instr c) 0)"]
      at_place(1) [of "state c" "x87_st_index fp (op_register (instr c) 1)"] at_place(2) [of "state c" "x87_st_index fp (op_register (instr c) 1)"]
      w [of "op_register (instr c) 0"]
    by (auto simp: x87_binary_st_regs_with_status_def with_st_regs_def arith_operands_def operand_fault_def Let_def st_place_def
        simp del: One_nat_def split: option.split)
qed

lemma arith_register_form:
  assumes "fpu_inv (state c)" "p \<longrightarrow> op_register (instr c) 1 = ST 0" "h = (if p then then_pop else id) (arith_handler fp A_st (arith_result fp op))"
  shows "if \<not> arith_operands A_st c then h c = (memory_fault c (memory_address c), c)
    else case (st_view (state c) ! st_place fp 0 c, st_view (state c) ! st_place fp 1 c) of
        (Some a, Some b) \<Rightarrow> arith_outcome fp op p (st_place fp 0 c) a b c (h c)
      | _ \<Rightarrow> arith_underflow p c (h c)"
proof -
  let ?d = "st_place fp 0 c" and ?k = "st_place fp 1 c" and ?h = "arith_handler fp A_st (arith_result fp op)"
  note h = arith_st_handler [OF assms(1), where fn = "arith_result fp op" and fp = fp]
  have hp: "h c = (if p then then_pop ?h c else ?h c)" using assms(3) by simp
  show ?thesis
  proof (cases "arith_operands A_st c")
    case False
    then show ?thesis using h hp by (simp add: then_pop_def)
  next
    case True
    have d: "?d < 8" by (simp add: st_place_def)
    have z: "p \<longrightarrow> ?k = 0" using assms(2) st_place_st [of c 1 0 fp] by simp
    have f: "arith_outcome fp op p ?d a b c (h c)" if "st_view (state c) ! ?d = Some a" "st_view (state c) ! ?k = Some b" for a b
      using that True h hp finish_outcome [OF assms(1) d, of fp op a b] then_pop_outcome [of fp op ?d a b c ?h] z by auto
    have u: "arith_underflow p c (h c)" if "st_view (state c) ! ?d = None \<or> st_view (state c) ! ?k = None"
      using that True h hp underflow_outcome [OF assms(1), of ?h] by (auto split: option.splits)
    show ?thesis using f u True by (auto split: option.split)
  qed
qed

text \<open>C31: x87 arithmetic (44 instructions: FADD, FSUB, FMUL, FDIV with their reversed, popping and integer forms, FPREM, FPREM1). The destination
  register receives the SoftFloat result of the operation on it and the second operand (register, or memory converted), a division
  by zero gives a signed infinity or NaN; the exceptions are accumulated in the status word. When one of them is unmasked the
  machine stops with that exception and no register changes. A fault on the memory operand is reported and changes no register. An empty operand is a stack
  underflow, recorded in the status word; it stops the machine when it is unmasked, and otherwise no other register changes but that the
  popping forms still pop a filled ST(0). The register forms (for the popping ones, whose second operand is ST(0) by
  their encoding) need stack registers as operands 0 and 1 and otherwise give a page fault that changes nothing; this is
  the only case of FPREM and FPREM1 as decoded, because these instructions have no explicit operands.\<close>

theorem x87_arith_semantics:
  assumes "(h, src, op, p) \<in> set arith_catalog" "fpu_inv (state c)" "p \<longrightarrow> op_register (instr c) 1 = ST 0"
  shows "if \<not> arith_operands src c then h fp c = (memory_fault c (memory_address c), c)
    else case arith_operand fp src c of
        (None, c1) \<Rightarrow> h fp c = (memory_fault c1 (memory_address c1), c1) \<and> state c1 = state c
      | (Some y, c1) \<Rightarrow> state c1 = state c \<and>
          (case (st_view (state c) ! arith_dst fp src c, y) of
             (Some a, Some b) \<Rightarrow> arith_outcome fp op p (arith_dst fp src c) a b c1 (h fp c)
           | _ \<Rightarrow> arith_underflow p c1 (h fp c))"
proof -
  obtain r c1 where r: "arith_operand fp src c = (r, c1)" by fastforce
  have i: "h fp = (if p then then_pop else id) (arith_handler fp src (arith_result fp op))"
    "src \<in> {A_fp 4, A_fp 8, A_int 2, A_int 4} \<or> src = A_st" "p \<longrightarrow> src = A_st"
    using arith_catalog_instances [of fp] assms(1) by (auto simp: list_all_iff)
  from i(2) show ?thesis
  proof
    assume m: "src \<in> {A_fp 4, A_fp 8, A_int 2, A_int 4}"
    then have p: "\<not> p" "arith_dst fp src c = 0" "arith_operands src c" using i(3) by (auto simp: arith_operands_def)
    note mh = arith_mem_handler(1) [OF assms(2) m r] arith_mem_handler(2,3) [OF assms(2) m r, where fn = "arith_result fp op"]
    show ?thesis
    proof (cases r)
      case None
      then show ?thesis using mh(1,2) i(1) p r by simp
    next
      case (Some b)
      then obtain y where y: "b = Some y" "h fp c = (if st_view (state c) ! 0 = None then x87_stack_underflow c1
          else x87_finish_binary fp 0 (the (st_view (state c) ! 0)) y (arith_result fp op (the (st_view (state c) ! 0)) y) c1)"
        using mh(3) i(1) p(1) by auto
      show ?thesis
        using y Some r mh(1) p assms(2) finish_outcome [of c1 0 fp op] underflow_outcome(1) [of c1 x87_stack_underflow]
        by (auto split: option.split)
    qed
  next
    assume st: "src = A_st"
    have "h fp = (if p then then_pop else id) (arith_handler fp A_st (arith_result fp op))" using i(1) st by simp
    from arith_register_form [OF assms(2,3) this] show ?thesis
      unfolding st arith_operand.simps arith_dst.simps prod.case option.case by simp
  qed
qed

end
