(* ===== verification/X87_Witness.thy ===== *)
theory X87_Witness
  imports X87_Decimal X87_Arith Alu_Memory Memory_Witness
begin

text \<open>
  Concrete instances of the x87 properties, with an environment that computes on integers.
\<close>

section \<open>Concrete instances\<close>

text \<open>ST(0) holds 3 and ST(1) holds 2; the memory operand is at \<^verbatim>\<open>0x1000\<close>.\<close>

definition demo_fpu :: cpu_state where
  "demo_fpu = initial_cpu_state\<lparr>x87_stack := [demo_of 3, demo_of 2] @ replicate 6 f80_zero, x87_tags := [0, 0] @ replicate 6 3\<rparr>"

definition demo_st :: "unit ctx" where
  "demo_st = (demo_ctx (null_instruction\<lparr>op_register := (\<lambda>k. if k = 0 then ST 0 else ST 1), memory_displacement64 := 0x1000\<rparr>))\<lparr>state := demo_fpu\<rparr>"

lemma demo_fpu_facts:
  "fpu_inv demo_fpu" "st_view demo_fpu = [Some (demo_of 3), Some (demo_of 2)] @ replicate 6 None" "wf_cpu demo_fpu"
  "state demo_st = demo_fpu" "reg_operand k demo_st" "memory_address demo_st = 0x1000" "plain (mem demo_st)"
  "op_register (instr demo_st) 0 = ST 0" "op_register (instr demo_st) 1 = ST 1"
proof -
  show i: "fpu_inv demo_fpu" by (simp add: fpu_inv_def x87_synced_def demo_fpu_def initial_cpu_state_def)
  show "wf_cpu demo_fpu" using initial_wf by (simp add: wf_cpu_def demo_fpu_def)
  show "state demo_st = demo_fpu" "reg_operand k demo_st" "plain (mem demo_st)"
    "op_register (instr demo_st) 0 = ST 0" "op_register (instr demo_st) 1 = ST 1"
    using demo_plain by (simp_all add: demo_st_def demo_ctx_def null_instruction_def)
  show "memory_address demo_st = 0x1000"
    by (simp add: demo_st_def demo_ctx_def null_instruction_def memory_address_def mask_linear_address_def mode_address_mask_def Let_def demo_fpu_def initial_cpu_state_def)
  have "x87_top demo_fpu = 0" by (simp add: demo_fpu_def initial_cpu_state_def)
  moreover have "(let p = (unat (0 :: u8) + i) mod 8 in if x87_tags demo_fpu ! p = 3 then None else Some (x87_stack demo_fpu ! p)) =
      ([Some (demo_of 3), Some (demo_of 2)] @ replicate 6 None) ! i" if "i < 8" for i
  proof -
    have "i = 0 \<or> i = 1 \<or> (2 \<le> i \<and> i < 8)" using that by arith
    then show ?thesis by (elim disjE) (auto simp: demo_fpu_def nth_append)
  qed
  ultimately show "st_view demo_fpu = [Some (demo_of 3), Some (demo_of 2)] @ replicate 6 None"
    using fpu_invD(3) [OF i] by (intro st_view_eqI) simp_all
qed

lemma demo_writable: "i < 4096 \<Longrightarrow> allowed_at (can data_write) (pages (mem demo_st)) (0x1000 + word_of_nat i)"
proof -
  assume "i < 4096"
  then have u: "unat (0x1000 + word_of_nat i :: u64) = 4096 + i" by (simp add: unat_word_ariths unat_of_nat)
  have "(4096 + i) div 4096 = 1" using \<open>i < 4096\<close> by simp
  then have "(0x1000 + word_of_nat i :: u64) div kPageSize = 1"
    unfolding word_unat_eq_iff unat_div u by (simp add: kPageSize_def)
  then show ?thesis
    by (auto simp: demo_st_def demo_ctx_def allowed_at_def demo_pages zero_page_def kMemoryPermissionAll_def perm_read_def perm_write_def perm_execute_def)
qed

lemma demo_places: "st_place fp 0 demo_st = 0" "st_place fp 1 demo_st = 1"
  using st_place_st [of demo_st 0 0 fp] st_place_st [of demo_st 1 1 fp] demo_fpu_facts(8,9) by simp_all

theorem x87_stack_refines_witness:
  "\<exists>s'. handle_code_FXCH_ST0_STI demo_fp demo_st = (no_stop, demo_st\<lparr>state := s'\<rparr>) \<and>
     st_view s' = [Some (demo_of 2), Some (demo_of 3)] @ replicate 6 None"
proof -
  have m: "(handle_code_FXCH_ST0_STI, st_operand 1, \<lambda>fp c. St_exchange (st_place fp 1 c)) \<in> set stack_catalog"
    by (simp add: stack_catalog_def)
  show ?thesis
    using x87_stack_refines [OF m, of demo_st demo_fp] demo_fpu_facts demo_places by auto
qed

lemma default_masks: "x87_exceptions_masked demo_fpu e"
proof -
  have "e AND NOT 0x037F AND 0x003F = (0 :: u16)" by simp
  then show ?thesis by (simp add: x87_exceptions_masked_def demo_fpu_def initial_cpu_state_def kX87ExceptionMask_def)
qed

theorem x87_arith_semantics_witness:
  "\<exists>s'. handle_code_FSUB_ST0_STI demo_fp demo_st = (no_stop, demo_st\<lparr>state := s'\<rparr>) \<and> st_view s' ! 0 = Some (demo_of 1)"
proof -
  have m: "(handle_code_FSUB_ST0_STI, A_st, F_sub, False) \<in> set arith_catalog" by (simp add: arith_catalog_def)
  have v: "extF80_sub demo_fp (demo_of 3) (demo_of 2) = demo_of 1" by (simp add: demo_fp_def demo_val_def demo_of_def f80_signbit_def)
  show ?thesis
    using x87_arith_semantics [OF m, of demo_st demo_fp] demo_fpu_facts default_masks v demo_places
    by (auto simp: arith_outcome_def arith_operands_def Let_def)
qed

theorem fxsave_fxrstor_roundtrip_witness:
  "\<exists>m. handle_code_FXSAVE_M512BYTE demo_st = (no_stop, demo_st\<lparr>mem := m\<rparr>) \<and>
    (\<exists>m' s'. handle_code_FXRSTOR_M512BYTE demo_fp (demo_st\<lparr>mem := m, state := initial_cpu_state\<rparr>) = (no_stop, demo_st\<lparr>mem := m', state := s'\<rparr>) \<and>
      st_view s' = [Some (demo_of 3), Some (demo_of 2)] @ replicate 6 None)"
proof -
  have a: "memory_address (demo_st\<lparr>mem := m, state := initial_cpu_state\<rparr>) = 0x1000" for m
    by (simp add: demo_st_def demo_ctx_def null_instruction_def memory_address_def mask_linear_address_def mode_address_mask_def Let_def initial_cpu_state_def)
  obtain m where m: "handle_code_FXSAVE_M512BYTE demo_st = (no_stop, demo_st\<lparr>mem := m\<rparr>)"
    "\<And>c'. mem c' = m \<Longrightarrow> memory_address c' = 0x1000 \<Longrightarrow> wf_cpu (state c') \<Longrightarrow>
      (\<exists>m'. handle_code_FXRSTOR_M512BYTE demo_fp c' = (no_stop, c'\<lparr>mem := m', state := fx_restored demo_fp demo_fpu (state c')\<rparr>)) \<and>
      st_view (fx_restored demo_fp demo_fpu (state c')) = st_view demo_fpu"
    using fxsave_fxrstor_roundtrip [of demo_st "0x1000"] demo_fpu_facts demo_writable by auto
  show ?thesis
    using m(1) m(2) [of "demo_st\<lparr>mem := m, state := initial_cpu_state\<rparr>"] a initial_wf demo_fpu_facts(2) by auto
qed

theorem bcd_roundtrip_witness:
  "\<exists>m s1. handle_code_FBSTP_M80BCD demo_fp demo_st = (no_stop, demo_st\<lparr>mem := m, state := s1\<rparr>) \<and>
    byte_at (can data_read) (pages m) 0x1000 = Some 3 \<and> byte_at (can data_read) (pages m) 0x1009 = Some 0 \<and>
    (\<exists>m' s2. handle_code_FBLD_M80BCD demo_fp (demo_st\<lparr>mem := m\<rparr>) = (no_stop, demo_st\<lparr>mem := m', state := s2\<rparr>) \<and> st_view s2 ! 0 = Some (demo_of 3))"
proof -
  have v: "\<not> extF80_lt demo_fp (demo_of 3) (i32_to_extF80 demo_fp 0)" "extF80_to_ui64 demo_fp (demo_of 3) softfloat_round_minMag = 3"
    "ui64_to_extF80 demo_fp 3 = demo_of 3"
    by (simp_all add: demo_fp_def demo_val_def demo_of_def f80_signbit_def f80_zero_def)
  have pre: "fpu_inv (state demo_st)" "st_view (state demo_st) ! 0 = Some (demo_of 3)"
    "demo_of 3 = (if extF80_lt demo_fp (demo_of 3) (i32_to_extF80 demo_fp 0) then f80_neg (demo_of 3) else demo_of 3)"
    "3 = extF80_to_ui64 demo_fp (demo_of 3) softfloat_round_minMag" "ui64_to_extF80 demo_fp 3 = demo_of 3" "(3 :: u64) < 10 ^ 18"
    using demo_fpu_facts v by simp_all
  have wr: "\<forall>i<10. allowed_at (can data_write) (pages (mem demo_st)) (0x1000 + word_of_nat i)" using demo_writable by simp
  obtain m s1 where m: "handle_code_FBSTP_M80BCD demo_fp demo_st = (no_stop, demo_st\<lparr>mem := m, state := s1\<rparr>)"
    "\<forall>i<9. byte_at (can data_read) (pages m) (0x1000 + word_of_nat i) =
       Some (word_of_nat (16 * (unat (3 :: u64) div 10 ^ (2 * i + 1) mod 10) + unat (3 :: u64) div 10 ^ (2 * i) mod 10))"
    "byte_at (can data_read) (pages m) (0x1000 + 9) = Some 0"
    "\<And>c'. mem c' = m \<Longrightarrow> memory_address c' = 0x1000 \<Longrightarrow> fpu_inv (state c') \<Longrightarrow> last (st_view (state c')) = None \<Longrightarrow>
      \<exists>m' s2. handle_code_FBLD_M80BCD demo_fp c' = (no_stop, c'\<lparr>mem := m', state := s2\<rparr>) \<and> st_view s2 = Some (demo_of 3) # butlast (st_view (state c'))"
    using bcd_roundtrip [OF demo_fpu_facts(7,6) wr pre] unfolding if_not_P [OF v(1)] by blast
  have "memory_address (demo_st\<lparr>mem := m\<rparr>) = 0x1000" using demo_fpu_facts(6) by (simp add: memory_address_def)
  then show ?thesis
    using m(1,3) spec [OF m(2), of 0] m(4) [of "demo_st\<lparr>mem := m\<rparr>"] demo_fpu_facts by fastforce
qed

end
