(* ===== verification/Spec2Isabelle.thy ===== *)
theory Spec2Isabelle
  imports Memory_Witness Branch_Facts Multiply_Facts Shift_Facts String_Facts Call_Witness Bmi_Facts System_Facts Run_Facts
    Machine_Invariant Shuffle_Facts Snapshot X87_Witness
begin

text \<open>
  A verification library for \<^verbatim>\<open>seven\<close>, an x86 emulator (\<^verbatim>\<open>src/seven_core\<close>).

  \<^bold>\<open>The program.\<close> A guest is a \<^verbatim>\<open>CpuState\<close> and a \<^verbatim>\<open>Memory\<close>. The executor fetches and decodes an
  instruction (the decoder is the external library \<^verbatim>\<open>iced_x86\<close>), builds an \<^verbatim>\<open>ExecutionContext\<close> and calls the handler of the
  instruction's code; handlers reach registers, flags, operands and memory through the functions of \<^verbatim>\<open>handler_helpers\<close>.

  \<^bold>\<open>Theories and the code they model.\<close>
  \<^item> \<open>Prelude\<close>: word types, little-endian byte lists, shared lemma collections.
  \<^item> \<open>Cpu_Types\<close> (\<^verbatim>\<open>types.hpp\<close>): modes, results, the CPU state as a record, masks, parity, sign extension, x87 stack and MMX accessors.
  \<^item> \<open>Memory_Model\<close> (\<^verbatim>\<open>memory.hpp\<close>, \<^verbatim>\<open>memory.cpp\<close>): the page table as a map from page index to contents and
    permissions, the lookup cache as a function from slot to entry (a pointer to a page is the index of the page), access hooks,
    MMIO regions, passthrough. Callbacks are functions on an arbitrary world type; a hook also returns the
    registrations it makes while it runs. Page walks are recursive functions with termination proofs.
  \<^item> \<open>Memory_Facts\<close>, \<open>Memory_Access\<close>: the byte-level specification (\<open>read_bytes\<close>, \<open>pokes\<close>) and the refinement
    of reads and writes to it on a memory without hooks, MMIO and passthrough (\<open>plain\<close>); map, unmap, permissions, snapshots.
  \<^item> \<open>Memory_Invariant\<close>: the invariant of the whole component over every public operation, by rule induction
    over the reachable memories; deferral of hook registrations. \<open>Memory_Witness\<close>: concrete instances.
  \<^item> \<open>Operands\<close> (\<^verbatim>\<open>handler_helpers.cpp\<close>, \<^verbatim>\<open>handler_helpers.hpp\<close>): decoded instructions as a record of the accessors the code
    calls, the execution context, registers, operands, flags, checked accesses, watchpoints, interrupt dispatch.
  \<^item> \<open>Flag_Facts\<close>, \<open>Register_Facts\<close>: flags against integer arithmetic, register aliasing.
  \<^item> \<open>Context_Memory\<close>: the interface \<open>value_store\<close> of loads and stores and its interpretation on the context.
  \<^item> \<open>Alu\<close>, \<open>Alu_Facts\<close>, \<open>Alu_Memory\<close> (\<^verbatim>\<open>handlers/data/{add,sub,adc,sbb,and,or,xor,cmp,test}.cpp\<close>): the handlers, the interface
    \<open>binary_operation\<close> with one interpretation per operation, register and memory forms of all of them.
  \<^item> \<open>Multiply\<close>, \<open>Multiply_Facts\<close> (\<^verbatim>\<open>handlers/data/unary.cpp\<close>, \<^verbatim>\<open>handlers/{mul,imul,div,idiv}.cpp\<close>): products and quotients against integer
    arithmetic, the divide error.
  \<^item> \<open>Shift\<close>, \<open>Shift_Facts\<close> (\<^verbatim>\<open>handlers/data/shift.cpp\<close>): shifts against multiplication and division, rotates against cyclic permutations of bits.
  \<^item> \<open>String_Ops\<close>, \<open>String_Facts\<close> (\<^verbatim>\<open>handlers/data/{string_ops,movs}.cpp\<close>): the interface \<open>string_loop\<close> with one interpretation per loop;
    repeated instructions as iterated single ones whose faults can be restarted, REP MOVS as a copy of memory.
  \<^item> \<open>Control_Flow\<close> (\<^verbatim>\<open>handlers/control_flow/\<close>), \<open>Branch_Facts\<close>, \<open>Stack_Facts\<close>, \<open>Call_Facts\<close>, \<open>Call_Witness\<close>: conditions after
    comparisons, the interface \<open>stack_frames\<close> with its interpretation, call/return and interrupt/IRET round trips.
  \<^item> \<open>Bit_Ops\<close>, \<open>Bit_Facts\<close>, \<open>Bmi_Facts\<close> (\<^verbatim>\<open>handlers/{bt,bts,btr,btc,bsf,bsr,bswap,bit_count,bmi}.cpp\<close>): bit strings in memory, scans and
    counts against the set of bits, BMI results bit by bit.
  \<^item> \<open>Data_Move\<close>, \<open>Data_Facts\<close> (\<^verbatim>\<open>handlers/data/{mov_base,movzx,movsx,movsxd,movbe,movdir,xchg}.cpp\<close>,
    \<^verbatim>\<open>handlers/{xadd,cmpxchg,cmpxchg486}.cpp\<close>): moves, exchanges, compare-exchange with the memory left by its faults, byte swaps.
  \<^item> \<open>Legacy_Ops\<close>, \<open>System_Ops\<close>, \<open>System_Facts\<close> (\<^verbatim>\<open>system_state.hpp\<close>, \<^verbatim>\<open>handlers/misc/system.cpp\<close> and the one-instruction files of
    \<^verbatim>\<open>handlers/\<close>): decimal adjustment, frames, system registers, system calls, the interface \<open>msr_list\<close> of the two MSR list loops,
    which perform the selected entries in order up to the one that faults.
  \<^item> \<open>Simd_Int\<close>, \<open>Simd_Lanes\<close>, \<open>Simd_Facts\<close> (\<^verbatim>\<open>handlers/arithmetic/simd_int.cpp\<close>): vectors are 512-bit words, a lane is a slice of one. The
    handlers, the lemmas on reading and writing lanes, and each lane of a result as the integer operation on the source lanes, with
    write masks. PCMPxSTRx is modelled. \<open>Simd_Shuffle\<close>, \<open>Shuffle_Facts\<close> (\<^verbatim>\<open>handlers/arithmetic/{simd_shuffle,simd_pack}.cpp\<close>): rearrangements
    as selections inside 128-bit blocks. \<open>Simd_Mov\<close> (\<^verbatim>\<open>handlers/simd_mov.cpp\<close>): vector moves. \<open>Simd_Dispatch\<close>: their dispatch tables
    and the machine invariant.
  \<^item> \<open>X87_Model\<close> (\<^verbatim>\<open>float80.hpp\<close>, \<^verbatim>\<open>x87_encoding.hpp\<close>, \<^verbatim>\<open>x87_helpers.hpp\<close>), \<open>X87_Ops\<close>
    (\<^verbatim>\<open>handlers/{mmx_x87,x87_arithmetic,x87_compare,x87_special}.cpp\<close>): 80-bit numbers as records of their fields, the helpers and handlers.
    SoftFloat, the mathematical functions of the host and the distance of a register's number from \<^verbatim>\<open>ST0\<close> in the decoder library are
    the parameter \<open>fp_env\<close>, about which no theorem assumes anything but the decimal round trip, which states that the stored value is an
    integer. \<open>X87_Stack\<close>, \<open>X87_Stack_Ops\<close>: the registers from ST(0) on and
    the refinement of an abstract stack. \<open>X87_Arith\<close>: arithmetic against a reference with its exceptions. \<open>Saved_Area\<close>, \<open>X87_State\<close>:
    areas of memory and the FXSAVE image. \<open>X87_Decimal\<close>: FBSTP and FBLD. \<open>X87_Dispatch\<close>: the dispatch table and the machine invariant.
    \<open>X87_Witness\<close>: concrete instances.
  \<^item> \<open>Snapshot\<close> (\<^verbatim>\<open>snapshot.hpp\<close>, \<^verbatim>\<open>snapshot.cpp\<close>, \<^verbatim>\<open>compat.hpp\<close>): capture and restore of registers, pages and MMIO regions.
  \<^item> \<open>Executor_Model\<close>, \<open>Executor_Step\<close> (\<^verbatim>\<open>executor.cpp\<close>, \<^verbatim>\<open>hooks.hpp\<close>): the executor as a record, hook registration and dispatch, the two caches,
    \<^verbatim>\<open>step\<close> and \<^verbatim>\<open>run\<close>. The decoder, the instruction information and the dispatch table are parameters (\<open>config\<close>); the retry loop
    has the bound of the source, so no fuel is needed.
  \<^item> \<open>Executor_Hooks\<close>: registrations made during a dispatch take effect as if made after it; the invariant of the registry for
    every reachable executor. \<open>Executor_Cache\<close>: the interface \<open>epoch_cache\<close>, interpreted for both caches; fetching refines
    decoding the bytes in memory. \<open>Executor_Facts\<close>: one step is one application of the handler, faults, runs, stop requests,
    retries. \<open>Executor_Witness\<close>: concrete instances.
  \<^item> \<open>Handler_Invariant\<close>: the machine invariant (array bounds of the register file, invariant of the memory) and that every statement
    the handlers are made of keeps it. \<open>Dispatch\<close> (\<^verbatim>\<open>handled_codes.def\<close>): the table of the 1613 modelled handlers.
    \<open>Machine_Invariant\<close>: the interface \<open>typed_handlers\<close>, in which \<^verbatim>\<open>step\<close> and \<^verbatim>\<open>run\<close> keep the invariant, and its interpretation on
    the table. \<open>Run_Facts\<close>: a counted guest loop run to its end.

  \<^bold>\<open>Bounds.\<close> Loops of the source that run over a fixed number of bits, bytes or a counter are recursions on that number, so all
  definitions are total; the retry loop of \<^verbatim>\<open>step\<close> has the bound of the source.

  \<^bold>\<open>Not modelled.\<close> The decoder (external library), the floating-point SIMD instructions (\<^verbatim>\<open>simd_fp.cpp\<close>: arithmetic of the host's
  \<^verbatim>\<open>float\<close> and \<^verbatim>\<open>double\<close>), the vendored wide-integer library (its integers are words here), the backend adapter (it adapts the emulator
  to the interfaces of another project), tracing, examples and tests.
\<close>

end
